(* ===== verification/Prelude.thy ===== *)
theory Prelude
  imports Main "HOL-Library.Char_ord" "HOL-Library.List_Lexorder" "HOL-Library.Product_Lexorder"
    "HOL-Library.Multiset"
begin

text \<open>
  Shared vocabulary of the development: results of Go calls that may panic, the first-match
  search and in-place update that the Go code performs on slices keyed by a field, the stable
  sort of the Go package \<^verbatim>\<open>slices\<close> with the interface its callers rely on, and
  association-list lemmas for Go maps.

  Go strings are byte strings: \<^typ>\<open>string\<close> with the lexicographic order on bytes, which is
  what \<^verbatim>\<open>strings.Compare\<close> and \<^verbatim>\<open>cmp.Compare\<close> decide.
\<close>

section \<open>Automation collections and type names\<close>

named_theorems store_simps \<open>read-over-write equations of keyed slices\<close>
named_theorems go_defs \<open>small Go accessors that proofs unfold\<close>

type_synonym gotime = int
  \<comment> \<open>a \<^verbatim>\<open>metav1.Time\<close>; 0 is the zero time that \<^verbatim>\<open>IsZero\<close> recognises\<close>
type_synonym duration = int
  \<comment> \<open>a \<^verbatim>\<open>time.Duration\<close> in nanoseconds\<close>

section \<open>Calls that may panic\<close>

text \<open>A call on a nil interface or a write to a nil map panics; everything else returns.\<close>

datatype 'a run = Panic | Done 'a

fun bind_run :: "'a run \<Rightarrow> ('a \<Rightarrow> 'b run) \<Rightarrow> 'b run" where
  "bind_run Panic f = Panic"
| "bind_run (Done x) f = f x"

lemma bind_run_eq_Done [simp]:
  "bind_run r f = Done y \<longleftrightarrow> (\<exists>x. r = Done x \<and> f x = Done y)"
  by (cases r) auto

section \<open>Slices keyed by a field\<close>

text \<open>
  Many Go types of the program are slices with a key field, searched for the first match. These
  generic operations are what the Go loops over such slices do; \<open>k\<close> reads the key.
\<close>

fun find_first :: "('a \<Rightarrow> 'k) \<Rightarrow> 'k \<Rightarrow> 'a list \<Rightarrow> 'a option" where
  "find_first k x [] = None"
| "find_first k x (y # ys) = (if k y = x then Some y else find_first k x ys)"

fun upsert_first :: "('a \<Rightarrow> 'k) \<Rightarrow> 'a \<Rightarrow> 'a list \<Rightarrow> 'a list" where
  "upsert_first k v [] = [v]"
| "upsert_first k v (y # ys) = (if k y = k v then v # ys else y # upsert_first k v ys)"

definition delete_key :: "('a \<Rightarrow> 'k) \<Rightarrow> 'k \<Rightarrow> 'a list \<Rightarrow> 'a list" where
  "delete_key k x = filter (\<lambda>y. k y \<noteq> x)"

lemma find_first_Some_key: "find_first k x ys = Some y \<Longrightarrow> k y = x"
  by (induction ys) (auto split: if_splits)

lemma find_first_Some_mem: "find_first k x ys = Some y \<Longrightarrow> y \<in> set ys"
  by (induction ys) (auto split: if_splits)

lemma find_first_None_iff: "find_first k x ys = None \<longleftrightarrow> x \<notin> k ` set ys"
  by (induction ys) auto

lemma find_first_mem:
  "distinct (map k ys) \<Longrightarrow> y \<in> set ys \<Longrightarrow> find_first k (k y) ys = Some y"
  by (induction ys) (auto simp: image_iff)

lemma find_first_upsert [store_simps]:
  "find_first k x (upsert_first k v ys) = (if x = k v then Some v else find_first k x ys)"
  by (induction ys) auto

lemma find_first_delete [store_simps]:
  "find_first k x (delete_key k y ys) = (if x = y then None else find_first k x ys)"
  by (induction ys) (auto simp: delete_key_def)

lemma keys_upsert [store_simps]: "k ` set (upsert_first k v ys) = insert (k v) (k ` set ys)"
  by (induction ys) auto

lemma set_upsert_distinct:
  "distinct (map k ys) \<Longrightarrow> set (upsert_first k v ys) = insert v {y \<in> set ys. k y \<noteq> k v}"
proof (induction ys)
  case (Cons y ys)
  then show ?case by (cases "k y = k v") (auto simp: image_iff)
qed simp

lemma distinct_upsert:
  "distinct (map k ys) \<Longrightarrow> distinct (map k (upsert_first k v ys))"
proof (induction ys)
  case (Cons y ys)
  then show ?case using keys_upsert [of k v ys] by (auto simp: image_iff)
qed simp

lemma distinct_delete_key: "distinct (map k ys) \<Longrightarrow> distinct (map k (delete_key k x ys))"
  by (simp add: delete_key_def distinct_map_filter)

lemma set_delete_key [store_simps]: "set (delete_key k x ys) = {y \<in> set ys. k y \<noteq> x}"
  by (auto simp: delete_key_def)

lemma map_key_upsert_present:
  "k v \<in> k ` set ys \<Longrightarrow> map k (upsert_first k v ys) = map k ys"
  by (induction ys) auto

lemma upsert_absent: "k v \<notin> k ` set ys \<Longrightarrow> upsert_first k v ys = ys @ [v]"
  by (induction ys) auto

text \<open>\<^verbatim>\<open>slices.IndexFunc\<close>: the first index whose element satisfies the predicate (\<open>None\<close> for -1).\<close>

fun index_func :: "('a \<Rightarrow> bool) \<Rightarrow> 'a list \<Rightarrow> nat option" where
  "index_func P [] = None"
| "index_func P (y # ys) = (if P y then Some 0 else map_option Suc (index_func P ys))"

lemma index_func_key:
  "index_func (\<lambda>y. k y = x) ys = None \<longleftrightarrow> find_first k x ys = None"
  by (induction ys) auto

lemma index_func_Some:
  "index_func (\<lambda>y. k y = x) ys = Some i \<Longrightarrow>
    i < length ys \<and> find_first k x ys = Some (ys ! i) \<and> (\<forall>v. k v = x \<longrightarrow> ys[i := v] = upsert_first k v ys)"
  by (induction ys arbitrary: i) (auto split: if_splits)

lemma index_func_delete:
  "index_func (\<lambda>y. k y = x) ys = Some i \<Longrightarrow> distinct (map k ys) \<Longrightarrow>
    take i ys @ drop (Suc i) ys = delete_key k x ys"
proof (induction ys arbitrary: i)
  case (Cons y ys)
  show ?case
  proof (cases "k y = x")
    case True
    with Cons.prems have "\<forall>z\<in>set ys. k z \<noteq> x" by (auto simp: image_iff)
    with True Cons.prems show ?thesis by (simp add: delete_key_def)
  next
    case False
    with Cons show ?thesis by (auto simp: delete_key_def)
  qed
qed simp

lemma filter_upsert:
  "(\<And>y. k y = k v \<Longrightarrow> \<not> P y) \<Longrightarrow> filter P (upsert_first k v ys) = filter P ys"
  by (induction ys) auto

lemma find_SomeD: "find P xs = Some x \<Longrightarrow> P x \<and> x \<in> set xs"
  by (induction xs) (auto split: if_splits)

section \<open>The stable sort of the Go library\<close>

text \<open>
  \<^verbatim>\<open>slices.SortStableFunc(xs, cmp)\<close> orders \<open>xs\<close> by the three-way comparison \<open>cmp\<close>
  and keeps equal elements in their order. Insertion sort is that function.
  \<^verbatim>\<open>slices.SortFunc\<close> is the same function where no two elements compare equal.
\<close>

fun insert_by :: "('a \<Rightarrow> 'a \<Rightarrow> int) \<Rightarrow> 'a \<Rightarrow> 'a list \<Rightarrow> 'a list" where
  "insert_by c x [] = [x]"
| "insert_by c x (y # ys) = (if c x y \<le> 0 then x # y # ys else y # insert_by c x ys)"

definition sort_stable_func :: "('a \<Rightarrow> 'a \<Rightarrow> int) \<Rightarrow> 'a list \<Rightarrow> 'a list" where
  "sort_stable_func c xs = foldr (insert_by c) xs []"

lemma insert_by_key:
  "(\<And>y. y \<in> set ys \<Longrightarrow> c x y \<le> 0 \<longleftrightarrow> key x \<le> key y) \<Longrightarrow> insert_by c x ys = insort_key key x ys"
  by (induction ys) auto

lemma sort_stable_func_key:
  "(\<And>x y. x \<in> set xs \<Longrightarrow> y \<in> set xs \<Longrightarrow> c x y \<le> 0 \<longleftrightarrow> key x \<le> key y) \<Longrightarrow>
    sort_stable_func c xs = sort_key key xs"
proof (induction xs)
  case (Cons a xs)
  then show ?case
    using insert_by_key [of "sort_key key xs" c a key] by (simp add: sort_stable_func_def)
qed (simp add: sort_stable_func_def)

text \<open>\<^verbatim>\<open>cmp.Compare\<close> and \<^verbatim>\<open>strings.Compare\<close>.\<close>

definition cmp_compare :: "'a::linorder \<Rightarrow> 'a \<Rightarrow> int" where
  "cmp_compare x y = (if x < y then -1 else if y < x then 1 else 0)"

lemma cmp_compare_le [simp]: "cmp_compare x y \<le> 0 \<longleftrightarrow> x \<le> y"
  by (auto simp: cmp_compare_def)

lemma cmp_compare_eq0 [simp]: "cmp_compare x y = 0 \<longleftrightarrow> x = y"
  by (auto simp: cmp_compare_def)

text \<open>
  What a caller of the sort relies on: its comparison function is the order of some key. The
  results of the sort are then those of the library's \<^const>\<open>sort_key\<close>.
\<close>

locale key_comparison =
  fixes cmp :: "'a \<Rightarrow> 'a \<Rightarrow> int"
    and key :: "'a \<Rightarrow> 'k::linorder"
  assumes cmp_le: "cmp x y \<le> 0 \<longleftrightarrow> key x \<le> key y"
begin

lemma sort_eq: "sort_stable_func cmp xs = sort_key key xs"
  by (rule sort_stable_func_key) (rule cmp_le)

lemma sorted_result: "sorted (map key (sort_stable_func cmp xs))"
  by (simp add: sort_eq)

lemma set_result [simp]: "set (sort_stable_func cmp xs) = set xs"
  by (simp add: sort_eq)

lemma mset_result [simp]: "mset (sort_stable_func cmp xs) = mset xs"
  by (simp add: sort_eq)

lemma length_result [simp]: "length (sort_stable_func cmp xs) = length xs"
  by (simp add: sort_eq)

lemma idempotent: "sort_stable_func cmp (sort_stable_func cmp xs) = sort_stable_func cmp xs"
  by (simp add: sort_eq sort_key_id_if_sorted)

text \<open>Stability: the elements of one key keep their order.\<close>

lemma stable: "filter (\<lambda>y. key y = k) (sort_stable_func cmp xs) = filter (\<lambda>y. key y = k) xs"
  by (simp add: sort_eq sort_key_stable)

text \<open>With distinct keys the result does not depend on the order of the input.\<close>

lemma order_irrelevant:
  assumes "mset xs = mset ys" and "distinct (map key xs)"
  shows "sort_stable_func cmp xs = sort_stable_func cmp ys"
  unfolding sort_eq
  by (rule sort_key_inj_key_eq) (use assms in \<open>auto simp: distinct_map\<close>)

end

section \<open>Association lists as Go maps\<close>

text \<open>
  A Go map whose iteration order matters to the model is an association list with distinct
  keys, in an arbitrary iteration order; \<^const>\<open>map_of\<close> is its lookup. A Go map that is only
  read by key is a \<open>'k \<rightharpoonup> 'v\<close>.
\<close>

lemma map_of_distinct_mem:
  "distinct (map fst al) \<Longrightarrow> (k, v) \<in> set al \<longleftrightarrow> map_of al k = Some v"
  by (auto simp: map_of_eq_Some_iff)

lemma map_of_snoc_new:
  "map_of (al @ [(k, v)]) x = (case map_of al x of Some w \<Rightarrow> Some w | None \<Rightarrow> (if x = k then Some v else None))"
  by (auto simp: map_add_def split: option.splits)

text \<open>A nil map has no entries; \<^verbatim>\<open>m[k] = v\<close> and \<^verbatim>\<open>maps.Copy\<close> on maps of strings.\<close>

definition pairs :: "(string \<times> 'v) list option \<Rightarrow> (string \<times> 'v) list" where
  "pairs m = (case m of None \<Rightarrow> [] | Some l \<Rightarrow> l)"

definition put_pair :: "string \<Rightarrow> 'v \<Rightarrow> (string \<times> 'v) list \<Rightarrow> (string \<times> 'v) list" where
  "put_pair k v l = (k, v) # filter (\<lambda>p. fst p \<noteq> k) l"

definition copy_pairs :: "(string \<times> 'v) list \<Rightarrow> (string \<times> 'v) list \<Rightarrow> (string \<times> 'v) list" where
  "copy_pairs src dst = foldr (\<lambda>(k, v). put_pair k v) src dst"

lemma pairs_simps [simp]: "pairs None = []" "pairs (Some l) = l"
  by (simp_all add: pairs_def)

lemma map_of_put_pair [simp]: "map_of (put_pair k v l) = (map_of l)(k \<mapsto> v)"
proof -
  have "x \<noteq> k \<Longrightarrow> map_of (filter (\<lambda>p. fst p \<noteq> k) l) x = map_of l x" for x
    by (induction l) auto
  then show ?thesis by (auto simp: put_pair_def)
qed

lemma put_pair_not_Nil [simp]: "put_pair k v l \<noteq> []"
  by (simp add: put_pair_def)

lemma copy_pairs_simps [simp]: "copy_pairs [] dst = dst" "copy_pairs ((k, v) # src) dst = put_pair k v (copy_pairs src dst)"
  by (simp_all add: copy_pairs_def)

lemma map_of_copy_pairs [simp]: "map_of (copy_pairs src dst) = map_of dst ++ map_of src"
proof (induction src)
  case (Cons p src)
  then show ?case by (cases p) (simp add: fun_eq_iff map_add_def)
qed simp

lemma distinct_put_pair: "distinct (map fst l) \<Longrightarrow> distinct (map fst (put_pair k v l))"
  by (auto simp: put_pair_def intro: distinct_map_filter)

lemma distinct_copy_pairs: "distinct (map fst dst) \<Longrightarrow> distinct (map fst (copy_pairs src dst))"
proof (induction src)
  case (Cons p src)
  then show ?case by (cases p) (simp add: distinct_put_pair)
qed simp

text \<open>A name that is longer than all names together is new.\<close>

lemma fresh_name [simp]: "c \<noteq> [] \<Longrightarrow> concat names @ c \<notin> set names"
proof
  assume c: "c \<noteq> []" and "concat names @ c \<in> set names"
  moreover have "x \<in> set names \<Longrightarrow> length x \<le> length (concat names)" for x
    by (induction names) auto
  ultimately have "length (concat names @ c) \<le> length (concat names)"
    by blast
  with c show False
    by simp
qed

end
