(* ===== verification/Condition_Store.thy ===== *)
theory Condition_Store
  imports Prelude
begin

text \<open>
  The status conditions of a platform object and the two condition stores of the repository:
  \<^verbatim>\<open>framework/controller/conditions/conditions_support.go\<close> and
  \<^verbatim>\<open>pkg/controller/conditions/conditions_support.go\<close>. Both are read-modify-write operations on
  the slice that the object's \<^verbatim>\<open>GetConditions\<close>/\<^verbatim>\<open>SetConditions\<close> accessor holds;
  \<^verbatim>\<open>SetConditions\<close> stores a copy, so the slice behaves as a value. The store contract is the
  locale \<open>condition_store\<close>, interpreted on both.
\<close>

section \<open>Data\<close>

record condition =
  cType :: string
  cStatus :: string
  cObservedGeneration :: int
  cLastTransitionTime :: gotime
  cReason :: string
  cMessage :: string
  cSeverity :: string
  cLastHeartbeatTime :: "gotime option"

definition ConditionTrue :: string where "ConditionTrue = ''True''"
definition ConditionFalse :: string where "ConditionFalse = ''False''"
definition ConditionUnknown :: string where "ConditionUnknown = ''Unknown''"

lemmas status_defs = ConditionTrue_def ConditionFalse_def ConditionUnknown_def

lemma status_neq [simp]:
  "ConditionTrue \<noteq> ConditionFalse" "ConditionTrue \<noteq> ConditionUnknown"
  "ConditionFalse \<noteq> ConditionTrue" "ConditionFalse \<noteq> ConditionUnknown"
  "ConditionUnknown \<noteq> ConditionTrue" "ConditionUnknown \<noteq> ConditionFalse"
  by (simp_all add: status_defs)

definition ConditionSeverityError :: string where "ConditionSeverityError = ''''"
definition ConditionSeverityInfo :: string where "ConditionSeverityInfo = ''Info''"
definition ConditionReasonError :: string where "ConditionReasonError = ''Error''"

lemma severity_neq [simp]: "ConditionSeverityError \<noteq> ConditionSeverityInfo"
  by (simp add: ConditionSeverityError_def ConditionSeverityInfo_def)

text \<open>The composite literal with only \<^verbatim>\<open>Type\<close> and \<^verbatim>\<open>Status\<close> given: every other field is its zero value.\<close>

definition new_condition :: "string \<Rightarrow> string \<Rightarrow> condition" where
  "new_condition t s = \<lparr>cType = t, cStatus = s, cObservedGeneration = 0, cLastTransitionTime = 0,
     cReason = '''', cMessage = '''', cSeverity = ConditionSeverityError, cLastHeartbeatTime = None\<rparr>"

lemma new_condition_sel [simp]:
  "cType (new_condition t s) = t" "cStatus (new_condition t s) = s"
  "cSeverity (new_condition t s) = ConditionSeverityError"
  "cReason (new_condition t s) = ''''" "cMessage (new_condition t s) = ''''"
  "cObservedGeneration (new_condition t s) = 0" "cLastTransitionTime (new_condition t s) = 0"
  by (simp_all add: new_condition_def)

abbreviation IsZero :: "gotime \<Rightarrow> bool" where "IsZero t \<equiv> t = 0"

text \<open>The invariant of a condition slice: one condition per type.\<close>

definition unique_types :: "condition list \<Rightarrow> bool" where
  "unique_types cs \<longleftrightarrow> distinct (map cType cs)"

section \<open>The framework's store\<close>

definition equals :: "condition \<Rightarrow> condition \<Rightarrow> bool" where
  "equals c1 c2 \<longleftrightarrow> cStatus c1 = cStatus c2 \<and> cReason c1 = cReason c2 \<and> cMessage c1 = cMessage c2 \<and>
     cObservedGeneration c1 = cObservedGeneration c2 \<and> cSeverity c1 = cSeverity c2"

text \<open>\<open>now\<close> is the reading of \<^verbatim>\<open>time.Now()\<close> in this call.\<close>

definition SetStatusCondition :: "gotime \<Rightarrow> condition list \<Rightarrow> condition \<Rightarrow> condition list \<times> bool" where
  "SetStatusCondition now conds c =
     (let n1 = c\<lparr>cLastHeartbeatTime := None\<rparr>;
          new = (if IsZero (cLastTransitionTime n1) then n1\<lparr>cLastTransitionTime := now\<rparr> else n1)
      in case index_func (\<lambda>x. cType x = cType new) conds of
           None \<Rightarrow> (conds @ [new], True)
         | Some idx \<Rightarrow>
             if equals (conds ! idx) new then (conds, False)
             else let oldTransitionTime = cLastTransitionTime (conds ! idx);
                      updateTransitionTime = cStatus (conds ! idx) \<noteq> cStatus new;
                      u = new\<lparr>cLastHeartbeatTime := None\<rparr>;
                      v = (if updateTransitionTime
                           then (if IsZero (cLastTransitionTime new)
                                 then u\<lparr>cLastTransitionTime := now\<rparr>
                                 else u\<lparr>cLastTransitionTime := cLastTransitionTime new\<rparr>)
                           else u\<lparr>cLastTransitionTime := oldTransitionTime\<rparr>)
                  in (conds[idx := v], True))"

definition RemoveStatusCondition :: "condition list \<Rightarrow> string \<Rightarrow> condition list \<times> bool" where
  "RemoveStatusCondition conds t =
     (if length conds = 0 then (conds, False)
      else let conds' = filter (\<lambda>c. \<not> cType c = t) conds
           in if length conds \<noteq> length conds' then (conds', True) else (conds, False))"

fun FindStatusCondition :: "condition list \<Rightarrow> string \<Rightarrow> condition option" where
  "FindStatusCondition [] t = None"
| "FindStatusCondition (c # cs) t = (if cType c = t then Some c else FindStatusCondition cs t)"

definition IsStatusConditionPresentAndEqual :: "condition list \<Rightarrow> string \<Rightarrow> string \<Rightarrow> bool" where
  "IsStatusConditionPresentAndEqual cs t s \<longleftrightarrow> list_ex (\<lambda>c. cType c = t \<and> cStatus c = s) cs"

definition IsStatusConditionTrue :: "condition list \<Rightarrow> string \<Rightarrow> bool" where
  "IsStatusConditionTrue cs t = IsStatusConditionPresentAndEqual cs t ConditionTrue"

definition IsStatusConditionFalse :: "condition list \<Rightarrow> string \<Rightarrow> bool" where
  "IsStatusConditionFalse cs t = IsStatusConditionPresentAndEqual cs t ConditionFalse"

section \<open>The store of the root module\<close>

text \<open>
  \<^verbatim>\<open>pkg/controller/conditions\<close> guards every operation against a nil accessor; the operations
  below are those of a non-nil accessor, and the manager theory adds the guard.
\<close>

definition findConditionIndex :: "condition list \<Rightarrow> string \<Rightarrow> nat option" where
  "findConditionIndex cs t = index_func (\<lambda>c. cType c = t) cs"

definition conditionsEqual :: "condition \<Rightarrow> condition \<Rightarrow> bool" where
  "conditionsEqual a b \<longleftrightarrow> cStatus a = cStatus b \<and> cReason a = cReason b \<and> cMessage a = cMessage b \<and>
     cObservedGeneration a = cObservedGeneration b \<and> cSeverity a = cSeverity b"

definition ensureTransitionTime :: "gotime \<Rightarrow> condition \<Rightarrow> condition" where
  "ensureTransitionTime now c =
     (if IsZero (cLastTransitionTime c) then c\<lparr>cLastTransitionTime := now\<rparr> else c)"

definition pkg_SetStatusCondition :: "gotime \<Rightarrow> condition list \<Rightarrow> condition \<Rightarrow> condition list \<times> bool" where
  "pkg_SetStatusCondition now conds c =
     (let new = ensureTransitionTime now (c\<lparr>cLastHeartbeatTime := None\<rparr>)
      in case findConditionIndex conds (cType new) of
           None \<Rightarrow> (conds @ [new], True)
         | Some i \<Rightarrow>
             if conditionsEqual (conds ! i) new then (conds, False)
             else let new' = (if cStatus (conds ! i) = cStatus new
                              then new\<lparr>cLastTransitionTime := cLastTransitionTime (conds ! i)\<rparr> else new)
                  in (conds[i := new'], True))"

definition pkg_RemoveStatusCondition :: "condition list \<Rightarrow> string \<Rightarrow> condition list \<times> bool" where
  "pkg_RemoveStatusCondition conds t =
     (case findConditionIndex conds t of
        None \<Rightarrow> (conds, False)
      | Some i \<Rightarrow> (take i conds @ drop (Suc i) conds, True))"

fun pkg_FindStatusCondition :: "condition list \<Rightarrow> string \<Rightarrow> condition option" where
  "pkg_FindStatusCondition [] t = None"
| "pkg_FindStatusCondition (c # cs) t = (if cType c = t then Some c else pkg_FindStatusCondition cs t)"

definition pkg_IsStatusConditionPresentAndEqual :: "condition list \<Rightarrow> string \<Rightarrow> string \<Rightarrow> bool" where
  "pkg_IsStatusConditionPresentAndEqual cs t s \<longleftrightarrow>
     (case pkg_FindStatusCondition cs t of None \<Rightarrow> False | Some c \<Rightarrow> cStatus c = s)"

definition pkg_IsStatusConditionTrue :: "condition list \<Rightarrow> string \<Rightarrow> bool" where
  "pkg_IsStatusConditionTrue cs t \<longleftrightarrow>
     (case pkg_FindStatusCondition cs t of None \<Rightarrow> False | Some c \<Rightarrow> cStatus c = ConditionTrue)"

definition pkg_IsStatusConditionFalse :: "condition list \<Rightarrow> string \<Rightarrow> bool" where
  "pkg_IsStatusConditionFalse cs t \<longleftrightarrow>
     (case pkg_FindStatusCondition cs t of None \<Rightarrow> False | Some c \<Rightarrow> cStatus c = ConditionFalse)"

section \<open>The contract of a condition store\<close>

text \<open>
  What a write must leave behind: an absent type gets the new condition, stamped with the time of
  the write; a condition that is equal in every compared field stays as it is, transition time
  included; otherwise the new condition replaces the old one and keeps the old transition time
  exactly when the status did not change.
\<close>

definition stamped :: "gotime \<Rightarrow> condition \<Rightarrow> condition" where
  "stamped now c = c\<lparr>cLastHeartbeatTime := None,
     cLastTransitionTime := (if IsZero (cLastTransitionTime c) then now else cLastTransitionTime c)\<rparr>"

definition merged :: "gotime \<Rightarrow> condition option \<Rightarrow> condition \<Rightarrow> condition" where
  "merged now old c =
     (case old of
        None \<Rightarrow> stamped now c
      | Some d \<Rightarrow> if equals d c then d
                  else if cStatus d = cStatus c
                  then (stamped now c)\<lparr>cLastTransitionTime := cLastTransitionTime d\<rparr>
                  else stamped now c)"

lemma stamped_sel [simp]:
  "cType (stamped now c) = cType c" "cStatus (stamped now c) = cStatus c"
  "cReason (stamped now c) = cReason c" "cMessage (stamped now c) = cMessage c"
  "cSeverity (stamped now c) = cSeverity c" "cObservedGeneration (stamped now c) = cObservedGeneration c"
  by (simp_all add: stamped_def)

lemma merged_None [simp]: "merged now None c = stamped now c"
  by (simp add: merged_def)

lemma merged_fields [simp]:
  "cStatus (merged now old c) = cStatus c" "cReason (merged now old c) = cReason c"
  "cMessage (merged now old c) = cMessage c" "cSeverity (merged now old c) = cSeverity c"
  "cObservedGeneration (merged now old c) = cObservedGeneration c"
  by (cases old; simp add: merged_def equals_def)+

lemma merged_type: "cType d = cType c \<Longrightarrow> cType (merged now (Some d) c) = cType c"
  by (simp add: merged_def)

lemma equals_merged [simp]: "equals (merged now old c) c"
  by (simp add: equals_def)

locale condition_store =
  fixes put :: "gotime \<Rightarrow> condition list \<Rightarrow> condition \<Rightarrow> condition list \<times> bool"
    and remove :: "condition list \<Rightarrow> string \<Rightarrow> condition list \<times> bool"
    and lookup :: "condition list \<Rightarrow> string \<Rightarrow> condition option"
  assumes lookup_type: "lookup cs t = Some d \<Longrightarrow> cType d = t"
    and lookup_put: "lookup (fst (put now cs c)) t =
      (if t = cType c then Some (merged now (lookup cs t) c) else lookup cs t)"
    and put_changed: "snd (put now cs c) \<longleftrightarrow> fst (put now cs c) \<noteq> cs"
    and put_unique: "unique_types cs \<Longrightarrow> unique_types (fst (put now cs c))"
    and lookup_remove: "unique_types cs \<Longrightarrow>
      lookup (fst (remove cs u)) t = (if t = u then None else lookup cs t)"
    and remove_changed: "snd (remove cs u) \<longleftrightarrow> lookup cs u \<noteq> None"
    and remove_unique: "unique_types cs \<Longrightarrow> unique_types (fst (remove cs u))"
    and lookup_put_equal: "lookup cs (cType c) = Some d \<Longrightarrow> equals d c \<Longrightarrow> fst (put now cs c) = cs"
begin

text \<open>Writing the same condition again changes nothing, at any later time.\<close>

lemma put_idempotent:
  "put now' (fst (put now cs c)) c = (fst (put now cs c), False)"
proof -
  let ?cs = "fst (put now cs c)"
  let ?d = "merged now (lookup cs (cType c)) c"
  have "lookup ?cs (cType c) = Some ?d" by (simp add: lookup_put)
  then have "fst (put now' ?cs c) = ?cs" by (rule lookup_put_equal) simp
  then show ?thesis using put_changed [of now' ?cs c] by (cases "put now' ?cs c") auto
qed

text \<open>A write reads back with the fields it was given.\<close>

lemma put_reads_back:
  "\<exists>d. lookup (fst (put now cs c)) (cType c) = Some d \<and> equals d c \<and> cType d = cType c"
  using lookup_type [of "fst (put now cs c)" "cType c"] by (simp add: lookup_put)

text \<open>The transition time moves exactly when the status does.\<close>

lemma transition_time_kept:
  "lookup cs (cType c) = Some d \<Longrightarrow> cStatus d = cStatus c \<Longrightarrow>
    \<exists>e. lookup (fst (put now cs c)) (cType c) = Some e \<and> cLastTransitionTime e = cLastTransitionTime d"
  by (simp add: lookup_put merged_def)

lemma transition_time_moved:
  "lookup cs (cType c) = Some d \<Longrightarrow> cStatus d \<noteq> cStatus c \<Longrightarrow> cLastTransitionTime c = 0 \<Longrightarrow>
    \<exists>e. lookup (fst (put now cs c)) (cType c) = Some e \<and> cLastTransitionTime e = now"
  by (simp add: lookup_put merged_def equals_def stamped_def)

lemma put_then_remove:
  "unique_types cs \<Longrightarrow> lookup cs (cType c) = None \<Longrightarrow>
    lookup (fst (remove (fst (put now cs c)) (cType c))) t = lookup cs t"
  by (simp add: lookup_remove put_unique lookup_put)

end

section \<open>Both stores satisfy the contract\<close>

lemma FindStatusCondition_find_first: "FindStatusCondition cs t = find_first cType t cs"
  by (induction cs) auto

lemma pkg_FindStatusCondition_find_first: "pkg_FindStatusCondition cs t = find_first cType t cs"
  by (induction cs) auto

lemma SetStatusCondition_cases:
  "SetStatusCondition now cs c =
     (case find_first cType (cType c) cs of
        None \<Rightarrow> (cs @ [stamped now c], True)
      | Some d \<Rightarrow> if equals d c then (cs, False)
                  else (upsert_first cType (merged now (Some d) c) cs, True))"
proof (cases "find_first cType (cType c) cs")
  case None
  then have "index_func (\<lambda>y. cType y = cType c) cs = None" by (simp add: index_func_key)
  with None show ?thesis by (simp add: SetStatusCondition_def stamped_def Let_def)
next
  case (Some d)
  then obtain i where i: "index_func (\<lambda>y. cType y = cType c) cs = Some i"
    by (metis index_func_key option.exhaust option.simps(3))
  from index_func_Some [OF i] Some
  have d: "cs ! i = d" and up: "\<And>v. cType v = cType c \<Longrightarrow> cs[i := v] = upsert_first cType v cs"
    by auto
  have eq: "equals d (c\<lparr>cLastHeartbeatTime := None, cLastTransitionTime := t\<rparr>) = equals d c"
    "equals d (c\<lparr>cLastHeartbeatTime := None\<rparr>) = equals d c" for t
    by (simp_all add: equals_def)
  show ?thesis
    using Some i d by (simp add: SetStatusCondition_def merged_def stamped_def Let_def eq up)
qed

lemma pkg_store_agrees: "pkg_SetStatusCondition now cs c = SetStatusCondition now cs c"
proof -
  have "conditionsEqual = equals" by (intro ext) (simp add: conditionsEqual_def equals_def)
  then show ?thesis
    by (auto simp: SetStatusCondition_def pkg_SetStatusCondition_def ensureTransitionTime_def
        findConditionIndex_def Let_def equals_def split: option.splits)
qed

lemma RemoveStatusCondition_delete:
  "RemoveStatusCondition cs t = (delete_key cType t cs, find_first cType t cs \<noteq> None)"
proof (cases "t \<in> cType ` set cs")
  case True
  then have "length (filter (\<lambda>c. cType c \<noteq> t) cs) < length cs"
    by (metis (mono_tags, lifting) imageE length_filter_less)
  with True show ?thesis
    by (auto simp: RemoveStatusCondition_def delete_key_def Let_def find_first_None_iff)
next
  case False
  then have "filter (\<lambda>c. cType c \<noteq> t) cs = cs" by (auto intro: filter_True)
  with False show ?thesis
    using find_first_None_iff [of cType t cs]
    by (auto simp: RemoveStatusCondition_def delete_key_def Let_def)
qed

lemma pkg_RemoveStatusCondition_delete:
  assumes "unique_types cs"
  shows "pkg_RemoveStatusCondition cs t = (delete_key cType t cs, find_first cType t cs \<noteq> None)"
proof (cases "index_func (\<lambda>c. cType c = t) cs")
  case None
  then have none: "find_first cType t cs = None" by (simp add: index_func_key)
  then have "delete_key cType t cs = cs"
    by (auto simp: find_first_None_iff delete_key_def intro!: filter_True)
  with None none show ?thesis by (simp add: pkg_RemoveStatusCondition_def findConditionIndex_def)
next
  case (Some i)
  with assms index_func_delete [OF Some] index_func_Some [OF Some] show ?thesis
    by (simp add: pkg_RemoveStatusCondition_def findConditionIndex_def unique_types_def)
qed

lemma put_find_first:
  "find_first cType t (fst (SetStatusCondition now cs c)) =
     (if t = cType c then Some (merged now (find_first cType t cs) c) else find_first cType t cs)"
proof (cases "find_first cType (cType c) cs")
  case None
  then have "cs @ [stamped now c] = upsert_first cType (stamped now c) cs"
    by (simp add: find_first_None_iff upsert_absent)
  with None show ?thesis by (simp add: SetStatusCondition_cases merged_def store_simps)
next
  case (Some d)
  then have "cType d = cType c" by (rule find_first_Some_key)
  then have "cType (merged now (Some d) c) = cType c" by (rule merged_type)
  with Some show ?thesis by (auto simp: SetStatusCondition_cases merged_def store_simps)
qed

lemma put_changed_iff: "snd (SetStatusCondition now cs c) \<longleftrightarrow> fst (SetStatusCondition now cs c) \<noteq> cs"
proof (cases "find_first cType (cType c) cs")
  case (Some d)
  show ?thesis
  proof (cases "equals d c")
    case False
    then have "merged now (Some d) c \<noteq> d" using equals_merged by metis
    with Some have "find_first cType (cType c) (fst (SetStatusCondition now cs c)) \<noteq> Some d"
      by (simp add: put_find_first)
    with Some False show ?thesis by (auto simp: SetStatusCondition_cases)
  qed (use Some in \<open>simp add: SetStatusCondition_cases\<close>)
qed (simp add: SetStatusCondition_cases)

lemma put_unique_types:
  "unique_types cs \<Longrightarrow> unique_types (fst (SetStatusCondition now cs c))"
  by (auto simp: SetStatusCondition_cases unique_types_def find_first_None_iff distinct_upsert
      split: option.splits)

lemma put_equal_noop:
  "find_first cType (cType c) cs = Some d \<Longrightarrow> equals d c \<Longrightarrow> fst (SetStatusCondition now cs c) = cs"
  by (simp add: SetStatusCondition_cases)

lemma delete_key_unique: "unique_types cs \<Longrightarrow> unique_types (delete_key cType t cs)"
  by (simp add: unique_types_def distinct_delete_key)

interpretation fw: condition_store SetStatusCondition RemoveStatusCondition FindStatusCondition
  by unfold_locales
    (auto simp: FindStatusCondition_find_first RemoveStatusCondition_delete put_find_first
      put_changed_iff put_unique_types put_equal_noop find_first_delete delete_key_unique
      dest: find_first_Some_key)

interpretation root: condition_store pkg_SetStatusCondition pkg_RemoveStatusCondition pkg_FindStatusCondition
proof unfold_locales
  fix cs u
  show "snd (pkg_RemoveStatusCondition cs u) \<longleftrightarrow> pkg_FindStatusCondition cs u \<noteq> None"
    using index_func_key [of cType u cs]
    by (auto simp: pkg_RemoveStatusCondition_def findConditionIndex_def
        pkg_FindStatusCondition_find_first split: option.splits)
qed (auto simp: pkg_FindStatusCondition_find_first pkg_store_agrees pkg_RemoveStatusCondition_delete
    put_find_first put_changed_iff put_unique_types put_equal_noop find_first_delete delete_key_unique
    dest: find_first_Some_key)

section \<open>Further facts about the framework's store\<close>

lemma set_put:
  "unique_types cs \<Longrightarrow> set (fst (SetStatusCondition now cs c)) =
     insert (merged now (find_first cType (cType c) cs) c) {d \<in> set cs. cType d \<noteq> cType c}"
proof (cases "find_first cType (cType c) cs")
  case None
  have "cType d \<noteq> cType c" if "d \<in> set cs" for d
    using None that by (metis find_first_None_iff image_eqI)
  with None show ?thesis by (auto simp: SetStatusCondition_cases)
next
  case (Some d)
  assume u: "unique_types cs"
  have ty: "cType d = cType c" using Some by (rule find_first_Some_key)
  have mem: "d \<in> set cs" using Some by (rule find_first_Some_mem)
  have uniq: "e = d" if "e \<in> set cs" "cType e = cType c" for e
    using find_first_mem [of cType cs e] that u Some by (simp add: unique_types_def)
  show ?thesis
  proof (cases "equals d c")
    case True
    then have "merged now (Some d) c = d" "fst (SetStatusCondition now cs c) = cs"
      using Some by (simp_all add: SetStatusCondition_cases merged_def)
    moreover have "set cs = insert d {e \<in> set cs. cType e \<noteq> cType c}"
      using mem uniq by blast
    ultimately show ?thesis using Some by simp
  next
    case False
    have "cType (merged now (Some d) c) = cType c" using ty by (rule merged_type)
    with False Some u show ?thesis
      by (auto simp: SetStatusCondition_cases unique_types_def set_upsert_distinct)
  qed
qed

lemma present_and_equal_iff:
  "unique_types cs \<Longrightarrow> IsStatusConditionPresentAndEqual cs t s \<longleftrightarrow>
     (\<exists>c. FindStatusCondition cs t = Some c \<and> cStatus c = s)"
  unfolding IsStatusConditionPresentAndEqual_def FindStatusCondition_find_first unique_types_def
  by (auto simp: list_ex_iff dest: find_first_mem find_first_Some_mem find_first_Some_key)

lemma pkg_present_and_equal_iff:
  "pkg_IsStatusConditionPresentAndEqual cs t s \<longleftrightarrow>
     (\<exists>c. FindStatusCondition cs t = Some c \<and> cStatus c = s)"
  by (auto simp: pkg_IsStatusConditionPresentAndEqual_def pkg_FindStatusCondition_find_first
      FindStatusCondition_find_first split: option.splits)

section \<open>Properties\<close>

text \<open>
  the framework and the root module keep the same store: writes return the same slice and the
  same changed flag on every input, lookups agree, and removals agree on a slice with unique types.
\<close>

theorem stores_agree:
  assumes "unique_types cs"
  shows "pkg_SetStatusCondition now cs c = SetStatusCondition now cs c \<and>
    pkg_RemoveStatusCondition cs t = RemoveStatusCondition cs t \<and>
    pkg_FindStatusCondition cs t = FindStatusCondition cs t \<and>
    pkg_IsStatusConditionPresentAndEqual cs t s = IsStatusConditionPresentAndEqual cs t s"
  using assms
  by (simp add: pkg_store_agrees pkg_RemoveStatusCondition_delete RemoveStatusCondition_delete
      pkg_FindStatusCondition_find_first FindStatusCondition_find_first present_and_equal_iff
      pkg_present_and_equal_iff)

theorem stores_agree_witness:
  "pkg_RemoveStatusCondition [new_condition ''A'' ConditionTrue, new_condition ''B'' ConditionTrue] ''A'' =
     RemoveStatusCondition [new_condition ''A'' ConditionTrue, new_condition ''B'' ConditionTrue] ''A''"
proof -
  have "unique_types [new_condition ''A'' ConditionTrue, new_condition ''B'' ConditionTrue]"
    by (simp add: unique_types_def)
  with stores_agree show ?thesis by blast
qed

text \<open>
  A write of a condition that is already there in all compared fields is a no-op, reported as
  unchanged, at any later time; in particular the transition time does not move.
\<close>

theorem set_status_idempotent:
  "SetStatusCondition now' (fst (SetStatusCondition now cs c)) c = (fst (SetStatusCondition now cs c), False)"
  by (rule fw.put_idempotent)

text \<open>
  The transition time of an existing condition changes exactly with its status: a write with
  the same status keeps the recorded time, a write with another status and no time of its own
  records the time of the write; every other type keeps its condition.
\<close>

theorem set_status_transition_time:
  assumes "FindStatusCondition cs (cType c) = Some d" and "cLastTransitionTime c = 0"
  shows "\<exists>e. FindStatusCondition (fst (SetStatusCondition now cs c)) (cType c) = Some e \<and>
    cStatus e = cStatus c \<and>
    cLastTransitionTime e = (if cStatus d = cStatus c then cLastTransitionTime d else now) \<and>
    (\<forall>t. t \<noteq> cType c \<longrightarrow>
      FindStatusCondition (fst (SetStatusCondition now cs c)) t = FindStatusCondition cs t)"
  using fw.transition_time_kept [OF assms(1), of now] fw.transition_time_moved [OF assms(1) _ assms(2), of now]
    fw.put_reads_back [of now cs c]
  by (auto simp: fw.lookup_put equals_def)

theorem set_status_transition_time_witness:
  "\<exists>e. FindStatusCondition (fst (SetStatusCondition 9
        [(new_condition ''A'' ConditionTrue)\<lparr>cLastTransitionTime := 4\<rparr>] (new_condition ''A'' ConditionFalse))) ''A'' = Some e \<and>
     cLastTransitionTime e = 9"
  using set_status_transition_time
    [of "[(new_condition ''A'' ConditionTrue)\<lparr>cLastTransitionTime := 4\<rparr>]" "new_condition ''A'' ConditionFalse"
      "(new_condition ''A'' ConditionTrue)\<lparr>cLastTransitionTime := 4\<rparr>" 9]
  by auto

end
