(* ===== verification/Aggregator.thy ===== *)
theory Aggregator
  imports Condition_Store
begin

text \<open>
  \<^verbatim>\<open>framework/controller/conditions/conditions_aggregator.go\<close>: the aggregator that derives the
  happy (target) condition from the other conditions. The Go map of dependents is an association
  list with distinct keys in an arbitrary iteration order; the theorems show where the order does
  not matter. A nil \<^verbatim>\<open>*Aggregator\<close> is \<open>None\<close>.
\<close>

section \<open>Data and construction\<close>

definition HealthyWhenTrue :: string where "HealthyWhenTrue = ''HealthyWhenTrue''"
definition HealthyWhenFalse :: string where "HealthyWhenFalse = ''HealthyWhenFalse''"

lemma polarity_neq [simp]: "HealthyWhenTrue \<noteq> HealthyWhenFalse" "HealthyWhenFalse \<noteq> HealthyWhenTrue"
  by (simp_all add: HealthyWhenTrue_def HealthyWhenFalse_def)

record DependentDefinition =
  depType :: string
  depPolarity :: string

record aggregator =
  aTarget :: string
  aDependents :: "(string \<times> string) list"

definition Dependent :: "string \<Rightarrow> string \<Rightarrow> DependentDefinition" where
  "Dependent name polarity = \<lparr>depType = name, depPolarity = polarity\<rparr>"

datatype agg_error =
    EmptyDependent
  | DependentIsTarget string
  | ConflictingPolarity string string string

text \<open>The loop of \<^verbatim>\<open>NewAggregator\<close>, with the map built so far.\<close>

fun add_dependents ::
  "string \<Rightarrow> (string \<times> string) list \<Rightarrow> DependentDefinition list \<Rightarrow> agg_error + (string \<times> string) list" where
  "add_dependents target deps [] = Inr deps"
| "add_dependents target deps (d # ds) =
     (if depType d = '''' then Inl EmptyDependent
      else if depType d = target then Inl (DependentIsTarget (depType d))
      else case map_of deps (depType d) of
             Some existing \<Rightarrow>
               if existing \<noteq> depPolarity d
               then Inl (ConflictingPolarity (depType d) existing (depPolarity d))
               else add_dependents target deps ds
           | None \<Rightarrow> add_dependents target (deps @ [(depType d, depPolarity d)]) ds)"

definition NewAggregator :: "string \<Rightarrow> DependentDefinition list \<Rightarrow> agg_error + aggregator" where
  "NewAggregator target defs =
     (case add_dependents target [] defs of
        Inl e \<Rightarrow> Inl e
      | Inr deps \<Rightarrow> Inr \<lparr>aTarget = target, aDependents = deps\<rparr>)"

definition Target :: "aggregator option \<Rightarrow> string" where
  "Target ao = (case ao of None \<Rightarrow> '''' | Some a \<Rightarrow> aTarget a)"

definition Dependents :: "aggregator option \<Rightarrow> DependentDefinition list" where
  "Dependents ao = (case ao of None \<Rightarrow> []
     | Some a \<Rightarrow> sort_stable_func (\<lambda>x y. cmp_compare (depType x) (depType y))
         (map (\<lambda>(t, p). \<lparr>depType = t, depPolarity = p\<rparr>) (aDependents a)))"

section \<open>Aggregation\<close>

definition hasDependent :: "aggregator option \<Rightarrow> string \<Rightarrow> bool" where
  "hasDependent ao t = (case ao of None \<Rightarrow> False | Some a \<Rightarrow> map_of (aDependents a) t \<noteq> None)"

definition polarityFor :: "aggregator option \<Rightarrow> string \<Rightarrow> string" where
  "polarityFor ao t =
     (case ao of None \<Rightarrow> HealthyWhenTrue
      | Some a \<Rightarrow> (case map_of (aDependents a) t of Some p \<Rightarrow> p | None \<Rightarrow> HealthyWhenTrue))"

definition shouldConsider :: "aggregator \<Rightarrow> condition \<Rightarrow> bool" where
  "shouldConsider a c =
     (if cType c = aTarget a then False
      else if cSeverity c = ConditionSeverityInfo then False
      else if length (aDependents a) = 0 then True
      else hasDependent (Some a) (cType c))"

definition isHealthy :: "aggregator \<Rightarrow> condition \<Rightarrow> bool" where
  "isHealthy a c =
     (if cStatus c = ConditionUnknown then False
      else if polarityFor (Some a) (cType c) = HealthyWhenFalse then cStatus c = ConditionFalse
      else cStatus c = ConditionTrue)"

definition priority :: "aggregator option \<Rightarrow> string \<Rightarrow> int" where
  "priority ao t = (if t = Target ao then 0 else if hasDependent ao t then 1 else 2)"

definition compareConditions :: "aggregator option \<Rightarrow> condition \<Rightarrow> condition \<Rightarrow> int" where
  "compareConditions ao l r =
     (let result = cmp_compare (priority ao (cType l)) (priority ao (cType r))
      in if result \<noteq> 0 then result else cmp_compare (cType l) (cType r))"

fun unhealthy_loop ::
  "aggregator \<Rightarrow> condition option \<Rightarrow> condition option \<Rightarrow> condition list \<Rightarrow> condition option" where
  "unhealthy_loop a explicit unknown [] = (if explicit \<noteq> None then explicit else unknown)"
| "unhealthy_loop a explicit unknown (c # cs) =
     (if \<not> shouldConsider a c \<or> isHealthy a c then unhealthy_loop a explicit unknown cs
      else if cStatus c = ConditionUnknown
      then unhealthy_loop a explicit (if unknown = None then Some c else unknown) cs
      else unhealthy_loop a (if explicit = None then Some c else explicit) unknown cs)"

definition firstUnhealthyCondition :: "aggregator \<Rightarrow> condition list \<Rightarrow> condition option" where
  "firstUnhealthyCondition a cs =
     unhealthy_loop a None None (sort_stable_func (compareConditions (Some a)) cs)"

definition Aggregate :: "aggregator option \<Rightarrow> condition list option \<Rightarrow> condition option" where
  "Aggregate ao acc =
     (case (ao, acc) of
        (Some a, Some cs) \<Rightarrow>
          (case firstUnhealthyCondition a cs of
             None \<Rightarrow> Some (new_condition (aTarget a) ConditionTrue)
           | Some sel \<Rightarrow>
               Some ((new_condition (aTarget a)
                      (if cStatus sel = ConditionUnknown then ConditionUnknown else ConditionFalse))
                     \<lparr>cReason := cReason sel, cMessage := cMessage sel\<rparr>))
      | _ \<Rightarrow> None)"

section \<open>The comparison functions are orders of a key\<close>

abbreviation cond_key :: "aggregator option \<Rightarrow> condition \<Rightarrow> int \<times> string" where
  "cond_key ao c \<equiv> (priority ao (cType c), cType c)"

interpretation cc: key_comparison "compareConditions ao" "cond_key ao" for ao
proof
  fix x y
  show "compareConditions ao x y \<le> 0 \<longleftrightarrow> cond_key ao x \<le> cond_key ao y"
    by (auto simp: compareConditions_def cmp_compare_def Let_def less_eq_prod_def)
qed

interpretation dd: key_comparison "\<lambda>x y. cmp_compare (depType x) (depType y)" depType
  by unfold_locales simp

section \<open>Well-formed aggregators\<close>

text \<open>What \<^verbatim>\<open>NewAggregator\<close> guarantees of an aggregator it returns.\<close>

definition wf_aggregator :: "aggregator \<Rightarrow> bool" where
  "wf_aggregator a \<longleftrightarrow> distinct (map fst (aDependents a)) \<and> '''' \<notin> fst ` set (aDependents a) \<and>
     aTarget a \<notin> fst ` set (aDependents a)"

lemma add_dependents_wf:
  assumes "add_dependents t deps ds = Inr deps'" and "distinct (map fst deps)"
    and "'''' \<notin> fst ` set deps" and "t \<notin> fst ` set deps"
  shows "distinct (map fst deps') \<and> '''' \<notin> fst ` set deps' \<and> t \<notin> fst ` set deps'"
  using assms
proof (induction t deps ds rule: add_dependents.induct)
  case (2 target deps d ds)
  show ?case
  proof (cases "map_of deps (depType d)")
    case None
    then have "depType d \<notin> fst ` set deps" by (simp add: map_of_eq_None_iff)
    with 2 None show ?thesis by (auto split: if_splits)
  qed (use 2 in \<open>auto split: if_splits\<close>)
qed simp

lemma NewAggregator_Inr:
  "NewAggregator t ds = Inr a \<longleftrightarrow>
     add_dependents t [] ds = Inr (aDependents a) \<and> aTarget a = t"
  by (cases a) (auto simp: NewAggregator_def split: sum.splits)

lemma NewAggregator_wf: "NewAggregator t ds = Inr a \<Longrightarrow> wf_aggregator a \<and> aTarget a = t"
  unfolding NewAggregator_Inr wf_aggregator_def using add_dependents_wf [of t "[]" ds] by simp

lemma add_dependents_keeps:
  "add_dependents t deps ds = Inr deps' \<Longrightarrow> map_of deps x = Some p \<Longrightarrow> map_of deps' x = Some p"
  by (induction ds arbitrary: deps) (simp_all split: if_splits option.splits)

lemma add_dependents_registers:
  "add_dependents t deps ds = Inr deps' \<Longrightarrow> d \<in> set ds \<Longrightarrow> map_of deps' (depType d) = Some (depPolarity d)"
proof (induction ds arbitrary: deps)
  case (Cons e ds)
  show ?case
  proof (cases "map_of deps (depType e)")
    case None
    with Cons.prems(1) have step: "add_dependents t (deps @ [(depType e, depPolarity e)]) ds = Inr deps'"
      by (simp split: if_splits)
    from None have "map_of (deps @ [(depType e, depPolarity e)]) (depType e) = Some (depPolarity e)"
      by (simp add: map_add_def)
    then have "map_of deps' (depType e) = Some (depPolarity e)"
      by (rule add_dependents_keeps [OF step])
    with Cons.IH [OF step] Cons.prems(2) show ?thesis by auto
  next
    case (Some p)
    with Cons.prems(1) have step: "add_dependents t deps ds = Inr deps'" and "p = depPolarity e"
      by (auto split: if_splits)
    with Some add_dependents_keeps [OF step] Cons.IH [OF step] Cons.prems(2) show ?thesis by auto
  qed
qed simp

lemma add_dependents_only:
  "add_dependents t deps ds = Inr deps' \<Longrightarrow>
    fst ` set deps' = fst ` set deps \<union> depType ` set ds"
proof (induction ds arbitrary: deps)
  case (Cons e ds)
  show ?case
  proof (cases "map_of deps (depType e)")
    case None
    with Cons.prems have "add_dependents t (deps @ [(depType e, depPolarity e)]) ds = Inr deps'"
      by (simp split: if_splits)
    from Cons.IH [OF this] show ?thesis by auto
  next
    case (Some p)
    then have "depType e \<in> fst ` set deps" by (metis domI dom_map_of_conv_image_fst)
    moreover from Some Cons.prems have "add_dependents t deps ds = Inr deps'" by (auto split: if_splits)
    ultimately show ?thesis using Cons.IH by auto
  qed
qed simp

lemma hasDependent_iff: "hasDependent (Some a) t \<longleftrightarrow> t \<in> fst ` set (aDependents a)"
  by (simp add: hasDependent_def map_of_eq_None_iff)

lemma wf_not_target: "wf_aggregator a \<Longrightarrow> hasDependent (Some a) t \<Longrightarrow> t \<noteq> aTarget a"
  unfolding wf_aggregator_def hasDependent_iff by blast

lemma Dependents_types: "depType ` set (Dependents (Some a)) = fst ` set (aDependents a)"
  by (force simp: Dependents_def)

lemma Dependents_member:
  assumes "wf_aggregator a" and "d \<in> set (Dependents (Some a))"
  shows "polarityFor (Some a) (depType d) = depPolarity d" and "hasDependent (Some a) (depType d)"
proof -
  from assms(2) have "(depType d, depPolarity d) \<in> set (aDependents a)"
    by (auto simp: Dependents_def)
  with assms(1) have "map_of (aDependents a) (depType d) = Some (depPolarity d)"
    by (simp add: wf_aggregator_def)
  then show "polarityFor (Some a) (depType d) = depPolarity d" "hasDependent (Some a) (depType d)"
    by (simp_all add: polarityFor_def hasDependent_def)
qed

section \<open>What the aggregate says\<close>

text \<open>The conditions that make an aggregate unhappy.\<close>

definition unhealthy :: "aggregator \<Rightarrow> condition \<Rightarrow> bool" where
  "unhealthy a c \<longleftrightarrow> shouldConsider a c \<and> \<not> isHealthy a c"

definition explicit_unhealthy :: "aggregator \<Rightarrow> condition \<Rightarrow> bool" where
  "explicit_unhealthy a c \<longleftrightarrow> unhealthy a c \<and> cStatus c \<noteq> ConditionUnknown"

text \<open>
  The loop returns the first explicitly unhealthy condition, or else the first unknown one:
  a specification by two searches, which never mentions the loop's variables.
\<close>

definition pick_unhealthy :: "aggregator \<Rightarrow> condition list \<Rightarrow> condition option" where
  "pick_unhealthy a cs =
     (case find (explicit_unhealthy a) cs of Some c \<Rightarrow> Some c | None \<Rightarrow> find (unhealthy a) cs)"

lemma unhealthy_loop_explicit: "unhealthy_loop a (Some e) u cs = Some e"
  by (induction cs arbitrary: u) auto

lemma unhealthy_loop_unknown:
  "unhealthy_loop a None (Some u) cs =
     (case find (explicit_unhealthy a) cs of Some c \<Rightarrow> Some c | None \<Rightarrow> Some u)"
  by (induction cs) (auto simp: unhealthy_loop_explicit unhealthy_def explicit_unhealthy_def)

lemma unhealthy_loop_pick: "unhealthy_loop a None None cs = pick_unhealthy a cs"
  by (induction cs)
    (auto simp: unhealthy_loop_explicit unhealthy_loop_unknown pick_unhealthy_def unhealthy_def
      explicit_unhealthy_def split: option.splits)

lemma find_filter_eq: "(\<And>c. P c \<Longrightarrow> Q c) \<Longrightarrow> find P (filter Q cs) = find P cs"
  by (induction cs) auto

lemma pick_unhealthy_filter:
  "(\<And>c. unhealthy a c \<Longrightarrow> Q c) \<Longrightarrow> pick_unhealthy a (filter Q cs) = pick_unhealthy a cs"
  unfolding pick_unhealthy_def by (subst (1 2) find_filter_eq) (auto simp: explicit_unhealthy_def)

lemma pick_unhealthy_None: "pick_unhealthy a cs = None \<longleftrightarrow> (\<forall>c\<in>set cs. \<not> unhealthy a c)"
proof (cases "find (explicit_unhealthy a) cs")
  case None
  then have "pick_unhealthy a cs = find (unhealthy a) cs" by (simp add: pick_unhealthy_def)
  then show ?thesis by (auto simp: find_None_iff)
next
  case (Some d)
  then show ?thesis using find_SomeD [OF Some] by (auto simp: pick_unhealthy_def explicit_unhealthy_def)
qed

lemma pick_unhealthy_Some:
  assumes "pick_unhealthy a cs = Some c"
  shows "c \<in> set cs \<and> unhealthy a c \<and>
    (cStatus c = ConditionUnknown \<longleftrightarrow> (\<forall>d\<in>set cs. \<not> explicit_unhealthy a d))"
proof (cases "find (explicit_unhealthy a) cs")
  case None
  with assms have "find (unhealthy a) cs = Some c" by (simp add: pick_unhealthy_def)
  from find_SomeD [OF this] None show ?thesis by (auto simp: find_None_iff explicit_unhealthy_def)
next
  case (Some d)
  with assms have "find (explicit_unhealthy a) cs = Some c" by (simp add: pick_unhealthy_def)
  from find_SomeD [OF this] show ?thesis by (auto simp: explicit_unhealthy_def)
qed

lemma firstUnhealthy_pick:
  "firstUnhealthyCondition a cs = pick_unhealthy a (sort_key (cond_key (Some a)) cs)"
  by (simp add: firstUnhealthyCondition_def unhealthy_loop_pick cc.sort_eq)

text \<open>Only the conditions that the aggregator considers can change the outcome.\<close>

lemma firstUnhealthy_considered:
  "firstUnhealthyCondition a cs = firstUnhealthyCondition a (filter (shouldConsider a) cs)"
proof -
  have "pick_unhealthy a (sort_key (cond_key (Some a)) (filter (shouldConsider a) cs)) =
      pick_unhealthy a (filter (shouldConsider a) (sort_key (cond_key (Some a)) cs))"
    by (simp only: filter_sort)
  also have "\<dots> = pick_unhealthy a (sort_key (cond_key (Some a)) cs)"
    by (rule pick_unhealthy_filter) (simp add: unhealthy_def)
  finally show ?thesis by (simp add: firstUnhealthy_pick)
qed

lemma Aggregate_Some:
  "Aggregate (Some a) (Some cs) = Some c \<Longrightarrow> cType c = aTarget a \<and>
     (cStatus c = ConditionTrue \<longleftrightarrow> (\<forall>d\<in>set cs. \<not> unhealthy a d)) \<and>
     (cStatus c = ConditionFalse \<longleftrightarrow> (\<exists>d\<in>set cs. explicit_unhealthy a d)) \<and>
     (cStatus c = ConditionUnknown \<longleftrightarrow>
        (\<exists>d\<in>set cs. unhealthy a d) \<and> (\<forall>d\<in>set cs. \<not> explicit_unhealthy a d))"
proof (cases "firstUnhealthyCondition a cs")
  case None
  then have none: "\<forall>d\<in>set cs. \<not> unhealthy a d"
    using pick_unhealthy_None [of a "sort_key (cond_key (Some a)) cs"] by (simp add: firstUnhealthy_pick)
  assume "Aggregate (Some a) (Some cs) = Some c"
  with None have "c = new_condition (aTarget a) ConditionTrue" by (simp add: Aggregate_def)
  with none show ?thesis by (auto simp: explicit_unhealthy_def)
next
  case (Some sel)
  then have sel: "sel \<in> set cs" "unhealthy a sel"
    "cStatus sel = ConditionUnknown \<longleftrightarrow> (\<forall>d\<in>set cs. \<not> explicit_unhealthy a d)"
    using pick_unhealthy_Some [of a "sort_key (cond_key (Some a)) cs" sel]
    by (simp_all add: firstUnhealthy_pick)
  assume "Aggregate (Some a) (Some cs) = Some c"
  with Some have "cType c = aTarget a"
    "cStatus c = (if cStatus sel = ConditionUnknown then ConditionUnknown else ConditionFalse)"
    by (auto simp: Aggregate_def)
  with sel show ?thesis by auto
qed

lemma Aggregate_not_None: "\<exists>c. Aggregate (Some a) (Some cs) = Some c"
  by (simp add: Aggregate_def split: option.splits)

text \<open>The aggregate of a unique-type slice does not depend on the order of the slice.\<close>

lemma Aggregate_order:
  assumes "unique_types cs" and "mset cs = mset cs'"
  shows "Aggregate (Some a) (Some cs) = Aggregate (Some a) (Some cs')"
proof -
  have "distinct (map (cond_key (Some a)) cs)"
    using assms(1) by (auto simp: unique_types_def distinct_map inj_on_def)
  then have "sort_stable_func (compareConditions (Some a)) cs = sort_stable_func (compareConditions (Some a)) cs'"
    using assms(2) by (intro cc.order_irrelevant)
  then show ?thesis by (simp add: Aggregate_def firstUnhealthyCondition_def)
qed

lemma Dependents_order:
  assumes "wf_aggregator a" and "mset deps = mset (aDependents a)"
  shows "Dependents (Some (a\<lparr>aDependents := deps\<rparr>)) = Dependents (Some a)"
proof -
  let ?f = "\<lambda>(t, p). \<lparr>depType = t, depPolarity = p\<rparr>"
  have "depType \<circ> ?f = fst" by (auto simp: fun_eq_iff)
  moreover have "distinct (map fst deps)"
    using assms unfolding wf_aggregator_def by (metis mset_eq_imp_distinct_iff mset_map)
  ultimately show ?thesis
    using assms(2) by (simp add: Dependents_def) (intro dd.order_irrelevant, simp_all)
qed

lemma dependents_map_of_order:
  assumes "wf_aggregator a" and "mset deps = mset (aDependents a)"
  shows "map_of deps = map_of (aDependents a)" and "length deps = length (aDependents a)"
proof -
  have "distinct (map fst deps)"
    using assms unfolding wf_aggregator_def by (metis mset_eq_imp_distinct_iff mset_map)
  moreover have "set deps = set (aDependents a)" using assms(2) by (rule mset_eq_setD)
  ultimately show "map_of deps = map_of (aDependents a)"
    using assms(1) by (simp add: map_of_inject_set wf_aggregator_def)
  show "length deps = length (aDependents a)" using assms(2) by (rule mset_eq_length)
qed

lemma add_dependents_Inr_iff:
  "(\<exists>deps'. add_dependents t deps ds = Inr deps') \<longleftrightarrow>
     (\<forall>d\<in>set ds. depType d \<noteq> '''' \<and> depType d \<noteq> t \<and>
        (\<forall>p. map_of deps (depType d) = Some p \<longrightarrow> p = depPolarity d) \<and>
        (\<forall>e\<in>set ds. depType e = depType d \<longrightarrow> depPolarity e = depPolarity d))"
proof (induction ds arbitrary: deps)
  case (Cons d ds)
  show ?case
  proof (cases "map_of deps (depType d)")
    case None
    let ?deps = "deps @ [(depType d, depPolarity d)]"
    have "map_of ?deps x = (if x = depType d then Some (depPolarity d) else map_of deps x)" for x
      using None by (simp add: map_add_def split: option.splits)
    then have key: "(\<forall>p. map_of ?deps x = Some p \<longrightarrow> p = q) \<longleftrightarrow>
        (x = depType d \<longrightarrow> depPolarity d = q) \<and> (\<forall>p. map_of deps x = Some p \<longrightarrow> p = q)" for x q
      using None by simp
    have step: "(\<exists>deps'. add_dependents t deps (d # ds) = Inr deps') \<longleftrightarrow>
        depType d \<noteq> '''' \<and> depType d \<noteq> t \<and> (\<exists>deps'. add_dependents t ?deps ds = Inr deps')"
      using None by simp
    define M where "M x \<longleftrightarrow> (\<forall>p. map_of deps (depType x) = Some p \<longrightarrow> p = depPolarity x)" for x :: DependentDefinition
    have "M d" using None by (simp add: M_def)
    then show ?thesis unfolding step Cons key M_def [symmetric]
      by (simp only: list.set ball_simps simp_thms) (rule iffI; metis)
  next
    case (Some p)
    then have step: "(\<exists>deps'. add_dependents t deps (d # ds) = Inr deps') \<longleftrightarrow>
        depType d \<noteq> '''' \<and> depType d \<noteq> t \<and> p = depPolarity d \<and> (\<exists>deps'. add_dependents t deps ds = Inr deps')"
      by simp
    define M where "M x \<longleftrightarrow> (\<forall>p. map_of deps (depType x) = Some p \<longrightarrow> p = depPolarity x)"
      for x :: DependentDefinition
    have "M d \<longleftrightarrow> p = depPolarity d" using Some by (simp add: M_def)
    moreover have "M e \<longleftrightarrow> p = depPolarity e" if "depType e = depType d" for e
      using that Some by (simp add: M_def)
    ultimately show ?thesis unfolding step Cons M_def [symmetric]
      by (simp only: list.set ball_simps simp_thms) (rule iffI; metis)
  qed
qed simp

section \<open>Properties\<close>

text \<open>
  C7: the aggregate always exists, is of the target type and has exactly one of three values:
  True when no considered condition is unhealthy, False when some considered condition is
  explicitly unhealthy, and Unknown when the only unhealthy ones are of unknown status.
\<close>

theorem aggregate_status:
  "\<exists>c. Aggregate (Some a) (Some cs) = Some c \<and> cType c = aTarget a \<and>
     cStatus c =
       (if \<exists>d\<in>set cs. shouldConsider a d \<and> \<not> isHealthy a d \<and> cStatus d \<noteq> ConditionUnknown then ConditionFalse
        else if \<exists>d\<in>set cs. shouldConsider a d \<and> \<not> isHealthy a d then ConditionUnknown
        else ConditionTrue)"
proof -
  obtain c where c: "Aggregate (Some a) (Some cs) = Some c" using Aggregate_not_None by blast
  from Aggregate_Some [OF c] show ?thesis
    unfolding c unhealthy_def explicit_unhealthy_def by (intro exI [of _ c]) auto
qed

text \<open>
  the aggregate is deterministic: neither the order of the conditions in the status nor the
  iteration order of the Go map of dependents changes it, and the dependents are listed in one
  order.
\<close>

theorem aggregate_order_independent:
  assumes "wf_aggregator a" and "unique_types cs" and "mset cs' = mset cs"
    and "mset deps = mset (aDependents a)"
  shows "Aggregate (Some (a\<lparr>aDependents := deps\<rparr>)) (Some cs') = Aggregate (Some a) (Some cs) \<and>
    Dependents (Some (a\<lparr>aDependents := deps\<rparr>)) = Dependents (Some a)"
proof -
  note m = dependents_map_of_order [OF assms(1,4)]
  let ?b = "a\<lparr>aDependents := deps\<rparr>"
  have hd: "hasDependent (Some ?b) = hasDependent (Some a)" by (rule ext) (simp add: hasDependent_def m)
  have pf: "polarityFor (Some ?b) = polarityFor (Some a)" by (rule ext) (simp add: polarityFor_def m)
  have "compareConditions (Some ?b) = compareConditions (Some a)"
    by (intro ext) (simp add: compareConditions_def priority_def hd Target_def)
  moreover have "shouldConsider ?b = shouldConsider a"
    using m(2) by (intro ext) (simp only: shouldConsider_def hd, simp)
  moreover have "isHealthy ?b = isHealthy a" by (rule ext) (simp add: isHealthy_def pf)
  ultimately have "unhealthy_loop ?b e u xs = unhealthy_loop a e u xs" for e u xs
    by (induction xs arbitrary: e u) simp_all
  then have "firstUnhealthyCondition ?b xs = firstUnhealthyCondition a xs" for xs
    using \<open>compareConditions (Some ?b) = compareConditions (Some a)\<close>
    by (simp add: firstUnhealthyCondition_def)
  then have "Aggregate (Some ?b) (Some cs') = Aggregate (Some a) (Some cs')"
    by (simp add: Aggregate_def split: option.splits)
  with Aggregate_order [OF assms(2) assms(3) [symmetric]] Dependents_order [OF assms(1,4)]
  show ?thesis by simp
qed

theorem aggregate_order_independent_witness:
  "Dependents (Some \<lparr>aTarget = ''R'', aDependents = [(''B'', ''''), (''A'', '''')]\<rparr>) =
     Dependents (Some \<lparr>aTarget = ''R'', aDependents = [(''A'', ''''), (''B'', '''')]\<rparr>)"
proof -
  let ?a = "\<lparr>aTarget = ''R'', aDependents = [(''A'', ''''), (''B'', '''')]\<rparr>"
  have wf: "wf_aggregator ?a" by (simp add: wf_aggregator_def)
  have u: "unique_types []" by (simp add: unique_types_def)
  have ms: "mset [(''B'', ''''), (''A'', '''')] = mset (aDependents ?a)" by simp
  show ?thesis using aggregate_order_independent [OF wf u refl ms] by simp
qed

text \<open>
  The constructor accepts a list of dependents exactly when no type is empty or the target and
  no type is given two polarities; an accepted aggregator has the given target, each listed type
  once with its polarity, and no other type.
\<close>

theorem NewAggregator_correct:
  "((\<exists>a. NewAggregator t ds = Inr a) \<longleftrightarrow>
      (\<forall>d\<in>set ds. depType d \<noteq> '''' \<and> depType d \<noteq> t \<and>
         (\<forall>e\<in>set ds. depType e = depType d \<longrightarrow> depPolarity e = depPolarity d))) \<and>
   (\<forall>a. NewAggregator t ds = Inr a \<longrightarrow> wf_aggregator a \<and> aTarget a = t \<and>
      (\<forall>d\<in>set ds. polarityFor (Some a) (depType d) = depPolarity d) \<and>
      (\<forall>x. hasDependent (Some a) x \<longleftrightarrow> x \<in> depType ` set ds))"
proof (intro conjI allI impI)
  have "(\<exists>a. NewAggregator t ds = Inr a) \<longleftrightarrow> (\<exists>deps. add_dependents t [] ds = Inr deps)"
    by (auto simp: NewAggregator_def split: sum.splits)
  then show "(\<exists>a. NewAggregator t ds = Inr a) \<longleftrightarrow>
      (\<forall>d\<in>set ds. depType d \<noteq> '''' \<and> depType d \<noteq> t \<and>
         (\<forall>e\<in>set ds. depType e = depType d \<longrightarrow> depPolarity e = depPolarity d))"
    by (simp add: add_dependents_Inr_iff)
  fix a
  assume a: "NewAggregator t ds = Inr a"
  then have deps: "add_dependents t [] ds = Inr (aDependents a)" by (simp add: NewAggregator_Inr)
  from a show "wf_aggregator a" "aTarget a = t" by (auto dest: NewAggregator_wf)
  show "\<forall>d\<in>set ds. polarityFor (Some a) (depType d) = depPolarity d"
    using add_dependents_registers [OF deps] by (simp add: polarityFor_def)
  show "hasDependent (Some a) x \<longleftrightarrow> x \<in> depType ` set ds" for x
    using add_dependents_only [OF deps] by (simp add: hasDependent_iff)
qed

theorem NewAggregator_correct_witness:
  "\<exists>a. NewAggregator ''R'' [Dependent ''A'' HealthyWhenTrue] = Inr a \<and> hasDependent (Some a) ''A''"
  using NewAggregator_correct [of "''R''" "[Dependent ''A'' HealthyWhenTrue]"] by (auto simp: Dependent_def)

end
