(* ===== verification/GoErrors.thy ===== *)
theory GoErrors
  imports Prelude
begin

text \<open>
  Go errors as the program uses them: leaf errors, \<^verbatim>\<open>fmt.Errorf("...: %w", err)\<close> chains,
  \<^verbatim>\<open>errors.Join\<close> trees, the API server's status errors, and the two marker errors of
  \<^verbatim>\<open>framework/controller/actions/errors/errors.go\<close>. \<^verbatim>\<open>errors.As\<close> walks the chain; its
  two uses in the program are \<open>as_stop\<close> and \<open>as_requeue\<close>. Decimal numbers and
  \<^verbatim>\<open>time.Duration\<close> print as the Go library prints them.
\<close>

section \<open>Decimal numbers\<close>

definition digit_char :: "nat \<Rightarrow> char" where
  "digit_char d = char_of (48 + d :: nat)"

fun nat_str :: "nat \<Rightarrow> string" where
  "nat_str n = (if n < 10 then [digit_char n] else nat_str (n div 10) @ [digit_char (n mod 10)])"

declare nat_str.simps [simp del]

text \<open>\<^verbatim>\<open>strconv.FormatInt(n, 10)\<close> and \<^verbatim>\<open>%d\<close>.\<close>

definition itoa :: "int \<Rightarrow> string" where
  "itoa n = (if n < 0 then CHR ''-'' # nat_str (nat (- n)) else nat_str (nat n))"

fun digits_value :: "nat \<Rightarrow> string \<Rightarrow> nat option" where
  "digits_value acc [] = Some acc"
| "digits_value acc (c # cs) =
     (if 48 \<le> (of_char c :: nat) \<and> of_char c \<le> (57 :: nat)
      then digits_value (10 * acc + (of_char c - 48)) cs else None)"

text \<open>
  \<^verbatim>\<open>strconv.Atoi\<close> / \<^verbatim>\<open>strconv.ParseInt(s, 10, 64)\<close>: an optional sign, one or more digits, in the
  64-bit range.
\<close>

definition in_int64 :: "int \<Rightarrow> bool" where
  "in_int64 n \<longleftrightarrow> - (2 ^ 63) \<le> n \<and> n < 2 ^ 63"

definition parse_int :: "string \<Rightarrow> int option" where
  "parse_int s =
     (let (neg, ds) = (case s of [] \<Rightarrow> (False, [])
                        | c # cs \<Rightarrow> if c = CHR ''-'' then (True, cs)
                                    else if c = CHR ''+'' then (False, cs) else (False, c # cs))
      in if ds = [] then None
         else case digits_value 0 ds of
                None \<Rightarrow> None
              | Some n \<Rightarrow> (let v = (if neg then - int n else int n) in if in_int64 v then Some v else None))"

lemma of_char_digit [simp]: "d < 10 \<Longrightarrow> (of_char (digit_char d) :: nat) = 48 + d"
  by (simp add: digit_char_def)

lemma digits_value_append:
  "digits_value acc (xs @ ys) = Option.bind (digits_value acc xs) (\<lambda>a. digits_value a ys)"
  by (induction xs arbitrary: acc) auto

lemma digits_value_digit [simp]: "d < 10 \<Longrightarrow> digits_value acc [digit_char d] = Some (10 * acc + d)"
  by simp

lemma digits_value_nat_str: "digits_value 0 (nat_str n) = Some n"
proof (induction n rule: nat_str.induct)
  case (1 n)
  show ?case
  proof (cases "n < 10")
    case True
    then show ?thesis by (simp add: nat_str.simps [of n] del: digits_value.simps)
  next
    case False
    then show ?thesis
      using 1 by (simp add: nat_str.simps [of n] digits_value_append del: digits_value.simps)
  qed
qed

lemma nat_str_not_Nil [simp]: "nat_str n \<noteq> []"
  by (subst nat_str.simps) simp

lemma nat_str_hd: "\<exists>d<10. hd (nat_str n) = digit_char d"
proof (induction n rule: nat_str.induct)
  case (1 n)
  show ?case
    using 1 by (cases "n < 10") (auto simp: nat_str.simps [of n] hd_append)
qed

lemma digit_char_not_sign [simp]: "d < 10 \<Longrightarrow> digit_char d \<noteq> CHR ''-''" "d < 10 \<Longrightarrow> digit_char d \<noteq> CHR ''+''"
  using of_char_digit [of d] by (auto simp del: of_char_digit)

lemma parse_int_itoa: "in_int64 n \<Longrightarrow> parse_int (itoa n) = Some n"
proof (cases "n < 0")
  case True
  assume "in_int64 n"
  with True show ?thesis by (simp add: parse_int_def itoa_def digits_value_nat_str)
next
  case False
  assume r: "in_int64 n"
  obtain c cs where eq: "nat_str (nat n) = c # cs" by (cases "nat_str (nat n)") auto
  with nat_str_hd [of "nat n"] have "c \<noteq> CHR ''-''" "c \<noteq> CHR ''+''" by auto
  then show ?thesis
    using False r digits_value_nat_str [of "nat n"]
    by (simp add: parse_int_def itoa_def eq del: digits_value.simps)
qed

section \<open>Letter case\<close>

text \<open>\<^verbatim>\<open>strings.ToLower\<close> on ASCII text.\<close>

definition lower_char :: "char \<Rightarrow> char" where
  "lower_char c = (let n = (of_char c :: nat) in if 65 \<le> n \<and> n \<le> 90 then char_of (n + 32) else c)"

definition to_lower :: "string \<Rightarrow> string" where
  "to_lower s = map lower_char s"

text \<open>\<^verbatim>\<open>strings.TrimSpace\<close> and \<^verbatim>\<open>strings.TrimPrefix\<close>, the former on ASCII text.\<close>

definition is_space :: "char \<Rightarrow> bool" where
  "is_space c = (let n = (of_char c :: nat) in n = 32 \<or> 9 \<le> n \<and> n \<le> 13)"

definition trim_space :: "string \<Rightarrow> string" where
  "trim_space s = rev (dropWhile is_space (rev (dropWhile is_space s)))"

definition trimmed :: "string \<Rightarrow> bool" where
  "trimmed s \<longleftrightarrow> s = '''' \<or> \<not> is_space (hd s) \<and> \<not> is_space (last s)"

lemma dropWhile_hd: "dropWhile P xs \<noteq> [] \<Longrightarrow> \<not> P (hd (dropWhile P xs))"
  by (induction xs) auto

lemma dropWhile_id: "xs = [] \<or> \<not> P (hd xs) \<Longrightarrow> dropWhile P xs = xs"
  by (cases xs) auto

lemma trim_space_trimmed: "trimmed (trim_space s)"
proof -
  let ?t = "dropWhile is_space s" and ?r = "dropWhile is_space (rev (dropWhile is_space s))"
  obtain ys where ys: "rev ?t = ys @ ?r" by (metis takeWhile_dropWhile_id)
  then have t: "?t = rev ?r @ rev ys" by (metis rev_append rev_rev_ident)
  show ?thesis
  proof (cases "?r = []")
    case False
    then have "\<not> is_space (hd (rev ?r))" using dropWhile_hd [of is_space s] t
      by (metis append_is_Nil_conv hd_append2 rev_is_Nil_conv)
    moreover have "\<not> is_space (last (rev ?r))" using False dropWhile_hd by (metis last_rev)
    ultimately show ?thesis by (simp add: trimmed_def trim_space_def)
  qed (simp add: trimmed_def trim_space_def)
qed

lemma trim_space_id: "trimmed s \<Longrightarrow> trim_space s = s"
  by (cases "s = []") (simp_all add: trim_space_def trimmed_def dropWhile_id hd_rev)

definition trim_prefix :: "string \<Rightarrow> string \<Rightarrow> string" where
  "trim_prefix s p = (if take (length p) s = p then drop (length p) s else s)"

text \<open>\<^verbatim>\<open>strings.HasPrefix\<close>, \<^verbatim>\<open>strings.HasSuffix\<close> and \<^verbatim>\<open>strings.Contains\<close>.\<close>

fun starts_with :: "string \<Rightarrow> string \<Rightarrow> bool" where
  "starts_with [] s = True"
| "starts_with (p # ps) [] = False"
| "starts_with (p # ps) (c # cs) = (p = c \<and> starts_with ps cs)"

definition has_suffix :: "string \<Rightarrow> string \<Rightarrow> bool" where
  "has_suffix p s = starts_with (rev p) (rev s)"

text \<open>\<^verbatim>\<open>strings.CutPrefix\<close> and \<^verbatim>\<open>strings.TrimSuffix\<close>.\<close>

definition cut_prefix :: "string \<Rightarrow> string \<Rightarrow> string option" where
  "cut_prefix p s = (if starts_with p s then Some (drop (length p) s) else None)"

definition trim_suffix :: "string \<Rightarrow> string \<Rightarrow> string" where
  "trim_suffix p s = (if has_suffix p s then take (length s - length p) s else s)"

fun contains_text :: "string \<Rightarrow> string \<Rightarrow> bool" where
  "contains_text p [] = (p = [])"
| "contains_text p (c # cs) = (starts_with p (c # cs) \<or> contains_text p cs)"

section \<open>Durations\<close>

text \<open>\<^verbatim>\<open>fmtFrac\<close>: the fraction of \<open>v / 10^p\<close> without trailing zeros, and the integer part.\<close>

fun fmt_frac :: "nat \<Rightarrow> bool \<Rightarrow> nat \<Rightarrow> string \<Rightarrow> string \<times> nat" where
  "fmt_frac 0 pr v acc = ((if pr then CHR ''.'' # acc else acc), v)"
| "fmt_frac (Suc p) pr v acc =
     (let d = v mod 10; pr' = (pr \<or> d \<noteq> 0)
      in fmt_frac p pr' (v div 10) (if pr' then digit_char d # acc else acc))"

definition fmt_prec :: "nat \<Rightarrow> nat \<Rightarrow> string \<Rightarrow> string" where
  "fmt_prec v p suffix = (let (fr, u) = fmt_frac p False v suffix in nat_str u @ fr)"

definition duration_str :: "duration \<Rightarrow> string" where
  "duration_str d =
     (let u = nat \<bar>d\<bar>;
          body = (if u = 0 then ''0s''
            else if u < 1000 then fmt_prec u 0 ''ns''
            else if u < 1000000 then fmt_prec u 3 [char_of (194 :: nat), char_of (181 :: nat), CHR ''s'']
            else if u < 1000000000 then fmt_prec u 6 ''ms''
            else let (fr, secs) = fmt_frac 9 False u ''s''; mins = secs div 60; hours = mins div 60
                 in (if hours > 0 then nat_str hours @ ''h'' else '''') @
                    (if mins > 0 then nat_str (mins mod 60) @ ''m'' else '''') @ nat_str (secs mod 60) @ fr)
      in (if d < 0 then CHR ''-'' # body else body))"

definition second :: duration where "second = 1000000000"

section \<open>Errors\<close>

datatype api_reason = NotFound | AlreadyExists | Conflict | Forbidden | OtherReason string

text \<open>
  The constructors after the marker errors are a sentinel of the Go library, compared by \<^verbatim>\<open>errors.Is\<close>, a
  \<^verbatim>\<open>*tls.CertificateVerificationError\<close>, a \<^verbatim>\<open>*net.OpError\<close> with its operation and the text before the wrapped
  error, a \<^verbatim>\<open>*net.DNSError\<close>, and the result of a format \<^verbatim>\<open>%w: %w\<close>, which wraps two errors.
\<close>

datatype go_error =
    ErrNew string
  | ErrWrap string go_error
  | ErrSuffix go_error string
  | ErrJoin "go_error list"
  | ErrAPI api_reason string
  | ErrNoMatch string
  | StopError go_error duration
  | RequeueAfterError duration
  | ErrSentinel string
  | ErrCert go_error
  | ErrOp string string go_error
  | ErrDNS string
  | ErrPair go_error go_error

fun join_with :: "string \<Rightarrow> string list \<Rightarrow> string" where
  "join_with sep [] = ''''"
| "join_with sep [x] = x"
| "join_with sep (x # y # ys) = x @ sep @ join_with sep (y # ys)"

primrec err_msg :: "go_error \<Rightarrow> string" where
  "err_msg (ErrNew s) = s"
| "err_msg (ErrWrap p e) = p @ '': '' @ err_msg e"
| "err_msg (ErrSuffix e s) = err_msg e @ s"
| "err_msg (ErrJoin es) = join_with [CHR 0x0A] (map err_msg es)"
| "err_msg (ErrAPI r s) = s"
| "err_msg (ErrNoMatch s) = s"
| "err_msg (StopError r d) = err_msg r"
| "err_msg (RequeueAfterError d) = ''requeue after '' @ duration_str d"
| "err_msg (ErrSentinel s) = s"
| "err_msg (ErrCert e) = ''tls: failed to verify certificate: '' @ err_msg e"
| "err_msg (ErrOp oper txt e) = txt @ '': '' @ err_msg e"
| "err_msg (ErrDNS s) = s"
| "err_msg (ErrPair e e') = err_msg e @ '': '' @ err_msg e'"

text \<open>The constructors of the marker errors.\<close>

definition NewStopErrorW :: "go_error \<Rightarrow> go_error" where
  "NewStopErrorW r = StopError r 0"

fun WithRequeueAfter :: "go_error \<Rightarrow> duration \<Rightarrow> go_error" where
  "WithRequeueAfter (StopError r d) v = StopError r v"
| "WithRequeueAfter e v = e"

definition NewRequeueAfterError :: "duration \<Rightarrow> go_error" where
  "NewRequeueAfterError d = RequeueAfterError d"

text \<open>
  \<^verbatim>\<open>errors.As(err, &StopError{})\<close> and \<^verbatim>\<open>errors.As(err, &RequeueAfterError{})\<close>: the first error of
  the tree, in depth-first order, that has the type. A \<^verbatim>\<open>StopError\<close> unwraps to its reason.
\<close>

fun first_some :: "'a option list \<Rightarrow> 'a option" where
  "first_some [] = None"
| "first_some (None # xs) = first_some xs"
| "first_some (Some x # xs) = Some x"

primrec as_stop :: "go_error \<Rightarrow> (go_error \<times> duration) option" where
  "as_stop (ErrNew s) = None"
| "as_stop (ErrWrap p e) = as_stop e"
| "as_stop (ErrSuffix e s) = as_stop e"
| "as_stop (ErrJoin es) = first_some (map as_stop es)"
| "as_stop (ErrAPI r s) = None"
| "as_stop (ErrNoMatch s) = None"
| "as_stop (StopError r d) = Some (r, d)"
| "as_stop (RequeueAfterError d) = None"
| "as_stop (ErrSentinel s) = None"
| "as_stop (ErrCert e) = as_stop e"
| "as_stop (ErrOp oper txt e) = as_stop e"
| "as_stop (ErrDNS s) = None"
| "as_stop (ErrPair e e') = first_some [as_stop e, as_stop e']"

primrec as_requeue :: "go_error \<Rightarrow> duration option" where
  "as_requeue (ErrNew s) = None"
| "as_requeue (ErrWrap p e) = as_requeue e"
| "as_requeue (ErrSuffix e s) = as_requeue e"
| "as_requeue (ErrJoin es) = first_some (map as_requeue es)"
| "as_requeue (ErrAPI r s) = None"
| "as_requeue (ErrNoMatch s) = None"
| "as_requeue (StopError r d) = as_requeue r"
| "as_requeue (RequeueAfterError d) = Some d"
| "as_requeue (ErrSentinel s) = None"
| "as_requeue (ErrCert e) = as_requeue e"
| "as_requeue (ErrOp oper txt e) = as_requeue e"
| "as_requeue (ErrDNS s) = None"
| "as_requeue (ErrPair e e') = first_some [as_requeue e, as_requeue e']"

text \<open>The reason of an API error, through wrapping: what \<^verbatim>\<open>IsNotFound\<close> and its kin look at.\<close>

primrec reason_for :: "go_error \<Rightarrow> api_reason option" where
  "reason_for (ErrNew s) = None"
| "reason_for (ErrWrap p e) = reason_for e"
| "reason_for (ErrSuffix e s) = reason_for e"
| "reason_for (ErrJoin es) = first_some (map reason_for es)"
| "reason_for (ErrAPI r s) = Some r"
| "reason_for (ErrNoMatch s) = None"
| "reason_for (StopError r d) = reason_for r"
| "reason_for (RequeueAfterError d) = None"
| "reason_for (ErrSentinel s) = None"
| "reason_for (ErrCert e) = reason_for e"
| "reason_for (ErrOp oper txt e) = reason_for e"
| "reason_for (ErrDNS s) = None"
| "reason_for (ErrPair e e') = first_some [reason_for e, reason_for e']"

primrec is_no_match :: "go_error \<Rightarrow> bool" where
  "is_no_match (ErrNew s) = False"
| "is_no_match (ErrWrap p e) = is_no_match e"
| "is_no_match (ErrSuffix e s) = is_no_match e"
| "is_no_match (ErrJoin es) = list_ex id (map is_no_match es)"
| "is_no_match (ErrAPI r s) = False"
| "is_no_match (ErrNoMatch s) = True"
| "is_no_match (StopError r d) = is_no_match r"
| "is_no_match (RequeueAfterError d) = False"
| "is_no_match (ErrSentinel s) = False"
| "is_no_match (ErrCert e) = is_no_match e"
| "is_no_match (ErrOp oper txt e) = is_no_match e"
| "is_no_match (ErrDNS s) = False"
| "is_no_match (ErrPair e e') = (is_no_match e \<or> is_no_match e')"

text \<open>\<^verbatim>\<open>errors.Is\<close> with a sentinel, and \<^verbatim>\<open>errors.As\<close> with the error types of the network stack.\<close>

primrec is_sentinel :: "string \<Rightarrow> go_error \<Rightarrow> bool" where
  "is_sentinel n (ErrNew s) = False"
| "is_sentinel n (ErrWrap p e) = is_sentinel n e"
| "is_sentinel n (ErrSuffix e s) = is_sentinel n e"
| "is_sentinel n (ErrJoin es) = list_ex id (map (is_sentinel n) es)"
| "is_sentinel n (ErrAPI r s) = False"
| "is_sentinel n (ErrNoMatch s) = False"
| "is_sentinel n (StopError r d) = is_sentinel n r"
| "is_sentinel n (RequeueAfterError d) = False"
| "is_sentinel n (ErrSentinel s) = (s = n)"
| "is_sentinel n (ErrCert e) = is_sentinel n e"
| "is_sentinel n (ErrOp oper txt e) = is_sentinel n e"
| "is_sentinel n (ErrDNS s) = False"
| "is_sentinel n (ErrPair e e') = (is_sentinel n e \<or> is_sentinel n e')"

primrec is_cert :: "go_error \<Rightarrow> bool" where
  "is_cert (ErrNew s) = False"
| "is_cert (ErrWrap p e) = is_cert e"
| "is_cert (ErrSuffix e s) = is_cert e"
| "is_cert (ErrJoin es) = list_ex id (map is_cert es)"
| "is_cert (ErrAPI r s) = False"
| "is_cert (ErrNoMatch s) = False"
| "is_cert (StopError r d) = is_cert r"
| "is_cert (RequeueAfterError d) = False"
| "is_cert (ErrSentinel s) = False"
| "is_cert (ErrCert e) = True"
| "is_cert (ErrOp oper txt e) = is_cert e"
| "is_cert (ErrDNS s) = False"
| "is_cert (ErrPair e e') = (is_cert e \<or> is_cert e')"

primrec as_op :: "go_error \<Rightarrow> (string \<times> go_error) option" where
  "as_op (ErrNew s) = None"
| "as_op (ErrWrap p e) = as_op e"
| "as_op (ErrSuffix e s) = as_op e"
| "as_op (ErrJoin es) = first_some (map as_op es)"
| "as_op (ErrAPI r s) = None"
| "as_op (ErrNoMatch s) = None"
| "as_op (StopError r d) = as_op r"
| "as_op (RequeueAfterError d) = None"
| "as_op (ErrSentinel s) = None"
| "as_op (ErrCert e) = as_op e"
| "as_op (ErrOp oper txt e) = Some (oper, e)"
| "as_op (ErrDNS s) = None"
| "as_op (ErrPair e e') = first_some [as_op e, as_op e']"

primrec is_dns :: "go_error \<Rightarrow> bool" where
  "is_dns (ErrNew s) = False"
| "is_dns (ErrWrap p e) = is_dns e"
| "is_dns (ErrSuffix e s) = is_dns e"
| "is_dns (ErrJoin es) = list_ex id (map is_dns es)"
| "is_dns (ErrAPI r s) = False"
| "is_dns (ErrNoMatch s) = False"
| "is_dns (StopError r d) = is_dns r"
| "is_dns (RequeueAfterError d) = False"
| "is_dns (ErrSentinel s) = False"
| "is_dns (ErrCert e) = is_dns e"
| "is_dns (ErrOp oper txt e) = is_dns e"
| "is_dns (ErrDNS s) = True"
| "is_dns (ErrPair e e') = (is_dns e \<or> is_dns e')"

definition IsNotFound :: "go_error \<Rightarrow> bool" where
  "IsNotFound e \<longleftrightarrow> reason_for e = Some NotFound"

definition IsAlreadyExists :: "go_error \<Rightarrow> bool" where
  "IsAlreadyExists e \<longleftrightarrow> reason_for e = Some AlreadyExists"

text \<open>\<^verbatim>\<open>client.IgnoreNotFound\<close>: nil (\<open>None\<close>) for a not-found error.\<close>

definition IgnoreNotFound :: "go_error option \<Rightarrow> go_error option" where
  "IgnoreNotFound eo = (case eo of None \<Rightarrow> None | Some e \<Rightarrow> if IsNotFound e then None else Some e)"

lemma IgnoreNotFound_simps [simp]:
  "IgnoreNotFound None = None" "IsNotFound e \<Longrightarrow> IgnoreNotFound (Some e) = None"
  "\<not> IsNotFound e \<Longrightarrow> IgnoreNotFound (Some e) = Some e"
  by (simp_all add: IgnoreNotFound_def)

lemma as_stop_wrap [simp]: "as_stop (NewStopErrorW r) = Some (r, 0)"
  by (simp add: NewStopErrorW_def)

text \<open>\<^verbatim>\<open>%q\<close> of a text that has no character to escape, and the error of \<^verbatim>\<open>strconv.Atoi\<close>.\<close>

definition quoted :: "string \<Rightarrow> string" where
  "quoted s = CHR 0x22 # s @ [CHR 0x22]"

definition atoi_error :: "string \<Rightarrow> go_error" where
  "atoi_error s =
     (let ds = (if s \<noteq> '''' \<and> (hd s = CHR ''-'' \<or> hd s = CHR ''+'') then tl s else s)
      in ErrNew (''strconv.Atoi: parsing '' @ quoted s @
           (if ds = '''' \<or> digits_value 0 ds = None then '': invalid syntax'' else '': value out of range'')))"

definition atoi :: "string \<Rightarrow> go_error + int" where
  "atoi s = (case parse_int s of None \<Rightarrow> Inl (atoi_error s) | Some n \<Rightarrow> Inr n)"

end
