(* ===== verification/FwManager.thy ===== *)
theory FwManager
  imports Aggregator GoErrors
begin

text \<open>
  \<^verbatim>\<open>framework/controller/conditions\<close>: the condition manager (\<^verbatim>\<open>conditions_manager.go\<close>) and the
  condition options (\<^verbatim>\<open>conditions.go\<close>). The manager's state is a record; the object behind its
  accessor is the list of conditions it holds, \<open>None\<close> for a nil accessor. \<^verbatim>\<open>time.Now()\<close> reads
  a clock: each write to the store takes the next reading.
\<close>

section \<open>State\<close>

record manager =
  mAggregator :: "aggregator option"
  mAccessor :: "condition list option"
  mActive :: "string set option"
  mClock :: "nat \<Rightarrow> gotime"
  mTicks :: nat

definition ConditionReasonNotSet :: string where
  "ConditionReasonNotSet = ''ConditionNotSet''"

section \<open>Options\<close>

type_synonym cond_option = "condition \<Rightarrow> condition"

definition WithReason :: "string \<Rightarrow> cond_option" where
  "WithReason v c = c\<lparr>cReason := v\<rparr>"

definition WithMessage :: "string \<Rightarrow> cond_option" where
  "WithMessage v c = c\<lparr>cMessage := v\<rparr>"

definition WithObservedGeneration :: "int \<Rightarrow> cond_option" where
  "WithObservedGeneration v c = c\<lparr>cObservedGeneration := v\<rparr>"

definition WithSeverity :: "string \<Rightarrow> cond_option" where
  "WithSeverity v c = c\<lparr>cSeverity := v\<rparr>"

definition WithError :: "go_error option \<Rightarrow> cond_option" where
  "WithError err c =
     (let c' = c\<lparr>cSeverity := ConditionSeverityError, cReason := ConditionReasonError\<rparr>
      in case err of None \<Rightarrow> c' | Some e \<Rightarrow> c'\<lparr>cMessage := err_msg e\<rparr>)"

definition applyOpts :: "condition \<Rightarrow> cond_option list \<Rightarrow> condition" where
  "applyOpts c opts = foldl (\<lambda>c f. f c) c opts"

lemmas option_defs [go_defs] = WithReason_def WithMessage_def WithObservedGeneration_def
  WithSeverity_def WithError_def applyOpts_def

section \<open>Operations\<close>

text \<open>A write through the accessor; the callers have checked that it is not nil.\<close>

definition put_condition :: "manager \<Rightarrow> condition list \<Rightarrow> condition \<Rightarrow> manager \<times> bool" where
  "put_condition m cs c =
     (let (cs', changed) = SetStatusCondition (mClock m (mTicks m)) cs c
      in (m\<lparr>mAccessor := Some cs', mTicks := Suc (mTicks m)\<rparr>, changed))"

definition GetCondition :: "manager \<Rightarrow> string \<Rightarrow> condition option run" where
  "GetCondition m t = (case mAccessor m of None \<Rightarrow> Panic | Some cs \<Rightarrow> Done (FindStatusCondition cs t))"

definition GetTopLevelCondition :: "manager \<Rightarrow> condition option run" where
  "GetTopLevelCondition m =
     (if mAggregator m = None then Done None else GetCondition m (Target (mAggregator m)))"

definition IsHappy :: "manager \<Rightarrow> bool" where
  "IsHappy m =
     (if mAccessor m = None \<or> mAggregator m = None then False
      else IsStatusConditionTrue (the (mAccessor m)) (Target (mAggregator m)))"

definition RecomputeHappiness :: "manager \<Rightarrow> manager" where
  "RecomputeHappiness m =
     (if mAggregator m = None then m
      else case Aggregate (mAggregator m) (mAccessor m) of
             None \<Rightarrow> m
           | Some c \<Rightarrow> (case mAccessor m of None \<Rightarrow> m | Some cs \<Rightarrow> fst (put_condition m cs c)))"

definition SetCondition :: "manager \<Rightarrow> condition \<Rightarrow> manager" where
  "SetCondition m c =
     (case mAccessor m of
        None \<Rightarrow> m
      | Some cs \<Rightarrow>
          let m1 = (case mActive m of None \<Rightarrow> m | Some act \<Rightarrow> m\<lparr>mActive := Some (insert (cType c) act)\<rparr>);
              (m2, changed) = put_condition m1 cs c
          in if \<not> changed then m2
             else if mAggregator m2 = None \<or> cType c = Target (mAggregator m2) then m2
             else RecomputeHappiness m2)"

definition ClearCondition :: "manager \<Rightarrow> string \<Rightarrow> manager" where
  "ClearCondition m t =
     (case mAccessor m of
        None \<Rightarrow> m
      | Some cs \<Rightarrow>
          let (cs', removed) = RemoveStatusCondition cs t
          in if \<not> removed then m else RecomputeHappiness (m\<lparr>mAccessor := Some cs'\<rparr>))"

fun initialize_dependents :: "manager \<Rightarrow> DependentDefinition list \<Rightarrow> manager run" where
  "initialize_dependents m [] = Done m"
| "initialize_dependents m (d # ds) =
     bind_run (GetCondition m (depType d)) (\<lambda>found.
       if found \<noteq> None then initialize_dependents m ds
       else initialize_dependents (SetCondition m (new_condition (depType d) ConditionUnknown)) ds)"

definition initializeConditions :: "manager \<Rightarrow> manager run" where
  "initializeConditions m =
     (if mAggregator m = None then Done m
      else let target = Target (mAggregator m)
           in bind_run (GetCondition m target) (\<lambda>found.
                initialize_dependents
                  (if found = None then SetCondition m (new_condition target ConditionUnknown) else m)
                  (Dependents (mAggregator m))))"

definition NewManager :: "(nat \<Rightarrow> gotime) \<Rightarrow> nat \<Rightarrow> condition list option \<Rightarrow> aggregator option \<Rightarrow> manager run" where
  "NewManager clock ticks accessor agg =
     initializeConditions \<lparr>mAggregator = agg, mAccessor = accessor, mActive = None, mClock = clock, mTicks = ticks\<rparr>"

definition Mark :: "manager \<Rightarrow> string \<Rightarrow> string \<Rightarrow> cond_option list \<Rightarrow> manager" where
  "Mark m t s opts = SetCondition m (applyOpts (new_condition t s) opts)"

definition MarkTrue :: "manager \<Rightarrow> string \<Rightarrow> cond_option list \<Rightarrow> manager" where
  "MarkTrue m t opts = Mark m t ConditionTrue opts"

definition MarkFalse :: "manager \<Rightarrow> string \<Rightarrow> cond_option list \<Rightarrow> manager" where
  "MarkFalse m t opts = Mark m t ConditionFalse opts"

definition MarkUnknown :: "manager \<Rightarrow> string \<Rightarrow> cond_option list \<Rightarrow> manager" where
  "MarkUnknown m t opts = Mark m t ConditionUnknown opts"

definition MarkHealthy :: "manager \<Rightarrow> string \<Rightarrow> cond_option list \<Rightarrow> manager" where
  "MarkHealthy m t opts =
     (let polarity = (if mAggregator m \<noteq> None then polarityFor (mAggregator m) t else HealthyWhenTrue)
      in if polarity = HealthyWhenFalse then MarkFalse m t opts else MarkTrue m t opts)"

definition MarkUnhealthy :: "manager \<Rightarrow> string \<Rightarrow> cond_option list \<Rightarrow> manager" where
  "MarkUnhealthy m t opts =
     (let polarity = (if mAggregator m \<noteq> None then polarityFor (mAggregator m) t else HealthyWhenTrue)
      in if polarity = HealthyWhenFalse then MarkTrue m t opts else MarkFalse m t opts)"

definition MarkFrom :: "manager \<Rightarrow> string \<Rightarrow> condition \<Rightarrow> manager" where
  "MarkFrom m t c =
     SetCondition m ((new_condition t (cStatus c))
       \<lparr>cReason := cReason c, cMessage := cMessage c, cSeverity := cSeverity c\<rparr>)"

definition Reset :: "manager \<Rightarrow> manager" where
  "Reset m = m\<lparr>mActive := Some {}\<rparr>"

definition not_set_condition :: "aggregator option \<Rightarrow> string \<Rightarrow> condition" where
  "not_set_condition ao t =
     (new_condition t (if polarityFor ao t = HealthyWhenFalse then ConditionTrue else ConditionFalse))
       \<lparr>cSeverity := ConditionSeverityError, cReason := ConditionReasonNotSet,
        cMessage := ''condition '' @ t @ '' was not set during reconciliation''\<rparr>"

fun cleanup_dependents ::
  "string set \<Rightarrow> manager \<Rightarrow> condition list \<Rightarrow> bool \<Rightarrow> DependentDefinition list \<Rightarrow> manager \<times> condition list \<times> bool" where
  "cleanup_dependents act m cs changed [] = (m, cs, changed)"
| "cleanup_dependents act m cs changed (d # ds) =
     (if depType d \<in> act then cleanup_dependents act m cs changed ds
      else let (m', ch) = put_condition m cs (not_set_condition (mAggregator m) (depType d))
           in cleanup_dependents act m' (the (mAccessor m')) (changed \<or> ch) ds)"

definition stale_types :: "aggregator option \<Rightarrow> string set \<Rightarrow> condition list \<Rightarrow> string list" where
  "stale_types ao act cs =
     map cType (filter (\<lambda>c. \<not> (cType c = Target ao) \<and> \<not> hasDependent ao (cType c) \<and> cType c \<notin> act) cs)"

definition CleanupStaleConditions :: "manager \<Rightarrow> manager" where
  "CleanupStaleConditions m =
     (case (mAccessor m, mActive m) of
        (Some cs, Some act) \<Rightarrow>
          if mAggregator m = None then m
          else let (m1, cs1, changed) = cleanup_dependents act m cs False (Dependents (mAggregator m));
                   toRemove = stale_types (mAggregator m) act cs1;
                   cs2 = foldl (\<lambda>xs t. fst (RemoveStatusCondition xs t)) cs1 toRemove;
                   m2 = m1\<lparr>mAccessor := Some cs2\<rparr>
               in if length toRemove > 0 \<or> changed then RecomputeHappiness m2 else m2
      | _ \<Rightarrow> m)"

definition Sort :: "manager \<Rightarrow> manager run" where
  "Sort m = (case mAccessor m of
     None \<Rightarrow> Panic
   | Some cs \<Rightarrow> if length cs \<le> 1 then Done m
       else Done (m\<lparr>mAccessor := Some (sort_stable_func (compareConditions (mAggregator m)) cs)\<rparr>))"

section \<open>Well-formed and synchronised managers\<close>

text \<open>
  A manager is well formed when its aggregator is one that \<^verbatim>\<open>NewAggregator\<close> returns and its
  conditions have unique types. It is synchronised when the target condition says what the
  aggregator derives from the others.
\<close>

abbreviation conds_of :: "manager \<Rightarrow> condition list" where
  "conds_of m \<equiv> the (mAccessor m)"

definition wf_manager :: "aggregator \<Rightarrow> manager \<Rightarrow> bool" where
  "wf_manager a m \<longleftrightarrow> mAggregator m = Some a \<and> wf_aggregator a \<and>
     (\<exists>cs. mAccessor m = Some cs \<and> unique_types cs)"

definition synced :: "manager \<Rightarrow> bool" where
  "synced m \<longleftrightarrow> (\<exists>c d. Aggregate (mAggregator m) (mAccessor m) = Some c \<and>
     FindStatusCondition (conds_of m) (Target (mAggregator m)) = Some d \<and> equals d c)"

lemma put_condition_simps [simp]:
  "mAggregator (fst (put_condition m cs c)) = mAggregator m"
  "mActive (fst (put_condition m cs c)) = mActive m"
  "mAccessor (fst (put_condition m cs c)) = Some (fst (SetStatusCondition (mClock m (mTicks m)) cs c))"
  "snd (put_condition m cs c) = snd (SetStatusCondition (mClock m (mTicks m)) cs c)"
  by (simp_all add: put_condition_def split: prod.splits)

lemma Target_Some [simp]: "Target (Some a) = aTarget a"
  by (simp add: Target_def)

lemma wf_managerE:
  assumes "wf_manager a m"
  obtains cs where "mAggregator m = Some a" "mAccessor m = Some cs" "unique_types cs" "wf_aggregator a"
  using assms by (auto simp: wf_manager_def)

lemma RecomputeHappiness_Some:
  assumes "mAggregator m = Some a" and "mAccessor m = Some cs"
  obtains c where "Aggregate (Some a) (Some cs) = Some c" "cType c = aTarget a"
    "RecomputeHappiness m = fst (put_condition m cs c)"
  using assms Aggregate_not_None [of a cs] Aggregate_Some [of a cs] by (auto simp: RecomputeHappiness_def)

lemma Aggregate_put_target:
  assumes "cType c = aTarget a"
  shows "Aggregate (Some a) (Some (fst (SetStatusCondition now cs c))) = Aggregate (Some a) (Some cs)"
proof -
  have no: "\<not> shouldConsider a d" if "cType d = cType c" for d
    using that assms by (simp add: shouldConsider_def)
  have "filter (shouldConsider a) (fst (SetStatusCondition now cs c)) = filter (shouldConsider a) cs"
  proof (cases "find_first cType (cType c) cs")
    case None
    then show ?thesis by (simp add: SetStatusCondition_cases no)
  next
    case (Some d)
    then have "cType (merged now (Some d) c) = cType c"
      by (simp add: merged_type find_first_Some_key [OF Some])
    with Some show ?thesis by (simp add: SetStatusCondition_cases no filter_upsert)
  qed
  then have "firstUnhealthyCondition a (fst (SetStatusCondition now cs c)) = firstUnhealthyCondition a cs"
    by (metis firstUnhealthy_considered)
  then show ?thesis by (simp add: Aggregate_def)
qed

lemma put_condition_wf: "wf_manager a m \<Longrightarrow> mAccessor m = Some cs \<Longrightarrow> wf_manager a (fst (put_condition m cs c))"
  by (auto simp: wf_manager_def put_unique_types)

lemma RecomputeHappiness_wf [intro]: "wf_manager a m \<Longrightarrow> wf_manager a (RecomputeHappiness m)"
  by (metis RecomputeHappiness_Some put_condition_wf wf_managerE)

lemma RecomputeHappiness_synced:
  assumes "wf_manager a m"
  shows "synced (RecomputeHappiness m)"
proof -
  from assms obtain cs where m: "mAggregator m = Some a" "mAccessor m = Some cs" by (rule wf_managerE)
  then obtain c where c: "Aggregate (Some a) (Some cs) = Some c" "cType c = aTarget a"
    and r: "RecomputeHappiness m = fst (put_condition m cs c)"
    by (rule RecomputeHappiness_Some)
  show ?thesis
    using c m unfolding r synced_def
    by (auto simp: Aggregate_put_target FindStatusCondition_find_first put_find_first)
qed

lemma RecomputeHappiness_frame [simp]:
  "mAggregator (RecomputeHappiness m) = mAggregator m" "mActive (RecomputeHappiness m) = mActive m"
  by (auto simp: RecomputeHappiness_def split: option.splits)

text \<open>The target is the only condition a recomputation writes.\<close>

lemma RecomputeHappiness_lookup:
  assumes "wf_manager a m" and "t \<noteq> aTarget a"
  shows "FindStatusCondition (conds_of (RecomputeHappiness m)) t = FindStatusCondition (conds_of m) t"
proof -
  from assms(1) obtain cs where m: "mAggregator m = Some a" "mAccessor m = Some cs" by (rule wf_managerE)
  from m obtain c where "cType c = aTarget a" "RecomputeHappiness m = fst (put_condition m cs c)"
    by (rule RecomputeHappiness_Some)
  with assms(2) m show ?thesis by (simp add: fw.lookup_put)
qed

text \<open>In a synchronised manager, happiness is the health of every considered condition.\<close>

lemma IsHappy_iff:
  assumes "wf_manager a m" and "synced m"
  shows "IsHappy m \<longleftrightarrow> (\<forall>d\<in>set (conds_of m). \<not> unhealthy a d)"
proof -
  from assms(1) obtain cs where m: "mAggregator m = Some a" "mAccessor m = Some cs" "unique_types cs"
    by (rule wf_managerE)
  from assms(2) m obtain c d where c: "Aggregate (Some a) (Some cs) = Some c"
    and d: "FindStatusCondition cs (aTarget a) = Some d" and "equals d c"
    by (auto simp: synced_def)
  then have "cStatus d = cStatus c" by (simp add: equals_def)
  with m d have "IsHappy m \<longleftrightarrow> cStatus c = ConditionTrue"
    by (simp add: IsHappy_def IsStatusConditionTrue_def present_and_equal_iff)
  with Aggregate_Some [OF c] m show ?thesis by simp
qed

section \<open>Every operation keeps the invariants\<close>

definition mark_active :: "manager \<Rightarrow> string \<Rightarrow> manager" where
  "mark_active m t = (case mActive m of None \<Rightarrow> m | Some act \<Rightarrow> m\<lparr>mActive := Some (insert t act)\<rparr>)"

lemma mark_active_simps [simp]:
  "mAggregator (mark_active m t) = mAggregator m" "mAccessor (mark_active m t) = mAccessor m"
  "mActive (mark_active m t) = map_option (insert t) (mActive m)"
  "mClock (mark_active m t) = mClock m" "mTicks (mark_active m t) = mTicks m"
  by (auto simp: mark_active_def split: option.splits)

lemma SetCondition_Some:
  assumes "mAccessor m = Some cs"
  shows "SetCondition m c =
    (let p = put_condition (mark_active m (cType c)) cs c
     in if snd p \<and> mAggregator m \<noteq> None \<and> cType c \<noteq> Target (mAggregator m)
        then RecomputeHappiness (fst p) else fst p)"
proof -
  have "SetCondition m c =
    (let p = put_condition (mark_active m (cType c)) cs c
     in if \<not> snd p then fst p
        else if mAggregator (fst p) = None \<or> cType c = Target (mAggregator (fst p)) then fst p
        else RecomputeHappiness (fst p))"
    using assms by (simp add: SetCondition_def mark_active_def [symmetric] case_prod_beta Let_def)
  then show ?thesis by (auto simp: Let_def)
qed

lemma SetCondition_active:
  "mAccessor m = Some cs \<Longrightarrow> mActive (SetCondition m c) = map_option (insert (cType c)) (mActive m)"
  by (simp add: SetCondition_Some Let_def)

lemma SetCondition_aggregator [simp]: "mAggregator (SetCondition m c) = mAggregator m"
  by (cases "mAccessor m") (simp_all add: SetCondition_Some Let_def, simp add: SetCondition_def)

lemma mark_active_wf [simp]: "wf_manager a (mark_active m t) = wf_manager a m"
  by (simp add: wf_manager_def)

lemma SetCondition_wf:
  assumes "wf_manager a m"
  shows "wf_manager a (SetCondition m c)"
proof -
  from assms obtain cs where "mAccessor m = Some cs" by (rule wf_managerE)
  moreover from this assms have "wf_manager a (fst (put_condition (mark_active m (cType c)) cs c))"
    by (simp add: put_condition_wf)
  ultimately show ?thesis by (simp add: SetCondition_Some Let_def RecomputeHappiness_wf)
qed

lemma SetCondition_synced:
  assumes "wf_manager a m" and "synced m" and "cType c \<noteq> aTarget a"
  shows "synced (SetCondition m c)"
proof -
  from assms(1) obtain cs where m: "mAccessor m = Some cs" "mAggregator m = Some a" by (rule wf_managerE)
  let ?p = "put_condition (mark_active m (cType c)) cs c"
  show ?thesis
  proof (cases "snd ?p")
    case True
    with m assms(3) have "SetCondition m c = RecomputeHappiness (fst ?p)"
      by (simp add: SetCondition_Some Let_def)
    moreover have "wf_manager a (fst ?p)" using assms(1) m by (simp add: put_condition_wf)
    ultimately show ?thesis by (simp add: RecomputeHappiness_synced)
  next
    case False
    then have "fst (SetStatusCondition (mClock m (mTicks m)) cs c) = cs"
      by (simp add: put_changed_iff)
    moreover from False m have "SetCondition m c = fst ?p" by (simp add: SetCondition_Some Let_def)
    ultimately show ?thesis using assms(2) m by (simp add: synced_def)
  qed
qed

text \<open>A written condition reads back, and the others keep their values, the target apart.\<close>

lemma SetCondition_reads_back:
  assumes "wf_manager a m" and "cType c \<noteq> aTarget a"
  shows "\<exists>d. FindStatusCondition (conds_of (SetCondition m c)) (cType c) = Some d \<and> equals d c"
proof -
  from assms(1) obtain cs where m: "mAccessor m = Some cs" "mAggregator m = Some a" by (rule wf_managerE)
  let ?p = "put_condition (mark_active m (cType c)) cs c"
  have "wf_manager a (fst ?p)" using assms(1) m by (simp add: put_condition_wf)
  with assms(2) m have "FindStatusCondition (conds_of (SetCondition m c)) (cType c) =
      FindStatusCondition (conds_of (fst ?p)) (cType c)"
    by (simp add: SetCondition_Some Let_def RecomputeHappiness_lookup)
  then show ?thesis by (simp add: fw.lookup_put)
qed

lemma SetCondition_frame:
  assumes "wf_manager a m" and "t \<noteq> cType c" and "t \<noteq> aTarget a"
  shows "FindStatusCondition (conds_of (SetCondition m c)) t = FindStatusCondition (conds_of m) t"
proof -
  from assms(1) obtain cs where m: "mAccessor m = Some cs" "mAggregator m = Some a" by (rule wf_managerE)
  let ?p = "put_condition (mark_active m (cType c)) cs c"
  have "wf_manager a (fst ?p)" using assms(1) m by (simp add: put_condition_wf)
  with assms(2,3) m have "FindStatusCondition (conds_of (SetCondition m c)) t =
      FindStatusCondition (conds_of (fst ?p)) t"
    by (simp add: SetCondition_Some Let_def RecomputeHappiness_lookup)
  with assms(2) m show ?thesis by (simp add: fw.lookup_put)
qed

lemma ClearCondition_result:
  assumes "wf_manager a m"
  shows "wf_manager a (ClearCondition m t)" and "synced m \<Longrightarrow> synced (ClearCondition m t)"
    and "t \<noteq> aTarget a \<Longrightarrow> FindStatusCondition (conds_of (ClearCondition m t)) t = None"
proof -
  from assms obtain cs where m: "mAccessor m = Some cs" "mAggregator m = Some a" "unique_types cs"
    "wf_aggregator a" by (rule wf_managerE)
  let ?cs = "delete_key cType t cs"
  let ?m = "m\<lparr>mAccessor := Some ?cs\<rparr>"
  have eq: "ClearCondition m t =
      (if find_first cType t cs = None then m else RecomputeHappiness ?m)"
    using m by (simp add: ClearCondition_def RemoveStatusCondition_delete)
  have wf: "wf_manager a ?m" using m by (simp add: wf_manager_def delete_key_unique)
  then show "wf_manager a (ClearCondition m t)" using assms by (auto simp: eq)
  show "synced (ClearCondition m t)" if "synced m"
    using that RecomputeHappiness_synced [OF wf] by (simp add: eq)
  show "FindStatusCondition (conds_of (ClearCondition m t)) t = None" if "t \<noteq> aTarget a"
    using that m RecomputeHappiness_lookup [OF wf that]
    by (simp add: eq FindStatusCondition_find_first find_first_delete)
qed

section \<open>Cleaning up stale conditions\<close>

lemma not_set_sel [simp]:
  "cType (not_set_condition ao t) = t" "cReason (not_set_condition ao t) = ConditionReasonNotSet"
  "cSeverity (not_set_condition ao t) = ConditionSeverityError"
  "cStatus (not_set_condition ao t) =
     (if polarityFor ao t = HealthyWhenFalse then ConditionTrue else ConditionFalse)"
  by (simp_all add: not_set_condition_def)

text \<open>What the loop over the dependents leaves behind.\<close>

lemma cleanup_dependents_result:
  assumes "cleanup_dependents act m cs ch ds = (m', cs', ch')" and "mAccessor m = Some cs"
  shows "mAccessor m' = Some cs' \<and> mAggregator m' = mAggregator m \<and> mActive m' = mActive m \<and>
    (unique_types cs \<longrightarrow> unique_types cs') \<and> (\<not> ch' \<longrightarrow> \<not> ch \<and> cs' = cs)"
  using assms
proof (induction ds arbitrary: m cs ch)
  case (Cons d ds)
  show ?case
  proof (cases "depType d \<in> act")
    case False
    let ?p = "put_condition m cs (not_set_condition (mAggregator m) (depType d))"
    have "cleanup_dependents act (fst ?p) (conds_of (fst ?p)) (ch \<or> snd ?p) ds = (m', cs', ch')"
      using False Cons.prems(1) by (simp add: case_prod_beta Let_def)
    from Cons.IH [OF this] show ?thesis by (auto simp: put_unique_types put_changed_iff)
  qed (use Cons in auto)
qed simp

lemma cleanup_dependents_keeps:
  assumes "cleanup_dependents act m cs ch ds = (m', cs', ch')" and "mAccessor m = Some cs"
    and "t \<notin> depType ` set ds \<or> t \<in> act"
  shows "find_first cType t cs' = find_first cType t cs"
  using assms
proof (induction ds arbitrary: m cs ch)
  case (Cons d ds)
  show ?case
  proof (cases "depType d \<in> act")
    case False
    let ?p = "put_condition m cs (not_set_condition (mAggregator m) (depType d))"
    have "cleanup_dependents act (fst ?p) (conds_of (fst ?p)) (ch \<or> snd ?p) ds = (m', cs', ch')"
      using False Cons.prems(1) by (simp add: case_prod_beta Let_def)
    from Cons.IH [OF this] Cons.prems(3) False show ?thesis by (auto simp: put_find_first)
  qed (use Cons in auto)
qed simp

lemma cleanup_dependents_marks:
  assumes "cleanup_dependents act m cs ch ds = (m', cs', ch')" and "mAccessor m = Some cs"
    and "t \<notin> act"
    and "t \<in> depType ` set ds \<or>
      (\<exists>e. find_first cType t cs = Some e \<and> equals e (not_set_condition (mAggregator m) t))"
  shows "\<exists>e. find_first cType t cs' = Some e \<and> equals e (not_set_condition (mAggregator m) t)"
  using assms
proof (induction ds arbitrary: m cs ch)
  case (Cons d ds)
  show ?case
  proof (cases "depType d \<in> act")
    case True
    with Cons show ?thesis by auto
  next
    case False
    let ?p = "put_condition m cs (not_set_condition (mAggregator m) (depType d))"
    have step: "cleanup_dependents act (fst ?p) (conds_of (fst ?p)) (ch \<or> snd ?p) ds = (m', cs', ch')"
      using False Cons.prems(1) by (simp add: case_prod_beta Let_def)
    have "t \<in> depType ` set ds \<or> (\<exists>e. find_first cType t (conds_of (fst ?p)) = Some e \<and>
        equals e (not_set_condition (mAggregator m) t))"
      using Cons.prems(4) by (cases "t = depType d") (auto simp: put_find_first)
    with Cons.IH [OF step] Cons.prems(3) show ?thesis by simp
  qed
qed simp

lemma foldl_remove_lookup:
  "find_first cType t (foldl (\<lambda>xs u. fst (RemoveStatusCondition xs u)) cs us) =
     (if t \<in> set us then None else find_first cType t cs)"
  by (induction us arbitrary: cs) (auto simp: RemoveStatusCondition_delete find_first_delete)

lemma foldl_remove_unique:
  "unique_types cs \<Longrightarrow> unique_types (foldl (\<lambda>xs u. fst (RemoveStatusCondition xs u)) cs us)"
  by (induction us arbitrary: cs) (auto simp: RemoveStatusCondition_delete delete_key_unique)

text \<open>The stages of the cleanup, named once for the proofs below.\<close>

lemma CleanupStaleConditions_stages:
  assumes "wf_manager a m" and "mActive m = Some act"
  obtains cs m1 cs1 changed cs2 m2 where
    "mAccessor m = Some cs"
    "cleanup_dependents act m cs False (Dependents (Some a)) = (m1, cs1, changed)"
    "cs2 = foldl (\<lambda>xs u. fst (RemoveStatusCondition xs u)) cs1 (stale_types (Some a) act cs1)"
    "m2 = m1\<lparr>mAccessor := Some cs2\<rparr>" "wf_manager a m2" "unique_types cs1"
    "CleanupStaleConditions m =
      (if stale_types (Some a) act cs1 \<noteq> [] \<or> changed then RecomputeHappiness m2 else m2)"
proof -
  from assms(1) obtain cs where m: "mAccessor m = Some cs" "mAggregator m = Some a" "unique_types cs"
    "wf_aggregator a" by (rule wf_managerE)
  obtain m1 cs1 changed where c: "cleanup_dependents act m cs False (Dependents (Some a)) = (m1, cs1, changed)"
    by (metis prod_cases3)
  from cleanup_dependents_result [OF c m(1)] m
  have r: "mAggregator m1 = Some a" "unique_types cs1" by auto
  let ?cs2 = "foldl (\<lambda>xs u. fst (RemoveStatusCondition xs u)) cs1 (stale_types (Some a) act cs1)"
  have "wf_manager a (m1\<lparr>mAccessor := Some ?cs2\<rparr>)"
    using r m by (simp add: wf_manager_def foldl_remove_unique)
  moreover have "CleanupStaleConditions m = (if stale_types (Some a) act cs1 \<noteq> [] \<or> changed
      then RecomputeHappiness (m1\<lparr>mAccessor := Some ?cs2\<rparr>) else m1\<lparr>mAccessor := Some ?cs2\<rparr>)"
    using m assms(2) c by (simp add: CleanupStaleConditions_def Let_def)
  ultimately show thesis using that [OF m(1) c refl refl] r(2) by blast
qed

lemma stale_types_iff:
  "t \<in> set (stale_types ao act cs) \<longleftrightarrow>
     t \<in> cType ` set cs \<and> t \<noteq> Target ao \<and> \<not> hasDependent ao t \<and> t \<notin> act"
  by (auto simp: stale_types_def)

lemma Cleanup_lookup:
  assumes "wf_manager a m" and "mActive m = Some act" and "t \<noteq> aTarget a"
  shows "t \<in> act \<Longrightarrow> FindStatusCondition (conds_of (CleanupStaleConditions m)) t = FindStatusCondition (conds_of m) t"
    and "t \<notin> act \<Longrightarrow> \<not> hasDependent (Some a) t \<Longrightarrow>
      FindStatusCondition (conds_of (CleanupStaleConditions m)) t = None"
    and "hasDependent (Some a) t \<Longrightarrow> t \<notin> act \<Longrightarrow>
      \<exists>e. FindStatusCondition (conds_of (CleanupStaleConditions m)) t = Some e \<and>
          equals e (not_set_condition (Some a) t)"
proof -
  from assms(1) have agg: "mAggregator m = Some a" by (simp add: wf_manager_def)
  from assms(1,2) obtain cs m1 cs1 changed cs2 m2 where st:
    "mAccessor m = Some cs"
    "cleanup_dependents act m cs False (Dependents (Some a)) = (m1, cs1, changed)"
    "cs2 = foldl (\<lambda>xs u. fst (RemoveStatusCondition xs u)) cs1 (stale_types (Some a) act cs1)"
    "m2 = m1\<lparr>mAccessor := Some cs2\<rparr>" "wf_manager a m2"
    and cl: "CleanupStaleConditions m =
      (if stale_types (Some a) act cs1 \<noteq> [] \<or> changed then RecomputeHappiness m2 else m2)"
    by (rule CleanupStaleConditions_stages)
  have look: "FindStatusCondition (conds_of (CleanupStaleConditions m)) t =
      (if t \<in> set (stale_types (Some a) act cs1) then None else find_first cType t cs1)"
    using RecomputeHappiness_lookup [OF st(5) assms(3)] st(3,4)
    by (simp add: cl FindStatusCondition_find_first foldl_remove_lookup)
  show "FindStatusCondition (conds_of (CleanupStaleConditions m)) t = FindStatusCondition (conds_of m) t"
    if "t \<in> act"
    using cleanup_dependents_keeps [OF st(2,1)] that look st(1)
    by (simp add: stale_types_iff FindStatusCondition_find_first)
  show "FindStatusCondition (conds_of (CleanupStaleConditions m)) t = None"
    if "t \<notin> act" "\<not> hasDependent (Some a) t"
    using that assms(3) look by (auto simp: stale_types_iff find_first_None_iff)
  assume dep: "hasDependent (Some a) t" "t \<notin> act"
  then have "t \<in> depType ` set (Dependents (Some a))" by (simp add: Dependents_types hasDependent_iff)
  from cleanup_dependents_marks [OF st(2,1) dep(2)] this look dep agg
  show "\<exists>e. FindStatusCondition (conds_of (CleanupStaleConditions m)) t = Some e \<and>
      equals e (not_set_condition (Some a) t)"
    by (simp add: stale_types_iff)
qed

lemma Cleanup_wf: "wf_manager a m \<Longrightarrow> mActive m = Some act \<Longrightarrow> wf_manager a (CleanupStaleConditions m)"
  by (erule (1) CleanupStaleConditions_stages) auto

lemma Cleanup_synced:
  assumes "wf_manager a m" and "mActive m = Some act" and "synced m"
  shows "synced (CleanupStaleConditions m)"
proof -
  from assms(1,2) obtain cs m1 cs1 changed cs2 m2 where st:
    "mAccessor m = Some cs"
    "cleanup_dependents act m cs False (Dependents (Some a)) = (m1, cs1, changed)"
    "cs2 = foldl (\<lambda>xs u. fst (RemoveStatusCondition xs u)) cs1 (stale_types (Some a) act cs1)"
    "m2 = m1\<lparr>mAccessor := Some cs2\<rparr>" "wf_manager a m2"
    and cl: "CleanupStaleConditions m =
      (if stale_types (Some a) act cs1 \<noteq> [] \<or> changed then RecomputeHappiness m2 else m2)"
    by (rule CleanupStaleConditions_stages)
  show ?thesis
  proof (cases "stale_types (Some a) act cs1 \<noteq> [] \<or> changed")
    case True
    then show ?thesis using RecomputeHappiness_synced [OF st(5)] by (simp add: cl)
  next
    case False
    with cleanup_dependents_result [OF st(2,1)] have "cs1 = cs" "mAggregator m1 = mAggregator m" by auto
    with False st assms(3) show ?thesis by (simp add: cl synced_def)
  qed
qed

lemma not_set_unhealthy:
  assumes "equals e (not_set_condition (Some a) t)" and "cType e = t" and "hasDependent (Some a) t"
    and "wf_aggregator a"
  shows "unhealthy a e"
proof -
  have "t \<noteq> aTarget a" using assms(4,3) by (rule wf_not_target)
  with assms show ?thesis
    by (auto simp: unhealthy_def shouldConsider_def isHealthy_def equals_def)
qed

section \<open>Sorting and initialisation\<close>

lemma Sort_result:
  assumes "wf_manager a m"
  obtains m' where "Sort m = Done m'" "wf_manager a m'" "mset (conds_of m') = mset (conds_of m)"
    "sorted (map (cond_key (Some a)) (conds_of m'))" "synced m \<Longrightarrow> synced m'" "IsHappy m' = IsHappy m"
proof -
  from assms obtain cs where m: "mAccessor m = Some cs" "mAggregator m = Some a" "unique_types cs"
    "wf_aggregator a" by (rule wf_managerE)
  let ?cs = "sort_stable_func (compareConditions (Some a)) cs"
  let ?m = "m\<lparr>mAccessor := Some ?cs\<rparr>"
  have ms: "mset ?cs = mset cs" by simp
  have u: "unique_types ?cs" using m(3) ms unfolding unique_types_def
    by (metis mset_map mset_eq_imp_distinct_iff)
  have look: "find_first cType t ?cs = find_first cType t cs" for t
  proof (cases "find_first cType t cs")
    case None
    then have "find_first cType t ?cs = None" by (simp add: find_first_None_iff)
    with None show ?thesis by simp
  next
    case (Some d)
    from find_first_Some_mem [OF this] find_first_Some_key [OF this] u Some
    show ?thesis using find_first_mem [of cType ?cs d] by (simp add: unique_types_def)
  qed
  have ag: "Aggregate (Some a) (Some ?cs) = Aggregate (Some a) (Some cs)"
    using Aggregate_order [OF m(3)] ms by metis
  have sorted_cs: "sorted (map (cond_key (Some a)) ?cs)" by (rule cc.sorted_result)
  have big: "wf_manager a ?m" "synced m \<Longrightarrow> synced ?m" "IsHappy ?m = IsHappy m"
    using m u look ag by (auto simp: wf_manager_def synced_def FindStatusCondition_find_first
        IsHappy_def IsStatusConditionTrue_def present_and_equal_iff)
  show thesis
  proof (cases "length cs \<le> 1")
    case True
    then have "sorted (map (cond_key (Some a)) cs)" by (cases cs) auto
    with True m assms show thesis by (intro that [of m]) (simp_all add: Sort_def)
  next
    case False
    with m big sorted_cs show thesis by (intro that [of ?m]) (simp_all add: Sort_def)
  qed
qed

lemma GetCondition_Done: "wf_manager a m \<Longrightarrow> GetCondition m t = Done (FindStatusCondition (conds_of m) t)"
  by (auto simp: GetCondition_def wf_manager_def)

text \<open>
  The conditions after initialisation: existing ones stay, missing dependents become
  \<^verbatim>\<open>Unknown\<close>; the target, which is derived, is the only other one that may change.
\<close>

definition initialised_from :: "aggregator \<Rightarrow> string set \<Rightarrow> manager \<Rightarrow> manager \<Rightarrow> bool" where
  "initialised_from a ts m m' \<longleftrightarrow> wf_manager a m' \<and> (mActive m = None \<longrightarrow> mActive m' = None) \<and>
     (\<forall>t. t \<noteq> aTarget a \<longrightarrow>
        FindStatusCondition (conds_of m) t \<noteq> None \<or> t \<notin> ts \<longrightarrow>
        FindStatusCondition (conds_of m') t = FindStatusCondition (conds_of m) t) \<and>
     (\<forall>t\<in>ts. FindStatusCondition (conds_of m) t = None \<longrightarrow>
        (\<exists>d. FindStatusCondition (conds_of m') t = Some d \<and> cStatus d = ConditionUnknown))"

lemma initialised_fromI:
  assumes "wf_manager a m'" and "mActive m = None \<Longrightarrow> mActive m' = None"
    and "\<And>t. t \<noteq> aTarget a \<Longrightarrow> FindStatusCondition (conds_of m) t \<noteq> None \<or> t \<notin> ts \<Longrightarrow>
      FindStatusCondition (conds_of m') t = FindStatusCondition (conds_of m) t"
    and "\<And>t. t \<in> ts \<Longrightarrow> FindStatusCondition (conds_of m) t = None \<Longrightarrow>
      \<exists>d. FindStatusCondition (conds_of m') t = Some d \<and> cStatus d = ConditionUnknown"
  shows "initialised_from a ts m m'"
  using assms unfolding initialised_from_def by (intro conjI allI impI ballI) simp_all

lemma initialised_fromD:
  assumes "initialised_from a ts m m'"
  shows "wf_manager a m'" and "mActive m = None \<Longrightarrow> mActive m' = None"
    and "t \<noteq> aTarget a \<Longrightarrow> FindStatusCondition (conds_of m) t \<noteq> None \<or> t \<notin> ts \<Longrightarrow>
      FindStatusCondition (conds_of m') t = FindStatusCondition (conds_of m) t"
    and "t \<in> ts \<Longrightarrow> FindStatusCondition (conds_of m) t = None \<Longrightarrow>
      \<exists>d. FindStatusCondition (conds_of m') t = Some d \<and> cStatus d = ConditionUnknown"
  using assms unfolding initialised_from_def by blast+

lemma initialize_dependents_result:
  assumes "wf_manager a m" and "\<forall>d\<in>set ds. depType d \<noteq> aTarget a"
  shows "\<exists>m'. initialize_dependents m ds = Done m' \<and> initialised_from a (depType ` set ds) m m'"
  using assms
proof (induction ds arbitrary: m)
  case Nil
  then show ?case by (simp add: initialised_from_def)
next
  case (Cons d ds)
  show ?case
  proof (cases "FindStatusCondition (conds_of m) (depType d)")
    case None
    let ?c = "new_condition (depType d) ConditionUnknown"
    let ?m = "SetCondition m ?c"
    have wf: "wf_manager a ?m" using Cons.prems(1) by (rule SetCondition_wf)
    with Cons obtain m' where m': "initialize_dependents ?m ds = Done m'"
      "initialised_from a (depType ` set ds) ?m m'" by fastforce
    have d: "depType d \<noteq> aTarget a" using Cons.prems(2) by simp
    obtain e where e: "FindStatusCondition (conds_of ?m) (depType d) = Some e" "equals e ?c"
      using SetCondition_reads_back [OF Cons.prems(1), of ?c] d by auto
    have act: "mActive m = None \<longrightarrow> mActive ?m = None"
      using Cons.prems(1) by (auto simp: SetCondition_active elim: wf_managerE)
    have frame: "FindStatusCondition (conds_of ?m) t = FindStatusCondition (conds_of m) t"
      if "t \<noteq> depType d" "t \<noteq> aTarget a" for t
      using SetCondition_frame [OF Cons.prems(1), of t ?c] that by simp
    let ?D = "depType ` set (d # ds)"
    have old: "FindStatusCondition (conds_of m') t = FindStatusCondition (conds_of m) t"
      if "t \<noteq> aTarget a" "FindStatusCondition (conds_of m) t \<noteq> None \<or> t \<notin> ?D" for t
    proof -
      from that(2) None have "t \<noteq> depType d" by auto
      with frame that m'(2) show ?thesis by (auto simp: initialised_from_def)
    qed
    have new: "\<exists>x. FindStatusCondition (conds_of m') t = Some x \<and> cStatus x = ConditionUnknown"
      if "t \<in> ?D" "FindStatusCondition (conds_of m) t = None" for t
    proof (cases "t = depType d")
      case True
      with e d m'(2) show ?thesis by (simp add: initialised_from_def equals_def)
    next
      case False
      with that Cons.prems(2) have "t \<in> depType ` set ds" "t \<noteq> aTarget a" by auto
      with frame [OF False] that(2) m'(2) show ?thesis by (auto simp: initialised_from_def)
    qed
    have "initialised_from a ?D m m'"
      using initialised_fromD(1,2) [OF m'(2)] act old new by (intro initialised_fromI) simp_all
    with m'(1) None show ?thesis
      using Cons.prems(1) by (auto simp: GetCondition_Done)
  next
    case (Some e)
    from Cons obtain m' where m': "initialize_dependents m ds = Done m'"
      "initialised_from a (depType ` set ds) m m'" by fastforce
    with Some have "initialised_from a (depType ` set (d # ds)) m m'"
      by (auto simp: initialised_from_def)
    with m' Some Cons.prems(1) show ?thesis by (auto simp: GetCondition_Done)
  qed
qed

lemma NewManager_result:
  assumes "wf_aggregator a" and "unique_types cs"
  shows "\<exists>m'. NewManager clk n (Some cs) (Some a) = Done m' \<and>
    initialised_from a (fst ` set (aDependents a))
      \<lparr>mAggregator = Some a, mAccessor = Some cs, mActive = None, mClock = clk, mTicks = n\<rparr> m'"
proof -
  let ?m = "\<lparr>mAggregator = Some a, mAccessor = Some cs, mActive = None, mClock = clk, mTicks = n\<rparr>"
  let ?c = "new_condition (aTarget a) ConditionUnknown"
  let ?m1 = "if FindStatusCondition cs (aTarget a) = None then SetCondition ?m ?c else ?m"
  have wf: "wf_manager a ?m" using assms by (simp add: wf_manager_def)
  then have wf1: "wf_manager a ?m1" by (simp add: SetCondition_wf)
  have tgt: "\<forall>d\<in>set (Dependents (Some a)). depType d \<noteq> aTarget a"
    using Dependents_member(2) [OF assms(1)] wf_not_target [OF assms(1)] by blast
  have "NewManager clk n (Some cs) (Some a) = initialize_dependents ?m1 (Dependents (Some a))"
    by (simp add: NewManager_def initializeConditions_def GetCondition_def Let_def)
  with initialize_dependents_result [OF wf1 tgt] obtain m' where
    "NewManager clk n (Some cs) (Some a) = Done m'" "initialised_from a (fst ` set (aDependents a)) ?m1 m'"
    by (auto simp: Dependents_types)
  moreover have "initialised_from a (fst ` set (aDependents a)) ?m m'"
  proof (rule initialised_fromI)
    have look: "FindStatusCondition (conds_of ?m1) t = FindStatusCondition (conds_of ?m) t"
      if "t \<noteq> aTarget a" for t
      using SetCondition_frame [OF wf, of t ?c] that by simp
    show "wf_manager a m'" by (rule initialised_fromD(1) [OF calculation(2)])
    show "mActive m' = None"
      by (rule initialised_fromD(2) [OF calculation(2)]) (simp add: SetCondition_active)
    show "FindStatusCondition (conds_of m') t = FindStatusCondition (conds_of ?m) t"
      if "t \<noteq> aTarget a" "FindStatusCondition (conds_of ?m) t \<noteq> None \<or> t \<notin> fst ` set (aDependents a)" for t
      using initialised_fromD(3) [OF calculation(2) that(1)] that(2) unfolding look [OF that(1)] .
    show "\<exists>d. FindStatusCondition (conds_of m') t = Some d \<and> cStatus d = ConditionUnknown"
      if "t \<in> fst ` set (aDependents a)" "FindStatusCondition (conds_of ?m) t = None" for t
    proof -
      have "t \<noteq> aTarget a" using that(1) assms(1) unfolding wf_aggregator_def by blast
      from initialised_fromD(4) [OF calculation(2) that(1)] that(2) show ?thesis
        unfolding look [OF \<open>t \<noteq> aTarget a\<close>] .
    qed
  qed
  ultimately show ?thesis by blast
qed

text \<open>Options that only annotate: they keep the type and the status and do not lower the severity to Info.\<close>

definition annotating :: "string \<Rightarrow> cond_option list \<Rightarrow> bool" where
  "annotating t opts \<longleftrightarrow> (\<forall>s. cType (applyOpts (new_condition t s) opts) = t \<and>
     cStatus (applyOpts (new_condition t s) opts) = s \<and>
     cSeverity (applyOpts (new_condition t s) opts) \<noteq> ConditionSeverityInfo)"

lemma Mark_reads_back:
  assumes "wf_manager a m" and "t \<noteq> aTarget a" and "annotating t opts"
  shows "\<exists>d. FindStatusCondition (conds_of (Mark m t s opts)) t = Some d \<and>
      cStatus d = s \<and> cType d = t \<and> cSeverity d \<noteq> ConditionSeverityInfo"
proof -
  let ?c = "applyOpts (new_condition t s) opts"
  have c: "cType ?c = t" "cStatus ?c = s" "cSeverity ?c \<noteq> ConditionSeverityInfo"
    using assms(3) by (simp_all add: annotating_def)
  with assms(1,2) obtain d where "FindStatusCondition (conds_of (Mark m t s opts)) t = Some d" "equals d ?c"
    using SetCondition_reads_back [of a m ?c] by (auto simp: Mark_def)
  with c show ?thesis using fw.lookup_type by (auto simp: equals_def)
qed

section \<open>Runs of a manager\<close>

text \<open>
  What may be done to a manager, one call per step, in any order, direct writes of the target
  condition included. A run records where the target condition comes from: it is the stored one, or
  the one that was last written directly, or derived, which it becomes with a recomputation and with
  every other call that changes a condition.
\<close>

datatype target_origin = Stored | Written string | Derived

definition origin_after :: "manager \<Rightarrow> manager \<Rightarrow> target_origin \<Rightarrow> target_origin" where
  "origin_after m m' og = (if mAccessor m' = mAccessor m then og else Derived)"

inductive mgr_run :: "aggregator \<Rightarrow> manager \<Rightarrow> target_origin \<Rightarrow> manager \<Rightarrow> bool" for a m0 where
  start: "mgr_run a m0 Stored m0"
| set_target: "mgr_run a m0 og m \<Longrightarrow> cType c = aTarget a \<Longrightarrow> mgr_run a m0 (Written (cStatus c)) (SetCondition m c)"
| set_other: "mgr_run a m0 og m \<Longrightarrow> cType c \<noteq> aTarget a \<Longrightarrow>
    mgr_run a m0 (origin_after m (SetCondition m c) og) (SetCondition m c)"
| clear: "mgr_run a m0 og m \<Longrightarrow> mgr_run a m0 (origin_after m (ClearCondition m t) og) (ClearCondition m t)"
| recompute: "mgr_run a m0 og m \<Longrightarrow> mgr_run a m0 Derived (RecomputeHappiness m)"
| reset: "mgr_run a m0 og m \<Longrightarrow> mgr_run a m0 og (Reset m)"
| cleanup: "mgr_run a m0 og m \<Longrightarrow>
    mgr_run a m0 (origin_after m (CleanupStaleConditions m) og) (CleanupStaleConditions m)"
| sort: "mgr_run a m0 og m \<Longrightarrow> Sort m = Done m' \<Longrightarrow> mgr_run a m0 og m'"

lemma Reset_inv: "wf_manager a (Reset m) = wf_manager a m" "synced (Reset m) = synced m" "IsHappy (Reset m) = IsHappy m"
  by (simp_all add: Reset_def wf_manager_def synced_def IsHappy_def)

lemma Cleanup_inactive: "mActive m = None \<Longrightarrow> CleanupStaleConditions m = m"
  by (simp add: CleanupStaleConditions_def split: option.splits)

text \<open>What the run says of its target condition.\<close>

definition origin_holds :: "manager \<Rightarrow> target_origin \<Rightarrow> manager \<Rightarrow> bool" where
  "origin_holds m0 og m \<longleftrightarrow>
     (case og of Stored \<Rightarrow> IsHappy m = IsHappy m0 | Written s \<Rightarrow> IsHappy m \<longleftrightarrow> s = ConditionTrue | Derived \<Rightarrow> synced m)"

lemma origin_after_holds:
  assumes "origin_holds m0 og m" and "mAggregator m' = mAggregator m" and "mAccessor m' \<noteq> mAccessor m \<Longrightarrow> synced m'"
  shows "origin_holds m0 (origin_after m m' og) m'"
  using assms by (auto simp: origin_holds_def origin_after_def IsHappy_def synced_def split: target_origin.splits)

lemma SetCondition_derived:
  assumes "wf_manager a m" and "cType c \<noteq> aTarget a" and "mAccessor (SetCondition m c) \<noteq> mAccessor m"
  shows "synced (SetCondition m c)"
proof -
  from assms(1) obtain cs where m: "mAccessor m = Some cs" "mAggregator m = Some a" by (rule wf_managerE)
  let ?p = "put_condition (mark_active m (cType c)) cs c"
  have eq: "SetCondition m c = (if snd ?p then RecomputeHappiness (fst ?p) else fst ?p)"
    using m assms(2) by (simp add: SetCondition_Some Let_def)
  have "wf_manager a (fst ?p)" using assms(1) m by (simp add: put_condition_wf)
  moreover have "snd ?p" using assms(3) m by (auto simp: eq put_changed_iff split: if_splits)
  ultimately show ?thesis by (simp add: eq RecomputeHappiness_synced)
qed

lemma SetCondition_target:
  assumes "wf_manager a m" and "cType c = aTarget a"
  shows "IsHappy (SetCondition m c) \<longleftrightarrow> cStatus c = ConditionTrue"
proof -
  from assms(1) obtain cs where m: "mAccessor m = Some cs" "mAggregator m = Some a" by (rule wf_managerE)
  let ?p = "put_condition (mark_active m (cType c)) cs c"
  have eq: "SetCondition m c = fst ?p" using m assms(2) by (simp add: SetCondition_Some Let_def)
  obtain d where "FindStatusCondition (conds_of (fst ?p)) (cType c) = Some d" "equals d c"
    using fw.lookup_put by (auto)
  moreover have "unique_types (conds_of (fst ?p))" using SetCondition_wf [OF assms(1), of c] by (auto simp: eq wf_manager_def)
  ultimately show ?thesis
    using m assms(2) by (auto simp: eq IsHappy_def IsStatusConditionTrue_def present_and_equal_iff equals_def)
qed

lemma ClearCondition_derived:
  assumes "wf_manager a m"
  shows "mAggregator (ClearCondition m t) = mAggregator m"
    and "mAccessor (ClearCondition m t) \<noteq> mAccessor m \<Longrightarrow> synced (ClearCondition m t)"
proof -
  from assms obtain cs where m: "mAccessor m = Some cs" "mAggregator m = Some a" "unique_types cs"
    "wf_aggregator a" by (rule wf_managerE)
  let ?m = "m\<lparr>mAccessor := Some (delete_key cType t cs)\<rparr>"
  have eq: "ClearCondition m t = (if find_first cType t cs = None then m else RecomputeHappiness ?m)"
    using m by (simp add: ClearCondition_def RemoveStatusCondition_delete)
  have "wf_manager a ?m" using m by (simp add: wf_manager_def delete_key_unique)
  then show "mAccessor (ClearCondition m t) \<noteq> mAccessor m \<Longrightarrow> synced (ClearCondition m t)"
    using RecomputeHappiness_synced by (auto simp: eq)
  show "mAggregator (ClearCondition m t) = mAggregator m" by (simp add: eq)
qed

lemma Cleanup_derived:
  assumes "wf_manager a m" and "mAccessor (CleanupStaleConditions m) \<noteq> mAccessor m"
  shows "synced (CleanupStaleConditions m)"
proof (cases "mActive m")
  case None
  then show ?thesis using assms(2) by (simp add: Cleanup_inactive)
next
  case (Some act)
  from assms(1) Some obtain cs m1 cs1 changed cs2 m2 where st:
    "mAccessor m = Some cs"
    "cleanup_dependents act m cs False (Dependents (Some a)) = (m1, cs1, changed)"
    "cs2 = foldl (\<lambda>xs u. fst (RemoveStatusCondition xs u)) cs1 (stale_types (Some a) act cs1)"
    "m2 = m1\<lparr>mAccessor := Some cs2\<rparr>" "wf_manager a m2"
    and cl: "CleanupStaleConditions m =
      (if stale_types (Some a) act cs1 \<noteq> [] \<or> changed then RecomputeHappiness m2 else m2)"
    by (rule CleanupStaleConditions_stages)
  show ?thesis
  proof (cases "stale_types (Some a) act cs1 \<noteq> [] \<or> changed")
    case True
    then show ?thesis using RecomputeHappiness_synced [OF st(5)] by (simp add: cl)
  next
    case False
    with cleanup_dependents_result [OF st(2,1)] have "cs1 = cs" by auto
    with False st assms(2) show ?thesis by (simp add: cl)
  qed
qed

lemma mgr_run_inv:
  assumes "mgr_run a m0 og m" and "wf_manager a m0"
  shows "wf_manager a m \<and> origin_holds m0 og m"
  using assms
proof (induction rule: mgr_run.induct)
  case start
  then show ?case by (simp add: origin_holds_def)
next
  case (set_target og m c)
  then have wf: "wf_manager a m" by simp
  show ?case using SetCondition_wf [OF wf] SetCondition_target [OF wf set_target(2)] by (simp add: origin_holds_def)
next
  case (set_other og m c)
  then have wf: "wf_manager a m" and og: "origin_holds m0 og m" by simp_all
  show ?case
    using SetCondition_wf [OF wf] origin_after_holds [OF og _ SetCondition_derived [OF wf set_other(2)]] by simp
next
  case (clear og m t)
  then have wf: "wf_manager a m" and og: "origin_holds m0 og m" by simp_all
  show ?case
    using ClearCondition_result(1) [OF wf] origin_after_holds [OF og ClearCondition_derived [OF wf]] by simp
next
  case (recompute og m)
  then show ?case by (auto simp: RecomputeHappiness_synced origin_holds_def)
next
  case (reset og m)
  then show ?case by (simp add: Reset_inv origin_holds_def split: target_origin.splits)
next
  case (cleanup og m)
  then have wf: "wf_manager a (CleanupStaleConditions m)"
    by (cases "mActive m") (simp_all add: Cleanup_inactive Cleanup_wf)
  have wfm: "wf_manager a m" and og: "origin_holds m0 og m" using cleanup by simp_all
  have "mAggregator (CleanupStaleConditions m) = mAggregator m" using wf wfm by (simp add: wf_manager_def)
  from origin_after_holds [OF og this Cleanup_derived [OF wfm]] wf show ?case by simp
next
  case (sort og m m')
  obtain m'' where s: "Sort m = Done m''" "wf_manager a m''" "synced m \<Longrightarrow> synced m''" "IsHappy m'' = IsHappy m"
    using sort Sort_result by metis
  with sort show ?case by (auto simp: origin_holds_def split: target_origin.splits)
qed

section \<open>Example manager\<close>

definition ex_agg :: aggregator where
  "ex_agg = \<lparr>aTarget = ''Ready'', aDependents = [(''Prov'', HealthyWhenTrue), (''Degr'', HealthyWhenFalse)]\<rparr>"

definition ex_mgr :: manager where
  "ex_mgr = \<lparr>mAggregator = Some ex_agg,
     mAccessor = Some [new_condition ''Prov'' ConditionTrue, new_condition ''Old'' ConditionTrue],
     mActive = Some {''Prov''}, mClock = (\<lambda>n. int n + 1), mTicks = 0\<rparr>"

lemma ex_agg_wf: "wf_aggregator ex_agg"
  by (simp add: wf_aggregator_def ex_agg_def)

lemma ex_mgr_wf: "wf_manager ex_agg ex_mgr"
  using ex_agg_wf by (simp add: wf_manager_def ex_mgr_def unique_types_def)

section \<open>Properties\<close>

text \<open>
  C5: whatever calls are made on a manager, writes of the target condition included, the types stay
  unique, sorting never panics, and what the manager reports as happy is known. Once a recomputation
  took place, or any call other than a direct write of the target changed a condition, and the target
  was not written directly since, it is happy exactly when no considered condition (a registered
  dependent, or any condition when none is registered, of non-Info severity) is unhealthy for its
  polarity. After a direct write of the target it is happy exactly if that status was True, until the
  next such change, and before all of these it is as happy as the stored conditions said.
\<close>

theorem manager_run_happy:
  assumes "wf_manager a m0" and "mgr_run a m0 og m"
  shows "unique_types (conds_of m) \<and> (\<exists>m'. Sort m = Done m') \<and>
    (IsHappy m \<longleftrightarrow>
      (case og of
         Stored \<Rightarrow> IsHappy m0
       | Written s \<Rightarrow> s = ConditionTrue
       | Derived \<Rightarrow> \<forall>d\<in>set (conds_of m). shouldConsider a d \<longrightarrow> isHealthy a d))"
proof -
  have wf: "wf_manager a m" and o: "origin_holds m0 og m" using mgr_run_inv [OF assms(2,1)] by auto
  have "IsHappy m \<longleftrightarrow> (\<forall>d\<in>set (conds_of m). shouldConsider a d \<longrightarrow> isHealthy a d)" if "synced m"
    using IsHappy_iff [OF wf that] by (auto simp: unhealthy_def)
  with o have "IsHappy m \<longleftrightarrow>
      (case og of
         Stored \<Rightarrow> IsHappy m0
       | Written s \<Rightarrow> s = ConditionTrue
       | Derived \<Rightarrow> \<forall>d\<in>set (conds_of m). shouldConsider a d \<longrightarrow> isHealthy a d)"
    by (cases og) (simp_all add: origin_holds_def)
  moreover have "\<exists>m'. Sort m = Done m'" using wf Sort_result by metis
  ultimately show ?thesis using wf by (auto simp: wf_manager_def)
qed

text \<open>A direct write makes the example happy although a dependent is missing; the cleanup derives it again.\<close>

theorem manager_run_happy_witness:
  "IsHappy (MarkTrue ex_mgr ''Ready'' []) \<and> \<not> IsHappy (RecomputeHappiness (MarkFalse (MarkTrue ex_mgr ''Ready'' []) ''Prov'' []))"
proof -
  let ?c = "new_condition ''Ready'' ConditionTrue" and ?d = "new_condition ''Prov'' ConditionFalse"
  let ?m1 = "SetCondition ex_mgr ?c"
  let ?m2 = "SetCondition ?m1 ?d"
  have m: "MarkTrue ex_mgr ''Ready'' [] = ?m1" "MarkFalse ?m1 ''Prov'' [] = ?m2"
    by (simp_all add: MarkTrue_def MarkFalse_def Mark_def applyOpts_def)
  have r1: "mgr_run ex_agg ex_mgr (Written ConditionTrue) ?m1"
    using mgr_run.set_target [OF mgr_run.start, of ?c ex_agg ex_mgr] by (simp add: ex_agg_def new_condition_def)
  from manager_run_happy [OF ex_mgr_wf r1] have h1: "IsHappy ?m1" by simp
  have "mgr_run ex_agg ex_mgr (origin_after ?m1 ?m2 (Written ConditionTrue)) ?m2"
    by (rule mgr_run.set_other [OF r1]) (simp add: ex_agg_def new_condition_def)
  then have r2: "mgr_run ex_agg ex_mgr Derived (RecomputeHappiness ?m2)" by (rule mgr_run.recompute)
  have wf: "wf_manager ex_agg ?m1" "wf_manager ex_agg ?m2" using ex_mgr_wf by (simp_all add: SetCondition_wf)
  obtain d where d: "FindStatusCondition (conds_of ?m2) ''Prov'' = Some d" "equals d ?d"
    using SetCondition_reads_back [OF wf(1), of ?d] by (auto simp: ex_agg_def new_condition_def)
  have "FindStatusCondition (conds_of (RecomputeHappiness ?m2)) ''Prov'' = Some d"
    using RecomputeHappiness_lookup [OF wf(2)] d(1) by (simp add: ex_agg_def)
  then have "d \<in> set (conds_of (RecomputeHappiness ?m2))" "cType d = ''Prov''"
    by (auto simp: FindStatusCondition_find_first dest: find_first_Some_mem find_first_Some_key)
  moreover have "shouldConsider ex_agg d \<and> \<not> isHealthy ex_agg d"
    using d(2) \<open>cType d = ''Prov''\<close>
    by (simp add: equals_def new_condition_def shouldConsider_def isHealthy_def polarityFor_def hasDependent_def ex_agg_def)
  ultimately have "\<not> IsHappy (RecomputeHappiness ?m2)" using manager_run_happy [OF ex_mgr_wf r2] by auto
  with h1 show ?thesis by (simp add: m)
qed

text \<open>
  stale cleanup followed by a recomputation. Every condition left is the target, a
  registered dependent or one set since the reset; what was set keeps its value; a dependent that
  was not set is reported with reason ConditionNotSet, and then the manager is not happy.
\<close>

theorem cleanup_reports_unset:
  assumes "wf_manager a m" and "mActive m = Some act"
    and "m' = RecomputeHappiness (CleanupStaleConditions m)"
  shows "(\<forall>c\<in>set (conds_of m'). cType c = aTarget a \<or> hasDependent (Some a) (cType c) \<or> cType c \<in> act) \<and>
    (\<forall>t\<in>act. t \<noteq> aTarget a \<longrightarrow> FindStatusCondition (conds_of m') t = FindStatusCondition (conds_of m) t) \<and>
    (\<forall>t. hasDependent (Some a) t \<longrightarrow> t \<notin> act \<longrightarrow> \<not> IsHappy m' \<and>
      (\<exists>c. FindStatusCondition (conds_of m') t = Some c \<and> cReason c = ConditionReasonNotSet))"
proof (intro conjI ballI allI impI)
  have wf: "wf_manager a (CleanupStaleConditions m)" using assms(1,2) by (rule Cleanup_wf)
  then have wf': "wf_manager a m'" unfolding assms(3) by blast
  have look: "FindStatusCondition (conds_of m') u = FindStatusCondition (conds_of (CleanupStaleConditions m)) u"
    if "u \<noteq> aTarget a" for u
    using that wf unfolding assms(3) by (simp add: RecomputeHappiness_lookup)
  show "cType c = aTarget a \<or> hasDependent (Some a) (cType c) \<or> cType c \<in> act" if "c \<in> set (conds_of m')" for c
  proof -
    have "FindStatusCondition (conds_of m') (cType c) = Some c"
      using wf' that find_first_mem [of cType]
      by (auto simp: FindStatusCondition_find_first wf_manager_def unique_types_def)
    then show ?thesis using look Cleanup_lookup(2) [OF assms(1,2)] by (metis option.simps(3))
  qed
  show "FindStatusCondition (conds_of m') t = FindStatusCondition (conds_of m) t"
    if "t \<in> act" "t \<noteq> aTarget a" for t
    using look [OF that(2)] Cleanup_lookup(1) [OF assms(1,2) that(2,1)] by simp
  fix t
  assume dep: "hasDependent (Some a) t" "t \<notin> act"
  have wfa: "wf_aggregator a" using assms(1) by (simp add: wf_manager_def)
  have "t \<noteq> aTarget a" using wfa dep(1) by (rule wf_not_target)
  then obtain e where e: "FindStatusCondition (conds_of m') t = Some e" "equals e (not_set_condition (Some a) t)"
    using look Cleanup_lookup(3) [OF assms(1,2)] dep by metis
  then show "\<exists>c. FindStatusCondition (conds_of m') t = Some c \<and> cReason c = ConditionReasonNotSet"
    by (auto simp: equals_def)
  have "cType e = t" "e \<in> set (conds_of m')"
    using e by (auto simp: FindStatusCondition_find_first dest: find_first_Some_key find_first_Some_mem)
  moreover from this e dep wfa have "unhealthy a e" by (intro not_set_unhealthy)
  moreover have "synced m'" unfolding assms(3) using wf by (rule RecomputeHappiness_synced)
  ultimately show "\<not> IsHappy m'" using IsHappy_iff [OF wf'] by blast
qed

theorem cleanup_reports_unset_witness:
  "\<not> IsHappy (RecomputeHappiness (CleanupStaleConditions ex_mgr))"
proof -
  have act: "mActive ex_mgr = Some {''Prov''}" by (simp add: ex_mgr_def)
  have "hasDependent (Some ex_agg) ''Degr''" by (simp add: hasDependent_def ex_agg_def)
  with cleanup_reports_unset [OF ex_mgr_wf act refl] show ?thesis by simp
qed

text \<open>
  A value written directly to the target is only an override: the next recomputation replaces
  it by the aggregate of the other conditions, as if it had not been written.
\<close>

theorem recompute_overrides_target:
  assumes "wf_manager a m" and "cType c = aTarget a"
  shows "IsHappy (RecomputeHappiness (SetCondition m c)) = IsHappy (RecomputeHappiness m)"
proof -
  from assms(1) obtain cs where m: "mAccessor m = Some cs" "mAggregator m = Some a" by (rule wf_managerE)
  let ?cs = "fst (SetStatusCondition (mClock m (mTicks m)) cs c)"
  have set: "conds_of (SetCondition m c) = ?cs" using m assms(2) by (simp add: SetCondition_Some Let_def)
  have happy: "IsHappy (RecomputeHappiness n) \<longleftrightarrow> (\<exists>d. Aggregate (Some a) (Some (conds_of n)) = Some d \<and>
      cStatus d = ConditionTrue)" if "wf_manager a n" for n
  proof -
    from that obtain ns where n: "mAccessor n = Some ns" "mAggregator n = Some a" by (rule wf_managerE)
    from n(2,1) obtain d where d: "Aggregate (Some a) (Some ns) = Some d" "cType d = aTarget a"
      and "RecomputeHappiness n = fst (put_condition n ns d)" by (rule RecomputeHappiness_Some)
    moreover have "unique_types (conds_of (RecomputeHappiness n))"
      using RecomputeHappiness_wf [OF that] by (auto simp: wf_manager_def)
    ultimately show ?thesis
      using n by (simp add: IsHappy_def IsStatusConditionTrue_def present_and_equal_iff fw.lookup_put)
  qed
  have wf: "wf_manager a (SetCondition m c)" using assms(1) by (rule SetCondition_wf)
  show ?thesis
    unfolding happy [OF wf] happy [OF assms(1)] set using m Aggregate_put_target [OF assms(2)] by simp
qed

theorem recompute_overrides_target_witness:
  "IsHappy (RecomputeHappiness (SetCondition ex_mgr (new_condition ''Ready'' ConditionFalse))) =
     IsHappy (RecomputeHappiness ex_mgr)"
  by (rule recompute_overrides_target [OF ex_mgr_wf]) (simp add: ex_agg_def)

text \<open>
  Creating a manager over any unique-type slice succeeds without a panic, keeps every
  condition that exists (the derived target apart), and seeds each missing dependent as Unknown.
\<close>

theorem NewManager_initialises:
  assumes "wf_aggregator a" and "unique_types cs"
  shows "\<exists>m. NewManager clk n (Some cs) (Some a) = Done m \<and> wf_manager a m \<and>
    (\<forall>t d. t \<noteq> aTarget a \<longrightarrow> FindStatusCondition cs t = Some d \<longrightarrow>
       FindStatusCondition (conds_of m) t = Some d) \<and>
    (\<forall>t. hasDependent (Some a) t \<longrightarrow> FindStatusCondition cs t = None \<longrightarrow>
       (\<exists>d. FindStatusCondition (conds_of m) t = Some d \<and> cStatus d = ConditionUnknown))"
proof -
  obtain m where m: "NewManager clk n (Some cs) (Some a) = Done m"
    "initialised_from a (fst ` set (aDependents a))
      \<lparr>mAggregator = Some a, mAccessor = Some cs, mActive = None, mClock = clk, mTicks = n\<rparr> m"
    using NewManager_result [OF assms] by blast
  from initialised_fromD [OF m(2)] m(1) show ?thesis by (auto simp: hasDependent_iff)
qed

theorem NewManager_initialises_witness:
  "\<exists>m. NewManager (\<lambda>_. 7) 0 (Some []) (Some ex_agg) = Done m \<and>
     (\<exists>d. FindStatusCondition (conds_of m) ''Degr'' = Some d \<and> cStatus d = ConditionUnknown)"
proof -
  have "hasDependent (Some ex_agg) ''Degr''" by (simp add: hasDependent_def ex_agg_def)
  moreover have "unique_types []" by (simp add: unique_types_def)
  ultimately show ?thesis
    using NewManager_initialises [OF ex_agg_wf, of "[]" "\<lambda>_. 7" 0] by auto
qed

text \<open>
  Marking a registered dependent healthy (unhealthy) writes the status that its polarity
  calls healthy (unhealthy), whatever reason, message or generation the options set; a manager
  with an unhealthy dependent of non-Info severity is not happy.
\<close>

theorem mark_health_respects_polarity:
  assumes "wf_manager a m" and "synced m" and "hasDependent (Some a) t" and "annotating t opts"
  shows "(\<exists>d. FindStatusCondition (conds_of (MarkHealthy m t opts)) t = Some d \<and> isHealthy a d) \<and>
    \<not> IsHappy (MarkUnhealthy m t opts)"
proof (rule conjI)
  have agg: "mAggregator m = Some a" "wf_aggregator a" using assms(1) by (auto simp: wf_manager_def)
  have tt: "t \<noteq> aTarget a" using agg(2) assms(3) by (rule wf_not_target)
  let ?h = "if polarityFor (Some a) t = HealthyWhenFalse then ConditionFalse else ConditionTrue"
  let ?u = "if polarityFor (Some a) t = HealthyWhenFalse then ConditionTrue else ConditionFalse"
  have h: "MarkHealthy m t opts = Mark m t ?h opts" and u: "MarkUnhealthy m t opts = Mark m t ?u opts"
    using agg by (simp_all add: MarkHealthy_def MarkUnhealthy_def MarkFalse_def MarkTrue_def)
  note rb = Mark_reads_back [OF assms(1) tt assms(4)]
  from rb [of ?h] obtain e where "FindStatusCondition (conds_of (MarkHealthy m t opts)) t = Some e"
    and e: "cStatus e = ?h" "cType e = t" unfolding h by blast
  moreover from e have "isHealthy a e" by (simp add: isHealthy_def)
  ultimately show "\<exists>d. FindStatusCondition (conds_of (MarkHealthy m t opts)) t = Some d \<and> isHealthy a d"
    by blast
  have wf: "wf_manager a (MarkUnhealthy m t opts)"
    unfolding u Mark_def by (rule SetCondition_wf [OF assms(1)])
  have sy: "synced (MarkUnhealthy m t opts)"
    unfolding u Mark_def
    by (rule SetCondition_synced [OF assms(1,2)]) (use assms(4) tt in \<open>simp add: annotating_def\<close>)
  from rb [of ?u] obtain d where d: "d \<in> set (conds_of (MarkUnhealthy m t opts))" "cStatus d = ?u"
    "cType d = t" "cSeverity d \<noteq> ConditionSeverityInfo"
    unfolding u FindStatusCondition_find_first by (metis find_first_Some_mem)
  then have "unhealthy a d"
    using tt assms(3) by (simp add: unhealthy_def shouldConsider_def isHealthy_def)
  with d show "\<not> IsHappy (MarkUnhealthy m t opts)" using IsHappy_iff [OF wf sy] by blast
qed

theorem mark_health_respects_polarity_witness:
  "\<not> IsHappy (MarkUnhealthy (RecomputeHappiness ex_mgr) ''Degr'' [WithReason ''bad''])"
proof -
  have "hasDependent (Some ex_agg) ''Degr''" by (simp add: hasDependent_def ex_agg_def)
  moreover have "annotating ''Degr'' [WithReason ''bad'']"
    by (simp add: annotating_def applyOpts_def WithReason_def)
  ultimately show ?thesis
    using mark_health_respects_polarity [OF RecomputeHappiness_wf RecomputeHappiness_synced, OF ex_mgr_wf ex_mgr_wf]
    by blast
qed

end
