(* ===== verification/PkgManager.thy ===== *)
theory PkgManager
  imports FwManager
begin

text \<open>
  \<^verbatim>\<open>pkg/controller/conditions/conditions.go\<close>: the root module's condition manager. It differs
  from the framework's: dependents are a list of types in registration order, a recomputation is
  told which type caused it, and the happy condition mirrors the most recent unhappy dependent.
  Its store operations tolerate a nil accessor (\<open>None\<close>).
\<close>

section \<open>State and operations\<close>

record pkg_manager =
  pmAccessor :: "condition list option"
  pmHappy :: string
  pmDependents :: "string list"
  pmClock :: "nat \<Rightarrow> gotime"
  pmTicks :: nat

text \<open>The store on the manager's accessor: a nil accessor is never changed and has no conditions.\<close>

definition pkg_put :: "pkg_manager \<Rightarrow> condition \<Rightarrow> pkg_manager \<times> bool" where
  "pkg_put m c =
     (case pmAccessor m of
        None \<Rightarrow> (m, False)
      | Some cs \<Rightarrow> let (cs', changed) = pkg_SetStatusCondition (pmClock m (pmTicks m)) cs c
                   in (m\<lparr>pmAccessor := Some cs', pmTicks := Suc (pmTicks m)\<rparr>, changed))"

definition pkg_GetCondition :: "pkg_manager \<Rightarrow> string \<Rightarrow> condition option" where
  "pkg_GetCondition m t = (case pmAccessor m of None \<Rightarrow> None | Some cs \<Rightarrow> pkg_FindStatusCondition cs t)"

definition pkg_GetTopLevelCondition :: "pkg_manager \<Rightarrow> condition option" where
  "pkg_GetTopLevelCondition m = pkg_GetCondition m (pmHappy m)"

definition pkg_IsHappy :: "pkg_manager \<Rightarrow> bool" where
  "pkg_IsHappy m = (case pmAccessor m of None \<Rightarrow> False | Some cs \<Rightarrow> pkg_IsStatusConditionTrue cs (pmHappy m))"

fun unhappy_candidates :: "pkg_manager \<Rightarrow> string list \<Rightarrow> condition list" where
  "unhappy_candidates m [] = []"
| "unhappy_candidates m (dep # deps) =
     (case pkg_GetCondition m dep of
        None \<Rightarrow> unhappy_candidates m deps
      | Some cond \<Rightarrow>
          if cSeverity cond = ConditionSeverityInfo then unhappy_candidates m deps
          else if cStatus cond = ConditionFalse \<or> cStatus cond = ConditionUnknown
          then cond # unhappy_candidates m deps
          else unhappy_candidates m deps)"

definition compare_unhappy :: "condition \<Rightarrow> condition \<Rightarrow> int" where
  "compare_unhappy a b =
     (if cStatus a \<noteq> cStatus b then (if cStatus a = ConditionFalse then -1 else 1)
      else cmp_compare (cLastTransitionTime b) (cLastTransitionTime a))"

definition findUnhappyDependent :: "pkg_manager \<Rightarrow> condition option" where
  "findUnhappyDependent m =
     (let unhappyCandidates = unhappy_candidates m (pmDependents m)
      in if length unhappyCandidates = 0 then None
         else Some (hd (sort_stable_func compare_unhappy unhappyCandidates)))"

definition pkg_RecomputeHappiness :: "pkg_manager \<Rightarrow> string \<Rightarrow> pkg_manager" where
  "pkg_RecomputeHappiness m conditionType =
     (case findUnhappyDependent m of
        Some u \<Rightarrow> fst (pkg_put m ((new_condition (pmHappy m) (cStatus u))\<lparr>cReason := cReason u, cMessage := cMessage u\<rparr>))
      | None \<Rightarrow>
          if conditionType \<noteq> pmHappy m
          then fst (pkg_put m ((new_condition (pmHappy m) ConditionTrue)\<lparr>cReason := ''AllDependentsHealthy''\<rparr>))
          else m)"

definition pkg_SetCondition :: "pkg_manager \<Rightarrow> condition \<Rightarrow> pkg_manager" where
  "pkg_SetCondition m c =
     (if pmAccessor m = None then m
      else let (m', changed) = pkg_put m c
           in if \<not> changed then m' else pkg_RecomputeHappiness m' (cType c))"

definition pkg_ClearCondition :: "pkg_manager \<Rightarrow> string \<Rightarrow> pkg_manager" where
  "pkg_ClearCondition m t =
     (case pmAccessor m of
        None \<Rightarrow> m
      | Some cs \<Rightarrow> let (cs', removed) = pkg_RemoveStatusCondition cs t
                   in if \<not> removed then m else pkg_RecomputeHappiness (m\<lparr>pmAccessor := Some cs'\<rparr>) t)"

definition pkg_Mark :: "pkg_manager \<Rightarrow> string \<Rightarrow> string \<Rightarrow> cond_option list \<Rightarrow> pkg_manager" where
  "pkg_Mark m t s opts = pkg_SetCondition m (foldl (\<lambda>c f. f c) (new_condition t s) opts)"

definition pkg_MarkTrue :: "pkg_manager \<Rightarrow> string \<Rightarrow> cond_option list \<Rightarrow> pkg_manager" where
  "pkg_MarkTrue m t opts = pkg_Mark m t ConditionTrue opts"

definition pkg_MarkFalse :: "pkg_manager \<Rightarrow> string \<Rightarrow> cond_option list \<Rightarrow> pkg_manager" where
  "pkg_MarkFalse m t opts = pkg_Mark m t ConditionFalse opts"

definition pkg_MarkUnknown :: "pkg_manager \<Rightarrow> string \<Rightarrow> cond_option list \<Rightarrow> pkg_manager" where
  "pkg_MarkUnknown m t opts = pkg_Mark m t ConditionUnknown opts"

definition pkg_MarkFrom :: "pkg_manager \<Rightarrow> string \<Rightarrow> condition option \<Rightarrow> pkg_manager" where
  "pkg_MarkFrom m t source =
     (case source of
        None \<Rightarrow> m
      | Some c \<Rightarrow> pkg_SetCondition m ((new_condition t (cStatus c))
          \<lparr>cReason := cReason c, cMessage := cMessage c, cSeverity := cSeverity c\<rparr>))"

definition pkg_Reset :: "pkg_manager \<Rightarrow> pkg_manager" where
  "pkg_Reset m = (if pmAccessor m = None then m else m\<lparr>pmAccessor := Some []\<rparr>)"

text \<open>The priority map of \<^verbatim>\<open>Sort\<close>: the happy type, then the dependents in registration order.\<close>

fun set_priorities :: "(string \<rightharpoonup> nat) \<Rightarrow> nat \<Rightarrow> string list \<Rightarrow> (string \<rightharpoonup> nat)" where
  "set_priorities p i [] = p"
| "set_priorities p i (dep # deps) = set_priorities (p(dep \<mapsto> i + 1)) (i + 1) deps"

definition sort_priority :: "pkg_manager \<Rightarrow> string \<Rightarrow> nat option" where
  "sort_priority m = set_priorities [pmHappy m \<mapsto> 0] 0 (pmDependents m)"

definition compare_sort :: "pkg_manager \<Rightarrow> condition \<Rightarrow> condition \<Rightarrow> int" where
  "compare_sort m a b =
     (case (sort_priority m (cType a), sort_priority m (cType b)) of
        (Some pi, Some pj) \<Rightarrow> cmp_compare pi pj
      | (Some pi, None) \<Rightarrow> -1
      | (None, Some pj) \<Rightarrow> 1
      | (None, None) \<Rightarrow> cmp_compare (cType a) (cType b))"

definition pkg_Sort :: "pkg_manager \<Rightarrow> pkg_manager" where
  "pkg_Sort m =
     (case pmAccessor m of
        None \<Rightarrow> m
      | Some cs \<Rightarrow> if length cs = 0 then m
                   else m\<lparr>pmAccessor := Some (sort_stable_func (compare_sort m) cs)\<rparr>)"

fun unique_dependents :: "string \<Rightarrow> string set \<Rightarrow> string list \<Rightarrow> string list" where
  "unique_dependents happy seen [] = []"
| "unique_dependents happy seen (dep # deps) =
     (if dep = happy \<or> dep \<in> seen then unique_dependents happy seen deps
      else dep # unique_dependents happy (insert dep seen) deps)"

fun seed_dependents :: "string \<Rightarrow> pkg_manager \<Rightarrow> string list \<Rightarrow> pkg_manager" where
  "seed_dependents status m [] = m"
| "seed_dependents status m (dep # deps) =
     (if pkg_GetCondition m dep \<noteq> None then seed_dependents status m deps
      else seed_dependents status (fst (pkg_put m (new_condition dep status))) deps)"

definition pkg_initializeConditions :: "pkg_manager \<Rightarrow> pkg_manager" where
  "pkg_initializeConditions m =
     (let found = pkg_GetCondition m (pmHappy m);
          happy = (case found of Some c \<Rightarrow> c | None \<Rightarrow> new_condition (pmHappy m) ConditionUnknown);
          m1 = (if found = None then fst (pkg_put m happy) else m);
          status = (if cStatus happy = ConditionTrue then ConditionTrue else ConditionUnknown)
      in seed_dependents status m1 (pmDependents m1))"

definition pkg_NewManager ::
  "(nat \<Rightarrow> gotime) \<Rightarrow> nat \<Rightarrow> condition list option \<Rightarrow> string \<Rightarrow> string list \<Rightarrow> pkg_manager" where
  "pkg_NewManager clock ticks accessor happy dependents =
     pkg_initializeConditions \<lparr>pmAccessor = accessor, pmHappy = happy,
       pmDependents = unique_dependents happy {} dependents, pmClock = clock, pmTicks = ticks\<rparr>"

section \<open>Lookups\<close>

lemma pkg_put_frame [simp]:
  "pmHappy (fst (pkg_put m c)) = pmHappy m" "pmDependents (fst (pkg_put m c)) = pmDependents m"
  "pmAccessor (fst (pkg_put m c)) = None \<longleftrightarrow> pmAccessor m = None"
  by (auto simp: pkg_put_def split: option.splits prod.splits)

lemma pkg_put_accessor:
  "pmAccessor m = Some cs \<Longrightarrow>
    pmAccessor (fst (pkg_put m c)) = Some (fst (pkg_SetStatusCondition (pmClock m (pmTicks m)) cs c))"
  by (simp add: pkg_put_def split: prod.splits)

lemma pkg_put_lookup:
  assumes "pmAccessor m \<noteq> None"
  obtains d where "equals d c" "cType d = cType c"
    "\<And>t. pkg_GetCondition (fst (pkg_put m c)) t = (if t = cType c then Some d else pkg_GetCondition m t)"
proof -
  from assms obtain cs where cs: "pmAccessor m = Some cs" by blast
  let ?d = "merged (pmClock m (pmTicks m)) (pkg_FindStatusCondition cs (cType c)) c"
  have look: "pkg_GetCondition (fst (pkg_put m c)) t = (if t = cType c then Some ?d else pkg_GetCondition m t)" for t
    using cs by (simp add: pkg_GetCondition_def pkg_put_accessor root.lookup_put)
  then have "cType ?d = cType c"
    using root.put_reads_back [of "pmClock m (pmTicks m)" cs c] cs
    by (auto simp: pkg_GetCondition_def pkg_put_accessor)
  then show thesis using look by (intro that [of ?d]) simp_all
qed

lemma unhappy_candidates_set:
  "set (unhappy_candidates m deps) =
    {c. \<exists>t\<in>set deps. pkg_GetCondition m t = Some c \<and> cSeverity c \<noteq> ConditionSeverityInfo \<and>
        (cStatus c = ConditionFalse \<or> cStatus c = ConditionUnknown)}"
  by (induction deps) (auto split: option.splits)

abbreviation unhappy_key :: "condition \<Rightarrow> nat \<times> int" where
  "unhappy_key c \<equiv> (if cStatus c = ConditionFalse then 0 else 1, - cLastTransitionTime c)"

lemma compare_unhappy_key:
  assumes "x \<in> set (unhappy_candidates m deps)" and "y \<in> set (unhappy_candidates m deps)"
  shows "compare_unhappy x y \<le> 0 \<longleftrightarrow> unhappy_key x \<le> unhappy_key y"
proof -
  have "cStatus x = ConditionFalse \<or> cStatus x = ConditionUnknown"
    "cStatus y = ConditionFalse \<or> cStatus y = ConditionUnknown"
    using assms unfolding unhappy_candidates_set by blast+
  then show ?thesis by (elim disjE) (simp_all add: compare_unhappy_def)
qed

lemma findUnhappyDependent_None:
  "findUnhappyDependent m = None \<longleftrightarrow> unhappy_candidates m (pmDependents m) = []"
  by (simp add: findUnhappyDependent_def Let_def)

text \<open>The reported dependent is an unhappy one, and no other has a smaller key.\<close>

lemma findUnhappyDependent_Some:
  assumes "findUnhappyDependent m = Some u"
  shows "u \<in> set (unhappy_candidates m (pmDependents m))"
    and "\<forall>c\<in>set (unhappy_candidates m (pmDependents m)). unhappy_key u \<le> unhappy_key c"
proof -
  let ?cs = "unhappy_candidates m (pmDependents m)"
  let ?s = "sort_key unhappy_key ?cs"
  have ne: "?cs \<noteq> []" using assms by (auto simp: findUnhappyDependent_def Let_def)
  have eq: "sort_stable_func compare_unhappy ?cs = ?s"
    by (rule sort_stable_func_key) (rule compare_unhappy_key)
  have u: "u = hd ?s"
    using assms ne unfolding findUnhappyDependent_def Let_def eq
    by (simp only: length_0_conv if_False option.inject)
  have "?s \<noteq> []" using ne by (metis length_0_conv length_sort)
  then have s: "?s = u # tl ?s" and "u \<in> set ?s"
    unfolding u by (rule list.collapse [symmetric], rule hd_in_set)
  then show "u \<in> set ?cs" by (simp only: set_sort)
  have "sorted (map unhappy_key (u # tl ?s))" unfolding s [symmetric] by (rule sorted_sort_key)
  then have "\<forall>c\<in>set (u # tl ?s). unhappy_key u \<le> unhappy_key c" by simp
  then show "\<forall>c\<in>set ?cs. unhappy_key u \<le> unhappy_key c" unfolding s [symmetric] set_sort .
qed

section \<open>Sorting and construction\<close>

lemma set_priorities_other: "t \<notin> set deps \<Longrightarrow> set_priorities p i deps t = p t"
  by (induction deps arbitrary: p i) auto

lemma set_priorities_nth:
  "distinct deps \<Longrightarrow> i < length deps \<Longrightarrow> set_priorities p n deps (deps ! i) = Some (n + i + 1)"
proof (induction deps arbitrary: n p i)
  case (Cons d deps)
  then show ?case by (cases i) (simp_all add: set_priorities_other)
qed simp

lemma sort_priority_absent: "t \<noteq> pmHappy m \<Longrightarrow> t \<notin> set (pmDependents m) \<Longrightarrow> sort_priority m t = None"
  by (simp add: sort_priority_def set_priorities_other)

definition wf_pkg :: "pkg_manager \<Rightarrow> bool" where
  "wf_pkg m \<longleftrightarrow> distinct (pmDependents m) \<and> pmHappy m \<notin> set (pmDependents m) \<and>
     (\<exists>cs. pmAccessor m = Some cs \<and> unique_types cs)"

lemma sort_priority_happy: "wf_pkg m \<Longrightarrow> sort_priority m (pmHappy m) = Some 0"
  by (simp add: sort_priority_def wf_pkg_def set_priorities_other)

lemma sort_priority_dependent:
  "wf_pkg m \<Longrightarrow> i < length (pmDependents m) \<Longrightarrow> sort_priority m (pmDependents m ! i) = Some (Suc i)"
  by (simp add: sort_priority_def wf_pkg_def set_priorities_nth)

abbreviation pkg_sort_key :: "pkg_manager \<Rightarrow> condition \<Rightarrow> nat \<times> nat \<times> string" where
  "pkg_sort_key m c \<equiv>
     (case sort_priority m (cType c) of Some p \<Rightarrow> (0, p, '''') | None \<Rightarrow> (1, 0, cType c))"

interpretation ps: key_comparison "compare_sort m" "pkg_sort_key m" for m
  by unfold_locales (auto simp: compare_sort_def split: option.splits)

lemma unique_dependents_props:
  "distinct (unique_dependents h seen deps) \<and>
   set (unique_dependents h seen deps) = set deps - insert h seen"
  by (induction h seen deps rule: unique_dependents.induct) auto

lemma seed_dependents_frame [simp]:
  "pmHappy (seed_dependents s m deps) = pmHappy m" "pmDependents (seed_dependents s m deps) = pmDependents m"
  by (induction deps arbitrary: m) simp_all

lemma seed_dependents_keeps:
  assumes "pmAccessor m \<noteq> None" and "pkg_GetCondition m t \<noteq> None \<or> t \<notin> set deps"
  shows "pkg_GetCondition (seed_dependents s m deps) t = pkg_GetCondition m t"
  using assms
proof (induction deps arbitrary: m)
  case (Cons dep deps)
  show ?case
  proof (cases "pkg_GetCondition m dep")
    case None
    let ?m = "fst (pkg_put m (new_condition dep s))"
    from Cons.prems(1) obtain d where look:
      "\<And>t. pkg_GetCondition ?m t = (if t = dep then Some d else pkg_GetCondition m t)"
      by (rule pkg_put_lookup [of m "new_condition dep s"]) simp
    from None Cons.prems(2) have "t \<noteq> dep" by auto
    moreover have "pmAccessor ?m \<noteq> None" using Cons.prems(1) by simp
    ultimately show ?thesis using Cons.IH [of ?m] Cons.prems(2) None look by auto
  next
    case (Some c)
    then show ?thesis using Cons.IH [OF Cons.prems(1)] Cons.prems(2) by auto
  qed
qed simp

lemma seed_dependents_seeds:
  assumes "pmAccessor m \<noteq> None" and "pkg_GetCondition m t = None" and "t \<in> set deps"
  shows "\<exists>d. pkg_GetCondition (seed_dependents s m deps) t = Some d \<and> cStatus d = s"
  using assms
proof (induction deps arbitrary: m)
  case (Cons dep deps)
  show ?case
  proof (cases "pkg_GetCondition m dep")
    case None
    let ?m = "fst (pkg_put m (new_condition dep s))"
    from Cons.prems(1) obtain d where d: "equals d (new_condition dep s)" and look:
      "\<And>t. pkg_GetCondition ?m t = (if t = dep then Some d else pkg_GetCondition m t)"
      by (rule pkg_put_lookup [of m "new_condition dep s"]) simp
    have m: "pmAccessor ?m \<noteq> None" using Cons.prems(1) by simp
    show ?thesis
    proof (cases "t = dep")
      case True
      with look seed_dependents_keeps [OF m, of t deps s] None d show ?thesis by (simp add: equals_def)
    next
      case False
      with Cons.IH [OF m] Cons.prems look None show ?thesis by simp
    qed
  next
    case (Some c)
    then show ?thesis using Cons.IH [OF Cons.prems(1,2)] Cons.prems(2,3) by auto
  qed
qed simp

lemma seed_dependents_unique:
  "pmAccessor m = Some cs \<Longrightarrow> unique_types cs \<Longrightarrow>
    \<exists>cs'. pmAccessor (seed_dependents s m deps) = Some cs' \<and> unique_types cs'"
proof (induction deps arbitrary: m cs)
  case (Cons dep deps)
  then show ?case by (cases "pkg_GetCondition m dep") (simp_all add: pkg_put_accessor root.put_unique)
qed simp

text \<open>An unhappy dependent, independently of the loop that collects them.\<close>

definition pkg_unhappy :: "pkg_manager \<Rightarrow> condition \<Rightarrow> bool" where
  "pkg_unhappy m c \<longleftrightarrow> (\<exists>dep\<in>set (pmDependents m). pkg_GetCondition m dep = Some c) \<and>
     cSeverity c \<noteq> ConditionSeverityInfo \<and> (cStatus c = ConditionFalse \<or> cStatus c = ConditionUnknown)"

section \<open>Example manager\<close>

definition ex_pkg :: pkg_manager where
  "ex_pkg = \<lparr>pmAccessor = Some [new_condition ''B'' ConditionTrue, new_condition ''A'' ConditionFalse],
     pmHappy = ''Ready'', pmDependents = [''A'', ''B''], pmClock = (\<lambda>n. int n + 1), pmTicks = 0\<rparr>"

lemma ex_pkg_wf: "wf_pkg ex_pkg"
  by (simp add: wf_pkg_def ex_pkg_def unique_types_def)

section \<open>Properties\<close>

text \<open>
  a recomputation caused by a condition other than the happy one makes the manager happy
  exactly when no dependent that is present with non-Info severity is False or Unknown; otherwise
  the happy condition takes status, reason and message from an unhappy dependent, a False one if
  there is any and the most recently changed among those of that status.
\<close>

theorem pkg_recompute_correct:
  assumes "wf_pkg m" and "t \<noteq> pmHappy m"
  shows "(pkg_IsHappy (pkg_RecomputeHappiness m t) \<longleftrightarrow> (\<forall>c. \<not> pkg_unhappy m c)) \<and>
    ((\<exists>c. pkg_unhappy m c) \<longrightarrow> (\<exists>h u. pkg_GetTopLevelCondition (pkg_RecomputeHappiness m t) = Some h \<and>
       pkg_unhappy m u \<and> cStatus h = cStatus u \<and> cReason h = cReason u \<and> cMessage h = cMessage u \<and>
       (\<forall>c. pkg_unhappy m c \<longrightarrow> cStatus c = ConditionFalse \<longrightarrow> cStatus u = ConditionFalse) \<and>
       (\<forall>c. pkg_unhappy m c \<longrightarrow> cStatus c = cStatus u \<longrightarrow> cLastTransitionTime c \<le> cLastTransitionTime u)))"
proof -
  have un: "pkg_unhappy m c \<longleftrightarrow> c \<in> set (unhappy_candidates m (pmDependents m))" for c
    unfolding pkg_unhappy_def unhappy_candidates_set by blast
  have acc: "pmAccessor m \<noteq> None" using assms(1) by (auto simp: wf_pkg_def)
  have happy: "pkg_IsHappy n \<longleftrightarrow> (\<exists>h. pkg_GetTopLevelCondition n = Some h \<and> cStatus h = ConditionTrue)" for n
    by (auto simp: pkg_IsHappy_def pkg_GetTopLevelCondition_def pkg_GetCondition_def
        pkg_IsStatusConditionTrue_def split: option.splits)
  have put: "\<exists>h. pkg_GetTopLevelCondition (fst (pkg_put m c)) = Some h \<and> equals h c"
    if "cType c = pmHappy m" for c
    using pkg_put_lookup [OF acc, of c] that unfolding pkg_GetTopLevelCondition_def by (metis pkg_put_frame(1))
  show ?thesis
  proof (cases "findUnhappyDependent m")
    case None
    then have none: "\<not> pkg_unhappy m c" for c by (simp add: un findUnhappyDependent_None)
    let ?c = "(new_condition (pmHappy m) ConditionTrue)\<lparr>cReason := ''AllDependentsHealthy''\<rparr>"
    have "pkg_RecomputeHappiness m t = fst (pkg_put m ?c)"
      using None assms(2) by (simp add: pkg_RecomputeHappiness_def)
    with put [of ?c] have "pkg_IsHappy (pkg_RecomputeHappiness m t)" unfolding happy by (auto simp: equals_def)
    with none show ?thesis by blast
  next
    case (Some u)
    note u = findUnhappyDependent_Some [OF Some]
    have uu: "pkg_unhappy m u" using u(1) by (simp add: un)
    then have st: "cStatus u = ConditionFalse \<or> cStatus u = ConditionUnknown" by (simp add: pkg_unhappy_def)
    let ?c = "(new_condition (pmHappy m) (cStatus u))\<lparr>cReason := cReason u, cMessage := cMessage u\<rparr>"
    have "pkg_RecomputeHappiness m t = fst (pkg_put m ?c)"
      using Some by (simp add: pkg_RecomputeHappiness_def)
    with put [of ?c] obtain h where h: "pkg_GetTopLevelCondition (pkg_RecomputeHappiness m t) = Some h"
      "cStatus h = cStatus u" "cReason h = cReason u" "cMessage h = cMessage u"
      by (auto simp: equals_def)
    have first: "unhappy_key u \<le> unhappy_key c" if "pkg_unhappy m c" for c
      using u(2) that by (simp add: un)
    have "cStatus u = ConditionFalse" if "pkg_unhappy m c" "cStatus c = ConditionFalse" for c
      using first [OF that(1)] that(2) by (auto split: if_splits)
    moreover have "cLastTransitionTime c \<le> cLastTransitionTime u" if "pkg_unhappy m c" "cStatus c = cStatus u" for c
      using first [OF that(1)] that(2) by (auto split: if_splits)
    moreover have "\<not> pkg_IsHappy (pkg_RecomputeHappiness m t)" using h(1,2) st by (auto simp: happy)
    ultimately show ?thesis using h uu by blast
  qed
qed

theorem pkg_recompute_correct_witness:
  "\<not> pkg_IsHappy (pkg_RecomputeHappiness ex_pkg ''B'')"
proof -
  have "''B'' \<noteq> pmHappy ex_pkg" by (simp add: ex_pkg_def)
  moreover have "pkg_GetCondition ex_pkg ''A'' = Some (new_condition ''A'' ConditionFalse)" "''A'' \<in> set (pmDependents ex_pkg)"
    by (simp_all add: pkg_GetCondition_def ex_pkg_def)
  ultimately show ?thesis
    using pkg_recompute_correct [OF ex_pkg_wf, of "''B''"] severity_neq new_condition_sel(2,3)
    unfolding pkg_unhappy_def by metis
qed

text \<open>
  Sorting keeps the conditions (as a multiset) and puts the happy condition first, the
  dependents after it in registration order, and all other types last in byte order; sorting again
  changes nothing.
\<close>

theorem pkg_sort_correct:
  assumes "wf_pkg m" and "pmAccessor m = Some cs" and "pmAccessor (pkg_Sort m) = Some cs'"
  shows "mset cs' = mset cs \<and>
    (\<forall>i j. i < j \<longrightarrow> j < length cs' \<longrightarrow>
       (cType (cs' ! j) = pmHappy m \<longrightarrow> cType (cs' ! i) = pmHappy m) \<and>
       (\<forall>p q. p < length (pmDependents m) \<longrightarrow> q < length (pmDependents m) \<longrightarrow>
          cType (cs' ! i) = pmDependents m ! p \<longrightarrow> cType (cs' ! j) = pmDependents m ! q \<longrightarrow> p \<le> q) \<and>
       (cType (cs' ! i) \<noteq> pmHappy m \<longrightarrow> cType (cs' ! i) \<notin> set (pmDependents m) \<longrightarrow>
          cType (cs' ! j) \<noteq> pmHappy m \<and> cType (cs' ! j) \<notin> set (pmDependents m) \<and>
          cType (cs' ! i) \<le> cType (cs' ! j))) \<and>
    pkg_Sort (pkg_Sort m) = pkg_Sort m"
proof -
  have cs': "cs' = sort_stable_func (compare_sort m) cs"
    using assms(2,3) by (auto simp: pkg_Sort_def sort_stable_func_def split: if_splits)
  have same: "compare_sort (m\<lparr>pmAccessor := x\<rparr>) = compare_sort m" for x
    by (intro ext) (simp add: compare_sort_def sort_priority_def)
  have idem: "pkg_Sort (pkg_Sort m) = pkg_Sort m"
    using assms(2) by (simp add: pkg_Sort_def same ps.idempotent sort_stable_func_def split: if_splits)
      (simp add: sort_stable_func_def [symmetric] ps.idempotent)
  have key: "pkg_sort_key m (cs' ! i) \<le> pkg_sort_key m (cs' ! j)" if "i < j" "j < length cs'" for i j
    using ps.sorted_result [of m cs] that unfolding cs' [symmetric]
    by (simp add: sorted_iff_nth_mono)
  note pr = sort_priority_happy [OF assms(1)] sort_priority_dependent [OF assms(1)]
  have pos: "\<exists>p>0. sort_priority m x = Some p" if "x \<in> set (pmDependents m)" for x
    using that pr(2) by (metis in_set_conv_nth zero_less_Suc)
  have A: "cType (cs' ! i) = pmHappy m" if "i < j" "j < length cs'" "cType (cs' ! j) = pmHappy m" for i j
    using key [OF that(1,2)] that(3) pr(1) pos [of "cType (cs' ! i)"] sort_priority_absent [of "cType (cs' ! i)" m]
    by (cases "cType (cs' ! i) \<in> set (pmDependents m)"; cases "cType (cs' ! i) = pmHappy m") auto
  have B: "p \<le> q" if "i < j" "j < length cs'" "p < length (pmDependents m)" "q < length (pmDependents m)"
    "cType (cs' ! i) = pmDependents m ! p" "cType (cs' ! j) = pmDependents m ! q" for i j p q
    using key [OF that(1,2)] that(5,6) pr(2) [OF that(3)] pr(2) [OF that(4)] by auto
  have C: "cType (cs' ! j) \<noteq> pmHappy m \<and> cType (cs' ! j) \<notin> set (pmDependents m) \<and> cType (cs' ! i) \<le> cType (cs' ! j)"
    if "i < j" "j < length cs'" "cType (cs' ! i) \<noteq> pmHappy m" "cType (cs' ! i) \<notin> set (pmDependents m)" for i j
  proof -
    have none: "sort_priority m (cType (cs' ! j)) = None"
      using key [OF that(1,2)] sort_priority_absent [OF that(3,4)]
      by (cases "sort_priority m (cType (cs' ! j))") simp_all
    then have "cType (cs' ! j) \<noteq> pmHappy m" "cType (cs' ! j) \<notin> set (pmDependents m)"
      using pr(1) pos by force+
    then show ?thesis using none key [OF that(1,2)] sort_priority_absent [OF that(3,4)] by simp
  qed
  have ms: "mset cs' = mset cs" by (simp add: cs')
  show ?thesis
    by (intro conjI allI impI) (rule ms, erule (2) A, erule (5) B, (drule (3) C, elim conjE, assumption)+, rule idem)
qed

theorem pkg_sort_correct_witness:
  "\<exists>cs'. pmAccessor (pkg_Sort ex_pkg) = Some cs' \<and> pkg_Sort (pkg_Sort ex_pkg) = pkg_Sort ex_pkg"
proof -
  have "pmAccessor ex_pkg = Some (the (pmAccessor ex_pkg))" by (simp add: ex_pkg_def)
  moreover have "\<exists>cs'. pmAccessor (pkg_Sort ex_pkg) = Some cs'" by (simp add: pkg_Sort_def ex_pkg_def)
  ultimately show ?thesis using pkg_sort_correct [OF ex_pkg_wf] by blast
qed

text \<open>
  A new manager has each given dependent once, never the happy type; it keeps every existing
  condition and seeds the missing dependents True exactly when the happy condition was already
  True, Unknown otherwise, and a missing happy condition becomes Unknown.
\<close>

theorem pkg_NewManager_seeds:
  assumes "unique_types cs"
    and m_def: "m = pkg_NewManager clk n (Some cs) happy deps"
  shows "wf_pkg m \<and> set (pmDependents m) = set deps - {happy} \<and>
    (\<forall>t c. pkg_FindStatusCondition cs t = Some c \<longrightarrow> pkg_GetCondition m t = Some c) \<and>
    (pkg_FindStatusCondition cs happy = None \<longrightarrow>
       (\<exists>c. pkg_GetTopLevelCondition m = Some c \<and> cStatus c = ConditionUnknown)) \<and>
    (\<forall>t\<in>set deps - {happy}. pkg_FindStatusCondition cs t = None \<longrightarrow>
       (\<exists>c. pkg_GetCondition m t = Some c \<and> cStatus c =
          (if pkg_IsStatusConditionTrue cs happy then ConditionTrue else ConditionUnknown)))"
proof -
  let ?m0 = "\<lparr>pmAccessor = Some cs, pmHappy = happy, pmDependents = unique_dependents happy {} deps,
      pmClock = clk, pmTicks = n\<rparr>"
  let ?h = "new_condition happy ConditionUnknown"
  let ?m1 = "if pkg_FindStatusCondition cs happy = None then fst (pkg_put ?m0 ?h) else ?m0"
  let ?s = "if pkg_IsStatusConditionTrue cs happy then ConditionTrue else ConditionUnknown"
  have m: "m = seed_dependents ?s ?m1 (unique_dependents happy {} deps)"
    by (auto simp: m_def pkg_NewManager_def pkg_initializeConditions_def Let_def pkg_GetCondition_def
        pkg_IsStatusConditionTrue_def split: option.splits)
  have acc: "pmAccessor ?m1 \<noteq> None" by (simp add: pkg_put_accessor)
  obtain d where d: "equals d ?h"
    and put: "\<And>t. pkg_GetCondition (fst (pkg_put ?m0 ?h)) t = (if t = happy then Some d else pkg_FindStatusCondition cs t)"
    by (rule pkg_put_lookup [of ?m0 ?h]) (simp_all add: pkg_GetCondition_def)
  have m1: "pkg_GetCondition ?m1 t =
      (if t = happy \<and> pkg_FindStatusCondition cs t = None then Some d else pkg_FindStatusCondition cs t)" for t
  proof (cases "pkg_FindStatusCondition cs happy")
    case None
    then show ?thesis using put [of t] by auto
  next
    case (Some c)
    then show ?thesis by (auto simp: pkg_GetCondition_def)
  qed
  note ud = unique_dependents_props [of happy "{}" deps]
  have fr: "pmHappy m = happy" "pmDependents m = unique_dependents happy {} deps" by (simp_all add: m)
  have "\<exists>cs1. pmAccessor ?m1 = Some cs1 \<and> unique_types cs1"
    using assms(1) by (simp add: pkg_put_accessor root.put_unique)
  then have "wf_pkg m" using ud seed_dependents_unique by (auto simp: wf_pkg_def fr m)
  moreover have keep: "pkg_GetCondition m t = Some c" if "pkg_GetCondition ?m1 t = Some c" for t c
    unfolding m using seed_dependents_keeps [OF acc] that by simp
  moreover have "\<exists>c. pkg_GetCondition m t = Some c \<and> cStatus c = ?s"
    if "t \<in> set deps - {happy}" "pkg_FindStatusCondition cs t = None" for t
    unfolding m by (rule seed_dependents_seeds [OF acc]) (use that m1 ud in auto)
  ultimately show ?thesis
    using ud m1 d fr by (auto simp: pkg_GetTopLevelCondition_def equals_def)
qed

theorem pkg_NewManager_seeds_witness:
  "pmDependents (pkg_NewManager (\<lambda>_. 1) 0 (Some []) ''Ready'' [''A'', ''Ready'', ''A'']) \<noteq> [] \<and>
   set (pmDependents (pkg_NewManager (\<lambda>_. 1) 0 (Some []) ''Ready'' [''A'', ''Ready'', ''A''])) = {''A''}"
proof -
  have "unique_types []" by (simp add: unique_types_def)
  from pkg_NewManager_seeds [OF this refl, of "\<lambda>_. 1" 0 "''Ready''" "[''A'', ''Ready'', ''A'']"]
  have "set (pmDependents (pkg_NewManager (\<lambda>_. 1) 0 (Some []) ''Ready'' [''A'', ''Ready'', ''A''])) = {''A''}"
    by auto
  then show ?thesis by fastforce
qed

end
