(* ===== verification/KObject.thy ===== *)
theory KObject
  imports GoErrors
begin

text \<open>
  Kubernetes objects as the program sees them through \<^verbatim>\<open>client.Object\<close> and
  \<^verbatim>\<open>unstructured.Unstructured\<close>, and the helpers of \<^verbatim>\<open>framework/resources\<close>: labels and
  annotations, owner references, naming, server metadata, and the apply order of
  \<^verbatim>\<open>sort.go\<close>. Operations of the API client, of the scheme and of the post-renderer pipeline are
  parameters.
\<close>

section \<open>Data\<close>

record gvk =
  gGroup :: string
  gVersion :: string
  gKind :: string

definition mk_gvk :: "string \<Rightarrow> string \<Rightarrow> string \<Rightarrow> gvk" where
  "mk_gvk g v k = \<lparr>gGroup = g, gVersion = v, gKind = k\<rparr>"

lemma mk_gvk_inject [simp]: "mk_gvk g v k = mk_gvk g' v' k' \<longleftrightarrow> g = g' \<and> v = v' \<and> k = k'"
  by (simp add: mk_gvk_def)

lemma mk_gvk_sel [simp]: "gGroup (mk_gvk g v k) = g" "gVersion (mk_gvk g v k) = v" "gKind (mk_gvk g v k) = k"
  by (simp_all add: mk_gvk_def)

record owner_ref =
  orAPIVersion :: string
  orKind :: string
  orName :: string
  orUID :: string
  orController :: bool

text \<open>The decoded content of an object, \<^verbatim>\<open>map[string]any\<close> and below.\<close>

datatype json =
    JNull
  | JBool bool
  | JInt int
  | JString string
  | JList "json list"
  | JMap "(string \<times> json) list"

text \<open>
  Labels and annotations are Go maps that may be nil (\<open>None\<close>). \<open>oBody\<close> is everything of the
  object outside its metadata and status; \<open>oStatus\<close> its status, \<open>oManagedFields\<close> whether the
  server's field bookkeeping is present.
\<close>

record kobj =
  oGVK :: gvk
  oNamespace :: string
  oName :: string
  oUID :: string
  oResourceVersion :: string
  oGeneration :: int
  oCreationTimestamp :: gotime
  oDeletionTimestamp :: gotime
  oLabels :: "(string \<rightharpoonup> string) option"
  oAnnotations :: "(string \<rightharpoonup> string) option"
  oOwnerRefs :: "owner_ref list"
  oFinalizers :: "string list"
  oManagedFields :: bool
  oBody :: "(string \<times> json) list"
  oStatus :: "json option"

definition GvkToUnstructured :: "gvk \<Rightarrow> kobj" where
  "GvkToUnstructured g = \<lparr>oGVK = g, oNamespace = '''', oName = '''', oUID = '''', oResourceVersion = '''',
     oGeneration = 0, oCreationTimestamp = 0, oDeletionTimestamp = 0, oLabels = None, oAnnotations = None,
     oOwnerRefs = [], oFinalizers = [], oManagedFields = False, oBody = [], oStatus = None\<rparr>"

section \<open>Labels and annotations\<close>

text \<open>\<^verbatim>\<open>target[k]\<close> of a Go map of strings: the empty string for a missing key.\<close>

definition go_get :: "(string \<rightharpoonup> string) \<Rightarrow> string \<Rightarrow> string" where
  "go_get m k = (case m k of None \<Rightarrow> '''' | Some v \<Rightarrow> v)"

definition HasLabel :: "'a kobj_scheme option \<Rightarrow> string \<Rightarrow> string list \<Rightarrow> bool" where
  "HasLabel ob k values =
     (case ob of None \<Rightarrow> False
      | Some obj \<Rightarrow> (case oLabels obj of None \<Rightarrow> False
          | Some target \<Rightarrow> (case target k of None \<Rightarrow> False | Some val \<Rightarrow> val \<in> set values)))"

definition SetLabels :: "'a kobj_scheme \<Rightarrow> (string \<rightharpoonup> string) \<Rightarrow> 'a kobj_scheme" where
  "SetLabels obj values =
     (let target = (case oLabels obj of None \<Rightarrow> Map.empty | Some t \<Rightarrow> t)
      in obj\<lparr>oLabels := Some (target ++ values)\<rparr>)"

definition SetLabel :: "'a kobj_scheme \<Rightarrow> string \<Rightarrow> string \<Rightarrow> 'a kobj_scheme \<times> string" where
  "SetLabel obj k v =
     (let target = (case oLabels obj of None \<Rightarrow> Map.empty | Some t \<Rightarrow> t); old = go_get target k
      in (obj\<lparr>oLabels := Some (target(k \<mapsto> v))\<rparr>, old))"

definition RemoveLabel :: "'a kobj_scheme \<Rightarrow> string \<Rightarrow> 'a kobj_scheme" where
  "RemoveLabel obj k =
     (case oLabels obj of None \<Rightarrow> obj | Some target \<Rightarrow> obj\<lparr>oLabels := Some (target(k := None))\<rparr>)"

definition GetLabel :: "'a kobj_scheme \<Rightarrow> string \<Rightarrow> string" where
  "GetLabel obj k = (case oLabels obj of None \<Rightarrow> '''' | Some target \<Rightarrow> go_get target k)"

definition HasAnnotation :: "'a kobj_scheme option \<Rightarrow> string \<Rightarrow> string list \<Rightarrow> bool" where
  "HasAnnotation ob k values =
     (case ob of None \<Rightarrow> False
      | Some obj \<Rightarrow> (case oAnnotations obj of None \<Rightarrow> False
          | Some target \<Rightarrow> (case target k of None \<Rightarrow> False | Some val \<Rightarrow> val \<in> set values)))"

definition SetAnnotations :: "'a kobj_scheme \<Rightarrow> (string \<rightharpoonup> string) \<Rightarrow> 'a kobj_scheme" where
  "SetAnnotations obj values =
     (let target = (case oAnnotations obj of None \<Rightarrow> Map.empty | Some t \<Rightarrow> t)
      in obj\<lparr>oAnnotations := Some (target ++ values)\<rparr>)"

definition SetAnnotation :: "'a kobj_scheme \<Rightarrow> string \<Rightarrow> string \<Rightarrow> 'a kobj_scheme \<times> string" where
  "SetAnnotation obj k v =
     (let target = (case oAnnotations obj of None \<Rightarrow> Map.empty | Some t \<Rightarrow> t); old = go_get target k
      in (obj\<lparr>oAnnotations := Some (target(k \<mapsto> v))\<rparr>, old))"

definition RemoveAnnotation :: "'a kobj_scheme \<Rightarrow> string \<Rightarrow> 'a kobj_scheme" where
  "RemoveAnnotation obj k =
     (case oAnnotations obj of None \<Rightarrow> obj | Some target \<Rightarrow> obj\<lparr>oAnnotations := Some (target(k := None))\<rparr>)"

definition GetAnnotation :: "'a kobj_scheme \<Rightarrow> string \<Rightarrow> string" where
  "GetAnnotation obj k = (case oAnnotations obj of None \<Rightarrow> '''' | Some target \<Rightarrow> go_get target k)"

lemma GetLabel_SetLabel [simp]:
  "GetLabel (fst (SetLabel obj k v)) j = (if j = k then v else GetLabel obj j)"
  by (simp add: GetLabel_def SetLabel_def Let_def go_get_def split: option.splits)

lemma GetLabel_SetLabels [simp]:
  "GetLabel (SetLabels obj m) j = (case m j of Some v \<Rightarrow> v | None \<Rightarrow> GetLabel obj j)"
  by (simp add: GetLabel_def SetLabels_def Let_def go_get_def map_add_def split: option.splits)

lemma GetAnnotation_SetAnnotation [simp]:
  "GetAnnotation (fst (SetAnnotation obj k v)) j = (if j = k then v else GetAnnotation obj j)"
  by (simp add: GetAnnotation_def SetAnnotation_def Let_def go_get_def split: option.splits)

lemma GetAnnotation_SetAnnotations [simp]:
  "GetAnnotation (SetAnnotations obj m) j = (case m j of Some v \<Rightarrow> v | None \<Rightarrow> GetAnnotation obj j)"
  by (simp add: GetAnnotation_def SetAnnotations_def Let_def go_get_def map_add_def split: option.splits)

lemma GetAnnotation_RemoveAnnotation [simp]:
  "GetAnnotation (RemoveAnnotation obj k) j = (if j = k then '''' else GetAnnotation obj j)"
  by (auto simp: GetAnnotation_def RemoveAnnotation_def go_get_def split: option.splits)

lemma GetLabel_RemoveLabel [simp]:
  "GetLabel (RemoveLabel obj k) j = (if j = k then '''' else GetLabel obj j)"
  by (auto simp: GetLabel_def RemoveLabel_def go_get_def split: option.splits)

lemma meta_frames [simp]:
  "GetLabel (fst (SetAnnotation obj k v)) j = GetLabel obj j" "GetLabel (SetAnnotations obj m) j = GetLabel obj j"
  "GetAnnotation (fst (SetLabel obj k v)) j = GetAnnotation obj j"
  "GetAnnotation (SetLabels obj m) j = GetAnnotation obj j"
  "GetLabel (RemoveAnnotation obj k) j = GetLabel obj j"
  by (simp_all add: GetLabel_def GetAnnotation_def SetAnnotation_def SetAnnotations_def SetLabel_def
      SetLabels_def RemoveAnnotation_def Let_def split: option.splits)

lemma meta_identity [simp]:
  "oGVK (fst (SetAnnotation obj k v)) = oGVK obj" "oGVK (SetAnnotations obj m) = oGVK obj"
  "oGVK (fst (SetLabel obj k v)) = oGVK obj" "oGVK (SetLabels obj m) = oGVK obj"
  "oGVK (RemoveAnnotation obj k) = oGVK obj"
  "oName (fst (SetAnnotation obj k v)) = oName obj" "oName (SetAnnotations obj m) = oName obj"
  "oName (fst (SetLabel obj k v)) = oName obj" "oName (SetLabels obj m) = oName obj"
  "oName (RemoveAnnotation obj k) = oName obj"
  "oNamespace (fst (SetAnnotation obj k v)) = oNamespace obj" "oNamespace (SetAnnotations obj m) = oNamespace obj"
  "oNamespace (fst (SetLabel obj k v)) = oNamespace obj" "oNamespace (SetLabels obj m) = oNamespace obj"
  "oNamespace (RemoveAnnotation obj k) = oNamespace obj"
  by (simp_all add: SetAnnotation_def SetAnnotations_def SetLabel_def SetLabels_def RemoveAnnotation_def
      Let_def split: option.splits)

section \<open>Kinds\<close>

text \<open>\<open>lookup\<close> is \<^verbatim>\<open>apiutil.GVKForObject\<close> with the client's scheme.\<close>

definition KindForObject :: "('a kobj_scheme \<Rightarrow> go_error + gvk) \<Rightarrow> 'a kobj_scheme \<Rightarrow> go_error + string" where
  "KindForObject lookup obj =
     (if gKind (oGVK obj) \<noteq> '''' then Inr (gKind (oGVK obj))
      else case lookup obj of Inl e \<Rightarrow> Inl (ErrWrap ''failed to get GVK'' e) | Inr g \<Rightarrow> Inr (gKind g))"

definition GetGroupVersionKindForObject ::
  "('a kobj_scheme \<Rightarrow> go_error + gvk) \<Rightarrow> 'a kobj_scheme option \<Rightarrow> go_error + gvk" where
  "GetGroupVersionKindForObject lookup ob =
     (case ob of
        None \<Rightarrow> Inl (ErrNew ''nil object'')
      | Some obj \<Rightarrow>
          if gVersion (oGVK obj) \<noteq> '''' \<and> gKind (oGVK obj) \<noteq> '''' then Inr (oGVK obj)
          else case lookup obj of Inl e \<Rightarrow> Inl (ErrWrap ''failed to get GVK'' e) | Inr g \<Rightarrow> Inr g)"

definition EnsureGroupVersionKind ::
  "('a kobj_scheme \<Rightarrow> go_error + gvk) \<Rightarrow> 'a kobj_scheme \<Rightarrow> go_error + 'a kobj_scheme" where
  "EnsureGroupVersionKind lookup obj =
     (case GetGroupVersionKindForObject lookup (Some obj) of
        Inl e \<Rightarrow> Inl e
      | Inr g \<Rightarrow> Inr (obj\<lparr>oGVK := g\<rparr>))"

section \<open>Names\<close>

definition NamespacedNameFromObject :: "'a kobj_scheme \<Rightarrow> string \<times> string" where
  "NamespacedNameFromObject obj = (oNamespace obj, oName obj)"

definition FormatNamespacedName :: "string \<times> string \<Rightarrow> string" where
  "FormatNamespacedName nn = (if fst nn = '''' then snd nn else fst nn @ ''/'' @ snd nn)"

definition FormatUnstructuredName :: "'a kobj_scheme \<Rightarrow> string" where
  "FormatUnstructuredName obj = (if oNamespace obj = '''' then oName obj else oNamespace obj @ ''/'' @ oName obj)"

text \<open>\<^verbatim>\<open>schema.GroupVersionKind.String()\<close>.\<close>

definition gvk_string :: "gvk \<Rightarrow> string" where
  "gvk_string g = gGroup g @ ''/'' @ gVersion g @ '', Kind='' @ gKind g"

definition FormatObjectReference :: "'a kobj_scheme \<Rightarrow> string" where
  "FormatObjectReference u =
     (let g = gvk_string (oGVK u); name = oName u; ns = oNamespace u
      in if ns \<noteq> '''' then g @ '' '' @ ns @ ''/'' @ name else g @ '' '' @ name)"

section \<open>Owner references\<close>

text \<open>\<open>update\<close> is the client's \<^verbatim>\<open>Update\<close> on the cluster state \<open>w\<close>: on success the object takes
  the server's answer.\<close>

definition RemoveOwnerReferences ::
  "('w \<Rightarrow> kobj \<Rightarrow> 'w \<times> (go_error + kobj)) \<Rightarrow> 'w \<Rightarrow> kobj \<Rightarrow> (owner_ref \<Rightarrow> bool) \<Rightarrow> 'w \<times> kobj \<times> go_error option" where
  "RemoveOwnerReferences update w obj pred =
     (let oldRefs = oOwnerRefs obj
      in if length oldRefs = 0 then (w, obj, None)
         else let newRefs = filter (\<lambda>r. \<not> pred r) oldRefs
              in if length newRefs = length oldRefs then (w, obj, None)
                 else let obj' = obj\<lparr>oOwnerRefs := newRefs\<rparr>
                      in case update w obj' of
                           (w', Inl e) \<Rightarrow> (w', obj', Some (ErrWrap
                              (''failed to remove owner references from object '' @ oNamespace obj @ ''/'' @
                               oName obj @ '' with gvk '' @ gvk_string (oGVK obj)) e))
                         | (w', Inr stored) \<Rightarrow> (w', stored, None))"

text \<open>\<open>parse\<close> is \<^verbatim>\<open>schema.ParseGroupVersion\<close>.\<close>

fun owned_by_refs :: "(string \<Rightarrow> go_error + string \<times> string) \<Rightarrow> gvk \<Rightarrow> owner_ref list \<Rightarrow> go_error + bool" where
  "owned_by_refs parse g [] = Inr False"
| "owned_by_refs parse g (r # rs) =
     (case parse (orAPIVersion r) of
        Inl e \<Rightarrow> Inl e
      | Inr (grp, ver) \<Rightarrow>
          if grp = gGroup g \<and> ver = gVersion g \<and> orKind r = gKind g then Inr True else owned_by_refs parse g rs)"

definition IsOwnedByType ::
  "(string \<Rightarrow> go_error + string \<times> string) \<Rightarrow> 'a kobj_scheme \<Rightarrow> gvk \<Rightarrow> go_error + bool" where
  "IsOwnedByType parse obj g = owned_by_refs parse g (oOwnerRefs obj)"

section \<open>Server metadata\<close>

definition StripServerMetadata :: "kobj option \<Rightarrow> kobj option" where
  "StripServerMetadata ob = (case ob of None \<Rightarrow> None
     | Some obj \<Rightarrow> Some (obj\<lparr>oUID := '''', oResourceVersion := '''', oGeneration := 0, oManagedFields := False,
         oCreationTimestamp := 0, oDeletionTimestamp := 0, oOwnerRefs := [], oStatus := None\<rparr>))"

text \<open>The fields that \<^verbatim>\<open>Hash\<close> removes before it prints and digests an object; \<open>digest\<close> is both.\<close>

definition hash_view :: "kobj \<Rightarrow> kobj" where
  "hash_view obj = obj\<lparr>oUID := '''', oResourceVersion := '''', oDeletionTimestamp := 0, oManagedFields := False,
     oOwnerRefs := [], oStatus := None\<rparr>"

definition Hash :: "(kobj \<Rightarrow> string) \<Rightarrow> kobj \<Rightarrow> string" where
  "Hash digest obj = digest (hash_view obj)"

section \<open>Writing objects\<close>

text \<open>\<open>conv\<close> is the apimachinery converter, \<open>tname\<close> the Go type name that \<^verbatim>\<open>%T\<close> prints.\<close>

definition ToUnstructured :: "('o \<Rightarrow> go_error + kobj) \<Rightarrow> string \<Rightarrow> 'o \<Rightarrow> go_error + kobj" where
  "ToUnstructured conv tname obj =
     (case conv obj of
        Inl e \<Rightarrow> Inl (ErrWrap (''unable to convert object '' @ tname @ '' to unstructured'') e)
      | Inr u \<Rightarrow> Inr u)"

definition ObjectToUnstructured ::
  "('a kobj_scheme \<Rightarrow> go_error + gvk) \<Rightarrow> ('a kobj_scheme \<Rightarrow> go_error + kobj) \<Rightarrow> string \<Rightarrow> 'a kobj_scheme \<Rightarrow>
   go_error + kobj" where
  "ObjectToUnstructured lookup conv tname obj =
     (case EnsureGroupVersionKind lookup obj of
        Inl e \<Rightarrow> Inl (ErrWrap ''failed to ensure GroupVersionKind'' e)
      | Inr obj' \<Rightarrow> ToUnstructured conv tname obj')"

text \<open>
  The client's server-side apply takes the object and returns what the server stored; \<open>convert\<close>
  is the scheme's conversion back into the caller's object.
\<close>

definition Apply ::
  "('a kobj_scheme \<Rightarrow> go_error + gvk) \<Rightarrow> ('a kobj_scheme \<Rightarrow> go_error + kobj) \<Rightarrow> string \<Rightarrow>
   ('w \<Rightarrow> kobj \<Rightarrow> 'w \<times> (go_error + kobj)) \<Rightarrow> (kobj \<Rightarrow> 'a kobj_scheme \<Rightarrow> go_error + 'a kobj_scheme) \<Rightarrow>
   'w \<Rightarrow> 'a kobj_scheme \<Rightarrow> 'w \<times> 'a kobj_scheme \<times> go_error option" where
  "Apply lookup conv tname apply convert w obj =
     (case EnsureGroupVersionKind lookup obj of
        Inl e \<Rightarrow> (w, obj, Some (ErrWrap ''failed to ensure GVK'' e))
      | Inr obj1 \<Rightarrow>
          (case ToUnstructured conv tname obj1 of
             Inl e \<Rightarrow> (w, obj1, Some (ErrWrap ''failed to convert resource to unstructured'' e))
           | Inr u0 \<Rightarrow>
               let u = u0\<lparr>oManagedFields := False, oResourceVersion := '''', oStatus := None\<rparr>
               in case apply w u of
                    (w', Inl e) \<Rightarrow> (w', obj1, Some (ErrWrap (''unable to patch '' @ FormatObjectReference u) e))
                  | (w', Inr u') \<Rightarrow>
                      (case convert u' obj1 of
                         Inl e \<Rightarrow> (w', obj1, Some (ErrWrap ''failed to write modified object'' e))
                       | Inr obj2 \<Rightarrow> (w', obj2, None))))"

definition ApplyStatus ::
  "('a kobj_scheme \<Rightarrow> go_error + gvk) \<Rightarrow> ('a kobj_scheme \<Rightarrow> go_error + kobj) \<Rightarrow> string \<Rightarrow>
   ('w \<Rightarrow> kobj \<Rightarrow> 'w \<times> (go_error + kobj)) \<Rightarrow> (kobj \<Rightarrow> 'a kobj_scheme \<Rightarrow> go_error + 'a kobj_scheme) \<Rightarrow>
   'w \<Rightarrow> 'a kobj_scheme \<Rightarrow> 'w \<times> 'a kobj_scheme \<times> go_error option" where
  "ApplyStatus lookup conv tname apply convert w obj =
     (case EnsureGroupVersionKind lookup obj of
        Inl e \<Rightarrow> (w, obj, Some (ErrWrap ''failed to ensure GVK'' e))
      | Inr obj1 \<Rightarrow>
          (case ToUnstructured conv tname obj1 of
             Inl e \<Rightarrow> (w, obj1, Some (ErrWrap ''failed to convert resource to unstructured'' e))
           | Inr u0 \<Rightarrow>
               let u = u0\<lparr>oManagedFields := False, oResourceVersion := ''''\<rparr>
               in case apply w u of
                    (w', Inl e) \<Rightarrow>
                      if IsNotFound e then (w', obj1, None)
                      else (w', obj1, Some (ErrWrap (''unable to patch '' @ FormatObjectReference u @ '' status'') e))
                  | (w', Inr u') \<Rightarrow>
                      (case convert u' obj1 of
                         Inl e \<Rightarrow> (w', obj1, Some (ErrWrap ''failed to write modified object'' e))
                       | Inr obj2 \<Rightarrow> (w', obj2, None))))"

section \<open>Deleting by field value\<close>

record ResourceSpec =
  rsGvk :: gvk
  rsNamespace :: string
  rsFieldPath :: "string list"
  rsFilterValues :: "string list"

text \<open>\<^verbatim>\<open>%v\<close> of a string slice.\<close>

definition slice_str :: "string list \<Rightarrow> string" where
  "slice_str xs = ''['' @ join_with '' '' xs @ '']''"

text \<open>\<open>delete\<close> is the client's \<^verbatim>\<open>Delete\<close>, \<open>nested\<close> is \<^verbatim>\<open>unstructured.NestedString\<close>, \<open>list\<close> the
  client's \<^verbatim>\<open>List\<close> in a namespace.\<close>

fun delete_matching ::
  "('w \<Rightarrow> kobj \<Rightarrow> 'w \<times> go_error option) \<Rightarrow> ResourceSpec \<Rightarrow> kobj \<Rightarrow> string \<Rightarrow> 'w \<Rightarrow> string list \<Rightarrow> 'w \<times> go_error option" where
  "delete_matching delete res item v w [] = (w, None)"
| "delete_matching delete res item v w (t # ts) =
     (if v = t
      then (case delete w item of
              (w', Some e) \<Rightarrow> (w', Some (ErrWrap (''failed to delete '' @ gKind (rsGvk res) @ '' '' @
                 rsNamespace res @ ''/'' @ oName item) e))
            | (w', None) \<Rightarrow> delete_matching delete res item v w' ts)
      else delete_matching delete res item v w ts)"

fun delete_items ::
  "(kobj \<Rightarrow> string list \<Rightarrow> go_error + string option) \<Rightarrow> ('w \<Rightarrow> kobj \<Rightarrow> 'w \<times> go_error option) \<Rightarrow> ResourceSpec \<Rightarrow>
   'w \<Rightarrow> kobj list \<Rightarrow> 'w \<times> go_error option" where
  "delete_items nested delete res w [] = (w, None)"
| "delete_items nested delete res w (item # items) =
     (case nested item (rsFieldPath res) of
        Inl e \<Rightarrow> (w, Some (ErrWrap (''failed to get field '' @ slice_str (rsFieldPath res) @ '' for '' @
           gKind (rsGvk res) @ '' '' @ rsNamespace res @ ''/'' @ oName item) e))
      | Inr None \<Rightarrow> (w, Some (ErrNew (''nonexistent field path: '' @ slice_str (rsFieldPath res))))
      | Inr (Some v) \<Rightarrow>
          (case delete_matching delete res item v w (rsFilterValues res) of
             (w', Some e) \<Rightarrow> (w', Some e)
           | (w', None) \<Rightarrow> delete_items nested delete res w' items))"

definition DeleteOneResource ::
  "('w \<Rightarrow> gvk \<Rightarrow> string \<Rightarrow> go_error + kobj list) \<Rightarrow> (kobj \<Rightarrow> string list \<Rightarrow> go_error + string option) \<Rightarrow>
   ('w \<Rightarrow> kobj \<Rightarrow> 'w \<times> go_error option) \<Rightarrow> 'w \<Rightarrow> ResourceSpec \<Rightarrow> 'w \<times> go_error option" where
  "DeleteOneResource list nested delete w res =
     (case list w (rsGvk res) (rsNamespace res) of
        Inl e \<Rightarrow> if is_no_match e then (w, None) else (w, Some (ErrWrap (''failed to list '' @ gKind (rsGvk res)) e))
      | Inr items \<Rightarrow> delete_items nested delete res w items)"

text \<open>\<^verbatim>\<open>DeleteResources\<close> collects the errors of every spec; the multierror library joins them.\<close>

fun delete_specs ::
  "('w \<Rightarrow> ResourceSpec \<Rightarrow> 'w \<times> go_error option) \<Rightarrow> 'w \<Rightarrow> go_error list \<Rightarrow> ResourceSpec list \<Rightarrow> 'w \<times> go_error list" where
  "delete_specs one w errs [] = (w, errs)"
| "delete_specs one w errs (r # rs) =
     (case one w r of (w', eo) \<Rightarrow> delete_specs one w' (errs @ (case eo of None \<Rightarrow> [] | Some e \<Rightarrow> [e])) rs)"

definition DeleteResources ::
  "('w \<Rightarrow> gvk \<Rightarrow> string \<Rightarrow> go_error + kobj list) \<Rightarrow> (kobj \<Rightarrow> string list \<Rightarrow> go_error + string option) \<Rightarrow>
   ('w \<Rightarrow> kobj \<Rightarrow> 'w \<times> go_error option) \<Rightarrow> (go_error list \<Rightarrow> go_error option) \<Rightarrow> 'w \<Rightarrow> ResourceSpec list \<Rightarrow>
   'w \<times> go_error option" where
  "DeleteResources list nested delete error_or_nil w rs =
     (case delete_specs (DeleteOneResource list nested delete) w [] rs of (w', errs) \<Rightarrow> (w', error_or_nil errs))"

section \<open>Discovery\<close>

text \<open>Discovery may fail for single groups; \<open>group_failed\<close> is \<^verbatim>\<open>discovery.IsGroupDiscoveryFailedError\<close>.\<close>

definition ListAvailableAPIResources ::
  "(go_error \<Rightarrow> bool) \<Rightarrow> 'l \<times> go_error option \<Rightarrow> go_error + 'l" where
  "ListAvailableAPIResources group_failed answer =
     (case answer of (items, err) \<Rightarrow>
        (case err of
           Some e \<Rightarrow> if \<not> group_failed e then Inl (ErrWrap ''failure retrieving supported resources'' e) else Inr items
         | None \<Rightarrow> Inr items))"

section \<open>Properties\<close>

lemma filter_length_eq: "length (filter P xs) = length xs \<longleftrightarrow> (\<forall>x\<in>set xs. P x)"
  by (metis filter_True filter_id_conv filter_is_subset less_irrefl length_filter_less)

lemma RemoveOwnerReferences_no_match:
  "\<forall>r\<in>set (oOwnerRefs obj). \<not> pred r \<Longrightarrow> RemoveOwnerReferences update w obj pred = (w, obj, None)"
  by (simp add: RemoveOwnerReferences_def Let_def filter_length_eq)

lemma RemoveOwnerReferences_match:
  assumes "\<exists>r\<in>set (oOwnerRefs obj). pred r"
  shows "RemoveOwnerReferences update w obj pred =
    (case update w (obj\<lparr>oOwnerRefs := filter (\<lambda>r. \<not> pred r) (oOwnerRefs obj)\<rparr>) of
       (w', Inl e) \<Rightarrow> (w', obj\<lparr>oOwnerRefs := filter (\<lambda>r. \<not> pred r) (oOwnerRefs obj)\<rparr>, Some (ErrWrap
          (''failed to remove owner references from object '' @ oNamespace obj @ ''/'' @
           oName obj @ '' with gvk '' @ gvk_string (oGVK obj)) e))
     | (w', Inr stored) \<Rightarrow> (w', stored, None))"
proof -
  have "oOwnerRefs obj \<noteq> []" "length (filter (\<lambda>r. \<not> pred r) (oOwnerRefs obj)) \<noteq> length (oOwnerRefs obj)"
    using assms by (auto simp: filter_length_eq)
  then show ?thesis by (simp only: RemoveOwnerReferences_def Let_def length_0_conv if_False)
qed

text \<open>
  Removing owner references writes the object exactly when some reference matches, once, with the
  other references in their order and nothing else changed; the object then is what the server
  stored, and an error of the write is reported. If the server keeps the references it was given,
  running it again writes nothing.
\<close>

theorem remove_owner_references_correct:
  assumes "RemoveOwnerReferences update w obj pred = (w1, obj1, err)"
    and "obj' = obj\<lparr>oOwnerRefs := filter (\<lambda>r. \<not> pred r) (oOwnerRefs obj)\<rparr>"
  shows "(if \<exists>r\<in>set (oOwnerRefs obj). pred r
     then w1 = fst (update w obj') \<and> (case snd (update w obj') of
        Inl e \<Rightarrow> obj1 = obj' \<and> (\<exists>p. err = Some (ErrWrap p e)) | Inr stored \<Rightarrow> obj1 = stored \<and> err = None)
     else w1 = w \<and> obj1 = obj \<and> err = None) \<and>
    (oOwnerRefs obj1 = oOwnerRefs obj' \<longrightarrow> RemoveOwnerReferences update w1 obj1 pred = (w1, obj1, None))"
proof (rule conjI)
  show "oOwnerRefs obj1 = oOwnerRefs obj' \<longrightarrow> RemoveOwnerReferences update w1 obj1 pred = (w1, obj1, None)"
    using assms(2) by (auto intro: RemoveOwnerReferences_no_match)
  show "if \<exists>r\<in>set (oOwnerRefs obj). pred r
     then w1 = fst (update w obj') \<and> (case snd (update w obj') of
        Inl e \<Rightarrow> obj1 = obj' \<and> (\<exists>p. err = Some (ErrWrap p e)) | Inr stored \<Rightarrow> obj1 = stored \<and> err = None)
     else w1 = w \<and> obj1 = obj \<and> err = None"
  proof (cases "\<exists>r\<in>set (oOwnerRefs obj). pred r")
    case True
    then show ?thesis
      using assms by (auto simp: RemoveOwnerReferences_match split: prod.splits sum.splits)
  next
    case False
    then have no: "\<forall>r\<in>set (oOwnerRefs obj). \<not> pred r" by blast
    with RemoveOwnerReferences_no_match[OF no, of update w] assms(1) show ?thesis by simp
  qed
qed

definition ex_ref :: "string \<Rightarrow> owner_ref" where
  "ex_ref n = \<lparr>orAPIVersion = ''v1'', orKind = ''Kind'', orName = n, orUID = n, orController = False\<rparr>"

definition ex_owned :: kobj where
  "ex_owned = (GvkToUnstructured (mk_gvk '''' ''v1'' ''ConfigMap''))\<lparr>oName := ''cm'', oOwnerRefs := [ex_ref ''a'', ex_ref ''b'']\<rparr>"

theorem remove_owner_references_correct_witness:
  "RemoveOwnerReferences (\<lambda>w ob. (w @ [ob], Inr ob)) [] ex_owned (\<lambda>r. orName r = ''a'') =
     ([ex_owned\<lparr>oOwnerRefs := [ex_ref ''b'']\<rparr>], ex_owned\<lparr>oOwnerRefs := [ex_ref ''b'']\<rparr>, None) \<and>
   RemoveOwnerReferences (\<lambda>w ob. (w @ [ob], Inr ob)) [ex_owned\<lparr>oOwnerRefs := [ex_ref ''b'']\<rparr>]
     (ex_owned\<lparr>oOwnerRefs := [ex_ref ''b'']\<rparr>) (\<lambda>r. orName r = ''a'') =
     ([ex_owned\<lparr>oOwnerRefs := [ex_ref ''b'']\<rparr>], ex_owned\<lparr>oOwnerRefs := [ex_ref ''b'']\<rparr>, None)"
proof -
  have run: "RemoveOwnerReferences (\<lambda>w ob. (w @ [ob], Inr ob)) [] ex_owned (\<lambda>r. orName r = ''a'') =
     ([ex_owned\<lparr>oOwnerRefs := [ex_ref ''b'']\<rparr>], ex_owned\<lparr>oOwnerRefs := [ex_ref ''b'']\<rparr>, None)"
    by (simp add: RemoveOwnerReferences_def ex_owned_def ex_ref_def GvkToUnstructured_def Let_def)
  have "filter (\<lambda>r. \<not> orName r = ''a'') (oOwnerRefs ex_owned) = [ex_ref ''b'']"
    by (simp add: ex_owned_def ex_ref_def)
  with remove_owner_references_correct [OF run refl] run show ?thesis by simp
qed

text \<open>What the deletion loops do when nothing fails: each matching item is deleted once, in order.\<close>

lemma delete_matching_ok:
  assumes "\<And>w. snd (delete w item) = None" and "distinct ts"
  shows "delete_matching delete res item v w ts = (if v \<in> set ts then fst (delete w item) else w, None)"
  using assms(2)
proof (induction ts arbitrary: w)
  case (Cons t ts)
  have "delete w' item = (fst (delete w' item), None)" for w' using assms(1) by (metis prod.collapse)
  then have "delete_matching delete res item v w (t # ts) =
      (if v = t then delete_matching delete res item v (fst (delete w item)) ts
       else delete_matching delete res item v w ts)"
    by (metis (no_types, lifting) case_prod_conv delete_matching.simps(2) option.simps(4))
  with Cons show ?case by auto
qed simp

lemma delete_items_ok:
  assumes "\<And>w item. item \<in> set items \<Longrightarrow> snd (delete w item) = None" and "distinct (rsFilterValues res)"
    and "\<forall>item\<in>set items. nested item (rsFieldPath res) = Inr (Some (value item))"
  shows "delete_items nested delete res w items =
    (foldl (\<lambda>w item. fst (delete w item)) w (filter (\<lambda>item. value item \<in> set (rsFilterValues res)) items), None)"
  using assms
proof (induction items arbitrary: w)
  case (Cons item items)
  from Cons.prems(1) have "snd (delete w item) = None" for w by simp
  then have "delete_matching delete res item v w (rsFilterValues res) =
      (if v \<in> set (rsFilterValues res) then fst (delete w item) else w, None)" for v
    by (rule delete_matching_ok) (rule Cons.prems(2))
  with Cons show ?case by simp
qed simp

text \<open>
  When the kind is served, every listed item has the field, and deletions succeed, deleting by
  field value deletes exactly the listed items whose field is one of the wanted values, each once
  and in list order, and reports no error. When the API does not know the kind it does nothing and
  reports no error.
\<close>

theorem delete_one_resource_exact:
  assumes "distinct (rsFilterValues res)" and "\<forall>w. \<forall>item\<in>set items. snd (delete w item) = None"
    and "\<forall>item\<in>set items. nested item (rsFieldPath res) = Inr (Some (value item))"
  shows "(list w (rsGvk res) (rsNamespace res) = Inr items \<longrightarrow>
      DeleteOneResource list nested delete w res =
        (foldl (\<lambda>w item. fst (delete w item)) w (filter (\<lambda>item. value item \<in> set (rsFilterValues res)) items), None)) \<and>
    (list w (rsGvk res) (rsNamespace res) = Inl (ErrNoMatch m) \<longrightarrow>
      DeleteOneResource list nested delete w res = (w, None))"
  using delete_items_ok [of items delete res nested "value" w] assms by (simp add: DeleteOneResource_def)

theorem delete_one_resource_exact_witness:
  "DeleteOneResource (\<lambda>w g ns. Inr [ex_owned, ex_owned\<lparr>oName := ''x''\<rparr>]) (\<lambda>ob p. Inr (Some (oName ob)))
     (\<lambda>w ob. (w @ [oName ob], None)) [] \<lparr>rsGvk = mk_gvk '''' ''v1'' ''ConfigMap'', rsNamespace = ''ns'',
       rsFieldPath = [''metadata'', ''name''], rsFilterValues = [''q'', ''x'']\<rparr> = ([''x''], None)"
proof -
  let ?res = "\<lparr>rsGvk = mk_gvk '''' ''v1'' ''ConfigMap'', rsNamespace = ''ns'',
       rsFieldPath = [''metadata'', ''name''], rsFilterValues = [''q'', ''x'']\<rparr>"
  let ?items = "[ex_owned, ex_owned\<lparr>oName := ''x''\<rparr>]"
  have "distinct (rsFilterValues ?res)" by simp
  from delete_one_resource_exact [OF this, of ?items "\<lambda>w ob. (w @ [oName ob], None)"
      "\<lambda>ob p. Inr (Some (oName ob))" oName "\<lambda>w g ns. Inr ?items" "[]"]
  show ?thesis by (simp add: ex_owned_def)
qed

end
