(* ===== verification/Request.thy ===== *)
theory Request
  imports KObject FwManager
begin

text \<open>
  The data that flows through a reconciliation: the status block and the release list of
  \<^verbatim>\<open>framework/api/types.go\<close> and the reconciliation request of \<^verbatim>\<open>framework/controller/types/types.go\<close>
  with its resource operations and its hash. The cluster behind the request's client is the
  request's world, of any type.
\<close>

section \<open>Platform objects and releases\<close>

record platform_object = kobj +
  poPhase :: string
  poObservedGeneration :: int
  poConditions :: "condition list"

record ComponentRelease =
  crName :: string
  crVersion :: string
  crRepoURL :: string

type_synonym ComponentReleaseStatus = "ComponentRelease list"

definition ReleasePlatform :: string where
  "ReleasePlatform = ''platform''"

fun GetRelease :: "ComponentReleaseStatus \<Rightarrow> string \<Rightarrow> ComponentRelease option" where
  "GetRelease [] name = None"
| "GetRelease (r # rs) name = (if crName r = name then Some r else GetRelease rs name)"

fun SetRelease :: "ComponentReleaseStatus \<Rightarrow> ComponentRelease \<Rightarrow> ComponentReleaseStatus" where
  "SetRelease [] r = [r]"
| "SetRelease (x # xs) r = (if crName x = crName r then r # xs else x # SetRelease xs r)"

definition GetPlatformRelease :: "ComponentReleaseStatus \<Rightarrow> string" where
  "GetPlatformRelease s = (case GetRelease s ReleasePlatform of None \<Rightarrow> '''' | Some r \<Rightarrow> crVersion r)"

definition SetPlatformRelease :: "ComponentReleaseStatus \<Rightarrow> string \<Rightarrow> ComponentReleaseStatus" where
  "SetPlatformRelease s v = SetRelease s \<lparr>crName = ReleasePlatform, crVersion = v, crRepoURL = ''''\<rparr>"

lemma GetRelease_find_first: "GetRelease s n = find_first crName n s"
  by (induction s n rule: GetRelease.induct) auto

lemma SetRelease_upsert: "SetRelease s r = upsert_first crName r s"
  by (induction s r rule: SetRelease.induct) auto

section \<open>Paths\<close>

text \<open>\<^verbatim>\<open>path.Join\<close> and \<^verbatim>\<open>path.Clean\<close> of the Go library.\<close>

fun split_slash :: "string \<Rightarrow> string \<Rightarrow> string list" where
  "split_slash cur [] = [rev cur]"
| "split_slash cur (c # cs) = (if c = CHR ''/'' then rev cur # split_slash [] cs else split_slash (c # cur) cs)"

fun clean_parts :: "bool \<Rightarrow> string list \<Rightarrow> string list \<Rightarrow> string list" where
  "clean_parts rooted acc [] = rev acc"
| "clean_parts rooted acc (p # ps) =
     (if p = '''' \<or> p = ''.'' then clean_parts rooted acc ps
      else if p = ''..'' then
        (case acc of
           [] \<Rightarrow> clean_parts rooted (if rooted then [] else [''..'']) ps
         | a # as \<Rightarrow> if a = ''..'' then clean_parts rooted (''..'' # acc) ps else clean_parts rooted as ps)
      else clean_parts rooted (p # acc) ps)"

definition path_Clean :: "string \<Rightarrow> string" where
  "path_Clean s =
     (if s = '''' then ''.''
      else let rooted = (hd s = CHR ''/'');
               body = join_with ''/'' (clean_parts rooted [] (split_slash [] s));
               out = (if rooted then CHR ''/'' # body else body)
           in if out = '''' then ''.'' else out)"

definition path_Join :: "string list \<Rightarrow> string" where
  "path_Join elems =
     (case filter (\<lambda>e. e \<noteq> '''') elems of [] \<Rightarrow> '''' | es \<Rightarrow> path_Clean (join_with ''/'' es))"

section \<open>Manifests, templates and charts\<close>

record ManifestInfo =
  miPath :: string
  miContextDir :: string
  miSourcePath :: string
  miNamespace :: string

definition ManifestInfo_String :: "ManifestInfo \<Rightarrow> string" where
  "ManifestInfo_String mi =
     (let r1 = miPath mi;
          r2 = (if miContextDir mi \<noteq> '''' then path_Join [r1, miContextDir mi] else r1);
          r3 = (if miSourcePath mi \<noteq> '''' then path_Join [r2, miSourcePath mi] else r2)
      in if miNamespace mi \<noteq> '''' then r3 @ ''@ns='' @ miNamespace mi else r3)"

text \<open>A file system value is an opaque handle; what it holds is read through the template library.\<close>

record TemplateInfo =
  tiFS :: nat
  tiPath :: string
  tiLabels :: "(string \<times> string) list option"
  tiAnnotations :: "(string \<times> string) list option"

text \<open>The values of a chart come from a callback that may be nil or fail.\<close>

record HelmChartInfo =
  hcChart :: string
  hcReleaseName :: string
  hcValues :: "(go_error + json) option"

record Release =
  relName :: string
  relVersion :: string

text \<open>What a controller knows of the kinds it owns.\<close>

record owned_types =
  otGvks :: "gvk \<rightharpoonup> bool"
  otDynamic :: "gvk set"
  otDynamicEnabled :: bool
  otExcluded :: "gvk set"

section \<open>The request\<close>

text \<open>
  \<^verbatim>\<open>rr.Conditions\<close> is a manager whose accessor is \<^verbatim>\<open>rr.Instance\<close>: the two share the conditions, so
  the request keeps them once, in the instance, and the manager is a view of the request.
\<close>

record 'w request =
  rrWorld :: 'w
  rrInstance :: platform_object
  rrAggregator :: "aggregator option"
  rrActive :: "string set option"
  rrClock :: "nat \<Rightarrow> gotime"
  rrTicks :: nat
  rrController :: owned_types
  rrRelease :: Release
  rrManifestsBasePath :: string
  rrChartsBasePath :: string
  rrManifests :: "ManifestInfo list"
  rrTemplates :: "TemplateInfo list"
  rrHelmCharts :: "HelmChartInfo list"
  rrResources :: "kobj list"
  rrSkipDeploy :: bool
  rrGenerated :: bool

type_synonym 'w action = "'w request \<Rightarrow> 'w request \<times> go_error option"

definition rr_manager :: "'w request \<Rightarrow> manager" where
  "rr_manager rr = \<lparr>mAggregator = rrAggregator rr, mAccessor = Some (poConditions (rrInstance rr)),
     mActive = rrActive rr, mClock = rrClock rr, mTicks = rrTicks rr\<rparr>"

definition with_manager :: "'w request \<Rightarrow> manager \<Rightarrow> 'w request" where
  "with_manager rr m = rr\<lparr>rrInstance := (rrInstance rr)\<lparr>poConditions := the (mAccessor m)\<rparr>,
     rrAggregator := mAggregator m, rrActive := mActive m, rrTicks := mTicks m\<rparr>"

lemma rr_manager_sel [simp]:
  "mAggregator (rr_manager rr) = rrAggregator rr" "mAccessor (rr_manager rr) = Some (poConditions (rrInstance rr))"
  "mActive (rr_manager rr) = rrActive rr"
  by (simp_all add: rr_manager_def)

lemma with_manager_sel [simp]:
  "poConditions (rrInstance (with_manager rr m)) = the (mAccessor m)"
  "rrAggregator (with_manager rr m) = mAggregator m" "rrActive (with_manager rr m) = mActive m"
  "oGeneration (rrInstance (with_manager rr m)) = oGeneration (rrInstance rr)"
  "poPhase (rrInstance (with_manager rr m)) = poPhase (rrInstance rr)"
  "poObservedGeneration (rrInstance (with_manager rr m)) = poObservedGeneration (rrInstance rr)"
  "rrWorld (with_manager rr m) = rrWorld rr" "rrController (with_manager rr m) = rrController rr"
  by (simp_all add: with_manager_def)

section \<open>Resources of a request\<close>

text \<open>\<open>lookup\<close> is the scheme, \<open>to_u\<close> the conversion to unstructured; nil values are skipped.\<close>

fun AddResources ::
  "('a kobj_scheme \<Rightarrow> go_error + gvk) \<Rightarrow> ('a kobj_scheme \<Rightarrow> go_error + kobj) \<Rightarrow> 'w request \<Rightarrow>
   'a kobj_scheme option list \<Rightarrow> 'w request \<times> go_error option" where
  "AddResources lookup to_u rr [] = (rr, None)"
| "AddResources lookup to_u rr (None # vs) = AddResources lookup to_u rr vs"
| "AddResources lookup to_u rr (Some v # vs) =
     (case EnsureGroupVersionKind lookup v of
        Inl e \<Rightarrow> (rr, Some (ErrWrap ''cannot normalize object'' e))
      | Inr v' \<Rightarrow>
          (case to_u v' of
             Inl e \<Rightarrow> (rr, Some (ErrWrap ''cannot convert object to Unstructured'' e))
           | Inr u \<Rightarrow> AddResources lookup to_u (rr\<lparr>rrResources := rrResources rr @ [u]\<rparr>) vs))"

text \<open>The callback may change the resource it is given, which lives in the slice.\<close>

fun for_each_resource :: "(kobj \<Rightarrow> kobj \<times> bool \<times> go_error option) \<Rightarrow> kobj list \<Rightarrow> kobj list \<times> go_error option" where
  "for_each_resource fn [] = ([], None)"
| "for_each_resource fn (u # us) =
     (case fn u of (u', stop, err) \<Rightarrow>
        (case err of
           Some e \<Rightarrow> (u' # us, Some (ErrWrap (''cannot process resource '' @ gvk_string (oGVK u')) e))
         | None \<Rightarrow> if stop then (u' # us, None)
                  else (case for_each_resource fn us of (us', r) \<Rightarrow> (u' # us', r))))"

definition ForEachResource :: "'w request \<Rightarrow> (kobj \<Rightarrow> kobj \<times> bool \<times> go_error option) \<Rightarrow> 'w request \<times> go_error option" where
  "ForEachResource rr fn = (case for_each_resource fn (rrResources rr) of (us, err) \<Rightarrow> (rr\<lparr>rrResources := us\<rparr>, err))"

text \<open>\<^verbatim>\<open>RemoveResources\<close> compacts the slice in place: kept elements move down to the write index, the
  tail is zeroed, the slice is cut.\<close>

fun compact_loop :: "(kobj \<Rightarrow> bool) \<Rightarrow> kobj list \<Rightarrow> nat \<Rightarrow> nat list \<Rightarrow> kobj list \<times> nat" where
  "compact_loop pred xs writeIndex [] = (xs, writeIndex)"
| "compact_loop pred xs writeIndex (readIndex # rest) =
     (if \<not> pred (xs ! readIndex)
      then compact_loop pred (if writeIndex \<noteq> readIndex then xs[writeIndex := xs ! readIndex] else xs)
             (writeIndex + 1) rest
      else compact_loop pred xs writeIndex rest)"

fun zero_from :: "kobj \<Rightarrow> kobj list \<Rightarrow> nat list \<Rightarrow> kobj list" where
  "zero_from zero xs [] = xs"
| "zero_from zero xs (i # is) = zero_from zero (xs[i := zero]) is"

definition RemoveResources :: "'w request \<Rightarrow> (kobj \<Rightarrow> bool) \<Rightarrow> 'w request" where
  "RemoveResources rr pred =
     (let xs = rrResources rr; (ys, writeIndex) = compact_loop pred xs 0 [0 ..< length xs];
          zs = zero_from (GvkToUnstructured (mk_gvk '''' '''' '''')) ys [writeIndex ..< length ys]
      in rr\<lparr>rrResources := take writeIndex zs\<rparr>)"

section \<open>The hash of a request\<close>

text \<open>\<^verbatim>\<open>binary.PutVarint\<close> into a zeroed buffer of ten bytes.\<close>

definition zigzag :: "int \<Rightarrow> nat" where
  "zigzag x = nat (if x < 0 then - 2 * x - 1 else 2 * x)"

fun uvarint :: "nat \<Rightarrow> nat list" where
  "uvarint n = (if n < 128 then [n] else (n mod 128 + 128) # uvarint (n div 128))"

declare uvarint.simps [simp del]

definition pad_to :: "nat \<Rightarrow> nat list \<Rightarrow> nat list" where
  "pad_to k bs = bs @ replicate (k - length bs) 0"

definition varint_buffer :: "int \<Rightarrow> string" where
  "varint_buffer x = map char_of (pad_to 10 (uvarint (zigzag x)))"

text \<open>\<open>marshal\<close> is \<^verbatim>\<open>json.Marshal\<close>; the result is the sequence of writes into the hash.\<close>

fun chart_writes :: "(json \<Rightarrow> go_error + string) \<Rightarrow> HelmChartInfo list \<Rightarrow> go_error + string list" where
  "chart_writes marshal [] = Inr []"
| "chart_writes marshal (hc # hcs) =
     (case (case hcValues hc of
              None \<Rightarrow> Inr []
            | Some (Inl e) \<Rightarrow> Inl (ErrWrap ''failed to get helm chart values'' e)
            | Some (Inr v) \<Rightarrow> (case marshal v of
                  Inl e \<Rightarrow> Inl (ErrWrap ''failed to hash helm chart values'' e) | Inr b \<Rightarrow> Inr [b])) of
        Inl e \<Rightarrow> Inl e
      | Inr vs \<Rightarrow> (case chart_writes marshal hcs of
            Inl e \<Rightarrow> Inl e
          | Inr rest \<Rightarrow> Inr ([hcChart hc, hcReleaseName hc] @ vs @ rest)))"

definition hash_writes :: "(json \<Rightarrow> go_error + string) \<Rightarrow> 'w request \<Rightarrow> go_error + string list" where
  "hash_writes marshal rr =
     (case chart_writes marshal (rrHelmCharts rr) of
        Inl e \<Rightarrow> Inl e
      | Inr cs \<Rightarrow> Inr ([oUID (rrInstance rr), varint_buffer (oGeneration (rrInstance rr)),
            relName (rrRelease rr), relVersion (rrRelease rr)] @
            map ManifestInfo_String (rrManifests rr) @ map tiPath (rrTemplates rr) @ cs))"

definition request_Hash :: "(json \<Rightarrow> go_error + string) \<Rightarrow> (string \<Rightarrow> string) \<Rightarrow> 'w request \<Rightarrow> go_error + string" where
  "request_Hash marshal sha256 rr =
     (case hash_writes marshal rr of Inl e \<Rightarrow> Inl e | Inr ws \<Rightarrow> Inr (sha256 (concat ws)))"

section \<open>In-place compaction is a filter\<close>

lemma compact_loop_filter:
  assumes "length xs = n + k" and "w \<le> n"
  shows "\<exists>ys. compact_loop pred xs w [n ..< n + k] = (ys, w + length (filter (\<lambda>u. \<not> pred u) (drop n xs))) \<and>
    length ys = length xs \<and>
    take (w + length (filter (\<lambda>u. \<not> pred u) (drop n xs))) ys = take w xs @ filter (\<lambda>u. \<not> pred u) (drop n xs)"
  using assms
proof (induction k arbitrary: n w xs)
  case 0
  then show ?case by simp
next
  case (Suc k)
  have idx: "[n ..< n + Suc k] = n # [Suc n ..< Suc n + k]" by (simp add: upt_conv_Cons del: upt_Suc)
  have n: "n < length xs" using Suc.prems by simp
  have dn: "drop n xs = xs ! n # drop (Suc n) xs" using n by (rule Cons_nth_drop_Suc[symmetric])
  show ?case
  proof (cases "pred (xs ! n)")
    case True
    then show ?thesis using Suc.IH[of xs "Suc n" w] Suc.prems unfolding idx dn by (simp del: upt_Suc)
  next
    case False
    define zs where "zs = (if w \<noteq> n then xs[w := xs ! n] else xs)"
    have zs: "length zs = length xs" "drop (Suc n) zs = drop (Suc n) xs" "take (Suc w) zs = take w xs @ [xs ! n]"
      using Suc.prems n by (auto simp: zs_def take_Suc_conv_app_nth)
    have "\<exists>ys. compact_loop pred zs (Suc w) [Suc n ..< Suc n + k] =
        (ys, Suc w + length (filter (\<lambda>u. \<not> pred u) (drop (Suc n) zs))) \<and> length ys = length zs \<and>
        take (Suc w + length (filter (\<lambda>u. \<not> pred u) (drop (Suc n) zs))) ys =
          take (Suc w) zs @ filter (\<lambda>u. \<not> pred u) (drop (Suc n) zs)"
      using Suc.prems zs(1) by (intro Suc.IH) simp_all
    then show ?thesis using False zs unfolding idx dn by (simp add: zs_def[symmetric] del: upt_Suc)
  qed
qed

lemma zero_from_take: "\<forall>i\<in>set is. w \<le> i \<Longrightarrow> take w (zero_from zero xs is) = take w xs"
  by (induction zero xs "is" rule: zero_from.induct) auto

text \<open>
  Removing resources by predicate leaves exactly the resources the predicate rejects, in their
  order, and changes nothing else of the request: the in-place compaction implements a filter.
\<close>

theorem remove_resources_filter:
  "RemoveResources rr pred = rr\<lparr>rrResources := filter (\<lambda>u. \<not> pred u) (rrResources rr)\<rparr>"
proof -
  let ?xs = "rrResources rr"
  let ?w = "length (filter (\<lambda>u. \<not> pred u) ?xs)"
  obtain ys where ys: "compact_loop pred ?xs 0 [0 ..< length ?xs] = (ys, ?w)"
    "take ?w ys = filter (\<lambda>u. \<not> pred u) ?xs"
    using compact_loop_filter[of ?xs 0 "length ?xs" 0 pred] by auto
  have "take ?w (zero_from z ys [?w ..< length ys]) = take ?w ys" for z by (rule zero_from_take) simp
  with ys show ?thesis by (simp add: RemoveResources_def)
qed

section \<open>Releases\<close>

text \<open>
  A release entry reads back after it is written, the other entries keep their value and their
  position, no name is added twice, and the recorded platform version is what the handshake wrote.
\<close>

theorem release_roundtrip:
  "GetRelease (SetRelease s r) n = (if n = crName r then Some r else GetRelease s n) \<and>
   map crName (SetRelease s r) = (if crName r \<in> crName ` set s then map crName s else map crName s @ [crName r]) \<and>
   filter (\<lambda>x. crName x \<noteq> crName r) (SetRelease s r) = filter (\<lambda>x. crName x \<noteq> crName r) s \<and>
   GetPlatformRelease (SetPlatformRelease s v) = v"
proof (intro conjI)
  show "GetRelease (SetRelease s r) n = (if n = crName r then Some r else GetRelease s n)"
    by (simp add: GetRelease_find_first SetRelease_upsert find_first_upsert)
  show "map crName (SetRelease s r) = (if crName r \<in> crName ` set s then map crName s else map crName s @ [crName r])"
    by (induction s r rule: SetRelease.induct) auto
  show "filter (\<lambda>x. crName x \<noteq> crName r) (SetRelease s r) = filter (\<lambda>x. crName x \<noteq> crName r) s"
    by (induction s r rule: SetRelease.induct) auto
  show "GetPlatformRelease (SetPlatformRelease s v) = v"
    by (simp add: GetPlatformRelease_def SetPlatformRelease_def GetRelease_find_first SetRelease_upsert
        find_first_upsert)
qed

section \<open>The generation is part of the hash\<close>

fun uvarint_decode :: "nat list \<Rightarrow> nat" where
  "uvarint_decode [] = 0"
| "uvarint_decode (b # bs) = (if b < 128 then b else (b - 128) + 128 * uvarint_decode bs)"

lemma uvarint_decode_append: "uvarint_decode (uvarint n @ rest) = n"
proof (induction n rule: uvarint.induct)
  case (1 n)
  then show ?case by (subst uvarint.simps) (auto simp: mult.commute)
qed

lemma uvarint_length: "n < 128 ^ Suc k \<Longrightarrow> length (uvarint n) \<le> Suc k"
proof (induction k arbitrary: n)
  case 0
  then show ?case by (subst uvarint.simps) simp
next
  case (Suc k)
  have "n div 128 < 128 ^ Suc k" using Suc.prems by (simp add: div_less_iff_less_mult mult.commute)
  from Suc.IH[OF this] show ?case by (subst uvarint.simps) simp
qed

lemma uvarint_bytes: "\<forall>b\<in>set (uvarint n). b < 256"
proof (induction n rule: uvarint.induct)
  case (1 n)
  then show ?case by (subst uvarint.simps) auto
qed

lemma zigzag_bound: "in_int64 x \<Longrightarrow> zigzag x < 128 ^ Suc 9"
  by (auto simp: zigzag_def in_int64_def nat_less_iff)

lemma zigzag_inject: "zigzag x = zigzag y \<Longrightarrow> x = y"
  by (auto simp: zigzag_def nat_eq_iff split: if_splits) presburger+

lemma varint_buffer_length: "in_int64 x \<Longrightarrow> length (varint_buffer x) = 10"
  using uvarint_length[OF zigzag_bound, of x] by (simp add: varint_buffer_def pad_to_def)

lemma varint_buffer_inject:
  assumes "varint_buffer x = varint_buffer y"
  shows "x = y"
proof -
  let ?p = "\<lambda>x. pad_to 10 (uvarint (zigzag x))"
  have b: "\<forall>b\<in>set (?p x). b < 256" for x using uvarint_bytes[of "zigzag x"] by (auto simp: pad_to_def)
  have "map (of_char \<circ> char_of) (?p z) = ?p z" for z
    using b[of z] by (intro map_idI) (simp add: of_char_of)
  then have "map of_char (varint_buffer z) = ?p z" for z by (simp add: varint_buffer_def)
  with assms have "?p x = ?p y" by metis
  then have "zigzag x = zigzag y" by (metis pad_to_def uvarint_decode_append)
  then show ?thesis by (rule zigzag_inject)
qed

text \<open>
  Two requests for the same object (equal UIDs) whose writes into the hash are the same bytes
  have the same generation: a changed spec changes the hashed input, so a cache keyed by this hash
  never serves the result of another generation, hash collisions apart.
\<close>

theorem request_hash_generation:
  assumes "hash_writes marshal rr = Inr ws" and "hash_writes marshal rr' = Inr ws'" and "concat ws = concat ws'"
    and "oUID (rrInstance rr) = oUID (rrInstance rr')"
    and "in_int64 (oGeneration (rrInstance rr))" and "in_int64 (oGeneration (rrInstance rr'))"
  shows "oGeneration (rrInstance rr) = oGeneration (rrInstance rr')"
proof -
  let ?g = "\<lambda>rr. varint_buffer (oGeneration (rrInstance rr))"
  obtain t t' where t: "concat ws = oUID (rrInstance rr) @ ?g rr @ t" "concat ws' = oUID (rrInstance rr') @ ?g rr' @ t'"
    using assms(1,2) by (auto simp: hash_writes_def split: sum.splits)
  with assms(3,4) have "?g rr @ t = ?g rr' @ t'" by simp
  moreover have "length (?g rr) = length (?g rr')" using varint_buffer_length assms(5,6) by simp
  ultimately have "?g rr = ?g rr'" by simp
  then show ?thesis by (rule varint_buffer_inject)
qed

definition ex_object :: platform_object where
  "ex_object = \<lparr>oGVK = mk_gvk ''components'' ''v1'' ''Dashboard'', oNamespace = '''', oName = ''default'', oUID = ''u1'',
     oResourceVersion = ''1'', oGeneration = 3, oCreationTimestamp = 1, oDeletionTimestamp = 0, oLabels = None,
     oAnnotations = None, oOwnerRefs = [], oFinalizers = [], oManagedFields = False, oBody = [], oStatus = None,
     poPhase = '''', poObservedGeneration = 0, poConditions = []\<rparr>"

definition ex_owned_types :: owned_types where
  "ex_owned_types = \<lparr>otGvks = Map.empty, otDynamic = {}, otDynamicEnabled = False, otExcluded = {}\<rparr>"

definition ex_request :: "'w \<Rightarrow> 'w request" where
  "ex_request w = \<lparr>rrWorld = w, rrInstance = ex_object, rrAggregator = Some ex_agg, rrActive = Some {}, rrClock = int, rrTicks = 0,
     rrController = ex_owned_types, rrRelease = \<lparr>relName = ''ODH'', relVersion = ''1.0.0''\<rparr>, rrManifestsBasePath = '''',
     rrChartsBasePath = '''', rrManifests = [], rrTemplates = [], rrHelmCharts = [], rrResources = [],
     rrSkipDeploy = False, rrGenerated = False\<rparr>"

theorem request_hash_generation_witness:
  "hash_writes (\<lambda>v. Inr []) (ex_request ()) = Inr [''u1'', varint_buffer 3, ''ODH'', ''1.0.0''] \<and>
   oGeneration (rrInstance (ex_request ())) = 3"
proof -
  have w: "hash_writes (\<lambda>v. Inr []) (ex_request ()) = Inr [''u1'', varint_buffer 3, ''ODH'', ''1.0.0'']"
    by (simp add: hash_writes_def ex_request_def ex_object_def)
  have g: "in_int64 (oGeneration (rrInstance (ex_request ())))"
    by (simp add: ex_request_def ex_object_def in_int64_def)
  from request_hash_generation[OF w w refl refl g g] w show ?thesis
    by (simp add: ex_request_def ex_object_def)
qed

end
