(* ===== verification/Reconciler.thy ===== *)
theory Reconciler
  imports Request
begin

text \<open>
  \<^verbatim>\<open>framework/controller/reconciler\<close>: the reconcile loop (\<^verbatim>\<open>reconciler.go\<close>), the dynamic watches
  (\<^verbatim>\<open>reconciler_actions.go\<close>) and the builder's assembly of options (\<^verbatim>\<open>reconciler_support.go\<close>). The
  API client, the event recorder and the finalizer helpers of controller-runtime are fields of a
  record that every operation takes as its argument; the cluster they act on is of any type \<open>'w\<close>.
\<close>

section \<open>Constants\<close>

definition DefaultFinalizerName :: string where
  "DefaultFinalizerName = ''platform.opendatahub.io/finalizer''"

definition DefaultHappyCondition :: string where
  "DefaultHappyCondition = ''Ready''"

definition DefaultProvisioningConditionType :: string where
  "DefaultProvisioningConditionType = ''ProvisioningSucceeded''"

definition DefaultPhaseReady :: string where
  "DefaultPhaseReady = ''Ready''"

definition DefaultPhaseNotReady :: string where
  "DefaultPhaseNotReady = ''Not Ready''"

section \<open>The client\<close>

record event =
  evType :: string
  evReason :: string
  evAction :: string
  evNote :: string

text \<open>
  \<open>clUpdate\<close> returns the object as the server stored it, or the error. \<open>clContains\<close>, \<open>clAddFin\<close>
  and \<open>clRemoveFin\<close> are \<^verbatim>\<open>controllerutil.ContainsFinalizer\<close>, \<^verbatim>\<open>AddFinalizer\<close> and \<^verbatim>\<open>RemoveFinalizer\<close>.
\<close>

record 'w client =
  clGet :: "'w \<Rightarrow> string \<times> string \<Rightarrow> go_error + platform_object"
  clLookup :: "platform_object \<Rightarrow> go_error + gvk"
  clUpdate :: "'w \<Rightarrow> platform_object \<Rightarrow> 'w \<times> (go_error + platform_object)"
  clConv :: "platform_object \<Rightarrow> go_error + kobj"
  clTypeName :: string
  clStatusApply :: "'w \<Rightarrow> kobj \<Rightarrow> 'w \<times> (go_error + kobj)"
  clConvert :: "kobj \<Rightarrow> platform_object \<Rightarrow> go_error + platform_object"
  clEvent :: "'w \<Rightarrow> event \<Rightarrow> 'w"
  clContains :: "platform_object \<Rightarrow> string \<Rightarrow> bool"
  clAddFin :: "platform_object \<Rightarrow> string \<Rightarrow> platform_object \<times> bool"
  clRemoveFin :: "platform_object \<Rightarrow> string \<Rightarrow> platform_object \<times> bool"

section \<open>The reconciler and its options\<close>

record 'w reconciler =
  rcActions :: "'w action list"
  rcFinalizer :: "'w action list"
  rcRelease :: Release
  rcManifestsBasePath :: string
  rcChartsBasePath :: string
  rcName :: string
  rcFinalizerName :: string
  rcProvisioningConditionType :: string
  rcPreApplyFailedReason :: string
  rcPhaseReady :: string
  rcPhaseNotReady :: string
  rcPreApplyFn :: "('w request \<Rightarrow> 'w request \<times> bool) option"
  rcPostStatusFn :: "('w request \<Rightarrow> bool \<Rightarrow> 'w request \<times> go_error option) option"
  rcAggregator :: "aggregator option"
  rcOwned :: owned_types
  rcSkipConditionCleanup :: bool
  rcSkipStatusConditionsFn :: "('w \<Rightarrow> bool) option"
  rcDefaultRequeueAfter :: duration

type_synonym 'w reconciler_opt = "'w reconciler \<Rightarrow> 'w reconciler"

definition WithConditionAggregator :: "aggregator option \<Rightarrow> 'w reconciler_opt" where
  "WithConditionAggregator agg r = r\<lparr>rcAggregator := agg\<rparr>"

definition WithRelease :: "Release \<Rightarrow> 'w reconciler_opt" where
  "WithRelease rel r = r\<lparr>rcRelease := rel\<rparr>"

definition WithFinalizerName :: "string \<Rightarrow> 'w reconciler_opt" where
  "WithFinalizerName n r = r\<lparr>rcFinalizerName := n\<rparr>"

definition WithProvisioningConditionType :: "string \<Rightarrow> 'w reconciler_opt" where
  "WithProvisioningConditionType t r = r\<lparr>rcProvisioningConditionType := t\<rparr>"

definition WithPhaseNames :: "string \<Rightarrow> string \<Rightarrow> 'w reconciler_opt" where
  "WithPhaseNames ready notReady r = r\<lparr>rcPhaseReady := ready, rcPhaseNotReady := notReady\<rparr>"

definition WithPreApplyFn :: "('w request \<Rightarrow> 'w request \<times> bool) option \<Rightarrow> 'w reconciler_opt" where
  "WithPreApplyFn fn r = r\<lparr>rcPreApplyFn := fn\<rparr>"

definition WithPreApplyFailedReason :: "string \<Rightarrow> 'w reconciler_opt" where
  "WithPreApplyFailedReason reason r = r\<lparr>rcPreApplyFailedReason := reason\<rparr>"

definition withSkipStatusConditions :: "('w \<Rightarrow> bool) option \<Rightarrow> 'w reconciler_opt" where
  "withSkipStatusConditions pred r = r\<lparr>rcSkipStatusConditionsFn := pred\<rparr>"

definition WithSkipConditionCleanup :: "'w reconciler_opt" where
  "WithSkipConditionCleanup r = r\<lparr>rcSkipConditionCleanup := True\<rparr>"

definition WithPostStatusFn :: "('w request \<Rightarrow> bool \<Rightarrow> 'w request \<times> go_error option) option \<Rightarrow> 'w reconciler_opt" where
  "WithPostStatusFn fn r = r\<lparr>rcPostStatusFn := fn\<rparr>"

definition WithDefaultRequeueAfter :: "duration \<Rightarrow> 'w reconciler_opt" where
  "WithDefaultRequeueAfter d r = r\<lparr>rcDefaultRequeueAfter := d\<rparr>"

text \<open>The kinds that the options of dynamic ownership exclude.\<close>

definition WithDynamicOwnership :: "gvk list \<Rightarrow> 'w reconciler_opt" where
  "WithDynamicOwnership excludeGVKs r =
     r\<lparr>rcOwned := (rcOwned r)\<lparr>otDynamicEnabled := True, otExcluded := otExcluded (rcOwned r) \<union> set excludeGVKs\<rparr>\<rparr>"

definition new_reconciler :: "string \<Rightarrow> 'w reconciler" where
  "new_reconciler name =
     \<lparr>rcActions = [], rcFinalizer = [], rcRelease = \<lparr>relName = '''', relVersion = ''''\<rparr>, rcManifestsBasePath = '''',
      rcChartsBasePath = '''', rcName = name, rcFinalizerName = DefaultFinalizerName,
      rcProvisioningConditionType = DefaultProvisioningConditionType, rcPreApplyFailedReason = ''PreConditionFailed'',
      rcPhaseReady = DefaultPhaseReady, rcPhaseNotReady = DefaultPhaseNotReady, rcPreApplyFn = None,
      rcPostStatusFn = None, rcAggregator = None,
      rcOwned = \<lparr>otGvks = Map.empty, otDynamic = {}, otDynamicEnabled = False, otExcluded = {}\<rparr>,
      rcSkipConditionCleanup = False, rcSkipStatusConditionsFn = None, rcDefaultRequeueAfter = 0\<rparr>"

text \<open>
  The discovery and dynamic clients that \<^verbatim>\<open>NewReconciler\<close> constructs from the manager's
  configuration may fail; \<open>discovery_err\<close> and \<open>dynamic_err\<close> are the outcomes of those steps.
\<close>

datatype build_error =
    InvalidConditions agg_error
  | BuildFailed go_error

definition NewReconciler ::
  "go_error option \<Rightarrow> go_error option \<Rightarrow> string \<Rightarrow> string \<Rightarrow> string \<Rightarrow> 'w reconciler_opt list \<Rightarrow>
   build_error + 'w reconciler" where
  "NewReconciler discovery_err dynamic_err manifests_path charts_path name opts =
     (let cc = foldl (\<lambda>r opt. opt r) (new_reconciler name) opts
      in case (if rcAggregator cc \<noteq> None then Inr cc
               else case NewAggregator DefaultHappyCondition
                           [Dependent (rcProvisioningConditionType cc) HealthyWhenTrue] of
                      Inl e \<Rightarrow> Inl (InvalidConditions e)
                    | Inr agg \<Rightarrow> Inr (cc\<lparr>rcAggregator := Some agg\<rparr>)) of
           Inl e \<Rightarrow> Inl e
         | Inr cc' \<Rightarrow>
             (case discovery_err of
                Some e \<Rightarrow> Inl (BuildFailed (ErrWrap ''unable to construct a Discovery client'' e))
              | None \<Rightarrow>
                  (case dynamic_err of
                     Some e \<Rightarrow> Inl (BuildFailed (ErrWrap ''unable to construct a Dynamic client'' e))
                   | None \<Rightarrow> Inr (cc'\<lparr>rcManifestsBasePath := manifests_path, rcChartsBasePath := charts_path\<rparr>))))"

definition AddOwnedType :: "'w reconciler \<Rightarrow> gvk \<Rightarrow> 'w reconciler" where
  "AddOwnedType r g = r\<lparr>rcOwned := (rcOwned r)\<lparr>otGvks := (otGvks (rcOwned r))(g \<mapsto> True)\<rparr>\<rparr>"

definition AddDynamicOwnedType :: "owned_types \<Rightarrow> gvk \<Rightarrow> owned_types" where
  "AddDynamicOwnedType ot g = ot\<lparr>otDynamic := insert g (otDynamic ot)\<rparr>"

definition Owns :: "owned_types \<Rightarrow> gvk \<Rightarrow> bool" where
  "Owns ot g = (if otGvks ot g = Some True then True else g \<in> otDynamic ot)"

definition IsDynamicOwnershipEnabled :: "owned_types \<Rightarrow> bool" where
  "IsDynamicOwnershipEnabled ot = otDynamicEnabled ot"

definition IsExcludedFromDynamicOwnership :: "owned_types \<Rightarrow> gvk \<Rightarrow> bool" where
  "IsExcludedFromDynamicOwnership ot g = (g \<in> otExcluded ot)"

definition AddAction :: "'w reconciler \<Rightarrow> 'w action \<Rightarrow> 'w reconciler" where
  "AddAction r a = r\<lparr>rcActions := rcActions r @ [a]\<rparr>"

definition AddFinalizer :: "'w reconciler \<Rightarrow> 'w action \<Rightarrow> 'w reconciler" where
  "AddFinalizer r a = r\<lparr>rcFinalizer := rcFinalizer r @ [a]\<rparr>"

section \<open>Finalizers\<close>

definition addFinalizer ::
  "'w client \<Rightarrow> 'w reconciler \<Rightarrow> 'w \<Rightarrow> platform_object \<Rightarrow> 'w \<times> platform_object \<times> go_error option" where
  "addFinalizer cl r w res =
     (if length (rcFinalizer r) = 0 then (w, res, None)
      else case clAddFin cl res (rcFinalizerName r) of (res1, added) \<Rightarrow>
        if \<not> added then (w, res1, None)
        else case clUpdate cl w res1 of
               (w', Inl e) \<Rightarrow> (w', res1, Some (ErrWrap (''failed to add finalizer '' @ rcFinalizerName r @
                  '' to '' @ oName res1) e))
             | (w', Inr res2) \<Rightarrow> (w', res2, None))"

definition removeFinalizer ::
  "'w client \<Rightarrow> 'w reconciler \<Rightarrow> 'w \<Rightarrow> platform_object \<Rightarrow> 'w \<times> platform_object \<times> go_error option" where
  "removeFinalizer cl r w res =
     (case clRemoveFin cl res (rcFinalizerName r) of (res1, removed) \<Rightarrow>
        if \<not> removed then (w, res1, None)
        else case clUpdate cl w res1 of
               (w', Inl e) \<Rightarrow> (w', res1, Some (ErrWrap (''failed to remove finalizer '' @ rcFinalizerName r @
                  '' from '' @ oName res1) e))
             | (w', Inr res2) \<Rightarrow> (w', res2, None))"

text \<open>The request that \<^verbatim>\<open>delete\<close> and \<^verbatim>\<open>apply\<close> build around the fetched instance, with its condition
  manager.\<close>

definition new_request ::
  "(nat \<Rightarrow> gotime) \<Rightarrow> 'w reconciler \<Rightarrow> 'w \<Rightarrow> platform_object \<Rightarrow> 'w request run" where
  "new_request clock r w res =
     bind_run (NewManager clock 0 (Some (poConditions res)) (rcAggregator r)) (\<lambda>m.
       Done (with_manager
         \<lparr>rrWorld = w, rrInstance = res, rrAggregator = rcAggregator r, rrActive = None, rrClock = clock, rrTicks = 0,
          rrController = rcOwned r, rrRelease = rcRelease r, rrManifestsBasePath = rcManifestsBasePath r,
          rrChartsBasePath = rcChartsBasePath r, rrManifests = [], rrTemplates = [], rrHelmCharts = [],
          rrResources = [], rrSkipDeploy = False, rrGenerated = False\<rparr> m))"

fun run_finalizers :: "'w action list \<Rightarrow> 'w request \<Rightarrow> 'w request \<times> go_error option" where
  "run_finalizers [] rr = (rr, None)"
| "run_finalizers (action # rest) rr =
     (case action rr of
        (rr', None) \<Rightarrow> run_finalizers rest rr'
      | (rr', Some e) \<Rightarrow> if as_stop e = None then (rr', Some e) else (rr', None))"

definition delete_instance ::
  "(nat \<Rightarrow> gotime) \<Rightarrow> 'w reconciler \<Rightarrow> 'w \<Rightarrow> platform_object \<Rightarrow> ('w request \<times> go_error option) run" where
  "delete_instance clock r w res =
     bind_run (new_request clock r w res) (\<lambda>rr. Done (run_finalizers (rcFinalizer r) rr))"

section \<open>Applying\<close>

text \<open>The action loop: a requeue marker is remembered and the loop goes on, any other error ends it.\<close>

fun run_actions :: "'w action list \<Rightarrow> 'w request \<Rightarrow> duration \<Rightarrow> 'w request \<times> duration \<times> go_error option" where
  "run_actions [] rr requeueAfter = (rr, requeueAfter, None)"
| "run_actions (action # rest) rr requeueAfter =
     (case action rr of
        (rr', None) \<Rightarrow> run_actions rest rr' requeueAfter
      | (rr', Some e) \<Rightarrow>
          (case as_requeue e of
             Some after \<Rightarrow> run_actions rest rr' after
           | None \<Rightarrow> (rr', requeueAfter, Some e)))"

definition preApplyMessage :: string where
  "preApplyMessage = ''pre-conditions not met, see status conditions for details''"

definition pre_apply :: "'w reconciler \<Rightarrow> 'w request \<Rightarrow> 'w request \<times> bool" where
  "pre_apply r rr = (case rcPreApplyFn r of None \<Rightarrow> (rr, False) | Some fn \<Rightarrow> fn rr)"

text \<open>From the pre-apply hook to the provisioning condition.\<close>

definition provision :: "'w reconciler \<Rightarrow> 'w request \<Rightarrow> 'w request \<times> duration \<times> go_error option" where
  "provision r rr =
     (case pre_apply r rr of (rr1, shouldStop) \<Rightarrow>
        if shouldStop
        then (with_manager rr1 (MarkFalse (rr_manager rr1) (rcProvisioningConditionType r)
                [WithReason (rcPreApplyFailedReason r), WithMessage preApplyMessage,
                 WithObservedGeneration (oGeneration (rrInstance rr1))]),
              30 * second, None)
        else (case run_actions (rcActions r) rr1 0 of
                (rr2, requeueAfter, Some e) \<Rightarrow>
                  (with_manager rr2 (MarkFalse (rr_manager rr2) (rcProvisioningConditionType r)
                     [WithError (Some e), WithObservedGeneration (oGeneration (rrInstance rr2))]), requeueAfter, Some e)
              | (rr2, requeueAfter, None) \<Rightarrow>
                  (with_manager rr2 (MarkTrue (rr_manager rr2) (rcProvisioningConditionType r)
                     [WithObservedGeneration (oGeneration (rrInstance rr2))]), requeueAfter, None)))"

text \<open>Stale conditions, the derived condition, the order and the phase.\<close>

definition finish_conditions :: "'w reconciler \<Rightarrow> 'w request \<Rightarrow> ('w request \<times> bool) run" where
  "finish_conditions r rr =
     (let rr1 = (if \<not> rcSkipConditionCleanup r then with_manager rr (CleanupStaleConditions (rr_manager rr)) else rr);
          rr2 = rr1\<lparr>rrInstance := (rrInstance rr1)\<lparr>poPhase := rcPhaseNotReady r\<rparr>\<rparr>;
          rr3 = with_manager rr2 (RecomputeHappiness (rr_manager rr2))
      in bind_run (Sort (rr_manager rr3)) (\<lambda>m.
           let rr4 = with_manager rr3 m; isHappy = IsHappy (rr_manager rr4)
           in Done (if isHappy
                    then (rr4\<lparr>rrInstance := (rrInstance rr4)\<lparr>poPhase := rcPhaseReady r,
                            poObservedGeneration := oGeneration (rrInstance rr4)\<rparr>\<rparr>, True)
                    else (rr4, False))))"

definition skip_status :: "'w reconciler \<Rightarrow> 'w request \<Rightarrow> 'w request" where
  "skip_status r rr =
     (case rcSkipStatusConditionsFn r of
        None \<Rightarrow> rr
      | Some fn \<Rightarrow> if fn (rrWorld rr)
          then rr\<lparr>rrInstance := (rrInstance rr)\<lparr>poConditions := [], poPhase := '''', poObservedGeneration := 0\<rparr>\<rparr>
          else rr)"

text \<open>The outcome of a reconciliation whose provisioning ended with \<open>perr\<close>: the event, the requeue
  interval and the error.\<close>

definition provision_outcome ::
  "'w client \<Rightarrow> 'w reconciler \<Rightarrow> 'w \<Rightarrow> duration \<Rightarrow> go_error option \<Rightarrow> 'w \<times> duration \<times> go_error option" where
  "provision_outcome cl r w requeueAfter perr =
     (case perr of
        Some pe \<Rightarrow>
          (case as_stop pe of
             Some (reason, d) \<Rightarrow>
               if d > 0
               then (clEvent cl w \<lparr>evType = ''Normal'', evReason = ''ProvisioningPaused'', evAction = ''Provision'',
                       evNote = ''requeue after '' @ duration_str d @ '': '' @ err_msg pe\<rparr>,
                     0, Some (ErrWrap ''provisioning paused'' pe))
               else (clEvent cl w \<lparr>evType = ''Warning'', evReason = ''ProvisioningError'', evAction = ''Provision'',
                       evNote = err_msg pe\<rparr>, 0, Some (ErrWrap ''provisioning failed'' pe))
           | None \<Rightarrow>
               (clEvent cl w \<lparr>evType = ''Warning'', evReason = ''ProvisioningError'', evAction = ''Provision'',
                  evNote = err_msg pe\<rparr>, 0, Some (ErrWrap ''provisioning failed'' pe)))
      | None \<Rightarrow> (w, (if requeueAfter = 0 then rcDefaultRequeueAfter r else requeueAfter), None))"

definition write_status ::
  "'w client \<Rightarrow> 'w reconciler \<Rightarrow> 'w request \<Rightarrow> duration \<Rightarrow> go_error option \<Rightarrow> 'w \<times> duration \<times> go_error option" where
  "write_status cl r rr requeueAfter perr =
     (case ApplyStatus (clLookup cl) (clConv cl) (clTypeName cl) (clStatusApply cl) (clConvert cl)
             (rrWorld rr) (rrInstance rr) of
        (w, inst, err) \<Rightarrow>
          (case err of
             Some e \<Rightarrow>
               if \<not> IsNotFound e
               then (clEvent cl w \<lparr>evType = ''Normal'', evReason = ''ReconcileError'', evAction = ''Reconcile'',
                       evNote = err_msg e\<rparr>, 0, Some (ErrWrap ''reconcile failed'' e))
               else provision_outcome cl r w requeueAfter perr
           | None \<Rightarrow> provision_outcome cl r w requeueAfter perr))"

definition post_status :: "'w reconciler \<Rightarrow> 'w request \<Rightarrow> bool \<Rightarrow> 'w request \<times> go_error option" where
  "post_status r rr isHappy = (case rcPostStatusFn r of None \<Rightarrow> (rr, None) | Some fn \<Rightarrow> fn rr isHappy)"

definition apply_instance ::
  "'w client \<Rightarrow> (nat \<Rightarrow> gotime) \<Rightarrow> 'w reconciler \<Rightarrow> 'w \<Rightarrow> platform_object \<Rightarrow>
   ('w \<times> owned_types \<times> duration \<times> go_error option) run" where
  "apply_instance cl clock r w res =
     bind_run (new_request clock r w res) (\<lambda>rr0.
       case provision r (with_manager rr0 (Reset (rr_manager rr0))) of (rr1, requeueAfter, perr) \<Rightarrow>
         bind_run (finish_conditions r rr1) (\<lambda>(rr2, isHappy).
           case post_status r rr2 isHappy of
             (rr3, Some e) \<Rightarrow> Done (rrWorld rr3, rrController rr3, 0, Some (ErrWrap ''post status hook'' e))
           | (rr3, None) \<Rightarrow>
               (case write_status cl r (skip_status r rr3) requeueAfter perr of
                  (w', d, e) \<Rightarrow> Done (w', rrController rr3, d, e))))"

section \<open>Reconcile\<close>

text \<open>The request and error of \<^verbatim>\<open>ctrl.Result\<close>: a zero interval is no scheduled requeue.\<close>

definition Reconcile ::
  "'w client \<Rightarrow> (nat \<Rightarrow> gotime) \<Rightarrow> 'w reconciler \<Rightarrow> 'w \<Rightarrow> string \<times> string \<Rightarrow>
   ('w \<times> owned_types \<times> duration \<times> go_error option) run" where
  "Reconcile cl clock r w req =
     (case clGet cl w req of
        Inl e \<Rightarrow> Done (w, rcOwned r, 0, IgnoreNotFound (Some e))
      | Inr res0 \<Rightarrow>
          (case EnsureGroupVersionKind (clLookup cl) res0 of
             Inl e \<Rightarrow> Done (w, rcOwned r, 0, Some (ErrWrap ''unable to set GVK to instance'' e))
           | Inr res \<Rightarrow>
               if oDeletionTimestamp res \<noteq> 0
               then if \<not> clContains cl res (rcFinalizerName r) then Done (w, rcOwned r, 0, None)
                    else bind_run (delete_instance clock r w res) (\<lambda>(rr, derr).
                      case derr of
                        Some e \<Rightarrow> Done (rrWorld rr, rrController rr, 0, Some e)
                      | None \<Rightarrow> (case removeFinalizer cl r (rrWorld rr) (rrInstance rr) of
                                   (w', res', e) \<Rightarrow> Done (w', rrController rr, 0, e)))
               else case addFinalizer cl r w res of
                      (w1, res1, Some e) \<Rightarrow> Done (w1, rcOwned r, 0, Some e)
                    | (w1, res1, None) \<Rightarrow>
                        bind_run (apply_instance cl clock r w1 res1) (\<lambda>(w2, owned, requeueAfter, err).
                          case err of
                            Some e \<Rightarrow>
                              (case as_stop e of
                                 Some (reason, d) \<Rightarrow> if d > 0 then Done (w2, owned, d, None)
                                   else Done (w2, owned, 0, Some e)
                               | None \<Rightarrow> Done (w2, owned, 0, Some e))
                          | None \<Rightarrow> if requeueAfter > 0 then Done (w2, owned, requeueAfter, None)
                                   else Done (w2, owned, 0, None))))"

section \<open>Requests whose condition manager is in order\<close>

definition rr_ok :: "aggregator \<Rightarrow> 'w request \<Rightarrow> bool" where
  "rr_ok a rr \<longleftrightarrow> rrAggregator rr = Some a \<and> wf_aggregator a \<and> unique_types (poConditions (rrInstance rr)) \<and>
     rrActive rr \<noteq> None"

text \<open>Actions and hooks that use the condition manager only through its operations keep requests in
  order.\<close>

definition keeps_ok :: "aggregator \<Rightarrow> ('w request \<Rightarrow> 'w request \<times> 'r) \<Rightarrow> bool" where
  "keeps_ok a f \<longleftrightarrow> (\<forall>rr. rr_ok a rr \<longrightarrow> rr_ok a (fst (f rr)))"

abbreviation rr_conds :: "'w request \<Rightarrow> condition list" where
  "rr_conds rr \<equiv> poConditions (rrInstance rr)"

lemma rr_ok_wf: "rr_ok a rr \<longleftrightarrow> wf_manager a (rr_manager rr) \<and> mActive (rr_manager rr) \<noteq> None"
  by (auto simp: rr_ok_def wf_manager_def)

lemma IsHappy_cong: "mAccessor m = mAccessor n \<Longrightarrow> mAggregator m = mAggregator n \<Longrightarrow> IsHappy m = IsHappy n"
  by (simp add: IsHappy_def)

lemma synced_cong: "mAccessor m = mAccessor n \<Longrightarrow> mAggregator m = mAggregator n \<Longrightarrow> synced m = synced n"
  by (simp add: synced_def)

lemma with_manager_IsHappy: "wf_manager a m \<Longrightarrow> IsHappy (rr_manager (with_manager rr m)) = IsHappy m"
  by (rule IsHappy_cong) (auto simp: wf_manager_def)

lemma with_manager_synced: "wf_manager a m \<Longrightarrow> synced (rr_manager (with_manager rr m)) = synced m"
  by (rule synced_cong) (auto simp: wf_manager_def)

lemma with_manager_ok: "wf_manager a m \<Longrightarrow> mActive m \<noteq> None \<Longrightarrow> rr_ok a (with_manager rr m)"
  by (auto simp: rr_ok_def wf_manager_def)

lemma run_actions_ok:
  assumes "\<forall>act\<in>set acts. keeps_ok a act" and "rr_ok a rr"
  shows "rr_ok a (fst (run_actions acts rr d))"
  using assms
proof (induction acts rr d rule: run_actions.induct)
  case (2 action rest rr d)
  obtain rr' eo where act: "action rr = (rr', eo)" by (cases "action rr")
  have "keeps_ok a action" using "2.prems" by simp
  then have ok: "rr_ok a rr'" using "2.prems"(2) act by (metis fst_conv keeps_ok_def)
  show ?case
  proof (cases eo)
    case None
    then show ?thesis using 2 act ok by simp
  next
    case (Some e)
    then show ?thesis using 2 act ok by (cases "as_requeue e") simp_all
  qed
qed simp

text \<open>Marking the provisioning condition.\<close>

lemma Mark_active: "mAccessor m \<noteq> None \<Longrightarrow> mActive (Mark m t s opts) =
    map_option (insert (cType (applyOpts (new_condition t s) opts))) (mActive m)"
  by (auto simp: Mark_def SetCondition_active)

lemma Mark_wf: "wf_manager a m \<Longrightarrow> wf_manager a (Mark m t s opts)"
  by (simp add: Mark_def SetCondition_wf)

definition marks :: "'w request \<Rightarrow> string \<Rightarrow> condition \<Rightarrow> bool" where
  "marks rr t c \<longleftrightarrow> (\<exists>d act. FindStatusCondition (rr_conds rr) t = Some d \<and> equals d c \<and>
     rrActive rr = Some act \<and> t \<in> act)"

lemma mark_request:
  assumes "rr_ok a rr" and "t \<noteq> aTarget a" and "cType (applyOpts (new_condition t s) opts) = t"
    and "rr' = with_manager rr (Mark (rr_manager rr) t s opts)"
  shows "rr_ok a rr' \<and> marks rr' t (applyOpts (new_condition t s) opts)"
proof -
  let ?c = "applyOpts (new_condition t s) opts" and ?m = "Mark (rr_manager rr) t s opts"
  have wf: "wf_manager a (rr_manager rr)" using assms(1) by (simp add: rr_ok_wf)
  obtain act where act: "rrActive rr = Some act" using assms(1) by (auto simp: rr_ok_def)
  have active: "mActive ?m = Some (insert t act)" using act assms(3) by (simp add: Mark_active)
  obtain d where "FindStatusCondition (conds_of ?m) t = Some d" "equals d ?c"
    using SetCondition_reads_back[OF wf, of ?c] assms(2,3) by (auto simp: Mark_def)
  moreover have "rr_ok a rr'" unfolding assms(4) by (rule with_manager_ok) (use wf active in \<open>auto intro: Mark_wf\<close>)
  ultimately show ?thesis using active assms(4) by (simp add: marks_def)
qed

lemma marking_opts_type:
  "cType (applyOpts (new_condition t s) [WithReason q, WithMessage u, WithObservedGeneration g]) = t"
  "cType (applyOpts (new_condition t s) [WithError eo, WithObservedGeneration g]) = t"
  "cType (applyOpts (new_condition t s) [WithObservedGeneration g]) = t"
  by (simp_all add: option_defs Let_def split: option.split)

text \<open>The condition that the outcome of provisioning calls for.\<close>

definition provisioning_condition :: "'w reconciler \<Rightarrow> bool \<Rightarrow> go_error option \<Rightarrow> int \<Rightarrow> condition" where
  "provisioning_condition r stopped perr g =
     (let p = rcProvisioningConditionType r
      in if stopped
         then (new_condition p ConditionFalse)\<lparr>cReason := rcPreApplyFailedReason r, cMessage := preApplyMessage,
            cObservedGeneration := g\<rparr>
         else case perr of
                Some e \<Rightarrow> (new_condition p ConditionFalse)\<lparr>cReason := ConditionReasonError, cMessage := err_msg e,
                   cObservedGeneration := g\<rparr>
              | None \<Rightarrow> (new_condition p ConditionTrue)\<lparr>cObservedGeneration := g\<rparr>)"

text \<open>What a reconciler needs of its aggregator and callbacks.\<close>

definition well_configured :: "aggregator \<Rightarrow> 'w reconciler \<Rightarrow> bool" where
  "well_configured a r \<longleftrightarrow> rcAggregator r = Some a \<and> wf_aggregator a \<and>
     hasDependent (Some a) (rcProvisioningConditionType r) \<and> (\<forall>act\<in>set (rcActions r). keeps_ok a act) \<and>
     (\<forall>fn. rcPreApplyFn r = Some fn \<longrightarrow> keeps_ok a fn)"

lemma well_configured_target: "well_configured a r \<Longrightarrow> rcProvisioningConditionType r \<noteq> aTarget a"
  by (metis well_configured_def wf_not_target)

lemma pre_apply_ok: "well_configured a r \<Longrightarrow> rr_ok a rr \<Longrightarrow> rr_ok a (fst (pre_apply r rr))"
  by (auto simp: pre_apply_def well_configured_def keeps_ok_def split: option.splits)

lemma provisioning_condition_opts:
  "applyOpts (new_condition (rcProvisioningConditionType r) ConditionFalse)
     [WithReason (rcPreApplyFailedReason r), WithMessage preApplyMessage, WithObservedGeneration g] =
   provisioning_condition r True perr g"
  "applyOpts (new_condition (rcProvisioningConditionType r) ConditionFalse)
     [WithError (Some e), WithObservedGeneration g] = provisioning_condition r False (Some e) g"
  "applyOpts (new_condition (rcProvisioningConditionType r) ConditionTrue) [WithObservedGeneration g] =
   provisioning_condition r False None g"
  by (simp_all add: provisioning_condition_def option_defs Let_def new_condition_def ConditionSeverityError_def)

lemma provision_result:
  assumes "well_configured a r" and "rr_ok a rr" and "provision r rr = (rr', d, perr)"
    and "pre_apply r rr = (rr1, stopped)"
  shows "rr_ok a rr' \<and>
    marks rr' (rcProvisioningConditionType r) (provisioning_condition r stopped perr (oGeneration (rrInstance rr'))) \<and>
    (stopped \<longrightarrow> d = 30 * second \<and> perr = None) \<and>
    (\<not> stopped \<longrightarrow> (\<exists>rr2. run_actions (rcActions r) rr1 0 = (rr2, d, perr)))"
proof -
  let ?p = "rcProvisioningConditionType r"
  have tt: "?p \<noteq> aTarget a" using assms(1) by (rule well_configured_target)
  have ok1: "rr_ok a rr1" using pre_apply_ok[OF assms(1,2)] assms(4) by simp
  show ?thesis
  proof (cases stopped)
    case True
    let ?opts = "[WithReason (rcPreApplyFailedReason r), WithMessage preApplyMessage,
      WithObservedGeneration (oGeneration (rrInstance rr1))]"
    have p: "rr' = with_manager rr1 (Mark (rr_manager rr1) ?p ConditionFalse ?opts)" "d = 30 * second" "perr = None"
      using assms(3,4) True by (simp_all add: provision_def MarkFalse_def)
    from mark_request[OF ok1 tt marking_opts_type(1) p(1)] p True show ?thesis
      by (simp add: provisioning_condition_opts(1)[where perr = None])
  next
    case False
    obtain rr2 d2 e2 where run: "run_actions (rcActions r) rr1 0 = (rr2, d2, e2)" by (metis prod_cases3)
    have ok2: "rr_ok a rr2"
      using run_actions_ok[of "rcActions r" a rr1 0] assms(1) ok1 run by (simp add: well_configured_def)
    show ?thesis
    proof (cases e2)
      case None
      have p: "rr' = with_manager rr2 (Mark (rr_manager rr2) ?p ConditionTrue
          [WithObservedGeneration (oGeneration (rrInstance rr2))])" "d = d2" "perr = None"
        using assms(3,4) False run None by (simp_all add: provision_def MarkTrue_def)
      from mark_request[OF ok2 tt marking_opts_type(3) p(1)] p False run None show ?thesis
        by (simp add: provisioning_condition_opts)
    next
      case (Some e)
      have p: "rr' = with_manager rr2 (Mark (rr_manager rr2) ?p ConditionFalse
          [WithError (Some e), WithObservedGeneration (oGeneration (rrInstance rr2))])" "d = d2" "perr = Some e"
        using assms(3,4) False run Some by (auto simp add: provision_def MarkFalse_def)
      from mark_request[OF ok2 tt marking_opts_type(2) p(1)] p False run Some show ?thesis
        by (simp add: provisioning_condition_opts)
    qed
  qed
qed

text \<open>A lookup by type survives a permutation of conditions with unique types.\<close>

lemma FindStatus_mset:
  assumes "mset cs = mset ds" and "unique_types ds"
  shows "FindStatusCondition cs t = FindStatusCondition ds t"
proof -
  have u: "unique_types cs" using assms by (metis mset_map mset_eq_imp_distinct_iff unique_types_def)
  have s: "set cs = set ds" using assms(1) by (metis set_mset_mset)
  have "find_first cType t cs = find_first cType t ds"
  proof (cases "find_first cType t ds")
    case None
    then have "find_first cType t cs = None" using s by (simp add: find_first_None_iff)
    with None show ?thesis by simp
  next
    case (Some c)
    then have "c \<in> set cs" "cType c = t" using s by (auto dest: find_first_Some_mem find_first_Some_key)
    then show ?thesis using u Some find_first_mem[of cType cs c] by (simp add: unique_types_def)
  qed
  then show ?thesis by (simp add: FindStatusCondition_find_first)
qed

definition status_truthful :: "aggregator \<Rightarrow> 'w reconciler \<Rightarrow> 'w request \<Rightarrow> 'w request \<Rightarrow> bool \<Rightarrow> bool" where
  "status_truthful a r rr rr' happy \<longleftrightarrow>
     unique_types (rr_conds rr') \<and> sorted (map (cond_key (Some a)) (rr_conds rr')) \<and>
     (happy \<longleftrightarrow> (\<forall>c\<in>set (rr_conds rr'). shouldConsider a c \<longrightarrow> isHealthy a c)) \<and>
     poPhase (rrInstance rr') = (if happy then rcPhaseReady r else rcPhaseNotReady r) \<and>
     poObservedGeneration (rrInstance rr') =
       (if happy then oGeneration (rrInstance rr') else poObservedGeneration (rrInstance rr))"

lemma Cleanup_active:
  assumes "wf_manager a m" and "mActive m = Some act"
  shows "mActive (CleanupStaleConditions m) = Some act"
proof -
  from assms obtain cs m1 cs1 changed cs2 m2 where st: "mAccessor m = Some cs"
    "cleanup_dependents act m cs False (Dependents (Some a)) = (m1, cs1, changed)"
    "m2 = m1\<lparr>mAccessor := Some cs2\<rparr>"
    "CleanupStaleConditions m =
      (if stale_types (Some a) act cs1 \<noteq> [] \<or> changed then RecomputeHappiness m2 else m2)"
    by (rule CleanupStaleConditions_stages) blast
  from cleanup_dependents_result[OF st(2,1)] have "mActive m1 = mActive m" by blast
  then show ?thesis using st(3,4) assms(2) by simp
qed

lemma cleanup_request:
  assumes "rr_ok a rr"
    and "rr1 = (if \<not> rcSkipConditionCleanup r then with_manager rr (CleanupStaleConditions (rr_manager rr)) else rr)"
  shows "rr_ok a rr1" and "marks rr t c \<Longrightarrow> t \<noteq> aTarget a \<Longrightarrow> marks rr1 t c"
    and "poObservedGeneration (rrInstance rr1) = poObservedGeneration (rrInstance rr)"
    and "oGeneration (rrInstance rr1) = oGeneration (rrInstance rr)"
proof -
  have wf: "wf_manager a (rr_manager rr)" using assms(1) by (simp add: rr_ok_wf)
  obtain act where act: "rrActive rr = Some act" using assms(1) by (auto simp: rr_ok_def)
  let ?m = "CleanupStaleConditions (rr_manager rr)"
  have wf': "wf_manager a ?m" using Cleanup_wf[OF wf] act by simp
  have active: "mActive ?m = Some act" using Cleanup_active[OF wf] act by simp
  show "rr_ok a rr1" using assms(2) with_manager_ok[OF wf', of rr] active assms(1) by simp
  show "marks rr t c \<Longrightarrow> t \<noteq> aTarget a \<Longrightarrow> marks rr1 t c"
    using Cleanup_lookup(1)[OF wf, of act t] act active assms(2) by (auto simp: marks_def)
  show "poObservedGeneration (rrInstance rr1) = poObservedGeneration (rrInstance rr)"
    "oGeneration (rrInstance rr1) = oGeneration (rrInstance rr)"
    using assms(2) by simp_all
qed

lemma recompute_request:
  assumes "rr_ok a rr" and "rr' = with_manager rr (RecomputeHappiness (rr_manager rr))"
  shows "rr_ok a rr'" and "synced (rr_manager rr')" and "marks rr t c \<Longrightarrow> t \<noteq> aTarget a \<Longrightarrow> marks rr' t c"
proof -
  have wf: "wf_manager a (rr_manager rr)" using assms(1) by (simp add: rr_ok_wf)
  let ?m = "RecomputeHappiness (rr_manager rr)"
  have wf': "wf_manager a ?m" using wf by (rule RecomputeHappiness_wf)
  have "mActive ?m \<noteq> None" using assms(1) by (simp add: rr_ok_def)
  then show "rr_ok a rr'" unfolding assms(2) by (rule with_manager_ok[OF wf'])
  show "synced (rr_manager rr')"
    unfolding assms(2) with_manager_synced[OF wf'] using wf by (rule RecomputeHappiness_synced)
  show "marks rr t c \<Longrightarrow> t \<noteq> aTarget a \<Longrightarrow> marks rr' t c"
    using RecomputeHappiness_lookup[OF wf, of t] assms(2) by (auto simp: marks_def)
qed

lemma sort_request:
  assumes "rr_ok a rr" and "synced (rr_manager rr)"
  obtains m where "Sort (rr_manager rr) = Done m" "wf_manager a m" "synced m"
    "sorted (map (cond_key (Some a)) (conds_of m))" "mActive m = rrActive rr"
    "\<forall>t. FindStatusCondition (conds_of m) t = FindStatusCondition (rr_conds rr) t"
proof -
  have wf: "wf_manager a (rr_manager rr)" and u: "unique_types (rr_conds rr)"
    using assms(1) by (simp_all add: rr_ok_wf, simp add: wf_manager_def)
  obtain m where m: "Sort (rr_manager rr) = Done m" "wf_manager a m" "mset (conds_of m) = mset (rr_conds rr)"
    "sorted (map (cond_key (Some a)) (conds_of m))" "synced m"
  proof (rule Sort_result[OF wf])
    fix n
    assume n: "Sort (rr_manager rr) = Done n" "wf_manager a n" "mset (conds_of n) = mset (conds_of (rr_manager rr))"
      "sorted (map (cond_key (Some a)) (conds_of n))" "synced (rr_manager rr) \<Longrightarrow> synced n"
    show thesis by (rule that[of n]) (use n assms(2) in simp_all)
  qed
  moreover have "mActive m = rrActive rr" using m(1) by (auto simp: Sort_def split: if_splits)
  moreover have "FindStatusCondition (conds_of m) t = FindStatusCondition (rr_conds rr) t" for t
    using m(3) u by (rule FindStatus_mset)
  ultimately show thesis by (intro that[of m]) simp_all
qed

lemma finish_conditions_result:
  assumes "rr_ok a rr"
  shows "\<exists>rr' happy. finish_conditions r rr = Done (rr', happy) \<and> status_truthful a r rr rr' happy \<and>
    rrWorld rr' = rrWorld rr \<and> oGeneration (rrInstance rr') = oGeneration (rrInstance rr) \<and>
    (\<forall>t c. marks rr t c \<longrightarrow> t \<noteq> aTarget a \<longrightarrow> marks rr' t c)"
proof -
  define rr1 where "rr1 = (if \<not> rcSkipConditionCleanup r
    then with_manager rr (CleanupStaleConditions (rr_manager rr)) else rr)"
  define rr2 where "rr2 = rr1\<lparr>rrInstance := (rrInstance rr1)\<lparr>poPhase := rcPhaseNotReady r\<rparr>\<rparr>"
  define rr3 where "rr3 = with_manager rr2 (RecomputeHappiness (rr_manager rr2))"
  note c1 = cleanup_request[OF assms rr1_def]
  have ok2: "rr_ok a rr2" using c1(1) by (simp add: rr_ok_def rr2_def)
  have m2: "marks rr2 t c = marks rr1 t c" for t c by (simp add: marks_def rr2_def)
  note c3 = recompute_request[OF ok2 rr3_def]
  obtain m where m: "Sort (rr_manager rr3) = Done m" "wf_manager a m" "synced m"
    "sorted (map (cond_key (Some a)) (conds_of m))" "mActive m = rrActive rr3"
    "\<forall>t. FindStatusCondition (conds_of m) t = FindStatusCondition (rr_conds rr3) t"
    by (rule sort_request[OF c3(1,2)])
  define rr4 where "rr4 = with_manager rr3 m"
  have h: "IsHappy (rr_manager rr4) = IsHappy m" unfolding rr4_def using m(2) by (rule with_manager_IsHappy)
  have hm: "IsHappy m \<longleftrightarrow> (\<forall>c\<in>set (conds_of m). shouldConsider a c \<longrightarrow> isHealthy a c)"
    using IsHappy_iff[OF m(2,3)] by (auto simp: unhealthy_def)
  define rr' where "rr' = (if IsHappy m then rr4\<lparr>rrInstance := (rrInstance rr4)\<lparr>poPhase := rcPhaseReady r,
      poObservedGeneration := oGeneration (rrInstance rr4)\<rparr>\<rparr> else rr4)"
  have run: "finish_conditions r rr = Done (rr', IsHappy m)"
    unfolding finish_conditions_def rr1_def[symmetric] Let_def rr2_def[symmetric] rr3_def[symmetric] m(1) bind_run.simps
      rr4_def[symmetric] h rr'_def by simp
  have conds: "rr_conds rr' = conds_of m" "rrActive rr' = rrActive rr3"
    using m(5) by (simp_all add: rr'_def rr4_def)
  have phase: "poPhase (rrInstance rr3) = rcPhaseNotReady r" "oGeneration (rrInstance rr3) = oGeneration (rrInstance rr)"
    "poObservedGeneration (rrInstance rr3) = poObservedGeneration (rrInstance rr)" "rrWorld rr3 = rrWorld rr"
    using c1(3,4) by (simp_all add: rr3_def rr2_def) (simp add: rr1_def)
  have "status_truthful a r rr rr' (IsHappy m)"
    unfolding status_truthful_def conds hm[symmetric]
    using m(2,4) phase by (auto simp: rr'_def rr4_def wf_manager_def)
  moreover have "marks rr' t c" if "marks rr t c" "t \<noteq> aTarget a" for t c
    using c3(3)[of t c] c1(2)[OF that] that(2) m2 m(6) conds by (simp add: marks_def)
  moreover have "rrWorld rr' = rrWorld rr" "oGeneration (rrInstance rr') = oGeneration (rrInstance rr)"
    using phase by (simp_all add: rr'_def rr4_def)
  ultimately show ?thesis using run by blast
qed

section \<open>Building the request\<close>

lemma new_request_result:
  assumes "rcAggregator r = Some a" and "wf_aggregator a" and "unique_types (poConditions res)"
  obtains rr where "new_request clock r w res = Done rr" "rr_ok a (with_manager rr (Reset (rr_manager rr)))"
    "rrWorld rr = w" "oGeneration (rrInstance rr) = oGeneration res" "rrController rr = rcOwned r"
proof -
  obtain m where m: "NewManager clock 0 (Some (poConditions res)) (Some a) = Done m" "wf_manager a m"
    using NewManager_result[OF assms(2,3)] by (metis initialised_fromD(1))
  then obtain rr where rr: "new_request clock r w res = Done (with_manager rr m)" "rrWorld rr = w" "rrInstance rr = res"
    "rrController rr = rcOwned r"
    using assms(1) by (simp add: new_request_def)
  have "wf_manager a (Reset (rr_manager (with_manager rr m)))"
    using m(2) by (auto simp: Reset_def wf_manager_def)
  then have "rr_ok a (with_manager (with_manager rr m) (Reset (rr_manager (with_manager rr m))))"
    by (rule with_manager_ok) (simp add: Reset_def)
  with rr show thesis by (intro that[of "with_manager rr m"]) simp_all
qed

text \<open>The pipeline of \<^verbatim>\<open>apply\<close> up to the status write, as one lemma.\<close>

lemma apply_pipeline:
  assumes "well_configured a r" and "unique_types (poConditions res)" and "rcPostStatusFn r = None"
    and "rcSkipStatusConditionsFn r = None"
  obtains rr0 rr1 rr d perr pre stopped happy where
    "new_request clock r w res = Done rr0" "pre_apply r (with_manager rr0 (Reset (rr_manager rr0))) = (pre, stopped)"
    "provision r (with_manager rr0 (Reset (rr_manager rr0))) = (rr1, d, perr)"
    "finish_conditions r rr1 = Done (rr, happy)" "status_truthful a r rr1 rr happy" "rrWorld rr = rrWorld rr1"
    "marks rr (rcProvisioningConditionType r) (provisioning_condition r stopped perr (oGeneration (rrInstance rr)))"
    "stopped \<longrightarrow> d = 30 * second \<and> perr = None"
    "\<not> stopped \<longrightarrow> (\<exists>rr2. run_actions (rcActions r) pre 0 = (rr2, d, perr))"
    "apply_instance cl clock r w res =
       (case write_status cl r rr d perr of (w', d', e) \<Rightarrow> Done (w', rrController rr, d', e))"
proof -
  have agg: "rcAggregator r = Some a" "wf_aggregator a" using assms(1) by (simp_all add: well_configured_def)
  obtain rr0 where rr0: "new_request clock r w res = Done rr0"
    and ok0: "rr_ok a (with_manager rr0 (Reset (rr_manager rr0)))"
    using new_request_result[OF agg assms(2)] by metis
  obtain pre stopped where pre: "pre_apply r (with_manager rr0 (Reset (rr_manager rr0))) = (pre, stopped)" by fastforce
  obtain rr1 d perr where pv: "provision r (with_manager rr0 (Reset (rr_manager rr0))) = (rr1, d, perr)"
    by (metis prod_cases3)
  note p = provision_result[OF assms(1) ok0 pv pre]
  obtain rr happy where fin: "finish_conditions r rr1 = Done (rr, happy)" "status_truthful a r rr1 rr happy"
    "rrWorld rr = rrWorld rr1" "oGeneration (rrInstance rr) = oGeneration (rrInstance rr1)"
    "\<forall>t c. marks rr1 t c \<longrightarrow> t \<noteq> aTarget a \<longrightarrow> marks rr t c"
    using finish_conditions_result[of a rr1 r] p by blast
  have "apply_instance cl clock r w res =
      (case write_status cl r rr d perr of (w', d', e) \<Rightarrow> Done (w', rrController rr, d', e))"
    by (simp add: apply_instance_def rr0 pv fin(1) post_status_def skip_status_def assms(3,4) split: prod.split)
  moreover have "marks rr (rcProvisioningConditionType r)
      (provisioning_condition r stopped perr (oGeneration (rrInstance rr)))"
    using p fin(4,5) well_configured_target[OF assms(1)] by simp
  ultimately show thesis
    by (intro that[OF rr0 pre pv fin(1,2,3)]) (use p in simp_all)
qed

lemma provisioning_condition_sel:
  "cType (provisioning_condition r s perr g) = rcProvisioningConditionType r"
  "cStatus (provisioning_condition r s perr g) = (if s \<or> perr \<noteq> None then ConditionFalse else ConditionTrue)"
  "cObservedGeneration (provisioning_condition r s perr g) = g"
  "cSeverity (provisioning_condition r s perr g) = ConditionSeverityError"
  by (simp_all add: provisioning_condition_def Let_def new_condition_def ConditionSeverityError_def split: option.split)

text \<open>A provisioning condition that is False makes the status unhappy.\<close>

lemma failed_provisioning_unhappy:
  assumes "well_configured a r" and "status_truthful a r rr1 rr happy"
    and "marks rr (rcProvisioningConditionType r) (provisioning_condition r s perr g)" and "s \<or> perr \<noteq> None"
    and "polarityFor (Some a) (rcProvisioningConditionType r) = HealthyWhenTrue"
  shows "\<not> happy"
proof -
  let ?p = "rcProvisioningConditionType r"
  obtain c where c: "FindStatusCondition (rr_conds rr) ?p = Some c" "equals c (provisioning_condition r s perr g)"
    using assms(3) by (auto simp: marks_def)
  have mem: "c \<in> set (rr_conds rr)" "cType c = ?p"
    using c(1) by (auto simp: FindStatusCondition_find_first dest: find_first_Some_mem find_first_Some_key)
  have "cStatus c = ConditionFalse" "cSeverity c = ConditionSeverityError"
    using c(2) assms(4) by (auto simp: equals_def provisioning_condition_sel)
  moreover have "hasDependent (Some a) ?p" "?p \<noteq> aTarget a"
    using assms(1) well_configured_target[OF assms(1)] by (auto simp: well_configured_def)
  ultimately have "shouldConsider a c \<and> \<not> isHealthy a c"
    using mem(2) assms(5) by (auto simp: shouldConsider_def isHealthy_def)
  then show ?thesis using mem(1) assms(2) by (auto simp: status_truthful_def)
qed

section \<open>Example reconciler\<close>

text \<open>A cluster that stores the written statuses and events, and a client over it.\<close>

record ex_world =
  xwStatus :: "kobj list"
  xwEvents :: "event list"
  xwUpdates :: "platform_object list"

definition ex_client :: "platform_object \<Rightarrow> ex_world client" where
  "ex_client obj = \<lparr>clGet = (\<lambda>w n. Inr obj), clLookup = (\<lambda>ob. Inr (oGVK ob)),
     clUpdate = (\<lambda>w ob. (w\<lparr>xwUpdates := xwUpdates w @ [ob]\<rparr>, Inr ob)),
     clConv = (\<lambda>ob. Inr (kobj.truncate ob)), clTypeName = ''*v1.Dashboard'',
     clStatusApply = (\<lambda>w u. (w\<lparr>xwStatus := xwStatus w @ [u]\<rparr>, Inr u)), clConvert = (\<lambda>u ob. Inr ob),
     clEvent = (\<lambda>w e. w\<lparr>xwEvents := xwEvents w @ [e]\<rparr>),
     clContains = (\<lambda>ob n. n \<in> set (oFinalizers ob)),
     clAddFin = (\<lambda>ob n. if n \<in> set (oFinalizers ob) then (ob, False) else (ob\<lparr>oFinalizers := oFinalizers ob @ [n]\<rparr>, True)),
     clRemoveFin = (\<lambda>ob n. (ob\<lparr>oFinalizers := removeAll n (oFinalizers ob)\<rparr>, n \<in> set (oFinalizers ob)))\<rparr>"

definition ex_agg_prov :: aggregator where
  "ex_agg_prov = \<lparr>aTarget = ''Ready'', aDependents = [(''ProvisioningSucceeded'', HealthyWhenTrue)]\<rparr>"

definition ex_reconciler :: "'w action list \<Rightarrow> 'w reconciler" where
  "ex_reconciler acts = (new_reconciler ''dashboard'')\<lparr>rcAggregator := Some ex_agg_prov, rcActions := acts\<rparr>"

lemma ex_agg_prov_wf: "wf_aggregator ex_agg_prov"
  by (simp add: wf_aggregator_def ex_agg_prov_def)

lemma ex_reconciler_configured:
  assumes "\<forall>act\<in>set acts. keeps_ok ex_agg_prov act"
  shows "well_configured ex_agg_prov (ex_reconciler acts)"
  using assms ex_agg_prov_wf
  by (simp add: well_configured_def ex_reconciler_def new_reconciler_def hasDependent_def ex_agg_prov_def
      DefaultProvisioningConditionType_def)

definition ex_fail :: "'w action" where
  "ex_fail rr = (rr, Some (ErrNew ''boom''))"

definition ex_later :: "duration \<Rightarrow> 'w action" where
  "ex_later d rr = (rr, Some (NewRequeueAfterError d))"

lemma ex_actions_ok [simp]: "keeps_ok a ex_fail" "keeps_ok a (ex_later d)"
  by (simp_all add: keeps_ok_def ex_fail_def ex_later_def)

section \<open>Properties\<close>

text \<open>
  C2: for every reconciler whose provisioning condition is a dependent of its aggregator, whose
  callbacks keep the condition slice well formed and that has neither a post-status callback nor a
  function that skips the status conditions (both may rewrite the status afterwards), applying an instance does not panic and writes a
  status that tells the truth: types are unique; the phase is the ready phase, with the observed
  generation equal to the generation, exactly when every considered condition is healthy, and the
  not-ready phase otherwise; the provisioning condition is True for this generation exactly when
  the pre-apply hook did not stop and no action failed, and otherwise the status is not ready. A
  pre-apply stop runs no action and asks for a requeue after 30 seconds.
\<close>

theorem apply_writes_truthful_status:
  assumes "well_configured a r" and "unique_types (poConditions res)" and "rcPostStatusFn r = None"
    and "rcSkipStatusConditionsFn r = None"
    and "polarityFor (Some a) (rcProvisioningConditionType r) = HealthyWhenTrue"
  shows "\<exists>rr0 pre rr d perr stopped happy c.
    new_request clock r w res = Done rr0 \<and>
    pre_apply r (with_manager rr0 (Reset (rr_manager rr0))) = (pre, stopped) \<and>
    (stopped \<longrightarrow> d = 30 * second \<and> perr = None) \<and>
    (\<not> stopped \<longrightarrow> (\<exists>rr2. run_actions (rcActions r) pre 0 = (rr2, d, perr))) \<and>
    apply_instance cl clock r w res =
      (case write_status cl r rr d perr of (w', d', e) \<Rightarrow> Done (w', rrController rr, d', e)) \<and>
    unique_types (rr_conds rr) \<and>
    (happy \<longleftrightarrow> (\<forall>c\<in>set (rr_conds rr). shouldConsider a c \<longrightarrow> isHealthy a c)) \<and>
    poPhase (rrInstance rr) = (if happy then rcPhaseReady r else rcPhaseNotReady r) \<and>
    (happy \<longrightarrow> poObservedGeneration (rrInstance rr) = oGeneration (rrInstance rr)) \<and>
    FindStatusCondition (rr_conds rr) (rcProvisioningConditionType r) = Some c \<and>
    cObservedGeneration c = oGeneration (rrInstance rr) \<and>
    (cStatus c = ConditionTrue \<longleftrightarrow> \<not> stopped \<and> perr = None) \<and> (stopped \<or> perr \<noteq> None \<longrightarrow> \<not> happy)"
proof -
  obtain rr0 rr1 rr d perr pre stopped happy where pl: "status_truthful a r rr1 rr happy"
    "marks rr (rcProvisioningConditionType r) (provisioning_condition r stopped perr (oGeneration (rrInstance rr)))"
    "apply_instance cl clock r w res =
       (case write_status cl r rr d perr of (w', d', e) \<Rightarrow> Done (w', rrController rr, d', e))"
    "new_request clock r w res = Done rr0" "pre_apply r (with_manager rr0 (Reset (rr_manager rr0))) = (pre, stopped)"
    "stopped \<longrightarrow> d = 30 * second \<and> perr = None"
    "\<not> stopped \<longrightarrow> (\<exists>rr2. run_actions (rcActions r) pre 0 = (rr2, d, perr))"
    by (rule apply_pipeline[OF assms(1-4), of clock w cl]) iprover
  obtain c where c: "FindStatusCondition (rr_conds rr) (rcProvisioningConditionType r) = Some c"
    "equals c (provisioning_condition r stopped perr (oGeneration (rrInstance rr)))"
    using pl(2) by (auto simp: marks_def)
  have g: "cObservedGeneration c = oGeneration (rrInstance rr)" "cStatus c = ConditionTrue \<longleftrightarrow> \<not> stopped \<and> perr = None"
    using c(2) by (auto simp: equals_def provisioning_condition_sel ConditionTrue_def ConditionFalse_def)
  have u: "stopped \<or> perr \<noteq> None \<longrightarrow> \<not> happy"
    using failed_provisioning_unhappy[OF assms(1) pl(1,2) _ assms(5)] by blast
  have st: "unique_types (rr_conds rr)"
    "happy \<longleftrightarrow> (\<forall>c\<in>set (rr_conds rr). shouldConsider a c \<longrightarrow> isHealthy a c)"
    "poPhase (rrInstance rr) = (if happy then rcPhaseReady r else rcPhaseNotReady r)"
    "happy \<longrightarrow> poObservedGeneration (rrInstance rr) = oGeneration (rrInstance rr)"
    using pl(1) unfolding status_truthful_def by simp_all
  show ?thesis
    by (intro exI[of _ rr0] exI[of _ pre] exI[of _ rr] exI[of _ d] exI[of _ perr] exI[of _ stopped]
        exI[of _ happy] exI[of _ c] conjI) (rule pl(3-7) st c(1) g u)+
qed

theorem apply_writes_truthful_status_witness:
  "\<exists>rr d perr. apply_instance (ex_client ex_object) int (ex_reconciler [ex_fail])
       \<lparr>xwStatus = [], xwEvents = [], xwUpdates = []\<rparr> ex_object =
     (case write_status (ex_client ex_object) (ex_reconciler [ex_fail]) rr d perr of
        (w', d', e) \<Rightarrow> Done (w', rrController rr, d', e)) \<and>
     perr = Some (ErrNew ''boom'') \<and> poPhase (rrInstance rr) = ''Not Ready''"
proof -
  let ?r = "ex_reconciler [ex_fail] :: ex_world reconciler" and ?cl = "ex_client ex_object"
  let ?w = "\<lparr>xwStatus = [], xwEvents = [], xwUpdates = []\<rparr>"
  have wc: "well_configured ex_agg_prov ?r" by (rule ex_reconciler_configured) simp
  have u: "unique_types (poConditions ex_object)" by (simp add: ex_object_def unique_types_def)
  have r: "rcPostStatusFn ?r = None" "rcSkipStatusConditionsFn ?r = None" "rcPhaseNotReady ?r = ''Not Ready''"
    "rcPreApplyFn ?r = None" "rcActions ?r = [ex_fail]"
    "polarityFor (Some ex_agg_prov) (rcProvisioningConditionType ?r) = HealthyWhenTrue"
    by (simp_all add: ex_reconciler_def new_reconciler_def DefaultPhaseNotReady_def
        DefaultProvisioningConditionType_def polarityFor_def ex_agg_prov_def)
  from apply_writes_truthful_status[OF wc u r(1,2,6), of int ?w ?cl]
  obtain rr0 pre rr d perr stopped happy where t: "pre_apply ?r (with_manager rr0 (Reset (rr_manager rr0))) = (pre, stopped)"
    "\<not> stopped \<longrightarrow> (\<exists>rr2. run_actions (rcActions ?r) pre 0 = (rr2, d, perr))"
    "apply_instance ?cl int ?r ?w ex_object =
      (case write_status ?cl ?r rr d perr of (w', d', e) \<Rightarrow> Done (w', rrController rr, d', e))"
    "poPhase (rrInstance rr) = (if happy then rcPhaseReady ?r else rcPhaseNotReady ?r)"
    "stopped \<or> perr \<noteq> None \<longrightarrow> \<not> happy"
    by (elim exE conjE) (rule that; assumption)
  have "\<not> stopped" using t(1) r(4) by (simp add: pre_apply_def)
  then have perr: "perr = Some (ErrNew ''boom'')" using t(2) r(5) by (auto simp: ex_fail_def)
  then have "poPhase (rrInstance rr) = ''Not Ready''" using t(4,5) r(3) by simp
  with t(3) perr show ?thesis by blast
qed

text \<open>
  the markers of an action steer the loop: after a prefix of actions that ran to its end, a
  requeue marker replaces the remembered interval and the loop goes on with the next action, success
  keeps it, and any other error ends the loop with that error, without running a later action.
\<close>

theorem run_actions_markers:
  assumes "run_actions xs rr d = (rr1, d1, None)" and "act rr1 = (rr2, eo)"
  shows "run_actions (xs @ act # ys) rr d =
    (case eo of None \<Rightarrow> run_actions ys rr2 d1
     | Some e \<Rightarrow> (case as_requeue e of Some after \<Rightarrow> run_actions ys rr2 after | None \<Rightarrow> (rr2, d1, Some e)))"
  using assms(1)
proof (induction xs rr d rule: run_actions.induct)
  case (1 rr d)
  then show ?case using assms(2) by (simp split: option.split)
next
  case (2 action rest rr d)
  obtain rr' eo' where a: "action rr = (rr', eo')" by (cases "action rr")
  show ?case
  proof (cases eo')
    case None
    then show ?thesis using 2 a by simp
  next
    case (Some e)
    then show ?thesis using 2 a by (cases "as_requeue e") simp_all
  qed
qed

theorem run_actions_markers_witness:
  "run_actions ([ex_later 5] @ ex_later 7 # [ex_fail, ex_later 9]) (ex_request ()) 0 =
     (ex_request (), 7, Some (ErrNew ''boom''))"
proof -
  have "run_actions [ex_later 5] (ex_request ()) 0 = (ex_request (), 5, None)"
    by (simp add: ex_later_def NewRequeueAfterError_def)
  moreover have "ex_later 7 (ex_request ()) = (ex_request (), Some (RequeueAfterError 7))"
    by (simp add: ex_later_def NewRequeueAfterError_def)
  ultimately have "run_actions ([ex_later 5] @ ex_later 7 # [ex_fail, ex_later 9]) (ex_request ()) 0 =
      run_actions [ex_fail, ex_later 9] (ex_request ()) 7"
    by (simp only: run_actions_markers option.case as_requeue.simps)
  then show ?thesis by (simp add: ex_fail_def)
qed

lemma run_finalizers_trace:
  assumes "run_finalizers acts rr0 = (rr, err)"
  shows "\<exists>rrs k. rrs 0 = rr0 \<and> k \<le> length acts \<and> (\<forall>i<k. (acts ! i) (rrs i) = (rrs (Suc i), None)) \<and>
    (if k = length acts then rr = rrs k \<and> err = None
     else \<exists>e. (acts ! k) (rrs k) = (rr, Some e) \<and> err = (if as_stop e = None then Some e else None))"
  using assms
proof (induction acts arbitrary: rr0)
  case Nil
  then show ?case by (intro exI[of _ "\<lambda>_. rr0"] exI[of _ 0]) simp
next
  case (Cons action rest)
  obtain rr1 eo where a: "action rr0 = (rr1, eo)" by (cases "action rr0")
  show ?case
  proof (cases eo)
    case (Some e)
    then have "action rr0 = (rr, Some e)" "err = (if as_stop e = None then Some e else None)"
      using Cons.prems a by (auto split: if_splits)
    then show ?thesis by (intro exI[of _ "\<lambda>_. rr0"] exI[of _ 0]) simp
  next
    case None
    then have "run_finalizers rest rr1 = (rr, err)" using Cons.prems a by simp
    from Cons.IH[OF this] obtain rrs k where ih: "rrs 0 = rr1" "k \<le> length rest"
      "\<forall>i<k. (rest ! i) (rrs i) = (rrs (Suc i), None)"
      "if k = length rest then rr = rrs k \<and> err = None
       else \<exists>e. (rest ! k) (rrs k) = (rr, Some e) \<and> err = (if as_stop e = None then Some e else None)"
      by blast
    define rrs' where "rrs' = (\<lambda>i. case i of 0 \<Rightarrow> rr0 | Suc j \<Rightarrow> rrs j)"
    have "\<forall>i<Suc k. ((action # rest) ! i) (rrs' i) = (rrs' (Suc i), None)"
    proof (intro allI impI)
      fix i assume "i < Suc k"
      then show "((action # rest) ! i) (rrs' i) = (rrs' (Suc i), None)"
        using a None ih(1,3) by (cases i) (simp_all add: rrs'_def)
    qed
    then show ?thesis using ih(2,4) by (intro exI[of _ rrs'] exI[of _ "Suc k"]) (simp add: rrs'_def)
  qed
qed

text \<open>
  C1: the finalizer of a deleted instance is removed only after its finalizer actions are done. When
  the finalizer is absent nothing is called. Otherwise the actions run one after the other, each on
  the request its predecessor left; the first k return no error, and the run ends behind the last
  action or with the first error. When that error is no stop marker it is what the reconciliation
  returns, and the cluster is as the actions left it: no update is sent. When all actions succeeded,
  or the error was a stop marker, the instance is updated exactly if the finalizer was still on it.
\<close>

theorem reconcile_deletes_after_finalizers:
  assumes "clGet cl w req = Inr res0" and "EnsureGroupVersionKind (clLookup cl) res0 = Inr res"
    and "oDeletionTimestamp res \<noteq> 0" and "rcAggregator r = Some a" and "wf_aggregator a"
    and "unique_types (poConditions res)"
  shows "\<exists>rrs k rr err. new_request clock r w res = Done (rrs 0) \<and> k \<le> length (rcFinalizer r) \<and>
    (\<forall>i<k. (rcFinalizer r ! i) (rrs i) = (rrs (Suc i), None)) \<and>
    (if k = length (rcFinalizer r) then rr = rrs k \<and> err = None
     else \<exists>e. (rcFinalizer r ! k) (rrs k) = (rr, Some e) \<and> err = (if as_stop e = None then Some e else None)) \<and>
    Reconcile cl clock r w req =
      (if \<not> clContains cl res (rcFinalizerName r) then Done (w, rcOwned r, 0, None)
       else case err of
              Some e \<Rightarrow> Done (rrWorld rr, rrController rr, 0, Some e)
            | None \<Rightarrow>
                let (res1, removed) = clRemoveFin cl (rrInstance rr) (rcFinalizerName r)
                in if \<not> removed then Done (rrWorld rr, rrController rr, 0, None)
                   else let (w', upd) = clUpdate cl (rrWorld rr) res1
                        in Done (w', rrController rr, 0, case upd of
                             Inl e \<Rightarrow> Some (ErrWrap (''failed to remove finalizer '' @ rcFinalizerName r @ '' from '' @ oName res1) e)
                           | Inr _ \<Rightarrow> None))"
proof -
  obtain rr0 where rr0: "new_request clock r w res = Done rr0"
    using new_request_result[OF assms(4-6)] by metis
  obtain rr err where run: "run_finalizers (rcFinalizer r) rr0 = (rr, err)" by (cases "run_finalizers (rcFinalizer r) rr0")
  have "Reconcile cl clock r w req =
      (if \<not> clContains cl res (rcFinalizerName r) then Done (w, rcOwned r, 0, None)
       else case err of
              Some e \<Rightarrow> Done (rrWorld rr, rrController rr, 0, Some e)
            | None \<Rightarrow>
                let (res1, removed) = clRemoveFin cl (rrInstance rr) (rcFinalizerName r)
                in if \<not> removed then Done (rrWorld rr, rrController rr, 0, None)
                   else let (w', upd) = clUpdate cl (rrWorld rr) res1
                        in Done (w', rrController rr, 0, case upd of
                             Inl e \<Rightarrow> Some (ErrWrap (''failed to remove finalizer '' @ rcFinalizerName r @ '' from '' @ oName res1) e)
                           | Inr _ \<Rightarrow> None))"
    using assms(3)
    by (simp add: Reconcile_def assms(1,2) delete_instance_def rr0 run removeFinalizer_def Let_def
        split: option.split prod.split sum.split)
  with run_finalizers_trace[OF run] rr0 show ?thesis by (elim exE conjE) (intro exI conjI, simp_all)
qed

theorem reconcile_deletes_after_finalizers_witness:
  "\<exists>w rr. Reconcile (ex_client (ex_object\<lparr>oDeletionTimestamp := 5, oFinalizers := [DefaultFinalizerName]\<rparr>)) int
      ((ex_reconciler [])\<lparr>rcFinalizer := [ex_fail]\<rparr>)
      \<lparr>xwStatus = [], xwEvents = [], xwUpdates = []\<rparr> ('''', ''default'') = Done (w, rr, 0, Some (ErrNew ''boom'')) \<and>
    xwUpdates w = []"
proof -
  let ?ob = "ex_object\<lparr>oDeletionTimestamp := 5, oFinalizers := [DefaultFinalizerName]\<rparr>"
  let ?r = "(ex_reconciler [])\<lparr>rcFinalizer := [ex_fail]\<rparr> :: ex_world reconciler"
  let ?w = "\<lparr>xwStatus = [], xwEvents = [], xwUpdates = []\<rparr>"
  have 1: "clGet (ex_client ?ob) ?w ('''', ''default'') = Inr ?ob"
    "EnsureGroupVersionKind (clLookup (ex_client ?ob)) ?ob = Inr ?ob"
    by (simp_all add: ex_client_def EnsureGroupVersionKind_def GetGroupVersionKindForObject_def)
  have 2: "oDeletionTimestamp ?ob \<noteq> 0" "rcAggregator ?r = Some ex_agg_prov" "unique_types (poConditions ?ob)"
    "rcFinalizer ?r = [ex_fail]" "rcFinalizerName ?r = DefaultFinalizerName"
    by (simp_all add: ex_reconciler_def new_reconciler_def ex_object_def unique_types_def)
  have "clContains (ex_client ?ob) ?ob (rcFinalizerName ?r)" using 2(5) by (simp add: ex_client_def)
  with reconcile_deletes_after_finalizers[OF 1 2(1,2) ex_agg_prov_wf 2(3), of int]
  obtain rrs k rr err where t: "new_request int ?r ?w ?ob = Done (rrs 0)" "k \<le> length (rcFinalizer ?r)"
    "\<forall>i<k. (rcFinalizer ?r ! i) (rrs i) = (rrs (Suc i), None)"
    "if k = length (rcFinalizer ?r) then rr = rrs k \<and> err = None
     else \<exists>e. (rcFinalizer ?r ! k) (rrs k) = (rr, Some e) \<and> err = (if as_stop e = None then Some e else None)"
    "err \<noteq> None \<longrightarrow> Reconcile (ex_client ?ob) int ?r ?w ('''', ''default'') = Done (rrWorld rr, rrController rr, 0, err)"
    by (elim exE conjE) (rule that, assumption, assumption, assumption, assumption, auto)
  have "k = 0" using t(2,3) 2(4) by (cases k) (auto simp: ex_fail_def)
  then have rr: "rr = rrs 0" "err = Some (ErrNew ''boom'')" using t(4) 2(4) by (auto simp: ex_fail_def)
  have "rrWorld (rrs 0) = ?w"
    by (rule new_request_result[OF 2(2) ex_agg_prov_wf 2(3), of int ?w]) (use t(1) in simp)
  with t(5) rr show ?thesis by auto
qed

text \<open>
  C9: what a reconciliation returns once the status is written. Without a provisioning error the next
  run is scheduled after the interval the actions asked for, or else the default one, and no error
  is returned. A stop marker with a positive interval schedules a run after it and is not an error.
  Every other provisioning error is returned, wrapped, with nothing scheduled; the workqueue's
  backoff applies.
\<close>

theorem reconcile_outcome:
  assumes "clGet cl w req = Inr res0" and "EnsureGroupVersionKind (clLookup cl) res0 = Inr res"
    and "oDeletionTimestamp res = 0" and "addFinalizer cl r w res = (w1, res1, None)"
    and "new_request clock r w1 res1 = Done rr0"
    and "provision r (with_manager rr0 (Reset (rr_manager rr0))) = (rr1, d, perr)"
    and "finish_conditions r rr1 = Done (rr2, happy)" and "post_status r rr2 happy = (rr3, None)"
    and "ApplyStatus (clLookup cl) (clConv cl) (clTypeName cl) (clStatusApply cl) (clConvert cl)
        (rrWorld (skip_status r rr3)) (rrInstance (skip_status r rr3)) = (w2, inst, None)"
  shows "\<exists>w3. Reconcile cl clock r w req =
    (case perr of
       None \<Rightarrow> Done (w2, rrController rr3, max 0 (if d = 0 then rcDefaultRequeueAfter r else d), None)
     | Some e \<Rightarrow> Done (w3, rrController rr3,
         (case as_stop e of Some (_, k) \<Rightarrow> max 0 k | None \<Rightarrow> 0),
         (case as_stop e of Some (_, k) \<Rightarrow> if k > 0 then None else Some (ErrWrap ''provisioning failed'' e)
          | None \<Rightarrow> Some (ErrWrap ''provisioning failed'' e))))"
proof -
  have ws: "write_status cl r (skip_status r rr3) d perr = provision_outcome cl r w2 d perr"
    by (simp add: write_status_def assms(9))
  have ap: "apply_instance cl clock r w1 res1 =
      (case provision_outcome cl r w2 d perr of (w', d', e) \<Rightarrow> Done (w', rrController rr3, d', e))"
    by (simp add: apply_instance_def assms(5-8) ws split: prod.split)
  show ?thesis
  proof (cases perr)
    case None
    then show ?thesis by (simp add: Reconcile_def assms(1-4) ap provision_outcome_def max_def)
  next
    case (Some e)
    show ?thesis
    proof (cases "as_stop e")
      case None
      then show ?thesis by (simp add: Reconcile_def assms(1-4) ap provision_outcome_def Some)
    next
      case (Some sd)
      then show ?thesis
        using \<open>perr = Some e\<close> by (cases sd) (simp add: Reconcile_def assms(1-4) ap provision_outcome_def max_def)
    qed
  qed
qed

lemma ex_client_ensure: "EnsureGroupVersionKind (clLookup (ex_client ob)) x = Inr x"
  by (simp add: ex_client_def EnsureGroupVersionKind_def GetGroupVersionKindForObject_def split: if_split)

lemma ex_client_status:
  "\<exists>w2 inst. ApplyStatus (clLookup (ex_client ob)) (clConv (ex_client ob)) (clTypeName (ex_client ob))
     (clStatusApply (ex_client ob)) (clConvert (ex_client ob)) w x = (w2, inst, None)"
  unfolding ApplyStatus_def ex_client_ensure sum.case by (simp add: ex_client_def ToUnstructured_def Let_def)

text \<open>One action asks for a requeue after seven units; everything before it succeeds.\<close>

theorem reconcile_outcome_witness:
  "\<exists>w3 owned. Reconcile (ex_client ex_object) int (ex_reconciler [ex_later 7])
     \<lparr>xwStatus = [], xwEvents = [], xwUpdates = []\<rparr> ('''', ''default'') = Done (w3, owned, 7, None)"
proof -
  let ?r = "ex_reconciler [ex_later 7] :: ex_world reconciler" and ?cl = "ex_client ex_object"
  let ?w = "\<lparr>xwStatus = [], xwEvents = [], xwUpdates = []\<rparr>"
  have wc: "well_configured ex_agg_prov ?r" by (rule ex_reconciler_configured) simp
  have u: "unique_types (poConditions ex_object)" by (simp add: ex_object_def unique_types_def)
  have r: "rcPostStatusFn ?r = None" "rcSkipStatusConditionsFn ?r = None" "rcPreApplyFn ?r = None"
    "rcActions ?r = [ex_later 7]" "rcFinalizer ?r = []"
    by (simp_all add: ex_reconciler_def new_reconciler_def)
  obtain rr0 rr1 rr d perr pre stopped happy where p: "new_request int ?r ?w ex_object = Done rr0"
    "pre_apply ?r (with_manager rr0 (Reset (rr_manager rr0))) = (pre, stopped)"
    "provision ?r (with_manager rr0 (Reset (rr_manager rr0))) = (rr1, d, perr)"
    "finish_conditions ?r rr1 = Done (rr, happy)"
    "\<not> stopped \<longrightarrow> (\<exists>rr2. run_actions (rcActions ?r) pre 0 = (rr2, d, perr))"
    by (rule apply_pipeline[OF wc u r(1,2), of int ?w ?cl]) iprover
  have d: "d = 7" "perr = None"
    using p(2,5) r(3,4) by (auto simp: pre_apply_def ex_later_def NewRequeueAfterError_def)
  have 1: "clGet ?cl ?w ('''', ''default'') = Inr ex_object"
    "EnsureGroupVersionKind (clLookup ?cl) ex_object = Inr ex_object"
    by (simp_all add: ex_client_def EnsureGroupVersionKind_def GetGroupVersionKindForObject_def)
  have 2: "oDeletionTimestamp ex_object = 0" "addFinalizer ?cl ?r ?w ex_object = (?w, ex_object, None)"
    "post_status ?r rr happy = (rr, None)" "skip_status ?r rr = rr"
    using r by (simp_all add: ex_object_def addFinalizer_def post_status_def skip_status_def)
  obtain w2 inst where 3: "ApplyStatus (clLookup ?cl) (clConv ?cl) (clTypeName ?cl) (clStatusApply ?cl) (clConvert ?cl)
        (rrWorld (skip_status ?r rr)) (rrInstance (skip_status ?r rr)) = (w2, inst, None)"
    using ex_client_status by metis
  show ?thesis
    using reconcile_outcome[OF 1 2(1,2) p(1,3,4) 2(3) 3] d by auto
qed

end
