(* ===== verification/DynamicOwnership.thy ===== *)
theory DynamicOwnership
  imports Reconciler
begin

text \<open>
  The action that starts watches on the kinds of rendered resources
  (\<^verbatim>\<open>framework/controller/actions/dynamicownership\<close>). Its state is kept between runs, and runs of several workers may
  interleave: every registration checks and records under one lock, so it is one atomic operation. Predicates are
  opaque values \<open>'p\<close>; the function that registers a watch and the mapper of the client are fields of a record.
\<close>

section \<open>State\<close>

definition dyn_crdGVK :: gvk where
  "dyn_crdGVK = mk_gvk ''apiextensions.k8s.io'' ''v1'' ''CustomResourceDefinition''"

definition dyn_deploymentGVK :: gvk where
  "dyn_deploymentGVK = mk_gvk ''apps'' ''v1'' ''Deployment''"

text \<open>The two handlers that are built: requests for the controlling owner, and for a fixed name.\<close>

datatype event_handler = EnqueueRequestForOwner gvk | ToNamed string

record ('w, 'p) dyn_env =
  deWatch :: "'w \<Rightarrow> gvk \<Rightarrow> event_handler \<Rightarrow> 'p list \<Rightarrow> 'w \<times> go_error option"
  deRESTMapping :: "'w \<Rightarrow> gvk \<Rightarrow> go_error option"
  deDefaultDeploymentPredicate :: 'p
  deDefaultPredicate :: 'p
  deDeleted :: 'p
  deNamed :: "string \<Rightarrow> 'p"

record 'p dyn_action =
  daOwnerGVK :: gvk
  daManagedByFalseMatcher :: "kobj \<Rightarrow> bool"
  daDefaultPredicates :: "'p list"
  daGvkPredicates :: "gvk \<rightharpoonup> 'p list"
  daWatched :: "(gvk \<times> bool) set"
  daWatchedCRDs :: "string set"

type_synonym 'p dyn_option = "'p dyn_action \<Rightarrow> 'p dyn_action"

definition DefaultManagedByFalseMatcher :: "string \<Rightarrow> kobj \<Rightarrow> bool" where
  "DefaultManagedByFalseMatcher annotationKey res \<longleftrightarrow> GetAnnotation res annotationKey = ''false''"

definition WithManagedByFalseMatcher :: "(kobj \<Rightarrow> bool) option \<Rightarrow> 'p dyn_option" where
  "WithManagedByFalseMatcher matcher a =
     (case matcher of None \<Rightarrow> a | Some f \<Rightarrow> a\<lparr>daManagedByFalseMatcher := f\<rparr>)"

definition WithDefaultPredicates :: "'p list \<Rightarrow> 'p dyn_option" where
  "WithDefaultPredicates preds a = a\<lparr>daDefaultPredicates := preds\<rparr>"

definition WithGVKPredicates :: "(gvk \<rightharpoonup> 'p list) \<Rightarrow> 'p dyn_option" where
  "WithGVKPredicates gvkPredicates a = a\<lparr>daGvkPredicates := daGvkPredicates a ++ gvkPredicates\<rparr>"

definition WithPreRegistered :: "gvk list \<Rightarrow> 'p dyn_option" where
  "WithPreRegistered gvks a = a\<lparr>daWatched := daWatched a \<union> (\<lambda>g. (g, True)) ` set gvks\<rparr>"

definition dyn_NewAction :: "gvk \<Rightarrow> 'p dyn_option list \<Rightarrow> 'p dyn_action" where
  "dyn_NewAction ownerGVK opts =
     foldl (\<lambda>a opt. opt a) \<lparr>daOwnerGVK = ownerGVK, daManagedByFalseMatcher = DefaultManagedByFalseMatcher ''opendatahub.io/managed'',
       daDefaultPredicates = [], daGvkPredicates = Map.empty, daWatched = {}, daWatchedCRDs = {}\<rparr> opts"

definition isWatched :: "'p dyn_action \<Rightarrow> gvk \<Rightarrow> bool \<Rightarrow> bool" where
  "isWatched a g owned \<longleftrightarrow> (g, owned) \<in> daWatched a"

definition isCRDWatched :: "'p dyn_action \<Rightarrow> string \<Rightarrow> bool" where
  "isCRDWatched a crdName \<longleftrightarrow> crdName \<in> daWatchedCRDs a"

section \<open>Registering a watch\<close>

type_synonym ('w, 'p) dyn_state = "'p dyn_action \<times> 'w request"

definition registerCRDWatch :: "('w, 'p) dyn_env \<Rightarrow> ('w, 'p) dyn_state \<Rightarrow> string \<Rightarrow> ('w, 'p) dyn_state \<times> go_error option" where
  "registerCRDWatch env st crdName =
     (case st of (a, rr) \<Rightarrow>
        (case deWatch env (rrWorld rr) dyn_crdGVK (ToNamed (oName (rrInstance rr))) [deNamed env crdName] of
           (w, Some err) \<Rightarrow> ((a, rr\<lparr>rrWorld := w\<rparr>), Some (ErrWrap (''failed to register CRD watch for '' @ crdName) err))
         | (w, None) \<Rightarrow> ((a\<lparr>daWatchedCRDs := insert crdName (daWatchedCRDs a)\<rparr>, rr\<lparr>rrWorld := w\<rparr>), None)))"

definition registerCRDWatchIfNeeded ::
  "('w, 'p) dyn_env \<Rightarrow> ('w, 'p) dyn_state \<Rightarrow> string \<Rightarrow> ('w, 'p) dyn_state \<times> (go_error + bool)" where
  "registerCRDWatchIfNeeded env st crdName =
     (if isCRDWatched (fst st) crdName then (st, Inr False)
      else case registerCRDWatch env st crdName of
             (st', Some err) \<Rightarrow> (st', Inl err)
           | (st', None) \<Rightarrow> (st', Inr True))"

definition registerWatchIfNeeded ::
  "('w, 'p) dyn_env \<Rightarrow> ('w, 'p) dyn_state \<Rightarrow> gvk \<Rightarrow> bool \<Rightarrow> event_handler \<Rightarrow> 'p list \<Rightarrow> ('w, 'p) dyn_state \<times> (go_error + bool)" where
  "registerWatchIfNeeded env st resGVK isOwned eventHandler watchPredicates =
     (case st of (a, rr) \<Rightarrow>
        if isWatched a resGVK isOwned then (st, Inr False)
        else case deWatch env (rrWorld rr) resGVK eventHandler watchPredicates of
               (w, Some err) \<Rightarrow> ((a, rr\<lparr>rrWorld := w\<rparr>), Inl err)
             | (w, None) \<Rightarrow>
                 ((a\<lparr>daWatched := insert (resGVK, isOwned) (daWatched a)\<rparr>,
                   rr\<lparr>rrWorld := w, rrController := (if isOwned then AddDynamicOwnedType (rrController rr) resGVK else rrController rr)\<rparr>),
                  Inr True))"

section \<open>The action\<close>

definition IsAPIAvailable :: "(gvk \<Rightarrow> go_error option) \<Rightarrow> gvk \<Rightarrow> go_error + bool" where
  "IsAPIAvailable mapping g =
     (case mapping g of
        Some err \<Rightarrow> if is_no_match err then Inr False else Inl err
      | None \<Rightarrow> Inr True)"

definition watch_predicates :: "('w, 'p) dyn_env \<Rightarrow> 'p dyn_action \<Rightarrow> gvk \<Rightarrow> 'p list" where
  "watch_predicates env a resGVK =
     (case daGvkPredicates a resGVK of
        Some customPredicates \<Rightarrow> customPredicates
      | None \<Rightarrow>
          if resGVK = dyn_deploymentGVK then [deDefaultDeploymentPredicate env]
          else if length (daDefaultPredicates a) > 0 then daDefaultPredicates a
          else [deDefaultPredicate env])"

definition bool_str :: "bool \<Rightarrow> string" where
  "bool_str b = (if b then ''true'' else ''false'')"

text \<open>The registration of one kind, after the checks of the loop.\<close>

definition dyn_register ::
  "('w, 'p) dyn_env \<Rightarrow> ('w, 'p) dyn_state \<Rightarrow> gvk \<Rightarrow> bool \<Rightarrow> ('w, 'p) dyn_state \<times> go_error option" where
  "dyn_register env st resGVK isOwned =
     (case st of (a, rr) \<Rightarrow>
        (case IsAPIAvailable (deRESTMapping env (rrWorld rr)) resGVK of
           Inl err \<Rightarrow> (st, Some (ErrWrap (''failed to check API availability for '' @ gvk_string resGVK) err))
         | Inr available \<Rightarrow>
             if \<not> available then (st, None)
             else let eventHandler = (if isOwned then EnqueueRequestForOwner (daOwnerGVK a) else ToNamed (oName (rrInstance rr)));
                      watchPredicates = (if isOwned then watch_predicates env a resGVK else [deDeleted env])
                  in case registerWatchIfNeeded env st resGVK isOwned eventHandler watchPredicates of
                       (st', Inl err) \<Rightarrow>
                         (st', Some (ErrWrap (''failed to register watch for '' @ gvk_string resGVK @ '' (owned='' @
                            bool_str isOwned @ '')'') err))
                     | (st', Inr registered) \<Rightarrow> (st', None)))"

text \<open>The body of the loop, with the keys seen so far.\<close>

definition dyn_one ::
  "('w, 'p) dyn_env \<Rightarrow> (gvk \<times> bool) set \<Rightarrow> ('w, 'p) dyn_state \<Rightarrow> kobj \<Rightarrow> (gvk \<times> bool) set \<times> ('w, 'p) dyn_state \<times> go_error option" where
  "dyn_one env seenKeys st res =
     (case st of (a, rr) \<Rightarrow>
        let resGVK = oGVK res
        in if IsExcludedFromDynamicOwnership (rrController rr) resGVK then (seenKeys, st, None)
           else if resGVK = dyn_crdGVK
           then (case registerCRDWatchIfNeeded env st (oName res) of
                   (st', Inl err) \<Rightarrow> (seenKeys, st', Some (ErrWrap (''failed to register CRD watch for '' @ oName res) err))
                 | (st', Inr registered) \<Rightarrow> (seenKeys, st', None))
           else let isOwned = (\<not> daManagedByFalseMatcher a res); key = (resGVK, isOwned)
                in if key \<in> seenKeys then (seenKeys, st, None)
                   else if isWatched a resGVK isOwned then (insert key seenKeys, st, None)
                   else (insert key seenKeys, dyn_register env st resGVK isOwned))"

fun dyn_loop ::
  "('w, 'p) dyn_env \<Rightarrow> (gvk \<times> bool) set \<Rightarrow> ('w, 'p) dyn_state \<Rightarrow> kobj list \<Rightarrow> ('w, 'p) dyn_state \<times> go_error option" where
  "dyn_loop env seenKeys st [] = (st, None)"
| "dyn_loop env seenKeys st (res # rest) =
     (case dyn_one env seenKeys st res of
        (seenKeys', st', Some err) \<Rightarrow> (st', Some err)
      | (seenKeys', st', None) \<Rightarrow> dyn_loop env seenKeys' st' rest)"

definition dyn_run :: "('w, 'p) dyn_env \<Rightarrow> ('w, 'p) dyn_state \<Rightarrow> ('w, 'p) dyn_state \<times> go_error option" where
  "dyn_run env st =
     (if \<not> IsDynamicOwnershipEnabled (rrController (snd st)) then (st, None)
      else dyn_loop env {} st (rrResources (snd st)))"

section \<open>Interleaved registrations\<close>

text \<open>
  One atomic registration by some worker. What is shared is the action, the controller's record of owned kinds and the
  world; each worker has a request of its own. Between two registrations anything else may happen to the world as long
  as it starts no watch. The watches that run are read from the world by \<open>running\<close>, a parameter: a registration
  that returns no error adds one, with its kind, handler and predicates, and a failed one adds none.
\<close>

datatype watch = KindWatch gvk bool | CRDWatch string

fun already :: "'p dyn_action \<Rightarrow> watch \<Rightarrow> bool" where
  "already a (KindWatch g owned) = isWatched a g owned"
| "already a (CRDWatch n) = isCRDWatched a n"

definition starts_recorded :: "('w, 'p) dyn_env \<Rightarrow> ('w \<Rightarrow> (gvk \<times> event_handler \<times> 'p list) list) \<Rightarrow> bool" where
  "starts_recorded env running \<longleftrightarrow> (\<forall>w g h ps w' err. deWatch env w g h ps = (w', err) \<longrightarrow>
     running w' = running w @ (if err = None then [(g, h, ps)] else []))"

text \<open>How a watch of the action runs: owned kinds notify the owner, other kinds and CRDs the instance by name.\<close>

fun started_as :: "('w, 'p) dyn_env \<Rightarrow> 'p dyn_action \<Rightarrow> watch \<Rightarrow> gvk \<times> event_handler \<times> 'p list \<Rightarrow> bool" where
  "started_as env a (KindWatch g owned) (g', h, ps) \<longleftrightarrow> g' = g \<and>
     (if owned then h = EnqueueRequestForOwner (daOwnerGVK a) \<and> ps = watch_predicates env a g
      else (\<exists>n. h = ToNamed n) \<and> ps = [deDeleted env])"
| "started_as env a (CRDWatch n) (g', h, ps) \<longleftrightarrow> g' = dyn_crdGVK \<and> (\<exists>m. h = ToNamed m) \<and> ps = [deNamed env n]"

type_synonym ('w, 'p) dyn_shared = "'p dyn_action \<times> owned_types \<times> 'w"

inductive dyn_step ::
  "('w, 'p) dyn_env \<Rightarrow> ('w \<Rightarrow> (gvk \<times> event_handler \<times> 'p list) list) \<Rightarrow> ('w, 'p) dyn_shared \<Rightarrow> ('w, 'p) dyn_shared \<Rightarrow> bool"
  for env running where
  kind: "registerWatchIfNeeded env (a, rr) g owned
      (if owned then EnqueueRequestForOwner (daOwnerGVK a) else ToNamed (oName (rrInstance rr)))
      (if owned then watch_predicates env a g else [deDeleted env]) = ((a', rr'), r) \<Longrightarrow>
    dyn_step env running (a, rrController rr, rrWorld rr) (a', rrController rr', rrWorld rr')"
| crd: "registerCRDWatchIfNeeded env (a, rr) n = ((a', rr'), r) \<Longrightarrow>
    dyn_step env running (a, rrController rr, rrWorld rr) (a', rrController rr', rrWorld rr')"
| other: "running w' = running w \<Longrightarrow> dyn_step env running (a, ot, w) (a, ot, w')"

text \<open>What an interleaving does: it starts \<open>ws\<close>.\<close>

definition dyn_started ::
  "('w, 'p) dyn_env \<Rightarrow> ('w \<Rightarrow> (gvk \<times> event_handler \<times> 'p list) list) \<Rightarrow> ('w, 'p) dyn_shared \<Rightarrow> watch list \<Rightarrow> ('w, 'p) dyn_shared \<Rightarrow> bool" where
  "dyn_started env running s ws s' \<longleftrightarrow>
     (case (s, s') of ((a, ot, w), (a', ot', w')) \<Rightarrow>
        distinct ws \<and> (\<forall>x\<in>set ws. \<not> already a x) \<and> (\<forall>x. already a' x \<longleftrightarrow> already a x \<or> x \<in> set ws) \<and>
        otExcluded ot' = otExcluded ot \<and> otGvks ot' = otGvks ot \<and>
        otDynamic ot' = otDynamic ot \<union> {g. KindWatch g True \<in> set ws} \<and>
        daOwnerGVK a' = daOwnerGVK a \<and> watch_predicates env a' = watch_predicates env a \<and>
        (starts_recorded env running \<longrightarrow>
           (\<exists>es. running w' = running w @ es \<and> list_all2 (started_as env a) ws es)))"

text \<open>A registration starts a watch only if there was none, and records it.\<close>

lemma registerWatch_cases:
  assumes "registerWatchIfNeeded env (a, rr) g owned h ps = ((a', rr'), r)"
  obtains "r = Inr True" "\<not> isWatched a g owned" "a' = a\<lparr>daWatched := insert (g, owned) (daWatched a)\<rparr>"
      "rrController rr' = (if owned then AddDynamicOwnedType (rrController rr) g else rrController rr)"
      "deWatch env (rrWorld rr) g h ps = (rrWorld rr', None)"
    | "r = Inr False" "isWatched a g owned" "a' = a" "rr' = rr"
    | e where "r = Inl e" "a' = a" "rrController rr' = rrController rr" "deWatch env (rrWorld rr) g h ps = (rrWorld rr', Some e)"
  using assms by (auto simp: registerWatchIfNeeded_def split: if_splits prod.splits option.splits)

lemma registerCRD_cases:
  assumes "registerCRDWatchIfNeeded env (a, rr) n = ((a', rr'), r)"
  obtains "r = Inr True" "\<not> isCRDWatched a n" "a' = a\<lparr>daWatchedCRDs := insert n (daWatchedCRDs a)\<rparr>"
      "rrController rr' = rrController rr"
      "deWatch env (rrWorld rr) dyn_crdGVK (ToNamed (oName (rrInstance rr))) [deNamed env n] = (rrWorld rr', None)"
    | "r = Inr False" "isCRDWatched a n" "a' = a" "rr' = rr"
    | e e' where "r = Inl e" "a' = a" "rrController rr' = rrController rr"
      "deWatch env (rrWorld rr) dyn_crdGVK (ToNamed (oName (rrInstance rr))) [deNamed env n] = (rrWorld rr', Some e')"
  using assms by (auto simp: registerCRDWatchIfNeeded_def registerCRDWatch_def split: if_splits prod.splits option.splits)

lemma watch_predicates_cong:
  "daGvkPredicates a' = daGvkPredicates a \<Longrightarrow> daDefaultPredicates a' = daDefaultPredicates a \<Longrightarrow>
   watch_predicates env a' = watch_predicates env a"
  by (rule ext) (simp add: watch_predicates_def split: option.split)

lemma started_as_cong:
  "daOwnerGVK a' = daOwnerGVK a \<Longrightarrow> watch_predicates env a' = watch_predicates env a \<Longrightarrow>
   started_as env a' x e = started_as env a x e"
  by (cases x; cases e) auto

lemma dyn_started_none:
  "running w' = running w \<Longrightarrow> dyn_started env running (a, ot, w) [] (a, ot, w')"
  by (simp add: dyn_started_def)

lemma dyn_started_failed:
  assumes "deWatch env w g h ps = (w', Some e)"
  shows "dyn_started env running (a, ot, w) [] (a, ot, w')"
  using assms by (auto simp: dyn_started_def starts_recorded_def)

lemma dyn_started_one:
  assumes "deWatch env w g h ps = (w', None)" and "started_as env a x (g, h, ps)" and "\<not> already a x"
    and "\<And>y. already a' y \<longleftrightarrow> already a y \<or> y = x" and "otExcluded ot' = otExcluded ot" and "otGvks ot' = otGvks ot"
    and "otDynamic ot' = otDynamic ot \<union> {g. KindWatch g True = x}" and "daOwnerGVK a' = daOwnerGVK a"
    and "watch_predicates env a' = watch_predicates env a"
  shows "dyn_started env running (a, ot, w) [x] (a', ot', w')"
  using assms by (auto simp: dyn_started_def starts_recorded_def)

lemma dyn_step_started:
  assumes "dyn_step env running s s'"
  shows "\<exists>ws. dyn_started env running s ws s'"
  using assms
proof cases
  case (kind a rr g owned a' rr' r)
  from kind(3) show ?thesis
  proof (cases rule: registerWatch_cases)
    case 1
    from 1(3) have al: "already a' y \<longleftrightarrow> already a y \<or> y = KindWatch g owned" for y
      by (cases y) (auto simp: isWatched_def isCRDWatched_def)
    have "dyn_started env running s [KindWatch g owned] s'"
      unfolding kind(1,2)
      by (rule dyn_started_one[OF 1(5)])
        (use 1 al in \<open>auto simp: AddDynamicOwnedType_def intro: watch_predicates_cong\<close>)
    then show ?thesis by blast
  next
    case 2
    with kind(1,2) dyn_started_none show ?thesis by metis
  next
    case (3 e)
    with kind(1,2) dyn_started_failed show ?thesis by metis
  qed
next
  case (crd a rr n a' rr' r)
  from crd(3) show ?thesis
  proof (cases rule: registerCRD_cases)
    case 1
    from 1(3) have al: "already a' y \<longleftrightarrow> already a y \<or> y = CRDWatch n" for y
      by (cases y) (auto simp: isWatched_def isCRDWatched_def)
    have "dyn_started env running s [CRDWatch n] s'"
      unfolding crd(1,2)
      by (rule dyn_started_one[OF 1(5)]) (use 1 al in \<open>auto intro: watch_predicates_cong\<close>)
    then show ?thesis by blast
  next
    case 2
    with crd(1,2) dyn_started_none show ?thesis by metis
  next
    case (3 e e')
    with crd(1,2) dyn_started_failed show ?thesis by metis
  qed
next
  case (other w' w a ot)
  with dyn_started_none show ?thesis by metis
qed

lemma dyn_started_trans:
  assumes "dyn_started env running s ws s'" and "dyn_started env running s' vs s''"
  shows "dyn_started env running s (ws @ vs) s''"
proof -
  obtain a ot w a' ot' w' a2 ot2 w2 where p: "s = (a, ot, w)" "s' = (a', ot', w')" "s'' = (a2, ot2, w2)"
    by (cases s; cases s'; cases s'')
  have "\<exists>es. running w2 = running w @ es \<and> list_all2 (started_as env a) (ws @ vs) es" if l: "starts_recorded env running"
  proof -
    obtain es fs where e: "running w' = running w @ es" "list_all2 (started_as env a) ws es"
      "running w2 = running w' @ fs" "list_all2 (started_as env a') vs fs"
      using assms l by (auto simp: dyn_started_def p)
    have "started_as env a' = started_as env a"
      by (intro ext started_as_cong) (use assms in \<open>simp_all add: dyn_started_def p\<close>)
    with e have "running w2 = running w @ (es @ fs)" "list_all2 (started_as env a) (ws @ vs) (es @ fs)"
      by (simp_all add: list_all2_appendI)
    then show ?thesis by blast
  qed
  then show ?thesis using assms by (auto simp: dyn_started_def p)
qed

text \<open>All watches of an interleaving: started once each, none of them running before.\<close>

lemma dyn_steps_started:
  assumes "(dyn_step env running)\<^sup>*\<^sup>* s s'"
  shows "\<exists>ws. dyn_started env running s ws s'"
  using assms
proof (induction rule: rtranclp_induct)
  case base
  obtain a ot w where "s = (a, ot, w)" by (cases s)
  then show ?case using dyn_started_none by metis
next
  case (step t u)
  then show ?case using dyn_step_started dyn_started_trans by metis
qed

section \<open>A run\<close>

text \<open>The matcher and the mapper do not change during a run.\<close>

definition same_api :: "('w, 'p) dyn_env \<Rightarrow> bool" where
  "same_api env \<longleftrightarrow> (\<forall>w g h ps. deRESTMapping env (fst (deWatch env w g h ps)) = deRESTMapping env w)"

lemma register_frame:
  assumes "registerWatchIfNeeded env (a, rr) g owned h ps = ((a', rr'), r)"
  shows "daManagedByFalseMatcher a' = daManagedByFalseMatcher a \<and>
    (same_api env \<longrightarrow> deRESTMapping env (rrWorld rr') = deRESTMapping env (rrWorld rr))"
  using assms unfolding same_api_def registerWatchIfNeeded_def
  by (auto split: if_splits prod.splits option.splits) (metis fst_conv)+

lemma registerCRD_frame:
  assumes "registerCRDWatchIfNeeded env (a, rr) n = ((a', rr'), r)"
  shows "daManagedByFalseMatcher a' = daManagedByFalseMatcher a \<and>
    (same_api env \<longrightarrow> deRESTMapping env (rrWorld rr') = deRESTMapping env (rrWorld rr))"
  using assms unfolding same_api_def registerCRDWatchIfNeeded_def registerCRDWatch_def
  by (auto split: if_splits prod.splits option.splits) (metis fst_conv)+

text \<open>A kind is covered when it is watched or its API is not served.\<close>

definition covered :: "('w, 'p) dyn_env \<Rightarrow> 'p dyn_action \<Rightarrow> 'w request \<Rightarrow> gvk \<Rightarrow> bool \<Rightarrow> bool" where
  "covered env a rr g owned \<longleftrightarrow> isWatched a g owned \<or> IsAPIAvailable (deRESTMapping env (rrWorld rr)) g = Inr False"

definition handled :: "('w, 'p) dyn_env \<Rightarrow> 'p dyn_action \<Rightarrow> 'w request \<Rightarrow> kobj \<Rightarrow> bool" where
  "handled env a rr res \<longleftrightarrow> IsExcludedFromDynamicOwnership (rrController rr) (oGVK res) \<or>
     (if oGVK res = dyn_crdGVK then isCRDWatched a (oName res)
      else covered env a rr (oGVK res) (\<not> daManagedByFalseMatcher a res))"

text \<open>What a step of the loop keeps: everything that was watched, the matcher, the excluded kinds and the APIs.\<close>

definition shared :: "('w, 'p) dyn_state \<Rightarrow> ('w, 'p) dyn_shared" where
  "shared st = (fst st, rrController (snd st), rrWorld (snd st))"

definition later ::
  "('w, 'p) dyn_env \<Rightarrow> ('w \<Rightarrow> (gvk \<times> event_handler \<times> 'p list) list) \<Rightarrow> ('w, 'p) dyn_state \<Rightarrow> ('w, 'p) dyn_state \<Rightarrow> bool" where
  "later env running st st' \<longleftrightarrow> (dyn_step env running)\<^sup>*\<^sup>* (shared st) (shared st') \<and>
     daManagedByFalseMatcher (fst st') = daManagedByFalseMatcher (fst st) \<and>
     (same_api env \<longrightarrow> deRESTMapping env (rrWorld (snd st')) = deRESTMapping env (rrWorld (snd st)))"

lemma later_refl [simp]: "later env running st st"
  by (simp add: later_def)

lemma later_trans: "later env running st st' \<Longrightarrow> later env running st' st'' \<Longrightarrow> later env running st st''"
  by (auto simp: later_def)

lemma later_register:
  assumes "registerWatchIfNeeded env (a, rr) g owned
      (if owned then EnqueueRequestForOwner (daOwnerGVK a) else ToNamed (oName (rrInstance rr)))
      (if owned then watch_predicates env a g else [deDeleted env]) = ((a', rr'), r)"
  shows "later env running (a, rr) (a', rr')"
  using r_into_rtranclp [of "dyn_step env running", OF dyn_step.kind [OF assms]] register_frame [OF assms] by (simp add: later_def shared_def)

lemma later_registerCRD:
  assumes "registerCRDWatchIfNeeded env (a, rr) n = ((a', rr'), r)"
  shows "later env running (a, rr) (a', rr')"
  using r_into_rtranclp [of "dyn_step env running", OF dyn_step.crd [OF assms]] registerCRD_frame [OF assms] by (simp add: later_def shared_def)

lemma later_covered:
  assumes "later env running (a, rr) (a', rr')" and "same_api env"
  shows "covered env a rr g owned \<Longrightarrow> covered env a' rr' g owned" and "handled env a rr res \<Longrightarrow> handled env a' rr' res"
proof -
  have m: "daManagedByFalseMatcher a' = daManagedByFalseMatcher a"
    and api: "deRESTMapping env (rrWorld rr') = deRESTMapping env (rrWorld rr)"
    using assms by (auto simp: later_def)
  obtain ws where "dyn_started env running (shared (a, rr)) ws (shared (a', rr'))"
    using assms(1) dyn_steps_started unfolding later_def by blast
  then have e: "already a' x \<longleftrightarrow> already a x \<or> x \<in> set ws" "otExcluded (rrController rr') = otExcluded (rrController rr)" for x
    by (simp_all add: dyn_started_def shared_def)
  have w: "isWatched a g owned \<Longrightarrow> isWatched a' g owned" for g owned using e already.simps(1) by metis
  have c: "isCRDWatched a n \<Longrightarrow> isCRDWatched a' n" for n using e already.simps(2) by metis
  have cov: "covered env a rr g owned \<Longrightarrow> covered env a' rr' g owned" for g owned
    using w by (auto simp: covered_def api)
  then show "covered env a rr g owned \<Longrightarrow> covered env a' rr' g owned" .
  show "handled env a rr res \<Longrightarrow> handled env a' rr' res"
    using cov c e by (auto simp: handled_def m IsExcludedFromDynamicOwnership_def)
qed

lemma dyn_register_result:
  assumes "dyn_register env st g owned = (st', err)"
  shows "later env running st st' \<and> (err = None \<longrightarrow> same_api env \<longrightarrow> covered env (fst st') (snd st') g owned)"
proof -
  obtain a rr where st: "st = (a, rr)" by (cases st)
  show ?thesis
  proof (cases "IsAPIAvailable (deRESTMapping env (rrWorld rr)) g = Inr True")
    case True
    let ?h = "if owned then EnqueueRequestForOwner (daOwnerGVK a) else ToNamed (oName (rrInstance rr))"
    let ?ps = "if owned then watch_predicates env a g else [deDeleted env]"
    obtain a1 rr1 r where reg: "registerWatchIfNeeded env (a, rr) g owned ?h ?ps = ((a1, rr1), r)" by (metis surj_pair)
    with True assms st have st': "st' = (a1, rr1)" "err = None \<Longrightarrow> \<exists>b. r = Inr b"
      by (auto simp: dyn_register_def Let_def split: sum.splits)
    have "isWatched a1 g owned" if "r = Inr b" for b
      using reg that by (cases rule: registerWatch_cases) (auto simp: isWatched_def)
    then show ?thesis using later_register [OF reg] st st' by (auto simp: covered_def)
  next
    case False
    then show ?thesis using assms by (auto simp: dyn_register_def st covered_def split: sum.splits if_splits)
  qed
qed

lemma dyn_one_later:
  assumes one: "dyn_one env seen (a, rr) res = (seen', st', err)"
  shows "later env running (a, rr) st'"
proof (cases "dyn_one env seen (a, rr) res = (seen', (a, rr), err)")
  case True
  with one show ?thesis by simp
next
  case False
  obtain a1 rr1 r where crd: "registerCRDWatchIfNeeded env (a, rr) (oName res) = ((a1, rr1), r)" by (metis surj_pair)
  obtain st2 e2 where kind: "dyn_register env (a, rr) (oGVK res) (\<not> daManagedByFalseMatcher a res) = (st2, e2)"
    by (metis surj_pair)
  from one False crd kind have "st' = (a1, rr1) \<or> st' = st2"
    by (auto simp: dyn_one_def Let_def split: if_splits sum.splits)
  then show ?thesis using later_registerCRD [OF crd] dyn_register_result [OF kind] by auto
qed

lemma dyn_loop_later: "dyn_loop env seen st rs = (st', err) \<Longrightarrow> later env running st st'"
proof (induction rs arbitrary: seen st)
  case (Cons res rs)
  obtain seen1 st1 e1 where one: "dyn_one env seen st res = (seen1, st1, e1)" by (metis surj_pair)
  have l: "later env running st st1" using dyn_one_later one by (cases st) simp
  show ?case
  proof (cases e1)
    case None
    with Cons.prems one have "dyn_loop env seen1 st1 rs = (st', err)" by simp
    from later_trans [OF l Cons.IH [OF this]] show ?thesis .
  next
    case (Some e)
    with Cons.prems one l show ?thesis by auto
  qed
qed simp

lemma dyn_run_later: "dyn_run env st = (st', err) \<Longrightarrow> later env running st st'"
  by (auto simp: dyn_run_def split: if_splits intro: dyn_loop_later)

lemma dyn_one_result:
  assumes one: "dyn_one env seen (a, rr) res = (seen', (a', rr'), err)"
    and api: "same_api env" and seen: "\<forall>(g, owned)\<in>seen. covered env a rr g owned"
  shows "later env running (a, rr) (a', rr') \<and>
    (err = None \<longrightarrow> handled env a' rr' res \<and> (\<forall>(g, owned)\<in>seen'. covered env a' rr' g owned))"
proof -
  let ?g = "oGVK res" and ?o = "\<not> daManagedByFalseMatcher a res"
  consider (excluded) "IsExcludedFromDynamicOwnership (rrController rr) ?g"
    | (crd) "\<not> IsExcludedFromDynamicOwnership (rrController rr) ?g" "?g = dyn_crdGVK"
    | (known) "\<not> IsExcludedFromDynamicOwnership (rrController rr) ?g" "?g \<noteq> dyn_crdGVK" "(?g, ?o) \<in> seen \<or> isWatched a ?g ?o"
    | (kind) "\<not> IsExcludedFromDynamicOwnership (rrController rr) ?g" "?g \<noteq> dyn_crdGVK" "(?g, ?o) \<notin> seen" "\<not> isWatched a ?g ?o"
    by blast
  then show ?thesis
  proof cases
    case excluded
    then show ?thesis using one seen by (auto simp: dyn_one_def handled_def)
  next
    case crd
    obtain a1 rr1 r where reg: "registerCRDWatchIfNeeded env (a, rr) (oName res) = ((a1, rr1), r)" by (metis surj_pair)
    with one crd have st: "a1 = a'" "rr1 = rr'" "seen' = seen" "err = None \<Longrightarrow> \<exists>b. r = Inr b"
      by (auto simp: dyn_one_def Let_def split: sum.splits)
    have "isCRDWatched a1 (oName res)" if "r = Inr b" for b
      using reg that by (cases rule: registerCRD_cases) (auto simp: isCRDWatched_def)
    moreover have l: "later env running (a, rr) (a', rr')" using later_registerCRD [OF reg] st by simp
    ultimately show ?thesis using st crd(2) seen later_covered(1) [OF l api] by (auto simp: handled_def)
  next
    case known
    then have "seen' \<subseteq> insert (?g, ?o) seen" "a' = a" "rr' = rr" "covered env a rr ?g ?o"
      using one seen by (auto simp: dyn_one_def Let_def covered_def split: if_splits)
    then show ?thesis using seen known(2) by (auto simp: handled_def)
  next
    case kind
    then have reg: "dyn_register env (a, rr) ?g ?o = ((a', rr'), err)" and s: "seen' = insert (?g, ?o) seen"
      using one by (auto simp: dyn_one_def Let_def)
    from dyn_register_result [OF reg] api have l: "later env running (a, rr) (a', rr')"
      and c: "err = None \<longrightarrow> covered env a' rr' ?g ?o" by simp_all
    have "daManagedByFalseMatcher a' = daManagedByFalseMatcher a" using l by (simp add: later_def)
    then show ?thesis using l c s seen kind(2) later_covered(1) [OF l api] by (auto simp: handled_def)
  qed
qed

lemma dyn_loop_result:
  assumes "dyn_loop env seen (a, rr) rs = ((a', rr'), err)"
    and api: "same_api env" and "\<forall>(g, owned)\<in>seen. covered env a rr g owned"
  shows "later env running (a, rr) (a', rr') \<and> (err = None \<longrightarrow> (\<forall>res\<in>set rs. handled env a' rr' res))"
  using assms
proof (induction rs arbitrary: seen a rr)
  case (Cons res rs)
  obtain seen1 a1 rr1 e1 where one: "dyn_one env seen (a, rr) res = (seen1, (a1, rr1), e1)" by (metis surj_pair)
  note r = dyn_one_result [OF one api Cons.prems(3)]
  show ?case
  proof (cases e1)
    case None
    with Cons.prems(1) one have rest: "dyn_loop env seen1 (a1, rr1) rs = ((a', rr'), err)" by simp
    from r None have h: "handled env a1 rr1 res" "\<forall>(g, owned)\<in>seen1. covered env a1 rr1 g owned" by simp_all
    note IH = Cons.IH [OF rest api h(2)]
    then have "later env running (a1, rr1) (a', rr')" by simp
    from later_covered(2) [OF this api h(1)] later_trans [OF _ this] r IH show ?thesis by auto
  next
    case (Some e)
    with Cons.prems(1) one r show ?thesis by auto
  qed
qed auto

text \<open>A run leaves the instance and its condition manager alone.\<close>

definition same_status :: "'w request \<Rightarrow> 'w request \<Rightarrow> bool" where
  "same_status rr rr' \<longleftrightarrow> rrInstance rr' = rrInstance rr \<and> rrActive rr' = rrActive rr \<and> rrAggregator rr' = rrAggregator rr"

lemma register_status:
  "registerWatchIfNeeded env (a, rr) g owned h ps = ((a', rr'), r) \<Longrightarrow> same_status rr rr'"
  by (auto simp: registerWatchIfNeeded_def same_status_def split: if_splits prod.splits option.splits)

lemma registerCRD_status: "registerCRDWatchIfNeeded env (a, rr) n = ((a', rr'), r) \<Longrightarrow> same_status rr rr'"
  by (auto simp: registerCRDWatchIfNeeded_def registerCRDWatch_def same_status_def split: if_splits prod.splits option.splits)

lemma dyn_register_status:
  assumes "dyn_register env (a, rr) g owned = ((a', rr'), err)"
  shows "same_status rr rr'"
proof -
  obtain a1 rr1 r where reg: "registerWatchIfNeeded env (a, rr) g owned
      (if owned then EnqueueRequestForOwner (daOwnerGVK a) else ToNamed (oName (rrInstance rr)))
      (if owned then watch_predicates env a g else [deDeleted env]) = ((a1, rr1), r)" by (metis surj_pair)
  have "rr' = rr \<or> rr' = rr1" using assms reg by (auto simp: dyn_register_def Let_def split: sum.splits if_splits)
  then show ?thesis using register_status [OF reg] by (auto simp: same_status_def)
qed

lemma dyn_one_status:
  assumes "dyn_one env seen (a, rr) res = (seen', (a', rr'), err)"
  shows "same_status rr rr'"
proof -
  obtain a1 rr1 r where crd: "registerCRDWatchIfNeeded env (a, rr) (oName res) = ((a1, rr1), r)" by (metis surj_pair)
  obtain a2 rr2 e2 where kind: "dyn_register env (a, rr) (oGVK res) (\<not> daManagedByFalseMatcher a res) = ((a2, rr2), e2)"
    by (metis surj_pair)
  have "rr' = rr \<or> rr' = rr1 \<or> rr' = rr2"
    using assms crd kind by (auto simp: dyn_one_def Let_def split: if_splits sum.splits)
  then show ?thesis using registerCRD_status [OF crd] dyn_register_status [OF kind] by (auto simp: same_status_def)
qed

lemma dyn_loop_status: "dyn_loop env seen (a, rr) rs = ((a', rr'), err) \<Longrightarrow> same_status rr rr'"
proof (induction rs arbitrary: seen a rr)
  case (Cons res rs)
  obtain seen1 a1 rr1 e1 where one: "dyn_one env seen (a, rr) res = (seen1, (a1, rr1), e1)" by (metis surj_pair)
  show ?case
  proof (cases e1)
    case None
    with Cons.prems one have "dyn_loop env seen1 (a1, rr1) rs = ((a', rr'), err)" by simp
    from Cons.IH [OF this] dyn_one_status [OF one] show ?thesis by (simp add: same_status_def)
  next
    case (Some e)
    with Cons.prems one dyn_one_status [OF one] show ?thesis by auto
  qed
qed (simp add: same_status_def)

lemma dyn_run_status: "dyn_run env (a, rr) = ((a', rr'), err) \<Longrightarrow> same_status rr rr'"
  by (auto simp: dyn_run_def same_status_def split: if_splits dest: dyn_loop_status)

section \<open>Properties\<close>

text \<open>
  C28: whatever runs of the action interleave, there is a list of distinct watches, none of which the action had before
  and which are all it has in addition afterwards, such that the watches that were started in the meantime (calls of the
  watch function that returned no error, read off the world) are one per element of that list, in order, with the
  kind, handler and predicates that belong to it: nothing is started twice, and nothing that was started before.
  Exactly the started owned kinds become owned by the controller. Every run of the action continues such an
  interleaving. The one assumption is that a registration without error adds the watch to the running ones and a
  failed one adds none.
\<close>

theorem dynamic_watches_once:
  assumes "starts_recorded env running" and "(dyn_step env running)\<^sup>*\<^sup>* (a, ot, w) (a', ot', w')"
  shows "(\<exists>ws es. running w' = running w @ es \<and> list_all2 (started_as env a) ws es \<and> distinct ws \<and>
      (\<forall>x\<in>set ws. \<not> already a x) \<and> (\<forall>x. already a' x \<longleftrightarrow> already a x \<or> x \<in> set ws) \<and>
      otDynamic ot' = otDynamic ot \<union> {g. KindWatch g True \<in> set ws}) \<and>
    (\<forall>rr a2 rr2 err. rrController rr = ot' \<longrightarrow> rrWorld rr = w' \<longrightarrow> dyn_run env (a', rr) = ((a2, rr2), err) \<longrightarrow>
       (dyn_step env running)\<^sup>*\<^sup>* (a, ot, w) (a2, rrController rr2, rrWorld rr2))"
proof (intro conjI allI impI)
  obtain ws where "dyn_started env running (a, ot, w) ws (a', ot', w')" using dyn_steps_started [OF assms(2)] by blast
  then show "\<exists>ws es. running w' = running w @ es \<and> list_all2 (started_as env a) ws es \<and> distinct ws \<and>
      (\<forall>x\<in>set ws. \<not> already a x) \<and> (\<forall>x. already a' x \<longleftrightarrow> already a x \<or> x \<in> set ws) \<and>
      otDynamic ot' = otDynamic ot \<union> {g. KindWatch g True \<in> set ws}"
    using assms(1) by (auto simp: dyn_started_def intro!: exI[of _ ws])
next
  fix rr a2 rr2 err
  assume r: "rrController rr = ot'" "rrWorld rr = w'" and run: "dyn_run env (a', rr) = ((a2, rr2), err)"
  have "(dyn_step env running)\<^sup>*\<^sup>* (shared (a', rr)) (shared (a2, rr2))" using dyn_run_later [OF run] by (simp add: later_def)
  with r assms(2) show "(dyn_step env running)\<^sup>*\<^sup>* (a, ot, w) (a2, rrController rr2, rrWorld rr2)"
    by (simp add: shared_def)
qed

text \<open>
  a run without error leaves every rendered resource whose kind is not excluded with a watch: a watch on the name for a CRD, a
  watch on the kind under its ownership otherwise, unless the API of the kind is not served.
\<close>

theorem dynamic_run_covers:
  assumes "same_api env" and "IsDynamicOwnershipEnabled (rrController rr)" and "dyn_run env (a, rr) = ((a', rr'), None)"
  shows "\<forall>res\<in>set (rrResources rr). IsExcludedFromDynamicOwnership (rrController rr) (oGVK res) \<or>
     (if oGVK res = dyn_crdGVK then isCRDWatched a' (oName res)
      else isWatched a' (oGVK res) (\<not> daManagedByFalseMatcher a res) \<or>
        (\<exists>err. deRESTMapping env (rrWorld rr) (oGVK res) = Some err \<and> is_no_match err))"
proof -
  have loop: "dyn_loop env {} (a, rr) (rrResources rr) = ((a', rr'), None)" using assms(2,3) by (simp add: dyn_run_def)
  define running :: "'a \<Rightarrow> (gvk \<times> event_handler \<times> 'b list) list" where "running = (\<lambda>_. [])"
  have l: "later env running (a, rr) (a', rr')" and h: "\<forall>res\<in>set (rrResources rr). handled env a' rr' res"
    using dyn_loop_result [OF loop assms(1), of running] by simp_all
  obtain ws where "dyn_started env running (shared (a, rr)) ws (shared (a', rr'))"
    using l dyn_steps_started unfolding later_def by blast
  then have "otExcluded (rrController rr') = otExcluded (rrController rr)" by (simp add: dyn_started_def shared_def)
  moreover have "IsAPIAvailable f g = Inr False \<longleftrightarrow> (\<exists>err. f g = Some err \<and> is_no_match err)" for f g
    by (auto simp: IsAPIAvailable_def split: option.splits)
  ultimately show ?thesis
    using h l assms(1) by (auto simp: handled_def covered_def later_def IsExcludedFromDynamicOwnership_def split: if_splits)
qed


section \<open>Examples\<close>

text \<open>A world that is the list of the running watches; a watch on a secret cannot be started.\<close>

type_synonym ex_dyn_world = "(gvk \<times> event_handler \<times> nat list) list"

definition ex_dyn_env :: "(ex_dyn_world, nat) dyn_env" where
  "ex_dyn_env = \<lparr>deWatch = (\<lambda>w g h ps. if gKind g = ''Secret'' then (w, Some (ErrNew ''no watch'')) else (w @ [(g, h, ps)], None)),
     deRESTMapping = (\<lambda>w g. if gKind g = ''Gone'' then Some (ErrNoMatch ''no matches for kind'') else None),
     deDefaultDeploymentPredicate = 0, deDefaultPredicate = 1, deDeleted = 2, deNamed = (\<lambda>n. 3)\<rparr>"

definition ex_dyn_resources :: "kobj list" where
  "ex_dyn_resources = map (\<lambda>g. ex_owned\<lparr>oGVK := g\<rparr>)
     [dyn_crdGVK, dyn_deploymentGVK]"

definition ex_dyn_request :: "ex_dyn_world request" where
  "ex_dyn_request = (ex_request [])\<lparr>rrController := ex_owned_types\<lparr>otDynamicEnabled := True, otExcluded := {}\<rparr>,
     rrResources := ex_dyn_resources\<rparr>"

definition ex_dyn_action :: "nat dyn_action" where
  "ex_dyn_action = dyn_NewAction (mk_gvk ''platform.io'' ''v1'' ''Dashboard'') []"

lemma ex_dyn_api: "same_api ex_dyn_env"
  by (simp add: same_api_def ex_dyn_env_def)

lemmas ex_dyn_defs = ex_dyn_env_def ex_dyn_action_def ex_dyn_request_def ex_dyn_resources_def dyn_NewAction_def ex_owned_def
  DefaultManagedByFalseMatcher_def GetAnnotation_def registerWatchIfNeeded_def registerCRDWatchIfNeeded_def registerCRDWatch_def
  isWatched_def isCRDWatched_def dyn_crdGVK_def dyn_deploymentGVK_def GvkToUnstructured_def IsExcludedFromDynamicOwnership_def IsAPIAvailable_def

theorem dynamic_run_covers_witness:
  "isWatched (fst (fst (dyn_run ex_dyn_env (ex_dyn_action, ex_dyn_request)))) dyn_deploymentGVK True"
proof -
  let ?r = "dyn_run ex_dyn_env (ex_dyn_action, ex_dyn_request)"
  have en: "IsDynamicOwnershipEnabled (rrController ex_dyn_request)"
    by (simp add: ex_dyn_request_def IsDynamicOwnershipEnabled_def)
  have "snd ?r = None"
    by (simp add: dyn_run_def en dyn_one_def dyn_register_def Let_def ex_dyn_defs)
  then have r: "?r = ((fst (fst ?r), snd (fst ?r)), None)" by (metis prod.collapse)
  have m: "ex_owned\<lparr>oGVK := dyn_deploymentGVK\<rparr> \<in> set (rrResources ex_dyn_request)"
    by (simp add: ex_dyn_request_def ex_dyn_resources_def)
  have "\<not> IsExcludedFromDynamicOwnership (rrController ex_dyn_request) dyn_deploymentGVK" "dyn_deploymentGVK \<noteq> dyn_crdGVK"
    "\<not> daManagedByFalseMatcher ex_dyn_action (ex_owned\<lparr>oGVK := dyn_deploymentGVK\<rparr>)"
    "deRESTMapping ex_dyn_env (rrWorld ex_dyn_request) dyn_deploymentGVK = None"
    by (simp_all add: ex_dyn_defs)
  then show ?thesis using bspec [OF dynamic_run_covers [OF ex_dyn_api en r] m] by simp
qed

lemma ex_dyn_recorded: "starts_recorded ex_dyn_env id"
  by (auto simp: starts_recorded_def ex_dyn_env_def)

text \<open>A run starts the two watches; another run over the same resources then starts none.\<close>

theorem dynamic_watches_once_witness:
  "case dyn_run ex_dyn_env (ex_dyn_action, ex_dyn_request) of
     ((a1, rr1), e1) \<Rightarrow> length (rrWorld rr1) = 2 \<and> e1 = None \<and>
       (dyn_step ex_dyn_env id)\<^sup>*\<^sup>* (ex_dyn_action, rrController ex_dyn_request, [])
         (fst (fst (dyn_run ex_dyn_env (a1, rr1))), rrController (snd (fst (dyn_run ex_dyn_env (a1, rr1)))),
          rrWorld (snd (fst (dyn_run ex_dyn_env (a1, rr1)))))"
proof -
  have w0: "rrWorld ex_dyn_request = []" by (simp add: ex_dyn_request_def ex_request_def)
  obtain a1 rr1 e1 where r: "dyn_run ex_dyn_env (ex_dyn_action, ex_dyn_request) = ((a1, rr1), e1)" by (metis surj_pair)
  have "snd (dyn_run ex_dyn_env (ex_dyn_action, ex_dyn_request)) = None"
    "length (rrWorld (snd (fst (dyn_run ex_dyn_env (ex_dyn_action, ex_dyn_request))))) = 2"
    by (simp_all add: dyn_run_def IsDynamicOwnershipEnabled_def dyn_one_def dyn_register_def Let_def ex_dyn_defs ex_request_def)
  then have l: "length (rrWorld rr1) = 2 \<and> e1 = None" by (simp add: r)
  have none: "(dyn_step ex_dyn_env id)\<^sup>*\<^sup>* (ex_dyn_action, rrController ex_dyn_request, [])
      (ex_dyn_action, rrController ex_dyn_request, [])" by simp
  have s1: "(dyn_step ex_dyn_env id)\<^sup>*\<^sup>* (ex_dyn_action, rrController ex_dyn_request, []) (a1, rrController rr1, rrWorld rr1)"
    using dynamic_watches_once [OF ex_dyn_recorded none] w0 r by blast
  obtain a2 rr2 e2 where r2: "dyn_run ex_dyn_env (a1, rr1) = ((a2, rr2), e2)" by (metis surj_pair)
  from dynamic_watches_once [OF ex_dyn_recorded s1] r2
  have "(dyn_step ex_dyn_env id)\<^sup>*\<^sup>* (ex_dyn_action, rrController ex_dyn_request, []) (a2, rrController rr2, rrWorld rr2)"
    by blast
  with l show ?thesis by (simp add: r r2)
qed

end
