(* ===== verification/Builder.thy ===== *)
theory Builder
  imports DynamicOwnership
begin

text \<open>
  \<^verbatim>\<open>reconciler_support.go\<close> and \<^verbatim>\<open>reconciler_actions.go\<close>: how a reconciler is put together (conditions,
  owned and watched kinds, options, actions) and the action that starts watches late. Event
  handlers and predicates are opaque values \<open>'h\<close> and \<open>'p\<close>; the controller-runtime builder, the scheme
  and the watch function are parameters. What the two actions that \<^verbatim>\<open>Build\<close> appends remember from one run
  to the next is part of the world, read and written through two pairs of functions.
\<close>

section \<open>Names\<close>

definition DefaultPartOfLabel :: string where
  "DefaultPartOfLabel = ''platform.opendatahub.io/part-of''"

definition DefaultInstanceAnnotation :: string where
  "DefaultInstanceAnnotation = ''platform.opendatahub.io'' @ ''/instance.name''"

definition namespaceGVK :: gvk where
  "namespaceGVK = mk_gvk '''' ''v1'' ''Namespace''"

section \<open>Watches\<close>

record ('w, 'h, 'p) watchInput =
  wiObject :: kobj
  wiHandler :: "'h option"
  wiPredicates :: "'p list"
  wiOwned :: bool
  wiDynamic :: bool
  wiDynamicPred :: "('w request \<Rightarrow> bool) list"

type_synonym ('w, 'h, 'p) watch_opt = "('w, 'h, 'p) watchInput \<Rightarrow> ('w, 'h, 'p) watchInput"

definition WithPredicates :: "'p list \<Rightarrow> ('w, 'h, 'p) watch_opt" where
  "WithPredicates ps a = a\<lparr>wiPredicates := wiPredicates a @ ps\<rparr>"

definition WithEventHandler :: "'h option \<Rightarrow> ('w, 'h, 'p) watch_opt" where
  "WithEventHandler h a = a\<lparr>wiHandler := h\<rparr>"

definition Dynamic :: "('w request \<Rightarrow> bool) list \<Rightarrow> ('w, 'h, 'p) watch_opt" where
  "Dynamic ps a = a\<lparr>wiDynamic := True, wiDynamicPred := ps\<rparr>"

text \<open>\<open>has_crd\<close> is \<^verbatim>\<open>cluster.HasCRD\<close> with the request's client; an error counts as absent.\<close>

definition CrdExists :: "('w \<Rightarrow> gvk \<Rightarrow> go_error + bool) \<Rightarrow> gvk \<Rightarrow> 'w request \<Rightarrow> bool" where
  "CrdExists has_crd g rr = (case has_crd (rrWorld rr) g of Inl e \<Rightarrow> False | Inr b \<Rightarrow> b)"

definition CrdExistsWithoutPreferred :: "('w \<Rightarrow> gvk \<Rightarrow> go_error + bool) \<Rightarrow> gvk \<Rightarrow> gvk \<Rightarrow> 'w request \<Rightarrow> bool" where
  "CrdExistsWithoutPreferred has_crd fallbackGVK preferredGVK rr =
     (if (case has_crd (rrWorld rr) preferredGVK of Inl e \<Rightarrow> False | Inr b \<Rightarrow> b) then False
      else (case has_crd (rrWorld rr) fallbackGVK of Inl e \<Rightarrow> False | Inr b \<Rightarrow> b))"

definition shouldWatch :: "('w, 'h, 'p) watchInput \<Rightarrow> 'w request \<Rightarrow> bool" where
  "shouldWatch i rr = list_all (\<lambda>p. p rr) (wiDynamicPred i)"

text \<open>The dynamic watch action keeps the kinds it watches already; \<open>fn\<close> starts a watch.\<close>

fun run_watches ::
  "('w \<Rightarrow> ('w, 'h, 'p) watchInput \<Rightarrow> 'w \<times> go_error option) \<Rightarrow> ('w, 'h, 'p) watchInput list \<Rightarrow> gvk set \<Rightarrow> 'w request \<Rightarrow>
   gvk set \<times> 'w request \<times> go_error option" where
  "run_watches fn [] watched rr = (watched, rr, None)"
| "run_watches fn (wi # wis) watched rr =
     (let g = oGVK (wiObject wi)
      in if g \<in> watched then run_watches fn wis watched rr
         else if \<not> shouldWatch wi rr then run_watches fn wis watched rr
         else case fn (rrWorld rr) wi of
                (w', Some e) \<Rightarrow> (watched, rr\<lparr>rrWorld := w'\<rparr>, Some (ErrWrap (''failed to create watcher for '' @ gvk_string g) e))
              | (w', None) \<Rightarrow> run_watches fn wis (insert g watched) (rr\<lparr>rrWorld := w'\<rparr>))"

definition newDynamicWatch :: "('w, 'h, 'p) watchInput list \<Rightarrow> ('w, 'h, 'p) watchInput list \<times> gvk set" where
  "newDynamicWatch watches = (filter wiDynamic watches, {})"

section \<open>The builder\<close>

record ('w, 'h, 'p) builder =
  bGvk :: gvk
  bWatches :: "('w, 'h, 'p) watchInput list"
  bInstanceName :: string
  bActions :: "'w action list"
  bFinalizers :: "'w action list"
  bErrors :: "go_error list"
  bHappyCondition :: string
  bDependentConditions :: "DependentDefinition list"
  bDynamicOwnership :: bool
  bExcludeFromOwnership :: "gvk list"
  bDynamicOwnershipGVKPreds :: "(gvk \<rightharpoonup> 'p list) option"
  bDynamicOwnershipDefaultPreds :: "'p list"
  bReconcilerOpts :: "'w reconciler_opt list"
  bSkipStatusConditionsFn :: "('w \<Rightarrow> bool) option"
  bInstanceAnnotation :: string
  bPartOfLabel :: string

text \<open>\<open>gvk_for\<close> is the manager client's \<^verbatim>\<open>GroupVersionKindFor\<close> on the object.\<close>

definition ReconcilerFor :: "go_error + gvk \<Rightarrow> ('w, 'h, 'p) builder" where
  "ReconcilerFor gvk_for =
     \<lparr>bGvk = (case gvk_for of Inl e \<Rightarrow> mk_gvk '''' '''' '''' | Inr g \<Rightarrow> g), bWatches = [], bInstanceName = '''',
      bActions = [], bFinalizers = [],
      bErrors = (case gvk_for of Inl e \<Rightarrow> [ErrWrap ''unable to determine GVK'' e] | Inr g \<Rightarrow> []),
      bHappyCondition = DefaultHappyCondition,
      bDependentConditions = [Dependent DefaultProvisioningConditionType HealthyWhenTrue],
      bDynamicOwnership = False, bExcludeFromOwnership = [], bDynamicOwnershipGVKPreds = None,
      bDynamicOwnershipDefaultPreds = [], bReconcilerOpts = [], bSkipStatusConditionsFn = None,
      bInstanceAnnotation = DefaultInstanceAnnotation, bPartOfLabel = DefaultPartOfLabel\<rparr>"

definition DependentConditions :: "string list \<Rightarrow> DependentDefinition list" where
  "DependentConditions ts = map (\<lambda>t. Dependent t HealthyWhenTrue) ts"

definition WithConditions :: "('w, 'h, 'p) builder \<Rightarrow> DependentDefinition list \<Rightarrow> ('w, 'h, 'p) builder" where
  "WithConditions b ds = b\<lparr>bDependentConditions := bDependentConditions b @ ds\<rparr>"

definition WithInstanceName :: "('w, 'h, 'p) builder \<Rightarrow> string \<Rightarrow> ('w, 'h, 'p) builder" where
  "WithInstanceName b n = b\<lparr>bInstanceName := n\<rparr>"

definition WithoutConditionCleanup :: "('w, 'h, 'p) builder \<Rightarrow> ('w, 'h, 'p) builder" where
  "WithoutConditionCleanup b = b\<lparr>bReconcilerOpts := bReconcilerOpts b @ [WithSkipConditionCleanup]\<rparr>"

definition WithoutStatusConditions :: "('w, 'h, 'p) builder \<Rightarrow> ('w, 'h, 'p) builder" where
  "WithoutStatusConditions b = b\<lparr>bSkipStatusConditionsFn := Some (\<lambda>_. True)\<rparr>"

definition WithoutStatusConditionsIf :: "('w, 'h, 'p) builder \<Rightarrow> ('w \<Rightarrow> bool) option \<Rightarrow> ('w, 'h, 'p) builder" where
  "WithoutStatusConditionsIf b pred = b\<lparr>bSkipStatusConditionsFn := pred\<rparr>"

definition WithReconcilerOpts :: "('w, 'h, 'p) builder \<Rightarrow> 'w reconciler_opt list \<Rightarrow> ('w, 'h, 'p) builder" where
  "WithReconcilerOpts b opts = b\<lparr>bReconcilerOpts := bReconcilerOpts b @ opts\<rparr>"

definition WithAction :: "('w, 'h, 'p) builder \<Rightarrow> 'w action \<Rightarrow> ('w, 'h, 'p) builder" where
  "WithAction b act = b\<lparr>bActions := bActions b @ [act]\<rparr>"

definition WithActionE :: "('w, 'h, 'p) builder \<Rightarrow> 'w action option \<Rightarrow> go_error option \<Rightarrow> ('w, 'h, 'p) builder" where
  "WithActionE b value err =
     (case err of
        Some e \<Rightarrow> b\<lparr>bErrors := bErrors b @ [e]\<rparr>
      | None \<Rightarrow> (case value of
            None \<Rightarrow> b\<lparr>bErrors := bErrors b @ [ErrNew ''WithActionE: action must not be nil'']\<rparr>
          | Some act \<Rightarrow> b\<lparr>bActions := bActions b @ [act]\<rparr>))"

definition WithFinalizer :: "('w, 'h, 'p) builder \<Rightarrow> 'w action \<Rightarrow> ('w, 'h, 'p) builder" where
  "WithFinalizer b act = b\<lparr>bFinalizers := bFinalizers b @ [act]\<rparr>"

text \<open>The options of dynamic ownership. The excluded kinds follow the namespace kind, which is always excluded.\<close>

record 'p dynamicOwnershipConfig =
  docExcludeGVKs :: "gvk list"
  docGvkPredicates :: "(gvk \<rightharpoonup> 'p list) option"
  docDefaultPredicates :: "'p list"

type_synonym 'p DynamicOwnershipOption = "'p dynamicOwnershipConfig \<Rightarrow> 'p dynamicOwnershipConfig"

definition ExcludeGVKs :: "gvk list \<Rightarrow> 'p DynamicOwnershipOption" where
  "ExcludeGVKs gvks c = c\<lparr>docExcludeGVKs := docExcludeGVKs c @ gvks\<rparr>"

definition WithDynamicOwnershipGVKPredicates :: "(gvk \<rightharpoonup> 'p list) option \<Rightarrow> 'p DynamicOwnershipOption" where
  "WithDynamicOwnershipGVKPredicates gvkPredicates c = c\<lparr>docGvkPredicates := gvkPredicates\<rparr>"

definition option_WithDefaultPredicates :: "'p list \<Rightarrow> 'p DynamicOwnershipOption" where
  "option_WithDefaultPredicates preds c = c\<lparr>docDefaultPredicates := preds\<rparr>"

definition builder_WithDynamicOwnership :: "('w, 'h, 'p) builder \<Rightarrow> 'p DynamicOwnershipOption list \<Rightarrow> ('w, 'h, 'p) builder" where
  "builder_WithDynamicOwnership b opts =
     (let cfg = foldl (\<lambda>c opt. opt c) \<lparr>docExcludeGVKs = [], docGvkPredicates = None, docDefaultPredicates = []\<rparr> opts
      in b\<lparr>bDynamicOwnership := True, bExcludeFromOwnership := bExcludeFromOwnership b @ [namespaceGVK] @ docExcludeGVKs cfg,
           bDynamicOwnershipGVKPreds := docGvkPredicates cfg, bDynamicOwnershipDefaultPreds := docDefaultPredicates cfg\<rparr>)"

text \<open>The handlers and predicates the builder falls back to.\<close>

record ('h, 'p) watch_defaults =
  wdAnnotationToName :: "string \<Rightarrow> 'h"
  wdOwnerHandler :: "gvk \<Rightarrow> 'h"
  wdDefaultPredicate :: 'p
  wdDefaultAndLabel :: "string \<Rightarrow> string \<Rightarrow> 'p"

definition Watches ::
  "('h, 'p) watch_defaults \<Rightarrow> ('w, 'h, 'p) builder \<Rightarrow> go_error + kobj \<Rightarrow> ('w, 'h, 'p) watch_opt list \<Rightarrow> ('w, 'h, 'p) builder" where
  "Watches wd b object opts =
     (case object of
        Inl e \<Rightarrow> b\<lparr>bErrors := bErrors b @ [ErrWrap ''failed to convert object to unstructured for Watches'' e]\<rparr>
      | Inr u \<Rightarrow>
          let i0 = foldl (\<lambda>i f. f i) \<lparr>wiObject = u, wiHandler = None, wiPredicates = [], wiOwned = False,
                wiDynamic = False, wiDynamicPred = []\<rparr> opts;
              i1 = (if wiHandler i0 = None then i0\<lparr>wiHandler := Some (wdAnnotationToName wd (bInstanceAnnotation b))\<rparr> else i0);
              i2 = (if wiPredicates i1 = []
                    then i1\<lparr>wiPredicates := [wdDefaultAndLabel wd (bPartOfLabel b) (to_lower (gKind (bGvk b)))]\<rparr> else i1)
          in b\<lparr>bWatches := bWatches b @ [i2]\<rparr>)"

definition builder_Owns ::
  "('h, 'p) watch_defaults \<Rightarrow> ('w, 'h, 'p) builder \<Rightarrow> go_error + kobj \<Rightarrow> ('w, 'h, 'p) watch_opt list \<Rightarrow> ('w, 'h, 'p) builder" where
  "builder_Owns wd b object opts =
     (case object of
        Inl e \<Rightarrow> b\<lparr>bErrors := bErrors b @ [ErrWrap ''failed to convert object to unstructured for Owns'' e]\<rparr>
      | Inr u \<Rightarrow>
          let i0 = foldl (\<lambda>i f. f i) \<lparr>wiObject = u, wiHandler = None, wiPredicates = [], wiOwned = True,
                wiDynamic = False, wiDynamicPred = []\<rparr> opts;
              i1 = (if wiHandler i0 = None then i0\<lparr>wiHandler := Some (wdOwnerHandler wd (bGvk b))\<rparr> else i0);
              i2 = (if wiPredicates i1 = [] then i1\<lparr>wiPredicates := [wdDefaultPredicate wd]\<rparr> else i1)
          in b\<lparr>bWatches := bWatches b @ [i2]\<rparr>)"

section \<open>Build\<close>

text \<open>Registering the watches: owned kinds go to the reconciler, static watches to the controller.\<close>

fun register_watches ::
  "(kobj \<Rightarrow> go_error + gvk list) \<Rightarrow> 'w reconciler \<Rightarrow> ('w, 'h, 'p) watchInput list \<Rightarrow> gvk list \<Rightarrow> ('w, 'h, 'p) watchInput list \<Rightarrow>
   go_error + 'w reconciler \<times> ('w, 'h, 'p) watchInput list \<times> gvk list" where
  "register_watches kinds r started owned [] = Inr (r, started, owned)"
| "register_watches kinds r started owned (wi # wis) =
     (case (if wiOwned wi
            then (case kinds (wiObject wi) of
                    Inl e \<Rightarrow> Inl e
                  | Inr ks \<Rightarrow> Inr (foldl AddOwnedType r ks, owned @ ks))
            else Inr (r, owned)) of
        Inl e \<Rightarrow> Inl e
      | Inr (r', owned') \<Rightarrow>
          register_watches kinds r' (if wiDynamic wi then started else started @ [wi]) owned' wis)"

definition build_opts :: "('w, 'h, 'p) builder \<Rightarrow> aggregator \<Rightarrow> 'w reconciler_opt list" where
  "build_opts b agg =
     [WithConditionAggregator (Some agg)]
     @ (if bDynamicOwnership b then [WithDynamicOwnership (bExcludeFromOwnership b)] else [])
     @ bReconcilerOpts b
     @ (if bSkipStatusConditionsFn b \<noteq> None then [withSkipStatusConditions (bSkipStatusConditionsFn b)] else [])"

text \<open>
  The outside of \<^verbatim>\<open>Build\<close>: what constructing the clients and the controller yields, the paths of the
  manager, the join of collected errors, the controller's watch function as the two appended actions
  call it, and the memory of these actions in the world (\<open>None\<close> before the first run).
\<close>

record ('w, 'h, 'p) build_env =
  beDiscoveryErr :: "go_error option"
  beDynamicErr :: "go_error option"
  beManifestsPath :: string
  beChartsPath :: string
  beKinds :: "kobj \<Rightarrow> go_error + gvk list"
  beControllerErr :: "go_error option"
  beJoin :: "go_error list \<Rightarrow> go_error"
  beWatch :: "'w \<Rightarrow> ('w, 'h, 'p) watchInput \<Rightarrow> 'w \<times> go_error option"
  beWatched :: "'w \<Rightarrow> gvk set option"
  beSetWatched :: "gvk set \<Rightarrow> 'w \<Rightarrow> 'w"
  beDynEnv :: "('w, 'p) dyn_env"
  beDynAction :: "'w \<Rightarrow> 'p dyn_action option"
  beSetDynAction :: "'p dyn_action \<Rightarrow> 'w \<Rightarrow> 'w"

definition newDynamicWatchAction :: "('w, 'h, 'p) build_env \<Rightarrow> ('w, 'h, 'p) watchInput list \<Rightarrow> 'w action" where
  "newDynamicWatchAction env watches rr =
     (case newDynamicWatch watches of (wis, watched0) \<Rightarrow>
        case run_watches (beWatch env) wis (case beWatched env (rrWorld rr) of None \<Rightarrow> watched0 | Some ws \<Rightarrow> ws) rr of
          (watched, rr', err) \<Rightarrow> (rr'\<lparr>rrWorld := beSetWatched env watched (rrWorld rr')\<rparr>, err))"

definition dynamic_opts :: "('w, 'h, 'p) builder \<Rightarrow> gvk list \<Rightarrow> 'p dyn_option list" where
  "dynamic_opts b staticOwnedGVKs =
     (if length (bDynamicOwnershipDefaultPreds b) > 0 then [WithDefaultPredicates (bDynamicOwnershipDefaultPreds b)] else [])
     @ (case bDynamicOwnershipGVKPreds b of None \<Rightarrow> [] | Some ps \<Rightarrow> [WithGVKPredicates ps])
     @ (if length staticOwnedGVKs > 0 then [WithPreRegistered staticOwnedGVKs] else [])"

definition dynamic_ownership_action :: "('w, 'h, 'p) build_env \<Rightarrow> ('w, 'h, 'p) builder \<Rightarrow> gvk list \<Rightarrow> 'w action" where
  "dynamic_ownership_action env b staticOwnedGVKs rr =
     (case dyn_run (beDynEnv env)
             (case beDynAction env (rrWorld rr) of
                None \<Rightarrow> dyn_NewAction (bGvk b) (dynamic_opts b staticOwnedGVKs) | Some a \<Rightarrow> a, rr) of
        ((a, rr'), err) \<Rightarrow> (rr'\<lparr>rrWorld := beSetDynAction env a (rrWorld rr')\<rparr>, err))"

definition Build ::
  "('w, 'h, 'p) build_env \<Rightarrow> ('w, 'h, 'p) builder \<Rightarrow> build_error + 'w reconciler \<times> ('w, 'h, 'p) watchInput list" where
  "Build env b =
     (if bErrors b \<noteq> [] then Inl (BuildFailed (beJoin env (bErrors b)))
      else let name = (if bInstanceName b = '''' then to_lower (gKind (bGvk b)) else bInstanceName b)
           in case NewAggregator (bHappyCondition b) (bDependentConditions b) of
                Inl e \<Rightarrow> Inl (InvalidConditions e)
              | Inr agg \<Rightarrow>
                  (case NewReconciler (beDiscoveryErr env) (beDynamicErr env) (beManifestsPath env) (beChartsPath env)
                          name (build_opts b agg) of
                     Inl (BuildFailed e) \<Rightarrow> Inl (BuildFailed (ErrWrap (''failed to create reconciler for '' @ name) e))
                   | Inl (InvalidConditions e) \<Rightarrow> Inl (InvalidConditions e)
                   | Inr r0 \<Rightarrow>
                       (case register_watches (beKinds env) r0 [] [] (bWatches b) of
                          Inl e \<Rightarrow> Inl (BuildFailed e)
                        | Inr (r1, started, owned) \<Rightarrow>
                            let r2 = foldl AddAction r1 (bActions b); r3 = foldl AddFinalizer r2 (bFinalizers b)
                            in (case beControllerErr env of
                                  Some e \<Rightarrow> Inl (BuildFailed e)
                                | None \<Rightarrow>
                                    let r4 = AddAction r3 (newDynamicWatchAction env (bWatches b));
                                        r5 = (if bDynamicOwnership b then AddAction r4 (dynamic_ownership_action env b owned) else r4)
                                    in Inr (r5, started)))))"

section \<open>Late watches\<close>

text \<open>A watch function that records the kinds it started and fails where \<open>fails\<close> says so.\<close>

definition logging_watch ::
  "(('w list, 'h, 'p) watchInput \<Rightarrow> go_error option) \<Rightarrow> (kobj \<Rightarrow> 'w) \<Rightarrow>
   'w list \<Rightarrow> ('w list, 'h, 'p) watchInput \<Rightarrow> 'w list \<times> go_error option" where
  "logging_watch fails key w wi = (case fails wi of None \<Rightarrow> (w @ [key (wiObject wi)], None) | Some e \<Rightarrow> (w, Some e))"

lemma run_watches_log:
  assumes "run_watches (logging_watch fails oGVK) wis watched rr = (watched', rr', err)"
    and "distinct (rrWorld rr)" and "set (rrWorld rr) = watched"
  shows "distinct (rrWorld rr') \<and> set (rrWorld rr') = watched' \<and> watched \<subseteq> watched' \<and>
    watched' \<subseteq> watched \<union> (\<lambda>wi. oGVK (wiObject wi)) ` set wis"
  using assms
proof (induction wis arbitrary: watched rr)
  case (Cons wi wis)
  let ?g = "oGVK (wiObject wi)" and ?run = "run_watches (logging_watch fails oGVK) wis"
  show ?case
  proof (cases "?g \<in> watched \<or> \<not> shouldWatch wi rr")
    case True
    then have "?run watched rr = (watched', rr', err)" using Cons.prems(1) by (auto simp: Let_def split: if_splits)
    with Cons.IH Cons.prems(2,3) show ?thesis by auto
  next
    case False
    show ?thesis
    proof (cases "fails wi")
      case None
      then have "logging_watch fails oGVK (rrWorld rr) wi = (rrWorld rr @ [?g], None)" by (simp add: logging_watch_def)
      then have "?run (insert ?g watched) (rr\<lparr>rrWorld := rrWorld rr @ [?g]\<rparr>) = (watched', rr', err)"
        using Cons.prems(1) False by (simp add: Let_def)
      moreover have "distinct (rrWorld rr @ [?g])" "set (rrWorld rr @ [?g]) = insert ?g watched"
        using Cons.prems(2,3) False by auto
      ultimately have "distinct (rrWorld rr') \<and> set (rrWorld rr') = watched' \<and> insert ?g watched \<subseteq> watched' \<and>
          watched' \<subseteq> insert ?g watched \<union> (\<lambda>wi. oGVK (wiObject wi)) ` set wis"
        using Cons.IH[of "insert ?g watched" "rr\<lparr>rrWorld := rrWorld rr @ [?g]\<rparr>"] by simp
      then show ?thesis by auto
    next
      case (Some e)
      then have "logging_watch fails oGVK (rrWorld rr) wi = (rrWorld rr, Some e)" by (simp add: logging_watch_def)
      then have "watched' = watched" "rrWorld rr' = rrWorld rr"
        using Cons.prems(1) False by (auto simp: Let_def)
      then show ?thesis using Cons.prems(2,3) by auto
    qed
  qed
qed simp

lemma run_watches_step:
  assumes "run_watches fn (x # wis) watched rr = (watched', rr', None)"
  obtains rr1 watched1 where "run_watches fn wis watched1 rr1 = (watched', rr', None)" "watched \<subseteq> watched1"
    "shouldWatch x rr \<longrightarrow> oGVK (wiObject x) \<in> watched1"
  using assms by (cases "fn (rrWorld rr) x") (fastforce simp: Let_def split: if_splits option.splits)

lemma run_watches_mono: "run_watches fn wis watched rr = (watched', rr', None) \<Longrightarrow> watched \<subseteq> watched'"
  by (induction wis arbitrary: watched rr) (simp, metis run_watches_step subset_trans)

lemma run_watches_complete:
  assumes "run_watches fn wis watched rr = (watched', rr', None)" and "\<forall>rr. shouldWatch wi rr" and "wi \<in> set wis"
  shows "oGVK (wiObject wi) \<in> watched'"
  using assms(1,3)
proof (induction wis arbitrary: watched rr)
  case (Cons x wis)
  from Cons.prems(1) obtain rr1 watched1 where s: "run_watches fn wis watched1 rr1 = (watched', rr', None)"
    "shouldWatch x rr \<longrightarrow> oGVK (wiObject x) \<in> watched1"
    by (rule run_watches_step) iprover
  show ?case
  proof (cases "wi = x")
    case True
    then show ?thesis using s assms(2) run_watches_mono[OF s(1)] by blast
  next
    case False
    then show ?thesis using Cons.IH[OF s(1)] Cons.prems(2) by simp
  qed
qed simp

text \<open>
  the dynamic watch action starts each kind at most once over all its runs: it starts only kinds
  it does not watch yet, remembers exactly the started ones, and keeps them when a watch fails. A
  run without error watches every kind whose conditions hold.
\<close>

theorem dynamic_watch_once:
  assumes "distinct (rrWorld rr)" and "set (rrWorld rr) = watched"
    and "run_watches (logging_watch fails oGVK) wis watched rr = (watched', rr', err)"
  shows "distinct (rrWorld rr') \<and> set (rrWorld rr') = watched' \<and>
    watched \<subseteq> watched' \<and> watched' \<subseteq> watched \<union> (\<lambda>wi. oGVK (wiObject wi)) ` set wis \<and>
    (err = None \<longrightarrow> (\<forall>wi\<in>set wis. (\<forall>rr. shouldWatch wi rr) \<longrightarrow> oGVK (wiObject wi) \<in> watched'))"
  using run_watches_log[OF assms(3,1,2)] run_watches_complete assms(3) by blast

definition ex_watch :: "string \<Rightarrow> ('w request \<Rightarrow> bool) list \<Rightarrow> ('w, nat, nat) watchInput" where
  "ex_watch k ps = \<lparr>wiObject = GvkToUnstructured (mk_gvk '''' ''v1'' k), wiHandler = None, wiPredicates = [], wiOwned = False,
     wiDynamic = True, wiDynamicPred = ps\<rparr>"

theorem dynamic_watch_once_witness:
  "\<exists>watched' rr' err. run_watches (logging_watch (\<lambda>wi. None) oGVK)
     [ex_watch ''A'' [], ex_watch ''B'' [\<lambda>_. False], ex_watch ''A'' []] {} (ex_request []) = (watched', rr', err) \<and>
     distinct (rrWorld rr') \<and> set (rrWorld rr') = watched' \<and> err = None \<and> mk_gvk '''' ''v1'' ''A'' \<in> watched'"
proof -
  let ?wis = "[ex_watch ''A'' [], ex_watch ''B'' [\<lambda>_. False], ex_watch ''A'' []] :: (gvk list, nat, nat) watchInput list"
  obtain watched' rr' err where run: "run_watches (logging_watch (\<lambda>wi. None) oGVK) ?wis {} (ex_request []) = (watched', rr', err)"
    by (metis prod_cases3)
  have "err = None" using run
    by (auto simp: Let_def logging_watch_def ex_watch_def GvkToUnstructured_def shouldWatch_def)
  moreover have d: "distinct (rrWorld (ex_request [] :: gvk list request))" "set (rrWorld (ex_request [] :: gvk list request)) = {}"
    by (simp_all add: ex_request_def)
  note t = dynamic_watch_once[OF d run]
  moreover have "ex_watch ''A'' [] \<in> set ?wis" "\<forall>rr. shouldWatch (ex_watch ''A'' [] :: (gvk list, nat, nat) watchInput) rr"
    by (simp_all add: shouldWatch_def ex_watch_def)
  ultimately have "oGVK (wiObject (ex_watch ''A'' [] :: (gvk list, nat, nat) watchInput)) \<in> watched'" by blast
  then have "mk_gvk '''' ''v1'' ''A'' \<in> watched'" by (simp add: ex_watch_def GvkToUnstructured_def)
  with run t \<open>err = None\<close> show ?thesis by blast
qed

section \<open>What a built reconciler looks like\<close>

lemma foldl_AddOwnedType:
  "foldl AddOwnedType r ks =
     r\<lparr>rcOwned := (rcOwned r)\<lparr>otGvks := (\<lambda>g. if g \<in> set ks then Some True else otGvks (rcOwned r) g)\<rparr>\<rparr>"
  by (induction ks arbitrary: r) (auto simp: AddOwnedType_def fun_eq_iff)

lemma foldl_AddAction: "foldl AddAction r as = r\<lparr>rcActions := rcActions r @ as\<rparr>"
  by (induction as arbitrary: r) (simp_all add: AddAction_def)

lemma foldl_AddFinalizer: "foldl AddFinalizer r as = r\<lparr>rcFinalizer := rcFinalizer r @ as\<rparr>"
  by (induction as arbitrary: r) (simp_all add: AddFinalizer_def)

lemma register_watches_result:
  assumes "register_watches kinds r started owned wis = Inr (r', started', owned')"
  shows "started' = started @ filter (\<lambda>wi. \<not> wiDynamic wi) wis \<and>
    (\<exists>ot. r' = r\<lparr>rcOwned := ot\<rparr> \<and> otExcluded ot = otExcluded (rcOwned r) \<and> otDynamicEnabled ot = otDynamicEnabled (rcOwned r) \<and>
      (\<forall>g. Owns (rcOwned r) g \<longrightarrow> Owns ot g) \<and>
      (\<forall>wi\<in>set wis. wiOwned wi \<longrightarrow> (\<exists>ks. kinds (wiObject wi) = Inr ks \<and> (\<forall>k\<in>set ks. Owns ot k))))"
  using assms
proof (induction wis arbitrary: r started owned)
  case Nil
  then show ?case by (auto intro: exI[of _ "rcOwned r"])
next
  case (Cons wi wis)
  define st1 where "st1 = (if wiDynamic wi then started else started @ [wi])"
  obtain ot1 owned1 where step: "register_watches kinds (r\<lparr>rcOwned := ot1\<rparr>) st1 owned1 wis = Inr (r', started', owned')"
    "otExcluded ot1 = otExcluded (rcOwned r)" "otDynamicEnabled ot1 = otDynamicEnabled (rcOwned r)"
    "\<forall>g. Owns (rcOwned r) g \<longrightarrow> Owns ot1 g"
    "wiOwned wi \<longrightarrow> (\<exists>ks. kinds (wiObject wi) = Inr ks \<and> (\<forall>k\<in>set ks. Owns ot1 k))"
  proof (cases "wiOwned wi")
    case True
    then obtain ks where ks: "kinds (wiObject wi) = Inr ks"
      using Cons.prems by (cases "kinds (wiObject wi)") simp_all
    show thesis
      by (rule that[of "(rcOwned r)\<lparr>otGvks := (\<lambda>g. if g \<in> set ks then Some True else otGvks (rcOwned r) g)\<rparr>" "owned @ ks"])
        (use Cons.prems True ks in \<open>auto simp: st1_def foldl_AddOwnedType Owns_def\<close>)
  next
    case False
    show thesis by (rule that[of "rcOwned r" owned]) (use Cons.prems False in \<open>auto simp: st1_def\<close>)
  qed
  from Cons.IH[OF step(1)] obtain ot where ot: "started' = st1 @ filter (\<lambda>wi. \<not> wiDynamic wi) wis"
    "r' = r\<lparr>rcOwned := ot\<rparr>" "otExcluded ot = otExcluded ot1" "otDynamicEnabled ot = otDynamicEnabled ot1"
    "\<forall>g. Owns ot1 g \<longrightarrow> Owns ot g"
    "\<forall>wi\<in>set wis. wiOwned wi \<longrightarrow> (\<exists>ks. kinds (wiObject wi) = Inr ks \<and> (\<forall>k\<in>set ks. Owns ot k))"
    by auto
  show ?case
    by (rule conjI, simp add: ot(1) st1_def, rule exI[of _ ot])
      (use ot step(2-5) in \<open>auto; metis\<close>)
qed

lemma Build_stages:
  assumes "Build env b = Inr (r, started)"
  obtains agg r0 r1 owned name where "bErrors b = []"
    "NewAggregator (bHappyCondition b) (bDependentConditions b) = Inr agg"
    "NewReconciler (beDiscoveryErr env) (beDynamicErr env) (beManifestsPath env) (beChartsPath env) name (build_opts b agg) = Inr r0"
    "register_watches (beKinds env) r0 [] [] (bWatches b) = Inr (r1, started, owned)"
    "r = r1\<lparr>rcActions := rcActions r1 @ bActions b @ [newDynamicWatchAction env (bWatches b)] @
        (if bDynamicOwnership b then [dynamic_ownership_action env b owned] else []),
      rcFinalizer := rcFinalizer r1 @ bFinalizers b\<rparr>"
proof -
  define name where "name = (if bInstanceName b = '''' then to_lower (gKind (bGvk b)) else bInstanceName b)"
  from assms have e: "bErrors b = []" by (auto simp: Build_def split: if_splits)
  from assms e obtain agg where agg: "NewAggregator (bHappyCondition b) (bDependentConditions b) = Inr agg"
    by (cases "NewAggregator (bHappyCondition b) (bDependentConditions b)") (simp_all add: Build_def Let_def)
  from assms e agg obtain r0 where r0: "NewReconciler (beDiscoveryErr env) (beDynamicErr env) (beManifestsPath env)
      (beChartsPath env) name (build_opts b agg) = Inr r0"
    by (cases "NewReconciler (beDiscoveryErr env) (beDynamicErr env) (beManifestsPath env)
      (beChartsPath env) name (build_opts b agg)")
      (simp_all add: Build_def name_def[symmetric] Let_def split: build_error.splits)
  from assms e agg r0 obtain r1 st owned where r1: "register_watches (beKinds env) r0 [] [] (bWatches b) = Inr (r1, st, owned)"
    by (cases "register_watches (beKinds env) r0 [] [] (bWatches b)") (auto simp: Build_def name_def[symmetric] Let_def)
  have "beControllerErr env = None"
    using assms by (cases "beControllerErr env") (simp_all add: Build_def name_def[symmetric] Let_def e agg r0 r1)
  then have "st = started" "r = r1\<lparr>rcActions := rcActions r1 @ bActions b @ [newDynamicWatchAction env (bWatches b)] @
        (if bDynamicOwnership b then [dynamic_ownership_action env b owned] else []),
      rcFinalizer := rcFinalizer r1 @ bFinalizers b\<rparr>"
    using assms
    by (auto simp: Build_def name_def[symmetric] Let_def e agg r0 r1 foldl_AddAction foldl_AddFinalizer AddAction_def)
  with e agg r0 r1 show thesis by (intro that) simp_all
qed

text \<open>Options that leave the conditions, the callbacks, the actions and the ownership alone.\<close>

definition plain_option :: "'w reconciler_opt \<Rightarrow> bool" where
  "plain_option f \<longleftrightarrow> (\<forall>r. rcAggregator (f r) = rcAggregator r \<and> rcActions (f r) = rcActions r \<and> rcFinalizer (f r) = rcFinalizer r \<and>
     rcSkipConditionCleanup (f r) = rcSkipConditionCleanup r \<and> rcPreApplyFn (f r) = rcPreApplyFn r \<and>
     rcPostStatusFn (f r) = rcPostStatusFn r \<and> rcSkipStatusConditionsFn (f r) = rcSkipStatusConditionsFn r \<and>
     rcOwned (f r) = rcOwned r)"

lemma plain_options:
  "plain_option (WithProvisioningConditionType t)" "plain_option (WithPhaseNames y n)" "plain_option (WithRelease rel)"
  "plain_option (WithFinalizerName n)" "plain_option (WithPreApplyFailedReason n)" "plain_option (WithDefaultRequeueAfter d)"
  by (simp_all add: plain_option_def WithProvisioningConditionType_def WithPhaseNames_def WithRelease_def
      WithFinalizerName_def WithPreApplyFailedReason_def WithDefaultRequeueAfter_def)

lemma NewReconciler_built:
  fixes r0 :: "'a reconciler"
  assumes "NewReconciler de ye mp cp name (build_opts b agg) = Inr r0" and "bReconcilerOpts b = opts"
    and "\<forall>f\<in>set opts. plain_option f"
  shows "rcAggregator r0 = Some agg \<and> rcActions r0 = [] \<and> rcFinalizer r0 = [] \<and> \<not> rcSkipConditionCleanup r0 \<and>
    rcPreApplyFn r0 = None \<and> rcPostStatusFn r0 = None \<and>
    rcSkipStatusConditionsFn r0 = bSkipStatusConditionsFn b \<and>
    (bDynamicOwnership b \<longrightarrow> set (bExcludeFromOwnership b) \<subseteq> otExcluded (rcOwned r0))"
proof -
  define P where "P r \<longleftrightarrow> rcAggregator r = Some agg \<and> rcActions r = [] \<and> rcFinalizer r = [] \<and> \<not> rcSkipConditionCleanup r \<and>
    rcPreApplyFn r = None \<and> rcPostStatusFn r = None \<and>
    rcSkipStatusConditionsFn r = None \<and>
    (bDynamicOwnership b \<longrightarrow> set (bExcludeFromOwnership b) \<subseteq> otExcluded (rcOwned r))" for r :: "'a reconciler"
  define ra :: "'a reconciler" where "ra = foldl (\<lambda>r opt. opt r) (new_reconciler name) ([WithConditionAggregator (Some agg)]
     @ (if bDynamicOwnership b then [WithDynamicOwnership (bExcludeFromOwnership b)] else []))"
  have "P ra" by (simp add: ra_def P_def new_reconciler_def WithConditionAggregator_def WithDynamicOwnership_def)
  then have "P (foldl (\<lambda>r opt. opt r) ra opts)"
    using assms(3)
  proof (induction opts arbitrary: ra)
    case (Cons f fs)
    then have "P (f ra)" by (auto simp: P_def plain_option_def)
    with Cons show ?case by simp
  qed simp
  moreover have "foldl (\<lambda>r opt. opt r) (new_reconciler name) (build_opts b agg) =
      (if bSkipStatusConditionsFn b \<noteq> None then withSkipStatusConditions (bSkipStatusConditionsFn b) (foldl (\<lambda>r opt. opt r) ra opts)
       else foldl (\<lambda>r opt. opt r) ra opts)"
    using assms(2) by (simp add: build_opts_def ra_def)
  ultimately show ?thesis
    using assms(1)
    by (auto simp: NewReconciler_def P_def withSkipStatusConditions_def Let_def split: option.splits if_splits)
qed

text \<open>
  a reconciler built without extra options is configured as declared: its aggregator is the valid
  one of the declared conditions, its actions are the declared ones in order followed by the dynamic
  watches (and dynamic ownership when enabled), it owns every kind the scheme gives for an owned
  watch, starts exactly the watches that are not dynamic, and never takes ownership of an excluded
  kind.
\<close>

theorem build_configures:
  assumes "Build env b = Inr (r, started)" and "bReconcilerOpts b = []"
  shows "\<exists>agg. NewAggregator (bHappyCondition b) (bDependentConditions b) = Inr agg \<and> rcAggregator r = Some agg \<and>
    (\<exists>rest. rcActions r = bActions b @ newDynamicWatchAction env (bWatches b) # rest \<and> length rest = (if bDynamicOwnership b then 1 else 0)) \<and>
    rcFinalizer r = bFinalizers b \<and> started = filter (\<lambda>wi. \<not> wiDynamic wi) (bWatches b) \<and>
    (\<forall>wi\<in>set (bWatches b). wiOwned wi \<longrightarrow> (\<exists>ks. beKinds env (wiObject wi) = Inr ks \<and> (\<forall>k\<in>set ks. Owns (rcOwned r) k))) \<and>
    (bDynamicOwnership b \<longrightarrow> (\<forall>g\<in>set (bExcludeFromOwnership b). IsExcludedFromDynamicOwnership (rcOwned r) g))"
proof -
  obtain agg r0 r1 owned name where s: "bErrors b = []"
    "NewAggregator (bHappyCondition b) (bDependentConditions b) = Inr agg"
    "NewReconciler (beDiscoveryErr env) (beDynamicErr env) (beManifestsPath env) (beChartsPath env) name (build_opts b agg) = Inr r0"
    "register_watches (beKinds env) r0 [] [] (bWatches b) = Inr (r1, started, owned)"
    "r = r1\<lparr>rcActions := rcActions r1 @ bActions b @ [newDynamicWatchAction env (bWatches b)] @
        (if bDynamicOwnership b then [dynamic_ownership_action env b owned] else []),
      rcFinalizer := rcFinalizer r1 @ bFinalizers b\<rparr>"
    using assms(1) by (rule Build_stages)
  have n: "rcAggregator r0 = Some agg" "rcActions r0 = []" "rcFinalizer r0 = []"
    "bDynamicOwnership b \<longrightarrow> set (bExcludeFromOwnership b) \<subseteq> otExcluded (rcOwned r0)"
    using NewReconciler_built[OF s(3) assms(2)] by simp_all
  obtain ot where w: "started = filter (\<lambda>wi. \<not> wiDynamic wi) (bWatches b)" "r1 = r0\<lparr>rcOwned := ot\<rparr>"
    "otExcluded ot = otExcluded (rcOwned r0)"
    "\<forall>wi\<in>set (bWatches b). wiOwned wi \<longrightarrow> (\<exists>ks. beKinds env (wiObject wi) = Inr ks \<and> (\<forall>k\<in>set ks. Owns ot k))"
    using register_watches_result[OF s(4)] by auto
  show ?thesis
    by (intro exI[of _ agg] conjI exI[of _ "if bDynamicOwnership b then [dynamic_ownership_action env b owned] else []"])
      (use s(2,5) n w in \<open>auto simp: IsExcludedFromDynamicOwnership_def\<close>)
qed

definition ex_env :: "('w, nat, nat) build_env" where
  "ex_env = \<lparr>beDiscoveryErr = None, beDynamicErr = None, beManifestsPath = ''/m'', beChartsPath = ''/c'',
     beKinds = (\<lambda>u. Inr [oGVK u]), beControllerErr = None, beJoin = hd, beWatch = (\<lambda>w wi. (w, None)),
     beWatched = (\<lambda>w. None), beSetWatched = (\<lambda>ws w. w),
     beDynEnv = \<lparr>deWatch = (\<lambda>w g h ps. (w, None)), deRESTMapping = (\<lambda>w g. None), deDefaultDeploymentPredicate = 0,
       deDefaultPredicate = 1, deDeleted = 2, deNamed = (\<lambda>n. 3)\<rparr>,
     beDynAction = (\<lambda>w. None), beSetDynAction = (\<lambda>a w. w)\<rparr>"

definition ex_defaults :: "(nat, nat) watch_defaults" where
  "ex_defaults = \<lparr>wdAnnotationToName = length, wdOwnerHandler = (\<lambda>g. 0), wdDefaultPredicate = 1, wdDefaultAndLabel = (\<lambda>l k. 2)\<rparr>"

abbreviation ex_deployment :: gvk where
  "ex_deployment \<equiv> mk_gvk ''apps'' ''v1'' ''Deployment''"

definition ex_builder :: "('w, nat, nat) builder" where
  "ex_builder = builder_Owns ex_defaults
     (builder_WithDynamicOwnership (ReconcilerFor (Inr (mk_gvk ''components'' ''v1'' ''Dashboard''))) [])
     (Inr (GvkToUnstructured ex_deployment)) []"

lemma ex_builder_sel:
  "bReconcilerOpts ex_builder = []" "bDynamicOwnership ex_builder" "bExcludeFromOwnership ex_builder = [namespaceGVK]"
  "bErrors ex_builder = []" "bSkipStatusConditionsFn ex_builder = None" "bActions ex_builder = []" "bFinalizers ex_builder = []"
  "bHappyCondition ex_builder = DefaultHappyCondition"
  "bDependentConditions ex_builder = [Dependent DefaultProvisioningConditionType HealthyWhenTrue]"
  "\<exists>h p. bWatches ex_builder = [\<lparr>wiObject = GvkToUnstructured ex_deployment, wiHandler = h, wiPredicates = p, wiOwned = True,
     wiDynamic = False, wiDynamicPred = []\<rparr>]"
  by (simp_all add: ex_builder_def builder_Owns_def builder_WithDynamicOwnership_def ReconcilerFor_def Let_def)

lemma default_aggregator:
  "NewAggregator DefaultHappyCondition [Dependent DefaultProvisioningConditionType HealthyWhenTrue] = Inr ex_agg_prov"
  by (simp add: NewAggregator_def Dependent_def DefaultHappyCondition_def DefaultProvisioningConditionType_def ex_agg_prov_def)

lemma NewReconciler_ok:
  "rcAggregator (foldl (\<lambda>r opt. opt r) (new_reconciler name) opts) = Some agg \<Longrightarrow>
   \<exists>r. NewReconciler None None mp cp name opts = Inr r"
  by (simp add: NewReconciler_def Let_def)

lemma Build_ok:
  assumes "bErrors b = []" and "NewAggregator (bHappyCondition b) (bDependentConditions b) = Inr agg"
    and "\<And>name. \<exists>r. NewReconciler (beDiscoveryErr env) (beDynamicErr env) (beManifestsPath env) (beChartsPath env)
      name (build_opts b agg) = Inr r"
    and "\<And>r. \<exists>x. register_watches (beKinds env) r [] [] (bWatches b) = Inr x" and "beControllerErr env = None"
  shows "\<exists>r started. Build env b = Inr (r, started)"
proof -
  define name where "name = (if bInstanceName b = '''' then to_lower (gKind (bGvk b)) else bInstanceName b)"
  obtain r where r: "NewReconciler (beDiscoveryErr env) (beDynamicErr env) (beManifestsPath env) (beChartsPath env)
      name (build_opts b agg) = Inr r" using assms(3) by blast
  obtain r1 st ow where w: "register_watches (beKinds env) r [] [] (bWatches b) = Inr (r1, st, ow)"
    using assms(4)[of r] by (metis prod_cases3)
  show ?thesis by (simp add: Build_def assms(1,2,5) name_def[symmetric] Let_def r w)
qed

lemma ex_env_sel [simp]:
  "beDiscoveryErr ex_env = None" "beDynamicErr ex_env = None" "beControllerErr ex_env = None" "beKinds ex_env = (\<lambda>u. Inr [oGVK u])"
  by (simp_all add: ex_env_def)

theorem build_configures_witness:
  "\<exists>r started. Build ex_env (ex_builder :: (unit, nat, nat) builder) = Inr (r, started) \<and> length started = 1 \<and>
     Owns (rcOwned r) ex_deployment \<and> IsExcludedFromDynamicOwnership (rcOwned r) namespaceGVK"
proof -
  let ?b = "ex_builder :: (unit, nat, nat) builder" and ?env = "ex_env :: (unit, nat, nat) build_env"
  note sel = ex_builder_sel
  obtain h p where bw: "bWatches ?b = [\<lparr>wiObject = GvkToUnstructured ex_deployment, wiHandler = h, wiPredicates = p, wiOwned = True,
     wiDynamic = False, wiDynamicPred = []\<rparr>]" using sel(10) by blast
  have "rcAggregator (foldl (\<lambda>r opt. opt r) (new_reconciler name) (build_opts ?b ex_agg_prov)) = Some ex_agg_prov" for name
    by (simp add: sel build_opts_def WithConditionAggregator_def WithDynamicOwnership_def)
  then have nr: "\<exists>r. NewReconciler None None mp cp name (build_opts ?b ex_agg_prov) = Inr r" for mp cp name
    by (rule NewReconciler_ok)
  have "\<exists>r started. Build ?env ?b = Inr (r, started)"
    by (rule Build_ok[of _ ex_agg_prov]) (use nr in \<open>simp_all add: sel bw default_aggregator\<close>)
  then obtain r started where build: "Build ?env ?b = Inr (r, started)" by blast
  have t: "started = filter (\<lambda>wi. \<not> wiDynamic wi) (bWatches ?b)"
    "\<forall>wi\<in>set (bWatches ?b). wiOwned wi \<longrightarrow> (\<exists>ks. beKinds ?env (wiObject wi) = Inr ks \<and> (\<forall>k\<in>set ks. Owns (rcOwned r) k))"
    "\<forall>g\<in>set (bExcludeFromOwnership ?b). IsExcludedFromDynamicOwnership (rcOwned r) g"
    using build_configures[OF build sel(1)] by (simp_all add: sel) blast+
  show ?thesis
    using build t bw by (auto simp: sel ex_env_def GvkToUnstructured_def)
qed

section \<open>A provisioning condition outside the declared ones\<close>

lemma mark_request_any:
  assumes "rr_ok a rr" and "cType (applyOpts (new_condition t s) opts) = t"
  shows "rr_ok a (with_manager rr (Mark (rr_manager rr) t s opts)) \<and>
    rrActive (with_manager rr (Mark (rr_manager rr) t s opts)) = map_option (insert t) (rrActive rr)"
proof -
  have wf: "wf_manager a (rr_manager rr)" using assms(1) by (simp add: rr_ok_wf)
  have act: "mActive (Mark (rr_manager rr) t s opts) = map_option (insert t) (rrActive rr)"
    using assms(2) by (simp add: Mark_active)
  have "mActive (Mark (rr_manager rr) t s opts) \<noteq> None" using act assms(1) by (simp add: rr_ok_def)
  then have "rr_ok a (with_manager rr (Mark (rr_manager rr) t s opts))" by (rule with_manager_ok[OF Mark_wf[OF wf]])
  with act show ?thesis by simp
qed

lemma finish_conditions_unset:
  assumes "rr_ok a rr" and "rrActive rr = Some act" and "hasDependent (Some a) t" and "t \<notin> act"
    and "\<not> rcSkipConditionCleanup r"
  shows "\<exists>rr'. finish_conditions r rr = Done (rr', False) \<and> poPhase (rrInstance rr') = rcPhaseNotReady r \<and>
    \<not> IsHappy (rr_manager rr')"
proof -
  obtain rr' happy where f: "finish_conditions r rr = Done (rr', happy)" "status_truthful a r rr rr' happy"
    using finish_conditions_result[OF assms(1), of r] by blast
  have wf: "wf_manager a (rr_manager rr)" "wf_aggregator a" using assms(1) by (simp_all add: rr_ok_wf, simp add: wf_manager_def)
  have tt: "t \<noteq> aTarget a" using wf_not_target[OF wf(2) assms(3)] .
  define rr1 where "rr1 = with_manager rr (CleanupStaleConditions (rr_manager rr))"
  have rr1: "rr1 = (if \<not> rcSkipConditionCleanup r then with_manager rr (CleanupStaleConditions (rr_manager rr)) else rr)"
    using assms(5) by (simp add: rr1_def)
  define rr2 where "rr2 = rr1\<lparr>rrInstance := (rrInstance rr1)\<lparr>poPhase := rcPhaseNotReady r\<rparr>\<rparr>"
  define rr3 where "rr3 = with_manager rr2 (RecomputeHappiness (rr_manager rr2))"
  obtain e where e: "FindStatusCondition (rr_conds rr1) t = Some e" "equals e (not_set_condition (Some a) t)"
    using Cleanup_lookup(3)[OF wf(1) _ tt assms(3,4)] assms(2) by (auto simp: rr1_def)
  have ok2: "rr_ok a rr2" using cleanup_request(1)[OF assms(1) rr1] by (simp add: rr_ok_def rr2_def)
  note c3 = recompute_request[OF ok2 rr3_def]
  have "FindStatusCondition (rr_conds rr3) t = FindStatusCondition (rr_conds rr2) t"
    using RecomputeHappiness_lookup[of a "rr_manager rr2" t] ok2 tt by (simp add: rr_ok_wf rr3_def)
  then have e3: "FindStatusCondition (rr_conds rr3) t = Some e" using e(1) by (simp add: rr2_def)
  obtain m where m: "Sort (rr_manager rr3) = Done m" "wf_manager a m" "synced m"
    "sorted (map (cond_key (Some a)) (conds_of m))" "mActive m = rrActive rr3"
    "\<forall>t. FindStatusCondition (conds_of m) t = FindStatusCondition (rr_conds rr3) t"
    by (rule sort_request[OF c3(1,2)])
  then have "FindStatusCondition (conds_of m) t = Some e" using e3 by simp
  then have em: "e \<in> set (conds_of m)" "cType e = t"
    by (auto simp: FindStatusCondition_find_first dest: find_first_Some_mem find_first_Some_key)
  have "\<not> IsHappy m"
    using not_set_unhealthy[OF e(2) em(2) assms(3) wf(2)] IsHappy_iff[OF m(2,3)] em(1) by blast
  then have unhappy: "\<not> IsHappy (rr_manager (with_manager rr3 m))" using with_manager_IsHappy[OF m(2)] by blast
  then have fin: "finish_conditions r rr = Done (with_manager rr3 m, False)"
    unfolding finish_conditions_def rr1[symmetric] Let_def rr2_def[symmetric] rr3_def[symmetric] m(1) bind_run.simps by simp
  with f have "happy = False" "rr' = with_manager rr3 m" by simp_all
  with f unhappy show ?thesis by (auto simp: status_truthful_def)
qed

text \<open>The two actions that the builder appends leave the instance and the condition manager alone.\<close>

lemma run_watches_status: "run_watches fn wis watched rr = (watched', rr', err) \<Longrightarrow> same_status rr rr'"
proof (induction wis arbitrary: watched rr)
  case (Cons wi wis)
  show ?case
  proof (cases "oGVK (wiObject wi) \<in> watched \<or> \<not> shouldWatch wi rr")
    case True
    then have "run_watches fn wis watched rr = (watched', rr', err)" using Cons.prems by (auto simp: Let_def split: if_splits)
    then show ?thesis by (rule Cons.IH)
  next
    case False
    obtain w' eo where fn: "fn (rrWorld rr) wi = (w', eo)" by (cases "fn (rrWorld rr) wi")
    show ?thesis
    proof (cases eo)
      case None
      with False fn Cons.prems have "run_watches fn wis (insert (oGVK (wiObject wi)) watched) (rr\<lparr>rrWorld := w'\<rparr>) = (watched', rr', err)"
        by (simp add: Let_def)
      from Cons.IH [OF this] show ?thesis by (simp add: same_status_def)
    next
      case (Some e)
      with False fn Cons.prems show ?thesis by (auto simp: Let_def same_status_def)
    qed
  qed
qed (simp add: same_status_def)

lemma appended_actions_status:
  "same_status rr (fst (newDynamicWatchAction env watches rr))" "same_status rr (fst (dynamic_ownership_action env b owned rr))"
proof -
  let ?st = "case beWatched env (rrWorld rr) of None \<Rightarrow> {} | Some ws \<Rightarrow> ws"
  obtain ws rr1 e1 where w: "run_watches (beWatch env) (filter wiDynamic watches) ?st rr = (ws, rr1, e1)" by (metis prod_cases3)
  from run_watches_status [OF w] show "same_status rr (fst (newDynamicWatchAction env watches rr))"
    by (simp add: newDynamicWatchAction_def newDynamicWatch_def w same_status_def)
  let ?a = "case beDynAction env (rrWorld rr) of None \<Rightarrow> dyn_NewAction (bGvk b) (dynamic_opts b owned) | Some a \<Rightarrow> a"
  obtain a1 rr2 e2 where d: "dyn_run (beDynEnv env) (?a, rr) = ((a1, rr2), e2)" by (metis surj_pair)
  from dyn_run_status [OF d] show "same_status rr (fst (dynamic_ownership_action env b owned rr))"
    by (simp add: dynamic_ownership_action_def d same_status_def)
qed

text \<open>An action that never sets a condition of the type \<open>t\<close>, by the record the manager keeps of what was set.\<close>

definition never_sets :: "string \<Rightarrow> 'w action \<Rightarrow> bool" where
  "never_sets t act \<longleftrightarrow> (\<forall>rr A. rrActive rr = Some A \<longrightarrow> t \<notin> A \<longrightarrow> (\<exists>A'. rrActive (fst (act rr)) = Some A' \<and> t \<notin> A'))"

lemma status_kept_actions:
  assumes "\<And>rr. same_status rr (fst (act rr))"
  shows "keeps_ok a act" and "never_sets t act"
  using assms by (auto simp: keeps_ok_def never_sets_def same_status_def rr_ok_def)

lemma run_actions_unset:
  assumes "\<forall>act\<in>set acts. never_sets t act" and "run_actions acts rr d = (rr', d', e)" and "rrActive rr = Some A" and "t \<notin> A"
  shows "\<exists>A'. rrActive rr' = Some A' \<and> t \<notin> A'"
  using assms
proof (induction acts rr d arbitrary: A rule: run_actions.induct)
  case (2 action rest rr d)
  obtain rr1 eo where a: "action rr = (rr1, eo)" by (cases "action rr")
  have "never_sets t action" using "2.prems"(1) by simp
  then obtain A1 where A1: "rrActive rr1 = Some A1" "t \<notin> A1"
    using a "2.prems"(3,4) unfolding never_sets_def by (metis fst_conv)
  show ?case
  proof (cases eo)
    case None
    then show ?thesis using 2 a A1 by simp
  next
    case (Some e)
    then show ?thesis using 2 a A1 by (cases "as_requeue e") auto
  qed
qed simp

lemma provision_unset:
  assumes "rr_ok a rr" and "rrActive rr = Some {}" and "rcPreApplyFn r = None" and "t \<noteq> rcProvisioningConditionType r"
    and "\<forall>act\<in>set (rcActions r). keeps_ok a act \<and> never_sets t act" and "provision r rr = (rr1, d, perr)"
  shows "rr_ok a rr1 \<and> (\<exists>A. rrActive rr1 = Some A \<and> t \<notin> A)"
proof -
  obtain rr2 d2 e2 where run: "run_actions (rcActions r) rr 0 = (rr2, d2, e2)" by (metis prod_cases3)
  have ok: "rr_ok a rr2" using run_actions_ok[of "rcActions r" a rr 0] assms(1,5) run by simp
  obtain A where A: "rrActive rr2 = Some A" "t \<notin> A"
    using run_actions_unset[OF _ run assms(2), of t] assms(5) by auto
  note mk = mark_request_any[OF ok]
  show ?thesis
  proof (cases e2)
    case None
    then have "rr1 = with_manager rr2 (Mark (rr_manager rr2) (rcProvisioningConditionType r) ConditionTrue
        [WithObservedGeneration (oGeneration (rrInstance rr2))])"
      using assms(3,6) run by (simp add: provision_def pre_apply_def MarkTrue_def)
    then show ?thesis using mk[OF marking_opts_type(3)] A assms(4) by simp
  next
    case (Some e)
    then have "rr1 = with_manager rr2 (Mark (rr_manager rr2) (rcProvisioningConditionType r) ConditionFalse
        [WithError (Some e), WithObservedGeneration (oGeneration (rrInstance rr2))])"
      using assms(3,6) run by (auto simp: provision_def pre_apply_def MarkFalse_def)
    then show ?thesis using mk[OF marking_opts_type(2)] A assms(4) by simp
  qed
qed

lemma NewReconciler_type:
  "NewReconciler de ye mp cp name opts = Inr r \<Longrightarrow>
   rcProvisioningConditionType r = rcProvisioningConditionType (foldl (\<lambda>r opt. opt r) (new_reconciler name) opts)"
  by (auto simp: NewReconciler_def Let_def split: option.splits if_splits sum.splits)

text \<open>
  C34: a reconciler whose builder keeps the default provisioning condition among its conditions, as
  every builder does unless it is replaced, and whose options rename the provisioning condition can
  never report ready. Its actions are arbitrary, as long as they keep the request well formed and do not
  themselves set the default condition; dynamic watches and dynamic ownership are the modelled ones. Nothing sets the default condition, so
  the cleanup of stale conditions reports it as unset and every status written is not ready, also
  when every action succeeds. The other options may be any that leave the conditions and the callbacks alone.
\<close>

theorem renamed_provisioning_never_ready:
  fixes env :: "('w, 'h, 'p) build_env"
  assumes "Build env b = Inr (r, started)" and "bReconcilerOpts b = opts @ [WithProvisioningConditionType p]"
    and "\<forall>f\<in>set opts. plain_option f" and "p \<noteq> DefaultProvisioningConditionType"
    and "DefaultProvisioningConditionType \<in> depType ` set (bDependentConditions b)" and "bSkipStatusConditionsFn b = None"
    and "\<forall>act\<in>set (bActions b). (\<forall>a. keeps_ok a act) \<and> never_sets DefaultProvisioningConditionType act"
    and "unique_types (poConditions res)"
  shows "\<exists>rr d perr. apply_instance cl clock r w res =
      (case write_status cl r rr d perr of (w', d', e) \<Rightarrow> Done (w', rrController rr, d', e)) \<and>
    poPhase (rrInstance rr) = rcPhaseNotReady r \<and> \<not> IsHappy (rr_manager rr)"
proof -
  obtain agg r0 r1 owned name where s: "bErrors b = []"
    "NewAggregator (bHappyCondition b) (bDependentConditions b) = Inr agg"
    "NewReconciler (beDiscoveryErr env) (beDynamicErr env) (beManifestsPath env) (beChartsPath env) name (build_opts b agg) = Inr r0"
    "register_watches (beKinds env) r0 [] [] (bWatches b) = Inr (r1, started, owned)"
    "r = r1\<lparr>rcActions := rcActions r1 @ bActions b @ [newDynamicWatchAction env (bWatches b)] @
        (if bDynamicOwnership b then [dynamic_ownership_action env b owned] else []),
      rcFinalizer := rcFinalizer r1 @ bFinalizers b\<rparr>"
    using assms(1) by (rule Build_stages)
  have agg: "wf_aggregator agg" "hasDependent (Some agg) DefaultProvisioningConditionType"
    using NewAggregator_correct[THEN conjunct2, rule_format, OF s(2)] assms(5) by simp_all
  have pt: "rcProvisioningConditionType r0 = p"
    using NewReconciler_type[OF s(3)] assms(2,6) by (simp add: build_opts_def WithProvisioningConditionType_def)
  have "\<forall>f\<in>set (opts @ [WithProvisioningConditionType p]). plain_option f" using assms(3) plain_options(1) by auto
  note n = NewReconciler_built[OF s(3) assms(2) this]
  obtain ot where w: "r1 = r0\<lparr>rcOwned := ot\<rparr>" using register_watches_result[OF s(4)] by auto
  have r: "rcAggregator r = Some agg" "\<not> rcSkipConditionCleanup r" "rcPreApplyFn r = None" "rcPostStatusFn r = None"
    "rcSkipStatusConditionsFn r = None" "rcProvisioningConditionType r = p"
    using s(5) n pt w assms(6) by simp_all
  have acts: "\<forall>act\<in>set (rcActions r). keeps_ok agg act \<and> never_sets DefaultProvisioningConditionType act"
    using s(5) n w assms(7) status_kept_actions[OF appended_actions_status(1)] status_kept_actions[OF appended_actions_status(2)]
    by auto
  obtain rr0 where rr0: "new_request clock r w res = Done rr0"
    and ok0: "rr_ok agg (with_manager rr0 (Reset (rr_manager rr0)))"
    by (rule new_request_result[OF r(1) agg(1) assms(8)])
  have a0: "rrActive (with_manager rr0 (Reset (rr_manager rr0))) = Some {}" by (simp add: Reset_def)
  obtain rr1 d perr where pv: "provision r (with_manager rr0 (Reset (rr_manager rr0))) = (rr1, d, perr)" by (metis prod_cases3)
  have np: "DefaultProvisioningConditionType \<noteq> rcProvisioningConditionType r" using assms(4) r(6) by simp
  obtain A where p1: "rr_ok agg rr1" "rrActive rr1 = Some A" "DefaultProvisioningConditionType \<notin> A"
    using provision_unset[OF ok0 a0 r(3) np acts pv] by auto
  obtain rr where f: "finish_conditions r rr1 = Done (rr, False)" "poPhase (rrInstance rr) = rcPhaseNotReady r"
    "\<not> IsHappy (rr_manager rr)"
    using finish_conditions_unset[OF p1(1,2) agg(2) p1(3) r(2)] by blast
  have "apply_instance cl clock r w res =
      (case write_status cl r rr d perr of (w', d', e) \<Rightarrow> Done (w', rrController rr, d', e))"
    by (simp add: apply_instance_def rr0 pv f(1) post_status_def skip_status_def r(4,5) split: prod.split)
  with f show ?thesis by auto
qed

theorem renamed_provisioning_never_ready_witness:
  "\<exists>r started rr d perr. Build ex_env (WithAction (WithReconcilerOpts (ReconcilerFor (Inr (mk_gvk ''components'' ''v1'' ''Dashboard'')))
       [WithPhaseNames ''Up'' ''Down'', WithProvisioningConditionType ''Installed'']) (ex_later 5)) = Inr (r, started) \<and>
     apply_instance (ex_client ex_object) int r \<lparr>xwStatus = [], xwEvents = [], xwUpdates = []\<rparr> ex_object =
       (case write_status (ex_client ex_object) r rr d perr of (w', d', e) \<Rightarrow> Done (w', rrController rr, d', e)) \<and>
     \<not> IsHappy (rr_manager rr)"
proof -
  let ?b = "WithAction (WithReconcilerOpts (ReconcilerFor (Inr (mk_gvk ''components'' ''v1'' ''Dashboard'')))
       [WithPhaseNames ''Up'' ''Down'', WithProvisioningConditionType ''Installed'']) (ex_later 5) :: (ex_world, nat, nat) builder"
  have b: "bDependentConditions ?b = [Dependent DefaultProvisioningConditionType HealthyWhenTrue]"
    "bHappyCondition ?b = DefaultHappyCondition" "bWatches ?b = []" "bErrors ?b = []" "bActions ?b = [ex_later 5]"
    "bReconcilerOpts ?b = [WithPhaseNames ''Up'' ''Down''] @ [WithProvisioningConditionType ''Installed'']"
    "bSkipStatusConditionsFn ?b = None"
    by (simp_all add: WithReconcilerOpts_def ReconcilerFor_def WithAction_def)
  have "rcAggregator (foldl (\<lambda>r opt. opt r) (new_reconciler name) (build_opts ?b ex_agg_prov)) = Some ex_agg_prov" for name
    by (simp add: build_opts_def WithConditionAggregator_def WithProvisioningConditionType_def WithReconcilerOpts_def
        ReconcilerFor_def WithAction_def WithPhaseNames_def)
  then have nr: "\<exists>r. NewReconciler None None mp cp name (build_opts ?b ex_agg_prov) = Inr r" for mp cp name
    by (rule NewReconciler_ok)
  have "\<exists>r started. Build ex_env ?b = Inr (r, started)"
    by (rule Build_ok[of _ ex_agg_prov]) (use nr in \<open>simp_all add: b default_aggregator\<close>)
  then obtain r started where build: "Build ex_env ?b = Inr (r, started)" by blast
  have plain: "\<forall>f\<in>set [WithPhaseNames ''Up'' ''Down'' :: ex_world reconciler_opt]. plain_option f" by (simp add: plain_options)
  have p: "''Installed'' \<noteq> DefaultProvisioningConditionType" by (simp add: DefaultProvisioningConditionType_def)
  have dep: "DefaultProvisioningConditionType \<in> depType ` set (bDependentConditions ?b)" by (simp add: b Dependent_def)
  have later: "same_status rr (fst (ex_later 5 rr))" for rr :: "ex_world request" by (simp add: ex_later_def same_status_def)
  have acts: "\<forall>act\<in>set (bActions ?b). (\<forall>a. keeps_ok a act) \<and> never_sets DefaultProvisioningConditionType act"
    using status_kept_actions[OF later] by (simp add: b)
  have u: "unique_types (poConditions ex_object)" by (simp add: ex_object_def unique_types_def)
  show ?thesis
    using renamed_provisioning_never_ready[OF build b(6) plain p dep b(7) acts u, of "ex_client ex_object" int
        "\<lparr>xwStatus = [], xwEvents = [], xwUpdates = []\<rparr>"] build by blast
qed

end
