(* ===== verification/MergeDeployments.thy ===== *)
theory MergeDeployments
  imports KObject
begin

text \<open>
  How live values survive a deployment: \<^verbatim>\<open>action_deploy_merge_deployment.go\<close>,
  \<^verbatim>\<open>action_deploy_merge_monitoring.go\<close>, \<^verbatim>\<open>action_deploy_remove_deployment_resources.go\<close> and
  \<^verbatim>\<open>action_deploy_managed.go\<close>. The nested-field helpers of apimachinery are parameters.
\<close>

section \<open>JSON maps\<close>

type_synonym fields = "(string \<times> json) list"

definition jlookup :: "fields \<Rightarrow> string \<Rightarrow> json option" where
  "jlookup m k = map_option snd (find_first fst k m)"

definition jset :: "fields \<Rightarrow> string \<Rightarrow> json \<Rightarrow> fields" where
  "jset m k v = upsert_first fst (k, v) m"

definition jdelete :: "fields \<Rightarrow> string \<Rightarrow> fields" where
  "jdelete m k = delete_key fst k m"

lemma jlookup_jset [simp]: "jlookup (jset m k v) j = (if j = k then Some v else jlookup m j)"
  by (simp add: jlookup_def jset_def find_first_upsert)

lemma jlookup_jdelete [simp]: "jlookup (jdelete m k) j = (if j = k then None else jlookup m j)"
  by (simp add: jlookup_def jdelete_def find_first_delete)

text \<open>
  \<^verbatim>\<open>NestedFieldNoCopy\<close>, \<^verbatim>\<open>NestedSlice\<close>, \<^verbatim>\<open>NestedInt64\<close>, \<^verbatim>\<open>RemoveNestedField\<close> and \<^verbatim>\<open>SetNestedField\<close>; found
  is \<open>Some\<close>.
\<close>

record nested_ops =
  nGet :: "fields \<Rightarrow> string list \<Rightarrow> go_error + json option"
  nSlice :: "fields \<Rightarrow> string list \<Rightarrow> go_error + json list option"
  nInt64 :: "fields \<Rightarrow> string list \<Rightarrow> go_error + int option"
  nRemove :: "fields \<Rightarrow> string list \<Rightarrow> fields"
  nSet :: "fields \<Rightarrow> json \<Rightarrow> string list \<Rightarrow> go_error + fields"

text \<open>A write through a value that \<^verbatim>\<open>NestedFieldNoCopy\<close> shares with the object: the value at an existing
  path is replaced.\<close>

fun put_json :: "string list \<Rightarrow> json \<Rightarrow> json \<Rightarrow> json" where
  "put_json [] v j = v"
| "put_json (k # ks) v (JMap m) = JMap (map (\<lambda>(k', x). (k', if k' = k then put_json ks v x else x)) m)"
| "put_json (k # ks) v j = j"

definition put_path :: "string list \<Rightarrow> json \<Rightarrow> fields \<Rightarrow> fields" where
  "put_path p v fs = (case put_json p v (JMap fs) of JMap fs' \<Rightarrow> fs' | _ \<Rightarrow> fs)"

definition deploymentContainersPath :: "string list" where
  "deploymentContainersPath = [''spec'', ''template'', ''spec'', ''containers'']"

definition replicasPath :: "string list" where
  "replicasPath = [''spec'', ''replicas'']"

section \<open>Merging container resources\<close>

definition ErrFieldNotSlice :: go_error where
  "ErrFieldNotSlice = ErrNew ''field is not a slice''"

definition ErrFieldNotMap :: go_error where
  "ErrFieldNotMap = ErrNew ''field is not a map''"

definition extractContainers :: "nested_ops \<Rightarrow> fields \<Rightarrow> string list \<Rightarrow> go_error + json list" where
  "extractContainers ops obj path =
     (case nGet ops obj path of
        Inl e \<Rightarrow> Inl e
      | Inr None \<Rightarrow> Inr []
      | Inr (Some JNull) \<Rightarrow> Inr []
      | Inr (Some (JList cs)) \<Rightarrow> Inr cs
      | Inr (Some _) \<Rightarrow> Inl ErrFieldNotSlice)"

text \<open>\<^verbatim>\<open>m["name"].(string)\<close> of a container that is a map.\<close>

definition container_name :: "json \<Rightarrow> string option" where
  "container_name c = (case c of
     JMap m \<Rightarrow> (case jlookup m ''name'' of Some (JString n) \<Rightarrow> Some n | _ \<Rightarrow> None) | _ \<Rightarrow> None)"

definition container_resources :: "json \<Rightarrow> json" where
  "container_resources c = (case c of
     JMap m \<Rightarrow> (case jlookup m ''resources'' of Some r \<Rightarrow> r | None \<Rightarrow> JMap []) | _ \<Rightarrow> JMap [])"

fun buildResourceMap :: "(string \<rightharpoonup> json) \<Rightarrow> json list \<Rightarrow> (string \<rightharpoonup> json)" where
  "buildResourceMap result [] = result"
| "buildResourceMap result (c # cs) =
     (case container_name c of
        None \<Rightarrow> buildResourceMap result cs
      | Some n \<Rightarrow> buildResourceMap (result(n \<mapsto> container_resources c)) cs)"

definition apply_resource :: "(string \<rightharpoonup> json) \<Rightarrow> json \<Rightarrow> json" where
  "apply_resource rs c =
     (case c of
        JMap m \<Rightarrow>
          (case container_name c of
             None \<Rightarrow> c
           | Some n \<Rightarrow>
               (case rs n of
                  None \<Rightarrow> c
                | Some (JMap []) \<Rightarrow> JMap (jdelete m ''resources'')
                | Some (JMap (x # xs)) \<Rightarrow> JMap (jset m ''resources'' (JMap (x # xs)))
                | Some _ \<Rightarrow> JMap (jdelete m ''resources'')))
      | _ \<Rightarrow> c)"

definition applyResourceMap :: "json list \<Rightarrow> (string \<rightharpoonup> json) \<Rightarrow> json list" where
  "applyResourceMap cs rs = map (apply_resource rs) cs"

definition mergeContainerResources :: "nested_ops \<Rightarrow> kobj \<Rightarrow> kobj \<Rightarrow> go_error + kobj" where
  "mergeContainerResources ops source target =
     (case extractContainers ops (oBody source) deploymentContainersPath of
        Inl e \<Rightarrow> Inl e
      | Inr scs \<Rightarrow>
          (case extractContainers ops (oBody target) deploymentContainersPath of
             Inl e \<Rightarrow> Inl e
           | Inr [] \<Rightarrow> Inr target
           | Inr tcs \<Rightarrow> Inr (target\<lparr>oBody := put_path deploymentContainersPath
                 (JList (applyResourceMap tcs (buildResourceMap Map.empty scs))) (oBody target)\<rparr>)))"

definition mergeReplicas :: "nested_ops \<Rightarrow> kobj \<Rightarrow> kobj \<Rightarrow> go_error + kobj" where
  "mergeReplicas ops source target =
     (case nGet ops (oBody source) replicasPath of
        Inl e \<Rightarrow> Inl e
      | Inr None \<Rightarrow> Inr (target\<lparr>oBody := nRemove ops (oBody target) replicasPath\<rparr>)
      | Inr (Some v) \<Rightarrow>
          (case nSet ops (oBody target) v replicasPath of Inl e \<Rightarrow> Inl e | Inr fs \<Rightarrow> Inr (target\<lparr>oBody := fs\<rparr>)))"

definition MergeDeployments :: "nested_ops \<Rightarrow> kobj \<Rightarrow> kobj \<Rightarrow> go_error + kobj" where
  "MergeDeployments ops source target =
     (case mergeContainerResources ops source target of
        Inl e \<Rightarrow> Inl e
      | Inr t \<Rightarrow> mergeReplicas ops source t)"

definition MergeObservabilityResources :: "nested_ops \<Rightarrow> kobj \<Rightarrow> kobj \<Rightarrow> go_error + kobj" where
  "MergeObservabilityResources ops source target =
     (case nGet ops (oBody source) [''spec'', ''resources''] of
        Inl e \<Rightarrow> Inl e
      | Inr None \<Rightarrow> Inr target
      | Inr (Some JNull) \<Rightarrow> Inr target
      | Inr (Some v) \<Rightarrow>
          (case nSet ops (oBody target) v [''spec'', ''resources''] of
             Inl e \<Rightarrow> Inl e | Inr fs \<Rightarrow> Inr (target\<lparr>oBody := fs\<rparr>)))"

section \<open>Dropping resources from a patch\<close>

fun strip_resources :: "json list \<Rightarrow> go_error + json list" where
  "strip_resources [] = Inr []"
| "strip_resources (c # cs) =
     (case c of
        JMap m \<Rightarrow> (case strip_resources cs of Inl e \<Rightarrow> Inl e | Inr cs' \<Rightarrow> Inr (JMap (jdelete m ''resources'') # cs'))
      | _ \<Rightarrow> Inl ErrFieldNotMap)"

text \<open>The error of the lookup is only looked at together with a found value, which never happens, so a
  failed lookup counts as no containers.\<close>

definition RemoveDeploymentsResources :: "nested_ops \<Rightarrow> kobj \<Rightarrow> go_error + kobj" where
  "RemoveDeploymentsResources ops obj =
     (case (case nGet ops (oBody obj) deploymentContainersPath of
              Inl e \<Rightarrow> Inr None
            | Inr None \<Rightarrow> Inr None
            | Inr (Some JNull) \<Rightarrow> Inr None
            | Inr (Some (JList cs)) \<Rightarrow> Inr (Some cs)
            | Inr (Some _) \<Rightarrow> Inl ErrFieldNotSlice) of
        Inl e \<Rightarrow> Inl e
      | Inr None \<Rightarrow> Inr (obj\<lparr>oBody := nRemove ops (oBody obj) replicasPath\<rparr>)
      | Inr (Some cs) \<Rightarrow>
          (case strip_resources cs of
             Inl e \<Rightarrow> Inl e
           | Inr cs' \<Rightarrow> Inr (obj\<lparr>oBody := nRemove ops (put_path deploymentContainersPath (JList cs') (oBody obj)) replicasPath\<rparr>)))"

section \<open>Reverting drift of managed Deployments\<close>

definition DeploymentGVK :: gvk where
  "DeploymentGVK = mk_gvk ''apps'' ''v1'' ''Deployment''"

definition isEmptyResourceMap :: "json \<Rightarrow> bool" where
  "isEmptyResourceMap v = (case v of JMap m \<Rightarrow> length m = 0 | _ \<Rightarrow> False)"

definition as_map :: "json option \<Rightarrow> fields option" where
  "as_map v = (case v of Some (JMap m) \<Rightarrow> Some m | _ \<Rightarrow> None)"

text \<open>The wanted value of one of \<^verbatim>\<open>requests\<close> and \<^verbatim>\<open>limits\<close>: the manifest's entries, and null for entries
  that only the live object has.\<close>

definition merged_field :: "fields \<Rightarrow> fields \<Rightarrow> fields" where
  "merged_field manifest deployed =
     manifest @ map (\<lambda>(k, v). (k, JNull)) (filter (\<lambda>(k, v). jlookup manifest k = None) deployed)"

fun resource_fields :: "fields \<Rightarrow> fields \<Rightarrow> string list \<Rightarrow> fields" where
  "resource_fields manifestMap deployedMap [] = []"
| "resource_fields manifestMap deployedMap (field # rest) =
     (let manifest = as_map (jlookup manifestMap field); deployed = as_map (jlookup deployedMap field);
          tail = resource_fields manifestMap deployedMap rest
      in if manifest = None \<and> deployed = None then tail
         else let merged = merged_field (case manifest of None \<Rightarrow> [] | Some m \<Rightarrow> m) (case deployed of None \<Rightarrow> [] | Some m \<Rightarrow> m)
              in if length merged > 0 then (field, JMap merged) # tail else tail)"

definition buildResourcesPatch :: "json \<Rightarrow> json \<Rightarrow> json \<Rightarrow> json option" where
  "buildResourcesPatch name manifestResources deployedResources =
     (case (name, manifestResources, deployedResources) of
        (JString n, JMap mm, JMap dm) \<Rightarrow>
          Some (JMap [(''name'', JString n), (''resources'', JMap (resource_fields mm dm [''requests'', ''limits'']))])
      | _ \<Rightarrow> None)"

definition appendClearResourcesPatch :: "json list \<Rightarrow> json \<Rightarrow> json list" where
  "appendClearResourcesPatch patches name =
     (case name of JString n \<Rightarrow> patches @ [JMap [(''name'', JString n), (''resources'', JNull)]] | _ \<Rightarrow> patches)"

text \<open>The patch for one container of the manifest against the first live container of its name.
  \<open>deq\<close> is \<^verbatim>\<open>equality.Semantic.DeepEqual\<close>; names of live containers are strings, so comparing them
  cannot panic.\<close>

definition container_patch :: "(json \<Rightarrow> json \<Rightarrow> bool) \<Rightarrow> json list \<Rightarrow> json \<Rightarrow> fields \<Rightarrow> fields \<Rightarrow> json list" where
  "container_patch deq patches objName objMap oldMap =
     (let objResources = jlookup objMap ''resources''; oldResources = jlookup oldMap ''resources'';
          objHas = (case objResources of None \<Rightarrow> False | Some r \<Rightarrow> \<not> isEmptyResourceMap r)
      in if oldResources \<noteq> None \<and> \<not> objHas then appendClearResourcesPatch patches objName
         else case (objResources, oldResources) of
                (Some objR, Some oldR) \<Rightarrow>
                  if objHas \<and> \<not> deq objR oldR
                  then (case buildResourcesPatch objName objR oldR of None \<Rightarrow> patches | Some p \<Rightarrow> patches @ [p])
                  else patches
              | _ \<Rightarrow> patches)"

fun patch_against :: "(json \<Rightarrow> json \<Rightarrow> bool) \<Rightarrow> json list \<Rightarrow> json \<Rightarrow> fields \<Rightarrow> json list \<Rightarrow> json list" where
  "patch_against deq patches objName objMap [] = patches"
| "patch_against deq patches objName objMap (old # rest) =
     (case old of
        JMap oldMap \<Rightarrow>
          (if jlookup oldMap ''name'' = Some objName then container_patch deq patches objName objMap oldMap
           else patch_against deq patches objName objMap rest)
      | _ \<Rightarrow> patch_against deq patches objName objMap rest)"

fun container_patches :: "(json \<Rightarrow> json \<Rightarrow> bool) \<Rightarrow> json list \<Rightarrow> json list \<Rightarrow> json list \<Rightarrow> json list" where
  "container_patches deq patches [] olds = patches"
| "container_patches deq patches (c # cs) olds =
     (case c of
        JMap m \<Rightarrow> (case jlookup m ''name'' of
            None \<Rightarrow> container_patches deq patches cs olds
          | Some n \<Rightarrow> container_patches deq (patch_against deq patches n m olds) cs olds)
      | _ \<Rightarrow> container_patches deq patches cs olds)"

definition drift_patch :: "json list \<Rightarrow> bool \<Rightarrow> json" where
  "drift_patch patches replicaPatchNeeded =
     JMap [(''spec'', JMap
       ((if length patches > 0 then [(''template'', JMap [(''spec'', JMap [(''containers'', JList patches)])])] else []) @
        (if replicaPatchNeeded then [(''replicas'', JNull)] else [])))]"

text \<open>\<open>smp\<close> is the client's strategic merge patch; on success the live object takes the answer.\<close>

definition RevertManagedDeploymentDrift ::
  "nested_ops \<Rightarrow> (json \<Rightarrow> json \<Rightarrow> bool) \<Rightarrow> ('w \<Rightarrow> kobj \<Rightarrow> json \<Rightarrow> 'w \<times> (go_error + kobj)) \<Rightarrow> 'w \<Rightarrow> kobj \<Rightarrow> kobj \<Rightarrow>
   'w \<times> (go_error + kobj)" where
  "RevertManagedDeploymentDrift ops deq smp w obj old =
     (if oGVK obj \<noteq> DeploymentGVK then (w, Inl (ErrNew (''expected Deployment but got '' @ gvk_string (oGVK obj))))
      else if oGVK old \<noteq> DeploymentGVK then (w, Inl (ErrNew (''expected Deployment but got '' @ gvk_string (oGVK old))))
      else case nSlice ops (oBody obj) deploymentContainersPath of
        Inl e \<Rightarrow> (w, Inl (ErrWrap ''failed to get containers from manifest'' e))
      | Inr objC \<Rightarrow> (case nSlice ops (oBody old) deploymentContainersPath of
          Inl e \<Rightarrow> (w, Inl (ErrWrap ''failed to get containers from deployed object'' e))
        | Inr oldC \<Rightarrow>
            let patches = (case (objC, oldC) of (Some ocs, Some lcs) \<Rightarrow> container_patches deq [] ocs lcs | _ \<Rightarrow> [])
            in (case nInt64 ops (oBody obj) replicasPath of
                  Inl e \<Rightarrow> (w, Inl (ErrWrap ''failed to get replicas from manifest'' e))
                | Inr objR \<Rightarrow> (case nInt64 ops (oBody old) replicasPath of
                    Inl e \<Rightarrow> (w, Inl (ErrWrap ''failed to get replicas from deployed object'' e))
                  | Inr oldR \<Rightarrow>
                      let replicaPatchNeeded = (oldR \<noteq> None \<and> objR = None)
                      in if \<not> replicaPatchNeeded \<and> length patches = 0 then (w, Inr old)
                         else case smp w old (drift_patch patches replicaPatchNeeded) of
                                (w', Inl e) \<Rightarrow> (w', Inl (ErrWrap (''failed to patch managed Deployment '' @
                                   oNamespace obj @ ''/'' @ oName obj) e))
                              | (w', Inr old') \<Rightarrow> (w', Inr old')))))"

section \<open>Live values win\<close>

text \<open>The live resources of a container name: those of the last live container of that name.\<close>

definition live_resources :: "json list \<Rightarrow> string \<Rightarrow> json option" where
  "live_resources scs n = map_option container_resources (find (\<lambda>c. container_name c = Some n) (rev scs))"

lemma find_append: "find P (xs @ ys) = (case find P xs of None \<Rightarrow> find P ys | Some x \<Rightarrow> Some x)"
  by (induction xs) auto

lemma buildResourceMap_live:
  "buildResourceMap result scs n = (case live_resources scs n of None \<Rightarrow> result n | Some r \<Rightarrow> Some r)"
proof (induction scs arbitrary: result)
  case (Cons c cs)
  show ?case
  proof (cases "container_name c")
    case None
    then show ?thesis using Cons.IH[of result] by (simp add: live_resources_def find_append split: option.split)
  next
    case (Some a)
    let ?r = "result(a \<mapsto> container_resources c)"
    have "buildResourceMap result (c # cs) n = buildResourceMap ?r cs n" using Some by simp
    also have "\<dots> = (case live_resources cs n of None \<Rightarrow> ?r n | Some r \<Rightarrow> Some r)" by (rule Cons.IH)
    also have "\<dots> = (case live_resources (c # cs) n of None \<Rightarrow> result n | Some r \<Rightarrow> Some r)"
      using Some by (auto simp: live_resources_def find_append split: option.split)
    finally show ?thesis .
  qed
qed (simp add: live_resources_def)

definition nonempty_map :: "json \<Rightarrow> bool" where
  "nonempty_map j = (case j of JMap (x # xs) \<Rightarrow> True | _ \<Rightarrow> False)"

lemma apply_resource_cases:
  "apply_resource rs c =
     (case container_name c of
        None \<Rightarrow> c
      | Some n \<Rightarrow> (case rs n of
          None \<Rightarrow> c
        | Some r \<Rightarrow> (case c of JMap m \<Rightarrow> JMap (if nonempty_map r then jset m ''resources'' r else jdelete m ''resources'') | _ \<Rightarrow> c)))"
  by (auto simp: apply_resource_def nonempty_map_def container_name_def split: json.split option.split list.split)

lemma container_name_map: "container_name c = Some n \<Longrightarrow> \<exists>m. c = JMap m \<and> jlookup m ''name'' = Some (JString n)"
  by (auto simp: container_name_def split: json.splits option.splits)

text \<open>
  Merging keeps the containers of the manifest in number and order and changes nothing but their
  resources: a container that exists live under its name takes the live resources, and loses its
  resources when the live ones are absent, empty or no map; a container unknown to the live object,
  or without a name, is left alone.
\<close>

theorem merge_containers_live_wins:
  assumes "i < length tcs" and "out = applyResourceMap tcs (buildResourceMap Map.empty scs)"
  shows "length out = length tcs \<and>
    (case container_name (tcs ! i) of
       None \<Rightarrow> out ! i = tcs ! i
     | Some n \<Rightarrow>
         (case live_resources scs n of
            None \<Rightarrow> out ! i = tcs ! i
          | Some r \<Rightarrow> \<exists>m m'. tcs ! i = JMap m \<and> out ! i = JMap m' \<and>
              jlookup m' ''resources'' = (if nonempty_map r then Some r else None) \<and>
              (\<forall>k. k \<noteq> ''resources'' \<longrightarrow> jlookup m' k = jlookup m k)))"
proof -
  have oi: "out ! i = apply_resource (buildResourceMap Map.empty scs) (tcs ! i)" "length out = length tcs"
    using assms by (simp_all add: applyResourceMap_def)
  show ?thesis
  proof (cases "container_name (tcs ! i)")
    case None
    then show ?thesis using oi by (simp add: apply_resource_cases)
  next
    case (Some n)
    obtain m where m: "tcs ! i = JMap m" using container_name_map[OF Some] by blast
    show ?thesis
      using oi Some m by (cases "live_resources scs n") (simp_all add: apply_resource_cases buildResourceMap_live)
  qed
qed

theorem merge_containers_live_wins_witness:
  "applyResourceMap [JMap [(''name'', JString ''a''), (''resources'', JMap [(''cpu'', JString ''1'')])]]
     (buildResourceMap Map.empty [JMap [(''name'', JString ''a''), (''resources'', JMap [(''cpu'', JString ''2'')])]]) =
   [JMap [(''name'', JString ''a''), (''resources'', JMap [(''cpu'', JString ''2'')])]] \<and>
   length (applyResourceMap [JMap [(''name'', JString ''a'')]] (buildResourceMap Map.empty [])) = 1"
proof -
  have "(0 :: nat) < length [JMap [(''name'', JString ''a'')]]" by simp
  from merge_containers_live_wins[OF this refl, of "[]"]
  have "length (applyResourceMap [JMap [(''name'', JString ''a'')]] (buildResourceMap Map.empty [])) = 1" by simp
  then show ?thesis
    by (simp add: applyResourceMap_def apply_resource_def container_name_def container_resources_def jlookup_def jset_def)
qed

section \<open>Drift is reverted minimally\<close>

lemma jlookup_append: "jlookup (xs @ ys) k = (case jlookup xs k of None \<Rightarrow> jlookup ys k | Some v \<Rightarrow> Some v)"
  by (induction xs) (auto simp: jlookup_def split: option.split)

lemma jlookup_nulls:
  "jlookup (map (\<lambda>(k, v). (k, JNull)) (filter (\<lambda>(k, v). P k) d)) k = (if P k \<and> jlookup d k \<noteq> None then Some JNull else None)"
  by (induction d) (auto simp: jlookup_def)

lemma merged_field_lookup:
  "jlookup (merged_field m d) k = (case jlookup m k of Some v \<Rightarrow> Some v | None \<Rightarrow> if jlookup d k \<noteq> None then Some JNull else None)"
  by (auto simp: merged_field_def jlookup_append jlookup_nulls split: option.split)

fun first_named :: "json \<Rightarrow> json list \<Rightarrow> fields option" where
  "first_named n [] = None"
| "first_named n (c # cs) =
     (case c of JMap m \<Rightarrow> if jlookup m ''name'' = Some n then Some m else first_named n cs | _ \<Rightarrow> first_named n cs)"

lemma patch_against_first:
  "patch_against deq ps n m olds = (case first_named n olds of None \<Rightarrow> ps | Some lm \<Rightarrow> container_patch deq ps n m lm)"
  by (induction deq ps n m olds rule: patch_against.induct) (auto split: json.split)

text \<open>A manifest container agrees with the live one of its name when the live one has no resources, or
  both have the same ones.\<close>

definition settled :: "(json \<Rightarrow> json \<Rightarrow> bool) \<Rightarrow> json list \<Rightarrow> json list \<Rightarrow> bool" where
  "settled deq ocs lcs \<longleftrightarrow> (\<forall>m n lm. JMap m \<in> set ocs \<longrightarrow> jlookup m ''name'' = Some n \<longrightarrow> first_named n lcs = Some lm \<longrightarrow>
     (case jlookup lm ''resources'' of
        None \<Rightarrow> True
      | Some lr \<Rightarrow> (case jlookup m ''resources'' of None \<Rightarrow> False | Some r \<Rightarrow> \<not> isEmptyResourceMap r \<and> deq r lr)))"

lemma container_patches_settled: "settled deq ocs lcs \<Longrightarrow> container_patches deq ps ocs lcs = ps"
proof (induction ocs)
  case (Cons c cs)
  have rest: "settled deq cs lcs" using Cons.prems by (simp add: settled_def)
  show ?case
  proof (cases c)
    case (JMap m)
    show ?thesis
    proof (cases "jlookup m ''name''")
      case (Some n)
      have "patch_against deq ps n m lcs = ps"
      proof (cases "first_named n lcs")
        case (Some lm)
        with Cons.prems JMap \<open>jlookup m ''name'' = Some n\<close>
        have "case jlookup lm ''resources'' of None \<Rightarrow> True
          | Some lr \<Rightarrow> (case jlookup m ''resources'' of None \<Rightarrow> False | Some r \<Rightarrow> \<not> isEmptyResourceMap r \<and> deq r lr)"
          by (simp add: settled_def)
        with Some show ?thesis
          by (auto simp: patch_against_first container_patch_def Let_def split: option.splits)
      qed (simp add: patch_against_first)
      with Some JMap Cons.IH[OF rest] show ?thesis by simp
    qed (use JMap Cons.IH[OF rest] in simp)
  qed (use Cons.IH[OF rest] in simp_all)
qed simp

text \<open>
  A managed Deployment that has not drifted is not written: when the live resources of every named
  container agree with the manifest and the replica count is set by the manifest or absent, no patch
  is sent. Otherwise the patch for a container keeps every value of the manifest and sets to null
  exactly the entries that only the live object has.
\<close>

theorem managed_drift_reverted:
  assumes "oGVK obj = DeploymentGVK" and "oGVK old = DeploymentGVK"
    and "nSlice ops (oBody obj) deploymentContainersPath = Inr (Some ocs)"
    and "nSlice ops (oBody old) deploymentContainersPath = Inr (Some lcs)"
    and "nInt64 ops (oBody obj) replicasPath = Inr objR" and "nInt64 ops (oBody old) replicasPath = Inr oldR"
  shows "(settled deq ocs lcs \<longrightarrow> (oldR = None \<or> objR \<noteq> None) \<longrightarrow>
      RevertManagedDeploymentDrift ops deq smp w obj old = (w, Inr old)) \<and>
    (\<forall>m d k. jlookup (merged_field m d) k =
      (case jlookup m k of Some v \<Rightarrow> Some v | None \<Rightarrow> if jlookup d k \<noteq> None then Some JNull else None))"
proof (rule conjI)
  show "settled deq ocs lcs \<longrightarrow> (oldR = None \<or> objR \<noteq> None) \<longrightarrow>
      RevertManagedDeploymentDrift ops deq smp w obj old = (w, Inr old)"
    using assms by (auto simp: RevertManagedDeploymentDrift_def container_patches_settled)
qed (simp add: merged_field_lookup)

definition ex_deploy_obj :: kobj where
  "ex_deploy_obj = (GvkToUnstructured DeploymentGVK)\<lparr>oName := ''d''\<rparr>"

definition ex_ops :: "json list \<Rightarrow> nested_ops" where
  "ex_ops cs = \<lparr>nGet = (\<lambda>fs p. Inr (Some (JList cs))), nSlice = (\<lambda>fs p. Inr (Some cs)), nInt64 = (\<lambda>fs p. Inr (Some 1)),
     nRemove = (\<lambda>fs p. fs), nSet = (\<lambda>fs v p. Inr fs)\<rparr>"

theorem managed_drift_reverted_witness:
  "RevertManagedDeploymentDrift (ex_ops [JMap [(''name'', JString ''a'')]]) (=) (\<lambda>w ob p. (w @ [p], Inr ob)) []
     ex_deploy_obj ex_deploy_obj = ([], Inr ex_deploy_obj)"
proof -
  let ?ops = "ex_ops [JMap [(''name'', JString ''a'')]]"
  have "oGVK ex_deploy_obj = DeploymentGVK" by (simp add: ex_deploy_obj_def GvkToUnstructured_def)
  moreover have "nSlice ?ops fs p = Inr (Some [JMap [(''name'', JString ''a'')]])" "nInt64 ?ops fs p = Inr (Some 1)" for fs p
    by (simp_all add: ex_ops_def)
  moreover have "settled (=) [JMap [(''name'', JString ''a'')]] [JMap [(''name'', JString ''a'')]]"
    by (auto simp: settled_def jlookup_def split: if_splits)
  ultimately show ?thesis
    using managed_drift_reverted[of ex_deploy_obj ex_deploy_obj ?ops "[JMap [(''name'', JString ''a'')]]"
        "[JMap [(''name'', JString ''a'')]]" "Some 1" "Some 1" "(=)" "\<lambda>w ob p. (w @ [p], Inr ob)" "[]"] by simp
qed

end
