(* ===== verification/ApplyOrder.thy ===== *)
theory ApplyOrder
  imports KObject
begin

text \<open>
  The apply order of rendered resources (\<^verbatim>\<open>framework/resources/sort.go\<close>): cert-manager issuers and
  certificates go before the first workload or webhook. The first post-renderer of the pipeline,
  \<^verbatim>\<open>postrenderer.ApplyOrder()\<close> of the manifest engine, is a parameter.
\<close>

section \<open>Kinds used for ordering\<close>

definition gvkCertManagerClusterIssuer :: gvk where
  "gvkCertManagerClusterIssuer = mk_gvk ''cert-manager.io'' ''v1'' ''ClusterIssuer''"

definition gvkCertManagerIssuer :: gvk where
  "gvkCertManagerIssuer = mk_gvk ''cert-manager.io'' ''v1'' ''Issuer''"

definition gvkCertManagerCertificate :: gvk where
  "gvkCertManagerCertificate = mk_gvk ''cert-manager.io'' ''v1'' ''Certificate''"

definition workload_gvks :: "gvk list" where
  "workload_gvks =
     [mk_gvk ''apps'' ''v1'' ''Deployment'', mk_gvk ''apps'' ''v1'' ''StatefulSet'',
      mk_gvk ''apps'' ''v1'' ''DaemonSet'', mk_gvk ''batch'' ''v1'' ''Job'', mk_gvk ''batch'' ''v1'' ''CronJob'']"

definition webhook_gvks :: "gvk list" where
  "webhook_gvks =
     [mk_gvk ''admissionregistration.k8s.io'' ''v1'' ''MutatingWebhookConfiguration'',
      mk_gvk ''admissionregistration.k8s.io'' ''v1'' ''ValidatingWebhookConfiguration'',
      mk_gvk ''admissionregistration.k8s.io'' ''v1'' ''ValidatingAdmissionPolicy'',
      mk_gvk ''admissionregistration.k8s.io'' ''v1'' ''ValidatingAdmissionPolicyBinding'']"

lemmas ordering_gvk_defs = gvkCertManagerClusterIssuer_def gvkCertManagerIssuer_def
  gvkCertManagerCertificate_def workload_gvks_def webhook_gvks_def

definition isCertManagerResource :: "'a kobj_scheme \<Rightarrow> bool" where
  "isCertManagerResource r =
     (oGVK r = gvkCertManagerClusterIssuer \<or> oGVK r = gvkCertManagerIssuer \<or> oGVK r = gvkCertManagerCertificate)"

definition isWorkloadKind :: "'a kobj_scheme \<Rightarrow> bool" where
  "isWorkloadKind r = (oGVK r \<in> set workload_gvks)"

definition IsWebhookResource :: "'a kobj_scheme \<Rightarrow> bool" where
  "IsWebhookResource r = (oGVK r \<in> set webhook_gvks)"

section \<open>The post-renderer\<close>

text \<open>The loop that splits the objects, then the search for the insertion point.\<close>

fun split_cert_manager ::
  "'a kobj_scheme list \<Rightarrow> 'a kobj_scheme list \<Rightarrow> 'a kobj_scheme list \<Rightarrow> 'a kobj_scheme list \<times> 'a kobj_scheme list" where
  "split_cert_manager cm others [] = (cm, others)"
| "split_cert_manager cm others (r # rs) =
     (if isCertManagerResource r then split_cert_manager (cm @ [r]) others rs
      else split_cert_manager cm (others @ [r]) rs)"

fun insert_index :: "nat \<Rightarrow> 'a kobj_scheme list \<Rightarrow> nat" where
  "insert_index i [] = i"
| "insert_index i (r # rs) = (if isWorkloadKind r \<or> IsWebhookResource r then i else insert_index (i + 1) rs)"

definition CertManagerPostRenderer :: "'a kobj_scheme list \<Rightarrow> 'a kobj_scheme list" where
  "CertManagerPostRenderer objects =
     (if length objects = 0 then objects
      else case split_cert_manager [] [] objects of (certManagerResources, otherResources) \<Rightarrow>
        if length certManagerResources = 0 then objects
        else let insertIndex = insert_index 0 otherResources
             in take insertIndex otherResources
                @ concat (map (\<lambda>target. filter (\<lambda>r. oGVK r = target) certManagerResources)
                    [gvkCertManagerClusterIssuer, gvkCertManagerIssuer, gvkCertManagerCertificate])
                @ drop insertIndex otherResources)"

text \<open>\<open>apply_order\<close> is the engine's own ordering; the pipeline runs the renderers in turn and stops at
  the first error.\<close>

definition SortByApplyOrder ::
  "('a kobj_scheme list \<Rightarrow> go_error + 'a kobj_scheme list) \<Rightarrow> 'a kobj_scheme list \<Rightarrow> go_error + 'a kobj_scheme list" where
  "SortByApplyOrder apply_order rs =
     (case apply_order rs of Inl e \<Rightarrow> Inl e | Inr rs' \<Rightarrow> Inr (CertManagerPostRenderer rs'))"

section \<open>Lemmas\<close>

lemma split_cert_manager_filter:
  "split_cert_manager cm others rs =
     (cm @ filter isCertManagerResource rs, others @ filter (\<lambda>r. \<not> isCertManagerResource r) rs)"
  by (induction cm others rs rule: split_cert_manager.induct) auto

lemma insert_index_takeWhile:
  "insert_index i rs = i + length (takeWhile (\<lambda>r. \<not> isWorkloadKind r \<and> \<not> IsWebhookResource r) rs)"
  by (induction i rs rule: insert_index.induct) auto

definition cert_block :: "'a kobj_scheme list \<Rightarrow> 'a kobj_scheme list" where
  "cert_block rs = filter (\<lambda>r. oGVK r = gvkCertManagerClusterIssuer) rs @
     filter (\<lambda>r. oGVK r = gvkCertManagerIssuer) rs @ filter (\<lambda>r. oGVK r = gvkCertManagerCertificate) rs"

abbreviation non_cert :: "'a kobj_scheme list \<Rightarrow> 'a kobj_scheme list" where
  "non_cert rs \<equiv> filter (\<lambda>r. \<not> isCertManagerResource r) rs"

abbreviation early :: "'a kobj_scheme \<Rightarrow> bool" where
  "early r \<equiv> \<not> isWorkloadKind r \<and> \<not> IsWebhookResource r"

lemma cert_gvks_distinct:
  "gvkCertManagerClusterIssuer \<noteq> gvkCertManagerIssuer" "gvkCertManagerClusterIssuer \<noteq> gvkCertManagerCertificate"
  "gvkCertManagerIssuer \<noteq> gvkCertManagerCertificate"
  by (simp_all add: ordering_gvk_defs)

lemma cert_block_of_certs: "cert_block (filter isCertManagerResource rs) = cert_block rs"
  by (auto simp: cert_block_def isCertManagerResource_def intro!: arg_cong2[where f = append] filter_cong)

lemma CertManagerPostRenderer_shape:
  "CertManagerPostRenderer rs =
     (if filter isCertManagerResource rs = [] then rs
      else takeWhile early (non_cert rs) @ cert_block rs @ dropWhile early (non_cert rs))"
proof -
  have tw: "take (insert_index 0 xs) xs = takeWhile early xs" "drop (insert_index 0 xs) xs = dropWhile early xs"
    for xs :: "'a kobj_scheme list"
    by (simp_all add: insert_index_takeWhile takeWhile_eq_take[symmetric] dropWhile_eq_drop[symmetric])
  have cb: "concat (map (\<lambda>target. filter (\<lambda>r. oGVK r = target) (filter isCertManagerResource rs))
      [gvkCertManagerClusterIssuer, gvkCertManagerIssuer, gvkCertManagerCertificate]) = cert_block rs"
    using cert_block_of_certs[of rs] by (simp add: cert_block_def)
  show ?thesis
    unfolding CertManagerPostRenderer_def split_cert_manager_filter prod.case append_Nil Let_def tw cb by simp
qed

lemma mset_cert_block: "mset (cert_block rs) = mset (filter isCertManagerResource rs)"
proof (induction rs)
  case Nil
  then show ?case by (simp add: cert_block_def)
next
  case (Cons r rs)
  have "mset (cert_block (r # rs)) = (if isCertManagerResource r then {#r#} else {#}) + mset (cert_block rs)"
    using cert_gvks_distinct by (auto simp: cert_block_def isCertManagerResource_def)
  then show ?case using Cons.IH by simp
qed

lemma non_cert_partition: "mset (filter isCertManagerResource rs) + mset (non_cert rs) = mset rs"
  by (simp add: multiset_partition[symmetric])

lemma cert_not_late: "isCertManagerResource r \<Longrightarrow> early r"
  by (auto simp: isCertManagerResource_def isWorkloadKind_def IsWebhookResource_def ordering_gvk_defs)

lemma non_cert_cert_block: "non_cert (cert_block rs) = []"
  by (auto simp: cert_block_def isCertManagerResource_def filter_empty_conv)

lemma mset_post_renderer: "mset (CertManagerPostRenderer rs) = mset rs"
proof (cases "filter isCertManagerResource rs = []")
  case False
  have "mset (takeWhile early (non_cert rs)) + mset (dropWhile early (non_cert rs)) = mset (non_cert rs)"
    by (metis mset_append takeWhile_dropWhile_id)
  with False show ?thesis
    using non_cert_partition[of rs] by (simp add: CertManagerPostRenderer_shape mset_cert_block ac_simps)
qed (simp add: CertManagerPostRenderer_shape)

lemma non_cert_post_renderer: "non_cert (CertManagerPostRenderer rs) = non_cert rs"
proof (cases "filter isCertManagerResource rs = []")
  case False
  have "filter (\<lambda>r. \<not> isCertManagerResource r) (takeWhile early (non_cert rs)) = takeWhile early (non_cert rs)"
    "filter (\<lambda>r. \<not> isCertManagerResource r) (dropWhile early (non_cert rs)) = dropWhile early (non_cert rs)"
    by (auto simp: filter_id_conv dest!: set_takeWhileD set_dropWhileD)
  with False show ?thesis
    by (simp add: CertManagerPostRenderer_shape non_cert_cert_block takeWhile_dropWhile_id)
qed (simp add: CertManagerPostRenderer_shape)

lemma late_only_after_certs:
  assumes "filter isCertManagerResource rs \<noteq> []"
  shows "\<exists>pre post. CertManagerPostRenderer rs = pre @ cert_block rs @ post \<and>
     (\<forall>r\<in>set pre. early r \<and> \<not> isCertManagerResource r) \<and> (\<forall>r\<in>set post. \<not> isCertManagerResource r)"
  using assms
  by (intro exI[of _ "takeWhile early (non_cert rs)"] exI[of _ "dropWhile early (non_cert rs)"])
     (auto simp: CertManagerPostRenderer_shape dest: set_takeWhileD set_dropWhileD)

definition cert_rank :: "'a kobj_scheme \<Rightarrow> nat" where
  "cert_rank r = (if oGVK r = gvkCertManagerClusterIssuer then 0 else if oGVK r = gvkCertManagerIssuer then 1 else 2)"

lemma cert_block_sorted: "sorted (map cert_rank (cert_block rs))"
  using cert_gvks_distinct by (auto simp: cert_block_def cert_rank_def sorted_append sorted_map
    intro!: sorted_wrt_mono_rel[OF _ sorted_wrt_true])

section \<open>The ordering guarantees\<close>

lemma filter_kind_cert_block:
  "filter (\<lambda>r. oGVK r = g) (cert_block rs) =
     (if g \<in> {gvkCertManagerClusterIssuer, gvkCertManagerIssuer, gvkCertManagerCertificate}
      then filter (\<lambda>r. oGVK r = g) rs else [])"
proof -
  have eq: "filter (\<lambda>r. oGVK r = g) (filter (\<lambda>r. oGVK r = h) rs) = (if g = h then filter (\<lambda>r. oGVK r = g) rs else [])"
    for h by (auto simp: filter_empty_conv)
  show ?thesis
    using cert_gvks_distinct by (auto simp: cert_block_def eq)
qed

lemma post_renderer_kind_order:
  "filter (\<lambda>r. oGVK r = g) (CertManagerPostRenderer rs) = filter (\<lambda>r. oGVK r = g) rs"
proof (cases "filter isCertManagerResource rs = []")
  case False
  let ?certs = "{gvkCertManagerClusterIssuer, gvkCertManagerIssuer, gvkCertManagerCertificate}"
  have nc: "filter (\<lambda>r. oGVK r = g) (non_cert xs) = (if g \<in> ?certs then [] else filter (\<lambda>r. oGVK r = g) xs)"
    for xs :: "'a kobj_scheme list"
    by (induction xs) (auto simp: isCertManagerResource_def)
  have tw: "filter (\<lambda>r. oGVK r = g) (takeWhile early xs) @ filter (\<lambda>r. oGVK r = g) (dropWhile early xs) =
      filter (\<lambda>r. oGVK r = g) xs" for xs :: "'a kobj_scheme list"
    by (metis filter_append takeWhile_dropWhile_id)
  show ?thesis
  proof (cases "g \<in> ?certs")
    case True
    then have "filter (\<lambda>r. oGVK r = g) (takeWhile early (non_cert rs)) = []"
      "filter (\<lambda>r. oGVK r = g) (dropWhile early (non_cert rs)) = []"
      using nc[of rs] tw[of "non_cert rs"] by auto
    with True False show ?thesis by (simp add: CertManagerPostRenderer_shape filter_kind_cert_block)
  next
    case F: False
    then show ?thesis
      using False nc[of rs] tw[of "non_cert rs"] by (simp add: CertManagerPostRenderer_shape filter_kind_cert_block)
  qed
qed (simp add: CertManagerPostRenderer_shape)

lemma nth_mid:
  assumes "xs = pre @ mid @ post" and "i < length xs" and "P (xs ! i)" and "\<forall>r\<in>set pre. \<not> P r"
    and "\<forall>r\<in>set post. \<not> P r"
  shows "length pre \<le> i \<and> i < length pre + length mid"
proof -
  have "\<not> i < length pre" using assms by (auto simp: nth_append)
  moreover have "\<not> length pre + length mid \<le> i"
  proof
    assume ge: "length pre + length mid \<le> i"
    then obtain k where k: "i = length (pre @ mid) + k" by (metis le_Suc_ex length_append)
    have "xs ! i = post ! k" unfolding assms(1) k append_assoc[symmetric] nth_append_length_plus ..
    moreover have "k < length post" using k assms(1,2) by simp
    ultimately show False using assms(3,5) nth_mem by metis
  qed
  ultimately show ?thesis by simp
qed

lemma cert_before_late:
  assumes "out = CertManagerPostRenderer rs" and "i < length out" and "j < length out"
    and "isCertManagerResource (out ! i)" and "\<not> early (out ! j)"
  shows "i < j"
proof -
  have "out ! i \<in> set out" using assms(2) by simp
  then have "out ! i \<in> set rs" using assms(1) mset_post_renderer[of rs] by (metis mset_eq_setD)
  then have ne: "filter isCertManagerResource rs \<noteq> []" using assms(4) by (auto simp: filter_empty_conv)
  obtain pre post where out: "out = pre @ cert_block rs @ post"
    and pre: "\<forall>r\<in>set pre. early r \<and> \<not> isCertManagerResource r" and post: "\<forall>r\<in>set post. \<not> isCertManagerResource r"
    using late_only_after_certs[OF ne] assms(1) by auto
  have i: "length pre \<le> i \<and> i < length pre + length (cert_block rs)"
    by (rule nth_mid[OF out assms(2), of isCertManagerResource]) (use assms(4) pre post in auto)
  have "\<not> j < length pre + length (cert_block rs)"
  proof
    assume j: "j < length pre + length (cert_block rs)"
    have "out ! j \<in> set pre \<union> set (cert_block rs)"
    proof (cases "j < length pre")
      case True
      then show ?thesis using out by (simp add: nth_append)
    next
      case False
      then have "out ! j = cert_block rs ! (j - length pre)" using out j by (simp add: nth_append)
      moreover have "j - length pre < length (cert_block rs)" using False j by simp
      ultimately show ?thesis by (metis UnCI nth_mem)
    qed
    moreover have "\<forall>r\<in>set (cert_block rs). early r"
      using cert_not_late by (auto simp: cert_block_def isCertManagerResource_def)
    ultimately show False using pre assms(5) by blast
  qed
  with i show ?thesis by simp
qed

lemma cert_block_first:
  assumes "out = CertManagerPostRenderer rs"
  shows "sorted (map cert_rank (filter isCertManagerResource out))"
proof (cases "filter isCertManagerResource rs = []")
  case True
  then show ?thesis using assms by (simp add: CertManagerPostRenderer_shape)
next
  case False
  then obtain pre post where out: "out = pre @ cert_block rs @ post"
    and pre: "\<forall>r\<in>set pre. early r \<and> \<not> isCertManagerResource r" and post: "\<forall>r\<in>set post. \<not> isCertManagerResource r"
    using late_only_after_certs assms by metis
  have "filter isCertManagerResource pre = []" "filter isCertManagerResource post = []"
    using pre post by (auto simp: filter_empty_conv)
  moreover have "filter isCertManagerResource (cert_block rs) = cert_block rs"
    by (rule filter_id_conv[THEN iffD2]) (auto simp: cert_block_def isCertManagerResource_def)
  ultimately show ?thesis using out cert_block_sorted[of rs] by simp
qed

text \<open>Five resources out of order, used below.\<close>

definition ex_named :: "gvk \<Rightarrow> string \<Rightarrow> kobj" where
  "ex_named g n = (GvkToUnstructured g)\<lparr>oName := n\<rparr>"

definition ex_rendered :: "kobj list" where
  "ex_rendered =
     [ex_named (mk_gvk '''' ''v1'' ''Namespace'') ''ns'', ex_named (mk_gvk ''apps'' ''v1'' ''Deployment'') ''d'',
      ex_named gvkCertManagerCertificate ''cert'', ex_named (mk_gvk '''' ''v1'' ''Service'') ''svc'',
      ex_named gvkCertManagerClusterIssuer ''issuer'']"

lemma ex_rendered_sorted:
  "map oName (CertManagerPostRenderer ex_rendered) = [''ns'', ''issuer'', ''cert'', ''d'', ''svc'']"
  by (simp add: ex_rendered_def ex_named_def CertManagerPostRenderer_def isCertManagerResource_def
      isWorkloadKind_def IsWebhookResource_def GvkToUnstructured_def ordering_gvk_defs)

text \<open>
  C19: sorting for apply only reorders: the result is a permutation of the engine's order in which
  resources of one kind, and all resources outside cert-manager, keep their relative order. Every
  cert-manager resource comes before every workload and every webhook configuration, and among
  themselves ClusterIssuers come first, then Issuers, then Certificates. It fails exactly when the
  engine's ordering does.
\<close>

theorem sort_by_apply_order_correct:
  assumes "SortByApplyOrder apply_order rs = Inr out"
  shows "\<exists>rs'. apply_order rs = Inr rs' \<and> mset out = mset rs' \<and>
    (\<forall>g. filter (\<lambda>r. oGVK r = g) out = filter (\<lambda>r. oGVK r = g) rs') \<and>
    filter (\<lambda>r. \<not> isCertManagerResource r) out = filter (\<lambda>r. \<not> isCertManagerResource r) rs' \<and>
    (\<forall>i < length out. \<forall>j < length out. isCertManagerResource (out ! i) \<longrightarrow>
       isWorkloadKind (out ! j) \<or> IsWebhookResource (out ! j) \<longrightarrow> i < j) \<and>
    sorted (map cert_rank (filter isCertManagerResource out))"
proof -
  obtain rs' where rs': "apply_order rs = Inr rs'" "out = CertManagerPostRenderer rs'"
    using assms by (auto simp: SortByApplyOrder_def split: sum.splits)
  have "\<forall>i < length out. \<forall>j < length out. isCertManagerResource (out ! i) \<longrightarrow>
       isWorkloadKind (out ! j) \<or> IsWebhookResource (out ! j) \<longrightarrow> i < j"
    using cert_before_late[OF rs'(2)] by blast
  then show ?thesis
    using rs' mset_post_renderer[of rs'] post_renderer_kind_order[of _ rs'] non_cert_post_renderer[of rs']
      cert_block_first[OF rs'(2)] by blast
qed

theorem sort_by_apply_order_correct_witness:
  "SortByApplyOrder Inr ex_rendered = Inr (CertManagerPostRenderer ex_rendered) \<and>
   mset (CertManagerPostRenderer ex_rendered) = mset ex_rendered \<and>
   map oName (CertManagerPostRenderer ex_rendered) = [''ns'', ''issuer'', ''cert'', ''d'', ''svc'']"
proof -
  have run: "SortByApplyOrder Inr ex_rendered = Inr (CertManagerPostRenderer ex_rendered)"
    by (simp add: SortByApplyOrder_def)
  from sort_by_apply_order_correct[OF run]
  have "mset (CertManagerPostRenderer ex_rendered) = mset ex_rendered" by auto
  with run ex_rendered_sorted show ?thesis by blast
qed

end
