(* ===== verification/Deploy.thy ===== *)
theory Deploy
  imports MergeDeployments ApplyOrder Reconciler
begin

text \<open>
  The deploy action (\<^verbatim>\<open>framework/controller/actions/deploy\<close>): labelling, ownership, the apply and patch
  modes with their customizers, the cache of deployed objects and the loop over the resources of a
  request. The API client, the TTL store of client-go and \<^verbatim>\<open>SetControllerReference\<close> are fields of a
  record; the cluster and the store are part of the world they act on.
\<close>

section \<open>Configuration\<close>

definition PlatformFieldOwner :: string where
  "PlatformFieldOwner = ''platform.opendatahub.io''"

datatype deploy_mode = ModePatch | ModeSSA | OtherMode string

text \<open>The action without its customizers, which take the action as an argument.\<close>

record deploy_config =
  daFieldOwner :: string
  daCrdFieldOwner :: string
  daMode :: deploy_mode
  daPartOfLabelKey :: string
  daDefaultPartOfLabelKey :: string
  daPartOfLabelDefault :: string
  daAnnotationPrefix :: string
  daManagedByAnnotation :: string
  daLabels :: "(string \<rightharpoonup> string) option"
  daAnnotations :: "(string \<rightharpoonup> string) option"
  daCache :: bool
  daContinueOnError :: bool

text \<open>A customizer may change the desired object and, by writing through the client, the live one.\<close>

type_synonym 'w customizer =
  "'w \<Rightarrow> deploy_config \<Rightarrow> kobj \<Rightarrow> kobj option \<Rightarrow> 'w \<times> (go_error + kobj \<times> kobj option)"

record 'w deploy_action = deploy_config +
  daSortFn :: "(kobj list \<Rightarrow> go_error + kobj list) option"
  daApplyCustomizers :: "gvk \<rightharpoonup> 'w customizer"
  daPatchCustomizers :: "gvk \<rightharpoonup> 'w customizer"

definition config_of :: "'w deploy_action \<Rightarrow> deploy_config" where
  "config_of a = deploy_config.truncate a"

definition SortFn_Then ::
  "(kobj list \<Rightarrow> go_error + kobj list) \<Rightarrow> (kobj list \<Rightarrow> go_error + kobj list) \<Rightarrow> kobj list \<Rightarrow> go_error + kobj list" where
  "SortFn_Then s next rs = (case s rs of Inl e \<Rightarrow> Inl e | Inr out \<Rightarrow> next out)"

section \<open>The world\<close>

text \<open>
  \<open>dcPatch\<close> sends the desired object as an apply patch onto the live one and returns the stored
  object; \<open>dcApply\<close> is server-side apply under a field owner. \<open>dcStoreAdd\<close>, \<open>dcStoreHas\<close> and
  \<open>dcStoreDelete\<close> are the TTL store's operations, \<open>dcStoreList\<close> its \<^verbatim>\<open>List\<close>, which drops expired keys.
\<close>

record 'w deploy_client =
  dcGet :: "'w \<Rightarrow> gvk \<Rightarrow> string \<times> string \<Rightarrow> go_error + kobj"
  dcUpdate :: "'w \<Rightarrow> kobj \<Rightarrow> 'w \<times> (go_error + kobj)"
  dcCreate :: "'w \<Rightarrow> kobj \<Rightarrow> 'w \<times> (go_error + kobj)"
  dcMarshal :: "kobj \<Rightarrow> go_error option"
  dcPatch :: "'w \<Rightarrow> string \<Rightarrow> kobj \<Rightarrow> kobj \<Rightarrow> 'w \<times> (go_error + kobj)"
  dcApply :: "'w \<Rightarrow> string \<Rightarrow> kobj \<Rightarrow> 'w \<times> (go_error + kobj)"
  dcLookupU :: "kobj \<Rightarrow> go_error + gvk"
  dcConvU :: "kobj \<Rightarrow> go_error + kobj"
  dcConvertU :: "kobj \<Rightarrow> kobj \<Rightarrow> go_error + kobj"
  dcLookup :: "platform_object \<Rightarrow> go_error + gvk"
  dcSetController :: "platform_object \<Rightarrow> kobj \<Rightarrow> go_error + kobj"
  dcDigest :: "kobj \<Rightarrow> string"
  dcStoreAdd :: "'w \<Rightarrow> string \<Rightarrow> 'w"
  dcStoreHas :: "'w \<Rightarrow> string \<Rightarrow> bool"
  dcStoreDelete :: "'w \<Rightarrow> string \<Rightarrow> 'w \<times> go_error option"
  dcStoreList :: "'w \<Rightarrow> 'w"

section \<open>The cache of deployed objects\<close>

text \<open>\<^verbatim>\<open>GroupVersion.String()\<close> and \<^verbatim>\<open>klog.KObj\<close>.\<close>

definition gv_string :: "gvk \<Rightarrow> string" where
  "gv_string g = (if gGroup g = '''' then gVersion g else gGroup g @ ''/'' @ gVersion g)"

definition kobj_ref :: "kobj \<Rightarrow> string" where
  "kobj_ref obj = (if oNamespace obj = '''' then oName obj else oNamespace obj @ ''/'' @ oName obj)"

definition computeCacheKey :: "(kobj \<Rightarrow> string) \<Rightarrow> kobj \<Rightarrow> kobj \<Rightarrow> string" where
  "computeCacheKey digest original modified =
     gv_string (oGVK original) @ ''.'' @ gKind (oGVK original) @ ''.'' @ kobj_ref original @ ''.'' @
     oResourceVersion original @ ''.'' @ Hash digest modified"

definition cache_Add :: "'w deploy_client \<Rightarrow> 'w \<Rightarrow> kobj option \<Rightarrow> kobj option \<Rightarrow> 'w \<times> go_error option" where
  "cache_Add dc w original modified =
     (case (original, modified) of
        (Some ob, Some md) \<Rightarrow>
          let key = computeCacheKey (dcDigest dc) ob md
          in if key = '''' then (w, None) else (dcStoreAdd dc w key, None)
      | _ \<Rightarrow> (w, Some (ErrNew ''invalid input'')))"

definition cache_Has :: "'w deploy_client \<Rightarrow> 'w \<Rightarrow> kobj option \<Rightarrow> kobj option \<Rightarrow> bool" where
  "cache_Has dc w original modified =
     (case (original, modified) of
        (Some ob, Some md) \<Rightarrow>
          let key = computeCacheKey (dcDigest dc) ob md in if key = '''' then False else dcStoreHas dc w key
      | _ \<Rightarrow> False)"

definition cache_Delete :: "'w deploy_client \<Rightarrow> 'w \<Rightarrow> kobj option \<Rightarrow> kobj option \<Rightarrow> 'w \<times> go_error option" where
  "cache_Delete dc w original modified =
     (case (original, modified) of
        (Some ob, Some md) \<Rightarrow>
          let key = computeCacheKey (dcDigest dc) ob md in if key = '''' then (w, None) else dcStoreDelete dc w key
      | _ \<Rightarrow> (w, None))"

definition ShouldSkip ::
  "'w deploy_client \<Rightarrow> deploy_config \<Rightarrow> 'w \<Rightarrow> kobj option \<Rightarrow> kobj option \<Rightarrow> 'w \<times> (go_error + bool)" where
  "ShouldSkip dc a w current desired =
     (if desired = None then (w, Inr False)
      else if (case current of None \<Rightarrow> False | Some c \<Rightarrow> oDeletionTimestamp c \<noteq> 0)
           then (if daCache a
                 then (case cache_Delete dc w current desired of (w', Some e) \<Rightarrow> (w', Inl e) | (w', None) \<Rightarrow> (w', Inr True))
                 else (w, Inr True))
      else if \<not> daCache a then (w, Inr False)
      else (w, Inr (cache_Has dc w current desired)))"

section \<open>Owners\<close>

definition ownedTypeIsNot :: "gvk option \<Rightarrow> owner_ref \<Rightarrow> bool" where
  "ownedTypeIsNot ownerType r =
     (case ownerType of None \<Rightarrow> False | Some g \<Rightarrow> gKind g \<noteq> orKind r \<or> gv_string g \<noteq> orAPIVersion r)"

definition ownedTypeIs :: "gvk option \<Rightarrow> owner_ref \<Rightarrow> bool" where
  "ownedTypeIs ownerType r =
     (case ownerType of None \<Rightarrow> False | Some g \<Rightarrow> gKind g = orKind r \<and> gv_string g = orAPIVersion r)"

definition resolveFieldOwner :: "'w deploy_client \<Rightarrow> deploy_config \<Rightarrow> 'w request \<Rightarrow> go_error + string" where
  "resolveFieldOwner dc a rr =
     (if daFieldOwner a \<noteq> '''' then Inr (daFieldOwner a)
      else case KindForObject (dcLookup dc) (rrInstance rr) of Inl e \<Rightarrow> Inl e | Inr k \<Rightarrow> Inr (to_lower k))"

definition resolveCRDFieldOwner :: "deploy_config \<Rightarrow> string" where
  "resolveCRDFieldOwner a = (if daCrdFieldOwner a \<noteq> '''' then daCrdFieldOwner a else PlatformFieldOwner)"

definition shouldOwn :: "owned_types \<Rightarrow> gvk \<Rightarrow> owned_types \<times> bool" where
  "shouldOwn ot g =
     (if Owns ot g then (ot, True)
      else if IsExcludedFromDynamicOwnership ot g then (ot, False)
      else if IsDynamicOwnershipEnabled ot then (AddDynamicOwnedType ot g, True)
      else (ot, False))"

section \<open>Writing one object\<close>

text \<open>Each returns the object as deployed, or the error.\<close>

definition create_object :: "'w deploy_client \<Rightarrow> 'w \<Rightarrow> kobj \<Rightarrow> 'w \<times> kobj \<times> go_error option" where
  "create_object dc w obj =
     (case dcCreate dc w obj of (w', Inl e) \<Rightarrow> (w', obj, Some e) | (w', Inr stored) \<Rightarrow> (w', stored, None))"

definition run_customizer ::
  "(gvk \<rightharpoonup> 'w customizer) \<Rightarrow> string \<Rightarrow> 'w \<Rightarrow> deploy_config \<Rightarrow> kobj \<Rightarrow> kobj option \<Rightarrow> 'w \<times> (go_error + kobj \<times> kobj option)" where
  "run_customizer cs what w a obj old =
     (case cs (oGVK obj) of
        None \<Rightarrow> (w, Inr (obj, old))
      | Some f \<Rightarrow> (case f w a obj old of
            (w', Inl e) \<Rightarrow> (w', Inl (ErrWrap (what @ '' customizer failed for '' @ gvk_string (oGVK obj) @ '' '' @
               oNamespace obj @ ''/'' @ oName obj) e))
          | (w', Inr r) \<Rightarrow> (w', Inr r)))"

definition patch_object ::
  "'w deploy_client \<Rightarrow> 'w deploy_action \<Rightarrow> 'w \<Rightarrow> string \<Rightarrow> kobj \<Rightarrow> kobj option \<Rightarrow> 'w \<times> (go_error + kobj option)" where
  "patch_object dc a w owner obj0 old0 =
     (case run_customizer (daPatchCustomizers a) ''patch'' w (config_of a) obj0 old0 of
        (w1, Inl e) \<Rightarrow> (w1, Inl e)
      | (w1, Inr (obj, old)) \<Rightarrow>
          (case old of
             None \<Rightarrow>
               (case dcCreate dc w1 obj of
                  (w2, Inl e) \<Rightarrow> (w2, Inl (ErrWrap (''failed to create object '' @ oNamespace obj @ ''/'' @ oName obj) e))
                | (w2, Inr stored) \<Rightarrow> (w2, Inr None))
           | Some o1 \<Rightarrow>
               (case dcMarshal dc obj of
                  Some e \<Rightarrow> (w1, Inl e)
                | None \<Rightarrow>
                    (case dcPatch dc w1 owner o1 obj of
                       (w2, Inl e) \<Rightarrow> (w2, Inl (ErrWrap (''failed to patch object '' @ oNamespace obj @ ''/'' @ oName obj) e))
                     | (w2, Inr o2) \<Rightarrow> (w2, Inr (Some o2))))))"

definition apply_object ::
  "'w deploy_client \<Rightarrow> 'w deploy_action \<Rightarrow> 'w \<Rightarrow> string \<Rightarrow> kobj \<Rightarrow> kobj option \<Rightarrow> 'w \<times> (go_error + kobj option)" where
  "apply_object dc a w owner obj0 old0 =
     (case run_customizer (daApplyCustomizers a) ''apply'' w (config_of a) obj0 old0 of
        (w1, Inl e) \<Rightarrow> (w1, Inl e)
      | (w1, Inr (obj, old)) \<Rightarrow>
          (case Apply (dcLookupU dc) (dcConvU dc) ''*unstructured.Unstructured'' (\<lambda>w u. dcApply dc w owner u) (dcConvertU dc) w1 obj of
             (w2, obj', Some e) \<Rightarrow> (w2, Inl (ErrWrap (''apply failed '' @ gvk_string (oGVK obj)) e))
           | (w2, obj', None) \<Rightarrow> (w2, Inr (Some obj'))))"

definition write_object ::
  "'w deploy_client \<Rightarrow> 'w deploy_action \<Rightarrow> 'w \<Rightarrow> string \<Rightarrow> kobj \<Rightarrow> kobj option \<Rightarrow> 'w \<times> (go_error + kobj option)" where
  "write_object dc a w owner obj current =
     (case daMode a of
        ModePatch \<Rightarrow> patch_object dc a w owner obj current
      | ModeSSA \<Rightarrow> apply_object dc a w owner obj current
      | OtherMode m \<Rightarrow> (w, Inl (ErrNew (''unsupported deploy mode '' @ m))))"

text \<open>The end of both deploy functions: remember what was deployed.\<close>

definition cache_deployed ::
  "'w deploy_client \<Rightarrow> deploy_config \<Rightarrow> 'w \<Rightarrow> kobj option \<Rightarrow> kobj \<Rightarrow> 'w \<times> (go_error + bool)" where
  "cache_deployed dc a w deployed orig =
     (if daCache a
      then (case cache_Add dc w deployed (Some orig) of
              (w', Some e) \<Rightarrow> (w', Inl (ErrWrap ''failed to cache object'' e))
            | (w', None) \<Rightarrow> (w', Inr True))
      else (w, Inr True))"

section \<open>Deploying one resource\<close>

definition crdGVK :: gvk where
  "crdGVK = mk_gvk ''apiextensions.k8s.io'' ''v1'' ''CustomResourceDefinition''"

definition opt_map :: "(string \<rightharpoonup> string) option \<Rightarrow> (string \<rightharpoonup> string)" where
  "opt_map m = (case m of None \<Rightarrow> Map.empty | Some t \<Rightarrow> t)"

text \<open>The labels and annotations every deployed object gets.\<close>

definition stamp_instance :: "deploy_config \<Rightarrow> 'w request \<Rightarrow> kobj \<Rightarrow> kobj" where
  "stamp_instance a rr obj =
     (let p = daAnnotationPrefix a;
          o1 = SetAnnotations (SetLabels obj (opt_map (daLabels a))) (opt_map (daAnnotations a));
          o2 = fst (SetAnnotation o1 (p @ ''/instance.generation'') (itoa (oGeneration (rrInstance rr))));
          o3 = fst (SetAnnotation o2 (p @ ''/instance.name'') (oName (rrInstance rr)));
          o4 = fst (SetAnnotation o3 (p @ ''/instance.uid'') (oUID (rrInstance rr)));
          o5 = fst (SetAnnotation o4 (p @ ''/type'') (relName (rrRelease rr)))
      in fst (SetAnnotation o5 (p @ ''/version'') (relVersion (rrRelease rr))))"

definition deployCRD ::
  "'w deploy_client \<Rightarrow> 'w deploy_action \<Rightarrow> 'w request \<Rightarrow> kobj \<Rightarrow> kobj option \<Rightarrow> 'w \<times> owned_types \<times> kobj \<times> (go_error + bool)" where
  "deployCRD dc a rr obj0 current =
     (let w = rrWorld rr; ot = rrController rr;
          o1 = SetAnnotations (SetLabels obj0 (opt_map (daLabels a))) (opt_map (daAnnotations a))
      in case (if GetLabel o1 (daPartOfLabelKey a) = ''''
               then (if daPartOfLabelKey a = daDefaultPartOfLabelKey a
                     then Inr (fst (SetLabel o1 (daPartOfLabelKey a) (daPartOfLabelDefault a)))
                     else case resolveFieldOwner dc (config_of a) rr of
                            Inl e \<Rightarrow> Inl e
                          | Inr fo \<Rightarrow> Inr (if fo \<noteq> '''' then fst (SetLabel o1 (daPartOfLabelKey a) fo) else o1))
               else Inr o1) of
           Inl e \<Rightarrow> (w, ot, o1, Inl e)
         | Inr obj \<Rightarrow>
             (case ShouldSkip dc (config_of a) w current (Some obj) of
                (w1, Inl e) \<Rightarrow> (w1, ot, obj, Inl e)
              | (w1, Inr True) \<Rightarrow> (w1, ot, obj, Inr False)
              | (w1, Inr False) \<Rightarrow>
                  (case write_object dc a w1 (resolveCRDFieldOwner (config_of a)) obj current of
                     (w2, Inl e) \<Rightarrow> (w2, ot, obj, (case IgnoreNotFound (Some e) of None \<Rightarrow> Inr False | Some e' \<Rightarrow> Inl e'))
                   | (w2, Inr deployed) \<Rightarrow>
                       (case cache_deployed dc (config_of a) w2 deployed obj of (w3, r) \<Rightarrow> (w3, ot, obj, r)))))"

definition prepare_resource :: "deploy_config \<Rightarrow> 'w request \<Rightarrow> string \<Rightarrow> kobj \<Rightarrow> kobj" where
  "prepare_resource a rr fo obj0 =
     (let o1 = stamp_instance a rr obj0
      in if GetLabel o1 (daPartOfLabelKey a) = '''' \<and> fo \<noteq> '''' then fst (SetLabel o1 (daPartOfLabelKey a) fo) else o1)"

definition deploy_resource ::
  "'w deploy_client \<Rightarrow> 'w deploy_action \<Rightarrow> 'w request \<Rightarrow> kobj \<Rightarrow> kobj option \<Rightarrow> 'w \<times> owned_types \<times> kobj \<times> (go_error + bool)" where
  "deploy_resource dc a rr obj0 current =
     (let w = rrWorld rr; ot = rrController rr
      in case resolveFieldOwner dc (config_of a) rr of
           Inl e \<Rightarrow> (w, ot, obj0, Inl e)
         | Inr fo \<Rightarrow>
             let obj = prepare_resource (config_of a) rr fo obj0
             in (case ShouldSkip dc (config_of a) w current (Some obj) of
                   (w1, Inl e) \<Rightarrow> (w1, ot, obj, Inl e)
                 | (w1, Inr True) \<Rightarrow> (w1, ot, obj, Inr False)
                 | (w1, Inr False) \<Rightarrow>
                     if GetAnnotation obj (daManagedByAnnotation a) = ''false''
                     then (case create_object dc w1 (RemoveAnnotation obj (daManagedByAnnotation a)) of
                             (w2, deployed, err) \<Rightarrow>
                               if (case err of None \<Rightarrow> False | Some e \<Rightarrow> \<not> IsAlreadyExists e) then (w2, ot, obj, Inl (the err))
                               else case cache_deployed dc (config_of a) w2 (Some deployed) obj of (w3, r) \<Rightarrow> (w3, ot, obj, r))
                     else (case shouldOwn ot (oGVK obj) of (ot', owned) \<Rightarrow>
                        case (if owned then dcSetController dc (rrInstance rr) (obj\<lparr>oOwnerRefs := []\<rparr>) else Inr obj) of
                          Inl e \<Rightarrow> (w1, ot', obj, Inl e)
                        | Inr obj' \<Rightarrow>
                            (case write_object dc a w1 fo obj' current of
                               (w2, Inl e) \<Rightarrow> (w2, ot', obj, Inl e)
                             | (w2, Inr deployed) \<Rightarrow>
                                 (case cache_deployed dc (config_of a) w2 deployed obj of (w3, r) \<Rightarrow> (w3, ot', obj, r))))))"

section \<open>The loop\<close>

datatype step_result = StepOk | StepFail go_error | StepAbort go_error

definition deploy_one ::
  "'w deploy_client \<Rightarrow> 'w deploy_action \<Rightarrow> 'w request \<Rightarrow> kobj \<Rightarrow> 'w request \<times> kobj \<times> step_result" where
  "deploy_one dc a rr res =
     (let loc = oNamespace res @ ''/'' @ oName res;
          igvk = Some (oGVK (rrInstance rr));
          deploy = (\<lambda>rr current.
            case (if oGVK res = crdGVK then deployCRD dc a rr res current else deploy_resource dc a rr res current) of
              (w, ot, res', r) \<Rightarrow> (rr\<lparr>rrWorld := w, rrController := ot\<rparr>, res',
                 case r of Inl e \<Rightarrow> StepFail (ErrWrap (''failure deploying resource '' @ loc) e) | Inr ok \<Rightarrow> StepOk))
      in case dcGet dc (rrWorld rr) (oGVK res) (oNamespace res, oName res) of
           Inl e \<Rightarrow>
             if IsNotFound e then deploy rr None
             else (rr, res, StepFail (ErrWrap (''failed to lookup object '' @ loc) e))
         | Inr current \<Rightarrow>
             (case RemoveOwnerReferences (dcUpdate dc) (rrWorld rr) current (ownedTypeIsNot igvk) of
                (w1, cur1, Some e) \<Rightarrow> (rr\<lparr>rrWorld := w1\<rparr>, res, StepAbort e)
              | (w1, cur1, None) \<Rightarrow>
                  if GetAnnotation cur1 (daManagedByAnnotation a) = ''false''
                  then (case RemoveOwnerReferences (dcUpdate dc) w1 cur1 (ownedTypeIs igvk) of
                          (w2, cur2, Some e) \<Rightarrow> (rr\<lparr>rrWorld := w2\<rparr>, res, StepAbort e)
                        | (w2, cur2, None) \<Rightarrow> (rr\<lparr>rrWorld := w2\<rparr>, res, StepOk))
                  else deploy (rr\<lparr>rrWorld := w1\<rparr>) (Some cur1)))"

fun final_error :: "go_error option \<Rightarrow> string list \<Rightarrow> go_error option" where
  "final_error firstErr [] = None"
| "final_error firstErr [x] = firstErr"
| "final_error firstErr (x # y # ys) =
     (case firstErr of
        None \<Rightarrow> None
      | Some e \<Rightarrow> Some (ErrSuffix e (''; '' @ itoa (int (length (y # ys))) @ '' more resources failed: '' @
          join_with '', '' (y # ys) @ '' (see logs for details)'')))"

fun deploy_loop ::
  "'w deploy_client \<Rightarrow> 'w deploy_action \<Rightarrow> 'w request \<Rightarrow> kobj list \<Rightarrow> kobj list \<Rightarrow> go_error option \<Rightarrow> string list \<Rightarrow>
   'w request \<times> go_error option" where
  "deploy_loop dc a rr done [] firstErr failed = (rr\<lparr>rrResources := done\<rparr>, final_error firstErr failed)"
| "deploy_loop dc a rr done (res # rest) firstErr failed =
     (case deploy_one dc a rr res of
        (rr', res', StepOk) \<Rightarrow> deploy_loop dc a rr' (done @ [res']) rest firstErr failed
      | (rr', res', StepAbort e) \<Rightarrow> (rr'\<lparr>rrResources := done @ res' # rest\<rparr>, Some e)
      | (rr', res', StepFail e) \<Rightarrow>
          if \<not> daContinueOnError a then (rr'\<lparr>rrResources := done @ res' # rest\<rparr>, Some e)
          else deploy_loop dc a rr' (done @ [res']) rest (if firstErr = None then Some e else firstErr)
                 (failed @ [oNamespace res @ ''/'' @ oName res]))"

definition deploy_run :: "'w deploy_client \<Rightarrow> 'w deploy_action \<Rightarrow> 'w action" where
  "deploy_run dc a rr =
     (if rrSkipDeploy rr then (rr, None)
      else case (case daSortFn a of None \<Rightarrow> Inr (rrResources rr) | Some f \<Rightarrow> f (rrResources rr)) of
             Inl e \<Rightarrow> (rr, Some (ErrWrap ''failed to sort resources'' e))
           | Inr srt \<Rightarrow>
               let rr1 = rr\<lparr>rrResources := srt,
                     rrWorld := (if daCache a then dcStoreList dc (rrWorld rr) else rrWorld rr)\<rparr>
               in case resolveFieldOwner dc (config_of a) rr1 of
                    Inl e \<Rightarrow> (rr1, Some e)
                  | Inr controllerName \<Rightarrow> deploy_loop dc a rr1 [] srt None [])"

section \<open>Customizers\<close>

text \<open>\<open>smp\<close> is the client's strategic merge patch, \<open>deq\<close> semantic equality of JSON values.\<close>

definition managed_drift :: "nested_ops \<Rightarrow> (json \<Rightarrow> json \<Rightarrow> bool) \<Rightarrow> ('w \<Rightarrow> kobj \<Rightarrow> json \<Rightarrow> 'w \<times> (go_error + kobj)) \<Rightarrow>
   'w \<Rightarrow> kobj \<Rightarrow> kobj \<Rightarrow> 'w \<times> (go_error + kobj \<times> kobj option)" where
  "managed_drift ops deq smp w obj old =
     (case RevertManagedDeploymentDrift ops deq smp w obj old of
        (w', Inl e) \<Rightarrow> (w', Inl (ErrWrap (''failed to prepare managed Deployment '' @ oNamespace obj @ ''/'' @ oName obj) e))
      | (w', Inr old') \<Rightarrow> (w', Inr (obj, Some old')))"

definition CustomizerFnApplyDeployments ::
  "nested_ops \<Rightarrow> (json \<Rightarrow> json \<Rightarrow> bool) \<Rightarrow> ('w \<Rightarrow> kobj \<Rightarrow> json \<Rightarrow> 'w \<times> (go_error + kobj)) \<Rightarrow> 'w customizer" where
  "CustomizerFnApplyDeployments ops deq smp w a obj old =
     (case old of
        None \<Rightarrow> (w, Inr (obj, None))
      | Some live \<Rightarrow>
          if GetAnnotation live (daManagedByAnnotation a) = ''true'' then managed_drift ops deq smp w obj live
          else (case MergeDeployments ops live obj of
                  Inl e \<Rightarrow> (w, Inl (ErrWrap (''failed to merge Deployment '' @ oNamespace obj @ ''/'' @ oName obj) e))
                | Inr obj' \<Rightarrow> (w, Inr (obj', Some live))))"

definition CustomizerFnApplyClusterRoles :: "nested_ops \<Rightarrow> 'w customizer" where
  "CustomizerFnApplyClusterRoles ops w a obj old =
     (case nGet ops (oBody obj) [''aggregationRule''] of
        Inl e \<Rightarrow> (w, Inl e)
      | Inr None \<Rightarrow> (w, Inr (obj, old))
      | Inr (Some _) \<Rightarrow> (w, Inr (obj\<lparr>oBody := nRemove ops (oBody obj) [''rules'']\<rparr>, old)))"

definition CustomizerFnApplyObservability :: "nested_ops \<Rightarrow> 'w customizer" where
  "CustomizerFnApplyObservability ops w a obj old =
     (case old of
        None \<Rightarrow> (w, Inr (obj, None))
      | Some live \<Rightarrow>
          if GetAnnotation live (daManagedByAnnotation a) = ''true'' then (w, Inr (obj, old))
          else (case MergeObservabilityResources ops live obj of
                  Inl e \<Rightarrow> (w, Inl (ErrWrap (''failed to merge '' @ gKind (oGVK obj) @ '' '' @ oNamespace obj @ ''/'' @ oName obj) e))
                | Inr obj' \<Rightarrow> (w, Inr (obj', old))))"

definition CustomizerFnPatchDeployments ::
  "nested_ops \<Rightarrow> (json \<Rightarrow> json \<Rightarrow> bool) \<Rightarrow> ('w \<Rightarrow> kobj \<Rightarrow> json \<Rightarrow> 'w \<times> (go_error + kobj)) \<Rightarrow> 'w customizer" where
  "CustomizerFnPatchDeployments ops deq smp w a obj old =
     (case old of
        None \<Rightarrow> (w, Inr (obj, None))
      | Some live \<Rightarrow>
          if GetAnnotation live (daManagedByAnnotation a) = ''true'' then managed_drift ops deq smp w obj live
          else (case RemoveDeploymentsResources ops obj of
                  Inl e \<Rightarrow> (w, Inl (ErrWrap (''failed to apply allow list to Deployment '' @ oNamespace obj @ ''/'' @ oName obj) e))
                | Inr obj' \<Rightarrow> (w, Inr (obj', old))))"

section \<open>Options and construction\<close>

definition WithMode :: "deploy_mode \<Rightarrow> 'w deploy_action \<Rightarrow> 'w deploy_action" where
  "WithMode m a = a\<lparr>daMode := m\<rparr>"

definition deploy_WithFieldOwner :: "string \<Rightarrow> 'w deploy_action \<Rightarrow> 'w deploy_action" where
  "deploy_WithFieldOwner v a = a\<lparr>daFieldOwner := v\<rparr>"

definition WithCRDFieldOwner :: "string \<Rightarrow> 'w deploy_action \<Rightarrow> 'w deploy_action" where
  "WithCRDFieldOwner v a = a\<lparr>daCrdFieldOwner := v\<rparr>"

definition deploy_WithPartOfLabel :: "string \<Rightarrow> 'w deploy_action \<Rightarrow> 'w deploy_action" where
  "deploy_WithPartOfLabel k a = a\<lparr>daPartOfLabelKey := k\<rparr>"

definition WithPartOfLabelDefault :: "string \<Rightarrow> 'w deploy_action \<Rightarrow> 'w deploy_action" where
  "WithPartOfLabelDefault v a = a\<lparr>daPartOfLabelDefault := v\<rparr>"

definition WithAnnotationPrefix :: "string \<Rightarrow> 'w deploy_action \<Rightarrow> 'w deploy_action" where
  "WithAnnotationPrefix p a = a\<lparr>daAnnotationPrefix := p\<rparr>"

definition WithManagedByAnnotation :: "string \<Rightarrow> 'w deploy_action \<Rightarrow> 'w deploy_action" where
  "WithManagedByAnnotation k a = a\<lparr>daManagedByAnnotation := k\<rparr>"

definition WithLabel :: "string \<Rightarrow> string \<Rightarrow> 'w deploy_action \<Rightarrow> 'w deploy_action" where
  "WithLabel k v a = a\<lparr>daLabels := Some ((opt_map (daLabels a))(k \<mapsto> v))\<rparr>"

definition WithLabels :: "(string \<rightharpoonup> string) \<Rightarrow> 'w deploy_action \<Rightarrow> 'w deploy_action" where
  "WithLabels m a = a\<lparr>daLabels := Some (opt_map (daLabels a) ++ m)\<rparr>"

definition WithAnnotation :: "string \<Rightarrow> string \<Rightarrow> 'w deploy_action \<Rightarrow> 'w deploy_action" where
  "WithAnnotation k v a = a\<lparr>daAnnotations := Some ((opt_map (daAnnotations a))(k \<mapsto> v))\<rparr>"

definition WithAnnotations :: "(string \<rightharpoonup> string) \<Rightarrow> 'w deploy_action \<Rightarrow> 'w deploy_action" where
  "WithAnnotations m a = a\<lparr>daAnnotations := Some (opt_map (daAnnotations a) ++ m)\<rparr>"

definition WithCache :: "'w deploy_action \<Rightarrow> 'w deploy_action" where
  "WithCache a = a\<lparr>daCache := True\<rparr>"

definition WithSortFn :: "(kobj list \<Rightarrow> go_error + kobj list) option \<Rightarrow> 'w deploy_action \<Rightarrow> 'w deploy_action" where
  "WithSortFn f a = a\<lparr>daSortFn := f\<rparr>"

definition WithContinueOnError :: "'w deploy_action \<Rightarrow> 'w deploy_action" where
  "WithContinueOnError a = a\<lparr>daContinueOnError := True\<rparr>"

definition WithApplyCustomizer :: "gvk \<Rightarrow> 'w customizer \<Rightarrow> 'w deploy_action \<Rightarrow> 'w deploy_action" where
  "WithApplyCustomizer g f a = a\<lparr>daApplyCustomizers := (daApplyCustomizers a)(g \<mapsto> f)\<rparr>"

definition WithPatchCustomizer :: "gvk \<Rightarrow> 'w customizer \<Rightarrow> 'w deploy_action \<Rightarrow> 'w deploy_action" where
  "WithPatchCustomizer g f a = a\<lparr>daPatchCustomizers := (daPatchCustomizers a)(g \<mapsto> f)\<rparr>"

text \<open>The defaults of \<^verbatim>\<open>NewAction\<close>. \<open>apply_order\<close> is the engine's ordering.\<close>

definition deploy_NewAction ::
  "(kobj list \<Rightarrow> go_error + kobj list) \<Rightarrow> nested_ops \<Rightarrow> (json \<Rightarrow> json \<Rightarrow> bool) \<Rightarrow> ('w \<Rightarrow> kobj \<Rightarrow> json \<Rightarrow> 'w \<times> (go_error + kobj)) \<Rightarrow>
   ('w deploy_action \<Rightarrow> 'w deploy_action) list \<Rightarrow> 'w deploy_action" where
  "deploy_NewAction apply_order ops deq smp opts =
     foldl (\<lambda>a f. f a)
       \<lparr>daFieldOwner = '''', daCrdFieldOwner = PlatformFieldOwner, daMode = ModeSSA,
        daPartOfLabelKey = ''platform.opendatahub.io/part-of'', daDefaultPartOfLabelKey = ''platform.opendatahub.io/part-of'',
        daPartOfLabelDefault = ''platform'', daAnnotationPrefix = ''platform.opendatahub.io'',
        daManagedByAnnotation = ''opendatahub.io/managed'', daLabels = None, daAnnotations = None, daCache = False,
        daContinueOnError = False, daSortFn = Some (SortByApplyOrder apply_order),
        daApplyCustomizers =
          [mk_gvk ''apps'' ''v1'' ''Deployment'' \<mapsto> CustomizerFnApplyDeployments ops deq smp,
           mk_gvk ''rbac.authorization.k8s.io'' ''v1'' ''ClusterRole'' \<mapsto> CustomizerFnApplyClusterRoles ops,
           mk_gvk ''monitoring.rhobs'' ''v1alpha1'' ''MonitoringStack'' \<mapsto> CustomizerFnApplyObservability ops,
           mk_gvk ''tempo.grafana.com'' ''v1alpha1'' ''TempoStack'' \<mapsto> CustomizerFnApplyObservability ops,
           mk_gvk ''tempo.grafana.com'' ''v1alpha1'' ''TempoMonolithic'' \<mapsto> CustomizerFnApplyObservability ops,
           mk_gvk ''opentelemetry.io'' ''v1beta1'' ''OpenTelemetryCollector'' \<mapsto> CustomizerFnApplyObservability ops],
        daPatchCustomizers = [mk_gvk ''apps'' ''v1'' ''Deployment'' \<mapsto> CustomizerFnPatchDeployments ops deq smp]\<rparr> opts"

end
