(* ===== verification/Deploy_Correct.thy ===== *)
theory Deploy_Correct
  imports Deploy
begin

text \<open>
  Correctness of the deploy action: objects a user has taken over, what is stamped on deployed
  objects, the cache, and the loop with and without \<^verbatim>\<open>WithContinueOnError\<close>.
\<close>

section \<open>Objects the user has taken over\<close>

lemma ownedType_complement: "ownedTypeIs (Some g) r \<longleftrightarrow> \<not> ownedTypeIsNot (Some g) r"
  by (simp add: ownedTypeIs_def ownedTypeIsNot_def)

lemma RemoveOwnerReferences_result:
  assumes "RemoveOwnerReferences update w obj pred = (w1, obj1, None)"
    and "\<forall>w u w' s. update w u = (w', Inr s) \<longrightarrow> oOwnerRefs s = oOwnerRefs u \<and> oAnnotations s = oAnnotations u"
  shows "oOwnerRefs obj1 = filter (\<lambda>r. \<not> pred r) (oOwnerRefs obj)"
    and "oAnnotations obj1 = oAnnotations obj"
proof -
  have "oOwnerRefs obj1 = filter (\<lambda>r. \<not> pred r) (oOwnerRefs obj) \<and> oAnnotations obj1 = oAnnotations obj"
  proof (cases "\<exists>r\<in>set (oOwnerRefs obj). pred r")
    case True
    let ?obj' = "obj\<lparr>oOwnerRefs := filter (\<lambda>r. \<not> pred r) (oOwnerRefs obj)\<rparr>"
    from RemoveOwnerReferences_match[OF True, of update w] assms(1)
    have "update w ?obj' = (w1, Inr obj1)" by (auto split: prod.splits sum.splits)
    with assms(2) show ?thesis by fastforce
  next
    case False
    with RemoveOwnerReferences_no_match[of obj pred update w] assms(1) show ?thesis by simp
  qed
  then show "oOwnerRefs obj1 = filter (\<lambda>r. \<not> pred r) (oOwnerRefs obj)"
    and "oAnnotations obj1 = oAnnotations obj" by simp_all
qed

definition strip_owners :: "('w \<Rightarrow> kobj \<Rightarrow> 'w \<times> (go_error + kobj)) \<Rightarrow> gvk \<Rightarrow> 'w \<Rightarrow> kobj \<Rightarrow> 'w \<times> kobj \<times> go_error option" where
  "strip_owners update g w live =
     (case RemoveOwnerReferences update w live (ownedTypeIsNot (Some g)) of
        (w1, o1, Some e) \<Rightarrow> (w1, o1, Some e)
      | (w1, o1, None) \<Rightarrow> RemoveOwnerReferences update w1 o1 (ownedTypeIs (Some g)))"

lemma GetAnnotation_cong: "oAnnotations a = oAnnotations b \<Longrightarrow> GetAnnotation a k = GetAnnotation b k"
  by (simp add: GetAnnotation_def)

lemma deploy_one_unmanaged:
  assumes "dcGet dc (rrWorld rr) (oGVK res) (oNamespace res, oName res) = Inr live"
    and "GetAnnotation live (daManagedByAnnotation a) = ''false''"
    and upd: "\<forall>w u w' s. dcUpdate dc w u = (w', Inr s) \<longrightarrow> oOwnerRefs s = oOwnerRefs u \<and> oAnnotations s = oAnnotations u"
    and "strip_owners (dcUpdate dc) (oGVK (rrInstance rr)) (rrWorld rr) live = (w', live', err)"
  shows "deploy_one dc a rr res = (rr\<lparr>rrWorld := w'\<rparr>, res, case err of None \<Rightarrow> StepOk | Some e \<Rightarrow> StepAbort e)"
proof -
  obtain w1 o1 e1 where r1: "RemoveOwnerReferences (dcUpdate dc) (rrWorld rr) live (ownedTypeIsNot (Some (oGVK (rrInstance rr)))) = (w1, o1, e1)"
    by (metis prod.exhaust)
  show ?thesis
  proof (cases e1)
    case None
    with r1 have r1': "RemoveOwnerReferences (dcUpdate dc) (rrWorld rr) live (ownedTypeIsNot (Some (oGVK (rrInstance rr)))) = (w1, o1, None)" by simp
    from GetAnnotation_cong[OF RemoveOwnerReferences_result(2)[OF r1' upd]] assms(2)
    have "GetAnnotation o1 (daManagedByAnnotation a) = ''false''" by simp
    with assms(1,4) r1' show ?thesis
      by (auto simp: deploy_one_def strip_owners_def Let_def split: option.splits)
  next
    case (Some e)
    with assms(1,4) r1 show ?thesis
      by (auto simp: deploy_one_def strip_owners_def Let_def)
  qed
qed

lemma strip_owners_empty:
  assumes "strip_owners update g w live = (w', live', None)"
    and upd: "\<forall>w u w' s. update w u = (w', Inr s) \<longrightarrow> oOwnerRefs s = oOwnerRefs u \<and> oAnnotations s = oAnnotations u"
  shows "oOwnerRefs live' = []"
proof -
  from assms(1) obtain w1 o1 where r1: "RemoveOwnerReferences update w live (ownedTypeIsNot (Some g)) = (w1, o1, None)"
    and r2: "RemoveOwnerReferences update w1 o1 (ownedTypeIs (Some g)) = (w', live', None)"
    by (auto simp: strip_owners_def split: prod.splits option.splits)
  from RemoveOwnerReferences_result(1)[OF r1 upd] RemoveOwnerReferences_result(1)[OF r2 upd]
  show ?thesis by (auto simp: ownedType_complement filter_empty_conv)
qed

text \<open>
  C4: an object on the cluster whose managed annotation is false is never created, applied or
  patched: whatever those client calls do, handling its resource gives the same result, leaves the
  rendered resource as it is and at most sends the updates that take the owner references away. When
  these succeed the step succeeds and the live object is left with no owner reference; when one
  fails, its error ends the run. (The server is assumed to store the annotations and owner
  references of an update.)
\<close>

theorem unmanaged_object_untouched:
  assumes "dcGet dc (rrWorld rr) (oGVK res) (oNamespace res, oName res) = Inr live"
    and "GetAnnotation live (daManagedByAnnotation a) = ''false''"
    and "\<forall>w u w' s. dcUpdate dc w u = (w', Inr s) \<longrightarrow> oOwnerRefs s = oOwnerRefs u \<and> oAnnotations s = oAnnotations u"
  shows "deploy_one (dc\<lparr>dcCreate := c, dcApply := ap, dcPatch := pt\<rparr>) a rr res = deploy_one dc a rr res \<and>
    (\<exists>w' live' err. strip_owners (dcUpdate dc) (oGVK (rrInstance rr)) (rrWorld rr) live = (w', live', err) \<and>
        (err = None \<longrightarrow> oOwnerRefs live' = []) \<and>
        deploy_one dc a rr res = (rr\<lparr>rrWorld := w'\<rparr>, res, case err of None \<Rightarrow> StepOk | Some e \<Rightarrow> StepAbort e))"
proof -
  obtain w' live' err where strip: "strip_owners (dcUpdate dc) (oGVK (rrInstance rr)) (rrWorld rr) live = (w', live', err)"
    by (metis prod.exhaust)
  note one = deploy_one_unmanaged[OF assms strip]
  let ?dc = "dc\<lparr>dcCreate := c, dcApply := ap, dcPatch := pt\<rparr>"
  have get: "dcGet ?dc (rrWorld rr) (oGVK res) (oNamespace res, oName res) = Inr live" and upd: "dcUpdate ?dc = dcUpdate dc"
    using assms(1) by simp_all
  have "deploy_one ?dc a rr res = deploy_one dc a rr res"
    unfolding one by (rule deploy_one_unmanaged[OF get assms(2)]) (unfold upd, rule assms(3), rule strip)
  moreover have "err = None \<longrightarrow> oOwnerRefs live' = []"
    using strip_owners_empty[OF _ assms(3)] strip by blast
  ultimately show ?thesis using strip one by blast
qed


section \<open>The cache\<close>

lemma config_of_sel [simp]:
  "daCache (config_of a) = daCache a" "daManagedByAnnotation (config_of a) = daManagedByAnnotation a"
  "daPartOfLabelKey (config_of a) = daPartOfLabelKey a" "daFieldOwner (config_of a) = daFieldOwner a"
  "daCrdFieldOwner (config_of a) = daCrdFieldOwner a" "daAnnotationPrefix (config_of a) = daAnnotationPrefix a"
  "daLabels (config_of a) = daLabels a" "daAnnotations (config_of a) = daAnnotations a"
  by (simp_all add: config_of_def deploy_config.truncate_def)

lemma stamp_instance_identity [simp]:
  "oGVK (stamp_instance a rr obj) = oGVK obj" "oName (stamp_instance a rr obj) = oName obj"
  "oNamespace (stamp_instance a rr obj) = oNamespace obj"
  by (simp_all add: stamp_instance_def Let_def)

lemma prepare_resource_identity [simp]:
  "oGVK (prepare_resource a rr fo obj) = oGVK obj" "oName (prepare_resource a rr fo obj) = oName obj"
  "oNamespace (prepare_resource a rr fo obj) = oNamespace obj"
  by (simp_all add: prepare_resource_def Let_def)

lemma resolveFieldOwner_cong:
  "rrInstance rr = rrInstance rr' \<Longrightarrow> resolveFieldOwner dc c rr = resolveFieldOwner dc c rr'"
  by (simp add: resolveFieldOwner_def)

lemma prepare_resource_cong:
  "rrInstance rr = rrInstance rr' \<Longrightarrow> rrRelease rr = rrRelease rr' \<Longrightarrow> prepare_resource c rr fo obj = prepare_resource c rr' fo obj"
  by (simp add: prepare_resource_def stamp_instance_def Let_def)

lemma key_not_empty [simp]: "computeCacheKey digest ob md \<noteq> ''''"
  by (simp add: computeCacheKey_def)

lemma cache_deployed_ok:
  assumes "cache_deployed dc c w deployed orig = (w', Inr b)" and "daCache c"
  obtains d where "deployed = Some d" "w' = dcStoreAdd dc w (computeCacheKey (dcDigest dc) d orig)"
  using assms by (cases deployed) (auto simp: cache_deployed_def cache_Add_def Let_def)

lemma cache_Has_after_Add:
  assumes "\<forall>w k. dcStoreHas dc (dcStoreAdd dc w k) k"
  shows "cache_Has dc (dcStoreAdd dc w (computeCacheKey (dcDigest dc) d orig)) (Some d) (Some orig)"
  using assms by (simp add: cache_Has_def Let_def)

text \<open>What a customizer may do: change everything of the object but its identity.\<close>

definition same_identity :: "kobj \<Rightarrow> kobj \<Rightarrow> bool" where
  "same_identity u v \<longleftrightarrow> oGVK u = oGVK v \<and> oNamespace u = oNamespace v \<and> oName u = oName v"

definition identity_kept :: "'w deploy_client \<Rightarrow> 'w deploy_action \<Rightarrow> bool" where
  "identity_kept dc a \<longleftrightarrow>
     (\<forall>g f w c u old w' u' old'. daApplyCustomizers a g = Some f \<and> f w c u old = (w', Inr (u', old')) \<longrightarrow> same_identity u' u) \<and>
     (\<forall>p u u'. dcSetController dc p u = Inr u' \<longrightarrow> same_identity u' u)"

text \<open>The scheme's conversions between unstructured objects change nothing.\<close>

definition plain_conversion :: "'w deploy_client \<Rightarrow> bool" where
  "plain_conversion dc \<longleftrightarrow> (\<forall>u. dcConvU dc u = Inr u) \<and> (\<forall>u v. dcConvertU dc u v = Inr u)"

lemma apply_object_ok:
  assumes "apply_object dc a w owner obj old = (w', Inr deployed)" and "identity_kept dc a" and "plain_conversion dc"
    and "gVersion (oGVK obj) \<noteq> ''''" and "gKind (oGVK obj) \<noteq> ''''"
  obtains w1 u s where "dcApply dc w1 owner u = (w', Inr s)" "deployed = Some s" "same_identity u obj"
proof -
  from assms(1) obtain w1 obj1 old1 obj2 where
    cust: "run_customizer (daApplyCustomizers a) ''apply'' w (config_of a) obj old = (w1, Inr (obj1, old1))" and
    ap: "Apply (dcLookupU dc) (dcConvU dc) ''*unstructured.Unstructured'' (\<lambda>w u. dcApply dc w owner u) (dcConvertU dc) w1 obj1 = (w', obj2, None)" and
    dep: "deployed = Some obj2"
    by (auto simp: apply_object_def split: prod.splits sum.splits option.splits)
  have same: "same_identity obj1 obj"
  proof (cases "daApplyCustomizers a (oGVK obj)")
    case (Some f)
    with cust have "f w (config_of a) obj old = (w1, Inr (obj1, old1))"
      by (auto simp: run_customizer_def split: prod.splits sum.splits)
    with Some assms(2) show ?thesis unfolding identity_kept_def by blast
  qed (use cust in \<open>simp add: run_customizer_def same_identity_def\<close>)
  then have "EnsureGroupVersionKind (dcLookupU dc) obj1 = Inr obj1"
    using assms(4,5) by (simp add: EnsureGroupVersionKind_def GetGroupVersionKindForObject_def same_identity_def)
  with ap assms(3) obtain s where
    "dcApply dc w1 owner (obj1\<lparr>oManagedFields := False, oResourceVersion := '''', oStatus := None\<rparr>) = (w', Inr s)" "obj2 = s"
    by (auto simp: Apply_def ToUnstructured_def plain_conversion_def Let_def split: prod.splits sum.splits)
  with same dep show thesis
    by (intro that[of w1 "obj1\<lparr>oManagedFields := False, oResourceVersion := '''', oStatus := None\<rparr>"]) (auto simp: same_identity_def)
qed

lemma deploy_resource_ssa:
  assumes "deploy_resource dc a rr obj0 current = (w', ot', obj, Inr True)" and "daMode a = ModeSSA"
    and "GetAnnotation obj (daManagedByAnnotation a) \<noteq> ''false''"
    and kept: "identity_kept dc a"
  obtains fo w1 obj' w2 deployed where "resolveFieldOwner dc (config_of a) rr = Inr fo"
    "obj = prepare_resource (config_of a) rr fo obj0" "same_identity obj' obj"
    "apply_object dc a w1 fo obj' current = (w2, Inr deployed)"
    "cache_deployed dc (config_of a) w2 deployed obj = (w', Inr True)"
proof -
  from assms(1) obtain fo where fo: "resolveFieldOwner dc (config_of a) rr = Inr fo"
    by (cases "resolveFieldOwner dc (config_of a) rr") (auto simp: deploy_resource_def Let_def)
  define p where "p = prepare_resource (config_of a) rr fo obj0"
  obtain w1 where skip: "ShouldSkip dc (config_of a) (rrWorld rr) current (Some p) = (w1, Inr False)"
    using assms(1) by (auto simp: deploy_resource_def fo p_def[symmetric] Let_def split: prod.splits sum.splits bool.splits)
  have obj: "obj = p"
    using assms(1) by (auto simp: deploy_resource_def fo skip p_def[symmetric] Let_def split: prod.splits sum.splits if_splits)
  obtain ot1 owned where own: "shouldOwn (rrController rr) (oGVK p) = (ot1, owned)" by fastforce
  from assms(1,3) obj obtain obj' where ctl: "(if owned then dcSetController dc (rrInstance rr) (p\<lparr>oOwnerRefs := []\<rparr>) else Inr p) = Inr obj'"
    by (cases "if owned then dcSetController dc (rrInstance rr) (p\<lparr>oOwnerRefs := []\<rparr>) else Inr p")
       (auto simp: deploy_resource_def fo skip own p_def[symmetric] Let_def)
  have same: "same_identity obj' p"
    using ctl kept by (cases owned) (auto simp: identity_kept_def same_identity_def)
  have "(case write_object dc a w1 fo obj' current of
          (w2, Inl e) \<Rightarrow> (w2, ot1, p, Inl e)
        | (w2, Inr deployed) \<Rightarrow> (case cache_deployed dc (config_of a) w2 deployed p of (w3, r) \<Rightarrow> (w3, ot1, p, r))) = (w', ot', obj, Inr True)"
    using assms(1,3) obj by (simp add: deploy_resource_def fo skip own p_def[symmetric] Let_def ctl)
  then obtain w2 deployed where "apply_object dc a w1 fo obj' current = (w2, Inr deployed)"
    "cache_deployed dc (config_of a) w2 deployed p = (w', Inr True)"
    by (auto simp: write_object_def assms(2) split: prod.splits sum.splits)
  with fo obj p_def same show thesis by (intro that) auto
qed


lemma deploy_resource_cached:
  assumes "cache_Has dc (rrWorld rr) (Some live) (Some obj)" and "daCache a" and "oDeletionTimestamp live = 0"
    and "resolveFieldOwner dc (config_of a) rr = Inr fo" and "obj = prepare_resource (config_of a) rr fo obj0"
  shows "deploy_resource dc a rr obj0 (Some live) = (rrWorld rr, rrController rr, obj, Inr False)"
  using assms by (simp add: deploy_resource_def ShouldSkip_def)

lemma deploy_one_found:
  assumes "dcGet dc (rrWorld rr) (oGVK res) (oNamespace res, oName res) = Inr live" and "oGVK res \<noteq> crdGVK"
    and "RemoveOwnerReferences (dcUpdate dc) (rrWorld rr) live (ownedTypeIsNot (Some (oGVK (rrInstance rr)))) = (w1, cur1, None)"
    and "GetAnnotation cur1 (daManagedByAnnotation a) \<noteq> ''false''"
    and "deploy_resource dc a (rr\<lparr>rrWorld := w1\<rparr>) res (Some cur1) = (w2, ot, res', r)"
  shows "deploy_one dc a rr res = (rr\<lparr>rrWorld := w2, rrController := ot\<rparr>, res', case r of Inl e \<Rightarrow>
    StepFail (ErrWrap (''failure deploying resource '' @ oNamespace res @ ''/'' @ oName res) e) | Inr ok \<Rightarrow> StepOk)"
  unfolding deploy_one_def Let_def assms(1) by (simp add: assms(2-5))

lemma deploy_one_missing:
  assumes "dcGet dc (rrWorld rr) (oGVK res) (oNamespace res, oName res) = Inl nf" and "IsNotFound nf" and "oGVK res \<noteq> crdGVK"
    and "deploy_resource dc a rr res None = (w2, ot, res', r)"
  shows "deploy_one dc a rr res = (rr\<lparr>rrWorld := w2, rrController := ot\<rparr>, res', case r of Inl e \<Rightarrow>
    StepFail (ErrWrap (''failure deploying resource '' @ oNamespace res @ ''/'' @ oName res) e) | Inr ok \<Rightarrow> StepOk)"
  unfolding deploy_one_def Let_def assms(1) by (simp add: assms(2-4))

text \<open>
  C8: deploying is idempotent. Once a resource was deployed by server-side apply with the cache on,
  the cluster holds the object the server returned; as long as the live object is that one, not
  being deleted, not taken over by the user and without owners of another kind, handling the same
  resource again for the same instance succeeds without changing the cluster, the store or the
  request. (Assumed: a read after an apply returns what was applied, the store finds a key it
  added and does not touch the cluster, customizers and SetControllerReference keep the identity
  of the object.)
\<close>

theorem second_deploy_is_noop:
  assumes dep: "deploy_resource dc a rr res current = (w', ot', res', Inr True)"
    and mode: "daMode a = ModeSSA" "daCache a" "GetAnnotation res' (daManagedByAnnotation a) \<noteq> ''false''"
    and kind: "gVersion (oGVK res) \<noteq> ''''" "gKind (oGVK res) \<noteq> ''''" "oGVK res \<noteq> crdGVK"
    and kept: "identity_kept dc a" "plain_conversion dc"
    and read: "\<forall>w owner u w' s. dcApply dc w owner u = (w', Inr s) \<longrightarrow> dcGet dc w' (oGVK u) (oNamespace u, oName u) = Inr s"
    and store: "\<forall>w k. dcStoreHas dc (dcStoreAdd dc w k) k" "\<forall>w k. dcGet dc (dcStoreAdd dc w k) = dcGet dc w"
  shows "\<exists>live. dcGet dc w' (oGVK res) (oNamespace res, oName res) = Inr live \<and>
    (\<forall>rr2. rrWorld rr2 = w' \<and> rrInstance rr2 = rrInstance rr \<and> rrRelease rr2 = rrRelease rr \<and>
       oDeletionTimestamp live = 0 \<and> GetAnnotation live (daManagedByAnnotation a) \<noteq> ''false'' \<and>
       (\<forall>r\<in>set (oOwnerRefs live). ownedTypeIs (Some (oGVK (rrInstance rr))) r) \<longrightarrow>
       deploy_one dc a rr2 res = (rr2, res', StepOk))"
proof -
  obtain fo w1 obj' w2 deployed where
    fo: "resolveFieldOwner dc (config_of a) rr = Inr fo" and res': "res' = prepare_resource (config_of a) rr fo res" and
    same: "same_identity obj' res'" and ap: "apply_object dc a w1 fo obj' current = (w2, Inr deployed)" and
    ch: "cache_deployed dc (config_of a) w2 deployed res' = (w', Inr True)"
    by (rule deploy_resource_ssa[OF dep mode(1,3) kept(1)])
  have nonempty: "gVersion (oGVK obj') \<noteq> ''''" "gKind (oGVK obj') \<noteq> ''''"
    using same res' kind by (auto simp: same_identity_def)
  obtain w0 u s where
    sent: "dcApply dc w0 fo u = (w2, Inr s)" "deployed = Some s" "same_identity u obj'"
    by (rule apply_object_ok[OF ap kept nonempty])
  have w': "w' = dcStoreAdd dc w2 (computeCacheKey (dcDigest dc) s res')"
    using cache_deployed_ok[OF ch] mode(2) sent(2) by auto
  have has: "cache_Has dc w' (Some s) (Some res')" unfolding w' by (rule cache_Has_after_Add[OF store(1)])
  have get: "dcGet dc w' (oGVK res) (oNamespace res, oName res) = Inr s"
  proof -
    have "oGVK u = oGVK res" "oNamespace u = oNamespace res" "oName u = oName res"
      using sent(3) same res' by (simp_all add: same_identity_def)
    with read[rule_format, OF sent(1)] store(2) show ?thesis unfolding w' by simp
  qed
  have "deploy_one dc a rr2 res = (rr2, res', StepOk)"
    if "rrWorld rr2 = w'" "rrInstance rr2 = rrInstance rr" "rrRelease rr2 = rrRelease rr" "oDeletionTimestamp s = 0"
      "GetAnnotation s (daManagedByAnnotation a) \<noteq> ''false''" "\<forall>r\<in>set (oOwnerRefs s). ownedTypeIs (Some (oGVK (rrInstance rr))) r" for rr2
  proof -
    have strip: "RemoveOwnerReferences (dcUpdate dc) (rrWorld rr2) s (ownedTypeIsNot (Some (oGVK (rrInstance rr2)))) = (w', s, None)"
      unfolding that(1,2) using that(6) by (intro RemoveOwnerReferences_no_match) (simp add: ownedType_complement)
    have rr2: "rr2\<lparr>rrWorld := w'\<rparr> = rr2" using that(1) by simp
    have get2: "dcGet dc (rrWorld rr2) (oGVK res) (oNamespace res, oName res) = Inr s" using get that(1) by simp
    have fo2: "resolveFieldOwner dc (config_of a) rr2 = Inr fo" using resolveFieldOwner_cong[OF that(2)] fo by metis
    have res2: "res' = prepare_resource (config_of a) rr2 fo res" using prepare_resource_cong[OF that(2,3)] res' by metis
    from has that(1) have has2: "cache_Has dc (rrWorld rr2) (Some s) (Some res')" by simp
    have dep2: "deploy_resource dc a (rr2\<lparr>rrWorld := w'\<rparr>) res (Some s) = (w', rrController rr2, res', Inr False)"
      using deploy_resource_cached[OF has2 mode(2) that(4) fo2 res2] that(1) unfolding rr2 by simp
    from deploy_one_found[OF get2 kind(3) strip that(5) dep2] that(1) show ?thesis by simp
  qed
  with get show ?thesis by blast
qed

text \<open>
  C36: with patch mode and the cache together, every resource that does not exist yet fails: the
  object is created on the cluster, but the step reports the error of caching a nil object.
\<close>

theorem patch_mode_cache_create_fails:
  assumes mode: "daMode a = ModePatch" "daCache a" "daPatchCustomizers a (oGVK res) = None" and crd: "oGVK res \<noteq> crdGVK"
    and missing: "dcGet dc (rrWorld rr) (oGVK res) (oNamespace res, oName res) = Inl nf" "IsNotFound nf"
    and fo: "resolveFieldOwner dc (config_of a) rr = Inr fo" and obj: "obj = prepare_resource (config_of a) rr fo res"
    and managed: "GetAnnotation obj (daManagedByAnnotation a) \<noteq> ''false''"
    and unowned: "shouldOwn (rrController rr) (oGVK res) = (ot', False)"
    and create: "dcCreate dc (rrWorld rr) obj = (w', Inr stored)"
  shows "deploy_one dc a rr res = (rr\<lparr>rrWorld := w', rrController := ot'\<rparr>, obj,
    StepFail (ErrWrap (''failure deploying resource '' @ oNamespace res @ ''/'' @ oName res)
      (ErrWrap ''failed to cache object'' (ErrNew ''invalid input''))))"
proof -
  have obj_gvk: "oGVK obj = oGVK res" using obj by simp
  have "write_object dc a (rrWorld rr) fo obj None = (w', Inr None)"
    using mode create obj by (simp add: write_object_def patch_object_def run_customizer_def)
  moreover have "ShouldSkip dc (config_of a) (rrWorld rr) None (Some obj) = (rrWorld rr, Inr False)"
    by (simp add: ShouldSkip_def cache_Has_def)
  moreover have "cache_deployed dc (config_of a) w' None obj = (w', Inl (ErrWrap ''failed to cache object'' (ErrNew ''invalid input'')))"
    using mode(2) by (simp add: cache_deployed_def cache_Add_def)
  ultimately have "deploy_resource dc a rr res None = (w', ot', obj, Inl (ErrWrap ''failed to cache object'' (ErrNew ''invalid input'')))"
    unfolding deploy_resource_def Let_def fo sum.case obj[symmetric] by (simp add: managed unowned obj_gvk)
  with deploy_one_missing[where dc = dc and rr = rr and res = res, OF missing crd] show ?thesis by simp
qed


section \<open>Examples\<close>

text \<open>A cluster as the list of its objects, the latest first, with the keys of the store.\<close>

type_synonym ex_cluster = "kobj list \<times> string list"

definition ex_find :: "ex_cluster \<Rightarrow> gvk \<Rightarrow> string \<times> string \<Rightarrow> go_error + kobj" where
  "ex_find w g nn =
     (case filter (\<lambda>ob. oGVK ob = g \<and> oNamespace ob = fst nn \<and> oName ob = snd nn) (fst w) of
        [] \<Rightarrow> Inl (ErrAPI NotFound ''not found'') | ob # _ \<Rightarrow> Inr ob)"

definition ex_put :: "ex_cluster \<Rightarrow> kobj \<Rightarrow> ex_cluster \<times> (go_error + kobj)" where
  "ex_put w u = ((u # fst w, snd w), Inr u)"

definition ex_dc :: "ex_cluster deploy_client" where
  "ex_dc = \<lparr>dcGet = ex_find, dcUpdate = ex_put, dcCreate = ex_put, dcMarshal = \<lambda>u. None,
     dcPatch = \<lambda>w owner old u. ex_put w u, dcApply = \<lambda>w owner u. ex_put w u, dcLookupU = \<lambda>u. Inr (oGVK u),
     dcConvU = Inr, dcConvertU = \<lambda>u v. Inr u, dcLookup = \<lambda>p. Inr (oGVK p), dcSetController = \<lambda>p u. Inr u,
     dcDigest = oName, dcStoreAdd = \<lambda>w k. (fst w, k # snd w), dcStoreHas = \<lambda>w k. k \<in> set (snd w),
     dcStoreDelete = \<lambda>w k. ((fst w, removeAll k (snd w)), None), dcStoreList = \<lambda>w. w\<rparr>"

definition ex_action :: "deploy_mode \<Rightarrow> bool \<Rightarrow> bool \<Rightarrow> ex_cluster deploy_action" where
  "ex_action mode cache cont =
     \<lparr>daFieldOwner = '''', daCrdFieldOwner = PlatformFieldOwner, daMode = mode, daPartOfLabelKey = ''part-of'',
      daDefaultPartOfLabelKey = ''part-of'', daPartOfLabelDefault = ''platform'', daAnnotationPrefix = ''p'',
      daManagedByAnnotation = ''managed'', daLabels = None, daAnnotations = None, daCache = cache,
      daContinueOnError = cont, daSortFn = None, daApplyCustomizers = Map.empty, daPatchCustomizers = Map.empty\<rparr>"

definition ex_cm :: kobj where
  "ex_cm = (GvkToUnstructured (mk_gvk '''' ''v1'' ''ConfigMap''))\<lparr>oNamespace := ''ns'', oName := ''cm''\<rparr>"

lemmas ex_deploy = ex_dc_def ex_action_def ex_cm_def ex_request_def ex_object_def ex_owned_types_def GvkToUnstructured_def

definition ex_taken :: kobj where
  "ex_taken = ex_cm\<lparr>oAnnotations := Some [''managed'' \<mapsto> ''false''], oOwnerRefs := [ex_ref ''a'']\<rparr>"

theorem unmanaged_object_untouched_witness:
  "deploy_one ex_dc (ex_action ModeSSA True False) (ex_request ([ex_taken], [])) ex_cm =
     (ex_request ([ex_taken\<lparr>oOwnerRefs := []\<rparr>, ex_taken], []), ex_cm, StepOk) \<and>
   deploy_one (ex_dc\<lparr>dcCreate := \<lambda>w u. (w, Inl (ErrNew ''no'')), dcApply := \<lambda>w ow u. (w, Inl (ErrNew ''no'')),
       dcPatch := \<lambda>w ow v u. (w, Inl (ErrNew ''no''))\<rparr>) (ex_action ModeSSA True False) (ex_request ([ex_taken], [])) ex_cm =
     (ex_request ([ex_taken\<lparr>oOwnerRefs := []\<rparr>, ex_taken], []), ex_cm, StepOk)"
proof -
  let ?rr = "ex_request ([ex_taken], [])" and ?a = "ex_action ModeSSA True False"
  have get: "dcGet ex_dc (rrWorld ?rr) (oGVK ex_cm) (oNamespace ex_cm, oName ex_cm) = Inr ex_taken"
    by (simp add: ex_find_def ex_taken_def ex_deploy)
  have ann: "GetAnnotation ex_taken (daManagedByAnnotation ?a) = ''false''"
    by (simp add: GetAnnotation_def go_get_def ex_taken_def ex_action_def)
  have upd: "\<forall>w u w' s. dcUpdate ex_dc w u = (w', Inr s) \<longrightarrow> oOwnerRefs s = oOwnerRefs u \<and> oAnnotations s = oAnnotations u"
    by (simp add: ex_dc_def ex_put_def)
  have strip: "strip_owners (dcUpdate ex_dc) (oGVK (rrInstance ?rr)) (rrWorld ?rr) ex_taken =
      (([ex_taken\<lparr>oOwnerRefs := []\<rparr>, ex_taken], []), ex_taken\<lparr>oOwnerRefs := []\<rparr>, None)"
    by (simp add: strip_owners_def RemoveOwnerReferences_def ownedTypeIsNot_def ownedTypeIs_def gv_string_def
        ex_taken_def ex_ref_def ex_put_def Let_def ex_deploy)
  have rr': "?rr\<lparr>rrWorld := ([ex_taken\<lparr>oOwnerRefs := []\<rparr>, ex_taken], [])\<rparr> = ex_request ([ex_taken\<lparr>oOwnerRefs := []\<rparr>, ex_taken], [])"
    by (simp add: ex_request_def)
  show ?thesis
    using unmanaged_object_untouched[OF get ann upd] unfolding strip prod.inject by (auto simp: rr')
qed

lemma ex_second_deploy:
  "\<exists>w' res'. deploy_resource ex_dc (ex_action ModeSSA True False) (ex_request ([], [])) ex_cm None = (w', ex_owned_types, res', Inr True) \<and>
     GetAnnotation res' ''managed'' = '''' \<and> (\<exists>live. fst w' = [live] \<and> oDeletionTimestamp live = 0 \<and> oOwnerRefs live = [] \<and>
       GetAnnotation live ''managed'' = '''')"
  by (simp add: deploy_resource_def resolveFieldOwner_def prepare_resource_def stamp_instance_def KindForObject_def ShouldSkip_def
      cache_Has_def write_object_def apply_object_def run_customizer_def Apply_def ToUnstructured_def EnsureGroupVersionKind_def
      GetGroupVersionKindForObject_def cache_deployed_def cache_Add_def shouldOwn_def Owns_def IsExcludedFromDynamicOwnership_def
      IsDynamicOwnershipEnabled_def config_of_def deploy_config.truncate_def opt_map_def SetLabels_def SetAnnotations_def
      SetAnnotation_def SetLabel_def GetLabel_def GetAnnotation_def go_get_def Let_def ex_put_def ex_deploy)


theorem second_deploy_is_noop_witness:
  "\<exists>w' res'. deploy_resource ex_dc (ex_action ModeSSA True False) (ex_request ([], [])) ex_cm None = (w', ex_owned_types, res', Inr True) \<and>
     deploy_one ex_dc (ex_action ModeSSA True False) (ex_request w') ex_cm = (ex_request w', res', StepOk)"
proof -
  let ?a = "ex_action ModeSSA True False"
  from ex_second_deploy obtain w' res' live where
    dep: "deploy_resource ex_dc ?a (ex_request ([], [])) ex_cm None = (w', ex_owned_types, res', Inr True)" and
    ann: "GetAnnotation res' ''managed'' = ''''" and
    live: "fst w' = [live]" "oDeletionTimestamp live = 0" "oOwnerRefs live = []" "GetAnnotation live ''managed'' = ''''" by blast
  have "identity_kept ex_dc ?a" "plain_conversion ex_dc"
    by (simp_all add: identity_kept_def plain_conversion_def same_identity_def ex_dc_def ex_action_def)
  moreover have "\<forall>w owner u w' s. dcApply ex_dc w owner u = (w', Inr s) \<longrightarrow> dcGet ex_dc w' (oGVK u) (oNamespace u, oName u) = Inr s"
    "\<forall>w k. dcStoreHas ex_dc (dcStoreAdd ex_dc w k) k" "\<forall>w k. dcGet ex_dc (dcStoreAdd ex_dc w k) = dcGet ex_dc w"
    by (auto simp: ex_dc_def ex_put_def ex_find_def fun_eq_iff)
  moreover have "gVersion (oGVK ex_cm) \<noteq> ''''" "gKind (oGVK ex_cm) \<noteq> ''''" "oGVK ex_cm \<noteq> crdGVK"
    by (simp_all add: ex_cm_def GvkToUnstructured_def crdGVK_def)
  moreover have "daMode ?a = ModeSSA" "daCache ?a" "GetAnnotation res' (daManagedByAnnotation ?a) \<noteq> ''false''"
    using ann by (simp_all add: ex_action_def)
  ultimately obtain l where l: "dcGet ex_dc w' (oGVK ex_cm) (oNamespace ex_cm, oName ex_cm) = Inr l"
    and again: "\<forall>rr2. rrWorld rr2 = w' \<and> rrInstance rr2 = rrInstance (ex_request ([], []) :: ex_cluster request) \<and>
      rrRelease rr2 = rrRelease (ex_request ([], []) :: ex_cluster request) \<and>
       oDeletionTimestamp l = 0 \<and> GetAnnotation l (daManagedByAnnotation ?a) \<noteq> ''false'' \<and>
       (\<forall>r\<in>set (oOwnerRefs l). ownedTypeIs (Some (oGVK (rrInstance (ex_request ([], []) :: ex_cluster request)))) r) \<longrightarrow>
       deploy_one ex_dc ?a rr2 ex_cm = (rr2, res', StepOk)"
    using second_deploy_is_noop[OF dep] by blast
  from l live(1) have "l = live" by (auto simp: ex_dc_def ex_find_def split: if_splits)
  with again[rule_format, of "ex_request w'"] live have "deploy_one ex_dc ?a (ex_request w') ex_cm = (ex_request w', res', StepOk)"
    by (simp add: ex_request_def ex_action_def)
  with dep show ?thesis by blast
qed

theorem patch_mode_cache_create_fails_witness:
  "\<exists>obj. deploy_one ex_dc (ex_action ModePatch True False) (ex_request ([], [])) ex_cm =
    (ex_request ([obj], []), obj, StepFail (ErrWrap ''failure deploying resource ns/cm''
      (ErrWrap ''failed to cache object'' (ErrNew ''invalid input''))))"
proof -
  let ?a = "ex_action ModePatch True False" and ?rr = "ex_request ([], []) :: ex_cluster request"
  have mode: "daMode ?a = ModePatch" "daCache ?a" "daPatchCustomizers ?a (oGVK ex_cm) = None" "oGVK ex_cm \<noteq> crdGVK"
    by (simp_all add: ex_action_def crdGVK_def ex_cm_def GvkToUnstructured_def)
  have missing: "dcGet ex_dc (rrWorld ?rr) (oGVK ex_cm) (oNamespace ex_cm, oName ex_cm) = Inl (ErrAPI NotFound ''not found'')"
    "IsNotFound (ErrAPI NotFound ''not found'')"
    by (simp_all add: ex_dc_def ex_find_def ex_request_def IsNotFound_def)
  have fo: "resolveFieldOwner ex_dc (config_of ?a) ?rr = Inr ''dashboard''"
    by (simp add: resolveFieldOwner_def KindForObject_def ex_deploy) code_simp
  define obj where "obj = prepare_resource (config_of ?a) ?rr ''dashboard'' ex_cm"
  have managed: "GetAnnotation obj (daManagedByAnnotation ?a) \<noteq> ''false''"
    by (simp add: obj_def prepare_resource_def stamp_instance_def opt_map_def Let_def config_of_def deploy_config.truncate_def ex_deploy)
       (simp add: GetAnnotation_def)
  have own: "shouldOwn (rrController ?rr) (oGVK ex_cm) = (ex_owned_types, False)"
    by (simp add: shouldOwn_def Owns_def IsExcludedFromDynamicOwnership_def IsDynamicOwnershipEnabled_def ex_request_def ex_owned_types_def)
  have create: "dcCreate ex_dc (rrWorld ?rr) obj = (([obj], []), Inr obj)"
    by (simp add: ex_dc_def ex_put_def ex_request_def)
  have rr': "?rr\<lparr>rrWorld := ([obj], []), rrController := ex_owned_types\<rparr> = ex_request ([obj], [])"
    by (simp add: ex_request_def)
  have name: "oNamespace ex_cm = ''ns''" "oName ex_cm = ''cm''" by (simp_all add: ex_cm_def)
  show ?thesis
    using patch_mode_cache_create_fails[OF mode missing fo obj_def managed own create] unfolding rr' name by auto
qed


section \<open>The loop\<close>

text \<open>What handling the resources one after the other does when nothing ends the loop.\<close>

fun deploy_steps :: "'w deploy_client \<Rightarrow> 'w deploy_action \<Rightarrow> 'w request \<Rightarrow> kobj list \<Rightarrow> 'w request \<times> (kobj \<times> step_result) list" where
  "deploy_steps dc a rr [] = (rr, [])"
| "deploy_steps dc a rr (res # rest) =
     (case deploy_one dc a rr res of (rr', res', st) \<Rightarrow>
        case deploy_steps dc a rr' rest of (rr'', steps) \<Rightarrow> (rr'', (res', st) # steps))"

definition stops :: "'w deploy_action \<Rightarrow> step_result \<Rightarrow> bool" where
  "stops a st = (case st of StepOk \<Rightarrow> False | StepAbort e \<Rightarrow> True | StepFail e \<Rightarrow> \<not> daContinueOnError a)"

fun failures :: "(kobj \<times> step_result) list \<Rightarrow> go_error list" where
  "failures [] = []"
| "failures ((r, StepOk) # xs) = failures xs"
| "failures ((r, StepFail e) # xs) = e # failures xs"
| "failures ((r, StepAbort e) # xs) = e # failures xs"

fun failed_names :: "kobj list \<Rightarrow> (kobj \<times> step_result) list \<Rightarrow> string list" where
  "failed_names (r # rs) ((r', StepOk) # xs) = failed_names rs xs"
| "failed_names (r # rs) ((r', st) # xs) = (oNamespace r @ ''/'' @ oName r) # failed_names rs xs"
| "failed_names _ _ = []"

lemma length_failed_names:
  "deploy_steps dc a rr rs = (rr', steps) \<Longrightarrow> length (failed_names rs steps) = length (failures steps)"
proof (induction rs arbitrary: rr steps)
  case (Cons r rs)
  obtain rr1 res' st where one: "deploy_one dc a rr r = (rr1, res', st)" by (metis prod.exhaust)
  obtain rr2 xs where more: "deploy_steps dc a rr1 rs = (rr2, xs)" by (metis prod.exhaust)
  from Cons.prems one more have "steps = (res', st) # xs" "rr' = rr2" by auto
  with Cons.IH[OF more[unfolded \<open>rr' = rr2\<close>[symmetric]]] show ?case by (cases st) auto
qed simp

lemma deploy_loop_to_end:
  assumes "deploy_steps dc a rr rs = (rrn, steps)" and "\<forall>s\<in>set steps. \<not> stops a (snd s)"
  shows "deploy_loop dc a rr acc rs firstErr failed =
    (rrn\<lparr>rrResources := acc @ map fst steps\<rparr>,
     final_error (case firstErr of None \<Rightarrow> (case failures steps of [] \<Rightarrow> None | e # _ \<Rightarrow> Some e) | Some e \<Rightarrow> Some e)
       (failed @ failed_names rs steps))"
  using assms
proof (induction rs arbitrary: rr steps acc firstErr failed)
  case Nil
  then show ?case by (auto split: option.split)
next
  case (Cons r rs)
  obtain rr1 res' st where one: "deploy_one dc a rr r = (rr1, res', st)" by (metis prod.exhaust)
  obtain rr2 xs where more: "deploy_steps dc a rr1 rs = (rr2, xs)" by (metis prod.exhaust)
  from Cons.prems(1) one more have eq: "steps = (res', st) # xs" "rrn = rr2" by auto
  from Cons.prems(2) eq have rest: "\<forall>s\<in>set xs. \<not> stops a (snd s)" "\<not> stops a st" by auto
  note IH = Cons.IH[OF more[unfolded eq(2)[symmetric]] rest(1)]
  show ?case
  proof (cases st)
    case StepOk
    with one IH show ?thesis unfolding eq(1) StepOk by (cases firstErr) simp_all
  next
    case (StepFail e)
    with rest(2) have "daContinueOnError a" by (simp add: stops_def)
    with one IH show ?thesis unfolding eq(1) StepFail by (cases firstErr) simp_all
  next
    case (StepAbort e)
    with rest(2) show ?thesis by (simp add: stops_def)
  qed
qed

lemma deploy_loop_stopped:
  assumes "deploy_steps dc a rr pre = (rr1, steps)" and "\<forall>s\<in>set steps. \<not> stops a (snd s)"
    and "deploy_one dc a rr1 res = (rr2, res', st)" and "st = StepAbort e \<or> st = StepFail e \<and> \<not> daContinueOnError a"
  shows "deploy_loop dc a rr acc (pre @ res # post) firstErr failed =
    (rr2\<lparr>rrResources := acc @ map fst steps @ res' # post\<rparr>, Some e)"
  using assms(1,2)
proof (induction pre arbitrary: rr steps acc firstErr failed)
  case Nil
  with assms(3,4) show ?case by auto
next
  case (Cons r rs)
  obtain rra r' st' where one: "deploy_one dc a rr r = (rra, r', st')" by (metis prod.exhaust)
  obtain rrb xs where more: "deploy_steps dc a rra rs = (rrb, xs)" by (metis prod.exhaust)
  from Cons.prems(1) one more have eq: "steps = (r', st') # xs" "rr1 = rrb" by auto
  from Cons.prems(2) eq have rest: "\<forall>s\<in>set xs. \<not> stops a (snd s)" "\<not> stops a st'" by auto
  note IH = Cons.IH[OF more[unfolded eq(2)[symmetric]] rest(1)]
  show ?case
    using one IH rest(2) unfolding eq(1) by (cases st') (simp_all add: stops_def)
qed

text \<open>
  C30: the deploy run handles the sorted resources in order. When no step ends it, every resource is
  attempted, the request keeps them as stamped, and the run fails exactly when some resource failed:
  with the first error alone, or with the first error wrapped so that the kinds of error its caller
  looks for (stop, requeue, API reason) are those of the first error. A step ends the run when its
  owner references cannot be removed, even with WithContinueOnError, or when it fails without that
  option; then its error is returned and the later resources are not touched.
\<close>

theorem deploy_run_outcome:
  assumes "\<not> rrSkipDeploy rr"
    and "(case daSortFn a of None \<Rightarrow> Inr (rrResources rr) | Some f \<Rightarrow> f (rrResources rr)) = Inr (pre @ post)"
    and "rr1 = rr\<lparr>rrResources := pre @ post, rrWorld := (if daCache a then dcStoreList dc (rrWorld rr) else rrWorld rr)\<rparr>"
    and "resolveFieldOwner dc (config_of a) rr1 = Inr owner"
    and "deploy_steps dc a rr1 pre = (rrn, steps)" and "\<forall>s\<in>set steps. \<not> stops a (snd s)"
  shows "case post of
      [] \<Rightarrow> \<exists>err. deploy_run dc a rr = (rrn\<lparr>rrResources := map fst steps\<rparr>, err) \<and>
        (case failures steps of
           [] \<Rightarrow> err = None
         | [e] \<Rightarrow> err = Some e
         | e # _ \<Rightarrow> \<exists>w. err = Some w \<and> as_stop w = as_stop e \<and> as_requeue w = as_requeue e \<and> reason_for w = reason_for e)
    | res # rest \<Rightarrow> (\<forall>rr2 res' st e. deploy_one dc a rrn res = (rr2, res', st) \<and>
        (st = StepAbort e \<or> st = StepFail e \<and> \<not> daContinueOnError a) \<longrightarrow>
        deploy_run dc a rr = (rr2\<lparr>rrResources := map fst steps @ res' # rest\<rparr>, Some e))"
proof (cases post)
  case Nil
  have run: "deploy_run dc a rr = deploy_loop dc a rr1 [] pre None []"
    using assms(1,2,4) Nil by (simp add: deploy_run_def Let_def flip: assms(3)[unfolded Nil append_Nil2])
  have len: "length (failed_names pre steps) = length (failures steps)" by (rule length_failed_names[OF assms(5)])
  have "case failures steps of
           [] \<Rightarrow> final_error (case failures steps of [] \<Rightarrow> None | e # _ \<Rightarrow> Some e) (failed_names pre steps) = None
         | [e] \<Rightarrow> final_error (case failures steps of [] \<Rightarrow> None | e # _ \<Rightarrow> Some e) (failed_names pre steps) = Some e
         | e # _ \<Rightarrow> \<exists>w. final_error (case failures steps of [] \<Rightarrow> None | e # _ \<Rightarrow> Some e) (failed_names pre steps) = Some w \<and>
              as_stop w = as_stop e \<and> as_requeue w = as_requeue e \<and> reason_for w = reason_for e"
    using len by (auto split: list.split simp: length_Suc_conv Suc_length_conv)
  with Nil show ?thesis unfolding run deploy_loop_to_end[OF assms(5,6)] by simp
next
  case (Cons res rest)
  have run: "deploy_run dc a rr = deploy_loop dc a rr1 [] (pre @ res # rest) None []"
    using assms(1,2,4) Cons by (simp add: deploy_run_def Let_def flip: assms(3)[unfolded Cons])
  from deploy_loop_stopped[OF assms(5,6), where firstErr = None and failed = "[]" and acc = "[]" and post = rest] Cons
  show ?thesis unfolding run by simp
qed


definition ex_down :: "ex_cluster deploy_client" where
  "ex_down = ex_dc\<lparr>dcGet := \<lambda>w g nn. Inl (ErrAPI Forbidden ''down'')\<rparr>"

lemma ex_down_one:
  "deploy_one ex_down a rr ex_cm = (rr, ex_cm, StepFail (ErrWrap ''failed to lookup object ns/cm'' (ErrAPI Forbidden ''down'')))"
  by (simp add: deploy_one_def ex_down_def ex_cm_def IsNotFound_def Let_def)

theorem deploy_run_outcome_witness:
  "\<exists>w. deploy_run ex_down (ex_action ModeSSA False True) ((ex_request ([], []))\<lparr>rrResources := [ex_cm, ex_cm]\<rparr>) =
     ((ex_request ([], []))\<lparr>rrResources := [ex_cm, ex_cm]\<rparr>, Some w) \<and> reason_for w = Some Forbidden"
proof -
  let ?a = "ex_action ModeSSA False True" and ?rr = "(ex_request ([], []) :: ex_cluster request)\<lparr>rrResources := [ex_cm, ex_cm]\<rparr>"
  let ?e = "ErrWrap ''failed to lookup object ns/cm'' (ErrAPI Forbidden ''down'')"
  have skip: "\<not> rrSkipDeploy ?rr" by (simp add: ex_request_def)
  have srt: "(case daSortFn ?a of None \<Rightarrow> Inr (rrResources ?rr) | Some f \<Rightarrow> f (rrResources ?rr)) = Inr ([ex_cm, ex_cm] @ [])"
    by (simp add: ex_action_def)
  have rr1: "?rr = ?rr\<lparr>rrResources := [ex_cm, ex_cm] @ [], rrWorld := (if daCache ?a then dcStoreList ex_down (rrWorld ?rr) else rrWorld ?rr)\<rparr>"
    by (simp add: ex_action_def ex_request_def)
  have fo: "resolveFieldOwner ex_down (config_of ?a) ?rr = Inr (to_lower ''Dashboard'')"
    by (simp add: resolveFieldOwner_def KindForObject_def ex_down_def ex_deploy)
  have steps: "deploy_steps ex_down ?a ?rr [ex_cm, ex_cm] = (?rr, [(ex_cm, StepFail ?e), (ex_cm, StepFail ?e)])"
    by (simp add: ex_down_one)
  have go: "\<forall>s\<in>set [(ex_cm, StepFail ?e), (ex_cm, StepFail ?e)]. \<not> stops ?a (snd s)" by (simp add: stops_def ex_action_def)
  from deploy_run_outcome[OF skip srt rr1 fo steps go] show ?thesis by auto
qed

end
