(* ===== verification/Rules.thy ===== *)
theory Rules
  imports KObject
begin

text \<open>
  Which API resources the operator may list or delete (\<^verbatim>\<open>framework/rules/rules.go\<close> and its copy
  \<^verbatim>\<open>pkg/controller/gc/authorization.go\<close>), with the resource type of
  \<^verbatim>\<open>framework/resources/resources_types.go\<close>. The discovery filter and \<^verbatim>\<open>schema.ParseGroupVersion\<close> are
  parameters.
\<close>

section \<open>Resources\<close>

record Resource =
  rsGroup :: string
  rsVersion :: string
  rsResource :: string
  rsKind :: string
  rsNamespaced :: bool

definition Resource_GVK :: "Resource \<Rightarrow> gvk" where
  "Resource_GVK r = mk_gvk (rsGroup r) (rsVersion r) (rsKind r)"

definition Resource_String :: "Resource \<Rightarrow> string" where
  "Resource_String r =
     (let gv = (if length (rsGroup r) > 0 then rsGroup r @ ''/'' @ rsVersion r else rsVersion r)
      in join_with '' '' [gv, ''Resource='', rsResource r, ''Kind='', rsKind r])"

definition IsNamespaced :: "Resource \<Rightarrow> bool" where
  "IsNamespaced r = rsNamespaced r"

section \<open>Discovery documents and rules\<close>

record APIResource =
  arName :: string
  arGroup :: string
  arKind :: string
  arNamespaced :: bool
  arVerbs :: "string list"

record APIResourceList =
  alGroupVersion :: string
  alResources :: "APIResource list"

record ResourceRule =
  ruVerbs :: "string list"
  ruAPIGroups :: "string list"
  ruResources :: "string list"
  ruResourceNames :: "string list"

definition VerbAny :: string where "VerbAny = ''*''"
definition ResourceAny :: string where "ResourceAny = ''*''"

text \<open>\<open>review\<close> creates the SelfSubjectRulesReview and returns its resource rules.\<close>

definition RetrieveSelfSubjectRules ::
  "('w \<Rightarrow> string \<Rightarrow> 'w \<times> (go_error + ResourceRule list)) \<Rightarrow> 'w \<Rightarrow> string \<Rightarrow> 'w \<times> (go_error + ResourceRule list)" where
  "RetrieveSelfSubjectRules review w ns =
     (case review w ns of
        (w', Inl e) \<Rightarrow> (w', Inl (ErrWrap (''failed to create SelfSubjectRulesReview for namespace '' @ [CHR 0x27] @ ns @ [CHR 0x27]) e))
      | (w', Inr rules) \<Rightarrow> (w', Inr rules))"

definition IsResourceMatchingRule :: "string \<Rightarrow> APIResource \<Rightarrow> ResourceRule \<Rightarrow> bool" where
  "IsResourceMatchingRule resourceGroup apiRes rule =
     list_ex (\<lambda>ruleGroup.
       if resourceGroup \<noteq> ruleGroup \<and> ruleGroup \<noteq> ResourceAny then False
       else list_ex (\<lambda>ruleResource. arName apiRes = ruleResource \<or> ruleResource = ResourceAny) (ruResources rule))
       (ruAPIGroups rule)"

definition HasPermissions :: "string \<Rightarrow> APIResource \<Rightarrow> ResourceRule list \<Rightarrow> string list \<Rightarrow> bool" where
  "HasPermissions grp apiRes permissionRules requiredVerbs =
     (if length requiredVerbs = 0 then False
      else list_all (\<lambda>requiredVerb.
        list_ex (\<lambda>rule.
          if length (ruResourceNames rule) > 0 then False
          else (List.member (ruVerbs rule) requiredVerb \<or> List.member (ruVerbs rule) VerbAny) \<and>
               IsResourceMatchingRule grp apiRes rule) permissionRules) requiredVerbs)"

text \<open>
  The set of allowed resources is a Go map: \<open>iter\<close> is the order in which it is iterated. The sort
  by name that follows leaves only resources of the same name in that order.
\<close>

fun allowed_in_list ::
  "ResourceRule list \<Rightarrow> string list \<Rightarrow> string \<times> string \<Rightarrow> APIResource list \<Rightarrow> Resource list \<Rightarrow> Resource list" where
  "allowed_in_list rules verbs gv [] acc = acc"
| "allowed_in_list rules verbs gv (a # as) acc =
     (let grp = (if arGroup a = '''' then fst gv else arGroup a)
      in if \<not> HasPermissions grp a rules verbs then allowed_in_list rules verbs gv as acc
         else allowed_in_list rules verbs gv as
           (List.insert \<lparr>rsGroup = fst gv, rsVersion = snd gv, rsResource = arName a, rsKind = arKind a,
              rsNamespaced = arNamespaced a\<rparr> acc))"

fun allowed_in_lists ::
  "(string \<Rightarrow> go_error + string \<times> string) \<Rightarrow> ResourceRule list \<Rightarrow> string list \<Rightarrow> APIResourceList list \<Rightarrow> Resource list \<Rightarrow>
   go_error + Resource list" where
  "allowed_in_lists parse rules verbs [] acc = Inr acc"
| "allowed_in_lists parse rules verbs (l # ls) acc =
     (case parse (alGroupVersion l) of
        Inl e \<Rightarrow> Inl (ErrWrap (''unable to parse group version '' @ [CHR 0x27] @ alGroupVersion l @ [CHR 0x27]) e)
      | Inr gv \<Rightarrow> allowed_in_lists parse rules verbs ls (allowed_in_list rules verbs gv (alResources l) acc))"

definition ComputeAuthorizedResources ::
  "(Resource list \<Rightarrow> Resource list) \<Rightarrow> (string \<Rightarrow> go_error + string \<times> string) \<Rightarrow> APIResourceList list \<Rightarrow>
   ResourceRule list \<Rightarrow> string list \<Rightarrow> go_error + Resource list" where
  "ComputeAuthorizedResources iter parse resourceLists rules requiredVerbs =
     (case allowed_in_lists parse rules requiredVerbs resourceLists [] of
        Inl e \<Rightarrow> Inl e
      | Inr allowed \<Rightarrow>
          Inr (sort_stable_func (\<lambda>a b. cmp_compare (Resource_String a) (Resource_String b)) (iter allowed)))"

definition ListAuthorizedResources ::
  "(string list \<Rightarrow> APIResourceList list \<Rightarrow> APIResourceList list) \<Rightarrow> ('w \<Rightarrow> string \<Rightarrow> 'w \<times> (go_error + ResourceRule list)) \<Rightarrow>
   (Resource list \<Rightarrow> Resource list) \<Rightarrow> (string \<Rightarrow> go_error + string \<times> string) \<Rightarrow> 'w \<Rightarrow> APIResourceList list \<Rightarrow> string \<Rightarrow>
   string list \<Rightarrow> 'w \<times> (go_error + Resource list)" where
  "ListAuthorizedResources filtered review iter parse w apis namespace requiredVerbs =
     (let apiResourceLists = filtered requiredVerbs apis
      in case RetrieveSelfSubjectRules review w namespace of
           (w', Inl e) \<Rightarrow> (w', Inl (ErrWrap ''failure retrieving resource rules'' e))
         | (w', Inr items) \<Rightarrow>
             (case ComputeAuthorizedResources iter parse apiResourceLists items requiredVerbs of
                Inl e \<Rightarrow> (w', Inl (ErrWrap ''failure retrieving authorized resources'' e))
              | Inr result \<Rightarrow> (w', Inr result)))"

section \<open>Lemmas\<close>

text \<open>Resources are compared by name only.\<close>

interpretation by_name: key_comparison "\<lambda>a b. cmp_compare (Resource_String a) (Resource_String b)" Resource_String
  by unfold_locales simp

definition resource_of :: "string \<times> string \<Rightarrow> APIResource \<Rightarrow> Resource" where
  "resource_of gv a = \<lparr>rsGroup = fst gv, rsVersion = snd gv, rsResource = arName a, rsKind = arKind a, rsNamespaced = arNamespaced a\<rparr>"

definition permitted :: "ResourceRule list \<Rightarrow> string list \<Rightarrow> string \<times> string \<Rightarrow> APIResource \<Rightarrow> bool" where
  "permitted rules verbs gv a = HasPermissions (if arGroup a = '''' then fst gv else arGroup a) a rules verbs"

lemma allowed_in_list_set:
  "set (allowed_in_list rules verbs gv as acc) = set acc \<union> resource_of gv ` {a \<in> set as. permitted rules verbs gv a}"
  by (induction as arbitrary: acc) (auto simp: Let_def permitted_def resource_of_def)

lemma allowed_in_list_distinct: "distinct acc \<Longrightarrow> distinct (allowed_in_list rules verbs gv as acc)"
  by (induction as arbitrary: acc) (auto simp: Let_def)

definition list_allows :: "(string \<Rightarrow> go_error + string \<times> string) \<Rightarrow> ResourceRule list \<Rightarrow> string list \<Rightarrow> APIResourceList \<Rightarrow> Resource set" where
  "list_allows parse rules verbs l =
     (case parse (alGroupVersion l) of Inl e \<Rightarrow> {} | Inr gv \<Rightarrow> resource_of gv ` {a \<in> set (alResources l). permitted rules verbs gv a})"

lemma allowed_in_lists_set:
  "allowed_in_lists parse rules verbs ls acc = Inr out \<Longrightarrow> distinct acc \<Longrightarrow> distinct out \<and>
   set out = set acc \<union> (\<Union>l\<in>set ls. list_allows parse rules verbs l)"
proof (induction ls arbitrary: acc)
  case (Cons l ls)
  then obtain gv where gv: "parse (alGroupVersion l) = Inr gv" by (auto split: sum.splits)
  let ?acc = "allowed_in_list rules verbs gv (alResources l) acc"
  have "set ?acc = set acc \<union> list_allows parse rules verbs l"
    by (simp add: allowed_in_list_set list_allows_def gv)
  moreover have "distinct ?acc" by (rule allowed_in_list_distinct[OF Cons.prems(2)])
  moreover have "allowed_in_lists parse rules verbs ls ?acc = Inr out" using Cons.prems(1) gv by simp
  ultimately show ?case using Cons.IH[of ?acc] by (simp add: Un_assoc)
qed simp

text \<open>A rule for named objects never gives a permission on a collection.\<close>

definition rule_grants :: "string \<Rightarrow> APIResource \<Rightarrow> string \<Rightarrow> ResourceRule \<Rightarrow> bool" where
  "rule_grants grp a verb r \<longleftrightarrow> ruResourceNames r = [] \<and> (verb \<in> set (ruVerbs r) \<or> ''*'' \<in> set (ruVerbs r)) \<and>
     (grp \<in> set (ruAPIGroups r) \<or> ''*'' \<in> set (ruAPIGroups r)) \<and> (arName a \<in> set (ruResources r) \<or> ''*'' \<in> set (ruResources r))"

lemma IsResourceMatchingRule_iff:
  "IsResourceMatchingRule grp a r \<longleftrightarrow> (grp \<in> set (ruAPIGroups r) \<or> ''*'' \<in> set (ruAPIGroups r)) \<and>
     (arName a \<in> set (ruResources r) \<or> ''*'' \<in> set (ruResources r))"
proof -
  have "IsResourceMatchingRule grp a r \<longleftrightarrow>
      (\<exists>g\<in>set (ruAPIGroups r). (g = grp \<or> g = ''*'')) \<and> (\<exists>s\<in>set (ruResources r). arName a = s \<or> s = ''*'')"
    unfolding IsResourceMatchingRule_def list_ex_iff ResourceAny_def by (metis (full_types))
  then show ?thesis by auto
qed

lemma HasPermissions_iff:
  "HasPermissions grp a rules verbs \<longleftrightarrow> verbs \<noteq> [] \<and> (\<forall>v\<in>set verbs. \<exists>r\<in>set rules. rule_grants grp a v r)"
  unfolding HasPermissions_def rule_grants_def IsResourceMatchingRule_iff list_ex_iff list_all_iff VerbAny_def List.member_iff
  by auto

end
