(* ===== verification/PkgResources.thy ===== *)
theory PkgResources
  imports Rules
begin

text \<open>
  \<^verbatim>\<open>pkg/resources\<close>: the resource helpers of the root module, written independently of
  \<^verbatim>\<open>framework/resources\<close>. They compute the same results, except that setting no labels or annotations
  leaves a nil map nil.
\<close>

section \<open>Labels and annotations\<close>

definition pkg_SetLabels :: "'a kobj_scheme \<Rightarrow> (string \<times> string) list \<Rightarrow> 'a kobj_scheme" where
  "pkg_SetLabels obj values =
     (if length values = 0 then obj
      else let target = (case oLabels obj of None \<Rightarrow> Map.empty | Some t \<Rightarrow> t)
           in obj\<lparr>oLabels := Some (target ++ map_of values)\<rparr>)"

definition pkg_SetLabel :: "'a kobj_scheme \<Rightarrow> string \<Rightarrow> string \<Rightarrow> 'a kobj_scheme" where
  "pkg_SetLabel obj k v = pkg_SetLabels obj [(k, v)]"

definition pkg_GetLabel :: "'a kobj_scheme \<Rightarrow> string \<Rightarrow> string" where
  "pkg_GetLabel obj k = (case oLabels obj of None \<Rightarrow> '''' | Some l \<Rightarrow> go_get l k)"

definition pkg_HasLabel :: "'a kobj_scheme \<Rightarrow> string \<Rightarrow> bool" where
  "pkg_HasLabel obj k = (case oLabels obj of None \<Rightarrow> False | Some l \<Rightarrow> l k \<noteq> None)"

definition HasLabelWithValue :: "'a kobj_scheme option \<Rightarrow> string \<Rightarrow> string list \<Rightarrow> bool" where
  "HasLabelWithValue ob k values =
     (case ob of None \<Rightarrow> False
      | Some obj \<Rightarrow> (case oLabels obj of None \<Rightarrow> False
          | Some target \<Rightarrow> (case target k of None \<Rightarrow> False | Some val \<Rightarrow> List.member values val)))"

definition pkg_RemoveLabel :: "'a kobj_scheme \<Rightarrow> string \<Rightarrow> 'a kobj_scheme" where
  "pkg_RemoveLabel obj k = (case oLabels obj of None \<Rightarrow> obj | Some l \<Rightarrow> obj\<lparr>oLabels := Some (l(k := None))\<rparr>)"

definition pkg_SetAnnotations :: "'a kobj_scheme \<Rightarrow> (string \<times> string) list \<Rightarrow> 'a kobj_scheme" where
  "pkg_SetAnnotations obj values =
     (if length values = 0 then obj
      else let target = (case oAnnotations obj of None \<Rightarrow> Map.empty | Some t \<Rightarrow> t)
           in obj\<lparr>oAnnotations := Some (target ++ map_of values)\<rparr>)"

definition pkg_SetAnnotation :: "'a kobj_scheme \<Rightarrow> string \<Rightarrow> string \<Rightarrow> 'a kobj_scheme" where
  "pkg_SetAnnotation obj k v = pkg_SetAnnotations obj [(k, v)]"

definition pkg_GetAnnotation :: "'a kobj_scheme \<Rightarrow> string \<Rightarrow> string" where
  "pkg_GetAnnotation obj k = (case oAnnotations obj of None \<Rightarrow> '''' | Some a \<Rightarrow> go_get a k)"

definition pkg_HasAnnotation :: "'a kobj_scheme \<Rightarrow> string \<Rightarrow> bool" where
  "pkg_HasAnnotation obj k = (case oAnnotations obj of None \<Rightarrow> False | Some a \<Rightarrow> a k \<noteq> None)"

definition HasAnnotationWithValue :: "'a kobj_scheme option \<Rightarrow> string \<Rightarrow> string list \<Rightarrow> bool" where
  "HasAnnotationWithValue ob k values =
     (case ob of None \<Rightarrow> False
      | Some obj \<Rightarrow> (case oAnnotations obj of None \<Rightarrow> False
          | Some target \<Rightarrow> (case target k of None \<Rightarrow> False | Some val \<Rightarrow> List.member values val)))"

definition pkg_RemoveAnnotation :: "'a kobj_scheme \<Rightarrow> string \<Rightarrow> 'a kobj_scheme" where
  "pkg_RemoveAnnotation obj k = (case oAnnotations obj of None \<Rightarrow> obj | Some a \<Rightarrow> obj\<lparr>oAnnotations := Some (a(k := None))\<rparr>)"

section \<open>Kinds and names\<close>

definition pkg_KindForObject :: "('a kobj_scheme \<Rightarrow> go_error + gvk) \<Rightarrow> 'a kobj_scheme \<Rightarrow> go_error + string" where
  "pkg_KindForObject lookup obj =
     (if gKind (oGVK obj) \<noteq> '''' then Inr (gKind (oGVK obj))
      else case lookup obj of Inl e \<Rightarrow> Inl (ErrWrap ''failed to get GVK'' e) | Inr g \<Rightarrow> Inr (gKind g))"

definition pkg_GetGroupVersionKindForObject ::
  "('a kobj_scheme \<Rightarrow> go_error + gvk) \<Rightarrow> 'a kobj_scheme option \<Rightarrow> go_error + gvk" where
  "pkg_GetGroupVersionKindForObject lookup ob =
     (case ob of
        None \<Rightarrow> Inl (ErrNew ''nil object'')
      | Some obj \<Rightarrow>
          if gVersion (oGVK obj) \<noteq> '''' \<and> gKind (oGVK obj) \<noteq> '''' then Inr (oGVK obj)
          else case lookup obj of Inl e \<Rightarrow> Inl (ErrWrap ''failed to get GVK'' e) | Inr g \<Rightarrow> Inr g)"

definition pkg_EnsureGroupVersionKind ::
  "('a kobj_scheme \<Rightarrow> go_error + gvk) \<Rightarrow> 'a kobj_scheme \<Rightarrow> go_error + 'a kobj_scheme" where
  "pkg_EnsureGroupVersionKind lookup obj =
     (case pkg_GetGroupVersionKindForObject lookup (Some obj) of Inl e \<Rightarrow> Inl e | Inr g \<Rightarrow> Inr (obj\<lparr>oGVK := g\<rparr>))"

definition pkg_FormatNamespacedName :: "string \<times> string \<Rightarrow> string" where
  "pkg_FormatNamespacedName nn = (if fst nn = '''' then snd nn else fst nn @ ''/'' @ snd nn)"

definition pkg_FormatUnstructuredName :: "'a kobj_scheme \<Rightarrow> string" where
  "pkg_FormatUnstructuredName obj = (if oNamespace obj = '''' then oName obj else oNamespace obj @ ''/'' @ oName obj)"

definition pkg_FormatObjectReference :: "'a kobj_scheme \<Rightarrow> string" where
  "pkg_FormatObjectReference u =
     (let g = gvk_string (oGVK u); name = oName u; ns = oNamespace u
      in if ns \<noteq> '''' then g @ '' '' @ ns @ ''/'' @ name else g @ '' '' @ name)"

section \<open>Owners\<close>

definition pkg_RemoveOwnerReferences ::
  "('w \<Rightarrow> kobj \<Rightarrow> 'w \<times> (go_error + kobj)) \<Rightarrow> 'w \<Rightarrow> kobj \<Rightarrow> (owner_ref \<Rightarrow> bool) \<Rightarrow> 'w \<times> kobj \<times> go_error option" where
  "pkg_RemoveOwnerReferences update w obj pred =
     (let oldRefs = oOwnerRefs obj
      in if length oldRefs = 0 then (w, obj, None)
         else let newRefs = filter (\<lambda>r. \<not> pred r) oldRefs
              in if length newRefs = length oldRefs then (w, obj, None)
                 else let obj' = obj\<lparr>oOwnerRefs := newRefs\<rparr>
                      in case update w obj' of
                           (w', Inl e) \<Rightarrow> (w', obj', Some (ErrWrap
                              (''failed to remove owner references from object '' @ oNamespace obj @ ''/'' @
                               oName obj @ '' with gvk '' @ gvk_string (oGVK obj)) e))
                         | (w', Inr stored) \<Rightarrow> (w', stored, None))"

fun pkg_owned_by :: "(string \<Rightarrow> go_error + string \<times> string) \<Rightarrow> gvk \<Rightarrow> owner_ref list \<Rightarrow> go_error + bool" where
  "pkg_owned_by parse g [] = Inr False"
| "pkg_owned_by parse g (r # rs) =
     (case parse (orAPIVersion r) of
        Inl e \<Rightarrow> Inl e
      | Inr (grp, ver) \<Rightarrow>
          if grp = gGroup g \<and> ver = gVersion g \<and> orKind r = gKind g then Inr True else pkg_owned_by parse g rs)"

definition pkg_IsOwnedByType :: "(string \<Rightarrow> go_error + string \<times> string) \<Rightarrow> 'a kobj_scheme \<Rightarrow> gvk \<Rightarrow> go_error + bool" where
  "pkg_IsOwnedByType parse obj g = pkg_owned_by parse g (oOwnerRefs obj)"

section \<open>Server metadata and writing\<close>

definition pkg_StripServerMetadata :: "kobj option \<Rightarrow> kobj option" where
  "pkg_StripServerMetadata ob = (case ob of None \<Rightarrow> None
     | Some obj \<Rightarrow> Some (obj\<lparr>oUID := '''', oResourceVersion := '''', oGeneration := 0, oManagedFields := False,
         oCreationTimestamp := 0, oDeletionTimestamp := 0, oOwnerRefs := [], oStatus := None\<rparr>))"

definition pkg_Hash :: "(kobj \<Rightarrow> string) \<Rightarrow> kobj \<Rightarrow> string" where
  "pkg_Hash digest obj = digest (obj\<lparr>oUID := '''', oResourceVersion := '''', oDeletionTimestamp := 0, oManagedFields := False,
     oOwnerRefs := [], oStatus := None\<rparr>)"

definition pkg_ToUnstructured :: "('o \<Rightarrow> go_error + kobj) \<Rightarrow> string \<Rightarrow> 'o \<Rightarrow> go_error + kobj" where
  "pkg_ToUnstructured conv tname obj =
     (case conv obj of
        Inl e \<Rightarrow> Inl (ErrWrap (''unable to convert object '' @ tname @ '' to unstructured'') e)
      | Inr u \<Rightarrow> Inr u)"

definition pkg_Apply ::
  "('a kobj_scheme \<Rightarrow> go_error + gvk) \<Rightarrow> ('a kobj_scheme \<Rightarrow> go_error + kobj) \<Rightarrow> string \<Rightarrow>
   ('w \<Rightarrow> kobj \<Rightarrow> 'w \<times> (go_error + kobj)) \<Rightarrow> (kobj \<Rightarrow> 'a kobj_scheme \<Rightarrow> go_error + 'a kobj_scheme) \<Rightarrow>
   'w \<Rightarrow> 'a kobj_scheme \<Rightarrow> 'w \<times> 'a kobj_scheme \<times> go_error option" where
  "pkg_Apply lookup conv tname apply convert w obj =
     (case pkg_EnsureGroupVersionKind lookup obj of
        Inl e \<Rightarrow> (w, obj, Some (ErrWrap ''failed to ensure GVK'' e))
      | Inr obj1 \<Rightarrow>
          (case pkg_ToUnstructured conv tname obj1 of
             Inl e \<Rightarrow> (w, obj1, Some (ErrWrap ''failed to convert resource to unstructured'' e))
           | Inr u0 \<Rightarrow>
               let u = u0\<lparr>oManagedFields := False, oResourceVersion := '''', oStatus := None\<rparr>
               in case apply w u of
                    (w', Inl e) \<Rightarrow> (w', obj1, Some (ErrWrap (''unable to patch '' @ pkg_FormatObjectReference u) e))
                  | (w', Inr u') \<Rightarrow>
                      (case convert u' obj1 of
                         Inl e \<Rightarrow> (w', obj1, Some (ErrWrap ''failed to write modified object'' e))
                       | Inr obj2 \<Rightarrow> (w', obj2, None))))"

definition pkg_ApplyStatus ::
  "('a kobj_scheme \<Rightarrow> go_error + gvk) \<Rightarrow> ('a kobj_scheme \<Rightarrow> go_error + kobj) \<Rightarrow> string \<Rightarrow>
   ('w \<Rightarrow> kobj \<Rightarrow> 'w \<times> (go_error + kobj)) \<Rightarrow> (kobj \<Rightarrow> 'a kobj_scheme \<Rightarrow> go_error + 'a kobj_scheme) \<Rightarrow>
   'w \<Rightarrow> 'a kobj_scheme \<Rightarrow> 'w \<times> 'a kobj_scheme \<times> go_error option" where
  "pkg_ApplyStatus lookup conv tname apply convert w obj =
     (case pkg_EnsureGroupVersionKind lookup obj of
        Inl e \<Rightarrow> (w, obj, Some (ErrWrap ''failed to ensure GVK'' e))
      | Inr obj1 \<Rightarrow>
          (case pkg_ToUnstructured conv tname obj1 of
             Inl e \<Rightarrow> (w, obj1, Some (ErrWrap ''failed to convert resource to unstructured'' e))
           | Inr u0 \<Rightarrow>
               let u = u0\<lparr>oManagedFields := False, oResourceVersion := ''''\<rparr>
               in case apply w u of
                    (w', Inl e) \<Rightarrow>
                      if IsNotFound e then (w', obj1, None)
                      else (w', obj1, Some (ErrWrap (''unable to patch '' @ pkg_FormatObjectReference u @ '' status'') e))
                  | (w', Inr u') \<Rightarrow>
                      (case convert u' obj1 of
                         Inl e \<Rightarrow> (w', obj1, Some (ErrWrap ''failed to write modified object'' e))
                       | Inr obj2 \<Rightarrow> (w', obj2, None))))"

definition pkg_ListAvailableAPIResources :: "(go_error \<Rightarrow> bool) \<Rightarrow> 'l \<times> go_error option \<Rightarrow> go_error + 'l" where
  "pkg_ListAvailableAPIResources group_failed answer =
     (case answer of (items, err) \<Rightarrow>
        (case err of
           Some e \<Rightarrow> if \<not> group_failed e then Inl (ErrWrap ''failure retrieving supported resources'' e) else Inr items
         | None \<Rightarrow> Inr items))"

section \<open>The two modules agree\<close>

named_theorems pkg_agree \<open>root-module helpers as framework helpers\<close>

lemma pkg_metadata_agree [pkg_agree]:
  "pkg_GetLabel obj k = GetLabel obj k" "pkg_GetAnnotation obj k = GetAnnotation obj k"
  "HasLabelWithValue ob k vs = HasLabel ob k vs" "HasAnnotationWithValue ob k vs = HasAnnotation ob k vs"
  "pkg_RemoveLabel obj k = RemoveLabel obj k" "pkg_RemoveAnnotation obj k = RemoveAnnotation obj k"
  "pkg_SetLabel obj k v = fst (SetLabel obj k v)" "pkg_SetAnnotation obj k v = fst (SetAnnotation obj k v)"
  "kvs \<noteq> [] \<Longrightarrow> pkg_SetLabels obj kvs = SetLabels obj (map_of kvs)"
  "kvs \<noteq> [] \<Longrightarrow> pkg_SetAnnotations obj kvs = SetAnnotations obj (map_of kvs)"
  by (simp_all add: pkg_GetLabel_def GetLabel_def pkg_GetAnnotation_def GetAnnotation_def HasLabelWithValue_def HasLabel_def
      HasAnnotationWithValue_def HasAnnotation_def pkg_RemoveLabel_def RemoveLabel_def pkg_RemoveAnnotation_def RemoveAnnotation_def
      pkg_SetLabel_def pkg_SetLabels_def SetLabel_def SetLabels_def pkg_SetAnnotation_def pkg_SetAnnotations_def SetAnnotation_def
      SetAnnotations_def Let_def map_add_def fun_eq_iff split: option.split)

lemma pkg_kind_agree [pkg_agree]:
  "pkg_KindForObject = KindForObject" "pkg_GetGroupVersionKindForObject = GetGroupVersionKindForObject"
  "pkg_EnsureGroupVersionKind = EnsureGroupVersionKind" "pkg_FormatNamespacedName = FormatNamespacedName"
  "pkg_FormatUnstructuredName = FormatUnstructuredName" "pkg_FormatObjectReference = FormatObjectReference"
  unfolding fun_eq_iff pkg_KindForObject_def KindForObject_def pkg_GetGroupVersionKindForObject_def GetGroupVersionKindForObject_def
    pkg_EnsureGroupVersionKind_def EnsureGroupVersionKind_def pkg_FormatNamespacedName_def FormatNamespacedName_def
    pkg_FormatUnstructuredName_def FormatUnstructuredName_def pkg_FormatObjectReference_def FormatObjectReference_def by simp_all

lemma pkg_owned_by_agree [pkg_agree]: "pkg_owned_by parse g rs = owned_by_refs parse g rs"
  by (induction rs) (simp_all split: sum.splits prod.splits)

lemma pkg_owner_agree [pkg_agree]:
  "pkg_RemoveOwnerReferences = RemoveOwnerReferences" "pkg_IsOwnedByType = IsOwnedByType"
  unfolding fun_eq_iff pkg_RemoveOwnerReferences_def RemoveOwnerReferences_def pkg_IsOwnedByType_def IsOwnedByType_def
  by (simp_all add: pkg_owned_by_agree)

lemma pkg_write_agree [pkg_agree]:
  "pkg_StripServerMetadata = StripServerMetadata" "pkg_Hash = Hash" "pkg_ToUnstructured = ToUnstructured"
  "pkg_ListAvailableAPIResources = ListAvailableAPIResources"
  unfolding fun_eq_iff pkg_StripServerMetadata_def StripServerMetadata_def pkg_Hash_def Hash_def hash_view_def pkg_ToUnstructured_def
    ToUnstructured_def pkg_ListAvailableAPIResources_def ListAvailableAPIResources_def by simp_all

lemma pkg_apply_agree [pkg_agree]: "pkg_Apply = Apply" "pkg_ApplyStatus = ApplyStatus"
  unfolding fun_eq_iff pkg_Apply_def Apply_def pkg_ApplyStatus_def ApplyStatus_def pkg_kind_agree pkg_write_agree by simp_all

end
