(* ===== verification/GC.thy ===== *)
theory GC
  imports Rules Reconciler
begin

text \<open>
  The garbage collection action (\<^verbatim>\<open>framework/controller/actions/gc\<close>): which API types are scanned, the
  choice between the Kubernetes and OpenShift views of RBAC kinds, the decision on each object and
  the deletions. Discovery, the rules review, the dynamic client and the label selector are fields of a
  record of functions on the cluster.
\<close>

section \<open>OpenShift aliases of RBAC kinds\<close>

definition kubernetesRBACGroup :: string where
  "kubernetesRBACGroup = ''rbac.authorization.k8s.io''"

definition openShiftAuthorizationGroup :: string where
  "openShiftAuthorizationGroup = ''authorization.openshift.io''"

definition openShiftRBACAliasKinds :: "string list" where
  "openShiftRBACAliasKinds = [''Role'', ''RoleBinding'', ''ClusterRole'', ''ClusterRoleBinding'']"

definition isOpenShiftRBACAlias :: "gvk \<Rightarrow> bool" where
  "isOpenShiftRBACAlias g =
     (if gGroup g \<noteq> openShiftAuthorizationGroup then False else List.member openShiftRBACAliasKinds (gKind g))"

definition isKubernetesRBACAlias :: "gvk \<Rightarrow> bool" where
  "isKubernetesRBACAlias g =
     (if gGroup g \<noteq> kubernetesRBACGroup then False else List.member openShiftRBACAliasKinds (gKind g))"

text \<open>Sets of kinds are Go maps to empty structs, here lists without repetition.\<close>

fun aliasKindsInGroup :: "Resource list \<Rightarrow> string \<Rightarrow> string list" where
  "aliasKindsInGroup [] grp = []"
| "aliasKindsInGroup (r # rs) grp =
     (let kinds = aliasKindsInGroup rs grp; g = Resource_GVK r
      in if gGroup g \<noteq> grp then kinds
         else if List.member openShiftRBACAliasKinds (gKind g) then List.insert (gKind g) kinds else kinds)"

definition preferKubernetesRBACResources :: "Resource list \<Rightarrow> Resource list \<Rightarrow> Resource list" where
  "preferKubernetesRBACResources deletable listable =
     (let deletableKubernetes = aliasKindsInGroup deletable kubernetesRBACGroup
      in if length deletableKubernetes = 0 then deletable
         else
           let listableKubernetes = aliasKindsInGroup listable kubernetesRBACGroup;
               deletableOpenShift = aliasKindsInGroup deletable openShiftAuthorizationGroup;
               listableOpenShift = aliasKindsInGroup listable openShiftAuthorizationGroup;
               preferKubernetes = filter (\<lambda>kind. List.member listableKubernetes kind) deletableKubernetes;
               preferOpenShift = filter (\<lambda>kind. \<not> List.member listableKubernetes kind \<and>
                  List.member deletableOpenShift kind \<and> List.member listableOpenShift kind) deletableKubernetes
           in if length preferKubernetes = 0 \<and> length preferOpenShift = 0 then deletable
              else filter (\<lambda>r. let g = Resource_GVK r
                     in \<not> (isOpenShiftRBACAlias g \<and> List.member preferKubernetes (gKind g)) \<and>
                        \<not> (isKubernetesRBACAlias g \<and> List.member preferOpenShift (gKind g))) deletable)"

section \<open>The cluster\<close>

type_synonym selector = "string \<rightharpoonup> string"

record 'w gc_env =
  geDiscovery :: "'w \<Rightarrow> APIResourceList list \<times> go_error option"
  geGroupFailed :: "go_error \<Rightarrow> bool"
  geReview :: "'w \<Rightarrow> string \<Rightarrow> 'w \<times> (go_error + ResourceRule list)"
  geFilteredBy :: "string list \<Rightarrow> APIResourceList list \<Rightarrow> APIResourceList list"
  geIter :: "Resource list \<Rightarrow> Resource list"
  geParseGV :: "string \<Rightarrow> go_error + string \<times> string"
  geLookup :: "platform_object \<Rightarrow> go_error + gvk"
  geList :: "'w \<Rightarrow> Resource \<Rightarrow> selector \<Rightarrow> go_error + kobj list"
  geDelete :: "'w \<Rightarrow> string \<Rightarrow> kobj \<Rightarrow> 'w \<times> go_error option"

definition IsForbidden :: "go_error \<Rightarrow> bool" where
  "IsForbidden e \<longleftrightarrow> reason_for e = Some Forbidden"

definition IsMethodNotSupported :: "go_error \<Rightarrow> bool" where
  "IsMethodNotSupported e \<longleftrightarrow> reason_for e = Some (OtherReason ''MethodNotAllowed'')"

section \<open>The action\<close>

record 'w gc_action =
  gcPartOfLabelKey :: string
  gcManagedByAnnotation :: string
  gcLabels :: "(string \<times> string) list option"
  gcSelector :: "selector option"
  gcPropagationPolicy :: string
  gcUnremovables :: "gvk set"
  gcObjectPredicateFn :: "'w request \<Rightarrow> kobj \<Rightarrow> go_error + bool"
  gcTypePredicateFn :: "'w request \<Rightarrow> gvk \<Rightarrow> go_error + bool"
  gcOnlyOwned :: bool
  gcNamespaceFn :: "'w request \<Rightarrow> go_error + string"

definition DefaultObjectPredicate :: "string \<Rightarrow> 'w request \<Rightarrow> kobj \<Rightarrow> go_error + bool" where
  "DefaultObjectPredicate annotationPrefix rr obj =
     (if oAnnotations obj = None then Inr False
      else
        let pv = GetAnnotation obj (annotationPrefix @ ''/version'');
            pt = GetAnnotation obj (annotationPrefix @ ''/type'');
            ig = GetAnnotation obj (annotationPrefix @ ''/instance.generation'');
            iu = GetAnnotation obj (annotationPrefix @ ''/instance.uid'')
        in if pv = '''' \<or> pt = '''' \<or> ig = '''' \<or> iu = '''' then Inr True
           else if pv \<noteq> relVersion (rrRelease rr) then Inr True
           else if pt \<noteq> relName (rrRelease rr) then Inr True
           else if iu \<noteq> oUID (rrInstance rr) then Inr True
           else (case parse_int ig of
                   None \<Rightarrow> Inl (ErrWrap ''cannot determine generation'' (atoi_error ig))
                 | Some g \<Rightarrow> Inr (oGeneration (rrInstance rr) \<noteq> g)))"

definition DefaultTypePredicate :: "'w request \<Rightarrow> gvk \<Rightarrow> go_error + bool" where
  "DefaultTypePredicate rr g = Inr True"

definition isUnremovable :: "'w gc_action \<Rightarrow> gvk \<Rightarrow> bool" where
  "isUnremovable a g \<longleftrightarrow> g \<in> gcUnremovables a"

definition isTypeDeletable :: "'w gc_action \<Rightarrow> 'w request \<Rightarrow> gvk \<Rightarrow> go_error + bool" where
  "isTypeDeletable a rr g = (if isUnremovable a g then Inr False else gcTypePredicateFn a rr g)"

definition isObjectDeletable ::
  "(string \<Rightarrow> go_error + string \<times> string) \<Rightarrow> 'w gc_action \<Rightarrow> 'w request \<Rightarrow> gvk \<Rightarrow> kobj \<Rightarrow> go_error + bool" where
  "isObjectDeletable parse a rr igvk obj =
     (if isUnremovable a (oGVK obj) then Inr False
      else if HasAnnotation (Some obj) (gcManagedByAnnotation a) [''false''] then Inr False
      else
        case (if gcOnlyOwned a then IsOwnedByType parse obj igvk else Inr True) of
          Inl e \<Rightarrow> Inl e
        | Inr owned \<Rightarrow> if \<not> owned then Inr False else gcObjectPredicateFn a rr obj)"

definition gc_delete :: "'w gc_env \<Rightarrow> 'w gc_action \<Rightarrow> 'w \<Rightarrow> kobj \<Rightarrow> 'w \<times> go_error option" where
  "gc_delete env a w resource =
     (case geDelete env w (gcPropagationPolicy a) resource of
        (w', None) \<Rightarrow> (w', None)
      | (w', Some e) \<Rightarrow>
          if IsNotFound e then (w', None)
          else (w', Some (ErrWrap (''cannot delete resources gvk: '' @ gvk_string (oGVK resource) @ '', namespace: '' @
                 oNamespace resource @ '', name: '' @ oName resource @ '', reason'') e)))"

fun deleteResources ::
  "'w gc_env \<Rightarrow> 'w gc_action \<Rightarrow> 'w request \<Rightarrow> gvk \<Rightarrow> 'w \<Rightarrow> int \<Rightarrow> kobj list \<Rightarrow> 'w \<times> (go_error + int)" where
  "deleteResources env a rr igvk w deleted [] = (w, Inr deleted)"
| "deleteResources env a rr igvk w deleted (item # items) =
     (case isObjectDeletable (geParseGV env) a rr igvk item of
        Inl e \<Rightarrow> (w, Inl (ErrWrap (''cannot determine if object '' @ oName item @ '' in namespace '' @
           quoted (oNamespace item) @ '' can be deleted'') e))
      | Inr canBeDeleted \<Rightarrow>
          if \<not> canBeDeleted then deleteResources env a rr igvk w deleted items
          else if oDeletionTimestamp item \<noteq> 0 then deleteResources env a rr igvk w deleted items
          else (case gc_delete env a w item of
                  (w', Some e) \<Rightarrow> (w', Inl e)
                | (w', None) \<Rightarrow> deleteResources env a rr igvk w' (deleted + 1) items))"

definition listResources :: "'w gc_env \<Rightarrow> 'w \<Rightarrow> Resource \<Rightarrow> selector \<Rightarrow> go_error + kobj list" where
  "listResources env w res sel =
     (case geList env w res sel of
        Inl e \<Rightarrow> if IsForbidden e \<or> IsMethodNotSupported e \<or> IsNotFound e then Inr [] else Inl e
      | Inr items \<Rightarrow> Inr items)"

definition authorizedResourcesForVerbs ::
  "'w gc_env \<Rightarrow> APIResourceList list \<Rightarrow> ResourceRule list \<Rightarrow> string list \<Rightarrow> go_error + Resource list" where
  "authorizedResourcesForVerbs env apis permissionRules verbs =
     ComputeAuthorizedResources (geIter env) (geParseGV env) (geFilteredBy env verbs apis) permissionRules verbs"

definition selectDeletableTypes ::
  "'w gc_env \<Rightarrow> APIResourceList list \<Rightarrow> ResourceRule list \<Rightarrow> go_error + Resource list" where
  "selectDeletableTypes env apis permissionRules =
     (case authorizedResourcesForVerbs env apis permissionRules [''delete''] of
        Inl e \<Rightarrow> Inl (ErrWrap ''failure computing authorized deletable resources'' e)
      | Inr deletable \<Rightarrow>
          (case authorizedResourcesForVerbs env apis permissionRules [''list''] of
             Inl e \<Rightarrow> Inl (ErrWrap ''failure computing authorized listable resources'' e)
           | Inr listable \<Rightarrow> Inr (preferKubernetesRBACResources deletable listable)))"

definition computeDeletableTypes ::
  "'w gc_env \<Rightarrow> 'w gc_action \<Rightarrow> 'w request \<Rightarrow> 'w \<times> (go_error + Resource list)" where
  "computeDeletableTypes env a rr =
     (let w = rrWorld rr
      in case ListAvailableAPIResources (geGroupFailed env) (geDiscovery env w) of
           Inl e \<Rightarrow> (w, Inl (ErrWrap ''failure discovering resources'' e))
         | Inr res \<Rightarrow>
             (case gcNamespaceFn a rr of
                Inl e \<Rightarrow> (w, Inl (ErrWrap ''unable to compute namespace'' e))
              | Inr ns \<Rightarrow>
                  (case RetrieveSelfSubjectRules (geReview env) w ns of
                     (w', Inl e) \<Rightarrow> (w', Inl (ErrWrap ''failure retrieving resource rules'' e))
                   | (w', Inr permissionRules) \<Rightarrow> (w', selectDeletableTypes env res permissionRules))))"

definition getOrComputeSelector :: "'w gc_action \<Rightarrow> string \<Rightarrow> selector" where
  "getOrComputeSelector a partOf = (case gcSelector a of Some s \<Rightarrow> s | None \<Rightarrow> [gcPartOfLabelKey a \<mapsto> partOf])"

fun gc_types ::
  "'w gc_env \<Rightarrow> 'w gc_action \<Rightarrow> 'w request \<Rightarrow> gvk \<Rightarrow> selector \<Rightarrow> 'w \<Rightarrow> Resource list \<Rightarrow> 'w \<times> go_error option" where
  "gc_types env a rr igvk sel w [] = (w, None)"
| "gc_types env a rr igvk sel w (res # rest) =
     (case isTypeDeletable a rr (Resource_GVK res) of
        Inl e \<Rightarrow> (w, Some (ErrWrap (''cannot determine if resource '' @ Resource_String res @ '' can be deleted'') e))
      | Inr canBeDeleted \<Rightarrow>
          if \<not> canBeDeleted then gc_types env a rr igvk sel w rest
          else (case listResources env w res sel of
                  Inl e \<Rightarrow> (w, Some (ErrWrap (''cannot list child resources '' @ Resource_String res) e))
                | Inr items \<Rightarrow>
                    (case deleteResources env a rr igvk w 0 items of
                       (w', Inl e) \<Rightarrow> (w', Some (ErrWrap ''error processing items to delete'' e))
                     | (w', Inr deleted) \<Rightarrow> gc_types env a rr igvk sel w' rest)))"

definition gc_run :: "'w gc_env \<Rightarrow> 'w gc_action \<Rightarrow> 'w action" where
  "gc_run env a rr =
     (if rrSkipDeploy rr then (rr, None)
      else if \<not> rrGenerated rr then (rr, None)
      else case computeDeletableTypes env a rr of
             (w, Inl e) \<Rightarrow> (rr\<lparr>rrWorld := w\<rparr>, Some (ErrWrap ''unable to refresh collectable resources'' e))
           | (w, Inr items) \<Rightarrow>
               (case GetGroupVersionKindForObject (geLookup env) (Some (rrInstance rr)) of
                  Inl e \<Rightarrow> (rr\<lparr>rrWorld := w\<rparr>, Some e)
                | Inr igvk \<Rightarrow>
                    let controllerName = to_lower (gKind igvk)
                    in case gc_types env a rr igvk (getOrComputeSelector a controllerName) w items of
                         (w', err) \<Rightarrow> (rr\<lparr>rrWorld := w'\<rparr>, err)))"

section \<open>Options\<close>

text \<open>Labels are a Go map; a write replaces the value of a key.\<close>

definition gc_WithLabel :: "string \<Rightarrow> string \<Rightarrow> 'w gc_action \<Rightarrow> 'w gc_action" where
  "gc_WithLabel k v a = a\<lparr>gcLabels := Some (put_pair k v (case gcLabels a of None \<Rightarrow> [] | Some m \<Rightarrow> m))\<rparr>"

definition gc_WithLabels :: "(string \<times> string) list \<Rightarrow> 'w gc_action \<Rightarrow> 'w gc_action" where
  "gc_WithLabels m a = a\<lparr>gcLabels := Some (foldr (\<lambda>(k, v). put_pair k v) m (case gcLabels a of None \<Rightarrow> [] | Some m0 \<Rightarrow> m0))\<rparr>"

definition gc_WithPartOfLabel :: "string \<Rightarrow> 'w gc_action \<Rightarrow> 'w gc_action" where
  "gc_WithPartOfLabel k a = a\<lparr>gcPartOfLabelKey := k\<rparr>"

definition gc_WithManagedByAnnotation :: "string \<Rightarrow> 'w gc_action \<Rightarrow> 'w gc_action" where
  "gc_WithManagedByAnnotation k a = a\<lparr>gcManagedByAnnotation := k\<rparr>"

definition WithUnremovables :: "gvk list \<Rightarrow> 'w gc_action \<Rightarrow> 'w gc_action" where
  "WithUnremovables items a = a\<lparr>gcUnremovables := gcUnremovables a \<union> set items\<rparr>"

definition WithObjectPredicate :: "('w request \<Rightarrow> kobj \<Rightarrow> go_error + bool) option \<Rightarrow> 'w gc_action \<Rightarrow> 'w gc_action" where
  "WithObjectPredicate f a = (case f of None \<Rightarrow> a | Some g \<Rightarrow> a\<lparr>gcObjectPredicateFn := g\<rparr>)"

definition WithTypePredicate :: "('w request \<Rightarrow> gvk \<Rightarrow> go_error + bool) option \<Rightarrow> 'w gc_action \<Rightarrow> 'w gc_action" where
  "WithTypePredicate f a = (case f of None \<Rightarrow> a | Some g \<Rightarrow> a\<lparr>gcTypePredicateFn := g\<rparr>)"

definition WithOnlyCollectOwned :: "bool \<Rightarrow> 'w gc_action \<Rightarrow> 'w gc_action" where
  "WithOnlyCollectOwned v a = a\<lparr>gcOnlyOwned := v\<rparr>"

definition InNamespace :: "string \<Rightarrow> 'w gc_action \<Rightarrow> 'w gc_action" where
  "InNamespace ns a = a\<lparr>gcNamespaceFn := \<lambda>rr. Inr ns\<rparr>"

definition InNamespaceFn :: "('w request \<Rightarrow> go_error + string) option \<Rightarrow> 'w gc_action \<Rightarrow> 'w gc_action" where
  "InNamespaceFn f a = (case f of None \<Rightarrow> a | Some g \<Rightarrow> a\<lparr>gcNamespaceFn := g\<rparr>)"

definition WithDeletePropagationPolicy :: "string \<Rightarrow> 'w gc_action \<Rightarrow> 'w gc_action" where
  "WithDeletePropagationPolicy p a = a\<lparr>gcPropagationPolicy := p\<rparr>"

definition gc_NewAction :: "('w request \<Rightarrow> go_error + string) \<Rightarrow> ('w gc_action \<Rightarrow> 'w gc_action) list \<Rightarrow> 'w gc_action" where
  "gc_NewAction namespaceFn opts =
     (let a = foldl (\<lambda>a f. f a)
            \<lparr>gcPartOfLabelKey = ''platform.opendatahub.io/part-of'', gcManagedByAnnotation = ''opendatahub.io/managed'',
             gcLabels = None, gcSelector = None, gcPropagationPolicy = ''Foreground'',
             gcUnremovables = {mk_gvk ''apiextensions.k8s.io'' ''v1'' ''CustomResourceDefinition'',
                               mk_gvk ''coordination.k8s.io'' ''v1'' ''Lease''},
             gcObjectPredicateFn = DefaultObjectPredicate ''platform.opendatahub.io'',
             gcTypePredicateFn = DefaultTypePredicate, gcOnlyOwned = True, gcNamespaceFn = namespaceFn\<rparr> opts
      in case gcLabels a of
           None \<Rightarrow> a
         | Some m \<Rightarrow> if length m > 0 then a\<lparr>gcSelector := Some (map_of m)\<rparr> else a)"

end
