(* ===== verification/PkgGC.thy ===== *)
theory PkgGC
  imports PkgResources GC
begin

text \<open>
  The garbage collector of the root module (\<^verbatim>\<open>pkg/controller/gc\<close>), a second implementation of the
  collection action that takes its inputs as parameters of each run, and the proof that it does what
  the action does.
\<close>

section \<open>Authorised resources and RBAC aliases\<close>

definition pkg_RetrieveSelfSubjectRules ::
  "('w \<Rightarrow> string \<Rightarrow> 'w \<times> (go_error + ResourceRule list)) \<Rightarrow> 'w \<Rightarrow> string \<Rightarrow> 'w \<times> (go_error + ResourceRule list)" where
  "pkg_RetrieveSelfSubjectRules review w ns =
     (case review w ns of
        (w', Inl e) \<Rightarrow> (w', Inl (ErrWrap (''failed to create SelfSubjectRulesReview for namespace '' @ [CHR 0x27] @ ns @ [CHR 0x27]) e))
      | (w', Inr rules) \<Rightarrow> (w', Inr rules))"

definition pkg_IsResourceMatchingRule :: "string \<Rightarrow> APIResource \<Rightarrow> ResourceRule \<Rightarrow> bool" where
  "pkg_IsResourceMatchingRule resourceGroup apiRes rule =
     list_ex (\<lambda>ruleGroup.
       if resourceGroup \<noteq> ruleGroup \<and> ruleGroup \<noteq> ResourceAny then False
       else list_ex (\<lambda>ruleResource. arName apiRes = ruleResource \<or> ruleResource = ResourceAny) (ruResources rule))
       (ruAPIGroups rule)"

definition pkg_HasPermissions :: "string \<Rightarrow> APIResource \<Rightarrow> ResourceRule list \<Rightarrow> string list \<Rightarrow> bool" where
  "pkg_HasPermissions grp apiRes permissionRules requiredVerbs =
     (if length requiredVerbs = 0 then False
      else list_all (\<lambda>requiredVerb.
        list_ex (\<lambda>rule.
          if length (ruResourceNames rule) > 0 then False
          else (List.member (ruVerbs rule) requiredVerb \<or> List.member (ruVerbs rule) VerbAny) \<and>
               pkg_IsResourceMatchingRule grp apiRes rule) permissionRules) requiredVerbs)"

fun pkg_allowed_in_list ::
  "ResourceRule list \<Rightarrow> string list \<Rightarrow> string \<times> string \<Rightarrow> APIResource list \<Rightarrow> Resource list \<Rightarrow> Resource list" where
  "pkg_allowed_in_list rules verbs gv [] acc = acc"
| "pkg_allowed_in_list rules verbs gv (a # as) acc =
     (let grp = (if arGroup a = '''' then fst gv else arGroup a)
      in if \<not> pkg_HasPermissions grp a rules verbs then pkg_allowed_in_list rules verbs gv as acc
         else pkg_allowed_in_list rules verbs gv as
           (List.insert \<lparr>rsGroup = fst gv, rsVersion = snd gv, rsResource = arName a, rsKind = arKind a,
              rsNamespaced = arNamespaced a\<rparr> acc))"

fun pkg_allowed_in_lists ::
  "(string \<Rightarrow> go_error + string \<times> string) \<Rightarrow> ResourceRule list \<Rightarrow> string list \<Rightarrow> APIResourceList list \<Rightarrow> Resource list \<Rightarrow>
   go_error + Resource list" where
  "pkg_allowed_in_lists parse rules verbs [] acc = Inr acc"
| "pkg_allowed_in_lists parse rules verbs (l # ls) acc =
     (case parse (alGroupVersion l) of
        Inl e \<Rightarrow> Inl (ErrWrap (''unable to parse group version '' @ [CHR 0x27] @ alGroupVersion l @ [CHR 0x27]) e)
      | Inr gv \<Rightarrow> pkg_allowed_in_lists parse rules verbs ls (pkg_allowed_in_list rules verbs gv (alResources l) acc))"

definition pkg_ComputeAuthorizedResources ::
  "(Resource list \<Rightarrow> Resource list) \<Rightarrow> (string \<Rightarrow> go_error + string \<times> string) \<Rightarrow> APIResourceList list \<Rightarrow>
   ResourceRule list \<Rightarrow> string list \<Rightarrow> go_error + Resource list" where
  "pkg_ComputeAuthorizedResources iter parse resourceLists rules requiredVerbs =
     (case pkg_allowed_in_lists parse rules requiredVerbs resourceLists [] of
        Inl e \<Rightarrow> Inl e
      | Inr allowed \<Rightarrow>
          Inr (sort_stable_func (\<lambda>a b. cmp_compare (Resource_String a) (Resource_String b)) (iter allowed)))"

definition pkg_isOpenShiftRBACAlias :: "gvk \<Rightarrow> bool" where
  "pkg_isOpenShiftRBACAlias g =
     (if gGroup g \<noteq> openShiftAuthorizationGroup then False else List.member openShiftRBACAliasKinds (gKind g))"

definition pkg_isKubernetesRBACAlias :: "gvk \<Rightarrow> bool" where
  "pkg_isKubernetesRBACAlias g =
     (if gGroup g \<noteq> kubernetesRBACGroup then False else List.member openShiftRBACAliasKinds (gKind g))"

fun pkg_aliasKindsInGroup :: "Resource list \<Rightarrow> string \<Rightarrow> string list" where
  "pkg_aliasKindsInGroup [] grp = []"
| "pkg_aliasKindsInGroup (r # rs) grp =
     (let kinds = pkg_aliasKindsInGroup rs grp; g = Resource_GVK r
      in if gGroup g \<noteq> grp then kinds
         else if List.member openShiftRBACAliasKinds (gKind g) then List.insert (gKind g) kinds else kinds)"

definition pkg_preferKubernetesRBACResources :: "Resource list \<Rightarrow> Resource list \<Rightarrow> Resource list" where
  "pkg_preferKubernetesRBACResources deletable listable =
     (let deletableKubernetes = pkg_aliasKindsInGroup deletable kubernetesRBACGroup
      in if length deletableKubernetes = 0 then deletable
         else
           let listableKubernetes = pkg_aliasKindsInGroup listable kubernetesRBACGroup;
               deletableOpenShift = pkg_aliasKindsInGroup deletable openShiftAuthorizationGroup;
               listableOpenShift = pkg_aliasKindsInGroup listable openShiftAuthorizationGroup;
               preferKubernetes = filter (\<lambda>kind. List.member listableKubernetes kind) deletableKubernetes;
               preferOpenShift = filter (\<lambda>kind. \<not> List.member listableKubernetes kind \<and>
                  List.member deletableOpenShift kind \<and> List.member listableOpenShift kind) deletableKubernetes
           in if length preferKubernetes = 0 \<and> length preferOpenShift = 0 then deletable
              else filter (\<lambda>r. let g = Resource_GVK r
                     in \<not> (pkg_isOpenShiftRBACAlias g \<and> List.member preferKubernetes (gKind g)) \<and>
                        \<not> (pkg_isKubernetesRBACAlias g \<and> List.member preferOpenShift (gKind g))) deletable)"

definition pkg_authorizedResourcesForVerbs ::
  "'w gc_env \<Rightarrow> APIResourceList list \<Rightarrow> ResourceRule list \<Rightarrow> string list \<Rightarrow> go_error + Resource list" where
  "pkg_authorizedResourcesForVerbs env apis permissionRules verbs =
     pkg_ComputeAuthorizedResources (geIter env) (geParseGV env) (geFilteredBy env verbs apis) permissionRules verbs"

definition pkg_selectDeletableTypes ::
  "'w gc_env \<Rightarrow> APIResourceList list \<Rightarrow> ResourceRule list \<Rightarrow> go_error + Resource list" where
  "pkg_selectDeletableTypes env apis permissionRules =
     (case pkg_authorizedResourcesForVerbs env apis permissionRules [''delete''] of
        Inl e \<Rightarrow> Inl (ErrWrap ''failure computing authorized deletable resources'' e)
      | Inr deletable \<Rightarrow>
          (case pkg_authorizedResourcesForVerbs env apis permissionRules [''list''] of
             Inl e \<Rightarrow> Inl (ErrWrap ''failure computing authorized listable resources'' e)
           | Inr listable \<Rightarrow> Inr (pkg_preferKubernetesRBACResources deletable listable)))"

text \<open>\<^verbatim>\<open>ListAuthorizedResources\<close> retrieves the rules before it filters.\<close>

definition pkg_ListAuthorizedResources ::
  "'w gc_env \<Rightarrow> 'w \<Rightarrow> APIResourceList list \<Rightarrow> string \<Rightarrow> string list \<Rightarrow> 'w \<times> (go_error + Resource list)" where
  "pkg_ListAuthorizedResources env w apis namespace requiredVerbs =
     (case pkg_RetrieveSelfSubjectRules (geReview env) w namespace of
        (w', Inl e) \<Rightarrow> (w', Inl (ErrWrap ''failure retrieving resource rules'' e))
      | (w', Inr items) \<Rightarrow>
          (case pkg_authorizedResourcesForVerbs env apis items requiredVerbs of
             Inl e \<Rightarrow> (w', Inl (ErrWrap ''failure retrieving authorized resources'' e))
           | Inr result \<Rightarrow> (w', Inr result)))"

section \<open>The collector\<close>

text \<open>The clients of a run are present or nil; the cluster they act on is the world.\<close>

record RunParams =
  rpClient :: bool
  rpDynamicClient :: bool
  rpDiscoveryClient :: bool
  rpOwner :: "platform_object option"
  rpVersion :: string
  rpPlatformType :: string

record Collector =
  coObjectPredicateFn :: "RunParams \<Rightarrow> kobj \<Rightarrow> go_error + bool"
  coTypePredicateFn :: "RunParams \<Rightarrow> gvk \<Rightarrow> go_error + bool"
  coNamespaceFn :: "(go_error + string) option"
  coLabels :: "(string \<times> string) list option"
  coSelector :: "selector option"
  coUnremovables :: "gvk set"
  coPropagationPolicy :: string
  coOnlyOwned :: bool
  coMetricsEnabled :: bool

definition errInvalidRunParams :: go_error where
  "errInvalidRunParams = ErrNew ''RunParams requires non-nil Client, DynamicClient, DiscoveryClient, and Owner''"

text \<open>The owner is not nil where the predicate runs.\<close>

definition pkg_DefaultObjectPredicate :: "RunParams \<Rightarrow> kobj \<Rightarrow> go_error + bool" where
  "pkg_DefaultObjectPredicate params obj =
     (if oAnnotations obj = None then Inr False
      else
        let owner = the (rpOwner params);
            pv = pkg_GetAnnotation obj ''platform.opendatahub.io/version'';
            pt = pkg_GetAnnotation obj ''platform.opendatahub.io/type'';
            ig = pkg_GetAnnotation obj ''platform.opendatahub.io/instance.generation'';
            iu = pkg_GetAnnotation obj ''platform.opendatahub.io/instance.uid''
        in if pv = '''' \<or> pt = '''' \<or> ig = '''' \<or> iu = '''' then Inr True
           else if pv \<noteq> rpVersion params then Inr True
           else if pt \<noteq> rpPlatformType params then Inr True
           else if iu \<noteq> oUID owner then Inr True
           else (case parse_int ig of
                   None \<Rightarrow> Inl (ErrWrap ''cannot determine generation'' (atoi_error ig))
                 | Some g \<Rightarrow> Inr (oGeneration owner \<noteq> g)))"

definition pkg_DefaultTypePredicate :: "RunParams \<Rightarrow> gvk \<Rightarrow> go_error + bool" where
  "pkg_DefaultTypePredicate params g = Inr True"

definition resolveNamespace :: "Collector \<Rightarrow> go_error + string" where
  "resolveNamespace c = (case coNamespaceFn c of None \<Rightarrow> Inr '''' | Some r \<Rightarrow> r)"

definition pkg_isUnremovable :: "Collector \<Rightarrow> gvk \<Rightarrow> bool" where
  "pkg_isUnremovable c g \<longleftrightarrow> g \<in> coUnremovables c"

definition pkg_isTypeDeletable :: "Collector \<Rightarrow> RunParams \<Rightarrow> gvk \<Rightarrow> go_error + bool" where
  "pkg_isTypeDeletable c params g = (if pkg_isUnremovable c g then Inr False else coTypePredicateFn c params g)"

definition pkg_isObjectDeletable ::
  "(string \<Rightarrow> go_error + string \<times> string) \<Rightarrow> Collector \<Rightarrow> RunParams \<Rightarrow> gvk \<Rightarrow> kobj \<Rightarrow> go_error + bool" where
  "pkg_isObjectDeletable parse c params ownerGVK obj =
     (if pkg_isUnremovable c (oGVK obj) then Inr False
      else if HasAnnotationWithValue (Some obj) ''opendatahub.io/managed'' [''false''] then Inr False
      else
        case (if coOnlyOwned c then pkg_IsOwnedByType parse obj ownerGVK else Inr True) of
          Inl e \<Rightarrow> Inl e
        | Inr owned \<Rightarrow> if \<not> owned then Inr False else coObjectPredicateFn c params obj)"

definition pkg_delete :: "'w gc_env \<Rightarrow> Collector \<Rightarrow> 'w \<Rightarrow> kobj \<Rightarrow> 'w \<times> go_error option" where
  "pkg_delete env c w resource =
     (case geDelete env w (coPropagationPolicy c) resource of
        (w', None) \<Rightarrow> (w', None)
      | (w', Some e) \<Rightarrow>
          if IsNotFound e then (w', None)
          else (w', Some (ErrWrap (''cannot delete resources gvk: '' @ gvk_string (oGVK resource) @ '', namespace: '' @
                 oNamespace resource @ '', name: '' @ oName resource @ '', reason'') e)))"

text \<open>On an error the collector still returns how many objects it deleted.\<close>

fun pkg_deleteResources ::
  "'w gc_env \<Rightarrow> Collector \<Rightarrow> RunParams \<Rightarrow> gvk \<Rightarrow> 'w \<Rightarrow> int \<Rightarrow> kobj list \<Rightarrow> 'w \<times> int \<times> go_error option" where
  "pkg_deleteResources env c params ownerGVK w deleted [] = (w, deleted, None)"
| "pkg_deleteResources env c params ownerGVK w deleted (item # items) =
     (case pkg_isObjectDeletable (geParseGV env) c params ownerGVK item of
        Inl e \<Rightarrow> (w, deleted, Some (ErrWrap (''cannot determine if object '' @ oName item @ '' in namespace '' @
           quoted (oNamespace item) @ '' can be deleted'') e))
      | Inr canBeDeleted \<Rightarrow>
          if \<not> canBeDeleted then pkg_deleteResources env c params ownerGVK w deleted items
          else if oDeletionTimestamp item \<noteq> 0 then pkg_deleteResources env c params ownerGVK w deleted items
          else (case pkg_delete env c w item of
                  (w', Some e) \<Rightarrow> (w', deleted, Some e)
                | (w', None) \<Rightarrow> pkg_deleteResources env c params ownerGVK w' (deleted + 1) items))"

definition pkg_listResources :: "'w gc_env \<Rightarrow> 'w \<Rightarrow> Resource \<Rightarrow> selector \<Rightarrow> go_error + kobj list" where
  "pkg_listResources env w res sel =
     (case geList env w res sel of
        Inl e \<Rightarrow> if IsForbidden e \<or> IsMethodNotSupported e \<or> IsNotFound e then Inr [] else Inl e
      | Inr items \<Rightarrow> Inr items)"

definition pkg_computeDeletableTypes :: "'w gc_env \<Rightarrow> Collector \<Rightarrow> 'w \<Rightarrow> 'w \<times> (go_error + Resource list)" where
  "pkg_computeDeletableTypes env c w =
     (case pkg_ListAvailableAPIResources (geGroupFailed env) (geDiscovery env w) of
        Inl e \<Rightarrow> (w, Inl (ErrWrap ''failure discovering resources'' e))
      | Inr res \<Rightarrow>
          (case resolveNamespace c of
             Inl e \<Rightarrow> (w, Inl (ErrWrap ''unable to compute namespace'' e))
           | Inr ns \<Rightarrow>
               (case pkg_RetrieveSelfSubjectRules (geReview env) w ns of
                  (w', Inl e) \<Rightarrow> (w', Inl (ErrWrap ''failure retrieving resource rules'' e))
                | (w', Inr permissionRules) \<Rightarrow> (w', pkg_selectDeletableTypes env res permissionRules))))"

definition pkg_getOrComputeSelector :: "Collector \<Rightarrow> string \<Rightarrow> selector" where
  "pkg_getOrComputeSelector c partOf =
     (case coSelector c of Some s \<Rightarrow> s | None \<Rightarrow> [''platform.opendatahub.io/part-of'' \<mapsto> partOf])"

definition collectType ::
  "'w gc_env \<Rightarrow> Collector \<Rightarrow> RunParams \<Rightarrow> gvk \<Rightarrow> 'w \<Rightarrow> Resource \<Rightarrow> selector \<Rightarrow> 'w \<times> go_error option" where
  "collectType env c params ownerGVK w res lo =
     (case pkg_isTypeDeletable c params (Resource_GVK res) of
        Inl e \<Rightarrow> (w, Some (ErrWrap (''cannot determine if resource '' @ Resource_String res @ '' can be deleted'') e))
      | Inr canBeDeleted \<Rightarrow>
          if \<not> canBeDeleted then (w, None)
          else (case pkg_listResources env w res lo of
                  Inl e \<Rightarrow> (w, Some (ErrWrap (''cannot list child resources '' @ Resource_String res) e))
                | Inr listed \<Rightarrow>
                    (case pkg_deleteResources env c params ownerGVK w 0 listed of
                       (w', deleted, Some e) \<Rightarrow> (w', Some (ErrWrap ''error processing items to delete'' e))
                     | (w', deleted, None) \<Rightarrow> (w', None))))"

fun collect_types ::
  "'w gc_env \<Rightarrow> Collector \<Rightarrow> RunParams \<Rightarrow> gvk \<Rightarrow> selector \<Rightarrow> 'w \<Rightarrow> Resource list \<Rightarrow> 'w \<times> go_error option" where
  "collect_types env c params ownerGVK lo w [] = (w, None)"
| "collect_types env c params ownerGVK lo w (res # rest) =
     (case collectType env c params ownerGVK w res lo of
        (w', Some e) \<Rightarrow> (w', Some e)
      | (w', None) \<Rightarrow> collect_types env c params ownerGVK lo w' rest)"

definition pkg_Run :: "'w gc_env \<Rightarrow> Collector \<Rightarrow> 'w \<Rightarrow> RunParams \<Rightarrow> 'w \<times> go_error option" where
  "pkg_Run env c w params =
     (if \<not> rpClient params \<or> \<not> rpDynamicClient params \<or> \<not> rpDiscoveryClient params \<or> rpOwner params = None
      then (w, Some errInvalidRunParams)
      else case pkg_GetGroupVersionKindForObject (geLookup env) (rpOwner params) of
             Inl e \<Rightarrow> (w, Some (ErrWrap ''unable to resolve owner GVK'' e))
           | Inr ownerGVK \<Rightarrow>
               let controllerName = to_lower (gKind ownerGVK)
               in case pkg_computeDeletableTypes env c w of
                    (w', Inl e) \<Rightarrow> (w', Some (ErrWrap ''unable to refresh collectable resources'' e))
                  | (w', Inr items) \<Rightarrow> collect_types env c params ownerGVK (pkg_getOrComputeSelector c controllerName) w' items)"

section \<open>Options\<close>

definition pkg_WithLabel :: "string \<Rightarrow> string \<Rightarrow> Collector \<Rightarrow> Collector" where
  "pkg_WithLabel k v c = c\<lparr>coLabels := Some (put_pair k v (case coLabels c of None \<Rightarrow> [] | Some m \<Rightarrow> m))\<rparr>"

definition pkg_WithLabels :: "(string \<times> string) list \<Rightarrow> Collector \<Rightarrow> Collector" where
  "pkg_WithLabels m c = c\<lparr>coLabels := Some (foldr (\<lambda>(k, v). put_pair k v) m (case coLabels c of None \<Rightarrow> [] | Some m0 \<Rightarrow> m0))\<rparr>"

definition pkg_WithUnremovables :: "gvk list \<Rightarrow> Collector \<Rightarrow> Collector" where
  "pkg_WithUnremovables items c = c\<lparr>coUnremovables := coUnremovables c \<union> set items\<rparr>"

definition pkg_WithObjectPredicate :: "(RunParams \<Rightarrow> kobj \<Rightarrow> go_error + bool) option \<Rightarrow> Collector \<Rightarrow> Collector" where
  "pkg_WithObjectPredicate f c = (case f of None \<Rightarrow> c | Some g \<Rightarrow> c\<lparr>coObjectPredicateFn := g\<rparr>)"

definition pkg_WithTypePredicate :: "(RunParams \<Rightarrow> gvk \<Rightarrow> go_error + bool) option \<Rightarrow> Collector \<Rightarrow> Collector" where
  "pkg_WithTypePredicate f c = (case f of None \<Rightarrow> c | Some g \<Rightarrow> c\<lparr>coTypePredicateFn := g\<rparr>)"

definition pkg_WithOnlyCollectOwned :: "bool \<Rightarrow> Collector \<Rightarrow> Collector" where
  "pkg_WithOnlyCollectOwned v c = c\<lparr>coOnlyOwned := v\<rparr>"

definition pkg_InNamespace :: "string \<Rightarrow> Collector \<Rightarrow> Collector" where
  "pkg_InNamespace ns c = c\<lparr>coNamespaceFn := Some (Inr ns)\<rparr>"

definition pkg_InNamespaceFn :: "(go_error + string) option \<Rightarrow> Collector \<Rightarrow> Collector" where
  "pkg_InNamespaceFn f c = (case f of None \<Rightarrow> c | Some r \<Rightarrow> c\<lparr>coNamespaceFn := Some r\<rparr>)"

definition pkg_WithMetrics :: "Collector \<Rightarrow> Collector" where
  "pkg_WithMetrics c = c\<lparr>coMetricsEnabled := True\<rparr>"

definition pkg_WithDeletePropagationPolicy :: "string \<Rightarrow> Collector \<Rightarrow> Collector" where
  "pkg_WithDeletePropagationPolicy p c = c\<lparr>coPropagationPolicy := p\<rparr>"

definition pkg_New :: "(Collector \<Rightarrow> Collector) list \<Rightarrow> Collector" where
  "pkg_New opts =
     (let c = foldl (\<lambda>c f. f c)
            \<lparr>coObjectPredicateFn = pkg_DefaultObjectPredicate, coTypePredicateFn = pkg_DefaultTypePredicate, coNamespaceFn = None,
             coLabels = None, coSelector = None,
             coUnremovables = {mk_gvk ''apiextensions.k8s.io'' ''v1'' ''CustomResourceDefinition'',
                               mk_gvk ''coordination.k8s.io'' ''v1'' ''Lease''},
             coPropagationPolicy = ''Foreground'', coOnlyOwned = True, coMetricsEnabled = False\<rparr> opts
      in case coLabels c of
           None \<Rightarrow> c
         | Some m \<Rightarrow> if length m > 0 then c\<lparr>coSelector := Some (map_of m)\<rparr> else c)"


section \<open>Agreement with the action\<close>

lemma pkg_rules_agree [pkg_agree]:
  "pkg_RetrieveSelfSubjectRules = RetrieveSelfSubjectRules" "pkg_IsResourceMatchingRule = IsResourceMatchingRule"
  unfolding fun_eq_iff pkg_RetrieveSelfSubjectRules_def RetrieveSelfSubjectRules_def pkg_IsResourceMatchingRule_def
    IsResourceMatchingRule_def by simp_all

lemma pkg_HasPermissions_agree [pkg_agree]: "pkg_HasPermissions = HasPermissions"
  unfolding fun_eq_iff pkg_HasPermissions_def HasPermissions_def pkg_rules_agree by simp

lemma pkg_allowed_agree [pkg_agree]:
  "pkg_allowed_in_list rules verbs gv as acc = allowed_in_list rules verbs gv as acc"
  by (induction as arbitrary: acc) (simp_all add: pkg_HasPermissions_agree)

lemma pkg_allowed_lists_agree [pkg_agree]:
  "pkg_allowed_in_lists parse rules verbs ls acc = allowed_in_lists parse rules verbs ls acc"
  by (induction ls arbitrary: acc) (simp_all add: pkg_allowed_agree split: sum.split)

lemma pkg_aliasKinds_agree [pkg_agree]: "pkg_aliasKindsInGroup rs grp = aliasKindsInGroup rs grp"
  by (induction rs) simp_all

lemma pkg_select_agree [pkg_agree]: "pkg_selectDeletableTypes = selectDeletableTypes"
  unfolding fun_eq_iff pkg_selectDeletableTypes_def selectDeletableTypes_def pkg_authorizedResourcesForVerbs_def
    authorizedResourcesForVerbs_def pkg_ComputeAuthorizedResources_def ComputeAuthorizedResources_def
    pkg_preferKubernetesRBACResources_def preferKubernetesRBACResources_def pkg_isOpenShiftRBACAlias_def isOpenShiftRBACAlias_def
    pkg_isKubernetesRBACAlias_def isKubernetesRBACAlias_def pkg_allowed_lists_agree pkg_aliasKinds_agree by simp

text \<open>A collector and the parameters of a run that stand for an action and a request.\<close>

definition collector_matches :: "Collector \<Rightarrow> RunParams \<Rightarrow> 'w gc_action \<Rightarrow> 'w request \<Rightarrow> bool" where
  "collector_matches c params a rr \<longleftrightarrow>
     coObjectPredicateFn c params = gcObjectPredicateFn a rr \<and> coTypePredicateFn c params = gcTypePredicateFn a rr \<and>
     coNamespaceFn c = Some (gcNamespaceFn a rr) \<and> coSelector c = gcSelector a \<and> coUnremovables c = gcUnremovables a \<and>
     coPropagationPolicy c = gcPropagationPolicy a \<and> coOnlyOwned c = gcOnlyOwned a \<and>
     gcManagedByAnnotation a = ''opendatahub.io/managed'' \<and> gcPartOfLabelKey a = ''platform.opendatahub.io/part-of'' \<and>
     rpClient params \<and> rpDynamicClient params \<and> rpDiscoveryClient params \<and> rpOwner params = Some (rrInstance rr)"

lemma pkg_isObjectDeletable_agree:
  "collector_matches c params a rr \<Longrightarrow> pkg_isObjectDeletable parse c params g ob = isObjectDeletable parse a rr g ob"
  by (simp add: pkg_isObjectDeletable_def isObjectDeletable_def pkg_isUnremovable_def isUnremovable_def collector_matches_def
      pkg_metadata_agree pkg_owner_agree split: sum.split)

lemma pkg_deleteResources_agree:
  assumes "collector_matches c params a rr"
  shows "deleteResources env a rr g w n items =
    (case pkg_deleteResources env c params g w n items of (w', m, None) \<Rightarrow> (w', Inr m) | (w', m, Some e) \<Rightarrow> (w', Inl e))"
proof (induction items arbitrary: w n)
  case (Cons ob items)
  have del: "pkg_delete env c w ob = gc_delete env a w ob"
    using assms by (simp add: pkg_delete_def gc_delete_def collector_matches_def)
  show ?case
    by (simp add: Cons.IH del pkg_isObjectDeletable_agree[OF assms] split: sum.split prod.split option.split)
qed simp

lemma pkg_types_agree:
  assumes "collector_matches c params a rr"
  shows "gc_types env a rr g sel w types = collect_types env c params g sel w types"
proof (induction types arbitrary: w)
  case (Cons res rest)
  have ty: "pkg_isTypeDeletable c params (Resource_GVK res) = isTypeDeletable a rr (Resource_GVK res)"
    using assms by (simp add: pkg_isTypeDeletable_def isTypeDeletable_def pkg_isUnremovable_def isUnremovable_def collector_matches_def)
  have ls: "pkg_listResources env w res sel = listResources env w res sel"
    by (simp add: pkg_listResources_def listResources_def)
  show ?case
    by (simp add: collectType_def ty ls Cons.IH pkg_deleteResources_agree[OF assms] split: sum.split prod.split option.split)
qed simp

lemma pkg_computeDeletableTypes_agree:
  assumes "collector_matches c params a rr"
  shows "pkg_computeDeletableTypes env c (rrWorld rr) = computeDeletableTypes env a rr"
proof -
  have ns: "resolveNamespace c = gcNamespaceFn a rr"
    using assms by (simp add: resolveNamespace_def collector_matches_def)
  show ?thesis
    unfolding pkg_computeDeletableTypes_def computeDeletableTypes_def ns pkg_write_agree pkg_rules_agree pkg_select_agree Let_def ..
qed

lemma defaults_match:
  assumes "rpClient params" "rpDynamicClient params" "rpDiscoveryClient params" "rpOwner params = Some (rrInstance rr)"
    and "rpVersion params = relVersion (rrRelease rr)" and "rpPlatformType params = relName (rrRelease rr)"
  shows "collector_matches (pkg_New [pkg_InNamespace ns]) params (gc_NewAction (\<lambda>_. Inr ns) []) rr"
proof -
  have "pkg_DefaultObjectPredicate params ob = DefaultObjectPredicate ''platform.opendatahub.io'' rr ob" for ob
    using assms by (simp add: pkg_DefaultObjectPredicate_def DefaultObjectPredicate_def pkg_metadata_agree Let_def)
  with assms show ?thesis
    by (simp add: collector_matches_def pkg_New_def gc_NewAction_def pkg_InNamespace_def fun_eq_iff pkg_DefaultTypePredicate_def
        DefaultTypePredicate_def Let_def)
qed

text \<open>
  C6: the root-module collector refines the framework's collection action. Whenever a collector and
  its run parameters stand for the action and the request, a run of the action on a request that is to
  be collected, with a known owner kind, leaves the cluster exactly as the collector does and returns
  the same error; the collector built by default stands for the action built by default.
\<close>

theorem collector_refines_action:
  assumes "collector_matches c params a rr \<or>
      c = pkg_New [pkg_InNamespace ns] \<and> a = gc_NewAction (\<lambda>_. Inr ns) [] \<and> params = \<lparr>rpClient = True, rpDynamicClient = True,
        rpDiscoveryClient = True, rpOwner = Some (rrInstance rr), rpVersion = relVersion (rrRelease rr), rpPlatformType = relName (rrRelease rr)\<rparr>"
    and "\<not> rrSkipDeploy rr" and "rrGenerated rr"
    and "GetGroupVersionKindForObject (geLookup env) (Some (rrInstance rr)) = Inr igvk"
  shows "gc_run env a rr = (case pkg_Run env c (rrWorld rr) params of (w, err) \<Rightarrow> (rr\<lparr>rrWorld := w\<rparr>, err))"
proof -
  have m: "collector_matches c params a rr" using assms(1) defaults_match[of params rr ns] by auto
  have sel: "pkg_getOrComputeSelector c k = getOrComputeSelector a k" for k
    using m by (simp add: pkg_getOrComputeSelector_def getOrComputeSelector_def collector_matches_def split: option.split)
  have owner: "rpOwner params = Some (rrInstance rr)" "rpClient params" "rpDynamicClient params" "rpDiscoveryClient params"
    using m by (simp_all add: collector_matches_def)
  show ?thesis
    by (simp add: gc_run_def pkg_Run_def assms(2-4) owner pkg_kind_agree pkg_computeDeletableTypes_agree[OF m] sel
        pkg_types_agree[OF m] Let_def split: prod.split sum.split)
qed


definition ex_gc_env :: "string list gc_env" where
  "ex_gc_env = \<lparr>geDiscovery = \<lambda>w. ([\<lparr>alGroupVersion = ''v1'', alResources = [\<lparr>arName = ''configmaps'', arGroup = '''', arKind = ''ConfigMap'',
       arNamespaced = True, arVerbs = [''list'', ''delete'']\<rparr>]\<rparr>], None),
     geGroupFailed = \<lambda>e. False, geReview = \<lambda>w ns. (w, Inr [\<lparr>ruVerbs = [''*''], ruAPIGroups = [''*''], ruResources = [''*''], ruResourceNames = []\<rparr>]),
     geFilteredBy = \<lambda>vs l. l, geIter = \<lambda>x. x, geParseGV = \<lambda>s. Inr ('''', s), geLookup = \<lambda>p. Inr (oGVK p),
     geList = \<lambda>w r s. Inr [(GvkToUnstructured (mk_gvk '''' ''v1'' ''ConfigMap''))\<lparr>oName := ''old'', oAnnotations := Some Map.empty,
        oOwnerRefs := [\<lparr>orAPIVersion = ''v1'', orKind = ''Dashboard'', orName = ''default'', orUID = ''u1'', orController = True\<rparr>]\<rparr>],
     geDelete = \<lambda>w p ob. (w @ [oName ob], None)\<rparr>"

definition ex_gc_request :: "'w \<Rightarrow> 'w request" where
  "ex_gc_request w = (ex_request w)\<lparr>rrGenerated := True, rrInstance := ex_object\<lparr>oGVK := mk_gvk '''' ''v1'' ''Dashboard''\<rparr>\<rparr>"

definition ex_params :: RunParams where
  "ex_params = \<lparr>rpClient = True, rpDynamicClient = True, rpDiscoveryClient = True,
     rpOwner = Some (ex_object\<lparr>oGVK := mk_gvk '''' ''v1'' ''Dashboard''\<rparr>), rpVersion = ''1.0.0'', rpPlatformType = ''ODH''\<rparr>"

lemma ex_pkg_Run: "pkg_Run ex_gc_env (pkg_New [pkg_InNamespace ''ns'']) [] ex_params = ([''old''], None)"
  by code_simp

theorem collector_refines_action_witness:
  "gc_run ex_gc_env (gc_NewAction (\<lambda>_. Inr ''ns'') []) (ex_gc_request []) = (ex_gc_request [''old''], None)"
proof -
  let ?rr = "ex_gc_request [] :: string list request"
  have params: "ex_params = \<lparr>rpClient = True, rpDynamicClient = True, rpDiscoveryClient = True, rpOwner = Some (rrInstance ?rr),
      rpVersion = relVersion (rrRelease ?rr), rpPlatformType = relName (rrRelease ?rr)\<rparr>"
    by (simp add: ex_params_def ex_gc_request_def ex_request_def)
  have "\<not> rrSkipDeploy ?rr" "rrGenerated ?rr" by (simp_all add: ex_gc_request_def ex_request_def)
  moreover have "GetGroupVersionKindForObject (geLookup ex_gc_env) (Some (rrInstance ?rr)) = Inr (mk_gvk '''' ''v1'' ''Dashboard'')"
    by (simp add: GetGroupVersionKindForObject_def ex_gc_request_def)
  ultimately have "gc_run ex_gc_env (gc_NewAction (\<lambda>_. Inr ''ns'') []) ?rr =
      (case pkg_Run ex_gc_env (pkg_New [pkg_InNamespace ''ns'']) (rrWorld ?rr) ex_params of (w, err) \<Rightarrow> (?rr\<lparr>rrWorld := w\<rparr>, err))"
    by (intro collector_refines_action[where ns = "''ns''"]) (use params in simp_all)
  moreover have "rrWorld ?rr = []" "?rr\<lparr>rrWorld := [''old'']\<rparr> = ex_gc_request [''old'']"
    by (simp_all add: ex_gc_request_def ex_request_def)
  ultimately show ?thesis using ex_pkg_Run by simp
qed

end
