(* ===== verification/GC_Correct.thy ===== *)
theory GC_Correct
  imports PkgGC Deploy
begin

text \<open>
  Correctness of garbage collection: what it deletes, that it never deletes what the deploy action
  stamped for the current instance, and that every RBAC kind is collected through one API view.
\<close>

section \<open>Observing deletions\<close>

text \<open>The cluster with a log of the objects whose deletion was asked for.\<close>

definition logged :: "'w gc_env \<Rightarrow> ('w \<times> kobj list) gc_env" where
  "logged env = \<lparr>geDiscovery = \<lambda>w. geDiscovery env (fst w), geGroupFailed = geGroupFailed env,
     geReview = \<lambda>w ns. (case geReview env (fst w) ns of (w', r) \<Rightarrow> ((w', snd w), r)),
     geFilteredBy = geFilteredBy env, geIter = geIter env, geParseGV = geParseGV env, geLookup = geLookup env,
     geList = \<lambda>w. geList env (fst w),
     geDelete = \<lambda>w p ob. (case geDelete env (fst w) p ob of (w', r) \<Rightarrow> ((w', snd w @ [ob]), r))\<rparr>"

lemma logged_sel [simp]:
  "geParseGV (logged env) = geParseGV env" "geLookup (logged env) = geLookup env" "geList (logged env) w = geList env (fst w)"
  "geDelete (logged env) w p ob = (case geDelete env (fst w) p ob of (w', r) \<Rightarrow> ((w', snd w @ [ob]), r))"
  "geReview (logged env) w ns = (case geReview env (fst w) ns of (w', r) \<Rightarrow> ((w', snd w), r))"
  by (simp_all add: logged_def)

text \<open>The objects that may be deleted.\<close>

definition doomed :: "(string \<Rightarrow> go_error + string \<times> string) \<Rightarrow> 'w gc_action \<Rightarrow> 'w request \<Rightarrow> gvk \<Rightarrow> kobj \<Rightarrow> bool" where
  "doomed parse a rr igvk ob \<longleftrightarrow> isObjectDeletable parse a rr igvk ob = Inr True \<and> oDeletionTimestamp ob = 0"

lemma doomed_cases:
  assumes "doomed parse a rr igvk ob"
  shows "oGVK ob \<notin> gcUnremovables a" and "GetAnnotation ob (gcManagedByAnnotation a) \<noteq> ''false''"
    and "gcOnlyOwned a \<longrightarrow> IsOwnedByType parse ob igvk = Inr True" and "gcObjectPredicateFn a rr ob = Inr True"
    and "oDeletionTimestamp ob = 0"
  using assms unfolding doomed_def isObjectDeletable_def
  by (auto simp: isUnremovable_def HasAnnotation_def GetAnnotation_def go_get_def split: if_splits sum.splits option.splits)

lemma gc_delete_logged:
  "gc_delete (logged env) a w ob = (w', r) \<Longrightarrow> snd w' = snd w @ [ob]"
  by (auto simp: gc_delete_def split: prod.splits option.splits if_splits)

lemma deleteResources_log:
  assumes "deleteResources (logged env) a rr igvk w n items = (w', r)"
  shows "\<exists>dels. snd w' = snd w @ dels \<and> set dels \<subseteq> {ob \<in> set items. doomed (geParseGV env) a rr igvk ob} \<and>
    (\<forall>m. r = Inr m \<longrightarrow> dels = filter (doomed (geParseGV env) a rr igvk) items \<and> m = n + int (length dels))"
  using assms
proof (induction items arbitrary: w n)
  case (Cons ob items)
  let ?D = "isObjectDeletable (geParseGV env) a rr igvk ob"
  show ?case
  proof (cases "doomed (geParseGV env) a rr igvk ob")
    case False
    show ?thesis
    proof (cases ?D)
      case (Inl e)
      with Cons.prems show ?thesis by auto
    next
      case (Inr b)
      with False Cons.prems have "deleteResources (logged env) a rr igvk w n items = (w', r)"
        by (auto simp: doomed_def split: if_splits)
      from Cons.IH[OF this] False show ?thesis by auto
    qed
  next
    case True
    obtain w1 e1 where del: "gc_delete (logged env) a w ob = (w1, e1)" by fastforce
    from gc_delete_logged[OF del] have log: "snd w1 = snd w @ [ob]" .
    show ?thesis
    proof (cases e1)
      case (Some e)
      with Cons.prems True del log show ?thesis by (intro exI[of _ "[ob]"]) (auto simp: doomed_def)
    next
      case None
      with Cons.prems True del have "deleteResources (logged env) a rr igvk w1 (n + 1) items = (w', r)"
        by (auto simp: doomed_def)
      from Cons.IH[OF this] obtain dels where dels: "snd w' = snd w1 @ dels"
        "set dels \<subseteq> {ob \<in> set items. doomed (geParseGV env) a rr igvk ob}"
        "\<forall>m. r = Inr m \<longrightarrow> dels = filter (doomed (geParseGV env) a rr igvk) items \<and> m = n + 1 + int (length dels)" by blast
      with True log show ?thesis by (intro exI[of _ "ob # dels"]) auto
    qed
  qed
qed auto

lemma gc_types_log:
  assumes "gc_types (logged env) a rr igvk sel w types = (w', err)"
  shows "\<exists>dels. snd w' = snd w @ dels \<and> (\<forall>ob\<in>set dels. doomed (geParseGV env) a rr igvk ob)"
  using assms
proof (induction types arbitrary: w)
  case (Cons res rest)
  show ?case
  proof (cases "isTypeDeletable a rr (Resource_GVK res) = Inr True \<and> (\<exists>items. listResources (logged env) w res sel = Inr items)")
    case False
    with Cons show ?thesis by (auto split: sum.splits if_splits)
  next
    case True
    then obtain items where items: "isTypeDeletable a rr (Resource_GVK res) = Inr True"
      "listResources (logged env) w res sel = Inr items" by blast
    obtain w1 r1 where del: "deleteResources (logged env) a rr igvk w 0 items = (w1, r1)" by fastforce
    from deleteResources_log[OF del] obtain d1 where
      d1: "snd w1 = snd w @ d1" "\<forall>ob\<in>set d1. doomed (geParseGV env) a rr igvk ob" by blast
    show ?thesis
    proof (cases r1)
      case (Inl e)
      with Cons.prems items del d1 show ?thesis by auto
    next
      case (Inr m)
      with Cons.prems items del have "gc_types (logged env) a rr igvk sel w1 rest = (w', err)" by simp
      from Cons.IH[OF this] obtain d2 where "snd w' = snd w1 @ d2" "\<forall>ob\<in>set d2. doomed (geParseGV env) a rr igvk ob" by blast
      with d1 show ?thesis by (intro exI[of _ "d1 @ d2"]) auto
    qed
  qed
qed simp

lemma computeDeletableTypes_log:
  "computeDeletableTypes (logged env) a rr = (w', r) \<Longrightarrow> snd w' = snd (rrWorld rr)"
  by (auto simp: computeDeletableTypes_def RetrieveSelfSubjectRules_def Let_def split: sum.splits prod.splits)

lemma gc_run_log:
  assumes "gc_run (logged env) a rr = (rr', err)"
  shows "\<exists>dels. snd (rrWorld rr') = snd (rrWorld rr) @ dels \<and> (\<forall>ob\<in>set dels. \<exists>igvk.
    GetGroupVersionKindForObject (geLookup env) (Some (rrInstance rr)) = Inr igvk \<and> doomed (geParseGV env) a rr igvk ob)"
proof (cases "rrSkipDeploy rr \<or> \<not> rrGenerated rr")
  case True
  with assms show ?thesis by (auto simp: gc_run_def split: if_splits)
next
  case False
  obtain w r where types: "computeDeletableTypes (logged env) a rr = (w, r)" by fastforce
  note same = computeDeletableTypes_log[OF types]
  show ?thesis
  proof (cases "\<exists>items igvk. r = Inr items \<and> GetGroupVersionKindForObject (geLookup env) (Some (rrInstance rr)) = Inr igvk")
    case no: False
    with assms False types same show ?thesis by (auto simp: gc_run_def split: sum.splits)
  next
    case True
    then obtain items igvk where ok: "r = Inr items" "GetGroupVersionKindForObject (geLookup env) (Some (rrInstance rr)) = Inr igvk"
      by blast
    obtain w2 e2 where run: "gc_types (logged env) a rr igvk (getOrComputeSelector a (to_lower (gKind igvk))) w items = (w2, e2)"
      by fastforce
    with assms False types ok have "rrWorld rr' = w2" by (auto simp: gc_run_def)
    with gc_types_log[OF run] same ok(2) show ?thesis by auto
  qed
qed

section \<open>Deploy and garbage collection\<close>

text \<open>What the deploy action stamps is what the default predicate reads.\<close>

lemma stamp_instance_annotations:
  assumes "p = daAnnotationPrefix c"
  shows "GetAnnotation (stamp_instance c rr ob) (p @ ''/version'') = relVersion (rrRelease rr)"
    "GetAnnotation (stamp_instance c rr ob) (p @ ''/type'') = relName (rrRelease rr)"
    "GetAnnotation (stamp_instance c rr ob) (p @ ''/instance.generation'') = itoa (oGeneration (rrInstance rr))"
    "GetAnnotation (stamp_instance c rr ob) (p @ ''/instance.uid'') = oUID (rrInstance rr)"
    "GetAnnotation (stamp_instance c rr ob) (p @ ''/instance.name'') = oName (rrInstance rr)"
    "oAnnotations (stamp_instance c rr ob) \<noteq> None"
  using assms by (simp_all add: stamp_instance_def Let_def) (simp add: SetAnnotation_def Let_def)

lemma itoa_nonempty [simp]: "itoa n \<noteq> ''''"
proof -
  have "nat_str k \<noteq> ''''" for k by (subst nat_str.simps) simp
  then show ?thesis by (simp add: itoa_def)
qed

definition carries_stamp :: "string \<Rightarrow> kobj \<Rightarrow> kobj \<Rightarrow> bool" where
  "carries_stamp p ob ref \<longleftrightarrow> (\<forall>k\<in>{''/version'', ''/type'', ''/instance.generation'', ''/instance.uid''}.
     GetAnnotation ob (p @ k) = GetAnnotation ref (p @ k))"

definition released :: "'w request \<Rightarrow> bool" where
  "released rr \<longleftrightarrow> relVersion (rrRelease rr) \<noteq> '''' \<and> relName (rrRelease rr) \<noteq> '''' \<and> oUID (rrInstance rr) \<noteq> '''' \<and>
     in_int64 (oGeneration (rrInstance rr))"

lemma stamp_predicate:
  assumes "released rr0" and "carries_stamp (daAnnotationPrefix c) ob (stamp_instance c rr0 ob0)"
  shows "DefaultObjectPredicate (daAnnotationPrefix c) rr ob =
    Inr (relVersion (rrRelease rr) \<noteq> relVersion (rrRelease rr0) \<or> relName (rrRelease rr) \<noteq> relName (rrRelease rr0) \<or>
         oUID (rrInstance rr) \<noteq> oUID (rrInstance rr0) \<or> oGeneration (rrInstance rr) \<noteq> oGeneration (rrInstance rr0))"
proof -
  have "oAnnotations ob \<noteq> None"
    using assms stamp_instance_annotations(1)[OF refl, of c rr0 ob0]
    by (cases "oAnnotations ob") (simp_all add: carries_stamp_def released_def GetAnnotation_def[of ob])
  with assms show ?thesis
    by (auto simp: DefaultObjectPredicate_def carries_stamp_def released_def stamp_instance_annotations[OF refl] parse_int_itoa Let_def)
qed

text \<open>
  C20: the annotations written at deploy time are read back by garbage collection. For an object that
  carries what deploy stamped during some reconciliation, the default predicate never fails and calls
  the object stale exactly when the release name, the release version, the identity or the generation
  of the instance is no longer the one of that reconciliation.
\<close>

theorem gc_reads_deploy_stamp:
  assumes "released rr0" and "carries_stamp (daAnnotationPrefix c) ob (stamp_instance c rr0 ob0)"
  shows "DefaultObjectPredicate (daAnnotationPrefix c) rr ob =
    Inr (relVersion (rrRelease rr) \<noteq> relVersion (rrRelease rr0) \<or> relName (rrRelease rr) \<noteq> relName (rrRelease rr0) \<or>
         oUID (rrInstance rr) \<noteq> oUID (rrInstance rr0) \<or> oGeneration (rrInstance rr) \<noteq> oGeneration (rrInstance rr0))"
  using assms by (rule stamp_predicate)

text \<open>
  C3: a garbage collection run, whatever its outcome, asks for the deletion of an object only when its
  kind is removable, it is not marked as unmanaged, it is owned by the kind of the instance (unless
  configured otherwise), it is not already being deleted and the object predicate calls it stale. With
  the default predicate it never deletes an object that the deploy action stamped for the current
  instance, generation and release.
\<close>

theorem gc_deletes_only_stale:
  assumes "gc_run (logged env) a rr = (rr', err)"
  shows "\<exists>dels. snd (rrWorld rr') = snd (rrWorld rr) @ dels \<and> (\<forall>ob\<in>set dels.
      oGVK ob \<notin> gcUnremovables a \<and> GetAnnotation ob (gcManagedByAnnotation a) \<noteq> ''false'' \<and>
      (gcOnlyOwned a \<longrightarrow> (\<exists>igvk. GetGroupVersionKindForObject (geLookup env) (Some (rrInstance rr)) = Inr igvk \<and>
          IsOwnedByType (geParseGV env) ob igvk = Inr True)) \<and>
      oDeletionTimestamp ob = 0 \<and> gcObjectPredicateFn a rr ob = Inr True \<and>
      (\<forall>c rr0 ob0. gcObjectPredicateFn a = DefaultObjectPredicate (daAnnotationPrefix c) \<and> released rr0 \<and>
         rrRelease rr0 = rrRelease rr \<and> oUID (rrInstance rr0) = oUID (rrInstance rr) \<and>
         oGeneration (rrInstance rr0) = oGeneration (rrInstance rr) \<longrightarrow>
         \<not> carries_stamp (daAnnotationPrefix c) ob (stamp_instance c rr0 ob0)))"
proof -
  obtain dels where log: "snd (rrWorld rr') = snd (rrWorld rr) @ dels"
    and doom: "\<forall>ob\<in>set dels. \<exists>igvk. GetGroupVersionKindForObject (geLookup env) (Some (rrInstance rr)) = Inr igvk \<and>
      doomed (geParseGV env) a rr igvk ob"
    using gc_run_log[OF assms] by blast
  show ?thesis
  proof (rule exI[of _ dels], intro conjI ballI log)
    fix ob assume "ob \<in> set dels"
    with doom obtain igvk where g: "GetGroupVersionKindForObject (geLookup env) (Some (rrInstance rr)) = Inr igvk"
      and d: "doomed (geParseGV env) a rr igvk ob" by blast
    note c = doomed_cases[OF d]
    show "oGVK ob \<notin> gcUnremovables a" "GetAnnotation ob (gcManagedByAnnotation a) \<noteq> ''false''" "oDeletionTimestamp ob = 0"
      "gcObjectPredicateFn a rr ob = Inr True" by (rule c(1), rule c(2), rule c(5), rule c(4))
    show "gcOnlyOwned a \<longrightarrow> (\<exists>igvk. GetGroupVersionKindForObject (geLookup env) (Some (rrInstance rr)) = Inr igvk \<and>
        IsOwnedByType (geParseGV env) ob igvk = Inr True)" using c(3) g by blast
    show "\<forall>c rr0 ob0. gcObjectPredicateFn a = DefaultObjectPredicate (daAnnotationPrefix c) \<and> released rr0 \<and>
         rrRelease rr0 = rrRelease rr \<and> oUID (rrInstance rr0) = oUID (rrInstance rr) \<and>
         oGeneration (rrInstance rr0) = oGeneration (rrInstance rr) \<longrightarrow>
         \<not> carries_stamp (daAnnotationPrefix c) ob (stamp_instance c rr0 ob0)"
    proof (intro allI impI notI)
      fix c rr0 ob0
      assume same: "gcObjectPredicateFn a = DefaultObjectPredicate (daAnnotationPrefix c) \<and> released rr0 \<and>
           rrRelease rr0 = rrRelease rr \<and> oUID (rrInstance rr0) = oUID (rrInstance rr) \<and>
           oGeneration (rrInstance rr0) = oGeneration (rrInstance rr)"
        and stamp: "carries_stamp (daAnnotationPrefix c) ob (stamp_instance c rr0 ob0)"
      from stamp_predicate[of rr0 c ob ob0 rr] same stamp c(4) show False by simp
    qed
  qed
qed


section \<open>The set of scanned types\<close>

text \<open>
  the authorised resources are exactly the discovered ones for which every required verb is granted
  by some rule on the whole collection (a rule restricted to named objects grants nothing), each once
  and in the order of their names, whatever order the Go map is iterated in.
\<close>

theorem authorized_resources_exact:
  assumes "ComputeAuthorizedResources iter parse apis rules verbs = Inr out"
    and "\<forall>xs. mset (iter xs) = mset xs"
  shows "distinct out \<and> sorted (map Resource_String out) \<and> set out =
    {r. \<exists>l\<in>set apis. \<exists>gv. parse (alGroupVersion l) = Inr gv \<and> (\<exists>a\<in>set (alResources l).
       r = resource_of gv a \<and> verbs \<noteq> [] \<and> (\<forall>v\<in>set verbs. \<exists>ru\<in>set rules.
         rule_grants (if arGroup a = '''' then fst gv else arGroup a) a v ru))}"
proof -
  from assms(1) obtain allowed where al: "allowed_in_lists parse rules verbs apis [] = Inr allowed"
    and out: "out = sort_stable_func (\<lambda>a b. cmp_compare (Resource_String a) (Resource_String b)) (iter allowed)"
    by (auto simp: ComputeAuthorizedResources_def split: sum.splits)
  from allowed_in_lists_set[OF al] have allowed: "distinct allowed" "set allowed = (\<Union>l\<in>set apis. list_allows parse rules verbs l)"
    by simp_all
  have "mset out = mset allowed" unfolding out using assms(2) by simp
  then have "distinct out" "set out = set allowed"
    using allowed(1) by (metis mset_eq_imp_distinct_iff, metis mset_eq_setD)
  moreover have "sorted (map Resource_String out)" unfolding out by (rule by_name.sorted_result)
  moreover have "set allowed = {r. \<exists>l\<in>set apis. \<exists>gv. parse (alGroupVersion l) = Inr gv \<and> (\<exists>a\<in>set (alResources l).
       r = resource_of gv a \<and> permitted rules verbs gv a)}"
    unfolding allowed(2) by (fastforce simp: list_allows_def split: sum.splits)
  ultimately show ?thesis by (simp add: permitted_def HasPermissions_iff)
qed

lemma aliasKinds_set:
  "set (aliasKindsInGroup rs grp) = rsKind ` {r \<in> set rs. rsGroup r = grp} \<inter> set openShiftRBACAliasKinds"
  by (induction rs) (auto simp: Let_def Resource_GVK_def)

definition offers :: "Resource list \<Rightarrow> string \<Rightarrow> string \<Rightarrow> bool" where
  "offers rs grp kind \<longleftrightarrow> (\<exists>r\<in>set rs. rsGroup r = grp \<and> rsKind r = kind)"

definition reachable_through :: "Resource list \<Rightarrow> Resource list \<Rightarrow> string \<Rightarrow> string \<Rightarrow> bool" where
  "reachable_through deletable listable grp kind \<longleftrightarrow> offers deletable grp kind \<and> offers listable grp kind"

lemma groups_differ [simp]: "kubernetesRBACGroup \<noteq> openShiftAuthorizationGroup" "openShiftAuthorizationGroup \<noteq> kubernetesRBACGroup"
  by (simp_all add: kubernetesRBACGroup_def openShiftAuthorizationGroup_def)

definition dropped :: "Resource list \<Rightarrow> Resource list \<Rightarrow> Resource \<Rightarrow> bool" where
  "dropped deletable listable r \<longleftrightarrow> rsKind r \<in> set openShiftRBACAliasKinds \<and> offers deletable kubernetesRBACGroup (rsKind r) \<and>
     (rsGroup r = openShiftAuthorizationGroup \<and> offers listable kubernetesRBACGroup (rsKind r) \<or>
      rsGroup r = kubernetesRBACGroup \<and> \<not> offers listable kubernetesRBACGroup (rsKind r) \<and>
      reachable_through deletable listable openShiftAuthorizationGroup (rsKind r))"

lemma aliasKinds_member:
  "k \<in> set (aliasKindsInGroup rs grp) \<longleftrightarrow> offers rs grp k \<and> k \<in> set openShiftRBACAliasKinds"
  by (auto simp: aliasKinds_set offers_def)

lemma prefer_is_filter:
  "preferKubernetesRBACResources deletable listable = filter (\<lambda>r. \<not> dropped deletable listable r) deletable"
proof -
  let ?ks = "aliasKindsInGroup deletable kubernetesRBACGroup"
  have none: "filter (\<lambda>r. \<not> dropped deletable listable r) deletable = deletable"
    if "\<forall>r\<in>set deletable. \<not> dropped deletable listable r" using that by simp
  have in_ks: "dropped deletable listable r \<Longrightarrow> rsKind r \<in> set ?ks" for r by (auto simp: dropped_def aliasKinds_member)
  define pk where "pk = filter (\<lambda>kind. List.member (aliasKindsInGroup listable kubernetesRBACGroup) kind) ?ks"
  define po where "po = filter (\<lambda>kind. \<not> List.member (aliasKindsInGroup listable kubernetesRBACGroup) kind \<and>
     List.member (aliasKindsInGroup deletable openShiftAuthorizationGroup) kind \<and>
     List.member (aliasKindsInGroup listable openShiftAuthorizationGroup) kind) ?ks"
  have pk: "k \<in> set pk \<longleftrightarrow> k \<in> set openShiftRBACAliasKinds \<and> reachable_through deletable listable kubernetesRBACGroup k" for k
    by (auto simp: pk_def aliasKinds_member reachable_through_def)
  have po: "k \<in> set po \<longleftrightarrow> k \<in> set openShiftRBACAliasKinds \<and> offers deletable kubernetesRBACGroup k \<and>
      \<not> offers listable kubernetesRBACGroup k \<and> reachable_through deletable listable openShiftAuthorizationGroup k" for k
    by (auto simp: po_def aliasKinds_member reachable_through_def)
  have test: "(\<not> (isOpenShiftRBACAlias (Resource_GVK r) \<and> List.member pk (gKind (Resource_GVK r))) \<and>
      \<not> (isKubernetesRBACAlias (Resource_GVK r) \<and> List.member po (gKind (Resource_GVK r)))) = (\<not> dropped deletable listable r)" for r
    by (auto simp: isOpenShiftRBACAlias_def isKubernetesRBACAlias_def Resource_GVK_def pk po dropped_def reachable_through_def)
  have eq: "preferKubernetesRBACResources deletable listable =
      (if length ?ks = 0 then deletable else if length pk = 0 \<and> length po = 0 then deletable
       else filter (\<lambda>r. \<not> dropped deletable listable r) deletable)"
    unfolding preferKubernetesRBACResources_def Let_def pk_def[symmetric] po_def[symmetric] test ..
  have "dropped deletable listable r \<Longrightarrow> length pk \<noteq> 0 \<or> length po \<noteq> 0" for r
    using test[of r] by auto
  with in_ks have "dropped deletable listable r \<Longrightarrow> length ?ks \<noteq> 0 \<and> (length pk \<noteq> 0 \<or> length po \<noteq> 0)" for r by fastforce
  then show ?thesis unfolding eq using none by (metis (full_types))
qed


text \<open>
  the scanned types are the deletable ones less some views of aliased RBAC kinds; every other type
  is kept. Of an aliased kind that Kubernetes RBAC lets the operator delete and that can be listed
  through some deletable view, exactly one of the two views is kept, and it is one that can be both
  listed and deleted. A kind that could be collected before the choice still can.
\<close>

theorem rbac_alias_one_view:
  assumes "out = preferKubernetesRBACResources deletable listable"
  shows "set out \<subseteq> set deletable \<and>
    (\<forall>r\<in>set deletable. rsKind r \<notin> set openShiftRBACAliasKinds \<or>
       rsGroup r \<notin> {kubernetesRBACGroup, openShiftAuthorizationGroup} \<longrightarrow> r \<in> set out) \<and>
    (\<forall>k\<in>set openShiftRBACAliasKinds. offers deletable kubernetesRBACGroup k \<and>
       (\<exists>g\<in>{kubernetesRBACGroup, openShiftAuthorizationGroup}. reachable_through deletable listable g k) \<longrightarrow>
       (\<exists>!g. g \<in> {kubernetesRBACGroup, openShiftAuthorizationGroup} \<and> offers out g k) \<and>
       (\<forall>g\<in>{kubernetesRBACGroup, openShiftAuthorizationGroup}. offers out g k \<longrightarrow> reachable_through deletable listable g k)) \<and>
    (\<forall>g k. reachable_through deletable listable g k \<longrightarrow> (\<exists>g'. reachable_through out listable g' k))"
proof -
  let ?K = kubernetesRBACGroup and ?O = openShiftAuthorizationGroup
  have out: "out = filter (\<lambda>r. \<not> dropped deletable listable r) deletable" unfolding assms by (rule prefer_is_filter)
  have K: "offers out ?K k \<longleftrightarrow> offers deletable ?K k \<and>
      (k \<in> set openShiftRBACAliasKinds \<longrightarrow> offers listable ?K k \<or> \<not> reachable_through deletable listable ?O k)" for k
    unfolding out offers_def by (auto simp: dropped_def offers_def)
  have O: "offers out ?O k \<longleftrightarrow> offers deletable ?O k \<and>
      (k \<in> set openShiftRBACAliasKinds \<longrightarrow> \<not> (offers deletable ?K k \<and> offers listable ?K k))" for k
    unfolding out offers_def by (auto simp: dropped_def offers_def)
  have other: "g \<noteq> ?K \<Longrightarrow> g \<noteq> ?O \<Longrightarrow> offers out g k = offers deletable g k" for g k
    unfolding out offers_def by (auto simp: dropped_def)
  have one: "\<exists>!g. g \<in> {?K, ?O} \<and> offers out g k"
    if "k \<in> set openShiftRBACAliasKinds" "offers deletable ?K k" "\<exists>g\<in>{?K, ?O}. reachable_through deletable listable g k" for k
    using that K[of k] O[of k] groups_differ unfolding reachable_through_def by (metis (full_types) insert_iff singletonD)
  have two: "\<forall>g\<in>{?K, ?O}. offers out g k \<longrightarrow> reachable_through deletable listable g k"
    if "k \<in> set openShiftRBACAliasKinds" "offers deletable ?K k" "\<exists>g\<in>{?K, ?O}. reachable_through deletable listable g k" for k
    using that K[of k] O[of k] by (auto simp: reachable_through_def)
  have three: "\<exists>g'. reachable_through out listable g' k" if "reachable_through deletable listable g k" for g k
    using that K[of k] O[of k] other[of g k] unfolding reachable_through_def by metis
  have four: "set out \<subseteq> set deletable" unfolding out by auto
  have five: "r \<in> set out" if "r \<in> set deletable" "rsKind r \<notin> set openShiftRBACAliasKinds \<or> rsGroup r \<notin> {?K, ?O}" for r
    using that unfolding out by (auto simp: dropped_def)
  show ?thesis
    by (rule conjI[OF four], rule conjI, (intro ballI impI, erule (1) five), rule conjI,
        (intro ballI impI, elim conjE, rule conjI, erule (2) one, erule (2) two), (intro allI impI, erule three))
qed


section \<open>Examples\<close>

definition ex_config :: deploy_config where
  "ex_config = \<lparr>daFieldOwner = '''', daCrdFieldOwner = '''', daMode = ModeSSA, daPartOfLabelKey = ''part-of'', daDefaultPartOfLabelKey = ''part-of'',
     daPartOfLabelDefault = ''platform'', daAnnotationPrefix = ''platform.opendatahub.io'', daManagedByAnnotation = ''managed'',
     daLabels = None, daAnnotations = None, daCache = False, daContinueOnError = False\<rparr>"

theorem gc_reads_deploy_stamp_witness:
  "DefaultObjectPredicate ''platform.opendatahub.io'' (ex_gc_request ())
     (stamp_instance ex_config (ex_gc_request ()) (GvkToUnstructured (mk_gvk '''' ''v1'' ''ConfigMap''))) = Inr False"
proof -
  have "released (ex_gc_request () :: unit request)"
    by (simp add: released_def ex_gc_request_def ex_request_def ex_object_def in_int64_def)
  then have "DefaultObjectPredicate (daAnnotationPrefix ex_config) (ex_gc_request () :: unit request)
      (stamp_instance ex_config (ex_gc_request () :: unit request) (GvkToUnstructured (mk_gvk '''' ''v1'' ''ConfigMap''))) = Inr False"
    by (subst gc_reads_deploy_stamp) (simp_all add: carries_stamp_def)
  then show ?thesis by (simp add: ex_config_def)
qed

definition ex_gc_run :: "(string list \<times> kobj list) request \<times> go_error option" where
  "ex_gc_run = gc_run (logged ex_gc_env) (gc_NewAction (\<lambda>_. Inr ''ns'') []) (ex_gc_request ([], []))"

theorem gc_deletes_only_stale_witness:
  "map oName (snd (rrWorld (fst ex_gc_run))) = [''old''] \<and>
   list_all (\<lambda>ob. DefaultObjectPredicate ''platform.opendatahub.io''
      (ex_gc_request ([], []) :: (string list \<times> kobj list) request) ob = Inr True) (snd (rrWorld (fst ex_gc_run)))"
proof
  show "map oName (snd (rrWorld (fst ex_gc_run))) = [''old'']" by code_simp
  have run: "gc_run (logged ex_gc_env) (gc_NewAction (\<lambda>_. Inr ''ns'') []) (ex_gc_request ([], [])) = (fst ex_gc_run, snd ex_gc_run)"
    by (simp add: ex_gc_run_def)
  have start: "snd (rrWorld (ex_gc_request ([], []) :: (string list \<times> kobj list) request)) = []"
    by (simp add: ex_gc_request_def ex_request_def)
  have "gcObjectPredicateFn (gc_NewAction (\<lambda>_. Inr ''ns'') [] :: (string list \<times> kobj list) gc_action) =
      DefaultObjectPredicate ''platform.opendatahub.io''" by (simp add: gc_NewAction_def)
  with gc_deletes_only_stale[OF run] start
  show "list_all (\<lambda>ob. DefaultObjectPredicate ''platform.opendatahub.io''
      (ex_gc_request ([], []) :: (string list \<times> kobj list) request) ob = Inr True) (snd (rrWorld (fst ex_gc_run)))"
    by (auto simp: list_all_iff)
qed

definition ex_roles :: "string \<Rightarrow> Resource" where
  "ex_roles g = \<lparr>rsGroup = g, rsVersion = ''v1'', rsResource = ''roles'', rsKind = ''Role'', rsNamespaced = True\<rparr>"

theorem rbac_alias_one_view_witness:
  "\<exists>!g. g \<in> {kubernetesRBACGroup, openShiftAuthorizationGroup} \<and>
     offers (preferKubernetesRBACResources [ex_roles openShiftAuthorizationGroup, ex_roles kubernetesRBACGroup]
       [ex_roles openShiftAuthorizationGroup]) g ''Role''"
proof -
  let ?d = "[ex_roles openShiftAuthorizationGroup, ex_roles kubernetesRBACGroup]" and ?l = "[ex_roles openShiftAuthorizationGroup]"
  have role: "''Role'' \<in> set openShiftRBACAliasKinds" by (simp add: openShiftRBACAliasKinds_def)
  have both: "offers ?d kubernetesRBACGroup ''Role'' \<and>
      (\<exists>g\<in>{kubernetesRBACGroup, openShiftAuthorizationGroup}. reachable_through ?d ?l g ''Role'')"
    by (simp add: offers_def reachable_through_def ex_roles_def)
  note views = rbac_alias_one_view[OF refl, of ?d ?l, THEN conjunct2, THEN conjunct2, THEN conjunct1]
  show ?thesis by (rule views[THEN bspec, OF role, THEN mp, OF both, THEN conjunct1])
qed

theorem authorized_resources_exact_witness:
  "\<exists>out. ComputeAuthorizedResources rev (\<lambda>s. Inr ('''', s))
     [\<lparr>alGroupVersion = ''v1'', alResources = [\<lparr>arName = ''pods'', arGroup = '''', arKind = ''Pod'', arNamespaced = True, arVerbs = []\<rparr>]\<rparr>]
     [\<lparr>ruVerbs = [''list''], ruAPIGroups = [''''], ruResources = [''pods''], ruResourceNames = []\<rparr>] [''list''] = Inr out \<and>
     distinct out \<and> sorted (map Resource_String out) \<and>
     set out = {\<lparr>rsGroup = '''', rsVersion = ''v1'', rsResource = ''pods'', rsKind = ''Pod'', rsNamespaced = True\<rparr>}"
proof -
  let ?apis = "[\<lparr>alGroupVersion = ''v1'', alResources = [\<lparr>arName = ''pods'', arGroup = '''', arKind = ''Pod'', arNamespaced = True, arVerbs = []\<rparr>]\<rparr>]"
  let ?rules = "[\<lparr>ruVerbs = [''list''], ruAPIGroups = [''''], ruResources = [''pods''], ruResourceNames = []\<rparr>]"
  have "isl (ComputeAuthorizedResources rev (\<lambda>s. Inr ('''', s)) ?apis ?rules [''list'']) = False" by code_simp
  then obtain out where out: "ComputeAuthorizedResources rev (\<lambda>s. Inr ('''', s)) ?apis ?rules [''list''] = Inr out"
    by (cases "ComputeAuthorizedResources rev (\<lambda>s. Inr ('''', s)) ?apis ?rules [''list'']") auto
  from authorized_resources_exact[OF out] out show ?thesis by (auto simp: resource_of_def rule_grants_def)
qed

end
