(* ===== verification/PkgDeploy.thy ===== *)
theory PkgDeploy
  imports PkgGC Deploy
begin

text \<open>
  The deployer of the root module (\<^verbatim>\<open>pkg/deploy\<close>), a second implementation of the deploy action that takes
  its inputs as parameters of each call: the cache (\<^verbatim>\<open>cache.go\<close>), merging of live values
  (\<^verbatim>\<open>merge.go\<close>), reverting drift (\<^verbatim>\<open>drift.go\<close>) and deploying (\<^verbatim>\<open>deploy.go\<close>). The API client, the store and
  the nested-field helpers are the parameters of the deploy action.
\<close>

section \<open>Merging\<close>

definition pkg_extractContainers :: "nested_ops \<Rightarrow> fields \<Rightarrow> string list \<Rightarrow> go_error + json list" where
  "pkg_extractContainers ops obj path =
     (case nGet ops obj path of
        Inl e \<Rightarrow> Inl e
      | Inr None \<Rightarrow> Inr []
      | Inr (Some raw) \<Rightarrow>
          if raw = JNull then Inr [] else (case raw of JList cs \<Rightarrow> Inr cs | _ \<Rightarrow> Inl ErrFieldNotSlice))"

fun pkg_buildResourceMap :: "(string \<rightharpoonup> json) \<Rightarrow> json list \<Rightarrow> (string \<rightharpoonup> json)" where
  "pkg_buildResourceMap result [] = result"
| "pkg_buildResourceMap result (JMap m # cs) =
     (case jlookup m ''name'' of
        Some (JString n) \<Rightarrow>
          pkg_buildResourceMap (result(n \<mapsto> (case jlookup m ''resources'' of Some r \<Rightarrow> r | None \<Rightarrow> JMap []))) cs
      | _ \<Rightarrow> pkg_buildResourceMap result cs)"
| "pkg_buildResourceMap result (_ # cs) = pkg_buildResourceMap result cs"

fun pkg_applyResourceMap :: "json list \<Rightarrow> (string \<rightharpoonup> json) \<Rightarrow> json list" where
  "pkg_applyResourceMap [] rs = []"
| "pkg_applyResourceMap (JMap m # cs) rs =
     (case jlookup m ''name'' of
        Some (JString n) \<Rightarrow>
          (case rs n of
             None \<Rightarrow> JMap m
           | Some nr \<Rightarrow>
               let nrMap = (case nr of JMap x \<Rightarrow> x | _ \<Rightarrow> [])
               in if length nrMap = 0 then JMap (jdelete m ''resources'') else JMap (jset m ''resources'' nr))
      | _ \<Rightarrow> JMap m) # pkg_applyResourceMap cs rs"
| "pkg_applyResourceMap (c # cs) rs = c # pkg_applyResourceMap cs rs"

definition pkg_mergeContainerResources :: "nested_ops \<Rightarrow> kobj \<Rightarrow> kobj \<Rightarrow> go_error + kobj" where
  "pkg_mergeContainerResources ops existing desired =
     (case pkg_extractContainers ops (oBody existing) deploymentContainersPath of
        Inl e \<Rightarrow> Inl e
      | Inr scs \<Rightarrow>
          (case pkg_extractContainers ops (oBody desired) deploymentContainersPath of
             Inl e \<Rightarrow> Inl e
           | Inr tcs \<Rightarrow>
               Inr (if tcs = [] then desired
                    else desired\<lparr>oBody := put_path deploymentContainersPath
                      (JList (pkg_applyResourceMap tcs (pkg_buildResourceMap Map.empty scs))) (oBody desired)\<rparr>)))"

definition pkg_mergeReplicas :: "nested_ops \<Rightarrow> kobj \<Rightarrow> kobj \<Rightarrow> go_error + kobj" where
  "pkg_mergeReplicas ops existing desired =
     (case nGet ops (oBody existing) replicasPath of
        Inl e \<Rightarrow> Inl e
      | Inr None \<Rightarrow> Inr (desired\<lparr>oBody := nRemove ops (oBody desired) replicasPath\<rparr>)
      | Inr (Some v) \<Rightarrow>
          (case nSet ops (oBody desired) v replicasPath of Inl e \<Rightarrow> Inl e | Inr fs \<Rightarrow> Inr (desired\<lparr>oBody := fs\<rparr>)))"

definition pkg_MergeDeployments :: "nested_ops \<Rightarrow> kobj \<Rightarrow> kobj \<Rightarrow> go_error + kobj" where
  "pkg_MergeDeployments ops existing desired =
     (case pkg_mergeContainerResources ops existing desired of Inl e \<Rightarrow> Inl e | Inr d \<Rightarrow> pkg_mergeReplicas ops existing d)"

definition pkg_MergeObservabilityResources :: "nested_ops \<Rightarrow> kobj \<Rightarrow> kobj \<Rightarrow> go_error + kobj" where
  "pkg_MergeObservabilityResources ops existing desired =
     (case nGet ops (oBody existing) [''spec'', ''resources''] of
        Inl e \<Rightarrow> Inl e
      | Inr found \<Rightarrow>
          if found \<noteq> None \<and> found \<noteq> Some JNull
          then (case nSet ops (oBody desired) (the found) [''spec'', ''resources''] of
                  Inl e \<Rightarrow> Inl e | Inr fs \<Rightarrow> Inr (desired\<lparr>oBody := fs\<rparr>))
          else Inr desired)"

text \<open>Unlike the framework's version, a failed lookup is reported.\<close>

definition RemoveDeploymentResources :: "nested_ops \<Rightarrow> kobj \<Rightarrow> go_error + kobj" where
  "RemoveDeploymentResources ops obj =
     (case pkg_extractContainers ops (oBody obj) deploymentContainersPath of
        Inl e \<Rightarrow> Inl (ErrWrap ''extract containers'' e)
      | Inr cs \<Rightarrow>
          (case strip_resources cs of
             Inl e \<Rightarrow> Inl e
           | Inr cs' \<Rightarrow> Inr (obj\<lparr>oBody := nRemove ops
               (if cs = [] then oBody obj else put_path deploymentContainersPath (JList cs') (oBody obj)) replicasPath\<rparr>)))"

section \<open>Reverting drift\<close>

definition pkg_buildResourcesPatch :: "string \<Rightarrow> json \<Rightarrow> json \<Rightarrow> json option" where
  "pkg_buildResourcesPatch name manifestResources deployedResources =
     (case (manifestResources, deployedResources) of
        (JMap mm, JMap dm) \<Rightarrow>
          Some (JMap [(''name'', JString name), (''resources'', JMap (resource_fields mm dm [''requests'', ''limits'']))])
      | _ \<Rightarrow> None)"

definition buildContainerResourcePatch :: "(json \<Rightarrow> json \<Rightarrow> bool) \<Rightarrow> fields \<Rightarrow> fields \<Rightarrow> string \<Rightarrow> json option" where
  "buildContainerResourcePatch deq objMap oldMap name =
     (let objHasResources = (case jlookup objMap ''resources'' of None \<Rightarrow> False | Some r \<Rightarrow> \<not> isEmptyResourceMap r);
          oldHasResources = (jlookup oldMap ''resources'' \<noteq> None)
      in if oldHasResources \<and> \<not> objHasResources then Some (JMap [(''name'', JString name), (''resources'', JNull)])
         else if objHasResources \<and> oldHasResources
         then (let objResources = the (jlookup objMap ''resources''); oldResources = the (jlookup oldMap ''resources'')
               in if \<not> deq objResources oldResources then pkg_buildResourcesPatch name objResources oldResources else None)
         else None)"

fun match_old :: "(json \<Rightarrow> json \<Rightarrow> bool) \<Rightarrow> fields \<Rightarrow> string \<Rightarrow> json list \<Rightarrow> json option" where
  "match_old deq objMap objName [] = None"
| "match_old deq objMap objName (JMap oldMap # rest) =
     (case jlookup oldMap ''name'' of
        Some (JString oldName) \<Rightarrow>
          if oldName \<noteq> objName then match_old deq objMap objName rest
          else buildContainerResourcePatch deq objMap oldMap objName
      | _ \<Rightarrow> match_old deq objMap objName rest)"
| "match_old deq objMap objName (_ # rest) = match_old deq objMap objName rest"

definition matchContainerPatch :: "(json \<Rightarrow> json \<Rightarrow> bool) \<Rightarrow> json \<Rightarrow> json list \<Rightarrow> json option" where
  "matchContainerPatch deq objCont oldContainers =
     (case objCont of
        JMap objMap \<Rightarrow>
          (case jlookup objMap ''name'' of Some (JString objName) \<Rightarrow> match_old deq objMap objName oldContainers | _ \<Rightarrow> None)
      | _ \<Rightarrow> None)"

definition computeContainerPatches :: "nested_ops \<Rightarrow> (json \<Rightarrow> json \<Rightarrow> bool) \<Rightarrow> kobj \<Rightarrow> kobj \<Rightarrow> go_error + json list" where
  "computeContainerPatches ops deq obj old =
     (case nSlice ops (oBody obj) deploymentContainersPath of
        Inl e \<Rightarrow> Inl (ErrWrap ''failed to get containers from manifest'' e)
      | Inr objContainers \<Rightarrow>
          (case nSlice ops (oBody old) deploymentContainersPath of
             Inl e \<Rightarrow> Inl (ErrWrap ''failed to get containers from deployed object'' e)
           | Inr oldContainers \<Rightarrow>
               (case (objContainers, oldContainers) of
                  (Some ocs, Some lcs) \<Rightarrow> Inr (List.map_filter (\<lambda>c. matchContainerPatch deq c lcs) ocs)
                | _ \<Rightarrow> Inr [])))"

definition needsReplicaPatch :: "nested_ops \<Rightarrow> kobj \<Rightarrow> kobj \<Rightarrow> go_error + bool" where
  "needsReplicaPatch ops obj old =
     (case nInt64 ops (oBody obj) replicasPath of
        Inl e \<Rightarrow> Inl (ErrWrap ''failed to get replicas from manifest'' e)
      | Inr objR \<Rightarrow>
          (case nInt64 ops (oBody old) replicasPath of
             Inl e \<Rightarrow> Inl (ErrWrap ''failed to get replicas from deployed object'' e)
           | Inr oldR \<Rightarrow> Inr (oldR \<noteq> None \<and> objR = None)))"

definition applyDriftPatch ::
  "('w \<Rightarrow> kobj \<Rightarrow> json \<Rightarrow> 'w \<times> (go_error + kobj)) \<Rightarrow> 'w \<Rightarrow> kobj \<Rightarrow> kobj \<Rightarrow> json list \<Rightarrow> bool \<Rightarrow> 'w \<times> (go_error + kobj)" where
  "applyDriftPatch smp w obj old containerPatches replicaPatchNeeded =
     (case smp w old (drift_patch containerPatches replicaPatchNeeded) of
        (w', Inl e) \<Rightarrow> (w', Inl (ErrWrap (''failed to patch managed Deployment '' @ oNamespace obj @ ''/'' @ oName obj) e))
      | (w', Inr old') \<Rightarrow> (w', Inr old'))"

text \<open>\<open>cli\<close> says whether a client is given; the answer is the live object as it is afterwards.\<close>

definition RevertDeploymentDrift ::
  "nested_ops \<Rightarrow> (json \<Rightarrow> json \<Rightarrow> bool) \<Rightarrow> ('w \<Rightarrow> kobj \<Rightarrow> json \<Rightarrow> 'w \<times> (go_error + kobj)) \<Rightarrow> bool \<Rightarrow> 'w \<Rightarrow> kobj option \<Rightarrow> kobj option \<Rightarrow>
   'w \<times> (go_error + kobj)" where
  "RevertDeploymentDrift ops deq smp cli w obj old =
     (if \<not> cli then (w, Inl (ErrNew ''nil argument: client is nil''))
      else case obj of
        None \<Rightarrow> (w, Inl (ErrNew ''nil argument: obj is nil''))
      | Some ob \<Rightarrow>
          (case old of
             None \<Rightarrow> (w, Inl (ErrNew ''nil argument: old is nil''))
           | Some ol \<Rightarrow>
               if oGVK ob \<noteq> DeploymentGVK then (w, Inl (ErrNew (''expected Deployment GVK: got '' @ gvk_string (oGVK ob))))
               else if oGVK ol \<noteq> DeploymentGVK then (w, Inl (ErrNew (''expected Deployment GVK: got '' @ gvk_string (oGVK ol))))
               else case computeContainerPatches ops deq ob ol of
                 Inl e \<Rightarrow> (w, Inl e)
               | Inr containerPatches \<Rightarrow>
                   (case needsReplicaPatch ops ob ol of
                      Inl e \<Rightarrow> (w, Inl e)
                    | Inr replicaPatchNeeded \<Rightarrow>
                        if \<not> replicaPatchNeeded \<and> length containerPatches = 0 then (w, Inr ol)
                        else applyDriftPatch smp w ob ol containerPatches replicaPatchNeeded)))"

section \<open>The deployer\<close>

record Deployer =
  dpSortFn :: "(kobj list \<Rightarrow> go_error + kobj list) option"
  dpCache :: bool
  dpLabels :: "(string \<times> string) list option"
  dpAnnotations :: "(string \<times> string) list option"
  dpMergeStrategies :: "gvk \<rightharpoonup> (kobj \<Rightarrow> kobj \<Rightarrow> go_error + kobj)"
  dpExclude :: "gvk set"
  dpFieldOwner :: string
  dpCrdFieldOwner :: string
  dpManagedKey :: string
  dpMode :: deploy_mode
  dpLegacyOwners :: "gvk list"

record DeployInput =
  inOwner :: "platform_object option"
  inReleaseType :: string
  inReleaseVersion :: string
  inResources :: "kobj list"

definition pkg_computeCacheKey :: "(kobj \<Rightarrow> string) \<Rightarrow> kobj \<Rightarrow> kobj \<Rightarrow> string" where
  "pkg_computeCacheKey digest original modified =
     gv_string (oGVK original) @ ''.'' @ gKind (oGVK original) @ ''.'' @ kobj_ref original @ ''.'' @
     oResourceVersion original @ ''.'' @ pkg_Hash digest modified"

definition pkg_cache_Add :: "'w deploy_client \<Rightarrow> 'w \<Rightarrow> kobj option \<Rightarrow> kobj option \<Rightarrow> 'w \<times> go_error option" where
  "pkg_cache_Add dc w original modified =
     (case (original, modified) of
        (Some ob, Some md) \<Rightarrow>
          let key = pkg_computeCacheKey (dcDigest dc) ob md
          in if key = '''' then (w, None) else (dcStoreAdd dc w key, None)
      | _ \<Rightarrow> (w, Some (ErrNew ''cache: original and modified must be non-nil'')))"

definition pkg_cache_Has :: "'w deploy_client \<Rightarrow> 'w \<Rightarrow> kobj option \<Rightarrow> kobj option \<Rightarrow> bool" where
  "pkg_cache_Has dc w original modified =
     (case (original, modified) of
        (Some ob, Some md) \<Rightarrow>
          let key = pkg_computeCacheKey (dcDigest dc) ob md in if key = '''' then False else dcStoreHas dc w key
      | _ \<Rightarrow> False)"

definition pkg_cache_Delete :: "'w deploy_client \<Rightarrow> 'w \<Rightarrow> kobj option \<Rightarrow> kobj option \<Rightarrow> 'w \<times> go_error option" where
  "pkg_cache_Delete dc w original modified =
     (case (original, modified) of
        (Some ob, Some md) \<Rightarrow>
          let key = pkg_computeCacheKey (dcDigest dc) ob md in if key = '''' then (w, None) else dcStoreDelete dc w key
      | _ \<Rightarrow> (w, None))"

definition prepareResources :: "'w deploy_client \<Rightarrow> Deployer \<Rightarrow> 'w \<Rightarrow> DeployInput \<Rightarrow> 'w \<times> (go_error + kobj list)" where
  "prepareResources dc d w input =
     (case (case dpSortFn d of None \<Rightarrow> Inr (inResources input) | Some f \<Rightarrow> f (inResources input)) of
        Inl e \<Rightarrow> (w, Inl (ErrWrap ''failed to sort resources'' e))
      | Inr resourceList \<Rightarrow> ((if dpCache d then dcStoreList dc w else w), Inr resourceList))"

definition resolveControllerName :: "'w deploy_client \<Rightarrow> Deployer \<Rightarrow> DeployInput \<Rightarrow> go_error + string" where
  "resolveControllerName dc d input =
     (if dpFieldOwner d \<noteq> '''' then Inr (dpFieldOwner d)
      else case inOwner input of
             None \<Rightarrow> Inr ''''
           | Some owner \<Rightarrow>
               (case pkg_KindForObject (dcLookup dc) owner of
                  Inl e \<Rightarrow> Inl (ErrWrap ''failed to resolve controller name'' e)
                | Inr kind \<Rightarrow> Inr (to_lower kind)))"

definition shouldSkip :: "'w deploy_client \<Rightarrow> Deployer \<Rightarrow> 'w \<Rightarrow> kobj option \<Rightarrow> kobj option \<Rightarrow> 'w \<times> (go_error + bool)" where
  "shouldSkip dc d w current desired =
     (if desired = None then (w, Inr False)
      else if (case current of None \<Rightarrow> False | Some c \<Rightarrow> oDeletionTimestamp c \<noteq> 0)
           then (if dpCache d
                 then (case pkg_cache_Delete dc w current desired of (w', Some e) \<Rightarrow> (w', Inl e) | (w', None) \<Rightarrow> (w', Inr True))
                 else (w, Inr True))
      else if \<not> dpCache d then (w, Inr False)
      else (w, Inr (pkg_cache_Has dc w current desired)))"

definition runMergeStrategy :: "Deployer \<Rightarrow> kobj option \<Rightarrow> kobj \<Rightarrow> go_error + kobj" where
  "runMergeStrategy d old obj =
     (case old of
        None \<Rightarrow> Inr obj
      | Some ol \<Rightarrow>
          (case dpMergeStrategies d (oGVK obj) of
             None \<Rightarrow> Inr obj
           | Some mergeFn \<Rightarrow>
               if pkg_GetAnnotation ol (dpManagedKey d) = ''true'' then Inr obj
               else (case mergeFn ol obj of
                       Inl e \<Rightarrow> Inl (ErrWrap (''failed to merge '' @ gKind (oGVK obj) @ '' '' @ oNamespace obj @ ''/'' @ oName obj) e)
                     | Inr obj' \<Rightarrow> Inr obj')))"

definition deployer_create :: "'w deploy_client \<Rightarrow> 'w \<Rightarrow> kobj \<Rightarrow> 'w \<times> kobj \<times> go_error option" where
  "deployer_create dc w obj =
     (case dcCreate dc w obj of (w', Inl e) \<Rightarrow> (w', obj, Some e) | (w', Inr stored) \<Rightarrow> (w', stored, None))"

definition deployer_patch ::
  "'w deploy_client \<Rightarrow> Deployer \<Rightarrow> 'w \<Rightarrow> string \<Rightarrow> kobj \<Rightarrow> kobj option \<Rightarrow> 'w \<times> (go_error + kobj)" where
  "deployer_patch dc d w owner obj0 old =
     (case runMergeStrategy d old obj0 of
        Inl e \<Rightarrow> (w, Inl e)
      | Inr obj \<Rightarrow>
          (case old of
             None \<Rightarrow>
               (case dcCreate dc w obj of
                  (w1, Inl e) \<Rightarrow> (w1, Inl (ErrWrap (''failed to create object '' @ oNamespace obj @ ''/'' @ oName obj) e))
                | (w1, Inr stored) \<Rightarrow> (w1, Inr stored))
           | Some ol \<Rightarrow>
               (case dcMarshal dc obj of
                  Some e \<Rightarrow> (w, Inl (ErrWrap (''failed to marshal apply patch for '' @ oNamespace obj @ ''/'' @ oName obj) e))
                | None \<Rightarrow>
                    (case dcPatch dc w owner ol obj of
                       (w1, Inl e) \<Rightarrow> (w1, Inl (ErrWrap (''failed to patch object '' @ oNamespace obj @ ''/'' @ oName obj) e))
                     | (w1, Inr ol') \<Rightarrow> (w1, Inr ol')))))"

definition deployer_apply ::
  "nested_ops \<Rightarrow> 'w deploy_client \<Rightarrow> Deployer \<Rightarrow> 'w \<Rightarrow> string \<Rightarrow> kobj \<Rightarrow> kobj option \<Rightarrow> 'w \<times> (go_error + kobj)" where
  "deployer_apply ops dc d w owner obj0 old =
     (case runMergeStrategy d old obj0 of
        Inl e \<Rightarrow> (w, Inl e)
      | Inr obj1 \<Rightarrow>
          (case (if old = None then Inr obj1
                 else case nGet ops (oBody obj1) [''aggregationRule''] of
                        Inl e \<Rightarrow> Inl (ErrWrap (''failed to inspect aggregationRule for '' @ oNamespace obj1 @ ''/'' @ oName obj1) e)
                      | Inr None \<Rightarrow> Inr obj1
                      | Inr (Some _) \<Rightarrow> Inr (obj1\<lparr>oBody := nRemove ops (oBody obj1) [''rules'']\<rparr>)) of
             Inl e \<Rightarrow> (w, Inl e)
           | Inr obj \<Rightarrow>
               (case pkg_Apply (dcLookupU dc) (dcConvU dc) ''*unstructured.Unstructured'' (\<lambda>w u. dcApply dc w owner u) (dcConvertU dc) w obj of
                  (w1, obj', Some e) \<Rightarrow> (w1, Inl (ErrWrap (''apply failed '' @ gvk_string (oGVK obj)) e))
                | (w1, obj', None) \<Rightarrow> (w1, Inr obj'))))"

definition applyWithMode ::
  "nested_ops \<Rightarrow> 'w deploy_client \<Rightarrow> Deployer \<Rightarrow> 'w \<Rightarrow> kobj \<Rightarrow> kobj option \<Rightarrow> string \<Rightarrow> 'w \<times> (go_error + kobj)" where
  "applyWithMode ops dc d w obj current fieldOwner =
     (case dpMode d of
        ModePatch \<Rightarrow> deployer_patch dc d w fieldOwner obj current
      | ModeSSA \<Rightarrow> deployer_apply ops dc d w fieldOwner obj current
      | OtherMode m \<Rightarrow> (w, Inl (ErrNew (''unsupported deploy mode: '' @ m))))"

definition cacheResult :: "'w deploy_client \<Rightarrow> Deployer \<Rightarrow> 'w \<Rightarrow> kobj \<Rightarrow> kobj \<Rightarrow> 'w \<times> go_error option" where
  "cacheResult dc d w deployed orig =
     (if \<not> dpCache d then (w, None)
      else case pkg_cache_Add dc w (Some deployed) (Some orig) of
             (w', Some e) \<Rightarrow> (w', Some (ErrWrap ''failed to cache object'' e))
           | (w', None) \<Rightarrow> (w', None))"

definition stampMetadata :: "Deployer \<Rightarrow> kobj \<Rightarrow> DeployInput \<Rightarrow> string \<Rightarrow> kobj" where
  "stampMetadata d obj input fo =
     (let o1 = pkg_SetAnnotations (pkg_SetLabels obj (pairs (dpLabels d))) (pairs (dpAnnotations d));
          o2 = (case inOwner input of
                  None \<Rightarrow> o1
                | Some owner \<Rightarrow>
                    pkg_SetAnnotation (pkg_SetAnnotation (pkg_SetAnnotation o1 ''platform.opendatahub.io/instance.generation'' (itoa (oGeneration owner)))
                        ''platform.opendatahub.io/instance.name'' (oName owner))
                      ''platform.opendatahub.io/instance.uid'' (oUID owner));
          o3 = (if inReleaseType input \<noteq> '''' then pkg_SetAnnotation o2 ''platform.opendatahub.io/type'' (inReleaseType input) else o2);
          o4 = (if inReleaseVersion input \<noteq> '''' then pkg_SetAnnotation o3 ''platform.opendatahub.io/version'' (inReleaseVersion input) else o3)
      in if pkg_GetLabel o4 ''platform.opendatahub.io/part-of'' = '''' \<and> fo \<noteq> ''''
         then pkg_SetLabel o4 ''platform.opendatahub.io/part-of'' fo else o4)"

definition isExcludedFromOwnership :: "Deployer \<Rightarrow> gvk \<Rightarrow> bool" where
  "isExcludedFromOwnership d g \<longleftrightarrow> g \<in> dpExclude d"

text \<open>\<open>parse\<close> is \<^verbatim>\<open>schema.ParseGroupVersion\<close>.\<close>

definition is_legacy :: "(string \<Rightarrow> go_error + string \<times> string) \<Rightarrow> gvk list \<Rightarrow> owner_ref \<Rightarrow> bool" where
  "is_legacy parse legacy r =
     (case parse (orAPIVersion r) of Inl e \<Rightarrow> False | Inr (g, v) \<Rightarrow> List.member legacy (mk_gvk g v (orKind r)))"

definition removeLegacyOwnerRefs ::
  "(string \<Rightarrow> go_error + string \<times> string) \<Rightarrow> 'w deploy_client \<Rightarrow> Deployer \<Rightarrow> 'w \<Rightarrow> kobj \<Rightarrow> 'w \<times> kobj \<times> go_error option" where
  "removeLegacyOwnerRefs parse dc d w current =
     pkg_RemoveOwnerReferences (dcUpdate dc) w current (is_legacy parse (dpLegacyOwners d))"

definition applyResource ::
  "(string \<Rightarrow> go_error + string \<times> string) \<Rightarrow> nested_ops \<Rightarrow> 'w deploy_client \<Rightarrow> Deployer \<Rightarrow> 'w \<Rightarrow> DeployInput \<Rightarrow> kobj \<Rightarrow> kobj option \<Rightarrow> string \<Rightarrow>
   'w \<times> (go_error + kobj)" where
  "applyResource parse ops dc d w input obj current fo =
     (if pkg_GetAnnotation obj (dpManagedKey d) = ''false''
      then (case deployer_create dc w (pkg_RemoveAnnotation obj (dpManagedKey d)) of
              (w1, deployed, err) \<Rightarrow>
                if (case err of None \<Rightarrow> False | Some e \<Rightarrow> \<not> IsAlreadyExists e) then (w1, Inl (the err)) else (w1, Inr deployed))
      else
        case inOwner input of
          None \<Rightarrow> applyWithMode ops dc d w obj current fo
        | Some owner \<Rightarrow>
            if isExcludedFromOwnership d (oGVK obj) then applyWithMode ops dc d w obj current fo
            else
              case (case current of
                      None \<Rightarrow> (w, current, None)
                    | Some cur \<Rightarrow>
                        if length (dpLegacyOwners d) > 0
                        then (case removeLegacyOwnerRefs parse dc d w cur of (w1, cur1, err) \<Rightarrow> (w1, Some cur1, err))
                        else (w, current, None)) of
                (w1, cur1, Some e) \<Rightarrow> (w1, Inl e)
              | (w1, cur1, None) \<Rightarrow>
                  (case dcSetController dc owner (obj\<lparr>oOwnerRefs := []\<rparr>) of
                     Inl e \<Rightarrow> (w1, Inl e)
                   | Inr obj1 \<Rightarrow> applyWithMode ops dc d w1 obj1 cur1 fo))"

definition pkg_deployResource ::
  "(string \<Rightarrow> go_error + string \<times> string) \<Rightarrow> nested_ops \<Rightarrow> 'w deploy_client \<Rightarrow> Deployer \<Rightarrow> 'w \<Rightarrow> DeployInput \<Rightarrow> kobj \<Rightarrow> kobj option \<Rightarrow> string \<Rightarrow>
   'w \<times> (go_error + bool)" where
  "pkg_deployResource parse ops dc d w input obj0 current fieldOwner =
     (let obj = stampMetadata d obj0 input fieldOwner
      in case shouldSkip dc d w current (Some obj) of
           (w1, Inl e) \<Rightarrow> (w1, Inl e)
         | (w1, Inr True) \<Rightarrow> (w1, Inr False)
         | (w1, Inr False) \<Rightarrow>
             (case applyResource parse ops dc d w1 input obj current fieldOwner of
                (w2, Inl e) \<Rightarrow> (w2, Inl e)
              | (w2, Inr deployed) \<Rightarrow>
                  (case cacheResult dc d w2 deployed obj of (w3, Some e) \<Rightarrow> (w3, Inl e) | (w3, None) \<Rightarrow> (w3, Inr True))))"

definition pkg_deployCRD ::
  "nested_ops \<Rightarrow> 'w deploy_client \<Rightarrow> Deployer \<Rightarrow> 'w \<Rightarrow> DeployInput \<Rightarrow> kobj \<Rightarrow> kobj option \<Rightarrow> 'w \<times> (go_error + bool)" where
  "pkg_deployCRD ops dc d w input obj0 current =
     (let obj = pkg_SetLabel (pkg_SetAnnotations (pkg_SetLabels obj0 (pairs (dpLabels d))) (pairs (dpAnnotations d)))
                  ''platform.opendatahub.io/part-of'' ''platform''
      in case shouldSkip dc d w current (Some obj) of
           (w1, Inl e) \<Rightarrow> (w1, Inl e)
         | (w1, Inr True) \<Rightarrow> (w1, Inr False)
         | (w1, Inr False) \<Rightarrow>
             (case applyWithMode ops dc d w1 obj current (dpCrdFieldOwner d) of
                (w2, Inl e) \<Rightarrow> (w2, case IgnoreNotFound (Some e) of None \<Rightarrow> Inr False | Some e' \<Rightarrow> Inl e')
              | (w2, Inr deployed) \<Rightarrow>
                  (case cacheResult dc d w2 deployed obj of (w3, Some e) \<Rightarrow> (w3, Inl e) | (w3, None) \<Rightarrow> (w3, Inr True))))"

definition deployOne ::
  "(string \<Rightarrow> go_error + string \<times> string) \<Rightarrow> nested_ops \<Rightarrow> 'w deploy_client \<Rightarrow> Deployer \<Rightarrow> 'w \<Rightarrow> DeployInput \<Rightarrow> kobj \<Rightarrow> string \<Rightarrow>
   'w \<times> (go_error + bool)" where
  "deployOne parse ops dc d w input res controllerName =
     (let deploy = (\<lambda>current. if oGVK res = crdGVK then pkg_deployCRD ops dc d w input res current
            else pkg_deployResource parse ops dc d w input res current controllerName)
      in case dcGet dc w (oGVK res) (oNamespace res, oName res) of
           Inl e \<Rightarrow>
             if IsNotFound e then deploy None
             else (w, Inl (ErrWrap (''failed to lookup object '' @ oNamespace res @ ''/'' @ oName res) e))
         | Inr current \<Rightarrow>
             if pkg_GetAnnotation current (dpManagedKey d) = ''false'' then (w, Inr False) else deploy (Some current))"

fun deploy_all ::
  "(string \<Rightarrow> go_error + string \<times> string) \<Rightarrow> nested_ops \<Rightarrow> 'w deploy_client \<Rightarrow> Deployer \<Rightarrow> DeployInput \<Rightarrow> string \<Rightarrow> 'w \<Rightarrow> kobj list \<Rightarrow>
   'w \<times> go_error option" where
  "deploy_all parse ops dc d input controllerName w [] = (w, None)"
| "deploy_all parse ops dc d input controllerName w (res # rest) =
     (case deployOne parse ops dc d w input res controllerName of
        (w1, Inl e) \<Rightarrow> (w1, Some (ErrWrap (''failure deploying resource '' @ oNamespace res @ ''/'' @ oName res) e))
      | (w1, Inr ok) \<Rightarrow> deploy_all parse ops dc d input controllerName w1 rest)"

text \<open>The counter of deployed resources is left out.\<close>

definition Deployer_Deploy ::
  "(string \<Rightarrow> go_error + string \<times> string) \<Rightarrow> nested_ops \<Rightarrow> 'w deploy_client \<Rightarrow> Deployer \<Rightarrow> 'w \<Rightarrow> DeployInput \<Rightarrow> 'w \<times> go_error option" where
  "Deployer_Deploy parse ops dc d w input =
     (case prepareResources dc d w input of
        (w1, Inl e) \<Rightarrow> (w1, Some e)
      | (w1, Inr resourceList) \<Rightarrow>
          (case resolveControllerName dc d input of
             Inl e \<Rightarrow> (w1, Some e)
           | Inr controllerName \<Rightarrow> deploy_all parse ops dc d input controllerName w1 resourceList))"

section \<open>Options\<close>

definition dp_WithFieldOwner :: "string \<Rightarrow> Deployer \<Rightarrow> Deployer" where
  "dp_WithFieldOwner v d = d\<lparr>dpFieldOwner := v\<rparr>"

definition dp_WithCRDFieldOwner :: "string \<Rightarrow> Deployer \<Rightarrow> Deployer" where
  "dp_WithCRDFieldOwner v d = d\<lparr>dpCrdFieldOwner := v\<rparr>"

definition dp_WithMode :: "deploy_mode \<Rightarrow> Deployer \<Rightarrow> Deployer" where
  "dp_WithMode v d = d\<lparr>dpMode := v\<rparr>"

definition dp_WithLabel :: "string \<Rightarrow> string \<Rightarrow> Deployer \<Rightarrow> Deployer" where
  "dp_WithLabel k v d = d\<lparr>dpLabels := Some (put_pair k v (pairs (dpLabels d)))\<rparr>"

definition dp_WithLabels :: "(string \<times> string) list \<Rightarrow> Deployer \<Rightarrow> Deployer" where
  "dp_WithLabels m d = d\<lparr>dpLabels := Some (foldr (\<lambda>(k, v). put_pair k v) m (pairs (dpLabels d)))\<rparr>"

definition dp_WithAnnotation :: "string \<Rightarrow> string \<Rightarrow> Deployer \<Rightarrow> Deployer" where
  "dp_WithAnnotation k v d = d\<lparr>dpAnnotations := Some (put_pair k v (pairs (dpAnnotations d)))\<rparr>"

definition dp_WithAnnotations :: "(string \<times> string) list \<Rightarrow> Deployer \<Rightarrow> Deployer" where
  "dp_WithAnnotations m d = d\<lparr>dpAnnotations := Some (foldr (\<lambda>(k, v). put_pair k v) m (pairs (dpAnnotations d)))\<rparr>"

definition dp_WithCache :: "Deployer \<Rightarrow> Deployer" where
  "dp_WithCache d = d\<lparr>dpCache := True\<rparr>"

definition dp_WithSortFn :: "(kobj list \<Rightarrow> go_error + kobj list) option \<Rightarrow> Deployer \<Rightarrow> Deployer" where
  "dp_WithSortFn f d = d\<lparr>dpSortFn := f\<rparr>"

definition dp_WithMergeStrategy :: "gvk \<Rightarrow> (kobj \<Rightarrow> kobj \<Rightarrow> go_error + kobj) \<Rightarrow> Deployer \<Rightarrow> Deployer" where
  "dp_WithMergeStrategy g f d = d\<lparr>dpMergeStrategies := (dpMergeStrategies d)(g \<mapsto> f)\<rparr>"

definition dp_WithManagedAnnotation :: "string \<Rightarrow> Deployer \<Rightarrow> Deployer" where
  "dp_WithManagedAnnotation k d = d\<lparr>dpManagedKey := k\<rparr>"

definition dp_WithExcludeFromOwnership :: "gvk list \<Rightarrow> Deployer \<Rightarrow> Deployer" where
  "dp_WithExcludeFromOwnership gs d = d\<lparr>dpExclude := dpExclude d \<union> set gs\<rparr>"

definition WithLegacyOwners :: "gvk list \<Rightarrow> Deployer \<Rightarrow> Deployer" where
  "WithLegacyOwners gs d = d\<lparr>dpLegacyOwners := dpLegacyOwners d @ gs\<rparr>"

definition NewDeployer :: "(Deployer \<Rightarrow> Deployer) list \<Rightarrow> Deployer" where
  "NewDeployer opts =
     foldl (\<lambda>d f. f d)
       \<lparr>dpSortFn = None, dpCache = False, dpLabels = None, dpAnnotations = None, dpMergeStrategies = Map.empty,
        dpExclude = {mk_gvk '''' ''v1'' ''Namespace''}, dpFieldOwner = '''', dpCrdFieldOwner = ''platform.opendatahub.io'',
        dpManagedKey = ''opendatahub.io/managed'', dpMode = ModeSSA, dpLegacyOwners = []\<rparr> opts"

end
