(* ===== verification/PkgDeploy_Correct.thy ===== *)
theory PkgDeploy_Correct
  imports PkgDeploy Deploy_Correct
begin

text \<open>
  The deployer of the root module against the deploy action: merging and drift agree, one resource is
  handled alike under matching settings, and the loop stops at the first error and never writes an
  unmanaged object.
\<close>

section \<open>Merging and drift agree\<close>

lemma pkg_extract_agree: "pkg_extractContainers = extractContainers"
  unfolding fun_eq_iff pkg_extractContainers_def extractContainers_def by (auto split: sum.split option.split json.split)

lemma pkg_build_agree: "pkg_buildResourceMap result cs = buildResourceMap result cs"
proof (induction cs arbitrary: result)
  case (Cons c cs)
  show ?case
  proof (cases c)
    case (JMap m)
    show ?thesis
    proof (cases "\<exists>s. jlookup m ''name'' = Some (JString s)")
      case True
      then obtain s where "jlookup m ''name'' = Some (JString s)" by blast
      with JMap Cons show ?thesis by (simp add: container_name_def container_resources_def del: fun_upd_apply)
    next
      case False
      with JMap Cons show ?thesis by (auto simp: container_name_def split: option.split json.split)
    qed
  qed (use Cons in \<open>simp_all add: container_name_def\<close>)
qed simp

lemma pkg_applyMap_agree: "pkg_applyResourceMap cs rs = applyResourceMap cs rs"
  by (induction cs rs rule: pkg_applyResourceMap.induct)
     (auto simp: applyResourceMap_def apply_resource_def container_name_def Let_def split: option.split json.split list.split)

lemma pkg_merge_agree:
  "pkg_MergeDeployments = MergeDeployments" "pkg_MergeObservabilityResources = MergeObservabilityResources"
proof -
  have conts: "pkg_mergeContainerResources = mergeContainerResources"
    unfolding fun_eq_iff pkg_mergeContainerResources_def mergeContainerResources_def pkg_extract_agree pkg_build_agree pkg_applyMap_agree
    by (auto split: sum.split list.split)
  have reps: "pkg_mergeReplicas = mergeReplicas" unfolding fun_eq_iff pkg_mergeReplicas_def mergeReplicas_def by simp
  show "pkg_MergeDeployments = MergeDeployments"
    by (intro ext) (simp only: pkg_MergeDeployments_def MergeDeployments_def conts reps)
  show "pkg_MergeObservabilityResources = MergeObservabilityResources"
    unfolding fun_eq_iff pkg_MergeObservabilityResources_def MergeObservabilityResources_def
    by (auto split: sum.split option.split json.split)
qed

lemma container_patch_single:
  "container_patch deq ps (JString n) m lm =
     ps @ (case buildContainerResourcePatch deq m lm n of None \<Rightarrow> [] | Some p \<Rightarrow> [p])"
proof -
  have res: "buildResourcesPatch (JString n) r lr = pkg_buildResourcesPatch n r lr" for r lr
    by (cases r; cases lr) (simp_all add: buildResourcesPatch_def pkg_buildResourcesPatch_def)
  show ?thesis
    by (cases "jlookup m ''resources''"; cases "jlookup lm ''resources''")
       (simp_all add: container_patch_def buildContainerResourcePatch_def appendClearResourcesPatch_def res Let_def split: option.split)
qed

lemma match_old_agree:
  "patch_against deq ps (JString n) m lcs = ps @ (case match_old deq m n lcs of None \<Rightarrow> [] | Some p \<Rightarrow> [p])"
  by (induction deq m n lcs rule: match_old.induct) (auto simp: container_patch_single split: option.split json.split)

lemma unnamed_patch: "(\<nexists>s. n = JString s) \<Longrightarrow> patch_against deq ps n m lcs = ps"
  by (induction deq ps n m lcs rule: patch_against.induct)
     (auto simp: container_patch_def appendClearResourcesPatch_def buildResourcesPatch_def Let_def split: json.splits option.splits)

lemma container_patches_agree:
  "container_patches deq ps ocs lcs = ps @ List.map_filter (\<lambda>c. matchContainerPatch deq c lcs) ocs"
proof (induction ocs arbitrary: ps)
  case (Cons c cs)
  show ?case
  proof (cases "\<exists>m s. c = JMap m \<and> jlookup m ''name'' = Some (JString s)")
    case True
    then obtain m s where c: "c = JMap m" "jlookup m ''name'' = Some (JString s)" by blast
    then show ?thesis
      by (simp add: Cons match_old_agree List.map_filter_simps matchContainerPatch_def split: option.split)
  next
    case False
    then have "matchContainerPatch deq c lcs = None"
      by (auto simp: matchContainerPatch_def split: json.split option.split)
    moreover have "container_patches deq ps (c # cs) lcs = container_patches deq ps cs lcs"
      using False by (auto simp: unnamed_patch split: json.split option.split)
    ultimately show ?thesis by (simp add: Cons List.map_filter_simps)
  qed
qed (simp add: List.map_filter_simps)

lemma drift_agrees:
  assumes "oGVK ob = DeploymentGVK" and "oGVK ol = DeploymentGVK"
  shows "RevertDeploymentDrift ops deq smp True w (Some ob) (Some ol) = RevertManagedDeploymentDrift ops deq smp w ob ol"
  using assms
  by (auto simp: RevertDeploymentDrift_def RevertManagedDeploymentDrift_def computeContainerPatches_def needsReplicaPatch_def
      applyDriftPatch_def container_patches_agree Let_def split: sum.split option.split prod.split)

section \<open>One resource\<close>

lemma pkg_cache_agree:
  "pkg_computeCacheKey = computeCacheKey" "pkg_cache_Has = cache_Has" "pkg_cache_Delete = cache_Delete"
proof -
  show key: "pkg_computeCacheKey = computeCacheKey"
    unfolding fun_eq_iff pkg_computeCacheKey_def computeCacheKey_def pkg_write_agree by simp
  show "pkg_cache_Has = cache_Has" unfolding fun_eq_iff pkg_cache_Has_def cache_Has_def key by simp
  show "pkg_cache_Delete = cache_Delete" unfolding fun_eq_iff pkg_cache_Delete_def cache_Delete_def key by simp
qed

lemma cacheResult_agree:
  "dpCache d = daCache c \<Longrightarrow> cache_deployed dc c w (Some dep) orig =
     (case cacheResult dc d w dep orig of (w', Some e) \<Rightarrow> (w', Inl e) | (w', None) \<Rightarrow> (w', Inr True))"
  by (simp add: cache_deployed_def cacheResult_def cache_Add_def pkg_cache_Add_def pkg_cache_agree Let_def)

lemma shouldSkip_agree: "dpCache d = daCache c \<Longrightarrow> shouldSkip dc d = ShouldSkip dc c"
  unfolding fun_eq_iff shouldSkip_def ShouldSkip_def pkg_cache_agree by simp

text \<open>Settings under which both write the same labels and annotations on a resource.\<close>

definition same_stamp :: "Deployer \<Rightarrow> deploy_config \<Rightarrow> DeployInput \<Rightarrow> 'w request \<Rightarrow> kobj \<Rightarrow> bool" where
  "same_stamp d c input rr res \<longleftrightarrow>
     map_of (pairs (dpLabels d)) = opt_map (daLabels c) \<and> map_of (pairs (dpAnnotations d)) = opt_map (daAnnotations c) \<and>
     (pairs (dpLabels d) = [] \<longrightarrow> oLabels res \<noteq> None) \<and> (pairs (dpAnnotations d) = [] \<longrightarrow> oAnnotations res \<noteq> None) \<and>
     inOwner input = Some (rrInstance rr) \<and> inReleaseType input = relName (rrRelease rr) \<and>
     inReleaseVersion input = relVersion (rrRelease rr) \<and> relName (rrRelease rr) \<noteq> '''' \<and> relVersion (rrRelease rr) \<noteq> '''' \<and>
     daAnnotationPrefix c = ''platform.opendatahub.io'' \<and> daPartOfLabelKey c = ''platform.opendatahub.io/part-of''"

lemma pkg_SetLabels_as: "kvs \<noteq> [] \<or> oLabels obj \<noteq> None \<Longrightarrow> pkg_SetLabels obj kvs = SetLabels obj (map_of kvs)"
  by (auto simp: pkg_SetLabels_def SetLabels_def Let_def)

lemma pkg_SetAnnotations_as: "kvs \<noteq> [] \<or> oAnnotations obj \<noteq> None \<Longrightarrow> pkg_SetAnnotations obj kvs = SetAnnotations obj (map_of kvs)"
  by (auto simp: pkg_SetAnnotations_def SetAnnotations_def Let_def)

lemma stamp_agree:
  assumes "same_stamp d c input rr res"
  shows "stampMetadata d res input fo = prepare_resource c rr fo res"
proof -
  let ?l = "pairs (dpLabels d)" and ?a = "pairs (dpAnnotations d)"
  have l: "pkg_SetLabels res ?l = SetLabels res (map_of ?l)"
    using assms by (intro pkg_SetLabels_as) (auto simp: same_stamp_def)
  have ann: "oAnnotations (SetLabels res m) = oAnnotations res" for m by (simp add: SetLabels_def Let_def)
  have a: "pkg_SetAnnotations (SetLabels res m) ?a = SetAnnotations (SetLabels res m) (map_of ?a)" for m
    using assms by (intro pkg_SetAnnotations_as) (auto simp: same_stamp_def ann)
  from assms have s: "map_of ?l = opt_map (daLabels c)" "map_of ?a = opt_map (daAnnotations c)" "inOwner input = Some (rrInstance rr)"
    "inReleaseType input = relName (rrRelease rr)" "inReleaseVersion input = relVersion (rrRelease rr)"
    "relName (rrRelease rr) \<noteq> ''''" "relVersion (rrRelease rr) \<noteq> ''''"
    "daAnnotationPrefix c = ''platform.opendatahub.io''" "daPartOfLabelKey c = ''platform.opendatahub.io/part-of''"
    unfolding same_stamp_def by blast+
  show ?thesis
    unfolding stampMetadata_def prepare_resource_def stamp_instance_def Let_def l a pkg_metadata_agree s(1-5,8,9) option.case
    using s(6,7) by simp
qed


text \<open>Neither a customizer nor a merge strategy exists for the kind, and there is no aggregation rule to respect.\<close>

definition plain_kind :: "nested_ops \<Rightarrow> Deployer \<Rightarrow> 'w deploy_action \<Rightarrow> kobj \<Rightarrow> bool" where
  "plain_kind ops d a res \<longleftrightarrow> daApplyCustomizers a (oGVK res) = None \<and> dpMergeStrategies d (oGVK res) = None \<and>
     nGet ops (oBody res) [''aggregationRule''] = Inr None"

lemma create_agree: "deployer_create = create_object"
  unfolding fun_eq_iff deployer_create_def create_object_def by simp

lemma apply_agree:
  assumes "plain_kind ops d a obj"
  shows "apply_object dc a w fo obj cur =
    (case deployer_apply ops dc d w fo obj cur of (w', Inl e) \<Rightarrow> (w', Inl e) | (w', Inr x) \<Rightarrow> (w', Inr (Some x)))"
proof -
  have merge: "runMergeStrategy d cur obj = Inr obj" using assms by (simp add: runMergeStrategy_def plain_kind_def split: option.split)
  have cust: "run_customizer (daApplyCustomizers a) ''apply'' w (config_of a) obj cur = (w, Inr (obj, cur))"
    using assms by (simp add: run_customizer_def plain_kind_def)
  have agg: "(if cur = None then Inr obj else case nGet ops (oBody obj) [''aggregationRule''] of
       Inl e \<Rightarrow> Inl (ErrWrap (''failed to inspect aggregationRule for '' @ oNamespace obj @ ''/'' @ oName obj) e)
     | Inr None \<Rightarrow> Inr obj | Inr (Some _) \<Rightarrow> Inr (obj\<lparr>oBody := nRemove ops (oBody obj) [''rules'']\<rparr>)) = Inr obj"
    using assms by (simp add: plain_kind_def)
  show ?thesis
    unfolding apply_object_def deployer_apply_def merge cust sum.case prod.case agg pkg_apply_agree by (simp split: prod.split option.split)
qed

text \<open>
  C13: the two deployers are interchangeable on a resource. With the same labels, annotations, owner,
  release, cache setting and managed annotation, server-side apply, no legacy owners, and for a kind
  that has no customizer or merge strategy and on whose ownership they agree, both leave the same
  world, and so the same objects and the same cache, and report the same outcome.
\<close>

theorem deployers_agree:
  assumes match: "same_stamp d (config_of a) input rr res" "dpCache d = daCache a" "dpManagedKey d = daManagedByAnnotation a"
      "dpMode d = ModeSSA" "daMode a = ModeSSA" "dpLegacyOwners d = []"
    and kind: "plain_kind ops d a res" "snd (shouldOwn (rrController rr) (oGVK res)) = (oGVK res \<notin> dpExclude d)"
    and kept: "\<forall>p u u'. dcSetController dc p u = Inr u' \<longrightarrow> oGVK u' = oGVK u \<and> oBody u' = oBody u"
    and owner: "resolveFieldOwner dc (config_of a) rr = Inr fo" "resolveControllerName dc d input = Inr fo"
    and run: "deploy_resource dc a rr res current = (w', ot', obj, r)"
  shows "pkg_deployResource parse ops dc d (rrWorld rr) input res current fo = (w', r)"
proof -
  define ob where "ob = prepare_resource (config_of a) rr fo res"
  have stamp: "stampMetadata d res input fo = ob" using stamp_agree[OF match(1)] by (simp add: ob_def)
  have ident: "oGVK ob = oGVK res" "oBody ob = oBody res"
    by (simp_all add: ob_def prepare_resource_def stamp_instance_def SetAnnotation_def SetAnnotations_def SetLabel_def SetLabels_def Let_def)
  have cache: "dpCache d = daCache (config_of a)" by (simp add: match(2))
  note skip = shouldSkip_agree[OF cache]
  note caching = cacheResult_agree[OF cache]
  obtain w1 s where sk: "ShouldSkip dc (config_of a) (rrWorld rr) current (Some ob) = (w1, s)" by fastforce
  note fw = run[unfolded deploy_resource_def Let_def owner(1) sum.case ob_def[symmetric] sk prod.case]
  note goal = pkg_deployResource_def[of parse ops dc d "rrWorld rr" input res current fo, unfolded Let_def stamp skip sk prod.case]
  have finish: "(case (case applyWithMode ops dc d w1 x current fo of (w2, Inl e) \<Rightarrow> (w2, Inl e) | (w2, Inr dep) \<Rightarrow> (w2, Inr (Some dep))) of
        (w2, Inl e) \<Rightarrow> (w2, ot1, ob, Inl e)
      | (w2, Inr deployed) \<Rightarrow> (case cache_deployed dc (config_of a) w2 deployed ob of (w3, r) \<Rightarrow> (w3, ot1, ob, r))) = (w', ot', obj, r) \<Longrightarrow>
      (case applyWithMode ops dc d w1 x current fo of (w2, Inl e) \<Rightarrow> (w2, Inl e)
       | (w2, Inr deployed) \<Rightarrow> (case cacheResult dc d w2 deployed ob of (w3, Some e) \<Rightarrow> (w3, Inl e) | (w3, None) \<Rightarrow> (w3, Inr True))) = (w', r)" for x ot1
    by (auto simp: caching split: prod.splits sum.splits option.splits)
  have writing: "write_object dc a w1 fo x current =
      (case applyWithMode ops dc d w1 x current fo of (w2, Inl e) \<Rightarrow> (w2, Inl e) | (w2, Inr dep) \<Rightarrow> (w2, Inr (Some dep)))"
    if "oGVK x = oGVK res" "oBody x = oBody res" for x
    using apply_agree[of ops d a x dc w1 fo current] kind(1) that by (simp add: plain_kind_def write_object_def applyWithMode_def match(4,5))
  show ?thesis
  proof (cases s)
    case (Inr skipped)
    show ?thesis
    proof (cases skipped)
      case False
      then have f: "skipped = False" by simp
      show ?thesis
      proof (cases "GetAnnotation ob (daManagedByAnnotation a) = ''false''")
        case True
        obtain w2 dep err where cr: "create_object dc w1 (RemoveAnnotation ob (daManagedByAnnotation a)) = (w2, dep, err)" by (metis prod_cases3)
        have "applyResource parse ops dc d w1 input ob current fo =
            (if (case err of None \<Rightarrow> False | Some e \<Rightarrow> \<not> IsAlreadyExists e) then (w2, Inl (the err)) else (w2, Inr dep))"
          unfolding applyResource_def match(3) pkg_metadata_agree create_agree cr prod.case using True by simp
        with fw Inr f True cr show ?thesis unfolding goal
          by (auto simp: caching split: if_splits prod.splits option.splits)
      next
        case managed: False
        obtain ot1 owned where own: "shouldOwn (rrController rr) (oGVK ob) = (ot1, owned)" by fastforce
        then have ex: "isExcludedFromOwnership d (oGVK ob) \<longleftrightarrow> \<not> owned"
          using kind(2) by (simp add: isExcludedFromOwnership_def ident)
        have inp: "inOwner input = Some (rrInstance rr)" using match(1) by (simp add: same_stamp_def)
        note fw2 = fw[unfolded Inr f sum.case bool.case if_not_P[OF managed] own prod.case]
        have cur: "(case current of None \<Rightarrow> (w1, current, None) | Some cur \<Rightarrow> if length (dpLegacyOwners d) > 0
            then (case removeLegacyOwnerRefs parse dc d w1 cur of (w1, cur1, err) \<Rightarrow> (w1, Some cur1, err)) else (w1, current, None)) =
            (w1, current, None)" by (simp add: match(6) split: option.split)
        have app: "applyResource parse ops dc d w1 input ob current fo =
            (case (if owned then dcSetController dc (rrInstance rr) (ob\<lparr>oOwnerRefs := []\<rparr>) else Inr ob) of
               Inl e \<Rightarrow> (w1, Inl e) | Inr x \<Rightarrow> applyWithMode ops dc d w1 x current fo)"
          unfolding applyResource_def match(3) pkg_metadata_agree if_not_P[OF managed] inp option.case ex cur prod.case by simp
        show ?thesis
        proof (cases "if owned then dcSetController dc (rrInstance rr) (ob\<lparr>oOwnerRefs := []\<rparr>) else Inr ob")
          case ctl: (Inl e)
          with fw2 show ?thesis unfolding goal Inr f sum.case bool.case app ctl prod.case by simp
        next
          case ctl: (Inr x)
          then have "oGVK x = oGVK res" "oBody x = oBody res" using kept ident by (auto split: if_splits)
          note fw3 = fw2[unfolded ctl sum.case writing[OF this]]
          from finish[OF fw3] show ?thesis unfolding goal Inr f sum.case bool.case app ctl prod.case .
        qed
      qed
    qed (use fw Inr in \<open>simp add: goal\<close>)
  next
    case (Inl e)
    with fw have "w1 = w'" "r = Inl e" by simp_all
    then show ?thesis unfolding goal Inl by simp
  qed
qed


section \<open>The loop\<close>

text \<open>The world before resource number \<open>i\<close>.\<close>

primrec deploy_state :: "('w \<Rightarrow> kobj \<Rightarrow> 'w \<times> (go_error + bool)) \<Rightarrow> 'w \<Rightarrow> kobj list \<Rightarrow> nat \<Rightarrow> 'w" where
  "deploy_state one w rs 0 = w"
| "deploy_state one w rs (Suc i) = fst (one (deploy_state one w rs i) (rs ! i))"

lemma deploy_state_shift: "deploy_state one w (r # rs) (Suc i) = deploy_state one (fst (one w r)) rs i"
  by (induction i) simp_all

lemma deploy_all_outcome:
  assumes "one = (\<lambda>w res. deployOne parse ops dc d w input res name)" and "st = deploy_state one w rs"
  shows "(deploy_all parse ops dc d input name w rs = (st (length rs), None) \<and> (\<forall>i<length rs. \<not> isl (snd (one (st i) (rs ! i))))) \<or>
    (\<exists>i<length rs. \<exists>e. (\<forall>j<i. \<not> isl (snd (one (st j) (rs ! j)))) \<and> snd (one (st i) (rs ! i)) = Inl e \<and>
       deploy_all parse ops dc d input name w rs =
         (st (Suc i), Some (ErrWrap (''failure deploying resource '' @ oNamespace (rs ! i) @ ''/'' @ oName (rs ! i)) e)))"
  using assms(2)
proof (induction rs arbitrary: w st)
  case (Cons res rs)
  obtain w1 out where one: "one w res = (w1, out)" by fastforce
  then have dep: "deployOne parse ops dc d w input res name = (w1, out)" by (simp add: assms(1))
  show ?case
  proof (cases out)
    case (Inl e)
    with one dep show ?thesis unfolding Cons.prems
      by (intro disjI2 exI[of _ 0] conjI exI[of _ e]) simp_all
  next
    case (Inr ok)
    have shift: "st (Suc i) = deploy_state one w1 rs i" for i
      unfolding Cons.prems deploy_state_shift one by simp
    have st0: "one (st 0) ((res # rs) ! 0) = (w1, Inr ok)" using one Inr by (simp add: Cons.prems)
    have all: "deploy_all parse ops dc d input name w (res # rs) = deploy_all parse ops dc d input name w1 rs" using dep Inr by simp
    from Cons.IH[OF refl, of w1] show ?thesis
    proof
      assume handled: "deploy_all parse ops dc d input name w1 rs = (deploy_state one w1 rs (length rs), None) \<and>
        (\<forall>i<length rs. \<not> isl (snd (one (deploy_state one w1 rs i) (rs ! i))))"
      have "\<not> isl (snd (one (st i) ((res # rs) ! i)))" if "i < length (res # rs)" for i
        using that handled st0 by (cases i) (auto simp: shift)
      then show ?thesis using handled unfolding all by (intro disjI1) (simp add: shift)
    next
      assume "\<exists>i<length rs. \<exists>e. (\<forall>j<i. \<not> isl (snd (one (deploy_state one w1 rs j) (rs ! j)))) \<and> snd (one (deploy_state one w1 rs i) (rs ! i)) = Inl e \<and>
        deploy_all parse ops dc d input name w1 rs =
         (deploy_state one w1 rs (Suc i), Some (ErrWrap (''failure deploying resource '' @ oNamespace (rs ! i) @ ''/'' @ oName (rs ! i)) e))"
      then obtain i e where i: "i < length rs" "\<forall>j<i. \<not> isl (snd (one (deploy_state one w1 rs j) (rs ! j)))"
        "snd (one (deploy_state one w1 rs i) (rs ! i)) = Inl e" and fin: "deploy_all parse ops dc d input name w1 rs =
         (deploy_state one w1 rs (Suc i), Some (ErrWrap (''failure deploying resource '' @ oNamespace (rs ! i) @ ''/'' @ oName (rs ! i)) e))" by blast
      have "\<not> isl (snd (one (st j) ((res # rs) ! j)))" if "j < Suc i" for j
        using that i(2) st0 by (cases j) (auto simp: shift)
      then show ?thesis unfolding all fin
        using i(1,3) by (intro disjI2 exI[of _ "Suc i"] conjI exI[of _ e]) (simp_all add: shift del: deploy_state.simps)
    qed
  qed
qed simp

text \<open>
  the deployer takes the sorted resources in order and stops at the first that fails, whose error it
  returns with the resource's name; when it returns no error every resource was handled. Whenever the
  live object carries the unmanaged mark, its step changes nothing in the cluster or the cache.
\<close>

theorem deployer_outcome:
  assumes "prepareResources dc d w input = (w1, Inr rs)" and "resolveControllerName dc d input = Inr name"
    and "one = (\<lambda>w res. deployOne parse ops dc d w input res name)" and "st = deploy_state one w1 rs"
  shows "((Deployer_Deploy parse ops dc d w input = (st (length rs), None) \<and> (\<forall>i<length rs. \<not> isl (snd (one (st i) (rs ! i))))) \<or>
     (\<exists>i<length rs. \<exists>e. (\<forall>j<i. \<not> isl (snd (one (st j) (rs ! j)))) \<and> snd (one (st i) (rs ! i)) = Inl e \<and>
       Deployer_Deploy parse ops dc d w input =
         (st (Suc i), Some (ErrWrap (''failure deploying resource '' @ oNamespace (rs ! i) @ ''/'' @ oName (rs ! i)) e)))) \<and>
    (\<forall>i<length rs. \<forall>live. dcGet dc (st i) (oGVK (rs ! i)) (oNamespace (rs ! i), oName (rs ! i)) = Inr live \<and>
       GetAnnotation live (dpManagedKey d) = ''false'' \<longrightarrow> st (Suc i) = st i)"
proof
  have "Deployer_Deploy parse ops dc d w input = deploy_all parse ops dc d input name w1 rs"
    by (simp add: Deployer_Deploy_def assms(1,2))
  with deploy_all_outcome[OF assms(3,4)]
  show "(Deployer_Deploy parse ops dc d w input = (st (length rs), None) \<and> (\<forall>i<length rs. \<not> isl (snd (one (st i) (rs ! i))))) \<or>
     (\<exists>i<length rs. \<exists>e. (\<forall>j<i. \<not> isl (snd (one (st j) (rs ! j)))) \<and> snd (one (st i) (rs ! i)) = Inl e \<and>
       Deployer_Deploy parse ops dc d w input =
         (st (Suc i), Some (ErrWrap (''failure deploying resource '' @ oNamespace (rs ! i) @ ''/'' @ oName (rs ! i)) e)))" by simp
  show "\<forall>i<length rs. \<forall>live. dcGet dc (st i) (oGVK (rs ! i)) (oNamespace (rs ! i), oName (rs ! i)) = Inr live \<and>
       GetAnnotation live (dpManagedKey d) = ''false'' \<longrightarrow> st (Suc i) = st i"
    by (simp add: assms(3,4) deployOne_def pkg_metadata_agree)
qed


section \<open>Examples\<close>

definition ex_platform_action :: "ex_cluster deploy_action" where
  "ex_platform_action = (ex_action ModeSSA True False)\<lparr>daAnnotationPrefix := ''platform.opendatahub.io'',
     daPartOfLabelKey := ''platform.opendatahub.io/part-of'', daManagedByAnnotation := ''opendatahub.io/managed''\<rparr>"

definition ex_labelled :: kobj where
  "ex_labelled = ex_cm\<lparr>oLabels := Some Map.empty, oAnnotations := Some Map.empty\<rparr>"

definition ex_input :: "kobj list \<Rightarrow> DeployInput" where
  "ex_input rs = \<lparr>inOwner = Some ex_object, inReleaseType = ''ODH'', inReleaseVersion = ''1.0.0'', inResources = rs\<rparr>"

definition ex_deployer :: Deployer where
  "ex_deployer = NewDeployer [dp_WithCache, dp_WithExcludeFromOwnership [mk_gvk '''' ''v1'' ''ConfigMap'']]"

lemmas ex_pkg = ex_platform_action_def ex_labelled_def ex_input_def ex_deployer_def NewDeployer_def dp_WithCache_def
  dp_WithExcludeFromOwnership_def pairs_def

theorem deployers_agree_witness:
  "case deploy_resource ex_dc ex_platform_action (ex_request ([], [])) ex_labelled None of (w', ot', obj, r) \<Rightarrow>
     r = Inr True \<and> length (snd w') = 1 \<and>
     pkg_deployResource (\<lambda>s. Inr ('''', s)) ((ex_ops [])\<lparr>nGet := \<lambda>fs p. Inr None\<rparr>) ex_dc ex_deployer ([], []) (ex_input []) ex_labelled None ''dashboard'' = (w', r)"
proof -
  let ?rr = "ex_request ([], []) :: ex_cluster request" and ?ops = "(ex_ops [])\<lparr>nGet := \<lambda>fs p. Inr None\<rparr>"
  obtain w' ot' obj r where run: "deploy_resource ex_dc ex_platform_action ?rr ex_labelled None = (w', ot', obj, r)" by (metis prod_cases4)
  have stamp: "same_stamp ex_deployer (config_of ex_platform_action) (ex_input []) ?rr ex_labelled"
    by (simp add: same_stamp_def ex_pkg ex_deploy opt_map_def)
  have m: "dpCache ex_deployer = daCache ex_platform_action" "dpManagedKey ex_deployer = daManagedByAnnotation ex_platform_action"
    "dpMode ex_deployer = ModeSSA" "daMode ex_platform_action = ModeSSA" "dpLegacyOwners ex_deployer = []"
    by (simp_all add: ex_pkg ex_deploy)
  have kind: "plain_kind ?ops ex_deployer ex_platform_action ex_labelled"
    by (simp add: plain_kind_def ex_pkg ex_deploy)
  have own: "snd (shouldOwn (rrController ?rr) (oGVK ex_labelled)) = (oGVK ex_labelled \<notin> dpExclude ex_deployer)" by code_simp
  have kept: "\<forall>p u u'. dcSetController ex_dc p u = Inr u' \<longrightarrow> oGVK u' = oGVK u \<and> oBody u' = oBody u"
    by (simp add: ex_dc_def)
  have fo: "resolveFieldOwner ex_dc (config_of ex_platform_action) ?rr = Inr ''dashboard''"
    "resolveControllerName ex_dc ex_deployer (ex_input []) = Inr ''dashboard''" by code_simp+
  note agree = deployers_agree[OF stamp m kind own kept fo run]
  have res: "snd (snd (snd (deploy_resource ex_dc ex_platform_action ?rr ex_labelled None))) = Inr True"
    "length (snd (fst (deploy_resource ex_dc ex_platform_action ?rr ex_labelled None))) = 1" by code_simp+
  with agree res show ?thesis unfolding run by (simp add: ex_request_def)
qed

theorem deployer_outcome_witness:
  "Deployer_Deploy (\<lambda>s. Inr ('''', s)) (ex_ops []) ex_dc (NewDeployer [dp_WithManagedAnnotation ''managed'']) ([ex_taken], []) (ex_input [ex_cm]) =
     (([ex_taken], []), None)"
proof -
  let ?d = "NewDeployer [dp_WithManagedAnnotation ''managed'']" and ?w = "([ex_taken], []) :: ex_cluster"
  have prep: "prepareResources ex_dc ?d ?w (ex_input [ex_cm]) = (?w, Inr [ex_cm])"
    by (simp add: prepareResources_def NewDeployer_def dp_WithManagedAnnotation_def ex_input_def)
  have name: "resolveControllerName ex_dc ?d (ex_input [ex_cm]) = Inr ''dashboard''" by code_simp
  let ?one = "\<lambda>w res. deployOne (\<lambda>s. Inr ('''', s)) (ex_ops []) ex_dc ?d w (ex_input [ex_cm]) res ''dashboard''"
  have live: "dcGet ex_dc ?w (oGVK ex_cm) (oNamespace ex_cm, oName ex_cm) = Inr ex_taken \<and> GetAnnotation ex_taken (dpManagedKey ?d) = ''false''"
    by (simp add: ex_find_def ex_taken_def ex_deploy GetAnnotation_def go_get_def NewDeployer_def dp_WithManagedAnnotation_def)
  then have "snd (?one ?w ex_cm) = Inr False" by (simp add: deployOne_def pkg_metadata_agree)
  with deployer_outcome[OF prep name refl refl, of "\<lambda>s. Inr ('''', s)" "ex_ops []"] live show ?thesis by auto
qed

end
