(* ===== verification/Flaky.thy ===== *)
theory Flaky
  imports GoErrors Complex_Main
begin

text \<open>
  The flakiness analyzer (\<^verbatim>\<open>flakiness/\<close>): classification of test histories (\<^verbatim>\<open>analyzer.go\<close>), the report
  and the quarantine list (\<^verbatim>\<open>report.go\<close>).

  A float64 that is computed is a rational number and \<open>rnd\<close> the rounding of a result to the nearest
  float64: each operation on floats is the exact operation followed by \<open>rnd\<close>. Thresholds, which come
  from a file or from the environment and are only compared, range over all floats, NaN and the infinities included. Times are nanoseconds since the zero
  time. Storage, Jira, regular expressions and the time and float parsers are parameters.
\<close>

section \<open>Identity of tests\<close>

definition NUL :: char where "NUL = CHR 0x00"

definition TestKey :: "string \<Rightarrow> string \<Rightarrow> string \<Rightarrow> string" where
  "TestKey name suite job =
     (if suite = '''' \<and> job = '''' then name else suite @ [NUL] @ job @ [NUL] @ name)"

section \<open>Thresholds\<close>

datatype gofloat = FFin rat | FNaN | FPosInf | FNegInf

text \<open>The comparisons of Go: every one with NaN is false.\<close>

fun float_less :: "gofloat \<Rightarrow> gofloat \<Rightarrow> bool" where
  "float_less (FFin x) (FFin y) = (x < y)"
| "float_less (FFin x) FPosInf = True"
| "float_less FNegInf (FFin y) = True"
| "float_less FNegInf FPosInf = True"
| "float_less _ _ = False"

definition float_leq :: "gofloat \<Rightarrow> gofloat \<Rightarrow> bool" where
  "float_leq x y \<longleftrightarrow> x \<noteq> FNaN \<and> (x = y \<or> float_less x y)"

lemma float_leq_simps [simp]:
  "float_leq (FFin p) (FFin q) \<longleftrightarrow> p \<le> q" "\<not> float_leq FNaN y" "\<not> float_leq x FNaN"
  by (auto simp: float_leq_def)

section \<open>Classification\<close>

datatype FailurePattern = PatternHealthy | PatternFlaky | PatternRegression | PatternPersistent

record ClassifyOptions =
  clMinRecentFailsForRegression :: int
  clMaxPreTransitionFailRate :: rat
  clMinRuns :: int

definition DefaultClassifyOptions :: "(rat \<Rightarrow> rat) \<Rightarrow> ClassifyOptions" where
  "DefaultClassifyOptions rnd =
     \<lparr>clMinRecentFailsForRegression = 3, clMaxPreTransitionFailRate = rnd (1 / 5), clMinRuns = 1\<rparr>"

definition withDefaults :: "(rat \<Rightarrow> rat) \<Rightarrow> ClassifyOptions \<Rightarrow> ClassifyOptions" where
  "withDefaults rnd opts =
     \<lparr>clMinRecentFailsForRegression =
        (if clMinRecentFailsForRegression opts \<le> 0 then 3 else clMinRecentFailsForRegression opts),
      clMaxPreTransitionFailRate =
        (if clMaxPreTransitionFailRate opts \<le> 0 then rnd (1 / 5) else clMaxPreTransitionFailRate opts),
      clMinRuns = (if clMinRuns opts \<le> 0 then 1 else clMinRuns opts)\<rparr>"

record RunOutcome =
  roTimestamp :: gotime
  roFailed :: bool
  roBuildID :: string
  roCommitSHA :: string
  roPRNumber :: string

record TestRecord =
  trName :: string
  trSuite :: string
  trJob :: string
  trTotalRuns :: int
  trFailedRuns :: int
  trPassedRuns :: int
  trLastSeen :: gotime
  trLastFailed :: gotime
  trHistory :: "RunOutcome list"

definition TestRecord_Key :: "TestRecord \<Rightarrow> string" where
  "TestRecord_Key r = TestKey (trName r) (trSuite r) (trJob r)"

definition FlakeRate :: "(rat \<Rightarrow> rat) \<Rightarrow> TestRecord \<Rightarrow> rat" where
  "FlakeRate rnd r =
     (if trTotalRuns r = 0 then 0 else rnd (rat_of_int (trFailedRuns r) / rat_of_int (trTotalRuns r)))"

definition sortedHistory :: "TestRecord \<Rightarrow> RunOutcome list" where
  "sortedHistory r = sort_stable_func (\<lambda>a b. cmp_compare (roTimestamp a) (roTimestamp b)) (trHistory r)"

fun count_leading :: "RunOutcome list \<Rightarrow> nat" where
  "count_leading [] = 0"
| "count_leading (x # xs) = (if \<not> roFailed x then 0 else Suc (count_leading xs))"

definition countTrailingFailures :: "RunOutcome list \<Rightarrow> nat" where
  "countTrailingFailures srt = count_leading (rev srt)"

text \<open>The transition is present exactly when the Go code sets \<^verbatim>\<open>HasTransition\<close>.\<close>

record AnalysisResult =
  anPattern :: FailurePattern
  anTransition :: "RunOutcome option"

definition just_pattern :: "FailurePattern \<Rightarrow> AnalysisResult" where
  "just_pattern p = \<lparr>anPattern = p, anTransition = None\<rparr>"

definition analyzeWith :: "(rat \<Rightarrow> rat) \<Rightarrow> ClassifyOptions \<Rightarrow> TestRecord \<Rightarrow> AnalysisResult" where
  "analyzeWith rnd opts0 r =
     (let opts = withDefaults rnd opts0
      in if trTotalRuns r < clMinRuns opts \<or> trFailedRuns r = 0 then just_pattern PatternHealthy
         else if trPassedRuns r = 0 then just_pattern PatternPersistent
         else
           let srt = sortedHistory r
           in if length srt < 2 then just_pattern PatternFlaky
              else
                let trailingFails = countTrailingFailures srt
                in if int trailingFails < clMinRecentFailsForRegression opts then just_pattern PatternFlaky
                   else
                     let preTransitionEnd = length srt - trailingFails
                     in if preTransitionEnd = 0 then just_pattern PatternPersistent
                        else
                          let preFails = length (filter roFailed (take preTransitionEnd srt));
                              preFailRate = rnd (rat_of_nat preFails / rat_of_nat preTransitionEnd)
                          in if preFailRate \<le> clMaxPreTransitionFailRate opts
                             then \<lparr>anPattern = PatternRegression, anTransition = Some (srt ! preTransitionEnd)\<rparr>
                             else just_pattern PatternFlaky)"

definition ClassifyPatternWith :: "(rat \<Rightarrow> rat) \<Rightarrow> ClassifyOptions \<Rightarrow> TestRecord \<Rightarrow> FailurePattern" where
  "ClassifyPatternWith rnd opts r = anPattern (analyzeWith rnd opts r)"

definition ClassifyPattern :: "(rat \<Rightarrow> rat) \<Rightarrow> TestRecord \<Rightarrow> FailurePattern" where
  "ClassifyPattern rnd r = ClassifyPatternWith rnd (DefaultClassifyOptions rnd) r"

definition TransitionCommitWith :: "(rat \<Rightarrow> rat) \<Rightarrow> ClassifyOptions \<Rightarrow> TestRecord \<Rightarrow> string" where
  "TransitionCommitWith rnd opts r =
     (case anTransition (analyzeWith rnd opts r) of
        None \<Rightarrow> ''''
      | Some t \<Rightarrow> if roCommitSHA t \<noteq> '''' then roCommitSHA t else roBuildID t)"

definition TransitionPRWith :: "(rat \<Rightarrow> rat) \<Rightarrow> ClassifyOptions \<Rightarrow> TestRecord \<Rightarrow> string" where
  "TransitionPRWith rnd opts r =
     (case anTransition (analyzeWith rnd opts r) of None \<Rightarrow> '''' | Some t \<Rightarrow> roPRNumber t)"

definition TransitionCommit :: "(rat \<Rightarrow> rat) \<Rightarrow> TestRecord \<Rightarrow> string" where
  "TransitionCommit rnd r = TransitionCommitWith rnd (DefaultClassifyOptions rnd) r"

definition TransitionPR :: "(rat \<Rightarrow> rat) \<Rightarrow> TestRecord \<Rightarrow> string" where
  "TransitionPR rnd r = TransitionPRWith rnd (DefaultClassifyOptions rnd) r"

definition ShouldQuarantine :: "(rat \<Rightarrow> rat) \<Rightarrow> gofloat \<Rightarrow> ClassifyOptions \<Rightarrow> TestRecord \<Rightarrow> bool" where
  "ShouldQuarantine rnd threshold opts r \<longleftrightarrow>
     anPattern (analyzeWith rnd opts r) = PatternFlaky \<and> float_less threshold (FFin (FlakeRate rnd r))"

section \<open>The report\<close>

text \<open>The tests of a report are a Go map: an association list in some iteration order.\<close>

record Report =
  reTests :: "(string \<times> TestRecord) list"
  reOptions :: ClassifyOptions

record QuarantineEntry =
  qeName :: string
  qeSuite :: string
  qeJob :: string
  qeQuarantined :: bool
  qeClassification :: FailurePattern
  qeFlakeRate :: rat
  qeTotalRuns :: int
  qeFailedRuns :: int
  qeRegressionSHA :: string
  qeRegressionPR :: string
  qeLastSeen :: gotime
  qeLastFailed :: gotime
  qeJiraKey :: string

definition entry_key :: "QuarantineEntry \<Rightarrow> string" where
  "entry_key e = TestKey (qeName e) (qeSuite e) (qeJob e)"

definition regression_of :: "RunOutcome option \<Rightarrow> string \<times> string" where
  "regression_of t =
     (case t of None \<Rightarrow> ('''', '''')
      | Some t \<Rightarrow> ((if roCommitSHA t \<noteq> '''' then roCommitSHA t else roBuildID t), roPRNumber t))"

definition quarantine_entry :: "(rat \<Rightarrow> rat) \<Rightarrow> ClassifyOptions \<Rightarrow> gofloat \<Rightarrow> TestRecord \<Rightarrow> QuarantineEntry" where
  "quarantine_entry rnd opts threshold rec =
     (let a = analyzeWith rnd opts rec
      in \<lparr>qeName = trName rec, qeSuite = trSuite rec, qeJob = trJob rec,
          qeQuarantined = (anPattern a = PatternFlaky \<and> float_less threshold (FFin (FlakeRate rnd rec))), qeClassification = anPattern a,
          qeFlakeRate = FlakeRate rnd rec, qeTotalRuns = trTotalRuns rec, qeFailedRuns = trFailedRuns rec,
          qeRegressionSHA = fst (regression_of (anTransition a)), qeRegressionPR = snd (regression_of (anTransition a)),
          qeLastSeen = trLastSeen rec, qeLastFailed = trLastFailed rec, qeJiraKey = ''''\<rparr>)"

text \<open>By descending rate, then by key.\<close>

definition by_rate :: "('a \<Rightarrow> rat) \<Rightarrow> ('a \<Rightarrow> string) \<Rightarrow> 'a \<Rightarrow> 'a \<Rightarrow> int" where
  "by_rate rate key x y =
     (if rate x \<noteq> rate y then (if rate x > rate y then -1 else 1) else cmp_compare (key x) (key y))"

definition QuarantineList :: "(rat \<Rightarrow> rat) \<Rightarrow> Report \<Rightarrow> gofloat \<Rightarrow> QuarantineEntry list" where
  "QuarantineList rnd r threshold =
     sort_stable_func (by_rate qeFlakeRate entry_key)
       (map (quarantine_entry rnd (reOptions r) threshold)
         (filter (\<lambda>rec. anPattern (analyzeWith rnd (reOptions r) rec) \<noteq> PatternHealthy) (map snd (reTests r))))"

text \<open>A classification has the fields of an entry, the Jira key apart, and keeps healthy tests.\<close>

definition classifyWith :: "(rat \<Rightarrow> rat) \<Rightarrow> Report \<Rightarrow> bool \<Rightarrow> gofloat \<Rightarrow> QuarantineEntry list" where
  "classifyWith rnd r quarantine threshold =
     sort_stable_func (by_rate qeFlakeRate entry_key)
       (map (\<lambda>rec. let e = quarantine_entry rnd (reOptions r) threshold rec in e\<lparr>qeQuarantined := (quarantine \<and> qeQuarantined e)\<rparr>)
         (map snd (reTests r)))"

definition Classify :: "(rat \<Rightarrow> rat) \<Rightarrow> Report \<Rightarrow> QuarantineEntry list" where
  "Classify rnd r = classifyWith rnd r False (FFin 0)"

definition ClassifyWithQuarantine :: "(rat \<Rightarrow> rat) \<Rightarrow> Report \<Rightarrow> gofloat \<Rightarrow> QuarantineEntry list" where
  "ClassifyWithQuarantine rnd r threshold = classifyWith rnd r True threshold"

definition ExceedingThreshold :: "(rat \<Rightarrow> rat) \<Rightarrow> Report \<Rightarrow> gofloat \<Rightarrow> TestRecord list" where
  "ExceedingThreshold rnd r threshold =
     sort_stable_func (by_rate (FlakeRate rnd) TestRecord_Key)
       (filter (\<lambda>rec. float_less threshold (FFin (FlakeRate rnd rec))) (map snd (reTests r)))"

definition FlakyTests :: "(rat \<Rightarrow> rat) \<Rightarrow> Report \<Rightarrow> gofloat \<Rightarrow> TestRecord list" where
  "FlakyTests rnd r threshold =
     sort_stable_func (by_rate (FlakeRate rnd) TestRecord_Key)
       (filter (\<lambda>rec. ClassifyPatternWith rnd (reOptions r) rec = PatternFlaky \<and> float_less threshold (FFin (FlakeRate rnd rec)))
         (map snd (reTests r)))"

definition Regressions :: "(rat \<Rightarrow> rat) \<Rightarrow> Report \<Rightarrow> TestRecord list" where
  "Regressions rnd r =
     sort_stable_func
       (\<lambda>x y. if trLastFailed x \<noteq> trLastFailed y then (if trLastFailed x > trLastFailed y then -1 else 1)
              else cmp_compare (TestRecord_Key x) (TestRecord_Key y))
       (filter (\<lambda>rec. ClassifyPatternWith rnd (reOptions r) rec = PatternRegression) (map snd (reTests r)))"

section \<open>Reading the stored series\<close>

text \<open>
  A series has labels (a missing label reads as the empty string), the timestamps of its float
  samples in milliseconds, and the error its iterator ends with.
\<close>

record series =
  seLabels :: "string \<Rightarrow> string"
  seSamples :: "int list"
  seErr :: "go_error option"

definition unix_milli :: "int \<Rightarrow> gotime" where
  "unix_milli ts = (ts + 62135596800000) * 1000000"

definition isAnalyzableOutcome :: "string \<Rightarrow> bool" where
  "isAnalyzableOutcome result \<longleftrightarrow> result = ''pass'' \<or> result = ''fail'' \<or> result = ''error''"

definition record_run :: "string \<Rightarrow> RunOutcome \<Rightarrow> TestRecord \<Rightarrow> TestRecord" where
  "record_run result run r =
     (let r1 = r\<lparr>trTotalRuns := trTotalRuns r + 1\<rparr>;
          r2 = (if roFailed run
                then r1\<lparr>trFailedRuns := trFailedRuns r1 + 1,
                        trLastFailed := (if roTimestamp run > trLastFailed r1 then roTimestamp run else trLastFailed r1)\<rparr>
                else if result = ''pass'' then r1\<lparr>trPassedRuns := trPassedRuns r1 + 1\<rparr> else r1);
          r3 = (if roTimestamp run > trLastSeen r2 then r2\<lparr>trLastSeen := roTimestamp run\<rparr> else r2)
      in r3\<lparr>trHistory := trHistory r3 @ [run]\<rparr>)"

definition new_record :: "string \<Rightarrow> string \<Rightarrow> string \<Rightarrow> TestRecord" where
  "new_record name suite job = \<lparr>trName = name, trSuite = suite, trJob = job, trTotalRuns = 0, trFailedRuns = 0, trPassedRuns = 0,
     trLastSeen = 0, trLastFailed = 0, trHistory = []\<rparr>"

fun update_test :: "string \<Rightarrow> TestRecord \<Rightarrow> (TestRecord \<Rightarrow> TestRecord) \<Rightarrow> (string \<times> TestRecord) list \<Rightarrow> (string \<times> TestRecord) list" where
  "update_test key fresh f [] = [(key, f fresh)]"
| "update_test key fresh f ((k, r) # rest) =
     (if k = key then (k, f r) # rest else (k, r) # update_test key fresh f rest)"

definition record_sample :: "series \<Rightarrow> int \<Rightarrow> (string \<times> TestRecord) list \<Rightarrow> (string \<times> TestRecord) list" where
  "record_sample s ts tests =
     (let l = seLabels s; result = l ''result'';
          run = \<lparr>roTimestamp = unix_milli ts, roFailed = (result = ''fail'' \<or> result = ''error''), roBuildID = l ''build_id'',
                 roCommitSHA = l ''commit_sha'', roPRNumber = l ''pr_number''\<rparr>
      in update_test (TestKey (l ''test_name'') (l ''suite'') (l ''job''))
           (new_record (l ''test_name'') (l ''suite'') (l ''job'')) (record_run result run) tests)"

fun analyze_series :: "series list \<Rightarrow> (string \<times> TestRecord) list \<Rightarrow> go_error + (string \<times> TestRecord) list" where
  "analyze_series [] tests = Inr tests"
| "analyze_series (s # ss) tests =
     (let l = seLabels s
      in if l ''test_name'' = '''' \<or> \<not> isAnalyzableOutcome (l ''result'') then analyze_series ss tests
         else
           let tests' = foldl (\<lambda>t ts. record_sample s ts t) tests (seSamples s)
           in case seErr s of
                Some e \<Rightarrow> Inl (ErrWrap (''iterating series for '' @ TestKey (l ''test_name'') (l ''suite'') (l ''job'')) e)
              | None \<Rightarrow> analyze_series ss tests')"

text \<open>
  \<open>select\<close> is the querier for the execution metric in the window: the series and the error they end with.
  An equality matcher never fails, so its error branch is left out.
\<close>

definition Analyze ::
  "(rat \<Rightarrow> rat) \<Rightarrow> (go_error + series list \<times> go_error option) \<Rightarrow> ClassifyOptions \<Rightarrow> go_error + Report" where
  "Analyze rnd select opts =
     (case select of
        Inl e \<Rightarrow> Inl (ErrWrap ''creating querier'' e)
      | Inr (ss, err) \<Rightarrow>
          (case analyze_series ss [] of
             Inl e \<Rightarrow> Inl e
           | Inr tests \<Rightarrow>
               (case err of
                  Some e \<Rightarrow> Inl (ErrWrap ''selecting series'' e)
                | None \<Rightarrow> Inr \<lparr>reTests = tests, reOptions = withDefaults rnd opts\<rparr>)))"

end
