(* ===== verification/FlakyRun.thy ===== *)
theory FlakyRun
  imports Flaky
begin

text \<open>
  The way from JUnit artifacts to stored samples: scraping with retries (\<^verbatim>\<open>flakiness/scraper.go\<close>),
  converting (\<^verbatim>\<open>junit.go\<close>) and recording the results (\<^verbatim>\<open>record.go\<close>). The outside world (bucket,
  database, clock, context) is a state of any type \<open>'w\<close>.
\<close>

section \<open>JUnit results\<close>

datatype TestOutcome = OutcomePass | OutcomeFail | OutcomeError | OutcomeSkip

fun outcome_string :: "TestOutcome \<Rightarrow> string" where
  "outcome_string OutcomePass = ''pass''"
| "outcome_string OutcomeFail = ''fail''"
| "outcome_string OutcomeError = ''error''"
| "outcome_string OutcomeSkip = ''skip''"

text \<open>A failure, error or skip element is present or not; \<open>jcTime\<close> is in seconds.\<close>

record JUnitTestCase =
  jcName :: string
  jcTime :: rat
  jcFailure :: bool
  jcError :: bool
  jcSkipped :: bool
  jcProperties :: "(string \<times> string) list"

record JUnitTestSuite =
  jsName :: string
  jsTimestamp :: string
  jsCases :: "JUnitTestCase list"

record TestResult =
  tsTimestamp :: gotime
  tsName :: string
  tsSuite :: string
  tsJob :: string
  tsBuildID :: string
  tsResult :: TestOutcome
  tsDuration :: duration
  tsCommitSHA :: string
  tsPRNumber :: string
  tsFailureCategory :: string
  tsFailureSubcategory :: string
  tsFailureConfidence :: string

definition outcomeFromCase :: "JUnitTestCase \<Rightarrow> TestOutcome" where
  "outcomeFromCase tc =
     (if jcError tc then OutcomeError else if jcFailure tc then OutcomeFail
      else if jcSkipped tc then OutcomeSkip else OutcomePass)"

fun applyFailureProperties :: "TestResult \<Rightarrow> (string \<times> string) list \<Rightarrow> TestResult" where
  "applyFailureProperties r [] = r"
| "applyFailureProperties r ((n, v) # ps) =
     applyFailureProperties
       (if n = ''failure.category'' then r\<lparr>tsFailureCategory := v\<rparr>
        else if n = ''failure.subcategory'' then r\<lparr>tsFailureSubcategory := v\<rparr>
        else if n = ''failure.confidence'' then r\<lparr>tsFailureConfidence := v\<rparr> else r) ps"

text \<open>\<^verbatim>\<open>time.Duration(f * float64(time.Second))\<close>: the conversion to an integer truncates towards zero.\<close>

definition seconds_to_duration :: "(rat \<Rightarrow> rat) \<Rightarrow> rat \<Rightarrow> duration" where
  "seconds_to_duration rnd f = (let ns = rnd (f * 1000000000) in if ns < 0 then - \<lfloor>- ns\<rfloor> else \<lfloor>ns\<rfloor>)"

text \<open>
  \<open>unmarshal_suites\<close> and \<open>unmarshal_suite\<close> are \<^verbatim>\<open>xml.Unmarshal\<close> into the two document types, the first with
  the local name of its root.
\<close>

definition ParseJUnit ::
  "('bytes \<Rightarrow> go_error + string \<times> JUnitTestSuite list) \<Rightarrow> ('bytes \<Rightarrow> go_error + JUnitTestSuite) \<Rightarrow> 'bytes \<Rightarrow> go_error + JUnitTestSuite list" where
  "ParseJUnit unmarshal_suites unmarshal_suite data =
     (let bare = (case unmarshal_suite data of Inl e \<Rightarrow> Inl (ErrWrap ''parsing JUnit XML'' e) | Inr single \<Rightarrow> Inr [single])
      in case unmarshal_suites data of
           Inl e \<Rightarrow> bare
         | Inr (tag, suites) \<Rightarrow>
             if length suites > 0 then Inr suites else if tag = ''testsuites'' then Inr [] else bare)"

text \<open>\<^verbatim>\<open>int64(f)\<close> truncates towards zero; \<^verbatim>\<open>time.Unix\<close> counts from 1970.\<close>

definition trunc_int :: "rat \<Rightarrow> int" where
  "trunc_int f = (if f < 0 then - \<lfloor>- f\<rfloor> else \<lfloor>f\<rfloor>)"

definition time_Unix :: "int \<Rightarrow> int \<Rightarrow> gotime" where
  "time_Unix sec nsec = (sec + 62135596800) * 1000000000 + nsec"

definition suiteTimestampLayouts :: "string list" where
  "suiteTimestampLayouts = [''2006-01-02T15:04:05Z07:00'', ''2006-01-02T15:04:05'', ''2006-01-02 15:04:05'']"

fun first_layout :: "(string \<Rightarrow> string \<Rightarrow> gotime option) \<Rightarrow> string list \<Rightarrow> string \<Rightarrow> gotime option" where
  "first_layout parse_time [] raw = None"
| "first_layout parse_time (layout # layouts) raw =
     (case parse_time layout raw of Some t \<Rightarrow> Some t | None \<Rightarrow> first_layout parse_time layouts raw)"

text \<open>The zero time is 0; \<open>parse_time\<close> is \<^verbatim>\<open>time.Parse\<close> and \<open>parse_float\<close> is \<^verbatim>\<open>strconv.ParseFloat\<close> on finite numbers.\<close>

definition parseSuiteTimestamp ::
  "(rat \<Rightarrow> rat) \<Rightarrow> (string \<Rightarrow> string \<Rightarrow> gotime option) \<Rightarrow> (string \<Rightarrow> rat option) \<Rightarrow> string \<Rightarrow> gotime" where
  "parseSuiteTimestamp rnd parse_time parse_float raw =
     (if raw = '''' then 0
      else case first_layout parse_time suiteTimestampLayouts raw of
             Some t \<Rightarrow> t
           | None \<Rightarrow>
               (case parse_float raw of
                  Some epoch \<Rightarrow>
                    let sec = trunc_int epoch; nsec = trunc_int (rnd (rnd (epoch - rnd (rat_of_int sec)) * 1000000000))
                    in time_Unix sec nsec
                | None \<Rightarrow> 0))"

text \<open>\<open>parse\<close> reads a suite timestamp.\<close>

definition convert_case ::
  "(rat \<Rightarrow> rat) \<Rightarrow> (string \<Rightarrow> gotime) \<Rightarrow> string \<Rightarrow> string \<Rightarrow> JUnitTestSuite \<Rightarrow> JUnitTestCase \<Rightarrow> TestResult" where
  "convert_case rnd parse job buildID suite tc =
     applyFailureProperties
       \<lparr>tsTimestamp = parse (jsTimestamp suite), tsName = jcName tc, tsSuite = jsName suite, tsJob = job, tsBuildID = buildID,
        tsResult = outcomeFromCase tc, tsDuration = seconds_to_duration rnd (jcTime tc), tsCommitSHA = '''', tsPRNumber = '''',
        tsFailureCategory = '''', tsFailureSubcategory = '''', tsFailureConfidence = ''''\<rparr> (jcProperties tc)"

definition ConvertTestResults ::
  "(rat \<Rightarrow> rat) \<Rightarrow> (string \<Rightarrow> gotime) \<Rightarrow> JUnitTestSuite list \<Rightarrow> string \<Rightarrow> string \<Rightarrow> TestResult list" where
  "ConvertTestResults rnd parse suites job buildID =
     concat (map (\<lambda>suite. map (convert_case rnd parse job buildID suite) (jsCases suite)) suites)"

section \<open>Recording\<close>

definition truncateLabel :: "string \<Rightarrow> string" where
  "truncateLabel v = (if length v \<le> 64 then v else take 64 v)"

text \<open>\<open>parse_float\<close> is \<^verbatim>\<open>strconv.ParseFloat\<close>; the bounds are the float64 constants.\<close>

definition bucketConfidence :: "(rat \<Rightarrow> rat) \<Rightarrow> (string \<Rightarrow> rat option) \<Rightarrow> string \<Rightarrow> string" where
  "bucketConfidence rnd parse_float v =
     (case parse_float v of
        None \<Rightarrow> ''unknown''
      | Some f \<Rightarrow> if f \<ge> rnd (9 / 10) then ''high'' else if f \<ge> rnd (1 / 2) then ''medium'' else ''low'')"

definition ErrTimestampRequired :: go_error where
  "ErrTimestampRequired = ErrNew ''record test result: timestamp is required''"

definition execution_labels :: "(rat \<Rightarrow> rat) \<Rightarrow> (string \<Rightarrow> rat option) \<Rightarrow> TestResult \<Rightarrow> (string \<times> string) list" where
  "execution_labels rnd parse_float r =
     [(''__name__'', ''test_execution_total''), (''test_name'', tsName r), (''suite'', tsSuite r), (''job'', tsJob r),
      (''build_id'', tsBuildID r), (''result'', outcome_string (tsResult r))] @
     (if tsCommitSHA r \<noteq> '''' then [(''commit_sha'', tsCommitSHA r)] else []) @
     (if tsPRNumber r \<noteq> '''' then [(''pr_number'', tsPRNumber r)] else []) @
     (if tsFailureCategory r \<noteq> '''' then [(''failure_category'', truncateLabel (tsFailureCategory r))] else []) @
     (if tsFailureSubcategory r \<noteq> '''' then [(''failure_subcategory'', truncateLabel (tsFailureSubcategory r))] else []) @
     (if tsFailureConfidence r \<noteq> '''' then [(''failure_confidence'', bucketConfidence rnd parse_float (tsFailureConfidence r))] else [])"

text \<open>\<open>app\<close> stores one sample (labels, milliseconds, value); \<open>seconds\<close> is \<^verbatim>\<open>Duration.Seconds\<close>.\<close>

definition RecordTestResult ::
  "(rat \<Rightarrow> rat) \<Rightarrow> (string \<Rightarrow> rat option) \<Rightarrow> (duration \<Rightarrow> rat) \<Rightarrow> ('w \<Rightarrow> (string \<times> string) list \<Rightarrow> int \<Rightarrow> rat \<Rightarrow> 'w \<times> go_error option) \<Rightarrow>
   'w \<Rightarrow> TestResult \<Rightarrow> 'w \<times> go_error option" where
  "RecordTestResult rnd parse_float seconds app w r =
     (if tsTimestamp r = 0 then (w, Some ErrTimestampRequired)
      else
        let ts = tsTimestamp r div 1000000 - 62135596800000
        in case app w (execution_labels rnd parse_float r) ts 1 of
             (w1, Some e) \<Rightarrow> (w1, Some (ErrWrap ''appending test execution metric'' e))
           | (w1, None) \<Rightarrow>
               (case app w1 [(''__name__'', ''test_duration_seconds''), (''test_name'', tsName r), (''suite'', tsSuite r),
                       (''job'', tsJob r), (''build_id'', tsBuildID r)] ts (seconds (tsDuration r)) of
                  (w2, Some e) \<Rightarrow> (w2, Some (ErrWrap ''appending test duration metric'' e))
                | (w2, None) \<Rightarrow> (w2, None)))"

section \<open>The scraper\<close>

record ScrapeResult =
  srArtifacts :: int
  srTestsRecorded :: int
  srErrors :: "go_error list"

record Scraper =
  scMaxRetries :: nat
  scRetryDelay :: duration

definition WithMaxRetries :: "int \<Rightarrow> Scraper \<Rightarrow> Scraper" where
  "WithMaxRetries n s = s\<lparr>scMaxRetries := nat (if n < 1 then 1 else n)\<rparr>"

definition WithRetryDelay :: "duration \<Rightarrow> Scraper \<Rightarrow> Scraper" where
  "WithRetryDelay d s = s\<lparr>scRetryDelay := d\<rparr>"

definition NewScraper :: "(Scraper \<Rightarrow> Scraper) list \<Rightarrow> Scraper" where
  "NewScraper opts = foldl (\<lambda>s f. f s) \<lparr>scMaxRetries = 3, scRetryDelay = second\<rparr> opts"

text \<open>
  The outside world of a scrape: \<open>swList\<close> and \<open>swRead\<close> are the bucket client, \<open>swCtxErr\<close> the error of
  the context, \<open>swSleep\<close> waits, \<open>swNow\<close> reads the clock, \<open>swSuites\<close> and \<open>swSuite\<close> decode the
  bytes of an artifact, \<open>swTime\<close> is \<^verbatim>\<open>time.Parse\<close>, \<open>swAppend\<close> the sample appender, \<open>swFloat\<close> and
  \<open>swSeconds\<close> are \<^verbatim>\<open>strconv.ParseFloat\<close> and \<^verbatim>\<open>Duration.Seconds\<close>.
\<close>

record ('w, 'bytes) scrape_world =
  swList :: "'w \<Rightarrow> string \<Rightarrow> string \<Rightarrow> 'w \<times> (go_error + string list)"
  swRead :: "'w \<Rightarrow> string \<Rightarrow> string \<Rightarrow> 'w \<times> (go_error + 'bytes)"
  swCtxErr :: "'w \<Rightarrow> go_error option"
  swSleep :: "'w \<Rightarrow> duration \<Rightarrow> 'w"
  swNow :: "'w \<Rightarrow> gotime"
  swSuites :: "'bytes \<Rightarrow> go_error + string \<times> JUnitTestSuite list"
  swSuite :: "'bytes \<Rightarrow> go_error + JUnitTestSuite"
  swTime :: "string \<Rightarrow> string \<Rightarrow> gotime option"
  swAppend :: "'w \<Rightarrow> (string \<times> string) list \<Rightarrow> int \<Rightarrow> rat \<Rightarrow> 'w \<times> go_error option"
  swFloat :: "string \<Rightarrow> rat option"
  swSeconds :: "duration \<Rightarrow> rat"

text \<open>Both retry loops: \<open>left\<close> attempts remain, \<open>lastErr\<close> is the error of the latest one.\<close>

fun with_retry ::
  "('w, 'bytes) scrape_world \<Rightarrow> duration \<Rightarrow> ('w \<Rightarrow> 'w \<times> (go_error + 'a)) \<Rightarrow> nat \<Rightarrow> go_error option \<Rightarrow> 'w \<Rightarrow>
   'w \<times> (go_error option + 'a)" where
  "with_retry sw delay call 0 lastErr w = (w, Inl lastErr)"
| "with_retry sw delay call (Suc left) lastErr w =
     (case call w of
        (w1, Inr x) \<Rightarrow> (w1, Inr x)
      | (w1, Inl e) \<Rightarrow>
          (case swCtxErr sw w1 of
             Some c \<Rightarrow> (w1, Inl (Some c))
           | None \<Rightarrow> with_retry sw delay call left (Some e) (if left > 0 then swSleep sw w1 delay else w1)))"

definition listWithRetry :: "('w, 'bytes) scrape_world \<Rightarrow> Scraper \<Rightarrow> 'w \<Rightarrow> string \<Rightarrow> string \<Rightarrow> 'w \<times> (go_error option + string list)" where
  "listWithRetry sw s w bucket prefix =
     with_retry sw (scRetryDelay s) (\<lambda>w. swList sw w bucket prefix) (scMaxRetries s) None w"

definition readWithRetry :: "('w, 'bytes) scrape_world \<Rightarrow> Scraper \<Rightarrow> 'w \<Rightarrow> string \<Rightarrow> string \<Rightarrow> 'w \<times> (go_error option + 'bytes)" where
  "readWithRetry sw s w bucket name =
     with_retry sw (scRetryDelay s) (\<lambda>w. swRead sw w bucket name) (scMaxRetries s) None w"

text \<open>\<^verbatim>\<open>strings.Split(path, "/")\<close>.\<close>

fun split_path :: "string \<Rightarrow> string \<Rightarrow> string list" where
  "split_path cur [] = [rev cur]"
| "split_path cur (c # cs) = (if c = CHR ''/'' then rev cur # split_path [] cs else split_path (c # cur) cs)"

definition extractJobBuild :: "string \<Rightarrow> string \<times> string" where
  "extractJobBuild path =
     (let parts = split_path [] path
      in if length parts \<ge> 4 \<and> parts ! 0 = ''logs'' then (parts ! 1, parts ! 2)
         else if length parts \<ge> 7 \<and> parts ! 0 = ''pr-logs'' \<and> parts ! 1 = ''pull'' then (parts ! 4, parts ! 5)
         else ('''', ''''))"

definition isJUnitFile :: "string \<Rightarrow> bool" where
  "isJUnitFile name =
     (let lower = to_lower name
      in if \<not> has_suffix ''.xml'' lower then False
         else let base = last (split_path [] lower)
              in starts_with ''junit'' base \<or> contains_text ''/junit/'' lower)"

definition filterJUnitFiles :: "string list \<Rightarrow> string list" where
  "filterJUnitFiles objects = filter isJUnitFile objects"

fun record_all :: "(rat \<Rightarrow> rat) \<Rightarrow> ('w, 'bytes) scrape_world \<Rightarrow> 'w \<Rightarrow> TestResult list \<Rightarrow> go_error list \<Rightarrow> int \<Rightarrow> 'w \<times> go_error list \<times> int" where
  "record_all rnd sw w [] errs recorded = (w, errs, recorded)"
| "record_all rnd sw w (r # rs) errs recorded =
     (let r' = (if tsTimestamp r = 0 then r\<lparr>tsTimestamp := swNow sw w\<rparr> else r)
      in case RecordTestResult rnd (swFloat sw) (swSeconds sw) (swAppend sw) w r' of
           (w1, Some e) \<Rightarrow> record_all rnd sw w1 rs (errs @ [e]) recorded
         | (w1, None) \<Rightarrow> record_all rnd sw w1 rs errs (recorded + 1))"

text \<open>\<^verbatim>\<open>errors.Join\<close> is nil when there is no error. Every scraper makes at least one attempt, so a read never ends with a nil error and no data.\<close>

definition errors_Join :: "go_error list \<Rightarrow> go_error option" where
  "errors_Join es = (if es = [] then None else Some (ErrJoin es))"

definition scrapeObject ::
  "(rat \<Rightarrow> rat) \<Rightarrow> ('w, 'bytes) scrape_world \<Rightarrow> Scraper \<Rightarrow> 'w \<Rightarrow> string \<Rightarrow> string \<Rightarrow> 'w \<times> int \<times> go_error option" where
  "scrapeObject rnd sw s w bucket name =
     (case readWithRetry sw s w bucket name of
        (w1, Inl e) \<Rightarrow> (w1, 0, e)
      | (w1, Inr data) \<Rightarrow>
          (case ParseJUnit (swSuites sw) (swSuite sw) data of
             Inl e \<Rightarrow> (w1, 0, Some e)
           | Inr suites \<Rightarrow>
               (case record_all rnd sw w1 (ConvertTestResults rnd (parseSuiteTimestamp rnd (swTime sw) (swFloat sw)) suites (fst (extractJobBuild name)) (snd (extractJobBuild name))) [] 0 of
                  (w2, errs, recorded) \<Rightarrow> (w2, recorded, errors_Join errs))))"

fun scrape_objects ::
  "(rat \<Rightarrow> rat) \<Rightarrow> ('w, 'bytes) scrape_world \<Rightarrow> Scraper \<Rightarrow> string \<Rightarrow> 'w \<Rightarrow> string list \<Rightarrow> ScrapeResult \<Rightarrow> 'w \<times> ScrapeResult" where
  "scrape_objects rnd sw s bucket w [] result = (w, result)"
| "scrape_objects rnd sw s bucket w (name # names) result =
     (case scrapeObject rnd sw s w bucket name of
        (w1, n, Some e) \<Rightarrow> scrape_objects rnd sw s bucket w1 names
           (result\<lparr>srErrors := srErrors result @ [ErrWrap (''artifact '' @ name) e]\<rparr>)
      | (w1, n, None) \<Rightarrow> scrape_objects rnd sw s bucket w1 names (result\<lparr>srTestsRecorded := srTestsRecorded result + n\<rparr>))"

definition Scrape ::
  "(rat \<Rightarrow> rat) \<Rightarrow> ('w, 'bytes) scrape_world \<Rightarrow> Scraper \<Rightarrow> 'w \<Rightarrow> string \<Rightarrow> string \<Rightarrow> 'w \<times> (go_error + ScrapeResult)" where
  "Scrape rnd sw s w bucket prefix =
     (case listWithRetry sw s w bucket prefix of
        (w1, Inl (Some e)) \<Rightarrow> (w1, Inl (ErrWrap ''discovering artifacts'' e))
      | (w1, Inl None) \<Rightarrow> (w1, Inr \<lparr>srArtifacts = 0, srTestsRecorded = 0, srErrors = []\<rparr>)
      | (w1, Inr objects) \<Rightarrow>
          let xmlObjects = filterJUnitFiles objects
          in case scrape_objects rnd sw s bucket w1 xmlObjects
                    \<lparr>srArtifacts = int (length xmlObjects), srTestsRecorded = 0, srErrors = []\<rparr> of
               (w2, result) \<Rightarrow> (w2, Inr result))"

fun ScrapeAll ::
  "(rat \<Rightarrow> rat) \<Rightarrow> ('w, 'bytes) scrape_world \<Rightarrow> Scraper \<Rightarrow> string \<Rightarrow> 'w \<Rightarrow> string list \<Rightarrow> ScrapeResult \<Rightarrow> 'w \<times> ScrapeResult" where
  "ScrapeAll rnd sw s bucket w [] combined = (w, combined)"
| "ScrapeAll rnd sw s bucket w (prefix # prefixes) combined =
     (case Scrape rnd sw s w bucket prefix of
        (w1, Inl e) \<Rightarrow> ScrapeAll rnd sw s bucket w1 prefixes
           (combined\<lparr>srErrors := srErrors combined @ [ErrWrap (''prefix '' @ prefix) e]\<rparr>)
      | (w1, Inr r) \<Rightarrow> ScrapeAll rnd sw s bucket w1 prefixes
           \<lparr>srArtifacts = srArtifacts combined + srArtifacts r, srTestsRecorded = srTestsRecorded combined + srTestsRecorded r,
            srErrors = srErrors combined @ srErrors r\<rparr>)"

end
