(* ===== verification/FlakyConfig.thy ===== *)
theory FlakyConfig
  imports FlakyRun
begin

text \<open>
  Configuration of the flakiness pipeline (\<^verbatim>\<open>flakiness/config.go\<close>): defaults, overrides from the environment,
  validation and the exclusion of tests from the quarantine. YAML, the environment and regular
  expressions are parameters.
\<close>

section \<open>Configuration\<close>

record AnalysisConfig =
  acThreshold :: gofloat
  acWindowDays :: int
  acMinRuns :: int

record QuarantineConfig =
  qcConfigPath :: string
  qcAutoQuarantine :: bool
  qcExcludePatterns :: "string list"

record TimeoutBudgetConfig =
  tbPipelineTimeout :: duration
  tbSuiteTimeouts :: "(string \<times> string) list"
  tbTestTimeouts :: "(string \<times> string) list"
  tbWarningThreshold :: gofloat

record JiraConfig =
  jiAPIURL :: string
  jiUserEmail :: string
  jiProject :: string
  jiIssueType :: string
  jiComponent :: string
  jiLabels :: "string list"
  jiTokenEnv :: string
  jiQuarantineDuration :: duration
  jiTokenExpiresAt :: string
  jiTokenExpiryWarningDays :: int

record Config =
  cfComponent :: string
  cfBucket :: string
  cfJobPrefixes :: "string list"
  cfAnalysis :: AnalysisConfig
  cfQuarantine :: QuarantineConfig
  cfJira :: JiraConfig
  cfTimeoutBudget :: TimeoutBudgetConfig

definition IsConfigured :: "TimeoutBudgetConfig \<Rightarrow> bool" where
  "IsConfigured t \<longleftrightarrow> tbPipelineTimeout t > 0 \<or> length (tbSuiteTimeouts t) > 0 \<or> length (tbTestTimeouts t) > 0"

text \<open>\<open>parse_duration\<close> is \<^verbatim>\<open>time.ParseDuration\<close>.\<close>

fun parse_timeouts ::
  "(string \<Rightarrow> go_error + duration) \<Rightarrow> string \<Rightarrow> (string \<times> string) list \<Rightarrow> go_error + (string \<times> duration) list" where
  "parse_timeouts parse_duration field [] = Inr []"
| "parse_timeouts parse_duration field ((k, v) # rest) =
     (case parse_duration v of
        Inl e \<Rightarrow> Inl (ErrWrap (''timeout_budget.'' @ field @ [CHR ''['', CHR 0x22] @ k @ [CHR 0x22, CHR '']'']) e)
      | Inr d \<Rightarrow> (case parse_timeouts parse_duration field rest of Inl e \<Rightarrow> Inl e | Inr ds \<Rightarrow> Inr ((k, d) # ds)))"

record TimeoutConfig =
  tcPipelineTimeout :: duration
  tcSuiteTimeouts :: "(string \<times> duration) list"
  tcTestTimeouts :: "(string \<times> duration) list"

definition ToTimeoutConfig :: "(string \<Rightarrow> go_error + duration) \<Rightarrow> TimeoutBudgetConfig \<Rightarrow> go_error + TimeoutConfig" where
  "ToTimeoutConfig parse_duration t =
     (case parse_timeouts parse_duration ''suite_timeouts'' (tbSuiteTimeouts t) of
        Inl e \<Rightarrow> Inl e
      | Inr suites \<Rightarrow>
          (case parse_timeouts parse_duration ''test_timeouts'' (tbTestTimeouts t) of
             Inl e \<Rightarrow> Inl e
           | Inr tests \<Rightarrow> Inr \<lparr>tcPipelineTimeout = tbPipelineTimeout t, tcSuiteTimeouts = suites, tcTestTimeouts = tests\<rparr>))"

text \<open>\<open>fmt_g\<close> prints a float with \<^verbatim>\<open>%g\<close>, \<open>compile\<close> is \<^verbatim>\<open>regexp.Compile\<close>, \<open>rfc3339\<close> is \<^verbatim>\<open>time.Parse\<close>.\<close>

record config_env =
  ceFmtG :: "gofloat \<Rightarrow> string"
  ceCompile :: "string \<Rightarrow> go_error option"
  ceRFC3339 :: "string \<Rightarrow> go_error + gotime"
  ceDuration :: "string \<Rightarrow> go_error + duration"
  ceGetenv :: "string \<Rightarrow> string"
  ceParseFloat :: "string \<Rightarrow> go_error + gofloat"

fun pattern_errors :: "config_env \<Rightarrow> nat \<Rightarrow> string list \<Rightarrow> go_error list" where
  "pattern_errors env i [] = []"
| "pattern_errors env i (p # ps) =
     (case ceCompile env p of
        None \<Rightarrow> []
      | Some e \<Rightarrow> [ErrWrap (''quarantine.exclude_patterns['' @ itoa (int i) @ ''] '' @ [CHR 0x22] @ p @ [CHR 0x22] @ '': invalid regex'') e]) @
     pattern_errors env (i + 1) ps"

definition Validate :: "config_env \<Rightarrow> Config \<Rightarrow> go_error option" where
  "Validate env c =
     (let a = cfAnalysis c; j = cfJira c; t = cfTimeoutBudget c
      in errors_Join (
           (if cfComponent c = '''' then [ErrNew ''component is required''] else []) @
           (if cfBucket c = '''' then [ErrNew ''gcs.bucket is required''] else []) @
           (if length (cfJobPrefixes c) = 0 then [ErrNew ''gcs.job_prefixes must contain at least one entry''] else []) @
           (if float_leq (acThreshold a) (FFin 0) \<or> float_less (FFin 1) (acThreshold a)
            then [ErrNew (''analysis.threshold must be in (0, 1], got '' @ ceFmtG env (acThreshold a))] else []) @
           (if acWindowDays a \<le> 0 then [ErrNew (''analysis.window_days must be positive, got '' @ itoa (acWindowDays a))] else []) @
           (if acMinRuns a \<le> 0 then [ErrNew (''analysis.min_runs must be positive, got '' @ itoa (acMinRuns a))] else []) @
           pattern_errors env 0 (qcExcludePatterns (cfQuarantine c)) @
           (if jiAPIURL j \<noteq> '''' \<and> jiTokenEnv j = '''' then [ErrNew ''jira.token_env is required when jira.api_url is set''] else []) @
           (if jiTokenEnv j \<noteq> '''' \<and> jiAPIURL j = '''' then [ErrNew ''jira.api_url is required when jira.token_env is set''] else []) @
           (if jiTokenExpiresAt j \<noteq> ''''
            then (case ceRFC3339 env (jiTokenExpiresAt j) of
                    Inl e \<Rightarrow> [ErrWrap ''jira.token_expires_at must be RFC3339 format'' e] | Inr _ \<Rightarrow> []) else []) @
           (if tbWarningThreshold t \<noteq> FFin 0 \<and> (float_leq (tbWarningThreshold t) (FFin 0) \<or> float_less (FFin 1) (tbWarningThreshold t))
            then [ErrNew (''timeout_budget.warning_threshold must be in (0, 1], got '' @ ceFmtG env (tbWarningThreshold t))] else []) @
           (if IsConfigured t then (case ToTimeoutConfig (ceDuration env) t of Inl e \<Rightarrow> [e] | Inr _ \<Rightarrow> []) else [])))"

definition applyDefaults :: "(rat \<Rightarrow> rat) \<Rightarrow> Config \<Rightarrow> Config" where
  "applyDefaults rnd c =
     (let a = cfAnalysis c; j = cfJira c
      in c\<lparr>cfAnalysis := \<lparr>acThreshold = (if acThreshold a = FFin 0 then FFin (rnd (1 / 5)) else acThreshold a),
                          acWindowDays = (if acWindowDays a = 0 then 30 else acWindowDays a),
                          acMinRuns = (if acMinRuns a = 0 then 5 else acMinRuns a)\<rparr>,
           cfJira := j\<lparr>jiIssueType := (if jiIssueType j = '''' then ''Bug'' else jiIssueType j)\<rparr>\<rparr>)"

text \<open>Overrides from the environment: a variable that is set replaces its field, a number that does not parse is an error.\<close>

definition override :: "config_env \<Rightarrow> string \<Rightarrow> (string \<Rightarrow> Config \<Rightarrow> Config) \<Rightarrow> Config \<Rightarrow> Config" where
  "override env var f c = (let v = ceGetenv env var in if v \<noteq> '''' then f v c else c)"

definition override_num ::
  "config_env \<Rightarrow> string \<Rightarrow> (string \<Rightarrow> go_error + 'n) \<Rightarrow> ('n \<Rightarrow> Config \<Rightarrow> Config) \<Rightarrow> Config \<times> go_error list \<Rightarrow> Config \<times> go_error list" where
  "override_num env var parse f s =
     (let v = ceGetenv env var
      in if v \<noteq> '''' then (case parse v of
           Inl e \<Rightarrow> (fst s, snd s @ [ErrWrap (var @ ''='' @ [CHR 0x22] @ v @ [CHR 0x22]) e])
         | Inr n \<Rightarrow> (f n (fst s), snd s)) else s)"

definition set_analysis :: "(AnalysisConfig \<Rightarrow> AnalysisConfig) \<Rightarrow> Config \<Rightarrow> Config" where
  "set_analysis f c = c\<lparr>cfAnalysis := f (cfAnalysis c)\<rparr>"

definition set_jira :: "(JiraConfig \<Rightarrow> JiraConfig) \<Rightarrow> Config \<Rightarrow> Config" where
  "set_jira f c = c\<lparr>cfJira := f (cfJira c)\<rparr>"

text \<open>\<^verbatim>\<open>strings.EqualFold\<close> compares ASCII text without case.\<close>

definition applyEnvOverrides :: "config_env \<Rightarrow> Config \<Rightarrow> Config \<times> go_error option" where
  "applyEnvOverrides env c0 =
     (let c1 = override env ''FLAKINESS_GCS_BUCKET'' (\<lambda>v c. c\<lparr>cfBucket := v\<rparr>)
                 (override env ''FLAKINESS_COMPONENT'' (\<lambda>v c. c\<lparr>cfComponent := v\<rparr>) c0);
          s1 = override_num env ''FLAKINESS_THRESHOLD'' (ceParseFloat env) (\<lambda>f. set_analysis (\<lambda>a. a\<lparr>acThreshold := f\<rparr>)) (c1, []);
          s2 = override_num env ''FLAKINESS_WINDOW_DAYS'' atoi (\<lambda>n. set_analysis (\<lambda>a. a\<lparr>acWindowDays := n\<rparr>)) s1;
          s3 = override_num env ''FLAKINESS_MIN_RUNS'' atoi (\<lambda>n. set_analysis (\<lambda>a. a\<lparr>acMinRuns := n\<rparr>)) s2;
          c2 = foldl (\<lambda>c (var, f). override env var f c) (fst s3)
            [(''FLAKINESS_QUARANTINE_CONFIG_PATH'', \<lambda>v c. c\<lparr>cfQuarantine := (cfQuarantine c)\<lparr>qcConfigPath := v\<rparr>\<rparr>),
             (''FLAKINESS_AUTO_QUARANTINE'', \<lambda>v c. c\<lparr>cfQuarantine := (cfQuarantine c)\<lparr>qcAutoQuarantine := (to_lower v = ''true'')\<rparr>\<rparr>),
             (''FLAKINESS_JIRA_API_URL'', \<lambda>v. set_jira (\<lambda>j. j\<lparr>jiAPIURL := v\<rparr>)),
             (''FLAKINESS_JIRA_USER_EMAIL'', \<lambda>v. set_jira (\<lambda>j. j\<lparr>jiUserEmail := v\<rparr>)),
             (''FLAKINESS_JIRA_PROJECT'', \<lambda>v. set_jira (\<lambda>j. j\<lparr>jiProject := v\<rparr>)),
             (''FLAKINESS_JIRA_ISSUE_TYPE'', \<lambda>v. set_jira (\<lambda>j. j\<lparr>jiIssueType := v\<rparr>)),
             (''FLAKINESS_JIRA_COMPONENT'', \<lambda>v. set_jira (\<lambda>j. j\<lparr>jiComponent := v\<rparr>)),
             (''FLAKINESS_JIRA_TOKEN_ENV'', \<lambda>v. set_jira (\<lambda>j. j\<lparr>jiTokenEnv := v\<rparr>)),
             (''FLAKINESS_JIRA_TOKEN_EXPIRES_AT'', \<lambda>v. set_jira (\<lambda>j. j\<lparr>jiTokenExpiresAt := v\<rparr>))]
      in (c2, errors_Join (snd s3)))"

text \<open>\<open>read\<close> is the content of the file and \<open>decode\<close> the strict YAML decoder.\<close>

definition LoadConfig ::
  "(rat \<Rightarrow> rat) \<Rightarrow> config_env \<Rightarrow> (string \<Rightarrow> go_error + 'bytes) \<Rightarrow> ('bytes \<Rightarrow> go_error + Config) \<Rightarrow> string \<Rightarrow> go_error + Config" where
  "LoadConfig rnd env read decode path =
     (case read path of
        Inl e \<Rightarrow> Inl (ErrWrap (''reading config file '' @ path) e)
      | Inr data \<Rightarrow>
          (case decode data of
             Inl e \<Rightarrow> Inl (ErrWrap (''parsing config file '' @ path) e)
           | Inr cfg0 \<Rightarrow>
               (case applyEnvOverrides env (applyDefaults rnd cfg0) of
                  (cfg, Some e) \<Rightarrow> Inl (ErrWrap ''applying env overrides'' e)
                | (cfg, None) \<Rightarrow>
                    (case Validate env cfg of
                       Some e \<Rightarrow> Inl (ErrWrap (''validating config from '' @ path) e)
                     | None \<Rightarrow> Inr cfg))))"

text \<open>\<open>matches\<close> says whether the compiled pattern matches the text.\<close>

definition matchesAny :: "(string \<Rightarrow> string \<Rightarrow> bool) \<Rightarrow> string list \<Rightarrow> string \<Rightarrow> bool" where
  "matchesAny matches patterns s = list_ex (\<lambda>p. matches p s) patterns"

text \<open>The patterns are compiled with \<^verbatim>\<open>regexp.MustCompile\<close>: \<open>None\<close> is its panic on a pattern that does not compile.\<close>

definition FilterExcluded ::
  "config_env \<Rightarrow> (string \<Rightarrow> string \<Rightarrow> bool) \<Rightarrow> Config \<Rightarrow> QuarantineEntry list \<Rightarrow> QuarantineEntry list option" where
  "FilterExcluded env matches c entries =
     (let patterns = qcExcludePatterns (cfQuarantine c)
      in if length patterns = 0 then Some entries
         else if list_ex (\<lambda>p. ceCompile env p \<noteq> None) patterns then None
         else Some (map (\<lambda>e. if matchesAny matches patterns (qeName e) then e\<lparr>qeQuarantined := False\<rparr> else e) entries))"

end
