(* ===== verification/Budget.thy ===== *)
theory Budget
  imports FlakyConfig
begin

text \<open>
  Runtimes of tests and suites (\<^verbatim>\<open>flakiness/runtime.go\<close>) and the timeout budget (\<^verbatim>\<open>flakiness/budget.go\<close>).
  A Go map that is iterated is an association list, and \<open>map_orders\<close> gives the order in which Go happens
  to visit it; sorting is stable, so the orders also decide the ties that Go's sort leaves open. The
  time-series database is a parameter.
\<close>

section \<open>Reading durations\<close>

text \<open>A stored series as the querier gives it, with the error its iterator ends with.\<close>

record duration_samples =
  rsLabels :: "string \<Rightarrow> string"
  rsSamples :: "(int \<times> rat) list"
  rsErr :: "go_error option"

record durationSeries =
  dsLabels :: "string \<Rightarrow> string"
  dsValues :: "rat list"
  dsTimestamps :: "int list"

text \<open>
  The querier: \<open>sqMatcher\<close> is the error of an equality matcher, \<open>sqSelect\<close> gives the series that match
  between two times in milliseconds and the error of the series set.
\<close>

record duration_store =
  sqMatcher :: "string \<Rightarrow> string \<Rightarrow> go_error option"
  sqSelect :: "(string \<times> string) list \<Rightarrow> int \<Rightarrow> int \<Rightarrow> go_error + duration_samples list \<times> go_error option"

definition UnixMilli :: "gotime \<Rightarrow> int" where
  "UnixMilli t = t div 1000000 - 62135596800000"

fun collect_series :: "duration_samples list \<Rightarrow> durationSeries list \<Rightarrow> go_error + durationSeries list" where
  "collect_series [] result = Inr result"
| "collect_series (s # ss) result =
     (let ds = \<lparr>dsLabels = rsLabels s, dsValues = map snd (rsSamples s), dsTimestamps = map fst (rsSamples s)\<rparr>
      in case rsErr s of
           Some e \<Rightarrow> Inl (ErrWrap ''iterating series'' e)
         | None \<Rightarrow> collect_series ss (if length (dsValues ds) > 0 then result @ [ds] else result))"

definition selectDurationSeries ::
  "duration_store \<Rightarrow> gotime \<Rightarrow> gotime \<Rightarrow> (string \<times> string) list \<Rightarrow> go_error + durationSeries list" where
  "selectDurationSeries st start stop matchers =
     (case sqSelect st matchers (UnixMilli start) (UnixMilli stop) of
        Inl e \<Rightarrow> Inl (ErrWrap ''creating querier'' e)
      | Inr (ss, err) \<Rightarrow>
          (case collect_series ss [] of
             Inl e \<Rightarrow> Inl e
           | Inr result \<Rightarrow> (case err of Some e \<Rightarrow> Inl (ErrWrap ''selecting series'' e) | None \<Rightarrow> Inr result)))"

definition queryDurationSeries :: "duration_store \<Rightarrow> gotime \<Rightarrow> gotime \<Rightarrow> go_error + durationSeries list" where
  "queryDurationSeries st start stop =
     (case sqMatcher st ''__name__'' ''test_duration_seconds'' of
        Some e \<Rightarrow> Inl (ErrWrap ''creating name matcher'' e)
      | None \<Rightarrow> selectDurationSeries st start stop [(''__name__'', ''test_duration_seconds'')])"

definition queryDurationSeriesForTest ::
  "duration_store \<Rightarrow> string \<Rightarrow> gotime \<Rightarrow> gotime \<Rightarrow> go_error + durationSeries list" where
  "queryDurationSeriesForTest st testName start stop =
     (case sqMatcher st ''__name__'' ''test_duration_seconds'' of
        Some e \<Rightarrow> Inl (ErrWrap ''creating name matcher'' e)
      | None \<Rightarrow>
          (case sqMatcher st ''test_name'' testName of
             Some e \<Rightarrow> Inl (ErrWrap ''creating test name matcher'' e)
           | None \<Rightarrow> selectDurationSeries st start stop
                      [(''__name__'', ''test_duration_seconds''), (''test_name'', testName)]))"

section \<open>Percentiles\<close>

text \<open>\<^verbatim>\<open>sorted[lower]\<close> and \<^verbatim>\<open>sorted[upper]\<close> panic out of range: \<open>None\<close>.\<close>

definition index_rat :: "rat list \<Rightarrow> int \<Rightarrow> rat option" where
  "index_rat xs i = (if 0 \<le> i \<and> i < int (length xs) then Some (xs ! nat i) else None)"

definition percentile :: "(rat \<Rightarrow> rat) \<Rightarrow> rat list \<Rightarrow> rat \<Rightarrow> rat option" where
  "percentile rnd srt p =
     (if length srt = 0 then Some 0
      else if length srt = 1 then Some (srt ! 0)
      else
        let rank = rnd (p * rnd (rat_of_int (int (length srt) - 1))); lower = \<lfloor>rank\<rfloor>; upper = \<lceil>rank\<rceil>
        in if lower = upper then index_rat srt lower
           else
             let frac = rnd (rank - rat_of_int lower)
             in case (index_rat srt lower, index_rat srt upper) of
                  (Some a, Some b) \<Rightarrow> Some (rnd (rnd (a * rnd (1 - frac)) + rnd (b * frac)))
                | _ \<Rightarrow> None)"

record TestRuntime =
  ruName :: string
  ruSuite :: string
  ruP50 :: duration
  ruP95 :: duration
  ruP99 :: duration
  ruMax :: duration
  ruSamples :: int

record SuiteRuntime =
  suSuite :: string
  suTotal :: duration
  suTestCount :: int
  suSamples :: int

record suiteAcc =
  saTotal :: rat
  saTests :: "string list"
  saSamples :: int

record map_orders =
  moRuntimes :: "((string \<times> string) \<times> rat list) list \<Rightarrow> ((string \<times> string) \<times> rat list) list"
  moSuites :: "(string \<times> suiteAcc) list \<Rightarrow> (string \<times> suiteAcc) list"
  moBuilds :: "(string \<times> (string \<times> rat) list) list \<Rightarrow> (string \<times> (string \<times> rat) list) list"
  moTotals :: "(string \<times> rat) list \<Rightarrow> (string \<times> rat) list"
  moTimeouts :: "(string \<times> duration) list \<Rightarrow> (string \<times> duration) list"

text \<open>Reading or creating the entry of a map and storing it back.\<close>

fun alter :: "'k \<Rightarrow> 'v \<Rightarrow> ('v \<Rightarrow> 'v) \<Rightarrow> ('k \<times> 'v) list \<Rightarrow> ('k \<times> 'v) list" where
  "alter k fresh f [] = [(k, f fresh)]"
| "alter k fresh f ((k', v) # rest) = (if k' = k then (k', f v) # rest else (k', v) # alter k fresh f rest)"

definition group_runtimes :: "durationSeries list \<Rightarrow> ((string \<times> string) \<times> rat list) list" where
  "group_runtimes ss =
     foldl (\<lambda>g s. alter (dsLabels s ''test_name'', dsLabels s ''suite'') [] (\<lambda>vs. vs @ dsValues s) g) [] ss"

text \<open>One runtime; the percentiles of a non-empty list never panic, as is shown below.\<close>

definition runtime_of :: "(rat \<Rightarrow> rat) \<Rightarrow> string \<times> string \<Rightarrow> rat list \<Rightarrow> TestRuntime option" where
  "runtime_of rnd k values =
     (let srt = sort values
      in case (percentile rnd srt (rnd (1 / 2)), percentile rnd srt (rnd (95 / 100)), percentile rnd srt (rnd (99 / 100)),
               index_rat srt (int (length srt) - 1)) of
           (Some p50, Some p95, Some p99, Some m) \<Rightarrow>
             Some \<lparr>ruName = fst k, ruSuite = snd k, ruP50 = seconds_to_duration rnd p50, ruP95 = seconds_to_duration rnd p95,
                   ruP99 = seconds_to_duration rnd p99, ruMax = seconds_to_duration rnd m, ruSamples = int (length srt)\<rparr>
         | _ \<Rightarrow> None)"

fun runtimes_of :: "(rat \<Rightarrow> rat) \<Rightarrow> ((string \<times> string) \<times> rat list) list \<Rightarrow> TestRuntime list option" where
  "runtimes_of rnd [] = Some []"
| "runtimes_of rnd ((k, values) # rest) =
     (if length values = 0 then runtimes_of rnd rest
      else case runtime_of rnd k values of
             None \<Rightarrow> None
           | Some r \<Rightarrow> map_option (\<lambda>rs. r # rs) (runtimes_of rnd rest))"

text \<open>\<open>None\<close> is a panic.\<close>

definition aggregateRuntimes :: "(rat \<Rightarrow> rat) \<Rightarrow> map_orders \<Rightarrow> durationSeries list \<Rightarrow> TestRuntime list option" where
  "aggregateRuntimes rnd ord ss = runtimes_of rnd (moRuntimes ord (group_runtimes ss))"

text \<open>\<open>sort.Slice\<close> with a descending key.\<close>

definition by_desc :: "('a \<Rightarrow> 'k::linorder) \<Rightarrow> 'a \<Rightarrow> 'a \<Rightarrow> int" where
  "by_desc f x y = cmp_compare (f y) (f x)"

definition TopSlowest ::
  "(rat \<Rightarrow> rat) \<Rightarrow> map_orders \<Rightarrow> duration_store \<Rightarrow> int \<Rightarrow> gotime \<Rightarrow> gotime \<Rightarrow> (go_error + TestRuntime list) option" where
  "TopSlowest rnd ord st n start stop =
     (if n \<le> 0 then Some (Inr [])
      else case queryDurationSeries st start stop of
             Inl e \<Rightarrow> Some (Inl e)
           | Inr ss \<Rightarrow>
               (case aggregateRuntimes rnd ord ss of
                  None \<Rightarrow> None
                | Some runtimes \<Rightarrow>
                    let srt = sort_stable_func (by_desc ruMax) runtimes
                    in Some (Inr (if int (length srt) > n then take (nat n) srt else srt))))"

definition add_values :: "(rat \<Rightarrow> rat) \<Rightarrow> rat \<Rightarrow> rat list \<Rightarrow> rat" where
  "add_values rnd acc vs = foldl (\<lambda>t v. rnd (t + v)) acc vs"

definition group_suites :: "(rat \<Rightarrow> rat) \<Rightarrow> durationSeries list \<Rightarrow> (string \<times> suiteAcc) list" where
  "group_suites rnd ss =
     foldl (\<lambda>g s. alter (dsLabels s ''suite'') \<lparr>saTotal = 0, saTests = [], saSamples = 0\<rparr>
              (\<lambda>a. \<lparr>saTotal = add_values rnd (saTotal a) (dsValues s),
                    saTests = List.insert (dsLabels s ''test_name'') (saTests a),
                    saSamples = saSamples a + int (length (dsValues s))\<rparr>) g) [] ss"

definition aggregateSuiteRuntimes :: "(rat \<Rightarrow> rat) \<Rightarrow> map_orders \<Rightarrow> durationSeries list \<Rightarrow> SuiteRuntime list" where
  "aggregateSuiteRuntimes rnd ord ss =
     sort_stable_func (by_desc suTotal)
       (map (\<lambda>(name, a). \<lparr>suSuite = name, suTotal = seconds_to_duration rnd (saTotal a), suTestCount = int (length (saTests a)),
               suSamples = saSamples a\<rparr>)
         (moSuites ord (group_suites rnd ss)))"

definition SuiteRuntimes ::
  "(rat \<Rightarrow> rat) \<Rightarrow> map_orders \<Rightarrow> duration_store \<Rightarrow> gotime \<Rightarrow> gotime \<Rightarrow> go_error + SuiteRuntime list" where
  "SuiteRuntimes rnd ord st start stop =
     (case queryDurationSeries st start stop of Inl e \<Rightarrow> Inl e | Inr ss \<Rightarrow> Inr (aggregateSuiteRuntimes rnd ord ss))"

text \<open>A trend point is its time and its duration. The values and the timestamps of a series have the same length.\<close>

definition RuntimeTrend ::
  "(rat \<Rightarrow> rat) \<Rightarrow> duration_store \<Rightarrow> string \<Rightarrow> gotime \<Rightarrow> gotime \<Rightarrow> go_error + (gotime \<times> duration) list" where
  "RuntimeTrend rnd st testName start stop =
     (case queryDurationSeriesForTest st testName start stop of
        Inl e \<Rightarrow> Inl e
      | Inr ss \<Rightarrow>
          Inr (sort_stable_func (\<lambda>a b. cmp_compare (fst a) (fst b))
            (concat (map (\<lambda>s. map (\<lambda>(t, v). (unix_milli t, seconds_to_duration rnd v)) (zip (dsTimestamps s) (dsValues s))) ss))))"

section \<open>The timeout budget\<close>

record BudgetUtilisation =
  buName :: string
  buActualDuration :: duration
  buConfiguredTimeout :: duration
  buUtilisation :: rat

record NearTimeoutTest =
  ntName :: string
  ntSuite :: string
  ntP95 :: duration
  ntTimeout :: duration
  ntUtilisation :: rat

datatype RecommendationAction = RecommendRaise | RecommendLower

record TimeoutRecommendation =
  tmName :: string
  tmSuite :: string
  tmAction :: RecommendationAction
  tmCurrentTimeout :: duration
  tmSuggestedTimeout :: duration
  tmP95 :: duration
  tmP99 :: duration
  tmReason :: string

record BudgetReport =
  brPipeline :: "BudgetUtilisation option"
  brSuites :: "BudgetUtilisation list"
  brNearTimeout :: "NearTimeoutTest list"
  brRecommendations :: "TimeoutRecommendation list"

definition groupByBuild :: "(rat \<Rightarrow> rat) \<Rightarrow> durationSeries list \<Rightarrow> (string \<times> (string \<times> rat) list) list" where
  "groupByBuild rnd ss =
     foldl (\<lambda>builds s.
         let l = dsLabels s ''build_id''; buildID = (if l = '''' then ''_unknown'' else l)
         in alter buildID [] (\<lambda>suites. foldl (\<lambda>m v. alter (dsLabels s ''suite'') 0 (\<lambda>t. rnd (t + v)) m) suites (dsValues s)) builds) [] ss"

definition utilisation :: "(rat \<Rightarrow> rat) \<Rightarrow> duration \<Rightarrow> duration \<Rightarrow> rat" where
  "utilisation rnd actual timeout = rnd (rnd (rat_of_int actual) / rnd (rat_of_int timeout))"

definition computePipelineBudget ::
  "(rat \<Rightarrow> rat) \<Rightarrow> map_orders \<Rightarrow> (string \<times> (string \<times> rat) list) list \<Rightarrow> duration \<Rightarrow> BudgetUtilisation" where
  "computePipelineBudget rnd ord perBuild pipelineTimeout =
     (let maxTotal = foldl (\<lambda>m (b, suites).
            let buildTotal = add_values rnd 0 (map snd (moTotals ord suites)) in if buildTotal > m then buildTotal else m) 0 (moBuilds ord perBuild);
          actual = seconds_to_duration rnd maxTotal
      in \<lparr>buName = ''pipeline'', buActualDuration = actual, buConfiguredTimeout = pipelineTimeout,
          buUtilisation = utilisation rnd actual pipelineTimeout\<rparr>)"

text \<open>A missing entry of \<^verbatim>\<open>maxPerSuite\<close> reads as 0, and only a larger total is stored.\<close>

definition max_per_suite :: "map_orders \<Rightarrow> (string \<times> (string \<times> rat) list) list \<Rightarrow> (string \<rightharpoonup> rat)" where
  "max_per_suite ord perBuild =
     foldl (\<lambda>m (b, suites).
         foldl (\<lambda>m (suite, dur). if dur > (case m suite of None \<Rightarrow> 0 | Some t \<Rightarrow> t) then m(suite \<mapsto> dur) else m) m (moTotals ord suites))
       Map.empty (moBuilds ord perBuild)"

fun suite_budgets :: "(rat \<Rightarrow> rat) \<Rightarrow> (string \<rightharpoonup> rat) \<Rightarrow> (string \<times> duration) list \<Rightarrow> BudgetUtilisation list" where
  "suite_budgets rnd maxPerSuite [] = []"
| "suite_budgets rnd maxPerSuite ((suite, timeout) # rest) =
     (if timeout \<le> 0 then suite_budgets rnd maxPerSuite rest
      else case maxPerSuite suite of
             None \<Rightarrow> suite_budgets rnd maxPerSuite rest
           | Some maxDur \<Rightarrow>
               let actual = seconds_to_duration rnd maxDur
               in \<lparr>buName = suite, buActualDuration = actual, buConfiguredTimeout = timeout,
                   buUtilisation = utilisation rnd actual timeout\<rparr> # suite_budgets rnd maxPerSuite rest)"

definition computeSuiteBudgets ::
  "(rat \<Rightarrow> rat) \<Rightarrow> map_orders \<Rightarrow> (string \<times> (string \<times> rat) list) list \<Rightarrow> (string \<times> duration) list \<Rightarrow> BudgetUtilisation list" where
  "computeSuiteBudgets rnd ord perBuild timeouts =
     (if length timeouts = 0 then []
      else sort_stable_func (by_desc buUtilisation)
             (suite_budgets rnd (max_per_suite ord perBuild) (moTimeouts ord timeouts)))"

fun near_timeouts :: "(rat \<Rightarrow> rat) \<Rightarrow> (string \<rightharpoonup> duration) \<Rightarrow> gofloat \<Rightarrow> TestRuntime list \<Rightarrow> NearTimeoutTest list" where
  "near_timeouts rnd timeouts threshold [] = []"
| "near_timeouts rnd timeouts threshold (rt # rts) =
     (case timeouts (ruName rt) of
        None \<Rightarrow> near_timeouts rnd timeouts threshold rts
      | Some timeout \<Rightarrow>
          if timeout \<le> 0 then near_timeouts rnd timeouts threshold rts
          else
            let u = utilisation rnd (ruP95 rt) timeout
            in if float_leq threshold (FFin u)
               then \<lparr>ntName = ruName rt, ntSuite = ruSuite rt, ntP95 = ruP95 rt, ntTimeout = timeout, ntUtilisation = u\<rparr>
                    # near_timeouts rnd timeouts threshold rts
               else near_timeouts rnd timeouts threshold rts)"

definition detectNearTimeout ::
  "(rat \<Rightarrow> rat) \<Rightarrow> TestRuntime list \<Rightarrow> (string \<times> duration) list \<Rightarrow> gofloat \<Rightarrow> NearTimeoutTest list" where
  "detectNearTimeout rnd runtimes timeouts threshold =
     (if length timeouts = 0 then []
      else sort_stable_func (by_desc ntUtilisation) (near_timeouts rnd (map_of timeouts) threshold runtimes))"

text \<open>\<^verbatim>\<open>time.Duration(float64(rt.P99) * headroomMultiplier)\<close>.\<close>

definition with_headroom :: "(rat \<Rightarrow> rat) \<Rightarrow> duration \<Rightarrow> duration" where
  "with_headroom rnd p99 = (let f = rnd (rnd (rat_of_int p99) * (3 / 2)) in if f < 0 then - \<lfloor>- f\<rfloor> else \<lfloor>f\<rfloor>)"

text \<open>\<open>fmt0\<close> prints a float with \<^verbatim>\<open>%.0f\<close>.\<close>

definition recommendation ::
  "(rat \<Rightarrow> rat) \<Rightarrow> (rat \<Rightarrow> string) \<Rightarrow> gofloat \<Rightarrow> duration \<Rightarrow> TestRuntime \<Rightarrow> TimeoutRecommendation option" where
  "recommendation rnd fmt0 threshold timeout rt =
     (let u = utilisation rnd (ruP95 rt) timeout
      in if float_leq threshold (FFin u)
         then Some \<lparr>tmName = ruName rt, tmSuite = ruSuite rt, tmAction = RecommendRaise, tmCurrentTimeout = timeout,
                    tmSuggestedTimeout = with_headroom rnd (ruP99 rt), tmP95 = ruP95 rt, tmP99 = ruP99 rt,
                    tmReason = ''P95 uses '' @ fmt0 (rnd (u * 100)) @ ''% of timeout''\<rparr>
         else if u \<le> rnd (3 / 10) \<and> ruSamples rt \<ge> 5
         then Some \<lparr>tmName = ruName rt, tmSuite = ruSuite rt, tmAction = RecommendLower, tmCurrentTimeout = timeout,
                    tmSuggestedTimeout = max (with_headroom rnd (ruP99 rt)) second, tmP95 = ruP95 rt, tmP99 = ruP99 rt,
                    tmReason = ''P95 uses only '' @ fmt0 (rnd (u * 100)) @ ''% of timeout ('' @ itoa (ruSamples rt) @ '' samples)''\<rparr>
         else None)"

fun recommendations ::
  "(rat \<Rightarrow> rat) \<Rightarrow> (rat \<Rightarrow> string) \<Rightarrow> (string \<rightharpoonup> duration) \<Rightarrow> gofloat \<Rightarrow> TestRuntime list \<Rightarrow> TimeoutRecommendation list" where
  "recommendations rnd fmt0 timeouts threshold [] = []"
| "recommendations rnd fmt0 timeouts threshold (rt # rts) =
     (case timeouts (ruName rt) of
        None \<Rightarrow> recommendations rnd fmt0 timeouts threshold rts
      | Some timeout \<Rightarrow>
          if timeout \<le> 0 then recommendations rnd fmt0 timeouts threshold rts
          else (case recommendation rnd fmt0 threshold timeout rt of
                  None \<Rightarrow> recommendations rnd fmt0 timeouts threshold rts
                | Some r \<Rightarrow> r # recommendations rnd fmt0 timeouts threshold rts))"

definition action_rank :: "RecommendationAction \<Rightarrow> int" where
  "action_rank a = (case a of RecommendRaise \<Rightarrow> 0 | RecommendLower \<Rightarrow> 1)"

definition computeRecommendations ::
  "(rat \<Rightarrow> rat) \<Rightarrow> (rat \<Rightarrow> string) \<Rightarrow> TestRuntime list \<Rightarrow> (string \<times> duration) list \<Rightarrow> gofloat \<Rightarrow> TimeoutRecommendation list" where
  "computeRecommendations rnd fmt0 runtimes timeouts threshold =
     (if length timeouts = 0 then []
      else sort_stable_func
             (\<lambda>x y. if tmAction x \<noteq> tmAction y then (if tmAction x = RecommendRaise then -1 else 1) else cmp_compare (tmName x) (tmName y))
             (recommendations rnd fmt0 (map_of timeouts) threshold runtimes))"

definition AnalyzeBudget ::
  "(rat \<Rightarrow> rat) \<Rightarrow> (rat \<Rightarrow> string) \<Rightarrow> map_orders \<Rightarrow> duration_store \<Rightarrow> TimeoutConfig \<Rightarrow> gofloat \<Rightarrow> gotime \<Rightarrow> gotime \<Rightarrow> (go_error + BudgetReport) option" where
  "AnalyzeBudget rnd fmt0 ord st cfg threshold start stop =
     (case queryDurationSeries st start stop of
        Inl e \<Rightarrow> Some (Inl (ErrWrap ''querying duration series'' e))
      | Inr ss \<Rightarrow>
          (case aggregateRuntimes rnd ord ss of
             None \<Rightarrow> None
           | Some runtimes \<Rightarrow>
               let perBuild = groupByBuild rnd ss
               in Some (Inr \<lparr>brPipeline = (if tcPipelineTimeout cfg > 0 then Some (computePipelineBudget rnd ord perBuild (tcPipelineTimeout cfg)) else None),
                     brSuites = computeSuiteBudgets rnd ord perBuild (tcSuiteTimeouts cfg),
                     brNearTimeout = detectNearTimeout rnd runtimes (tcTestTimeouts cfg) threshold,
                     brRecommendations = computeRecommendations rnd fmt0 runtimes (tcTestTimeouts cfg) threshold\<rparr>)))"

end
