(* ===== verification/Quarantine.thy ===== *)
theory Quarantine
  imports Budget
begin

text \<open>
  Reconciliation of the quarantine with Jira and the run of the whole pipeline
  (\<^verbatim>\<open>flakiness/flakiness.go\<close>). Jira, the bucket, the time-series database and the clock are parameters.
\<close>

section \<open>Reconciliation with Jira\<close>

record 'w JiraFiler =
  jfCreateBug :: "'w \<Rightarrow> QuarantineEntry \<Rightarrow> 'w \<times> (go_error + string)"
  jfGetStatus :: "'w \<Rightarrow> string \<Rightarrow> 'w \<times> (go_error + string)"

definition indexPriorEntries :: "QuarantineEntry list \<Rightarrow> (string \<rightharpoonup> QuarantineEntry)" where
  "indexPriorEntries entries =
     foldl (\<lambda>m e. if qeQuarantined e then m(entry_key e \<mapsto> e) else m) Map.empty entries"

text \<open>The first loop: entries quarantined before keep their ticket, the others are new.\<close>

fun carry_tickets :: "(string \<rightharpoonup> QuarantineEntry) \<Rightarrow> QuarantineEntry list \<Rightarrow> QuarantineEntry list \<times> QuarantineEntry list" where
  "carry_tickets prior [] = ([], [])"
| "carry_tickets prior (e # es) =
     (case carry_tickets prior es of (es', newly) \<Rightarrow>
        if \<not> qeQuarantined e then (e # es', newly)
        else (case prior (entry_key e) of
                Some p \<Rightarrow> if qeJiraKey p \<noteq> '''' then (e\<lparr>qeJiraKey := qeJiraKey p\<rparr> # es', newly) else (e # es', e # newly)
              | None \<Rightarrow> (e # es', e # newly)))"

fun set_ticket :: "string \<Rightarrow> string \<Rightarrow> QuarantineEntry list \<Rightarrow> QuarantineEntry list" where
  "set_ticket key ticket [] = []"
| "set_ticket key ticket (e # es) =
     (if entry_key e = key then e\<lparr>qeJiraKey := ticket\<rparr> # es else e # set_ticket key ticket es)"

fun file_tickets ::
  "'w JiraFiler \<Rightarrow> 'w \<Rightarrow> QuarantineEntry list \<Rightarrow> QuarantineEntry list \<Rightarrow> 'w \<times> QuarantineEntry list \<times> QuarantineEntry list \<times> go_error list" where
  "file_tickets jf w entries [] = (w, entries, [], [])"
| "file_tickets jf w entries (n # ns) =
     (case jfCreateBug jf w n of
        (w1, Inl e) \<Rightarrow>
          (case file_tickets jf w1 entries ns of (w2, entries', ns', errs) \<Rightarrow>
             (w2, entries', n # ns', ErrWrap (''filing Jira bug for '' @ [CHR 0x22] @ qeName n @ [CHR 0x22]) e # errs))
      | (w1, Inr ticket) \<Rightarrow>
          (case file_tickets jf w1 (set_ticket (entry_key n) ticket entries) ns of (w2, entries', ns', errs) \<Rightarrow>
             (w2, entries', n\<lparr>qeJiraKey := ticket\<rparr> # ns', errs)))"

definition resolvedStatuses :: "string list" where
  "resolvedStatuses = [''Done'', ''Closed'', ''Resolved'']"

fun check_prior ::
  "'w JiraFiler \<Rightarrow> string list \<Rightarrow> 'w \<Rightarrow> QuarantineEntry list \<Rightarrow> 'w \<times> QuarantineEntry list \<times> go_error list" where
  "check_prior jf currentKeys w [] = (w, [], [])"
| "check_prior jf currentKeys w (p # ps) =
     (if \<not> qeQuarantined p \<or> qeJiraKey p = '''' then check_prior jf currentKeys w ps
      else if List.member currentKeys (entry_key p) then check_prior jf currentKeys w ps
      else case jfGetStatus jf w (qeJiraKey p) of
             (w1, Inl e) \<Rightarrow>
               (case check_prior jf currentKeys w1 ps of (w2, un, errs) \<Rightarrow>
                  (w2, un, ErrWrap (''checking Jira status for '' @ qeJiraKey p) e # errs))
           | (w1, Inr status) \<Rightarrow>
               (case check_prior jf currentKeys w1 ps of (w2, un, errs) \<Rightarrow>
                  (w2, (if List.member resolvedStatuses status then p\<lparr>qeQuarantined := False\<rparr> # un else un), errs)))"

definition checkResolved ::
  "'w JiraFiler \<Rightarrow> 'w \<Rightarrow> QuarantineEntry list \<Rightarrow> QuarantineEntry list \<Rightarrow> 'w \<times> QuarantineEntry list \<times> go_error list" where
  "checkResolved jf w priorEntries currentEntries =
     check_prior jf (map entry_key (filter qeQuarantined currentEntries)) w priorEntries"

text \<open>Returns the entries as updated in place, the newly quarantined, the unquarantined and the errors.\<close>

definition reconcileQuarantine ::
  "'w JiraFiler option \<Rightarrow> QuarantineEntry list \<Rightarrow> 'w \<Rightarrow> QuarantineEntry list \<Rightarrow>
   'w \<times> QuarantineEntry list \<times> QuarantineEntry list \<times> QuarantineEntry list \<times> go_error list" where
  "reconcileQuarantine jira priorEntries w entries =
     (case carry_tickets (indexPriorEntries priorEntries) entries of (entries1, newly) \<Rightarrow>
        (case jira of
           None \<Rightarrow> (w, entries1, newly, [], [])
         | Some jf \<Rightarrow>
             (case file_tickets jf w entries1 newly of (w1, entries2, newly', errs1) \<Rightarrow>
                (case checkResolved jf w1 priorEntries entries2 of (w2, unquarantined, errs2) \<Rightarrow>
                   (w2, entries2, newly', unquarantined, errs1 @ errs2)))))"

section \<open>The run\<close>

record Result =
  fuComponent :: string
  fuScrape :: ScrapeResult
  fuAllEntries :: "QuarantineEntry list"
  fuQuarantinedTests :: "QuarantineEntry list"
  fuNewlyQuarantined :: "QuarantineEntry list"
  fuUnquarantined :: "QuarantineEntry list"
  fuJiraErrors :: "go_error list"
  fuBudget :: "BudgetReport option"
  fuTokenExpiryWarning :: string

text \<open>
  The options of a run. Without an injected client a GCS client is created; without a Jira client no
  ticket is filed.
\<close>

record 'w runConfig =
  rcBucketClient :: bool
  rcJiraClient :: "'w JiraFiler option"
  rcPriorEntries :: "QuarantineEntry list"

definition WithBucketClient :: "'w runConfig \<Rightarrow> 'w runConfig" where
  "WithBucketClient rc = rc\<lparr>rcBucketClient := True\<rparr>"

definition WithJiraClient :: "'w JiraFiler \<Rightarrow> 'w runConfig \<Rightarrow> 'w runConfig" where
  "WithJiraClient c rc = rc\<lparr>rcJiraClient := Some c\<rparr>"

definition WithPriorEntries :: "QuarantineEntry list \<Rightarrow> 'w runConfig \<Rightarrow> 'w runConfig" where
  "WithPriorEntries entries rc = rc\<lparr>rcPriorEntries := entries\<rparr>"

text \<open>
  The world of a run: \<open>rwNewStore\<close>, \<open>rwCommit\<close>, \<open>rwSelect\<close> and \<open>rwDurations\<close> are the time-series database,
  \<open>rwNewClient\<close> creates a GCS client, \<open>rwClock\<close> is the injected clock, \<open>rwAddDays\<close> is
  \<^verbatim>\<open>AddDate(0, 0, n)\<close>, \<open>rwFormat\<close> prints a time in RFC 3339 and \<open>rwPercent\<close> a float with \<^verbatim>\<open>%.0f\<close>,
  \<open>rwMatches\<close> matches a pattern.
\<close>

record ('w, 'bytes) run_world =
  rwScrape :: "('w, 'bytes) scrape_world"
  rwConfig :: config_env
  rwNewStore :: "'w \<Rightarrow> 'w \<times> go_error option"
  rwNewClient :: "'w \<Rightarrow> 'w \<times> go_error option"
  rwCommit :: "'w \<Rightarrow> 'w \<times> go_error option"
  rwClock :: "'w \<Rightarrow> gotime"
  rwAddDays :: "gotime \<Rightarrow> int \<Rightarrow> gotime"
  rwFormat :: "gotime \<Rightarrow> string"
  rwPercent :: "rat \<Rightarrow> string"
  rwMatches :: "string \<Rightarrow> string \<Rightarrow> bool"
  rwSelect :: "'w \<Rightarrow> int \<Rightarrow> int \<Rightarrow> go_error + series list \<times> go_error option"
  rwDurations :: "'w \<Rightarrow> duration_store"
  rwOrders :: map_orders

text \<open>A file that does not exist is no error: \<open>read\<close> gives \<open>Inr None\<close> then.\<close>

definition LoadPriorEntries ::
  "(string \<Rightarrow> go_error + 'bytes option) \<Rightarrow> ('bytes \<Rightarrow> go_error + QuarantineEntry list) \<Rightarrow> string \<Rightarrow> go_error + QuarantineEntry list" where
  "LoadPriorEntries read decode path =
     (case read path of
        Inr None \<Rightarrow> Inr []
      | Inl e \<Rightarrow> Inl (ErrWrap (''reading prior quarantine file '' @ path) e)
      | Inr (Some data) \<Rightarrow>
          (case decode data of Inl e \<Rightarrow> Inl (ErrWrap (''parsing prior quarantine file '' @ path) e) | Inr entries \<Rightarrow> Inr entries))"

definition checkTokenExpiry :: "('w, 'bytes) run_world \<Rightarrow> JiraConfig \<Rightarrow> gotime \<Rightarrow> string" where
  "checkTokenExpiry rw j now =
     (if jiTokenExpiresAt j = '''' then ''''
      else case ceRFC3339 (rwConfig rw) (jiTokenExpiresAt j) of
             Inl e \<Rightarrow> ''''
           | Inr expiresAt \<Rightarrow>
               let warningDays = (if jiTokenExpiryWarningDays j \<le> 0 then 14 else jiTokenExpiryWarningDays j);
                   deadline = rwAddDays rw expiresAt (- warningDays)
               in if now < deadline then ''''
                  else ''Jira API token expires at '' @ rwFormat rw expiresAt @ '' (within '' @ itoa warningDays @ '' day warning window)'')"

text \<open>\<^verbatim>\<open>ScrapeAll\<close> never returns an error.\<close>

definition runScrape ::
  "(rat \<Rightarrow> rat) \<Rightarrow> ('w, 'bytes) run_world \<Rightarrow> 'w runConfig \<Rightarrow> Config \<Rightarrow> 'w \<Rightarrow> 'w \<times> (go_error + ScrapeResult)" where
  "runScrape rnd rw rc cfg w =
     (case (if rcBucketClient rc then (w, None) else rwNewClient rw w) of
        (w1, Some e) \<Rightarrow> (w1, Inl (ErrWrap ''creating GCS client'' e))
      | (w1, None) \<Rightarrow>
          (case ScrapeAll rnd (rwScrape rw) (NewScraper []) (cfBucket cfg) w1 (cfJobPrefixes cfg)
                  \<lparr>srArtifacts = 0, srTestsRecorded = 0, srErrors = []\<rparr> of
             (w2, result) \<Rightarrow>
               (case rwCommit rw w2 of
                  (w3, Some e) \<Rightarrow> (w3, Inl (ErrWrap ''committing metrics'' e))
                | (w3, None) \<Rightarrow> (w3, Inr result))))"

definition runAnalysis :: "(rat \<Rightarrow> rat) \<Rightarrow> ('w, 'bytes) run_world \<Rightarrow> Config \<Rightarrow> 'w \<Rightarrow> go_error + QuarantineEntry list" where
  "runAnalysis rnd rw cfg w =
     (let now = rwClock rw w; start = rwAddDays rw now (- acWindowDays (cfAnalysis cfg));
          opts = \<lparr>clMinRecentFailsForRegression = 0, clMaxPreTransitionFailRate = 0, clMinRuns = acMinRuns (cfAnalysis cfg)\<rparr>
      in case Analyze rnd (rwSelect rw w (UnixMilli start) (UnixMilli now)) opts of
           Inl e \<Rightarrow> Inl (ErrWrap ''analyzing test results'' e)
         | Inr report \<Rightarrow> Inr (QuarantineList rnd report (acThreshold (cfAnalysis cfg))))"

definition runBudgetAnalysis ::
  "(rat \<Rightarrow> rat) \<Rightarrow> ('w, 'bytes) run_world \<Rightarrow> Config \<Rightarrow> 'w \<Rightarrow> (go_error + BudgetReport) option" where
  "runBudgetAnalysis rnd rw cfg w =
     (case ToTimeoutConfig (ceDuration (rwConfig rw)) (cfTimeoutBudget cfg) of
        Inl e \<Rightarrow> Some (Inl (ErrWrap ''parsing timeout budget config'' e))
      | Inr tc \<Rightarrow>
          let t = tbWarningThreshold (cfTimeoutBudget cfg); threshold = (if float_leq t (FFin 0) then FFin (rnd (4 / 5)) else t);
              now = rwClock rw w; start = rwAddDays rw now (- acWindowDays (cfAnalysis cfg))
          in case AnalyzeBudget rnd (rwPercent rw) (rwOrders rw) (rwDurations rw w) tc threshold start now of
               None \<Rightarrow> None
             | Some (Inl e) \<Rightarrow> Some (Inl (ErrWrap ''analyzing timeout budget'' e))
             | Some (Inr report) \<Rightarrow> Some (Inr report))"

text \<open>The outcome is \<open>None\<close> when the run panics.\<close>

definition Run ::
  "(rat \<Rightarrow> rat) \<Rightarrow> ('w, 'bytes) run_world \<Rightarrow> Config \<Rightarrow> ('w runConfig \<Rightarrow> 'w runConfig) list \<Rightarrow> 'w \<Rightarrow> 'w \<times> (go_error + Result) option" where
  "Run rnd rw cfg opts w =
     (let rc = foldl (\<lambda>rc f. f rc) \<lparr>rcBucketClient = False, rcJiraClient = None, rcPriorEntries = []\<rparr> opts;
          tokenWarning = checkTokenExpiry rw (cfJira cfg) (rwClock rw w);
          empty = \<lparr>fuComponent = cfComponent cfg, fuScrape = \<lparr>srArtifacts = 0, srTestsRecorded = 0, srErrors = []\<rparr>, fuAllEntries = [],
            fuQuarantinedTests = [], fuNewlyQuarantined = [], fuUnquarantined = [], fuJiraErrors = [], fuBudget = None,
            fuTokenExpiryWarning = tokenWarning\<rparr>
      in case rwNewStore rw w of
           (w1, Some e) \<Rightarrow> (w1, Some (Inl (ErrWrap ''creating store'' e)))
         | (w1, None) \<Rightarrow>
             (case runScrape rnd rw rc cfg w1 of
                (w2, Inl e) \<Rightarrow> (w2, Some (Inl e))
              | (w2, Inr sr) \<Rightarrow>
                  if srTestsRecorded sr = 0 then (w2, Some (Inr (empty\<lparr>fuScrape := sr\<rparr>)))
                  else (case runAnalysis rnd rw cfg w2 of
                     Inl e \<Rightarrow> (w2, Some (Inl e))
                   | Inr entries0 \<Rightarrow>
                       (case FilterExcluded (rwConfig rw) (rwMatches rw) cfg entries0 of
                          None \<Rightarrow> (w2, None)
                        | Some entries \<Rightarrow>
                          (case (if IsConfigured (cfTimeoutBudget cfg) then map_option (map_sum id Some) (runBudgetAnalysis rnd rw cfg w2)
                                else Some (Inr None)) of
                            None \<Rightarrow> (w2, None)
                          | Some (Inl e) \<Rightarrow> (w2, Some (Inl e))
                          | Some (Inr b) \<Rightarrow>
                              if \<not> qcAutoQuarantine (cfQuarantine cfg)
                              then (w2, Some (Inr (empty\<lparr>fuScrape := sr, fuBudget := b,
                                      fuAllEntries := map (\<lambda>e. e\<lparr>qeQuarantined := False\<rparr>) entries\<rparr>)))
                              else (case reconcileQuarantine (rcJiraClient rc) (rcPriorEntries rc) w2 entries of
                                      (w3, entries', newly, unq, errs) \<Rightarrow>
                                      (w3, Some (Inr (empty\<lparr>fuScrape := sr, fuBudget := b, fuAllEntries := entries',
                                         fuQuarantinedTests := filter qeQuarantined entries', fuNewlyQuarantined := newly,
                                         fuUnquarantined := unq, fuJiraErrors := errs\<rparr>)))))))))"

end
