(* ===== verification/Flaky_Correct.thy ===== *)
theory Flaky_Correct
  imports Quarantine
begin

text \<open>
  Correctness of the flakiness analyzer: the records that \<^verbatim>\<open>Analyze\<close> builds, the meaning of the four
  patterns, the quarantine list, tickets and retries, and the configuration that \<^verbatim>\<open>LoadConfig\<close> accepts.
\<close>

section \<open>Records\<close>

interpretation by_time: key_comparison "\<lambda>a b. cmp_compare (roTimestamp a) (roTimestamp b)" roTimestamp
  by unfold_locales simp

text \<open>The counters of a record agree with its history.\<close>

definition wf_record :: "TestRecord \<Rightarrow> bool" where
  "wf_record r \<longleftrightarrow> trTotalRuns r = int (length (trHistory r)) \<and> trFailedRuns r = int (length (filter roFailed (trHistory r))) \<and>
     trPassedRuns r = int (length (filter (\<lambda>x. \<not> roFailed x) (trHistory r))) \<and> trHistory r \<noteq> []"

definition wf_tests :: "(string \<times> TestRecord) list \<Rightarrow> bool" where
  "wf_tests ts \<longleftrightarrow> distinct (map fst ts) \<and> (\<forall>(k, r)\<in>set ts. k = TestRecord_Key r \<and> wf_record r)"

lemma record_run_sel [simp]:
  "trHistory (record_run result run r) = trHistory r @ [run]" "trName (record_run result run r) = trName r"
  "trSuite (record_run result run r) = trSuite r" "trJob (record_run result run r) = trJob r"
  "trTotalRuns (record_run result run r) = trTotalRuns r + 1"
  "trFailedRuns (record_run result run r) = trFailedRuns r + (if roFailed run then 1 else 0)"
  "trPassedRuns (record_run result run r) = trPassedRuns r + (if \<not> roFailed run \<and> result = ''pass'' then 1 else 0)"
  by (simp_all add: record_run_def Let_def)

lemma record_run_wf:
  assumes "wf_record r \<or> r = new_record n s j" and "roFailed run \<or> result = ''pass''"
  shows "wf_record (record_run result run r)"
  using assms by (auto simp: wf_record_def new_record_def)

lemma update_test_keys: "fst ` set (update_test key fresh f ts) = insert key (fst ` set ts)"
  by (induction key fresh f ts rule: update_test.induct) auto

lemma update_test_wf:
  assumes "wf_tests ts" and "key = TestRecord_Key (f fresh)" and "wf_record (f fresh)"
    and "\<And>r. wf_record r \<Longrightarrow> wf_record (f r) \<and> TestRecord_Key (f r) = TestRecord_Key r"
  shows "wf_tests (update_test key fresh f ts)"
  using assms(1)
proof (induction ts)
  case Nil
  with assms(2,3) show ?case by (simp add: wf_tests_def)
next
  case (Cons p ts)
  obtain k r where p: "p = (k, r)" by fastforce
  show ?case
  proof (cases "k = key")
    case True
    with Cons.prems p assms(4)[of r] show ?thesis by (auto simp: wf_tests_def)
  next
    case False
    from Cons.prems have "wf_tests ts" by (simp add: wf_tests_def)
    note IH = Cons.IH[OF this]
    have "k \<notin> fst ` set (update_test key fresh f ts)"
      using Cons.prems p False update_test_keys[of key fresh f ts] by (auto simp: wf_tests_def)
    with False p IH Cons.prems show ?thesis by (auto simp: wf_tests_def)
  qed
qed

lemma record_sample_wf:
  assumes "wf_tests ts" and "isAnalyzableOutcome (seLabels s ''result'')"
  shows "wf_tests (record_sample s t ts)"
proof -
  let ?run = "\<lparr>roTimestamp = unix_milli t, roFailed = (seLabels s ''result'' = ''fail'' \<or> seLabels s ''result'' = ''error''),
     roBuildID = seLabels s ''build_id'', roCommitSHA = seLabels s ''commit_sha'', roPRNumber = seLabels s ''pr_number''\<rparr>"
  have ok: "roFailed ?run \<or> seLabels s ''result'' = ''pass''" using assms(2) by (auto simp: isAnalyzableOutcome_def)
  show ?thesis
    unfolding record_sample_def Let_def
  proof (rule update_test_wf[OF assms(1)])
    show "wf_record (record_run (seLabels s ''result'') ?run (new_record (seLabels s ''test_name'') (seLabels s ''suite'') (seLabels s ''job'')))"
      by (rule record_run_wf[OF _ ok]) blast
    show "wf_record (record_run (seLabels s ''result'') ?run r) \<and> TestRecord_Key (record_run (seLabels s ''result'') ?run r) = TestRecord_Key r"
      if "wf_record r" for r
      using record_run_wf[OF _ ok, of r] that by (simp add: TestRecord_Key_def)
  qed (simp add: TestRecord_Key_def new_record_def)
qed

lemma analyze_series_wf: "analyze_series ss ts = Inr out \<Longrightarrow> wf_tests ts \<Longrightarrow> wf_tests out"
proof (induction ss arbitrary: ts)
  case (Cons s ss)
  show ?case
  proof (cases "seLabels s ''test_name'' = '''' \<or> \<not> isAnalyzableOutcome (seLabels s ''result'')")
    case True
    with Cons show ?thesis by simp
  next
    case False
    have "wf_tests (foldl (\<lambda>t x. record_sample s x t) ts xs)" for xs
      using Cons.prems(2) False by (induction xs rule: rev_induct) (simp_all add: record_sample_wf)
    with Cons False show ?thesis by (auto simp: Let_def split: option.splits)
  qed
qed simp

lemma Analyze_wf:
  assumes "Analyze rnd sel opts = Inr rep"
  shows "wf_tests (reTests rep)" and "reOptions rep = withDefaults rnd opts"
proof -
  obtain ss err tests where "sel = Inr (ss, err)" "analyze_series ss [] = Inr tests"
    and rep: "rep = \<lparr>reTests = tests, reOptions = withDefaults rnd opts\<rparr>"
    using assms by (auto simp: Analyze_def split: sum.splits option.splits)
  with analyze_series_wf[of ss "[]" tests] show "wf_tests (reTests rep)" by (simp add: wf_tests_def)
  show "reOptions rep = withDefaults rnd opts" by (simp add: rep)
qed

section \<open>Patterns\<close>

lemma withDefaults_idem [simp]: "withDefaults rnd (withDefaults rnd o1) = withDefaults rnd o1"
  by (simp add: withDefaults_def)

lemma withDefaults_pos [simp]: "clMinRecentFailsForRegression (withDefaults rnd o1) > 0" "clMinRuns (withDefaults rnd o1) > 0"
  by (simp_all add: withDefaults_def)

lemma count_leading_takeWhile: "count_leading xs = length (takeWhile roFailed xs)"
  by (induction xs) auto

text \<open>The trailing failures are the longest suffix of failed runs.\<close>

lemma trailing_split:
  defines "k \<equiv> \<lambda>srt. length srt - countTrailingFailures srt"
  shows "countTrailingFailures srt \<le> length srt" and "\<forall>x\<in>set (drop (k srt) srt). roFailed x"
    and "k srt \<noteq> 0 \<Longrightarrow> \<not> roFailed (srt ! (k srt - 1))"
proof -
  let ?n = "countTrailingFailures srt"
  have n: "?n = length (takeWhile roFailed (rev srt))" by (simp add: countTrailingFailures_def count_leading_takeWhile)
  show le: "?n \<le> length srt" unfolding n using length_takeWhile_le[of roFailed "rev srt"] by simp
  have "drop (k srt) srt = rev (takeWhile roFailed (rev srt))"
    unfolding k_def n using takeWhile_eq_take[of roFailed "rev srt"] by (metis drop_rev rev_rev_ident length_rev rev_take)
  then show "\<forall>x\<in>set (drop (k srt) srt). roFailed x" using set_takeWhileD by fastforce
  show "\<not> roFailed (srt ! (k srt - 1))" if "k srt \<noteq> 0"
  proof -
    have lt: "?n < length (rev srt)" using that le by (simp add: k_def)
    then have "\<not> roFailed (rev srt ! ?n)" unfolding n by (rule nth_length_takeWhile)
    moreover have "rev srt ! ?n = srt ! (k srt - 1)" using lt by (simp add: rev_nth k_def)
    ultimately show ?thesis by simp
  qed
qed


definition regression_at :: "(rat \<Rightarrow> rat) \<Rightarrow> ClassifyOptions \<Rightarrow> RunOutcome list \<Rightarrow> RunOutcome \<Rightarrow> bool" where
  "regression_at rnd opts srt t \<longleftrightarrow> (\<exists>pre rest. srt = pre @ t # rest \<and> pre \<noteq> [] \<and> \<not> roFailed (last pre) \<and>
     (\<forall>x\<in>set (t # rest). roFailed x) \<and> clMinRecentFailsForRegression opts \<le> int (length (t # rest)) \<and>
     rnd (rat_of_nat (length (filter roFailed pre)) / rat_of_nat (length pre)) \<le> clMaxPreTransitionFailRate opts)"

lemma trailing_count:
  assumes "srt = pre @ fs" and "\<forall>x\<in>set fs. roFailed x" and "pre \<noteq> []" and "\<not> roFailed (last pre)"
  shows "countTrailingFailures srt = length fs"
proof -
  have "rev srt = rev fs @ rev pre" using assms(1) by simp
  moreover have "takeWhile roFailed (rev pre) = []" using assms(3,4) by (cases pre rule: rev_cases) auto
  ultimately have "takeWhile roFailed (rev srt) = rev fs"
    using assms(2) takeWhile_append2[of "rev fs" roFailed "rev pre"] by simp
  then show ?thesis by (simp add: countTrailingFailures_def count_leading_takeWhile)
qed

lemma sortedHistory_set [simp]: "set (sortedHistory r) = set (trHistory r)" "length (sortedHistory r) = length (trHistory r)"
  by (simp_all add: sortedHistory_def)

lemma wf_record_counts:
  assumes "wf_record r"
  shows "trFailedRuns r = 0 \<longleftrightarrow> (\<forall>x\<in>set (trHistory r). \<not> roFailed x)"
    and "trPassedRuns r = 0 \<longleftrightarrow> (\<forall>x\<in>set (trHistory r). roFailed x)"
  using assms by (auto simp: wf_record_def filter_empty_conv)

lemma analyze_mixed:
  assumes wf: "wf_record r" and mixed: "trFailedRuns r \<noteq> 0" "trPassedRuns r \<noteq> 0" and runs: "trTotalRuns r \<ge> clMinRuns (withDefaults rnd o1)"
  shows "(\<forall>t. regression_at rnd (withDefaults rnd o1) (sortedHistory r) t \<longrightarrow>
      analyzeWith rnd o1 r = \<lparr>anPattern = PatternRegression, anTransition = Some t\<rparr>) \<and>
    ((\<nexists>t. regression_at rnd (withDefaults rnd o1) (sortedHistory r) t) \<longrightarrow> analyzeWith rnd o1 r = just_pattern PatternFlaky)"
proof -
  define srt where "srt = sortedHistory r"
  define n where "n = countTrailingFailures srt"
  define k where "k = length srt - n"
  let ?o = "withDefaults rnd o1"
  let ?rate = "rnd (rat_of_nat (length (filter roFailed (take k srt))) / rat_of_nat k)"
  have len: "length srt \<ge> 2"
  proof -
    from mixed wf_record_counts[OF wf] obtain x y where "x \<in> set srt" "roFailed x" "y \<in> set srt" "\<not> roFailed y"
      by (auto simp: srt_def)
    then show ?thesis by (cases srt; cases "tl srt") auto
  qed
  have k: "k \<noteq> 0"
  proof
    assume "k = 0"
    with trailing_split(2)[of srt] have "\<forall>x\<in>set srt. roFailed x" by (simp add: k_def n_def)
    with mixed(2) wf_record_counts(2)[OF wf] show False by (simp add: srt_def)
  qed
  have run: "analyzeWith rnd o1 r =
      (if int n < clMinRecentFailsForRegression ?o then just_pattern PatternFlaky
       else if ?rate \<le> clMaxPreTransitionFailRate ?o then \<lparr>anPattern = PatternRegression, anTransition = Some (srt ! k)\<rparr>
       else just_pattern PatternFlaky)"
    unfolding analyzeWith_def Let_def srt_def[symmetric] n_def[symmetric] k_def[symmetric] using mixed runs len k by simp
  have at: "int n \<ge> clMinRecentFailsForRegression ?o \<and> ?rate \<le> clMaxPreTransitionFailRate ?o \<and> t = srt ! k"
    if reg: "regression_at rnd ?o srt t" for t
  proof -
    from reg obtain pre rest where split: "srt = pre @ t # rest" and pre: "pre \<noteq> []" "\<not> roFailed (last pre)"
      and fs: "\<forall>x\<in>set (t # rest). roFailed x" and more: "clMinRecentFailsForRegression ?o \<le> int (length (t # rest))"
        "rnd (rat_of_nat (length (filter roFailed pre)) / rat_of_nat (length pre)) \<le> clMaxPreTransitionFailRate ?o"
      unfolding regression_at_def by blast
    have "n = length (t # rest)" unfolding n_def by (rule trailing_count[OF split fs pre])
    moreover from this have "k = length pre" unfolding k_def by (simp add: split)
    ultimately show ?thesis using more by (simp add: split)
  qed
  have conv: "regression_at rnd ?o srt (srt ! k)"
    if "int n \<ge> clMinRecentFailsForRegression ?o" "?rate \<le> clMaxPreTransitionFailRate ?o"
  proof -
    have lt: "n \<le> length srt" "0 < n"
      using trailing_split(1)[of srt] that(1) withDefaults_pos(1)[of rnd o1] by (simp_all add: n_def, linarith)
    then have klt: "k < length srt" unfolding k_def using len by linarith
    have "srt = take k srt @ srt ! k # drop (Suc k) srt" using klt by (simp add: id_take_nth_drop)
    moreover have "take k srt \<noteq> []" using k klt by auto
    moreover have "\<not> roFailed (last (take k srt))"
    proof -
      have "last (take k srt) = take k srt ! (length (take k srt) - 1)" using k klt by (intro last_conv_nth) auto
      then have "last (take k srt) = srt ! (k - 1)" using k klt by simp
      with trailing_split(3)[of srt] k show ?thesis unfolding k_def n_def by metis
    qed
    moreover have "\<forall>x\<in>set (srt ! k # drop (Suc k) srt). roFailed x"
      using trailing_split(2)[of srt] klt by (simp add: k_def n_def Cons_nth_drop_Suc)
    moreover have "length (srt ! k # drop (Suc k) srt) = n" "length (take k srt) = k" using klt lt by (simp_all add: k_def)
    ultimately show ?thesis unfolding regression_at_def using that by (intro exI[of _ "take k srt"] exI[of _ "drop (Suc k) srt"]) simp
  qed
  show ?thesis
    unfolding srt_def[symmetric] run
  proof (intro conjI allI impI)
    fix t assume "regression_at rnd ?o srt t"
    from at[OF this] show "(if int n < clMinRecentFailsForRegression ?o then just_pattern PatternFlaky
       else if ?rate \<le> clMaxPreTransitionFailRate ?o then \<lparr>anPattern = PatternRegression, anTransition = Some (srt ! k)\<rparr>
       else just_pattern PatternFlaky) = \<lparr>anPattern = PatternRegression, anTransition = Some t\<rparr>" by simp
  next
    assume "\<nexists>t. regression_at rnd ?o srt t"
    with conv show "(if int n < clMinRecentFailsForRegression ?o then just_pattern PatternFlaky
       else if ?rate \<le> clMaxPreTransitionFailRate ?o then \<lparr>anPattern = PatternRegression, anTransition = Some (srt ! k)\<rparr>
       else just_pattern PatternFlaky) = just_pattern PatternFlaky" by (metis not_less)
  qed
qed

text \<open>
  C10: the patterns of a report mean what their names say. For every test of an analysed window, a
  test is healthy exactly when it has too few runs or no failure; persistent when it has enough runs
  and all of them failed; a regression exactly when its history, in the order of time, is a non-empty
  part that ends in a pass and has a tolerable failure rate, followed only by failures, of which there
  are at least the configured number, and then the reported transition is the first of these failures;
  and it is flaky in every other case.
\<close>

theorem patterns_mean_histories:
  assumes "Analyze rnd sel opts = Inr rep" and "(k, r) \<in> set (reTests rep)"
  shows "(let o1 = reOptions rep; a = analyzeWith rnd o1 r; h = trHistory r;
      few = int (length h) < clMinRuns o1 \<or> (\<forall>x\<in>set h. \<not> roFailed x); all = (\<forall>x\<in>set h. roFailed x)
    in (anPattern a = PatternHealthy \<longleftrightarrow> few) \<and> (anPattern a = PatternPersistent \<longleftrightarrow> \<not> few \<and> all) \<and>
       (\<forall>t. anPattern a = PatternRegression \<and> anTransition a = Some t \<longleftrightarrow>
          \<not> few \<and> \<not> all \<and> regression_at rnd o1 (sortedHistory r) t) \<and>
       (anPattern a = PatternFlaky \<longleftrightarrow> \<not> few \<and> \<not> all \<and> (\<nexists>t. regression_at rnd o1 (sortedHistory r) t)))"
proof -
  have o1: "reOptions rep = withDefaults rnd opts" by (rule Analyze_wf(2)[OF assms(1)])
  have wf: "wf_record r" using Analyze_wf(1)[OF assms(1)] assms(2) by (auto simp: wf_tests_def)
  note counts = wf_record_counts[OF wf]
  have total: "trTotalRuns r = int (length (trHistory r))" using wf by (simp add: wf_record_def)
  have healthy: "analyzeWith rnd (reOptions rep) r = just_pattern PatternHealthy"
    if "int (length (trHistory r)) < clMinRuns (reOptions rep) \<or> trFailedRuns r = 0"
    using that total by (auto simp: analyzeWith_def o1)
  have persistent: "analyzeWith rnd (reOptions rep) r = just_pattern PatternPersistent"
    if "\<not> (int (length (trHistory r)) < clMinRuns (reOptions rep) \<or> trFailedRuns r = 0)" "trPassedRuns r = 0"
    using that total by (auto simp: analyzeWith_def o1)
  have mixed: "(\<forall>t. regression_at rnd (reOptions rep) (sortedHistory r) t \<longrightarrow>
      analyzeWith rnd (reOptions rep) r = \<lparr>anPattern = PatternRegression, anTransition = Some t\<rparr>) \<and>
    ((\<nexists>t. regression_at rnd (reOptions rep) (sortedHistory r) t) \<longrightarrow> analyzeWith rnd (reOptions rep) r = just_pattern PatternFlaky)"
    if "\<not> (int (length (trHistory r)) < clMinRuns (reOptions rep) \<or> trFailedRuns r = 0)" "trPassedRuns r \<noteq> 0"
    using analyze_mixed[OF wf, of rnd "reOptions rep"] that total by (simp add: o1)
  show ?thesis
    unfolding Let_def counts[symmetric] using healthy persistent mixed
    by (cases "int (length (trHistory r)) < clMinRuns (reOptions rep) \<or> trFailedRuns r = 0"; cases "trPassedRuns r = 0")
       (auto simp: just_pattern_def)
qed


section \<open>The quarantine list\<close>

interpretation by_entry: key_comparison "by_rate qeFlakeRate entry_key" "\<lambda>e. (- qeFlakeRate e, entry_key e)"
  by unfold_locales (auto simp: by_rate_def less_eq_prod_def)

lemma quarantine_entry_sel [simp]:
  "qeFlakeRate (quarantine_entry rnd o1 th r) = FlakeRate rnd r" "entry_key (quarantine_entry rnd o1 th r) = TestRecord_Key r"
  "qeClassification (quarantine_entry rnd o1 th r) = anPattern (analyzeWith rnd o1 r)"
  "qeQuarantined (quarantine_entry rnd o1 th r) \<longleftrightarrow> anPattern (analyzeWith rnd o1 r) = PatternFlaky \<and> float_less th (FFin (FlakeRate rnd r))"
  by (simp_all add: quarantine_entry_def entry_key_def TestRecord_Key_def Let_def)

lemma FlakeRate_bounds:
  assumes "wf_record r" and "mono rnd" and "rnd 0 = 0" and "rnd 1 = 1"
  shows "0 \<le> FlakeRate rnd r \<and> FlakeRate rnd r \<le> 1"
proof -
  let ?f = "rat_of_int (trFailedRuns r)" and ?t = "rat_of_int (trTotalRuns r)"
  have le: "0 \<le> trFailedRuns r" "trFailedRuns r \<le> trTotalRuns r" "0 < trTotalRuns r"
    using assms(1) by (auto simp: wf_record_def)
  then have "0 \<le> ?f / ?t" "?f / ?t \<le> 1" by (simp_all add: divide_le_eq)
  with monoD[OF assms(2), of 0 "?f / ?t"] monoD[OF assms(2), of "?f / ?t" 1] assms(3,4) le(3) show ?thesis
    by (simp add: FlakeRate_def)
qed

lemma sorted_wrt_mono: "sorted (map (\<lambda>e. (- f e :: rat, g e :: string)) xs) \<Longrightarrow> sorted_wrt (\<lambda>x y. f x \<ge> f y) xs"
  by (induction xs) (auto simp: less_eq_prod_def)

text \<open>
  C31: the quarantine list of an analysed window holds every test that is not healthy exactly once, in the
  order of falling failure rates, each rate between 0 and 1; an entry is quarantined exactly when it is
  classified flaky and its rate exceeds the threshold (any float; none exceeds NaN), so a regression or a
  persistent failure never is. Rounding to floats is only assumed to be monotone and exact at 0 and 1.
\<close>

theorem quarantine_list_exact:
  assumes "Analyze rnd sel opts = Inr rep" and "mono rnd" and "rnd 0 = 0" and "rnd 1 = 1"
    and "es = QuarantineList rnd rep threshold"
  shows "distinct (map entry_key es) \<and>
    set (map entry_key es) = {k. \<exists>r. (k, r) \<in> set (reTests rep) \<and> anPattern (analyzeWith rnd (reOptions rep) r) \<noteq> PatternHealthy} \<and>
    sorted_wrt (\<lambda>x y. qeFlakeRate x \<ge> qeFlakeRate y) es \<and>
    (\<forall>e\<in>set es. 0 \<le> qeFlakeRate e \<and> qeFlakeRate e \<le> 1 \<and>
       (qeQuarantined e \<longleftrightarrow> qeClassification e = PatternFlaky \<and> float_less threshold (FFin (qeFlakeRate e))))"
proof -
  define rs where "rs = filter (\<lambda>rec. anPattern (analyzeWith rnd (reOptions rep) rec) \<noteq> PatternHealthy) (map snd (reTests rep))"
  define pre where "pre = map (quarantine_entry rnd (reOptions rep) threshold) rs"
  have es: "es = sort_stable_func (by_rate qeFlakeRate entry_key) pre" by (simp add: assms(5) QuarantineList_def pre_def rs_def)
  have wf: "wf_tests (reTests rep)" by (rule Analyze_wf(1)[OF assms(1)])
  then have keys: "map TestRecord_Key (map snd (reTests rep)) = map fst (reTests rep)"
    by (auto simp: wf_tests_def)
  have "distinct (map TestRecord_Key (map snd (reTests rep)))" unfolding keys using wf by (simp add: wf_tests_def)
  then have dist: "distinct (map entry_key pre)" unfolding pre_def rs_def by (simp add: comp_def distinct_map_filter)
  have ms: "mset es = mset pre" by (simp add: es)
  then have set: "set es = set pre" by (rule mset_eq_setD)
  have "distinct (map entry_key es)" using dist ms by (metis mset_map mset_eq_imp_distinct_iff)
  moreover have "set (map entry_key es) = {k. \<exists>r. (k, r) \<in> set (reTests rep) \<and> anPattern (analyzeWith rnd (reOptions rep) r) \<noteq> PatternHealthy}"
  proof -
    have "k = TestRecord_Key r" if "(k, r) \<in> set (reTests rep)" for k r using that wf by (auto simp: wf_tests_def)
    then show ?thesis by (force simp: set pre_def rs_def)
  qed
  moreover have "sorted_wrt (\<lambda>x y. qeFlakeRate x \<ge> qeFlakeRate y) es"
    using sorted_wrt_mono[of qeFlakeRate entry_key es] by_entry.sorted_result[of pre] es by simp
  moreover have "0 \<le> qeFlakeRate e \<and> qeFlakeRate e \<le> 1 \<and>
       (qeQuarantined e \<longleftrightarrow> qeClassification e = PatternFlaky \<and> float_less threshold (FFin (qeFlakeRate e)))" if "e \<in> set es" for e
  proof -
    from that obtain r where e: "e = quarantine_entry rnd (reOptions rep) threshold r" "r \<in> snd ` set (reTests rep)"
      by (auto simp: set pre_def rs_def)
    then have "wf_record r" using wf by (auto simp: wf_tests_def)
    from FlakeRate_bounds[OF this assms(2-4)] e(1) show ?thesis by simp
  qed
  ultimately show ?thesis by blast
qed

section \<open>Tickets\<close>

definition known_ticket :: "(string \<rightharpoonup> QuarantineEntry) \<Rightarrow> QuarantineEntry \<Rightarrow> string" where
  "known_ticket prior e = (case prior (entry_key e) of None \<Rightarrow> '''' | Some p \<Rightarrow> qeJiraKey p)"

lemma carry_tickets_result:
  "carry_tickets prior es =
    (map (\<lambda>e. if qeQuarantined e \<and> known_ticket prior e \<noteq> '''' then e\<lparr>qeJiraKey := known_ticket prior e\<rparr> else e) es,
     filter (\<lambda>e. qeQuarantined e \<and> known_ticket prior e = '''') es)"
  by (induction es) (auto simp: known_ticket_def split: option.split)

lemma set_ticket_frame:
  "map entry_key (set_ticket key t es) = map entry_key es" "map qeQuarantined (set_ticket key t es) = map qeQuarantined es"
  "e \<in> set es \<Longrightarrow> entry_key e \<noteq> key \<Longrightarrow> e \<in> set (set_ticket key t es)"
  by (induction es) (auto simp: entry_key_def)

lemma set_ticket_sets:
  "distinct (map entry_key es) \<Longrightarrow> n \<in> set es \<Longrightarrow> n\<lparr>qeJiraKey := t\<rparr> \<in> set (set_ticket (entry_key n) t es)"
  by (induction es) auto

definition filed :: "'w JiraFiler \<Rightarrow> QuarantineEntry \<Rightarrow> bool" where
  "filed jf n \<longleftrightarrow> (\<exists>w1 w2 e t. jfCreateBug jf w1 e = (w2, Inr t) \<and> n = e\<lparr>qeJiraKey := t\<rparr>)"

definition filing_error :: "QuarantineEntry \<Rightarrow> go_error \<Rightarrow> bool" where
  "filing_error n err \<longleftrightarrow> (\<exists>e. err = ErrWrap (''filing Jira bug for '' @ [CHR 0x22] @ qeName n @ [CHR 0x22]) e)"

lemma file_tickets_result:
  assumes "file_tickets jf w es ns = (w', es', ns', errs)" and "distinct (map entry_key es)" and "distinct (map entry_key ns)"
    and "set ns \<subseteq> set es"
  shows "map entry_key es' = map entry_key es \<and> map qeQuarantined es' = map qeQuarantined es \<and> map entry_key ns' = map entry_key ns \<and>
    (\<forall>e\<in>set es. entry_key e \<notin> entry_key ` set ns \<longrightarrow> e \<in> set es') \<and> set ns' \<subseteq> set es' \<and>
    (\<forall>n\<in>set ns'. filed jf n \<or> (\<exists>err\<in>set errs. filing_error n err))"
  using assms
proof (induction ns arbitrary: w es w' es' ns' errs)
  case (Cons n ns)
  obtain w1 c where create: "jfCreateBug jf w n = (w1, c)" by fastforce
  have n: "n \<in> set es" "entry_key n \<notin> entry_key ` set ns" "distinct (map entry_key ns)" "set ns \<subseteq> set es"
    using Cons.prems(3,4) by auto
  show ?case
  proof (cases c)
    case (Inl e)
    obtain w2 es2 ns2 errs2 where rest: "file_tickets jf w1 es ns = (w2, es2, ns2, errs2)" by (metis prod.exhaust)
    with Cons.prems(1) create Inl have eq: "es' = es2" "ns' = n # ns2"
      "errs = ErrWrap (''filing Jira bug for '' @ [CHR 0x22] @ qeName n @ [CHR 0x22]) e # errs2" by auto
    note IH = Cons.IH[OF rest Cons.prems(2) n(3,4)]
    from IH n(1,2) have "n \<in> set es2" by blast
    moreover have "filing_error n (hd errs)" by (simp add: eq(3) filing_error_def)
    ultimately show ?thesis using IH unfolding eq by auto
  next
    case (Inr t)
    let ?es = "set_ticket (entry_key n) t es"
    obtain w2 es2 ns2 errs2 where rest: "file_tickets jf w1 ?es ns = (w2, es2, ns2, errs2)" by (metis prod.exhaust)
    with Cons.prems(1) create Inr have eq: "es' = es2" "ns' = n\<lparr>qeJiraKey := t\<rparr> # ns2" "errs = errs2" by auto
    have "distinct (map entry_key ?es)" unfolding set_ticket_frame(1) by (rule Cons.prems(2))
    moreover have "set ns \<subseteq> set ?es"
    proof
      fix x assume x: "x \<in> set ns"
      with n(2) have "entry_key x \<noteq> entry_key n" by (metis imageI)
      with x n(4) show "x \<in> set ?es" by (intro set_ticket_frame(3)) auto
    qed
    ultimately have IH: "map entry_key es2 = map entry_key ?es \<and> map qeQuarantined es2 = map qeQuarantined ?es \<and>
        map entry_key ns2 = map entry_key ns \<and> (\<forall>e\<in>set ?es. entry_key e \<notin> entry_key ` set ns \<longrightarrow> e \<in> set es2) \<and> set ns2 \<subseteq> set es2 \<and>
        (\<forall>n\<in>set ns2. filed jf n \<or> (\<exists>err\<in>set errs2. filing_error n err))"
      by (intro Cons.IH[OF rest] n(3))
    have key: "entry_key (n\<lparr>qeJiraKey := t\<rparr>) = entry_key n" by (simp add: entry_key_def)
    have "n\<lparr>qeJiraKey := t\<rparr> \<in> set es2" using IH set_ticket_sets[OF Cons.prems(2) n(1), of t] n(2) key by metis
    moreover have "filed jf (n\<lparr>qeJiraKey := t\<rparr>)" using create Inr by (auto simp: filed_def)
    moreover have "\<forall>e\<in>set es. entry_key e \<notin> entry_key ` set (n # ns) \<longrightarrow> e \<in> set es2"
      using IH set_ticket_frame(3)[of _ es "entry_key n" t] by auto
    ultimately show ?thesis using IH unfolding eq set_ticket_frame by (auto simp: key)
  qed
qed simp

definition resolved_prior :: "'w JiraFiler \<Rightarrow> string list \<Rightarrow> QuarantineEntry list \<Rightarrow> QuarantineEntry \<Rightarrow> bool" where
  "resolved_prior jf current prior u \<longleftrightarrow> (\<exists>p\<in>set prior. u = p\<lparr>qeQuarantined := False\<rparr> \<and> qeQuarantined p \<and> qeJiraKey p \<noteq> '''' \<and>
     entry_key p \<notin> set current \<and> (\<exists>w1 w2 s. jfGetStatus jf w1 (qeJiraKey p) = (w2, Inr s) \<and> s \<in> set resolvedStatuses))"

lemma check_prior_result:
  "check_prior jf current w ps = (w', un, errs) \<Longrightarrow> u \<in> set un \<Longrightarrow> resolved_prior jf current ps u"
proof (induction ps arbitrary: w w' un errs)
  case (Cons p ps)
  have later: "resolved_prior jf current ps u \<Longrightarrow> resolved_prior jf current (p # ps) u" by (auto simp: resolved_prior_def)
  show ?case
  proof (cases "\<not> qeQuarantined p \<or> qeJiraKey p = '''' \<or> List.member current (entry_key p)")
    case True
    with Cons later show ?thesis by (auto split: if_splits)
  next
    case False
    obtain w1 st where status: "jfGetStatus jf w (qeJiraKey p) = (w1, st)" by fastforce
    obtain w2 un2 errs2 where rest: "check_prior jf current w1 ps = (w2, un2, errs2)" by (metis prod.exhaust)
    show ?thesis
    proof (cases "u \<in> set un2")
      case True
      from later[OF Cons.IH[OF rest this]] show ?thesis .
    next
      case new: False
      with Cons.prems False status rest obtain s where "st = Inr s" "s \<in> set resolvedStatuses" "u = p\<lparr>qeQuarantined := False\<rparr>"
        by (auto split: sum.splits if_splits)
      with False status show ?thesis by (auto simp: resolved_prior_def)
    qed
  qed
qed simp

text \<open>
  C11: reconciling with Jira never changes which tests are quarantined. A quarantined test whose last
  prior quarantine entry has a ticket keeps that ticket and gets no new one; exactly the other
  quarantined tests are filed, in order, and each ends up with the ticket Jira gave or with its error
  reported, the same in both lists; and a test is reported as unquarantined only if it was quarantined
  with a ticket before, is not quarantined any more and Jira calls the ticket resolved.
\<close>

theorem tickets_reconciled:
  assumes "reconcileQuarantine (Some jf) prior w entries = (w', entries', newly, unq, errs)"
    and "distinct (map entry_key entries)" and "known = known_ticket (indexPriorEntries prior)"
  shows "map entry_key entries' = map entry_key entries \<and> map qeQuarantined entries' = map qeQuarantined entries \<and>
    (\<forall>e\<in>set entries. qeQuarantined e \<and> known e \<noteq> '''' \<longrightarrow> e\<lparr>qeJiraKey := known e\<rparr> \<in> set entries') \<and>
    map entry_key newly = map entry_key (filter (\<lambda>e. qeQuarantined e \<and> known e = '''') entries) \<and>
    set newly \<subseteq> set entries' \<and> (\<forall>n\<in>set newly. filed jf n \<or> (\<exists>err\<in>set errs. filing_error n err)) \<and>
    (\<forall>u\<in>set unq. resolved_prior jf (map entry_key (filter qeQuarantined entries')) prior u)"
proof -
  let ?carry = "\<lambda>e. if qeQuarantined e \<and> known e \<noteq> '''' then e\<lparr>qeJiraKey := known e\<rparr> else e"
  define es1 where "es1 = map ?carry entries"
  define ns where "ns = filter (\<lambda>e. qeQuarantined e \<and> known e = '''') entries"
  have carry: "carry_tickets (indexPriorEntries prior) entries = (es1, ns)"
    by (simp add: carry_tickets_result es1_def ns_def assms(3))
  obtain w1 es2 ns2 errs1 where filing: "file_tickets jf w es1 ns = (w1, es2, ns2, errs1)" by (metis prod.exhaust)
  obtain w2 un errs2 where check: "checkResolved jf w1 prior es2 = (w2, un, errs2)" by (metis prod.exhaust)
  from assms(1) carry filing check have eq: "entries' = es2" "newly = ns2" "unq = un" "errs = errs1 @ errs2"
    by (simp_all add: reconcileQuarantine_def)
  have frame: "map entry_key es1 = map entry_key entries" "map qeQuarantined es1 = map qeQuarantined entries"
    by (auto simp: es1_def entry_key_def)
  have "distinct (map entry_key ns)" "set ns \<subseteq> set es1"
    using assms(2) by (auto simp: ns_def es1_def distinct_map_filter)
  from file_tickets_result[OF filing _ this] assms(2) frame(1)
  have res: "map entry_key es2 = map entry_key es1 \<and> map qeQuarantined es2 = map qeQuarantined es1 \<and> map entry_key ns2 = map entry_key ns \<and>
    (\<forall>e\<in>set es1. entry_key e \<notin> entry_key ` set ns \<longrightarrow> e \<in> set es2) \<and> set ns2 \<subseteq> set es2 \<and>
    (\<forall>n\<in>set ns2. filed jf n \<or> (\<exists>err\<in>set errs1. filing_error n err))" by simp
  have kept: "e\<lparr>qeJiraKey := known e\<rparr> \<in> set es2" if "e \<in> set entries" "qeQuarantined e" "known e \<noteq> ''''" for e
  proof -
    have "e\<lparr>qeJiraKey := known e\<rparr> \<in> set es1" using that by (force simp: es1_def)
    moreover have "entry_key (e\<lparr>qeJiraKey := known e\<rparr>) \<notin> entry_key ` set ns"
    proof
      assume "entry_key (e\<lparr>qeJiraKey := known e\<rparr>) \<in> entry_key ` set ns"
      then obtain n where "n \<in> set ns" "entry_key n = entry_key e" by (auto simp: entry_key_def)
      with that assms(2) have "n = e" by (auto simp: ns_def distinct_map inj_on_def)
      with \<open>n \<in> set ns\<close> that show False by (simp add: ns_def)
    qed
    ultimately show ?thesis using res by blast
  qed
  have "resolved_prior jf (map entry_key (filter qeQuarantined es2)) prior u" if "u \<in> set un" for u
    using check that unfolding checkResolved_def by (rule check_prior_result)
  with res frame kept show ?thesis unfolding eq ns_def by auto
qed


section \<open>Retries\<close>

text \<open>The world at the start of attempt \<open>k\<close> when all earlier attempts failed.\<close>

primrec attempt_state :: "('w, 'bytes) scrape_world \<Rightarrow> duration \<Rightarrow> ('w \<Rightarrow> 'w \<times> (go_error + 'a)) \<Rightarrow> 'w \<Rightarrow> nat \<Rightarrow> 'w" where
  "attempt_state sw delay call w 0 = w"
| "attempt_state sw delay call w (Suc k) = swSleep sw (fst (call (attempt_state sw delay call w k))) delay"

lemma attempt_state_shift:
  "attempt_state sw delay call (swSleep sw (fst (call w)) delay) k = attempt_state sw delay call w (Suc k)"
  by (induction k) simp_all

lemma with_retry_success:
  assumes "\<forall>k<n. swCtxErr sw (fst (call (attempt_state sw delay call w k))) = None" and "k < n"
    and "\<forall>i<k. isl (snd (call (attempt_state sw delay call w i)))" and "call (attempt_state sw delay call w k) = (w', Inr x)"
  shows "with_retry sw delay call n e w = (w', Inr x)"
  using assms
proof (induction n arbitrary: w k e)
  case (Suc n)
  show ?case
  proof (cases k)
    case 0
    with Suc.prems(4) show ?thesis by simp
  next
    case (Suc j)
    with Suc.prems(3) obtain w1 e1 where call: "call w = (w1, Inl e1)"
      by (metis attempt_state.simps(1) isl_def prod.collapse zero_less_Suc)
    have "with_retry sw delay call n (Some e1) (swSleep sw w1 delay) = (w', Inr x)"
      using Suc.prems attempt_state_shift[of sw delay call w] unfolding Suc call fst_conv
      by (intro Suc.IH) (auto simp del: attempt_state.simps(2) intro: Suc_mono)
    moreover have "swCtxErr sw w1 = None" using Suc.prems(1)[rule_format, of 0] call by simp
    ultimately show ?thesis using call Suc.prems(2) Suc by simp
  qed
qed simp

lemma with_retry_failure:
  assumes "\<forall>k<n. swCtxErr sw (fst (call (attempt_state sw delay call w k))) = None" and "0 < n"
    and "\<forall>i<n. isl (snd (call (attempt_state sw delay call w i)))" and "call (attempt_state sw delay call w (n - 1)) = (w', Inl x)"
  shows "with_retry sw delay call n e w = (w', Inl (Some x))"
  using assms
proof (induction n arbitrary: w e)
  case (Suc n)
  from Suc.prems(3) obtain w1 e1 where call: "call w = (w1, Inl e1)"
    by (metis attempt_state.simps(1) isl_def prod.collapse zero_less_Suc)
  have ctx: "swCtxErr sw w1 = None" using Suc.prems(1)[rule_format, of 0] call by simp
  show ?case
  proof (cases n)
    case 0
    with Suc.prems(4) call ctx show ?thesis by simp
  next
    case (Suc m)
    have "with_retry sw delay call n (Some e1) (swSleep sw w1 delay) = (w', Inl (Some x))"
      using Suc.prems attempt_state_shift[of sw delay call w] unfolding Suc call fst_conv
      by (intro Suc.IH[unfolded Suc]) (auto simp del: attempt_state.simps(2) intro: Suc_mono)
    with call ctx Suc show ?thesis by simp
  qed
qed simp

lemma NewScraper_attempts:
  "\<forall>f\<in>set opts. (\<exists>n. f = WithMaxRetries n) \<or> (\<exists>d. f = WithRetryDelay d) \<Longrightarrow> 0 < scMaxRetries (NewScraper opts)"
proof -
  assume "\<forall>f\<in>set opts. (\<exists>n. f = WithMaxRetries n) \<or> (\<exists>d. f = WithRetryDelay d)"
  then have "0 < scMaxRetries s \<Longrightarrow> 0 < scMaxRetries (foldl (\<lambda>s f. f s) s opts)" for s
    by (induction opts arbitrary: s) (auto simp: WithMaxRetries_def WithRetryDelay_def)
  then show ?thesis by (simp add: NewScraper_def)
qed

text \<open>
  C32: a scraper made from its options always makes at least one attempt to read an artifact and at most
  the configured number. While the context lives, the first attempt that succeeds gives the data, with
  the sleeps between the failed attempts before it, and if every attempt fails the error of the last
  one is returned; a read never ends without data and without an error.
\<close>

theorem retry_until_success:
  assumes "s = NewScraper opts" and "\<forall>f\<in>set opts. (\<exists>n. f = WithMaxRetries n) \<or> (\<exists>d. f = WithRetryDelay d)"
    and "attempt = (\<lambda>k. swRead sw (attempt_state sw (scRetryDelay s) (\<lambda>w. swRead sw w bucket name) w k) bucket name)"
    and "\<forall>k<scMaxRetries s. swCtxErr sw (fst (attempt k)) = None"
  shows "0 < scMaxRetries s \<and>
    (\<forall>k<scMaxRetries s. \<forall>w' x. (\<forall>i<k. isl (snd (attempt i))) \<and> attempt k = (w', Inr x) \<longrightarrow>
       readWithRetry sw s w bucket name = (w', Inr x)) \<and>
    ((\<forall>k<scMaxRetries s. isl (snd (attempt k))) \<longrightarrow>
       readWithRetry sw s w bucket name = map_prod id (map_sum Some id) (attempt (scMaxRetries s - 1)))"
proof -
  have pos: "0 < scMaxRetries s" using NewScraper_attempts[OF assms(2)] assms(1) by simp
  note ctx = assms(4)[unfolded assms(3)]
  have "readWithRetry sw s w bucket name = (w', Inr x)"
    if "k < scMaxRetries s" "\<forall>i<k. isl (snd (attempt i))" "attempt k = (w', Inr x)" for k w' x
    unfolding readWithRetry_def using that[unfolded assms(3)] ctx by (intro with_retry_success[where k = k]) auto
  moreover have "readWithRetry sw s w bucket name = map_prod id (map_sum Some id) (attempt (scMaxRetries s - 1))"
    if fails: "\<forall>k<scMaxRetries s. isl (snd (attempt k))"
  proof -
    from fails pos have "isl (snd (attempt (scMaxRetries s - 1)))" by simp
    then obtain w' e where last: "attempt (scMaxRetries s - 1) = (w', Inl e)" by (metis isl_def prod.collapse)
    have "readWithRetry sw s w bucket name = (w', Inl (Some e))"
      unfolding readWithRetry_def using fails[unfolded assms(3)] last[unfolded assms(3)] ctx pos
      by (intro with_retry_failure) auto
    with last show ?thesis by simp
  qed
  ultimately show ?thesis using pos by blast
qed

text \<open>A bucket whose first two reads fail.\<close>

definition flaky_bucket :: "(nat, string) scrape_world" where
  "flaky_bucket = \<lparr>swList = (\<lambda>w b p. (w, Inr [])), swRead = (\<lambda>w b n. (w + 1, if w < 2 then Inl (ErrNew ''unavailable'') else Inr ''<xml/>'')),
     swCtxErr = (\<lambda>w. None), swSleep = (\<lambda>w d. w), swNow = (\<lambda>w. 1), swSuites = (\<lambda>d. Inr (''testsuites'', [])), swSuite = (\<lambda>d. Inl (ErrNew ''no suite'')), swTime = (\<lambda>l s. None),
     swAppend = (\<lambda>w l t v. (w, None)), swFloat = (\<lambda>s. None), swSeconds = (\<lambda>d. 0)\<rparr>"

theorem retry_until_success_witness:
  "readWithRetry flaky_bucket (NewScraper [WithMaxRetries 5]) 0 ''b'' ''junit.xml'' = (3, Inr ''<xml/>'') \<and>
   readWithRetry flaky_bucket (NewScraper [WithMaxRetries (- 1)]) 0 ''b'' ''junit.xml'' = (1, Inl (Some (ErrNew ''unavailable'')))"
proof -
  note sims = NewScraper_def WithMaxRetries_def flaky_bucket_def
  have a: "\<forall>f\<in>set [WithMaxRetries n]. (\<exists>n. f = WithMaxRetries n) \<or> (\<exists>d. f = WithRetryDelay d)" for n by auto
  from retry_until_success[OF refl a[of 5] refl, of flaky_bucket "''b''" "''junit.xml''" 0]
  have "readWithRetry flaky_bucket (NewScraper [WithMaxRetries 5]) 0 ''b'' ''junit.xml'' = (3, Inr ''<xml/>'')"
    by (simp add: sims All_less_Suc numeral_eq_Suc)
  moreover from retry_until_success[OF refl a[of "- 1"] refl, of flaky_bucket "''b''" "''junit.xml''" 0]
  have "readWithRetry flaky_bucket (NewScraper [WithMaxRetries (- 1)]) 0 ''b'' ''junit.xml'' = (1, Inl (Some (ErrNew ''unavailable'')))"
    by (simp add: sims)
  ultimately show ?thesis by blast
qed


section \<open>Configuration\<close>

text \<open>A threshold that passes both of its comparisons: a number in (0, 1], or NaN, for which neither is true.\<close>

definition fraction_or_nan :: "gofloat \<Rightarrow> bool" where
  "fraction_or_nan x \<longleftrightarrow> x = FNaN \<or> (\<exists>q. x = FFin q \<and> 0 < q \<and> q \<le> 1)"

lemma fraction_or_nan_iff: "fraction_or_nan x \<longleftrightarrow> \<not> float_leq x (FFin 0) \<and> \<not> float_less (FFin 1) x"
  by (cases x) (auto simp: fraction_or_nan_def float_leq_def)

text \<open>What a configuration that passes validation is, field by field.\<close>

definition valid_config :: "config_env \<Rightarrow> Config \<Rightarrow> bool" where
  "valid_config env c \<longleftrightarrow>
     cfComponent c \<noteq> '''' \<and> cfBucket c \<noteq> '''' \<and> cfJobPrefixes c \<noteq> [] \<and>
     fraction_or_nan (acThreshold (cfAnalysis c)) \<and> 0 < acWindowDays (cfAnalysis c) \<and> 0 < acMinRuns (cfAnalysis c) \<and>
     (\<forall>p\<in>set (qcExcludePatterns (cfQuarantine c)). ceCompile env p = None) \<and>
     (jiAPIURL (cfJira c) = '''' \<longleftrightarrow> jiTokenEnv (cfJira c) = '''') \<and>
     (jiTokenExpiresAt (cfJira c) = '''' \<or> (\<exists>t. ceRFC3339 env (jiTokenExpiresAt (cfJira c)) = Inr t)) \<and>
     (tbWarningThreshold (cfTimeoutBudget c) = FFin 0 \<or> fraction_or_nan (tbWarningThreshold (cfTimeoutBudget c))) \<and>
     (IsConfigured (cfTimeoutBudget c) \<longrightarrow> (\<exists>tc. ToTimeoutConfig (ceDuration env) (cfTimeoutBudget c) = Inr tc))"

lemma errors_Join_None [simp]: "errors_Join es = None \<longleftrightarrow> es = []"
  by (simp add: errors_Join_def)

lemma pattern_errors_Nil: "pattern_errors env i ps = [] \<longleftrightarrow> (\<forall>p\<in>set ps. ceCompile env p = None)"
  by (induction env i ps rule: pattern_errors.induct) (auto split: option.split)

lemma Validate_valid: "Validate env c = None \<longleftrightarrow> valid_config env c"
  unfolding Validate_def valid_config_def Let_def errors_Join_None append_is_Nil_conv pattern_errors_Nil
  by (auto simp: fraction_or_nan_iff split: sum.split if_splits)

lemma set_frame [simp]:
  "cfComponent (set_analysis f c) = cfComponent c" "cfBucket (set_analysis f c) = cfBucket c" "cfJobPrefixes (set_analysis f c) = cfJobPrefixes c"
  "cfComponent (set_jira g c) = cfComponent c" "cfBucket (set_jira g c) = cfBucket c" "cfJobPrefixes (set_jira g c) = cfJobPrefixes c"
  by (simp_all add: set_analysis_def set_jira_def)

text \<open>Every override apart, its effect on the fields that the theorem below speaks of.\<close>

lemma override_effect:
  "override env var f c = (if ceGetenv env var \<noteq> '''' then f (ceGetenv env var) c else c)"
  by (simp add: override_def Let_def)

lemma override_num_effect:
  "override_num env var parse f (c, errs) =
    (if ceGetenv env var = '''' then (c, errs)
     else case parse (ceGetenv env var) of
        Inl e \<Rightarrow> (c, errs @ [ErrWrap (var @ ''='' @ [CHR 0x22] @ ceGetenv env var @ [CHR 0x22]) e]) | Inr n \<Rightarrow> (f n c, errs))"
  by (simp add: override_num_def Let_def split: sum.split)

text \<open>The overrides after the numbers do not touch the component, the bucket, the prefixes and the analysis.\<close>

definition core_fields :: "Config \<Rightarrow> string \<times> string \<times> string list \<times> AnalysisConfig" where
  "core_fields c = (cfComponent c, cfBucket c, cfJobPrefixes c, cfAnalysis c)"

lemma foldl_override_frame:
  assumes "\<forall>(var, f)\<in>set ofs. \<forall>v c. core_fields (f v c) = core_fields c"
  shows "core_fields (foldl (\<lambda>c (var, f). override env var f c) c ofs) = core_fields c"
  using assms by (induction ofs arbitrary: c) (auto simp: override_effect)

lemma override_num_errors:
  assumes "override_num env var parse f s = (c', [])"
  shows "snd s = [] \<and> (if ceGetenv env var = '''' then c' = fst s else \<exists>n. parse (ceGetenv env var) = Inr n \<and> c' = f n (fst s))"
  using assms by (cases s) (auto simp: override_num_effect split: if_splits sum.splits)

lemma over_fields:
  assumes "applyEnvOverrides env c0 = (c, None)"
  shows "cfComponent c = (if ceGetenv env ''FLAKINESS_COMPONENT'' \<noteq> '''' then ceGetenv env ''FLAKINESS_COMPONENT'' else cfComponent c0) \<and>
    cfBucket c = (if ceGetenv env ''FLAKINESS_GCS_BUCKET'' \<noteq> '''' then ceGetenv env ''FLAKINESS_GCS_BUCKET'' else cfBucket c0) \<and>
    cfJobPrefixes c = cfJobPrefixes c0 \<and>
    (if ceGetenv env ''FLAKINESS_THRESHOLD'' = '''' then acThreshold (cfAnalysis c) = acThreshold (cfAnalysis c0)
     else ceParseFloat env (ceGetenv env ''FLAKINESS_THRESHOLD'') = Inr (acThreshold (cfAnalysis c))) \<and>
    (if ceGetenv env ''FLAKINESS_WINDOW_DAYS'' = '''' then acWindowDays (cfAnalysis c) = acWindowDays (cfAnalysis c0)
     else atoi (ceGetenv env ''FLAKINESS_WINDOW_DAYS'') = Inr (acWindowDays (cfAnalysis c))) \<and>
    (if ceGetenv env ''FLAKINESS_MIN_RUNS'' = '''' then acMinRuns (cfAnalysis c) = acMinRuns (cfAnalysis c0)
     else atoi (ceGetenv env ''FLAKINESS_MIN_RUNS'') = Inr (acMinRuns (cfAnalysis c)))"
proof -
  define c1 where "c1 = override env ''FLAKINESS_GCS_BUCKET'' (\<lambda>v c. c\<lparr>cfBucket := v\<rparr>)
                 (override env ''FLAKINESS_COMPONENT'' (\<lambda>v c. c\<lparr>cfComponent := v\<rparr>) c0)"
  define s1 where "s1 = override_num env ''FLAKINESS_THRESHOLD'' (ceParseFloat env) (\<lambda>f. set_analysis (\<lambda>a. a\<lparr>acThreshold := f\<rparr>)) (c1, [])"
  define s2 where "s2 = override_num env ''FLAKINESS_WINDOW_DAYS'' atoi (\<lambda>n. set_analysis (\<lambda>a. a\<lparr>acWindowDays := n\<rparr>)) s1"
  define s3 where "s3 = override_num env ''FLAKINESS_MIN_RUNS'' atoi (\<lambda>n. set_analysis (\<lambda>a. a\<lparr>acMinRuns := n\<rparr>)) s2"
  note over = assms[unfolded applyEnvOverrides_def Let_def c1_def[symmetric] s1_def[symmetric] s2_def[symmetric] s3_def[symmetric]
      prod.inject errors_Join_None]
  note none = over[THEN conjunct2]
  have core: "core_fields c = core_fields (fst s3)"
    unfolding over[THEN conjunct1, symmetric] by (rule foldl_override_frame) (simp add: core_fields_def set_jira_def)
  from none have e3: "override_num env ''FLAKINESS_MIN_RUNS'' atoi (\<lambda>n. set_analysis (\<lambda>a. a\<lparr>acMinRuns := n\<rparr>)) s2 = (fst s3, [])"
    by (simp add: s3_def prod_eq_iff)
  note r3 = override_num_errors[OF e3]
  then have e2: "override_num env ''FLAKINESS_WINDOW_DAYS'' atoi (\<lambda>n. set_analysis (\<lambda>a. a\<lparr>acWindowDays := n\<rparr>)) s1 = (fst s2, [])"
    by (simp add: s2_def prod_eq_iff)
  note r2 = override_num_errors[OF e2]
  then have e1: "override_num env ''FLAKINESS_THRESHOLD'' (ceParseFloat env) (\<lambda>f. set_analysis (\<lambda>a. a\<lparr>acThreshold := f\<rparr>)) (c1, []) = (fst s1, [])"
    by (simp add: s1_def prod_eq_iff)
  note r1 = override_num_errors[OF e1]
  have "cfComponent (fst s3) = cfComponent c1 \<and> cfBucket (fst s3) = cfBucket c1 \<and> cfJobPrefixes (fst s3) = cfJobPrefixes c1"
    using r1 r2 r3 by (auto split: if_splits)
  moreover have "acWindowDays (cfAnalysis (fst s1)) = acWindowDays (cfAnalysis c1) \<and> acMinRuns (cfAnalysis (fst s1)) = acMinRuns (cfAnalysis c1)"
    using r1 by (auto simp: set_analysis_def split: if_splits)
  moreover have "cfAnalysis c1 = cfAnalysis c0 \<and> cfJobPrefixes c1 = cfJobPrefixes c0" by (simp add: c1_def override_effect)
  moreover have "if ceGetenv env ''FLAKINESS_THRESHOLD'' = '''' then acThreshold (cfAnalysis (fst s1)) = acThreshold (cfAnalysis c1)
      else ceParseFloat env (ceGetenv env ''FLAKINESS_THRESHOLD'') = Inr (acThreshold (cfAnalysis (fst s1)))"
    using r1 by (auto simp: set_analysis_def split: if_splits)
  moreover have "acThreshold (cfAnalysis (fst s3)) = acThreshold (cfAnalysis (fst s1))"
    using r2 r3 by (auto simp: set_analysis_def split: if_splits)
  ultimately show ?thesis
    using core r2 r3 by (auto simp: core_fields_def c1_def override_effect set_analysis_def split: if_splits)
qed

text \<open>
  C33: the configuration that is loaded names a component, a bucket and a job prefix, its threshold lies
  in (0, 1] or is NaN, which passes the checks because no comparison with NaN is true, its window and
  its minimum of runs are positive, its patterns compile, the Jira URL and token variable are given
  together and every duration parses. The component, the bucket and the numbers of the analysis are those
  of the environment where it sets them and of the file otherwise, and a file that leaves the analysis
  at zero gets the defaults of 0.2, 30 days and 5 runs unless the environment sets them.
\<close>

theorem LoadConfig_valid:
  assumes "LoadConfig rnd env read decode path = Inr c"
  shows "valid_config env c \<and>
    (\<exists>data c0. read path = Inr data \<and> decode data = Inr c0 \<and> cfJobPrefixes c = cfJobPrefixes c0 \<and>
       (let v = ceGetenv env ''FLAKINESS_COMPONENT'' in cfComponent c = (if v \<noteq> '''' then v else cfComponent c0)) \<and>
       (let v = ceGetenv env ''FLAKINESS_GCS_BUCKET'' in cfBucket c = (if v \<noteq> '''' then v else cfBucket c0)) \<and>
       (let v = ceGetenv env ''FLAKINESS_THRESHOLD'' in
          if v \<noteq> '''' then ceParseFloat env v = Inr (acThreshold (cfAnalysis c))
          else acThreshold (cfAnalysis c) = (if acThreshold (cfAnalysis c0) = FFin 0 then FFin (rnd (1 / 5)) else acThreshold (cfAnalysis c0))) \<and>
       (let v = ceGetenv env ''FLAKINESS_WINDOW_DAYS'' in
          if v \<noteq> '''' then atoi v = Inr (acWindowDays (cfAnalysis c))
          else acWindowDays (cfAnalysis c) = (if acWindowDays (cfAnalysis c0) = 0 then 30 else acWindowDays (cfAnalysis c0))) \<and>
       (let v = ceGetenv env ''FLAKINESS_MIN_RUNS'' in
          if v \<noteq> '''' then atoi v = Inr (acMinRuns (cfAnalysis c))
          else acMinRuns (cfAnalysis c) = (if acMinRuns (cfAnalysis c0) = 0 then 5 else acMinRuns (cfAnalysis c0))))"
proof -
  from assms obtain data c0 where load: "read path = Inr data" "decode data = Inr c0"
    and over: "applyEnvOverrides env (applyDefaults rnd c0) = (c, None)" and "Validate env c = None"
    by (auto simp: LoadConfig_def split: sum.splits option.splits prod.splits)
  then have "valid_config env c" by (simp add: Validate_valid)
  with load over_fields[OF over] show ?thesis by (auto simp: applyDefaults_def Let_def)
qed


section \<open>Examples\<close>

definition example_env :: config_env where
  "example_env = \<lparr>ceFmtG = (\<lambda>_. ''''), ceCompile = (\<lambda>_. None), ceRFC3339 = (\<lambda>_. Inr 0), ceDuration = (\<lambda>_. Inr 1),
     ceGetenv = (\<lambda>v. if v = ''FLAKINESS_GCS_BUCKET'' then ''ci'' else if v = ''FLAKINESS_MIN_RUNS'' then ''7'' else ''''),
     ceParseFloat = (\<lambda>_. Inr (FFin 1))\<rparr>"

definition example_config :: Config where
  "example_config = \<lparr>cfComponent = ''odh'', cfBucket = '''', cfJobPrefixes = [''logs/e2e''],
     cfAnalysis = \<lparr>acThreshold = FFin (1 / 2), acWindowDays = 0, acMinRuns = 0\<rparr>,
     cfQuarantine = \<lparr>qcConfigPath = '''', qcAutoQuarantine = True, qcExcludePatterns = []\<rparr>,
     cfJira = \<lparr>jiAPIURL = '''', jiUserEmail = '''', jiProject = '''', jiIssueType = '''', jiComponent = '''', jiLabels = [], jiTokenEnv = '''',
       jiQuarantineDuration = 0, jiTokenExpiresAt = '''', jiTokenExpiryWarningDays = 0\<rparr>,
     cfTimeoutBudget = \<lparr>tbPipelineTimeout = 0, tbSuiteTimeouts = [], tbTestTimeouts = [], tbWarningThreshold = FFin 0\<rparr>\<rparr>"

definition loaded_config :: Config where
  "loaded_config = example_config\<lparr>cfBucket := ''ci'', cfAnalysis := \<lparr>acThreshold = FFin (1 / 2), acWindowDays = 30, acMinRuns = 7\<rparr>,
     cfJira := (cfJira example_config)\<lparr>jiIssueType := ''Bug''\<rparr>\<rparr>"

lemma example_loads: "LoadConfig (\<lambda>x. x) example_env (\<lambda>_. Inr ()) (\<lambda>_. Inr example_config) ''flakiness.yaml'' = Inr loaded_config"
proof -
  have "atoi ''7'' = Inr 7" by code_simp
  then have "applyEnvOverrides example_env (applyDefaults (\<lambda>x. x) example_config) = (loaded_config, None)"
    by (simp add: applyEnvOverrides_def applyDefaults_def override_effect override_num_effect example_env_def example_config_def
        loaded_config_def set_analysis_def Let_def)
  moreover have "Validate example_env loaded_config = None"
    unfolding Validate_valid by (simp add: valid_config_def fraction_or_nan_iff example_env_def loaded_config_def example_config_def IsConfigured_def)
  ultimately show ?thesis by (simp add: LoadConfig_def)
qed

text \<open>The threshold NaN of the environment is loaded.\<close>

definition nan_env :: config_env where
  "nan_env = example_env\<lparr>ceGetenv := (\<lambda>v. if v = ''FLAKINESS_GCS_BUCKET'' then ''ci'' else if v = ''FLAKINESS_THRESHOLD'' then ''NaN'' else ''''),
     ceParseFloat := (\<lambda>_. Inr FNaN)\<rparr>"

lemma nan_loads: "\<exists>c. LoadConfig (\<lambda>x. x) nan_env (\<lambda>_. Inr ()) (\<lambda>_. Inr example_config) ''flakiness.yaml'' = Inr c"
proof -
  define c where "c = fst (applyEnvOverrides nan_env (applyDefaults (\<lambda>x. x) example_config))"
  have "applyEnvOverrides nan_env (applyDefaults (\<lambda>x. x) example_config) = (c, None) \<and> Validate nan_env c = None"
    unfolding Validate_valid
    by (simp add: c_def applyEnvOverrides_def applyDefaults_def override_effect override_num_effect nan_env_def example_env_def example_config_def
        set_analysis_def Let_def valid_config_def fraction_or_nan_iff IsConfigured_def errors_Join_def)
  then show ?thesis by (simp add: LoadConfig_def)
qed

theorem LoadConfig_valid_witness:
  "valid_config example_env loaded_config \<and>
   (\<exists>c. LoadConfig (\<lambda>x. x) nan_env (\<lambda>_. Inr ()) (\<lambda>_. Inr example_config) ''flakiness.yaml'' = Inr c \<and> acThreshold (cfAnalysis c) = FNaN)"
proof
  show "valid_config example_env loaded_config" using LoadConfig_valid[OF example_loads] by simp
  from nan_loads obtain c where c: "LoadConfig (\<lambda>x. x) nan_env (\<lambda>_. Inr ()) (\<lambda>_. Inr example_config) ''flakiness.yaml'' = Inr c" by blast
  from LoadConfig_valid[OF c] have "acThreshold (cfAnalysis c) = FNaN" by (auto simp: nan_env_def Let_def)
  with c show "\<exists>c. LoadConfig (\<lambda>x. x) nan_env (\<lambda>_. Inr ()) (\<lambda>_. Inr example_config) ''flakiness.yaml'' = Inr c \<and> acThreshold (cfAnalysis c) = FNaN"
    by blast
qed

text \<open>A test that passed twice and then failed three times, and one that fails now and then.\<close>

definition example_series :: "string \<Rightarrow> string \<Rightarrow> int list \<Rightarrow> series" where
  "example_series name result ts = \<lparr>seLabels = (\<lambda>l. if l = ''test_name'' then name else if l = ''result'' then result else ''''),
     seSamples = ts, seErr = None\<rparr>"

definition example_select :: "go_error + series list \<times> go_error option" where
  "example_select = Inr ([example_series ''broken'' ''pass'' [1, 2], example_series ''broken'' ''fail'' [3, 4, 5],
     example_series ''shaky'' ''pass'' [2, 4], example_series ''shaky'' ''fail'' [1, 3], example_series ''fine'' ''pass'' [1]], None)"

definition example_options :: ClassifyOptions where
  "example_options = \<lparr>clMinRecentFailsForRegression = 0, clMaxPreTransitionFailRate = 0, clMinRuns = 0\<rparr>"

definition example_report :: Report where
  "example_report = projr (Analyze (\<lambda>x. x) example_select example_options)"

lemma example_analyzed: "Analyze (\<lambda>x. x) example_select example_options = Inr example_report"
  by (simp add: example_report_def Analyze_def example_select_def example_series_def isAnalyzableOutcome_def Let_def)

theorem quarantine_list_exact_witness:
  "set (map entry_key (QuarantineList (\<lambda>x. x) example_report (FFin (1 / 3)))) = {k. \<exists>r. (k, r) \<in> set (reTests example_report) \<and>
      anPattern (analyzeWith (\<lambda>x. x) (reOptions example_report) r) \<noteq> PatternHealthy} \<and>
   map (\<lambda>e. (entry_key e, qeQuarantined e, qeFlakeRate e)) (QuarantineList (\<lambda>x. x) example_report (FFin (1 / 3))) =
     [(''broken'', False, 3 / 5), (''shaky'', True, 1 / 2)]"
proof -
  have "mono (\<lambda>x::rat. x)" by (simp add: mono_def)
  from quarantine_list_exact[OF example_analyzed this refl refl refl, of "FFin (1 / 3)"]
  have "set (map entry_key (QuarantineList (\<lambda>x. x) example_report (FFin (1 / 3)))) = {k. \<exists>r. (k, r) \<in> set (reTests example_report) \<and>
      anPattern (analyzeWith (\<lambda>x. x) (reOptions example_report) r) \<noteq> PatternHealthy}" by blast
  moreover have "map (\<lambda>e. (entry_key e, qeQuarantined e, qeFlakeRate e)) (QuarantineList (\<lambda>x. x) example_report (FFin (1 / 3))) =
     [(''broken'', False, 3 / 5), (''shaky'', True, 1 / 2)]" by code_simp
  ultimately show ?thesis by blast
qed

definition broken_record :: TestRecord where
  "broken_record = snd (hd (reTests example_report))"

theorem patterns_mean_histories_witness:
  "regression_at (\<lambda>x. x) (reOptions example_report) (sortedHistory broken_record) (sortedHistory broken_record ! 2)"
proof -
  have "reTests example_report \<noteq> []" by code_simp
  then have mem: "(fst (hd (reTests example_report)), broken_record) \<in> set (reTests example_report)"
    by (simp add: broken_record_def)
  have "anPattern (analyzeWith (\<lambda>x. x) (reOptions example_report) broken_record) = PatternRegression" by code_simp
  moreover have "anTransition (analyzeWith (\<lambda>x. x) (reOptions example_report) broken_record) = Some (sortedHistory broken_record ! 2)"
    by code_simp
  ultimately show ?thesis using patterns_mean_histories[OF example_analyzed mem] unfolding Let_def by blast
qed

text \<open>Jira gives the next number to a bug and calls the tickets that start with D resolved.\<close>

definition example_jira :: "nat JiraFiler" where
  "example_jira = \<lparr>jfCreateBug = (\<lambda>n e. (n + 1, if n < 1 then Inr ''T-1'' else Inl (ErrNew ''quota''))),
     jfGetStatus = (\<lambda>n k. (n, Inr (if hd k = CHR ''D'' then ''Done'' else ''Open'')))\<rparr>"

definition example_entry :: "string \<Rightarrow> bool \<Rightarrow> string \<Rightarrow> QuarantineEntry" where
  "example_entry name q ticket = \<lparr>qeName = name, qeSuite = '''', qeJob = '''', qeQuarantined = q, qeClassification = PatternFlaky,
     qeFlakeRate = 1 / 2, qeTotalRuns = 4, qeFailedRuns = 2, qeRegressionSHA = '''', qeRegressionPR = '''', qeLastSeen = 1,
     qeLastFailed = 1, qeJiraKey = ticket\<rparr>"

theorem tickets_reconciled_witness:
  "let r = reconcileQuarantine (Some example_jira) [example_entry ''a'' True ''K'', example_entry ''z'' True ''D''] 0
       [example_entry ''a'' True '''', example_entry ''b'' True '''', example_entry ''c'' True '''', example_entry ''d'' False '''']
   in fst (snd r) = [example_entry ''a'' True ''K'', example_entry ''b'' True ''T-1'', example_entry ''c'' True '''', example_entry ''d'' False ''''] \<and>
      filed example_jira (example_entry ''b'' True ''T-1'') \<and> fst (snd (snd (snd r))) = [example_entry ''z'' False ''D'']"
proof -
  let ?prior = "[example_entry ''a'' True ''K'', example_entry ''z'' True ''D'']"
  let ?es = "[example_entry ''a'' True '''', example_entry ''b'' True '''', example_entry ''c'' True '''', example_entry ''d'' False '''']"
  define errs where "errs = [ErrWrap (''filing Jira bug for '' @ [CHR 0x22] @ ''c'' @ [CHR 0x22]) (ErrNew ''quota'')]"
  have run: "reconcileQuarantine (Some example_jira) ?prior 0 ?es =
      (2, [example_entry ''a'' True ''K'', example_entry ''b'' True ''T-1'', example_entry ''c'' True '''', example_entry ''d'' False ''''],
       [example_entry ''b'' True ''T-1'', example_entry ''c'' True ''''], [example_entry ''z'' False ''D''], errs)"
    unfolding errs_def by code_simp
  have "distinct (map entry_key ?es)" by code_simp
  from tickets_reconciled[OF run this refl]
  have "filed example_jira (example_entry ''b'' True ''T-1'') \<or> (\<exists>err\<in>set errs. filing_error (example_entry ''b'' True ''T-1'') err)" by simp
  then have "filed example_jira (example_entry ''b'' True ''T-1'')"
    by (auto simp: errs_def filing_error_def example_entry_def)
  with run show ?thesis by simp
qed

end
