(* ===== verification/Budget_Correct.thy ===== *)
theory Budget_Correct
  imports Flaky_Correct
begin

text \<open>
  Correctness of the runtimes and of the timeout budget: percentiles index inside their list and are
  ordered, near-timeout tests and recommendations are exactly those the thresholds select, and the
  whole run never panics.
\<close>

section \<open>Rounding\<close>

text \<open>What is used of float64: rounding is monotone and exact on the integers up to \<open>2 ^ 53\<close>.\<close>

definition float_rounding :: "(rat \<Rightarrow> rat) \<Rightarrow> bool" where
  "float_rounding rnd \<longleftrightarrow> mono rnd \<and> (\<forall>k::int. \<bar>k\<bar> \<le> 2 ^ 53 \<longrightarrow> rnd (rat_of_int k) = rat_of_int k)"

lemma float_rounding_id [simp]: "float_rounding (\<lambda>x. x)"
  by (simp add: float_rounding_def mono_def)

lemma rounded_between:
  assumes "float_rounding rnd" and "\<bar>a\<bar> \<le> 2 ^ 53" and "\<bar>b\<bar> \<le> 2 ^ 53" and "rat_of_int a \<le> x" and "x \<le> rat_of_int b"
  shows "rat_of_int a \<le> rnd x \<and> rnd x \<le> rat_of_int b"
  using assms monoD[of rnd "rat_of_int a" x] monoD[of rnd x "rat_of_int b"] by (auto simp: float_rounding_def)

lemma rounded_unit: "float_rounding rnd \<Longrightarrow> 0 \<le> x \<Longrightarrow> x \<le> 1 \<Longrightarrow> 0 \<le> rnd x \<and> rnd x \<le> 1"
  using rounded_between[of rnd 0 1 x] by simp

section \<open>Percentiles\<close>

lemma index_rat_in: "0 \<le> i \<Longrightarrow> i < int (length xs) \<Longrightarrow> index_rat xs i = Some (xs ! nat i)"
  by (simp add: index_rat_def)

lemma sorted_index_mono: "sorted xs \<Longrightarrow> 0 \<le> i \<Longrightarrow> i \<le> j \<Longrightarrow> j < int (length xs) \<Longrightarrow> xs ! nat i \<le> xs ! nat j"
  by (intro sorted_nth_mono) (auto simp: nat_mono nat_less_iff)

lemma rank_indices:
  assumes "0 \<le> r" and "r \<le> rat_of_int (int (length xs) - 1)"
  shows "index_rat xs \<lfloor>r\<rfloor> = Some (xs ! nat \<lfloor>r\<rfloor>)" "index_rat xs \<lceil>r\<rceil> = Some (xs ! nat \<lceil>r\<rceil>)"
proof -
  have "0 \<le> \<lfloor>r\<rfloor>" "\<lceil>r\<rceil> \<le> int (length xs) - 1" using assms by (simp, intro ceiling_le)
  moreover have "\<lfloor>r\<rfloor> \<le> \<lceil>r\<rceil>" by (rule floor_le_ceiling)
  ultimately show "index_rat xs \<lfloor>r\<rfloor> = Some (xs ! nat \<lfloor>r\<rfloor>)" "index_rat xs \<lceil>r\<rceil> = Some (xs ! nat \<lceil>r\<rceil>)"
    by (intro index_rat_in; linarith)+
qed

lemma scaled_rank: "0 \<le> p \<Longrightarrow> (p::rat) \<le> 1 \<Longrightarrow> 0 \<le> m \<Longrightarrow> 0 \<le> p * rat_of_int m \<and> p * rat_of_int m \<le> rat_of_int m"
  using mult_right_mono[of p 1 "rat_of_int m"] by simp

lemma percentile_rank:
  assumes "float_rounding rnd" and "0 \<le> p" and "p \<le> 1" and "0 \<le> m" and "m \<le> 2 ^ 53"
  shows "0 \<le> rnd (p * rnd (rat_of_int m)) \<and> rnd (p * rnd (rat_of_int m)) \<le> rat_of_int m"
proof -
  have "rnd (rat_of_int m) = rat_of_int m" using assms(1,4,5) by (simp add: float_rounding_def)
  then show ?thesis using scaled_rank[OF assms(2-4)] rounded_between[of rnd 0 m "p * rat_of_int m"] assms(1,4,5) by simp
qed

lemma percentile_defined:
  assumes "float_rounding rnd" and "0 \<le> p" and "p \<le> 1" and "int (length xs) \<le> 2 ^ 53"
  shows "\<exists>v. percentile rnd xs p = Some v"
proof (cases "length xs \<le> 1")
  case False
  define rank where "rank = rnd (p * rnd (rat_of_int (int (length xs) - 1)))"
  have "0 \<le> rank \<and> rank \<le> rat_of_int (int (length xs) - 1)"
    unfolding rank_def using assms False by (intro percentile_rank) auto
  then have "0 \<le> rank" "rank \<le> rat_of_int (int (length xs) - 1)" by blast+
  from rank_indices[OF this] show ?thesis unfolding percentile_def Let_def rank_def[symmetric] using False by auto
qed (auto simp: percentile_def le_Suc_eq)

text \<open>Exact arithmetic: linear interpolation at a position of the list.\<close>

definition interpolate :: "rat list \<Rightarrow> rat \<Rightarrow> rat" where
  "interpolate xs t = xs ! nat \<lfloor>t\<rfloor> * (1 - (t - rat_of_int \<lfloor>t\<rfloor>)) + xs ! nat \<lceil>t\<rceil> * (t - rat_of_int \<lfloor>t\<rfloor>)"

lemma interpolate_bounds:
  assumes "sorted xs" and "0 \<le> t" and "\<lceil>t\<rceil> < int (length xs)"
  shows "xs ! nat \<lfloor>t\<rfloor> \<le> interpolate xs t \<and> interpolate xs t \<le> xs ! nat \<lceil>t\<rceil>"
proof -
  define a b f where "a = xs ! nat \<lfloor>t\<rfloor>" and "b = xs ! nat \<lceil>t\<rceil>" and "f = t - rat_of_int \<lfloor>t\<rfloor>"
  have f: "0 \<le> f" "f \<le> 1" unfolding f_def by linarith+
  have ab: "a \<le> b" unfolding a_def b_def using assms floor_le_ceiling[of t] by (intro sorted_index_mono) auto
  have eq: "interpolate xs t = a + (b - a) * f" by (simp add: interpolate_def a_def b_def f_def algebra_simps)
  have "0 \<le> (b - a) * f" "(b - a) * f \<le> (b - a) * 1" using f ab by (simp, intro mult_left_mono) auto
  then show ?thesis unfolding eq a_def[symmetric] b_def[symmetric] by simp
qed

lemma interpolate_mono:
  assumes "sorted xs" and "0 \<le> s" and "s \<le> t" and "\<lceil>t\<rceil> < int (length xs)"
  shows "interpolate xs s \<le> interpolate xs t"
proof (cases "\<lceil>s\<rceil> \<le> \<lfloor>t\<rfloor>")
  case True
  have "\<lfloor>t\<rfloor> \<le> \<lceil>t\<rceil>" by (rule floor_le_ceiling)
  with True assms have "xs ! nat \<lceil>s\<rceil> \<le> xs ! nat \<lfloor>t\<rfloor>" by (intro sorted_index_mono) linarith+
  moreover have "\<lceil>s\<rceil> < int (length xs)" using True \<open>\<lfloor>t\<rfloor> \<le> \<lceil>t\<rceil>\<close> assms(4) by linarith
  ultimately show ?thesis using interpolate_bounds[of xs s] interpolate_bounds[of xs t] assms by fastforce
next
  case False
  then have same: "\<lfloor>s\<rfloor> = \<lfloor>t\<rfloor>" "\<lceil>s\<rceil> = \<lceil>t\<rceil>" using assms(3) by linarith+
  define a b where "a = xs ! nat \<lfloor>t\<rfloor>" and "b = xs ! nat \<lceil>t\<rceil>"
  have "a \<le> b" unfolding a_def b_def using assms floor_le_ceiling[of t] by (intro sorted_index_mono) auto
  then have "(b - a) * (s - rat_of_int \<lfloor>t\<rfloor>) \<le> (b - a) * (t - rat_of_int \<lfloor>t\<rfloor>)" using assms(3) by (intro mult_left_mono) auto
  then show ?thesis unfolding interpolate_def same a_def[symmetric] b_def[symmetric] by (simp add: algebra_simps)
qed

lemma percentile_exact:
  assumes "xs \<noteq> []" and "0 \<le> p" and "p \<le> 1"
  shows "percentile (\<lambda>x. x) xs p = Some (interpolate xs (p * rat_of_int (int (length xs) - 1)))"
proof (cases "length xs = 1")
  case True
  then show ?thesis by (simp add: percentile_def interpolate_def)
next
  case False
  define rank where "rank = p * rat_of_int (int (length xs) - 1)"
  have len: "1 < length xs" using False assms(1) by (cases xs) (auto simp: neq_Nil_conv)
  have "0 \<le> rank \<and> rank \<le> rat_of_int (int (length xs) - 1)"
    unfolding rank_def using assms(2,3) len by (intro scaled_rank) auto
  then have r: "0 \<le> rank" "rank \<le> rat_of_int (int (length xs) - 1)" by blast+
  note idx = rank_indices[OF r]
  have frac: "rank - rat_of_int \<lfloor>rank\<rfloor> = 0" if "\<lfloor>rank\<rfloor> = \<lceil>rank\<rceil>" using that by linarith
  have n: "length xs \<noteq> 0" using len by linarith
  show ?thesis
    unfolding percentile_def Let_def rank_def[symmetric] interpolate_def if_not_P[OF n] if_not_P[OF False] idx
    using frac by (auto simp: algebra_simps)
qed

lemma trunc_mono:
  assumes "(x::rat) \<le> y"
  shows "(if x < 0 then - \<lfloor>- x\<rfloor> else \<lfloor>x\<rfloor>) \<le> (if y < 0 then - \<lfloor>- y\<rfloor> else \<lfloor>y\<rfloor>)"
proof (cases "x < 0 \<and> \<not> y < 0")
  case True
  then have "0 \<le> \<lfloor>- x\<rfloor>" "0 \<le> \<lfloor>y\<rfloor>" by simp_all
  then have "- \<lfloor>- x\<rfloor> \<le> \<lfloor>y\<rfloor>" by linarith
  with True show ?thesis by (simp only: if_True if_False simp_thms)
qed (use assms floor_mono[of "- y" "- x"] floor_mono[of x y] in auto)

lemma seconds_mono: "x \<le> y \<Longrightarrow> seconds_to_duration (\<lambda>x. x) x \<le> seconds_to_duration (\<lambda>x. x) y"
  unfolding seconds_to_duration_def Let_def by (intro trunc_mono) simp

section \<open>Grouping\<close>

lemma map_of_alter: "map_of (alter k fresh f g) = (map_of g)(k \<mapsto> f (case map_of g k of None \<Rightarrow> fresh | Some v \<Rightarrow> v))"
  by (induction k fresh f g rule: alter.induct) auto

lemma alter_keys: "fst ` set (alter k fresh f g) = insert k (fst ` set g)"
  by (induction k fresh f g rule: alter.induct) auto

lemma alter_distinct: "distinct (map fst g) \<Longrightarrow> distinct (map fst (alter k fresh f g))"
  by (induction k fresh f g rule: alter.induct) (auto simp: alter_keys)

definition runtime_key :: "durationSeries \<Rightarrow> string \<times> string" where
  "runtime_key s = (dsLabels s ''test_name'', dsLabels s ''suite'')"

definition values_for :: "string \<times> string \<Rightarrow> durationSeries list \<Rightarrow> rat list" where
  "values_for k ss = concat (map dsValues (filter (\<lambda>s. runtime_key s = k) ss))"

definition sample_count :: "durationSeries list \<Rightarrow> nat" where
  "sample_count ss = sum_list (map (\<lambda>s. length (dsValues s)) ss)"

lemma values_for_count: "length (values_for k ss) \<le> sample_count ss"
  by (induction ss) (auto simp: values_for_def sample_count_def)

lemma group_runtimes_snoc:
  "group_runtimes (ss @ [s]) = alter (runtime_key s) [] (\<lambda>vs. vs @ dsValues s) (group_runtimes ss)"
  by (simp add: group_runtimes_def runtime_key_def)

lemma group_runtimes_distinct: "distinct (map fst (group_runtimes ss))"
  by (induction ss rule: rev_induct) (simp_all add: group_runtimes_snoc alter_distinct group_runtimes_def)

lemma group_runtimes_lookup:
  "map_of (group_runtimes ss) k = (if k \<in> runtime_key ` set ss then Some (values_for k ss) else None)"
proof (induction ss rule: rev_induct)
  case (snoc s ss)
  have "values_for k ss = []" if "k \<notin> runtime_key ` set ss"
    using that unfolding values_for_def by (intro concat_eq_Nil_conv[THEN iffD2]) auto
  with snoc show ?case by (auto simp: group_runtimes_snoc map_of_alter values_for_def)
qed (simp add: group_runtimes_def)

lemma group_runtimes_values: "(k, vs) \<in> set (group_runtimes ss) \<Longrightarrow> vs = values_for k ss"
  using map_of_is_SomeI[OF group_runtimes_distinct, of k vs ss] by (simp add: group_runtimes_lookup split: if_splits)

section \<open>Runtimes\<close>

lemma runtime_of_defined:
  assumes "float_rounding rnd" and "values \<noteq> []" and "int (length values) \<le> 2 ^ 53"
  shows "\<exists>r. runtime_of rnd k values = Some r"
proof -
  have half: "0 \<le> rnd (1 / 2) \<and> rnd (1 / 2) \<le> 1" "0 \<le> rnd (95 / 100) \<and> rnd (95 / 100) \<le> 1"
      "0 \<le> rnd (99 / 100) \<and> rnd (99 / 100) \<le> 1"
    using assms(1) by (intro rounded_unit; simp)+
  have len: "int (length (sort values)) \<le> 2 ^ 53" using assms(3) by simp
  have "\<exists>v. percentile rnd (sort values) p = Some v" if "0 \<le> p \<and> p \<le> 1" for p
    using percentile_defined[OF assms(1) _ _ len] that by blast
  from this[OF half(1)] this[OF half(2)] this[OF half(3)] obtain a b c where
    "percentile rnd (sort values) (rnd (1 / 2)) = Some a" "percentile rnd (sort values) (rnd (95 / 100)) = Some b"
    "percentile rnd (sort values) (rnd (99 / 100)) = Some c" by blast
  moreover have "index_rat (sort values) (int (length (sort values)) - 1) = Some (sort values ! nat (int (length (sort values)) - 1))"
    using assms(2) by (intro index_rat_in) (simp_all add: Suc_leI)
  ultimately show ?thesis unfolding runtime_of_def Let_def by simp
qed

lemma runtimes_of_defined:
  assumes "float_rounding rnd" and "\<forall>(k, vs)\<in>set g. int (length vs) \<le> 2 ^ 53"
  shows "\<exists>rts. runtimes_of rnd g = Some rts"
  using assms(2)
proof (induction g)
  case (Cons p g)
  obtain k vs where p: "p = (k, vs)" by fastforce
  from Cons obtain rts where "runtimes_of rnd g = Some rts" by auto
  moreover have "\<exists>r. runtime_of rnd k vs = Some r" if "vs \<noteq> []"
    using runtime_of_defined[OF assms(1) that] Cons.prems p by auto
  ultimately show ?case by (auto simp: p)
qed simp

lemma runtimes_of_member:
  "runtimes_of rnd g = Some rts \<Longrightarrow> rt \<in> set rts \<Longrightarrow> \<exists>k vs. (k, vs) \<in> set g \<and> vs \<noteq> [] \<and> runtime_of rnd k vs = Some rt"
proof (induction g arbitrary: rts)
  case (Cons p g)
  obtain k vs where p: "p = (k, vs)" by fastforce
  show ?case
  proof (cases "vs = []")
    case True
    with Cons p show ?thesis by auto
  next
    case False
    with Cons.prems(1) p obtain r rts' where r: "runtime_of rnd k vs = Some r" "runtimes_of rnd g = Some rts'" "rts = r # rts'"
      by (auto split: option.splits)
    show ?thesis
    proof (cases "rt = r")
      case True
      with r(1) False p show ?thesis by (intro exI[of _ k] exI[of _ vs]) simp
    next
      case False
      with Cons.prems(2) r(3) have "rt \<in> set rts'" by simp
      from Cons.IH[OF r(2) this] show ?thesis by (meson list.set_intros(2))
    qed
  qed
qed simp

definition visits :: "map_orders \<Rightarrow> bool" where
  "visits ord \<longleftrightarrow> (\<forall>g. mset (moRuntimes ord g) = mset g)"

lemma aggregateRuntimes_defined:
  assumes "float_rounding rnd" and "visits ord" and "int (sample_count ss) \<le> 2 ^ 53"
  shows "\<exists>rts. aggregateRuntimes rnd ord ss = Some rts"
  unfolding aggregateRuntimes_def
proof (rule runtimes_of_defined[OF assms(1)])
  have "set (moRuntimes ord (group_runtimes ss)) = set (group_runtimes ss)"
    using assms(2) by (intro mset_eq_setD) (simp add: visits_def)
  moreover have "int (length vs) \<le> 2 ^ 53" if "(k, vs) \<in> set (group_runtimes ss)" for k vs
    using of_nat_mono[OF values_for_count[of k ss]] assms(3) unfolding group_runtimes_values[OF that] by (rule order_trans)
  ultimately show "\<forall>(k, vs)\<in>set (moRuntimes ord (group_runtimes ss)). int (length vs) \<le> 2 ^ 53" by auto
qed

lemma sorted_ends:
  assumes "sorted xs" and "xs \<noteq> []"
  shows "xs ! 0 = Min (set xs)" "xs ! (length xs - 1) = Max (set xs)"
proof -
  have "xs ! 0 \<le> x" "x \<le> xs ! (length xs - 1)" if "x \<in> set xs" for x
    using that assms(1) by (auto simp: in_set_conv_nth intro!: sorted_nth_mono)
  with assms(2) show "xs ! 0 = Min (set xs)" "xs ! (length xs - 1) = Max (set xs)"
    by (auto intro!: Min_eqI[symmetric] Max_eqI[symmetric])
qed

lemma runtime_of_exact:
  assumes "values \<noteq> []" and "runtime_of (\<lambda>x. x) k values = Some rt"
  shows "(ruName rt, ruSuite rt) = k \<and> ruSamples rt = int (length values) \<and>
    seconds_to_duration (\<lambda>x. x) (Min (set values)) \<le> ruP50 rt \<and> ruP50 rt \<le> ruP95 rt \<and> ruP95 rt \<le> ruP99 rt \<and> ruP99 rt \<le> ruMax rt \<and>
    ruMax rt = seconds_to_duration (\<lambda>x. x) (Max (set values))"
proof -
  let ?xs = "sort values" and ?m = "rat_of_int (int (length values) - 1)"
  let ?g = "\<lambda>p. interpolate ?xs (p * ?m)"
  have len: "1 \<le> length values" and ne: "?xs \<noteq> []"
    using assms(1) by (simp add: Suc_leI, metis length_0_conv length_sort)
  have m: "0 \<le> ?m" using len by simp
  have up: "\<lceil>p * ?m\<rceil> < int (length ?xs)" if "0 \<le> p" "p \<le> 1" for p :: rat
    using ceiling_le[OF scaled_rank[OF that, THEN conjunct2, of "int (length values) - 1"]] len assms(1) by simp
  have mono: "?g p \<le> ?g q" if "0 \<le> p" "p \<le> q" "q \<le> 1" for p q :: rat
    using that m up[of q] by (intro interpolate_mono mult_right_mono) auto
  have ends: "?xs ! 0 = Min (set values)" "?xs ! (length values - 1) = Max (set values)"
    using sorted_ends[OF sorted_sort ne] by simp_all
  have pos: "nat (int (length values) - 1) = length values - 1" by simp
  have first: "?g 0 = Min (set values)" and last: "?g 1 = Max (set values)"
    using ends unfolding interpolate_def mult_1 mult_zero_left floor_of_int ceiling_of_int pos by simp_all
  have idx: "index_rat ?xs (int (length ?xs) - 1) = Some (Max (set values))"
    using index_rat_in[of "int (length ?xs) - 1" ?xs] assms(1) len ends(2) pos by simp
  have per: "percentile (\<lambda>x. x) ?xs p = Some (?g p)" if "0 \<le> p" "p \<le> 1" for p
    using percentile_exact[OF ne that] by simp
  have "rt = \<lparr>ruName = fst k, ruSuite = snd k, ruP50 = seconds_to_duration (\<lambda>x. x) (?g (1 / 2)),
      ruP95 = seconds_to_duration (\<lambda>x. x) (?g (95 / 100)), ruP99 = seconds_to_duration (\<lambda>x. x) (?g (99 / 100)),
      ruMax = seconds_to_duration (\<lambda>x. x) (Max (set values)), ruSamples = int (length values)\<rparr>"
    using assms(2) unfolding runtime_of_def Let_def idx by (simp add: per)
  moreover have "Min (set values) \<le> ?g (1 / 2)" "?g (1 / 2) \<le> ?g (95 / 100)" "?g (95 / 100) \<le> ?g (99 / 100)"
      "?g (99 / 100) \<le> Max (set values)"
    using mono[of 0 "1 / 2"] mono[of "1 / 2" "95 / 100"] mono[of "95 / 100" "99 / 100"] mono[of "99 / 100" 1] first last by simp_all
  ultimately show ?thesis by (simp add: seconds_mono)
qed


text \<open>
  the runtimes that are reported describe the recorded values. Each one is computed from all values
  recorded for its test and suite, of which there is at least one, counts them, and its percentiles
  are ordered: the smallest value, the median, P95, P99 and the largest value, in exact arithmetic.
\<close>

theorem runtime_percentiles_ordered:
  assumes "aggregateRuntimes (\<lambda>x. x) ord ss = Some rts" and "visits ord" and "rt \<in> set rts"
    and "values = concat (map dsValues (filter (\<lambda>s. dsLabels s ''test_name'' = ruName rt \<and> dsLabels s ''suite'' = ruSuite rt) ss))"
  shows "values \<noteq> [] \<and> ruSamples rt = int (length values) \<and>
    seconds_to_duration (\<lambda>x. x) (Min (set values)) \<le> ruP50 rt \<and> ruP50 rt \<le> ruP95 rt \<and> ruP95 rt \<le> ruP99 rt \<and> ruP99 rt \<le> ruMax rt \<and>
    ruMax rt = seconds_to_duration (\<lambda>x. x) (Max (set values))"
proof -
  obtain k vs where k: "(k, vs) \<in> set (moRuntimes ord (group_runtimes ss))" "vs \<noteq> []" "runtime_of (\<lambda>x. x) k vs = Some rt"
    using runtimes_of_member[OF assms(1)[unfolded aggregateRuntimes_def] assms(3)] by blast
  have "set (moRuntimes ord (group_runtimes ss)) = set (group_runtimes ss)"
    using assms(2) by (intro mset_eq_setD) (simp add: visits_def)
  with k(1) have vs: "vs = values_for k ss" using group_runtimes_values by blast
  note res = runtime_of_exact[OF k(2,3)]
  from res have key: "k = (ruName rt, ruSuite rt)" by simp
  have "values = vs" by (simp add: assms(4) vs values_for_def runtime_key_def key)
  with res k(2) show ?thesis by simp
qed

definition two_runs :: durationSeries where
  "two_runs = \<lparr>dsLabels = (\<lambda>l. if l = ''test_name'' then ''t'' else ''''), dsValues = [3, 1], dsTimestamps = [1, 2]\<rparr>"

definition plain_orders :: map_orders where
  "plain_orders = \<lparr>moRuntimes = (\<lambda>x. x), moSuites = (\<lambda>x. x), moBuilds = (\<lambda>x. x), moTotals = (\<lambda>x. x), moTimeouts = (\<lambda>x. x)\<rparr>"

lemma plain_visits: "visits plain_orders"
  by (simp add: visits_def plain_orders_def)

lemma two_runs_runtime:
  "aggregateRuntimes (\<lambda>x. x) plain_orders [two_runs] =
     Some [\<lparr>ruName = ''t'', ruSuite = '''', ruP50 = 2000000000, ruP95 = 2900000000, ruP99 = 2980000000, ruMax = 3000000000, ruSamples = 2\<rparr>]"
  by code_simp

theorem runtime_percentiles_ordered_witness:
  "seconds_to_duration (\<lambda>x. x) (Min {3, 1}) \<le> (2000000000::int) \<and> (3000000000::int) = seconds_to_duration (\<lambda>x. x) (Max {3, 1})"
  using runtime_percentiles_ordered[OF two_runs_runtime plain_visits list.set_intros(1) refl] by (simp add: two_runs_def)

section \<open>Near timeouts and recommendations\<close>

text \<open>A test has a budget when its name has a positive timeout.\<close>

definition budget_of :: "(string \<times> duration) list \<Rightarrow> TestRuntime \<Rightarrow> duration option" where
  "budget_of timeouts rt = (case map_of timeouts (ruName rt) of None \<Rightarrow> None | Some t \<Rightarrow> if t \<le> 0 then None else Some t)"

definition near_of :: "(rat \<Rightarrow> rat) \<Rightarrow> (string \<times> duration) list \<Rightarrow> gofloat \<Rightarrow> TestRuntime \<Rightarrow> NearTimeoutTest option" where
  "near_of rnd timeouts threshold rt = (case budget_of timeouts rt of None \<Rightarrow> None
     | Some t \<Rightarrow> let u = utilisation rnd (ruP95 rt) t in
         if float_leq threshold (FFin u) then Some \<lparr>ntName = ruName rt, ntSuite = ruSuite rt, ntP95 = ruP95 rt, ntTimeout = t, ntUtilisation = u\<rparr> else None)"

lemma near_timeouts_filter: "near_timeouts rnd (map_of timeouts) threshold rts = List.map_filter (near_of rnd timeouts threshold) rts"
  by (induction rts) (auto simp: List.map_filter_simps near_of_def budget_of_def Let_def split: option.split)

lemma recommendations_filter:
  "recommendations rnd fmt (map_of timeouts) threshold rts =
     List.map_filter (\<lambda>rt. Option.bind (budget_of timeouts rt) (\<lambda>t. recommendation rnd fmt threshold t rt)) rts"
  by (induction rts) (auto simp: List.map_filter_simps budget_of_def split: option.split)

interpretation by_utilisation: key_comparison "by_desc ntUtilisation" "\<lambda>n. - ntUtilisation n"
  by unfold_locales (simp add: by_desc_def)

definition by_action :: "TimeoutRecommendation \<Rightarrow> TimeoutRecommendation \<Rightarrow> int" where
  "by_action x y = (if tmAction x \<noteq> tmAction y then (if tmAction x = RecommendRaise then -1 else 1) else cmp_compare (tmName x) (tmName y))"

interpretation by_action: key_comparison by_action "\<lambda>x. (action_rank (tmAction x), tmName x)"
  by unfold_locales (auto simp: by_action_def action_rank_def less_eq_prod_def split: RecommendationAction.splits)


lemma map_filter_selected:
  assumes "\<And>x. case g x of None \<Rightarrow> \<not> Q x | Some y \<Rightarrow> (P y \<longleftrightarrow> Q x) \<and> (Q x \<longrightarrow> f y = h x)"
  shows "map f (filter P (List.map_filter g xs)) = map h (filter Q xs)"
proof (induction xs)
  case (Cons x xs)
  then show ?case using assms[of x] by (auto simp: List.map_filter_simps split: option.splits)
qed (simp add: List.map_filter_simps)

lemma set_map_filter_iff: "y \<in> set (List.map_filter g xs) \<longleftrightarrow> (\<exists>x\<in>set xs. g x = Some y)"
  by (induction xs) (auto simp: List.map_filter_simps split: option.splits)

lemma budget_of_Nil [simp]: "budget_of [] rt = None"
  by (simp add: budget_of_def)

lemma near_result:
  "detectNearTimeout rnd rts timeouts th = sort_stable_func (by_desc ntUtilisation) (List.map_filter (near_of rnd timeouts th) rts)"
proof (cases "timeouts = []")
  case True
  have "List.map_filter (near_of rnd [] th) rts = []" by (induction rts) (auto simp: List.map_filter_simps near_of_def)
  with True show ?thesis by (simp add: detectNearTimeout_def sort_stable_func_def)
qed (simp add: detectNearTimeout_def near_timeouts_filter)

definition recommendation_of ::
  "(rat \<Rightarrow> rat) \<Rightarrow> (rat \<Rightarrow> string) \<Rightarrow> (string \<times> duration) list \<Rightarrow> gofloat \<Rightarrow> TestRuntime \<Rightarrow> TimeoutRecommendation option" where
  "recommendation_of rnd fmt timeouts th rt = Option.bind (budget_of timeouts rt) (\<lambda>t. recommendation rnd fmt th t rt)"

lemma recommendations_result:
  "computeRecommendations rnd fmt rts timeouts th = sort_stable_func by_action (List.map_filter (recommendation_of rnd fmt timeouts th) rts)"
proof (cases "timeouts = []")
  case True
  have "List.map_filter (recommendation_of rnd fmt [] th) rts = []"
    by (induction rts) (auto simp: List.map_filter_simps recommendation_of_def)
  with True show ?thesis by (simp add: computeRecommendations_def sort_stable_func_def)
next
  case False
  have "recommendation_of rnd fmt timeouts th = (\<lambda>rt. Option.bind (budget_of timeouts rt) (\<lambda>t. recommendation rnd fmt th t rt))"
    by (simp add: fun_eq_iff recommendation_of_def)
  with False show ?thesis
    unfolding computeRecommendations_def by_action_def[abs_def] recommendations_filter by simp
qed

definition over_budget :: "(rat \<Rightarrow> rat) \<Rightarrow> (string \<times> duration) list \<Rightarrow> gofloat \<Rightarrow> TestRuntime \<Rightarrow> bool" where
  "over_budget rnd timeouts th rt \<longleftrightarrow> (\<exists>t. budget_of timeouts rt = Some t \<and> float_leq th (FFin (utilisation rnd (ruP95 rt) t)))"

lemma near_selected:
  "map (\<lambda>n. (ntName n, ntSuite n)) (List.map_filter (near_of rnd timeouts th) rts) =
     map (\<lambda>rt. (ruName rt, ruSuite rt)) (filter (over_budget rnd timeouts th) rts)"
proof -
  have "map (\<lambda>n. (ntName n, ntSuite n)) (filter (\<lambda>_. True) (List.map_filter (near_of rnd timeouts th) rts)) =
     map (\<lambda>rt. (ruName rt, ruSuite rt)) (filter (over_budget rnd timeouts th) rts)"
  proof (rule map_filter_selected)
    fix x
    show "case near_of rnd timeouts th x of None \<Rightarrow> \<not> over_budget rnd timeouts th x
      | Some y \<Rightarrow> True = over_budget rnd timeouts th x \<and> (over_budget rnd timeouts th x \<longrightarrow> (ntName y, ntSuite y) = (ruName x, ruSuite x))"
      by (cases "budget_of timeouts x") (simp_all add: near_of_def over_budget_def Let_def)
  qed
  then show ?thesis by simp
qed

lemma raise_selected:
  "map (\<lambda>r. (tmName r, tmSuite r)) (filter (\<lambda>r. tmAction r = RecommendRaise) (List.map_filter (recommendation_of rnd fmt timeouts th) rts)) =
     map (\<lambda>rt. (ruName rt, ruSuite rt)) (filter (over_budget rnd timeouts th) rts)"
proof (rule map_filter_selected)
  fix x
  show "case recommendation_of rnd fmt timeouts th x of None \<Rightarrow> \<not> over_budget rnd timeouts th x
    | Some y \<Rightarrow> (tmAction y = RecommendRaise) = over_budget rnd timeouts th x \<and>
        (over_budget rnd timeouts th x \<longrightarrow> (tmName y, tmSuite y) = (ruName x, ruSuite x))"
    by (cases "budget_of timeouts x") (simp_all add: recommendation_of_def recommendation_def over_budget_def Let_def)
qed

lemma recommendation_cases:
  assumes "recommendation_of rnd fmt timeouts th rt = Some r"
  obtains t where "budget_of timeouts rt = Some t" "tmCurrentTimeout r = t" "tmName r = ruName rt" "tmSuite r = ruSuite rt"
    "tmAction r = RecommendRaise \<Longrightarrow> float_leq th (FFin (utilisation rnd (ruP95 rt) t)) \<and> tmSuggestedTimeout r = with_headroom rnd (ruP99 rt)"
    "tmAction r = RecommendLower \<Longrightarrow> \<not> float_leq th (FFin (utilisation rnd (ruP95 rt) t)) \<and> utilisation rnd (ruP95 rt) t \<le> rnd (3 / 10) \<and>
       ruSamples rt \<ge> 5 \<and> tmSuggestedTimeout r \<ge> second"
  using assms by (auto simp: recommendation_of_def recommendation_def Let_def bind_eq_Some_conv split: if_splits)

lemma raise_suggests_more:
  assumes "float_leq (FFin (2 / 3)) th" and "0 < t" and "float_leq th (FFin (utilisation (\<lambda>x. x) p95 t))" and "p95 \<le> p99"
  shows "t \<le> with_headroom (\<lambda>x. x) p99"
proof -
  have "2 / 3 \<le> rat_of_int p95 / rat_of_int t"
  proof (cases th)
    case (FFin q)
    then have "2 / 3 \<le> q" "q \<le> rat_of_int p95 / rat_of_int t" using assms(1,3) by (simp_all add: utilisation_def)
    then show ?thesis by (rule order_trans)
  qed (use assms(1,3) in \<open>simp_all add: float_leq_def\<close>)
  then have "2 / 3 * rat_of_int t \<le> rat_of_int p95" using assms(2) by (simp add: pos_le_divide_eq)
  moreover have "rat_of_int p95 \<le> rat_of_int p99" using assms(4) by simp
  ultimately have "rat_of_int t \<le> rat_of_int p99 * (3 / 2)" by linarith
  then show ?thesis using assms(2) by (simp add: with_headroom_def Let_def le_floor_iff)
qed


text \<open>
  Tests near their timeout and recommendations are exactly those the thresholds select. A test that
  has a positive timeout and whose P95 reaches the threshold is listed once as near its timeout and
  gets exactly one recommendation to raise; the list falls by utilisation and raises come before
  lowers. A recommendation to lower is given only to a test below the threshold, at no more than 30%
  of its timeout and with five samples, and never goes below a second. With a threshold of at least
  two thirds, such as the default, a raise never suggests less than the present timeout.
\<close>

theorem recommendations_match_budget:
  fixes rnd :: "rat \<Rightarrow> rat" and th :: gofloat
  assumes "near = detectNearTimeout rnd rts timeouts th" and "recs = computeRecommendations rnd fmt rts timeouts th"
  shows "(let due = image_mset (\<lambda>rt. (ruName rt, ruSuite rt)) (filter_mset (\<lambda>rt. \<exists>t. map_of timeouts (ruName rt) = Some t \<and> 0 < t \<and>
             float_leq th (FFin (utilisation rnd (ruP95 rt) t))) (mset rts))
       in image_mset (\<lambda>n. (ntName n, ntSuite n)) (mset near) = due \<and>
          image_mset (\<lambda>r. (tmName r, tmSuite r)) (filter_mset (\<lambda>r. tmAction r = RecommendRaise) (mset recs)) = due) \<and>
    sorted_wrt (\<lambda>x y. ntUtilisation x \<ge> ntUtilisation y) near \<and>
    sorted_wrt (\<lambda>x y. tmAction x = RecommendLower \<longrightarrow> tmAction y = RecommendLower) recs \<and>
    (\<forall>r\<in>set recs. tmAction r = RecommendLower \<longrightarrow> second \<le> tmSuggestedTimeout r \<and>
       (\<exists>rt\<in>set rts. tmName r = ruName rt \<and> tmSuite r = ruSuite rt \<and> ruSamples rt \<ge> 5 \<and>
          \<not> float_leq th (FFin (utilisation rnd (ruP95 rt) (tmCurrentTimeout r))) \<and> utilisation rnd (ruP95 rt) (tmCurrentTimeout r) \<le> rnd (3 / 10))) \<and>
    (rnd = (\<lambda>x. x) \<and> float_leq (FFin (2 / 3)) th \<and> (\<forall>rt\<in>set rts. ruP95 rt \<le> ruP99 rt) \<longrightarrow>
       (\<forall>r\<in>set recs. tmAction r = RecommendRaise \<longrightarrow> tmCurrentTimeout r \<le> tmSuggestedTimeout r))"
proof -
  let ?pre = "List.map_filter (recommendation_of rnd fmt timeouts th) rts"
  have over: "(\<exists>t. map_of timeouts (ruName rt) = Some t \<and> 0 < t \<and> float_leq th (FFin (utilisation rnd (ruP95 rt) t))) = over_budget rnd timeouts th rt" for rt
    by (auto simp: over_budget_def budget_of_def split: option.splits)
  have "image_mset (\<lambda>n. (ntName n, ntSuite n)) (mset near) = image_mset (\<lambda>rt. (ruName rt, ruSuite rt)) (filter_mset (over_budget rnd timeouts th) (mset rts))"
    unfolding assms(1) near_result by_utilisation.mset_result mset_map[symmetric] mset_filter[symmetric] near_selected ..
  moreover have "image_mset (\<lambda>r. (tmName r, tmSuite r)) (filter_mset (\<lambda>r. tmAction r = RecommendRaise) (mset recs)) =
      image_mset (\<lambda>rt. (ruName rt, ruSuite rt)) (filter_mset (over_budget rnd timeouts th) (mset rts))"
    unfolding assms(2) recommendations_result by_action.mset_result mset_map[symmetric] mset_filter[symmetric] raise_selected ..
  moreover have "sorted_wrt (\<lambda>x y. ntUtilisation x \<ge> ntUtilisation y) near"
    using by_utilisation.sorted_result[of "List.map_filter (near_of rnd timeouts th) rts"]
    unfolding assms(1) near_result by (simp add: sorted_map)
  moreover have "sorted_wrt (\<lambda>x y. tmAction x = RecommendLower \<longrightarrow> tmAction y = RecommendLower) recs"
    using by_action.sorted_result[of ?pre] unfolding assms(2) recommendations_result sorted_map
    by (rule sorted_wrt_mono_rel[rotated]) (auto simp: less_eq_prod_def action_rank_def split: RecommendationAction.splits)
  moreover have lower: "second \<le> tmSuggestedTimeout r \<and>
       (\<exists>rt\<in>set rts. tmName r = ruName rt \<and> tmSuite r = ruSuite rt \<and> ruSamples rt \<ge> 5 \<and>
          \<not> float_leq th (FFin (utilisation rnd (ruP95 rt) (tmCurrentTimeout r))) \<and> utilisation rnd (ruP95 rt) (tmCurrentTimeout r) \<le> rnd (3 / 10))"
    if r: "r \<in> set recs" "tmAction r = RecommendLower" for r
  proof -
    from r(1) obtain rt where rt: "rt \<in> set rts" "recommendation_of rnd fmt timeouts th rt = Some r"
      unfolding assms(2) recommendations_result by_action.set_result set_map_filter_iff by blast
    show ?thesis by (rule recommendation_cases[OF rt(2)]) (use r(2) rt(1) in blast)
  qed
  moreover have raise: "tmCurrentTimeout r \<le> tmSuggestedTimeout r"
    if exact: "rnd = (\<lambda>x. x) \<and> float_leq (FFin (2 / 3)) th \<and> (\<forall>rt\<in>set rts. ruP95 rt \<le> ruP99 rt)"
      and r: "r \<in> set recs" "tmAction r = RecommendRaise" for r
  proof -
    from r(1) obtain rt where rt: "rt \<in> set rts" "recommendation_of rnd fmt timeouts th rt = Some r"
      unfolding assms(2) recommendations_result by_action.set_result set_map_filter_iff by blast
    show ?thesis
    proof (rule recommendation_cases[OF rt(2)])
      fix t assume t: "budget_of timeouts rt = Some t" "tmCurrentTimeout r = t"
        and "tmAction r = RecommendRaise \<Longrightarrow> float_leq th (FFin (utilisation rnd (ruP95 rt) t)) \<and> tmSuggestedTimeout r = with_headroom rnd (ruP99 rt)"
      then have "float_leq th (FFin (utilisation (\<lambda>x. x) (ruP95 rt) t))" "tmSuggestedTimeout r = with_headroom (\<lambda>x. x) (ruP99 rt)"
        using r(2) exact by simp_all
      moreover have "0 < t" using t(1) by (auto simp: budget_of_def split: option.splits if_splits)
      ultimately show ?thesis using raise_suggests_more[of th t "ruP95 rt" "ruP99 rt"] exact rt(1) t(2) by simp
    qed
  qed
  ultimately show ?thesis unfolding over Let_def by blast
qed

definition slow_test :: "duration \<Rightarrow> duration \<Rightarrow> TestRuntime" where
  "slow_test p95 p99 = \<lparr>ruName = ''t'', ruSuite = ''s'', ruP50 = 0, ruP95 = p95, ruP99 = p99, ruMax = p99, ruSamples = 5\<rparr>"

theorem recommendations_match_budget_witness:
  "let recs = computeRecommendations (\<lambda>x. x) (\<lambda>_. '''') [slow_test 9000000000 9500000000] [(''t'', 10000000000)] (FFin (4 / 5))
   in map tmAction recs = [RecommendRaise] \<and> list_all (\<lambda>r. tmCurrentTimeout r \<le> tmSuggestedTimeout r) recs"
proof -
  let ?recs = "computeRecommendations (\<lambda>x. x) (\<lambda>_. '''') [slow_test 9000000000 9500000000] [(''t'', 10000000000)] (FFin (4 / 5))"
  have act: "map tmAction (computeRecommendations (\<lambda>x. x) (\<lambda>_. '''') [slow_test 9000000000 9500000000] [(''t'', 10000000000)] (FFin (4 / 5))) = [RecommendRaise]"
    by code_simp
  moreover have "ruP95 (slow_test 9000000000 9500000000) \<le> ruP99 (slow_test 9000000000 9500000000)" "float_leq (FFin (2 / 3)) (FFin (4 / 5))"
    by (simp_all add: slow_test_def)
  ultimately have "\<forall>r\<in>set ?recs. tmAction r = RecommendRaise \<longrightarrow> tmCurrentTimeout r \<le> tmSuggestedTimeout r"
    using recommendations_match_budget[where rnd = "\<lambda>x. x" and rts = "[slow_test 9000000000 9500000000]" and timeouts = "[(''t'', 10000000000)]"
      and th = "FFin (4 / 5)" and fmt = "\<lambda>_. ''''", OF refl refl]
    unfolding Let_def by simp
  moreover have "tmAction r = RecommendRaise" if "r \<in> set ?recs" for r
    using that arg_cong[OF act, of set] by auto
  ultimately show ?thesis using act unfolding Let_def by (simp add: list_all_iff)
qed

text \<open>
  Below a threshold of two thirds a recommendation to raise may suggest less than the present timeout,
  and a recommendation to lower may suggest more when P99 is far from P95.
\<close>

lemma raise_may_suggest_less:
  "map (\<lambda>r. (tmAction r, tmCurrentTimeout r, tmSuggestedTimeout r))
     (computeRecommendations (\<lambda>x. x) (\<lambda>_. '''') [slow_test 5000000000 5000000000] [(''t'', 10000000000)] (FFin (1 / 2))) =
   [(RecommendRaise, 10000000000, 7500000000)]"
  by code_simp

lemma lower_may_suggest_more:
  "map (\<lambda>r. (tmAction r, tmCurrentTimeout r, tmSuggestedTimeout r))
     (computeRecommendations (\<lambda>x. x) (\<lambda>_. '''') [slow_test 3000000000 9000000000] [(''t'', 10000000000)] (FFin (4 / 5))) =
   [(RecommendLower, 10000000000, 13500000000)]"
  by code_simp

section \<open>The run\<close>

text \<open>The database returns no more samples than a slice can hold.\<close>

definition bounded_store :: "duration_store \<Rightarrow> bool" where
  "bounded_store st \<longleftrightarrow> (\<forall>m a b ss err. sqSelect st m a b = Inr (ss, err) \<longrightarrow> int (sum_list (map (\<lambda>s. length (rsSamples s)) ss)) \<le> 2 ^ 53)"

lemma collect_series_count:
  "collect_series ss result = Inr out \<Longrightarrow> sample_count out = sample_count result + sum_list (map (\<lambda>s. length (rsSamples s)) ss)"
proof (induction ss arbitrary: result)
  case (Cons s ss)
  let ?ds = "\<lparr>dsLabels = rsLabels s, dsValues = map snd (rsSamples s), dsTimestamps = map fst (rsSamples s)\<rparr>"
  let ?res = "if length (dsValues ?ds) > 0 then result @ [?ds] else result"
  from Cons.prems have "collect_series ss ?res = Inr out" by (auto simp: Let_def split: option.splits)
  from Cons.IH[OF this] show ?case by (simp add: sample_count_def)
qed simp

lemma queryDurationSeries_count:
  assumes "bounded_store st" and "queryDurationSeries st a b = Inr ss"
  shows "int (sample_count ss) \<le> 2 ^ 53"
proof -
  from assms(2) obtain raw err where raw: "sqSelect st [(''__name__'', ''test_duration_seconds'')] (UnixMilli a) (UnixMilli b) = Inr (raw, err)"
    and out: "collect_series raw [] = Inr ss"
    by (auto simp: queryDurationSeries_def selectDurationSeries_def split: option.splits sum.splits)
  have "sample_count ss = sum_list (map (\<lambda>s. length (rsSamples s)) raw)"
    using collect_series_count[OF out] by (simp add: sample_count_def)
  with assms(1) raw show ?thesis unfolding bounded_store_def by metis
qed

lemma runBudgetAnalysis_defined:
  assumes "float_rounding rnd" and "visits (rwOrders rw)" and "bounded_store (rwDurations rw w)"
  shows "\<exists>out. runBudgetAnalysis rnd rw cfg w = Some out"
proof -
  have budget: "\<exists>out. AnalyzeBudget rnd (rwPercent rw) (rwOrders rw) (rwDurations rw w) tc th a b = Some out" for tc th a b
  proof (cases "queryDurationSeries (rwDurations rw w) a b")
    case (Inr ss)
    from aggregateRuntimes_defined[OF assms(1,2) queryDurationSeries_count[OF assms(3) Inr]] Inr
    show ?thesis by (auto simp: AnalyzeBudget_def Let_def)
  qed (simp add: AnalyzeBudget_def)
  show ?thesis
  proof (cases "ToTimeoutConfig (ceDuration (rwConfig rw)) (cfTimeoutBudget cfg)")
    case (Inr tc)
    let ?t = "tbWarningThreshold (cfTimeoutBudget cfg)" and ?now = "rwClock rw w"
    obtain out where "AnalyzeBudget rnd (rwPercent rw) (rwOrders rw) (rwDurations rw w) tc (if float_leq ?t (FFin 0) then FFin (rnd (4 / 5)) else ?t)
        (rwAddDays rw ?now (- acWindowDays (cfAnalysis cfg))) ?now = Some out" using budget by blast
    with Inr show ?thesis by (cases out) (simp_all add: runBudgetAnalysis_def Let_def)
  qed (simp add: runBudgetAnalysis_def)
qed

text \<open>Reconciliation changes nothing of an entry but its ticket.\<close>

definition without_ticket :: "QuarantineEntry \<Rightarrow> QuarantineEntry" where
  "without_ticket e = e\<lparr>qeJiraKey := ''''\<rparr>"

lemma file_tickets_frame: "file_tickets jf w es ns = (w', es', ns', errs) \<Longrightarrow> map without_ticket es' = map without_ticket es"
proof (induction ns arbitrary: w es w' es' ns' errs)
  case (Cons n ns)
  have "map without_ticket (set_ticket key t es) = map without_ticket es" for key t
    by (induction es) (auto simp: without_ticket_def)
  with Cons show ?case by (auto split: prod.splits sum.splits)
qed simp

lemma reconcile_frame:
  assumes "reconcileQuarantine jira prior w es = (w', es', newly, unq, errs)"
  shows "map without_ticket es' = map without_ticket es"
proof -
  obtain es1 ns where carry: "carry_tickets (indexPriorEntries prior) es = (es1, ns)" by fastforce
  then have "map without_ticket es1 = map without_ticket es"
    by (auto simp: carry_tickets_result without_ticket_def)
  with assms carry show ?thesis
    by (auto simp: reconcileQuarantine_def split: option.splits prod.splits dest: file_tickets_frame)
qed


lemma excluded_not_quarantined:
  assumes es: "FilterExcluded env matches cfg es0 = Some es" and rec: "reconcileQuarantine jira prior w es = (w', es', newly, unq, errs)"
    and e: "e \<in> set es'" "qeQuarantined e" and p: "p \<in> set (qcExcludePatterns (cfQuarantine cfg))"
  shows "\<not> matches p (qeName e)"
proof -
  from e(1) reconcile_frame[OF rec] have "without_ticket e \<in> without_ticket ` set es" by (metis image_eqI image_set)
  then obtain d where "d \<in> set es" "without_ticket d = without_ticket e" by auto
  then have "d \<in> set es" "qeName d = qeName e" "qeQuarantined d = qeQuarantined e"
    by (simp_all add: without_ticket_def) (metis QuarantineEntry.ext_inject QuarantineEntry.surjective QuarantineEntry.update_convs(13))+
  with e(2) p es show ?thesis
    by (auto simp: FilterExcluded_def matchesAny_def list_ex_iff Let_def split: if_splits)
qed

lemma panic_outcome:
  assumes "if A then \<exists>out. x = Some out \<and> (\<forall>r. out = Inr r \<longrightarrow> P r) else \<forall>r. x = Some (Inr r) \<longrightarrow> P r"
  shows "\<forall>r. x = Some (Inr r) \<longrightarrow> P r" and "A \<longrightarrow> x \<noteq> None"
  using assms by (auto split: if_splits)

text \<open>
  C14: a run of the pipeline panics only because of an exclude pattern that does not compile, so never
  with a configuration that passes validation, and with such a pattern no run that recorded a test
  gives a result. A result is consistent. It names the component of the
  configuration; the quarantined tests are those entries that are quarantined, and no test that an
  exclude pattern matches is one of them; without auto-quarantine nothing is quarantined, filed or
  released; and a budget is reported exactly when one is configured and some test was recorded.
\<close>

theorem run_consistent:
  assumes "float_rounding rnd" and "visits (rwOrders rw)" and "\<forall>w. bounded_store (rwDurations rw w)"
  shows "(snd (Run rnd rw cfg opts w) = None \<longrightarrow> (\<exists>p\<in>set (qcExcludePatterns (cfQuarantine cfg)). ceCompile (rwConfig rw) p \<noteq> None)) \<and>
    (Validate (rwConfig rw) cfg = None \<longrightarrow> snd (Run rnd rw cfg opts w) \<noteq> None) \<and>
    (\<forall>res. snd (Run rnd rw cfg opts w) = Some (Inr res) \<longrightarrow> fuComponent res = cfComponent cfg \<and>
       (srTestsRecorded (fuScrape res) \<noteq> 0 \<longrightarrow> (\<forall>p\<in>set (qcExcludePatterns (cfQuarantine cfg)). ceCompile (rwConfig rw) p = None)) \<and>
       fuQuarantinedTests res = filter qeQuarantined (fuAllEntries res) \<and>
       (\<forall>e\<in>set (fuQuarantinedTests res). \<forall>p\<in>set (qcExcludePatterns (cfQuarantine cfg)). \<not> rwMatches rw p (qeName e)) \<and>
       (\<not> qcAutoQuarantine (cfQuarantine cfg) \<longrightarrow> fuQuarantinedTests res = [] \<and> fuNewlyQuarantined res = [] \<and> fuUnquarantined res = []) \<and>
       (fuBudget res \<noteq> None \<longleftrightarrow> IsConfigured (cfTimeoutBudget cfg) \<and> srTestsRecorded (fuScrape res) \<noteq> 0))"
proof -
  let ?ok = "\<forall>p\<in>set (qcExcludePatterns (cfQuarantine cfg)). ceCompile (rwConfig rw) p = None"
  let ?out = "snd (Run rnd rw cfg opts w)"
  let ?consistent = "\<lambda>res. fuComponent res = cfComponent cfg \<and> (srTestsRecorded (fuScrape res) \<noteq> 0 \<longrightarrow> ?ok) \<and>
       fuQuarantinedTests res = filter qeQuarantined (fuAllEntries res) \<and>
       (\<forall>e\<in>set (fuQuarantinedTests res). \<forall>p\<in>set (qcExcludePatterns (cfQuarantine cfg)). \<not> rwMatches rw p (qeName e)) \<and>
       (\<not> qcAutoQuarantine (cfQuarantine cfg) \<longrightarrow> fuQuarantinedTests res = [] \<and> fuNewlyQuarantined res = [] \<and> fuUnquarantined res = []) \<and>
       (fuBudget res \<noteq> None \<longleftrightarrow> IsConfigured (cfTimeoutBudget cfg) \<and> srTestsRecorded (fuScrape res) \<noteq> 0)"
  define rc where "rc = foldl (\<lambda>rc f. f rc) \<lparr>rcBucketClient = False, rcJiraClient = None, rcPriorEntries = []\<rparr> opts"
  obtain w1 e1 where store: "rwNewStore rw w = (w1, e1)" by fastforce
  obtain w2 sc where scrape: "runScrape rnd rw rc cfg w1 = (w2, sc)" by fastforce
  note run = Run_def[of rnd rw cfg opts w, unfolded Let_def rc_def[symmetric] store]
  have "if ?ok then \<exists>out. ?out = Some out \<and> (\<forall>res. out = Inr res \<longrightarrow> ?consistent res)
    else \<forall>res. ?out = Some (Inr res) \<longrightarrow> ?consistent res"
  proof (cases "e1 \<noteq> None \<or> isl sc \<or> srTestsRecorded (projr sc) = 0 \<or> isl (runAnalysis rnd rw cfg w2)")
    case True
    then show ?thesis unfolding run
      by (cases e1; cases sc; cases "runAnalysis rnd rw cfg w2") (auto simp: scrape)
  next
    case False
    then obtain sr es0 where ok: "e1 = None" "sc = Inr sr" "srTestsRecorded sr \<noteq> 0" "runAnalysis rnd rw cfg w2 = Inr es0"
      by (cases sc; cases "runAnalysis rnd rw cfg w2") auto
    show ?thesis
    proof (cases ?ok)
      case False
      then have "FilterExcluded (rwConfig rw) (rwMatches rw) cfg es0 = None"
        by (auto simp: FilterExcluded_def list_ex_iff Let_def)
      then have "?out = None"
        unfolding run ok scrape prod.case sum.case option.case if_not_P[OF ok(3)] by simp
      with False show ?thesis by (simp del: split_paired_All)
    next
      case True
      note compiles = this
      have "FilterExcluded (rwConfig rw) (rwMatches rw) cfg es0 \<noteq> None"
        using compiles by (simp add: FilterExcluded_def list_ex_iff Let_def)
      then obtain es where es: "FilterExcluded (rwConfig rw) (rwMatches rw) cfg es0 = Some es" by blast
      define b where "b = (if IsConfigured (cfTimeoutBudget cfg) then map_option (map_sum id Some) (runBudgetAnalysis rnd rw cfg w2) else Some (Inr None))"
      obtain out where "runBudgetAnalysis rnd rw cfg w2 = Some out"
        using runBudgetAnalysis_defined[OF assms(1,2)] assms(3) by blast
      then have b: "b = Some (if IsConfigured (cfTimeoutBudget cfg) then map_sum id Some out else Inr None)" by (simp add: b_def)
      obtain w3 es' newly unq errs where rec: "reconcileQuarantine (rcJiraClient rc) (rcPriorEntries rc) w2 es = (w3, es', newly, unq, errs)"
        by (metis prod.exhaust)
      note excl = excluded_not_quarantined[OF es rec]
      show ?thesis
        unfolding run ok scrape prod.case sum.case option.case if_not_P[OF ok(3)] es b_def[symmetric] rec b if_P[OF compiles]
        using ok(3) excl compiles by (cases out) auto
    qed
  qed
  note outcome = panic_outcome[OF this]
  have "Validate (rwConfig rw) cfg = None \<longrightarrow> ?ok" unfolding Validate_valid valid_config_def by blast
  with outcome show ?thesis by blast
qed


text \<open>A bucket with one artifact, in which one test passed, and the stored series of the examples.\<close>

definition example_world :: "(nat, unit) run_world" where
  "example_world = \<lparr>
     rwScrape = \<lparr>swList = (\<lambda>w b p. (w, Inr [p @ ''/1/artifacts/junit.xml''])), swRead = (\<lambda>w b n. (w, Inr ())), swCtxErr = (\<lambda>w. None),
       swSleep = (\<lambda>w d. w), swNow = (\<lambda>w. 1),
       swSuites = (\<lambda>_. Inr (''testsuites'', [\<lparr>jsName = ''s'', jsTimestamp = '''', jsCases = [\<lparr>jcName = ''t'', jcTime = 1, jcFailure = False, jcError = False,
         jcSkipped = False, jcProperties = []\<rparr>]\<rparr>])), swSuite = (\<lambda>d. Inl (ErrNew ''no suite'')),
       swTime = (\<lambda>l s. None), swAppend = (\<lambda>w l t v. (w + 1, None)), swFloat = (\<lambda>s. None), swSeconds = (\<lambda>d. 1)\<rparr>,
     rwConfig = example_env, rwNewStore = (\<lambda>w. (w, None)), rwNewClient = (\<lambda>w. (w, None)), rwCommit = (\<lambda>w. (w, None)),
     rwClock = (\<lambda>w. 5), rwAddDays = (\<lambda>t n. t + n), rwFormat = (\<lambda>t. ''''), rwPercent = (\<lambda>r. ''''), rwMatches = (\<lambda>p s. p = s),
     rwSelect = (\<lambda>w a b. example_select),
     rwDurations = (\<lambda>w. \<lparr>sqMatcher = (\<lambda>l v. None), sqSelect = (\<lambda>m a b. Inr ([], None))\<rparr>), rwOrders = plain_orders\<rparr>"

definition example_run_config :: Config where
  "example_run_config = loaded_config\<lparr>cfAnalysis := \<lparr>acThreshold = FFin (1 / 3), acWindowDays = 30, acMinRuns = 1\<rparr>,
     cfTimeoutBudget := \<lparr>tbPipelineTimeout = 60000000000, tbSuiteTimeouts = [], tbTestTimeouts = [], tbWarningThreshold = FFin 0\<rparr>\<rparr>"

theorem run_consistent_witness:
  "(case snd (Run (\<lambda>x. x) example_world example_run_config [WithJiraClient example_jira] 0) of
     Some (Inr res) \<Rightarrow> map qeName (fuQuarantinedTests res) = [''shaky''] \<and> fuBudget res \<noteq> None \<and>
       fuQuarantinedTests res = filter qeQuarantined (fuAllEntries res)
   | _ \<Rightarrow> False) \<and>
   snd (Run (\<lambda>x. x) (example_world\<lparr>rwConfig := example_env\<lparr>ceCompile := \<lambda>_. Some (ErrNew ''bad'')\<rparr>\<rparr>)
     (example_run_config\<lparr>cfQuarantine := \<lparr>qcConfigPath = '''', qcAutoQuarantine = True, qcExcludePatterns = [''('']\<rparr>\<rparr>) [] 0) = None"
proof
  let ?run = "snd (Run (\<lambda>x. x) example_world example_run_config [WithJiraClient example_jira] 0)"
  have eval: "case ?run of Some (Inr res) \<Rightarrow> map qeName (fuQuarantinedTests res) = [''shaky''] \<and> srTestsRecorded (fuScrape res) = 1 | _ \<Rightarrow> False"
    by code_simp
  have "visits (rwOrders example_world)" "\<forall>w. bounded_store (rwDurations example_world w)"
    by (simp_all add: example_world_def plain_visits bounded_store_def)
  note t = run_consistent[OF float_rounding_id this, of example_run_config "[WithJiraClient example_jira]" 0]
  have "IsConfigured (cfTimeoutBudget example_run_config)" by (simp add: IsConfigured_def example_run_config_def)
  with t eval show "case ?run of
     Some (Inr res) \<Rightarrow> map qeName (fuQuarantinedTests res) = [''shaky''] \<and> fuBudget res \<noteq> None \<and>
       fuQuarantinedTests res = filter qeQuarantined (fuAllEntries res)
   | _ \<Rightarrow> False"
    by (auto split: option.splits sum.splits)
  show "snd (Run (\<lambda>x. x) (example_world\<lparr>rwConfig := example_env\<lparr>ceCompile := \<lambda>_. Some (ErrNew ''bad'')\<rparr>\<rparr>)
     (example_run_config\<lparr>cfQuarantine := \<lparr>qcConfigPath = '''', qcAutoQuarantine = True, qcExcludePatterns = [''('']\<rparr>\<rparr>) [] 0) = None"
    by code_simp
qed

end
