(* ===== verification/TLS.thy ===== *)
theory TLS
  imports GoErrors "HOL-Library.Word"
begin

text \<open>
  TLS security profiles (\<^verbatim>\<open>framework/tls\<close>): resolving a profile to version, cipher and curve strings, leniently
  or strictly (\<^verbatim>\<open>profile.go\<close>), the conversion to a \<^verbatim>\<open>tls.Config\<close> (\<^verbatim>\<open>config.go\<close>) and what is loaded from
  the cluster's \<^verbatim>\<open>APIServer\<close> under its adherence policy (\<^verbatim>\<open>apiserver.go\<close>). The profile table and the cipher
  and group names of the OpenShift libraries are fields of a record; cipher suite identifiers are 16-bit words, and
  the names \<^verbatim>\<open>crypto/tls\<close> gives them are written out.
\<close>

unbundle bit_operations_syntax

section \<open>Profiles\<close>

record TLSProfileSpec =
  tsCiphers :: "string list"
  tsGroups :: "string list"
  tsMinTLSVersion :: string

record TLSSecurityProfile =
  tpType :: string
  tpCustom :: "TLSProfileSpec option"

record 'cfg tls_env =
  teIntermediate :: TLSProfileSpec
  teProfiles :: "string \<rightharpoonup> TLSProfileSpec"
  teGetTLSProfileSpec :: "TLSSecurityProfile option \<Rightarrow> go_error + TLSProfileSpec"
  teOpenSSLToIANA :: "string list \<Rightarrow> string list"
  teCipherSuite :: "string \<Rightarrow> go_error + 16 word"
  teTLSGroupsToCurveIDs :: "string list \<Rightarrow> 16 word list \<times> string list"
  teTLSVersion :: "string \<Rightarrow> go_error + 16 word"
  teNewTLSConfig :: "TLSProfileSpec \<Rightarrow> go_error + 'cfg \<times> string list"
  teAPIServerName :: string

definition VersionTLS10 :: string where "VersionTLS10 = ''VersionTLS10''"
definition VersionTLS11 :: string where "VersionTLS11 = ''VersionTLS11''"
definition VersionTLS12 :: string where "VersionTLS12 = ''VersionTLS12''"
definition VersionTLS13 :: string where "VersionTLS13 = ''VersionTLS13''"
definition TLSProfileCustomType :: string where "TLSProfileCustomType = ''Custom''"

lemmas tls_version_defs = VersionTLS10_def VersionTLS11_def VersionTLS12_def VersionTLS13_def

definition ErrCustomTLSProfileNil :: go_error where
  "ErrCustomTLSProfileNil = ErrNew ''custom TLS profile has no custom specification''"

definition ErrUnsupportedTLSProfileType :: go_error where
  "ErrUnsupportedTLSProfileType = ErrNew ''unsupported TLS profile type''"

definition ErrUnsupportedTLSProfileVersion :: go_error where
  "ErrUnsupportedTLSProfileVersion = ErrNew ''TLS profile minimum version is unsupported''"

definition ErrTLSProfileHasNoCipherSuites :: go_error where
  "ErrTLSProfileHasNoCipherSuites = ErrNew ''TLS profile contains no cipher suites''"

definition ErrTLSProfileHasNoSupportedCipherSuites :: go_error where
  "ErrTLSProfileHasNoSupportedCipherSuites = ErrNew ''TLS profile contains no cipher suites supported by Go''"

definition ErrTLSProfileHasNoSupportedGroups :: go_error where
  "ErrTLSProfileHasNoSupportedGroups = ErrNew ''TLS profile contains no TLS groups supported by Go''"

datatype VersionFormat = FormatShort | FormatGo

definition tls12ShortVersion :: string where "tls12ShortVersion = ''TLS1.2''"
definition tls12GoVersion :: string where "tls12GoVersion = ''VersionTLS12''"

definition ProfileSpecFromSecurityProfile :: "'cfg tls_env \<Rightarrow> TLSSecurityProfile option \<Rightarrow> TLSProfileSpec" where
  "ProfileSpecFromSecurityProfile env profile =
     (case teGetTLSProfileSpec env profile of Inl err \<Rightarrow> teIntermediate env | Inr spec \<Rightarrow> spec)"

definition minVersionToShort :: "string \<Rightarrow> string" where
  "minVersionToShort v =
     (if v = VersionTLS10 then ''TLS1.0''
      else if v = VersionTLS11 then ''TLS1.1''
      else if v = VersionTLS12 then tls12ShortVersion
      else if v = VersionTLS13 then ''TLS1.3''
      else '''')"

definition minVersionToGo :: "string \<Rightarrow> string" where
  "minVersionToGo v =
     (if v = VersionTLS10 then ''VersionTLS10''
      else if v = VersionTLS11 then ''VersionTLS11''
      else if v = VersionTLS12 then tls12GoVersion
      else if v = VersionTLS13 then ''VersionTLS13''
      else '''')"

definition MinVersionFromSpec :: "'cfg tls_env \<Rightarrow> TLSProfileSpec option \<Rightarrow> VersionFormat \<Rightarrow> string" where
  "MinVersionFromSpec env spec fmt =
     (let minVersion = (case spec of
            Some s \<Rightarrow> if tsMinTLSVersion s \<noteq> '''' then tsMinTLSVersion s else tsMinTLSVersion (teIntermediate env)
          | None \<Rightarrow> tsMinTLSVersion (teIntermediate env));
          name = (case fmt of FormatGo \<Rightarrow> minVersionToGo minVersion | FormatShort \<Rightarrow> minVersionToShort minVersion)
      in if name = '''' then (case fmt of FormatGo \<Rightarrow> tls12GoVersion | FormatShort \<Rightarrow> tls12ShortVersion)
         else name)"

section \<open>Cipher suites\<close>

text \<open>The suites of \<^verbatim>\<open>crypto/tls\<close>, secure ones first, and \<^verbatim>\<open>tls.CipherSuiteName\<close>.\<close>

definition go_cipher_suites :: "(16 word \<times> string) list" where
  "go_cipher_suites =
    [(0x1301, ''TLS_AES_128_GCM_SHA256''), (0x1302, ''TLS_AES_256_GCM_SHA384''), (0x1303, ''TLS_CHACHA20_POLY1305_SHA256''),
     (0xc009, ''TLS_ECDHE_ECDSA_WITH_AES_128_CBC_SHA''), (0xc00a, ''TLS_ECDHE_ECDSA_WITH_AES_256_CBC_SHA''),
     (0xc013, ''TLS_ECDHE_RSA_WITH_AES_128_CBC_SHA''), (0xc014, ''TLS_ECDHE_RSA_WITH_AES_256_CBC_SHA''),
     (0xc02b, ''TLS_ECDHE_ECDSA_WITH_AES_128_GCM_SHA256''), (0xc02c, ''TLS_ECDHE_ECDSA_WITH_AES_256_GCM_SHA384''),
     (0xc02f, ''TLS_ECDHE_RSA_WITH_AES_128_GCM_SHA256''), (0xc030, ''TLS_ECDHE_RSA_WITH_AES_256_GCM_SHA384''),
     (0xcca8, ''TLS_ECDHE_RSA_WITH_CHACHA20_POLY1305_SHA256''), (0xcca9, ''TLS_ECDHE_ECDSA_WITH_CHACHA20_POLY1305_SHA256''),
     (0x0005, ''TLS_RSA_WITH_RC4_128_SHA''), (0x000a, ''TLS_RSA_WITH_3DES_EDE_CBC_SHA''),
     (0x002f, ''TLS_RSA_WITH_AES_128_CBC_SHA''), (0x0035, ''TLS_RSA_WITH_AES_256_CBC_SHA''),
     (0x003c, ''TLS_RSA_WITH_AES_128_CBC_SHA256''), (0x009c, ''TLS_RSA_WITH_AES_128_GCM_SHA256''),
     (0x009d, ''TLS_RSA_WITH_AES_256_GCM_SHA384''), (0xc007, ''TLS_ECDHE_ECDSA_WITH_RC4_128_SHA''),
     (0xc011, ''TLS_ECDHE_RSA_WITH_RC4_128_SHA''), (0xc012, ''TLS_ECDHE_RSA_WITH_3DES_EDE_CBC_SHA''),
     (0xc023, ''TLS_ECDHE_ECDSA_WITH_AES_128_CBC_SHA256''), (0xc027, ''TLS_ECDHE_RSA_WITH_AES_128_CBC_SHA256'')]"

definition hex_digit :: "nat \<Rightarrow> char" where
  "hex_digit d = (if d < 10 then digit_char d else char_of (55 + d))"

definition CipherSuiteName :: "16 word \<Rightarrow> string" where
  "CipherSuiteName c =
     (case map_of go_cipher_suites c of
        Some n \<Rightarrow> n
      | None \<Rightarrow> ''0x'' @ map (\<lambda>i. hex_digit (unat c div 16 ^ i mod 16)) [3, 2, 1, 0])"

definition isRC4CipherID :: "16 word \<Rightarrow> bool" where
  "isRC4CipherID code = contains_text ''RC4'' (CipherSuiteName code)"

definition maskRC4 :: "16 word \<Rightarrow> 16 word" where
  "maskRC4 code = (if isRC4CipherID code then 0 else code)"

definition resolveCipherCode :: "'cfg tls_env \<Rightarrow> string \<Rightarrow> 16 word option" where
  "resolveCipherCode env cipher =
     (case teCipherSuite env cipher of
        Inr code \<Rightarrow> Some code
      | Inl _ \<Rightarrow>
          let ianaCiphers = teOpenSSLToIANA env [cipher]
          in if length ianaCiphers \<noteq> 1 then None
             else (case teCipherSuite env (ianaCiphers ! 0) of Inl _ \<Rightarrow> None | Inr code \<Rightarrow> Some code))"

definition cipherCode :: "'cfg tls_env \<Rightarrow> string \<Rightarrow> 16 word" where
  "cipherCode env cipher = (case resolveCipherCode env cipher of None \<Rightarrow> 0 | Some code \<Rightarrow> maskRC4 code)"

definition isTLS13CipherSuiteID :: "16 word \<Rightarrow> bool" where
  "isTLS13CipherSuiteID code = (code AND 0xff00 = 0x1300)"

fun iana_loop :: "'cfg tls_env \<Rightarrow> string \<Rightarrow> string \<Rightarrow> string list \<Rightarrow> string list \<times> string list \<Rightarrow> string list \<times> string list" where
  "iana_loop env minVersion cipher [] (ianaCiphers, dropped) = (ianaCiphers, dropped)"
| "iana_loop env minVersion cipher (ianaCipher # rest) (ianaCiphers, dropped) =
     (let code = cipherCode env ianaCipher
      in if code = 0 \<or> minVersion \<noteq> VersionTLS13 \<and> isTLS13CipherSuiteID code
         then iana_loop env minVersion cipher rest (ianaCiphers, dropped @ [cipher])
         else iana_loop env minVersion cipher rest (ianaCiphers @ [ianaCipher], dropped))"

fun cipher_loop :: "'cfg tls_env \<Rightarrow> string \<Rightarrow> string list \<Rightarrow> string list \<times> string list \<Rightarrow> string list \<times> string list" where
  "cipher_loop env minVersion [] acc = acc"
| "cipher_loop env minVersion (cipher # ciphers) (ianaCiphers, dropped) =
     (let mapped = teOpenSSLToIANA env [cipher]
      in if length mapped = 0 then cipher_loop env minVersion ciphers (ianaCiphers, dropped @ [cipher])
         else cipher_loop env minVersion ciphers (iana_loop env minVersion cipher mapped (ianaCiphers, dropped)))"

definition cipherSuitesForMinVersion :: "'cfg tls_env \<Rightarrow> string list \<Rightarrow> string \<Rightarrow> string list \<times> string list" where
  "cipherSuitesForMinVersion env ciphers minVersion = cipher_loop env minVersion ciphers ([], [])"

definition CipherSuitesFromSpec :: "'cfg tls_env \<Rightarrow> TLSProfileSpec option \<Rightarrow> string" where
  "CipherSuitesFromSpec env spec =
     (let s = (case spec of None \<Rightarrow> teIntermediate env | Some s \<Rightarrow> s);
          ianaCiphers = fst (cipherSuitesForMinVersion env (tsCiphers s) (tsMinTLSVersion s))
      in join_with '','' (if length ianaCiphers = 0
           then fst (cipherSuitesForMinVersion env (tsCiphers (teIntermediate env)) (tsMinTLSVersion (teIntermediate env)))
           else ianaCiphers))"

section \<open>Resolving a profile\<close>

definition IsVersionSupported :: "string \<Rightarrow> bool" where
  "IsVersionSupported v \<longleftrightarrow> v = VersionTLS12 \<or> v = VersionTLS13"

definition isKnownTLSVersion :: "string \<Rightarrow> bool" where
  "isKnownTLSVersion v \<longleftrightarrow> v = VersionTLS10 \<or> v = VersionTLS11 \<or> v = VersionTLS12 \<or> v = VersionTLS13"

definition CurvePreferencesFromSpec :: "'cfg tls_env \<Rightarrow> TLSProfileSpec option \<Rightarrow> go_error + string" where
  "CurvePreferencesFromSpec env spec =
     (case spec of
        None \<Rightarrow> Inr ''''
      | Some s \<Rightarrow>
          if length (tsGroups s) = 0 then Inr ''''
          else let (curves, unsupportedGroups) = teTLSGroupsToCurveIDs env (tsGroups s)
               in if length curves = 0 then Inl ErrTLSProfileHasNoSupportedGroups
                  else Inr (join_with '','' (map (\<lambda>c. itoa (uint c)) curves)))"

definition legacy_spec :: "'cfg tls_env \<Rightarrow> TLSSecurityProfile option \<Rightarrow> TLSProfileSpec" where
  "legacy_spec env profile =
     (let spec = ProfileSpecFromSecurityProfile env profile
      in if \<not> IsVersionSupported (tsMinTLSVersion spec) then teIntermediate env else spec)"

definition FromProfileWithCurvePreferences ::
  "'cfg tls_env \<Rightarrow> TLSSecurityProfile option \<Rightarrow> VersionFormat \<Rightarrow> go_error + string \<times> string \<times> string" where
  "FromProfileWithCurvePreferences env profile fmt =
     (let spec = legacy_spec env profile
      in case CurvePreferencesFromSpec env (Some spec) of
           Inl err \<Rightarrow> Inl err
         | Inr curvePreferences \<Rightarrow>
             Inr (MinVersionFromSpec env (Some spec) fmt, CipherSuitesFromSpec env (Some spec), curvePreferences))"

definition FromProfile :: "'cfg tls_env \<Rightarrow> TLSSecurityProfile option \<Rightarrow> VersionFormat \<Rightarrow> string \<times> string" where
  "FromProfile env profile fmt =
     (case FromProfileWithCurvePreferences env profile fmt of
        Inr (minVersion, cipherSuites, _) \<Rightarrow> (minVersion, cipherSuites)
      | Inl err \<Rightarrow>
          let spec = legacy_spec env profile
          in (MinVersionFromSpec env (Some spec) fmt, CipherSuitesFromSpec env (Some spec)))"

definition strictProfileSpec :: "'cfg tls_env \<Rightarrow> TLSSecurityProfile option \<Rightarrow> go_error + TLSProfileSpec" where
  "strictProfileSpec env profile =
     (case profile of
        None \<Rightarrow> Inr (teIntermediate env)
      | Some p \<Rightarrow>
          if tpType p = '''' then Inr (teIntermediate env)
          else if tpType p = TLSProfileCustomType
          then (case tpCustom p of None \<Rightarrow> Inl ErrCustomTLSProfileNil | Some s \<Rightarrow> Inr s)
          else (case teProfiles env (tpType p) of
                  None \<Rightarrow> Inl (ErrSuffix ErrUnsupportedTLSProfileType ('': '' @ quoted (tpType p)))
                | Some spec \<Rightarrow> Inr spec))"

definition GetStrictTLSProfileSpec :: "'cfg tls_env \<Rightarrow> TLSSecurityProfile option \<Rightarrow> go_error + TLSProfileSpec" where
  "GetStrictTLSProfileSpec env profile =
     (case strictProfileSpec env profile of Inl err \<Rightarrow> Inl err | Inr spec \<Rightarrow> Inr spec)"

definition ValidateStrictTLSProfile :: "'cfg tls_env \<Rightarrow> TLSProfileSpec \<Rightarrow> go_error option" where
  "ValidateStrictTLSProfile env spec =
     (let groups_check =
            (if length (tsGroups spec) > 0 \<and> length (fst (teTLSGroupsToCurveIDs env (tsGroups spec))) = 0
             then Some ErrTLSProfileHasNoSupportedGroups else None)
      in if \<not> isKnownTLSVersion (tsMinTLSVersion spec)
         then Some (ErrSuffix ErrUnsupportedTLSProfileVersion ('': '' @ quoted (tsMinTLSVersion spec)))
         else if tsMinTLSVersion spec \<noteq> VersionTLS13
         then (if length (tsCiphers spec) = 0 then Some ErrTLSProfileHasNoCipherSuites
               else if length (fst (cipherSuitesForMinVersion env (tsCiphers spec) (tsMinTLSVersion spec))) = 0
               then Some ErrTLSProfileHasNoSupportedCipherSuites
               else groups_check)
         else groups_check)"

definition fromProfileStrictSpec :: "'cfg tls_env \<Rightarrow> TLSProfileSpec \<Rightarrow> VersionFormat \<Rightarrow> go_error + string \<times> string" where
  "fromProfileStrictSpec env spec fmt =
     (case ValidateStrictTLSProfile env spec of
        Some err \<Rightarrow> Inl err
      | None \<Rightarrow> Inr (MinVersionFromSpec env (Some spec) fmt,
          join_with '','' (fst (cipherSuitesForMinVersion env (tsCiphers spec) (tsMinTLSVersion spec)))))"

definition FromProfileStrict :: "'cfg tls_env \<Rightarrow> TLSSecurityProfile option \<Rightarrow> VersionFormat \<Rightarrow> go_error + string \<times> string" where
  "FromProfileStrict env profile fmt =
     (case strictProfileSpec env profile of
        Inl err \<Rightarrow> Inl err
      | Inr spec \<Rightarrow> fromProfileStrictSpec env spec fmt)"

definition FromProfileStrictWithCurvePreferences ::
  "'cfg tls_env \<Rightarrow> TLSSecurityProfile option \<Rightarrow> VersionFormat \<Rightarrow> go_error + string \<times> string \<times> string" where
  "FromProfileStrictWithCurvePreferences env profile fmt =
     (case strictProfileSpec env profile of
        Inl err \<Rightarrow> Inl err
      | Inr spec \<Rightarrow>
          (case fromProfileStrictSpec env spec fmt of
             Inl err \<Rightarrow> Inl err
           | Inr (minVersion, cipherSuites) \<Rightarrow>
               (case CurvePreferencesFromSpec env (Some spec) of
                  Inl err \<Rightarrow> Inl err
                | Inr curvePreferences \<Rightarrow> Inr (minVersion, cipherSuites, curvePreferences))))"

definition TLSAdherencePolicyNoOpinion :: string where
  "TLSAdherencePolicyNoOpinion = ''''"

definition TLSAdherencePolicyLegacyAdheringComponentsOnly :: string where
  "TLSAdherencePolicyLegacyAdheringComponentsOnly = ''LegacyAdheringComponentsOnly''"

definition TLSAdherencePolicyStrictAllComponents :: string where
  "TLSAdherencePolicyStrictAllComponents = ''StrictAllComponents''"

definition ShouldHonorClusterTLSProfile :: "string \<Rightarrow> bool" where
  "ShouldHonorClusterTLSProfile adherence =
     (if adherence = TLSAdherencePolicyNoOpinion \<or> adherence = TLSAdherencePolicyLegacyAdheringComponentsOnly then False
      else if adherence = TLSAdherencePolicyStrictAllComponents then True
      else True)"

section \<open>Configuration of a server\<close>

fun filterTLS13CipherSuites :: "'cfg tls_env \<Rightarrow> string list \<Rightarrow> string list \<times> string list" where
  "filterTLS13CipherSuites env [] = ([], [])"
| "filterTLS13CipherSuites env (cipher # ciphers) =
     (let (filtered, removed) = filterTLS13CipherSuites env ciphers
      in if isTLS13CipherSuiteID (cipherCode env cipher) then (filtered, cipher # removed)
         else (cipher # filtered, removed))"

definition isRC4CipherName :: "'cfg tls_env \<Rightarrow> string \<Rightarrow> bool" where
  "isRC4CipherName env cipher = (case resolveCipherCode env cipher of None \<Rightarrow> False | Some code \<Rightarrow> isRC4CipherID code)"

fun filterRC4CipherSuites :: "'cfg tls_env \<Rightarrow> string list \<Rightarrow> string list \<times> string list" where
  "filterRC4CipherSuites env [] = ([], [])"
| "filterRC4CipherSuites env (cipher # ciphers) =
     (let (filtered, removed) = filterRC4CipherSuites env ciphers
      in if isRC4CipherName env cipher then (filtered, cipher # removed)
         else (cipher # filtered, removed))"

definition ConfigFromProfileWithError :: "'cfg tls_env \<Rightarrow> TLSProfileSpec \<Rightarrow> go_error + 'cfg \<times> string list" where
  "ConfigFromProfileWithError env profile0 =
     (let profile1 = (case teTLSVersion env (tsMinTLSVersion profile0) of
            Inl _ \<Rightarrow> profile0\<lparr>tsMinTLSVersion := VersionTLS12\<rparr>
          | Inr _ \<Rightarrow> profile0);
          (ciphers2, unsupportedTLS13) =
            (if tsMinTLSVersion profile1 \<noteq> VersionTLS13 then filterTLS13CipherSuites env (tsCiphers profile1)
             else (tsCiphers profile1, []));
          (ciphers3, unsupportedRC4) = filterRC4CipherSuites env ciphers2
      in case teNewTLSConfig env (profile1\<lparr>tsCiphers := ciphers3\<rparr>) of
           Inl err \<Rightarrow> Inl (ErrWrap ''building TLS config from profile'' err)
         | Inr (tlsConfig, unsupported) \<Rightarrow> Inr (tlsConfig, (unsupported @ unsupportedTLS13) @ unsupportedRC4))"

text \<open>A failed build gives a nil function and no names.\<close>

definition ConfigFromProfile :: "'cfg tls_env \<Rightarrow> TLSProfileSpec \<Rightarrow> 'cfg option \<times> string list" where
  "ConfigFromProfile env profile =
     (case ConfigFromProfileWithError env profile of
        Inl _ \<Rightarrow> (None, [])
      | Inr (tlsConfig, unsupported) \<Rightarrow> (Some tlsConfig, unsupported))"

definition ConfigFromProfileStrict :: "'cfg tls_env \<Rightarrow> TLSProfileSpec \<Rightarrow> go_error + 'cfg \<times> string list" where
  "ConfigFromProfileStrict env profile =
     (case ValidateStrictTLSProfile env profile of
        Some err \<Rightarrow> Inl err
      | None \<Rightarrow> ConfigFromProfileWithError env profile)"


section \<open>Loading from the cluster\<close>

text \<open>The parts of the \<^verbatim>\<open>APIServer\<close> object that are read, and the result of getting it from the cluster.\<close>

record APIServer =
  asTLSSecurityProfile :: "TLSSecurityProfile option"
  asTLSAdherence :: string

type_synonym api_get = "go_error + APIServer"

record LoadResult =
  lrSpec :: TLSProfileSpec
  lrAdherencePolicy :: string
  lrUsedFallback :: bool
  lrWatchable :: bool

definition getAPIServer :: "'cfg tls_env \<Rightarrow> api_get \<Rightarrow> go_error + APIServer" where
  "getAPIServer env got =
     (case got of
        Inl err \<Rightarrow> Inl (ErrWrap (''failed to get APIServer '' @ quoted (teAPIServerName env)) err)
      | Inr apiServer \<Rightarrow> Inr apiServer)"

definition FetchAPIServerTLSProfile :: "'cfg tls_env \<Rightarrow> api_get \<Rightarrow> go_error + TLSProfileSpec" where
  "FetchAPIServerTLSProfile env got =
     (case getAPIServer env got of
        Inl err \<Rightarrow> Inl err
      | Inr apiServer \<Rightarrow> Inr (ProfileSpecFromSecurityProfile env (asTLSSecurityProfile apiServer)))"

definition FromAPIServer :: "'cfg tls_env \<Rightarrow> api_get \<Rightarrow> VersionFormat \<Rightarrow> go_error + string \<times> string" where
  "FromAPIServer env got fmt =
     (case got of
        Inl err \<Rightarrow>
          if IsNotFound err \<or> is_no_match err then Inr (FromProfile env None fmt)
          else Inl (ErrWrap (''failed to get APIServer '' @ quoted (teAPIServerName env)) err)
      | Inr apiServer \<Rightarrow> Inr (FromProfile env (asTLSSecurityProfile apiServer) fmt))"

text \<open>The reasons that the predicates on API errors look for.\<close>

definition IsServiceUnavailable :: "go_error \<Rightarrow> bool" where
  "IsServiceUnavailable e \<longleftrightarrow> reason_for e = Some (OtherReason ''ServiceUnavailable'')"

definition IsTimeout :: "go_error \<Rightarrow> bool" where
  "IsTimeout e \<longleftrightarrow> reason_for e = Some (OtherReason ''Timeout'')"

definition IsServerTimeout :: "go_error \<Rightarrow> bool" where
  "IsServerTimeout e \<longleftrightarrow> reason_for e = Some (OtherReason ''ServerTimeout'')"

definition IsTooManyRequests :: "go_error \<Rightarrow> bool" where
  "IsTooManyRequests e \<longleftrightarrow> reason_for e = Some (OtherReason ''TooManyRequests'')"

definition DeadlineExceeded :: string where "DeadlineExceeded = ''context deadline exceeded''"
definition ErrUnexpectedEOF :: string where "ErrUnexpectedEOF = ''unexpected EOF''"
definition EOF :: string where "EOF = ''EOF''"

definition connection_op :: "string \<Rightarrow> bool" where
  "connection_op oper \<longleftrightarrow> oper = ''dial'' \<or> oper = ''read'' \<or> oper = ''write''"

definition isTransientAPIError :: "go_error \<Rightarrow> bool" where
  "isTransientAPIError err =
     (if is_sentinel DeadlineExceeded err \<or> IsServiceUnavailable err \<or> IsTimeout err \<or> IsServerTimeout err \<or>
         IsTooManyRequests err then True
      else if is_cert err then False
      else case as_op err of
             Some (oper, inner) \<Rightarrow>
               if connection_op oper then True
               else if oper = ''proxyconnect''
               then (case as_op inner of
                       Some (nested, _) \<Rightarrow> if connection_op nested then True else False
                     | None \<Rightarrow> False)
               else False
           | None \<Rightarrow>
               if is_dns err then True
               else if is_sentinel ErrUnexpectedEOF err \<or> is_sentinel EOF err then True
               else False)"

definition loadFallback :: "'cfg tls_env \<Rightarrow> go_error \<Rightarrow> LoadResult option" where
  "loadFallback env err =
     (let result = \<lparr>lrSpec = teIntermediate env, lrAdherencePolicy = TLSAdherencePolicyNoOpinion,
            lrUsedFallback = True, lrWatchable = True\<rparr>
      in if is_no_match err then Some (result\<lparr>lrWatchable := False\<rparr>)
         else if IsNotFound err then Some result
         else if isTransientAPIError err then Some result
         else None)"

definition Load :: "'cfg tls_env \<Rightarrow> api_get \<Rightarrow> go_error + LoadResult" where
  "Load env got =
     (case FetchAPIServerTLSProfile env got of
        Inr spec \<Rightarrow> Inr \<lparr>lrSpec = spec, lrAdherencePolicy = TLSAdherencePolicyNoOpinion,
          lrUsedFallback = False, lrWatchable = True\<rparr>
      | Inl err \<Rightarrow> (case loadFallback env err of None \<Rightarrow> Inl err | Some result \<Rightarrow> Inr result))"

definition LoadWithAdherence :: "'cfg tls_env \<Rightarrow> api_get \<Rightarrow> go_error + LoadResult" where
  "LoadWithAdherence env got =
     (case getAPIServer env got of
        Inl err \<Rightarrow> (case loadFallback env err of None \<Rightarrow> Inl err | Some result \<Rightarrow> Inr result)
      | Inr apiServer \<Rightarrow>
          let adherence = asTLSAdherence apiServer;
              result = (\<lambda>spec. \<lparr>lrSpec = spec, lrAdherencePolicy = adherence, lrUsedFallback = False, lrWatchable = True\<rparr>)
          in if ShouldHonorClusterTLSProfile adherence
             then (case GetStrictTLSProfileSpec env (asTLSSecurityProfile apiServer) of
                     Inl specErr \<Rightarrow> Inl (ErrWrap ''invalid strict APIServer TLS profile'' specErr)
                   | Inr spec \<Rightarrow>
                       (case ValidateStrictTLSProfile env spec of
                          Some err \<Rightarrow> Inl (ErrWrap ''invalid strict APIServer TLS profile'' err)
                        | None \<Rightarrow> Inr (result spec)))
             else Inr (result (ProfileSpecFromSecurityProfile env (asTLSSecurityProfile apiServer))))"

definition strictProfileFromAPIServer ::
  "'cfg tls_env \<Rightarrow> api_get \<Rightarrow> go_error + TLSSecurityProfile option \<times> bool" where
  "strictProfileFromAPIServer env got =
     (case getAPIServer env got of
        Inl err \<Rightarrow> if IsNotFound err \<or> is_no_match err then Inr (None, False) else Inl err
      | Inr apiServer \<Rightarrow>
          if \<not> ShouldHonorClusterTLSProfile (asTLSAdherence apiServer) then Inr (None, False)
          else Inr (asTLSSecurityProfile apiServer, True))"

definition FromAPIServerWithAdherence :: "'cfg tls_env \<Rightarrow> api_get \<Rightarrow> VersionFormat \<Rightarrow> go_error + string \<times> string" where
  "FromAPIServerWithAdherence env got fmt =
     (case strictProfileFromAPIServer env got of
        Inl err \<Rightarrow> Inl err
      | Inr (profile, useClusterProfile) \<Rightarrow>
          if \<not> useClusterProfile then Inr (FromProfile env None fmt)
          else FromProfileStrict env profile fmt)"

definition FromAPIServerWithCurvePreferences ::
  "'cfg tls_env \<Rightarrow> api_get \<Rightarrow> VersionFormat \<Rightarrow> go_error + string \<times> string \<times> string" where
  "FromAPIServerWithCurvePreferences env got fmt =
     (case strictProfileFromAPIServer env got of
        Inl err \<Rightarrow> Inl err
      | Inr (profile, useClusterProfile) \<Rightarrow>
          if \<not> useClusterProfile then FromProfileWithCurvePreferences env None fmt
          else FromProfileStrictWithCurvePreferences env profile fmt)"

end
