(* ===== verification/TLS_Correct.thy ===== *)
theory TLS_Correct
  imports TLS
begin

text \<open>
  Correctness of the TLS profiles: which cipher suites survive, that strict resolution honours a profile or
  fails, that lenient resolution never goes below TLS 1.2, and that loading fails closed.
\<close>

section \<open>Cipher suites\<close>

lemma starts_with_set: "starts_with p s \<Longrightarrow> set p \<subseteq> set s"
  by (induction p s rule: starts_with.induct) auto

lemma contains_text_set: "contains_text p s \<Longrightarrow> set p \<subseteq> set s"
proof (induction p s rule: contains_text.induct)
  case (2 p c cs)
  then show ?case using starts_with_set [of p "c # cs"] by auto
qed simp

lemma hex_digit_not_R: "d < 16 \<Longrightarrow> hex_digit d \<noteq> CHR ''R''"
proof
  assume "d < 16" "hex_digit d = CHR ''R''"
  then have "(of_char (hex_digit d) :: nat) = 82" by simp
  then show False using \<open>d < 16\<close> by (auto simp: hex_digit_def digit_char_def split: if_splits)
qed

text \<open>The names with RC4 belong to three suites; an unnamed suite prints as a hexadecimal number.\<close>

lemma isRC4_iff: "isRC4CipherID code \<longleftrightarrow> code \<in> {0x0005, 0xc007, 0xc011}"
proof (cases "map_of go_cipher_suites code")
  case None
  have "\<not> contains_text ''RC4'' (CipherSuiteName code)"
  proof
    assume "contains_text ''RC4'' (CipherSuiteName code)"
    then have "CHR ''R'' \<in> set (CipherSuiteName code)" using contains_text_set by fastforce
    moreover have "CHR ''R'' \<noteq> hex_digit (n mod 16)" for n using hex_digit_not_R [of "n mod 16"] by simp
    ultimately show False using None by (auto simp: CipherSuiteName_def)
  qed
  moreover have "code \<notin> {0x0005, 0xc007, 0xc011}" using None by (auto simp: go_cipher_suites_def)
  ultimately show ?thesis by (simp add: isRC4CipherID_def)
next
  case (Some n)
  then have "(code, n) \<in> set go_cipher_suites" by (rule map_of_SomeD)
  then show ?thesis using Some
    by (auto simp: isRC4CipherID_def CipherSuiteName_def go_cipher_suites_def split: if_splits)
qed

text \<open>The TLS 1.3 suites are the identifiers from \<open>0x1300\<close> to \<open>0x13ff\<close>.\<close>

lemma and_high_byte: "(code :: 16 word) AND 0xff00 = push_bit 8 (drop_bit 8 code)"
proof -
  have "(mask 16 :: 16 word) = - 1" by (simp add: mask_eq_exp_minus_1)
  moreover have "NOT (mask 8) = (0xff00 :: 16 word)" by (simp add: mask_eq_exp_minus_1)
  moreover have "take_bit 8 (drop_bit 8 code) = drop_bit 8 code"
    by (simp add: take_bit_drop_bit take_bit_word_eq_self)
  ultimately show ?thesis using slice_eq_mask [of 8 8 code] by simp
qed

lemma isTLS13_iff: "isTLS13CipherSuiteID code \<longleftrightarrow> 0x1300 \<le> code \<and> code \<le> 0x13ff"
proof -
  have lt: "unat code < 65536" using unsigned_less [of code, where ?'a = nat] by simp
  have "unat (push_bit 8 (drop_bit 8 code)) = unat code div 256 * 256"
    unfolding unsigned_push_bit_eq unat_drop_bit_eq
    using lt by (simp add: drop_bit_eq_div push_bit_eq_mult take_bit_eq_mod)
  then have "isTLS13CipherSuiteID code \<longleftrightarrow> unat code div 256 * 256 = 0x1300"
    unfolding isTLS13CipherSuiteID_def and_high_byte by (simp add: word_unat_eq_iff)
  also have "\<dots> \<longleftrightarrow> 0x1300 \<le> unat code \<and> unat code \<le> 0x13ff" by auto
  finally show ?thesis by (simp add: word_le_nat_alt)
qed

text \<open>The suites that both loops keep, and their codes.\<close>

definition usable :: "'cfg tls_env \<Rightarrow> string \<Rightarrow> string \<Rightarrow> bool" where
  "usable env minVersion suite \<longleftrightarrow> cipherCode env suite \<noteq> 0 \<and>
     (minVersion \<noteq> VersionTLS13 \<longrightarrow> \<not> isTLS13CipherSuiteID (cipherCode env suite))"

definition usable_suites :: "'cfg tls_env \<Rightarrow> TLSProfileSpec \<Rightarrow> string list" where
  "usable_suites env spec =
     concat (map (\<lambda>c. filter (usable env (tsMinTLSVersion spec)) (teOpenSSLToIANA env [c])) (tsCiphers spec))"

lemma iana_loop_keeps:
  "fst (iana_loop env v c xs (kept, dropped)) = kept @ filter (usable env v) xs"
  by (induction env v c xs "(kept, dropped)" arbitrary: kept dropped rule: iana_loop.induct)
    (auto simp: usable_def Let_def)

lemma cipher_loop_keeps:
  "fst (cipher_loop env v cs acc) = fst acc @ concat (map (\<lambda>c. filter (usable env v) (teOpenSSLToIANA env [c])) cs)"
proof (induction cs arbitrary: acc)
  case (Cons c cs)
  then show ?case
    by (cases acc; cases "teOpenSSLToIANA env [c] = []") (simp_all add: Let_def iana_loop_keeps)
qed simp

lemma suites_kept [simp]:
  "fst (cipherSuitesForMinVersion env (tsCiphers spec) (tsMinTLSVersion spec)) = usable_suites env spec"
  by (simp add: cipherSuitesForMinVersion_def cipher_loop_keeps usable_suites_def)

definition safe_suite :: "'cfg tls_env \<Rightarrow> string \<Rightarrow> string \<Rightarrow> bool" where
  "safe_suite env minVersion suite \<longleftrightarrow>
     (\<exists>code. resolveCipherCode env suite = Some code \<and> code \<notin> {0, 0x0005, 0xc007, 0xc011} \<and>
        (minVersion = VersionTLS13 \<or> code < 0x1300 \<or> 0x13ff < code))"

lemma usable_safe: "usable env v s \<Longrightarrow> safe_suite env v s"
  by (cases "resolveCipherCode env s")
    (auto simp: usable_def safe_suite_def cipherCode_def maskRC4_def isRC4_iff isTLS13_iff not_le split: if_splits)

lemma usable_suites_safe: "s \<in> set (usable_suites env spec) \<Longrightarrow> safe_suite env (tsMinTLSVersion spec) s"
  by (auto simp: usable_suites_def intro: usable_safe)

section \<open>Versions\<close>

fun version_names :: "VersionFormat \<Rightarrow> (string \<times> string) list" where
  "version_names FormatShort =
     [(VersionTLS10, ''TLS1.0''), (VersionTLS11, ''TLS1.1''), (VersionTLS12, ''TLS1.2''), (VersionTLS13, ''TLS1.3'')]"
| "version_names FormatGo =
     [(VersionTLS10, ''VersionTLS10''), (VersionTLS11, ''VersionTLS11''), (VersionTLS12, ''VersionTLS12''),
      (VersionTLS13, ''VersionTLS13'')]"

lemma version_of_known:
  assumes "isKnownTLSVersion (tsMinTLSVersion spec)"
  shows "(tsMinTLSVersion spec, MinVersionFromSpec env (Some spec) fmt) \<in> set (version_names fmt)"
  using assms by (cases fmt) (auto simp: MinVersionFromSpec_def isKnownTLSVersion_def minVersionToGo_def
      minVersionToShort_def tls_version_defs tls12GoVersion_def tls12ShortVersion_def)

text \<open>The conditions under which a strict profile can be honoured.\<close>

definition strict_ok :: "'cfg tls_env \<Rightarrow> TLSProfileSpec \<Rightarrow> bool" where
  "strict_ok env spec \<longleftrightarrow> isKnownTLSVersion (tsMinTLSVersion spec) \<and>
     (tsMinTLSVersion spec \<noteq> VersionTLS13 \<longrightarrow> usable_suites env spec \<noteq> []) \<and>
     (tsGroups spec \<noteq> [] \<longrightarrow> fst (teTLSGroupsToCurveIDs env (tsGroups spec)) \<noteq> [])"

lemma validate_ok: "ValidateStrictTLSProfile env spec = None \<longleftrightarrow> strict_ok env spec"
proof -
  have "tsCiphers spec = [] \<Longrightarrow> usable_suites env spec = []" by (simp add: usable_suites_def)
  then show ?thesis by (auto simp: ValidateStrictTLSProfile_def strict_ok_def Let_def)
qed

section \<open>Properties\<close>

definition ex_tls :: "unit tls_env" where
  "ex_tls =
     (let known = [(''ECDHE-RSA-AES128-GCM-SHA256'', ''TLS_ECDHE_RSA_WITH_AES_128_GCM_SHA256''),
                   (''TLS_AES_128_GCM_SHA256'', ''TLS_AES_128_GCM_SHA256''), (''RC4-SHA'', ''TLS_RSA_WITH_RC4_128_SHA'')];
          inter = \<lparr>tsCiphers = [''TLS_AES_128_GCM_SHA256'', ''ECDHE-RSA-AES128-GCM-SHA256''], tsGroups = [],
            tsMinTLSVersion = VersionTLS12\<rparr>
      in \<lparr>teIntermediate = inter, teProfiles = [''Intermediate'' \<mapsto> inter],
          teGetTLSProfileSpec = (\<lambda>p. case p of
              None \<Rightarrow> Inr inter
            | Some q \<Rightarrow> (case tpCustom q of None \<Rightarrow> Inl (ErrNew ''no custom profile'') | Some s \<Rightarrow> Inr s)),
          teOpenSSLToIANA = (\<lambda>cs. List.map_filter (map_of known) cs),
          teCipherSuite = (\<lambda>n. case find_first snd n go_cipher_suites of
              None \<Rightarrow> Inl (ErrNew ''unknown cipher suite'') | Some (c, _) \<Rightarrow> Inr c),
          teTLSGroupsToCurveIDs = (\<lambda>gs. (map (\<lambda>_. 29) (filter (\<lambda>g. g = ''X25519'') gs), filter (\<lambda>g. g \<noteq> ''X25519'') gs)),
          teTLSVersion = (\<lambda>v. if isKnownTLSVersion v then Inr 0x0303 else Inl (ErrNew ''unknown version'')),
          teNewTLSConfig = (\<lambda>s. Inr ((), [])), teAPIServerName = ''cluster''\<rparr>)"

definition ex_custom :: TLSSecurityProfile where
  "ex_custom = \<lparr>tpType = TLSProfileCustomType, tpCustom = Some \<lparr>
     tsCiphers = [''RC4-SHA'', ''TLS_AES_128_GCM_SHA256'', ''ECDHE-RSA-AES128-GCM-SHA256''],
     tsGroups = [''X25519'', ''unknown''], tsMinTLSVersion = VersionTLS11\<rparr>\<rparr>"

text \<open>
  strict resolution of a profile fails exactly when its type cannot be resolved, its version is unknown, no cipher suite
  is left below TLS 1.3 or none of its groups is supported; otherwise it gives the configured version and exactly the usable
  suites in their order, none of them RC4 and none of them a TLS 1.3 suite below TLS 1.3, and the supported curves.
\<close>

theorem strict_profile_honoured:
  assumes "FromProfileStrictWithCurvePreferences env profile fmt = r"
  shows "case strictProfileSpec env profile of
      Inl err \<Rightarrow> r = Inl err
    | Inr spec \<Rightarrow>
        (isl r \<longleftrightarrow> \<not> isKnownTLSVersion (tsMinTLSVersion spec) \<or>
           tsMinTLSVersion spec \<noteq> VersionTLS13 \<and> usable_suites env spec = [] \<or>
           tsGroups spec \<noteq> [] \<and> fst (teTLSGroupsToCurveIDs env (tsGroups spec)) = []) \<and>
        (\<forall>v cs cv. r = Inr (v, cs, cv) \<longrightarrow>
           (tsMinTLSVersion spec, v) \<in> set (version_names fmt) \<and>
           cs = join_with '','' (usable_suites env spec) \<and>
           (\<forall>s\<in>set (usable_suites env spec). safe_suite env (tsMinTLSVersion spec) s) \<and>
           cv = (if tsGroups spec = [] then ''''
                 else join_with '','' (map (\<lambda>c. itoa (uint c)) (fst (teTLSGroupsToCurveIDs env (tsGroups spec))))))"
proof (cases "strictProfileSpec env profile")
  case (Inl err)
  then show ?thesis using assms by (simp add: FromProfileStrictWithCurvePreferences_def)
next
  case (Inr spec)
  have curves: "CurvePreferencesFromSpec env (Some spec) =
      (if tsGroups spec = [] then Inr ''''
       else if fst (teTLSGroupsToCurveIDs env (tsGroups spec)) = [] then Inl ErrTLSProfileHasNoSupportedGroups
       else Inr (join_with '','' (map (\<lambda>c. itoa (uint c)) (fst (teTLSGroupsToCurveIDs env (tsGroups spec))))))"
    by (simp add: CurvePreferencesFromSpec_def split: prod.split)
  show ?thesis
  proof (cases "strict_ok env spec")
    case True
    then have r: "r = Inr (MinVersionFromSpec env (Some spec) fmt, join_with '','' (usable_suites env spec),
        if tsGroups spec = [] then ''''
        else join_with '','' (map (\<lambda>c. itoa (uint c)) (fst (teTLSGroupsToCurveIDs env (tsGroups spec)))))"
      using assms Inr validate_ok [THEN iffD2, OF True]
      by (auto simp: FromProfileStrictWithCurvePreferences_def fromProfileStrictSpec_def curves strict_ok_def)
    with True Inr show ?thesis
      by (auto simp: strict_ok_def intro: version_of_known usable_suites_safe)
  next
    case False
    then obtain e where "ValidateStrictTLSProfile env spec = Some e" using validate_ok [of env spec] by auto
    then have "r = Inl e" using assms Inr by (simp add: FromProfileStrictWithCurvePreferences_def fromProfileStrictSpec_def)
    with False Inr show ?thesis by (auto simp: strict_ok_def)
  qed
qed

lemma ex_strict:
  "FromProfileStrictWithCurvePreferences ex_tls (Some ex_custom) FormatShort =
     Inr (''TLS1.1'', ''TLS_ECDHE_RSA_WITH_AES_128_GCM_SHA256'', ''29'')"
  by code_simp

theorem strict_profile_honoured_witness:
  "strictProfileSpec ex_tls (Some ex_custom) = Inr (the (tpCustom ex_custom)) \<and>
   usable_suites ex_tls (the (tpCustom ex_custom)) \<noteq> []"
proof -
  have s: "strictProfileSpec ex_tls (Some ex_custom) = Inr (the (tpCustom ex_custom))" by code_simp
  moreover have "tsMinTLSVersion (the (tpCustom ex_custom)) \<noteq> VersionTLS13" by code_simp
  ultimately show ?thesis using strict_profile_honoured [OF ex_strict] by simp
qed


text \<open>
  if the Intermediate profile asks for TLS 1.2 and has a usable suite, lenient resolution never fails and never goes below
  TLS 1.2: the version is that of TLS 1.2, or of TLS 1.3 where the profile asks for it, and the suites are a non-empty list
  of suites that are neither RC4 nor unsuited for the version of the profile they were taken from.
\<close>

theorem legacy_floor:
  assumes "tsMinTLSVersion (teIntermediate env) = VersionTLS12" and "usable_suites env (teIntermediate env) \<noteq> []"
    and "FromProfile env profile fmt = (v, cs)"
  shows "((VersionTLS12, v) \<in> set (version_names fmt) \<or>
      (VersionTLS13, v) \<in> set (version_names fmt) \<and>
        tsMinTLSVersion (ProfileSpecFromSecurityProfile env profile) = VersionTLS13) \<and>
    (\<exists>spec suites. spec \<in> {teIntermediate env, ProfileSpecFromSecurityProfile env profile} \<and>
       IsVersionSupported (tsMinTLSVersion spec) \<and> suites = usable_suites env spec \<and> suites \<noteq> [] \<and>
       cs = join_with '','' suites \<and> (\<forall>s\<in>set suites. safe_suite env (tsMinTLSVersion spec) s))"
proof -
  let ?s = "legacy_spec env profile"
  have vc: "v = MinVersionFromSpec env (Some ?s) fmt" "cs = CipherSuitesFromSpec env (Some ?s)"
    using assms(3) by (auto simp: FromProfile_def FromProfileWithCurvePreferences_def Let_def split: sum.splits)
  have sup: "IsVersionSupported (tsMinTLSVersion ?s)" and mem: "?s \<in> {teIntermediate env, ProfileSpecFromSecurityProfile env profile}"
    using assms(1) by (auto simp: legacy_spec_def IsVersionSupported_def Let_def)
  then have "isKnownTLSVersion (tsMinTLSVersion ?s)" by (auto simp: IsVersionSupported_def isKnownTLSVersion_def)
  from version_of_known [OF this, of env fmt] have "(tsMinTLSVersion ?s, v) \<in> set (version_names fmt)" by (simp add: vc)
  moreover have "tsMinTLSVersion ?s = VersionTLS13 \<Longrightarrow> tsMinTLSVersion (ProfileSpecFromSecurityProfile env profile) = VersionTLS13"
    using mem assms(1) by (auto simp: tls_version_defs)
  ultimately have version: "(VersionTLS12, v) \<in> set (version_names fmt) \<or>
      (VersionTLS13, v) \<in> set (version_names fmt) \<and> tsMinTLSVersion (ProfileSpecFromSecurityProfile env profile) = VersionTLS13"
    using sup by (auto simp: IsVersionSupported_def)
  let ?used = "if usable_suites env ?s = [] then teIntermediate env else ?s"
  have "cs = join_with '','' (usable_suites env ?used)" by (simp add: vc CipherSuitesFromSpec_def)
  moreover have "usable_suites env ?used \<noteq> []" "IsVersionSupported (tsMinTLSVersion ?used)"
    "?used \<in> {teIntermediate env, ProfileSpecFromSecurityProfile env profile}"
    using assms(1,2) sup mem by (auto simp: IsVersionSupported_def)
  ultimately show ?thesis using version usable_suites_safe [of _ env ?used] by blast
qed

theorem legacy_floor_witness:
  "FromProfile ex_tls (Some ex_custom) FormatGo = (''VersionTLS12'', ''TLS_ECDHE_RSA_WITH_AES_128_GCM_SHA256'') \<and>
   (VersionTLS12, ''VersionTLS12'') \<in> set (version_names FormatGo)"
proof -
  have "tsMinTLSVersion (teIntermediate ex_tls) = VersionTLS12" by code_simp
  moreover have "usable_suites ex_tls (teIntermediate ex_tls) \<noteq> []" by code_simp
  moreover have r: "FromProfile ex_tls (Some ex_custom) FormatGo = (''VersionTLS12'', ''TLS_ECDHE_RSA_WITH_AES_128_GCM_SHA256'')"
    by code_simp
  ultimately have "(VersionTLS12, ''VersionTLS12'') \<in> set (version_names FormatGo) \<or>
      tsMinTLSVersion (ProfileSpecFromSecurityProfile ex_tls (Some ex_custom)) = VersionTLS13"
    using legacy_floor by blast
  moreover have "tsMinTLSVersion (ProfileSpecFromSecurityProfile ex_tls (Some ex_custom)) \<noteq> VersionTLS13" by code_simp
  ultimately show ?thesis using r by blast
qed

text \<open>
  C18: loading fails closed: what is loaded under a policy that must be honoured is the configured profile and can be honoured;
  a fallback is always the Intermediate profile without a policy and is taken only when the API or the object is missing or
  the error is transient; a failed certificate verification is returned as an error.
\<close>

theorem load_fails_closed:
  assumes "LoadWithAdherence env got = r"
  shows "case got of
      Inr srv \<Rightarrow>
        (case r of
           Inl err \<Rightarrow> ShouldHonorClusterTLSProfile (asTLSAdherence srv) \<and>
             (\<forall>spec. strictProfileSpec env (asTLSSecurityProfile srv) = Inr spec \<longrightarrow> \<not> strict_ok env spec)
         | Inr l \<Rightarrow> \<not> lrUsedFallback l \<and> lrWatchable l \<and> lrAdherencePolicy l = asTLSAdherence srv \<and>
             (ShouldHonorClusterTLSProfile (asTLSAdherence srv) \<longrightarrow>
                strictProfileSpec env (asTLSSecurityProfile srv) = Inr (lrSpec l) \<and> strict_ok env (lrSpec l)))
    | Inl e \<Rightarrow>
        (isl r \<longleftrightarrow> \<not> is_no_match e \<and> \<not> IsNotFound e \<and> \<not> isTransientAPIError e) \<and>
        (\<forall>l. r = Inr l \<longrightarrow> lrUsedFallback l \<and> lrSpec l = teIntermediate env \<and>
           lrAdherencePolicy l = TLSAdherencePolicyNoOpinion \<and> (lrWatchable l \<longleftrightarrow> \<not> is_no_match e)) \<and>
        (is_cert e \<and> reason_for e = None \<and> \<not> is_no_match e \<and> \<not> is_sentinel DeadlineExceeded e \<longrightarrow> isl r)"
proof (cases got)
  case (Inl e)
  let ?e = "ErrWrap (''failed to get APIServer '' @ quoted (teAPIServerName env)) e"
  have same: "is_no_match ?e = is_no_match e" "IsNotFound ?e = IsNotFound e" "isTransientAPIError ?e = isTransientAPIError e"
    by (simp_all add: IsNotFound_def isTransientAPIError_def IsServiceUnavailable_def IsTimeout_def IsServerTimeout_def
        IsTooManyRequests_def)
  have cert: "\<not> IsNotFound e \<and> \<not> isTransientAPIError e" if "is_cert e" "reason_for e = None" "\<not> is_sentinel DeadlineExceeded e"
    using that by (simp add: IsNotFound_def isTransientAPIError_def IsServiceUnavailable_def IsTimeout_def
        IsServerTimeout_def IsTooManyRequests_def)
  have r: "r = (case loadFallback env ?e of None \<Rightarrow> Inl ?e | Some l \<Rightarrow> Inr l)"
    unfolding assms [symmetric] LoadWithAdherence_def getAPIServer_def Inl sum.case ..
  show ?thesis using cert Inl unfolding r loadFallback_def same Let_def by auto
next
  case (Inr srv)
  then have r: "r = (if ShouldHonorClusterTLSProfile (asTLSAdherence srv)
      then (case strictProfileSpec env (asTLSSecurityProfile srv) of
              Inl specErr \<Rightarrow> Inl (ErrWrap ''invalid strict APIServer TLS profile'' specErr)
            | Inr spec \<Rightarrow>
                (case ValidateStrictTLSProfile env spec of
                   Some err \<Rightarrow> Inl (ErrWrap ''invalid strict APIServer TLS profile'' err)
                 | None \<Rightarrow> Inr \<lparr>lrSpec = spec, lrAdherencePolicy = asTLSAdherence srv, lrUsedFallback = False, lrWatchable = True\<rparr>))
      else Inr \<lparr>lrSpec = ProfileSpecFromSecurityProfile env (asTLSSecurityProfile srv),
             lrAdherencePolicy = asTLSAdherence srv, lrUsedFallback = False, lrWatchable = True\<rparr>)"
    using assms by (auto simp: LoadWithAdherence_def getAPIServer_def GetStrictTLSProfileSpec_def Let_def split: sum.split)
  show ?thesis unfolding Inr r sum.case
    by (auto simp: validate_ok [symmetric] split: sum.split option.split)
qed

theorem load_fails_closed_witness:
  "isl (LoadWithAdherence ex_tls (Inl (ErrOp ''proxyconnect'' ''proxyconnect tcp'' (ErrCert (ErrNew ''x509: unknown authority'')))))"
  using load_fails_closed [OF refl, of ex_tls "Inl (ErrOp ''proxyconnect'' ''proxyconnect tcp'' (ErrCert (ErrNew ''x509: unknown authority'')))"]
  by auto

end
