(* ===== verification/Precondition.thy ===== *)
theory Precondition
  imports PkgManager KObject
begin

text \<open>
  Preconditions of a reconciliation (\<^verbatim>\<open>pkg/controller/precondition\<close>): checks with their options
  (\<^verbatim>\<open>precondition.go\<close>, \<^verbatim>\<open>custom.go\<close>), the check for installed CRDs (\<^verbatim>\<open>monitor_crd.go\<close>), and \<^verbatim>\<open>RunAll\<close>, which
  runs all of them and writes one condition per condition type through the condition manager. Check and skip functions
  are given by callers: they act on the request, whose client and resources are a state of any type \<open>'w\<close>.
\<close>

section \<open>Preconditions and their options\<close>

definition ConditionTypeDependenciesAvailable :: string where
  "ConditionTypeDependenciesAvailable = ''DependenciesAvailable''"

definition PreConditionFailedReason :: string where
  "PreConditionFailedReason = ''PreConditionFailed''"

text \<open>The request: the generation of the instance (\<open>None\<close> for a nil instance), the manager and everything else.\<close>

record 'w action_request =
  arGeneration :: "int option"
  arConditions :: "pkg_manager option"
  arRest :: 'w

record CheckResult =
  crMessage :: string
  crPass :: bool

type_synonym 'w CheckFunc = "'w action_request \<Rightarrow> 'w action_request \<times> (go_error + CheckResult)"
type_synonym 'w SkipFunc = "'w action_request \<Rightarrow> 'w action_request \<times> (go_error + bool)"

record 'w PreCondition =
  pcConditionType :: string
  pcSeverity :: string
  pcMessage :: string
  pcCheck :: "'w CheckFunc option"
  pcSkipFunc :: "'w SkipFunc option"
  pcClusterTypes :: "string list"
  pcStopReconciliation :: bool

type_synonym 'w pc_option = "'w PreCondition \<Rightarrow> 'w PreCondition"

definition WithConditionType :: "string \<Rightarrow> 'w pc_option" where
  "WithConditionType t pc = (if t \<noteq> '''' then pc\<lparr>pcConditionType := t\<rparr> else pc)"

definition pc_WithSeverity :: "string \<Rightarrow> 'w pc_option" where
  "pc_WithSeverity s pc = pc\<lparr>pcSeverity := s\<rparr>"

definition WithStopReconciliation :: "'w pc_option" where
  "WithStopReconciliation pc = pc\<lparr>pcStopReconciliation := True\<rparr>"

definition WithClusterTypes :: "string list \<Rightarrow> 'w pc_option" where
  "WithClusterTypes types pc = pc\<lparr>pcClusterTypes := types\<rparr>"

definition pc_WithMessage :: "string \<Rightarrow> 'w pc_option" where
  "pc_WithMessage msg pc = pc\<lparr>pcMessage := msg\<rparr>"

definition WithSkipFunc :: "'w SkipFunc option \<Rightarrow> 'w pc_option" where
  "WithSkipFunc fn pc = pc\<lparr>pcSkipFunc := fn\<rparr>"

definition newPreCondition :: "'w CheckFunc option \<Rightarrow> 'w pc_option list \<Rightarrow> 'w PreCondition" where
  "newPreCondition check opts =
     foldl (\<lambda>pc opt. opt pc)
       \<lparr>pcConditionType = ConditionTypeDependenciesAvailable, pcSeverity = ConditionSeverityError, pcMessage = '''',
        pcCheck = check, pcSkipFunc = None, pcClusterTypes = [], pcStopReconciliation = False\<rparr> opts"

definition Custom :: "'w CheckFunc option \<Rightarrow> 'w pc_option list \<Rightarrow> 'w PreCondition" where
  "Custom check opts = newPreCondition check opts"

section \<open>Installed CRDs\<close>

definition ErrEmptyGVKList :: go_error where
  "ErrEmptyGVKList = ErrNew ''MonitorCRDs called with empty GroupVersionKind list''"

text \<open>The mapper of the client in the request: nil (\<open>None\<close>) when it knows the kind.\<close>

type_synonym 'w rest_mapper = "'w action_request \<Rightarrow> gvk \<Rightarrow> go_error option"

fun missing_crds :: "(gvk \<Rightarrow> go_error option) \<Rightarrow> gvk list \<Rightarrow> string list \<Rightarrow> go_error + string list" where
  "missing_crds mapping [] missing = Inr missing"
| "missing_crds mapping (g # gs) missing =
     (case mapping g of
        None \<Rightarrow> missing_crds mapping gs missing
      | Some err \<Rightarrow>
          if is_no_match err
          then missing_crds mapping gs (missing @ [gKind g @ ''.'' @ gGroup g @ '': CRD not found''])
          else Inl (ErrWrap (gKind g @ ''.'' @ gGroup g @ '': failed to check CRD presence'') err))"

definition monitor_check :: "'w rest_mapper \<Rightarrow> gvk list \<Rightarrow> 'w CheckFunc" where
  "monitor_check mapper monitored rr =
     (rr, if length monitored = 0 then Inl ErrEmptyGVKList
          else case missing_crds (mapper rr) monitored [] of
                 Inl err \<Rightarrow> Inl err
               | Inr missing \<Rightarrow>
                   if length missing > 0 then Inr \<lparr>crMessage = join_with ''; '' missing, crPass = False\<rparr>
                   else Inr \<lparr>crMessage = '''', crPass = True\<rparr>)"

definition MonitorCRDs :: "'w rest_mapper \<Rightarrow> gvk list \<Rightarrow> 'w pc_option list \<Rightarrow> 'w PreCondition" where
  "MonitorCRDs mapper gvks opts = newPreCondition (Some (monitor_check mapper gvks)) opts"

definition MonitorCRD :: "'w rest_mapper \<Rightarrow> gvk \<Rightarrow> 'w pc_option list \<Rightarrow> 'w PreCondition" where
  "MonitorCRD mapper g opts = MonitorCRDs mapper [g] opts"

section \<open>Running all preconditions\<close>

record conditionAggregate =
  agStatus :: string
  agSeverity :: string
  agMessages :: "string list"
  agShouldStop :: bool

definition agg_record :: "string \<Rightarrow> string \<Rightarrow> 'w PreCondition \<Rightarrow> conditionAggregate \<Rightarrow> conditionAggregate" where
  "agg_record s message pc agg0 =
     (let agg1 = (if s = ConditionFalse then agg0\<lparr>agStatus := ConditionFalse\<rparr>
                  else if s = ConditionUnknown \<and> agStatus agg0 \<noteq> ConditionFalse then agg0\<lparr>agStatus := ConditionUnknown\<rparr>
                  else agg0);
          agg2 = (if message \<noteq> '''' then agg1\<lparr>agMessages := agMessages agg1 @ [message]\<rparr> else agg1);
          agg3 = (if pcSeverity pc = ConditionSeverityError then agg2\<lparr>agSeverity := ConditionSeverityError\<rparr> else agg2)
      in if pcStopReconciliation pc then agg3\<lparr>agShouldStop := True\<rparr> else agg3)"

text \<open>The results by condition type, in the order of their creation.\<close>

type_synonym pc_results = "(string \<times> conditionAggregate) list"

definition new_aggregate :: conditionAggregate where
  "new_aggregate = \<lparr>agStatus = ConditionTrue, agSeverity = ConditionSeverityInfo, agMessages = [], agShouldStop = False\<rparr>"

definition initAggregate :: "pc_results \<Rightarrow> string \<Rightarrow> pc_results" where
  "initAggregate results t = (if map_of results t = None then results @ [(t, new_aggregate)] else results)"

text \<open>A method called through the pointer that \<^verbatim>\<open>initAggregate\<close> returns.\<close>

definition update_aggregate :: "pc_results \<Rightarrow> string \<Rightarrow> (conditionAggregate \<Rightarrow> conditionAggregate) \<Rightarrow> pc_results" where
  "update_aggregate results t f = map (\<lambda>(k, a). (k, if k = t then f a else a)) results"

definition skippedByClusterType :: "'w PreCondition \<Rightarrow> string \<Rightarrow> bool" where
  "skippedByClusterType pc clusterType \<longleftrightarrow>
     clusterType \<noteq> '''' \<and> length (pcClusterTypes pc) > 0 \<and> clusterType \<notin> set (pcClusterTypes pc)"

definition check_step :: "'w PreCondition \<Rightarrow> 'w action_request \<Rightarrow> pc_results \<Rightarrow> 'w action_request \<times> pc_results" where
  "check_step pc rr results0 =
     (let t = pcConditionType pc;
          results = initAggregate results0 t
      in case pcCheck pc of
           None \<Rightarrow> (rr, update_aggregate results t (agg_record ConditionUnknown ''precondition check function is nil'' pc))
         | Some check \<Rightarrow>
             (case check rr of
                (rr', Inl err) \<Rightarrow> (rr', update_aggregate results t (agg_record ConditionUnknown (err_msg err) pc))
              | (rr', Inr result) \<Rightarrow>
                  if \<not> crPass result
                  then (rr', update_aggregate results t
                         (agg_record ConditionFalse (if pcMessage pc \<noteq> '''' then pcMessage pc else crMessage result) pc))
                  else (rr', results)))"

definition evalPreCondition ::
  "string \<Rightarrow> 'w PreCondition \<Rightarrow> 'w action_request \<times> pc_results \<Rightarrow> 'w action_request \<times> pc_results" where
  "evalPreCondition clusterType pc st =
     (case st of (rr, results) \<Rightarrow>
        let t = pcConditionType pc
        in if skippedByClusterType pc clusterType then (rr, initAggregate results t)
           else case pcSkipFunc pc of
                  None \<Rightarrow> check_step pc rr results
                | Some skipFunc \<Rightarrow>
                    (case skipFunc rr of
                       (rr', Inl skipErr) \<Rightarrow>
                         (rr', update_aggregate (initAggregate results t) t (agg_record ConditionUnknown (err_msg skipErr) pc))
                     | (rr', Inr skip) \<Rightarrow>
                         if skip then (rr', initAggregate results t) else check_step pc rr' results))"

definition condition_options :: "int \<Rightarrow> conditionAggregate \<Rightarrow> cond_option list" where
  "condition_options generation agg =
     WithObservedGeneration generation #
     (if agStatus agg \<noteq> ConditionTrue
      then [WithReason PreConditionFailedReason, WithSeverity (agSeverity agg), WithMessage (join_with ''; '' (agMessages agg))]
      else [])"

text \<open>The loop over the map of results; a nil instance or a nil manager panics.\<close>

fun write_loop :: "'w action_request \<Rightarrow> pc_results \<Rightarrow> bool \<Rightarrow> ('w action_request \<times> bool) run" where
  "write_loop rr [] shouldStop = Done (rr, shouldStop)"
| "write_loop rr ((ct, agg) # rest) shouldStop =
     (case (arGeneration rr, arConditions rr) of
        (Some generation, Some m) \<Rightarrow>
          write_loop (rr\<lparr>arConditions := Some (pkg_Mark m ct (agStatus agg) (condition_options generation agg))\<rparr>) rest
            (if agShouldStop agg then True else shouldStop)
      | _ \<Rightarrow> Panic)"

definition writeConditions :: "(pc_results \<Rightarrow> pc_results) \<Rightarrow> 'w action_request \<Rightarrow> pc_results \<Rightarrow> ('w action_request \<times> bool) run" where
  "writeConditions order rr results = write_loop rr (order results) False"

definition RunAll ::
  "(pc_results \<Rightarrow> pc_results) \<Rightarrow> 'w action_request \<Rightarrow> string \<Rightarrow> 'w PreCondition list \<Rightarrow> ('w action_request \<times> bool) run" where
  "RunAll order rr clusterType preConditions =
     (if length preConditions = 0 then Done (rr, False)
      else let (rr', results) = foldl (\<lambda>st pc. evalPreCondition clusterType pc st) (rr, []) preConditions
           in writeConditions order rr' results)"

end
