(* ===== verification/Precondition_Correct.thy ===== *)
theory Precondition_Correct
  imports Precondition
begin

text \<open>
  Correctness of preconditions: the outcome of each check on its own, what \<^verbatim>\<open>RunAll\<close> makes of all outcomes, and
  that a failed precondition of a dependent condition keeps the object from being ready.
\<close>

section \<open>Writing through the manager\<close>

lemma recompute_cases:
  obtains "pkg_RecomputeHappiness m t = m" | c where "cType c = pmHappy m" "pkg_RecomputeHappiness m t = fst (pkg_put m c)"
proof (cases "findUnhappyDependent m")
  case None
  let ?c = "(new_condition (pmHappy m) ConditionTrue)\<lparr>cReason := ''AllDependentsHealthy''\<rparr>"
  show thesis using None that(1) that(2) [of ?c] by (cases "t = pmHappy m") (simp_all add: pkg_RecomputeHappiness_def)
next
  case (Some u)
  let ?c = "(new_condition (pmHappy m) (cStatus u))\<lparr>cReason := cReason u, cMessage := cMessage u\<rparr>"
  show thesis using Some that(2) [of ?c] by (simp add: pkg_RecomputeHappiness_def)
qed

lemma recompute_frame [simp]:
  "pmHappy (pkg_RecomputeHappiness m t) = pmHappy m" "pmDependents (pkg_RecomputeHappiness m t) = pmDependents m"
  "pmAccessor (pkg_RecomputeHappiness m t) = None \<longleftrightarrow> pmAccessor m = None"
  by (rule recompute_cases [of m t]; simp)+

lemma recompute_lookup:
  assumes "pmAccessor m \<noteq> None" and "x \<noteq> pmHappy m"
  shows "pkg_GetCondition (pkg_RecomputeHappiness m t) x = pkg_GetCondition m x"
proof (rule recompute_cases [of m t])
  fix c assume c: "cType c = pmHappy m" "pkg_RecomputeHappiness m t = fst (pkg_put m c)"
  show ?thesis by (rule pkg_put_lookup [OF assms(1), of c]) (use c assms(2) in simp)
qed simp

lemma SetCondition_eq:
  assumes "pmAccessor m \<noteq> None"
  shows "pkg_SetCondition m c = (if snd (pkg_put m c) then pkg_RecomputeHappiness (fst (pkg_put m c)) (cType c) else fst (pkg_put m c))"
  unfolding pkg_SetCondition_def if_not_P [OF assms] by (cases "pkg_put m c") simp

lemma pkg_SetCondition_frame [simp]:
  "pmHappy (pkg_SetCondition m c) = pmHappy m" "pmDependents (pkg_SetCondition m c) = pmDependents m"
  "pmAccessor (pkg_SetCondition m c) = None \<longleftrightarrow> pmAccessor m = None"
proof (atomize (full), cases "pmAccessor m = None")
  case True
  then show "pmHappy (pkg_SetCondition m c) = pmHappy m \<and> pmDependents (pkg_SetCondition m c) = pmDependents m \<and>
    (pmAccessor (pkg_SetCondition m c) = None) = (pmAccessor m = None)" by (simp add: pkg_SetCondition_def)
next
  case False
  then show "pmHappy (pkg_SetCondition m c) = pmHappy m \<and> pmDependents (pkg_SetCondition m c) = pmDependents m \<and>
    (pmAccessor (pkg_SetCondition m c) = None) = (pmAccessor m = None)" by (simp add: SetCondition_eq)
qed

lemma SetCondition_lookup:
  assumes "pmAccessor m \<noteq> None"
  shows "\<exists>d. equals d c \<and> (\<forall>x. x \<noteq> pmHappy m \<longrightarrow>
    pkg_GetCondition (pkg_SetCondition m c) x = (if x = cType c then Some d else pkg_GetCondition m x))"
proof (rule pkg_put_lookup [OF assms, of c])
  fix d assume d: "equals d c" "cType d = cType c"
    and look: "\<And>t. pkg_GetCondition (fst (pkg_put m c)) t = (if t = cType c then Some d else pkg_GetCondition m t)"
  have acc: "pmAccessor (fst (pkg_put m c)) \<noteq> None" using assms by simp
  have "pkg_GetCondition (pkg_SetCondition m c) x = (if x = cType c then Some d else pkg_GetCondition m x)"
    if "x \<noteq> pmHappy m" for x
    using look [of x] recompute_lookup [OF acc, of x "cType c"] that unfolding SetCondition_eq [OF assms]
    by (auto split: if_split)
  with d(1) show ?thesis by blast
qed

text \<open>A manager that reports no happiness while a dependent is unhappy.\<close>

definition pkg_consistent :: "pkg_manager \<Rightarrow> bool" where
  "pkg_consistent m \<longleftrightarrow> (pkg_IsHappy m \<longrightarrow> (\<forall>c. \<not> pkg_unhappy m c))"

lemma recompute_consistent:
  assumes "pmAccessor m \<noteq> None" and "pmHappy m \<notin> set (pmDependents m)"
  shows "pkg_consistent (pkg_RecomputeHappiness m t)"
proof -
  let ?n = "pkg_RecomputeHappiness m t"
  have un: "pkg_unhappy ?n c \<longleftrightarrow> c \<in> set (unhappy_candidates m (pmDependents m))" for c
  proof -
    have "\<forall>dep\<in>set (pmDependents m). pkg_GetCondition ?n dep = pkg_GetCondition m dep"
      using recompute_lookup [OF assms(1)] assms(2) by metis
    then show ?thesis unfolding unhappy_candidates_set pkg_unhappy_def recompute_frame by auto
  qed
  show ?thesis
  proof (cases "findUnhappyDependent m")
    case None
    then show ?thesis by (simp add: pkg_consistent_def un findUnhappyDependent_None)
  next
    case (Some u)
    let ?c = "(new_condition (pmHappy m) (cStatus u))\<lparr>cReason := cReason u, cMessage := cMessage u\<rparr>"
    have n: "?n = fst (pkg_put m ?c)" using Some by (simp add: pkg_RecomputeHappiness_def)
    have st: "cStatus u \<noteq> ConditionTrue"
      using findUnhappyDependent_Some(1) [OF Some] unfolding unhappy_candidates_set by auto
    obtain d where "equals d ?c" "pkg_GetCondition ?n (pmHappy m) = Some d"
      unfolding n by (rule pkg_put_lookup [OF assms(1), of ?c]) simp
    then have "\<not> pkg_IsHappy ?n"
      using st by (auto simp: pkg_IsHappy_def pkg_GetCondition_def pkg_IsStatusConditionTrue_def equals_def split: option.splits)
    then show ?thesis by (simp add: pkg_consistent_def)
  qed
qed

lemma put_unchanged:
  assumes "\<not> snd (pkg_put m c)"
  shows "pmAccessor (fst (pkg_put m c)) = pmAccessor m"
proof (cases "pmAccessor m")
  case (Some cs)
  obtain cs' b where p: "pkg_SetStatusCondition (pmClock m (pmTicks m)) cs c = (cs', b)" by fastforce
  then have "\<not> b" using assms Some by (simp add: pkg_put_def)
  then have "cs' = cs" using root.put_changed [of "pmClock m (pmTicks m)" cs c] p by simp
  then show ?thesis using Some p by (simp add: pkg_put_def)
qed (simp add: pkg_put_def)

lemma consistent_cong:
  assumes "pmAccessor n = pmAccessor m" "pmHappy n = pmHappy m" "pmDependents n = pmDependents m"
  shows "pkg_consistent n \<longleftrightarrow> pkg_consistent m"
  unfolding pkg_consistent_def pkg_IsHappy_def pkg_unhappy_def pkg_GetCondition_def assms ..

lemma SetCondition_consistent:
  assumes "pmAccessor m \<noteq> None" and "pmHappy m \<notin> set (pmDependents m)" and "pkg_consistent m"
  shows "pkg_consistent (pkg_SetCondition m c)"
proof (cases "snd (pkg_put m c)")
  case True
  then show ?thesis using assms(1,2) by (simp add: SetCondition_eq recompute_consistent)
next
  case False
  then show ?thesis
    using assms(1,3) consistent_cong [of "fst (pkg_put m c)" m] put_unchanged [OF False] by (simp add: SetCondition_eq)
qed

section \<open>Outcomes of the checks\<close>

text \<open>What one precondition finds: nothing to report, or a status with a message.\<close>

definition check_outcome :: "'w PreCondition \<Rightarrow> 'w action_request \<Rightarrow> 'w action_request \<times> (string \<times> string) option" where
  "check_outcome pc rr =
     (case pcCheck pc of
        None \<Rightarrow> (rr, Some (ConditionUnknown, ''precondition check function is nil''))
      | Some check \<Rightarrow>
          (case check rr of
             (rr', Inl err) \<Rightarrow> (rr', Some (ConditionUnknown, err_msg err))
           | (rr', Inr result) \<Rightarrow>
               (rr', if crPass result then None
                     else Some (ConditionFalse, if pcMessage pc \<noteq> '''' then pcMessage pc else crMessage result))))"

definition pc_outcome :: "string \<Rightarrow> 'w PreCondition \<Rightarrow> 'w action_request \<Rightarrow> 'w action_request \<times> (string \<times> string) option" where
  "pc_outcome clusterType pc rr =
     (if clusterType \<noteq> '''' \<and> pcClusterTypes pc \<noteq> [] \<and> clusterType \<notin> set (pcClusterTypes pc) then (rr, None)
      else case pcSkipFunc pc of
             None \<Rightarrow> check_outcome pc rr
           | Some skip \<Rightarrow>
               (case skip rr of
                  (rr', Inl err) \<Rightarrow> (rr', Some (ConditionUnknown, err_msg err))
                | (rr', Inr b) \<Rightarrow> if b then (rr', None) else check_outcome pc rr'))"

text \<open>The outcomes of all preconditions, one after the other, as the entries to report.\<close>

type_synonym 'w pc_entry = "'w PreCondition \<times> string \<times> string"

fun pc_outcomes :: "string \<Rightarrow> 'w action_request \<Rightarrow> 'w PreCondition list \<Rightarrow> 'w action_request \<times> 'w pc_entry list" where
  "pc_outcomes clusterType rr [] = (rr, [])"
| "pc_outcomes clusterType rr (pc # pcs) =
     (let (rr1, found) = pc_outcome clusterType pc rr;
          (rr2, entries) = pc_outcomes clusterType rr1 pcs
      in (rr2, (case found of None \<Rightarrow> entries | Some (s, msg) \<Rightarrow> (pc, s, msg) # entries)))"

definition entries_of :: "string \<Rightarrow> 'w pc_entry list \<Rightarrow> 'w pc_entry list" where
  "entries_of t entries = filter (\<lambda>(pc, s, msg). pcConditionType pc = t) entries"

definition entries_status :: "'w pc_entry list \<Rightarrow> string" where
  "entries_status es = (if ConditionFalse \<in> (fst \<circ> snd) ` set es then ConditionFalse
     else if es \<noteq> [] then ConditionUnknown else ConditionTrue)"

definition entries_severity :: "'w pc_entry list \<Rightarrow> string" where
  "entries_severity es = (if ConditionSeverityError \<in> (pcSeverity \<circ> fst) ` set es then ConditionSeverityError
     else ConditionSeverityInfo)"

definition entries_message :: "'w pc_entry list \<Rightarrow> string" where
  "entries_message es = join_with ''; '' (filter (\<lambda>msg. msg \<noteq> '''') (map (snd \<circ> snd) es))"

definition entries_stop :: "'w pc_entry list \<Rightarrow> bool" where
  "entries_stop es \<longleftrightarrow> (\<exists>e\<in>set es. pcStopReconciliation (fst e))"

section \<open>Aggregates\<close>

definition agg_entries :: "'w pc_entry list \<Rightarrow> conditionAggregate \<Rightarrow> conditionAggregate" where
  "agg_entries es agg = foldl (\<lambda>a (pc, s, msg). agg_record s msg pc a) agg es"

lemma agg_record_sel:
  "agStatus (agg_record s msg pc a) = (if s = ConditionFalse then ConditionFalse
     else if s = ConditionUnknown \<and> agStatus a \<noteq> ConditionFalse then ConditionUnknown else agStatus a)"
  "agSeverity (agg_record s msg pc a) = (if pcSeverity pc = ConditionSeverityError then ConditionSeverityError else agSeverity a)"
  "agMessages (agg_record s msg pc a) = agMessages a @ (if msg = '''' then [] else [msg])"
  "agShouldStop (agg_record s msg pc a) \<longleftrightarrow> pcStopReconciliation pc \<or> agShouldStop a"
  by (simp_all add: agg_record_def Let_def)

definition reported :: "'w pc_entry \<Rightarrow> bool" where
  "reported e \<longleftrightarrow> fst (snd e) \<in> {ConditionFalse, ConditionUnknown}"

lemma agg_entries_sel:
  assumes "\<forall>e\<in>set es. reported e"
  shows "agStatus (agg_entries es new_aggregate) = entries_status es \<and>
    agSeverity (agg_entries es new_aggregate) = entries_severity es \<and>
    join_with ''; '' (agMessages (agg_entries es new_aggregate)) = entries_message es \<and>
    (agShouldStop (agg_entries es new_aggregate) \<longleftrightarrow> entries_stop es)"
proof -
  have "agStatus (agg_entries es new_aggregate) = entries_status es \<and>
    agSeverity (agg_entries es new_aggregate) = entries_severity es \<and>
    agMessages (agg_entries es new_aggregate) = filter (\<lambda>msg. msg \<noteq> '''') (map (snd \<circ> snd) es) \<and>
    (agShouldStop (agg_entries es new_aggregate) \<longleftrightarrow> entries_stop es)"
    using assms
  proof (induction es rule: rev_induct)
    case Nil
    show ?case by (simp add: agg_entries_def new_aggregate_def entries_status_def entries_severity_def entries_stop_def)
  next
    case (snoc e es)
    obtain pc s msg where e: "e = (pc, s, msg)" by (cases e)
    have split: "agg_entries (es @ [e]) new_aggregate = agg_record s msg pc (agg_entries es new_aggregate)"
      by (simp add: agg_entries_def e)
    have "s = ConditionFalse \<or> s = ConditionUnknown" using snoc.prems by (auto simp: e reported_def)
    then show ?case using snoc unfolding split agg_record_sel
      by (elim disjE; cases "es = []")
        (simp_all add: e entries_status_def entries_severity_def entries_stop_def agg_entries_def new_aggregate_def disj_commute)
  qed
  then show ?thesis by (simp add: entries_message_def)
qed

text \<open>Evaluation separates into the outcome and its effect on the results.\<close>

definition note_outcome :: "'w PreCondition \<Rightarrow> (string \<times> string) option \<Rightarrow> pc_results \<Rightarrow> pc_results" where
  "note_outcome pc found results =
     (case found of
        None \<Rightarrow> initAggregate results (pcConditionType pc)
      | Some (s, msg) \<Rightarrow> update_aggregate (initAggregate results (pcConditionType pc)) (pcConditionType pc) (agg_record s msg pc))"

lemma check_step_outcome:
  "check_step pc rr results = (case check_outcome pc rr of (rr', found) \<Rightarrow> (rr', note_outcome pc found results))"
  by (auto simp: check_step_def check_outcome_def note_outcome_def Let_def split: option.split prod.split sum.split)

lemma eval_outcome:
  "evalPreCondition ct pc (rr, results) = (case pc_outcome ct pc rr of (rr', found) \<Rightarrow> (rr', note_outcome pc found results))"
  by (auto simp: evalPreCondition_def pc_outcome_def skippedByClusterType_def check_step_outcome note_outcome_def Let_def
      split: option.split prod.split sum.split)

lemma outcome_reported: "pc_outcome ct pc rr = (rr', Some (s, msg)) \<Longrightarrow> reported (pc, s, msg)"
  by (auto simp: pc_outcome_def check_outcome_def reported_def split: if_splits option.splits prod.splits sum.splits)

lemma keys_init: "map fst (initAggregate results t) = map fst results @ (if t \<in> fst ` set results then [] else [t])"
  by (simp add: initAggregate_def map_of_eq_None_iff)

lemma keys_update [simp]: "map fst (update_aggregate results t f) = map fst results"
  by (simp add: update_aggregate_def comp_def case_prod_beta)

lemma map_of_update: "map_of (update_aggregate results t f) k = map_option (\<lambda>a. if k = t then f a else a) (map_of results k)"
  by (induction results) (auto simp: update_aggregate_def)

lemma map_of_init:
  "map_of (initAggregate results t) k = (if k = t \<and> map_of results k = None then Some new_aggregate else map_of results k)"
  by (auto simp: initAggregate_def map_add_def split: option.split)

lemma note_distinct: "distinct (map fst results) \<Longrightarrow> distinct (map fst (note_outcome pc found results))"
  by (auto simp: note_outcome_def keys_init split: option.split prod.split)

lemma note_lookup:
  "map_of (note_outcome pc found results) k =
    (if k \<noteq> pcConditionType pc then map_of results k
     else Some (agg_entries (case found of None \<Rightarrow> [] | Some (s, msg) \<Rightarrow> [(pc, s, msg)])
        (case map_of results k of None \<Rightarrow> new_aggregate | Some a \<Rightarrow> a)))"
  by (auto simp: note_outcome_def map_of_update map_of_init agg_entries_def option.map_ident split: option.split)

text \<open>The results of the loop: for each condition type the aggregate of its entries.\<close>

lemma eval_all:
  assumes "foldl (\<lambda>st pc. evalPreCondition ct pc st) (rr, results) pcs = (rr2, results2)" and "distinct (map fst results)"
  shows "rr2 = fst (pc_outcomes ct rr pcs) \<and> distinct (map fst results2) \<and>
    (\<forall>e\<in>set (snd (pc_outcomes ct rr pcs)). reported e \<and> fst e \<in> set pcs) \<and>
    (\<forall>k. map_of results2 k =
      (if k \<in> pcConditionType ` set pcs
       then Some (agg_entries (entries_of k (snd (pc_outcomes ct rr pcs)))
         (case map_of results k of None \<Rightarrow> new_aggregate | Some a \<Rightarrow> a))
       else map_of results k))"
  using assms
proof (induction pcs arbitrary: rr results)
  case Nil
  then show ?case by simp
next
  case (Cons pc pcs)
  obtain rr1 found where o: "pc_outcome ct pc rr = (rr1, found)" by fastforce
  let ?r = "note_outcome pc found results"
  obtain rr3 es where os: "pc_outcomes ct rr1 pcs = (rr3, es)" by fastforce
  have "foldl (\<lambda>st pc. evalPreCondition ct pc st) (rr1, ?r) pcs = (rr2, results2)"
    using Cons.prems(1) by (simp add: eval_outcome o)
  note IH = Cons.IH [OF this note_distinct [OF Cons.prems(2)], unfolded os fst_conv snd_conv]
  let ?new = "case found of None \<Rightarrow> [] | Some (s, msg) \<Rightarrow> [(pc, s, msg)]"
  have all: "pc_outcomes ct rr (pc # pcs) = (rr3, ?new @ es)" by (auto simp: o os split: option.split)
  have rep: "\<forall>e\<in>set ?new. reported e \<and> fst e = pc" using outcome_reported o by (auto split: option.split)
  have new: "entries_of k ?new = (if k = pcConditionType pc then ?new else [])" for k
    by (auto simp: entries_of_def split: option.split)
  have app: "agg_entries (entries_of k (?new @ es)) a = agg_entries (entries_of k es) (agg_entries (entries_of k ?new) a)" for k a
    by (simp add: agg_entries_def entries_of_def)
  have notin: "entries_of k es = []" if "k \<notin> pcConditionType ` set pcs" for k
    using IH that by (auto simp: entries_of_def filter_empty_conv)
  have "map_of results2 k =
      (if k \<in> pcConditionType ` set (pc # pcs)
       then Some (agg_entries (entries_of k (?new @ es)) (case map_of results k of None \<Rightarrow> new_aggregate | Some a \<Rightarrow> a))
       else map_of results k)" for k
    using IH notin [of k] unfolding app new
    by (cases "k = pcConditionType pc"; cases "k \<in> pcConditionType ` set pcs")
      (simp_all add: note_lookup agg_entries_def split: option.split)
  then show ?case using IH rep unfolding all by auto
qed

section \<open>Writing the conditions\<close>

lemma options_condition:
  "foldl (\<lambda>c f. f c) (new_condition t (agStatus a)) (condition_options g a) =
    (if agStatus a \<noteq> ConditionTrue
     then (new_condition t (agStatus a))\<lparr>cObservedGeneration := g, cReason := PreConditionFailedReason, cSeverity := agSeverity a,
       cMessage := join_with ''; '' (agMessages a)\<rparr>
     else (new_condition t ConditionTrue)\<lparr>cObservedGeneration := g\<rparr>)"
  by (simp add: condition_options_def option_defs)

text \<open>The condition that is written for an aggregate, up to the times the store manages.\<close>

definition written :: "int \<Rightarrow> conditionAggregate \<Rightarrow> condition \<Rightarrow> bool" where
  "written g a c \<longleftrightarrow> cStatus c = agStatus a \<and> cObservedGeneration c = g \<and>
     (if agStatus a = ConditionTrue then cReason c = '''' \<and> cMessage c = '''' \<and> cSeverity c = ConditionSeverityError
      else cReason c = PreConditionFailedReason \<and> cSeverity c = agSeverity a \<and> cMessage c = join_with ''; '' (agMessages a))"

lemma write_loop_result:
  assumes "arGeneration rr = Some g" and "arConditions rr = Some m" and "pmAccessor m \<noteq> None"
    and "pmHappy m \<notin> set (pmDependents m)" and "distinct (map fst results)"
  shows "\<exists>m'. write_loop rr results stop = Done (rr\<lparr>arConditions := Some m'\<rparr>, stop \<or> (\<exists>(t, a)\<in>set results. agShouldStop a)) \<and>
    pmHappy m' = pmHappy m \<and> pmDependents m' = pmDependents m \<and> (pkg_consistent m \<longrightarrow> pkg_consistent m') \<and>
    (\<forall>t. t \<noteq> pmHappy m \<longrightarrow> (case map_of results t of
        None \<Rightarrow> pkg_GetCondition m' t = pkg_GetCondition m t
      | Some a \<Rightarrow> \<exists>c. pkg_GetCondition m' t = Some c \<and> written g a c))"
  using assms
proof (induction results arbitrary: rr m stop)
  case Nil
  then show ?case by (intro exI [of _ m]) auto
next
  case (Cons r results)
  obtain t a where r: "r = (t, a)" by (cases r)
  let ?c = "foldl (\<lambda>c f. f c) (new_condition t (agStatus a)) (condition_options g a)"
  let ?m = "pkg_SetCondition m ?c"
  let ?rr = "rr\<lparr>arConditions := Some ?m\<rparr>"
  have ct: "cType ?c = t" by (simp add: options_condition)
  obtain d where d: "equals d ?c" and look:
    "\<And>x. x \<noteq> pmHappy m \<Longrightarrow> pkg_GetCondition ?m x = (if x = t then Some d else pkg_GetCondition m x)"
    using SetCondition_lookup [OF Cons.prems(3), of ?c, unfolded ct] by blast
  have wr: "written g a d" using d by (auto simp: written_def equals_def options_condition split: if_splits)
  have step: "write_loop rr (r # results) stop = write_loop ?rr results (if agShouldStop a then True else stop)"
    using Cons.prems(1,2) by (simp add: r pkg_Mark_def)
  have "arGeneration ?rr = Some g" "arConditions ?rr = Some ?m" "pmAccessor ?m \<noteq> None"
    "pmHappy ?m \<notin> set (pmDependents ?m)" "distinct (map fst results)"
    using Cons.prems by simp_all
  from Cons.IH [OF this, of "if agShouldStop a then True else stop"] obtain m' where
    m': "write_loop ?rr results (if agShouldStop a then True else stop) =
        Done (?rr\<lparr>arConditions := Some m'\<rparr>, (if agShouldStop a then True else stop) \<or> (\<exists>(t, a)\<in>set results. agShouldStop a))"
      "pmHappy m' = pmHappy m" "pmDependents m' = pmDependents m" "pkg_consistent ?m \<longrightarrow> pkg_consistent m'"
    and rest: "\<And>x. x \<noteq> pmHappy m \<Longrightarrow> (case map_of results x of
        None \<Rightarrow> pkg_GetCondition m' x = pkg_GetCondition ?m x
      | Some a \<Rightarrow> \<exists>c. pkg_GetCondition m' x = Some c \<and> written g a c)"
    by auto
  have absent: "map_of results t = None" using Cons.prems(5) by (simp add: r map_of_eq_None_iff)
  have "case map_of (r # results) x of
        None \<Rightarrow> pkg_GetCondition m' x = pkg_GetCondition m x
      | Some a \<Rightarrow> \<exists>c. pkg_GetCondition m' x = Some c \<and> written g a c" if "x \<noteq> pmHappy m" for x
    using rest [OF that] look [OF that] absent wr by (cases "x = t") (auto simp: r split: option.splits)
  moreover have "pkg_consistent m \<longrightarrow> pkg_consistent m'"
    using m'(4) SetCondition_consistent [OF Cons.prems(3,4)] by blast
  moreover have "write_loop rr (r # results) stop =
      Done (rr\<lparr>arConditions := Some m'\<rparr>, stop \<or> (\<exists>(t, a)\<in>set (r # results). agShouldStop a))"
    unfolding step m'(1) by (auto simp: r)
  ultimately show ?case using m'(2,3) by blast
qed

lemma entries_status_True: "entries_status es = ConditionTrue \<longleftrightarrow> es = []"
  by (simp add: entries_status_def)

lemma written_entries:
  assumes "written g (agg_entries es new_aggregate) c" and "\<forall>e\<in>set es. reported e"
  shows "cObservedGeneration c = g \<and> cStatus c = entries_status es \<and>
    (es \<noteq> [] \<longrightarrow> cReason c = PreConditionFailedReason \<and> cSeverity c = entries_severity es \<and> cMessage c = entries_message es)"
  using assms(1) agg_entries_sel [OF assms(2)] by (auto simp: written_def entries_status_True split: if_splits)

lemma unhappy_entry:
  assumes "pkg_consistent m" and "t \<in> set (pmDependents m)" and "pkg_GetCondition m t = Some c"
    and "cStatus c = entries_status es" and "cSeverity c = entries_severity es"
    and "e \<in> set es" and "pcSeverity (fst e) = ConditionSeverityError"
  shows "\<not> pkg_IsHappy m"
proof -
  have "cSeverity c = ConditionSeverityError" using assms(5-7) unfolding entries_severity_def by (metis comp_apply image_eqI)
  moreover have "cStatus c = ConditionFalse \<or> cStatus c = ConditionUnknown"
    using assms(4,6) by (auto simp: entries_status_def)
  ultimately have "pkg_unhappy m c" using assms(2,3) by (auto simp: pkg_unhappy_def)
  then show ?thesis using assms(1) by (auto simp: pkg_consistent_def)
qed

text \<open>The results as the loop leaves them: the aggregate of the entries of each type in \<open>T\<close>.\<close>

definition results_of :: "string set \<Rightarrow> 'w pc_entry list \<Rightarrow> pc_results \<Rightarrow> bool" where
  "results_of T entries results \<longleftrightarrow> distinct (map fst results) \<and> (\<forall>e\<in>set entries. reported e \<and> pcConditionType (fst e) \<in> T) \<and>
     (\<forall>k. map_of results k = (if k \<in> T then Some (agg_entries (entries_of k entries) new_aggregate) else None))"

lemma results_of_permuted:
  assumes "results_of T entries results" and "mset results' = mset results"
  shows "results_of T entries results'"
proof -
  have "mset (map fst results') = mset (map fst results)" using assms(2) by simp
  then have "distinct (map fst results')" using assms(1) unfolding results_of_def by (metis mset_eq_imp_distinct_iff)
  moreover have "set results' = set results" using assms(2) by (metis set_mset_mset)
  ultimately have "map_of results' = map_of results" using assms(1) unfolding results_of_def by (metis map_of_inject_set)
  with \<open>distinct (map fst results')\<close> show ?thesis using assms(1) by (simp add: results_of_def)
qed

lemma results_of_eval:
  assumes "foldl (\<lambda>st pc. evalPreCondition ct pc st) (rr, []) pcs = (rr2, results)" and "pc_outcomes ct rr pcs = (rr1, entries)"
  shows "rr2 = rr1 \<and> results_of (pcConditionType ` set pcs) entries results"
  using eval_all [OF assms(1)] by (simp add: assms(2) results_of_def)

lemma results_of_entries: "results_of T entries results \<Longrightarrow> \<forall>e\<in>set (entries_of t entries). reported e"
  by (auto simp: results_of_def entries_of_def)

lemma results_stop:
  assumes R: "results_of T entries results"
  shows "(\<exists>(t, a)\<in>set results. agShouldStop a) \<longleftrightarrow> entries_stop entries"
proof
  assume "\<exists>(t, a)\<in>set results. agShouldStop a"
  then obtain t a where ta: "(t, a) \<in> set results" "agShouldStop a" by blast
  then have "map_of results t = Some a" using R unfolding results_of_def by (metis map_of_is_SomeI)
  then have "entries_stop (entries_of t entries)"
    using R agg_entries_sel [OF results_of_entries [OF R, of t]] ta(2) by (auto simp: results_of_def split: if_splits)
  then show "entries_stop entries" by (force simp: entries_stop_def entries_of_def)
next
  assume "entries_stop entries"
  then obtain e where e: "e \<in> set entries" "pcStopReconciliation (fst e)" by (auto simp: entries_stop_def)
  let ?t = "pcConditionType (fst e)"
  have "e \<in> set (entries_of ?t entries)" using e(1) by (auto simp: entries_of_def)
  then have "entries_stop (entries_of ?t entries)" using e(2) by (auto simp only: entries_stop_def)
  moreover have "map_of results ?t = Some (agg_entries (entries_of ?t entries) new_aggregate)"
    using R e(1) by (simp add: results_of_def)
  ultimately show "\<exists>(t, a)\<in>set results. agShouldStop a"
    using agg_entries_sel [OF results_of_entries [OF R, of ?t]] map_of_SomeD by fastforce
qed

text \<open>What the loop writes for a type.\<close>

definition reports :: "int \<Rightarrow> 'w pc_entry list \<Rightarrow> condition \<Rightarrow> bool" where
  "reports g es c \<longleftrightarrow> cObservedGeneration c = g \<and> cStatus c = entries_status es \<and>
     (es \<noteq> [] \<longrightarrow> cReason c = PreConditionFailedReason \<and> cSeverity c = entries_severity es \<and> cMessage c = entries_message es)"

lemma write_results:
  assumes "arGeneration rr = Some g" "arConditions rr = Some m" "pmAccessor m \<noteq> None" "pmHappy m \<notin> set (pmDependents m)"
    and R: "results_of T entries results"
  shows "\<exists>m'. write_loop rr results False = Done (rr\<lparr>arConditions := Some m'\<rparr>, entries_stop entries) \<and>
    pmDependents m' = pmDependents m \<and> (pkg_consistent m \<longrightarrow> pkg_consistent m') \<and>
    (\<forall>t. t \<noteq> pmHappy m \<longrightarrow> (if t \<in> T then \<exists>c. pkg_GetCondition m' t = Some c \<and> reports g (entries_of t entries) c
       else pkg_GetCondition m' t = pkg_GetCondition m t))"
proof -
  have "distinct (map fst results)" using R by (simp add: results_of_def)
  from write_loop_result [OF assms(1-4) this, of False] obtain m' where
    m': "write_loop rr results False = Done (rr\<lparr>arConditions := Some m'\<rparr>, entries_stop entries)"
      "pmDependents m' = pmDependents m" "pkg_consistent m \<longrightarrow> pkg_consistent m'"
    and look: "\<And>t. t \<noteq> pmHappy m \<Longrightarrow> (case map_of results t of
        None \<Rightarrow> pkg_GetCondition m' t = pkg_GetCondition m t
      | Some a \<Rightarrow> \<exists>c. pkg_GetCondition m' t = Some c \<and> written g a c)"
    unfolding results_stop [OF R] simp_thms by blast
  have "if t \<in> T then \<exists>c. pkg_GetCondition m' t = Some c \<and> reports g (entries_of t entries) c
       else pkg_GetCondition m' t = pkg_GetCondition m t" if "t \<noteq> pmHappy m" for t
    using look [OF that] R written_entries [OF _ results_of_entries [OF R, of t]]
    by (auto simp: results_of_def reports_def)
  then show ?thesis using m' by blast
qed

section \<open>Properties\<close>

text \<open>
  C17: RunAll runs every precondition, in order and on the request its predecessors left, whatever fails. It writes one condition for each
  condition type: False if a check failed, Unknown if none failed but some could not be evaluated, True otherwise, with the
  messages of all of them and the stronger severity. It asks to stop exactly if a reported precondition does. Other
  conditions stay, and a reported precondition of a dependent type with error severity keeps a consistent manager
  from being happy. None of this depends on the order in which Go visits the map of results.
\<close>

theorem RunAll_correct:
  assumes "pcs \<noteq> []" and out: "pc_outcomes clusterType rr pcs = (rr1, entries)"
    and "arGeneration rr1 = Some g" and "arConditions rr1 = Some m" and "pmAccessor m \<noteq> None"
    and "pmHappy m \<notin> set (pmDependents m)" and order: "\<And>xs. mset (order xs) = mset xs"
  shows "\<exists>m'. RunAll order rr clusterType pcs = Done (rr1\<lparr>arConditions := Some m'\<rparr>, entries_stop entries) \<and>
    (\<forall>t\<in>pcConditionType ` set pcs - {pmHappy m}. \<exists>c. pkg_GetCondition m' t = Some c \<and> cObservedGeneration c = g \<and>
       cStatus c = entries_status (entries_of t entries) \<and>
       (entries_of t entries \<noteq> [] \<longrightarrow> cReason c = PreConditionFailedReason \<and>
          cSeverity c = entries_severity (entries_of t entries) \<and> cMessage c = entries_message (entries_of t entries))) \<and>
    (\<forall>t. t \<notin> pcConditionType ` set pcs \<longrightarrow> t \<noteq> pmHappy m \<longrightarrow> pkg_GetCondition m' t = pkg_GetCondition m t) \<and>
    (pkg_consistent m \<longrightarrow> (\<forall>(pc, s, msg)\<in>set entries.
       pcConditionType pc \<in> set (pmDependents m) \<longrightarrow> pcSeverity pc = ConditionSeverityError \<longrightarrow> \<not> pkg_IsHappy m'))"
proof -
  let ?T = "pcConditionType ` set pcs"
  obtain rr2 results where ev: "foldl (\<lambda>st pc. evalPreCondition clusterType pc st) (rr, []) pcs = (rr2, results)" by fastforce
  from results_of_eval [OF this out] have rr2: "rr2 = rr1" and R0: "results_of ?T entries results" by auto
  have R: "results_of ?T entries (order results)" by (rule results_of_permuted [OF R0 order])
  from write_results [OF assms(3-6) R] obtain m' where
    m': "write_loop rr1 (order results) False = Done (rr1\<lparr>arConditions := Some m'\<rparr>, entries_stop entries)"
      "pmDependents m' = pmDependents m" "pkg_consistent m \<longrightarrow> pkg_consistent m'"
    and look: "\<And>t. t \<noteq> pmHappy m \<Longrightarrow> (if t \<in> ?T then \<exists>c. pkg_GetCondition m' t = Some c \<and> reports g (entries_of t entries) c
       else pkg_GetCondition m' t = pkg_GetCondition m t)" by blast
  have run: "RunAll order rr clusterType pcs = Done (rr1\<lparr>arConditions := Some m'\<rparr>, entries_stop entries)"
    using assms(1) m'(1) by (simp add: RunAll_def ev writeConditions_def rr2)
  have cond: "\<exists>c. pkg_GetCondition m' t = Some c \<and> reports g (entries_of t entries) c" if "t \<in> ?T - {pmHappy m}" for t
    using look [of t] that by auto
  have unhappy: "\<not> pkg_IsHappy m'" if "pkg_consistent m" and e: "e \<in> set entries"
    "pcConditionType (fst e) \<in> set (pmDependents m)" "pcSeverity (fst e) = ConditionSeverityError" for e
  proof -
    let ?t = "pcConditionType (fst e)"
    have mem: "e \<in> set (entries_of ?t entries)" using e(1) by (auto simp: entries_of_def)
    have "?t \<in> ?T - {pmHappy m}" using e(1,2) R assms(6) by (auto simp: results_of_def)
    from cond [OF this] mem obtain c where "pkg_GetCondition m' ?t = Some c" "cStatus c = entries_status (entries_of ?t entries)"
      "cSeverity c = entries_severity (entries_of ?t entries)" by (auto simp: reports_def)
    then show ?thesis using unhappy_entry [of m' ?t c "entries_of ?t entries" e] mem e(2,3) m'(2,3) that(1) by simp
  qed
  show ?thesis using run cond look unhappy unfolding reports_def by (intro exI [of _ m'] conjI ballI allI impI) auto
qed

definition ex_gvk :: "string \<Rightarrow> gvk" where
  "ex_gvk k = mk_gvk ''serving.kserve.io'' ''v1'' k"

definition ex_mapper :: "nat rest_mapper" where
  "ex_mapper rr g = (if gKind g = ''InferenceService'' then None else Some (ErrNoMatch ''no matches for kind''))"

definition ex_pre_request :: "nat action_request" where
  "ex_pre_request = \<lparr>arGeneration = Some 3, arConditions = Some ex_pkg, arRest = 0\<rparr>"

definition ex_preconditions :: "nat PreCondition list" where
  "ex_preconditions = [MonitorCRDs ex_mapper [ex_gvk ''InferenceService'', ex_gvk ''Missing''] [WithStopReconciliation],
     MonitorCRD ex_mapper (ex_gvk ''InferenceService'') [WithConditionType ''B''],
     Custom None [WithConditionType ''A'']]"

lemma ex_outcomes:
  "pc_outcomes ''OpenShift'' ex_pre_request ex_preconditions = (ex_pre_request,
    [(ex_preconditions ! 0, ConditionFalse, ''Missing.serving.kserve.io: CRD not found''),
     (ex_preconditions ! 2, ConditionUnknown, ''precondition check function is nil'')])"
  by (simp add: ex_preconditions_def pc_outcome_def check_outcome_def MonitorCRDs_def MonitorCRD_def Custom_def
      newPreCondition_def monitor_check_def ex_mapper_def ex_gvk_def mk_gvk_def WithStopReconciliation_def WithConditionType_def)

theorem RunAll_correct_witness:
  "\<exists>m'. RunAll rev ex_pre_request ''OpenShift'' ex_preconditions = Done (ex_pre_request\<lparr>arConditions := Some m'\<rparr>, True) \<and> \<not> pkg_IsHappy m'"
proof -
  have p: "ex_preconditions \<noteq> []" by (simp add: ex_preconditions_def)
  have "arGeneration ex_pre_request = Some 3" "arConditions ex_pre_request = Some ex_pkg" "pmAccessor ex_pkg \<noteq> None"
    "pmHappy ex_pkg \<notin> set (pmDependents ex_pkg)" "\<And>xs. mset (rev xs) = mset xs"
    by (simp_all add: ex_pre_request_def ex_pkg_def)
  note run = RunAll_correct [OF p ex_outcomes this]
  have stop: "entries_stop [(ex_preconditions ! 0, ConditionFalse, ''Missing.serving.kserve.io: CRD not found''),
     (ex_preconditions ! 2, ConditionUnknown, ''precondition check function is nil'')]"
    by (simp add: entries_stop_def ex_preconditions_def MonitorCRDs_def newPreCondition_def WithStopReconciliation_def)
  have dep: "pcConditionType (ex_preconditions ! 2) \<in> set (pmDependents ex_pkg)"
    "pcSeverity (ex_preconditions ! 2) = ConditionSeverityError" "pkg_consistent ex_pkg"
    by (simp_all add: ex_preconditions_def Custom_def newPreCondition_def WithConditionType_def ex_pkg_def pkg_consistent_def
        pkg_IsHappy_def pkg_IsStatusConditionTrue_def)
  show ?thesis using run stop dep by auto
qed

text \<open>
  the check for CRDs leaves the request alone. It fails on an empty list of kinds and on the first lookup error other than an
  unknown kind; otherwise it passes exactly if every kind is known and reports all the unknown ones in order.
\<close>

theorem monitor_check_outcome:
  "fst (monitor_check mapper gs rr) = rr \<and>
   (gs = [] \<longrightarrow> snd (monitor_check mapper gs rr) = Inl ErrEmptyGVKList) \<and>
   (gs \<noteq> [] \<longrightarrow>
     (case find (\<lambda>g. \<exists>err. mapper rr g = Some err \<and> \<not> is_no_match err) gs of
        Some g \<Rightarrow> snd (monitor_check mapper gs rr) =
          Inl (ErrWrap (gKind g @ ''.'' @ gGroup g @ '': failed to check CRD presence'') (the (mapper rr g)))
      | None \<Rightarrow> \<exists>res. snd (monitor_check mapper gs rr) = Inr res \<and> (crPass res \<longleftrightarrow> (\<forall>g\<in>set gs. mapper rr g = None)) \<and>
          crMessage res = join_with ''; ''
            (map (\<lambda>g. gKind g @ ''.'' @ gGroup g @ '': CRD not found'') (filter (\<lambda>g. mapper rr g \<noteq> None) gs))))"
proof -
  have loop: "missing_crds f gs acc =
    (case find (\<lambda>g. \<exists>err. f g = Some err \<and> \<not> is_no_match err) gs of
       Some g \<Rightarrow> Inl (ErrWrap (gKind g @ ''.'' @ gGroup g @ '': failed to check CRD presence'') (the (f g)))
     | None \<Rightarrow> Inr (acc @ map (\<lambda>g. gKind g @ ''.'' @ gGroup g @ '': CRD not found'') (filter (\<lambda>g. f g \<noteq> None) gs)))" for f acc
    by (induction gs arbitrary: acc) (auto split: option.split)
  have "filter (\<lambda>g. mapper rr g \<noteq> None) gs = [] \<longleftrightarrow> (\<forall>g\<in>set gs. mapper rr g = None)"
    by (simp add: filter_empty_conv)
  then show ?thesis by (auto simp: monitor_check_def loop split: option.split)
qed

theorem monitor_check_outcome_witness:
  "snd (monitor_check ex_mapper [] ex_pre_request) = Inl ErrEmptyGVKList \<and>
   (\<exists>res. snd (monitor_check ex_mapper [ex_gvk ''Missing''] ex_pre_request) = Inr res \<and> \<not> crPass res)"
proof -
  have "find (\<lambda>g. \<exists>err. ex_mapper ex_pre_request g = Some err \<and> \<not> is_no_match err) [ex_gvk ''Missing''] = None"
    by (simp add: ex_mapper_def ex_gvk_def mk_gvk_def)
  moreover have "ex_mapper ex_pre_request (ex_gvk ''Missing'') \<noteq> None" by (simp add: ex_mapper_def ex_gvk_def mk_gvk_def)
  ultimately show ?thesis
    using monitor_check_outcome [of ex_mapper "[]" ex_pre_request] monitor_check_outcome [of ex_mapper "[ex_gvk ''Missing'']" ex_pre_request]
    by auto
qed

end
