(* ===== verification/RenderCache.thy ===== *)
theory RenderCache
  imports Request
begin

text \<open>
  The cache in front of a renderer, in both modules: \<^verbatim>\<open>framework/controller/actions/cacher\<close>,
  \<^verbatim>\<open>framework/controller/actions/resourcecacher\<close> and \<^verbatim>\<open>pkg/render/cacher\<close>. A caching key is a byte string, a nil slice
  being the empty one; key functions and renderers are given by callers and act on a request of any type \<open>'q\<close>.
  The theorems show that a cache is transparent when its key determines what is rendered, over any sequence
  of calls, and that the two implementations agree.
\<close>

section \<open>The framework's cache\<close>

type_synonym ('q, 'a) on_request = "'q \<Rightarrow> 'q \<times> (go_error + 'a)"

record ('q, 't) Cacher =
  ckKeyFn :: "('q, string) on_request option"
  ckKey :: string
  ckResources :: 't

definition cacher_SetKeyFn :: "('q, 't) Cacher \<Rightarrow> ('q, string) on_request option \<Rightarrow> ('q, 't) Cacher" where
  "cacher_SetKeyFn s key = s\<lparr>ckKeyFn := key\<rparr>"

definition InvalidateCache :: "('q, 't) Cacher \<Rightarrow> ('q, 't) Cacher" where
  "InvalidateCache s = s\<lparr>ckKey := ''''\<rparr>"

definition reRender ::
  "('q, 't) Cacher \<Rightarrow> string \<Rightarrow> 'q \<Rightarrow> ('q, 't) on_request \<Rightarrow> ('q, 't) Cacher \<times> 'q \<times> (go_error + 't \<times> bool)" where
  "reRender s cachingKey rr r =
     (case r rr of
        (rr', Inl err) \<Rightarrow> (s, rr', Inl err)
      | (rr', Inr res) \<Rightarrow> (s\<lparr>ckKey := cachingKey, ckResources := res\<rparr>, rr', Inr (res, True)))"

definition errEmptyHash :: go_error where
  "errEmptyHash = ErrNew ''calculated empty hash''"

definition Cacher_Render ::
  "('q, 't) Cacher \<Rightarrow> 'q \<Rightarrow> ('q, 't) on_request \<Rightarrow> ('q, 't) Cacher \<times> 'q \<times> (go_error + 't \<times> bool)" where
  "Cacher_Render s rr r =
     (case ckKeyFn s of
        None \<Rightarrow> reRender s '''' rr r
      | Some cachingKeyFn \<Rightarrow>
          (case cachingKeyFn rr of
             (rr', Inl err) \<Rightarrow> (s, rr', Inl (ErrWrap ''unable to calculate caching key'' err))
           | (rr', Inr cachingKey) \<Rightarrow>
               if length cachingKey = 0 then (s, rr', Inl errEmptyHash)
               else if cachingKey = ckKey s then (s, rr', Inr (ckResources s, False))
               else reRender s cachingKey rr' r))"

text \<open>The cache of rendered resources adds them to the request and flags new ones for garbage collection.\<close>

type_synonym 'w resource_cacher = "('w request, kobj list) Cacher"

definition ResourceCacher_Render ::
  "'w resource_cacher \<Rightarrow> 'w request \<Rightarrow> ('w request, kobj list) on_request \<Rightarrow> 'w resource_cacher \<times> 'w request \<times> go_error option" where
  "ResourceCacher_Render s rr r =
     (case Cacher_Render s rr r of
        (s', rr', Inl err) \<Rightarrow> (s', rr', Some err)
      | (s', rr', Inr (res, acted)) \<Rightarrow>
          let rr1 = (if acted then rr'\<lparr>rrGenerated := True\<rparr> else rr')
          in (s', rr1\<lparr>rrResources := rrResources rr1 @ res\<rparr>, None))"

definition NewResourceCacher :: "'w resource_cacher" where
  "NewResourceCacher = \<lparr>ckKeyFn = None, ckKey = '''', ckResources = []\<rparr>"

section \<open>The cache of the root module\<close>

record 't pkg_Cacher =
  pkKey :: string
  pkResources :: 't

definition pkg_InvalidateCache :: "'t pkg_Cacher \<Rightarrow> 't pkg_Cacher" where
  "pkg_InvalidateCache s = s\<lparr>pkKey := ''''\<rparr>"

definition pkg_reRender ::
  "'t pkg_Cacher \<Rightarrow> string \<Rightarrow> 'q \<Rightarrow> ('q, 't) on_request \<Rightarrow> 't pkg_Cacher \<times> 'q \<times> (go_error + 't \<times> bool)" where
  "pkg_reRender s cachingKey rr r =
     (case r rr of
        (rr', Inl err) \<Rightarrow> (s, rr', Inl err)
      | (rr', Inr res) \<Rightarrow> (s\<lparr>pkKey := cachingKey, pkResources := res\<rparr>, rr', Inr (res, True)))"

definition pkg_Cacher_Render ::
  "'t pkg_Cacher \<Rightarrow> ('q, string) on_request option \<Rightarrow> 'q \<Rightarrow> ('q, 't) on_request \<Rightarrow> 't pkg_Cacher \<times> 'q \<times> (go_error + 't \<times> bool)" where
  "pkg_Cacher_Render s keyFn rr r =
     (case keyFn of
        None \<Rightarrow> pkg_reRender s '''' rr r
      | Some fn \<Rightarrow>
          (case fn rr of
             (rr', Inl err) \<Rightarrow> (s, rr', Inl (ErrWrap ''unable to calculate caching key'' err))
           | (rr', Inr cachingKey) \<Rightarrow>
               if length cachingKey = 0 then (s, rr', Inl errEmptyHash)
               else if cachingKey = pkKey s then (s, rr', Inr (pkResources s, False))
               else pkg_reRender s cachingKey rr' r))"

text \<open>The request of the root module's renderers.\<close>

record pkg_ManifestInfo =
  pmiPath :: string
  pmiContextDir :: string
  pmiSourcePath :: string

definition pkg_ManifestInfo_String :: "pkg_ManifestInfo \<Rightarrow> string" where
  "pkg_ManifestInfo_String mi =
     (let r1 = pmiPath mi;
          r2 = (if pmiContextDir mi \<noteq> '''' then r1 @ ''/'' @ pmiContextDir mi else r1)
      in if pmiSourcePath mi \<noteq> '''' then r2 @ ''/'' @ pmiSourcePath mi else r2)"

record 'w render_request =
  rqWorld :: 'w
  rqInstance :: kobj
  rqResources :: "kobj list"
  rqManifests :: "pkg_ManifestInfo list"
  rqTemplates :: "TemplateInfo list"
  rqHelmCharts :: "HelmChartInfo list"
  rqGenerated :: bool

record 'w pkg_ResourceCacher =
  prCacher :: "kobj list pkg_Cacher"
  prKeyFn :: "('w render_request, string) on_request option"

definition pkg_NewResourceCacher :: "'w pkg_ResourceCacher" where
  "pkg_NewResourceCacher = \<lparr>prCacher = \<lparr>pkKey = '''', pkResources = []\<rparr>, prKeyFn = None\<rparr>"

definition pkg_SetKeyFn :: "'w pkg_ResourceCacher \<Rightarrow> ('w render_request, string) on_request option \<Rightarrow> 'w pkg_ResourceCacher" where
  "pkg_SetKeyFn s key = s\<lparr>prKeyFn := key\<rparr>"

definition pkg_ResourceCacher_Render ::
  "'w pkg_ResourceCacher \<Rightarrow> 'w render_request \<Rightarrow> ('w render_request, kobj list) on_request \<Rightarrow>
     'w pkg_ResourceCacher \<times> 'w render_request \<times> go_error option" where
  "pkg_ResourceCacher_Render s rr r =
     (case pkg_Cacher_Render (prCacher s) (prKeyFn s) rr r of
        (c, rr', Inl err) \<Rightarrow> (s\<lparr>prCacher := c\<rparr>, rr', Some err)
      | (c, rr', Inr (res, acted)) \<Rightarrow>
          let rr1 = (if acted then rr'\<lparr>rqGenerated := True\<rparr> else rr')
          in (s\<lparr>prCacher := c\<rparr>, rr1\<lparr>rqResources := rqResources rr1 @ res\<rparr>, None))"

text \<open>What the root module's \<^verbatim>\<open>Hash\<close> writes into SHA-256; the writer of the hash never fails.\<close>

definition pkg_hash_manifests :: "'w render_request \<Rightarrow> string list" where
  "pkg_hash_manifests rr = map pkg_ManifestInfo_String (rqManifests rr) @ map tiPath (rqTemplates rr)"

fun pkg_hash_charts :: "(json \<Rightarrow> go_error + string) \<Rightarrow> HelmChartInfo list \<Rightarrow> go_error + string list" where
  "pkg_hash_charts marshal [] = Inr []"
| "pkg_hash_charts marshal (c # cs) =
     (let values = (case hcValues c of
            None \<Rightarrow> Inr []
          | Some (Inl err) \<Rightarrow> Inl (ErrWrap ''failed to get helm chart values'' err)
          | Some (Inr v) \<Rightarrow>
              (case marshal v of Inl err \<Rightarrow> Inl (ErrWrap ''failed to hash helm chart values'' err) | Inr b \<Rightarrow> Inr [b]))
      in case values of
           Inl err \<Rightarrow> Inl err
         | Inr b \<Rightarrow>
             (case pkg_hash_charts marshal cs of
                Inl err \<Rightarrow> Inl err
              | Inr rest \<Rightarrow> Inr (hcChart c # hcReleaseName c # b @ rest)))"

definition render_Hash :: "(json \<Rightarrow> go_error + string) \<Rightarrow> (string \<Rightarrow> string) \<Rightarrow> 'w render_request \<Rightarrow> go_error + string" where
  "render_Hash marshal sha256 rr =
     (case pkg_hash_charts marshal (rqHelmCharts rr) of
        Inl err \<Rightarrow> Inl err
      | Inr charts \<Rightarrow> Inr (sha256 (concat ([oUID (rqInstance rr), varint_buffer (oGeneration (rqInstance rr))] @
          pkg_hash_manifests rr @ charts))))"


section \<open>What a keyed cache promises\<close>

text \<open>
  The contract of a cache with a key function: a hit returns what is stored, a miss renders and stores, and an error changes
  nothing. \<open>good\<close> is what an implementation needs of its state.
\<close>

datatype 'q cache_op = RenderOp 'q | InvalidateOp

fun cache_run ::
  "('s \<Rightarrow> 'q \<Rightarrow> 's \<times> 'q \<times> (go_error + 't \<times> bool)) \<Rightarrow> ('s \<Rightarrow> 's) \<Rightarrow> 's \<Rightarrow> 'q cache_op list \<Rightarrow> 's \<times> ('q \<times> (go_error + 't \<times> bool)) list" where
  "cache_run call invalidate s [] = (s, [])"
| "cache_run call invalidate s (InvalidateOp # ops) = cache_run call invalidate (invalidate s) ops"
| "cache_run call invalidate s (RenderOp rr # ops) =
     (case call s rr of (s', rr', res) \<Rightarrow>
        (case cache_run call invalidate s' ops of (s'', out) \<Rightarrow> (s'', (rr, res) # out)))"

text \<open>The key determines the rendered content, and what is stored is the content of its key.\<close>

definition determines :: "('q, string) on_request \<Rightarrow> ('q, 't) on_request \<Rightarrow> (string \<Rightarrow> 't) \<Rightarrow> bool" where
  "determines key rend content \<longleftrightarrow> (\<forall>q q' q'' k t. key q = (q', Inr k) \<longrightarrow> rend q' = (q'', Inr t) \<longrightarrow> t = content k)"

definition cache_valid :: "('s \<Rightarrow> string \<times> 't) \<Rightarrow> ('s \<Rightarrow> bool) \<Rightarrow> (string \<Rightarrow> 't) \<Rightarrow> 's \<Rightarrow> bool" where
  "cache_valid stored good content s \<longleftrightarrow> good s \<and> (fst (stored s) \<noteq> '''' \<longrightarrow> snd (stored s) = content (fst (stored s)))"

locale keyed_cache =
  fixes key :: "('q, string) on_request"
    and rend :: "('q, 't) on_request"
    and call :: "'s \<Rightarrow> 'q \<Rightarrow> 's \<times> 'q \<times> (go_error + 't \<times> bool)"
    and invalidate :: "'s \<Rightarrow> 's"
    and stored :: "'s \<Rightarrow> string \<times> 't"
    and good :: "'s \<Rightarrow> bool"
  assumes key_error: "good s \<Longrightarrow> key rr = (rr', Inl e) \<Longrightarrow> \<exists>e'. call s rr = (s, rr', Inl e')"
    and key_empty: "good s \<Longrightarrow> key rr = (rr', Inr '''') \<Longrightarrow> \<exists>e'. call s rr = (s, rr', Inl e')"
    and hit: "good s \<Longrightarrow> key rr = (rr', Inr k) \<Longrightarrow> k \<noteq> '''' \<Longrightarrow> fst (stored s) = k \<Longrightarrow> call s rr = (s, rr', Inr (snd (stored s), False))"
    and miss: "good s \<Longrightarrow> key rr = (rr', Inr k) \<Longrightarrow> k \<noteq> '''' \<Longrightarrow> fst (stored s) \<noteq> k \<Longrightarrow> rend rr' = (rr'', Inr t) \<Longrightarrow>
      \<exists>s'. call s rr = (s', rr'', Inr (t, True)) \<and> stored s' = (k, t) \<and> good s'"
    and miss_error: "good s \<Longrightarrow> key rr = (rr', Inr k) \<Longrightarrow> k \<noteq> '''' \<Longrightarrow> fst (stored s) \<noteq> k \<Longrightarrow> rend rr' = (rr'', Inl e) \<Longrightarrow>
      call s rr = (s, rr'', Inl e)"
    and invalidated: "good s \<Longrightarrow> good (invalidate s) \<and> fst (stored (invalidate s)) = ''''"
begin

lemma call_valid:
  assumes "determines key rend content" and v: "cache_valid stored good content s" and c: "call s rr = (s', rr', res)"
  shows "cache_valid stored good content s' \<and> (\<forall>t acted. res = Inr (t, acted) \<longrightarrow> (\<exists>q k. key rr = (q, Inr k) \<and> k \<noteq> '''' \<and> t = content k))"
proof -
  have i: "good s" using v by (simp add: cache_valid_def)
  obtain q kr where k: "key rr = (q, kr)" by fastforce
  show ?thesis
  proof (cases kr)
    case (Inl e)
    then show ?thesis using key_error [OF i] k c v by fastforce
  next
    case (Inr key1)
    show ?thesis
    proof (cases "key1 = ''''")
      case True
      then show ?thesis using key_empty [OF i] k Inr c v by fastforce
    next
      case ne: False
      obtain q2 rr1 where r: "rend q = (q2, rr1)" by fastforce
      consider (hit) "fst (stored s) = key1" | (ok) t where "fst (stored s) \<noteq> key1" "rr1 = Inr t"
        | (err) e where "fst (stored s) \<noteq> key1" "rr1 = Inl e" by (cases rr1) auto
      then show ?thesis
      proof cases
        case hit
        then show ?thesis using keyed_cache.hit [OF keyed_cache_axioms i] k Inr ne c v by (auto simp: cache_valid_def)
      next
        case ok
        then have t: "t = content key1" using assms(1) k Inr r unfolding determines_def by blast
        from miss [OF i k [unfolded Inr] ne ok(1) r [unfolded ok(2)]] obtain s1 where
          "call s rr = (s1, q2, Inr (t, True))" "stored s1 = (key1, t)" "good s1" by blast
        then show ?thesis using c t k Inr ne by (auto simp: cache_valid_def)
      next
        case err
        then show ?thesis using miss_error [OF i k [unfolded Inr] ne] r c v by auto
      qed
    qed
  qed
qed

lemma invalidate_valid: "cache_valid stored good content s \<Longrightarrow> cache_valid stored good content (invalidate s)"
  using invalidated by (simp add: cache_valid_def)

lemma run_transparent:
  assumes "determines key rend content" and "cache_valid stored good content s" and "cache_run call invalidate s ops = (s', out)"
    and "(rr, Inr (t, acted)) \<in> set out"
  shows "\<exists>q k. key rr = (q, Inr k) \<and> t = content k"
  using assms(2-4)
proof (induction ops arbitrary: s out)
  case (Cons op ops)
  show ?case
  proof (cases op)
    case (RenderOp rr1)
    obtain s1 rr2 res where c: "call s rr1 = (s1, rr2, res)" by (metis surj_pair)
    obtain s2 out2 where r: "cache_run call invalidate s1 ops = (s2, out2)" by (metis surj_pair)
    have out: "out = (rr1, res) # out2" "s2 = s'" using Cons.prems(2) by (simp_all add: RenderOp c r)
    note v = call_valid [OF assms(1) Cons.prems(1) c]
    show ?thesis
    proof (cases "(rr, Inr (t, acted)) \<in> set out2")
      case True
      then show ?thesis using Cons.IH [of s1 out2] v r out(2) by simp
    next
      case False
      then show ?thesis using Cons.prems(3) out(1) v by auto
    qed
  next
    case InvalidateOp
    then show ?thesis using Cons.IH [OF invalidate_valid [OF Cons.prems(1)]] Cons.prems(2,3) by simp
  qed
qed simp

end

section \<open>Both caches keep the contract\<close>

interpretation fw_cache: keyed_cache key rend "\<lambda>s rr. Cacher_Render s rr rend" InvalidateCache
  "\<lambda>s. (ckKey s, ckResources s)" "\<lambda>s. ckKeyFn s = Some key" for key rend
  by unfold_locales (auto simp: Cacher_Render_def reRender_def InvalidateCache_def)

interpretation root_cache: keyed_cache key rend "\<lambda>s rr. pkg_Cacher_Render s (Some key) rr rend" pkg_InvalidateCache
  "\<lambda>s. (pkKey s, pkResources s)" "\<lambda>s. True" for key rend
  by unfold_locales (auto simp: pkg_Cacher_Render_def pkg_reRender_def pkg_InvalidateCache_def)

text \<open>The framework's cache is the root module's with the key function in its state.\<close>

lemma caches_agree:
  "Cacher_Render s rr r =
    (case pkg_Cacher_Render \<lparr>pkKey = ckKey s, pkResources = ckResources s\<rparr> (ckKeyFn s) rr r of
       (c, rr', res) \<Rightarrow> (s\<lparr>ckKey := pkKey c, ckResources := pkResources c\<rparr>, rr', res))"
  by (auto simp: Cacher_Render_def pkg_Cacher_Render_def reRender_def pkg_reRender_def split: option.split prod.split sum.split)

section \<open>Properties\<close>

definition ex_key :: "(nat, string) on_request" where
  "ex_key q = (q, if q = 0 then Inl (ErrNew ''no instance'') else Inr [CHR ''k'', char_of (q mod 2)])"

definition ex_rend :: "(nat, nat list) on_request" where
  "ex_rend q = (q + 1, Inr [q mod 2])"

definition ex_cacher :: "(nat, nat list) Cacher" where
  "ex_cacher = \<lparr>ckKeyFn = Some ex_key, ckKey = '''', ckResources = []\<rparr>"

text \<open>
  C29: if the caching key determines what the renderer returns, the cache is transparent: over any sequence of renderings and
  invalidations that starts with an empty cache, every successful rendering returns the content of the key of its own request,
  in both implementations.
\<close>

theorem cache_transparent:
  assumes det: "\<And>q q' q'' k t. key q = (q', Inr k) \<Longrightarrow> rend q' = (q'', Inr t) \<Longrightarrow> t = content k"
    and "ckKeyFn s = Some key" and "ckKey s = ''''" and "pkKey c = ''''"
  shows "list_all (\<lambda>(rr, res). case res of Inl _ \<Rightarrow> True | Inr (t, acted) \<Rightarrow> \<exists>q k. key rr = (q, Inr k) \<and> t = content k)
      (snd (cache_run (\<lambda>s rr. Cacher_Render s rr rend) InvalidateCache s ops) @
       snd (cache_run (\<lambda>s rr. pkg_Cacher_Render s (Some key) rr rend) pkg_InvalidateCache c ops))"
proof -
  have d: "determines key rend content" unfolding determines_def using det by blast
  have v: "cache_valid (\<lambda>s. (ckKey s, ckResources s)) (\<lambda>s. ckKeyFn s = Some key) content s"
    "cache_valid (\<lambda>s. (pkKey s, pkResources s)) (\<lambda>s. True) content c"
    using assms(2-4) by (simp_all add: cache_valid_def)
  obtain s1 out1 where o1: "cache_run (\<lambda>s rr. Cacher_Render s rr rend) InvalidateCache s ops = (s1, out1)" by fastforce
  obtain c1 out2 where o2: "cache_run (\<lambda>s rr. pkg_Cacher_Render s (Some key) rr rend) pkg_InvalidateCache c ops = (c1, out2)" by fastforce
  show ?thesis
    using fw_cache.run_transparent [OF d v(1) o1] root_cache.run_transparent [OF d v(2) o2]
    by (auto simp: o1 o2 list_all_iff split: sum.split)
qed

theorem cache_transparent_witness:
  "snd (cache_run (\<lambda>s rr. Cacher_Render s rr ex_rend) InvalidateCache ex_cacher [RenderOp 1, RenderOp 3, InvalidateOp, RenderOp 0]) =
     [(1, Inr ([1], True)), (3, Inr ([1], False)), (0, Inl (ErrWrap ''unable to calculate caching key'' (ErrNew ''no instance'')))] \<and>
   ([1] :: nat list) = (\<lambda>k. [of_char (k ! 1)]) [CHR ''k'', char_of (1 :: nat)]"
proof -
  let ?content = "\<lambda>k. [of_char (k ! 1) :: nat]"
  have det: "\<And>q q' q'' k t. ex_key q = (q', Inr k) \<Longrightarrow> ex_rend q' = (q'', Inr t) \<Longrightarrow> t = ?content k"
    by (auto simp: ex_key_def ex_rend_def split: if_splits)
  have run: "snd (cache_run (\<lambda>s rr. Cacher_Render s rr ex_rend) InvalidateCache ex_cacher [RenderOp 1, RenderOp 3, InvalidateOp, RenderOp 0]) =
     [(1, Inr ([1], True)), (3, Inr ([1], False)), (0, Inl (ErrWrap ''unable to calculate caching key'' (ErrNew ''no instance'')))]"
    by (simp add: Cacher_Render_def reRender_def InvalidateCache_def ex_cacher_def ex_key_def ex_rend_def)
  have "ckKeyFn ex_cacher = Some ex_key" "ckKey ex_cacher = ''''" "pkKey \<lparr>pkKey = '''', pkResources = []\<rparr> = ''''"
    by (simp_all add: ex_cacher_def)
  from cache_transparent [OF det this, where ops = "[RenderOp 1, RenderOp 3, InvalidateOp, RenderOp 0]"] run show ?thesis
    by (auto simp: ex_key_def)
qed

end
