(* ===== verification/StatusUpdate.thy ===== *)
theory StatusUpdate
  imports GoErrors
begin

text \<open>
  \<^verbatim>\<open>pkg/status/update.go\<close>: updating the status of an object with retries on conflict. The client's \<^verbatim>\<open>Get\<close> and
  \<^verbatim>\<open>Status().Update\<close> are functions on the cluster \<open>'w\<close> that read or write the caller's object \<open>'ob\<close>;
  \<open>scKey\<close> is \<^verbatim>\<open>client.ObjectKeyFromObject\<close>.
\<close>

section \<open>The update\<close>

definition defaultMaxRetries :: int where "defaultMaxRetries = 5"

definition ErrRetriesExhausted :: go_error where
  "ErrRetriesExhausted = ErrSentinel (''conflict retries exhausted:'' @ '' the object was modified by another actor on every attempt'')"

definition ErrNilMutateFn :: go_error where
  "ErrNilMutateFn = ErrSentinel ''mutateFn must not be nil''"

record update_options =
  uoMaxRetries :: int

definition su_WithMaxRetries :: "int \<Rightarrow> update_options \<Rightarrow> update_options" where
  "su_WithMaxRetries n uo = uo\<lparr>uoMaxRetries := n\<rparr>"

record ('w, 'ob) status_client =
  scKey :: "'ob \<Rightarrow> string \<times> string"
  scGet :: "'w \<Rightarrow> string \<times> string \<Rightarrow> 'ob \<Rightarrow> 'w \<times> 'ob \<times> go_error option"
  scUpdate :: "'w \<Rightarrow> 'ob \<Rightarrow> 'w \<times> 'ob \<times> go_error option"

definition IsConflict :: "go_error \<Rightarrow> bool" where
  "IsConflict e \<longleftrightarrow> reason_for e = Some Conflict"

text \<open>\<^verbatim>\<open>fmt.Errorf("%w: %w", ErrRetriesExhausted, lastErr)\<close>; a nil \<open>lastErr\<close> prints as a bad verb and wraps nothing.\<close>

definition exhausted :: "go_error option \<Rightarrow> go_error" where
  "exhausted lastErr =
     (case lastErr of
        Some e \<Rightarrow> ErrPair ErrRetriesExhausted e
      | None \<Rightarrow> ErrSuffix ErrRetriesExhausted '': %!w(<nil>)'')"

text \<open>The loop with \<open>n\<close> attempts left. The attempts are counted by an unbounded number: the counter of the code wraps only when the number of retries is the largest int.\<close>

fun update_loop ::
  "('w, 'ob) status_client \<Rightarrow> string \<times> string \<Rightarrow> ('ob \<Rightarrow> 'ob) \<Rightarrow> nat \<Rightarrow> bool \<Rightarrow> 'w \<Rightarrow> 'ob \<Rightarrow> go_error option \<Rightarrow> 'w \<times> 'ob \<times> go_error option" where
  "update_loop c key mutate 0 first w obj lastErr = (w, obj, Some (exhausted lastErr))"
| "update_loop c key mutate (Suc n) first w obj lastErr =
     (case (if first then (w, obj, None) else scGet c w key obj) of
        (w1, obj1, Some err) \<Rightarrow> (w1, obj1, Some (ErrWrap ''re-reading object for status update retry'' err))
      | (w1, obj1, None) \<Rightarrow>
          (case scUpdate c w1 (mutate obj1) of
             (w2, obj2, None) \<Rightarrow> (w2, obj2, None)
           | (w2, obj2, Some err) \<Rightarrow>
               if \<not> IsConflict err then (w2, obj2, Some (ErrWrap ''updating status'' err))
               else update_loop c key mutate n False w2 obj2 (Some err)))"

definition Update ::
  "('w, 'ob) status_client \<Rightarrow> 'w \<Rightarrow> 'ob \<Rightarrow> ('ob \<Rightarrow> 'ob) option \<Rightarrow> (update_options \<Rightarrow> update_options) list \<Rightarrow> 'w \<times> 'ob \<times> go_error option" where
  "Update c w obj mutateFn opts =
     (case mutateFn of
        None \<Rightarrow> (w, obj, Some ErrNilMutateFn)
      | Some mutate \<Rightarrow>
          let cfg = foldl (\<lambda>uo opt. opt uo) \<lparr>uoMaxRetries = defaultMaxRetries\<rparr> opts;
              key = scKey c obj
          in update_loop c key mutate (nat (uoMaxRetries cfg + 1)) True w obj None)"

section \<open>Attempts\<close>

text \<open>One attempt: the object that is sent, and whether the attempt is a conflict that leads to another one.\<close>

definition attempt_base :: "('w, 'ob) status_client \<Rightarrow> string \<times> string \<Rightarrow> bool \<Rightarrow> 'w \<Rightarrow> 'ob \<Rightarrow> 'w \<times> 'ob \<times> go_error option" where
  "attempt_base c key first w obj = (if first then (w, obj, None) else scGet c w key obj)"

text \<open>
  \<open>retried c key mutate k first w obj = Some (w', obj')\<close>: the first \<open>k\<close> attempts re-read the object, changed it, and were all rejected
  as conflicts; \<open>w'\<close> and \<open>obj'\<close> are what they leave.
\<close>

fun retried :: "('w, 'ob) status_client \<Rightarrow> string \<times> string \<Rightarrow> ('ob \<Rightarrow> 'ob) \<Rightarrow> nat \<Rightarrow> bool \<Rightarrow> 'w \<Rightarrow> 'ob \<Rightarrow> ('w \<times> 'ob) option" where
  "retried c key mutate 0 first w obj = Some (w, obj)"
| "retried c key mutate (Suc k) first w obj =
     (case attempt_base c key first w obj of
        (w1, obj1, Some e) \<Rightarrow> None
      | (w1, obj1, None) \<Rightarrow>
          (case scUpdate c w1 (mutate obj1) of
             (w2, obj2, None) \<Rightarrow> None
           | (w2, obj2, Some e) \<Rightarrow> if IsConflict e then retried c key mutate k False w2 obj2 else None))"

text \<open>The outcome of the attempt after \<open>k\<close> retried ones.\<close>

definition attempt :: "('w, 'ob) status_client \<Rightarrow> string \<times> string \<Rightarrow> ('ob \<Rightarrow> 'ob) \<Rightarrow> bool \<Rightarrow> 'w \<Rightarrow> 'ob \<Rightarrow> 'w \<times> 'ob \<times> go_error option" where
  "attempt c key mutate first w obj =
     (case attempt_base c key first w obj of
        (w1, obj1, Some err) \<Rightarrow> (w1, obj1, Some (ErrWrap ''re-reading object for status update retry'' err))
      | (w1, obj1, None) \<Rightarrow>
          (case scUpdate c w1 (mutate obj1) of
             (w2, obj2, None) \<Rightarrow> (w2, obj2, None)
           | (w2, obj2, Some err) \<Rightarrow> (w2, obj2, Some (ErrWrap ''updating status'' err))))"

lemma loop_after_retries:
  assumes "retried c key mutate k first w obj = Some (w', obj')" and "k \<le> n"
  shows "\<exists>e. update_loop c key mutate n first w obj lastErr = update_loop c key mutate (n - k) (first \<and> k = 0) w' obj' e \<and>
    (k = 0 \<longrightarrow> e = lastErr) \<and> (k \<noteq> 0 \<longrightarrow> (\<exists>x. e = Some x \<and> IsConflict x))"
  using assms
proof (induction k arbitrary: n first w obj lastErr)
  case (Suc k)
  then obtain n' where n: "n = Suc n'" by (cases n) auto
  obtain w1 obj1 where b: "attempt_base c key first w obj = (w1, obj1, None)"
    using Suc.prems(1) by (auto split: prod.splits option.splits)
  obtain w2 obj2 e where u: "scUpdate c w1 (mutate obj1) = (w2, obj2, Some e)" "IsConflict e"
    and r: "retried c key mutate k False w2 obj2 = Some (w', obj')"
    using Suc.prems(1) by (auto simp: b split: prod.splits option.splits if_splits)
  have "update_loop c key mutate n first w obj lastErr = update_loop c key mutate n' False w2 obj2 (Some e)"
    using b u by (auto simp: n attempt_base_def)
  then show ?case using Suc.IH [OF r, of n' "Some e"] Suc.prems(2) u(2) n by (cases "k = 0") auto
qed auto

lemma loop_final:
  assumes "attempt c key mutate first w obj = (w', obj', r)" and "retried c key mutate 1 first w obj = None"
  shows "update_loop c key mutate (Suc n) first w obj lastErr = (w', obj', r)"
  using assms by (auto simp: attempt_def attempt_base_def split: prod.splits option.splits if_splits)

text \<open>Either every attempt is retried or some attempt is the last.\<close>

lemma retried_split:
  obtains (all) w' obj' where "retried c key mutate n first w obj = Some (w', obj')"
    | (last) k w' obj' where "k < n" "retried c key mutate k first w obj = Some (w', obj')" "retried c key mutate 1 (first \<and> k = 0) w' obj' = None"
proof -
  have "(\<exists>w' obj'. retried c key mutate n first w obj = Some (w', obj')) \<or>
    (\<exists>k w' obj'. k < n \<and> retried c key mutate k first w obj = Some (w', obj') \<and> retried c key mutate 1 (first \<and> k = 0) w' obj' = None)"
  proof (induction n arbitrary: first w obj)
    case (Suc n)
    show ?case
    proof (cases "retried c key mutate 1 first w obj")
      case None
      then show ?thesis by (intro disjI2 exI [of _ 0]) auto
    next
      case (Some p)
      obtain w2 obj2 where p: "p = (w2, obj2)" by (cases p)
      have step: "retried c key mutate (Suc k) first w obj = retried c key mutate k False w2 obj2" for k
        using Some by (auto simp: p split: prod.splits option.splits if_splits)
      from Suc [of False w2 obj2] show ?thesis
      proof (elim disjE exE conjE)
        fix k w' obj' assume "k < n" "retried c key mutate k False w2 obj2 = Some (w', obj')" "retried c key mutate 1 (False \<and> k = 0) w' obj' = None"
        then show ?thesis by (intro disjI2 exI [of _ "Suc k"] exI [of _ w'] exI [of _ obj']) (simp_all add: step del: retried.simps)
      qed (auto simp: step simp del: retried.simps)
    qed
  qed auto
  then show thesis using that by blast
qed

text \<open>A client that counts the updates it is asked for.\<close>

definition counted :: "('w, 'ob) status_client \<Rightarrow> ('w \<times> nat, 'ob) status_client" where
  "counted c = \<lparr>scKey = scKey c, scGet = (\<lambda>(w, n) key obj. case scGet c w key obj of (w', obj', e) \<Rightarrow> ((w', n), obj', e)),
     scUpdate = (\<lambda>(w, n) obj. case scUpdate c w obj of (w', obj', e) \<Rightarrow> ((w', Suc n), obj', e))\<rparr>"

lemma counted_loop:
  "\<exists>j\<le>n. update_loop (counted c) key mutate n first (w, i) obj lastErr =
     (case update_loop c key mutate n first w obj lastErr of (w', obj', r) \<Rightarrow> ((w', i + j), obj', r))"
proof (induction n arbitrary: first w i obj lastErr)
  case (Suc n)
  obtain w1 obj1 e1 where b: "(if first then (w, obj, None) else scGet c w key obj) = (w1, obj1, e1)" by (metis surj_pair)
  then have b': "(if first then ((w, i), obj, None) else scGet (counted c) (w, i) key obj) = ((w1, i), obj1, e1)"
    by (auto simp: counted_def split: if_splits)
  obtain w2 obj2 e2 where u: "scUpdate c w1 (mutate obj1) = (w2, obj2, e2)" by (metis surj_pair)
  then have u': "scUpdate (counted c) (w1, i) (mutate obj1) = ((w2, Suc i), obj2, e2)" by (simp add: counted_def)
  show ?case
  proof (cases "e1 = None \<and> (\<exists>e. e2 = Some e \<and> IsConflict e)")
    case True
    then obtain e where e: "e1 = None" "e2 = Some e" "IsConflict e" by auto
    have "\<exists>j\<le>n. update_loop (counted c) key mutate n False (w2, Suc i) obj2 (Some e) =
        (case update_loop c key mutate n False w2 obj2 (Some e) of (w', obj', r) \<Rightarrow> ((w', Suc i + j), obj', r))" by (rule Suc)
    then obtain j where "j \<le> n" "update_loop (counted c) key mutate n False (w2, Suc i) obj2 (Some e) =
        (case update_loop c key mutate n False w2 obj2 (Some e) of (w', obj', r) \<Rightarrow> ((w', Suc i + j), obj', r))" by blast
    then show ?thesis unfolding update_loop.simps b b' using e u u' by (intro exI [of _ "Suc j"]) simp
  next
    case False
    then show ?thesis unfolding update_loop.simps b b'
      by (cases e1; cases e2) (auto simp: u u' intro: exI [of _ 0] exI [of _ "Suc 0"])
  qed
qed auto

section \<open>Properties\<close>

text \<open>
  C37: an update with at most m retries ends after at most m + 1 attempts. Each attempt but the first re-reads the object under the key it had at the start, and
  only a conflict leads to another one: the result is the outcome of the first attempt that is not a conflict, or the error for
  exhausted retries with the last conflict if all m + 1 attempts are. A negative number of retries makes no attempt at all.
\<close>

theorem status_update_outcome:
  assumes "Update c w obj (Some mutate) [su_WithMaxRetries m] = (w', obj', r)"
  shows "(m < 0 \<longrightarrow> w' = w \<and> obj' = obj \<and> (\<exists>e. r = Some e \<and> is_sentinel (err_msg ErrRetriesExhausted) e)) \<and>
    (0 \<le> m \<longrightarrow>
      (\<exists>k wk obk. int k \<le> m \<and> retried c (scKey c obj) mutate k True w obj = Some (wk, obk) \<and> retried c (scKey c obj) mutate 1 (k = 0) wk obk = None \<and>
         attempt c (scKey c obj) mutate (k = 0) wk obk = (w', obj', r)) \<or>
      (\<exists>e. retried c (scKey c obj) mutate (nat m + 1) True w obj = Some (w', obj') \<and> r = Some (ErrPair ErrRetriesExhausted e) \<and> IsConflict e)) \<and>
    (\<exists>j. int j \<le> max 0 (m + 1) \<and> Update (counted c) (w, 0) obj (Some mutate) [su_WithMaxRetries m] = ((w', j), obj', r))"
proof -
  let ?key = "scKey c obj"
  have loop: "Update d v obj (Some mutate) [su_WithMaxRetries m] = update_loop d (scKey d obj) mutate (nat (m + 1)) True v obj None" for d v
    by (simp add: Update_def su_WithMaxRetries_def)
  note run = assms [unfolded loop]
  have "\<exists>j. int j \<le> max 0 (m + 1) \<and> Update (counted c) (w, 0) obj (Some mutate) [su_WithMaxRetries m] = ((w', j), obj', r)"
    using counted_loop [of "nat (m + 1)" c ?key mutate True w 0 obj None] unfolding loop run by (fastforce simp: counted_def)
  moreover have "w' = w \<and> obj' = obj \<and> (\<exists>e. r = Some e \<and> is_sentinel (err_msg ErrRetriesExhausted) e)" if "m < 0"
  proof -
    have "nat (m + 1) = 0" using that by simp
    then show ?thesis using run by (auto simp: exhausted_def ErrRetriesExhausted_def)
  qed
  moreover have "(\<exists>k wk obk. int k \<le> m \<and> retried c ?key mutate k True w obj = Some (wk, obk) \<and> retried c ?key mutate 1 (k = 0) wk obk = None \<and>
         attempt c ?key mutate (k = 0) wk obk = (w', obj', r)) \<or>
      (\<exists>e. retried c ?key mutate (nat m + 1) True w obj = Some (w', obj') \<and> r = Some (ErrPair ErrRetriesExhausted e) \<and> IsConflict e)" if m: "0 \<le> m"
  proof (cases rule: retried_split [of c ?key mutate "nat m + 1" True w obj])
    case (all w1 obj1)
    then obtain e where "update_loop c ?key mutate (nat m + 1) True w obj None = (w1, obj1, Some (exhausted e))" "\<exists>x. e = Some x \<and> IsConflict x"
      using loop_after_retries [OF all order_refl, of None] by auto
    moreover have "nat (m + 1) = nat m + 1" using m by simp
    ultimately show ?thesis using run all by (auto simp: exhausted_def)
  next
    case (last k wk obk)
    then have "k \<le> nat (m + 1)" "int k \<le> m" using m by linarith+
    from loop_after_retries [OF last(2) this(1), of None] obtain e where
      l: "update_loop c ?key mutate (nat (m + 1)) True w obj None = update_loop c ?key mutate (nat (m + 1) - k) (k = 0) wk obk e" by auto
    obtain x y z where a: "attempt c ?key mutate (k = 0) wk obk = (x, y, z)" by (metis surj_pair)
    have "nat (m + 1) - k = Suc (nat m - k)" using m last(1) by simp
    then have "(x, y, z) = (w', obj', r)" using loop_final [OF a] last(3) run l by simp
    then show ?thesis using a last \<open>int k \<le> m\<close> by auto
  qed
  ultimately show ?thesis by blast
qed

text \<open>A counter whose writes conflict until it has been re-read twice.\<close>

definition ex_status_client :: "(nat, string) status_client" where
  "ex_status_client = \<lparr>scKey = (\<lambda>obj. ('''', obj)), scGet = (\<lambda>w key obj. (Suc w, ''fresh'', None)),
     scUpdate = (\<lambda>w obj. (w, obj, if w < 2 then Some (ErrAPI Conflict ''conflict'') else None))\<rparr>"

theorem status_update_outcome_witness:
  "Update ex_status_client 0 ''old'' (Some (\<lambda>s. s @ ''!'')) [su_WithMaxRetries 3] = (2, ''fresh!'', None) \<and>
   (\<exists>j. int j \<le> max 0 (3 + 1) \<and>
      Update (counted ex_status_client) (0, 0) ''old'' (Some (\<lambda>s. s @ ''!'')) [su_WithMaxRetries 3] = ((2, j), ''fresh!'', None))"
proof -
  have run: "Update ex_status_client 0 ''old'' (Some (\<lambda>s. s @ ''!'')) [su_WithMaxRetries 3] = (2, ''fresh!'', None)"
    by (simp add: Update_def su_WithMaxRetries_def ex_status_client_def IsConflict_def eval_nat_numeral)
  then show ?thesis using status_update_outcome [OF run] by blast
qed

end
