(* ===== verification/StatusActions.thy ===== *)
theory StatusActions
  imports Reconciler
begin

text \<open>
  The actions that report the state of a component (\<^verbatim>\<open>framework/controller/actions/status\<close>): deployments ready
  (\<^verbatim>\<open>deployments\<close>), image streams imported (\<^verbatim>\<open>imagestreams\<close>) and component releases (\<^verbatim>\<open>releases\<close>). Listing, reading files and
  YAML are parameters. The instance of a request always has a status, so the type assertions of the code hold.
\<close>

section \<open>Selecting resources\<close>

definition DefaultPartOfLabelKey :: string where
  "DefaultPartOfLabelKey = ''platform.opendatahub.io/part-of''"

record 'w status_action =
  saPartOfLabelKey :: string
  saLabels :: "string \<rightharpoonup> string"
  saNamespaceFn :: "('w request \<Rightarrow> go_error + string) option"
  saConditionType :: string
  saNotAvailableReason :: string
  saDisableAutomaticPartOf :: bool

type_synonym 'w status_option = "'w status_action \<Rightarrow> 'w status_action"

definition WithSelectorLabel :: "string \<Rightarrow> string \<Rightarrow> 'w status_option" where
  "WithSelectorLabel k v a = a\<lparr>saLabels := (saLabels a)(k \<mapsto> v)\<rparr>"

definition WithSelectorLabels :: "(string \<rightharpoonup> string) \<Rightarrow> 'w status_option" where
  "WithSelectorLabels values a = a\<lparr>saLabels := saLabels a ++ values\<rparr>"

definition WithPartOfLabel :: "string \<Rightarrow> 'w status_option" where
  "WithPartOfLabel k a = a\<lparr>saPartOfLabelKey := k\<rparr>"

definition sa_WithConditionType :: "string \<Rightarrow> 'w status_option" where
  "sa_WithConditionType t a = a\<lparr>saConditionType := t\<rparr>"

definition WithNotAvailableReason :: "string \<Rightarrow> 'w status_option" where
  "WithNotAvailableReason reason a = a\<lparr>saNotAvailableReason := reason\<rparr>"

definition WithoutAutomaticPartOfDefault :: "'w status_option" where
  "WithoutAutomaticPartOfDefault a = a\<lparr>saDisableAutomaticPartOf := True\<rparr>"

definition sa_InNamespace :: "string \<Rightarrow> 'w status_option" where
  "sa_InNamespace ns a = a\<lparr>saNamespaceFn := Some (\<lambda>rr. Inr ns)\<rparr>"

definition sa_InNamespaceFn :: "('w request \<Rightarrow> go_error + string) option \<Rightarrow> 'w status_option" where
  "sa_InNamespaceFn fn a = (case fn of None \<Rightarrow> a | Some f \<Rightarrow> a\<lparr>saNamespaceFn := Some f\<rparr>)"

definition new_status_action :: "string \<Rightarrow> string \<Rightarrow> 'w status_option list \<Rightarrow> 'w status_action" where
  "new_status_action conditionType reason opts =
     foldl (\<lambda>a opt. opt a) \<lparr>saPartOfLabelKey = DefaultPartOfLabelKey, saLabels = Map.empty, saNamespaceFn = None,
       saConditionType = conditionType, saNotAvailableReason = reason, saDisableAutomaticPartOf = False\<rparr> opts"

definition deployments_NewAction :: "'w status_option list \<Rightarrow> 'w status_action" where
  "deployments_NewAction opts = new_status_action ''DeploymentsAvailable'' ''DeploymentsNotReady'' opts"

definition imagestreams_NewAction :: "'w status_option list \<Rightarrow> 'w status_action" where
  "imagestreams_NewAction opts = new_status_action ''ImageStreamsAvailable'' ''ImageStreamsNotReady'' opts"

text \<open>The labels to select by: the kind of the instance is the default of the part-of label.\<close>

definition selector_labels ::
  "(platform_object \<Rightarrow> go_error + gvk) \<Rightarrow> 'w status_action \<Rightarrow> 'w request \<Rightarrow> go_error + (string \<rightharpoonup> string)" where
  "selector_labels scheme a rr =
     (if \<not> saDisableAutomaticPartOf a \<and> go_get (saLabels a) (saPartOfLabelKey a) = ''''
      then (case KindForObject scheme (rrInstance rr) of
              Inl err \<Rightarrow> Inl err
            | Inr kind \<Rightarrow> Inr ((saLabels a)(saPartOfLabelKey a \<mapsto> to_lower kind)))
      else Inr (saLabels a))"

text \<open>The namespace of an action, with the action's name for the error.\<close>

definition action_namespace :: "string \<Rightarrow> 'w status_action \<Rightarrow> 'w request \<Rightarrow> go_error + string" where
  "action_namespace what a rr =
     (case saNamespaceFn a of
        None \<Rightarrow> Inl (ErrNew (''namespace function is not configured for '' @ what @ '' status action''))
      | Some fn \<Rightarrow> (case fn rr of Inl err \<Rightarrow> Inl (ErrWrap ''unable to compute namespace'' err) | Inr ns \<Rightarrow> Inr ns))"

definition report_unhealthy :: "'w status_action \<Rightarrow> 'w request \<Rightarrow> string \<Rightarrow> 'w request" where
  "report_unhealthy a rr msg =
     with_manager rr (MarkUnhealthy (rr_manager rr) (saConditionType a)
       [WithObservedGeneration (poObservedGeneration (rrInstance rr)), WithReason (saNotAvailableReason a), WithMessage msg])"

definition report_healthy :: "'w status_action \<Rightarrow> 'w request \<Rightarrow> 'w request" where
  "report_healthy a rr =
     with_manager rr (MarkHealthy (rr_manager rr) (saConditionType a) [WithObservedGeneration (poObservedGeneration (rrInstance rr))])"

section \<open>Deployments\<close>

record deployment_status =
  dsReplicas :: int
  dsReadyReplicas :: int

fun count_ready :: "deployment_status list \<Rightarrow> nat" where
  "count_ready [] = 0"
| "count_ready (d # ds) =
     (if dsReadyReplicas d = dsReplicas d \<and> dsReplicas d \<noteq> 0 then Suc (count_ready ds) else count_ready ds)"

definition deployments_run ::
  "(platform_object \<Rightarrow> go_error + gvk) \<Rightarrow> ('w \<Rightarrow> string \<Rightarrow> (string \<rightharpoonup> string) \<Rightarrow> go_error + deployment_status list) \<Rightarrow>
     'w status_action \<Rightarrow> 'w action" where
  "deployments_run scheme list_deployments a rr =
     (case selector_labels scheme a rr of
        Inl err \<Rightarrow> (rr, Some err)
      | Inr l \<Rightarrow>
          (case action_namespace ''deployment'' a rr of
             Inl err \<Rightarrow> (rr, Some err)
           | Inr ns \<Rightarrow>
               (case list_deployments (rrWorld rr) ns l of
                  Inl err \<Rightarrow> (rr, Some (ErrWrap ''error fetching list of deployments'' err))
                | Inr items \<Rightarrow>
                    let ready = count_ready items
                    in if length items = 0 \<or> ready \<noteq> length items
                       then (report_unhealthy a rr (nat_str ready @ ''/'' @ nat_str (length items) @ '' deployments ready''), None)
                       else (report_healthy a rr, None))))"

section \<open>Image streams\<close>

record tag_condition =
  tcType :: string
  tcStatus :: string
  tcMessage :: string

record tag_status =
  tgTag :: string
  tgItems :: nat
  tgConditions :: "tag_condition list"

record image_stream =
  isName :: string
  isTags :: "tag_status list"

definition maxConditionMessageLen :: nat where "maxConditionMessageLen = 100"
definition maxFailedTags :: nat where "maxFailedTags = 10"

definition failed_condition :: "tag_condition \<Rightarrow> bool" where
  "failed_condition c \<longleftrightarrow> tcType c = ''ImportSuccess'' \<and> tcStatus c = ConditionFalse"

definition failure_text :: "string \<Rightarrow> string \<Rightarrow> tag_condition \<Rightarrow> string" where
  "failure_text name tag c =
     (let msg = (if length (tcMessage c) > maxConditionMessageLen then take maxConditionMessageLen (tcMessage c) @ ''...'' else tcMessage c)
      in name @ '':'' @ tag @ '' ('' @ msg @ '')'')"

definition failed_of_tag :: "string \<Rightarrow> tag_status \<Rightarrow> string list" where
  "failed_of_tag name t =
     (if tgItems t > 0 then [] else map (failure_text name (tgTag t)) (filter failed_condition (tgConditions t)))"

definition failed_tags :: "image_stream list \<Rightarrow> string list" where
  "failed_tags items = concat (map (\<lambda>is. concat (map (failed_of_tag (isName is)) (isTags is))) items)"

definition failure_message :: "string list \<Rightarrow> string" where
  "failure_message failedTags =
     (let reported = take maxFailedTags failedTags;
          suffix = (if length failedTags > maxFailedTags then ''; ... and '' @ nat_str (length failedTags - maxFailedTags) @ '' more'' else '''')
      in ''Warning: '' @ nat_str (length failedTags) @ '' ImageStream tag(s) failed to import: '' @ join_with ''; '' reported @ suffix)"

definition imagestreams_run ::
  "(platform_object \<Rightarrow> go_error + gvk) \<Rightarrow> ('w \<Rightarrow> string \<Rightarrow> (string \<rightharpoonup> string) \<Rightarrow> go_error + image_stream list) \<Rightarrow>
     'w status_action \<Rightarrow> 'w action" where
  "imagestreams_run scheme list_streams a rr =
     (case selector_labels scheme a rr of
        Inl err \<Rightarrow> (rr, Some err)
      | Inr l \<Rightarrow>
          (case action_namespace ''imagestream'' a rr of
             Inl err \<Rightarrow> (rr, Some err)
           | Inr ns \<Rightarrow>
               (case list_streams (rrWorld rr) ns l of
                  Inl err \<Rightarrow> if is_no_match err then (rr, None) else (rr, Some (ErrWrap ''error fetching list of ImageStreams'' err))
                | Inr items \<Rightarrow>
                    if length (failed_tags items) > 0 then (report_unhealthy a rr (failure_message (failed_tags items)), None)
                    else (report_healthy a rr, None))))"

section \<open>Releases\<close>

definition ComponentMetadataFilename :: string where
  "ComponentMetadataFilename = ''component_metadata.yaml''"

definition ErrNotExist :: string where "ErrNotExist = ''file does not exist''"

fun normalize_loop :: "ComponentRelease list \<Rightarrow> ComponentRelease list" where
  "normalize_loop [] = []"
| "normalize_loop (r # rs) =
     (let normalized = r\<lparr>crVersion := trim_space (crVersion r)\<rparr>
      in if crVersion normalized = '''' then normalize_loop rs else normalized # normalize_loop rs)"

text \<open>
  \<^verbatim>\<open>slices.SortFunc\<close> leaves the order of equal names open; the stable order is one of the results it may give.
\<close>

definition NormalizeComponentReleases :: "ComponentRelease list \<Rightarrow> ComponentRelease list" where
  "NormalizeComponentReleases releases =
     sort_stable_func (\<lambda>a b. cmp_compare (crName a) (crName b)) (normalize_loop releases)"

text \<open>Reading a file of a file system and decoding YAML are parameters.\<close>

type_synonym 'b filesystem = "string \<Rightarrow> go_error + 'b"

definition ParseComponentReleases :: "('b \<Rightarrow> go_error + ComponentReleaseStatus) \<Rightarrow> 'b \<Rightarrow> go_error + ComponentRelease list" where
  "ParseComponentReleases unmarshal d =
     (case unmarshal d of
        Inl err \<Rightarrow> Inl (ErrWrap ''error unmarshaling YAML'' err)
      | Inr meta \<Rightarrow> Inr (NormalizeComponentReleases meta))"

definition ReadComponentReleases ::
  "('b \<Rightarrow> go_error + ComponentReleaseStatus) \<Rightarrow> 'b filesystem \<Rightarrow> string \<Rightarrow> go_error + ComponentRelease list" where
  "ReadComponentReleases unmarshal fsys path =
     (case fsys path of
        Inl err \<Rightarrow> Inl (ErrWrap (''reading release status from '' @ quoted path) err)
      | Inr d \<Rightarrow> ParseComponentReleases unmarshal d)"

record ('w, 'b) release_action =
  raFS :: "'b filesystem"
  raMetadataFilePathFn :: "'w request \<Rightarrow> string"
  raStatus :: ComponentReleaseStatus

type_synonym ('w, 'b) release_option = "('w, 'b) release_action \<Rightarrow> ('w, 'b) release_action"

definition WithFS :: "'b filesystem option \<Rightarrow> ('w, 'b) release_option" where
  "WithFS fsys a = (case fsys of None \<Rightarrow> a | Some f \<Rightarrow> a\<lparr>raFS := f\<rparr>)"

definition WithMetadataFilePath :: "('w request \<Rightarrow> string) \<Rightarrow> ('w, 'b) release_option" where
  "WithMetadataFilePath fn a = a\<lparr>raMetadataFilePathFn := fn\<rparr>"

definition WithComponentReleaseStatus :: "ComponentReleaseStatus \<Rightarrow> ('w, 'b) release_option" where
  "WithComponentReleaseStatus status a = a\<lparr>raStatus := status\<rparr>"

text \<open>\<open>os_fs\<close> is the file system of the machine; \<^verbatim>\<open>filepath.Join\<close> is \<open>path_Join\<close> where the separator is a slash.\<close>

definition releases_NewAction ::
  "'b filesystem \<Rightarrow> ('w, 'b) release_option list \<Rightarrow> ('w, 'b) release_action" where
  "releases_NewAction os_fs opts =
     foldl (\<lambda>a opt. opt a)
       \<lparr>raFS = os_fs,
        raMetadataFilePathFn = (\<lambda>rr.
          trim_prefix (path_Join [rrManifestsBasePath rr, to_lower (gKind (oGVK (rrInstance rr))), ComponentMetadataFilename]) ''/''),
        raStatus = []\<rparr> opts"

definition releases_render ::
  "('b \<Rightarrow> go_error + ComponentReleaseStatus) \<Rightarrow> ('w, 'b) release_action \<Rightarrow> 'w request \<Rightarrow> go_error + ComponentRelease list" where
  "releases_render unmarshal a rr =
     (case ReadComponentReleases unmarshal (raFS a) (raMetadataFilePathFn a rr) of
        Inl err \<Rightarrow> if is_sentinel ErrNotExist err then Inr [] else Inl err
      | Inr releases \<Rightarrow> Inr releases)"

text \<open>A run: the action keeps what it read, and the instance gets it (\<open>None\<close> when it is left alone).\<close>

definition releases_run ::
  "('b \<Rightarrow> go_error + ComponentReleaseStatus) \<Rightarrow> ('w, 'b) release_action \<Rightarrow> 'w request \<Rightarrow>
     ('w, 'b) release_action \<times> ComponentReleaseStatus option \<times> go_error option" where
  "releases_run unmarshal a rr =
     (if length (raStatus a) = 0
      then (case releases_render unmarshal a rr of
              Inl err \<Rightarrow> (a, None, Some err)
            | Inr releases \<Rightarrow> (a\<lparr>raStatus := releases\<rparr>, Some releases, None))
      else (a, Some (raStatus a), None))"

section \<open>What the reports do to the instance\<close>

lemma annotating_reports [simp]:
  "annotating t [WithObservedGeneration g, WithReason r, WithMessage m]" "annotating t [WithObservedGeneration g]"
  by (simp_all add: annotating_def applyOpts_def WithObservedGeneration_def WithReason_def WithMessage_def)

lemma MarkHealthy_wf: "wf_manager a m \<Longrightarrow> wf_manager a (MarkHealthy m t opts)"
  and MarkUnhealthy_wf: "wf_manager a m \<Longrightarrow> wf_manager a (MarkUnhealthy m t opts)"
  by (auto simp: MarkHealthy_def MarkUnhealthy_def MarkTrue_def MarkFalse_def Mark_def intro: SetCondition_wf split: option.split)

lemma report_healthy_outcome:
  assumes "rr_ok agg rr" and "synced (rr_manager rr)" and "hasDependent (Some agg) (saConditionType a)"
  shows "\<exists>d. FindStatusCondition (rr_conds (report_healthy a rr)) (saConditionType a) = Some d \<and> isHealthy agg d"
proof -
  have wf: "wf_manager agg (rr_manager rr)" using assms(1) by (simp add: rr_ok_wf)
  then show ?thesis
    using mark_health_respects_polarity [OF wf assms(2,3) annotating_reports(2)] MarkHealthy_wf [OF wf]
    by (simp add: report_healthy_def)
qed

lemma report_unhealthy_outcome:
  assumes "rr_ok agg rr" and "synced (rr_manager rr)" and "hasDependent (Some agg) (saConditionType a)"
  shows "\<not> IsHappy (rr_manager (report_unhealthy a rr msg))"
proof -
  have wf: "wf_manager agg (rr_manager rr)" using assms(1) by (simp add: rr_ok_wf)
  then show ?thesis
    using mark_health_respects_polarity [OF wf assms(2,3) annotating_reports(1)]
    by (simp add: report_unhealthy_def with_manager_IsHappy [OF MarkUnhealthy_wf [OF wf]])
qed

section \<open>Correctness of the deployment report\<close>

definition deployment_ready :: "deployment_status \<Rightarrow> bool" where
  "deployment_ready d \<longleftrightarrow> dsReadyReplicas d = dsReplicas d \<and> dsReplicas d \<noteq> 0"

lemma count_ready_filter: "count_ready ds = length (filter deployment_ready ds)"
  by (induction ds) (auto simp: deployment_ready_def)

lemma count_ready_all: "count_ready ds = length ds \<longleftrightarrow> list_all deployment_ready ds"
  unfolding count_ready_filter list_all_iff by (metis filter_True length_filter_less nat_neq_iff)

text \<open>
  C27: A run of the deployment status action whose listing succeeds does not fail. When there are deployments and each has
  a nonzero number of replicas, all ready, the condition of the action is recorded as healthy; when there is none, or one is
  not ready, the instance is no longer happy.
\<close>

theorem deployments_reported:
  assumes "rr_ok agg rr" and "synced (rr_manager rr)" and "hasDependent (Some agg) (saConditionType a)"
    and "selector_labels scheme a rr = Inr l" and "action_namespace ''deployment'' a rr = Inr ns"
    and "list_deployments (rrWorld rr) ns l = Inr items"
    and "deployments_run scheme list_deployments a rr = (rr', err)"
  shows "err = None \<and>
    (if items \<noteq> [] \<and> list_all deployment_ready items
     then \<exists>d. FindStatusCondition (rr_conds rr') (saConditionType a) = Some d \<and> isHealthy agg d
     else \<not> IsHappy (rr_manager rr'))"
proof -
  have run: "deployments_run scheme list_deployments a rr =
      (if items \<noteq> [] \<and> list_all deployment_ready items then (report_healthy a rr, None)
       else (report_unhealthy a rr (nat_str (count_ready items) @ ''/'' @ nat_str (length items) @ '' deployments ready''), None))"
    using assms(4-6) by (auto simp: deployments_run_def Let_def count_ready_all)
  show ?thesis
    using run assms(7) report_healthy_outcome [OF assms(1-3)] report_unhealthy_outcome [OF assms(1-3)]
    by (auto split: if_splits)
qed

text \<open>A concrete request for the witnesses: the instance depends on the condition of the action and is in order.\<close>

definition ex_status_agg :: aggregator where
  "ex_status_agg = \<lparr>aTarget = ''Ready'', aDependents = [(''DeploymentsAvailable'', HealthyWhenTrue), (''ImageStreamsAvailable'', HealthyWhenTrue)]\<rparr>"

definition ex_status_request :: "unit request" where
  "ex_status_request = (let rr = (ex_request ())\<lparr>rrAggregator := Some ex_status_agg\<rparr> in with_manager rr (RecomputeHappiness (rr_manager rr)))"

lemma ex_status_agg_wf: "wf_aggregator ex_status_agg"
  by (simp add: ex_status_agg_def wf_aggregator_def)

lemma ex_status_request_ok: "rr_ok ex_status_agg ex_status_request" "synced (rr_manager ex_status_request)"
proof -
  let ?rr = "(ex_request ())\<lparr>rrAggregator := Some ex_status_agg\<rparr>"
  have wf: "wf_manager ex_status_agg (rr_manager ?rr)"
    using ex_status_agg_wf by (simp add: wf_manager_def ex_request_def ex_object_def unique_types_def)
  then have r: "wf_manager ex_status_agg (RecomputeHappiness (rr_manager ?rr))" by (rule RecomputeHappiness_wf)
  have "mActive (RecomputeHappiness (rr_manager ?rr)) \<noteq> None" by code_simp
  with r show "rr_ok ex_status_agg ex_status_request"
    unfolding ex_status_request_def Let_def by (rule with_manager_ok)
  show "synced (rr_manager ex_status_request)"
    unfolding ex_status_request_def Let_def with_manager_synced [OF r] using wf by (rule RecomputeHappiness_synced)
qed

definition ex_deployments :: "deployment_status list" where
  "ex_deployments = [\<lparr>dsReplicas = 2, dsReadyReplicas = 2\<rparr>, \<lparr>dsReplicas = 1, dsReadyReplicas = 0\<rparr>]"

definition ex_status_action :: "unit status_action" where
  "ex_status_action = deployments_NewAction [sa_InNamespace ''apps'', WithSelectorLabel DefaultPartOfLabelKey ''dashboard'']"

lemmas ex_status_defs = ex_status_action_def deployments_NewAction_def new_status_action_def sa_InNamespace_def WithSelectorLabel_def

theorem deployments_reported_witness:
  "\<not> IsHappy (rr_manager (fst (deployments_run (\<lambda>ob. Inr (oGVK ob)) (\<lambda>w ns l. Inr ex_deployments) ex_status_action ex_status_request)))"
proof -
  let ?run = "deployments_run (\<lambda>ob. Inr (oGVK ob)) (\<lambda>w ns l. Inr ex_deployments) ex_status_action ex_status_request"
  have dep: "hasDependent (Some ex_status_agg) (saConditionType ex_status_action)"
    by (simp add: hasDependent_def ex_status_agg_def ex_status_defs)
  have l: "selector_labels (\<lambda>ob. Inr (oGVK ob)) ex_status_action ex_status_request = Inr [DefaultPartOfLabelKey \<mapsto> ''dashboard'']"
    by (simp add: selector_labels_def ex_status_defs go_get_def)
  have ns: "action_namespace ''deployment'' ex_status_action ex_status_request = Inr ''apps''"
    by (simp add: action_namespace_def ex_status_defs)
  have "\<not> list_all deployment_ready ex_deployments" by (simp add: ex_deployments_def deployment_ready_def)
  then show ?thesis
    using deployments_reported [OF ex_status_request_ok dep l ns, where list_deployments = "\<lambda>w ns l. Inr ex_deployments"
        and items = ex_deployments and rr' = "fst ?run" and err = "snd ?run"] by simp
qed

section \<open>Correctness of the image stream report\<close>

definition ex_streams :: "image_stream list" where
  "ex_streams = [\<lparr>isName = ''notebook'', isTags = [\<lparr>tgTag = ''2024.1'', tgItems = 0, tgConditions =
     [\<lparr>tcType = ''ImportSuccess'', tcStatus = ConditionFalse, tcMessage = ''unauthorized''\<rparr>]\<rparr>]\<rparr>]"

definition ex_stream_action :: "unit status_action" where
  "ex_stream_action = imagestreams_NewAction [sa_InNamespace ''apps'', WithoutAutomaticPartOfDefault]"

lemmas ex_stream_defs = ex_stream_action_def imagestreams_NewAction_def new_status_action_def sa_InNamespace_def
  WithoutAutomaticPartOfDefault_def

text \<open>What the action calls a failure: a tag without images one of whose conditions says that the import failed.\<close>

definition tag_failed :: "tag_status \<Rightarrow> bool" where
  "tag_failed t \<longleftrightarrow> tgItems t = 0 \<and> list_ex failed_condition (tgConditions t)"

lemma failed_of_tag_Nil: "failed_of_tag name t = [] \<longleftrightarrow> \<not> tag_failed t"
  by (auto simp: failed_of_tag_def tag_failed_def list_ex_iff filter_empty_conv)

lemma failed_tags_Nil: "failed_tags items = [] \<longleftrightarrow> \<not> list_ex (\<lambda>is. list_ex tag_failed (isTags is)) items"
  by (auto simp: failed_tags_def list_ex_iff failed_of_tag_Nil)

lemma length_join_with: "list_all (\<lambda>x. length x \<le> b) xs \<Longrightarrow> length (join_with sep xs) \<le> length xs * (b + length sep)"
  by (induction sep xs rule: join_with.induct) auto

lemma failure_text_bound: "length (failure_text name tag c) \<le> length name + length tag + 107"
  by (simp add: failure_text_def Let_def maxConditionMessageLen_def)

lemma failure_message_bound:
  assumes "list_all (\<lambda>x. length x \<le> b) fs"
  shows "length (failure_message fs) \<le> 10 * (b + 2) + 2 * length (nat_str (length fs)) + length (nat_str (length fs - 10)) + 64"
proof -
  have "list_all (\<lambda>x. length x \<le> b) (take maxFailedTags fs)"
    using assms by (auto simp: list_all_iff dest: in_set_takeD)
  then have "length (join_with ''; '' (take maxFailedTags fs)) \<le> length (take maxFailedTags fs) * (b + 2)"
    using length_join_with [of b "take maxFailedTags fs" "''; ''"] by simp
  also have "\<dots> \<le> 10 * (b + 2)" unfolding maxFailedTags_def by (intro mult_le_mono1) simp
  finally show ?thesis by (cases "10 < length fs") (simp_all add: failure_message_def Let_def maxFailedTags_def)
qed

text \<open>
  A run of the image stream action whose listing succeeds does not fail: an image stream tag without images whose import
  failed makes the instance unhappy, and without one the condition is recorded as healthy. A cluster without the image stream
  API leaves the request as it is.
\<close>

theorem imagestreams_reported:
  assumes "rr_ok agg rr" and "synced (rr_manager rr)" and "hasDependent (Some agg) (saConditionType a)"
    and "selector_labels scheme a rr = Inr l" and "action_namespace ''imagestream'' a rr = Inr ns"
    and "imagestreams_run scheme list_streams a rr = (rr', err)"
  shows "case list_streams (rrWorld rr) ns l of
      Inl e \<Rightarrow> rr' = rr \<and> (err = None \<longleftrightarrow> is_no_match e)
    | Inr items \<Rightarrow> err = None \<and>
        (if list_ex (\<lambda>is. list_ex tag_failed (isTags is)) items then \<not> IsHappy (rr_manager rr')
         else \<exists>d. FindStatusCondition (rr_conds rr') (saConditionType a) = Some d \<and> isHealthy agg d)"
proof (cases "list_streams (rrWorld rr) ns l")
  case (Inl e)
  then show ?thesis using assms(4-6) by (auto simp: imagestreams_run_def split: if_splits)
next
  case (Inr items)
  then have run: "imagestreams_run scheme list_streams a rr =
      (if list_ex (\<lambda>is. list_ex tag_failed (isTags is)) items then (report_unhealthy a rr (failure_message (failed_tags items)), None)
       else (report_healthy a rr, None))"
    using assms(4,5) by (simp add: imagestreams_run_def failed_tags_Nil)
  show ?thesis
    using Inr run assms(6) report_healthy_outcome [OF assms(1-3)] report_unhealthy_outcome [OF assms(1-3)]
    by (auto split: if_splits)
qed

theorem imagestreams_reported_witness:
  "\<not> IsHappy (rr_manager (fst (imagestreams_run (\<lambda>ob. Inr (oGVK ob)) (\<lambda>w ns l. Inr ex_streams) ex_stream_action ex_status_request)))"
proof -
  let ?run = "imagestreams_run (\<lambda>ob. Inr (oGVK ob)) (\<lambda>w ns l. Inr ex_streams) ex_stream_action ex_status_request"
  have dep: "hasDependent (Some ex_status_agg) (saConditionType ex_stream_action)"
    by (simp add: hasDependent_def ex_status_agg_def ex_stream_defs)
  have l: "selector_labels (\<lambda>ob. Inr (oGVK ob)) ex_stream_action ex_status_request = Inr Map.empty"
    by (simp add: selector_labels_def ex_stream_defs)
  have ns: "action_namespace ''imagestream'' ex_stream_action ex_status_request = Inr ''apps''"
    by (simp add: action_namespace_def ex_stream_defs)
  have "list_ex (\<lambda>is. list_ex tag_failed (isTags is)) ex_streams"
    by (simp add: ex_streams_def tag_failed_def failed_condition_def)
  then show ?thesis
    using imagestreams_reported [OF ex_status_request_ok dep l ns, where list_streams = "\<lambda>w ns l. Inr ex_streams"
        and rr' = "fst ?run" and err = "snd ?run"] by simp
qed

section \<open>Correctness of the releases\<close>

interpretation rel_name: key_comparison "\<lambda>a b. cmp_compare (crName a) (crName b)" crName
  by unfold_locales (auto simp: cmp_compare_def)

lemma normalize_loop_filter:
  "normalize_loop rs = filter (\<lambda>r. crVersion r \<noteq> '''') (map (\<lambda>r. r\<lparr>crVersion := trim_space (crVersion r)\<rparr>) rs)"
  by (induction rs) (auto simp: Let_def)

lemma normalize_loop_id:
  assumes "list_all (\<lambda>r. crVersion r \<noteq> '''' \<and> trimmed (crVersion r)) rs"
  shows "normalize_loop rs = rs"
  using assms by (induction rs) (auto simp: trim_space_id)

text \<open>
  Normalised releases are in the order of their names, have trimmed versions that are not empty, and are exactly the given
  releases whose version is not blank, each as often as it was given; normalising again changes nothing.
\<close>

theorem releases_normalised:
  "let out = NormalizeComponentReleases rs
   in sorted (map crName out) \<and> list_all (\<lambda>r. crVersion r \<noteq> '''' \<and> trimmed (crVersion r)) out \<and>
      mset out = image_mset (\<lambda>r. r\<lparr>crVersion := trim_space (crVersion r)\<rparr>) (filter_mset (\<lambda>r. trim_space (crVersion r) \<noteq> '''') (mset rs)) \<and>
      NormalizeComponentReleases out = out"
proof -
  let ?out = "NormalizeComponentReleases rs"
  have ok: "list_all (\<lambda>r. crVersion r \<noteq> '''' \<and> trimmed (crVersion r)) ?out"
    by (auto simp: NormalizeComponentReleases_def normalize_loop_filter list_all_iff trim_space_trimmed)
  then have "NormalizeComponentReleases ?out = ?out"
    unfolding NormalizeComponentReleases_def [of ?out] normalize_loop_id [OF ok]
    by (simp add: NormalizeComponentReleases_def rel_name.idempotent)
  moreover have "sorted (map crName ?out)" unfolding NormalizeComponentReleases_def by (rule rel_name.sorted_result)
  moreover have "mset ?out = image_mset (\<lambda>r. r\<lparr>crVersion := trim_space (crVersion r)\<rparr>)
      (filter_mset (\<lambda>r. trim_space (crVersion r) \<noteq> '''') (mset rs))"
    by (simp add: NormalizeComponentReleases_def normalize_loop_filter filter_map comp_def flip: mset_filter mset_map)
  ultimately show ?thesis using ok by (simp add: Let_def)
qed

text \<open>Once releases were read, later runs report them again without reading a file; a missing file is no error.\<close>

lemma releases_run_cached:
  assumes "releases_run unmarshal a rr = (a', Some st, err)" and "st \<noteq> []"
  shows "err = None \<and> releases_run unmarshal' (a'\<lparr>raFS := f\<rparr>) rr' = (a'\<lparr>raFS := f\<rparr>, Some st, None)"
  using assms by (auto simp: releases_run_def split: if_splits sum.splits)

lemma releases_run_missing:
  assumes "raStatus a = []" and "raFS a (raMetadataFilePathFn a rr) = Inl e" and "is_sentinel ErrNotExist e"
  shows "releases_run unmarshal a rr = (a, Some [], None)"
  using assms by (simp add: releases_run_def releases_render_def ReadComponentReleases_def)

end
