(* ===== verification/KustomizeParams.thy ===== *)
theory KustomizeParams
  imports GoErrors "HOL-Library.AList"
begin

text \<open>
  The parameter files of kustomize overlays (\<^verbatim>\<open>framework/render/kustomize/params/params.go\<close>): reading and writing
  \<^verbatim>\<open>key=value\<close> lines, the mappers that change parameters, and \<^verbatim>\<open>Apply\<close>, which rewrites a file. The file system and the
  environment are parameters. A Go map is the association list of its entries in the order of one iteration.
\<close>

section \<open>Reading lines\<close>

text \<open>
  \<^verbatim>\<open>bufio.Scanner\<close> with its default split function: lines end at a line feed, the text after the last one is a line when
  it is not empty, a trailing carriage return is dropped, and a line that does not fit the buffer of 64 KiB together with
  its end stops the scan with an error.
\<close>

function scan_lines :: "string \<Rightarrow> string list" where
  "scan_lines s =
     (if s = [] then []
      else takeWhile (\<lambda>c. c \<noteq> CHR 0x0A) s # scan_lines (tl (dropWhile (\<lambda>c. c \<noteq> CHR 0x0A) s)))"
  by pat_completeness auto
termination
proof (relation "measure length", simp)
  fix s :: string
  assume "s \<noteq> []"
  moreover have "length (dropWhile (\<lambda>c. c \<noteq> CHR 0x0A) s) \<le> length s" by (rule length_dropWhile_le)
  ultimately have "length (tl (dropWhile (\<lambda>c. c \<noteq> CHR 0x0A) s)) < length s"
    by (cases s) (auto simp: length_dropWhile_le le_imp_less_Suc intro: diff_le_self [THEN order_trans])
  then show "(tl (dropWhile (\<lambda>c. c \<noteq> CHR 0x0A) s), s) \<in> measure length" by simp
qed

declare scan_lines.simps [simp del]

definition MaxScanTokenSize :: nat where "MaxScanTokenSize = 64 * 1024"

definition drop_cr :: "string \<Rightarrow> string" where
  "drop_cr s = (if s \<noteq> [] \<and> last s = CHR 0x0D then butlast s else s)"

fun scan_tokens :: "string list \<Rightarrow> string list \<times> go_error option" where
  "scan_tokens [] = ([], None)"
| "scan_tokens (l # ls) =
     (if length l \<ge> MaxScanTokenSize then ([], Some (ErrSentinel ''bufio.Scanner: token too long''))
      else let (ts, err) = scan_tokens ls in (drop_cr l # ts, err))"

section \<open>Parameters\<close>

type_synonym params = "(string \<times> string) list"

text \<open>\<^verbatim>\<open>strings.Cut\<close> at an equals sign.\<close>

definition cut_eq :: "string \<Rightarrow> (string \<times> string) option" where
  "cut_eq line =
     (let key = takeWhile (\<lambda>c. c \<noteq> CHR ''='') line; rest = dropWhile (\<lambda>c. c \<noteq> CHR ''='') line
      in case rest of [] \<Rightarrow> None | c # value \<Rightarrow> Some (key, value))"

definition unmarshal_line :: "string \<Rightarrow> params \<Rightarrow> params" where
  "unmarshal_line txt result =
     (let line = trim_space txt
      in if line = '''' \<or> starts_with ''#'' line then result
         else case cut_eq line of None \<Rightarrow> result | Some (key, value) \<Rightarrow> AList.update (trim_space key) value result)"

definition Unmarshal :: "string \<Rightarrow> params \<times> go_error option" where
  "Unmarshal content = (let (ts, err) = scan_tokens (scan_lines content) in (fold unmarshal_line ts [], err))"

text \<open>Writing to a \<^verbatim>\<open>bytes.Buffer\<close> does not fail, so the error of \<^verbatim>\<open>Marshal\<close> is always nil.\<close>

definition entry_line :: "string \<Rightarrow> string \<Rightarrow> string" where
  "entry_line k v = k @ ''='' @ v @ [CHR 0x0A]"

definition go_lookup :: "params \<Rightarrow> string \<Rightarrow> string" where
  "go_lookup ps k = (case map_of ps k of None \<Rightarrow> '''' | Some v \<Rightarrow> v)"

definition Marshal :: "params \<Rightarrow> go_error + string" where
  "Marshal ps = Inr (concat (map (\<lambda>k. entry_line k (go_lookup ps k)) (sort (map fst ps))))"

section \<open>Mappers\<close>

type_synonym mapper = "params \<Rightarrow> params \<times> bool"

fun FromEnv :: "(string \<Rightarrow> string option) \<Rightarrow> params \<Rightarrow> params" where
  "FromEnv env [] = []"
| "FromEnv env ((param, envVar) # rest) =
     (case env envVar of None \<Rightarrow> FromEnv env rest | Some val \<Rightarrow> AList.update param val (FromEnv env rest))"

fun replacement_loop :: "params \<Rightarrow> string list \<Rightarrow> params \<times> bool \<Rightarrow> params \<times> bool" where
  "replacement_loop values [] st = st"
| "replacement_loop values (key # ks) (ps, changed) =
     (case map_of values key of
        None \<Rightarrow> replacement_loop values ks (ps, changed)
      | Some val \<Rightarrow> if go_lookup ps key = val then replacement_loop values ks (ps, changed)
                   else replacement_loop values ks (AList.update key val ps, True))"

definition Replacement :: "params \<Rightarrow> mapper" where
  "Replacement values ps = replacement_loop values (map fst ps) (ps, False)"

fun values_loop :: "params \<Rightarrow> params \<times> bool \<Rightarrow> params \<times> bool" where
  "values_loop [] st = st"
| "values_loop ((k, v) # vs) (ps, changed) =
     (if go_lookup ps k \<noteq> v then values_loop vs (AList.update k v ps, True) else values_loop vs (ps, changed))"

definition Values :: "params \<Rightarrow> mapper" where
  "Values values ps = values_loop values (ps, False)"

section \<open>Rewriting a file\<close>

record 'w file_ops =
  foExists :: "'w \<Rightarrow> string \<Rightarrow> bool"
  foReadFile :: "'w \<Rightarrow> string \<Rightarrow> go_error + string"
  foWriteFile :: "'w \<Rightarrow> string \<Rightarrow> string \<Rightarrow> 'w \<times> go_error option"

fun apply_mappers :: "mapper list \<Rightarrow> params \<times> bool \<Rightarrow> params \<times> bool" where
  "apply_mappers [] st = st"
| "apply_mappers (m # ms) (ps, changed) = (let (ps', c) = m ps in apply_mappers ms (ps', if c then True else changed))"

definition params_Apply :: "'w file_ops \<Rightarrow> 'w \<Rightarrow> string \<Rightarrow> mapper list \<Rightarrow> 'w \<times> go_error option" where
  "params_Apply fs w path mappers =
     (if \<not> foExists fs w path then (w, None)
      else case foReadFile fs w path of
        Inl err \<Rightarrow> (w, Some (ErrWrap (''reading '' @ path) err))
      | Inr content \<Rightarrow>
          (case Unmarshal content of
             (paramsMap, Some err) \<Rightarrow> (w, Some (ErrWrap (''parsing '' @ path) err))
           | (paramsMap, None) \<Rightarrow>
               let (paramsMap', changed) = apply_mappers mappers (paramsMap, False)
               in if \<not> changed then (w, None)
                  else (case Marshal paramsMap' of
                          Inl err \<Rightarrow> (w, Some (ErrWrap (''serializing '' @ path) err))
                        | Inr d \<Rightarrow>
                            (case foWriteFile fs w path d of
                               (w', Some err) \<Rightarrow> (w', Some (ErrWrap (''writing '' @ path) err))
                             | (w', None) \<Rightarrow> (w', None)))))"

section \<open>Writing and reading back\<close>

abbreviation nl :: char where "nl \<equiv> CHR 0x0A"

lemma scan_lines_Nil [simp]: "scan_lines [] = []"
  by (subst scan_lines.simps) simp

lemma scan_lines_line: "nl \<notin> set l \<Longrightarrow> scan_lines (l @ nl # rest) = l # scan_lines rest"
  by (subst scan_lines.simps) (auto simp: takeWhile_append dropWhile_append)

lemma scan_lines_concat:
  assumes "list_all (\<lambda>l. nl \<notin> set l) ls"
  shows "scan_lines (concat (map (\<lambda>l. l @ [nl]) ls)) = ls"
  using assms by (induction ls) (auto simp: scan_lines_line)

text \<open>
  The entries that survive a write and a read: the key is trimmed, has no equals sign or line end and does not look like a
  comment; the value has no line end and no space at its end; the line fits the scanner.
\<close>

definition plain_entry :: "string \<Rightarrow> string \<Rightarrow> bool" where
  "plain_entry k v \<longleftrightarrow> trimmed k \<and> CHR ''='' \<notin> set k \<and> nl \<notin> set k \<and> \<not> starts_with ''#'' k \<and>
     nl \<notin> set v \<and> (v = '''' \<or> \<not> is_space (last v)) \<and> length k + 1 + length v < MaxScanTokenSize"

lemma trimmed_entry: "plain_entry k v \<Longrightarrow> trimmed (k @ ''='' @ v)"
  by (cases k) (auto simp: plain_entry_def trimmed_def is_space_def)

lemma drop_cr_trimmed: "trimmed s \<Longrightarrow> drop_cr s = s"
  by (auto simp: drop_cr_def trimmed_def is_space_def)

lemma starts_with_hash: "starts_with ''#'' s \<longleftrightarrow> s \<noteq> [] \<and> hd s = CHR ''#''"
  by (cases s) auto

lemma unmarshal_entry:
  assumes "plain_entry k v"
  shows "unmarshal_line (drop_cr (k @ ''='' @ v)) r = AList.update k v r"
proof -
  have t: "trimmed (k @ ''='' @ v)" using assms by (rule trimmed_entry)
  have c: "cut_eq (k @ ''='' @ v) = Some (k, v)"
    using assms by (auto simp: cut_eq_def plain_entry_def takeWhile_append dropWhile_append split: list.split)
  have "\<not> starts_with ''#'' (k @ ''='' @ v)" using assms by (cases k) (auto simp: plain_entry_def starts_with_hash)
  moreover have "trim_space k = k" using assms by (simp add: plain_entry_def trim_space_id)
  ultimately show ?thesis
    using t c by (simp add: unmarshal_line_def Let_def drop_cr_trimmed trim_space_id)
qed

lemma scan_tokens_short: "list_all (\<lambda>l. length l < MaxScanTokenSize) ls \<Longrightarrow> scan_tokens ls = (map drop_cr ls, None)"
  by (induction ls) auto

lemma fold_unmarshal_entries:
  "list_all (\<lambda>k. plain_entry k (f k)) ks \<Longrightarrow>
     fold unmarshal_line (map (\<lambda>k. drop_cr (k @ ''='' @ f k)) ks) r = fold (\<lambda>k. AList.update k (f k)) ks r"
  by (induction ks arbitrary: r) (auto simp: unmarshal_entry [simplified])

lemma map_of_fold_update:
  "map_of (fold (\<lambda>k. AList.update k (f k)) ks r) = (\<lambda>k. if k \<in> set ks then Some (f k) else map_of r k)"
  by (induction ks arbitrary: r) (auto simp: update_conv')

lemma go_lookup_map_of: "(if k \<in> set (map fst ps) then Some (go_lookup ps k) else None) = map_of ps k"
proof (cases "map_of ps k")
  case None
  then have "k \<notin> set (map fst ps)" by (simp add: map_of_eq_None_iff)
  with None show ?thesis by simp
next
  case (Some v)
  then have "k \<in> set (map fst ps)" by (auto dest: map_of_SomeD intro: rev_image_eqI)
  with Some show ?thesis by (simp add: go_lookup_def)
qed

lemma Unmarshal_lines:
  assumes "list_all (\<lambda>k. plain_entry k (f k)) ks"
  shows "Unmarshal (concat (map (\<lambda>k. entry_line k (f k)) ks)) = (fold (\<lambda>k. AList.update k (f k)) ks [], None)"
proof -
  let ?ls = "map (\<lambda>k. k @ ''='' @ f k) ks"
  have "concat (map (\<lambda>k. entry_line k (f k)) ks) = concat (map (\<lambda>l. l @ [nl]) ?ls)"
    by (simp add: entry_line_def comp_def)
  moreover have "scan_lines (concat (map (\<lambda>l. l @ [nl]) ?ls)) = ?ls"
    by (rule scan_lines_concat) (use assms in \<open>auto simp: list_all_iff plain_entry_def\<close>)
  moreover have "scan_tokens ?ls = (map drop_cr ?ls, None)"
    by (rule scan_tokens_short) (use assms in \<open>auto simp: list_all_iff plain_entry_def\<close>)
  ultimately show ?thesis
    using fold_unmarshal_entries [OF assms, of "[]"] by (simp add: Unmarshal_def comp_def)
qed

lemma Marshal_reads_back:
  assumes "Marshal ps = Inr d" and "list_all (\<lambda>k. plain_entry k (go_lookup ps k)) (map fst ps)"
  shows "map_of (fst (Unmarshal d)) = map_of ps \<and> snd (Unmarshal d) = None"
proof -
  have "list_all (\<lambda>k. plain_entry k (go_lookup ps k)) (sort (map fst ps))"
    using assms(2) by (simp add: list_all_iff)
  then have "Unmarshal d = (fold (\<lambda>k. AList.update k (go_lookup ps k)) (sort (map fst ps)) [], None)"
    using assms(1) Unmarshal_lines [where f = "go_lookup ps"] by (auto simp: Marshal_def)
  moreover have "(\<lambda>k. if k \<in> set (map fst ps) then Some (go_lookup ps k) else None) = map_of ps"
    by (rule ext) (rule go_lookup_map_of)
  ultimately show ?thesis by (simp add: map_of_fold_update cong: if_cong)
qed

section \<open>What is read can be written\<close>

lemma set_trim_space: "set (trim_space s) \<subseteq> set s"
  unfolding trim_space_def set_rev by (metis set_dropWhileD set_rev subsetI)

lemma length_trim_space: "length (trim_space s) \<le> length s"
  unfolding trim_space_def by (metis length_dropWhile_le length_rev order_trans)

lemma hd_trim_space:
  assumes "trim_space s \<noteq> []" and "\<not> is_space (hd s)"
  shows "hd (trim_space s) = hd s"
proof -
  have "dropWhile is_space s = s" using assms(2) by (simp add: dropWhile_id)
  moreover obtain ys where "rev s = ys @ dropWhile is_space (rev s)" by (metis takeWhile_dropWhile_id)
  ultimately have "s = trim_space s @ rev ys" unfolding trim_space_def by (metis rev_append rev_rev_ident)
  with assms(1) show ?thesis by (metis hd_append2)
qed

lemma scan_lines_no_nl: "l \<in> set (scan_lines s) \<Longrightarrow> nl \<notin> set l"
proof (induction s rule: scan_lines.induct)
  case (1 s)
  then show ?case
    by (cases "s = []") (auto simp: scan_lines.simps [of s] dest: set_takeWhileD)
qed

lemma scan_tokens_mem: "t \<in> set (fst (scan_tokens ls)) \<Longrightarrow> \<exists>l\<in>set ls. t = drop_cr l \<and> length l < MaxScanTokenSize"
  by (induction ls) (auto split: if_splits prod.splits)

lemma cut_eq_SomeD: "cut_eq line = Some (k, v) \<Longrightarrow> line = k @ CHR ''='' # v \<and> CHR ''='' \<notin> set k"
proof -
  assume c: "cut_eq line = Some (k, v)"
  then obtain c' where r: "dropWhile (\<lambda>c. c \<noteq> CHR ''='') line = c' # v" and k: "k = takeWhile (\<lambda>c. c \<noteq> CHR ''='') line"
    by (auto simp: cut_eq_def Let_def split: list.splits)
  have "c' = CHR ''=''" using dropWhile_hd [of "\<lambda>c. c \<noteq> CHR ''=''" line] r by simp
  with r k show ?thesis using takeWhile_dropWhile_id [of "\<lambda>c. c \<noteq> CHR ''=''" line] set_takeWhileD by fastforce
qed

definition plain_params :: "params \<Rightarrow> bool" where
  "plain_params ps \<longleftrightarrow> (\<forall>k v. map_of ps k = Some v \<longrightarrow> plain_entry k v)"

lemma plain_of_line:
  assumes "cut_eq (trim_space t) = Some (k, v)" and "\<not> starts_with ''#'' (trim_space t)"
    and "nl \<notin> set t" and "length t < MaxScanTokenSize"
  shows "plain_entry (trim_space k) v"
proof -
  have line: "trim_space t = k @ CHR ''='' # v" and eq: "CHR ''='' \<notin> set k" using cut_eq_SomeD [OF assms(1)] by auto
  have nlt: "nl \<notin> set (k @ CHR ''='' # v)" using assms(3) set_trim_space [of t] by (auto simp flip: line)
  have len: "length (k @ CHR ''='' # v) < MaxScanTokenSize" using assms(4) length_trim_space [of t] by (simp flip: line)
  have tr: "trimmed (k @ CHR ''='' # v)" using trim_space_trimmed [of t] by (simp add: line)
  have "\<not> starts_with ''#'' (trim_space k)"
  proof (cases "trim_space k = []")
    case False
    then have "k \<noteq> []" by (auto simp: trim_space_def)
    then have "\<not> is_space (hd k)" "hd k \<noteq> CHR ''#''"
      using tr assms(2) by (auto simp: trimmed_def line starts_with_hash)
    then show ?thesis using hd_trim_space [OF False] by (simp add: starts_with_hash)
  qed simp
  moreover have "v = '''' \<or> \<not> is_space (last v)" using tr by (auto simp: trimmed_def)
  ultimately show ?thesis
    using eq nlt len set_trim_space [of k] length_trim_space [of k]
    by (auto simp: plain_entry_def trim_space_trimmed)
qed

lemma plain_update: "plain_params ps \<Longrightarrow> plain_entry k v \<Longrightarrow> plain_params (AList.update k v ps)"
  by (auto simp: plain_params_def update_conv' split: if_splits)

lemma unmarshal_line_plain:
  assumes "plain_params r" and "nl \<notin> set t" and "length t < MaxScanTokenSize"
  shows "plain_params (unmarshal_line t r)"
  using assms plain_of_line [of t] by (auto simp: unmarshal_line_def Let_def intro: plain_update split: option.split)

lemma Unmarshal_plain: "plain_params (fst (Unmarshal content))"
proof -
  have *: "list_all (\<lambda>t. nl \<notin> set t \<and> length t < MaxScanTokenSize) ts \<Longrightarrow> plain_params r \<Longrightarrow>
      plain_params (fold unmarshal_line ts r)" for ts r
    by (induction ts arbitrary: r) (auto intro: unmarshal_line_plain)
  have "list_all (\<lambda>t. nl \<notin> set t \<and> length t < MaxScanTokenSize) (fst (scan_tokens (scan_lines content)))"
    unfolding list_all_iff
  proof
    fix t assume "t \<in> set (fst (scan_tokens (scan_lines content)))"
    from scan_tokens_mem [OF this] obtain l where l: "l \<in> set (scan_lines content)" "t = drop_cr l" "length l < MaxScanTokenSize"
      by blast
    then show "nl \<notin> set t \<and> length t < MaxScanTokenSize"
      using scan_lines_no_nl [OF l(1)] by (auto simp: drop_cr_def dest: in_set_butlastD)
  qed
  from * [OF this, of "[]"] show ?thesis by (simp add: Unmarshal_def plain_params_def [of "[]"] case_prod_beta)
qed

lemma plain_params_list: "plain_params ps \<longleftrightarrow> list_all (\<lambda>k. plain_entry k (go_lookup ps k)) (map fst ps)"
proof -
  have "map_of ps k = Some v \<longleftrightarrow> k \<in> set (map fst ps) \<and> v = go_lookup ps k" for k v
    using go_lookup_map_of [of k ps] by (cases "k \<in> set (map fst ps)") auto
  then show ?thesis by (auto simp: plain_params_def list_all_iff)
qed

section \<open>Mappers keep their contract\<close>

lemma go_lookup_update: "go_lookup (AList.update k v ps) = (go_lookup ps)(k := v)"
  by (auto simp: go_lookup_def update_conv')

lemma values_loop_lookup:
  "distinct (map fst vs) \<Longrightarrow>
     go_lookup (fst (values_loop vs (ps, c))) k = (case map_of vs k of None \<Rightarrow> go_lookup ps k | Some v \<Rightarrow> v)"
proof (induction vs "(ps, c)" arbitrary: ps c rule: values_loop.induct)
  case (2 k' v vs ps c)
  then have "map_of vs k' = None" "distinct (map fst vs)" by (simp_all add: map_of_eq_None_iff)
  with 2 show ?case by (auto simp: go_lookup_update split: option.split)
qed simp

lemma values_loop_no_change: "\<not> snd (values_loop vs (ps, c)) \<Longrightarrow> \<not> c \<and> fst (values_loop vs (ps, c)) = ps"
  by (induction vs "(ps, c)" arbitrary: ps c rule: values_loop.induct) (auto split: if_splits)

lemma values_loop_plain: "plain_params ps \<Longrightarrow> list_all (\<lambda>(k, v). plain_entry k v) vs \<Longrightarrow> plain_params (fst (values_loop vs (ps, c)))"
  by (induction vs "(ps, c)" arbitrary: ps c rule: values_loop.induct) (auto intro: plain_update)

lemma replacement_loop_lookup:
  "go_lookup (fst (replacement_loop vs ks (ps, c))) k =
     (if k \<in> set ks then (case map_of vs k of None \<Rightarrow> go_lookup ps k | Some v \<Rightarrow> v) else go_lookup ps k)"
  by (induction vs ks "(ps, c)" arbitrary: ps c rule: replacement_loop.induct)
    (auto simp: go_lookup_update split: option.split)

lemma replacement_loop_keys:
  "set ks \<subseteq> dom (map_of ps) \<Longrightarrow> dom (map_of (fst (replacement_loop vs ks (ps, c)))) = dom (map_of ps)"
proof (induction vs ks "(ps, c)" arbitrary: ps c rule: replacement_loop.induct)
  case (2 vs key ks ps c)
  have "dom (map_of (AList.update key v ps)) = dom (map_of ps)" for v
    using "2.prems" by (auto simp: update_conv')
  with 2 show ?case by (auto split: option.split simp del: fun_upd_apply)
qed simp

lemma replacement_loop_no_change: "\<not> snd (replacement_loop vs ks (ps, c)) \<Longrightarrow> \<not> c \<and> fst (replacement_loop vs ks (ps, c)) = ps"
  by (induction vs ks "(ps, c)" arbitrary: ps c rule: replacement_loop.induct) (auto split: if_splits option.splits)

lemma replacement_loop_plain:
  "plain_params ps \<Longrightarrow> list_all (\<lambda>(k, v). plain_entry k v) vs \<Longrightarrow> plain_params (fst (replacement_loop vs ks (ps, c)))"
proof (induction vs ks "(ps, c)" arbitrary: ps c rule: replacement_loop.induct)
  case (2 vs key ks ps c)
  have "map_of vs key = Some v \<Longrightarrow> plain_params (AList.update key v ps)" for v
    using "2.prems" by (auto simp: list_all_iff intro!: plain_update dest!: map_of_SomeD)
  with 2 show ?case by (auto split: option.split)
qed simp

text \<open>A key that is not in the file is not added with an empty value, which the comment of \<^verbatim>\<open>Values\<close> suggests it would be.\<close>

lemma values_empty_not_added: "map_of ps k = None \<Longrightarrow> Values [(k, '''')] ps = (ps, False)"
  by (simp add: Values_def go_lookup_def)

section \<open>What the mappers mean\<close>

text \<open>
  The mappers of the package and their effect on a map of parameters. Values sets its parameters, except that one that is missing is not
  added when its value is empty; Replacement sets those that are there.
\<close>

datatype lib_mapper = LValues params | LReplacement params

fun mapper_of :: "lib_mapper \<Rightarrow> mapper" where
  "mapper_of (LValues vs) = Values vs"
| "mapper_of (LReplacement vs) = Replacement vs"

fun mapper_values :: "lib_mapper \<Rightarrow> params" where
  "mapper_values (LValues vs) = vs"
| "mapper_values (LReplacement vs) = vs"

fun effect :: "lib_mapper \<Rightarrow> (string \<rightharpoonup> string) \<Rightarrow> (string \<rightharpoonup> string)" where
  "effect (LValues vs) m = (\<lambda>k. case map_of vs k of None \<Rightarrow> m k | Some v \<Rightarrow> if m k = None \<and> v = '''' then None else Some v)"
| "effect (LReplacement vs) m = (\<lambda>k. if m k = None then None else case map_of vs k of None \<Rightarrow> m k | Some v \<Rightarrow> Some v)"

lemma values_loop_effect:
  "distinct (map fst vs) \<Longrightarrow> map_of (fst (values_loop vs (ps, c))) k =
     (case map_of vs k of None \<Rightarrow> map_of ps k | Some v \<Rightarrow> if map_of ps k = None \<and> v = '''' then None else Some v)"
proof (induction vs "(ps, c)" arbitrary: ps c rule: values_loop.induct)
  case (2 k' v vs ps c)
  then have n: "map_of vs k' = None" "distinct (map fst vs)" by (simp_all add: map_of_eq_None_iff)
  show ?case
  proof (cases "go_lookup ps k' = v")
    case True
    then have "map_of ps k' = Some v \<or> map_of ps k' = None \<and> v = ''''" by (auto simp: go_lookup_def split: option.splits)
    with True 2(2) n show ?thesis by (auto split: option.split)
  next
    case False
    then have "\<not> (map_of ps k' = None \<and> v = '''')" by (auto simp: go_lookup_def)
    with False 2(1) n show ?thesis by (auto simp: update_conv' split: option.split)
  qed
qed simp

lemma replacement_loop_effect:
  "set ks \<subseteq> dom (map_of ps) \<Longrightarrow> map_of (fst (replacement_loop vs ks (ps, c))) k =
     (if k \<in> set ks then (case map_of vs k of None \<Rightarrow> map_of ps k | Some v \<Rightarrow> Some v) else map_of ps k)"
proof (induction vs ks "(ps, c)" arbitrary: ps c rule: replacement_loop.induct)
  case (2 vs key ks ps c)
  obtain old where old: "map_of ps key = Some old" using "2.prems" by auto
  show ?case
  proof (cases "map_of vs key")
    case None
    with 2 show ?thesis by auto
  next
    case (Some val)
    show ?thesis
    proof (cases "go_lookup ps key = val")
      case True
      with old have "map_of ps key = Some val" by (simp add: go_lookup_def)
      with True Some 2 show ?thesis by auto
    next
      case False
      have "set ks \<subseteq> dom (map_of (AList.update key val ps))" using "2.prems" by (auto simp: update_conv')
      with False Some 2 show ?thesis by (auto simp: update_conv' split: option.split)
    qed
  qed
qed simp

lemma mapper_effect:
  assumes "distinct (map fst (mapper_values lm))"
  shows "map_of (fst (mapper_of lm ps)) = effect lm (map_of ps)" and "\<not> snd (mapper_of lm ps) \<Longrightarrow> fst (mapper_of lm ps) = ps"
proof -
  have "map_of ps k = None \<longleftrightarrow> k \<notin> set (map fst ps)" for k by (simp add: map_of_eq_None_iff)
  moreover have "set (map fst ps) \<subseteq> dom (map_of ps)" by (auto simp: dom_map_of_conv_image_fst)
  ultimately show "map_of (fst (mapper_of lm ps)) = effect lm (map_of ps)"
    using assms values_loop_effect [of _ ps False] replacement_loop_effect [of "map fst ps" ps _ False]
    by (cases lm) (auto simp: Values_def Replacement_def fun_eq_iff split: option.splits)
  show "\<not> snd (mapper_of lm ps) \<Longrightarrow> fst (mapper_of lm ps) = ps"
    using values_loop_no_change [of _ ps False] replacement_loop_no_change [of _ _ ps False]
    by (cases lm) (auto simp: Values_def Replacement_def)
qed

lemma apply_mappers_effect:
  assumes "list_all (\<lambda>lm. distinct (map fst (mapper_values lm))) lms"
  shows "map_of (fst (apply_mappers (map mapper_of lms) (ps, c))) = fold effect lms (map_of ps) \<and>
    (\<not> snd (apply_mappers (map mapper_of lms) (ps, c)) \<longrightarrow> \<not> c \<and> fst (apply_mappers (map mapper_of lms) (ps, c)) = ps)"
  using assms
proof (induction lms arbitrary: ps c)
  case (Cons lm lms)
  have h: "map_of (fst (mapper_of lm ps)) = effect lm (map_of ps)" "\<not> snd (mapper_of lm ps) \<Longrightarrow> fst (mapper_of lm ps) = ps"
    using mapper_effect [of lm ps] Cons.prems by simp_all
  from Cons.IH [of "fst (mapper_of lm ps)" "if snd (mapper_of lm ps) then True else c"] Cons.prems h
  show ?case by (auto simp: case_prod_beta split: if_splits)
qed simp

text \<open>Values that a line can hold leave parameters that can be written.\<close>

lemma effect_plain:
  assumes "\<forall>k v. m k = Some v \<longrightarrow> plain_entry k v" and "list_all (\<lambda>(k, v). plain_entry k v) (mapper_values lm)"
    and "effect lm m k = Some v"
  shows "plain_entry k v"
  using assms by (cases lm) (auto simp: list_all_iff split: option.splits if_splits dest!: map_of_SomeD)

text \<open>
  C21: A successful Apply with mappers of the package refines their meaning as functions on maps. When the file exists and parses, what is
  read from it afterwards, whether or not it was rewritten, is the map that was read before with the effect of each mapper in turn: Values sets its
  parameters (it does not add a missing one with an empty value), Replacement sets those that are there. This holds when every
  resulting parameter is one that a line can hold: the key is trimmed, has no equals sign and no line end and does not begin like a comment,
  the value has no line end and no space at its end, and the line fits the scanner. The code does not check this: a value with a line end breaks the file.
\<close>

theorem params_apply_refines:
  assumes "foExists fs w path" and "foReadFile fs w path = Inr content" and "snd (Unmarshal content) = None"
    and "list_all (\<lambda>lm. distinct (map fst (mapper_values lm))) lms"
    and "\<And>k v. fold effect lms (map_of (fst (Unmarshal content))) k = Some v \<Longrightarrow> plain_entry k v"
    and "\<And>d w'. foWriteFile fs w path d = (w', None) \<Longrightarrow> foReadFile fs w' path = Inr d"
    and "params_Apply fs w path (map mapper_of lms) = (w', None)"
  shows "\<exists>content'. foReadFile fs w' path = Inr content' \<and> snd (Unmarshal content') = None \<and>
    map_of (fst (Unmarshal content')) = fold effect lms (map_of (fst (Unmarshal content)))"
proof -
  obtain ps where un: "Unmarshal content = (ps, None)" using assms(3) by (metis prod.collapse)
  obtain ps' c where am: "apply_mappers (map mapper_of lms) (ps, False) = (ps', c)" by (metis prod.collapse)
  have h: "map_of ps' = fold effect lms (map_of ps)" "\<not> c \<Longrightarrow> ps' = ps"
    using apply_mappers_effect [OF assms(4), of ps False] by (auto simp: am)
  show ?thesis
  proof (cases c)
    case False
    then have "w' = w" using assms(1,2,7) by (simp add: params_Apply_def un am)
    with assms(2) un h False show ?thesis by auto
  next
    case True
    have pl: "plain_params ps'" using assms(5) h(1) by (simp add: plain_params_def un)
    obtain d where d: "Marshal ps' = Inr d" by (simp add: Marshal_def)
    then have "foWriteFile fs w path d = (w', None)"
      using assms(1,2,7) True by (auto simp: params_Apply_def un am split: prod.splits option.splits)
    moreover have "map_of (fst (Unmarshal d)) = map_of ps' \<and> snd (Unmarshal d) = None"
      by (rule Marshal_reads_back [OF d]) (use pl in \<open>simp add: plain_params_list\<close>)
    ultimately show ?thesis using assms(6) h(1) un by auto
  qed
qed

text \<open>
  C38: Whatever a parameter file holds, the parameters read from it can be written, and reading the written file gives the same
  parameters without an error: no entry that was read is lost to a comment, to the trimming of lines, to an equals sign in a
  value or to the length of a line.
\<close>

theorem params_roundtrip:
  "\<exists>d. Marshal (fst (Unmarshal content)) = Inr d \<and> map_of (fst (Unmarshal d)) = map_of (fst (Unmarshal content)) \<and>
     snd (Unmarshal d) = None"
proof -
  obtain d where d: "Marshal (fst (Unmarshal content)) = Inr d" by (simp add: Marshal_def)
  moreover have "list_all (\<lambda>k. plain_entry k (go_lookup (fst (Unmarshal content)) k)) (map fst (fst (Unmarshal content)))"
    using Unmarshal_plain plain_params_list by blast
  ultimately show ?thesis using Marshal_reads_back [OF d] by blast
qed

section \<open>Examples\<close>

text \<open>A file system with one file.\<close>

definition ex_params_fs :: "string file_ops" where
  "ex_params_fs = \<lparr>foExists = (\<lambda>w p. True), foReadFile = (\<lambda>w p. Inr w), foWriteFile = (\<lambda>w p d. (d, None))\<rparr>"

definition ex_params_file :: string where
  "ex_params_file = ''# images'' @ [nl] @ ''img = quay.io/a#1'' @ [nl, nl] @ ''bare'' @ [nl] @ ''tag=v1''"

lemma ex_params_plain: "list_all (\<lambda>(k, v). plain_entry k v) [(''tag'', ''v2'')]"
  by (simp add: plain_entry_def MaxScanTokenSize_def trimmed_def is_space_def)

lemma ex_params_lines: "scan_lines ex_params_file = [''# images'', ''img = quay.io/a#1'', '''', ''bare'', ''tag=v1'']"
  by code_simp

theorem params_apply_refines_witness:
  "params_Apply ex_params_fs ex_params_file ''params.env'' (map mapper_of [LValues [(''tag'', ''v2'')]]) =
     (''img= quay.io/a#1'' @ [nl] @ ''tag=v2'' @ [nl], None) \<and>
   map_of (fst (Unmarshal (''img= quay.io/a#1'' @ [nl] @ ''tag=v2'' @ [nl]))) ''tag'' = Some ''v2''"
proof -
  let ?out = "''img= quay.io/a#1'' @ [nl] @ ''tag=v2'' @ [nl]" and ?lms = "[LValues [(''tag'', ''v2'')]]"
  have un: "Unmarshal ex_params_file = ([(''img'', '' quay.io/a#1''), (''tag'', ''v1'')], None)"
    by (simp add: ex_params_lines Unmarshal_def MaxScanTokenSize_def) code_simp
  have am: "apply_mappers [Values [(''tag'', ''v2'')]] ([(''img'', '' quay.io/a#1''), (''tag'', ''v1'')], False) =
      ([(''img'', '' quay.io/a#1''), (''tag'', ''v2'')], True)"
    and ma: "Marshal [(''img'', '' quay.io/a#1''), (''tag'', ''v2'')] = Inr ?out"
    by code_simp+
  have a: "params_Apply ex_params_fs ex_params_file ''params.env'' (map mapper_of ?lms) = (?out, None)"
    by (simp add: params_Apply_def un am [simplified] ma [simplified] ex_params_fs_def)
  have u: "snd (Unmarshal ex_params_file) = None" by (simp add: un)
  have d: "list_all (\<lambda>lm. distinct (map fst (mapper_values lm))) ?lms" by simp
  have before: "\<forall>k v. map_of (fst (Unmarshal ex_params_file)) k = Some v \<longrightarrow> plain_entry k v"
    using Unmarshal_plain [of ex_params_file] by (simp add: plain_params_def)
  have pl: "plain_entry k v" if "fold effect ?lms (map_of (fst (Unmarshal ex_params_file))) k = Some v" for k v
    by (rule effect_plain [OF before, of "LValues [(''tag'', ''v2'')]"]) (use that ex_params_plain in simp_all)
  have "\<exists>content'. foReadFile ex_params_fs ?out ''params.env'' = Inr content' \<and> snd (Unmarshal content') = None \<and>
    map_of (fst (Unmarshal content')) = fold effect ?lms (map_of (fst (Unmarshal ex_params_file)))"
    by (rule params_apply_refines [OF _ _ u d pl _ a]) (simp_all add: ex_params_fs_def)
  then show ?thesis using a by (auto simp: ex_params_fs_def)
qed

text \<open>A value with a line end becomes another parameter.\<close>

lemma newline_value_injects:
  "params_Apply ex_params_fs ''a=1'' ''params.env'' (map mapper_of [LValues [(''a'', ''1'' @ [nl] @ ''b=2'')]]) =
     (''a=1'' @ [nl] @ ''b=2'' @ [nl], None)"
  "Unmarshal (''a=1'' @ [nl] @ ''b=2'' @ [nl]) = ([(''a'', ''1''), (''b'', ''2'')], None)"
proof -
  have l: "scan_lines ''a=1'' = [''a=1'']" "scan_lines (''a=1'' @ [nl] @ ''b=2'' @ [nl]) = [''a=1'', ''b=2'']"
    by code_simp+
  have un: "Unmarshal ''a=1'' = ([(''a'', ''1'')], None)"
    by (simp add: l Unmarshal_def MaxScanTokenSize_def) code_simp
  have am: "apply_mappers [Values [(''a'', ''1'' @ [nl] @ ''b=2'')]] ([(''a'', ''1'')], False) = ([(''a'', ''1'' @ [nl] @ ''b=2'')], True)"
    and ma: "Marshal [(''a'', ''1'' @ [nl] @ ''b=2'')] = Inr (''a=1'' @ [nl] @ ''b=2'' @ [nl])"
    by code_simp+
  show "params_Apply ex_params_fs ''a=1'' ''params.env'' (map mapper_of [LValues [(''a'', ''1'' @ [nl] @ ''b=2'')]]) =
     (''a=1'' @ [nl] @ ''b=2'' @ [nl], None)"
    by (simp add: params_Apply_def un am [simplified] ma [simplified] ex_params_fs_def)
  show "Unmarshal (''a=1'' @ [nl] @ ''b=2'' @ [nl]) = ([(''a'', ''1''), (''b'', ''2'')], None)"
    by (simp only: Unmarshal_def l(2)) (simp add: MaxScanTokenSize_def, code_simp)
qed

end
