(* ===== verification/ClusterMeta.thy ===== *)
theory ClusterMeta
  imports PkgResources
begin

text \<open>
  Metadata options (\<^verbatim>\<open>pkg/cluster/meta.go\<close>), the normalisation of part-of labels (\<^verbatim>\<open>pkg/metadata/labels/types.go\<close>), the handler
  that maps an annotated resource back to its owner (\<^verbatim>\<open>pkg/cluster/ownership.go\<close>) and the event handlers of
  \<^verbatim>\<open>framework/controller/handlers\<close>. An option changes the object it is applied to and may fail; the pointers of an owner
  reference are its booleans, and \<^verbatim>\<open>BlockOwnerDeletion\<close>, always true, is not recorded.
\<close>

section \<open>Part-of labels\<close>

definition label_char :: "char \<Rightarrow> bool" where
  "label_char c = (let n = (of_char c :: nat) in 97 \<le> n \<and> n \<le> 122 \<or> 48 \<le> n \<and> n \<le> 57)"

definition label_inner :: "char \<Rightarrow> bool" where
  "label_inner c \<longleftrightarrow> label_char c \<or> c \<in> {CHR ''.'', CHR ''_'', CHR ''-''}"

text \<open>The expression \<^verbatim>\<open>^[a-z0-9]([a-z0-9._-]*[a-z0-9])?$\<close>.\<close>

definition labelValueRegexp :: "string \<Rightarrow> bool" where
  "labelValueRegexp s \<longleftrightarrow> s \<noteq> [] \<and> label_char (hd s) \<and> label_char (last s) \<and> list_all label_inner s"

definition ErrLabelValueTooLong :: string where "ErrLabelValueTooLong = ''label value exceeds 63-character limit''"
definition ErrLabelValueInvalid :: string where "ErrLabelValueInvalid = ''label value contains invalid characters''"

definition NormalizePartOfValue :: "string \<Rightarrow> go_error + string" where
  "NormalizePartOfValue v =
     (let normalized = to_lower (trim_space v)
      in if normalized = '''' then Inr normalized
         else if length normalized > 63
         then Inl (ErrSuffix (ErrSentinel ErrLabelValueTooLong)
                ('': '' @ quoted normalized @ '' ('' @ nat_str (length normalized) @ '' characters)''))
         else if \<not> labelValueRegexp normalized
         then Inl (ErrSuffix (ErrSentinel ErrLabelValueInvalid) ('': '' @ quoted normalized @ '' (must match [a-z0-9._-])''))
         else Inr normalized)"

section \<open>Metadata options\<close>

definition ErrOwnerMissingAPIVersion :: string where "ErrOwnerMissingAPIVersion = ''owner has no APIVersion set''"
definition ErrOwnerMissingKind :: string where
  "ErrOwnerMissingKind = ''owner has no Kind set (call SetGroupVersionKind first)''"
definition ErrOwnerMissingName :: string where "ErrOwnerMissingName = ''owner has no Name set''"
definition ErrOwnerMissingUID :: string where "ErrOwnerMissingUID = ''owner has no UID set''"
definition ErrOwnerNil :: string where "ErrOwnerNil = ''owner is nil''"
definition ErrOddKeyValuePairs :: string where "ErrOddKeyValuePairs = ''expected even number of key-value pairs''"
definition ErrControllerAlreadySet :: string where "ErrControllerAlreadySet = ''object already has a controller owner reference''"

type_synonym meta_option = "kobj \<Rightarrow> kobj \<times> go_error option"

fun ApplyMetaOptions :: "kobj \<Rightarrow> meta_option list \<Rightarrow> kobj \<times> go_error option" where
  "ApplyMetaOptions obj [] = (obj, None)"
| "ApplyMetaOptions obj (opt # opts) =
     (case opt obj of (obj', Some err) \<Rightarrow> (obj', Some err) | (obj', None) \<Rightarrow> ApplyMetaOptions obj' opts)"

fun pairs_loop :: "string list \<Rightarrow> (string \<rightharpoonup> string) \<Rightarrow> (string \<rightharpoonup> string)" where
  "pairs_loop (k # v # rest) result = pairs_loop rest (result(k \<mapsto> v))"
| "pairs_loop _ result = result"

definition ExtractKeyValues :: "string list \<Rightarrow> go_error + (string \<rightharpoonup> string)" where
  "ExtractKeyValues kvs =
     (if length kvs mod 2 \<noteq> 0
      then Inl (ErrSuffix (ErrSentinel ErrOddKeyValuePairs) ('': got '' @ nat_str (length kvs)))
      else Inr (pairs_loop kvs Map.empty))"

definition meta_WithLabels :: "string list \<Rightarrow> meta_option" where
  "meta_WithLabels kvs obj =
     (case ExtractKeyValues kvs of
        Inl err \<Rightarrow> (obj, Some (ErrWrap ''WithLabels'' err))
      | Inr kv \<Rightarrow> let existing = (case oLabels obj of None \<Rightarrow> Map.empty | Some l \<Rightarrow> l)
                  in (obj\<lparr>oLabels := Some (existing ++ kv)\<rparr>, None))"

definition meta_WithAnnotations :: "string list \<Rightarrow> meta_option" where
  "meta_WithAnnotations kvs obj =
     (case ExtractKeyValues kvs of
        Inl err \<Rightarrow> (obj, Some (ErrWrap ''WithAnnotations'' err))
      | Inr kv \<Rightarrow> let existing = (case oAnnotations obj of None \<Rightarrow> Map.empty | Some l \<Rightarrow> l)
                  in (obj\<lparr>oAnnotations := Some (existing ++ kv)\<rparr>, None))"

fun upsertOwnerRef :: "owner_ref list \<Rightarrow> owner_ref \<Rightarrow> owner_ref list" where
  "upsertOwnerRef [] ref = [ref]"
| "upsertOwnerRef (existing # refs) ref =
     (if orUID existing = orUID ref then ref # refs else existing # upsertOwnerRef refs ref)"

fun other_controller :: "owner_ref list \<Rightarrow> owner_ref \<Rightarrow> owner_ref option" where
  "other_controller [] ref = None"
| "other_controller (existing # refs) ref =
     (if orController existing \<and> orUID existing \<noteq> orUID ref then Some existing else other_controller refs ref)"

definition already_controlled :: "kobj \<Rightarrow> owner_ref \<Rightarrow> go_error" where
  "already_controlled obj existing =
     ErrWrap (orKind existing @ '' '' @ oNamespace obj @ ''/'' @ orName existing) (ErrSentinel ErrControllerAlreadySet)"

definition upsert_ref :: "kobj \<Rightarrow> owner_ref \<Rightarrow> kobj" where
  "upsert_ref obj ref = obj\<lparr>oOwnerRefs := upsertOwnerRef (oOwnerRefs obj) ref\<rparr>"

definition WithOwnerReference :: "owner_ref \<Rightarrow> meta_option" where
  "WithOwnerReference ref obj =
     (case (if orController ref then other_controller (oOwnerRefs obj) ref else None) of
        Some existing \<Rightarrow> (obj, Some (already_controlled obj existing))
      | None \<Rightarrow> (upsert_ref obj ref, None))"

definition gvk_apiVersion :: "gvk \<Rightarrow> string" where
  "gvk_apiVersion g = (if gGroup g = '''' then gVersion g else gGroup g @ ''/'' @ gVersion g)"

text \<open>\<open>None\<close> is a nil owner.\<close>

definition OwnerRefFrom :: "kobj option \<Rightarrow> bool \<Rightarrow> go_error + owner_ref" where
  "OwnerRefFrom ow controller =
     (case ow of None \<Rightarrow> Inl (ErrSentinel ErrOwnerNil)
      | Some owner \<Rightarrow>
          if gKind (oGVK owner) = '''' then Inl (ErrWrap (oNamespace owner @ ''/'' @ oName owner) (ErrSentinel ErrOwnerMissingKind))
          else if gvk_apiVersion (oGVK owner) = ''''
          then Inl (ErrWrap (oNamespace owner @ ''/'' @ oName owner) (ErrSentinel ErrOwnerMissingAPIVersion))
          else if oName owner = '''' then Inl (ErrSentinel ErrOwnerMissingName)
          else if oUID owner = '''' then Inl (ErrSentinel ErrOwnerMissingUID)
          else Inr \<lparr>orAPIVersion = gvk_apiVersion (oGVK owner), orKind = gKind (oGVK owner), orName = oName owner,
                 orUID = oUID owner, orController = controller\<rparr>)"

definition OwnerRefRaw :: "string \<Rightarrow> string \<Rightarrow> string \<Rightarrow> string \<Rightarrow> bool \<Rightarrow> go_error + owner_ref" where
  "OwnerRefRaw apiVersion kind name uid controller =
     (if apiVersion = '''' then Inl (ErrSentinel ErrOwnerMissingAPIVersion)
      else if kind = '''' then Inl (ErrSentinel ErrOwnerMissingKind)
      else if name = '''' then Inl (ErrSentinel ErrOwnerMissingName)
      else if uid = '''' then Inl (ErrSentinel ErrOwnerMissingUID)
      else Inr \<lparr>orAPIVersion = apiVersion, orKind = kind, orName = name, orUID = uid, orController = controller\<rparr>)"

definition OwnedBy :: "kobj option \<Rightarrow> meta_option" where
  "OwnedBy owner obj =
     (case OwnerRefFrom owner False of Inl err \<Rightarrow> (obj, Some err) | Inr ref \<Rightarrow> (upsert_ref obj ref, None))"

definition ControlledBy :: "kobj option \<Rightarrow> meta_option" where
  "ControlledBy owner obj =
     (case OwnerRefFrom owner True of
        Inl err \<Rightarrow> (obj, Some err)
      | Inr ref \<Rightarrow>
          (case other_controller (oOwnerRefs obj) ref of
             Some existing \<Rightarrow> (obj, Some (already_controlled obj existing))
           | None \<Rightarrow> (upsert_ref obj ref, None)))"

definition meta_PlatformPartOf :: string where "meta_PlatformPartOf = ''platform.opendatahub.io/part-of''"
definition meta_InstanceName :: string where "meta_InstanceName = ''platform.opendatahub.io/instance.name''"
definition meta_InstanceNamespace :: string where "meta_InstanceNamespace = ''platform.opendatahub.io/instance.namespace''"
definition meta_InstanceUID :: string where "meta_InstanceUID = ''platform.opendatahub.io/instance.uid''"
definition meta_InstanceGeneration :: string where "meta_InstanceGeneration = ''platform.opendatahub.io/instance.generation''"

definition WithOwnerAnnotations :: "kobj option \<Rightarrow> meta_option" where
  "WithOwnerAnnotations ow obj =
     (case ow of None \<Rightarrow> (obj, Some (ErrSentinel ErrOwnerNil))
      | Some owner \<Rightarrow>
          let kind = gKind (oGVK owner)
          in if kind = '''' then (obj, Some (ErrWrap (oNamespace owner @ ''/'' @ oName owner) (ErrSentinel ErrOwnerMissingKind)))
             else if oName owner = '''' then (obj, Some (ErrSentinel ErrOwnerMissingName))
             else if oUID owner = '''' then (obj, Some (ErrSentinel ErrOwnerMissingUID))
             else case NormalizePartOfValue kind of
               Inl err \<Rightarrow> (obj, Some (ErrWrap (''normalizing owner kind '' @ quoted kind) err))
             | Inr partOf \<Rightarrow>
                 let o1 = pkg_SetLabel obj meta_PlatformPartOf partOf;
                     o2 = pkg_SetAnnotation o1 meta_InstanceName (oName owner);
                     o3 = pkg_SetAnnotation o2 meta_InstanceNamespace (oNamespace owner);
                     o4 = pkg_SetAnnotation o3 meta_InstanceUID (oUID owner);
                     o5 = pkg_SetAnnotation o4 meta_InstanceGeneration (itoa (oGeneration owner))
                 in (o5, None))"

definition meta_InNamespace :: "string \<Rightarrow> meta_option" where
  "meta_InNamespace ns obj = (obj\<lparr>oNamespace := ns\<rparr>, None)"

section \<open>Event handlers\<close>

text \<open>A reconcile request is the namespace and the name of an object.\<close>

definition EnqueueByOwnerAnnotation :: "'a kobj_scheme \<Rightarrow> (string \<times> string) list" where
  "EnqueueByOwnerAnnotation obj =
     (let name = pkg_GetAnnotation obj meta_InstanceName
      in if name = '''' then [] else [(pkg_GetAnnotation obj meta_InstanceNamespace, name)])"

definition LabelToName :: "string \<Rightarrow> 'a kobj_scheme \<Rightarrow> (string \<times> string) list" where
  "LabelToName key a =
     (case oLabels a of None \<Rightarrow> []
      | Some vals \<Rightarrow> let name = go_get vals key in if name = '''' then [] else [('''', name)])"

definition AnnotationToName :: "string \<Rightarrow> 'a kobj_scheme \<Rightarrow> (string \<times> string) list" where
  "AnnotationToName key obj =
     (case oAnnotations obj of None \<Rightarrow> []
      | Some vals \<Rightarrow> let name = go_get vals key in if name = '''' then [] else [('''', name)])"

definition handler_ToNamed :: "string \<Rightarrow> 'a kobj_scheme \<Rightarrow> (string \<times> string) list" where
  "handler_ToNamed name a = [('''', name)]"

definition RequestFromObject :: "'a kobj_scheme \<Rightarrow> (string \<times> string) list" where
  "RequestFromObject obj = [NamespacedNameFromObject obj]"

section \<open>Normalised labels\<close>

lemma lower_char_idem [simp]: "lower_char (lower_char c) = lower_char c"
  by (auto simp: lower_char_def Let_def)

lemma to_lower_idem [simp]: "to_lower (to_lower s) = to_lower s"
  by (simp add: to_lower_def)

lemma is_space_lower [simp]: "is_space (lower_char c) = is_space c"
  by (auto simp: is_space_def lower_char_def Let_def)

lemma trimmed_to_lower [simp]: "trimmed (to_lower s) = trimmed s"
  by (auto simp: trimmed_def to_lower_def hd_map last_map)

text \<open>
  A part-of value is accepted exactly when its trimmed lowercase form is empty or a label value of at most 63 characters
  of the permitted alphabet that starts and ends with a letter or digit; the accepted form is that one, and normalising it
  again gives it back, so both sides of a label selection agree.
\<close>

theorem part_of_normalised:
  "(NormalizePartOfValue v = Inr n \<longleftrightarrow>
     n = to_lower (trim_space v) \<and> (n = '''' \<or> length n \<le> 63 \<and> labelValueRegexp n)) \<and>
   (NormalizePartOfValue v = Inr n \<longrightarrow> NormalizePartOfValue n = Inr n)"
proof -
  have ok: "NormalizePartOfValue v = Inr n \<longleftrightarrow>
      n = to_lower (trim_space v) \<and> (n = '''' \<or> length n \<le> 63 \<and> labelValueRegexp n)" for v n
    by (auto simp: NormalizePartOfValue_def Let_def)
  have "to_lower (trim_space (to_lower (trim_space v))) = to_lower (trim_space v)"
    by (simp add: trim_space_id trim_space_trimmed)
  then show ?thesis by (auto simp: ok)
qed

theorem part_of_normalised_witness:
  "NormalizePartOfValue '' DataScienceCluster '' = Inr ''datasciencecluster'' \<and>
   NormalizePartOfValue ''datasciencecluster'' = Inr ''datasciencecluster''"
proof -
  have "NormalizePartOfValue '' DataScienceCluster '' = Inr ''datasciencecluster''" by code_simp
  then show ?thesis using part_of_normalised [of "'' DataScienceCluster ''" "''datasciencecluster''"] by blast
qed

section \<open>Owner references\<close>

text \<open>What Kubernetes demands of the owner references of an object: one per owner and at most one controller.\<close>

definition refs_ok :: "owner_ref list \<Rightarrow> bool" where
  "refs_ok refs \<longleftrightarrow> distinct (map orUID refs) \<and> length (filter orController refs) \<le> 1"

lemma upsertOwnerRef_upsert: "upsertOwnerRef refs ref = upsert_first orUID ref refs"
  by (induction refs) auto

lemma other_controller_None:
  "other_controller refs ref = None \<longleftrightarrow> (\<forall>r\<in>set refs. orController r \<longrightarrow> orUID r = orUID ref)"
  by (induction refs) auto

lemma upsertOwnerRef_distinct: "distinct (map orUID refs) \<Longrightarrow> distinct (map orUID (upsertOwnerRef refs ref))"
  unfolding upsertOwnerRef_upsert by (rule distinct_upsert)

lemma upsertOwnerRef_controllers:
  "\<not> orController ref \<Longrightarrow> length (filter orController (upsertOwnerRef refs ref)) \<le> length (filter orController refs)"
  by (induction refs) auto

lemma one_controller:
  assumes "distinct (map orUID refs)" and "\<forall>r\<in>set refs. orController r \<longrightarrow> orUID r = u"
  shows "length (filter orController refs) \<le> 1"
  using assms
proof (induction refs)
  case (Cons r refs)
  have "\<not> orController x" if "orController r" "x \<in> set refs" for x
    using Cons.prems that by (metis distinct.simps(2) image_eqI list.set_intros list.set_map list.simps(9))
  then have "orController r \<Longrightarrow> filter orController refs = []" by (simp add: filter_empty_conv)
  with Cons show ?case by auto
qed simp

lemma upsertOwnerRef_mem: "r \<in> set (upsertOwnerRef refs ref) \<Longrightarrow> r = ref \<or> r \<in> set refs"
  by (induction refs) (auto split: if_splits)

lemma upsertOwnerRef_ok:
  assumes "refs_ok refs" and "orController ref \<Longrightarrow> other_controller refs ref = None"
  shows "refs_ok (upsertOwnerRef refs ref)"
proof -
  have d: "distinct (map orUID (upsertOwnerRef refs ref))" using assms(1) by (simp add: refs_ok_def upsertOwnerRef_distinct)
  moreover have "length (filter orController (upsertOwnerRef refs ref)) \<le> 1"
  proof (cases "orController ref")
    case True
    then have "\<forall>r\<in>set (upsertOwnerRef refs ref). orController r \<longrightarrow> orUID r = orUID ref"
      using assms(2) upsertOwnerRef_mem by (fastforce simp: other_controller_None)
    with d show ?thesis by (rule one_controller)
  next
    case False
    with assms(1) upsertOwnerRef_controllers [of ref refs] show ?thesis by (simp add: refs_ok_def)
  qed
  ultimately show ?thesis by (simp add: refs_ok_def)
qed

text \<open>The options the package offers.\<close>

inductive_set meta_options :: "meta_option set" where
  labels: "meta_WithLabels kvs \<in> meta_options"
| annotations: "meta_WithAnnotations kvs \<in> meta_options"
| reference: "WithOwnerReference ref \<in> meta_options"
| owned: "OwnedBy owner \<in> meta_options"
| controlled: "ControlledBy owner \<in> meta_options"
| owner_annotations: "WithOwnerAnnotations owner \<in> meta_options"
| namespace: "meta_InNamespace ns \<in> meta_options"

lemma pkg_Set_refs [simp]:
  "oOwnerRefs (pkg_SetLabel obj k v) = oOwnerRefs obj" "oOwnerRefs (pkg_SetAnnotation obj k v) = oOwnerRefs obj"
  by (simp_all add: pkg_SetLabel_def pkg_SetLabels_def pkg_SetAnnotation_def pkg_SetAnnotations_def Let_def)

lemma WithOwnerAnnotations_refs [simp]: "oOwnerRefs (fst (WithOwnerAnnotations owner obj)) = oOwnerRefs obj"
  by (simp add: WithOwnerAnnotations_def Let_def split: option.split sum.split)

lemma meta_option_keeps:
  assumes "opt \<in> meta_options" and "refs_ok (oOwnerRefs obj)"
  shows "refs_ok (oOwnerRefs (fst (opt obj)))"
  using assms(1)
proof cases
  case (reference ref)
  then show ?thesis
    using assms(2) by (auto simp: WithOwnerReference_def upsert_ref_def intro: upsertOwnerRef_ok split: option.split)
next
  case (owned owner)
  have "OwnerRefFrom owner False = Inr ref \<Longrightarrow> \<not> orController ref" for ref
    by (auto simp: OwnerRefFrom_def split: option.splits if_splits)
  then show ?thesis
    using assms(2) owned by (auto simp: OwnedBy_def upsert_ref_def intro: upsertOwnerRef_ok split: sum.split)
next
  case (controlled owner)
  then show ?thesis
    using assms(2) by (auto simp: ControlledBy_def upsert_ref_def intro: upsertOwnerRef_ok split: sum.split option.split)
qed (use assms(2) in \<open>simp_all add: meta_WithLabels_def meta_WithAnnotations_def meta_InNamespace_def Let_def split: sum.split\<close>)

text \<open>
  C22: Applying any options of the package, in any order and number, keeps the owner references of an object in order: one
  reference per owner and at most one controller, also when an option fails.
\<close>

theorem meta_options_keep_owners:
  assumes "set opts \<subseteq> meta_options" and "refs_ok (oOwnerRefs obj)"
  shows "refs_ok (oOwnerRefs (fst (ApplyMetaOptions obj opts)))"
  using assms
proof (induction obj opts rule: ApplyMetaOptions.induct)
  case (2 obj opt opts)
  obtain obj' e where o: "opt obj = (obj', e)" by (cases "opt obj")
  have "refs_ok (oOwnerRefs obj')" using meta_option_keeps [of opt obj] 2(2,3) o by simp
  then show ?case using 2 o by (cases e) auto
qed simp

text \<open>
  A resource stamped with the annotations of its owner is mapped back to that owner by the watch handler, whatever
  annotations it had, and carries the normalised kind of the owner as its part-of label; a stamp that fails changes nothing.
\<close>

theorem owner_annotations_roundtrip:
  assumes "WithOwnerAnnotations (Some owner) obj = (obj', err)"
  shows "case err of
      None \<Rightarrow> EnqueueByOwnerAnnotation obj' = [NamespacedNameFromObject owner] \<and>
        NormalizePartOfValue (gKind (oGVK owner)) = Inr (pkg_GetLabel obj' meta_PlatformPartOf) \<and>
        pkg_GetAnnotation obj' meta_InstanceUID = oUID owner \<and> pkg_GetAnnotation obj' meta_InstanceGeneration = itoa (oGeneration owner)
    | Some e \<Rightarrow> obj' = obj"
proof (cases err)
  case (Some e)
  then show ?thesis using assms by (auto simp: WithOwnerAnnotations_def Let_def split: if_splits sum.splits)
next
  case None
  then obtain p where p: "NormalizePartOfValue (gKind (oGVK owner)) = Inr p" and n: "oName owner \<noteq> ''''"
    and o: "obj' = pkg_SetAnnotation (pkg_SetAnnotation (pkg_SetAnnotation (pkg_SetAnnotation (pkg_SetLabel obj meta_PlatformPartOf p)
      meta_InstanceName (oName owner)) meta_InstanceNamespace (oNamespace owner)) meta_InstanceUID (oUID owner))
      meta_InstanceGeneration (itoa (oGeneration owner))"
    using assms by (auto simp: WithOwnerAnnotations_def Let_def split: if_splits sum.splits)
  show ?thesis
    using p n by (simp add: None o EnqueueByOwnerAnnotation_def Let_def NamespacedNameFromObject_def pkg_GetAnnotation_def
      pkg_SetAnnotation_def pkg_SetAnnotations_def pkg_GetLabel_def pkg_SetLabel_def pkg_SetLabels_def go_get_def
      meta_InstanceName_def meta_InstanceNamespace_def meta_InstanceUID_def meta_InstanceGeneration_def)
qed

definition ex_meta_object :: kobj where
  "ex_meta_object = (GvkToUnstructured (mk_gvk ''apps'' ''v1'' ''Dashboard''))\<lparr>oName := ''default'', oNamespace := ''odh'', oUID := ''u1'',
     oGeneration := 4\<rparr>"

theorem meta_options_keep_owners_witness:
  "refs_ok (oOwnerRefs (fst (ApplyMetaOptions ex_meta_object [ControlledBy (Some ex_meta_object), OwnedBy (Some (ex_meta_object\<lparr>oUID := ''u2''\<rparr>))])))"
  by (rule meta_options_keep_owners)
    (simp_all add: meta_options.intros refs_ok_def ex_meta_object_def GvkToUnstructured_def)

theorem owner_annotations_roundtrip_witness:
  "EnqueueByOwnerAnnotation (fst (WithOwnerAnnotations (Some ex_meta_object) ex_meta_object)) = [(''odh'', ''default'')]"
proof -
  let ?r = "WithOwnerAnnotations (Some ex_meta_object) ex_meta_object"
  have "snd ?r = None" by code_simp
  moreover have "NamespacedNameFromObject ex_meta_object = (''odh'', ''default'')" by code_simp
  ultimately show ?thesis using owner_annotations_roundtrip [OF prod.collapse [symmetric], of ex_meta_object ex_meta_object] by simp
qed

end
