(* ===== verification/Predicates.thy ===== *)
theory Predicates
  imports ClusterMeta
begin

text \<open>
  The predicates that filter the events of a watch: \<^verbatim>\<open>framework/controller/predicates\<close> (dependent, generation, hash, label,
  partial, resources and the default predicates) and \<^verbatim>\<open>pkg/controller/predicates\<close>. An event may carry nil objects
  (\<open>None\<close>); a predicate that uses one without testing it panics. Access to the fields of unstructured objects, the conversion
  to unstructured, the digest of a hash and the predicates of the controller runtime are parameters.
\<close>

section \<open>Events and predicates\<close>

text \<open>The Go type behind the object interface of an event.\<close>

datatype go_type = TypedDeployment | TypedConfigMap | TypedSecret | TypeUnstructured | TypePartialMetadata | TypeOther

record watched = kobj +
  woType :: go_type

record predicate =
  prCreate :: "watched option \<Rightarrow> bool run"
  prUpdate :: "watched option \<Rightarrow> watched option \<Rightarrow> bool run"
  prDelete :: "watched option \<Rightarrow> bool run"
  prGeneric :: "watched option \<Rightarrow> bool run"

text \<open>\<^verbatim>\<open>predicate.Funcs\<close> with no function set lets everything pass; \<^verbatim>\<open>Or\<close> and \<^verbatim>\<open>And\<close> stop at the first answer that decides.\<close>

definition Funcs :: predicate where
  "Funcs = \<lparr>prCreate = (\<lambda>e. Done True), prUpdate = (\<lambda>o1 o2. Done True), prDelete = (\<lambda>e. Done True), prGeneric = (\<lambda>e. Done True)\<rparr>"

definition or_run :: "bool run \<Rightarrow> bool run \<Rightarrow> bool run" where
  "or_run a b = bind_run a (\<lambda>x. if x then Done True else b)"

definition and_run :: "bool run \<Rightarrow> bool run \<Rightarrow> bool run" where
  "and_run a b = bind_run a (\<lambda>x. if x then b else Done False)"

definition predicate_Or :: "predicate \<Rightarrow> predicate \<Rightarrow> predicate" where
  "predicate_Or p q = \<lparr>prCreate = (\<lambda>e. or_run (prCreate p e) (prCreate q e)),
     prUpdate = (\<lambda>a b. or_run (prUpdate p a b) (prUpdate q a b)), prDelete = (\<lambda>e. or_run (prDelete p e) (prDelete q e)),
     prGeneric = (\<lambda>e. or_run (prGeneric p e) (prGeneric q e))\<rparr>"

definition predicate_And :: "predicate \<Rightarrow> predicate \<Rightarrow> predicate" where
  "predicate_And p q = \<lparr>prCreate = (\<lambda>e. and_run (prCreate p e) (prCreate q e)),
     prUpdate = (\<lambda>a b. and_run (prUpdate p a b) (prUpdate q a b)), prDelete = (\<lambda>e. and_run (prDelete p e) (prDelete q e)),
     prGeneric = (\<lambda>e. and_run (prGeneric p e) (prGeneric q e))\<rparr>"

text \<open>A test of an object that is used without a nil check.\<close>

definition on_obj :: "(watched \<Rightarrow> bool) \<Rightarrow> watched option \<Rightarrow> bool run" where
  "on_obj f ob = (case ob of None \<Rightarrow> Panic | Some x \<Rightarrow> Done (f x))"

definition on_both :: "(watched \<Rightarrow> watched \<Rightarrow> bool) \<Rightarrow> watched option \<Rightarrow> watched option \<Rightarrow> bool run" where
  "on_both f a b = (case (a, b) of (Some x, Some y) \<Rightarrow> Done (f x y) | _ \<Rightarrow> Panic)"

definition NewPredicateFuncs :: "(watched \<Rightarrow> bool) \<Rightarrow> predicate" where
  "NewPredicateFuncs f = \<lparr>prCreate = on_obj f, prUpdate = (\<lambda>a b. on_obj f b), prDelete = on_obj f, prGeneric = on_obj f\<rparr>"

section \<open>Generation\<close>

definition generation_update :: "watched option \<Rightarrow> watched option \<Rightarrow> bool" where
  "generation_update old new =
     (case (old, new) of
        (Some o1, Some o2) \<Rightarrow> if oGeneration o2 = 0 \<or> oGeneration o1 = 0 then True else oGeneration o2 \<noteq> oGeneration o1
      | _ \<Rightarrow> False)"

definition generation_New :: predicate where
  "generation_New = Funcs\<lparr>prUpdate := (\<lambda>a b. Done (generation_update a b))\<rparr>"

section \<open>Labels and annotations\<close>

definition ForLabel :: "string \<Rightarrow> string \<Rightarrow> predicate" where
  "ForLabel name value = Funcs\<lparr>prCreate := (\<lambda>e. Done False), prDelete := (\<lambda>e. Done (HasLabel e name [value])),
     prUpdate := (\<lambda>old new. Done (HasLabel new name [value] \<or> HasLabel old name [value]))\<rparr>"

definition ForAnnotation :: "string \<Rightarrow> string \<Rightarrow> predicate" where
  "ForAnnotation name value = Funcs\<lparr>prCreate := (\<lambda>e. Done False), prDelete := (\<lambda>e. Done (HasAnnotation e name [value])),
     prUpdate := (\<lambda>old new. Done (HasAnnotation new name [value] \<or> HasAnnotation old name [value]))\<rparr>"

definition ForLabelAllEvents :: "string \<Rightarrow> string \<Rightarrow> predicate" where
  "ForLabelAllEvents name value = Funcs\<lparr>prCreate := (\<lambda>e. Done (HasLabel e name [value])), prDelete := (\<lambda>e. Done (HasLabel e name [value])),
     prUpdate := (\<lambda>old new. Done (HasLabel new name [value] \<or> HasLabel old name [value]))\<rparr>"

section \<open>Dependent resources\<close>

record dependent_predicate =
  dpWatchDelete :: bool
  dpWatchUpdate :: bool
  dpWatchStatus :: bool

definition WithWatchDeleted :: "bool \<Rightarrow> dependent_predicate \<Rightarrow> dependent_predicate" where
  "WithWatchDeleted val p = p\<lparr>dpWatchDelete := val\<rparr>"
definition WithWatchUpdate :: "bool \<Rightarrow> dependent_predicate \<Rightarrow> dependent_predicate" where
  "WithWatchUpdate val p = p\<lparr>dpWatchUpdate := val\<rparr>"
definition WithWatchStatus :: "bool \<Rightarrow> dependent_predicate \<Rightarrow> dependent_predicate" where
  "WithWatchStatus val p = p\<lparr>dpWatchStatus := val\<rparr>"

definition dependent_New :: "(dependent_predicate \<Rightarrow> dependent_predicate) list \<Rightarrow> dependent_predicate" where
  "dependent_New opts = foldl (\<lambda>p opt. opt p) \<lparr>dpWatchDelete = True, dpWatchUpdate = True, dpWatchStatus = False\<rparr> opts"

text \<open>What of an object the comparison looks at.\<close>

definition dependent_view :: "dependent_predicate \<Rightarrow> kobj \<Rightarrow> kobj" where
  "dependent_view p ob =
     (let o1 = (if \<not> dpWatchStatus p then ob\<lparr>oStatus := None\<rparr> else ob)
      in o1\<lparr>oResourceVersion := '''', oManagedFields := False\<rparr>)"

definition dependent_update :: "(watched \<Rightarrow> go_error + kobj) \<Rightarrow> dependent_predicate \<Rightarrow> watched \<Rightarrow> watched \<Rightarrow> bool" where
  "dependent_update to_u p old new =
     (if oResourceVersion old = oResourceVersion new then False
      else if \<not> dpWatchStatus p \<and> oGeneration old = oGeneration new \<and> oGeneration new \<noteq> 0 then False
      else case to_u old of Inl err \<Rightarrow> False
        | Inr oldObj \<Rightarrow>
            (case to_u new of Inl err \<Rightarrow> False
             | Inr newObj \<Rightarrow> dependent_view p oldObj \<noteq> dependent_view p newObj))"

definition dependent_funcs :: "(watched \<Rightarrow> go_error + kobj) \<Rightarrow> dependent_predicate \<Rightarrow> predicate" where
  "dependent_funcs to_u p = \<lparr>prCreate = (\<lambda>e. Done False),
     prUpdate = (\<lambda>old new. if \<not> dpWatchUpdate p then Done False else on_both (dependent_update to_u p) old new),
     prDelete = (\<lambda>e. Done (dpWatchDelete p)), prGeneric = (\<lambda>e. Done False)\<rparr>"

section \<open>Hashes\<close>

definition hash_update :: "(watched \<Rightarrow> go_error + kobj) \<Rightarrow> (kobj \<Rightarrow> string) \<Rightarrow> watched \<Rightarrow> watched \<Rightarrow> bool" where
  "hash_update to_u digest old new =
     (case to_u old of Inl err \<Rightarrow> True
      | Inr oldU \<Rightarrow>
          (case to_u new of Inl err \<Rightarrow> True
           | Inr newU \<Rightarrow> Hash digest oldU \<noteq> Hash digest newU))"

definition hash_Updated :: "(watched \<Rightarrow> go_error + kobj) \<Rightarrow> (kobj \<Rightarrow> string) \<Rightarrow> predicate" where
  "hash_Updated to_u digest = Funcs\<lparr>prUpdate := on_both (hash_update to_u digest)\<rparr>"

section \<open>Partial metadata\<close>

record partial_predicate =
  ppWatchDelete :: bool
  ppWatchUpdate :: bool

definition WatchDeleted :: "bool \<Rightarrow> partial_predicate \<Rightarrow> partial_predicate" where
  "WatchDeleted val p = p\<lparr>ppWatchDelete := val\<rparr>"
definition WatchUpdate :: "bool \<Rightarrow> partial_predicate \<Rightarrow> partial_predicate" where
  "WatchUpdate val p = p\<lparr>ppWatchUpdate := val\<rparr>"

definition partial_New :: "(partial_predicate \<Rightarrow> partial_predicate) list \<Rightarrow> partial_predicate" where
  "partial_New opts = foldl (\<lambda>p opt. opt p) \<lparr>ppWatchDelete = True, ppWatchUpdate = True\<rparr> opts"

definition is_partial :: "watched option \<Rightarrow> bool" where
  "is_partial ob = (case ob of None \<Rightarrow> False | Some x \<Rightarrow> woType x = TypePartialMetadata)"

definition partial_funcs :: "partial_predicate \<Rightarrow> predicate" where
  "partial_funcs p = \<lparr>prCreate = (\<lambda>e. Done False),
     prUpdate = (\<lambda>old new. if \<not> ppWatchUpdate p then Done False
       else bind_run (on_both (\<lambda>a b. oResourceVersion a = oResourceVersion b) old new)
              (\<lambda>same. if same then Done False else Done (is_partial new))),
     prDelete = (\<lambda>e. if \<not> ppWatchDelete p then Done False else Done (is_partial e)), prGeneric = (\<lambda>e. Done False)\<rparr>"

section \<open>Resources\<close>

definition gvkDeployment :: gvk where "gvkDeployment = mk_gvk ''apps'' ''v1'' ''Deployment''"
definition gvkConfigMap :: gvk where "gvkConfigMap = mk_gvk '''' ''v1'' ''ConfigMap''"
definition gvkSecret :: gvk where "gvkSecret = mk_gvk '''' ''v1'' ''Secret''"

definition hasGVK :: "watched \<Rightarrow> gvk \<Rightarrow> bool" where
  "hasGVK u expected = (oGVK u = expected)"

text \<open>
  Fields of objects: the status of a typed deployment, the nested map and integers of an unstructured one, the data of typed
  and of unstructured objects. Data of different Go types is never deeply equal, which the two sides of the sum keep apart.
\<close>

record ('m, 'd) field_ops =
  fdDeploymentStatus :: "watched \<Rightarrow> int \<times> int"
  fdNestedMap :: "watched \<Rightarrow> string \<Rightarrow> go_error + 'm option"
  fdNestedInt64 :: "'m \<Rightarrow> string \<Rightarrow> go_error + int option"
  fdData :: "watched \<Rightarrow> 'd"
  fdNestedField :: "watched \<Rightarrow> string \<Rightarrow> go_error + 'd"

definition MinInt32 :: int where "MinInt32 = - (2 ^ 31)"
definition MaxInt32 :: int where "MaxInt32 = 2 ^ 31 - 1"

definition getInt32Field :: "('m, 'd) field_ops \<Rightarrow> 'm \<Rightarrow> string \<Rightarrow> int" where
  "getInt32Field fd m field =
     (case fdNestedInt64 fd m field of
        Inl err \<Rightarrow> 0
      | Inr None \<Rightarrow> 0
      | Inr (Some val) \<Rightarrow> if val < MinInt32 then MinInt32 else if val > MaxInt32 then MaxInt32 else val)"

definition getDeploymentStatus :: "('m, 'd) field_ops \<Rightarrow> watched \<Rightarrow> (int \<times> int) option" where
  "getDeploymentStatus fd obj =
     (if woType obj = TypedDeployment then Some (fdDeploymentStatus fd obj)
      else if woType obj \<noteq> TypeUnstructured \<or> \<not> hasGVK obj gvkDeployment then None
      else case fdNestedMap fd obj ''status'' of
        Inl err \<Rightarrow> Some (0, 0)
      | Inr None \<Rightarrow> Some (0, 0)
      | Inr (Some status) \<Rightarrow> Some (getInt32Field fd status ''replicas'', getInt32Field fd status ''readyReplicas''))"

definition deployment_update :: "('m, 'd) field_ops \<Rightarrow> watched option \<Rightarrow> watched option \<Rightarrow> bool" where
  "deployment_update fd old new =
     (case (old, new) of
        (Some o1, Some o2) \<Rightarrow>
          (case (getDeploymentStatus fd o1, getDeploymentStatus fd o2) of
             (Some (oldReplicas, oldReady), Some (newReplicas, newReady)) \<Rightarrow>
               oGeneration o1 \<noteq> oGeneration o2 \<or> oldReplicas \<noteq> newReplicas \<or> oldReady \<noteq> newReady
           | _ \<Rightarrow> False)
      | _ \<Rightarrow> False)"

definition NewDeploymentPredicate :: "('m, 'd) field_ops \<Rightarrow> predicate" where
  "NewDeploymentPredicate fd = Funcs\<lparr>prUpdate := (\<lambda>a b. Done (deployment_update fd a b))\<rparr>"

definition Deleted :: predicate where
  "Deleted = \<lparr>prCreate = (\<lambda>e. Done False), prUpdate = (\<lambda>a b. Done False), prDelete = (\<lambda>e. Done True), prGeneric = (\<lambda>e. Done False)\<rparr>"

definition object_data :: "('m, 'd) field_ops \<Rightarrow> go_type \<Rightarrow> gvk \<Rightarrow> watched option \<Rightarrow> ('d + 'd) option" where
  "object_data fd t g ob =
     (case ob of None \<Rightarrow> None
      | Some obj \<Rightarrow>
          if woType obj = t then Some (Inl (fdData fd obj))
          else if woType obj \<noteq> TypeUnstructured \<or> \<not> hasGVK obj g then None
          else case fdNestedField fd obj ''data'' of Inl err \<Rightarrow> None | Inr d \<Rightarrow> Some (Inr d))"

definition getConfigMapData :: "('m, 'd) field_ops \<Rightarrow> watched option \<Rightarrow> ('d + 'd) option" where
  "getConfigMapData fd = object_data fd TypedConfigMap gvkConfigMap"

definition getSecretData :: "('m, 'd) field_ops \<Rightarrow> watched option \<Rightarrow> ('d + 'd) option" where
  "getSecretData fd = object_data fd TypedSecret gvkSecret"

definition data_changed :: "(watched option \<Rightarrow> 'v option) \<Rightarrow> watched option \<Rightarrow> watched option \<Rightarrow> bool" where
  "data_changed get old new = (case (get old, get new) of (Some oldData, Some newData) \<Rightarrow> oldData \<noteq> newData | _ \<Rightarrow> False)"

definition CMContentChangedPredicate :: "('m, 'd) field_ops \<Rightarrow> predicate" where
  "CMContentChangedPredicate fd = Funcs\<lparr>prUpdate := (\<lambda>a b. Done (data_changed (getConfigMapData fd) a b))\<rparr>"

definition SecretContentChangedPredicate :: "('m, 'd) field_ops \<Rightarrow> predicate" where
  "SecretContentChangedPredicate fd = Funcs\<lparr>prUpdate := (\<lambda>a b. Done (data_changed (getSecretData fd) a b))\<rparr>"

definition AnnotationChanged :: "string \<Rightarrow> predicate" where
  "AnnotationChanged name = Funcs\<lparr>prCreate := (\<lambda>e. Done True), prDelete := (\<lambda>e. Done False),
     prUpdate := on_both (\<lambda>old new. GetAnnotation new name \<noteq> GetAnnotation old name)\<rparr>"

definition CreatedOrUpdatedName :: "string \<Rightarrow> predicate" where
  "CreatedOrUpdatedName name = Funcs\<lparr>prCreate := on_obj (\<lambda>x. oName x = name), prUpdate := (\<lambda>a b. on_obj (\<lambda>x. oName x = name) b)\<rparr>"

definition named_events :: "(watched \<Rightarrow> bool) \<Rightarrow> predicate" where
  "named_events f = Funcs\<lparr>prCreate := on_obj f, prUpdate := (\<lambda>a b. on_obj f b), prDelete := on_obj f\<rparr>"

definition CreatedOrUpdatedOrDeletedNamed :: "string \<Rightarrow> predicate" where
  "CreatedOrUpdatedOrDeletedNamed name = named_events (\<lambda>x. oName x = name)"

definition CreatedOrUpdatedOrDeletedNamedInNamespace :: "string \<Rightarrow> string \<Rightarrow> predicate" where
  "CreatedOrUpdatedOrDeletedNamedInNamespace name namespace =
     predicate_And (CreatedOrUpdatedOrDeletedNamed name) (NewPredicateFuncs (\<lambda>obj. oNamespace obj = namespace))"

definition CreatedOrUpdatedOrDeletedNamePrefixed :: "string \<Rightarrow> predicate" where
  "CreatedOrUpdatedOrDeletedNamePrefixed namePrefix =
     (named_events (\<lambda>x. starts_with namePrefix (oName x)))\<lparr>prGeneric := (\<lambda>e. Done False)\<rparr>"

definition CreatedOrUpdatedOrDeletedNameSuffixed :: "string \<Rightarrow> predicate" where
  "CreatedOrUpdatedOrDeletedNameSuffixed nameSuffix = named_events (\<lambda>x. has_suffix nameSuffix (oName x))"

definition GatewayCertificateSecret :: "(watched \<Rightarrow> bool) \<Rightarrow> predicate" where
  "GatewayCertificateSecret isGatewayCertFn = named_events isGatewayCertFn"

definition StatusChanged :: predicate where
  "StatusChanged = Funcs\<lparr>prCreate := (\<lambda>e. Done False), prDelete := (\<lambda>e. Done True),
     prUpdate := on_both (\<lambda>old new. oResourceVersion old \<noteq> oResourceVersion new \<and> oGeneration old = oGeneration new)\<rparr>"

definition label_is :: "string \<Rightarrow> string \<Rightarrow> watched \<Rightarrow> bool" where
  "label_is key value obj = (go_get (case oLabels obj of None \<Rightarrow> Map.empty | Some l \<Rightarrow> l) key = value)"

definition CreatedOrUpdatedOrDeletedLabeled :: "string \<Rightarrow> string \<Rightarrow> predicate" where
  "CreatedOrUpdatedOrDeletedLabeled key value = (named_events (label_is key value))\<lparr>prGeneric := (\<lambda>e. Done False)\<rparr>"

section \<open>Default predicates\<close>

text \<open>\<open>labelChanged\<close> and \<open>annotationChanged\<close> are the predicates of the controller runtime.\<close>

definition DefaultPredicate :: "predicate \<Rightarrow> predicate \<Rightarrow> predicate" where
  "DefaultPredicate labelChanged annotationChanged = predicate_Or generation_New (predicate_Or labelChanged annotationChanged)"

definition DefaultDeploymentPredicate :: "('m, 'd) field_ops \<Rightarrow> predicate \<Rightarrow> predicate \<Rightarrow> predicate" where
  "DefaultDeploymentPredicate fd labelChanged annotationChanged =
     predicate_Or (NewDeploymentPredicate fd) (predicate_Or labelChanged annotationChanged)"

section \<open>The predicates of the root module\<close>

definition pkg_generation_update :: "watched option \<Rightarrow> watched option \<Rightarrow> bool" where
  "pkg_generation_update old new =
     (case (old, new) of
        (Some o1, Some o2) \<Rightarrow> if oGeneration o2 = 0 \<or> oGeneration o1 = 0 then True else oGeneration o2 \<noteq> oGeneration o1
      | _ \<Rightarrow> False)"

definition GenerationChangedPredicate :: predicate where
  "GenerationChangedPredicate = Funcs\<lparr>prUpdate := (\<lambda>a b. Done (pkg_generation_update a b))\<rparr>"

text \<open>A selector is its test for emptiness and its match on labels; \<open>None\<close> is a nil selector.\<close>

definition selector_matches :: "(bool \<times> ((string \<rightharpoonup> string) \<Rightarrow> bool)) option \<Rightarrow> watched \<Rightarrow> bool" where
  "selector_matches sel obj =
     (case sel of None \<Rightarrow> True
      | Some (isEmpty, matches) \<Rightarrow> if isEmpty then True else matches (case oLabels obj of None \<Rightarrow> Map.empty | Some l \<Rightarrow> l))"

definition selector_event :: "(bool \<times> ((string \<rightharpoonup> string) \<Rightarrow> bool)) option \<Rightarrow> watched option \<Rightarrow> bool run" where
  "selector_event sel ob = (case ob of None \<Rightarrow> Done False | Some x \<Rightarrow> Done (selector_matches sel x))"

definition LabelSelectorPredicate :: "(bool \<times> ((string \<rightharpoonup> string) \<Rightarrow> bool)) option \<Rightarrow> predicate" where
  "LabelSelectorPredicate sel = \<lparr>prCreate = selector_event sel, prUpdate = (\<lambda>a b. selector_event sel b),
     prDelete = selector_event sel, prGeneric = selector_event sel\<rparr>"

definition pkg_annotation :: "string \<Rightarrow> watched \<Rightarrow> string" where
  "pkg_annotation key obj = (case oAnnotations obj of None \<Rightarrow> '''' | Some a \<Rightarrow> go_get a key)"

definition AnnotationChangedPredicate :: "string \<Rightarrow> predicate" where
  "AnnotationChangedPredicate key = \<lparr>prCreate = (\<lambda>e. Done True),
     prUpdate = (\<lambda>old new. Done (case (old, new) of (Some a, Some b) \<Rightarrow> pkg_annotation key a \<noteq> pkg_annotation key b | _ \<Rightarrow> False)),
     prDelete = (\<lambda>e. Done False), prGeneric = (\<lambda>e. Done False)\<rparr>"

definition DeletionPredicate :: predicate where
  "DeletionPredicate = \<lparr>prCreate = (\<lambda>e. Done False), prUpdate = (\<lambda>a b. Done False), prDelete = (\<lambda>e. Done True),
     prGeneric = (\<lambda>e. Done False)\<rparr>"

section \<open>What passes\<close>

lemma or_run_simps [simp]: "or_run (Done a) (Done b) = Done (a \<or> b)" "and_run (Done a) (Done b) = Done (a \<and> b)"
  by (simp_all add: or_run_def and_run_def)

lemma on_simps [simp]: "on_obj f (Some x) = Done (f x)" "on_both g (Some x) (Some y) = Done (g x y)"
  by (simp_all add: on_obj_def on_both_def)

lemma prUpdate_simps [simp]:
  "prUpdate (predicate_Or p q) a b = or_run (prUpdate p a b) (prUpdate q a b)"
  "prUpdate (predicate_And p q) a b = and_run (prUpdate p a b) (prUpdate q a b)"
  by (simp_all add: predicate_Or_def predicate_And_def)

text \<open>The controller runtime documents its predicates: an update passes when the map differs.\<close>

definition label_changes :: "predicate \<Rightarrow> bool" where
  "label_changes p \<longleftrightarrow> (\<forall>a b. prUpdate p (Some a) (Some b) = Done (oLabels a \<noteq> oLabels b))"

definition annotation_changes :: "predicate \<Rightarrow> bool" where
  "annotation_changes p \<longleftrightarrow> (\<forall>a b. prUpdate p (Some a) (Some b) = Done (oAnnotations a \<noteq> oAnnotations b))"

text \<open>The object after a write that touches only its status, with the bookkeeping of the server.\<close>

definition status_write :: "json option \<Rightarrow> string \<Rightarrow> bool \<Rightarrow> watched \<Rightarrow> watched" where
  "status_write st rv mf old = old\<lparr>oStatus := st, oResourceVersion := rv, oManagedFields := mf\<rparr>"

lemma status_write_sel [simp]:
  "oGeneration (status_write st rv mf ob) = oGeneration ob" "oLabels (status_write st rv mf ob) = oLabels ob"
  "oAnnotations (status_write st rv mf ob) = oAnnotations ob" "woType (status_write st rv mf ob) = woType ob"
  "oGVK (status_write st rv mf ob) = oGVK ob"
  by (simp_all add: status_write_def)

text \<open>
  C15: With the default predicate a write to the status of an object that counts generations never wakes the controller, so a
  controller does not wake itself; a change of generation, of labels or of annotations always does. With the default predicate
  for deployments a status write of a deployment passes exactly when the number of replicas or of ready replicas changed.
\<close>

theorem default_predicates_filter:
  assumes "label_changes lc" and "annotation_changes ac" and "oGeneration old \<noteq> 0"
  shows "prUpdate (DefaultPredicate lc ac) (Some old) (Some (status_write st rv mf old)) = Done False \<and>
    (oGeneration new \<noteq> oGeneration old \<or> oLabels new \<noteq> oLabels old \<or> oAnnotations new \<noteq> oAnnotations old \<longrightarrow>
      prUpdate (DefaultPredicate lc ac) (Some old) (Some new) = Done True) \<and>
    prUpdate (DefaultDeploymentPredicate fd lc ac) (Some old) (Some (status_write st rv mf old)) =
      Done (getDeploymentStatus fd old \<noteq> None \<and> getDeploymentStatus fd (status_write st rv mf old) \<noteq> None \<and>
        getDeploymentStatus fd old \<noteq> getDeploymentStatus fd (status_write st rv mf old))"
proof -
  note upd = assms(1) [unfolded label_changes_def, rule_format] assms(2) [unfolded annotation_changes_def, rule_format]
  have "prUpdate (DefaultPredicate lc ac) (Some old) (Some n) =
      Done (oGeneration n = 0 \<or> oGeneration n \<noteq> oGeneration old \<or> oLabels old \<noteq> oLabels n \<or> oAnnotations old \<noteq> oAnnotations n)" for n
    using assms(3) by (simp add: DefaultPredicate_def generation_New_def generation_update_def upd)
  moreover have "prUpdate (DefaultDeploymentPredicate fd lc ac) (Some old) (Some (status_write st rv mf old)) =
      Done (deployment_update fd (Some old) (Some (status_write st rv mf old)))"
    by (simp add: DefaultDeploymentPredicate_def NewDeploymentPredicate_def upd)
  ultimately show ?thesis
    using assms(3) by (auto simp: deployment_update_def split: option.split prod.split)
qed

text \<open>
  The number of replicas read from an unstructured deployment is the stored one when it fits 32 bits and the nearest
  32-bit number otherwise, so it never wraps; a missing or ill-typed field counts as zero.
\<close>

theorem int32_field_saturates:
  "MinInt32 \<le> getInt32Field fd m field \<and> getInt32Field fd m field \<le> MaxInt32 \<and>
   (case fdNestedInt64 fd m field of
      Inr (Some v) \<Rightarrow> getInt32Field fd m field = max MinInt32 (min MaxInt32 v)
    | _ \<Rightarrow> getInt32Field fd m field = 0)"
  by (auto simp: getInt32Field_def MinInt32_def MaxInt32_def split: sum.split option.split)

text \<open>
  The dependent predicate looks past bookkeeping: whatever its options, two versions that differ only in resource version,
  managed fields and (unless the status is watched) status never pass, and when updates are watched and the kind has no
  generation or the generation changed, every other difference passes.
\<close>

theorem dependent_ignores_bookkeeping:
  assumes "to_u old = Inr uo" and "to_u new = Inr un"
  shows "(dependent_view p uo = dependent_view p un \<longrightarrow> prUpdate (dependent_funcs to_u p) (Some old) (Some new) = Done False) \<and>
    (dependent_view p uo \<noteq> dependent_view p un \<and> dpWatchUpdate p \<and> oResourceVersion old \<noteq> oResourceVersion new \<and>
       (dpWatchStatus p \<or> oGeneration new = 0 \<or> oGeneration old \<noteq> oGeneration new) \<longrightarrow>
     prUpdate (dependent_funcs to_u p) (Some old) (Some new) = Done True)"
  using assms by (simp add: dependent_funcs_def dependent_update_def)

lemma dependent_view_bookkeeping:
  "dependent_view p (ob\<lparr>oResourceVersion := rv, oManagedFields := mf\<rparr>) = dependent_view p ob"
  "\<not> dpWatchStatus p \<Longrightarrow> dependent_view p (ob\<lparr>oStatus := st\<rparr>) = dependent_view p ob"
  by (simp_all add: dependent_view_def Let_def)

text \<open>
  The predicates of the root module and of the framework agree: generation and deletion predicates are the same, and the
  annotation predicates give the same answer for every create, delete and update event that carries its objects. They differ
  only on generic events, which the framework's lets pass, and on events without objects, where the framework's panics.
\<close>

theorem root_predicates_agree:
  "GenerationChangedPredicate = generation_New \<and> DeletionPredicate = Deleted \<and>
   prCreate (AnnotationChangedPredicate k) e = prCreate (AnnotationChanged k) e \<and>
   prDelete (AnnotationChangedPredicate k) e = prDelete (AnnotationChanged k) e \<and>
   prUpdate (AnnotationChangedPredicate k) (Some old) (Some new) = prUpdate (AnnotationChanged k) (Some old) (Some new) \<and>
   prGeneric (AnnotationChangedPredicate k) e = Done False \<and> prGeneric (AnnotationChanged k) e = Done True \<and>
   prUpdate (AnnotationChangedPredicate k) None (Some new) = Done False \<and> prUpdate (AnnotationChanged k) None (Some new) = Panic"
  by (auto simp: GenerationChangedPredicate_def generation_New_def DeletionPredicate_def Deleted_def AnnotationChangedPredicate_def
      AnnotationChanged_def Funcs_def pkg_generation_update_def generation_update_def fun_eq_iff pkg_annotation_def GetAnnotation_def
      on_both_def)

text \<open>The delete event of an object of any name passes a predicate that is meant for created or updated objects of one name.\<close>

lemma created_or_updated_passes_deletes: "prDelete (CreatedOrUpdatedName name) e = Done True"
  by (simp add: CreatedOrUpdatedName_def Funcs_def)

section \<open>Examples\<close>

definition ex_watched :: watched where
  "ex_watched = kobj.extend (ex_meta_object\<lparr>oGVK := gvkDeployment\<rparr>) \<lparr>woType = TypeUnstructured\<rparr>"

definition ex_fields :: "(json option, unit) field_ops" where
  "ex_fields = \<lparr>fdDeploymentStatus = (\<lambda>x. (0, 0)), fdNestedMap = (\<lambda>x f. Inr (Some (oStatus x))),
     fdNestedInt64 = (\<lambda>m f. case m of Some (JInt n) \<Rightarrow> Inr (Some n) | _ \<Rightarrow> Inr None), fdData = (\<lambda>x. ()), fdNestedField = (\<lambda>x f. Inr ())\<rparr>"

definition ex_label_changed :: predicate where
  "ex_label_changed = Funcs\<lparr>prUpdate := on_both (\<lambda>a b. oLabels a \<noteq> oLabels b)\<rparr>"

definition ex_annotation_changed :: predicate where
  "ex_annotation_changed = Funcs\<lparr>prUpdate := on_both (\<lambda>a b. oAnnotations a \<noteq> oAnnotations b)\<rparr>"

theorem default_predicates_filter_witness:
  "prUpdate (DefaultPredicate ex_label_changed ex_annotation_changed) (Some ex_watched) (Some (status_write (Some JNull) ''9'' True ex_watched)) =
     Done False \<and>
   prUpdate (DefaultDeploymentPredicate ex_fields ex_label_changed ex_annotation_changed) (Some ex_watched)
     (Some (status_write (Some (JInt 3)) ''9'' True ex_watched)) = Done True"
proof -
  have l: "label_changes ex_label_changed" and a: "annotation_changes ex_annotation_changed"
    by (simp_all add: label_changes_def annotation_changes_def ex_label_changed_def ex_annotation_changed_def)
  have g: "oGeneration ex_watched \<noteq> 0" by (simp add: ex_watched_def ex_meta_object_def kobj.defs)
  have "getDeploymentStatus ex_fields ex_watched = Some (0, 0)"
    "getDeploymentStatus ex_fields (status_write (Some (JInt 3)) ''9'' True ex_watched) = Some (3, 3)"
    by (simp_all add: getDeploymentStatus_def ex_fields_def ex_watched_def ex_meta_object_def hasGVK_def kobj.defs getInt32Field_def
        status_write_def MinInt32_def MaxInt32_def GvkToUnstructured_def)
  then show ?thesis
    using default_predicates_filter [OF l a g, of "Some JNull" "''9''" True ex_watched ex_fields]
      default_predicates_filter [OF l a g, of "Some (JInt 3)" "''9''" True ex_watched ex_fields] by simp
qed

theorem dependent_ignores_bookkeeping_witness:
  "prUpdate (dependent_funcs (\<lambda>x. Inr (kobj.truncate x)) (dependent_New [])) (Some ex_watched)
     (Some (ex_watched\<lparr>oResourceVersion := ''9'', oGeneration := 5\<rparr>)) = Done True"
proof -
  have "dependent_view (dependent_New []) (kobj.truncate ex_watched) \<noteq>
      dependent_view (dependent_New []) (kobj.truncate (ex_watched\<lparr>oResourceVersion := ''9'', oGeneration := 5\<rparr>))"
    by (simp add: dependent_view_def dependent_New_def ex_watched_def ex_meta_object_def kobj.defs GvkToUnstructured_def)
  then show ?thesis
    using dependent_ignores_bookkeeping [where to_u = "\<lambda>x. Inr (kobj.truncate x)" and old = ex_watched
        and new = "ex_watched\<lparr>oResourceVersion := ''9'', oGeneration := 5\<rparr>", OF refl refl, of "dependent_New []"]
    by (simp add: dependent_New_def ex_watched_def ex_meta_object_def kobj.defs GvkToUnstructured_def)
qed

theorem int32_field_saturates_witness:
  "getInt32Field ex_fields (Some (JInt (2 ^ 40))) ''replicas'' = MaxInt32"
  using int32_field_saturates [of ex_fields "Some (JInt (2 ^ 40))" "''replicas''"]
  by (simp add: ex_fields_def MinInt32_def MaxInt32_def)

end
