(* ===== verification/Webhook.thy ===== *)
theory Webhook
  imports KObject
begin

text \<open>
  Admission webhooks (\<^verbatim>\<open>framework/webhook\<close>): the builder of an endpoint with its raw, per-operation and caller-built
  handlers, the guard around the handler that rejects requests for another kind (\<^verbatim>\<open>webhook.go\<close>), and the typed
  validating and defaulting builders (\<^verbatim>\<open>typed.go\<close>). The admission library (its responses, the combination of mutating
  handlers, the adapters of typed handlers, the decoder) and JSON are parameters. Registrations on the server are a list.
\<close>

section \<open>Admission\<close>

record admission_request =
  arKind :: gvk
  arOperation :: string
  arObject :: string
  arOldObject :: string

record admission_response =
  rpAllowed :: bool
  rpCode :: int
  rpMessage :: string
  rpPatch :: "string option"
  rpPatchType :: "string option"

type_synonym admission_handler = "admission_request \<Rightarrow> admission_response"

text \<open>The options of a webhook the builder touches: its handler, the name it logs under, and whether it recovers from panics.\<close>

record webhook =
  whHandler :: "admission_handler option"
  whLogName :: "string option"
  whRecoverPanic :: "bool option"

record ('sch, 'rd, 'dec) admission_ops =
  aoErrored :: "int \<Rightarrow> go_error \<Rightarrow> admission_response"
  aoAllowed :: "string \<Rightarrow> admission_response"
  aoMulti :: "admission_handler list \<Rightarrow> admission_handler"
  aoNewDecoder :: "'sch \<Rightarrow> 'dec"
  aoTypeMeta :: "string \<Rightarrow> go_error + string \<times> string"
  aoMetaGVK :: "string \<times> string \<Rightarrow> gvk"

definition OpCreate :: string where "OpCreate = ''CREATE''"
definition OpUpdate :: string where "OpUpdate = ''UPDATE''"
definition OpDelete :: string where "OpDelete = ''DELETE''"
definition OpConnect :: string where "OpConnect = ''CONNECT''"

section \<open>The builder\<close>

text \<open>How the builder makes its webhook: from a raw callback, from the callbacks per operation it has by the time of \<^verbatim>\<open>Build\<close>,
  from the caller's webhook, or from the typed builders.\<close>

datatype ('sch, 'rd, 'dec) hook_factory =
    RawHandler "admission_request \<Rightarrow> 'rd \<Rightarrow> 'dec \<Rightarrow> admission_response"
  | PerOperation
  | CallerHook "webhook option"
  | TypedHook "'sch \<Rightarrow> 'rd \<Rightarrow> webhook option"

type_synonym 'rd op_callback = "admission_request \<Rightarrow> 'rd \<Rightarrow> admission_response"

record ('sch, 'rd) hook_manager =
  hmServer :: bool
  hmScheme :: "'sch option"
  hmReader :: 'rd

record ('sch, 'rd, 'dec) hook_builder =
  hbMgr :: "('sch, 'rd) hook_manager option"
  hbPath :: string
  hbName :: string
  hbGVK :: gvk
  hbObject :: "kobj option"
  hbFactory :: "('sch, 'rd, 'dec) hook_factory option"
  hbOperations :: "(string \<rightharpoonup> 'rd op_callback list) option"
  hbHandlers :: nat
  hbConfigure :: "(webhook \<Rightarrow> webhook) list"
  hbErr :: "go_error option"

definition hook_For :: "('sch, 'rd) hook_manager option \<Rightarrow> string \<Rightarrow> gvk \<Rightarrow> ('sch, 'rd, 'dec) hook_builder" where
  "hook_For mgr path g = \<lparr>hbMgr = mgr, hbPath = path, hbName = path, hbGVK = g, hbObject = None, hbFactory = None,
     hbOperations = None, hbHandlers = 0, hbConfigure = [], hbErr = None\<rparr>"

definition join_err :: "go_error option \<Rightarrow> go_error \<Rightarrow> go_error option" where
  "join_err eo e = Some (ErrJoin (case eo of None \<Rightarrow> [e] | Some x \<Rightarrow> [x, e]))"

definition hook_WithHandler ::
  "('sch, 'rd, 'dec) hook_builder \<Rightarrow> (admission_request \<Rightarrow> 'rd \<Rightarrow> 'dec \<Rightarrow> admission_response) option \<Rightarrow>
     ('sch, 'rd, 'dec) hook_builder" where
  "hook_WithHandler b handler =
     (let b1 = b\<lparr>hbHandlers := hbHandlers b + 1\<rparr>
      in case handler of
           None \<Rightarrow> b1\<lparr>hbErr := join_err (hbErr b1) (ErrNew ''nil admission handler'')\<rparr>
         | Some h \<Rightarrow> b1\<lparr>hbFactory := Some (RawHandler h)\<rparr>)"

definition onOperation ::
  "string \<Rightarrow> ('sch, 'rd, 'dec) hook_builder \<Rightarrow> 'rd op_callback option \<Rightarrow> ('sch, 'rd, 'dec) hook_builder" where
  "onOperation operation b handler =
     (case handler of
        None \<Rightarrow> b\<lparr>hbErr := join_err (hbErr b) (ErrNew (''nil '' @ operation @ '' admission handler''))\<rparr>
      | Some h \<Rightarrow>
          let (b1, ops) = (case hbOperations b of
                             None \<Rightarrow> (b\<lparr>hbHandlers := hbHandlers b + 1, hbFactory := Some PerOperation\<rparr>, Map.empty)
                           | Some ops \<Rightarrow> (b, ops))
          in b1\<lparr>hbOperations := Some (ops(operation \<mapsto> (case ops operation of None \<Rightarrow> [] | Some hs \<Rightarrow> hs) @ [h]))\<rparr>)"

definition hook_OnCreate where "hook_OnCreate = onOperation OpCreate"
definition hook_OnUpdate where "hook_OnUpdate = onOperation OpUpdate"
definition hook_OnDelete where "hook_OnDelete = onOperation OpDelete"
definition hook_OnConnect where "hook_OnConnect = onOperation OpConnect"

definition WithWebhook :: "('sch, 'rd, 'dec) hook_builder \<Rightarrow> webhook option \<Rightarrow> ('sch, 'rd, 'dec) hook_builder" where
  "WithWebhook b hook = b\<lparr>hbHandlers := hbHandlers b + 1, hbFactory := Some (CallerHook hook)\<rparr>"

definition hook_WithName :: "('sch, 'rd, 'dec) hook_builder \<Rightarrow> string \<Rightarrow> ('sch, 'rd, 'dec) hook_builder" where
  "hook_WithName b name = b\<lparr>hbName := name\<rparr>"

definition WithAdmission ::
  "('sch, 'rd, 'dec) hook_builder \<Rightarrow> (webhook \<Rightarrow> webhook) option \<Rightarrow> ('sch, 'rd, 'dec) hook_builder" where
  "WithAdmission b configure =
     (case configure of
        None \<Rightarrow> b\<lparr>hbErr := join_err (hbErr b) (ErrNew ''nil admission configuration'')\<rparr>
      | Some f \<Rightarrow> b\<lparr>hbConfigure := hbConfigure b @ [f]\<rparr>)"

section \<open>Making the webhook\<close>

definition bare_hook :: "admission_handler \<Rightarrow> webhook" where
  "bare_hook h = \<lparr>whHandler = Some h, whLogName = None, whRecoverPanic = None\<rparr>"

definition operation_handler :: "('sch, 'rd, 'dec) admission_ops \<Rightarrow> 'rd \<Rightarrow> 'rd op_callback list \<Rightarrow> admission_handler" where
  "operation_handler ao reader callbacks =
     (let parts = map (\<lambda>callback req. callback req reader) callbacks
      in case parts of
           [p] \<Rightarrow> p
         | _ \<Rightarrow> (\<lambda>req. let response = aoMulti ao parts req
                     in if rpPatch response = Some ''[]'' then response\<lparr>rpPatch := None, rpPatchType := None\<rparr> else response))"

definition dispatch :: "('sch, 'rd, 'dec) admission_ops \<Rightarrow> 'rd \<Rightarrow> (string \<rightharpoonup> 'rd op_callback list) \<Rightarrow> admission_handler" where
  "dispatch ao reader ops req =
     (case ops (arOperation req) of
        Some callbacks \<Rightarrow> operation_handler ao reader callbacks req
      | None \<Rightarrow> aoAllowed ao '''')"

definition run_factory ::
  "('sch, 'rd, 'dec) admission_ops \<Rightarrow> ('sch, 'rd, 'dec) hook_builder \<Rightarrow> 'sch \<Rightarrow> 'rd \<Rightarrow> webhook option run" where
  "run_factory ao b scheme reader =
     (case hbFactory b of
        None \<Rightarrow> Panic
      | Some (RawHandler h) \<Rightarrow> Done (Some (bare_hook (\<lambda>req. h req reader (aoNewDecoder ao scheme))))
      | Some PerOperation \<Rightarrow>
          Done (Some (bare_hook (dispatch ao reader (case hbOperations b of None \<Rightarrow> Map.empty | Some ops \<Rightarrow> ops))))
      | Some (CallerHook hook) \<Rightarrow> Done hook
      | Some (TypedHook f) \<Rightarrow> Done (f scheme reader))"

section \<open>The guard\<close>

definition request_objects :: "admission_request \<Rightarrow> string list" where
  "request_objects req =
     (if arOperation req = OpCreate then [arObject req]
      else if arOperation req = OpUpdate then [arObject req, arOldObject req]
      else if arOperation req = OpDelete then [arOldObject req]
      else [])"

definition api_version :: "gvk \<Rightarrow> string" where
  "api_version g = (if gGroup g = '''' then gVersion g else gGroup g @ ''/'' @ gVersion g)"

fun check_objects :: "('sch, 'rd, 'dec) admission_ops \<Rightarrow> gvk \<Rightarrow> string list \<Rightarrow> go_error option" where
  "check_objects ao g [] = None"
| "check_objects ao g (object # objects) =
     (if length object = 0 then check_objects ao g objects
      else case aoTypeMeta ao object of
        Inl err \<Rightarrow> Some (ErrWrap ''decode object type metadata'' err)
      | Inr (apiVersion, kind) \<Rightarrow>
          if apiVersion \<noteq> '''' \<and> apiVersion \<noteq> api_version g \<or> kind \<noteq> '''' \<and> kind \<noteq> gKind g
          then Some (ErrNew (''expected object GVK '' @ gvk_string g @ '', got '' @ gvk_string (aoMetaGVK ao (apiVersion, kind))))
          else check_objects ao g objects)"

definition guarded :: "('sch, 'rd, 'dec) admission_ops \<Rightarrow> gvk \<Rightarrow> admission_handler \<Rightarrow> admission_handler" where
  "guarded ao g handler req =
     (if arKind req \<noteq> g
      then aoErrored ao 400 (ErrNew (''expected GVK '' @ gvk_string g @ '', got '' @ gvk_string (arKind req)))
      else case check_objects ao g (request_objects req) of
        Some err \<Rightarrow> aoErrored ao 400 err
      | None \<Rightarrow> handler req)"

section \<open>Build\<close>

definition default_log :: "string \<Rightarrow> webhook \<Rightarrow> webhook" where
  "default_log name hook = (if whLogName hook = None then hook\<lparr>whLogName := Some name\<rparr> else hook)"

definition nil_handler :: "string \<Rightarrow> go_error" where
  "nil_handler path = ErrNew (''webhook path '' @ quoted path @ '' has a nil admission handler'')"

text \<open>
  The last steps, on the webhook the factory made: its defaults and configuration, the guard, the registration. The server's
  \<^verbatim>\<open>Register\<close> panics when the path is already registered.
\<close>

definition register_hook ::
  "('sch, 'rd, 'dec) admission_ops \<Rightarrow> ('sch, 'rd, 'dec) hook_builder \<Rightarrow> (string \<times> webhook) list \<Rightarrow> webhook option \<Rightarrow>
     ((string \<times> webhook) list \<times> go_error option) run" where
  "register_hook ao b registered ho =
     (case ho of
        None \<Rightarrow> Done (registered, Some (nil_handler (hbPath b)))
      | Some hook \<Rightarrow>
          if whHandler hook = None then Done (registered, Some (nil_handler (hbPath b)))
          else let hook2 = fold (\<lambda>f h. f h) (hbConfigure b) (default_log (hbName b) hook)
               in case whHandler hook2 of
                    None \<Rightarrow> Done (registered, Some (nil_handler (hbPath b)))
                  | Some handler \<Rightarrow>
                      if hbPath b \<in> set (map fst registered) then Panic
                      else Done (registered @ [(hbPath b, hook2\<lparr>whHandler := Some (guarded ao (hbGVK b) handler)\<rparr>)], None))"

text \<open>\<open>lookup\<close> is the scheme's registry of types. The registrations are those of the manager's server.\<close>

definition hook_Build ::
  "('sch, 'rd, 'dec) admission_ops \<Rightarrow> ('sch \<Rightarrow> kobj \<Rightarrow> go_error + gvk) \<Rightarrow> ('sch, 'rd, 'dec) hook_builder \<Rightarrow>
     (string \<times> webhook) list \<Rightarrow> (('sch, 'rd, 'dec) hook_builder \<times> (string \<times> webhook) list \<times> go_error option) run" where
  "hook_Build ao lookup b registered =
     (let fail = (\<lambda>err. Done (b, registered, Some err))
      in case hbErr b of Some err \<Rightarrow> fail err
         | None \<Rightarrow>
      (case hbMgr b of None \<Rightarrow> fail (ErrNew ''webhook manager is nil'')
       | Some mgr \<Rightarrow>
          if \<not> starts_with ''/'' (hbPath b) then fail (ErrNew (''webhook path '' @ quoted (hbPath b) @ '' must start with /''))
          else if hbHandlers b \<noteq> 1
          then fail (ErrNew (''webhook path '' @ quoted (hbPath b) @ '' requires exactly one handler, got '' @ nat_str (hbHandlers b)))
          else if \<not> hmServer mgr then fail (ErrNew ''webhook server is nil'')
          else case hmScheme mgr of None \<Rightarrow> fail (ErrNew ''webhook scheme is nil'')
            | Some scheme \<Rightarrow>
                (case (case hbObject b of None \<Rightarrow> Inr (hbGVK b) | Some ob \<Rightarrow> GetGroupVersionKindForObject (lookup scheme) (Some ob)) of
                   Inl err \<Rightarrow> fail (ErrWrap (''webhook path '' @ quoted (hbPath b)) err)
                 | Inr g \<Rightarrow>
                     if gVersion g = '''' \<or> gKind g = ''''
                     then fail (ErrNew (''webhook path '' @ quoted (hbPath b) @ '' requires a GVK with version and kind''))
                     else let b1 = b\<lparr>hbGVK := g\<rparr>
                          in bind_run (run_factory ao b1 scheme (hmReader mgr)) (\<lambda>ho.
                            bind_run (register_hook ao b1 registered ho) (\<lambda>(registered', err). Done (b1, registered', err))))))"

section \<open>Typed handlers\<close>

text \<open>A validator gives warnings and perhaps an error; validators run in the order they were added until one fails.\<close>

fun validate_loop :: "('a \<Rightarrow> string list \<times> go_error option) list \<Rightarrow> 'a \<Rightarrow> string list \<Rightarrow> string list \<times> go_error option" where
  "validate_loop [] x warnings = (warnings, None)"
| "validate_loop (validate # rest) x warnings =
     (case validate x of
        (extra, Some err) \<Rightarrow> (warnings @ extra, Some err)
      | (extra, None) \<Rightarrow> validate_loop rest x (warnings @ extra))"

record ('t, 'rd) validation_handler =
  vhReader :: 'rd
  vhCreate :: "('t \<Rightarrow> 'rd \<Rightarrow> string list \<times> go_error option) list"
  vhUpdate :: "('t \<Rightarrow> 't \<Rightarrow> 'rd \<Rightarrow> string list \<times> go_error option) list"
  vhDelete :: "('t \<Rightarrow> 'rd \<Rightarrow> string list \<times> go_error option) list"

definition ValidateCreate :: "('t, 'rd) validation_handler \<Rightarrow> 't \<Rightarrow> string list \<times> go_error option" where
  "ValidateCreate h obj = validate_loop (map (\<lambda>v x. v x (vhReader h)) (vhCreate h)) obj []"

definition ValidateUpdate :: "('t, 'rd) validation_handler \<Rightarrow> 't \<Rightarrow> 't \<Rightarrow> string list \<times> go_error option" where
  "ValidateUpdate h oldObj newObj = validate_loop (map (\<lambda>v (x, y). v x y (vhReader h)) (vhUpdate h)) (oldObj, newObj) []"

definition ValidateDelete :: "('t, 'rd) validation_handler \<Rightarrow> 't \<Rightarrow> string list \<times> go_error option" where
  "ValidateDelete h obj = validate_loop (map (\<lambda>v x. v x (vhReader h)) (vhDelete h)) obj []"

record ('sch, 'rd, 'dec, 't) validating_builder =
  vbBuilder :: "('sch, 'rd, 'dec) hook_builder"
  vbCreate :: "('t \<Rightarrow> 'rd \<Rightarrow> string list \<times> go_error option) list"
  vbUpdate :: "('t \<Rightarrow> 't \<Rightarrow> 'rd \<Rightarrow> string list \<times> go_error option) list"
  vbDelete :: "('t \<Rightarrow> 'rd \<Rightarrow> string list \<times> go_error option) list"

text \<open>\<open>ob\<close> is the zero value of the validated type.\<close>

definition Validating :: "kobj \<Rightarrow> ('sch, 'rd) hook_manager option \<Rightarrow> string \<Rightarrow> ('sch, 'rd, 'dec, 't) validating_builder" where
  "Validating ob mgr path =
     \<lparr>vbBuilder = (hook_For mgr path (mk_gvk '''' '''' ''''))\<lparr>hbObject := Some ob, hbHandlers := 1\<rparr>, vbCreate = [], vbUpdate = [], vbDelete = []\<rparr>"

definition vb_fail :: "('sch, 'rd, 'dec, 't) validating_builder \<Rightarrow> string \<Rightarrow> ('sch, 'rd, 'dec, 't) validating_builder" where
  "vb_fail v msg = v\<lparr>vbBuilder := (vbBuilder v)\<lparr>hbErr := join_err (hbErr (vbBuilder v)) (ErrNew msg)\<rparr>\<rparr>"

definition vb_OnCreate ::
  "('sch, 'rd, 'dec, 't) validating_builder \<Rightarrow> ('t \<Rightarrow> 'rd \<Rightarrow> string list \<times> go_error option) option \<Rightarrow>
     ('sch, 'rd, 'dec, 't) validating_builder" where
  "vb_OnCreate v fn = (case fn of None \<Rightarrow> vb_fail v ''nil CREATE validation handler'' | Some f \<Rightarrow> v\<lparr>vbCreate := vbCreate v @ [f]\<rparr>)"

definition vb_OnUpdate ::
  "('sch, 'rd, 'dec, 't) validating_builder \<Rightarrow> ('t \<Rightarrow> 't \<Rightarrow> 'rd \<Rightarrow> string list \<times> go_error option) option \<Rightarrow>
     ('sch, 'rd, 'dec, 't) validating_builder" where
  "vb_OnUpdate v fn = (case fn of None \<Rightarrow> vb_fail v ''nil UPDATE validation handler'' | Some f \<Rightarrow> v\<lparr>vbUpdate := vbUpdate v @ [f]\<rparr>)"

definition vb_OnDelete ::
  "('sch, 'rd, 'dec, 't) validating_builder \<Rightarrow> ('t \<Rightarrow> 'rd \<Rightarrow> string list \<times> go_error option) option \<Rightarrow>
     ('sch, 'rd, 'dec, 't) validating_builder" where
  "vb_OnDelete v fn = (case fn of None \<Rightarrow> vb_fail v ''nil DELETE validation handler'' | Some f \<Rightarrow> v\<lparr>vbDelete := vbDelete v @ [f]\<rparr>)"

text \<open>The factory of the validating builder, as it is when \<^verbatim>\<open>Build\<close> runs; \<open>withValidator\<close> is \<^verbatim>\<open>admission.WithValidator\<close>.\<close>

definition validating_factory ::
  "('sch \<Rightarrow> ('t, 'rd) validation_handler \<Rightarrow> webhook) \<Rightarrow> ('sch, 'rd, 'dec, 't) validating_builder \<Rightarrow> 'sch \<Rightarrow> 'rd \<Rightarrow> webhook option" where
  "validating_factory withValidator v scheme reader =
     (if length (vbCreate v) = 0 \<and> length (vbUpdate v) = 0 \<and> length (vbDelete v) = 0 then None
      else Some (withValidator scheme \<lparr>vhReader = reader, vhCreate = vbCreate v, vhUpdate = vbUpdate v, vhDelete = vbDelete v\<rparr>))"

definition vb_ready ::
  "('sch \<Rightarrow> ('t, 'rd) validation_handler \<Rightarrow> webhook) \<Rightarrow> ('sch, 'rd, 'dec, 't) validating_builder \<Rightarrow> ('sch, 'rd, 'dec) hook_builder" where
  "vb_ready withValidator v = (vbBuilder v)\<lparr>hbFactory := Some (TypedHook (validating_factory withValidator v))\<rparr>"

text \<open>Defaulting callbacks change the object in turn until one fails.\<close>

fun default_loop :: "('t \<Rightarrow> 't \<times> go_error option) list \<Rightarrow> 't \<Rightarrow> 't \<times> go_error option" where
  "default_loop [] obj = (obj, None)"
| "default_loop (fn # rest) obj = (case fn obj of (obj', Some err) \<Rightarrow> (obj', Some err) | (obj', None) \<Rightarrow> default_loop rest obj')"

record ('t, 'rd) defaulting_handler =
  dhReader :: 'rd
  dhDefaultFns :: "('t \<Rightarrow> 'rd \<Rightarrow> 't \<times> go_error option) list"

definition dh_Default :: "('t, 'rd) defaulting_handler \<Rightarrow> 't \<Rightarrow> 't \<times> go_error option" where
  "dh_Default h obj = default_loop (map (\<lambda>f x. f x (dhReader h)) (dhDefaultFns h)) obj"

record ('sch, 'rd, 'dec, 't) defaulting_builder =
  dbBuilder :: "('sch, 'rd, 'dec) hook_builder"
  dbDefaultFns :: "('t \<Rightarrow> 'rd \<Rightarrow> 't \<times> go_error option) list"

definition Defaulting :: "kobj \<Rightarrow> ('sch, 'rd) hook_manager option \<Rightarrow> string \<Rightarrow> ('sch, 'rd, 'dec, 't) defaulting_builder" where
  "Defaulting ob mgr path =
     \<lparr>dbBuilder = (hook_For mgr path (mk_gvk '''' '''' ''''))\<lparr>hbObject := Some ob, hbHandlers := 1\<rparr>, dbDefaultFns = []\<rparr>"

definition WithDefault ::
  "('sch, 'rd, 'dec, 't) defaulting_builder \<Rightarrow> ('t \<Rightarrow> 'rd \<Rightarrow> 't \<times> go_error option) option \<Rightarrow> ('sch, 'rd, 'dec, 't) defaulting_builder" where
  "WithDefault d fn =
     (case fn of
        None \<Rightarrow> d\<lparr>dbBuilder := (dbBuilder d)\<lparr>hbErr := join_err (hbErr (dbBuilder d)) (ErrNew ''nil defaulting handler'')\<rparr>\<rparr>
      | Some f \<Rightarrow> d\<lparr>dbDefaultFns := dbDefaultFns d @ [f]\<rparr>)"

definition defaulting_factory ::
  "('sch \<Rightarrow> ('t, 'rd) defaulting_handler \<Rightarrow> webhook) \<Rightarrow> ('sch, 'rd, 'dec, 't) defaulting_builder \<Rightarrow> 'sch \<Rightarrow> 'rd \<Rightarrow> webhook option" where
  "defaulting_factory withDefaulter d scheme reader =
     (if length (dbDefaultFns d) = 0 then None
      else Some (withDefaulter scheme \<lparr>dhReader = reader, dhDefaultFns = dbDefaultFns d\<rparr>))"

section \<open>What the guard lets through\<close>

definition object_admitted :: "('sch, 'rd, 'dec) admission_ops \<Rightarrow> gvk \<Rightarrow> string \<Rightarrow> bool" where
  "object_admitted ao g object \<longleftrightarrow> object = '''' \<or>
     (case aoTypeMeta ao object of
        Inl err \<Rightarrow> False
      | Inr (apiVersion, kind) \<Rightarrow> (apiVersion = '''' \<or> apiVersion = api_version g) \<and> (kind = '''' \<or> kind = gKind g))"

definition admitted :: "('sch, 'rd, 'dec) admission_ops \<Rightarrow> gvk \<Rightarrow> admission_request \<Rightarrow> bool" where
  "admitted ao g req \<longleftrightarrow> arKind req = g \<and> list_all (object_admitted ao g) (request_objects req)"

lemma check_objects_None: "check_objects ao g objects = None \<longleftrightarrow> list_all (object_admitted ao g) objects"
  by (induction ao g objects rule: check_objects.induct) (auto simp: object_admitted_def split: sum.split prod.split)

lemma guarded_admitted: "admitted ao g req \<Longrightarrow> guarded ao g h req = h req"
  by (simp add: guarded_def admitted_def flip: check_objects_None)

lemma guarded_rejected: "\<not> admitted ao g req \<Longrightarrow> \<exists>err. guarded ao g h req = aoErrored ao 400 err"
  by (auto simp: guarded_def admitted_def check_objects_None [symmetric] split: option.split)

lemma register_hook_outcome:
  assumes "register_hook ao b registered ho = Done (registered', err)"
  shows "case err of
      Some e \<Rightarrow> registered' = registered
    | None \<Rightarrow> hbPath b \<notin> set (map fst registered) \<and> (\<exists>hook h. registered' = registered @ [(hbPath b, hook)] \<and> whHandler hook = Some h \<and>
        (\<forall>req. admitted ao (hbGVK b) req \<or> (\<exists>e. h req = aoErrored ao 400 e)))"
proof (cases "\<exists>hook handler. registered' = registered @ [(hbPath b, hook\<lparr>whHandler := Some (guarded ao (hbGVK b) handler)\<rparr>)] \<and> err = None \<and>
    hbPath b \<notin> set (map fst registered)")
  case True
  then show ?thesis using guarded_rejected by fastforce
next
  case False
  then show ?thesis using assms by (auto simp: register_hook_def Let_def split: option.splits if_splits)
qed

lemma hook_Build_cases:
  assumes "hook_Build ao lookup b registered = Done (b', registered', err)"
  shows "(\<exists>e. registered' = registered \<and> err = Some e) \<or>
    hbPath b' = hbPath b \<and> gKind (hbGVK b') \<noteq> '''' \<and> hbHandlers b = 1 \<and> hbErr b = None \<and>
      (\<exists>ho. register_hook ao b' registered ho = Done (registered', err))"
  using assms by (auto simp: hook_Build_def Let_def split: option.splits if_splits sum.splits)

text \<open>
  C16: A built webhook serves only requests for its kind. A successful Build adds exactly one registration, under the path of
  the builder, which was free, after those that were there; the registered handler answers a request of another kind, or one whose objects
  name another kind or cannot be decoded, with the bad-request response whatever the callbacks are. A failed Build registers
  nothing, and every builder with more or less than one handler fails.
\<close>

theorem webhook_build_guards:
  assumes "hook_Build ao lookup b registered = Done (b', registered', err)"
  shows "case err of
      Some e \<Rightarrow> registered' = registered
    | None \<Rightarrow> hbHandlers b = 1 \<and> hbErr b = None \<and> hbPath b \<notin> set (map fst registered) \<and>
        (\<exists>hook h. registered' = registered @ [(hbPath b, hook)] \<and> whHandler hook = Some h \<and>
          gKind (hbGVK b') \<noteq> '''' \<and> (\<forall>req. admitted ao (hbGVK b') req \<or> (\<exists>e. h req = aoErrored ao 400 e)))"
  using hook_Build_cases [OF assms]
proof
  assume "\<exists>e. registered' = registered \<and> err = Some e"
  then show ?thesis by auto
next
  assume b: "hbPath b' = hbPath b \<and> gKind (hbGVK b') \<noteq> '''' \<and> hbHandlers b = 1 \<and> hbErr b = None \<and>
    (\<exists>ho. register_hook ao b' registered ho = Done (registered', err))"
  then obtain ho where "register_hook ao b' registered ho = Done (registered', err)" by blast
  from register_hook_outcome [OF this] b show ?thesis by (auto split: option.splits)
qed

section \<open>Validators run in order\<close>

abbreviation passes :: "'a \<Rightarrow> ('a \<Rightarrow> string list \<times> go_error option) \<Rightarrow> bool" where
  "passes x v \<equiv> snd (v x) = None"

lemma validate_loop_eq:
  "validate_loop vs x ws =
     (ws @ concat (map (\<lambda>v. fst (v x)) (takeWhile (passes x) vs @ take 1 (dropWhile (passes x) vs))),
      case dropWhile (passes x) vs of [] \<Rightarrow> None | v # rest \<Rightarrow> snd (v x))"
  by (induction vs arbitrary: ws) (auto split: prod.split option.split)

text \<open>
  Typed validation runs the validators in the order they were added and stops at the first that fails: the warnings are
  those of the validators that ran, in order, the failing one included, the error is the failing one's, and there is none
  exactly when every validator passed. This holds for create and for update requests.
\<close>

theorem validators_in_order:
  "ValidateCreate h obj =
     (let vs = map (\<lambda>v x. v x (vhReader h)) (vhCreate h); ran = takeWhile (passes obj) vs; rest = dropWhile (passes obj) vs
      in (concat (map (\<lambda>v. fst (v obj)) (ran @ take 1 rest)), case rest of [] \<Rightarrow> None | v # later \<Rightarrow> snd (v obj))) \<and>
   (snd (ValidateCreate h obj) = None \<longleftrightarrow> list_all (\<lambda>v. snd (v obj (vhReader h)) = None) (vhCreate h)) \<and>
   (snd (ValidateUpdate h old obj) = None \<longleftrightarrow> list_all (\<lambda>v. snd (v old obj (vhReader h)) = None) (vhUpdate h))"
proof -
  have all: "snd (validate_loop vs x ws) = None \<longleftrightarrow> list_all (passes x) vs" for vs :: "('z \<Rightarrow> string list \<times> go_error option) list" and x ws
    by (induction vs arbitrary: ws) (auto split: prod.split option.split)
  then have "snd (ValidateCreate h obj) = None \<longleftrightarrow> list_all (\<lambda>v. snd (v obj (vhReader h)) = None) (vhCreate h)"
    by (simp add: ValidateCreate_def all list.pred_map comp_def)
  moreover have "snd (ValidateUpdate h old obj) = None \<longleftrightarrow> list_all (\<lambda>v. snd (v old obj (vhReader h)) = None) (vhUpdate h)"
    by (simp add: ValidateUpdate_def all list.pred_map comp_def)
  ultimately show ?thesis by (simp add: ValidateCreate_def validate_loop_eq Let_def)
qed

section \<open>Examples\<close>

definition ex_admission :: "(unit, unit, unit) admission_ops" where
  "ex_admission = \<lparr>aoErrored = (\<lambda>c e. \<lparr>rpAllowed = False, rpCode = c, rpMessage = err_msg e, rpPatch = None, rpPatchType = None\<rparr>),
     aoAllowed = (\<lambda>m. \<lparr>rpAllowed = True, rpCode = 200, rpMessage = m, rpPatch = None, rpPatchType = None\<rparr>),
     aoMulti = (\<lambda>hs req. \<lparr>rpAllowed = list_all (\<lambda>h. rpAllowed (h req)) hs, rpCode = 200, rpMessage = '''', rpPatch = Some ''[]'', rpPatchType = None\<rparr>),
     aoNewDecoder = (\<lambda>s. ()), aoTypeMeta = (\<lambda>s. Inr ('''', s)), aoMetaGVK = (\<lambda>(a, k). mk_gvk '''' a k)\<rparr>"

definition ex_hook_builder :: "(unit, unit, unit) hook_builder" where
  "ex_hook_builder = hook_OnCreate (hook_For (Some \<lparr>hmServer = True, hmScheme = Some (), hmReader = ()\<rparr>) ''/validate'' (mk_gvk ''apps'' ''v1'' ''Dashboard''))
     (Some (\<lambda>req r. aoAllowed ex_admission ''ok''))"

theorem webhook_build_guards_witness:
  "\<exists>hook h. snd (case hook_Build ex_admission (\<lambda>s ob. Inl (ErrNew ''unknown'')) ex_hook_builder [] of Panic \<Rightarrow> (ex_hook_builder, [], None) | Done r \<Rightarrow> r) =
     ([(''/validate'', hook)], None) \<and> whHandler hook = Some h \<and>
     \<not> rpAllowed (h \<lparr>arKind = mk_gvk ''apps'' ''v1'' ''Other'', arOperation = OpCreate, arObject = '''', arOldObject = ''''\<rparr>)"
proof -
  let ?b = "hook_Build ex_admission (\<lambda>s ob. Inl (ErrNew ''unknown'')) ex_hook_builder []"
  let ?req = "\<lparr>arKind = mk_gvk ''apps'' ''v1'' ''Other'', arOperation = OpCreate, arObject = '''', arOldObject = ''''\<rparr>"
  let ?g = "mk_gvk ''apps'' ''v1'' ''Dashboard''"
  obtain b' reg where b: "?b = Done (b', reg, None)" and g: "hbGVK b' = ?g"
    by (simp add: hook_Build_def ex_hook_builder_def hook_OnCreate_def onOperation_def hook_For_def run_factory_def bare_hook_def default_log_def
        Let_def register_hook_def)
  have p: "hbPath ex_hook_builder = ''/validate''"
    by (simp add: ex_hook_builder_def hook_OnCreate_def onOperation_def hook_For_def)
  from webhook_build_guards [OF b] obtain hook h where h: "reg = [(''/validate'', hook)]" "whHandler hook = Some h"
    and r: "admitted ex_admission ?g ?req \<or> (\<exists>e. h ?req = aoErrored ex_admission 400 e)"
    by (auto simp: p g)
  have "\<not> rpAllowed (h ?req)" using r by (auto simp: admitted_def ex_admission_def)
  then show ?thesis using b h by auto
qed

end
