(* ===== verification/Contract.thy ===== *)
theory Contract
  imports Request
begin

text \<open>
  The behavioural contract of a platform object and its validator (\<^verbatim>\<open>api/common/validation/validate.go\<close>), with the parts of
  the conformance suite that decide on an object (\<^verbatim>\<open>conformance.go\<close>). A module implements the accessors; here they are the
  functions of a record over the state of the object. What a write through the status pointer does to the object is one of
  them: it changes the object when the accessor returns a pointer to the field and nothing when it returns a copy.
\<close>

section \<open>Accessors\<close>

record 'o accessors =
  axPhase :: "'o \<Rightarrow> string option"
  axWritePhase :: "'o \<Rightarrow> string \<Rightarrow> 'o"
  axGetConditions :: "'o \<Rightarrow> condition list"
  axSetConditions :: "'o \<Rightarrow> condition list \<Rightarrow> 'o"
  axGetReleases :: "'o \<Rightarrow> ComponentReleaseStatus option"
  axSetReleases :: "'o \<Rightarrow> ComponentReleaseStatus \<Rightarrow> 'o"

definition ErrNilStatus :: string where
  "ErrNilStatus = ''status pointer must not be nil: ensure it returns a pointer to the actual Status field''"
definition ErrCondRoundTrip :: string where
  "ErrCondRoundTrip = ''conditions not persisted: ensure set stores conditions so get returns them''"
definition ErrMandatoryConds :: string where
  "ErrMandatoryConds = ''mandatory condition type missing: Ready and ProvisioningSucceeded must both be storable''"
definition ErrNilReleaseStatus :: string where
  "ErrNilReleaseStatus = ''release status pointer must not be nil: ensure it returns a pointer to the actual ComponentReleaseStatus field''"
definition ErrRelRoundTrip :: string where
  "ErrRelRoundTrip = ''release status not persisted: ensure set stores releases so get returns them''"
definition ErrPhaseField :: string where
  "ErrPhaseField = ''phase not writable through status pointer: ensure the status accessor returns a pointer to the actual field, not a copy''"
definition ErrNilObject :: string where "ErrNilObject = ''PlatformObject must not be nil''"

definition violation :: "string \<Rightarrow> string \<Rightarrow> go_error" where
  "violation sentinel detail = ErrSuffix (ErrSentinel sentinel) ('': '' @ detail)"

section \<open>Checks\<close>

text \<open>A check leaves the object as its deferred restore makes it, and perhaps an error.\<close>

definition checkGetStatus :: "'o accessors \<Rightarrow> 'o \<Rightarrow> 'o \<times> go_error option" where
  "checkGetStatus ax ob = (ob, if axPhase ax ob = None then Some (ErrSentinel ErrNilStatus) else None)"

definition probe_condition :: "gotime \<Rightarrow> condition" where
  "probe_condition now = (new_condition ''validation-roundtrip'' ConditionTrue)\<lparr>cReason := ''Validation'', cLastTransitionTime := now\<rparr>"

definition cond_roundtrip_error :: "condition list \<Rightarrow> go_error option" where
  "cond_roundtrip_error got =
     (case got of
        [c] \<Rightarrow> if cType c \<noteq> ''validation-roundtrip''
               then Some (violation ErrCondRoundTrip (''expected type '' @ quoted ''validation-roundtrip'' @ '', got '' @ quoted (cType c)))
               else if cStatus c \<noteq> ConditionTrue
               then Some (violation ErrCondRoundTrip (''expected status '' @ quoted ConditionTrue @ '', got '' @ quoted (cStatus c)))
               else None
      | _ \<Rightarrow> Some (violation ErrCondRoundTrip (''set 1 condition, got '' @ nat_str (length got) @ '' back'')))"

definition checkConditionsRoundTrip :: "'o accessors \<Rightarrow> gotime \<Rightarrow> 'o \<Rightarrow> 'o \<times> go_error option" where
  "checkConditionsRoundTrip ax now ob =
     (let original = axGetConditions ax ob; ob1 = axSetConditions ax ob [probe_condition now]; got = axGetConditions ax ob1
      in (axSetConditions ax ob1 original, cond_roundtrip_error got))"

definition mandatoryTypes :: "string list" where
  "mandatoryTypes = [''Ready'', ''ProvisioningSucceeded'']"

definition mandatory_conditions :: "gotime \<Rightarrow> condition list" where
  "mandatory_conditions now =
     map (\<lambda>ct. (new_condition ct ConditionUnknown)\<lparr>cReason := ''ContractValidation'', cLastTransitionTime := now\<rparr>) mandatoryTypes"

fun missing_type :: "string list \<Rightarrow> condition list \<Rightarrow> go_error option" where
  "missing_type [] got = None"
| "missing_type (ct # cts) got =
     (if ct \<notin> cType ` set got then Some (violation ErrMandatoryConds (''type '' @ quoted ct @ '' was set but not found''))
      else missing_type cts got)"

definition checkMandatoryConditionTypes :: "'o accessors \<Rightarrow> gotime \<Rightarrow> 'o \<Rightarrow> 'o \<times> go_error option" where
  "checkMandatoryConditionTypes ax now ob =
     (let original = axGetConditions ax ob; ob1 = axSetConditions ax ob (mandatory_conditions now); got = axGetConditions ax ob1
      in (axSetConditions ax ob1 original,
          if length got \<noteq> length mandatoryTypes
          then Some (violation ErrMandatoryConds (''set '' @ nat_str (length mandatoryTypes) @ '' conditions, got '' @ nat_str (length got) @ '' back''))
          else missing_type mandatoryTypes got))"

definition probe_release :: ComponentRelease where
  "probe_release = \<lparr>crName = ''validation-component'', crVersion = ''v0.0.1'', crRepoURL = ''''\<rparr>"

definition release_roundtrip_error :: "ComponentReleaseStatus option \<Rightarrow> go_error option" where
  "release_roundtrip_error got =
     (case got of
        None \<Rightarrow> Some (violation ErrRelRoundTrip ''returned nil after storing releases'')
      | Some [r] \<Rightarrow>
          if crName r \<noteq> ''validation-component''
          then Some (violation ErrRelRoundTrip (''expected name '' @ quoted ''validation-component'' @ '', got '' @ quoted (crName r)))
          else if crVersion r \<noteq> ''v0.0.1''
          then Some (violation ErrRelRoundTrip (''expected version '' @ quoted ''v0.0.1'' @ '', got '' @ quoted (crVersion r)))
          else None
      | Some rs \<Rightarrow> Some (violation ErrRelRoundTrip (''set 1 release, got '' @ nat_str (length rs) @ '' back'')))"

definition checkReleaseStatusRoundTrip :: "'o accessors \<Rightarrow> 'o \<Rightarrow> 'o \<times> go_error option" where
  "checkReleaseStatusRoundTrip ax ob =
     (case axGetReleases ax ob of
        None \<Rightarrow> (ob, Some (ErrSentinel ErrNilReleaseStatus))
      | Some original \<Rightarrow>
          let ob1 = axSetReleases ax ob [probe_release]
          in (axSetReleases ax ob1 original, release_roundtrip_error (axGetReleases ax ob1)))"

definition phase_error :: "string \<Rightarrow> string \<Rightarrow> go_error" where
  "phase_error want got = violation ErrPhaseField (''does not accept '' @ quoted want @ '', got '' @ quoted got)"

text \<open>\<^verbatim>\<open>obj.GetStatus().Phase\<close> of an accessor that now returns nil panics.\<close>

definition checkPhaseValues :: "'o accessors \<Rightarrow> 'o \<Rightarrow> ('o \<times> go_error option) run" where
  "checkPhaseValues ax ob =
     (case axPhase ax ob of
        None \<Rightarrow> Done (ob, Some (ErrSentinel ErrNilStatus))
      | Some originalPhase \<Rightarrow>
          let ob1 = axWritePhase ax ob ''Ready''
          in case axPhase ax ob1 of None \<Rightarrow> Panic
             | Some p \<Rightarrow>
                 if p \<noteq> ''Ready'' then Done (axWritePhase ax ob1 originalPhase, Some (phase_error ''Ready'' p))
                 else let ob2 = axWritePhase ax ob1 ''Not Ready''
                      in case axPhase ax ob2 of None \<Rightarrow> Panic
                         | Some p2 \<Rightarrow>
                             Done (axWritePhase ax ob2 originalPhase,
                                   if p2 \<noteq> ''Not Ready'' then Some (phase_error ''Not Ready'' p2) else None))"

fun run_checks :: "('o \<Rightarrow> ('o \<times> go_error option) run) list \<Rightarrow> 'o \<Rightarrow> go_error list \<Rightarrow> ('o \<times> go_error list) run" where
  "run_checks [] ob errs = Done (ob, errs)"
| "run_checks (check # checks) ob errs =
     bind_run (check ob) (\<lambda>(ob', eo). run_checks checks ob' (case eo of None \<Rightarrow> errs | Some err \<Rightarrow> errs @ [err]))"

text \<open>\<^verbatim>\<open>metav1.Now\<close> is read by the second and the third check.\<close>

definition contract_Validate :: "'o accessors \<Rightarrow> gotime \<Rightarrow> gotime \<Rightarrow> 'o option \<Rightarrow> ('o option \<times> go_error option) run" where
  "contract_Validate ax now1 now2 obj =
     (case obj of
        None \<Rightarrow> Done (None, Some (ErrSentinel ErrNilObject))
      | Some ob \<Rightarrow>
          bind_run (run_checks [\<lambda>x. Done (checkGetStatus ax x), \<lambda>x. Done (checkConditionsRoundTrip ax now1 x),
                 \<lambda>x. Done (checkMandatoryConditionTypes ax now2 x), \<lambda>x. Done (checkReleaseStatusRoundTrip ax x), checkPhaseValues ax] ob [])
            (\<lambda>(ob', errs). Done (Some ob', if errs = [] then None else Some (ErrJoin errs))))"

section \<open>Conformance\<close>

text \<open>Conditions of an unstructured object, as the suite reads them: \<open>None\<close> for an entry that is not a map, else its type and
  status, empty where they are not text.\<close>

fun hasCondition :: "(string \<times> string) option list option \<Rightarrow> string \<Rightarrow> bool" where
  "hasCondition None condType = False"
| "hasCondition (Some []) condType = False"
| "hasCondition (Some (None # cs)) condType = hasCondition (Some cs) condType"
| "hasCondition (Some (Some (ct, st) # cs)) condType = (ct = condType \<or> hasCondition (Some cs) condType)"

fun hasConditionWithStatus :: "(string \<times> string) option list option \<Rightarrow> string \<Rightarrow> string \<Rightarrow> bool" where
  "hasConditionWithStatus None condType status = False"
| "hasConditionWithStatus (Some []) condType status = False"
| "hasConditionWithStatus (Some (None # cs)) condType status = hasConditionWithStatus (Some cs) condType status"
| "hasConditionWithStatus (Some (Some (ct, st) # cs)) condType status =
     (ct = condType \<and> st = status \<or> hasConditionWithStatus (Some cs) condType status)"

record contract_options =
  coTimeout :: int
  coPollInterval :: int

definition co_timeout :: "contract_options \<Rightarrow> int" where
  "co_timeout opts = (if coTimeout opts > 0 then coTimeout opts else 60 * 1000000000)"

definition co_pollInterval :: "contract_options \<Rightarrow> int" where
  "co_pollInterval opts = (if coPollInterval opts > 0 then coPollInterval opts else 2 * 1000000000)"

section \<open>Objects that keep the contract\<close>

text \<open>The accessors give access to three independent fields: what is written is read, and writing back restores the object.\<close>

locale platform_contract =
  fixes ax :: "'o accessors"
  assumes phase_read: "\<exists>p. axPhase ax ob = Some p"
    and phase_written: "axPhase ax (axWritePhase ax ob p) = Some p"
    and phase_overwritten: "axWritePhase ax (axWritePhase ax ob p) q = axWritePhase ax ob q"
    and phase_restored: "axPhase ax ob = Some p \<Longrightarrow> axWritePhase ax ob p = ob"
    and conditions_written: "axGetConditions ax (axSetConditions ax ob cs) = cs"
    and conditions_restored: "axSetConditions ax (axSetConditions ax ob cs) (axGetConditions ax ob) = ob"
    and releases_read: "\<exists>rs. axGetReleases ax ob = Some rs"
    and releases_written: "axGetReleases ax (axSetReleases ax ob rs) = Some rs"
    and releases_restored: "axGetReleases ax ob = Some qs \<Longrightarrow> axSetReleases ax (axSetReleases ax ob rs) qs = ob"
begin

lemma status_ok: "checkGetStatus ax ob = (ob, None)"
  using phase_read [of ob] by (auto simp: checkGetStatus_def)

lemma conditions_ok: "checkConditionsRoundTrip ax now ob = (ob, None)"
  by (simp add: checkConditionsRoundTrip_def Let_def conditions_written conditions_restored cond_roundtrip_error_def probe_condition_def)

lemma mandatory_ok: "checkMandatoryConditionTypes ax now ob = (ob, None)"
  by (simp add: checkMandatoryConditionTypes_def Let_def conditions_written conditions_restored mandatory_conditions_def mandatoryTypes_def)

lemma releases_ok: "checkReleaseStatusRoundTrip ax ob = (ob, None)"
  using releases_read [of ob]
  by (auto simp: checkReleaseStatusRoundTrip_def Let_def releases_written releases_restored release_roundtrip_error_def probe_release_def)

lemma phase_ok: "checkPhaseValues ax ob = Done (ob, None)"
  using phase_read [of ob] phase_restored [of ob]
  by (auto simp: checkPhaseValues_def Let_def phase_written phase_overwritten)

lemma valid: "contract_Validate ax n m (Some ob) = Done (Some ob, None)"
  by (simp add: contract_Validate_def status_ok conditions_ok mandatory_ok releases_ok phase_ok)

end

text \<open>The object of the API package, whose status and release status are fields: the conditions are stored as a copy.\<close>

definition common_accessors :: "(platform_object \<times> ComponentReleaseStatus) accessors" where
  "common_accessors = \<lparr>axPhase = (\<lambda>(ob, rs). Some (poPhase ob)), axWritePhase = (\<lambda>(ob, rs) p. (ob\<lparr>poPhase := p\<rparr>, rs)),
     axGetConditions = (\<lambda>(ob, rs). poConditions ob), axSetConditions = (\<lambda>(ob, rs) cs. (ob\<lparr>poConditions := cs\<rparr>, rs)),
     axGetReleases = (\<lambda>(ob, rs). Some rs), axSetReleases = (\<lambda>(ob, rs) qs. (ob, qs))\<rparr>"

interpretation common_object: platform_contract common_accessors
  by unfold_locales (auto simp: common_accessors_def)

text \<open>
  An object whose accessors keep the contract passes validation, and the validator leaves it exactly as it was.
\<close>

theorem contract_validates:
  assumes "platform_contract ax"
  shows "contract_Validate ax n m (Some ob) = Done (Some ob, None)"
  using assms by (rule platform_contract.valid)

theorem contract_validates_witness:
  "contract_Validate common_accessors 1 2 (Some (ex_object, [])) = Done (Some (ex_object, []), None)"
  using contract_validates [OF common_object.platform_contract_axioms] by blast

section \<open>Violations are found\<close>

lemma run_checks_clean:
  assumes "run_checks checks ob errs = Done (ob', [])"
  shows "errs = []"
  using assms
proof (induction checks arbitrary: ob errs)
  case (Cons check checks)
  then obtain ob1 eo where "run_checks checks ob1 (case eo of None \<Rightarrow> errs | Some err \<Rightarrow> errs @ [err]) = Done (ob', [])" by auto
  from Cons.IH [OF this] show ?case by (cases eo) auto
qed simp

lemma run_checks_step:
  assumes "run_checks (check # checks) ob errs = Done (ob', [])"
  shows "\<exists>ob1. check ob = Done (ob1, None) \<and> run_checks checks ob1 errs = Done (ob', [])"
proof -
  from assms obtain ob1 eo where c: "check ob = Done (ob1, eo)"
    and r: "run_checks checks ob1 (case eo of None \<Rightarrow> errs | Some err \<Rightarrow> errs @ [err]) = Done (ob', [])" by auto
  from run_checks_clean [OF r] have "eo = None" by (cases eo) auto
  with c r show ?thesis by auto
qed

lemma phase_check_needs_pointer:
  assumes "checkPhaseValues ax ob = Done (ob', None)"
  shows "\<exists>x p. axWritePhase ax x p \<noteq> x"
proof (rule ccontr)
  assume "\<nexists>x p. axWritePhase ax x p \<noteq> x"
  then have "axWritePhase ax x p = x" for x p by blast
  then show False using assms by (auto simp: checkPhaseValues_def Let_def split: option.splits if_splits)
qed

text \<open>
  What passes validation has the behaviour the platform relies on: the status is not nil and writes to it reach the object
  (an accessor that returns a copy is always rejected), a stored condition and a stored release are read back, and conditions
  that are stored together are all read back.
\<close>

theorem contract_violations_found:
  assumes "contract_Validate ax n m (Some ob) = Done (ob', None)"
  shows "axPhase ax ob \<noteq> None \<and> (\<exists>x p. axWritePhase ax x p \<noteq> x) \<and>
    (\<exists>x. map cType (axGetConditions ax (axSetConditions ax x [probe_condition n])) = [''validation-roundtrip'']) \<and>
    (\<exists>x. set mandatoryTypes \<subseteq> cType ` set (axGetConditions ax (axSetConditions ax x (mandatory_conditions m)))) \<and>
    (\<exists>x. map_option (map crName) (axGetReleases ax (axSetReleases ax x [probe_release])) = Some [''validation-component''])"
proof -
  from assms obtain ob0 where r: "run_checks [\<lambda>x. Done (checkGetStatus ax x), \<lambda>x. Done (checkConditionsRoundTrip ax n x),
      \<lambda>x. Done (checkMandatoryConditionTypes ax m x), \<lambda>x. Done (checkReleaseStatusRoundTrip ax x), checkPhaseValues ax] ob [] = Done (ob0, [])"
    unfolding contract_Validate_def by (auto simp del: run_checks.simps split: if_splits)
  from run_checks_step [OF r] obtain o1 where c1: "checkGetStatus ax ob = (o1, None)" and r1: "run_checks [\<lambda>x. Done (checkConditionsRoundTrip ax n x),
      \<lambda>x. Done (checkMandatoryConditionTypes ax m x), \<lambda>x. Done (checkReleaseStatusRoundTrip ax x), checkPhaseValues ax] o1 [] = Done (ob0, [])"
    by (auto simp del: run_checks.simps)
  from run_checks_step [OF r1] obtain o2 where c2: "checkConditionsRoundTrip ax n o1 = (o2, None)" and r2: "run_checks
      [\<lambda>x. Done (checkMandatoryConditionTypes ax m x), \<lambda>x. Done (checkReleaseStatusRoundTrip ax x), checkPhaseValues ax] o2 [] = Done (ob0, [])"
    by (auto simp del: run_checks.simps)
  from run_checks_step [OF r2] obtain o3 where c3: "checkMandatoryConditionTypes ax m o2 = (o3, None)"
    and r3: "run_checks [\<lambda>x. Done (checkReleaseStatusRoundTrip ax x), checkPhaseValues ax] o3 [] = Done (ob0, [])"
    by (auto simp del: run_checks.simps)
  from run_checks_step [OF r3] obtain o4 where c4: "checkReleaseStatusRoundTrip ax o3 = (o4, None)"
    and r4: "run_checks [checkPhaseValues ax] o4 [] = Done (ob0, [])" by (auto simp del: run_checks.simps)
  from run_checks_step [OF r4] obtain o5 where c5: "checkPhaseValues ax o4 = Done (o5, None)" by (auto simp del: run_checks.simps)
  have "axPhase ax ob \<noteq> None" using c1 by (auto simp: checkGetStatus_def split: if_splits)
  moreover have "map cType (axGetConditions ax (axSetConditions ax o1 [probe_condition n])) = [''validation-roundtrip'']"
    using c2 by (auto simp: checkConditionsRoundTrip_def Let_def cond_roundtrip_error_def split: list.splits if_splits)
  moreover have "set mandatoryTypes \<subseteq> cType ` set (axGetConditions ax (axSetConditions ax o2 (mandatory_conditions m)))"
    using c3 by (auto simp: checkMandatoryConditionTypes_def Let_def mandatoryTypes_def split: if_splits)
  moreover have "map_option (map crName) (axGetReleases ax (axSetReleases ax o3 [probe_release])) = Some [''validation-component'']"
    using c4 by (auto simp: checkReleaseStatusRoundTrip_def Let_def release_roundtrip_error_def split: option.splits list.splits if_splits)
  moreover have "\<exists>x p. axWritePhase ax x p \<noteq> x" using c5 by (rule phase_check_needs_pointer)
  ultimately show ?thesis by (intro conjI) (simp, assumption, (rule exI, assumption)+)
qed

theorem contract_violations_found_witness:
  "axPhase common_accessors (ex_object, []) \<noteq> None \<and> (\<exists>x p. axWritePhase common_accessors x p \<noteq> x)"
  using contract_violations_found [OF common_object.valid] by blast

end
