(* ===== verification/Ingress.thy ===== *)
theory Ingress
  imports KObject
begin

text \<open>
  The assignment of an ingress to a namespace (\<^verbatim>\<open>framework/utils/ingressassignment/assignment.go\<close>): the configured list
  is validated, then the annotation of the namespace, or its absence, selects one. Reading the namespace is a parameter. In the
  message for an unknown name the model's wrapping prints a colon before the wrapped error where the code prints a space.
\<close>

record ingress =
  inName :: string
  inGatewayName :: string
  inGatewayNamespace :: string
  inHostname :: string
  inIsDefault :: bool

definition ErrUnknownIngress :: string where "ErrUnknownIngress = ''unknown ingress''"
definition ErrInvalidIngresses :: string where "ErrInvalidIngresses = ''invalid ingress configuration''"
definition IngressName :: string where "IngressName = ''opendatahub.io/ingress-name''"

definition invalid_ingresses :: "string \<Rightarrow> go_error" where
  "invalid_ingresses detail = ErrSuffix (ErrSentinel ErrInvalidIngresses) ('': '' @ detail)"

fun validate_loop_ingress :: "nat \<Rightarrow> string set \<Rightarrow> string set \<Rightarrow> nat \<Rightarrow> ingress list \<Rightarrow> go_error option" where
  "validate_loop_ingress i names gateways defaultCount [] =
     (if defaultCount > 1 then Some (invalid_ingresses (''expected at most one default ingress, got '' @ nat_str defaultCount)) else None)"
| "validate_loop_ingress i names gateways defaultCount (c # cs) =
     (if inName c = '''' then Some (invalid_ingresses (''ingress at index '' @ nat_str i @ '' has empty name''))
      else if inGatewayName c = '''' then Some (invalid_ingresses (''ingress '' @ quoted (inName c) @ '' has empty Gateway name''))
      else if inGatewayNamespace c = '''' then Some (invalid_ingresses (''ingress '' @ quoted (inName c) @ '' has empty Gateway namespace''))
      else if inName c \<in> names then Some (invalid_ingresses (''duplicate ingress name '' @ quoted (inName c)))
      else if inGatewayName c \<in> gateways then Some (invalid_ingresses (''duplicate Gateway name '' @ quoted (inGatewayName c)))
      else validate_loop_ingress (Suc i) (insert (inName c) names) (insert (inGatewayName c) gateways)
             (if inIsDefault c then Suc defaultCount else defaultCount) cs)"

definition validateIngresses :: "ingress list \<Rightarrow> go_error option" where
  "validateIngresses ingresses = validate_loop_ingress 0 {} {} 0 ingresses"

fun select_ingress :: "string option \<Rightarrow> ingress list \<Rightarrow> ingress option" where
  "select_ingress annotation [] = None"
| "select_ingress annotation (c # cs) =
     (if (case annotation of Some name \<Rightarrow> inName c = name | None \<Rightarrow> inIsDefault c) then Some c else select_ingress annotation cs)"

definition Resolve :: "(string \<Rightarrow> go_error + kobj) \<Rightarrow> string \<Rightarrow> ingress list \<Rightarrow> go_error + ingress" where
  "Resolve get namespaceName ingresses =
     (case validateIngresses ingresses of
        Some err \<Rightarrow> Inl err
      | None \<Rightarrow>
          (case get namespaceName of
             Inl err \<Rightarrow> Inl (ErrWrap (''get namespace '' @ quoted namespaceName) err)
           | Inr namespace \<Rightarrow>
               let annotation = (case oAnnotations namespace of None \<Rightarrow> None | Some as \<Rightarrow> as IngressName)
               in case select_ingress annotation ingresses of
                    Some configured \<Rightarrow> Inr configured
                  | None \<Rightarrow>
                      (case annotation of
                         None \<Rightarrow> Inl (ErrWrap (''namespace '' @ quoted namespaceName @ '' has no default ingress'') (ErrSentinel ErrUnknownIngress))
                       | Some name \<Rightarrow> Inl (ErrSuffix (ErrWrap (''namespace '' @ quoted namespaceName @ '' references'') (ErrSentinel ErrUnknownIngress))
                                       ('' '' @ quoted name)))))"

section \<open>Validation\<close>

definition wf_ingresses :: "ingress list \<Rightarrow> bool" where
  "wf_ingresses cs \<longleftrightarrow> list_all (\<lambda>c. inName c \<noteq> '''' \<and> inGatewayName c \<noteq> '''' \<and> inGatewayNamespace c \<noteq> '''') cs \<and>
     distinct (map inName cs) \<and> distinct (map inGatewayName cs) \<and> length (filter inIsDefault cs) \<le> 1"

lemma validate_loop_ingress_None:
  "validate_loop_ingress i names gateways n cs = None \<longleftrightarrow>
     list_all (\<lambda>c. inName c \<noteq> '''' \<and> inGatewayName c \<noteq> '''' \<and> inGatewayNamespace c \<noteq> '''') cs \<and>
     distinct (map inName cs) \<and> distinct (map inGatewayName cs) \<and> n + length (filter inIsDefault cs) \<le> 1 \<and>
     inName ` set cs \<inter> names = {} \<and> inGatewayName ` set cs \<inter> gateways = {}"
  by (induction i names gateways n cs rule: validate_loop_ingress.induct) auto

lemma validateIngresses_None: "validateIngresses cs = None \<longleftrightarrow> wf_ingresses cs"
  by (auto simp: validateIngresses_def validate_loop_ingress_None wf_ingresses_def)

lemma validateIngresses_sentinel: "validateIngresses cs = Some e \<Longrightarrow> is_sentinel ErrInvalidIngresses e"
proof -
  have "validate_loop_ingress i names gateways n cs = Some e \<Longrightarrow> is_sentinel ErrInvalidIngresses e" for i names gateways n
    by (induction i names gateways n cs rule: validate_loop_ingress.induct)
      (auto simp: invalid_ingresses_def split: if_splits)
  then show "validateIngresses cs = Some e \<Longrightarrow> is_sentinel ErrInvalidIngresses e" by (simp add: validateIngresses_def)
qed

section \<open>Resolution\<close>

definition selected_by :: "string option \<Rightarrow> ingress \<Rightarrow> bool" where
  "selected_by annotation c \<longleftrightarrow> (case annotation of Some name \<Rightarrow> inName c = name | None \<Rightarrow> inIsDefault c)"

lemma select_ingress_find: "select_ingress annotation cs = find (selected_by annotation) cs"
  by (induction cs) (auto simp: selected_by_def split: option.split)

lemma selected_unique:
  assumes "wf_ingresses cs" and "c \<in> set cs" "d \<in> set cs" and "selected_by a c" "selected_by a d"
  shows "c = d"
proof (cases a)
  case (Some name)
  then show ?thesis using assms by (auto simp: wf_ingresses_def selected_by_def distinct_map inj_on_def)
next
  case None
  have dl: "distinct cs" using assms(1) by (simp add: wf_ingresses_def distinct_map)
  have "c \<in> set (filter inIsDefault cs)" "d \<in> set (filter inIsDefault cs)" using None assms by (auto simp: selected_by_def)
  then show ?thesis using assms(1) by (cases "filter inIsDefault cs") (auto simp: wf_ingresses_def)
qed

lemma select_ingress_iff:
  assumes "wf_ingresses cs"
  shows "select_ingress a cs = Some c \<longleftrightarrow> c \<in> set cs \<and> selected_by a c"
proof
  assume "c \<in> set cs \<and> selected_by a c"
  moreover from this obtain d where d: "find (selected_by a) cs = Some d" by (cases "find (selected_by a) cs") (auto simp: find_None_iff)
  moreover from d have "d \<in> set cs \<and> selected_by a d" by (auto simp: find_Some_iff)
  ultimately show "select_ingress a cs = Some c" using selected_unique [OF assms] by (auto simp: select_ingress_find)
qed (auto simp: select_ingress_find find_Some_iff)

text \<open>
  Resolve gives an ingress exactly when the configuration is valid, the namespace can be read, and the ingress is the one
  configured under the name in its annotation or, without the annotation, the default one; there is never more than one
  candidate, so the order of the configuration does not matter. Every other outcome is an error, and an annotation that names
  no configured ingress never falls back to the default.
\<close>

theorem resolve_ingress:
  "(Resolve get ns cs = Inr c \<longleftrightarrow>
     wf_ingresses cs \<and> (\<exists>ob. get ns = Inr ob \<and> c \<in> set cs \<and>
       (case Option.bind (oAnnotations ob) (\<lambda>as. as IngressName) of Some name \<Rightarrow> inName c = name | None \<Rightarrow> inIsDefault c))) \<and>
   (\<not> wf_ingresses cs \<longrightarrow> (\<exists>e. Resolve get ns cs = Inl e \<and> is_sentinel ErrInvalidIngresses e)) \<and>
   (wf_ingresses cs \<and> get ns = Inr ob \<and> Option.bind (oAnnotations ob) (\<lambda>as. as IngressName) = Some name \<and> name \<notin> inName ` set cs \<longrightarrow>
     (\<exists>e. Resolve get ns cs = Inl e \<and> is_sentinel ErrUnknownIngress e))"
proof (cases "wf_ingresses cs")
  case False
  then obtain e where e: "validateIngresses cs = Some e" using validateIngresses_None by (cases "validateIngresses cs") auto
  then show ?thesis using False validateIngresses_sentinel [OF e] by (auto simp: Resolve_def)
next
  case True
  have b: "(case oAnnotations x of None \<Rightarrow> None | Some as \<Rightarrow> as IngressName) = Option.bind (oAnnotations x) (\<lambda>as. as IngressName)" for x :: kobj
    by (cases "oAnnotations x") auto
  note sel = select_ingress_iff [OF True]
  have v: "validateIngresses cs = None" using True by (simp add: validateIngresses_None)
  have "Resolve get ns cs = Inr c \<longleftrightarrow> (\<exists>x. get ns = Inr x \<and> select_ingress (Option.bind (oAnnotations x) (\<lambda>as. as IngressName)) cs = Some c)"
    by (auto simp: Resolve_def v b Let_def split: sum.splits option.splits)
  moreover have "\<exists>e. Resolve get ns cs = Inl e \<and> is_sentinel ErrUnknownIngress e"
    if g: "get ns = Inr ob" and n: "Option.bind (oAnnotations ob) (\<lambda>as. as IngressName) = Some name" "name \<notin> inName ` set cs"
  proof -
    have "select_ingress (Some name) cs = None"
      unfolding select_ingress_find find_None_iff using n(2) by (auto simp: selected_by_def)
    then show ?thesis by (simp add: Resolve_def v b g n)
  qed
  ultimately show ?thesis using True by (auto simp: sel selected_by_def)
qed

definition ex_ingresses :: "ingress list" where
  "ex_ingresses = [\<lparr>inName = ''a'', inGatewayName = ''g'', inGatewayNamespace = ''n'', inHostname = '''', inIsDefault = True\<rparr>,
     \<lparr>inName = ''b'', inGatewayName = ''h'', inGatewayNamespace = ''n'', inHostname = '''', inIsDefault = False\<rparr>]"

definition ex_namespace :: kobj where
  "ex_namespace = (GvkToUnstructured (mk_gvk '''' ''v1'' ''Namespace''))\<lparr>oAnnotations := Some [IngressName \<mapsto> ''c'']\<rparr>"

theorem resolve_ingress_witness:
  "\<exists>e. Resolve (\<lambda>ns. Inr ex_namespace) ''team'' ex_ingresses = Inl e \<and> is_sentinel ErrUnknownIngress e"
proof -
  have "wf_ingresses ex_ingresses" by (simp add: wf_ingresses_def ex_ingresses_def)
  moreover have "Option.bind (oAnnotations ex_namespace) (\<lambda>as. as IngressName) = Some ''c''" by (simp add: ex_namespace_def)
  moreover have "''c'' \<notin> inName ` set ex_ingresses" by (simp add: ex_ingresses_def)
  ultimately show ?thesis using resolve_ingress [of "\<lambda>ns. Inr ex_namespace" "''team''" ex_ingresses _ ex_namespace "''c''"] by blast
qed

end
