(* ===== verification/CheckActions.thy ===== *)
theory CheckActions
  imports Request
begin

text \<open>
  The cluster queries of \<^verbatim>\<open>framework/cluster/cluster.go\<close> and the two actions built on the client alone: the sanity check that
  stops a reconciliation while unwanted resources exist (\<^verbatim>\<open>framework/controller/actions/sanitycheck\<close>) and the deletion of
  whole kinds (\<^verbatim>\<open>framework/controller/actions/deleteresource\<close>). The client and the REST mapper are parameters.
\<close>

section \<open>Cluster queries\<close>

text \<open>\<open>'c\<close> is a custom resource definition, of which the code reads whether it is terminating.\<close>

record ('w, 'c) cluster_ops =
  ckRESTMapping :: "'w \<Rightarrow> string \<Rightarrow> string \<Rightarrow> string \<Rightarrow> go_error + string"
  ckGetCRD :: "'w \<Rightarrow> string \<Rightarrow> go_error + 'c"
  ckTerminating :: "'c \<Rightarrow> bool"
  ckList :: "'w \<Rightarrow> gvk \<Rightarrow> go_error + kobj list"
  ckIsNamespaced :: "'w \<Rightarrow> gvk \<Rightarrow> go_error + bool"
  ckDeleteAllOf :: "'w \<Rightarrow> gvk \<Rightarrow> (string \<rightharpoonup> string) option \<Rightarrow> string option \<Rightarrow> 'w \<times> go_error option"

definition GetCRD :: "('w, 'c) cluster_ops \<Rightarrow> 'w \<Rightarrow> string \<Rightarrow> go_error + 'c" where
  "GetCRD ck w name = ckGetCRD ck w name"

definition HasCRDWithVersion :: "('w, 'c) cluster_ops \<Rightarrow> 'w \<Rightarrow> string \<Rightarrow> string \<Rightarrow> string \<Rightarrow> go_error + bool" where
  "HasCRDWithVersion ck w g k version =
     (case ckRESTMapping ck w g k version of
        Inl err \<Rightarrow> if is_no_match err then Inr False else Inl err
      | Inr m \<Rightarrow>
          (case GetCRD ck w m of
             Inl err \<Rightarrow> (case IgnoreNotFound (Some err) of None \<Rightarrow> Inr False | Some e \<Rightarrow> Inl e)
           | Inr crd \<Rightarrow> if ckTerminating ck crd then Inr False else Inr True))"

definition HasCRD :: "('w, 'c) cluster_ops \<Rightarrow> 'w \<Rightarrow> gvk \<Rightarrow> go_error + bool" where
  "HasCRD ck w g = HasCRDWithVersion ck w (gGroup g) (gKind g) (gVersion g)"

definition ListGVK :: "('w, 'c) cluster_ops \<Rightarrow> 'w \<Rightarrow> gvk \<Rightarrow> go_error + kobj list" where
  "ListGVK ck w g =
     (case ckList ck w g of
        Inl err \<Rightarrow> Inl (ErrWrap (''failed to list resources of type '' @ gvk_string g) err)
      | Inr items \<Rightarrow> Inr items)"

section \<open>Sanity check\<close>

record UnwantedResource =
  uwGVK :: gvk
  uwErrorMessage :: string

definition WithUnwantedResource :: "gvk \<Rightarrow> string \<Rightarrow> UnwantedResource list \<Rightarrow> UnwantedResource list" where
  "WithUnwantedResource g msg rs = rs @ [\<lparr>uwGVK = g, uwErrorMessage = msg\<rparr>]"

definition sanity_NewAction :: "(UnwantedResource list \<Rightarrow> UnwantedResource list) list \<Rightarrow> UnwantedResource list" where
  "sanity_NewAction opts = foldl (\<lambda>a opt. opt a) [] opts"

definition ensureResourceNotExists :: "('w, 'c) cluster_ops \<Rightarrow> 'w request \<Rightarrow> UnwantedResource \<Rightarrow> go_error option" where
  "ensureResourceNotExists ck rr u =
     (case HasCRD ck (rrWorld rr) (uwGVK u) of
        Inl err \<Rightarrow> Some (ErrWrap (''failed to check if '' @ gvk_string (uwGVK u) @ '' CRD exists'') err)
      | Inr hasCrd \<Rightarrow>
          if \<not> hasCrd then None
          else case ListGVK ck (rrWorld rr) (uwGVK u) of
            Inl err \<Rightarrow> Some (ErrWrap (''failed to list '' @ gvk_string (uwGVK u) @ '' resources'') err)
          | Inr resources \<Rightarrow> if length resources > 0 then Some (NewStopErrorW (ErrNew (uwErrorMessage u))) else None)"

fun sanity_run :: "('w, 'c) cluster_ops \<Rightarrow> UnwantedResource list \<Rightarrow> 'w action" where
  "sanity_run ck [] rr = (rr, None)"
| "sanity_run ck (u # us) rr =
     (case ensureResourceNotExists ck rr u of Some err \<Rightarrow> (rr, Some err) | None \<Rightarrow> sanity_run ck us rr)"

section \<open>Deleting kinds\<close>

record 'w delete_action =
  dxTypes :: "gvk list"
  dxLabels :: "(string \<times> string) list"
  dxNamespaceFn :: "('w request \<Rightarrow> go_error + string) option"

definition WithDeleteResourcesTypes :: "gvk list \<Rightarrow> 'w delete_action \<Rightarrow> 'w delete_action" where
  "WithDeleteResourcesTypes values a = a\<lparr>dxTypes := dxTypes a @ values\<rparr>"

definition WithDeleteResourcesLabel :: "string \<Rightarrow> string \<Rightarrow> 'w delete_action \<Rightarrow> 'w delete_action" where
  "WithDeleteResourcesLabel k v a = a\<lparr>dxLabels := (k, v) # filter (\<lambda>e. fst e \<noteq> k) (dxLabels a)\<rparr>"

definition WithDeleteResourcesLabels :: "(string \<times> string) list \<Rightarrow> 'w delete_action \<Rightarrow> 'w delete_action" where
  "WithDeleteResourcesLabels values a =
     a\<lparr>dxLabels := values @ filter (\<lambda>e. fst e \<notin> fst ` set values) (dxLabels a)\<rparr>"

definition WithNamespaceFn :: "('w request \<Rightarrow> go_error + string) option \<Rightarrow> 'w delete_action \<Rightarrow> 'w delete_action" where
  "WithNamespaceFn fn a = (if fn \<noteq> None then a\<lparr>dxNamespaceFn := fn\<rparr> else a)"

definition delete_NewAction :: "('w delete_action \<Rightarrow> 'w delete_action) list \<Rightarrow> 'w delete_action" where
  "delete_NewAction opts = foldl (\<lambda>a opt. opt a) \<lparr>dxTypes = [], dxLabels = [], dxNamespaceFn = None\<rparr> opts"

definition delete_labels :: "'w delete_action \<Rightarrow> (string \<rightharpoonup> string) option" where
  "delete_labels a = (if length (dxLabels a) > 0 then Some (map_of (dxLabels a)) else None)"

fun delete_run :: "('w, 'c) cluster_ops \<Rightarrow> 'w delete_action \<Rightarrow> gvk list \<Rightarrow> 'w action" where
  "delete_run ck a [] rr = (rr, None)"
| "delete_run ck a (t # ts) rr =
     (case ckIsNamespaced ck (rrWorld rr) t of
        Inl err \<Rightarrow> (rr, Some err)
      | Inr namespaced \<Rightarrow>
          let delete = (\<lambda>ns. case ckDeleteAllOf ck (rrWorld rr) t (delete_labels a) ns of
                               (w', Some err) \<Rightarrow> (rr\<lparr>rrWorld := w'\<rparr>, Some err)
                             | (w', None) \<Rightarrow> delete_run ck a ts (rr\<lparr>rrWorld := w'\<rparr>))
          in if \<not> namespaced then delete None
             else (case dxNamespaceFn a of
                     None \<Rightarrow> delete_run ck a ts rr
                   | Some fn \<Rightarrow> (case fn rr of Inl err \<Rightarrow> (rr, Some err) | Inr appNamespace \<Rightarrow> delete (Some appNamespace))))"

section \<open>Correctness\<close>

definition found :: "('w, 'c) cluster_ops \<Rightarrow> 'w \<Rightarrow> UnwantedResource \<Rightarrow> bool" where
  "found ck w u \<longleftrightarrow> HasCRD ck w (uwGVK u) = Inr True \<and> (\<exists>r rs. ckList ck w (uwGVK u) = Inr (r # rs))"

lemma ensure_None:
  "ensureResourceNotExists ck rr u = None \<longleftrightarrow>
     HasCRD ck (rrWorld rr) (uwGVK u) = Inr False \<or> HasCRD ck (rrWorld rr) (uwGVK u) = Inr True \<and> ckList ck (rrWorld rr) (uwGVK u) = Inr []"
  by (auto simp: ensureResourceNotExists_def ListGVK_def split: sum.split)

lemma ensure_found: "found ck (rrWorld rr) u \<Longrightarrow> ensureResourceNotExists ck rr u = Some (NewStopErrorW (ErrNew (uwErrorMessage u)))"
  by (auto simp: ensureResourceNotExists_def ListGVK_def found_def)

text \<open>
  The sanity check passes exactly when for every unwanted kind its definition is absent or terminating or no resource of it
  exists, and it never changes the request. When the queries of the kinds before it pass and a resource of an unwanted kind exists,
  the run ends with a stop error carrying that kind's message, so the reconciliation is not retried as a failure.
\<close>

theorem sanity_check_blocks:
  "fst (sanity_run ck us rr) = rr \<and>
   (snd (sanity_run ck us rr) = None \<longleftrightarrow>
     list_all (\<lambda>u. HasCRD ck (rrWorld rr) (uwGVK u) = Inr False \<or>
       HasCRD ck (rrWorld rr) (uwGVK u) = Inr True \<and> ckList ck (rrWorld rr) (uwGVK u) = Inr []) us) \<and>
   (snd (sanity_run ck us rr) = None \<and> found ck (rrWorld rr) u \<longrightarrow>
     snd (sanity_run ck (us @ u # vs) rr) = Some (NewStopErrorW (ErrNew (uwErrorMessage u))))"
proof (intro conjI)
  show "fst (sanity_run ck us rr) = rr" by (induction us) (auto split: option.split)
  show "snd (sanity_run ck us rr) = None \<longleftrightarrow> list_all (\<lambda>u. HasCRD ck (rrWorld rr) (uwGVK u) = Inr False \<or>
       HasCRD ck (rrWorld rr) (uwGVK u) = Inr True \<and> ckList ck (rrWorld rr) (uwGVK u) = Inr []) us"
    by (induction us) (auto simp flip: ensure_None split: option.split)
  show "snd (sanity_run ck us rr) = None \<and> found ck (rrWorld rr) u \<longrightarrow>
      snd (sanity_run ck (us @ u # vs) rr) = Some (NewStopErrorW (ErrNew (uwErrorMessage u)))"
    by (induction us) (auto simp: ensure_found split: option.splits)
qed

definition ex_check_ops :: "(unit, unit) cluster_ops" where
  "ex_check_ops = \<lparr>ckRESTMapping = (\<lambda>w g k v. Inr k), ckGetCRD = (\<lambda>w n. Inr ()), ckTerminating = (\<lambda>c. False),
     ckList = (\<lambda>w g. if gKind g = ''Old'' then Inr [GvkToUnstructured g] else Inr []), ckIsNamespaced = (\<lambda>w g. Inr True),
     ckDeleteAllOf = (\<lambda>w g l ns. (w, None))\<rparr>"

theorem sanity_check_blocks_witness:
  "snd (sanity_run ex_check_ops [\<lparr>uwGVK = mk_gvk ''a'' ''v1'' ''New'', uwErrorMessage = ''new''\<rparr>,
     \<lparr>uwGVK = mk_gvk ''a'' ''v1'' ''Old'', uwErrorMessage = ''remove it''\<rparr>] (ex_request ())) = Some (NewStopErrorW (ErrNew ''remove it''))"
proof -
  let ?us = "[\<lparr>uwGVK = mk_gvk ''a'' ''v1'' ''New'', uwErrorMessage = ''new''\<rparr>]"
  let ?u = "\<lparr>uwGVK = mk_gvk ''a'' ''v1'' ''Old'', uwErrorMessage = ''remove it''\<rparr>"
  have "snd (sanity_run ex_check_ops ?us (ex_request ())) = None" "found ex_check_ops (rrWorld (ex_request ())) ?u"
    by (simp_all add: ensureResourceNotExists_def ListGVK_def found_def HasCRD_def HasCRDWithVersion_def GetCRD_def ex_check_ops_def)
  then show ?thesis using sanity_check_blocks [of ex_check_ops ?us "ex_request ()" ?u "[]"] by simp
qed

text \<open>
  Deletions stay in scope: a kind that lives in namespaces is deleted in one namespace only, and with the labels of the action;
  whatever such deletions keep, the action keeps.
\<close>

lemma delete_run_scope:
  assumes "\<And>w t ns. t \<in> set ts \<Longrightarrow> P w \<Longrightarrow> ckIsNamespaced ck w t = Inr (ns \<noteq> None) \<Longrightarrow>
      P (fst (ckDeleteAllOf ck w t (delete_labels a) ns))"
    and "P (rrWorld rr)"
  shows "P (rrWorld (fst (delete_run ck a ts rr)))"
  using assms
proof (induction ts arbitrary: rr)
  case (Cons t ts)
  have ih: "P (rrWorld rr') \<Longrightarrow> P (rrWorld (fst (delete_run ck a ts rr')))" for rr'
    using Cons.IH [of rr'] Cons.prems(1) by simp
  have step: "P (rrWorld (fst (case ckDeleteAllOf ck (rrWorld rr) t (delete_labels a) ns of
       (w', Some err) \<Rightarrow> (rr\<lparr>rrWorld := w'\<rparr>, Some err) | (w', None) \<Rightarrow> delete_run ck a ts (rr\<lparr>rrWorld := w'\<rparr>))))"
    if "ckIsNamespaced ck (rrWorld rr) t = Inr (ns \<noteq> None)" for ns
    using Cons.prems(1) [of t "rrWorld rr" ns] Cons.prems(2) that ih
    by (cases "ckDeleteAllOf ck (rrWorld rr) t (delete_labels a) ns") (auto split: option.split)
  show ?case
    using step [of None] step [of "Some _"] ih Cons.prems(2) by (auto simp: Let_def split: sum.split option.split)
qed simp

end
