(* ===== verification/Cluster.thy ===== *)
theory Cluster
  imports KObject Condition_Store
begin

text \<open>
  Facts about the cluster (\<^verbatim>\<open>pkg/cluster\<close>): its type, version and FIPS mode (\<^verbatim>\<open>detect.go\<close>), the platform that deploys
  (\<^verbatim>\<open>platform.go\<close>), operators and packages of both generations of the lifecycle manager (\<^verbatim>\<open>olm_v1.go\<close>, \<^verbatim>\<open>olm/olm.go\<close>),
  OpenShift (\<^verbatim>\<open>openshift/openshift.go\<close>), established definitions (\<^verbatim>\<open>crd.go\<close>) and singletons (\<^verbatim>\<open>singleton.go\<close>). The
  client, access to nested fields, decoding and the back-off loop of the Kubernetes libraries are parameters.
\<close>

section \<open>Reading the cluster\<close>

record reader =
  rdGet :: "gvk \<Rightarrow> string \<Rightarrow> string \<Rightarrow> go_error + kobj"
  rdList :: "gvk \<Rightarrow> go_error + kobj list"

record field_reader =
  frString :: "kobj \<Rightarrow> string list \<Rightarrow> go_error + string option"
  frBool :: "kobj \<Rightarrow> string list \<Rightarrow> go_error + bool option"
  frSlice :: "kobj \<Rightarrow> string list \<Rightarrow> go_error + json list option"
  frStringMap :: "kobj \<Rightarrow> string list \<Rightarrow> go_error + (string \<rightharpoonup> string) option"
  frStatus :: "kobj \<Rightarrow> go_error + json option"
  frConditions :: "json \<Rightarrow> go_error + condition list"

text \<open>The value of a key of a decoded map when it is text: the empty string otherwise.\<close>

definition text_field :: "(string \<times> json) list \<Rightarrow> string \<Rightarrow> string option" where
  "text_field m k = (case map_of m k of Some (JString s) \<Rightarrow> Some s | _ \<Rightarrow> None)"

text \<open>The value a call returns when its error is discarded.\<close>

definition value_or :: "'a \<Rightarrow> go_error + 'a option \<Rightarrow> 'a" where
  "value_or d r = (case r of Inr (Some v) \<Rightarrow> v | _ \<Rightarrow> d)"

section \<open>Cluster type\<close>

definition clusterVersionGVK :: gvk where "clusterVersionGVK = mk_gvk ''config.openshift.io'' ''v1'' ''ClusterVersion''"

definition absent :: "go_error \<Rightarrow> bool" where
  "absent e \<longleftrightarrow> is_no_match e \<or> IsNotFound e"

datatype cluster_type = ClusterTypeOpenShift | ClusterTypeKubernetes

definition DetectClusterType :: "reader \<Rightarrow> go_error + cluster_type" where
  "DetectClusterType r =
     (case rdGet r clusterVersionGVK '''' ''version'' of
        Inl err \<Rightarrow> if absent err then Inr ClusterTypeKubernetes else Inl (ErrWrap ''detecting cluster type'' err)
      | Inr cv \<Rightarrow> Inr ClusterTypeOpenShift)"

definition extractOCPVersion :: "field_reader \<Rightarrow> kobj \<Rightarrow> string" where
  "extractOCPVersion fr cv =
     (case frSlice fr cv [''status'', ''history''] of
        Inr (Some (JMap entry # rest)) \<Rightarrow> (case text_field entry ''version'' of Some v \<Rightarrow> v | None \<Rightarrow> '''')
      | _ \<Rightarrow> '''')"

text \<open>\<open>unmarshal\<close> decodes the installer's configuration and gives its \<^verbatim>\<open>fips\<close> field.\<close>

definition IsFipsEnabled :: "field_reader \<Rightarrow> (string \<Rightarrow> go_error + bool) \<Rightarrow> reader \<Rightarrow> go_error + bool" where
  "IsFipsEnabled fr unmarshal r =
     (case rdGet r (mk_gvk '''' ''v1'' ''ConfigMap'') ''kube-system'' ''cluster-config-v1'' of
        Inl err \<Rightarrow> if IsNotFound err \<or> is_no_match err then Inr False else Inl (ErrWrap ''reading cluster-config-v1'' err)
      | Inr cm \<Rightarrow>
          (case frStringMap fr cm [''data''] of
             Inl err \<Rightarrow> Inl (ErrWrap ''reading ConfigMap data'' err)
           | Inr d \<Rightarrow>
               let raw = go_get (case d of None \<Rightarrow> Map.empty | Some m \<Rightarrow> m) ''install-config''
               in if raw = '''' then Inr False
                  else case unmarshal raw of Inl err \<Rightarrow> Inl (ErrWrap ''parsing install-config YAML'' err) | Inr fips \<Rightarrow> Inr fips))"

record ClusterInfo =
  ciType :: cluster_type
  ciVersion :: string
  ciFipsEnabled :: bool

definition DetectClusterInfo :: "field_reader \<Rightarrow> (string \<Rightarrow> go_error + bool) \<Rightarrow> reader \<Rightarrow> ClusterInfo \<times> go_error option" where
  "DetectClusterInfo fr unmarshal r =
     (let info = \<lparr>ciType = ClusterTypeOpenShift, ciVersion = '''', ciFipsEnabled = False\<rparr>
      in case rdGet r clusterVersionGVK '''' ''version'' of
           Inl err \<Rightarrow> if absent err then (info\<lparr>ciType := ClusterTypeKubernetes\<rparr>, None)
                      else (info, Some (ErrWrap ''detecting cluster type'' err))
         | Inr cv \<Rightarrow>
             let info1 = info\<lparr>ciVersion := extractOCPVersion fr cv\<rparr>
             in case IsFipsEnabled fr unmarshal r of
                  Inl err \<Rightarrow> (info1, Some (ErrWrap ''detecting FIPS mode'' err))
                | Inr fips \<Rightarrow> (info1\<lparr>ciFipsEnabled := fips\<rparr>, None))"

section \<open>Packages and operators\<close>

definition managedAddonCatalogName :: string where "managedAddonCatalogName = ''addon-managed-odh-catalog''"
definition rhoaiOperatorPackage :: string where "rhoaiOperatorPackage = ''rhods-operator''"
definition platformClusterCatalogGVK :: gvk where "platformClusterCatalogGVK = mk_gvk ''olm.operatorframework.io'' ''v1'' ''ClusterCatalog''"
definition platformClusterExtensionGVK :: gvk where
  "platformClusterExtensionGVK = mk_gvk ''olm.operatorframework.io'' ''v1'' ''ClusterExtension''"
definition operatorConditionGVK :: gvk where "operatorConditionGVK = mk_gvk ''operators.coreos.com'' ''v2'' ''OperatorCondition''"
definition subscriptionGVK :: gvk where "subscriptionGVK = mk_gvk ''operators.coreos.com'' ''v1alpha1'' ''Subscription''"
definition catalogSourceGVK :: gvk where "catalogSourceGVK = mk_gvk ''operators.coreos.com'' ''v1alpha1'' ''CatalogSource''"

definition clusterCatalogExists :: "reader \<Rightarrow> string \<Rightarrow> go_error + bool" where
  "clusterCatalogExists cli name =
     (case rdGet cli platformClusterCatalogGVK '''' name of
        Inr catalog \<Rightarrow> Inr True
      | Inl err \<Rightarrow> if is_no_match err then Inr False else if IgnoreNotFound (Some err) \<noteq> None then Inl err else Inr False)"

definition extension_installs :: "field_reader \<Rightarrow> kobj \<Rightarrow> string \<Rightarrow> string \<Rightarrow> go_error + bool" where
  "extension_installs fr ext packageName installNamespace =
     (case (if installNamespace \<noteq> ''''
            then (case frString fr ext [''spec'', ''namespace''] of
                    Inl err \<Rightarrow> Inl (ErrWrap ''read ClusterExtension spec.namespace'' err)
                  | Inr ns \<Rightarrow> Inr (ns = Some installNamespace))
            else Inr True) of
        Inl err \<Rightarrow> Inl err
      | Inr inScope \<Rightarrow>
          if \<not> inScope then Inr False
          else case frString fr ext [''spec'', ''source'', ''sourceType''] of
            Inl err \<Rightarrow> Inl (ErrWrap ''read ClusterExtension spec.source.sourceType'' err)
          | Inr sourceType \<Rightarrow>
              if sourceType \<noteq> Some ''Catalog'' then Inr False
              else (case frString fr ext [''spec'', ''source'', ''catalog'', ''packageName''] of
                      Inl err \<Rightarrow> Inl (ErrWrap ''read ClusterExtension spec.source.catalog.packageName'' err)
                    | Inr pkg \<Rightarrow> Inr (pkg = Some packageName)))"

fun any_match :: "(kobj \<Rightarrow> go_error + bool) \<Rightarrow> kobj list \<Rightarrow> go_error + bool" where
  "any_match f [] = Inr False"
| "any_match f (x # xs) = (case f x of Inl err \<Rightarrow> Inl err | Inr match \<Rightarrow> if match then Inr True else any_match f xs)"

definition ClusterExtensionInstallsPackage :: "field_reader \<Rightarrow> reader \<Rightarrow> string \<Rightarrow> string \<Rightarrow> go_error + bool" where
  "ClusterExtensionInstallsPackage fr cli packageName installNamespace =
     (case rdList cli platformClusterExtensionGVK of
        Inl err \<Rightarrow> Inl err
      | Inr items \<Rightarrow> any_match (\<lambda>ext. extension_installs fr ext packageName installNamespace) items)"

definition normalizeOperatorVersion :: "string \<Rightarrow> string" where
  "normalizeOperatorVersion version = (if version \<noteq> '''' \<and> \<not> starts_with ''v'' version then ''v'' @ version else version)"

text \<open>An \<^verbatim>\<open>OperatorInfo\<close> is its version.\<close>

definition NewOperatorInfo :: "string \<Rightarrow> string" where
  "NewOperatorInfo version = normalizeOperatorVersion version"

definition clusterExtensionInstalled :: "field_reader \<Rightarrow> kobj \<Rightarrow> go_error + bool" where
  "clusterExtensionInstalled fr ext =
     (case frStatus fr ext of
        Inl err \<Rightarrow> Inl (ErrWrap ''read ClusterExtension status'' err)
      | Inr None \<Rightarrow> Inr False
      | Inr (Some statusRaw) \<Rightarrow>
          (case frConditions fr statusRaw of
             Inl err \<Rightarrow> Inl (ErrWrap ''convert ClusterExtension status'' err)
           | Inr conds \<Rightarrow>
               (case pkg_FindStatusCondition conds ''Installed'' of
                  None \<Rightarrow> Inr False
                | Some c \<Rightarrow> Inr (cStatus c = ConditionTrue \<and> cReason c = ''Succeeded''))))"

definition clusterExtensionInstalledVersion :: "field_reader \<Rightarrow> kobj \<Rightarrow> go_error + string" where
  "clusterExtensionInstalledVersion fr ext =
     (case frString fr ext [''status'', ''install'', ''bundle'', ''version''] of
        Inl err \<Rightarrow> Inl (ErrWrap ''read ClusterExtension status.install.bundle.version'' err)
      | Inr None \<Rightarrow> Inr ''''
      | Inr (Some version) \<Rightarrow> Inr version)"

fun installed_loop :: "field_reader \<Rightarrow> string \<Rightarrow> kobj list \<Rightarrow> go_error + string option" where
  "installed_loop fr packageName [] = Inr None"
| "installed_loop fr packageName (ext # exts) =
     (case extension_installs fr ext packageName '''' of
        Inl err \<Rightarrow> Inl err
      | Inr match \<Rightarrow>
          if \<not> match then installed_loop fr packageName exts
          else case clusterExtensionInstalled fr ext of
            Inl err \<Rightarrow> Inl err
          | Inr installed \<Rightarrow>
              if \<not> installed then installed_loop fr packageName exts
              else (case clusterExtensionInstalledVersion fr ext of
                      Inl err \<Rightarrow> Inl err
                    | Inr version \<Rightarrow> Inr (Some (NewOperatorInfo version))))"

definition OperatorInstalledViaClusterExtension :: "field_reader \<Rightarrow> reader \<Rightarrow> string \<Rightarrow> go_error + string option" where
  "OperatorInstalledViaClusterExtension fr cli packageName =
     (case rdList cli platformClusterExtensionGVK of Inl err \<Rightarrow> Inl err | Inr items \<Rightarrow> installed_loop fr packageName items)"

fun condition_version :: "string \<Rightarrow> kobj list \<Rightarrow> string option" where
  "condition_version expectedPrefix [] = None"
| "condition_version expectedPrefix (item # items) =
     (if \<not> starts_with expectedPrefix (oName item) then condition_version expectedPrefix items
      else Some (NewOperatorInfo (trim_prefix (oName item) expectedPrefix)))"

definition operatorExistsViaOperatorCondition :: "reader \<Rightarrow> string \<Rightarrow> go_error + string option" where
  "operatorExistsViaOperatorCondition cli operatorPrefix =
     (case rdList cli operatorConditionGVK of
        Inl err \<Rightarrow> Inl err
      | Inr items \<Rightarrow> Inr (condition_version (operatorPrefix @ ''.'') items))"

definition ErrOperatorNotInstalled :: string where "ErrOperatorNotInstalled = ''operator not installed''"

definition OperatorExists :: "field_reader \<Rightarrow> reader \<Rightarrow> string \<Rightarrow> go_error + string" where
  "OperatorExists fr cli operatorPrefix =
     (case operatorExistsViaOperatorCondition cli operatorPrefix of
        Inr (Some info) \<Rightarrow> Inr info
      | v0 \<Rightarrow>
          (case v0 of
             Inl v0Err \<Rightarrow>
               if \<not> is_no_match v0Err then Inl v0Err
               else (case OperatorInstalledViaClusterExtension fr cli operatorPrefix of
                       Inr (Some info) \<Rightarrow> Inr info
                     | Inr None \<Rightarrow> Inl (ErrSentinel ErrOperatorNotInstalled)
                     | Inl v1Err \<Rightarrow> if \<not> is_no_match v1Err then Inl v1Err else Inl (ErrJoin [v0Err, v1Err]))
           | Inr _ \<Rightarrow>
               (case OperatorInstalledViaClusterExtension fr cli operatorPrefix of
                  Inr (Some info) \<Rightarrow> Inr info
                | Inr None \<Rightarrow> Inl (ErrSentinel ErrOperatorNotInstalled)
                | Inl v1Err \<Rightarrow> if \<not> is_no_match v1Err then Inl v1Err else Inl (ErrSentinel ErrOperatorNotInstalled))))"

definition resourceExists :: "field_reader \<Rightarrow> reader \<Rightarrow> gvk \<Rightarrow> string \<Rightarrow> string list \<Rightarrow> go_error + bool" where
  "resourceExists fr cli g value fpath =
     (case rdList cli g of
        Inl err \<Rightarrow> Inl err
      | Inr items \<Rightarrow>
          any_match (\<lambda>item. case frString fr item fpath of
              Inl err \<Rightarrow> Inl (ErrWrap (''read '' @ join_with ''.'' fpath @ '' on '' @ gKind g @ '' '' @ oName item) err)
            | Inr actual \<Rightarrow> Inr (actual = Some value)) items)"

definition SubscriptionExists :: "field_reader \<Rightarrow> reader \<Rightarrow> string \<Rightarrow> go_error + bool" where
  "SubscriptionExists fr cli name = resourceExists fr cli subscriptionGVK name [''metadata'', ''name'']"

definition OperatorPackageRequested :: "field_reader \<Rightarrow> reader \<Rightarrow> string \<Rightarrow> go_error + bool" where
  "OperatorPackageRequested fr cli packageName =
     (let sub = resourceExists fr cli subscriptionGVK packageName [''spec'', ''name'']
      in if sub = Inr True then Inr True
         else let ext = ClusterExtensionInstallsPackage fr cli packageName ''''
              in if ext = Inr True then Inr True
                 else case (sub, ext) of
                   (Inl subErr, Inl extErr) \<Rightarrow>
                     if \<not> is_no_match subErr then Inl subErr
                     else if \<not> is_no_match extErr then Inl extErr
                     else Inl (ErrJoin [subErr, extErr])
                 | (Inl subErr, Inr _) \<Rightarrow> if \<not> is_no_match subErr then Inl subErr else Inr False
                 | (Inr _, Inl extErr) \<Rightarrow> if \<not> is_no_match extErr then Inl extErr else Inr False
                 | (Inr _, Inr _) \<Rightarrow> Inr False)"

definition GetSubscription :: "reader \<Rightarrow> string \<Rightarrow> string \<Rightarrow> go_error + kobj" where
  "GetSubscription cli namespace name = rdGet cli subscriptionGVK namespace name"

definition CatalogSourceExists :: "reader \<Rightarrow> string \<Rightarrow> string \<Rightarrow> go_error + bool" where
  "CatalogSourceExists cli namespace name =
     (case rdGet cli catalogSourceGVK namespace name of
        Inl err \<Rightarrow> (case IgnoreNotFound (Some err) of None \<Rightarrow> Inr False | Some e \<Rightarrow> Inl e)
      | Inr cs \<Rightarrow> Inr True)"

section \<open>Platform\<close>

datatype platform = OpenDataHub | SelfManagedRhoai | ManagedRhoai | XKS

definition detectManagedRhoai :: "reader \<Rightarrow> string \<Rightarrow> go_error + bool" where
  "detectManagedRhoai cli operatorNamespace =
     (case rdGet cli catalogSourceGVK operatorNamespace managedAddonCatalogName of
        Inr cs \<Rightarrow> Inr True
      | Inl err \<Rightarrow>
          if is_no_match err then clusterCatalogExists cli managedAddonCatalogName
          else if IgnoreNotFound (Some err) \<noteq> None then Inl err
          else clusterCatalogExists cli managedAddonCatalogName)"

definition extension_platform :: "go_error + bool \<Rightarrow> go_error + platform" where
  "extension_platform found =
     (case found of
        Inl err \<Rightarrow> if is_no_match err then Inr OpenDataHub else Inl err
      | Inr f \<Rightarrow> Inr (if f then SelfManagedRhoai else OpenDataHub))"

definition detectSelfManaged :: "field_reader \<Rightarrow> reader \<Rightarrow> go_error + platform" where
  "detectSelfManaged fr cli =
     (let viaExtension = extension_platform (ClusterExtensionInstallsPackage fr cli rhoaiOperatorPackage '''')
      in case rdList cli operatorConditionGVK of
           Inr items \<Rightarrow> if list_ex (\<lambda>item. starts_with (rhoaiOperatorPackage @ ''.'') (oName item)) items then Inr SelfManagedRhoai
                        else viaExtension
         | Inl err \<Rightarrow> if is_no_match err then viaExtension
                     else (case IgnoreNotFound (Some err) of Some ignErr \<Rightarrow> Inl ignErr | None \<Rightarrow> viaExtension))"

definition DetectPlatform :: "field_reader \<Rightarrow> reader \<Rightarrow> string \<Rightarrow> string \<Rightarrow> go_error + platform" where
  "DetectPlatform fr cli platformType operatorNamespace =
     (if platformType = ''OpenDataHub'' then Inr OpenDataHub
      else if platformType = ''ManagedRHOAI'' then Inr ManagedRhoai
      else if platformType = ''SelfManagedRHOAI'' then Inr SelfManagedRhoai
      else if platformType = ''XKS'' then Inr XKS
      else let ns = (if operatorNamespace = '''' then ''redhat-ods-operator'' else operatorNamespace)
           in case detectManagedRhoai cli ns of
                Inl err \<Rightarrow> Inl err
              | Inr managed \<Rightarrow> if managed then Inr ManagedRhoai else detectSelfManaged fr cli)"

section \<open>OpenShift\<close>

definition GetVersion :: "field_reader \<Rightarrow> reader \<Rightarrow> go_error + string" where
  "GetVersion fr r =
     (case rdGet r clusterVersionGVK '''' ''version'' of
        Inl err \<Rightarrow> Inl (ErrWrap ''unable to get OCP version'' err)
      | Inr cv \<Rightarrow>
          (case frSlice fr cv [''status'', ''history''] of
             Inr (Some (JMap entry # rest)) \<Rightarrow>
               (case text_field entry ''version'' of
                  Some v \<Rightarrow> if v = '''' then Inl (ErrSentinel ''ClusterVersion status.history[0].version is empty'') else Inr v
                | None \<Rightarrow> Inl (ErrSentinel ''ClusterVersion status.history[0].version is empty''))
           | Inr (Some (other # rest)) \<Rightarrow> Inl (ErrSentinel ''ClusterVersion status.history[0] is not an object'')
           | _ \<Rightarrow> Inl (ErrSentinel ''ClusterVersion status.history is empty or unreadable'')))"

definition IsSingleNodeCluster :: "field_reader \<Rightarrow> reader \<Rightarrow> go_error + bool" where
  "IsSingleNodeCluster fr cli =
     (case rdGet cli (mk_gvk ''config.openshift.io'' ''v1'' ''Infrastructure'') '''' ''cluster'' of
        Inr infra \<Rightarrow> Inr (value_or '''' (frString fr infra [''status'', ''controlPlaneTopology'']) = ''SingleReplica'')
      | Inl err \<Rightarrow>
          if \<not> IsNotFound err \<and> \<not> is_no_match err then Inl err
          else case rdList cli (mk_gvk '''' ''v1'' ''Node'') of
            Inl err2 \<Rightarrow> Inl err2
          | Inr nodes \<Rightarrow>
              Inr (length (filter (\<lambda>node. \<not> value_or False (frBool fr node [''spec'', ''unschedulable''])) nodes) = 1))"

datatype auth_mode = AuthModeIntegratedOAuth | AuthModeOIDC | AuthModeNone

definition authenticationGVK :: gvk where "authenticationGVK = mk_gvk ''config.openshift.io'' ''v1'' ''Authentication''"

text \<open>\<open>newNotFound\<close> builds the not-found error of a group resource and a name.\<close>

definition GetAuthenticationMode :: "(string \<Rightarrow> string \<Rightarrow> string \<Rightarrow> go_error) \<Rightarrow> field_reader \<Rightarrow> reader \<Rightarrow> go_error + auth_mode" where
  "GetAuthenticationMode newNotFound fr r =
     (case rdGet r authenticationGVK '''' ''cluster'' of
        Inl err \<Rightarrow> if is_no_match err then Inl (newNotFound (gGroup authenticationGVK) ''authentications'' ''cluster'')
                   else Inl (ErrWrap ''failed to get cluster authentication config'' err)
      | Inr auth \<Rightarrow>
          let authType = value_or '''' (frString fr auth [''spec'', ''type''])
          in if authType = ''OIDC'' then Inr AuthModeOIDC
             else if authType = ''None'' then Inr AuthModeNone
             else if authType = '''' \<or> authType = ''IntegratedOAuth'' then Inr AuthModeIntegratedOAuth
             else Inr AuthModeNone)"

definition IsIntegratedOAuth :: "(string \<Rightarrow> string \<Rightarrow> string \<Rightarrow> go_error) \<Rightarrow> field_reader \<Rightarrow> reader \<Rightarrow> go_error + bool" where
  "IsIntegratedOAuth newNotFound fr r =
     (case GetAuthenticationMode newNotFound fr r of Inl err \<Rightarrow> Inl err | Inr mode \<Rightarrow> Inr (mode = AuthModeIntegratedOAuth))"

definition GetServiceAccountIssuer :: "field_reader \<Rightarrow> reader \<Rightarrow> go_error + string" where
  "GetServiceAccountIssuer fr r =
     (case rdGet r authenticationGVK '''' ''cluster'' of
        Inl err \<Rightarrow> if is_no_match err \<or> IsNotFound err then Inl err else Inl (ErrWrap ''failed to get cluster authentication config'' err)
      | Inr auth \<Rightarrow> Inr (value_or '''' (frString fr auth [''spec'', ''serviceAccountIssuer''])))"

definition GetDomain :: "field_reader \<Rightarrow> reader \<Rightarrow> go_error + string" where
  "GetDomain fr r =
     (case rdGet r (mk_gvk ''config.openshift.io'' ''v1'' ''Ingress'') '''' ''cluster'' of
        Inl err \<Rightarrow> Inl (ErrWrap (''failed fetching cluster'' @ [CHR 0x27] @ ''s ingress details'') err)
      | Inr ingress \<Rightarrow>
          (case frString fr ingress [''spec'', ''appsDomain''] of
             Inl err \<Rightarrow> Inl (ErrWrap ''failed to read spec.appsDomain'' err)
           | Inr appsDomain \<Rightarrow>
               if appsDomain \<noteq> None \<and> appsDomain \<noteq> Some '''' then Inr (the appsDomain)
               else (case frString fr ingress [''spec'', ''domain''] of
                       Inl err \<Rightarrow> Inl (ErrWrap ''failed to read spec.domain'' err)
                     | Inr None \<Rightarrow> Inl (ErrSentinel ''spec.domain not found or empty'')
                     | Inr (Some d) \<Rightarrow> if length d = 0 then Inl (ErrSentinel ''spec.domain not found or empty'') else Inr d)))"

section \<open>Custom resource definitions\<close>

definition crd_name :: "string \<Rightarrow> string \<Rightarrow> string" where
  "crd_name kind g = to_lower (kind @ ''s.'' @ g)"

fun established :: "json list \<Rightarrow> bool" where
  "established [] = False"
| "established (JMap cond # cs) =
     ((case text_field cond ''type'' of Some t \<Rightarrow> t | None \<Rightarrow> '''') = ''Established'' \<and>
      (case text_field cond ''status'' of Some s \<Rightarrow> s | None \<Rightarrow> '''') = ''True'' \<or> established cs)"
| "established (c # cs) = established cs"

text \<open>One attempt: \<open>True\<close> ends the wait, \<open>False\<close> asks for another attempt.\<close>

definition crd_attempt :: "field_reader \<Rightarrow> string \<Rightarrow> reader \<Rightarrow> go_error + bool" where
  "crd_attempt fr name cli =
     (case rdGet cli (mk_gvk ''apiextensions.k8s.io'' ''v1'' ''CustomResourceDefinition'') '''' name of
        Inl err \<Rightarrow> if IsNotFound err then Inr False else Inl err
      | Inr crd \<Rightarrow>
          (case frSlice fr crd [''status'', ''conditions''] of
             Inl err \<Rightarrow> Inl err
           | Inr None \<Rightarrow> Inr False
           | Inr (Some conditions) \<Rightarrow> Inr (established conditions)))"

text \<open>\<open>backoff\<close> is \<^verbatim>\<open>wait.ExponentialBackoffWithContext\<close> with a number of steps; the cluster may change between attempts.\<close>

definition CustomResourceDefinitionExists ::
  "(nat \<Rightarrow> (nat \<Rightarrow> go_error + bool) \<Rightarrow> go_error option) \<Rightarrow> field_reader \<Rightarrow> (nat \<Rightarrow> reader) \<Rightarrow> string \<Rightarrow> string \<Rightarrow> go_error option" where
  "CustomResourceDefinitionExists backoff fr cli kind g = backoff 5 (\<lambda>n. crd_attempt fr (crd_name kind g) (cli n))"

definition pkg_HasCRD ::
  "(nat \<Rightarrow> (nat \<Rightarrow> go_error + bool) \<Rightarrow> go_error option) \<Rightarrow> (go_error \<Rightarrow> bool) \<Rightarrow> field_reader \<Rightarrow> (nat \<Rightarrow> reader) \<Rightarrow> string \<Rightarrow> string \<Rightarrow>
     go_error + bool" where
  "pkg_HasCRD backoff interrupted fr cli kind g =
     (case CustomResourceDefinitionExists backoff fr cli kind g of
        None \<Rightarrow> Inr True
      | Some err \<Rightarrow> if interrupted err then Inr False else Inl err)"

section \<open>Singletons\<close>

definition ErrNoInstance :: string where "ErrNoInstance = ''no instance found''"
definition ErrMultipleInstances :: string where "ErrMultipleInstances = ''expected exactly one instance''"
definition ErrUnregisteredType :: string where "ErrUnregisteredType = ''type not registered in scheme''"

text \<open>\<open>tname\<close> is the name of the Go type in messages and \<open>kinds\<close> what the scheme has registered for it.\<close>

definition gvkForObject :: "string \<Rightarrow> go_error + gvk list \<Rightarrow> go_error + gvk" where
  "gvkForObject tname kinds =
     (case kinds of
        Inl err \<Rightarrow> Inl (ErrWrap (''looking up object kinds for '' @ tname) (ErrPair (ErrSentinel ErrUnregisteredType) err))
      | Inr [] \<Rightarrow> Inl (ErrWrap (''no GVK registered for '' @ tname) (ErrSentinel ErrUnregisteredType))
      | Inr (g # gs) \<Rightarrow> Inr g)"

definition GetSingleton :: "reader \<Rightarrow> string \<Rightarrow> go_error + gvk list \<Rightarrow> (kobj \<Rightarrow> go_error + 't) \<Rightarrow> go_error + 't" where
  "GetSingleton c tname kinds convert =
     (case gvkForObject tname kinds of
        Inl err \<Rightarrow> Inl (ErrWrap (''determining GVK for '' @ tname) err)
      | Inr g \<Rightarrow>
          (case rdList c (mk_gvk (gGroup g) (gVersion g) (gKind g @ ''List'')) of
             Inl err \<Rightarrow> Inl (ErrWrap (''listing '' @ gKind g) err)
           | Inr [] \<Rightarrow> Inl (ErrWrap (gKind g) (ErrSentinel ErrNoInstance))
           | Inr [item] \<Rightarrow>
               (case convert item of Inl err \<Rightarrow> Inl (ErrWrap (''converting unstructured '' @ gKind g) err) | Inr t \<Rightarrow> Inr t)
           | Inr items \<Rightarrow> Inl (ErrWrap (gKind g @ '' (found '' @ nat_str (length items) @ '')'') (ErrSentinel ErrMultipleInstances))))"

section \<open>Operators\<close>

lemma condition_version_find:
  "condition_version p items =
     map_option (\<lambda>c. NewOperatorInfo (trim_prefix (oName c) p)) (find (\<lambda>c. starts_with p (oName c)) items)"
  by (induction items) auto

text \<open>What a reader of fields reports is never that an API is missing.\<close>

definition fields_never_no_match :: "field_reader \<Rightarrow> bool" where
  "fields_never_no_match fr \<longleftrightarrow>
     (\<forall>x f e. frString fr x f = Inl e \<longrightarrow> \<not> is_no_match e) \<and> (\<forall>x e. frStatus fr x = Inl e \<longrightarrow> \<not> is_no_match e) \<and>
     (\<forall>j e. frConditions fr j = Inl e \<longrightarrow> \<not> is_no_match e)"

text \<open>The fields of an extension, all of them read without error, say that it does not have the package installed.\<close>

definition says_not_installed :: "field_reader \<Rightarrow> string \<Rightarrow> kobj \<Rightarrow> bool" where
  "says_not_installed fr p x \<longleftrightarrow>
     (\<exists>t. frString fr x [''spec'', ''source'', ''sourceType''] = Inr t \<and>
       (t \<noteq> Some ''Catalog'' \<or>
        (\<exists>n. frString fr x [''spec'', ''source'', ''catalog'', ''packageName''] = Inr n \<and>
          (n \<noteq> Some p \<or>
           frStatus fr x = Inr None \<or>
           (\<exists>st cs. frStatus fr x = Inr (Some st) \<and> frConditions fr st = Inr cs \<and>
             (\<forall>c. pkg_FindStatusCondition cs ''Installed'' = Some c \<longrightarrow> cStatus c \<noteq> ConditionTrue \<or> cReason c \<noteq> ''Succeeded''))))))"

lemma says_not_installed_iff:
  "says_not_installed fr p x \<longleftrightarrow> extension_installs fr x p '''' = Inr False \<or>
     extension_installs fr x p '''' = Inr True \<and> clusterExtensionInstalled fr x = Inr False"
  by (cases "frString fr x [''spec'', ''source'', ''sourceType'']";
      cases "frString fr x [''spec'', ''source'', ''catalog'', ''packageName'']"; cases "frStatus fr x")
    (auto simp: says_not_installed_def extension_installs_def clusterExtensionInstalled_def split: option.splits sum.splits)

lemma installed_loop_None: "installed_loop fr p xs = Inr None \<longleftrightarrow> list_all (says_not_installed fr p) xs"
  by (induction xs) (auto simp: says_not_installed_iff split: sum.splits)

lemma extension_read_errors:
  assumes "fields_never_no_match fr"
  shows "extension_installs fr x p '''' = Inl e \<Longrightarrow> \<not> is_no_match e \<and> e \<noteq> ErrSentinel t"
    and "clusterExtensionInstalled fr x = Inl e \<Longrightarrow> \<not> is_no_match e \<and> e \<noteq> ErrSentinel t"
    and "clusterExtensionInstalledVersion fr x = Inl e \<Longrightarrow> \<not> is_no_match e \<and> e \<noteq> ErrSentinel t"
  using assms
  by (auto simp: fields_never_no_match_def extension_installs_def clusterExtensionInstalled_def
      clusterExtensionInstalledVersion_def split: sum.splits option.splits if_splits)

lemma installed_loop_error:
  assumes "fields_never_no_match fr" and "installed_loop fr p xs = Inl e"
  shows "\<not> is_no_match e \<and> e \<noteq> ErrSentinel t"
  using assms(2)
  by (induction xs) (auto split: sum.splits if_splits dest: extension_read_errors [OF assms(1)])

lemma OperatorExists_lists:
  "OperatorExists fr cli p =
    (case rdList cli operatorConditionGVK of
       Inr cs \<Rightarrow>
         (case find (\<lambda>c. starts_with (p @ ''.'') (oName c)) cs of
            Some c \<Rightarrow> Inr (NewOperatorInfo (trim_prefix (oName c) (p @ ''.'')))
          | None \<Rightarrow>
              (case OperatorInstalledViaClusterExtension fr cli p of
                 Inr (Some info) \<Rightarrow> Inr info
               | Inr None \<Rightarrow> Inl (ErrSentinel ErrOperatorNotInstalled)
               | Inl e \<Rightarrow> if is_no_match e then Inl (ErrSentinel ErrOperatorNotInstalled) else Inl e))
     | Inl e0 \<Rightarrow>
         if \<not> is_no_match e0 then Inl e0
         else (case OperatorInstalledViaClusterExtension fr cli p of
                 Inr (Some info) \<Rightarrow> Inr info
               | Inr None \<Rightarrow> Inl (ErrSentinel ErrOperatorNotInstalled)
               | Inl e \<Rightarrow> if is_no_match e then Inl (ErrJoin [e0, e]) else Inl e))"
  by (simp add: OperatorExists_def operatorExistsViaOperatorCondition_def condition_version_find split: sum.split option.split)

text \<open>
  C39: an operator is reported as not installed exactly on evidence. OperatorExists says so if and only if one of the two
  APIs at least was listed, a list that failed did so because its API is missing, no listed condition carries the
  operator's name as its prefix, and the fields of every listed extension, all readable, say that it does not have the
  package installed. When a condition carries the name, the first such one gives the version. When neither API exists
  the error says so, and any other failure to list the conditions is passed on. The assumptions are that reading a field
  never reports a missing API and that a list never fails with the sentinel of this very function.
\<close>

theorem operator_absence_is_evidence:
  assumes "fields_never_no_match fr" and "\<And>g. rdList cli g \<noteq> Inl (ErrSentinel ErrOperatorNotInstalled)"
  shows "(OperatorExists fr cli p = Inl (ErrSentinel ErrOperatorNotInstalled) \<longleftrightarrow>
      (case rdList cli operatorConditionGVK of
         Inr cs \<Rightarrow> \<not> list_ex (\<lambda>c. starts_with (p @ ''.'') (oName c)) cs
       | Inl e \<Rightarrow> is_no_match e) \<and>
      (case rdList cli platformClusterExtensionGVK of
         Inr xs \<Rightarrow> list_all (says_not_installed fr p) xs
       | Inl e \<Rightarrow> is_no_match e) \<and>
      (isl (rdList cli operatorConditionGVK) \<longrightarrow> \<not> isl (rdList cli platformClusterExtensionGVK))) \<and>
    (rdList cli operatorConditionGVK = Inr cs \<and> find (\<lambda>c. starts_with (p @ ''.'') (oName c)) cs = Some c \<longrightarrow>
      OperatorExists fr cli p = Inr (normalizeOperatorVersion (trim_prefix (oName c) (p @ ''.'')))) \<and>
    (rdList cli operatorConditionGVK = Inl e0 \<and> is_no_match e0 \<and> rdList cli platformClusterExtensionGVK = Inl e1 \<and> is_no_match e1 \<longrightarrow>
      (\<exists>e. OperatorExists fr cli p = Inl e \<and> is_no_match e)) \<and>
    (rdList cli operatorConditionGVK = Inl e2 \<and> \<not> is_no_match e2 \<longrightarrow> OperatorExists fr cli p = Inl e2)"
proof -
  have lists: "OperatorInstalledViaClusterExtension fr cli p =
      (case rdList cli platformClusterExtensionGVK of Inl e \<Rightarrow> Inl e | Inr xs \<Rightarrow> installed_loop fr p xs)"
    by (simp add: OperatorInstalledViaClusterExtension_def)
  have f: "list_ex P cs \<longleftrightarrow> find P cs \<noteq> None" for P and cs :: "kobj list" by (induction cs) auto
  have x: "(case installed_loop fr p xs of
       Inr (Some info) \<Rightarrow> Inr info | Inr None \<Rightarrow> Inl (ErrSentinel ErrOperatorNotInstalled)
     | Inl e \<Rightarrow> if is_no_match e then Inl (d e) else Inl e) = Inl (ErrSentinel ErrOperatorNotInstalled) \<longleftrightarrow>
     list_all (says_not_installed fr p) xs" for xs d
    using installed_loop_error [OF assms(1), of p xs] installed_loop_None [of fr p xs]
    by (auto split: sum.split option.split)
  have "OperatorExists fr cli p = Inl (ErrSentinel ErrOperatorNotInstalled) \<longleftrightarrow>
      (case rdList cli operatorConditionGVK of
         Inr cs \<Rightarrow> \<not> list_ex (\<lambda>c. starts_with (p @ ''.'') (oName c)) cs
       | Inl e \<Rightarrow> is_no_match e) \<and>
      (case rdList cli platformClusterExtensionGVK of
         Inr xs \<Rightarrow> list_all (says_not_installed fr p) xs
       | Inl e \<Rightarrow> is_no_match e) \<and>
      (isl (rdList cli operatorConditionGVK) \<longrightarrow> \<not> isl (rdList cli platformClusterExtensionGVK))"
    using assms(2)[of operatorConditionGVK] assms(2)[of platformClusterExtensionGVK]
    by (cases "rdList cli operatorConditionGVK"; cases "rdList cli platformClusterExtensionGVK")
      (auto simp: OperatorExists_lists lists x f split: option.splits)
  then show ?thesis by (auto simp: OperatorExists_lists lists NewOperatorInfo_def)
qed

text \<open>
  A package counts as requested exactly when one of the two lookups finds it, whatever the other one does; it counts as not
  requested only when neither does, one API at least is there, and nothing failed for another reason than a missing API.
\<close>

theorem package_requested_outcome:
  "let sub = resourceExists fr cli subscriptionGVK p [''spec'', ''name'']; ext = ClusterExtensionInstallsPackage fr cli p ''''
   in (OperatorPackageRequested fr cli p = Inr True \<longleftrightarrow> sub = Inr True \<or> ext = Inr True) \<and>
      (OperatorPackageRequested fr cli p = Inr False \<longleftrightarrow>
        sub \<noteq> Inr True \<and> ext \<noteq> Inr True \<and> (sub = Inr False \<or> ext = Inr False) \<and> list_all (case_sum is_no_match (\<lambda>b. True)) [sub, ext])"
proof -
  let ?sub = "resourceExists fr cli subscriptionGVK p [''spec'', ''name'']" and ?ext = "ClusterExtensionInstallsPackage fr cli p ''''"
  show ?thesis
    by (cases ?sub; cases ?ext) (auto simp: OperatorPackageRequested_def Let_def)
qed

section \<open>Platform and cluster type\<close>

text \<open>A cluster without the lifecycle manager is the community platform, and the two detections of the type agree.\<close>

lemma plain_cluster_is_community:
  assumes "\<And>g ns n. \<exists>e. rdGet cli g ns n = Inl e \<and> is_no_match e" and "\<And>g. \<exists>e. rdList cli g = Inl e \<and> is_no_match e"
  shows "DetectPlatform fr cli '''' ns = Inr OpenDataHub"
proof -
  let ?ns = "if ns = '''' then ''redhat-ods-operator'' else ns"
  obtain e1 where e1: "rdGet cli catalogSourceGVK ?ns managedAddonCatalogName = Inl e1" "is_no_match e1" using assms(1) by blast
  obtain e2 where e2: "rdGet cli platformClusterCatalogGVK '''' managedAddonCatalogName = Inl e2" "is_no_match e2" using assms(1) by blast
  obtain e3 where e3: "rdList cli operatorConditionGVK = Inl e3" "is_no_match e3" using assms(2) by blast
  obtain e4 where e4: "rdList cli platformClusterExtensionGVK = Inl e4" "is_no_match e4" using assms(2) by blast
  have "detectManagedRhoai cli ?ns = Inr False" using e1 e2 by (simp add: detectManagedRhoai_def clusterCatalogExists_def)
  moreover have "detectSelfManaged fr cli = Inr OpenDataHub"
    using e3 e4 by (simp add: detectSelfManaged_def ClusterExtensionInstallsPackage_def extension_platform_def)
  ultimately show ?thesis by (simp add: DetectPlatform_def)
qed

text \<open>
  The two detections of the cluster type agree: the collected information has the type that the single query gives, it fails
  when that fails, and a cluster that is not OpenShift has neither a version nor FIPS mode, whatever else it serves.
\<close>

theorem cluster_info_agrees:
  "(case DetectClusterType r of
      Inl e \<Rightarrow> snd (DetectClusterInfo fr unmarshal r) = Some e
    | Inr t \<Rightarrow> ciType (fst (DetectClusterInfo fr unmarshal r)) = t \<and>
        (t = ClusterTypeKubernetes \<longrightarrow> DetectClusterInfo fr unmarshal r = (\<lparr>ciType = t, ciVersion = '''', ciFipsEnabled = False\<rparr>, None)) \<and>
        (t = ClusterTypeOpenShift \<and> (\<exists>v. GetVersion fr r = Inr v) \<longrightarrow> GetVersion fr r = Inr (ciVersion (fst (DetectClusterInfo fr unmarshal r)))))"
proof (cases "rdGet r clusterVersionGVK '''' ''version''")
  case (Inl e)
  then show ?thesis by (simp add: DetectClusterType_def DetectClusterInfo_def)
next
  case (Inr cv)
  have "GetVersion fr r = Inr v \<Longrightarrow> extractOCPVersion fr cv = v" for v
    using Inr by (auto simp: GetVersion_def extractOCPVersion_def split: sum.splits option.splits list.splits json.splits if_splits)
  with Inr show ?thesis by (auto simp: DetectClusterType_def DetectClusterInfo_def Let_def split: sum.split)
qed

section \<open>Waiting for a definition\<close>

text \<open>What the back-off loop documents: it ends at the first attempt that succeeds or fails, and is interrupted after the last.\<close>

definition backoff_law :: "(nat \<Rightarrow> (nat \<Rightarrow> go_error + bool) \<Rightarrow> go_error option) \<Rightarrow> (go_error \<Rightarrow> bool) \<Rightarrow> bool" where
  "backoff_law backoff interrupted \<longleftrightarrow> (\<forall>steps cond.
     (\<forall>n<steps. (\<forall>m<n. cond m = Inr False) \<longrightarrow>
        (cond n = Inr True \<longrightarrow> backoff steps cond = None) \<and> (\<forall>e. cond n = Inl e \<longrightarrow> backoff steps cond = Some e)) \<and>
     ((\<forall>n<steps. cond n = Inr False) \<longrightarrow> (\<exists>e. backoff steps cond = Some e \<and> interrupted e)))"

lemma first_decision:
  fixes cond :: "nat \<Rightarrow> go_error + bool"
  assumes "n < k" "cond n \<noteq> Inr False"
  shows "\<exists>d<k. cond d \<noteq> Inr False \<and> (\<forall>m<d. cond m = Inr False)"
proof -
  let ?d = "LEAST d. cond d \<noteq> Inr False"
  have "?d \<le> n" using assms(2) by (rule Least_le)
  moreover have "cond ?d \<noteq> Inr False" using assms(2) by (rule LeastI)
  moreover have "\<forall>m<?d. cond m = Inr False" using not_less_Least by blast
  ultimately show ?thesis using assms(1) by (meson le_less_trans)
qed

text \<open>
  HasCRD answers within five attempts: it is true exactly when one of the first five attempts sees the definition established
  while all earlier ones saw it missing or not established, false when none of the five decides, and fails with the error of the
  first attempt that cannot read the definition.
\<close>

theorem crd_wait_bounded:
  assumes "backoff_law backoff interrupted"
    and "list_all (\<lambda>n. case crd_attempt fr (crd_name kind g) (cli n) of Inl e \<Rightarrow> \<not> interrupted e | Inr b \<Rightarrow> True) [0..<5]"
  shows "(pkg_HasCRD backoff interrupted fr cli kind g = Inr True \<longleftrightarrow>
      (\<exists>n<5. crd_attempt fr (crd_name kind g) (cli n) = Inr True \<and> (\<forall>m<n. crd_attempt fr (crd_name kind g) (cli m) = Inr False))) \<and>
    (pkg_HasCRD backoff interrupted fr cli kind g = Inr False \<longleftrightarrow> (\<forall>n<5. crd_attempt fr (crd_name kind g) (cli n) = Inr False))"
proof -
  let ?c = "\<lambda>n. crd_attempt fr (crd_name kind g) (cli n)" and ?h = "pkg_HasCRD backoff interrupted fr cli kind g"
  show ?thesis
  proof (cases "\<forall>n<5. ?c n = Inr False")
    case True
    then obtain e where "backoff 5 ?c = Some e" "interrupted e"
      using assms(1) [unfolded backoff_law_def, THEN spec [of _ 5], THEN spec [of _ ?c], THEN conjunct2] by auto
    then have "?h = Inr False" by (simp add: pkg_HasCRD_def CustomResourceDefinitionExists_def)
    with True show ?thesis by auto
  next
    case False
    then obtain n where "n < 5" "?c n \<noteq> Inr False" by auto
    then have "\<exists>d<5. ?c d \<noteq> Inr False \<and> (\<forall>m<d. ?c m = Inr False)" by (rule first_decision)
    then obtain d where d: "d < 5" "?c d \<noteq> Inr False" "\<forall>m<d. ?c m = Inr False" by auto
    have only: "n = d" if "?c n = Inr True" "\<forall>m<n. ?c m = Inr False" for n
      using d(2) d(3) [rule_format, of n] that(1) that(2) [rule_format, of d] by (cases n d rule: linorder_cases) auto
    have h: "(\<forall>n<5. (\<forall>m<n. ?c m = Inr False) \<longrightarrow>
        (?c n = Inr True \<longrightarrow> backoff 5 ?c = None) \<and> (\<forall>e. ?c n = Inl e \<longrightarrow> backoff 5 ?c = Some e))"
      by (rule assms(1) [unfolded backoff_law_def, THEN spec [of _ 5], THEN spec [of _ ?c], THEN conjunct1])
    show ?thesis
    proof (cases "?c d")
      case (Inl e)
      then have "backoff 5 ?c = Some e" using h [rule_format, of d] d by simp
      moreover have "\<not> interrupted e" using assms(2) d(1) Inl by (force simp: list_all_iff)
      ultimately have "?h = Inl e" by (simp add: pkg_HasCRD_def CustomResourceDefinitionExists_def)
      moreover have "\<not> (?c n = Inr True \<and> (\<forall>m<n. ?c m = Inr False))" for n
      proof
        assume n: "?c n = Inr True \<and> (\<forall>m<n. ?c m = Inr False)"
        then have "n = d" using only by blast
        with n Inl show False by simp
      qed
      ultimately show ?thesis using False by simp
    next
      case (Inr b)
      then have b: "?c d = Inr True" using d(2) by (cases b) auto
      then have "backoff 5 ?c = None" using h [rule_format, of d] d by simp
      then have "?h = Inr True" by (simp add: pkg_HasCRD_def CustomResourceDefinitionExists_def)
      then show ?thesis using False d b by auto
    qed
  qed
qed

section \<open>Exactly one instance\<close>

text \<open>
  GetSingleton gives an object exactly when the type is registered, the listing succeeds with exactly one object, and that
  object converts; with none or with more than one it fails with the error that says so.
\<close>

theorem singleton_exact:
  "(GetSingleton c tname kinds convert = Inr t \<longleftrightarrow>
     (\<exists>g gs item. kinds = Inr (g # gs) \<and> rdList c (mk_gvk (gGroup g) (gVersion g) (gKind g @ ''List'')) = Inr [item] \<and> convert item = Inr t)) \<and>
   (kinds = Inr (g # gs) \<and> rdList c (mk_gvk (gGroup g) (gVersion g) (gKind g @ ''List'')) = Inr items \<and> length items \<noteq> 1 \<longrightarrow>
     (\<exists>e. GetSingleton c tname kinds convert = Inl e \<and>
       is_sentinel (if items = [] then ErrNoInstance else ErrMultipleInstances) e))"
  by (auto simp: GetSingleton_def gvkForObject_def split: sum.splits list.splits)

section \<open>Examples\<close>

text \<open>A plain cluster with one object of a kind, and a back-off loop.\<close>

definition ex_reader :: reader where
  "ex_reader = \<lparr>rdGet = (\<lambda>g ns n. Inl (ErrNoMatch ''no matches'')),
     rdList = (\<lambda>g. if gKind g = ''DashboardList'' then Inr [GvkToUnstructured g, GvkToUnstructured g]
        else if gKind g = ''ClusterExtension'' then Inr [] else Inl (ErrNoMatch ''no matches''))\<rparr>"

definition ex_field_reader :: field_reader where
  "ex_field_reader = \<lparr>frString = (\<lambda>x f. Inr None), frBool = (\<lambda>x f. Inr None), frSlice = (\<lambda>x f. Inr None), frStringMap = (\<lambda>x f. Inr None),
     frStatus = (\<lambda>x. Inr None), frConditions = (\<lambda>j. Inr [])\<rparr>"

definition ex_timeout :: go_error where "ex_timeout = ErrNew ''timed out waiting for the condition''"

fun ex_loop :: "nat \<Rightarrow> nat \<Rightarrow> (nat \<Rightarrow> go_error + bool) \<Rightarrow> go_error option" where
  "ex_loop 0 n cond = Some ex_timeout"
| "ex_loop (Suc k) n cond = (case cond n of Inl e \<Rightarrow> Some e | Inr True \<Rightarrow> None | Inr False \<Rightarrow> ex_loop k (Suc n) cond)"

lemma ex_loop_skip: "\<forall>m<d. cond (n + m) = Inr False \<Longrightarrow> ex_loop (d + k) n cond = ex_loop k (n + d) cond"
proof (induction d arbitrary: n)
  case (Suc d)
  have "cond n = Inr False" using Suc.prems [rule_format, of 0] by simp
  moreover have "\<forall>m<d. cond (Suc n + m) = Inr False"
  proof (intro allI impI)
    fix m assume "m < d"
    then show "cond (Suc n + m) = Inr False" using Suc.prems [rule_format, of "Suc m"] by simp
  qed
  ultimately show ?case using Suc.IH [of "Suc n"] by simp
qed simp

lemma ex_backoff_law: "backoff_law (\<lambda>steps. ex_loop steps 0) (\<lambda>e. e = ex_timeout)"
  unfolding backoff_law_def
proof (intro allI conjI impI)
  fix steps n :: nat and cond :: "nat \<Rightarrow> go_error + bool"
  assume n: "n < steps" and "\<forall>m<n. cond m = Inr False"
  then have l: "ex_loop steps 0 cond = ex_loop (Suc (steps - n - 1)) n cond"
    using ex_loop_skip [of n cond 0 "steps - n"] by (simp del: ex_loop.simps add: Suc_diff_Suc)
  show "cond n = Inr True \<Longrightarrow> ex_loop steps 0 cond = None" using l by simp
  show "\<And>e. cond n = Inl e \<Longrightarrow> ex_loop steps 0 cond = Some e" using l by simp
next
  fix steps :: nat and cond :: "nat \<Rightarrow> go_error + bool"
  assume "\<forall>n<steps. cond n = Inr False"
  then show "\<exists>e. ex_loop steps 0 cond = Some e \<and> e = ex_timeout" using ex_loop_skip [of steps cond 0 0] by simp
qed

theorem operator_absence_is_evidence_witness:
  "OperatorExists ex_field_reader ex_reader ''kueue-operator'' = Inl (ErrSentinel ErrOperatorNotInstalled)"
proof -
  have f: "fields_never_no_match ex_field_reader" by (simp add: fields_never_no_match_def ex_field_reader_def)
  have l: "rdList ex_reader operatorConditionGVK = Inl (ErrNoMatch ''no matches'')" "rdList ex_reader platformClusterExtensionGVK = Inr []"
    by (simp_all add: ex_reader_def operatorConditionGVK_def platformClusterExtensionGVK_def)
  have "rdList ex_reader g \<noteq> Inl (ErrSentinel ErrOperatorNotInstalled)" for g by (simp add: ex_reader_def)
  from operator_absence_is_evidence [OF f this, of "''kueue-operator''"] show ?thesis by (simp add: l)
qed

theorem cluster_info_agrees_witness:
  "DetectClusterInfo ex_field_reader (\<lambda>s. Inr True) ex_reader = (\<lparr>ciType = ClusterTypeKubernetes, ciVersion = '''', ciFipsEnabled = False\<rparr>, None)"
proof -
  have "DetectClusterType ex_reader = Inr ClusterTypeKubernetes" by (simp add: DetectClusterType_def ex_reader_def absent_def)
  with cluster_info_agrees [where r = ex_reader and fr = ex_field_reader and unmarshal = "\<lambda>s. Inr True"] show ?thesis by simp
qed

theorem crd_wait_bounded_witness:
  "pkg_HasCRD (\<lambda>steps. ex_loop steps 0) (\<lambda>e. e = ex_timeout) ex_field_reader (\<lambda>n. ex_reader\<lparr>rdGet := \<lambda>g ns k. Inl (ErrAPI NotFound ''x'')\<rparr>)
     ''Dashboard'' ''apps'' = Inr False"
proof -
  let ?cli = "\<lambda>n :: nat. ex_reader\<lparr>rdGet := \<lambda>g ns k. Inl (ErrAPI NotFound ''x'')\<rparr>"
  have a: "crd_attempt ex_field_reader (crd_name ''Dashboard'' ''apps'') (?cli n) = Inr False" for n
    by (simp add: crd_attempt_def IsNotFound_def)
  have "list_all (\<lambda>n. case crd_attempt ex_field_reader (crd_name ''Dashboard'' ''apps'') (?cli n) of Inl e \<Rightarrow> \<not> e = ex_timeout | Inr b \<Rightarrow> True) [0..<5]"
    by (simp add: a list_all_iff)
  from crd_wait_bounded [OF ex_backoff_law this] a show ?thesis by blast
qed

theorem singleton_exact_witness:
  "\<exists>e. GetSingleton ex_reader ''Dashboard'' (Inr [mk_gvk ''apps'' ''v1'' ''Dashboard'']) (\<lambda>x. Inr ()) = Inl e \<and>
     is_sentinel ErrMultipleInstances e"
proof -
  let ?g = "mk_gvk ''apps'' ''v1'' ''Dashboard''"
  have "rdList ex_reader (mk_gvk (gGroup ?g) (gVersion ?g) (gKind ?g @ ''List'')) =
      Inr [GvkToUnstructured (mk_gvk ''apps'' ''v1'' ''DashboardList''), GvkToUnstructured (mk_gvk ''apps'' ''v1'' ''DashboardList'')]"
    by (simp add: ex_reader_def)
  with singleton_exact [of ex_reader "''Dashboard''" "Inr [?g]" "\<lambda>x. Inr ()" _ ?g "[]"] show ?thesis by fastforce
qed

end
