(* ===== verification/ErrorLoops.thy ===== *)
theory ErrorLoops
  imports GoErrors
begin

text \<open>
  The loop that the renderers share: call a fallible function on each element, append what it returns to the result and
  return the first error. What such a loop returns, and that on success the order of its input only permutes its result.
\<close>

fun gather :: "('a \<Rightarrow> 'e + 'b list) \<Rightarrow> 'a list \<Rightarrow> 'e + 'b list" where
  "gather f [] = Inr []"
| "gather f (x # xs) =
     (case f x of
        Inl e \<Rightarrow> Inl e
      | Inr ys \<Rightarrow> (case gather f xs of Inl e \<Rightarrow> Inl e | Inr zs \<Rightarrow> Inr (ys @ zs)))"

text \<open>The error of a result, wrapped with the message of \<^verbatim>\<open>fmt.Errorf\<close>.\<close>

definition wrap_error :: "string \<Rightarrow> go_error + 'a \<Rightarrow> go_error + 'a" where
  "wrap_error msg r = (case r of Inl e \<Rightarrow> Inl (ErrWrap msg e) | Inr x \<Rightarrow> Inr x)"

lemma wrap_error_simps [simp]: "wrap_error msg (Inl e) = Inl (ErrWrap msg e)" "wrap_error msg (Inr x) = Inr x"
  by (simp_all add: wrap_error_def)

lemma wrap_error_Inr_iff [simp]: "wrap_error msg r = Inr x \<longleftrightarrow> r = Inr x"
  by (cases r) simp_all

lemma gather_Inr_iff:
  "gather f xs = Inr ys \<longleftrightarrow> (\<forall>x\<in>set xs. \<exists>zs. f x = Inr zs) \<and> ys = concat (map (\<lambda>x. projr (f x)) xs)"
proof (induction xs arbitrary: ys)
  case (Cons x xs)
  show ?case
  proof (cases "f x")
    case (Inr zs)
    then show ?thesis using Cons.IH by (cases "gather f xs") force+
  qed simp
qed auto

lemma gather_Inl: "gather f xs = Inl e \<Longrightarrow> \<exists>x\<in>set xs. f x = Inl e"
  by (induction xs) (auto split: sum.splits)

lemma gather_Inl_iff: "(\<exists>e. gather f xs = Inl e) \<longleftrightarrow> (\<exists>x\<in>set xs. \<exists>e. f x = Inl e)"
proof (cases "gather f xs")
  case (Inl e)
  then show ?thesis using gather_Inl [OF Inl] by auto
next
  case (Inr ys)
  then show ?thesis using gather_Inr_iff [of f xs ys] by fastforce
qed

lemma gather_memD:
  assumes "gather f xs = Inr ys" and "y \<in> set ys"
  obtains x zs where "x \<in> set xs" and "f x = Inr zs" and "y \<in> set zs"
proof -
  have a: "\<forall>x\<in>set xs. \<exists>zs. f x = Inr zs" and "ys = concat (map (\<lambda>x. projr (f x)) xs)"
    using assms(1) by (simp_all add: gather_Inr_iff)
  then obtain x where x: "x \<in> set xs" "y \<in> set (projr (f x))" using assms(2) by auto
  then obtain zs where "f x = Inr zs" using a by blast
  then show ?thesis using x that by simp
qed

lemma gather_cong [fundef_cong]:
  "xs = ys \<Longrightarrow> (\<And>x. x \<in> set ys \<Longrightarrow> f x = g x) \<Longrightarrow> gather f xs = gather g ys"
proof (induction ys arbitrary: xs)
  case (Cons y ys)
  then show ?case by (auto split: sum.splits)
qed simp

lemma gather_agree:
  assumes "\<And>x y. R x y \<Longrightarrow> f x = map_sum id (map h) (g y)" and "list_all2 R xs ys"
  shows "gather f xs = map_sum id (map h) (gather g ys)"
  using assms(2) by (induction rule: list_all2_induct) (auto simp: assms(1) split: sum.split)

lemma gather_append: "gather f (xs @ ys) = (case gather f xs of Inl e \<Rightarrow> Inl e | Inr a \<Rightarrow> map_sum id (append a) (gather f ys))"
  by (induction xs) (auto split: sum.splits simp: sum.map_id map_sum_def)

lemma gather_permutes:
  assumes "mset xs = mset ys" and "gather f xs = Inr r"
  shows "\<exists>r'. gather f ys = Inr r' \<and> mset r = mset r'"
proof -
  have s: "set xs = set ys" using assms(1) by (rule mset_eq_setD)
  have a: "\<forall>x\<in>set xs. \<exists>zs. f x = Inr zs" and r: "r = concat (map (\<lambda>x. projr (f x)) xs)"
    using assms(2) by (simp_all add: gather_Inr_iff)
  have "mset (concat (map h zs)) = (\<Sum>x\<in>#mset zs. mset (h x))" for h :: "'a \<Rightarrow> 'c list" and zs
    by (induction zs) simp_all
  then have "mset r = mset (concat (map (\<lambda>x. projr (f x)) ys))" by (simp add: r assms(1))
  then show ?thesis using a s by (auto simp: gather_Inr_iff)
qed

end
