(* ===== verification/Template.thy ===== *)
theory Template
  imports RenderCache PkgResources ErrorLoops
begin

text \<open>
  Rendering of Go templates: the template functions of \<^verbatim>\<open>framework/utils/template\<close> and \<^verbatim>\<open>pkg/template\<close>, the decoder of
  multi-document YAML in both modules, the template action of
  \<^verbatim>\<open>framework/controller/actions/render/template\<close> and \<^verbatim>\<open>pkg/render/template\<close>. The template library, the YAML
  library and the decoder of the Kubernetes scheme are parameters.
\<close>

section \<open>Template functions\<close>

text \<open>\<^verbatim>\<open>strings.Split(text, sep)\<close> for a separator of one character.\<close>

fun split_char :: "char \<Rightarrow> string \<Rightarrow> string list" where
  "split_char c [] = [[]]"
| "split_char c (x # xs) =
     (if x = c then [] # split_char c xs
      else (case split_char c xs of [] \<Rightarrow> [[x]] | l # ls \<Rightarrow> (x # l) # ls))"

definition newline :: char where
  "newline = CHR 0x0A"

definition indent_line :: "nat \<Rightarrow> string \<Rightarrow> string" where
  "indent_line n line = (if line \<noteq> '''' then replicate n (CHR '' '') @ line else line)"

text \<open>\<^verbatim>\<open>strings.Repeat\<close> panics on a negative count.\<close>

definition strings_Repeat :: "string \<Rightarrow> int \<Rightarrow> string run" where
  "strings_Repeat s n = (if n < 0 then Panic else Done (concat (replicate (nat n) s)))"

definition Indent :: "int \<Rightarrow> string \<Rightarrow> string run" where
  "Indent spaces text =
     (if text = '''' then Done text
      else bind_run (strings_Repeat '' '' spaces) (\<lambda>prefix.
        Done (join_with [newline] (map (\<lambda>line. if line \<noteq> '''' then prefix @ line else line) (split_char newline text)))))"

definition pkg_Indent :: "int \<Rightarrow> string \<Rightarrow> string" where
  "pkg_Indent spaces0 text =
     (if text = '''' then text
      else let spaces = (if spaces0 < 0 then 0 else spaces0);
               prefix = concat (replicate (nat spaces) '' '')
           in join_with [newline] (map (\<lambda>line. if line \<noteq> '''' then prefix @ line else line) (split_char newline text)))"

definition nindent :: "int \<Rightarrow> string \<Rightarrow> string run" where
  "nindent spaces s = (if s = '''' then Done '''' else bind_run (Indent spaces s) (\<lambda>t. Done (newline # t)))"

definition pkg_nindent :: "int \<Rightarrow> string \<Rightarrow> string" where
  "pkg_nindent spaces s = (if s = '''' then '''' else newline # pkg_Indent spaces s)"

text \<open>
  The functions a function map holds, by name: those of the framework, the indenting functions of the root module, which clamp a negative
  count where those of the framework panic, and those of a caller. The \<^verbatim>\<open>toYaml\<close> of both modules is the same code.
\<close>

datatype 'f template_func = FnIndent | FnNindent | FnPkgIndent | FnPkgNindent | FnToYaml | FnCustom 'f

type_synonym 'f func_map = "(string \<times> 'f template_func) list"

definition TextTemplateFuncMap :: "'f func_map" where
  "TextTemplateFuncMap = [(''indent'', FnIndent), (''nindent'', FnNindent), (''toYaml'', FnToYaml)]"

definition pkg_TextTemplateFuncMap :: "'f func_map" where
  "pkg_TextTemplateFuncMap = [(''indent'', FnPkgIndent), (''nindent'', FnPkgNindent), (''toYaml'', FnToYaml)]"

definition HTMLTemplateFuncMap :: "'f func_map" where
  "HTMLTemplateFuncMap = [(''indent'', FnIndent)]"

lemma split_char_not_Nil [simp]: "split_char c s \<noteq> []"
  by (cases s) (auto split: list.split)

lemma join_Cons_not_Nil: "ls \<noteq> [] \<Longrightarrow> join_with sep (l # ls) = l @ sep @ join_with sep ls"
  by (cases ls) simp_all

lemma join_with_Cons_Cons: "join_with sep ((x # l) # ls) = x # join_with sep (l # ls)"
  by (cases ls) simp_all

lemma join_split: "join_with [c] (split_char c s) = s"
proof (induction s)
  case (Cons x xs)
  obtain l ls where s: "split_char c xs = l # ls" by (cases "split_char c xs") simp_all
  then show ?case using Cons.IH by (auto simp: join_with_Cons_Cons)
qed simp

lemma split_char_lines: "l \<in> set (split_char c s) \<Longrightarrow> c \<notin> set l"
proof (induction s arbitrary: l)
  case (Cons x xs)
  obtain m ls where s: "split_char c xs = m # ls" by (cases "split_char c xs") simp_all
  then show ?case using Cons.prems Cons.IH by (auto split: if_splits)
qed simp

lemma split_join:
  assumes "ls \<noteq> []" and "\<forall>l\<in>set ls. c \<notin> set l"
  shows "split_char c (join_with [c] ls) = ls"
  using assms
proof (induction ls)
  case (Cons l ls)
  show ?case
  proof (cases ls)
    case Nil
    have "c \<notin> set l \<Longrightarrow> split_char c l = [l]" by (induction l) auto
    then show ?thesis using Cons.prems Nil by simp
  next
    case ls: (Cons m ms)
    have "c \<notin> set l \<Longrightarrow> split_char c (l @ c # rest) = l # split_char c rest" for rest
      by (induction l) auto
    then show ?thesis using Cons ls by simp
  qed
qed simp

text \<open>Indenting changes every non-empty line by the same prefix and no other, so that the text can be read back.\<close>

definition strip_line :: "nat \<Rightarrow> string \<Rightarrow> string" where
  "strip_line n line = (if line \<noteq> '''' then drop n line else line)"

definition outdent :: "nat \<Rightarrow> string \<Rightarrow> string" where
  "outdent n text = join_with [newline] (map (strip_line n) (split_char newline text))"

lemma prefix_spaces: "concat (replicate n '' '') = replicate n (CHR '' '')"
  by (induction n) simp_all

lemma pkg_Indent_lines:
  "text \<noteq> '''' \<Longrightarrow> split_char newline (pkg_Indent n text) = map (indent_line (nat n)) (split_char newline text)"
proof -
  assume t: "text \<noteq> ''''"
  let ?ls = "map (indent_line (nat n)) (split_char newline text)"
  have "pkg_Indent n text = join_with [newline] ?ls"
    using t by (cases "n < 0") (simp_all add: pkg_Indent_def indent_line_def [abs_def] prefix_spaces Let_def cong: if_cong)
  moreover have "\<forall>l\<in>set ?ls. newline \<notin> set l"
    using split_char_lines by (fastforce simp: indent_line_def newline_def)
  ultimately show ?thesis by (simp add: split_join)
qed

lemma outdent_Indent: "outdent (nat n) (pkg_Indent n text) = text"
proof (cases "text = ''''")
  case True
  then show ?thesis by (simp add: outdent_def pkg_Indent_def strip_line_def)
next
  case False
  have "strip_line (nat n) \<circ> indent_line (nat n) = id"
    by (auto simp: fun_eq_iff strip_line_def indent_line_def)
  then show ?thesis using False by (simp add: outdent_def pkg_Indent_lines join_split)
qed

lemma Indent_pkg: "Indent n text = (if text \<noteq> '''' \<and> n < 0 then Panic else Done (pkg_Indent n text))"
  by (simp add: Indent_def pkg_Indent_def strings_Repeat_def Let_def)

lemma nindent_pkg: "nindent n s = (if s \<noteq> '''' \<and> n < 0 then Panic else Done (pkg_nindent n s))"
  by (simp add: nindent_def pkg_nindent_def Indent_pkg)

section \<open>Decoding documents\<close>

text \<open>
  \<open>ylDocuments\<close> is the sequence of results of \<^verbatim>\<open>yaml.Decoder.Decode\<close> up to the end of the input, \<open>ylMarshal\<close> is
  \<^verbatim>\<open>yaml.Marshal\<close>, \<open>ylMissingKind\<close> is \<^verbatim>\<open>runtime.IsMissingKind\<close>.
\<close>

record yaml_lib =
  ylDocuments :: "string \<Rightarrow> (go_error + (string \<times> json) list) list"
  ylMarshal :: "(string \<times> json) list \<Rightarrow> go_error + string"
  ylMissingKind :: "go_error \<Rightarrow> bool"

type_synonym decoder = "string \<Rightarrow> go_error + kobj"

definition doc_kind :: "(string \<times> json) list \<Rightarrow> string" where
  "doc_kind out = (case map_of out ''kind'' of Some (JString s) \<Rightarrow> s | _ \<Rightarrow> '''')"

fun decode_docs :: "yaml_lib \<Rightarrow> decoder \<Rightarrow> (go_error + (string \<times> json) list) list \<Rightarrow> go_error + kobj list" where
  "decode_docs yl decoder [] = Inr []"
| "decode_docs yl decoder (Inl err # docs) = Inl (ErrWrap ''unable to decode resource'' err)"
| "decode_docs yl decoder (Inr out # docs) =
     (if length out = 0 then decode_docs yl decoder docs
      else if doc_kind out = '''' then decode_docs yl decoder docs
      else case ylMarshal yl out of
        Inl err \<Rightarrow> Inl (ErrWrap ''unable to marshal resource'' err)
      | Inr encoded \<Rightarrow>
          (case decoder encoded of
             Inl err \<Rightarrow> if ylMissingKind yl err then decode_docs yl decoder docs
                        else Inl (ErrWrap ''unable to decode resource'' err)
           | Inr obj \<Rightarrow> (case decode_docs yl decoder docs of Inl err \<Rightarrow> Inl err | Inr objs \<Rightarrow> Inr (obj # objs))))"

definition Decode :: "yaml_lib \<Rightarrow> decoder \<Rightarrow> string \<Rightarrow> go_error + kobj list" where
  "Decode yl decoder content = decode_docs yl decoder (ylDocuments yl content)"

fun pkg_decode_docs :: "yaml_lib \<Rightarrow> decoder \<Rightarrow> (go_error + (string \<times> json) list) list \<Rightarrow> kobj list \<Rightarrow> go_error + kobj list" where
  "pkg_decode_docs yl decoder [] results = Inr results"
| "pkg_decode_docs yl decoder (Inl err # docs) results = Inl (ErrWrap ''unable to decode resource'' err)"
| "pkg_decode_docs yl decoder (Inr out # docs) results =
     (if length out = 0 then pkg_decode_docs yl decoder docs results
      else if doc_kind out = '''' then pkg_decode_docs yl decoder docs results
      else case ylMarshal yl out of
        Inl err \<Rightarrow> Inl (ErrWrap ''unable to marshal resource'' err)
      | Inr encoded \<Rightarrow>
          (case decoder encoded of
             Inl err \<Rightarrow> if ylMissingKind yl err then pkg_decode_docs yl decoder docs results
                        else Inl (ErrWrap ''unable to decode resource'' err)
           | Inr obj \<Rightarrow> pkg_decode_docs yl decoder docs (results @ [obj])))"

definition pkg_Decode :: "yaml_lib \<Rightarrow> decoder \<Rightarrow> string \<Rightarrow> go_error + kobj list" where
  "pkg_Decode yl decoder content = pkg_decode_docs yl decoder (ylDocuments yl content) []"

lemma pkg_decode_docs_acc:
  "pkg_decode_docs yl decoder docs acc = map_sum id (append acc) (decode_docs yl decoder docs)"
proof (induction yl decoder docs arbitrary: acc rule: decode_docs.induct)
  case (3 yl decoder out docs)
  then show ?case by (cases "ylMarshal yl out"; cases "decoder (projr (ylMarshal yl out))") (auto split: sum.split)
qed simp_all

lemma pkg_Decode_eq: "pkg_Decode yl decoder content = Decode yl decoder content"
  by (cases "decode_docs yl decoder (ylDocuments yl content)") (simp_all add: pkg_Decode_def Decode_def pkg_decode_docs_acc)

text \<open>What a document contributes: nothing when it is empty or has no kind, otherwise its object or an error.\<close>

definition doc_object :: "yaml_lib \<Rightarrow> decoder \<Rightarrow> go_error + (string \<times> json) list \<Rightarrow> go_error + kobj list" where
  "doc_object yl decoder d =
     (case d of
        Inl err \<Rightarrow> Inl (ErrWrap ''unable to decode resource'' err)
      | Inr out \<Rightarrow>
          if out = [] \<or> doc_kind out = '''' then Inr []
          else case wrap_error ''unable to marshal resource'' (ylMarshal yl out) of
            Inl err \<Rightarrow> Inl err
          | Inr encoded \<Rightarrow>
              (case decoder encoded of
                 Inl err \<Rightarrow> if ylMissingKind yl err then Inr [] else Inl (ErrWrap ''unable to decode resource'' err)
               | Inr obj \<Rightarrow> Inr [obj]))"

lemma doc_object_Inl: "doc_object yl decoder (Inl err) = Inl (ErrWrap ''unable to decode resource'' err)"
  by (simp add: doc_object_def)

lemma doc_object_Inr:
  "doc_object yl decoder (Inr out) =
     (if out = [] \<or> doc_kind out = '''' then Inr []
      else case wrap_error ''unable to marshal resource'' (ylMarshal yl out) of
        Inl err \<Rightarrow> Inl err
      | Inr encoded \<Rightarrow>
          (case decoder encoded of
             Inl err \<Rightarrow> if ylMissingKind yl err then Inr [] else Inl (ErrWrap ''unable to decode resource'' err)
           | Inr obj \<Rightarrow> Inr [obj]))"
  by (simp add: doc_object_def)

lemma Decode_gather: "Decode yl decoder content = gather (doc_object yl decoder) (ylDocuments yl content)"
proof -
  have "decode_docs yl decoder docs = gather (doc_object yl decoder) docs" for docs
  proof (induction yl decoder docs rule: decode_docs.induct)
    case (3 yl decoder out docs)
    then show ?case
      by (cases "ylMarshal yl out"; cases "decoder (projr (ylMarshal yl out))"; cases "gather (doc_object yl decoder) docs")
        (simp_all add: doc_object_Inr split: sum.split)
  qed (simp_all add: doc_object_Inl)
  then show ?thesis by (simp add: Decode_def)
qed

section \<open>The template action of the framework\<close>

definition ComponentKey :: string where
  "ComponentKey = ''Component''"

definition AppNamespaceKey :: string where
  "AppNamespaceKey = ''AppNamespace''"

record ComponentData =
  cdLabels :: "(string \<rightharpoonup> string) option"
  cdAnnotations :: "(string \<rightharpoonup> string) option"
  cdObject :: kobj
  cdName :: string
  cdNamespace :: string

text \<open>A value of the data map: anything the caller adds, a string, the instance or what the root module wraps it in.\<close>

datatype 'd template_value = TAny 'd | TString string | TInstance platform_object | TComponent ComponentData

type_synonym 'd template_data = "string \<rightharpoonup> 'd template_value"

text \<open>
  \<open>parse\<close> is \<^verbatim>\<open>New("").Option("missingkey=error").Funcs(funcMap).ParseFS(fs, path)\<close> followed by \<^verbatim>\<open>Templates()\<close>,
  whose order is unspecified; a parsed template is its \<^verbatim>\<open>Execute\<close> into an empty buffer.
\<close>

type_synonym 'd parsed_template = "'d template_data \<Rightarrow> go_error + string"
type_synonym ('d, 'f) template_parser = "'f func_map \<Rightarrow> nat \<Rightarrow> string \<Rightarrow> go_error + 'd parsed_template list"

record ('w, 'd, 'f) template_action =
  taCacher :: "'w resource_cacher"
  taCache :: bool
  taData :: "'d template_data"
  taDataFn :: "('w request, 'd template_data) on_request list"
  taNamespaceFn :: "('w request, string) on_request option"
  taFuncMap :: "'f func_map"
  taLabels :: "(string \<times> string) list"
  taAnnotations :: "(string \<times> string) list"

definition ta_WithCache :: "bool \<Rightarrow> ('w, 'd, 'f) template_action \<Rightarrow> ('w, 'd, 'f) template_action" where
  "ta_WithCache enabled a = a\<lparr>taCache := enabled\<rparr>"

definition ta_WithData :: "'d template_data \<Rightarrow> ('w, 'd, 'f) template_action \<Rightarrow> ('w, 'd, 'f) template_action" where
  "ta_WithData d a = a\<lparr>taData := taData a ++ d\<rparr>"

definition ta_WithDataFn ::
  "('w request, 'd template_data) on_request list \<Rightarrow> ('w, 'd, 'f) template_action \<Rightarrow> ('w, 'd, 'f) template_action" where
  "ta_WithDataFn fns a = a\<lparr>taDataFn := taDataFn a @ fns\<rparr>"

definition ta_WithNamespaceFn ::
  "('w request, string) on_request option \<Rightarrow> ('w, 'd, 'f) template_action \<Rightarrow> ('w, 'd, 'f) template_action" where
  "ta_WithNamespaceFn fn a = (case fn of None \<Rightarrow> a | Some f \<Rightarrow> a\<lparr>taNamespaceFn := Some f\<rparr>)"

definition ta_WithFuncMap :: "'f func_map \<Rightarrow> ('w, 'd, 'f) template_action \<Rightarrow> ('w, 'd, 'f) template_action" where
  "ta_WithFuncMap fm a = a\<lparr>taFuncMap := copy_pairs fm (taFuncMap a)\<rparr>"

definition ta_WithLabel :: "string \<Rightarrow> string \<Rightarrow> ('w, 'd, 'f) template_action \<Rightarrow> ('w, 'd, 'f) template_action" where
  "ta_WithLabel k v a = a\<lparr>taLabels := put_pair k v (taLabels a)\<rparr>"

definition ta_WithLabels :: "(string \<times> string) list \<Rightarrow> ('w, 'd, 'f) template_action \<Rightarrow> ('w, 'd, 'f) template_action" where
  "ta_WithLabels m a = a\<lparr>taLabels := copy_pairs m (taLabels a)\<rparr>"

definition ta_WithAnnotation :: "string \<Rightarrow> string \<Rightarrow> ('w, 'd, 'f) template_action \<Rightarrow> ('w, 'd, 'f) template_action" where
  "ta_WithAnnotation k v a = a\<lparr>taAnnotations := put_pair k v (taAnnotations a)\<rparr>"

definition ta_WithAnnotations :: "(string \<times> string) list \<Rightarrow> ('w, 'd, 'f) template_action \<Rightarrow> ('w, 'd, 'f) template_action" where
  "ta_WithAnnotations m a = a\<lparr>taAnnotations := copy_pairs m (taAnnotations a)\<rparr>"

definition stamp_info :: "(string \<times> string) list \<Rightarrow> (string \<times> string) list \<Rightarrow> TemplateInfo \<Rightarrow> kobj \<Rightarrow> kobj" where
  "stamp_info labels annotations info u =
     (let u1 = SetAnnotations (SetLabels u (map_of labels)) (map_of annotations)
      in SetAnnotations (SetLabels u1 (map_of (pairs (tiLabels info)))) (map_of (pairs (tiAnnotations info))))"

definition ta_decode ::
  "yaml_lib \<Rightarrow> decoder \<Rightarrow> ('w, 'd, 'f) template_action \<Rightarrow> string \<Rightarrow> TemplateInfo \<Rightarrow> go_error + kobj list" where
  "ta_decode yl decoder a data info =
     (case Decode yl decoder data of
        Inl err \<Rightarrow> Inl (ErrWrap ''failed to decode template'' err)
      | Inr us \<Rightarrow> Inr (map (stamp_info (taLabels a) (taAnnotations a) info) us))"

fun run_dataFns ::
  "('w request, 'd template_data) on_request list \<Rightarrow> 'w request \<Rightarrow> 'd template_data \<Rightarrow> 'w request \<times> (go_error + 'd template_data)" where
  "run_dataFns [] rr data = (rr, Inr data)"
| "run_dataFns (fn # fns) rr data =
     (case fn rr of
        (rr', Inl err) \<Rightarrow> (rr', Inl (ErrWrap ''unable to compute template data'' err))
      | (rr', Inr values) \<Rightarrow> run_dataFns fns rr' (data ++ values))"

definition execute_template ::
  "yaml_lib \<Rightarrow> decoder \<Rightarrow> ('w, 'd, 'f) template_action \<Rightarrow> 'd template_data \<Rightarrow> TemplateInfo \<Rightarrow> 'd parsed_template \<Rightarrow> go_error + kobj list" where
  "execute_template yl decoder a data info t =
     (case t data of
        Inl err \<Rightarrow> Inl (ErrWrap ''failed to execute template'' err)
      | Inr buffer \<Rightarrow>
          (case ta_decode yl decoder a buffer info of
             Inl err \<Rightarrow> Inl (ErrWrap ''failed to decode template'' err)
           | Inr u \<Rightarrow> Inr u))"

definition render_info ::
  "('d, 'f) template_parser \<Rightarrow> yaml_lib \<Rightarrow> decoder \<Rightarrow> ('w, 'd, 'f) template_action \<Rightarrow> 'd template_data \<Rightarrow> TemplateInfo \<Rightarrow>
     go_error + kobj list" where
  "render_info parse yl decoder a data info =
     (case parse (taFuncMap a) (tiFS info) (tiPath info) of
        Inl err \<Rightarrow> Inl (ErrWrap ''failed to parse template from'' err)
      | Inr ts \<Rightarrow> gather (execute_template yl decoder a data info) ts)"

text \<open>The data map holds a pointer to the instance: templates read the instance as it is when they are executed.\<close>

definition ta_render ::
  "('d, 'f) template_parser \<Rightarrow> yaml_lib \<Rightarrow> decoder \<Rightarrow> ('w, 'd, 'f) template_action \<Rightarrow> ('w request, kobj list) on_request" where
  "ta_render parse yl decoder a rr =
     (if length (rrTemplates rr) = 0 then (rr, Inr [])
      else case run_dataFns (taDataFn a) rr (taData a) of
        (rr1, Inl err) \<Rightarrow> (rr1, Inl err)
      | (rr1, Inr data) \<Rightarrow>
          (case taNamespaceFn a of
             None \<Rightarrow> (rr1, gather (render_info parse yl decoder a (data(ComponentKey \<mapsto> TInstance (rrInstance rr1)))) (rrTemplates rr1))
           | Some fn \<Rightarrow>
               (case fn rr1 of
                  (rr2, Inl err) \<Rightarrow> (rr2, Inl err)
                | (rr2, Inr appNamespace) \<Rightarrow>
                    (rr2, gather (render_info parse yl decoder a
                       (data(ComponentKey \<mapsto> TInstance (rrInstance rr2), AppNamespaceKey \<mapsto> TString appNamespace))) (rrTemplates rr2)))))"

definition ta_run ::
  "('d, 'f) template_parser \<Rightarrow> yaml_lib \<Rightarrow> decoder \<Rightarrow> ('w, 'd, 'f) template_action \<Rightarrow> 'w request \<Rightarrow>
     ('w, 'd, 'f) template_action \<times> 'w request \<times> go_error option" where
  "ta_run parse yl decoder a rr =
     (if rrSkipDeploy rr then (a, rr, None)
      else case ResourceCacher_Render (taCacher a) rr (ta_render parse yl decoder a) of
        (c, rr', err) \<Rightarrow> (a\<lparr>taCacher := c\<rparr>, rr', err))"

definition ta_NewAction ::
  "('w request, string) on_request \<Rightarrow> (('w, 'd, 'f) template_action \<Rightarrow> ('w, 'd, 'f) template_action) list \<Rightarrow> ('w, 'd, 'f) template_action" where
  "ta_NewAction hash opts =
     (let a = fold (\<lambda>opt a. opt a) opts
            \<lparr>taCacher = NewResourceCacher, taCache = True, taData = Map.empty, taDataFn = [], taNamespaceFn = None,
             taFuncMap = TextTemplateFuncMap, taLabels = [], taAnnotations = []\<rparr>
      in if taCache a then a\<lparr>taCacher := cacher_SetKeyFn (taCacher a) (Some hash)\<rparr> else a)"

section \<open>Template rendering of the root module\<close>

record TemplateSource =
  tsLabels :: "(string \<times> string) list option"
  tsAnnotations :: "(string \<times> string) list option"
  tsFS :: nat
  tsPath :: string

record 'f template_options =
  toFuncMap :: "'f func_map"
  toLabels :: "(string \<times> string) list"
  toAnnotations :: "(string \<times> string) list"

type_synonym 'f template_option = "'f template_options \<Rightarrow> 'f template_options"

definition to_WithLabel :: "string \<Rightarrow> string \<Rightarrow> 'f template_option" where
  "to_WithLabel name value o0 = o0\<lparr>toLabels := put_pair name value (toLabels o0)\<rparr>"

definition to_WithLabels :: "(string \<times> string) list \<Rightarrow> 'f template_option" where
  "to_WithLabels m o0 = o0\<lparr>toLabels := copy_pairs m (toLabels o0)\<rparr>"

definition to_WithAnnotation :: "string \<Rightarrow> string \<Rightarrow> 'f template_option" where
  "to_WithAnnotation name value o0 = o0\<lparr>toAnnotations := put_pair name value (toAnnotations o0)\<rparr>"

definition to_WithAnnotations :: "(string \<times> string) list \<Rightarrow> 'f template_option" where
  "to_WithAnnotations m o0 = o0\<lparr>toAnnotations := copy_pairs m (toAnnotations o0)\<rparr>"

definition to_WithFuncMap :: "'f func_map \<Rightarrow> 'f template_option" where
  "to_WithFuncMap fm o0 = o0\<lparr>toFuncMap := fm\<rparr>"

definition stamp_source :: "(string \<times> string) list \<Rightarrow> (string \<times> string) list \<Rightarrow> TemplateSource \<Rightarrow> kobj \<Rightarrow> kobj" where
  "stamp_source globalLabels globalAnnotations info u =
     (let u1 = pkg_SetAnnotations (pkg_SetLabels u globalLabels) globalAnnotations
      in pkg_SetAnnotations (pkg_SetLabels u1 (pairs (tsLabels info))) (pairs (tsAnnotations info)))"

definition decodeRendered ::
  "yaml_lib \<Rightarrow> decoder \<Rightarrow> string \<Rightarrow> (string \<times> string) list \<Rightarrow> (string \<times> string) list \<Rightarrow> TemplateSource \<Rightarrow> go_error + kobj list" where
  "decodeRendered yl decoder data globalLabels globalAnnotations info =
     (case pkg_Decode yl decoder data of
        Inl err \<Rightarrow> Inl (ErrWrap ''failed to decode template'' err)
      | Inr us \<Rightarrow> Inr (map (stamp_source globalLabels globalAnnotations info) us))"

definition execute_source ::
  "yaml_lib \<Rightarrow> decoder \<Rightarrow> TemplateSource \<Rightarrow> 'd template_data \<Rightarrow> 'f template_options \<Rightarrow> 'd parsed_template \<Rightarrow> go_error + kobj list" where
  "execute_source yl decoder source data o0 t =
     (case t data of
        Inl err \<Rightarrow> Inl (ErrWrap ''failed to execute template'' err)
      | Inr buffer \<Rightarrow>
          (case decodeRendered yl decoder buffer (toLabels o0) (toAnnotations o0) source of
             Inl err \<Rightarrow> Inl (ErrWrap ''failed to decode template'' err)
           | Inr u \<Rightarrow> Inr u))"

definition renderSource ::
  "('d, 'f) template_parser \<Rightarrow> yaml_lib \<Rightarrow> decoder \<Rightarrow> TemplateSource \<Rightarrow> 'd template_data \<Rightarrow> 'f template_options \<Rightarrow> go_error + kobj list" where
  "renderSource parse yl decoder source data o0 =
     (case parse (toFuncMap o0) (tsFS source) (tsPath source) of
        Inl err \<Rightarrow> Inl (ErrWrap ''failed to parse template from'' err)
      | Inr ts \<Rightarrow> gather (execute_source yl decoder source data o0) ts)"

text \<open>\<open>decoderFor\<close> is the deserializer of a scheme, \<open>newScheme\<close> an empty scheme.\<close>

definition template_Render ::
  "('d, 'f) template_parser \<Rightarrow> yaml_lib \<Rightarrow> ('s \<Rightarrow> decoder) \<Rightarrow> 's \<Rightarrow> 's option \<Rightarrow> TemplateSource list \<Rightarrow> 'd template_data \<Rightarrow>
     'f template_option list \<Rightarrow> go_error + kobj list" where
  "template_Render parse yl decoderFor newScheme scheme sources data opts =
     (if length sources = 0 then Inr []
      else let o0 = fold (\<lambda>opt o1. opt o1) opts \<lparr>toFuncMap = pkg_TextTemplateFuncMap, toLabels = [], toAnnotations = []\<rparr>;
               sch = (case scheme of None \<Rightarrow> newScheme | Some s \<Rightarrow> s);
               decoder = decoderFor sch
           in gather (\<lambda>source. renderSource parse yl decoder source data o0) sources)"

record ('w, 'd, 'f) template_actionOpts =
  aoData :: "'d template_data"
  aoNsFn :: "('w, string) on_request option"
  aoNamespace :: string
  aoRenderOpts :: "'f template_option list"
  aoDataFn :: "('w, 'd template_data) on_request list"
  aoCacheDisabled :: bool

type_synonym ('w, 'd, 'f) template_ActionOption = "('w, 'd, 'f) template_actionOpts \<Rightarrow> ('w, 'd, 'f) template_actionOpts"

definition ao_WithCache :: "bool \<Rightarrow> ('w, 'd, 'f) template_ActionOption" where
  "ao_WithCache enabled o0 = o0\<lparr>aoCacheDisabled := \<not> enabled\<rparr>"

definition ao_WithData :: "'d template_data \<Rightarrow> ('w, 'd, 'f) template_ActionOption" where
  "ao_WithData d o0 = o0\<lparr>aoData := aoData o0 ++ d\<rparr>"

definition ao_WithDataFn :: "('w, 'd template_data) on_request list \<Rightarrow> ('w, 'd, 'f) template_ActionOption" where
  "ao_WithDataFn fns o0 = o0\<lparr>aoDataFn := aoDataFn o0 @ fns\<rparr>"

definition WithActionLabel :: "string \<Rightarrow> string \<Rightarrow> ('w, 'd, 'f) template_ActionOption" where
  "WithActionLabel name value o0 = o0\<lparr>aoRenderOpts := aoRenderOpts o0 @ [to_WithLabel name value]\<rparr>"

definition WithActionLabels :: "(string \<times> string) list \<Rightarrow> ('w, 'd, 'f) template_ActionOption" where
  "WithActionLabels m o0 = o0\<lparr>aoRenderOpts := aoRenderOpts o0 @ [to_WithLabels m]\<rparr>"

definition WithActionAnnotation :: "string \<Rightarrow> string \<Rightarrow> ('w, 'd, 'f) template_ActionOption" where
  "WithActionAnnotation name value o0 = o0\<lparr>aoRenderOpts := aoRenderOpts o0 @ [to_WithAnnotation name value]\<rparr>"

definition WithActionAnnotations :: "(string \<times> string) list \<Rightarrow> ('w, 'd, 'f) template_ActionOption" where
  "WithActionAnnotations m o0 = o0\<lparr>aoRenderOpts := aoRenderOpts o0 @ [to_WithAnnotations m]\<rparr>"

definition ao_WithNamespace :: "string \<Rightarrow> ('w, 'd, 'f) template_ActionOption" where
  "ao_WithNamespace ns o0 = o0\<lparr>aoNamespace := ns\<rparr>"

definition ao_WithNamespaceFn :: "('w, string) on_request option \<Rightarrow> ('w, 'd, 'f) template_ActionOption" where
  "ao_WithNamespaceFn fn o0 = o0\<lparr>aoNsFn := fn\<rparr>"

definition newComponentData :: "kobj \<Rightarrow> ComponentData" where
  "newComponentData obj = \<lparr>cdLabels = oLabels obj, cdAnnotations = oAnnotations obj, cdObject = obj, cdName = oName obj,
     cdNamespace = oNamespace obj\<rparr>"

fun ao_run_dataFns :: "('w, 'd template_data) on_request list \<Rightarrow> 'w \<Rightarrow> 'd template_data \<Rightarrow> 'w \<times> (go_error + 'd template_data)" where
  "ao_run_dataFns [] w data = (w, Inr data)"
| "ao_run_dataFns (fn # fns) w data =
     (case fn w of
        (w', Inl err) \<Rightarrow> (w', Inl (ErrWrap ''unable to compute template data'' err))
      | (w', Inr values) \<Rightarrow> ao_run_dataFns fns w' (data ++ values))"

definition buildData :: "('w, 'd, 'f) template_actionOpts \<Rightarrow> kobj \<Rightarrow> ('w, 'd template_data) on_request" where
  "buildData o0 inst w =
     (case ao_run_dataFns (aoDataFn o0) w (aoData o0) of
        (w1, Inl err) \<Rightarrow> (w1, Inl err)
      | (w1, Inr data) \<Rightarrow>
          let d1 = data(ComponentKey \<mapsto> TComponent (newComponentData inst));
              d2 = (if aoNamespace o0 \<noteq> '''' then d1(AppNamespaceKey \<mapsto> TString (aoNamespace o0)) else d1)
          in case aoNsFn o0 of
               None \<Rightarrow> (w1, Inr d2)
             | Some fn \<Rightarrow>
                 (case fn w1 of
                    (w2, Inl err) \<Rightarrow> (w2, Inl (ErrWrap ''unable to compute template namespace'' err))
                  | (w2, Inr ns) \<Rightarrow> (w2, Inr (if ns \<noteq> '''' then d2(AppNamespaceKey \<mapsto> TString ns) else d2))))"

definition template_source :: "TemplateInfo \<Rightarrow> TemplateSource" where
  "template_source t = \<lparr>tsLabels = tiLabels t, tsAnnotations = tiAnnotations t, tsFS = tiFS t, tsPath = tiPath t\<rparr>"

record ('w, 'd, 'f) pkg_template_action =
  ptCacher :: "'w pkg_ResourceCacher"
  ptOpts :: "('w, 'd, 'f) template_actionOpts"

definition pt_render ::
  "('d, 'f) template_parser \<Rightarrow> yaml_lib \<Rightarrow> ('s \<Rightarrow> decoder) \<Rightarrow> 's \<Rightarrow> 's option \<Rightarrow> ('w, 'd, 'f) template_actionOpts \<Rightarrow>
     ('w render_request, kobj list) on_request" where
  "pt_render parse yl decoderFor newScheme scheme o0 rr =
     (if length (rqTemplates rr) = 0 then (rr, Inr [])
      else case buildData o0 (rqInstance rr) (rqWorld rr) of
        (w, Inl err) \<Rightarrow> (rr\<lparr>rqWorld := w\<rparr>, Inl err)
      | (w, Inr data) \<Rightarrow>
          (rr\<lparr>rqWorld := w\<rparr>, template_Render parse yl decoderFor newScheme scheme
             (map template_source (rqTemplates rr)) data (aoRenderOpts o0)))"

definition pt_run ::
  "('d, 'f) template_parser \<Rightarrow> yaml_lib \<Rightarrow> ('s \<Rightarrow> decoder) \<Rightarrow> 's \<Rightarrow> 's option \<Rightarrow> ('w, 'd, 'f) pkg_template_action \<Rightarrow>
     'w render_request \<Rightarrow> ('w, 'd, 'f) pkg_template_action \<times> 'w render_request \<times> go_error option" where
  "pt_run parse yl decoderFor newScheme scheme a rr =
     (case pkg_ResourceCacher_Render (ptCacher a) rr (pt_render parse yl decoderFor newScheme scheme (ptOpts a)) of
        (c, rr', err) \<Rightarrow> (a\<lparr>ptCacher := c\<rparr>, rr', err))"

definition pt_NewAction ::
  "('w render_request, string) on_request \<Rightarrow> ('w, 'd, 'f) template_ActionOption list \<Rightarrow> ('w, 'd, 'f) pkg_template_action" where
  "pt_NewAction hash opts =
     (let o0 = fold (\<lambda>opt o1. opt o1) opts
            \<lparr>aoData = Map.empty, aoNsFn = None, aoNamespace = '''', aoRenderOpts = [], aoDataFn = [], aoCacheDisabled = False\<rparr>;
          a = \<lparr>ptCacher = pkg_NewResourceCacher, ptOpts = o0\<rparr>
      in if \<not> aoCacheDisabled o0 then a\<lparr>ptCacher := pkg_SetKeyFn (ptCacher a) (Some hash)\<rparr> else a)"

section \<open>What rendering returns\<close>

lemma gather_mset_rel:
  assumes "\<And>x r. x \<in> set xs \<Longrightarrow> f x = Inr r \<Longrightarrow> \<exists>r'. g x = Inr r' \<and> mset r = mset r'" and "gather f xs = Inr r"
  shows "\<exists>r'. gather g xs = Inr r' \<and> mset r = mset r'"
  using assms
proof (induction xs arbitrary: r)
  case (Cons x xs)
  from Cons.prems(2) obtain a b where fx: "f x = Inr a" "gather f xs = Inr b" "r = a @ b"
    by (auto split: sum.splits)
  from Cons.prems(1) [OF _ fx(1)] obtain a' where a: "g x = Inr a'" "mset a = mset a'" by auto
  from Cons.IH [OF Cons.prems(1) fx(2)] obtain b' where "gather g xs = Inr b'" "mset b = mset b'" by auto
  then show ?case using a fx(3) by simp
qed simp

lemma ta_render_cases:
  assumes "ta_render parse yl decoder a rr = (rr', Inr objs)"
  shows "objs = [] \<and> rrTemplates rr = [] \<and> rr' = rr \<or>
    rrTemplates rr \<noteq> [] \<and> (\<exists>data. data ComponentKey = Some (TInstance (rrInstance rr')) \<and>
      (\<forall>parse'. ta_render parse' yl decoder a rr = (rr', gather (render_info parse' yl decoder a data) (rrTemplates rr'))))"
proof (cases "rrTemplates rr = []")
  case True
  then show ?thesis using assms by (simp add: ta_render_def)
next
  case ne: False
  obtain rr1 r where d: "run_dataFns (taDataFn a) rr (taData a) = (rr1, r)" by fastforce
  show ?thesis
  proof (cases r)
    case (Inl e)
    then show ?thesis using assms ne d by (simp add: ta_render_def)
  next
    case data: (Inr data)
    show ?thesis
    proof (cases "taNamespaceFn a")
      case None
      let ?d = "data(ComponentKey \<mapsto> TInstance (rrInstance rr1))"
      have eq: "ta_render parse' yl decoder a rr = (rr1, gather (render_info parse' yl decoder a ?d) (rrTemplates rr1))" for parse'
        using ne d data None by (simp add: ta_render_def)
      then have "rr' = rr1" using assms by simp
      then show ?thesis using ne eq by (intro disjI2 conjI exI [of _ ?d]) simp_all
    next
      case (Some fn)
      obtain rr2 n where f: "fn rr1 = (rr2, n)" by fastforce
      show ?thesis
      proof (cases n)
        case (Inl e)
        then show ?thesis using assms ne d data Some f by (simp add: ta_render_def)
      next
        case ns: (Inr ns)
        let ?d = "data(ComponentKey \<mapsto> TInstance (rrInstance rr2), AppNamespaceKey \<mapsto> TString ns)"
        have eq: "ta_render parse' yl decoder a rr = (rr2, gather (render_info parse' yl decoder a ?d) (rrTemplates rr2))" for parse'
          using ne d data Some f ns by (simp add: ta_render_def)
        then have "rr' = rr2" using assms by simp
        then show ?thesis
          using ne eq by (intro disjI2 conjI exI [of _ ?d]) (simp_all add: ComponentKey_def AppNamespaceKey_def)
      qed
    qed
  qed
qed

lemma execute_template_Inr:
  "execute_template yl decoder a data info t = Inr us \<longleftrightarrow>
     (\<exists>buffer ds. t data = Inr buffer \<and> Decode yl decoder buffer = Inr ds \<and> us = map (stamp_info (taLabels a) (taAnnotations a) info) ds)"
  by (auto simp: execute_template_def ta_decode_def split: sum.splits)

lemma render_info_Inr:
  "render_info parse yl decoder a data info = Inr us \<longleftrightarrow>
     (\<exists>ts. parse (taFuncMap a) (tiFS info) (tiPath info) = Inr ts \<and> gather (execute_template yl decoder a data info) ts = Inr us)"
  by (auto simp: render_info_def split: sum.splits)

lemma stamp_info_reads:
  "GetLabel (stamp_info l m info u) k =
     (case map_of (pairs (tiLabels info)) k of Some v \<Rightarrow> v | None \<Rightarrow> (case map_of l k of Some v \<Rightarrow> v | None \<Rightarrow> GetLabel u k))"
  "GetAnnotation (stamp_info l m info u) k =
     (case map_of (pairs (tiAnnotations info)) k of Some v \<Rightarrow> v | None \<Rightarrow> (case map_of m k of Some v \<Rightarrow> v | None \<Rightarrow> GetAnnotation u k))"
  "oGVK (stamp_info l m info u) = oGVK u" "oName (stamp_info l m info u) = oName u" "oBody (stamp_info l m info u) = oBody u"
  "oNamespace (stamp_info l m info u) = oNamespace u"
  by (simp_all add: stamp_info_def Let_def SetLabels_def SetAnnotations_def GetLabel_def GetAnnotation_def go_get_def map_add_def
      split: option.splits)

section \<open>Properties\<close>

text \<open>
  every object a template rendering returns was decoded from the output of a template of the request, executed with the
  instance under the component key, and it keeps what it was decoded from except for labels and annotations: those of its template
  source win over those of the action, and those of the action over its own.
\<close>

theorem templates_stamp_objects:
  assumes "ta_render parse yl decoder a rr = (rr', Inr objs)" and "u \<in> set objs"
  shows "\<exists>info ts t data buffer us u0. info \<in> set (rrTemplates rr') \<and> parse (taFuncMap a) (tiFS info) (tiPath info) = Inr ts \<and> t \<in> set ts \<and>
    data ComponentKey = Some (TInstance (rrInstance rr')) \<and> t data = Inr buffer \<and> Decode yl decoder buffer = Inr us \<and> u0 \<in> set us \<and>
    oGVK u = oGVK u0 \<and> oName u = oName u0 \<and> oNamespace u = oNamespace u0 \<and> oBody u = oBody u0 \<and>
    GetLabel u k = (case map_of (pairs (tiLabels info)) k of Some v \<Rightarrow> v | None \<Rightarrow>
      (case map_of (taLabels a) k of Some v \<Rightarrow> v | None \<Rightarrow> GetLabel u0 k)) \<and>
    GetAnnotation u k = (case map_of (pairs (tiAnnotations info)) k of Some v \<Rightarrow> v | None \<Rightarrow>
      (case map_of (taAnnotations a) k of Some v \<Rightarrow> v | None \<Rightarrow> GetAnnotation u0 k))"
proof -
  from ta_render_cases [OF assms(1)] assms(2) obtain data where
    c: "data ComponentKey = Some (TInstance (rrInstance rr'))"
    and "ta_render parse yl decoder a rr = (rr', gather (render_info parse yl decoder a data) (rrTemplates rr'))"
    by auto
  then have g: "gather (render_info parse yl decoder a data) (rrTemplates rr') = Inr objs" using assms(1) by simp
  from gather_memD [OF g assms(2)] obtain info us where
    i: "info \<in> set (rrTemplates rr')" "render_info parse yl decoder a data info = Inr us" "u \<in> set us" .
  then obtain ts where p: "parse (taFuncMap a) (tiFS info) (tiPath info) = Inr ts"
    and ts: "gather (execute_template yl decoder a data info) ts = Inr us" by (auto simp: render_info_Inr)
  from gather_memD [OF ts i(3)] obtain t vs where
    t: "t \<in> set ts" "execute_template yl decoder a data info t = Inr vs" "u \<in> set vs" .
  then obtain buffer ds u0 where d: "t data = Inr buffer" "Decode yl decoder buffer = Inr ds" "u0 \<in> set ds"
    "u = stamp_info (taLabels a) (taAnnotations a) info u0" by (auto simp: execute_template_Inr)
  show ?thesis
    by (rule exI [of _ info], rule exI [of _ ts], rule exI [of _ t], rule exI [of _ data], rule exI [of _ buffer],
        rule exI [of _ ds], rule exI [of _ u0]) (use i p t d c in \<open>simp add: stamp_info_reads\<close>)
qed

text \<open>
  the order in which the template library lists the parsed files of a pattern, which it leaves open, does not decide what is
  rendered: it permutes the objects and changes neither whether rendering succeeds nor what it does to the request.
\<close>

theorem template_order_permutes:
  assumes same: "\<And>fm fs path ts. parse fm fs path = Inr ts \<Longrightarrow> \<exists>ts'. parse' fm fs path = Inr ts' \<and> mset ts = mset ts'"
    and "ta_render parse yl decoder a rr = (rr', Inr objs)"
  shows "\<exists>objs'. ta_render parse' yl decoder a rr = (rr', Inr objs') \<and> mset objs = mset objs'"
proof -
  consider "objs = []" "rrTemplates rr = []" "rr' = rr" | data where
      "\<And>q. ta_render q yl decoder a rr = (rr', gather (render_info q yl decoder a data) (rrTemplates rr'))"
    using ta_render_cases [OF assms(2)] by auto
  then show ?thesis
  proof cases
    case 1
    then show ?thesis by (simp add: ta_render_def)
  next
    case 2
    have r: "\<exists>us'. render_info parse' yl decoder a data info = Inr us' \<and> mset us = mset us'"
      if "render_info parse yl decoder a data info = Inr us" for info us
    proof -
      from that obtain ts where "parse (taFuncMap a) (tiFS info) (tiPath info) = Inr ts"
        and ts: "gather (execute_template yl decoder a data info) ts = Inr us" by (auto simp: render_info_Inr)
      with same obtain ts' where "parse' (taFuncMap a) (tiFS info) (tiPath info) = Inr ts'" "mset ts = mset ts'" by blast
      then show ?thesis using gather_permutes [OF _ ts] by (auto simp: render_info_Inr)
    qed
    have "gather (render_info parse yl decoder a data) (rrTemplates rr') = Inr objs" using 2 [of parse] assms(2) by simp
    from gather_mset_rel [OF r this] show ?thesis using 2 [of parse'] by auto
  qed
qed

text \<open>A concrete library: a file renders to its name when it finds the instance, a document is an object of the kind it names.\<close>

definition ex_yaml :: yaml_lib where
  "ex_yaml = \<lparr>ylDocuments = (\<lambda>s. [Inr [(''kind'', JString s)], Inr [], Inr [(''metadata'', JNull)]]),
     ylMarshal = (\<lambda>d. Inr (doc_kind d)), ylMissingKind = (\<lambda>e. False)\<rparr>"

definition ex_decoder :: decoder where
  "ex_decoder s = Inr ((GvkToUnstructured (mk_gvk '''' ''v1'' s))\<lparr>oLabels := Some [''app'' \<mapsto> ''own'', ''tier'' \<mapsto> ''own'', ''zone'' \<mapsto> ''own'']\<rparr>)"

definition ex_file :: "string \<Rightarrow> unit parsed_template" where
  "ex_file s d = (case d ComponentKey of Some (TInstance _) \<Rightarrow> Inr s | _ \<Rightarrow> Inl (ErrNew ''no component''))"

definition ex_parser :: "(unit, unit) template_parser" where
  "ex_parser fm fs path = Inr [ex_file path, ex_file ''Secret'']"

definition ex_parser_rev :: "(unit, unit) template_parser" where
  "ex_parser_rev fm fs path = Inr [ex_file ''Secret'', ex_file path]"

definition ex_template_action :: "(unit, unit, unit) template_action" where
  "ex_template_action = ta_NewAction (\<lambda>rr. (rr, Inr ''key'')) [ta_WithLabels [(''app'', ''action''), (''tier'', ''action'')], ta_WithCache False]"

definition ex_template_request :: "unit request" where
  "ex_template_request = (ex_request ())\<lparr>rrTemplates :=
     [\<lparr>tiFS = 0, tiPath = ''Service'', tiLabels = Some [(''app'', ''source'')], tiAnnotations = None\<rparr>]\<rparr>"

definition ex_stamped :: "string \<Rightarrow> kobj" where
  "ex_stamped s = stamp_info (taLabels ex_template_action) [] \<lparr>tiFS = 0, tiPath = ''Service'', tiLabels = Some [(''app'', ''source'')], tiAnnotations = None\<rparr>
     (projr (ex_decoder s))"

lemma ex_execute: "execute_template ex_yaml ex_decoder ex_template_action (data(ComponentKey \<mapsto> TInstance i))
    \<lparr>tiFS = 0, tiPath = ''Service'', tiLabels = Some [(''app'', ''source'')], tiAnnotations = None\<rparr> (ex_file s) =
  (if s = '''' then Inr [] else Inr [ex_stamped s])"
  by (simp add: execute_template_def ta_decode_def Decode_def ex_yaml_def ex_file_def ex_decoder_def ex_stamped_def doc_kind_def
      ex_template_action_def ta_NewAction_def ta_WithLabels_def ta_WithCache_def Let_def)

lemma ex_render:
  "ta_render ex_parser ex_yaml ex_decoder ex_template_action ex_template_request = (ex_template_request, Inr [ex_stamped ''Service'', ex_stamped ''Secret''])"
proof -
  have "taDataFn ex_template_action = []" "taNamespaceFn ex_template_action = None"
    by (simp_all add: ex_template_action_def ta_NewAction_def ta_WithLabels_def ta_WithCache_def Let_def)
  then show ?thesis by (simp add: ta_render_def ex_template_request_def render_info_def ex_parser_def ex_execute)
qed

theorem templates_stamp_objects_witness:
  "GetLabel (ex_stamped ''Secret'') ''app'' = ''source'' \<and> GetLabel (ex_stamped ''Secret'') ''tier'' = ''action'' \<and>
   (\<exists>info ts t data buffer us u0. info \<in> set (rrTemplates ex_template_request) \<and>
      ex_parser (taFuncMap ex_template_action) (tiFS info) (tiPath info) = Inr ts \<and> t \<in> set ts \<and>
      data ComponentKey = Some (TInstance (rrInstance ex_template_request)) \<and> t data = Inr buffer \<and>
      Decode ex_yaml ex_decoder buffer = Inr us \<and> u0 \<in> set us \<and> oGVK (ex_stamped ''Secret'') = oGVK u0)"
proof -
  have "GetLabel (ex_stamped ''Secret'') ''app'' = ''source''" "GetLabel (ex_stamped ''Secret'') ''tier'' = ''action''"
    by (simp_all add: ex_stamped_def stamp_info_reads ex_template_action_def ta_NewAction_def ta_WithLabels_def ta_WithCache_def)
  moreover note templates_stamp_objects [OF ex_render, of "ex_stamped ''Secret''" "''app''", simplified]
  ultimately show ?thesis by blast
qed

theorem template_order_permutes_witness:
  "\<exists>objs. ta_render ex_parser_rev ex_yaml ex_decoder ex_template_action ex_template_request = (ex_template_request, Inr objs) \<and>
    mset [ex_stamped ''Service'', ex_stamped ''Secret''] = mset objs"
  by (rule template_order_permutes [OF _ ex_render]) (auto simp: ex_parser_def ex_parser_rev_def)

section \<open>The two modules agree\<close>

text \<open>
  An option of a rendering, as the framework and as the root module have it. The framework always leaves label and annotation maps
  behind, the root module leaves a nil map nil when there is nothing to set. A function map is merged into the default one by the framework
  and replaces it in the root module.
\<close>

datatype 'f render_option = MOLabel string string | MOLabels "(string \<times> string) list" | MOAnnotation string string
  | MOAnnotations "(string \<times> string) list" | MOFuncMap "'f func_map"

fun fw_render_option :: "'f render_option \<Rightarrow> ('w, 'd, 'f) template_action \<Rightarrow> ('w, 'd, 'f) template_action" where
  "fw_render_option (MOLabel k v) = ta_WithLabel k v"
| "fw_render_option (MOLabels m) = ta_WithLabels m"
| "fw_render_option (MOAnnotation k v) = ta_WithAnnotation k v"
| "fw_render_option (MOAnnotations m) = ta_WithAnnotations m"
| "fw_render_option (MOFuncMap fm) = ta_WithFuncMap fm"

fun pkg_render_option :: "'f render_option \<Rightarrow> 'f template_option" where
  "pkg_render_option (MOLabel k v) = to_WithLabel k v"
| "pkg_render_option (MOLabels m) = to_WithLabels m"
| "pkg_render_option (MOAnnotation k v) = to_WithAnnotation k v"
| "pkg_render_option (MOAnnotations m) = to_WithAnnotations m"
| "pkg_render_option (MOFuncMap fm) = to_WithFuncMap fm"

text \<open>The function maps the two modules hand to the template library, and templates that mean the same under both.\<close>

fun fw_funcs :: "'f render_option list \<Rightarrow> 'f func_map \<Rightarrow> 'f func_map" where
  "fw_funcs [] fm = fm"
| "fw_funcs (MOFuncMap m # opts) fm = fw_funcs opts (copy_pairs m fm)"
| "fw_funcs (_ # opts) fm = fw_funcs opts fm"

fun pkg_funcs :: "'f render_option list \<Rightarrow> 'f func_map \<Rightarrow> 'f func_map" where
  "pkg_funcs [] fm = fm"
| "pkg_funcs (MOFuncMap m # opts) fm = pkg_funcs opts m"
| "pkg_funcs (_ # opts) fm = pkg_funcs opts fm"

definition alike :: "('d, 'f) template_parser \<Rightarrow> 'f func_map \<Rightarrow> 'f func_map \<Rightarrow> 'd template_data \<Rightarrow> TemplateInfo \<Rightarrow> bool" where
  "alike parse fm fm' data info \<longleftrightarrow>
     rel_sum (=) (list_all2 (\<lambda>t t'. t data = t' data)) (parse fm (tiFS info) (tiPath info)) (parse fm' (tiFS info) (tiPath info))"

definition with_maps :: "kobj \<Rightarrow> kobj" where
  "with_maps u = u\<lparr>oLabels := Some (case oLabels u of None \<Rightarrow> Map.empty | Some m \<Rightarrow> m),
     oAnnotations := Some (case oAnnotations u of None \<Rightarrow> Map.empty | Some m \<Rightarrow> m)\<rparr>"

lemma stamp_source_with_maps: "stamp_info l m info u = with_maps (stamp_source l m (template_source info) u)"
proof -
  have m: "f ++ Map.empty = f" for f :: "string \<rightharpoonup> string" by simp
  show ?thesis
    by (cases "l = []"; cases "m = []"; cases "pairs (tiLabels info) = []"; cases "pairs (tiAnnotations info) = []"; cases "oLabels u"; cases "oAnnotations u")
      (simp_all add: stamp_info_def stamp_source_def with_maps_def template_source_def Let_def SetLabels_def SetAnnotations_def
        pkg_SetLabels_def pkg_SetAnnotations_def m)
qed

lemma fold_render_options:
  assumes "toLabels b = taLabels a" and "toAnnotations b = taAnnotations a"
  shows "let a' = fold (\<lambda>opt x. opt x) (map fw_render_option opts) a; b' = fold (\<lambda>opt x. opt x) (map pkg_render_option opts) b
    in taFuncMap a' = fw_funcs opts (taFuncMap a) \<and> toFuncMap b' = pkg_funcs opts (toFuncMap b) \<and>
       toLabels b' = taLabels a' \<and> toAnnotations b' = taAnnotations a'"
  using assms
proof (induction opts arbitrary: a b)
  case (Cons x opts)
  let ?a = "fw_render_option x a" and ?b = "pkg_render_option x b"
  have "toLabels ?b = taLabels ?a" "toAnnotations ?b = taAnnotations ?a"
    "fw_funcs (x # opts) (taFuncMap a) = fw_funcs opts (taFuncMap ?a)" "pkg_funcs (x # opts) (toFuncMap b) = pkg_funcs opts (toFuncMap ?b)"
    using Cons.prems by (cases x; simp add: ta_WithLabel_def ta_WithLabels_def ta_WithAnnotation_def ta_WithAnnotations_def ta_WithFuncMap_def
        to_WithLabel_def to_WithLabels_def to_WithAnnotation_def to_WithAnnotations_def to_WithFuncMap_def)+
  with Cons.IH [of ?b ?a] show ?case by simp
qed simp

lemma execute_agree:
  assumes "toLabels b = taLabels a" and "toAnnotations b = taAnnotations a" and "t data = t' data"
  shows "execute_template yl decoder a data info t = map_sum id (map with_maps) (execute_source yl decoder (template_source info) data b t')"
  by (auto simp: execute_template_def execute_source_def ta_decode_def decodeRendered_def pkg_Decode_eq assms stamp_source_with_maps
      split: sum.split)

lemma render_info_agree:
  assumes "alike parse (taFuncMap a) (toFuncMap b) data info" and "toLabels b = taLabels a" and "toAnnotations b = taAnnotations a"
  shows "render_info parse yl decoder a data info = map_sum id (map with_maps) (renderSource parse yl decoder (template_source info) data b)"
  using assms(1) unfolding alike_def
proof (cases rule: rel_sum.cases)
  case (1 e e')
  then show ?thesis by (simp add: render_info_def renderSource_def template_source_def)
next
  case (2 ts ts')
  from gather_agree [OF execute_agree [OF assms(2,3)] 2(3)] 2(1,2) show ?thesis
    by (simp add: render_info_def renderSource_def template_source_def)
qed

text \<open>
  C26: the two modules render templates alike. Given the same options, data and scheme, the framework's action returns the error of the
  root module's renderer, or its objects with empty label and annotation maps in place of nil ones. The options include WithFuncMap,
  which the framework merges into its functions and the root module puts in their place; and the framework's indent and nindent
  panic on a negative count, where those of the root module take it for 0. So it is assumed that the templates at hand
  mean the same under the two function maps that result: they fail to parse with the same error, or the parsed templates give the same
  text or error on the data.
\<close>

theorem template_renders_agree:
  fixes parse :: "('d, 'f) template_parser" and hash :: "('w request, string) on_request"
  assumes "\<And>info. info \<in> set infos \<Longrightarrow> alike parse (fw_funcs opts TextTemplateFuncMap) (pkg_funcs opts pkg_TextTemplateFuncMap) data info"
  shows "gather (render_info parse yl (decoderFor sch) (ta_NewAction hash (map fw_render_option opts)) data) infos =
     map_sum id (map with_maps)
       (template_Render parse yl decoderFor newScheme (Some sch) (map template_source infos) data (map pkg_render_option opts))"
proof -
  define b :: "'f template_options" where "b = fold (\<lambda>opt x. opt x) (map pkg_render_option opts) \<lparr>toFuncMap = pkg_TextTemplateFuncMap, toLabels = [], toAnnotations = []\<rparr>"
  let ?a = "ta_NewAction hash (map fw_render_option opts) :: ('w, 'd, 'f) template_action"
  have ab: "taFuncMap ?a = fw_funcs opts TextTemplateFuncMap" "toFuncMap b = pkg_funcs opts pkg_TextTemplateFuncMap"
    "toLabels b = taLabels ?a" "toAnnotations b = taAnnotations ?a"
    using fold_render_options [of "\<lparr>toFuncMap = pkg_TextTemplateFuncMap, toLabels = [], toAnnotations = []\<rparr>"
        "\<lparr>taCacher = NewResourceCacher, taCache = True, taData = Map.empty, taDataFn = [], taNamespaceFn = None,
             taFuncMap = TextTemplateFuncMap, taLabels = [], taAnnotations = []\<rparr> :: ('w, 'd, 'f) template_action" opts]
    by (simp_all add: b_def ta_NewAction_def Let_def)
  let ?R = "\<lambda>info source. info \<in> set infos \<and> source = template_source info"
  have "render_info parse yl (decoderFor sch) ?a data info = map_sum id (map with_maps) (renderSource parse yl (decoderFor sch) source data b)"
    if "?R info source" for info source
    using that assms render_info_agree [of parse ?a b data info] by (simp add: ab)
  moreover have "list_all2 ?R infos (map template_source infos)" by (simp add: list_all2_conv_all_nth)
  ultimately have "gather (render_info parse yl (decoderFor sch) ?a data) infos =
      map_sum id (map with_maps) (gather (\<lambda>source. renderSource parse yl (decoderFor sch) source data b) (map template_source infos))"
    by (rule gather_agree)
  then show ?thesis by (cases infos) (simp_all add: template_Render_def b_def [symmetric] Let_def)
qed

text \<open>
  A template that indents its path by a count, with the functions of its map: text/template turns the panic of a function into an error.
\<close>

fun ex_call :: "unit template_func \<Rightarrow> int \<Rightarrow> string \<Rightarrow> go_error + string" where
  "ex_call FnIndent n s = (case Indent n s of Panic \<Rightarrow> Inl (ErrNew ''error calling indent'') | Done t \<Rightarrow> Inr t)"
| "ex_call FnPkgIndent n s = Inr (pkg_Indent n s)"
| "ex_call _ n s = Inr s"

definition ex_indent_parser :: "int \<Rightarrow> (unit, unit) template_parser" where
  "ex_indent_parser n fm fs path =
     (case map_of fm ''indent'' of None \<Rightarrow> Inl (ErrNew ''function not defined'') | Some f \<Rightarrow> Inr [\<lambda>data. ex_call f n path])"

lemma ex_indent_alike: "alike (ex_indent_parser 2) TextTemplateFuncMap pkg_TextTemplateFuncMap data info"
  by (simp add: alike_def ex_indent_parser_def TextTemplateFuncMap_def pkg_TextTemplateFuncMap_def Indent_pkg)

lemma negative_indent_differs:
  "tiPath info \<noteq> '''' \<Longrightarrow> \<not> alike (ex_indent_parser (- 1)) TextTemplateFuncMap pkg_TextTemplateFuncMap data info"
  by (simp add: alike_def ex_indent_parser_def TextTemplateFuncMap_def pkg_TextTemplateFuncMap_def Indent_pkg)

theorem template_renders_agree_witness:
  "gather (render_info (ex_indent_parser 2) ex_yaml ex_decoder (ta_NewAction (\<lambda>rr. (rr, Inr ''key'')) (map fw_render_option [MOLabel ''app'' ''x'']))
      Map.empty) (rrTemplates ex_template_request) =
   map_sum id (map with_maps) (template_Render (ex_indent_parser 2) ex_yaml (\<lambda>_. ex_decoder) () (Some ())
      (map template_source (rrTemplates ex_template_request)) Map.empty (map pkg_render_option [MOLabel ''app'' ''x'']))"
  by (rule template_renders_agree) (simp add: ex_indent_alike)

end
