(* ===== verification/Kustomize.thy ===== *)
theory Kustomize
  imports RenderCache ErrorLoops
begin

text \<open>
  Rendering of Kustomize overlays: the engines of \<^verbatim>\<open>framework/render/kustomize\<close> and \<^verbatim>\<open>pkg/render/kustomize\<close> with their
  options and plugins, and the two actions around them. Kustomize itself and the file system are parameters. Label and
  annotation maps are mutable and reachable from the engine, so they live in an explicit store: an address is an index into a list of
  maps, allocation appends. The theorems show that a rendering does not change the maps of its engine, that both engines compute the
  same, and which namespace an action renders with.
\<close>

section \<open>A store of maps\<close>

type_synonym map_store = "(string \<times> string) list list"

definition read_map :: "map_store \<Rightarrow> nat option \<Rightarrow> (string \<times> string) list option" where
  "read_map h r = (case r of None \<Rightarrow> None | Some a \<Rightarrow> Some (h ! a))"

text \<open>\<^verbatim>\<open>maps.Clone\<close> keeps nil nil.\<close>

definition clone_map :: "map_store \<Rightarrow> nat option \<Rightarrow> map_store \<times> nat option" where
  "clone_map h r = (case r of None \<Rightarrow> (h, None) | Some a \<Rightarrow> (h @ [h ! a], Some (length h)))"

definition ensure_map :: "map_store \<Rightarrow> nat option \<Rightarrow> map_store \<times> nat" where
  "ensure_map h r = (case r of None \<Rightarrow> (h @ [[]], length h) | Some a \<Rightarrow> (h, a))"

section \<open>Libraries\<close>

datatype SetRoleBindingSubjects = DefaultSubjectsOnly | AllServiceAccountSubjects | NoSubjects

record FieldSpec =
  fsGroup :: string
  fsKind :: string
  fsPath :: string
  fsCreateIfNotPresent :: bool

datatype builtin_plugin =
    NamespaceTransformer string string "FieldSpec list" bool SetRoleBindingSubjects
  | LabelTransformer "(string \<times> string) list" "FieldSpec list"
  | AnnotationsTransformer "(string \<times> string) list" "FieldSpec list"

datatype LoadRestrictions = LoadRestrictionsRootOnly | LoadRestrictionsNone

record krusty_options =
  koLoadRestrictions :: LoadRestrictions

definition MakeDefaultOptions :: krusty_options where
  "MakeDefaultOptions = \<lparr>koLoadRestrictions = LoadRestrictionsRootOnly\<rparr>"

text \<open>
  A transformer changes a resource map \<open>'m\<close> in place or fails; after a failure the map is dropped. A filter works on the nodes
  \<open>'n\<close> of a resource map.
\<close>

type_synonym 'm transformer = "'m \<Rightarrow> go_error + 'm"
type_synonym 'n FilterFn = "'n list \<Rightarrow> go_error + 'n list"

record ('m, 'n, 'r, 'fs) kustomize_lib =
  klRun :: "krusty_options \<Rightarrow> 'fs \<Rightarrow> string \<Rightarrow> go_error + 'm"
  klTransform :: "builtin_plugin \<Rightarrow> 'm transformer"
  klApplyFilter :: "'n FilterFn \<Rightarrow> 'm transformer"
  klResources :: "'m \<Rightarrow> 'r list"
  klMap :: "'r \<Rightarrow> go_error + (string \<times> json) list"
  klToUnstructured :: "(string \<times> json) list \<Rightarrow> go_error + kobj"
  klExists :: "'fs \<Rightarrow> string \<Rightarrow> bool"
  klDisk :: 'fs

section \<open>Plugins\<close>

definition field_spec :: "string \<Rightarrow> string \<Rightarrow> string \<Rightarrow> bool \<Rightarrow> FieldSpec" where
  "field_spec g k p c = \<lparr>fsGroup = g, fsKind = k, fsPath = p, fsCreateIfNotPresent = c\<rparr>"

definition namespaceApplierPlugin :: "string \<Rightarrow> builtin_plugin" where
  "namespaceApplierPlugin targetNamespace =
     NamespaceTransformer ''odh-namespace-plugin'' targetNamespace
       [field_spec '''' '''' ''metadata/namespace'' True,
        field_spec ''rbac.authorization.k8s.io'' ''ClusterRoleBinding'' ''subjects/namespace'' True,
        field_spec ''rbac.authorization.k8s.io'' ''RoleBinding'' ''subjects/namespace'' True,
        field_spec ''admissionregistration.k8s.io'' ''ValidatingWebhookConfiguration'' ''webhooks/clientConfig/service/namespace'' False,
        field_spec ''admissionregistration.k8s.io'' ''MutatingWebhookConfiguration'' ''webhooks/clientConfig/service/namespace'' False,
        field_spec ''apiextensions.k8s.io'' ''CustomResourceDefinition'' ''spec/conversion/webhook/clientConfig/service/namespace'' False]
       False AllServiceAccountSubjects"

definition setLabelsPlugin :: "(string \<times> string) list \<Rightarrow> builtin_plugin" where
  "setLabelsPlugin labels =
     LabelTransformer labels
       [field_spec '''' ''Deployment'' ''spec/template/metadata/labels'' True,
        field_spec '''' ''Deployment'' ''spec/selector/matchLabels'' True,
        field_spec '''' '''' ''metadata/labels'' True]"

definition addAnnotationsPlugin :: "(string \<times> string) list \<Rightarrow> builtin_plugin" where
  "addAnnotationsPlugin annotations = AnnotationsTransformer annotations [field_spec '''' '''' ''metadata/annotations'' True]"

definition kz_filter :: "('m, 'n, 'r, 'fs) kustomize_lib \<Rightarrow> 'n FilterFn \<Rightarrow> 'm transformer" where
  "kz_filter kl fn m = klApplyFilter kl fn m"

definition createNamespaceApplierPlugin :: "string \<Rightarrow> builtin_plugin" where
  "createNamespaceApplierPlugin targetNamespace =
     NamespaceTransformer ''odh-namespace-plugin'' targetNamespace
       [field_spec '''' '''' ''metadata/namespace'' True,
        field_spec ''rbac.authorization.k8s.io'' ''ClusterRoleBinding'' ''subjects/namespace'' True,
        field_spec ''rbac.authorization.k8s.io'' ''RoleBinding'' ''subjects/namespace'' True,
        field_spec ''admissionregistration.k8s.io'' ''ValidatingWebhookConfiguration'' ''webhooks/clientConfig/service/namespace'' False,
        field_spec ''admissionregistration.k8s.io'' ''MutatingWebhookConfiguration'' ''webhooks/clientConfig/service/namespace'' False,
        field_spec ''apiextensions.k8s.io'' ''CustomResourceDefinition'' ''spec/conversion/webhook/clientConfig/service/namespace'' False]
       False AllServiceAccountSubjects"

definition createSetLabelsPlugin :: "(string \<times> string) list \<Rightarrow> builtin_plugin" where
  "createSetLabelsPlugin labels =
     LabelTransformer labels
       [field_spec '''' ''Deployment'' ''spec/template/metadata/labels'' True,
        field_spec '''' ''Deployment'' ''spec/selector/matchLabels'' True,
        field_spec '''' '''' ''metadata/labels'' True]"

definition createAddAnnotationsPlugin :: "(string \<times> string) list \<Rightarrow> builtin_plugin" where
  "createAddAnnotationsPlugin annotations = AnnotationsTransformer annotations [field_spec '''' '''' ''metadata/annotations'' True]"

text \<open>The filter plugin of the root module wraps the function in a proxy that calls it.\<close>

definition filterProxy_Filter :: "'n FilterFn \<Rightarrow> 'n FilterFn" where
  "filterProxy_Filter f nodes = f nodes"

definition filterPlugin_Transform :: "('m, 'n, 'r, 'fs) kustomize_lib \<Rightarrow> 'n FilterFn \<Rightarrow> 'm transformer" where
  "filterPlugin_Transform kl f m = klApplyFilter kl (filterProxy_Filter f) m"

section \<open>Options of a rendering\<close>

record 'm renderOpts =
  roFileName :: string
  roFileOverlay :: string
  roNs :: string
  roLabels :: "nat option"
  roAnnotations :: "nat option"
  roPlugins :: "'m transformer list"

type_synonym 'm RenderOptsFn = "map_store \<times> 'm renderOpts \<Rightarrow> map_store \<times> 'm renderOpts"

definition kz_WithKustomizationFileName :: "string \<Rightarrow> 'm RenderOptsFn" where
  "kz_WithKustomizationFileName value = (\<lambda>(h, opts). (h, opts\<lparr>roFileName := value\<rparr>))"

definition kz_WithKustomizationOverlayPath :: "string \<Rightarrow> 'm RenderOptsFn" where
  "kz_WithKustomizationOverlayPath value = (\<lambda>(h, opts). (h, opts\<lparr>roFileOverlay := value\<rparr>))"

definition kz_WithNamespace :: "string \<Rightarrow> 'm RenderOptsFn" where
  "kz_WithNamespace value = (\<lambda>(h, opts). (h, opts\<lparr>roNs := value\<rparr>))"

definition kz_WithLabel :: "string \<Rightarrow> string \<Rightarrow> 'm RenderOptsFn" where
  "kz_WithLabel name value =
     (\<lambda>(h, opts). let (h1, a) = ensure_map h (roLabels opts) in (h1[a := put_pair name value (h1 ! a)], opts\<lparr>roLabels := Some a\<rparr>))"

definition kz_WithLabels :: "(string \<times> string) list \<Rightarrow> 'm RenderOptsFn" where
  "kz_WithLabels m =
     (\<lambda>(h, opts). let (h1, a) = ensure_map h (roLabels opts) in (h1[a := copy_pairs m (h1 ! a)], opts\<lparr>roLabels := Some a\<rparr>))"

definition kz_WithAnnotation :: "string \<Rightarrow> string \<Rightarrow> 'm RenderOptsFn" where
  "kz_WithAnnotation name value =
     (\<lambda>(h, opts). let (h1, a) = ensure_map h (roAnnotations opts) in (h1[a := put_pair name value (h1 ! a)], opts\<lparr>roAnnotations := Some a\<rparr>))"

definition kz_WithAnnotations :: "(string \<times> string) list \<Rightarrow> 'm RenderOptsFn" where
  "kz_WithAnnotations m =
     (\<lambda>(h, opts). let (h1, a) = ensure_map h (roAnnotations opts) in (h1[a := copy_pairs m (h1 ! a)], opts\<lparr>roAnnotations := Some a\<rparr>))"

definition kz_WithPlugin :: "'m transformer \<Rightarrow> 'm RenderOptsFn" where
  "kz_WithPlugin value = (\<lambda>(h, opts). (h, opts\<lparr>roPlugins := roPlugins opts @ [value]\<rparr>))"

definition kz_WithFilter :: "('m, 'n, 'r, 'fs) kustomize_lib \<Rightarrow> 'n FilterFn \<Rightarrow> 'm RenderOptsFn" where
  "kz_WithFilter kl value = (\<lambda>(h, opts). (h, opts\<lparr>roPlugins := roPlugins opts @ [kz_filter kl value]\<rparr>))"

definition kz_WithFilters :: "('m, 'n, 'r, 'fs) kustomize_lib \<Rightarrow> 'n FilterFn list \<Rightarrow> 'm RenderOptsFn" where
  "kz_WithFilters kl fns = (\<lambda>(h, opts). (h, opts\<lparr>roPlugins := roPlugins opts @ map (kz_filter kl) fns\<rparr>))"

text \<open>The options of the root module.\<close>

definition pz_WithKustomizationFileName :: "string \<Rightarrow> 'm RenderOptsFn" where
  "pz_WithKustomizationFileName value = (\<lambda>(h, opts). (h, opts\<lparr>roFileName := value\<rparr>))"

definition pz_WithKustomizationOverlayPath :: "string \<Rightarrow> 'm RenderOptsFn" where
  "pz_WithKustomizationOverlayPath value = (\<lambda>(h, opts). (h, opts\<lparr>roFileOverlay := value\<rparr>))"

definition pz_WithNamespace :: "string \<Rightarrow> 'm RenderOptsFn" where
  "pz_WithNamespace value = (\<lambda>(h, opts). (h, opts\<lparr>roNs := value\<rparr>))"

definition pz_WithLabel :: "string \<Rightarrow> string \<Rightarrow> 'm RenderOptsFn" where
  "pz_WithLabel name value =
     (\<lambda>(h, opts). let (h1, a) = ensure_map h (roLabels opts) in (h1[a := put_pair name value (h1 ! a)], opts\<lparr>roLabels := Some a\<rparr>))"

definition pz_WithLabels :: "(string \<times> string) list \<Rightarrow> 'm RenderOptsFn" where
  "pz_WithLabels m =
     (\<lambda>(h, opts). let (h1, a) = ensure_map h (roLabels opts) in (h1[a := copy_pairs m (h1 ! a)], opts\<lparr>roLabels := Some a\<rparr>))"

definition pz_WithAnnotation :: "string \<Rightarrow> string \<Rightarrow> 'm RenderOptsFn" where
  "pz_WithAnnotation name value =
     (\<lambda>(h, opts). let (h1, a) = ensure_map h (roAnnotations opts) in (h1[a := put_pair name value (h1 ! a)], opts\<lparr>roAnnotations := Some a\<rparr>))"

definition pz_WithAnnotations :: "(string \<times> string) list \<Rightarrow> 'm RenderOptsFn" where
  "pz_WithAnnotations m =
     (\<lambda>(h, opts). let (h1, a) = ensure_map h (roAnnotations opts) in (h1[a := copy_pairs m (h1 ! a)], opts\<lparr>roAnnotations := Some a\<rparr>))"

definition pz_WithPlugin :: "'m transformer \<Rightarrow> 'm RenderOptsFn" where
  "pz_WithPlugin value = (\<lambda>(h, opts). (h, opts\<lparr>roPlugins := roPlugins opts @ [value]\<rparr>))"

definition pz_WithFilter :: "('m, 'n, 'r, 'fs) kustomize_lib \<Rightarrow> 'n FilterFn \<Rightarrow> 'm RenderOptsFn" where
  "pz_WithFilter kl value = (\<lambda>(h, opts). (h, opts\<lparr>roPlugins := roPlugins opts @ [filterPlugin_Transform kl value]\<rparr>))"

definition pz_WithFilters :: "('m, 'n, 'r, 'fs) kustomize_lib \<Rightarrow> 'n FilterFn list \<Rightarrow> 'm RenderOptsFn" where
  "pz_WithFilters kl fns = (\<lambda>(h, opts). (h, opts\<lparr>roPlugins := roPlugins opts @ map (filterPlugin_Transform kl) fns\<rparr>))"

section \<open>The engine of the framework\<close>

definition DefaultKustomizationFileName :: string where
  "DefaultKustomizationFileName = ''kustomization.yaml''"

definition DefaultKustomizationFilePath :: string where
  "DefaultKustomizationFilePath = ''default''"

record ('m, 'fs) Engine =
  enKrustyOpts :: krusty_options
  enK :: krusty_options
  enFs :: 'fs
  enRenderOpts :: "'m renderOpts"

type_synonym ('m, 'fs) EngineOptsFn = "map_store \<times> ('m, 'fs) Engine \<Rightarrow> map_store \<times> ('m, 'fs) Engine"

definition kz_WithEngineFS :: "'fs \<Rightarrow> ('m, 'fs) EngineOptsFn" where
  "kz_WithEngineFS value = (\<lambda>(h, e). (h, e\<lparr>enFs := value\<rparr>))"

definition kz_WithEngineRenderOpts :: "'m RenderOptsFn list \<Rightarrow> ('m, 'fs) EngineOptsFn" where
  "kz_WithEngineRenderOpts fns =
     (\<lambda>(h, e). case fold (\<lambda>fn x. fn x) fns (h, enRenderOpts e) of (h', ro) \<Rightarrow> (h', e\<lparr>enRenderOpts := ro\<rparr>))"

definition kz_WithLoadRestrictions :: "LoadRestrictions \<Rightarrow> ('m, 'fs) EngineOptsFn" where
  "kz_WithLoadRestrictions r = (\<lambda>(h, e). (h, e\<lparr>enKrustyOpts := (enKrustyOpts e)\<lparr>koLoadRestrictions := r\<rparr>\<rparr>))"

definition default_renderOpts :: "'m renderOpts" where
  "default_renderOpts = \<lparr>roFileName = DefaultKustomizationFileName, roFileOverlay = DefaultKustomizationFilePath, roNs = '''',
     roLabels = None, roAnnotations = None, roPlugins = []\<rparr>"

definition kz_NewEngine ::
  "('m, 'n, 'r, 'fs) kustomize_lib \<Rightarrow> map_store \<Rightarrow> ('m, 'fs) EngineOptsFn list \<Rightarrow> map_store \<times> ('m, 'fs) Engine" where
  "kz_NewEngine kl h opts =
     (case fold (\<lambda>fn x. fn x) opts
        (h, \<lparr>enKrustyOpts = MakeDefaultOptions, enK = MakeDefaultOptions, enFs = klDisk kl, enRenderOpts = default_renderOpts\<rparr>) of
        (h', e) \<Rightarrow> (h', e\<lparr>enK := enKrustyOpts e\<rparr>))"

definition clone_opts :: "map_store \<Rightarrow> 'm renderOpts \<Rightarrow> map_store \<times> 'm renderOpts" where
  "clone_opts h ro =
     (case clone_map h (roLabels ro) of (h1, l) \<Rightarrow>
        (case clone_map h1 (roAnnotations ro) of (h2, an) \<Rightarrow> (h2, ro\<lparr>roLabels := l, roAnnotations := an\<rparr>)))"

fun run_plugins :: "'m transformer list \<Rightarrow> 'm \<Rightarrow> go_error + 'm" where
  "run_plugins [] m = Inr m"
| "run_plugins (p # ps) m = (case p m of Inl err \<Rightarrow> Inl (ErrWrap ''failed applying plugin'' err) | Inr m' \<Rightarrow> run_plugins ps m')"

definition resource_object :: "('m, 'n, 'r, 'fs) kustomize_lib \<Rightarrow> 'r \<Rightarrow> go_error + kobj list" where
  "resource_object kl r =
     (case klMap kl r of
        Inl err \<Rightarrow> Inl (ErrWrap ''failed to transform Resources to Unstructured'' err)
      | Inr m \<Rightarrow>
          (case klToUnstructured kl m of
             Inl err \<Rightarrow> Inl (ErrWrap ''failed to transform Resources to Unstructured''
               (ErrWrap ''unable to convert object *map[string]interface {} to unstructured'' err))
           | Inr u \<Rightarrow> Inr [u]))"

definition kz_Render ::
  "('m, 'n, 'r, 'fs) kustomize_lib \<Rightarrow> map_store \<Rightarrow> ('m, 'fs) Engine \<Rightarrow> string \<Rightarrow> 'm RenderOptsFn list \<Rightarrow> map_store \<times> (go_error + kobj list)" where
  "kz_Render kl h e path0 opts =
     (let (h1, ro0) = clone_opts h (enRenderOpts e);
          (h2, ro) = fold (\<lambda>fn x. fn x) opts (h1, ro0);
          path = (if \<not> klExists kl (enFs e) (path_Join [path0, roFileName ro]) then path_Join [path0, roFileOverlay ro] else path0);
          labels = pairs (read_map h2 (roLabels ro));
          annotations = pairs (read_map h2 (roAnnotations ro))
      in (h2,
        case klRun kl (enK e) (enFs e) path of
          Inl err \<Rightarrow> Inl err
        | Inr m0 \<Rightarrow>
            (case (if roNs ro \<noteq> '''' then wrap_error ''failed applying namespace plugin'' (klTransform kl (namespaceApplierPlugin (roNs ro)) m0) else Inr m0) of
               Inl err \<Rightarrow> Inl err
             | Inr m1 \<Rightarrow>
                 (case (if length labels \<noteq> 0 then wrap_error ''failed applying labels plugin'' (klTransform kl (setLabelsPlugin labels) m1) else Inr m1) of
                    Inl err \<Rightarrow> Inl err
                  | Inr m2 \<Rightarrow>
                      (case (if length annotations \<noteq> 0 then wrap_error ''failed applying annotations plugin'' (klTransform kl (addAnnotationsPlugin annotations) m2) else Inr m2) of
                         Inl err \<Rightarrow> Inl err
                       | Inr m3 \<Rightarrow>
                           (case run_plugins (roPlugins ro) m3 of
                              Inl err \<Rightarrow> Inl err
                            | Inr m4 \<Rightarrow> gather (resource_object kl) (klResources kl m4)))))))"

section \<open>The engine of the root module\<close>

definition pz_WithEngineFS :: "'fs \<Rightarrow> ('m, 'fs) EngineOptsFn" where
  "pz_WithEngineFS value = (\<lambda>(h, e). (h, e\<lparr>enFs := value\<rparr>))"

definition pz_WithEngineRenderOpts :: "'m RenderOptsFn list \<Rightarrow> ('m, 'fs) EngineOptsFn" where
  "pz_WithEngineRenderOpts fns =
     (\<lambda>(h, e). case fold (\<lambda>fn x. fn x) fns (h, enRenderOpts e) of (h', ro) \<Rightarrow> (h', e\<lparr>enRenderOpts := ro\<rparr>))"

definition pz_NewEngine ::
  "('m, 'n, 'r, 'fs) kustomize_lib \<Rightarrow> map_store \<Rightarrow> ('m, 'fs) EngineOptsFn list \<Rightarrow> map_store \<times> ('m, 'fs) Engine" where
  "pz_NewEngine kl h opts =
     fold (\<lambda>fn x. fn x) opts
       (h, \<lparr>enKrustyOpts = MakeDefaultOptions, enK = MakeDefaultOptions, enFs = klDisk kl, enRenderOpts = default_renderOpts\<rparr>)"

definition applyTransformers ::
  "('m, 'n, 'r, 'fs) kustomize_lib \<Rightarrow> map_store \<Rightarrow> 'm renderOpts \<Rightarrow> 'm \<Rightarrow> go_error + 'm" where
  "applyTransformers kl h ro m0 =
     (let labels = pairs (read_map h (roLabels ro)); annotations = pairs (read_map h (roAnnotations ro))
      in case (if roNs ro \<noteq> '''' then klTransform kl (createNamespaceApplierPlugin (roNs ro)) m0 else Inr m0) of
           Inl err \<Rightarrow> Inl (ErrWrap ''failed applying namespace plugin'' err)
         | Inr m1 \<Rightarrow>
             (case (if length labels \<noteq> 0 then klTransform kl (createSetLabelsPlugin labels) m1 else Inr m1) of
                Inl err \<Rightarrow> Inl (ErrWrap ''failed applying labels plugin'' err)
              | Inr m2 \<Rightarrow>
                  (case (if length annotations \<noteq> 0 then klTransform kl (createAddAnnotationsPlugin annotations) m2 else Inr m2) of
                     Inl err \<Rightarrow> Inl (ErrWrap ''failed applying annotations plugin'' err)
                   | Inr m3 \<Rightarrow> run_plugins (roPlugins ro) m3)))"

definition toUnstructuredSlice :: "('m, 'n, 'r, 'fs) kustomize_lib \<Rightarrow> 'm \<Rightarrow> go_error + kobj list" where
  "toUnstructuredSlice kl m = gather (resource_object kl) (klResources kl m)"

definition pz_Engine_Render ::
  "('m, 'n, 'r, 'fs) kustomize_lib \<Rightarrow> map_store \<Rightarrow> ('m, 'fs) Engine \<Rightarrow> string \<Rightarrow> 'm RenderOptsFn list \<Rightarrow> map_store \<times> (go_error + kobj list)" where
  "pz_Engine_Render kl h e path0 opts =
     (let (h1, ro0) = clone_opts h (enRenderOpts e);
          (h2, ro) = fold (\<lambda>fn x. fn x) opts (h1, ro0);
          path = (if \<not> klExists kl (enFs e) (path_Join [path0, roFileName ro]) then path_Join [path0, roFileOverlay ro] else path0)
      in (h2, case klRun kl (enK e) (enFs e) path of
           Inl err \<Rightarrow> Inl err
         | Inr m \<Rightarrow> (case applyTransformers kl h2 ro m of Inl err \<Rightarrow> Inl err | Inr m' \<Rightarrow> toUnstructuredSlice kl m')))"

definition pz_Render ::
  "('m, 'n, 'r, 'fs) kustomize_lib \<Rightarrow> map_store \<Rightarrow> string \<Rightarrow> ('m, 'fs) EngineOptsFn list \<Rightarrow> 'm RenderOptsFn list \<Rightarrow>
     map_store \<times> (go_error + kobj list)" where
  "pz_Render kl h path0 engineOpts opts = (case pz_NewEngine kl h engineOpts of (h', e) \<Rightarrow> pz_Engine_Render kl h' e path0 opts)"

text \<open>The identity of a node as an object.\<close>

record rnode =
  rnApiVersion :: string
  rnKind :: string
  rnNamespace :: string
  rnName :: string

definition NodeToUnstructured :: "(string \<Rightarrow> string \<Rightarrow> gvk) \<Rightarrow> rnode \<Rightarrow> kobj" where
  "NodeToUnstructured from_api n = (GvkToUnstructured (from_api (rnApiVersion n) (rnKind n)))\<lparr>oNamespace := rnNamespace n, oName := rnName n\<rparr>"

section \<open>The engines agree\<close>

lemma plugins_agree:
  "createNamespaceApplierPlugin ns = namespaceApplierPlugin ns" "createSetLabelsPlugin l = setLabelsPlugin l"
  "createAddAnnotationsPlugin l = addAnnotationsPlugin l" "filterPlugin_Transform kl f = kz_filter kl f"
  by (simp_all add: createNamespaceApplierPlugin_def namespaceApplierPlugin_def createSetLabelsPlugin_def setLabelsPlugin_def
      createAddAnnotationsPlugin_def addAnnotationsPlugin_def filterPlugin_Transform_def kz_filter_def fun_eq_iff
      filterProxy_Filter_def [abs_def])

lemmas kz_option_defs = kz_WithKustomizationFileName_def kz_WithKustomizationOverlayPath_def kz_WithNamespace_def kz_WithLabel_def
  kz_WithLabels_def kz_WithAnnotation_def kz_WithAnnotations_def kz_WithPlugin_def kz_WithFilter_def kz_WithFilters_def

lemmas pz_option_defs = pz_WithKustomizationFileName_def pz_WithKustomizationOverlayPath_def pz_WithNamespace_def pz_WithLabel_def
  pz_WithLabels_def pz_WithAnnotation_def pz_WithAnnotations_def pz_WithPlugin_def pz_WithFilter_def pz_WithFilters_def

lemma options_agree:
  "pz_WithKustomizationFileName v = kz_WithKustomizationFileName v" "pz_WithKustomizationOverlayPath v = kz_WithKustomizationOverlayPath v"
  "pz_WithNamespace v = kz_WithNamespace v" "pz_WithLabel k v = kz_WithLabel k v" "pz_WithLabels m = kz_WithLabels m"
  "pz_WithAnnotation k v = kz_WithAnnotation k v" "pz_WithAnnotations m = kz_WithAnnotations m" "pz_WithPlugin p = kz_WithPlugin p"
  "pz_WithFilter kl f = kz_WithFilter kl f" "pz_WithFilters kl fs = kz_WithFilters kl fs"
  by (simp_all add: kz_option_defs pz_option_defs plugins_agree(4) [abs_def])

lemma case_wrap_error:
  "(case (if b then r else Inr x) of Inl e \<Rightarrow> Inl (ErrWrap msg e) | Inr y \<Rightarrow> f y) =
   (case (if b then wrap_error msg r else Inr x) of Inl e \<Rightarrow> Inl e | Inr y \<Rightarrow> f y)"
  by (cases r) simp_all

lemma case_sum_assoc:
  "(case (case r of Inl e \<Rightarrow> Inl e | Inr x \<Rightarrow> f x) of Inl e \<Rightarrow> Inl e | Inr y \<Rightarrow> k y) =
   (case r of Inl e \<Rightarrow> Inl e | Inr x \<Rightarrow> (case f x of Inl e \<Rightarrow> Inl e | Inr y \<Rightarrow> k y))"
  by (cases r) simp_all

lemma Render_agree: "pz_Engine_Render kl h e path opts = kz_Render kl h e path opts"
  unfolding pz_Engine_Render_def kz_Render_def applyTransformers_def toUnstructuredSlice_def plugins_agree Let_def case_wrap_error case_sum_assoc ..

section \<open>Renderings are isolated\<close>

text \<open>What a rendering sees of its options, with the maps read from the store.\<close>

record 'm opts_view =
  ovFileName :: string
  ovFileOverlay :: string
  ovNs :: string
  ovLabels :: "(string \<times> string) list option"
  ovAnnotations :: "(string \<times> string) list option"
  ovPlugins :: "'m transformer list"

definition view :: "map_store \<times> 'm renderOpts \<Rightarrow> 'm opts_view" where
  "view = (\<lambda>(h, opts). \<lparr>ovFileName = roFileName opts, ovFileOverlay = roFileOverlay opts, ovNs = roNs opts,
     ovLabels = read_map h (roLabels opts), ovAnnotations = read_map h (roAnnotations opts), ovPlugins = roPlugins opts\<rparr>)"

definition render_view :: "('m, 'n, 'r, 'fs) kustomize_lib \<Rightarrow> ('m, 'fs) Engine \<Rightarrow> string \<Rightarrow> 'm opts_view \<Rightarrow> go_error + kobj list" where
  "render_view kl e path0 v =
     (let path = (if \<not> klExists kl (enFs e) (path_Join [path0, ovFileName v]) then path_Join [path0, ovFileOverlay v] else path0);
          labels = pairs (ovLabels v);
          annotations = pairs (ovAnnotations v)
      in case klRun kl (enK e) (enFs e) path of
          Inl err \<Rightarrow> Inl err
        | Inr m0 \<Rightarrow>
            (case (if ovNs v \<noteq> '''' then wrap_error ''failed applying namespace plugin'' (klTransform kl (namespaceApplierPlugin (ovNs v)) m0) else Inr m0) of
               Inl err \<Rightarrow> Inl err
             | Inr m1 \<Rightarrow>
                 (case (if length labels \<noteq> 0 then wrap_error ''failed applying labels plugin'' (klTransform kl (setLabelsPlugin labels) m1) else Inr m1) of
                    Inl err \<Rightarrow> Inl err
                  | Inr m2 \<Rightarrow>
                      (case (if length annotations \<noteq> 0 then wrap_error ''failed applying annotations plugin'' (klTransform kl (addAnnotationsPlugin annotations) m2) else Inr m2) of
                         Inl err \<Rightarrow> Inl err
                       | Inr m3 \<Rightarrow>
                           (case run_plugins (ovPlugins v) m3 of
                              Inl err \<Rightarrow> Inl err
                            | Inr m4 \<Rightarrow> gather (resource_object kl) (klResources kl m4))))))"

definition apply_opts :: "'m RenderOptsFn list \<Rightarrow> map_store \<times> 'm renderOpts \<Rightarrow> map_store \<times> 'm renderOpts" where
  "apply_opts opts s = fold (\<lambda>fn x. fn x) opts s"

lemma apply_opts_simps [simp]: "apply_opts [] s = s" "apply_opts (f # fs) s = apply_opts fs (f s)"
  by (simp_all add: apply_opts_def)

lemma kz_Render_view:
  "kz_Render kl h e path opts =
     (let s = apply_opts opts (clone_opts h (enRenderOpts e)) in (fst s, render_view kl e path (view s)))"
proof -
  obtain h1 ro0 where c: "clone_opts h (enRenderOpts e) = (h1, ro0)" by fastforce
  obtain h2 ro where f: "fold (\<lambda>fn x. fn x) opts (h1, ro0) = (h2, ro)" by fastforce
  show ?thesis unfolding kz_Render_def render_view_def view_def apply_opts_def c Let_def
    by (simp only: prod.case f fst_conv opts_view.select_convs)
qed

text \<open>The options a caller can pass: the option type is opaque, so these are all.\<close>

inductive_set render_options :: "('m, 'n, 'r, 'fs) kustomize_lib \<Rightarrow> 'm RenderOptsFn set" for kl where
  filename: "kz_WithKustomizationFileName v \<in> render_options kl"
| overlay: "kz_WithKustomizationOverlayPath v \<in> render_options kl"
| namespace: "kz_WithNamespace v \<in> render_options kl"
| label: "kz_WithLabel k v \<in> render_options kl"
| labels: "kz_WithLabels m \<in> render_options kl"
| annotation: "kz_WithAnnotation k v \<in> render_options kl"
| annotations: "kz_WithAnnotations m \<in> render_options kl"
| plugin: "kz_WithPlugin p \<in> render_options kl"
| one_filter: "kz_WithFilter kl f \<in> render_options kl"
| filters: "kz_WithFilters kl fs \<in> render_options kl"

inductive_set engine_options :: "('m, 'n, 'r, 'fs) kustomize_lib \<Rightarrow> ('m, 'fs) EngineOptsFn set" for kl where
  fs: "kz_WithEngineFS v \<in> engine_options kl"
| render: "set fns \<subseteq> render_options kl \<Longrightarrow> kz_WithEngineRenderOpts fns \<in> engine_options kl"
| restrictions: "kz_WithLoadRestrictions r \<in> engine_options kl"

text \<open>Addresses at or above \<open>n\<close>, allocated and not shared.\<close>

definition owned :: "nat \<Rightarrow> map_store \<times> 'm renderOpts \<Rightarrow> bool" where
  "owned n = (\<lambda>(h, opts). n \<le> length h \<and> (\<forall>a. roLabels opts = Some a \<longrightarrow> n \<le> a \<and> a < length h) \<and>
     (\<forall>a. roAnnotations opts = Some a \<longrightarrow> n \<le> a \<and> a < length h) \<and> (roLabels opts = None \<or> roLabels opts \<noteq> roAnnotations opts))"

lemma ensure_map_None: "ensure_map h None = (h @ [[]], length h)"
  and ensure_map_Some: "ensure_map h (Some a) = (h, a)"
  by (simp_all add: ensure_map_def)

text \<open>An option keeps to the maps its options own, and what it makes of them depends only on what they show.\<close>

lemma option_owned:
  assumes "fn \<in> render_options kl" and "owned n (h, opts)"
  shows "owned n (fn (h, opts)) \<and> take n (fst (fn (h, opts))) = take n h"
  using assms
proof cases
  case (label k v)
  then show ?thesis using assms(2)
    by (cases "roLabels opts"; cases "roAnnotations opts") (auto simp: kz_WithLabel_def ensure_map_None ensure_map_Some owned_def take_update_cancel)
next
  case (labels m)
  then show ?thesis using assms(2)
    by (cases "roLabels opts"; cases "roAnnotations opts") (auto simp: kz_WithLabels_def ensure_map_None ensure_map_Some owned_def take_update_cancel)
next
  case (annotation k v)
  then show ?thesis using assms(2)
    by (cases "roLabels opts"; cases "roAnnotations opts") (auto simp: kz_WithAnnotation_def ensure_map_None ensure_map_Some owned_def take_update_cancel)
next
  case (annotations m)
  then show ?thesis using assms(2)
    by (cases "roLabels opts"; cases "roAnnotations opts") (auto simp: kz_WithAnnotations_def ensure_map_None ensure_map_Some owned_def take_update_cancel)
qed (auto simp: kz_option_defs owned_def)

lemma read_map_simps [simp]: "read_map h None = None" "read_map h (Some a) = Some (h ! a)"
  by (simp_all add: read_map_def)

lemma view_with_labels:
  assumes "owned n (h, opts)"
  shows "view (kz_WithLabel k v (h, opts)) = (view (h, opts))\<lparr>ovLabels := Some (put_pair k v (pairs (ovLabels (view (h, opts)))))\<rparr>"
    and "view (kz_WithLabels m (h, opts)) = (view (h, opts))\<lparr>ovLabels := Some (copy_pairs m (pairs (ovLabels (view (h, opts)))))\<rparr>"
  using assms
  by (cases "roLabels opts"; cases "roAnnotations opts";
      auto simp: kz_WithLabel_def kz_WithLabels_def ensure_map_None ensure_map_Some owned_def view_def nth_append nth_list_update)+

lemma view_with_annotations:
  assumes "owned n (h, opts)"
  shows "view (kz_WithAnnotation k v (h, opts)) = (view (h, opts))\<lparr>ovAnnotations := Some (put_pair k v (pairs (ovAnnotations (view (h, opts)))))\<rparr>"
    and "view (kz_WithAnnotations m (h, opts)) = (view (h, opts))\<lparr>ovAnnotations := Some (copy_pairs m (pairs (ovAnnotations (view (h, opts)))))\<rparr>"
  using assms
  by (cases "roLabels opts"; cases "roAnnotations opts";
      auto simp: kz_WithAnnotation_def kz_WithAnnotations_def ensure_map_None ensure_map_Some owned_def view_def nth_append nth_list_update)+

lemma option_view:
  assumes "fn \<in> render_options kl" and "owned n s" and "owned n' s'" and "view s = view s'"
  shows "view (fn s) = view (fn s')"
proof -
  obtain h opts h' opts' where s: "s = (h, opts)" "s' = (h', opts')" by (metis surj_pair)
  from assms(1) show ?thesis
  proof cases
    case (label k v)
    then show ?thesis using view_with_labels(1) assms(2-4) s by metis
  next
    case (labels m)
    then show ?thesis using view_with_labels(2) assms(2-4) s by metis
  next
    case (annotation k v)
    then show ?thesis using view_with_annotations(1) assms(2-4) s by metis
  next
    case (annotations m)
    then show ?thesis using view_with_annotations(2) assms(2-4) s by metis
  qed (use assms(4) s in \<open>simp_all add: kz_option_defs view_def\<close>)
qed

lemma apply_opts_owned:
  assumes "set fns \<subseteq> render_options kl" and "owned n s"
  shows "owned n (apply_opts fns s) \<and> take n (fst (apply_opts fns s)) = take n (fst s)"
  using assms
proof (induction fns arbitrary: s)
  case (Cons f fs)
  then have "owned n (f s) \<and> take n (fst (f s)) = take n (fst s)" using option_owned [of f kl n "fst s" "snd s"] by simp
  then show ?case using Cons by simp
qed simp

lemma apply_opts_view:
  assumes "set fns \<subseteq> render_options kl" and "owned n s" and "owned n' s'" and "view s = view s'"
  shows "view (apply_opts fns s) = view (apply_opts fns s')"
  using assms
proof (induction fns arbitrary: s s')
  case (Cons f fs)
  then have "owned n (f s)" "owned n' (f s')"
    using option_owned [of f kl n "fst s" "snd s"] option_owned [of f kl n' "fst s'" "snd s'"] by simp_all
  moreover have "view (f s) = view (f s')"
    using option_view [OF _ Cons.prems(2-4), of f kl] Cons.prems(1) by simp
  ultimately show ?case using Cons by simp
qed simp

lemma clone_opts_owned:
  assumes "owned 0 (h, ro)"
  shows "owned (length h) (clone_opts h ro)" and "take (length h) (fst (clone_opts h ro)) = h" and "view (clone_opts h ro) = view (h, ro)"
  using assms
  by (cases "roLabels ro"; cases "roAnnotations ro"; simp add: clone_opts_def clone_map_def owned_def view_def nth_append)+

lemma frame_nth: "take (length h) h' = h \<Longrightarrow> a < length h \<Longrightarrow> h' ! a = h ! a"
  by (metis nth_take)

lemma view_frame: "owned 0 (h, ro) \<Longrightarrow> take (length h) h' = h \<Longrightarrow> view (h', ro) = view (h, ro)"
  by (cases "roLabels ro"; cases "roAnnotations ro"; simp add: owned_def view_def frame_nth)

lemma NewEngine_owned:
  fixes e :: "('m, 'fs) Engine"
  assumes "set eopts \<subseteq> engine_options kl" and "kz_NewEngine kl h0 eopts = (h, e)"
  shows "owned 0 (h, enRenderOpts e)"
proof -
  have step: "owned 0 (fst (f s), enRenderOpts (snd (f s)))"
    if f: "f \<in> engine_options kl" and o: "owned 0 (fst s, enRenderOpts (snd s))" for f and s :: "map_store \<times> ('m, 'fs) Engine"
    using f
  proof cases
    case (render fns)
    have "owned 0 (apply_opts fns (fst s, enRenderOpts (snd s)))" using apply_opts_owned [OF render(2) o] by simp
    then show ?thesis using render
      by (cases s; cases "apply_opts fns (fst s, enRenderOpts (snd s))") (simp add: kz_WithEngineRenderOpts_def apply_opts_def)
  qed (use o in \<open>auto simp: kz_WithEngineFS_def kz_WithLoadRestrictions_def split: prod.splits\<close>)
  have "owned 0 (fst (fold (\<lambda>f x. f x) eopts s), enRenderOpts (snd (fold (\<lambda>f x. f x) eopts s)))"
    if "set eopts \<subseteq> engine_options kl" and "owned 0 (fst s, enRenderOpts (snd s))" for eopts and s :: "map_store \<times> ('m, 'fs) Engine"
    using that by (induction eopts arbitrary: s) (auto simp: step)
  note all = this
  let ?i = "(h0, \<lparr>enKrustyOpts = MakeDefaultOptions, enK = MakeDefaultOptions, enFs = klDisk kl, enRenderOpts = default_renderOpts\<rparr>)"
  obtain h' e' where i: "fold (\<lambda>f x. f x) eopts ?i = (h', e')" by fastforce
  have "owned 0 (h', enRenderOpts e')"
    using all [OF assms(1), of ?i] i by (simp add: owned_def default_renderOpts_def)
  moreover have "h = h'" "enRenderOpts e = enRenderOpts e'" using assms(2) i by (auto simp: kz_NewEngine_def)
  ultimately show ?thesis by simp
qed

lemma Render_isolated:
  assumes o: "owned 0 (h, enRenderOpts e)" and f: "take (length h) h1 = h" and "length h \<le> length h1"
    and opts: "set opts \<subseteq> render_options kl"
  shows "snd (kz_Render kl h1 e path opts) = snd (kz_Render kl h e path opts)" (is ?result)
    and "take (length h) (fst (kz_Render kl h1 e path opts)) = h" (is ?frame)
    and "length h \<le> length (fst (kz_Render kl h1 e path opts))" (is ?len)
proof -
  let ?c = "clone_opts h (enRenderOpts e)" and ?c1 = "clone_opts h1 (enRenderOpts e)"
  have o1: "owned 0 (h1, enRenderOpts e)" using o assms(3) by (auto simp: owned_def)
  note c = clone_opts_owned [OF o] and c1 = clone_opts_owned [OF o1]
  have "view ?c1 = view ?c" using c(3) c1(3) view_frame [OF o f] by simp
  from apply_opts_view [OF opts c1(1) c(1) this] show ?result by (simp add: kz_Render_view Let_def)
  have a: "owned (length h1) (apply_opts opts ?c1)" "take (length h1) (fst (apply_opts opts ?c1)) = h1"
    using apply_opts_owned [OF opts c1(1)] c1(2) by simp_all
  then show ?len using assms(3) by (cases "apply_opts opts ?c1") (simp add: kz_Render_view Let_def owned_def)
  have "take (length h) (fst (apply_opts opts ?c1)) = take (length h) (take (length h1) (fst (apply_opts opts ?c1)))"
    using assms(3) by (simp add: min_absorb1)
  then show ?frame using a f by (simp add: kz_Render_view Let_def)
qed

text \<open>A sequence of renderings with one engine, each starting in the store the previous one left.\<close>

fun kz_renders ::
  "('m, 'n, 'r, 'fs) kustomize_lib \<Rightarrow> map_store \<Rightarrow> ('m, 'fs) Engine \<Rightarrow> (string \<times> 'm RenderOptsFn list) list \<Rightarrow> (go_error + kobj list) list" where
  "kz_renders kl h e [] = []"
| "kz_renders kl h e ((path, opts) # calls) = (case kz_Render kl h e path opts of (h', r) \<Rightarrow> r # kz_renders kl h' e calls)"

lemma renders_isolated:
  assumes "owned 0 (h, enRenderOpts e)" and "list_all (\<lambda>(path, opts). set opts \<subseteq> render_options kl) calls"
    and "take (length h) h1 = h" and "length h \<le> length h1"
  shows "kz_renders kl h1 e calls = map (\<lambda>(path, opts). snd (kz_Render kl h e path opts)) calls"
  using assms(2-4)
proof (induction calls arbitrary: h1)
  case (Cons c calls)
  obtain path opts where c: "c = (path, opts)" by fastforce
  have opts: "set opts \<subseteq> render_options kl" using Cons.prems(1) c by simp
  note r = Render_isolated [OF assms(1) Cons.prems(2,3) opts, of path]
  have "kz_renders kl (fst (kz_Render kl h1 e path opts)) e calls = map (\<lambda>(path, opts). snd (kz_Render kl h e path opts)) calls"
    using Cons.IH [OF _ r(2,3)] Cons.prems(1) by simp
  then show ?case using r(1) by (simp add: c split_beta)
qed simp

section \<open>The Kustomize action of the framework\<close>

text \<open>\<open>kaMaps\<close> is the store with the maps of the engine; the engine exists once the action is built.\<close>

record ('w, 'm, 'fs) kustomize_action =
  kaCacher :: "'w resource_cacher"
  kaCache :: bool
  kaNamespaceFn :: "('w request, string) on_request option"
  kaKeOpts :: "('m, 'fs) EngineOptsFn list"
  kaMaps :: map_store
  kaKe :: "('m, 'fs) Engine"

type_synonym ('w, 'm, 'fs) kustomize_ActionOpts = "('w, 'm, 'fs) kustomize_action \<Rightarrow> ('w, 'm, 'fs) kustomize_action"

definition ka_WithEngineFS :: "'fs \<Rightarrow> ('w, 'm, 'fs) kustomize_ActionOpts" where
  "ka_WithEngineFS value a = a\<lparr>kaKeOpts := kaKeOpts a @ [kz_WithEngineFS value]\<rparr>"

definition ka_WithLabel :: "string \<Rightarrow> string \<Rightarrow> ('w, 'm, 'fs) kustomize_ActionOpts" where
  "ka_WithLabel name value a = a\<lparr>kaKeOpts := kaKeOpts a @ [kz_WithEngineRenderOpts [kz_WithLabel name value]]\<rparr>"

definition ka_WithLabels :: "(string \<times> string) list \<Rightarrow> ('w, 'm, 'fs) kustomize_ActionOpts" where
  "ka_WithLabels m a = a\<lparr>kaKeOpts := kaKeOpts a @ [kz_WithEngineRenderOpts [kz_WithLabels m]]\<rparr>"

definition ka_WithAnnotation :: "string \<Rightarrow> string \<Rightarrow> ('w, 'm, 'fs) kustomize_ActionOpts" where
  "ka_WithAnnotation name value a = a\<lparr>kaKeOpts := kaKeOpts a @ [kz_WithEngineRenderOpts [kz_WithAnnotation name value]]\<rparr>"

definition ka_WithAnnotations :: "(string \<times> string) list \<Rightarrow> ('w, 'm, 'fs) kustomize_ActionOpts" where
  "ka_WithAnnotations m a = a\<lparr>kaKeOpts := kaKeOpts a @ [kz_WithEngineRenderOpts [kz_WithAnnotations m]]\<rparr>"

definition ka_WithManifestsOptions :: "('m, 'fs) EngineOptsFn list \<Rightarrow> ('w, 'm, 'fs) kustomize_ActionOpts" where
  "ka_WithManifestsOptions fns a = a\<lparr>kaKeOpts := kaKeOpts a @ fns\<rparr>"

definition ka_WithNamespaceFn :: "('w request, string) on_request option \<Rightarrow> ('w, 'm, 'fs) kustomize_ActionOpts" where
  "ka_WithNamespaceFn fn a = (case fn of None \<Rightarrow> a | Some f \<Rightarrow> a\<lparr>kaNamespaceFn := Some f\<rparr>)"

definition ka_WithNamespace :: "string \<Rightarrow> ('w, 'm, 'fs) kustomize_ActionOpts" where
  "ka_WithNamespace ns = ka_WithNamespaceFn (Some (\<lambda>rr. (rr, Inr ns)))"

definition ka_WithCache :: "bool \<Rightarrow> ('w, 'm, 'fs) kustomize_ActionOpts" where
  "ka_WithCache enabled a = a\<lparr>kaCache := enabled\<rparr>"

fun ka_manifests ::
  "('m, 'n, 'r, 'fs) kustomize_lib \<Rightarrow> map_store \<Rightarrow> ('m, 'fs) Engine \<Rightarrow> string \<Rightarrow> ManifestInfo list \<Rightarrow> go_error + kobj list" where
  "ka_manifests kl h e ns [] = Inr []"
| "ka_manifests kl h e ns (mi # mis) =
     (let renderNS = (if miNamespace mi \<noteq> '''' then miNamespace mi else ns);
          manifestPath = path_Join [miPath mi, miContextDir mi, miSourcePath mi]
      in case kz_Render kl h e manifestPath [kz_WithNamespace renderNS] of
           (h', Inl err) \<Rightarrow> Inl err
         | (h', Inr us) \<Rightarrow> (case ka_manifests kl h' e ns mis of Inl err \<Rightarrow> Inl err | Inr rest \<Rightarrow> Inr (us @ rest)))"

text \<open>What a rendering leaves in the store above the maps of the engine is garbage, so the action keeps its store.\<close>

definition ka_render ::
  "('m, 'n, 'r, 'fs) kustomize_lib \<Rightarrow> ('w, 'm, 'fs) kustomize_action \<Rightarrow> ('w request, kobj list) on_request" where
  "ka_render kl a rr =
     (case kaNamespaceFn a of
        None \<Rightarrow> (rr, ka_manifests kl (kaMaps a) (kaKe a) '''' (rrManifests rr))
      | Some fn \<Rightarrow>
          (case fn rr of
             (rr', Inl err) \<Rightarrow> (rr', Inl err)
           | (rr', Inr ns) \<Rightarrow> (rr', ka_manifests kl (kaMaps a) (kaKe a) ns (rrManifests rr'))))"

definition ka_run ::
  "('m, 'n, 'r, 'fs) kustomize_lib \<Rightarrow> ('w, 'm, 'fs) kustomize_action \<Rightarrow> 'w request \<Rightarrow>
     ('w, 'm, 'fs) kustomize_action \<times> 'w request \<times> go_error option" where
  "ka_run kl a rr =
     (if rrSkipDeploy rr then (a, rr, None)
      else case ResourceCacher_Render (kaCacher a) rr (ka_render kl a) of
        (c, rr', err) \<Rightarrow> (a\<lparr>kaCacher := c\<rparr>, rr', err))"

definition ka_NewAction ::
  "('m, 'n, 'r, 'fs) kustomize_lib \<Rightarrow> ('w request, string) on_request \<Rightarrow> ('w, 'm, 'fs) kustomize_ActionOpts list \<Rightarrow> ('w, 'm, 'fs) kustomize_action" where
  "ka_NewAction kl hash opts =
     (let a0 = fold (\<lambda>opt a. opt a) opts
            \<lparr>kaCacher = NewResourceCacher, kaCache = True, kaNamespaceFn = None, kaKeOpts = [], kaMaps = [],
             kaKe = snd (kz_NewEngine kl [] [])\<rparr>;
          a1 = (if kaCache a0 then a0\<lparr>kaCacher := cacher_SetKeyFn (kaCacher a0) (Some hash)\<rparr> else a0)
      in case kz_NewEngine kl [] (kaKeOpts a1) of (h, e) \<Rightarrow> a1\<lparr>kaMaps := h, kaKe := e\<rparr>)"

section \<open>The Kustomize action of the root module\<close>

record ('w, 'm, 'fs) pkg_kustomize_action =
  pkaNsFn :: "('w, string) on_request option"
  pkaMaps :: map_store
  pkaKe :: "('m, 'fs) Engine"
  pkaCacher :: "'w pkg_ResourceCacher"
  pkaNamespace :: string

type_synonym ('w, 'm, 'fs) pkg_kustomize_ActionOption = "('w, 'm, 'fs) pkg_kustomize_action \<Rightarrow> ('w, 'm, 'fs) pkg_kustomize_action"

definition WithActionEngineOpts :: "('m, 'fs) EngineOptsFn list \<Rightarrow> ('w, 'm, 'fs) pkg_kustomize_ActionOption" where
  "WithActionEngineOpts fns a =
     (case fold (\<lambda>fn x. fn x) fns (pkaMaps a, pkaKe a) of (h, e) \<Rightarrow> a\<lparr>pkaMaps := h, pkaKe := e\<rparr>)"

definition pka_WithCache :: "('w render_request, string) on_request \<Rightarrow> bool \<Rightarrow> ('w, 'm, 'fs) pkg_kustomize_ActionOption" where
  "pka_WithCache hash enabled a = a\<lparr>pkaCacher := pkg_SetKeyFn (pkaCacher a) (if enabled then Some hash else None)\<rparr>"

definition WithActionNamespace :: "string \<Rightarrow> ('w, 'm, 'fs) pkg_kustomize_ActionOption" where
  "WithActionNamespace ns a = a\<lparr>pkaNamespace := ns\<rparr>"

definition WithActionNamespaceFn :: "('w, string) on_request option \<Rightarrow> ('w, 'm, 'fs) pkg_kustomize_ActionOption" where
  "WithActionNamespaceFn fn a = a\<lparr>pkaNsFn := fn\<rparr>"

fun pka_manifests ::
  "('m, 'n, 'r, 'fs) kustomize_lib \<Rightarrow> map_store \<Rightarrow> ('m, 'fs) Engine \<Rightarrow> string \<Rightarrow> pkg_ManifestInfo list \<Rightarrow> go_error + kobj list" where
  "pka_manifests kl h e ns [] = Inr []"
| "pka_manifests kl h e ns (mi # mis) =
     (let opts = (if ns \<noteq> '''' then [pz_WithNamespace ns] else [])
      in case pz_Engine_Render kl h e (pkg_ManifestInfo_String mi) opts of
           (h', Inl err) \<Rightarrow> Inl err
         | (h', Inr us) \<Rightarrow> (case pka_manifests kl h' e ns mis of Inl err \<Rightarrow> Inl err | Inr rest \<Rightarrow> Inr (us @ rest)))"

definition pka_render ::
  "('m, 'n, 'r, 'fs) kustomize_lib \<Rightarrow> ('w, 'm, 'fs) pkg_kustomize_action \<Rightarrow> ('w render_request, kobj list) on_request" where
  "pka_render kl a rr =
     (case pkaNsFn a of
        None \<Rightarrow> (rr, pka_manifests kl (pkaMaps a) (pkaKe a) (pkaNamespace a) (rqManifests rr))
      | Some fn \<Rightarrow>
          (case fn (rqWorld rr) of
             (w, Inl err) \<Rightarrow> (rr\<lparr>rqWorld := w\<rparr>, Inl err)
           | (w, Inr ns) \<Rightarrow> (rr\<lparr>rqWorld := w\<rparr>, pka_manifests kl (pkaMaps a) (pkaKe a) ns (rqManifests rr))))"

definition pka_run ::
  "('m, 'n, 'r, 'fs) kustomize_lib \<Rightarrow> ('w, 'm, 'fs) pkg_kustomize_action \<Rightarrow> 'w render_request \<Rightarrow>
     ('w, 'm, 'fs) pkg_kustomize_action \<times> 'w render_request \<times> go_error option" where
  "pka_run kl a rr =
     (case pkg_ResourceCacher_Render (pkaCacher a) rr (pka_render kl a) of
        (c, rr', err) \<Rightarrow> (a\<lparr>pkaCacher := c\<rparr>, rr', err))"

definition pka_NewAction ::
  "('m, 'n, 'r, 'fs) kustomize_lib \<Rightarrow> ('w render_request, string) on_request \<Rightarrow> ('m, 'fs) EngineOptsFn list \<Rightarrow>
     ('w, 'm, 'fs) pkg_kustomize_ActionOption list \<Rightarrow> ('w, 'm, 'fs) pkg_kustomize_action" where
  "pka_NewAction kl hash engineOpts actionOpts =
     (case pz_NewEngine kl [] engineOpts of (h, e) \<Rightarrow>
        fold (\<lambda>opt a. opt a) actionOpts
          \<lparr>pkaNsFn = None, pkaMaps = h, pkaKe = e, pkaCacher = pkg_SetKeyFn pkg_NewResourceCacher (Some hash), pkaNamespace = ''''\<rparr>)"

section \<open>What the actions render\<close>

lemma owned_Render:
  assumes "owned 0 (h, enRenderOpts e)" and "set opts \<subseteq> render_options kl"
  shows "\<exists>h'. kz_Render kl h e path opts = (h', render_view kl e path (view (apply_opts opts (clone_opts h (enRenderOpts e))))) \<and>
    take (length h) h' = h \<and> length h \<le> length h'"
  using Render_isolated [OF assms(1) _ _ assms(2), of h path] by (simp add: kz_Render_view Let_def)

lemma view_WithNamespace: "view (kz_WithNamespace ns s) = (view s)\<lparr>ovNs := ns\<rparr>"
  by (cases s) (simp add: kz_WithNamespace_def view_def)

text \<open>Each manifest is rendered with the options of the engine, and the store left by one rendering does not reach the next.\<close>

lemma ka_manifests_view:
  assumes "owned 0 (h, enRenderOpts e)" and "take (length h) h1 = h" and "length h \<le> length h1"
  shows "ka_manifests kl h1 e ns mis = gather (\<lambda>mi. render_view kl e (path_Join [miPath mi, miContextDir mi, miSourcePath mi])
    ((view (h, enRenderOpts e))\<lparr>ovNs := if miNamespace mi \<noteq> '''' then miNamespace mi else ns\<rparr>)) mis"
  using assms(2,3)
proof (induction mis arbitrary: h1)
  case (Cons mi mis)
  define ns' where "ns' = (if miNamespace mi \<noteq> '''' then miNamespace mi else ns)"
  let ?p = "path_Join [miPath mi, miContextDir mi, miSourcePath mi]"
  have o: "set [kz_WithNamespace ns'] \<subseteq> render_options kl" by (auto intro: render_options.namespace)
  note i = Render_isolated [OF assms(1) Cons.prems o, of ?p]
  obtain h' r where k: "kz_Render kl h1 e ?p [kz_WithNamespace ns'] = (h', r)" by fastforce
  have "r = render_view kl e ?p ((view (h, enRenderOpts e))\<lparr>ovNs := ns'\<rparr>)"
    using i(1) [unfolded k snd_conv] by (simp add: kz_Render_view Let_def view_WithNamespace clone_opts_owned(3) [OF assms(1)])
  then show ?case
    using Cons.IH [OF i(2,3)] by (cases r) (simp_all add: k ns'_def [symmetric] del: if_split_asm)
qed simp

lemma pka_manifests_view:
  assumes "owned 0 (h, enRenderOpts e)" and "take (length h) h1 = h" and "length h \<le> length h1"
  shows "pka_manifests kl h1 e ns mis = gather (\<lambda>mi. render_view kl e (pkg_ManifestInfo_String mi)
    (if ns \<noteq> '''' then (view (h, enRenderOpts e))\<lparr>ovNs := ns\<rparr> else view (h, enRenderOpts e))) mis"
  using assms(2,3)
proof (induction mis arbitrary: h1)
  case (Cons mi mis)
  define os :: "'a RenderOptsFn list" where "os = (if ns \<noteq> '''' then [pz_WithNamespace ns] else [])"
  define v where "v = (if ns \<noteq> '''' then (view (h, enRenderOpts e))\<lparr>ovNs := ns\<rparr> else view (h, enRenderOpts e))"
  let ?p = "pkg_ManifestInfo_String mi"
  have o: "set os \<subseteq> render_options kl" by (auto simp: os_def options_agree intro: render_options.namespace)
  note i = Render_isolated [OF assms(1) Cons.prems o, of ?p]
  obtain h' r where k: "kz_Render kl h1 e ?p os = (h', r)" by fastforce
  have "r = render_view kl e ?p v"
    using i(1) [unfolded k snd_conv]
    by (simp add: kz_Render_view Let_def view_WithNamespace clone_opts_owned(3) [OF assms(1)] options_agree os_def v_def split: if_splits)
  then show ?case
    using Cons.IH [OF i(2,3)] by (cases r) (simp_all add: k Render_agree os_def [symmetric] v_def [symmetric] del: if_split_asm)
qed simp

section \<open>Properties\<close>

text \<open>
  C23: renderings with one Kustomize engine are isolated: over any sequence of calls, each with its own options, every call returns
  what it would return as the first call of the engine. No label, annotation, plugin or namespace of one rendering reaches another, although
  the options write into maps that the engine owns.
\<close>

theorem kustomize_renderings_isolated:
  assumes "set eopts \<subseteq> engine_options kl" and "kz_NewEngine kl h0 eopts = (h, e)"
    and "list_all (\<lambda>(path, opts). set opts \<subseteq> render_options kl) calls"
  shows "kz_renders kl h e calls = map (\<lambda>(path, opts). snd (kz_Render kl h e path opts)) calls"
  by (rule renders_isolated [OF NewEngine_owned [OF assms(1,2)] assms(3)]) simp_all

text \<open>
  which namespace a manifest is rendered with. The framework's action takes that of the manifest, else that of the action, and
  overrides the engine's own with it even when it is empty; the root module's action overrides the engine's only with a namespace that is
  not empty. All other options are the engine's, and the objects are those of the manifests in their order.
\<close>

theorem kustomize_namespace_choice:
  assumes "set eopts \<subseteq> engine_options kl" and "kz_NewEngine kl h0 eopts = (h, e)"
  shows "ka_manifests kl h e ns mis = gather (\<lambda>mi. render_view kl e (path_Join [miPath mi, miContextDir mi, miSourcePath mi])
      ((view (h, enRenderOpts e))\<lparr>ovNs := if miNamespace mi \<noteq> '''' then miNamespace mi else ns\<rparr>)) mis \<and>
    pka_manifests kl h e ns pmis = gather (\<lambda>mi. render_view kl e (pkg_ManifestInfo_String mi)
      (if ns \<noteq> '''' then (view (h, enRenderOpts e))\<lparr>ovNs := ns\<rparr> else view (h, enRenderOpts e))) pmis"
  by (intro conjI ka_manifests_view [OF NewEngine_owned [OF assms]] pka_manifests_view [OF NewEngine_owned [OF assms]]) simp_all

text \<open>
  C35: a namespace that a caller gives the engine of the framework's action through the manifests options has no effect: the action
  renders as if it had not been given.
\<close>

theorem baked_namespace_dropped:
  assumes "set eopts \<subseteq> engine_options kl"
  shows "ka_render kl (ka_NewAction kl hash [ka_WithManifestsOptions (eopts @ [kz_WithEngineRenderOpts [kz_WithNamespace ns]])]) rr =
    ka_render kl (ka_NewAction kl hash [ka_WithManifestsOptions eopts]) rr"
proof -
  let ?eopts = "eopts @ [kz_WithEngineRenderOpts [kz_WithNamespace ns]]"
  obtain h e where n: "kz_NewEngine kl [] eopts = (h, e)" by fastforce
  obtain h2 e2 where n2: "kz_NewEngine kl [] ?eopts = (h2, e2)" by fastforce
  have eo: "set ?eopts \<subseteq> engine_options kl"
    using assms by (auto intro!: engine_options.render render_options.namespace)
  have h: "h2 = h" "e2 = e\<lparr>enRenderOpts := (enRenderOpts e)\<lparr>roNs := ns\<rparr>\<rparr>"
    using n n2 by (auto simp: kz_NewEngine_def kz_WithEngineRenderOpts_def kz_WithNamespace_def split: prod.splits)
  have v: "render_view kl e2 p w = render_view kl e p w" for p w by (simp add: render_view_def h)
  have "(view (h2, enRenderOpts e2))\<lparr>ovNs := x\<rparr> = (view (h, enRenderOpts e))\<lparr>ovNs := x\<rparr>" for x by (simp add: view_def h)
  then have "ka_manifests kl h2 e2 '''' mis = ka_manifests kl h e '''' mis" for mis
    using ka_manifests_view [OF NewEngine_owned [OF eo n2], of h2 kl "''''" mis]
      ka_manifests_view [OF NewEngine_owned [OF assms n], of h kl "''''" mis] by (simp add: v)
  then show ?thesis by (simp add: ka_render_def ka_NewAction_def ka_WithManifestsOptions_def Let_def n n2)
qed

text \<open>A concrete library: a resource map is the list of the plugins applied to it, an object is named after what its plugin sets.\<close>

fun ex_plugin_name :: "builtin_plugin \<Rightarrow> string" where
  "ex_plugin_name (NamespaceTransformer n ns fs u b) = ns"
| "ex_plugin_name (LabelTransformer l fs) = concat (map fst l)"
| "ex_plugin_name (AnnotationsTransformer l fs) = concat (map fst l)"

definition ex_kl :: "(builtin_plugin list, builtin_plugin, builtin_plugin, unit) kustomize_lib" where
  "ex_kl = \<lparr>klRun = (\<lambda>ko fs p. if p = '''' then Inl (ErrNew ''no path'') else Inr []), klTransform = (\<lambda>p m. Inr (m @ [p])),
     klApplyFilter = (\<lambda>f m. f m), klResources = id, klMap = (\<lambda>r. Inr [(''name'', JString (ex_plugin_name r))]),
     klToUnstructured = (\<lambda>j. case map_of j ''name'' of
        Some (JString s) \<Rightarrow> Inr ((GvkToUnstructured (mk_gvk '''' ''v1'' ''Secret''))\<lparr>oName := s\<rparr>) | _ \<Rightarrow> Inl (ErrNew ''no name'')),
     klExists = (\<lambda>fs p. True), klDisk = ()\<rparr>"

definition ex_eopts :: "(builtin_plugin list, unit) EngineOptsFn list" where
  "ex_eopts = [kz_WithEngineRenderOpts [kz_WithLabel ''a'' ''1'']]"

definition ex_calls :: "(string \<times> builtin_plugin list RenderOptsFn list) list" where
  "ex_calls = [(''one'', [kz_WithLabel ''b'' ''2'']), (''two'', [kz_WithNamespace ''x''])]"

definition ex_engine :: "(builtin_plugin list, unit) Engine" where
  "ex_engine = \<lparr>enKrustyOpts = MakeDefaultOptions, enK = MakeDefaultOptions, enFs = (), enRenderOpts = default_renderOpts\<lparr>roLabels := Some 0\<rparr>\<rparr>"

lemma ex_eopts_ok: "set ex_eopts \<subseteq> engine_options ex_kl"
  by (auto simp: ex_eopts_def intro!: engine_options.render render_options.label)

lemma ex_new_engine: "kz_NewEngine ex_kl [] ex_eopts = ([[(''a'', ''1'')]], ex_engine)"
  by (simp add: kz_NewEngine_def ex_eopts_def kz_WithEngineRenderOpts_def kz_WithLabel_def ensure_map_def default_renderOpts_def
      ex_engine_def ex_kl_def put_pair_def)

lemma ex_calls_ok: "list_all (\<lambda>(path, opts). set opts \<subseteq> render_options ex_kl) ex_calls"
  by (auto simp: ex_calls_def intro: render_options.label render_options.namespace)

theorem kustomize_renderings_isolated_witness:
  "kz_renders ex_kl [[(''a'', ''1'')]] ex_engine ex_calls =
     map (\<lambda>(path, opts). snd (kz_Render ex_kl [[(''a'', ''1'')]] ex_engine path opts)) ex_calls \<and>
   map_sum id (map oName) (kz_renders ex_kl [[(''a'', ''1'')]] ex_engine ex_calls ! 1) = Inr [''x'', ''a'']"
proof
  show eq: "kz_renders ex_kl [[(''a'', ''1'')]] ex_engine ex_calls =
     map (\<lambda>(path, opts). snd (kz_Render ex_kl [[(''a'', ''1'')]] ex_engine path opts)) ex_calls"
    by (rule kustomize_renderings_isolated [OF ex_eopts_ok ex_new_engine ex_calls_ok])
  show "map_sum id (map oName) (kz_renders ex_kl [[(''a'', ''1'')]] ex_engine ex_calls ! 1) = Inr [''x'', ''a'']"
    unfolding eq
    by (simp add: ex_calls_def kz_Render_def clone_opts_def clone_map_def ex_engine_def default_renderOpts_def kz_WithNamespace_def ex_kl_def
        read_map_def namespaceApplierPlugin_def setLabelsPlugin_def resource_object_def GvkToUnstructured_def Let_def)
qed

theorem kustomize_namespace_choice_witness:
  "ka_manifests ex_kl [[(''a'', ''1'')]] ex_engine ''app'' [\<lparr>miPath = ''m'', miContextDir = '''', miSourcePath = '''', miNamespace = ''own''\<rparr>] =
     gather (\<lambda>mi. render_view ex_kl ex_engine (path_Join [miPath mi, miContextDir mi, miSourcePath mi])
       ((view ([[(''a'', ''1'')]], enRenderOpts ex_engine))\<lparr>ovNs := if miNamespace mi \<noteq> '''' then miNamespace mi else ''app''\<rparr>))
       [\<lparr>miPath = ''m'', miContextDir = '''', miSourcePath = '''', miNamespace = ''own''\<rparr>]"
  using kustomize_namespace_choice [OF ex_eopts_ok ex_new_engine] by blast

theorem baked_namespace_dropped_witness:
  "ka_render ex_kl (ka_NewAction ex_kl (\<lambda>rr. (rr, Inr ''k'')) [ka_WithManifestsOptions (ex_eopts @ [kz_WithEngineRenderOpts [kz_WithNamespace ''x'']])])
      ((ex_request ())\<lparr>rrManifests := [\<lparr>miPath = ''m'', miContextDir = '''', miSourcePath = '''', miNamespace = ''''\<rparr>]\<rparr>) =
    ka_render ex_kl (ka_NewAction ex_kl (\<lambda>rr. (rr, Inr ''k'')) [ka_WithManifestsOptions ex_eopts])
      ((ex_request ())\<lparr>rrManifests := [\<lparr>miPath = ''m'', miContextDir = '''', miSourcePath = '''', miNamespace = ''''\<rparr>]\<rparr>)"
  by (rule baked_namespace_dropped [OF ex_eopts_ok])

end
