(* ===== verification/RenderFS.thy ===== *)
theory RenderFS
  imports Request
begin

text \<open>
  The file systems given to Kustomize, \<^verbatim>\<open>framework/render/kustomize/fs\<close>: the adapter around the file systems of the afero
  library, the read-only wrapper and the union of an overlay and a base. File systems are mutable: what they hold is a world of any type,
  and the operations of a file system read and change it. The afero library is a parameter.
\<close>

section \<open>File systems\<close>

text \<open>
  The operations of \<^verbatim>\<open>afero.Fs\<close>, and of \<^verbatim>\<open>filesys.FileSystem\<close> for file systems of other packages. \<^verbatim>\<open>Stat\<close> tells
  whether a path is a directory; a file handle is a number; \<open>'cb\<close> is the callback of \<^verbatim>\<open>Walk\<close>.
\<close>

record ('w, 'cb) fs_ops =
  foIsOs :: bool
  foStat :: "'w \<Rightarrow> string \<Rightarrow> go_error + bool"
  foCreate :: "'w \<Rightarrow> string \<Rightarrow> 'w \<times> (go_error + nat)"
  foOpen :: "'w \<Rightarrow> string \<Rightarrow> 'w \<times> (go_error + nat)"
  foMkdir :: "'w \<Rightarrow> string \<Rightarrow> nat \<Rightarrow> 'w \<times> go_error option"
  foMkdirAll :: "'w \<Rightarrow> string \<Rightarrow> nat \<Rightarrow> 'w \<times> go_error option"
  foRemoveAll :: "'w \<Rightarrow> string \<Rightarrow> 'w \<times> go_error option"
  foReadFile :: "'w \<Rightarrow> string \<Rightarrow> go_error + string"
  foWriteFile :: "'w \<Rightarrow> string \<Rightarrow> string \<Rightarrow> nat \<Rightarrow> 'w \<times> go_error option"
  foReadDir :: "'w \<Rightarrow> string \<Rightarrow> go_error + string list"
  foGlob :: "'w \<Rightarrow> string \<Rightarrow> go_error + string list"
  foWalk :: "'w \<Rightarrow> string \<Rightarrow> 'cb \<Rightarrow> 'w \<times> go_error option"
  foCleanedAbs :: "'w \<Rightarrow> string \<Rightarrow> go_error + string \<times> string"

datatype ('w, 'cb) filesys = Adapter "('w, 'cb) fs_ops" | ReadOnlyWrapper "('w, 'cb) filesys" | Foreign "('w, 'cb) fs_ops"

text \<open>What \<^verbatim>\<open>afero\<close> and the operating system provide; \<open>alMem\<close> allocates a new file system in memory.\<close>

record ('w, 'cb) afero_lib =
  alOs :: "('w, 'cb) fs_ops"
  alMem :: "'w \<Rightarrow> 'w \<times> ('w, 'cb) fs_ops"
  alReadOnly :: "('w, 'cb) fs_ops \<Rightarrow> ('w, 'cb) fs_ops"
  alFromIOFS :: "nat \<Rightarrow> ('w, 'cb) fs_ops"
  alBasePath :: "('w, 'cb) fs_ops \<Rightarrow> string \<Rightarrow> ('w, 'cb) fs_ops"
  alCopyOnWrite :: "('w, 'cb) fs_ops \<Rightarrow> ('w, 'cb) fs_ops \<Rightarrow> ('w, 'cb) fs_ops"
  alAbs :: "string \<Rightarrow> go_error + string"
  alEvalSymlinks :: "'w \<Rightarrow> string \<Rightarrow> go_error + string"
  alIsNotExist :: "go_error \<Rightarrow> bool"

definition fs_New :: "('w, 'cb) fs_ops \<Rightarrow> ('w, 'cb) filesys" where
  "fs_New afs = Adapter afs"

fun Unwrap :: "('w, 'cb) filesys \<Rightarrow> ('w, 'cb) fs_ops option" where
  "Unwrap (Adapter afs) = Some afs"
| "Unwrap (ReadOnlyWrapper b) = None"
| "Unwrap (Foreign fo) = None"

section \<open>The operations\<close>

definition unsupported :: "string \<Rightarrow> go_error" where
  "unsupported op = ErrNew (op @ '' not supported on read-only filesystem'')"

fun fs_Create :: "('w, 'cb) filesys \<Rightarrow> 'w \<Rightarrow> string \<Rightarrow> 'w \<times> (go_error + nat)" where
  "fs_Create (Adapter a) w p = foCreate a w p"
| "fs_Create (ReadOnlyWrapper b) w p = (w, Inl (unsupported ''create''))"
| "fs_Create (Foreign fo) w p = foCreate fo w p"

text \<open>The modes are \<^verbatim>\<open>0777|os.ModeDir\<close> and \<^verbatim>\<open>0666\<close>.\<close>

definition dir_mode :: nat where "dir_mode = 2 ^ 31 + 511"

definition file_mode :: nat where "file_mode = 438"

fun fs_Mkdir :: "('w, 'cb) filesys \<Rightarrow> 'w \<Rightarrow> string \<Rightarrow> 'w \<times> go_error option" where
  "fs_Mkdir (Adapter a) w p = foMkdir a w p dir_mode"
| "fs_Mkdir (ReadOnlyWrapper b) w p = (w, Some (unsupported ''mkdir''))"
| "fs_Mkdir (Foreign fo) w p = foMkdir fo w p dir_mode"

fun fs_MkdirAll :: "('w, 'cb) filesys \<Rightarrow> 'w \<Rightarrow> string \<Rightarrow> 'w \<times> go_error option" where
  "fs_MkdirAll (Adapter a) w p = foMkdirAll a w p dir_mode"
| "fs_MkdirAll (ReadOnlyWrapper b) w p = (w, Some (unsupported ''mkdirall''))"
| "fs_MkdirAll (Foreign fo) w p = foMkdirAll fo w p dir_mode"

fun fs_RemoveAll :: "('w, 'cb) filesys \<Rightarrow> 'w \<Rightarrow> string \<Rightarrow> 'w \<times> go_error option" where
  "fs_RemoveAll (Adapter a) w p = foRemoveAll a w p"
| "fs_RemoveAll (ReadOnlyWrapper b) w p = (w, Some (unsupported ''removeall''))"
| "fs_RemoveAll (Foreign fo) w p = foRemoveAll fo w p"

fun fs_WriteFile :: "('w, 'cb) filesys \<Rightarrow> 'w \<Rightarrow> string \<Rightarrow> string \<Rightarrow> 'w \<times> go_error option" where
  "fs_WriteFile (Adapter a) w p d = foWriteFile a w p d file_mode"
| "fs_WriteFile (ReadOnlyWrapper b) w p d = (w, Some (unsupported ''writefile''))"
| "fs_WriteFile (Foreign fo) w p d = foWriteFile fo w p d file_mode"

fun fs_Open :: "('w, 'cb) filesys \<Rightarrow> 'w \<Rightarrow> string \<Rightarrow> 'w \<times> (go_error + nat)" where
  "fs_Open (Adapter a) w p = foOpen a w p"
| "fs_Open (ReadOnlyWrapper b) w p = fs_Open b w p"
| "fs_Open (Foreign fo) w p = foOpen fo w p"

fun fs_Exists :: "('w, 'cb) filesys \<Rightarrow> 'w \<Rightarrow> string \<Rightarrow> bool" where
  "fs_Exists (Adapter a) w p = (case foStat a w p of Inl err \<Rightarrow> False | Inr info \<Rightarrow> True)"
| "fs_Exists (ReadOnlyWrapper b) w p = fs_Exists b w p"
| "fs_Exists (Foreign fo) w p = (case foStat fo w p of Inl err \<Rightarrow> False | Inr info \<Rightarrow> True)"

fun fs_IsDir :: "('w, 'cb) filesys \<Rightarrow> 'w \<Rightarrow> string \<Rightarrow> bool" where
  "fs_IsDir (Adapter a) w p = (case foStat a w p of Inl err \<Rightarrow> False | Inr info \<Rightarrow> info)"
| "fs_IsDir (ReadOnlyWrapper b) w p = fs_IsDir b w p"
| "fs_IsDir (Foreign fo) w p = (case foStat fo w p of Inl err \<Rightarrow> False | Inr info \<Rightarrow> info)"

fun fs_ReadDir :: "('w, 'cb) filesys \<Rightarrow> 'w \<Rightarrow> string \<Rightarrow> go_error + string list" where
  "fs_ReadDir (Adapter a) w p = foReadDir a w p"
| "fs_ReadDir (ReadOnlyWrapper b) w p = fs_ReadDir b w p"
| "fs_ReadDir (Foreign fo) w p = foReadDir fo w p"

fun fs_ReadFile :: "('w, 'cb) filesys \<Rightarrow> 'w \<Rightarrow> string \<Rightarrow> go_error + string" where
  "fs_ReadFile (Adapter a) w p = foReadFile a w p"
| "fs_ReadFile (ReadOnlyWrapper b) w p = fs_ReadFile b w p"
| "fs_ReadFile (Foreign fo) w p = foReadFile fo w p"

fun fs_Glob :: "('w, 'cb) filesys \<Rightarrow> 'w \<Rightarrow> string \<Rightarrow> go_error + string list" where
  "fs_Glob (Adapter a) w p = foGlob a w p"
| "fs_Glob (ReadOnlyWrapper b) w p = fs_Glob b w p"
| "fs_Glob (Foreign fo) w p = foGlob fo w p"

fun fs_Walk :: "('w, 'cb) filesys \<Rightarrow> 'w \<Rightarrow> string \<Rightarrow> 'cb \<Rightarrow> 'w \<times> go_error option" where
  "fs_Walk (Adapter a) w p cb = foWalk a w p cb"
| "fs_Walk (ReadOnlyWrapper b) w p cb = fs_Walk b w p cb"
| "fs_Walk (Foreign fo) w p cb = foWalk fo w p cb"

text \<open>\<^verbatim>\<open>filepath.Dir\<close> and \<^verbatim>\<open>filepath.Base\<close> of the Go library.\<close>

definition upto_slash :: "string \<Rightarrow> string" where
  "upto_slash p = rev (dropWhile (\<lambda>c. c \<noteq> CHR ''/'') (rev p))"

definition path_Dir :: "string \<Rightarrow> string" where
  "path_Dir p = path_Clean (upto_slash p)"

definition path_Base :: "string \<Rightarrow> string" where
  "path_Base p =
     (if p = '''' then ''.''
      else let q = rev (dropWhile (\<lambda>c. c = CHR ''/'') (rev p));
               b = rev (takeWhile (\<lambda>c. c \<noteq> CHR ''/'') (rev q))
           in if b = '''' then ''/'' else b)"

definition adapter_CleanedAbs :: "('w, 'cb) afero_lib \<Rightarrow> ('w, 'cb) fs_ops \<Rightarrow> 'w \<Rightarrow> string \<Rightarrow> go_error + string \<times> string" where
  "adapter_CleanedAbs al a w path0 =
     (let path = (if path0 = '''' then ''.'' else path0);
          resolved =
            (if foIsOs a then
               (case alAbs al path of
                  Inl err \<Rightarrow> Inl (ErrWrap (''abs path error on '' @ quoted path) err)
                | Inr absPath \<Rightarrow>
                    (case alEvalSymlinks al w absPath of
                       Inl err \<Rightarrow> Inl (ErrWrap (''evalsymlink failure on '' @ quoted path) err)
                     | Inr deLinked \<Rightarrow> Inr deLinked))
             else Inr path)
      in case resolved of
           Inl err \<Rightarrow> Inl err
         | Inr resolvedPath \<Rightarrow>
             (case foStat a w resolvedPath of
                Inl err \<Rightarrow>
                  if alIsNotExist al err then Inl (ErrWrap (''stat '' @ path) (ErrSentinel ''file does not exist''))
                  else Inl (ErrWrap (''stat error on '' @ quoted path) err)
              | Inr is_dir \<Rightarrow>
                  if is_dir then Inr (resolvedPath, '''') else Inr (path_Dir resolvedPath, path_Base resolvedPath)))"

fun fs_CleanedAbs :: "('w, 'cb) afero_lib \<Rightarrow> ('w, 'cb) filesys \<Rightarrow> 'w \<Rightarrow> string \<Rightarrow> go_error + string \<times> string" where
  "fs_CleanedAbs al (Adapter a) w p = adapter_CleanedAbs al a w p"
| "fs_CleanedAbs al (ReadOnlyWrapper b) w p = fs_CleanedAbs al b w p"
| "fs_CleanedAbs al (Foreign fo) w p = foCleanedAbs fo w p"

section \<open>Constructors\<close>

definition NewFsOnDisk :: "('w, 'cb) afero_lib \<Rightarrow> ('w, 'cb) filesys" where
  "NewFsOnDisk al = fs_New (alOs al)"

definition NewMemoryFs :: "('w, 'cb) afero_lib \<Rightarrow> 'w \<Rightarrow> 'w \<times> ('w, 'cb) filesys" where
  "NewMemoryFs al w = (case alMem al w of (w', m) \<Rightarrow> (w', fs_New m))"

definition NewReadOnlyFs :: "('w, 'cb) afero_lib \<Rightarrow> ('w, 'cb) filesys \<Rightarrow> ('w, 'cb) filesys" where
  "NewReadOnlyFs al base = (case Unwrap base of Some afs \<Rightarrow> fs_New (alReadOnly al afs) | None \<Rightarrow> ReadOnlyWrapper base)"

definition NewFromIOFS :: "('w, 'cb) afero_lib \<Rightarrow> nat \<Rightarrow> string \<Rightarrow> go_error + ('w, 'cb) filesys" where
  "NewFromIOFS al fsys root_dir =
     (let baseFs = alFromIOFS al fsys;
          resultFs = (if root_dir \<noteq> '''' then alBasePath al baseFs (path_Clean root_dir) else baseFs)
      in Inr (fs_New (alReadOnly al resultFs)))"

definition NewBasePathFs :: "('w, 'cb) afero_lib \<Rightarrow> ('w, 'cb) filesys \<Rightarrow> string \<Rightarrow> go_error + ('w, 'cb) filesys" where
  "NewBasePathFs al base basePath =
     (case Unwrap base of
        Some afs \<Rightarrow> Inr (fs_New (alBasePath al afs basePath))
      | None \<Rightarrow> Inl (ErrNew ''base filesystem must be created with fs package functions''))"

section \<open>The union\<close>

record ('w, 'cb) unionConfig =
  ucOverrides :: "(string \<times> string) list"
  ucOverlay :: "('w, 'cb) filesys option"

type_synonym ('w, 'cb) UnionOption = "('w, 'cb) unionConfig \<Rightarrow> go_error + ('w, 'cb) unionConfig"

definition WithOverride :: "string \<Rightarrow> string \<Rightarrow> ('w, 'cb) UnionOption" where
  "WithOverride path content cfg = Inr (cfg\<lparr>ucOverrides := put_pair path content (ucOverrides cfg)\<rparr>)"

definition WithOverrides :: "(string \<times> string) list \<Rightarrow> ('w, 'cb) UnionOption" where
  "WithOverrides overrides cfg = Inr (cfg\<lparr>ucOverrides := copy_pairs overrides (ucOverrides cfg)\<rparr>)"

definition WithOverlayFs :: "('w, 'cb) filesys option \<Rightarrow> ('w, 'cb) UnionOption" where
  "WithOverlayFs overlay cfg = Inr (cfg\<lparr>ucOverlay := overlay\<rparr>)"

fun union_options :: "('w, 'cb) UnionOption list \<Rightarrow> ('w, 'cb) unionConfig \<Rightarrow> go_error + ('w, 'cb) unionConfig" where
  "union_options [] cfg = Inr cfg"
| "union_options (opt # opts) cfg = (case opt cfg of Inl err \<Rightarrow> Inl err | Inr cfg' \<Rightarrow> union_options opts cfg')"

fun write_overrides :: "('w, 'cb) filesys \<Rightarrow> 'w \<Rightarrow> (string \<times> string) list \<Rightarrow> 'w \<times> go_error option" where
  "write_overrides overlay w [] = (w, None)"
| "write_overrides overlay w ((path, content) # rest) =
     (case fs_WriteFile overlay w path content of
        (w', Some err) \<Rightarrow> (w', Some (ErrWrap (''failed to write override '' @ path) err))
      | (w', None) \<Rightarrow> write_overrides overlay w' rest)"

text \<open>\<open>ord\<close> is the order in which the map of overrides is iterated.\<close>

definition NewUnionFs ::
  "('w, 'cb) afero_lib \<Rightarrow> ((string \<times> string) list \<Rightarrow> (string \<times> string) list) \<Rightarrow> 'w \<Rightarrow> ('w, 'cb) filesys \<Rightarrow> ('w, 'cb) UnionOption list \<Rightarrow>
     'w \<times> (go_error + ('w, 'cb) filesys)" where
  "NewUnionFs al ord w base opts =
     (case union_options opts \<lparr>ucOverrides = [], ucOverlay = None\<rparr> of
        Inl err \<Rightarrow> (w, Inl err)
      | Inr cfg \<Rightarrow>
          let (w1, overlay, err) =
                (case ucOverlay cfg of
                   Some overlay \<Rightarrow> (w, overlay, None)
                 | None \<Rightarrow>
                     (case NewMemoryFs al w of (w0, mem) \<Rightarrow>
                        (case write_overrides mem w0 (ord (ucOverrides cfg)) of (w', e) \<Rightarrow> (w', mem, e))))
          in case err of
               Some e \<Rightarrow> (w1, Inl e)
             | None \<Rightarrow>
                 (case Unwrap base of
                    None \<Rightarrow> (w1, Inl (ErrNew ''base filesystem must be created with fs package functions''))
                  | Some b \<Rightarrow>
                      (case Unwrap overlay of
                         None \<Rightarrow> (w1, Inl (ErrNew ''overlay filesystem must be created with fs package functions''))
                       | Some ov \<Rightarrow> (w1, Inr (fs_New (alCopyOnWrite al b ov))))))"

section \<open>What the file systems do\<close>

text \<open>The read-only wrapper refuses every operation that changes the file system and reads what its base holds.\<close>

lemma read_only_wrapper:
  assumes "Unwrap base = None"
  shows "fs_Create (NewReadOnlyFs al base) w p = (w, Inl (unsupported ''create''))"
    and "fs_Mkdir (NewReadOnlyFs al base) w p = (w, Some (unsupported ''mkdir''))"
    and "fs_MkdirAll (NewReadOnlyFs al base) w p = (w, Some (unsupported ''mkdirall''))"
    and "fs_RemoveAll (NewReadOnlyFs al base) w p = (w, Some (unsupported ''removeall''))"
    and "fs_WriteFile (NewReadOnlyFs al base) w p d = (w, Some (unsupported ''writefile''))"
    and "fs_ReadFile (NewReadOnlyFs al base) = fs_ReadFile base" "fs_Exists (NewReadOnlyFs al base) = fs_Exists base"
    and "fs_ReadDir (NewReadOnlyFs al base) = fs_ReadDir base" "fs_CleanedAbs al (NewReadOnlyFs al base) = fs_CleanedAbs al base"
  using assms by (simp_all add: NewReadOnlyFs_def fun_eq_iff)

lemma write_overrides_reads:
  assumes reads: "\<And>w w' p c q. foWriteFile m w p c file_mode = (w', None) \<Longrightarrow> foReadFile m w' q = (if norm q = norm p then Inr c else foReadFile m w q)"
    and keeps: "\<And>w w' p c q. foWriteFile m w p c file_mode = (w', None) \<Longrightarrow> foReadFile b w' q = foReadFile b w q"
    and "distinct (map (norm \<circ> fst) l)" and "write_overrides (Adapter m) w l = (w', None)"
  shows "foReadFile m w' q = (case map_of (map (\<lambda>(p, c). (norm p, c)) l) (norm q) of Some c \<Rightarrow> Inr c | None \<Rightarrow> foReadFile m w q) \<and>
    foReadFile b w' q = foReadFile b w q"
  using assms(3,4)
proof (induction l arbitrary: w)
  case (Cons x l)
  obtain p c where x: "x = (p, c)" by fastforce
  obtain w1 err where w: "foWriteFile m w p c file_mode = (w1, err)" by fastforce
  have n: "err = None" "write_overrides (Adapter m) w1 l = (w', None)" using Cons.prems(2) by (simp_all add: x w split: option.splits)
  note ih = Cons.IH [OF _ n(2)]
  have "map_of (map (\<lambda>(p, c). (norm p, c)) l) (norm p) = None"
    using Cons.prems(1) by (force simp: x map_of_eq_None_iff)
  then show ?case
    using ih Cons.prems(1) reads [OF w [unfolded n(1)], of q] keeps [OF w [unfolded n(1)], of q] by (auto simp: x split: option.split)
qed simp

lemma map_of_permuted:
  assumes "mset xs = mset ys" and "distinct (map fst xs)"
  shows "map_of xs = map_of ys"
proof -
  have "distinct (map fst ys)" using assms by (metis mset_eq_imp_distinct_iff mset_map)
  then show ?thesis using assms map_of_inject_set [of xs ys] by (metis mset_eq_setD)
qed

section \<open>Properties\<close>

text \<open>
  a union without an overlay of its own reads a file from the overrides if they have its path and from the base otherwise, and
  the order in which the overrides are written does not matter. The library is relied on for this: a write to a file system in memory is
  read back under every spelling of its path, changes no other path and not the base, a new file system in memory is empty, and a
  copy-on-write file system reads its layer first.
\<close>

theorem union_reads_overrides:
  assumes cfg: "union_options opts \<lparr>ucOverrides = [], ucOverlay = None\<rparr> = Inr cfg" "ucOverlay cfg = None"
    and base: "Unwrap base = Some b" and mem: "alMem al w = (w0, m)"
    and ord: "mset (ord (ucOverrides cfg)) = mset (ucOverrides cfg)"
    and paths: "distinct (map (norm \<circ> fst) (ucOverrides cfg))"
    and reads: "\<And>w w' p c q. foWriteFile m w p c file_mode = (w', None) \<Longrightarrow> foReadFile m w' q = (if norm q = norm p then Inr c else foReadFile m w q)"
    and keeps: "\<And>w w' p c q. foWriteFile m w p c file_mode = (w', None) \<Longrightarrow> foReadFile b w' q = foReadFile b w q"
    and empty: "\<And>q. \<exists>e. foReadFile m w0 q = Inl e" "\<And>q. foReadFile b w0 q = foReadFile b w q"
    and cow: "\<And>w q. foReadFile (alCopyOnWrite al b m) w q = (case foReadFile m w q of Inl e \<Rightarrow> foReadFile b w q | Inr c \<Rightarrow> Inr c)"
    and ok: "NewUnionFs al ord w base opts = (w', Inr fs)"
  shows "fs_ReadFile fs w' q = (case map_of (map (\<lambda>(p, c). (norm p, c)) (ucOverrides cfg)) (norm q) of
      Some c \<Rightarrow> Inr c | None \<Rightarrow> fs_ReadFile base w q)"
proof -
  let ?l = "ord (ucOverrides cfg)" and ?k = "\<lambda>l. map (\<lambda>(p, c). (norm p, c)) l"
  obtain w1 err where wr: "write_overrides (Adapter m) w0 ?l = (w1, err)" by fastforce
  have r: "err = None" "w' = w1" "fs = Adapter (alCopyOnWrite al b m)"
    using ok cfg base mem by (auto simp: NewUnionFs_def NewMemoryFs_def fs_New_def wr split: option.splits)
  have "mset (map (norm \<circ> fst) ?l) = mset (map (norm \<circ> fst) (ucOverrides cfg))" using ord by simp
  then have d: "distinct (map (norm \<circ> fst) ?l)" using paths mset_eq_imp_distinct_iff by blast
  note wo = write_overrides_reads [OF reads keeps d wr [unfolded r(1)], where q = q]
  have fst_k: "map fst (?k l) = map (norm \<circ> fst) l" for l :: "(string \<times> string) list" by auto
  have "mset (?k ?l) = mset (?k (ucOverrides cfg))" using ord by simp
  then have "map_of (?k ?l) = map_of (?k (ucOverrides cfg))" using map_of_permuted fst_k d by metis
  moreover have "fs_ReadFile base w q = foReadFile b w q" using base by (cases base) simp_all
  moreover obtain e where "foReadFile m w0 q = Inl e" using empty(1) by blast
  ultimately show ?thesis using wo empty(2) [of q] by (simp add: r cow split: option.split)
qed

text \<open>
  a union that is given an overlay file system ignores every override: it is the union with that overlay and no override.
\<close>

theorem overlay_discards_overrides:
  assumes "union_options opts \<lparr>ucOverrides = [], ucOverlay = None\<rparr> = Inr cfg" and "ucOverlay cfg = Some overlay"
  shows "NewUnionFs al ord w base opts = NewUnionFs al ord w base [WithOverlayFs (Some overlay)]"
  using assms by (simp add: NewUnionFs_def WithOverlayFs_def)

text \<open>A concrete library: the world is a list of memory file systems, paths differ by a leading slash only.\<close>

definition ex_norm :: "string \<Rightarrow> string" where
  "ex_norm p = (case p of c # cs \<Rightarrow> if c = CHR ''/'' then cs else p | [] \<Rightarrow> p)"

definition ex_mem :: "nat \<Rightarrow> ((string \<times> string) list list, unit) fs_ops" where
  "ex_mem i = \<lparr>foIsOs = False, foStat = (\<lambda>w p. Inr False), foCreate = (\<lambda>w p. (w, Inr 0)), foOpen = (\<lambda>w p. (w, Inr 0)),
     foMkdir = (\<lambda>w p n. (w, None)), foMkdirAll = (\<lambda>w p n. (w, None)), foRemoveAll = (\<lambda>w p. (w, None)),
     foReadFile = (\<lambda>w p. if i < length w then (case map_of (w ! i) (ex_norm p) of Some c \<Rightarrow> Inr c | None \<Rightarrow> Inl (ErrNew ''not found''))
        else Inl (ErrNew ''not found'')),
     foWriteFile = (\<lambda>w p c n. if i < length w then (w[i := put_pair (ex_norm p) c (w ! i)], None) else (w, Some (ErrNew ''closed''))),
     foReadDir = (\<lambda>w p. Inr []), foGlob = (\<lambda>w p. Inr []), foWalk = (\<lambda>w p cb. (w, None)), foCleanedAbs = (\<lambda>w p. Inr (p, ''''))\<rparr>"

definition ex_afero :: "((string \<times> string) list list, unit) afero_lib" where
  "ex_afero = \<lparr>alOs = ex_mem 0, alMem = (\<lambda>w. (w @ [[]], ex_mem (length w))), alReadOnly = id, alFromIOFS = ex_mem, alBasePath = (\<lambda>f p. f),
     alCopyOnWrite = (\<lambda>b m. m\<lparr>foReadFile := \<lambda>w q. (case foReadFile m w q of Inl e \<Rightarrow> foReadFile b w q | Inr c \<Rightarrow> Inr c)\<rparr>),
     alAbs = Inr, alEvalSymlinks = (\<lambda>w p. Inr p), alIsNotExist = (\<lambda>e. True)\<rparr>"

definition ex_base_world :: "(string \<times> string) list list" where
  "ex_base_world = [[(''a'', ''base a''), (''b'', ''base b'')]]"

lemma ex_mem_write:
  assumes "foWriteFile (ex_mem i) w p c n = (w', None)"
  shows "foReadFile (ex_mem i) w' q = (if ex_norm q = ex_norm p then Inr c else foReadFile (ex_mem i) w q)"
    and "j \<noteq> i \<Longrightarrow> foReadFile (ex_mem j) w' q = foReadFile (ex_mem j) w q"
  using assms by (auto simp: ex_mem_def split: if_splits)

theorem union_reads_overrides_witness:
  "\<exists>w' fs. NewUnionFs ex_afero rev ex_base_world (Adapter (ex_mem 0)) [WithOverride ''/a'' ''x'', WithOverride ''c'' ''y''] = (w', Inr fs) \<and>
    fs_ReadFile fs w' ''a'' = Inr ''x'' \<and> fs_ReadFile fs w' ''/b'' = Inr ''base b''"
proof -
  let ?cfg = "\<lparr>ucOverrides = [(''c'', ''y''), (''/a'', ''x'')], ucOverlay = None\<rparr> :: ((string \<times> string) list list, unit) unionConfig"
  have c: "union_options [WithOverride ''/a'' ''x'', WithOverride ''c'' ''y''] \<lparr>ucOverrides = [], ucOverlay = None\<rparr> = Inr ?cfg"
    by (simp add: WithOverride_def put_pair_def)
  have m: "alMem ex_afero ex_base_world = (ex_base_world @ [[]], ex_mem 1)" by (simp add: ex_afero_def ex_base_world_def)
  have p: "distinct (map (ex_norm \<circ> fst) (ucOverrides ?cfg))" by (simp add: ex_norm_def)
  have e: "\<exists>e. foReadFile (ex_mem 1) (ex_base_world @ [[]]) q = Inl e"
    "foReadFile (ex_mem 0) (ex_base_world @ [[]]) q = foReadFile (ex_mem 0) ex_base_world q" for q
    by (simp_all add: ex_mem_def ex_base_world_def)
  have cow: "foReadFile (alCopyOnWrite ex_afero (ex_mem 0) (ex_mem 1)) w q =
      (case foReadFile (ex_mem 1) w q of Inl e \<Rightarrow> foReadFile (ex_mem 0) w q | Inr c \<Rightarrow> Inr c)" for w q
    by (simp add: ex_afero_def)
  have k: "foReadFile (ex_mem 0) w' q = foReadFile (ex_mem 0) w q" if "foWriteFile (ex_mem 1) w p c file_mode = (w', None)" for w w' p c q
    using ex_mem_write(2) [OF that, of 0] by simp
  have o: "mset (rev (ucOverrides ?cfg)) = mset (ucOverrides ?cfg)" by simp
  have "write_overrides (Adapter (ex_mem 1)) (ex_base_world @ [[]]) [(''/a'', ''x''), (''c'', ''y'')] = (ex_base_world @ [[(''c'', ''y''), (''a'', ''x'')]], None)"
    by (simp add: ex_mem_def ex_base_world_def ex_norm_def put_pair_def)
  then have n: "NewUnionFs ex_afero rev ex_base_world (Adapter (ex_mem 0)) [WithOverride ''/a'' ''x'', WithOverride ''c'' ''y''] =
      (ex_base_world @ [[(''c'', ''y''), (''a'', ''x'')]], Inr (Adapter (alCopyOnWrite ex_afero (ex_mem 0) (ex_mem 1))))"
    by (simp add: NewUnionFs_def c NewMemoryFs_def m fs_New_def del: union_options.simps write_overrides.simps One_nat_def)
  have u: "fs_ReadFile (Adapter (alCopyOnWrite ex_afero (ex_mem 0) (ex_mem 1))) (ex_base_world @ [[(''c'', ''y''), (''a'', ''x'')]]) q =
      (case map_of (map (\<lambda>(p, c). (ex_norm p, c)) (ucOverrides ?cfg)) (ex_norm q) of
         Some c \<Rightarrow> Inr c | None \<Rightarrow> fs_ReadFile (Adapter (ex_mem 0)) ex_base_world q)" for q
    by (rule union_reads_overrides [OF c _ _ m o p ex_mem_write(1) k e(1) e(2) cow n]) simp_all
  show ?thesis using n u [of "''a''"] u [of "''/b''"] by (simp add: ex_norm_def) (simp add: ex_mem_def ex_base_world_def ex_norm_def)
qed

theorem overlay_discards_overrides_witness:
  "NewUnionFs ex_afero rev ex_base_world (Adapter (ex_mem 0)) [WithOverride ''/a'' ''x'', WithOverlayFs (Some (Adapter (ex_mem 0)))] =
   NewUnionFs ex_afero rev ex_base_world (Adapter (ex_mem 0)) [WithOverlayFs (Some (Adapter (ex_mem 0)))]"
  by (rule overlay_discards_overrides) (simp add: WithOverride_def WithOverlayFs_def, simp)

end
