(* ===== verification/HelmRender.thy ===== *)
theory HelmRender
  imports RenderCache
begin

text \<open>
  Rendering of Helm charts: the action of \<^verbatim>\<open>framework/controller/actions/render/helm\<close> and \<^verbatim>\<open>pkg/render/helm\<close> with its
  standalone \<^verbatim>\<open>Render\<close>. The Helm renderer is a parameter; transformers and post-renderers are opaque values of its types.
\<close>

section \<open>The renderer library\<close>

record ('t, 'p) RendererOptions =
  hoStrict :: bool
  hoTransformers :: "'t list"
  hoPostRenderers :: "'p list"

text \<open>\<open>hlNew\<close> is \<^verbatim>\<open>helm.New\<close>, \<open>hlProcess\<close> is \<^verbatim>\<open>Process\<close> with no values; both may read the charts from disk.\<close>

record ('t, 'p, 'r) helm_lib =
  hlNew :: "HelmChartInfo list \<Rightarrow> ('t, 'p) RendererOptions \<Rightarrow> go_error + 'r"
  hlProcess :: "'r \<Rightarrow> go_error + kobj list"
  hlAnnotationsSet :: "(string \<times> string) list \<Rightarrow> 't"
  hlLabelsSet :: "(string \<times> string) list \<Rightarrow> 't"
  hlApplyOrder :: 'p

section \<open>The Helm action of the framework\<close>

record ('w, 't) helm_action =
  haCacher :: "'w resource_cacher"
  haCache :: bool
  haLabels :: "(string \<times> string) list option"
  haAnnotations :: "(string \<times> string) list option"
  haTransformers :: "'t list"

type_synonym ('w, 't) helm_ActionOpts = "('w, 't) helm_action \<Rightarrow> ('w, 't) helm_action"

definition ha_WithLabel :: "string \<Rightarrow> string \<Rightarrow> ('w, 't) helm_ActionOpts" where
  "ha_WithLabel name value a = a\<lparr>haLabels := Some (put_pair name value (pairs (haLabels a)))\<rparr>"

definition ha_WithLabels :: "(string \<times> string) list \<Rightarrow> ('w, 't) helm_ActionOpts" where
  "ha_WithLabels m a = a\<lparr>haLabels := Some (copy_pairs m (pairs (haLabels a)))\<rparr>"

definition ha_WithAnnotation :: "string \<Rightarrow> string \<Rightarrow> ('w, 't) helm_ActionOpts" where
  "ha_WithAnnotation name value a = a\<lparr>haAnnotations := Some (put_pair name value (pairs (haAnnotations a)))\<rparr>"

definition ha_WithAnnotations :: "(string \<times> string) list \<Rightarrow> ('w, 't) helm_ActionOpts" where
  "ha_WithAnnotations m a = a\<lparr>haAnnotations := Some (copy_pairs m (pairs (haAnnotations a)))\<rparr>"

definition ha_WithCache :: "bool \<Rightarrow> ('w, 't) helm_ActionOpts" where
  "ha_WithCache enabled a = a\<lparr>haCache := enabled\<rparr>"

definition ha_WithTransformer :: "'t \<Rightarrow> ('w, 't) helm_ActionOpts" where
  "ha_WithTransformer t a = a\<lparr>haTransformers := haTransformers a @ [t]\<rparr>"

definition ha_WithTransformers :: "'t list \<Rightarrow> ('w, 't) helm_ActionOpts" where
  "ha_WithTransformers ts a = a\<lparr>haTransformers := haTransformers a @ ts\<rparr>"

definition ha_render :: "('t, 'p, 'r) helm_lib \<Rightarrow> ('w, 't) helm_action \<Rightarrow> ('w request, kobj list) on_request" where
  "ha_render hl a rr =
     (let o0 = \<lparr>hoStrict = True, hoTransformers = haTransformers a, hoPostRenderers = [hlApplyOrder hl]\<rparr>;
          o1 = (case haAnnotations a of None \<Rightarrow> o0 | Some m \<Rightarrow> o0\<lparr>hoTransformers := hoTransformers o0 @ [hlAnnotationsSet hl m]\<rparr>);
          o2 = (case haLabels a of None \<Rightarrow> o1 | Some m \<Rightarrow> o1\<lparr>hoTransformers := hoTransformers o1 @ [hlLabelsSet hl m]\<rparr>)
      in (rr, case hlNew hl (rrHelmCharts rr) o2 of Inl err \<Rightarrow> Inl err | Inr r \<Rightarrow> hlProcess hl r))"

definition ha_run :: "('t, 'p, 'r) helm_lib \<Rightarrow> ('w, 't) helm_action \<Rightarrow> 'w request \<Rightarrow> ('w, 't) helm_action \<times> 'w request \<times> go_error option" where
  "ha_run hl a rr =
     (if rrSkipDeploy rr then (a, rr, None)
      else case ResourceCacher_Render (haCacher a) rr (ha_render hl a) of (c, rr', err) \<Rightarrow> (a\<lparr>haCacher := c\<rparr>, rr', err))"

definition ha_NewAction :: "('w request, string) on_request \<Rightarrow> ('w, 't) helm_ActionOpts list \<Rightarrow> ('w, 't) helm_action" where
  "ha_NewAction hash opts =
     (let a = fold (\<lambda>opt a. opt a) opts
            \<lparr>haCacher = NewResourceCacher, haCache = True, haLabels = None, haAnnotations = None, haTransformers = []\<rparr>
      in if haCache a then a\<lparr>haCacher := cacher_SetKeyFn (haCacher a) (Some hash)\<rparr> else a)"

section \<open>Helm rendering of the root module\<close>

record 't helm_options =
  hpLabels :: "(string \<times> string) list option"
  hpAnnotations :: "(string \<times> string) list option"
  hpTransformers :: "'t list"

type_synonym 't helm_Option = "'t helm_options \<Rightarrow> 't helm_options"

definition hp_WithLabel :: "string \<Rightarrow> string \<Rightarrow> 't helm_Option" where
  "hp_WithLabel name value o0 = o0\<lparr>hpLabels := Some (put_pair name value (pairs (hpLabels o0)))\<rparr>"

definition hp_WithLabels :: "(string \<times> string) list \<Rightarrow> 't helm_Option" where
  "hp_WithLabels m o0 = o0\<lparr>hpLabels := Some (copy_pairs m (pairs (hpLabels o0)))\<rparr>"

definition hp_WithAnnotation :: "string \<Rightarrow> string \<Rightarrow> 't helm_Option" where
  "hp_WithAnnotation name value o0 = o0\<lparr>hpAnnotations := Some (put_pair name value (pairs (hpAnnotations o0)))\<rparr>"

definition hp_WithAnnotations :: "(string \<times> string) list \<Rightarrow> 't helm_Option" where
  "hp_WithAnnotations m o0 = o0\<lparr>hpAnnotations := Some (copy_pairs m (pairs (hpAnnotations o0)))\<rparr>"

definition hp_WithTransformer :: "'t \<Rightarrow> 't helm_Option" where
  "hp_WithTransformer t o0 = o0\<lparr>hpTransformers := hpTransformers o0 @ [t]\<rparr>"

definition hp_WithTransformers :: "'t list \<Rightarrow> 't helm_Option" where
  "hp_WithTransformers ts o0 = o0\<lparr>hpTransformers := hpTransformers o0 @ ts\<rparr>"

definition helm_Render :: "('t, 'p, 'r) helm_lib \<Rightarrow> HelmChartInfo list \<Rightarrow> 't helm_Option list \<Rightarrow> go_error + kobj list" where
  "helm_Render hl charts opts =
     (let p = fold (\<lambda>opt x. opt x) opts \<lparr>hpLabels = None, hpAnnotations = None, hpTransformers = []\<rparr>;
          o0 = \<lparr>hoStrict = True, hoTransformers = hpTransformers p, hoPostRenderers = [hlApplyOrder hl]\<rparr>;
          o1 = (case hpAnnotations p of None \<Rightarrow> o0 | Some m \<Rightarrow> o0\<lparr>hoTransformers := hoTransformers o0 @ [hlAnnotationsSet hl m]\<rparr>);
          o2 = (case hpLabels p of None \<Rightarrow> o1 | Some m \<Rightarrow> o1\<lparr>hoTransformers := hoTransformers o1 @ [hlLabelsSet hl m]\<rparr>)
      in case hlNew hl charts o2 of Inl err \<Rightarrow> Inl err | Inr r \<Rightarrow> hlProcess hl r)"

record ('w, 't) pkg_helm_action =
  phCacher :: "'w pkg_ResourceCacher"
  phOpts :: "'t helm_Option list"

definition ph_WithCache :: "('w render_request, string) on_request \<Rightarrow> bool \<Rightarrow> ('w, 't) pkg_helm_action \<Rightarrow> ('w, 't) pkg_helm_action" where
  "ph_WithCache hash enabled a = a\<lparr>phCacher := pkg_SetKeyFn (phCacher a) (if enabled then Some hash else None)\<rparr>"

definition ph_render :: "('t, 'p, 'r) helm_lib \<Rightarrow> ('w, 't) pkg_helm_action \<Rightarrow> ('w render_request, kobj list) on_request" where
  "ph_render hl a rr = (rr, helm_Render hl (rqHelmCharts rr) (phOpts a))"

definition ph_run ::
  "('t, 'p, 'r) helm_lib \<Rightarrow> ('w, 't) pkg_helm_action \<Rightarrow> 'w render_request \<Rightarrow> ('w, 't) pkg_helm_action \<times> 'w render_request \<times> go_error option" where
  "ph_run hl a rr =
     (case pkg_ResourceCacher_Render (phCacher a) rr (ph_render hl a) of (c, rr', err) \<Rightarrow> (a\<lparr>phCacher := c\<rparr>, rr', err))"

definition ph_NewAction ::
  "('w render_request, string) on_request \<Rightarrow> 't helm_Option list \<Rightarrow> (('w, 't) pkg_helm_action \<Rightarrow> ('w, 't) pkg_helm_action) list \<Rightarrow>
     ('w, 't) pkg_helm_action" where
  "ph_NewAction hash renderOpts actionOpts =
     fold (\<lambda>opt a. opt a) actionOpts \<lparr>phCacher = pkg_SetKeyFn pkg_NewResourceCacher (Some hash), phOpts = renderOpts\<rparr>"

section \<open>The two actions agree\<close>

datatype 't helm_opt = HLabel string string | HLabels "(string \<times> string) list" | HAnnotation string string
  | HAnnotations "(string \<times> string) list" | HTransformer 't | HTransformers "'t list"

fun fw_helm_opt :: "'t helm_opt \<Rightarrow> ('w, 't) helm_ActionOpts" where
  "fw_helm_opt (HLabel k v) = ha_WithLabel k v"
| "fw_helm_opt (HLabels m) = ha_WithLabels m"
| "fw_helm_opt (HAnnotation k v) = ha_WithAnnotation k v"
| "fw_helm_opt (HAnnotations m) = ha_WithAnnotations m"
| "fw_helm_opt (HTransformer t) = ha_WithTransformer t"
| "fw_helm_opt (HTransformers ts) = ha_WithTransformers ts"

fun pkg_helm_opt :: "'t helm_opt \<Rightarrow> 't helm_Option" where
  "pkg_helm_opt (HLabel k v) = hp_WithLabel k v"
| "pkg_helm_opt (HLabels m) = hp_WithLabels m"
| "pkg_helm_opt (HAnnotation k v) = hp_WithAnnotation k v"
| "pkg_helm_opt (HAnnotations m) = hp_WithAnnotations m"
| "pkg_helm_opt (HTransformer t) = hp_WithTransformer t"
| "pkg_helm_opt (HTransformers ts) = hp_WithTransformers ts"

lemma fold_helm_opts:
  assumes "hpLabels b = haLabels a" and "hpAnnotations b = haAnnotations a" and "hpTransformers b = haTransformers a" and "haCache a"
  shows "let a' = fold (\<lambda>opt x. opt x) (map fw_helm_opt opts) a; b' = fold (\<lambda>opt x. opt x) (map pkg_helm_opt opts) b
    in hpLabels b' = haLabels a' \<and> hpAnnotations b' = haAnnotations a' \<and> hpTransformers b' = haTransformers a' \<and> haCache a'"
  using assms
proof (induction opts arbitrary: a b)
  case (Cons x opts)
  then show ?case
    by (cases x) (simp_all add: ha_WithLabel_def ha_WithLabels_def ha_WithAnnotation_def ha_WithAnnotations_def ha_WithTransformer_def
        ha_WithTransformers_def hp_WithLabel_def hp_WithLabels_def hp_WithAnnotation_def hp_WithAnnotations_def hp_WithTransformer_def
        hp_WithTransformers_def)
qed simp

text \<open>Both actions give the Helm renderer the same charts and the same options: custom transformers first, then annotations, then labels.\<close>

theorem helm_actions_agree:
  fixes rr :: "'w request" and opts :: "'t helm_opt list"
  assumes "rqHelmCharts rq = rrHelmCharts rr"
  shows "snd (ha_render hl (ha_NewAction hash (map fw_helm_opt opts)) rr) = snd (ph_render hl (ph_NewAction hash' (map pkg_helm_opt opts) []) rq)"
proof -
  define i :: "('w, 't) helm_action"
    where "i = \<lparr>haCacher = NewResourceCacher, haCache = True, haLabels = None, haAnnotations = None, haTransformers = []\<rparr>"
  define a where "a = fold (\<lambda>opt a. opt a) (map fw_helm_opt opts) i"
  define p :: "'t helm_options"
    where "p = fold (\<lambda>opt x. opt x) (map pkg_helm_opt opts) \<lparr>hpLabels = None, hpAnnotations = None, hpTransformers = []\<rparr>"
  have f: "hpLabels p = haLabels a" "hpAnnotations p = haAnnotations a" "hpTransformers p = haTransformers a" "haCache a"
    using fold_helm_opts [of "\<lparr>hpLabels = None, hpAnnotations = None, hpTransformers = []\<rparr>" i opts]
    by (simp_all add: a_def p_def i_def Let_def)
  have "ha_NewAction hash (map fw_helm_opt opts) = a\<lparr>haCacher := cacher_SetKeyFn (haCacher a) (Some hash)\<rparr>"
    using f(4) by (simp add: ha_NewAction_def Let_def i_def [symmetric] a_def [symmetric])
  then show ?thesis
    by (cases "haLabels a"; cases "haAnnotations a")
      (simp_all add: ha_render_def ph_render_def helm_Render_def ph_NewAction_def Let_def assms f p_def [symmetric])
qed

end
