(* ===== verification/Sources.thy ===== *)
theory Sources
  imports GoErrors
begin

text \<open>
  Loading of raw bytes from a URL or a file (\<^verbatim>\<open>framework/resources/source.go\<close>), with the parts of \<^verbatim>\<open>io\<close>, \<^verbatim>\<open>io/fs\<close>
  and \<^verbatim>\<open>net/http\<close> that it uses. URL parsing, the transport and the file system are parameters.
\<close>

section \<open>Readers\<close>

text \<open>A reader is the bytes that can be read from it and the error that follows them, none at a regular end.\<close>

type_synonym byte_reader = "string \<times> go_error option"

definition LimitReader :: "nat \<Rightarrow> byte_reader \<Rightarrow> byte_reader" where
  "LimitReader n r = (if n \<le> length (fst r) then (take n (fst r), None) else r)"

definition ReadAll :: "byte_reader \<Rightarrow> go_error + string" where
  "ReadAll r = (case snd r of None \<Rightarrow> Inr (fst r) | Some err \<Rightarrow> Inl err)"

text \<open>Reading one byte more than allowed tells a body that fits from one that does not.\<close>

lemma bounded_read_whole:
  "ReadAll (LimitReader (n + 1) r) = Inr body \<and> \<not> length body > n \<longleftrightarrow> r = (body, None) \<and> length body \<le> n"
  by (cases r) (auto simp: LimitReader_def ReadAll_def split: option.splits)

lemma oversized_read:
  "length (fst r) > n \<Longrightarrow> ReadAll (LimitReader (n + 1) r) = Inr (take (n + 1) (fst r)) \<and> length (take (n + 1) (fst r)) > n"
  by (auto simp: LimitReader_def ReadAll_def)

section \<open>Sources behind a URL\<close>

record parsed_url =
  puScheme :: string
  puHost :: string
  puHasUser :: bool
  puString :: string
  puRedacted :: string

type_synonym url_parser = "string \<Rightarrow> go_error + parsed_url"

record http_request =
  hqMethod :: string
  hqURL :: string
  hqHeaders :: "(string \<times> string) list"
  hqBody :: "string option"

record http_response =
  hsStatus :: int
  hsBody :: byte_reader

text \<open>\<open>htNewRequest\<close> is the error of \<^verbatim>\<open>http.NewRequestWithContext\<close> for a URL, \<open>htDo\<close> the client.\<close>

record 'w http_lib =
  htNewRequest :: "string \<Rightarrow> go_error option"
  htDo :: "'w \<Rightarrow> http_request \<Rightarrow> 'w \<times> (go_error + http_response)"

definition NewURLSource :: "url_parser \<Rightarrow> string \<Rightarrow> go_error + parsed_url" where
  "NewURLSource parse raw =
     (case parse raw of
        Inl err \<Rightarrow> Inl (ErrWrap ''parse URL'' err)
      | Inr u \<Rightarrow>
          if puScheme u \<noteq> ''https'' then Inl (ErrNew (''URL scheme must be https, got '' @ quoted (puScheme u)))
          else if puHost u = '''' then Inl (ErrNew (''URL must have a non-empty host: '' @ quoted raw))
          else if puHasUser u then Inl (ErrNew ''URL must not contain credentials; use a separate auth mechanism'')
          else Inr u)"

definition manifestReadLimit :: nat where
  "manifestReadLimit = 50 * 2 ^ 20"

definition URLSource_Load :: "'w http_lib \<Rightarrow> parsed_url \<Rightarrow> 'w \<Rightarrow> 'w \<times> (go_error + string)" where
  "URLSource_Load ht u w =
     (case htNewRequest ht (puString u) of
        Some err \<Rightarrow> (w, Inl (ErrWrap (''build request for '' @ puRedacted u) err))
      | None \<Rightarrow>
          (case htDo ht w \<lparr>hqMethod = ''GET'', hqURL = puString u, hqHeaders = [], hqBody = None\<rparr> of
             (w', Inl err) \<Rightarrow> (w', Inl (ErrWrap (''fetch '' @ puRedacted u) err))
           | (w', Inr resp) \<Rightarrow>
               if hsStatus resp \<noteq> 200 then (w', Inl (ErrNew (''fetch '' @ puRedacted u @ '': HTTP '' @ itoa (hsStatus resp))))
               else (case ReadAll (LimitReader (manifestReadLimit + 1) (hsBody resp)) of
                       Inl err \<Rightarrow> (w', Inl (ErrWrap (''read body '' @ puRedacted u) err))
                     | Inr body \<Rightarrow>
                         if length body > manifestReadLimit
                         then (w', Inl (ErrNew (''fetch '' @ puRedacted u @ '': response body exceeds 50 MiB limit'')))
                         else (w', Inr body))))"

text \<open>
  C40: A manifest is loaded over a URL completely or not at all. From a URL that a source accepts, which uses HTTPS, names a host and
  carries no credentials, loading gives a body exactly when a request could be built, it was answered with status 200, and the
  answer ended regularly with that body, of at most 50 mebibytes.\<close>

theorem url_source_whole:
  assumes "NewURLSource parse raw = Inr u"
  shows "parse raw = Inr u \<and> puScheme u = ''https'' \<and> puHost u \<noteq> '''' \<and> \<not> puHasUser u \<and>
    (URLSource_Load ht u w = (w', Inr body) \<longleftrightarrow>
       htNewRequest ht (puString u) = None \<and>
       htDo ht w \<lparr>hqMethod = ''GET'', hqURL = puString u, hqHeaders = [], hqBody = None\<rparr> =
         (w', Inr \<lparr>hsStatus = 200, hsBody = (body, None)\<rparr>) \<and>
       length body \<le> 52428800)"
proof -
  have accepted: "parse raw = Inr u \<and> puScheme u = ''https'' \<and> puHost u \<noteq> '''' \<and> \<not> puHasUser u"
    using assms by (auto simp: NewURLSource_def split: sum.splits if_splits)
  obtain v r where fetched: "htDo ht w \<lparr>hqMethod = ''GET'', hqURL = puString u, hqHeaders = [], hqBody = None\<rparr> = (v, r)"
    by fastforce
  have "URLSource_Load ht u w = (w', Inr body) \<longleftrightarrow>
      htNewRequest ht (puString u) = None \<and> v = w' \<and>
      (\<exists>resp. r = Inr resp \<and> hsStatus resp = 200 \<and>
         ReadAll (LimitReader (manifestReadLimit + 1) (hsBody resp)) = Inr body \<and> \<not> length body > manifestReadLimit)"
    by (cases r) (auto simp: URLSource_Load_def fetched split: option.splits sum.splits if_splits)
  also have "\<dots> \<longleftrightarrow> htNewRequest ht (puString u) = None \<and> v = w' \<and>
      r = Inr \<lparr>hsStatus = 200, hsBody = (body, None)\<rparr> \<and> length body \<le> manifestReadLimit"
    unfolding bounded_read_whole by (auto intro: http_response.equality)
  finally show ?thesis
    using accepted by (auto simp: fetched manifestReadLimit_def)
qed

section \<open>Sources in a file\<close>

text \<open>\<^verbatim>\<open>fs.ValidPath\<close> on ASCII text.\<close>

function elems_ok :: "string \<Rightarrow> bool" where
  "elems_ok name =
     (let elem = takeWhile (\<lambda>c. c \<noteq> CHR ''/'') name
      in if elem = '''' \<or> elem = ''.'' \<or> elem = ''..'' then False
         else case dropWhile (\<lambda>c. c \<noteq> CHR ''/'') name of [] \<Rightarrow> True | c # rest \<Rightarrow> elems_ok rest)"
  by pat_completeness auto
termination
proof (relation "measure length")
  fix name elem c :: string and d rest
  assume "dropWhile (\<lambda>c. c \<noteq> CHR ''/'') name = d # rest"
  then have "length (d # rest) \<le> length name"
    by (metis length_dropWhile_le)
  then show "(rest, name) \<in> measure length"
    by simp
qed simp

declare elems_ok.simps [simp del]

definition ValidPath :: "string \<Rightarrow> bool" where
  "ValidPath name \<longleftrightarrow> name = ''.'' \<or> elems_ok name"

text \<open>\<open>readFile\<close> is \<^verbatim>\<open>fs.ReadFile\<close> on the file system of the source; \<^verbatim>\<open>NewFileSource\<close> uses the one at the root.\<close>

record FileSource =
  flReadFile :: "string \<Rightarrow> go_error + string"
  flPath :: string

definition NewFileSource :: "(string \<Rightarrow> go_error + string) \<Rightarrow> string \<Rightarrow> go_error + FileSource" where
  "NewFileSource dirFS path =
     (case path of
        [] \<Rightarrow> Inl (ErrNew (''path must be absolute, got '' @ quoted path))
      | c # stripped \<Rightarrow>
          if c \<noteq> CHR ''/'' then Inl (ErrNew (''path must be absolute, got '' @ quoted path))
          else if \<not> ValidPath stripped then Inl (ErrNew (''invalid path: '' @ quoted path))
          else Inr \<lparr>flReadFile = dirFS, flPath = stripped\<rparr>)"

definition FileSource_Load :: "FileSource \<Rightarrow> go_error + string" where
  "FileSource_Load s =
     (if \<not> ValidPath (flPath s) then Inl (ErrNew (''invalid path: '' @ quoted (flPath s)))
      else case flReadFile s (flPath s) of
             Inl err \<Rightarrow> Inl (ErrWrap (''read '' @ quoted (flPath s)) err)
           | Inr data \<Rightarrow> Inr data)"

text \<open>A path element names an entry of a directory.\<close>

definition clean_elem :: "string \<Rightarrow> bool" where
  "clean_elem elem \<longleftrightarrow> elem \<noteq> '''' \<and> elem \<noteq> ''.'' \<and> elem \<noteq> ''..'' \<and> CHR ''/'' \<notin> set elem"

fun join_elems :: "string list \<Rightarrow> string" where
  "join_elems [] = ''''"
| "join_elems [elem] = elem"
| "join_elems (elem # elems) = elem @ CHR ''/'' # join_elems elems"

lemma elems_ok_last:
  assumes "clean_elem elem"
  shows "elems_ok elem"
proof -
  have whole: "takeWhile (\<lambda>c. c \<noteq> CHR ''/'') elem = elem" "dropWhile (\<lambda>c. c \<noteq> CHR ''/'') elem = []"
    using assms by (auto simp: clean_elem_def takeWhile_eq_all_conv)
  show ?thesis
    using assms unfolding elems_ok.simps [of elem] Let_def whole by (simp add: clean_elem_def)
qed

lemma elems_ok_append:
  assumes "clean_elem elem"
  shows "elems_ok (elem @ CHR ''/'' # rest) \<longleftrightarrow> elems_ok rest"
proof -
  have "takeWhile (\<lambda>c. c \<noteq> CHR ''/'') (elem @ CHR ''/'' # rest) = elem"
    and "dropWhile (\<lambda>c. c \<noteq> CHR ''/'') (elem @ CHR ''/'' # rest) = CHR ''/'' # rest"
    using assms by (auto simp: clean_elem_def takeWhile_append dropWhile_append3 dropWhile_append)
  with assms show ?thesis
    by (subst elems_ok.simps) (simp add: clean_elem_def Let_def)
qed

lemma elems_ok_joined: "elems \<noteq> [] \<Longrightarrow> list_all clean_elem elems \<Longrightarrow> elems_ok (join_elems elems)"
  by (induction elems rule: join_elems.induct) (auto simp: elems_ok_last elems_ok_append)

lemma elems_ok_split: "elems_ok name \<Longrightarrow> \<exists>elems. elems \<noteq> [] \<and> list_all clean_elem elems \<and> name = join_elems elems"
proof (induction name rule: elems_ok.induct)
  case (1 name)
  define elem where "elem = takeWhile (\<lambda>c. c \<noteq> CHR ''/'') name"
  have "CHR ''/'' \<notin> set elem"
    by (auto simp: elem_def dest: set_takeWhileD)
  with "1.prems" have elem: "clean_elem elem"
    by (subst (asm) elems_ok.simps) (auto simp: clean_elem_def elem_def Let_def split: if_splits)
  show ?case
  proof (cases "dropWhile (\<lambda>c. c \<noteq> CHR ''/'') name")
    case Nil
    then have "name = elem"
      by (metis append_Nil2 elem_def takeWhile_dropWhile_id)
    with elem show ?thesis
      by (intro exI [of _ "[elem]"]) simp
  next
    case (Cons c rest)
    then have "c = CHR ''/''"
      using hd_dropWhile [of "\<lambda>c. c \<noteq> CHR ''/''" name] by simp
    with Cons have name: "name = elem @ CHR ''/'' # rest"
      by (metis elem_def takeWhile_dropWhile_id)
    with "1.prems" elem have "elems_ok rest"
      by (simp add: elems_ok_append)
    moreover from elem have "\<not> (elem = '''' \<or> elem = ''.'' \<or> elem = ''..'')"
      by (simp add: clean_elem_def)
    ultimately obtain elems where "elems \<noteq> []" "list_all clean_elem elems" "rest = join_elems elems"
      using "1.IH" [OF elem_def _ Cons] by blast
    with elem name show ?thesis
      by (intro exI [of _ "elem # elems"]) (cases elems; simp)
  qed
qed

definition clean_path :: "string \<Rightarrow> bool" where
  "clean_path p \<longleftrightarrow> p = ''.'' \<or> (\<exists>elems. elems \<noteq> [] \<and> list_all clean_elem elems \<and> p = join_elems elems)"

lemma ValidPath_clean: "ValidPath p \<longleftrightarrow> clean_path p"
  using elems_ok_joined elems_ok_split by (auto simp: ValidPath_def clean_path_def)

text \<open>
  A file source is an absolute path without detours. A path is accepted exactly when it is a slash followed by a dot or by path elements
  that are separated by single slashes and are none of them empty, a dot or two dots; and however a source was made, loading gives the
  content of a file only for such a path, so that no source reads outside its file system.\<close>

theorem file_source_paths:
  "(NewFileSource dirFS path = Inr s \<longleftrightarrow> (\<exists>p. path = CHR ''/'' # p \<and> clean_path p \<and> s = \<lparr>flReadFile = dirFS, flPath = p\<rparr>)) \<and>
   (FileSource_Load src = Inr data \<longleftrightarrow> clean_path (flPath src) \<and> flReadFile src (flPath src) = Inr data)"
  unfolding ValidPath_clean [symmetric]
  by (auto simp: NewFileSource_def FileSource_Load_def split: list.splits sum.splits if_splits)

section \<open>Examples\<close>

definition example_url :: parsed_url where
  "example_url = \<lparr>puScheme = ''https'', puHost = ''h'', puHasUser = False, puString = ''https://h/m'', puRedacted = ''https://h/m''\<rparr>"

definition example_http :: "nat http_lib" where
  "example_http = \<lparr>htNewRequest = (\<lambda>u. None), htDo = (\<lambda>n r. (n + 1, Inr \<lparr>hsStatus = 200, hsBody = (''kind: A'', None)\<rparr>))\<rparr>"

theorem url_source_whole_witness: "URLSource_Load example_http example_url 0 = (1, Inr ''kind: A'')"
proof -
  have "NewURLSource (\<lambda>r. Inr example_url) ''https://h/m'' = Inr example_url"
    by (simp add: NewURLSource_def example_url_def)
  from url_source_whole [OF this, of example_http 0 1 "''kind: A''"] show ?thesis
    by (simp add: example_http_def)
qed

end
