(* ===== verification/FlakyStore.thy ===== *)
theory FlakyStore
  imports Sources FlakyRun
begin

text \<open>
  The storage of the flakiness tool: the time-series store with its directory (\<^verbatim>\<open>flakiness/store.go\<close>) and the bucket client
  (\<^verbatim>\<open>flakiness/gcs.go\<close>). The database, the query engine, the storage service and the file system are parameters.
\<close>

section \<open>The time-series store\<close>

record storeConfig =
  soDir :: string
  soRetentionDuration :: duration
  soMaxSamples :: int
  soQueryTimeout :: duration

definition defaultStoreConfig :: storeConfig where
  "defaultStoreConfig = \<lparr>soDir = '''', soRetentionDuration = 15 * 24 * 3600 * second, soMaxSamples = 50000000, soQueryTimeout = 2 * 60 * second\<rparr>"

definition WithStorageDir :: "string \<Rightarrow> storeConfig \<Rightarrow> storeConfig" where
  "WithStorageDir dir c = c\<lparr>soDir := dir\<rparr>"

definition WithRetention :: "duration \<Rightarrow> storeConfig \<Rightarrow> storeConfig" where
  "WithRetention d c = c\<lparr>soRetentionDuration := d\<rparr>"

definition WithMaxSamples :: "int \<Rightarrow> storeConfig \<Rightarrow> storeConfig" where
  "WithMaxSamples n c = c\<lparr>soMaxSamples := n\<rparr>"

definition WithQueryTimeout :: "duration \<Rightarrow> storeConfig \<Rightarrow> storeConfig" where
  "WithQueryTimeout d c = c\<lparr>soQueryTimeout := d\<rparr>"

record EngineOpts =
  eoMaxSamples :: int
  eoTimeout :: duration
  eoEnableAtModifier :: bool
  eoEnableNegativeOffset :: bool

record 'db Store =
  tsDB :: 'db
  tsEngine :: EngineOpts
  tsDir :: string
  tsTmpDir :: bool

text \<open>
  \<open>slOpen\<close> opens a database in a directory, with the retention in milliseconds; \<open>slInstant\<close> and \<open>slRange\<close> prepare a
  query, \<open>slExec\<close> executes it and gives its result and error, \<open>slQueryClose\<close> releases it.
\<close>

record ('w, 'db, 'q, 'r) store_lib =
  slMkdirTemp :: "'w \<Rightarrow> string \<Rightarrow> 'w \<times> (go_error + string)"
  slRemoveAll :: "'w \<Rightarrow> string \<Rightarrow> 'w \<times> go_error option"
  slOpen :: "'w \<Rightarrow> string \<Rightarrow> int \<Rightarrow> 'w \<times> (go_error + 'db)"
  slClose :: "'w \<Rightarrow> 'db \<Rightarrow> 'w \<times> go_error option"
  slInstant :: "'w \<Rightarrow> EngineOpts \<Rightarrow> 'db \<Rightarrow> string \<Rightarrow> gotime \<Rightarrow> 'w \<times> (go_error + 'q)"
  slRange :: "'w \<Rightarrow> EngineOpts \<Rightarrow> 'db \<Rightarrow> string \<Rightarrow> gotime \<Rightarrow> gotime \<Rightarrow> duration \<Rightarrow> 'w \<times> (go_error + 'q)"
  slExec :: "'w \<Rightarrow> 'q \<Rightarrow> 'w \<times> 'r \<times> go_error option"
  slQueryClose :: "'w \<Rightarrow> 'q \<Rightarrow> 'w"

definition ErrInvalidRetention :: string where "ErrInvalidRetention = ''retention duration must be positive''"
definition ErrInvalidMaxSamples :: string where "ErrInvalidMaxSamples = ''max samples must be positive''"
definition ErrInvalidQueryTimeout :: string where "ErrInvalidQueryTimeout = ''query timeout must be positive''"

text \<open>The directory of a store: the configured one, or a temporary one.\<close>

definition storage_dir :: "('w, 'db, 'q, 'r) store_lib \<Rightarrow> storeConfig \<Rightarrow> 'w \<Rightarrow> 'w \<times> (go_error + string)" where
  "storage_dir sl cfg w = (if soDir cfg = '''' then slMkdirTemp sl w ''flakiness-tsdb-*'' else (w, Inr (soDir cfg)))"

definition NewStore ::
  "('w, 'db, 'q, 'r) store_lib \<Rightarrow> (storeConfig \<Rightarrow> storeConfig) list \<Rightarrow> 'w \<Rightarrow> 'w \<times> (go_error + 'db Store)" where
  "NewStore sl opts w =
     (let cfg = foldl (\<lambda>c f. f c) defaultStoreConfig opts
      in if soRetentionDuration cfg \<le> 0
         then (w, Inl (ErrSuffix (ErrSentinel ErrInvalidRetention) ('': got '' @ duration_str (soRetentionDuration cfg))))
         else if soMaxSamples cfg \<le> 0
         then (w, Inl (ErrSuffix (ErrSentinel ErrInvalidMaxSamples) ('': got '' @ itoa (soMaxSamples cfg))))
         else if soQueryTimeout cfg \<le> 0
         then (w, Inl (ErrSuffix (ErrSentinel ErrInvalidQueryTimeout) ('': got '' @ duration_str (soQueryTimeout cfg))))
         else case storage_dir sl cfg w of
                (w1, Inl mkErr) \<Rightarrow> (w1, Inl (ErrWrap ''creating temp directory'' mkErr))
              | (w1, Inr dir) \<Rightarrow>
                  let tmpDir = (soDir cfg = '''')
                  in case slOpen sl w1 dir (soRetentionDuration cfg div 1000000) of
                       (w2, Inl err) \<Rightarrow>
                         (if tmpDir then fst (slRemoveAll sl w2 dir) else w2, Inl (ErrWrap ''opening tsdb'' err))
                     | (w2, Inr db) \<Rightarrow>
                         (w2, Inr \<lparr>tsDB = db,
                            tsEngine = \<lparr>eoMaxSamples = soMaxSamples cfg, eoTimeout = soQueryTimeout cfg, eoEnableAtModifier = True,
                              eoEnableNegativeOffset = True\<rparr>,
                            tsDir = dir, tsTmpDir = tmpDir\<rparr>))"

definition InstantQuery :: "('w, 'db, 'q, 'r) store_lib \<Rightarrow> 'db Store \<Rightarrow> string \<Rightarrow> gotime \<Rightarrow> 'w \<Rightarrow> 'w \<times> (go_error + 'r)" where
  "InstantQuery sl s query ts w =
     (case slInstant sl w (tsEngine s) (tsDB s) query ts of
        (w1, Inl err) \<Rightarrow> (w1, Inl (ErrWrap ''creating instant query'' err))
      | (w1, Inr qry) \<Rightarrow>
          (case slExec sl w1 qry of
             (w2, res, Some err) \<Rightarrow> (slQueryClose sl w2 qry, Inl (ErrWrap ''executing instant query'' err))
           | (w2, res, None) \<Rightarrow> (slQueryClose sl w2 qry, Inr res)))"

definition RangeQuery ::
  "('w, 'db, 'q, 'r) store_lib \<Rightarrow> 'db Store \<Rightarrow> string \<Rightarrow> gotime \<Rightarrow> gotime \<Rightarrow> duration \<Rightarrow> 'w \<Rightarrow> 'w \<times> (go_error + 'r)" where
  "RangeQuery sl s query start stop interval w =
     (case slRange sl w (tsEngine s) (tsDB s) query start stop interval of
        (w1, Inl err) \<Rightarrow> (w1, Inl (ErrWrap ''creating range query'' err))
      | (w1, Inr qry) \<Rightarrow>
          (case slExec sl w1 qry of
             (w2, res, Some err) \<Rightarrow> (slQueryClose sl w2 qry, Inl (ErrWrap ''executing range query'' err))
           | (w2, res, None) \<Rightarrow> (slQueryClose sl w2 qry, Inr res)))"

text \<open>\<^verbatim>\<open>errors.Join\<close> drops nil errors.\<close>

definition Store_Close :: "('w, 'db, 'q, 'r) store_lib \<Rightarrow> 'db Store \<Rightarrow> 'w \<Rightarrow> 'w \<times> go_error option" where
  "Store_Close sl s w =
     (case slClose sl w (tsDB s) of
        (w1, err) \<Rightarrow>
          if tsTmpDir s
          then (case slRemoveAll sl w1 (tsDir s) of
                  (w2, Some removeErr) \<Rightarrow>
                    (w2, errors_Join ((case err of None \<Rightarrow> [] | Some e \<Rightarrow> [e]) @ [ErrWrap ''removing temp directory'' removeErr]))
                | (w2, None) \<Rightarrow> (w2, err))
          else (w1, err))"

text \<open>
  What is documented of the file system: \<open>dirs\<close> are the directories that exist, a temporary one is new, removing one that can be removed
  takes it away, and the database creates and removes none.
\<close>

definition directory_laws :: "('w, 'db, 'q, 'r) store_lib \<Rightarrow> ('w \<Rightarrow> string set) \<Rightarrow> bool" where
  "directory_laws sl dirs \<longleftrightarrow>
     (\<forall>w p. case slMkdirTemp sl w p of (w1, Inl err) \<Rightarrow> dirs w1 = dirs w | (w1, Inr d) \<Rightarrow> d \<notin> dirs w \<and> dirs w1 = insert d (dirs w)) \<and>
     (\<forall>w d. snd (slRemoveAll sl w d) = None \<longrightarrow> dirs (fst (slRemoveAll sl w d)) = dirs w - {d}) \<and>
     (\<forall>w d ms. dirs (fst (slOpen sl w d ms)) = dirs w) \<and>
     (\<forall>w db. dirs (fst (slClose sl w db)) = dirs w)"

definition store_config :: "(storeConfig \<Rightarrow> storeConfig) list \<Rightarrow> storeConfig" where
  "store_config opts = foldl (\<lambda>c f. f c) defaultStoreConfig opts"

lemma mkdir_law:
  assumes "directory_laws sl dirs" "slMkdirTemp sl w p = (w1, r)"
  shows "case r of Inl err \<Rightarrow> dirs w1 = dirs w | Inr d \<Rightarrow> d \<notin> dirs w \<and> dirs w1 = insert d (dirs w)"
proof -
  have "case slMkdirTemp sl w p of (w1, Inl err) \<Rightarrow> dirs w1 = dirs w | (w1, Inr d) \<Rightarrow> d \<notin> dirs w \<and> dirs w1 = insert d (dirs w)"
    using assms(1) [unfolded directory_laws_def, THEN conjunct1, rule_format, of w p] .
  then show ?thesis
    unfolding assms(2) by simp
qed

lemma open_law: "directory_laws sl dirs \<Longrightarrow> slOpen sl w d ms = (w1, r) \<Longrightarrow> dirs w1 = dirs w"
  unfolding directory_laws_def by (metis fst_conv)

lemma close_law: "directory_laws sl dirs \<Longrightarrow> slClose sl w db = (w1, r) \<Longrightarrow> dirs w1 = dirs w"
  unfolding directory_laws_def by (metis fst_conv)

lemma remove_law: "directory_laws sl dirs \<Longrightarrow> slRemoveAll sl w d = (w1, None) \<Longrightarrow> dirs w1 = dirs w - {d}"
  unfolding directory_laws_def by (metis fst_conv snd_conv)

text \<open>The directories after a store was created or not.\<close>

lemma NewStore_dirs:
  assumes laws: "directory_laws sl dirs" and removable: "\<forall>w d. snd (slRemoveAll sl w d) = None"
    and new: "NewStore sl opts w = (w1, r)"
  shows "case r of
      Inl err \<Rightarrow> dirs w1 = dirs w
    | Inr s \<Rightarrow> tsTmpDir s = (soDir (store_config opts) = '''') \<and>
        (if soDir (store_config opts) = '''' then tsDir s \<notin> dirs w \<and> dirs w1 = insert (tsDir s) (dirs w) else dirs w1 = dirs w)"
proof -
  define cfg where "cfg = store_config opts"
  obtain v dr where sd: "storage_dir sl cfg w = (v, dr)"
    by fastforce
  note new = new [unfolded NewStore_def Let_def store_config_def [symmetric] cfg_def [symmetric] sd prod.case]
  show ?thesis
  proof (cases "soRetentionDuration cfg \<le> 0 \<or> soMaxSamples cfg \<le> 0 \<or> soQueryTimeout cfg \<le> 0")
    case True
    with new show ?thesis
      by (auto split: if_splits)
  next
    case valid: False
    show ?thesis
    proof (cases dr)
      case (Inl err)
      with sd mkdir_law [OF laws, of w _ v dr] have "dirs v = dirs w"
        by (simp add: storage_dir_def split: if_splits)
      with new valid Inl show ?thesis
        by auto
    next
      case (Inr d)
      with sd mkdir_law [OF laws, of w _ v dr]
      have v: "if soDir cfg = '''' then d \<notin> dirs w \<and> dirs v = insert d (dirs w) else dirs v = dirs w"
        by (auto simp: storage_dir_def split: if_splits)
      obtain u o' where op: "slOpen sl v d (soRetentionDuration cfg div 1000000) = (u, o')"
        by fastforce
      obtain x where rm: "slRemoveAll sl u d = (x, None)"
        using removable by (metis prod.collapse)
      from open_law [OF laws op] remove_law [OF laws rm] v new valid Inr show ?thesis
        by (cases o') (auto simp: op rm cfg_def [symmetric])
    qed
  qed
qed

lemma Store_Close_dirs:
  assumes laws: "directory_laws sl dirs" and removable: "\<forall>w d. snd (slRemoveAll sl w d) = None"
  shows "dirs (fst (Store_Close sl s w)) = (if tsTmpDir s then dirs w - {tsDir s} else dirs w)"
proof -
  obtain v err where cl: "slClose sl w (tsDB s) = (v, err)"
    by fastforce
  obtain x where rm: "slRemoveAll sl v (tsDir s) = (x, None)"
    using removable by (metis prod.collapse)
  from close_law [OF laws cl] remove_law [OF laws rm] show ?thesis
    by (simp add: Store_Close_def cl rm)
qed

text \<open>
  A store leaves no directory behind. As long as directories can be removed, creating a store that fails, at whatever point, leaves the directories as they
  were; a store without a storage directory works in a new one, and closing it, with or without an error of the database, removes
  exactly that one; a store with a storage directory creates and removes none.\<close>

theorem store_leaves_no_directory:
  assumes laws: "directory_laws sl dirs" and removable: "\<forall>w d. snd (slRemoveAll sl w d) = None"
  shows "case NewStore sl opts w of
      (w1, Inl err) \<Rightarrow> dirs w1 = dirs w
    | (w1, Inr s) \<Rightarrow>
        (if soDir (store_config opts) = '''' then tsDir s \<notin> dirs w \<and> dirs w1 = insert (tsDir s) (dirs w) else dirs w1 = dirs w) \<and>
        dirs (fst (Store_Close sl s w2)) = (if soDir (store_config opts) = '''' then dirs w2 - {tsDir s} else dirs w2)"
proof -
  obtain w1 r where new: "NewStore sl opts w = (w1, r)"
    by fastforce
  from NewStore_dirs [OF laws removable new] Store_Close_dirs [OF laws removable] show ?thesis
    unfolding new by (cases r) auto
qed

section \<open>The bucket client\<close>

text \<open>
  \<open>gcObjects\<close> are the names that the iterator of a query gives and the error that ends it, none when it is done; \<open>gcOpen\<close> opens the
  content of an object.
\<close>

record ('w, 'c, 'opt) gcs_lib =
  gcNewClient :: "'w \<Rightarrow> 'opt list \<Rightarrow> 'w \<times> (go_error + 'c)"
  gcWithoutAuthentication :: 'opt
  gcObjects :: "'w \<Rightarrow> 'c \<Rightarrow> string \<Rightarrow> string \<Rightarrow> 'w \<times> string list \<times> go_error option"
  gcOpen :: "'w \<Rightarrow> 'c \<Rightarrow> string \<Rightarrow> string \<Rightarrow> 'w \<times> (go_error + byte_reader)"
  gcClose :: "'w \<Rightarrow> 'c \<Rightarrow> 'w \<times> go_error option"

definition WithAnonymous :: "('w, 'c, 'opt) gcs_lib \<Rightarrow> 'opt list \<Rightarrow> 'opt list" where
  "WithAnonymous gl clientOpts = clientOpts @ [gcWithoutAuthentication gl]"

definition WithGCSClientOption :: "'opt \<Rightarrow> 'opt list \<Rightarrow> 'opt list" where
  "WithGCSClientOption opt clientOpts = clientOpts @ [opt]"

definition NewGCSClient :: "('w, 'c, 'opt) gcs_lib \<Rightarrow> ('opt list \<Rightarrow> 'opt list) list \<Rightarrow> 'w \<Rightarrow> 'w \<times> (go_error + 'c)" where
  "NewGCSClient gl opts w =
     (case gcNewClient gl w (foldl (\<lambda>c f. f c) [] opts) of
        (w1, Inl err) \<Rightarrow> (w1, Inl (ErrWrap ''creating GCS client'' err))
      | (w1, Inr client) \<Rightarrow> (w1, Inr client))"

text \<open>The names read before an error are returned with it.\<close>

definition ListObjects :: "('w, 'c, 'opt) gcs_lib \<Rightarrow> 'c \<Rightarrow> 'w \<Rightarrow> string \<Rightarrow> string \<Rightarrow> 'w \<times> string list \<times> go_error option" where
  "ListObjects gl g w bucket prefix =
     (case gcObjects gl w g bucket prefix of
        (w1, names, None) \<Rightarrow> (w1, names, None)
      | (w1, names, Some err) \<Rightarrow> (w1, names, Some (ErrWrap (''listing objects in gs://'' @ bucket @ ''/'' @ prefix) err)))"

definition maxObjectSize :: nat where
  "maxObjectSize = 64 * 2 ^ 20"

definition ReadObject :: "('w, 'c, 'opt) gcs_lib \<Rightarrow> 'c \<Rightarrow> 'w \<Rightarrow> string \<Rightarrow> string \<Rightarrow> 'w \<times> (go_error + string)" where
  "ReadObject gl g w bucket name =
     (case gcOpen gl w g bucket name of
        (w1, Inl err) \<Rightarrow> (w1, Inl (ErrWrap (''opening gs://'' @ bucket @ ''/'' @ name) err))
      | (w1, Inr r) \<Rightarrow>
          (case ReadAll (LimitReader (maxObjectSize + 1) r) of
             Inl err \<Rightarrow> (w1, Inl (ErrWrap (''reading gs://'' @ bucket @ ''/'' @ name) err))
           | Inr data \<Rightarrow>
               if length data > maxObjectSize
               then (w1, Inl (ErrNew (''object gs://'' @ bucket @ ''/'' @ name @ '' exceeds max size '' @ nat_str maxObjectSize @ '' bytes'')))
               else (w1, Inr data)))"

definition GCSClient_Close :: "('w, 'c, 'opt) gcs_lib \<Rightarrow> 'c \<Rightarrow> 'w \<Rightarrow> 'w \<times> go_error option" where
  "GCSClient_Close gl g w =
     (case gcClose gl w g of (w1, None) \<Rightarrow> (w1, None) | (w1, Some err) \<Rightarrow> (w1, Some (ErrWrap ''closing GCS client'' err)))"

text \<open>
  An artifact is read completely or not at all: reading gives data exactly when the object could be opened, its content ended without
  an error and is that data, of at most 64 mebibytes. A truncated artifact never reaches the analysis.\<close>

theorem object_read_whole:
  "ReadObject gl g w bucket name = (w1, Inr data) \<longleftrightarrow>
     gcOpen gl w g bucket name = (w1, Inr (data, None)) \<and> length data \<le> 67108864"
proof -
  obtain v r where op: "gcOpen gl w g bucket name = (v, r)"
    by fastforce
  have "ReadObject gl g w bucket name = (w1, Inr data) \<longleftrightarrow>
      v = w1 \<and> (\<exists>rd. r = Inr rd \<and> ReadAll (LimitReader (maxObjectSize + 1) rd) = Inr data \<and> \<not> length data > maxObjectSize)"
    by (cases r) (auto simp: ReadObject_def op split: sum.splits if_splits)
  also have "\<dots> \<longleftrightarrow> v = w1 \<and> r = Inr (data, None) \<and> length data \<le> maxObjectSize"
    unfolding bounded_read_whole by auto
  finally show ?thesis
    by (auto simp: op maxObjectSize_def)
qed

section \<open>Examples\<close>

text \<open>A world of directories, and a database that refuses a retention below ten milliseconds.\<close>

definition example_store :: "(string list, unit, unit, unit) store_lib" where
  "example_store = \<lparr>slMkdirTemp = (\<lambda>w p. let d = concat w @ ''t'' in (d # w, Inr d)),
     slRemoveAll = (\<lambda>w d. (removeAll d w, None)),
     slOpen = (\<lambda>w d ms. (w, if ms < 10 then Inl (ErrNew ''locked'') else Inr ())), slClose = (\<lambda>w db. (w, None)),
     slInstant = (\<lambda>w e db q t. (w, Inr ())), slRange = (\<lambda>w e db q a b i. (w, Inr ())), slExec = (\<lambda>w q. (w, (), None)),
     slQueryClose = (\<lambda>w q. w)\<rparr>"

theorem store_leaves_no_directory_witness:
  "case NewStore example_store [WithRetention 5000000] [''data''] of
     (w, Inl err) \<Rightarrow> set w = {''data''} | (w, Inr s) \<Rightarrow> False"
proof -
  have "directory_laws example_store set"
    by (auto simp: directory_laws_def example_store_def Let_def)
  from store_leaves_no_directory [OF this, where opts = "[WithRetention 5000000]" and w = "[''data'']"]
  have "case NewStore example_store [WithRetention 5000000] [''data''] of (w, Inl err) \<Rightarrow> set w = {''data''} | (w, Inr s) \<Rightarrow> True"
    by (auto simp: example_store_def split: prod.splits sum.splits)
  moreover have "isl (snd (NewStore example_store [WithRetention 5000000] [''data'']))"
    by code_simp
  ultimately show ?thesis
    by (auto split: prod.splits sum.splits)
qed

end
