(* ===== verification/Jira.thy ===== *)
theory Jira
  imports Budget_Correct KObject Sources
begin

text \<open>
  The Jira client of the flakiness tool, \<^verbatim>\<open>flakiness/jira\<close>: its configuration and the validation of it, the token warning
  with the integers of the machine, and the requests it makes. The HTTP transport, JSON, base64 and URL parsing are parameters.
  The client provides the two operations that the reconciliation of the quarantine calls.
\<close>

section \<open>Configuration\<close>

record jira_config =
  jcAPIURL :: string
  jcUserEmail :: string
  jcProjectKey :: string
  jcIssueType :: string
  jcComponent :: string
  jcLabels :: "string list"
  jcAPIToken :: string
  jcTokenExpiresAt :: gotime
  jcTokenExpiryWarningDays :: int
  jcQuarantineDuration :: duration

definition defaultTokenExpiryWarningDays :: int where
  "defaultTokenExpiryWarningDays = 14"

definition validHTTPSURL :: "url_parser \<Rightarrow> string \<Rightarrow> bool" where
  "validHTTPSURL parse raw =
     (case parse (trim_space raw) of Inl err \<Rightarrow> False | Inr u \<Rightarrow> puScheme u = ''https'' \<and> puHost u \<noteq> '''')"

definition jira_Validate :: "url_parser \<Rightarrow> jira_config \<Rightarrow> go_error option" where
  "jira_Validate parse c =
     (if trim_space (jcAPIURL c) = '''' then Some (ErrNew ''jira: APIURL is required'')
      else if \<not> validHTTPSURL parse (jcAPIURL c) then Some (ErrNew ''jira: APIURL must be an absolute HTTPS URL with a non-empty host'')
      else if trim_space (jcUserEmail c) = '''' then Some (ErrNew ''jira: UserEmail is required'')
      else if trim_space (jcProjectKey c) = '''' then Some (ErrNew ''jira: ProjectKey is required'')
      else if trim_space (jcIssueType c) = '''' then Some (ErrNew ''jira: IssueType is required'')
      else if trim_space (jcAPIToken c) = '''' then Some (ErrNew ''jira: APIToken is required'')
      else None)"

text \<open>\<^verbatim>\<open>FromFlakinessConfig\<close> returns a configuration and an error; \<open>ceGetenv\<close> and \<open>ceRFC3339\<close> are the environment and \<^verbatim>\<open>time.Parse\<close>.\<close>

definition zero_jira_config :: jira_config where
  "zero_jira_config = \<lparr>jcAPIURL = '''', jcUserEmail = '''', jcProjectKey = '''', jcIssueType = '''', jcComponent = '''', jcLabels = [],
     jcAPIToken = '''', jcTokenExpiresAt = 0, jcTokenExpiryWarningDays = 0, jcQuarantineDuration = 0\<rparr>"

definition FromFlakinessConfig :: "config_env \<Rightarrow> url_parser \<Rightarrow> JiraConfig \<Rightarrow> jira_config \<times> go_error option" where
  "FromFlakinessConfig env parse fc =
     (let token = (if jiTokenEnv fc \<noteq> '''' then ceGetenv env (jiTokenEnv fc) else '''');
          cfg = \<lparr>jcAPIURL = jiAPIURL fc, jcUserEmail = jiUserEmail fc, jcProjectKey = jiProject fc, jcIssueType = jiIssueType fc,
            jcComponent = jiComponent fc, jcLabels = jiLabels fc, jcAPIToken = token, jcTokenExpiresAt = 0,
            jcTokenExpiryWarningDays = jiTokenExpiryWarningDays fc, jcQuarantineDuration = jiQuarantineDuration fc\<rparr>
      in if jiTokenExpiresAt fc \<noteq> ''''
         then (case ceRFC3339 env (jiTokenExpiresAt fc) of
                 Inl err \<Rightarrow> (zero_jira_config, Some (ErrWrap ''parsing token_expires_at'' err))
               | Inr t \<Rightarrow> let cfg' = cfg\<lparr>jcTokenExpiresAt := t\<rparr> in (cfg', jira_Validate parse cfg'))
         else (cfg, jira_Validate parse cfg))"

text \<open>A product of durations wraps around at 64 bits.\<close>

definition wrap64 :: "int \<Rightarrow> int" where
  "wrap64 n = (n + 2 ^ 63) mod 2 ^ 64 - 2 ^ 63"

definition Hour :: duration where "Hour = 3600000000000"

definition TokenExpirySoon :: "jira_config \<Rightarrow> gotime \<Rightarrow> bool" where
  "TokenExpirySoon c now =
     (if jcTokenExpiresAt c = 0 then False
      else let days = (if jcTokenExpiryWarningDays c \<le> 0 then defaultTokenExpiryWarningDays else jcTokenExpiryWarningDays c)
           in jcTokenExpiresAt c < now + wrap64 (wrap64 (days * 24) * Hour))"

section \<open>Requests\<close>

text \<open>
  \<open>jlHttp\<close> is the HTTP client, \<open>jlEncode\<close> the JSON encoder, \<open>jlDecodeKey\<close> and \<open>jlDecodeStatus\<close> decode an answer; \<open>jlDate\<close> formats a time as a date, \<open>jlPercent\<close> a rate times 100 with one decimal.
\<close>

record 'w jira_lib =
  jlHttp :: "'w http_lib"
  jlEncode :: "json \<Rightarrow> go_error + string"
  jlBase64 :: "string \<Rightarrow> string"
  jlPathEscape :: "string \<Rightarrow> string"
  jlDate :: "gotime \<Rightarrow> string"
  jlPercent :: "rat \<Rightarrow> string"
  jlNow :: "'w \<Rightarrow> gotime"
  jlDecodeKey :: "byte_reader \<Rightarrow> go_error + string"
  jlDecodeStatus :: "byte_reader \<Rightarrow> go_error + string"

definition jira_NewClient :: "url_parser \<Rightarrow> jira_config \<Rightarrow> go_error + jira_config" where
  "jira_NewClient parse cfg = (case jira_Validate parse cfg of Some err \<Rightarrow> Inl err | None \<Rightarrow> Inr cfg)"

text \<open>The snippet of an unexpected answer is what can be read of its first 512 bytes; \<open>decode\<close> reads at most one mebibyte.\<close>

definition jira_request :: "'w jira_lib \<Rightarrow> jira_config \<Rightarrow> string \<Rightarrow> string \<Rightarrow> string option \<Rightarrow> http_request" where
  "jira_request jl c method path body =
     \<lparr>hqMethod = method, hqURL = jcAPIURL c @ path,
      hqHeaders = [(''Authorization'', ''Basic '' @ jlBase64 jl (jcUserEmail c @ '':'' @ jcAPIToken c)),
        (''Content-Type'', ''application/json''), (''Accept'', ''application/json'')],
      hqBody = body\<rparr>"

definition jira_do ::
  "'w jira_lib \<Rightarrow> jira_config \<Rightarrow> 'w \<Rightarrow> string \<Rightarrow> string \<Rightarrow> json option \<Rightarrow> (byte_reader \<Rightarrow> go_error + 'a) option \<Rightarrow> 'w \<times> (go_error + 'a option)" where
  "jira_do jl c w method path reqBody decode =
     (case (case reqBody of None \<Rightarrow> Inr None | Some j \<Rightarrow> map_sum (ErrWrap ''encoding request'') Some (jlEncode jl j)) of
        Inl err \<Rightarrow> (w, Inl err)
      | Inr body \<Rightarrow>
          (case htNewRequest (jlHttp jl) (jcAPIURL c @ path) of
             Some err \<Rightarrow> (w, Inl (ErrWrap ''building request'' err))
           | None \<Rightarrow>
               (case htDo (jlHttp jl) w (jira_request jl c method path body) of
                    (w', Inl err) \<Rightarrow> (w', Inl (ErrWrap ''executing request'' err))
                  | (w', Inr resp) \<Rightarrow>
                      if hsStatus resp < 200 \<or> hsStatus resp \<ge> 300
                      then (w', Inl (ErrNew (''unexpected status '' @ itoa (hsStatus resp) @ '': '' @ trim_space (fst (LimitReader 512 (hsBody resp))))))
                      else (case decode of
                              None \<Rightarrow> (w', Inr None)
                            | Some d \<Rightarrow>
                                (case d (LimitReader (2 ^ 20) (hsBody resp)) of
                                   Inl err \<Rightarrow> (w', Inl (ErrWrap ''decoding response'' err))
                                 | Inr x \<Rightarrow> (w', Inr (Some x)))))))"

definition adf_text :: "string \<Rightarrow> json" where
  "adf_text t = JMap [(''type'', JString ''text''), (''text'', JString t)]"

definition adfDoc :: "string \<Rightarrow> json" where
  "adfDoc text = JMap [(''type'', JString ''doc''), (''version'', JInt 1),
     (''content'', JList [JMap [(''type'', JString ''paragraph''), (''content'', JList [adf_text text])]])]"

definition description_fields :: "'w jira_lib \<Rightarrow> QuarantineEntry \<Rightarrow> gotime \<Rightarrow> gotime \<Rightarrow> (string \<times> string) list" where
  "description_fields jl entry quarantinedAt reenableAt =
     [(''Test'', qeName entry)] @
     (if qeSuite entry \<noteq> '''' then [(''Suite'', qeSuite entry)] else []) @
     (if qeJob entry \<noteq> '''' then [(''Job'', qeJob entry)] else []) @
     [(''Flake rate'', jlPercent jl (qeFlakeRate entry) @ ''% ('' @ itoa (qeFailedRuns entry) @ ''/'' @ itoa (qeTotalRuns entry) @ '' runs failed)'')] @
     (if qeLastFailed entry \<noteq> 0 then [(''Last failed'', jlDate jl (qeLastFailed entry))] else []) @
     [(''Quarantined'', jlDate jl quarantinedAt)] @
     (if reenableAt \<noteq> quarantinedAt then [(''Expected re-enable'', jlDate jl reenableAt)] else [])"

definition adf_paragraph :: "string \<times> string \<Rightarrow> json" where
  "adf_paragraph f = JMap [(''type'', JString ''paragraph''),
     (''content'', JList [JMap [(''type'', JString ''text''), (''text'', JString (fst f @ '': '')), (''marks'', JList [JMap [(''type'', JString ''strong'')]])],
        adf_text (snd f)])]"

definition descriptionADF :: "'w jira_lib \<Rightarrow> QuarantineEntry \<Rightarrow> gotime \<Rightarrow> gotime \<Rightarrow> json" where
  "descriptionADF jl entry quarantinedAt reenableAt =
     JMap [(''type'', JString ''doc''), (''version'', JInt 1),
       (''content'', JList (map adf_paragraph (description_fields jl entry quarantinedAt reenableAt)))]"

definition bug_fields :: "'w jira_lib \<Rightarrow> jira_config \<Rightarrow> gotime \<Rightarrow> QuarantineEntry \<Rightarrow> json" where
  "bug_fields jl c now entry =
     JMap ([(''project'', JMap [(''key'', JString (jcProjectKey c))]),
        (''summary'', JString (''[Flaky Test] '' @ qeName entry @ '' ('' @ jlPercent jl (qeFlakeRate entry) @ ''% flake rate)'')),
        (''issuetype'', JMap [(''name'', JString (jcIssueType c))]),
        (''description'', descriptionADF jl entry now (now + jcQuarantineDuration c))] @
       (if jcComponent c \<noteq> '''' then [(''components'', JList [JMap [(''name'', JString (jcComponent c))]])] else []) @
       (if length (jcLabels c) > 0 then [(''labels'', JList (map JString (jcLabels c)))] else []))"

definition CreateBug :: "'w jira_lib \<Rightarrow> jira_config \<Rightarrow> 'w \<Rightarrow> QuarantineEntry \<Rightarrow> 'w \<times> (go_error + string)" where
  "CreateBug jl c w entry =
     (case jira_do jl c w ''POST'' ''/rest/api/3/issue'' (Some (JMap [(''fields'', bug_fields jl c (jlNow jl w) entry)])) (Some (jlDecodeKey jl)) of
        (w', Inl err) \<Rightarrow> (w', Inl (ErrWrap (''creating jira bug for '' @ quoted (qeName entry)) err))
      | (w', Inr r) \<Rightarrow> (w', Inr (case r of None \<Rightarrow> '''' | Some k \<Rightarrow> k)))"

definition jira_GetStatus :: "'w jira_lib \<Rightarrow> jira_config \<Rightarrow> 'w \<Rightarrow> string \<Rightarrow> 'w \<times> (go_error + string)" where
  "jira_GetStatus jl c w key =
     (case jira_do jl c w ''GET'' (''/rest/api/3/issue/'' @ jlPathEscape jl key @ ''?fields=status'') None (Some (jlDecodeStatus jl)) of
        (w', Inl err) \<Rightarrow> (w', Inl (ErrWrap (''getting status for '' @ quoted key) err))
      | (w', Inr r) \<Rightarrow> (w', Inr (case r of None \<Rightarrow> '''' | Some s \<Rightarrow> s)))"

definition AddComment :: "'w jira_lib \<Rightarrow> jira_config \<Rightarrow> 'w \<Rightarrow> string \<Rightarrow> string \<Rightarrow> 'w \<times> go_error option" where
  "AddComment jl c w key text =
     (case jira_do jl c w ''POST'' (''/rest/api/3/issue/'' @ jlPathEscape jl key @ ''/comment'') (Some (JMap [(''body'', adfDoc text)]))
             (None :: (byte_reader \<Rightarrow> go_error + unit) option) of
        (w', Inl err) \<Rightarrow> (w', Some (ErrWrap (''adding comment to '' @ quoted key) err))
      | (w', Inr r) \<Rightarrow> (w', None))"

text \<open>The client as the reconciliation of the quarantine uses it.\<close>

definition jira_filer :: "'w jira_lib \<Rightarrow> jira_config \<Rightarrow> 'w JiraFiler" where
  "jira_filer jl c = \<lparr>jfCreateBug = CreateBug jl c, jfGetStatus = jira_GetStatus jl c\<rparr>"

section \<open>The token warning\<close>

text \<open>The product of at most 106751 days does not wrap around.\<close>

lemma warning_window_exact: "0 < d \<Longrightarrow> d \<le> 106751 \<Longrightarrow> wrap64 (wrap64 (d * 24) * Hour) = d * 24 * Hour"
  by (simp add: wrap64_def Hour_def)

lemma checkTokenExpiry_silent:
  assumes "ceRFC3339 (rwConfig rw) (jiTokenExpiresAt j) = Inr t" "jiTokenExpiresAt j \<noteq> ''''"
  shows "checkTokenExpiry rw j now = '''' \<longleftrightarrow> now < rwAddDays rw t (- (if jiTokenExpiryWarningDays j \<le> 0 then 14 else jiTokenExpiryWarningDays j))"
  using assms by (simp add: checkTokenExpiry_def Let_def)

lemma FromFlakinessConfig_fields:
  assumes "FromFlakinessConfig env parse fc = (c, None)" "ceRFC3339 env (jiTokenExpiresAt fc) = Inr t" "jiTokenExpiresAt fc \<noteq> ''''"
  shows "jcTokenExpiresAt c = t" "jcTokenExpiryWarningDays c = jiTokenExpiryWarningDays fc"
  using assms by (auto simp: FromFlakinessConfig_def Let_def)

text \<open>
  The two checks of the token agree. The tool prints its own warning (\<^verbatim>\<open>TokenExpirySoon\<close> of the client's configuration) and a run
  reports another (\<^verbatim>\<open>checkTokenExpiry\<close>). For a configuration that was accepted, with a window of at most 106751 days and days of
  24 hours, they warn at the same times, except for the first instant of the window, where only the run warns.\<close>

theorem token_warnings_agree:
  assumes accepted: "FromFlakinessConfig (rwConfig rw) parse fc = (c, None)"
    and tracked: "jiTokenExpiresAt fc \<noteq> ''''" "ceRFC3339 (rwConfig rw) (jiTokenExpiresAt fc) = Inr t" "t \<noteq> 0"
    and window: "jiTokenExpiryWarningDays fc \<le> 106751"
    and days: "rwAddDays rw t = (\<lambda>n. t + n * 24 * Hour)"
  shows "TokenExpirySoon c now \<longleftrightarrow>
    checkTokenExpiry rw fc now \<noteq> '''' \<and>
    now \<noteq> t - (if jiTokenExpiryWarningDays fc \<le> 0 then 14 else jiTokenExpiryWarningDays fc) * 24 * Hour"
proof -
  note cfg = FromFlakinessConfig_fields [OF accepted tracked(2,1)]
  define d where "d = (if jiTokenExpiryWarningDays fc \<le> 0 then 14 else jiTokenExpiryWarningDays fc)"
  have "0 < d" "d \<le> 106751"
    using window by (auto simp: d_def)
  then have "TokenExpirySoon c now \<longleftrightarrow> t < now + d * 24 * Hour"
    using tracked(3) warning_window_exact [of d]
    by (auto simp: TokenExpirySoon_def cfg d_def defaultTokenExpiryWarningDays_def)
  moreover have "checkTokenExpiry rw fc now \<noteq> '''' \<longleftrightarrow> t \<le> now + d * 24 * Hour"
    using checkTokenExpiry_silent [OF tracked(2,1), of now] by (auto simp: days d_def [symmetric])
  ultimately show ?thesis
    unfolding d_def [symmetric] by auto
qed

section \<open>Requests and their answers\<close>

lemma jira_do_ok:
  "jira_do jl c w method path (Some j) (Some d) = (w', Inr r) \<longleftrightarrow>
     (\<exists>body resp x. jlEncode jl j = Inr body \<and> htNewRequest (jlHttp jl) (jcAPIURL c @ path) = None \<and>
        htDo (jlHttp jl) w (jira_request jl c method path (Some body)) = (w', Inr resp) \<and>
        200 \<le> hsStatus resp \<and> hsStatus resp < 300 \<and> d (LimitReader (2 ^ 20) (hsBody resp)) = Inr x \<and> r = Some x)"
proof (cases "jlEncode jl j")
  case (Inr body)
  then show ?thesis
    by (auto simp: jira_do_def split: sum.splits option.splits prod.splits if_splits)
qed (simp add: jira_do_def)

text \<open>
  A ticket is a fact of the issue tracker. Filing a bug gives a key exactly when the encoded entry was posted once, with the
  credentials of the configuration, to the issue endpoint of the configured server, the answer had a success status and its
  first mebibyte decodes to that key.\<close>

theorem ticket_filed_on_success:
  "CreateBug jl c w entry = (w', Inr key) \<longleftrightarrow>
     (\<exists>body resp. jlEncode jl (JMap [(''fields'', bug_fields jl c (jlNow jl w) entry)]) = Inr body \<and>
        htNewRequest (jlHttp jl) (jcAPIURL c @ ''/rest/api/3/issue'') = None \<and>
        htDo (jlHttp jl) w (jira_request jl c ''POST'' ''/rest/api/3/issue'' (Some body)) = (w', Inr resp) \<and>
        200 \<le> hsStatus resp \<and> hsStatus resp < 300 \<and> jlDecodeKey jl (LimitReader (2 ^ 20) (hsBody resp)) = Inr key)"
proof -
  define r where "r = jira_do jl c w ''POST'' ''/rest/api/3/issue''
    (Some (JMap [(''fields'', bug_fields jl c (jlNow jl w) entry)])) (Some (jlDecodeKey jl))"
  have "r \<noteq> (v, Inr None)" for v
    unfolding r_def jira_do_ok by simp
  then have "CreateBug jl c w entry = (w', Inr key) \<longleftrightarrow> r = (w', Inr (Some key))"
    unfolding CreateBug_def r_def [symmetric] by (cases r) (auto split: sum.splits option.splits)
  then show ?thesis
    unfolding r_def jira_do_ok by auto
qed

text \<open>
  The server address is validated without the white space around it and used with it: with a leading space, which no request accepts,
  validation succeeds and every call fails.
\<close>

lemma leading_space_breaks_requests:
  assumes "\<And>s. htNewRequest (jlHttp jl) (CHR '' '' # s) = Some e"
  shows "jira_Validate parse (c\<lparr>jcAPIURL := CHR '' '' # url\<rparr>) = jira_Validate parse (c\<lparr>jcAPIURL := url\<rparr>)"
    and "jira_GetStatus jl (c\<lparr>jcAPIURL := CHR '' '' # url\<rparr>) w key =
      (w, Inl (ErrWrap (''getting status for '' @ quoted key) (ErrWrap ''building request'' e)))"
proof -
  have "trim_space (CHR '' '' # url) = trim_space url"
    by (simp add: trim_space_def is_space_def)
  then show "jira_Validate parse (c\<lparr>jcAPIURL := CHR '' '' # url\<rparr>) = jira_Validate parse (c\<lparr>jcAPIURL := url\<rparr>)"
    by (simp add: jira_Validate_def validHTTPSURL_def)
  show "jira_GetStatus jl (c\<lparr>jcAPIURL := CHR '' '' # url\<rparr>) w key =
      (w, Inl (ErrWrap (''getting status for '' @ quoted key) (ErrWrap ''building request'' e)))"
    using assms by (simp add: jira_GetStatus_def jira_do_def)
qed

section \<open>Examples\<close>

text \<open>A token that expires 20 days after the year 1, with a window of 14 days.\<close>

definition example_jira_env :: config_env where
  "example_jira_env = example_env\<lparr>ceRFC3339 := (\<lambda>_. Inr (20 * 24 * Hour)), ceGetenv := (\<lambda>_. ''secret'')\<rparr>"

definition example_jira_config :: JiraConfig where
  "example_jira_config = \<lparr>jiAPIURL = ''https://h'', jiUserEmail = ''u'', jiProject = ''P'', jiIssueType = ''Bug'', jiComponent = '''', jiLabels = [],
     jiTokenEnv = ''T'', jiQuarantineDuration = 0, jiTokenExpiresAt = ''soon'', jiTokenExpiryWarningDays = 0\<rparr>"

definition example_client_config :: jira_config where
  "example_client_config = fst (FromFlakinessConfig example_jira_env (\<lambda>r. Inr example_url) example_jira_config)"

theorem token_warnings_agree_witness:
  "TokenExpirySoon example_client_config (7 * 24 * Hour) \<and> \<not> TokenExpirySoon example_client_config (6 * 24 * Hour) \<and>
   checkTokenExpiry (example_world\<lparr>rwConfig := example_jira_env, rwAddDays := (\<lambda>t n. t + n * 24 * Hour)\<rparr>) example_jira_config (6 * 24 * Hour) \<noteq> ''''"
proof -
  let ?rw = "example_world\<lparr>rwConfig := example_jira_env, rwAddDays := (\<lambda>t n. t + n * 24 * Hour)\<rparr>"
  have "FromFlakinessConfig (rwConfig ?rw) (\<lambda>r. Inr example_url) example_jira_config = (example_client_config, None)"
    unfolding example_client_config_def by code_simp
  note agree = token_warnings_agree [OF this, of "20 * 24 * Hour"]
  have fields: "jiTokenExpiresAt example_jira_config \<noteq> ''''" "jiTokenExpiryWarningDays example_jira_config = 0"
    "ceRFC3339 (rwConfig ?rw) (jiTokenExpiresAt example_jira_config) = Inr (20 * 24 * Hour)" "20 * 24 * Hour \<noteq> 0"
    by (simp_all add: example_jira_config_def example_jira_env_def Hour_def)
  have warned: "checkTokenExpiry ?rw example_jira_config (7 * 24 * Hour) \<noteq> ''''" "checkTokenExpiry ?rw example_jira_config (6 * 24 * Hour) \<noteq> ''''"
    using fields by (auto simp: checkTokenExpiry_silent Hour_def)
  from agree [of "7 * 24 * Hour"] agree [of "6 * 24 * Hour"] fields warned show ?thesis
    by (simp add: Hour_def)
qed

end
