(* ===== verification/PushBack.thy ===== *)
theory PushBack
  imports GoErrors
begin

text \<open>
  Pushing the quarantine file back to its repository (\<^verbatim>\<open>flakiness/cmd/flakiness-tool/pushback.go\<close>). The git command, temporary
  files and the environment are parameters.
\<close>

section \<open>Commands\<close>

text \<open>
  A command has its arguments and its whole environment, in which the last entry of a name counts. \<open>glEnviron\<close> is \<^verbatim>\<open>os.Environ()\<close>, the
  environment of the tool: a command whose \<^verbatim>\<open>Env\<close> is nil inherits it. \<open>glRun\<close> runs a command and gives its output; \<open>glExitCode\<close> is
  the exit code in an error of type \<^verbatim>\<open>*exec.ExitError\<close>. A temporary file is written and closed under its name.
\<close>

type_synonym git_command = "string list \<times> (string \<times> string) list"

record 'w git_lib =
  glEnviron :: "(string \<times> string) list"
  glRun :: "'w \<Rightarrow> git_command \<Rightarrow> 'w \<times> (go_error + string)"
  glExitCode :: "go_error \<Rightarrow> int option"
  glCreateTemp :: "'w \<Rightarrow> string \<Rightarrow> 'w \<times> (go_error + string)"
  glWriteString :: "'w \<Rightarrow> string \<Rightarrow> string \<Rightarrow> 'w \<times> go_error option"
  glCloseFile :: "'w \<Rightarrow> string \<Rightarrow> 'w \<times> go_error option"
  glChmod :: "'w \<Rightarrow> string \<Rightarrow> nat \<Rightarrow> 'w \<times> go_error option"
  glRemove :: "'w \<Rightarrow> string \<Rightarrow> 'w \<times> go_error option"
  glPrint :: "'w \<Rightarrow> string \<Rightarrow> 'w"

text \<open>\<^verbatim>\<open>os.Getenv\<close>: the first entry of the name, the empty string without one.\<close>

definition git_Getenv :: "'w git_lib \<Rightarrow> string \<Rightarrow> string" where
  "git_Getenv gl v = (case map_of (glEnviron gl) v of None \<Rightarrow> '''' | Some s \<Rightarrow> s)"

definition runGit :: "'w git_lib \<Rightarrow> string list \<Rightarrow> 'w \<Rightarrow> 'w \<times> go_error option" where
  "runGit gl args w = (case glRun gl w (args, glEnviron gl) of (w1, Inl err) \<Rightarrow> (w1, Some err) | (w1, Inr out) \<Rightarrow> (w1, None))"

definition add_args :: "string \<Rightarrow> string list" where
  "add_args path = [''git'', ''add'', ''--'', path]"

definition gitAdd :: "'w git_lib \<Rightarrow> string \<Rightarrow> 'w \<Rightarrow> 'w \<times> go_error option" where
  "gitAdd gl path w =
     (case runGit gl (add_args path) w of
        (w1, Some err) \<Rightarrow> (w1, Some (ErrWrap (''staging '' @ path) err))
      | (w1, None) \<Rightarrow> (w1, None))"

definition diff_args :: "string \<Rightarrow> string list" where
  "diff_args path = [''git'', ''diff'', ''--cached'', ''--quiet'', ''--'', path]"

definition gitIsClean :: "'w git_lib \<Rightarrow> string \<Rightarrow> 'w \<Rightarrow> 'w \<times> (go_error + bool)" where
  "gitIsClean gl path w =
     (case glRun gl w (diff_args path, glEnviron gl) of
        (w1, Inr out) \<Rightarrow> (w1, Inr True)
      | (w1, Inl err) \<Rightarrow> if glExitCode gl err = Some 1 then (w1, Inr False) else (w1, Inl (ErrWrap ''checking git status'' err)))"

definition commitAuthorName :: string where "commitAuthorName = ''flakiness-tool[bot]''"
definition commitAuthorEmail :: string where "commitAuthorEmail = ''flakiness-tool[bot]@users.noreply.github.com''"

definition commit_args :: "string \<Rightarrow> string list" where
  "commit_args quarantinePath =
     [''git'', ''-c'', ''user.name='' @ commitAuthorName, ''-c'', ''user.email='' @ commitAuthorEmail, ''commit'', ''--only'', ''-m'',
      ''chore: update '' @ quarantinePath @ '' (flakiness-tool)'' @ [CHR 0x0A, CHR 0x0A] @
        ''Automated quarantine state update from flakiness-tool periodic run.'',
      ''--'', quarantinePath]"

definition gitCommit :: "'w git_lib \<Rightarrow> string \<Rightarrow> 'w \<Rightarrow> 'w \<times> go_error option" where
  "gitCommit gl quarantinePath w =
     (case runGit gl (commit_args quarantinePath) w of
        (w1, Some err) \<Rightarrow> (w1, Some (ErrWrap ''committing'' err))
      | (w1, None) \<Rightarrow> (w1, None))"

definition remote_args :: "string list" where
  "remote_args = [''git'', ''remote'', ''get-url'', ''origin'']"

definition gitRemoteURL :: "'w git_lib \<Rightarrow> 'w \<Rightarrow> 'w \<times> (go_error + string)" where
  "gitRemoteURL gl w =
     (case glRun gl w (remote_args, glEnviron gl) of
        (w1, Inl err) \<Rightarrow> (w1, Inl (ErrWrap ''getting remote URL'' err))
      | (w1, Inr out) \<Rightarrow> (w1, Inr (trim_space out)))"

definition token_url :: "string \<Rightarrow> string" where
  "token_url repo = ''https://x-access-token@github.com/'' @ trim_suffix ''.git'' repo @ ''.git''"

definition httpsRemote :: "string \<Rightarrow> go_error + string" where
  "httpsRemote remote =
     (case cut_prefix ''git@github.com:'' remote of
        Some repo \<Rightarrow> Inr (token_url repo)
      | None \<Rightarrow>
          (case cut_prefix ''https://github.com/'' remote of
             Some repo \<Rightarrow> Inr (token_url repo)
           | None \<Rightarrow> Inl (ErrNew ''unsupported remote URL format: expected github.com HTTPS or SSH'')))"

definition askpass_script :: string where
  "askpass_script = ''#!/bin/sh'' @ [CHR 0x0A] @ ''printf '' @ [CHR 0x27] @ ''%s'' @ [CHR 0x5C] @ ''n'' @ [CHR 0x27] @ '' '' @
     [CHR 0x22] @ ''$GIT_PUSH_TOKEN'' @ [CHR 0x22, CHR 0x0A]"

definition writeAskpass :: "'w git_lib \<Rightarrow> 'w \<Rightarrow> 'w \<times> (go_error + string)" where
  "writeAskpass gl w =
     (case glCreateTemp gl w ''git-askpass-*'' of
        (w1, Inl err) \<Rightarrow> (w1, Inl (ErrWrap ''creating askpass script'' err))
      | (w1, Inr path) \<Rightarrow>
          (case glWriteString gl w1 path askpass_script of
             (w2, Some err) \<Rightarrow>
               (fst (glRemove gl (fst (glCloseFile gl w2 path)) path), Inl (ErrWrap ''writing askpass script'' err))
           | (w2, None) \<Rightarrow>
               (case glCloseFile gl w2 path of
                  (w3, Some err) \<Rightarrow> (fst (glRemove gl w3 path), Inl (ErrWrap ''closing askpass script'' err))
                | (w3, None) \<Rightarrow>
                    (case glChmod gl w3 path 448 of
                       (w4, Some err) \<Rightarrow> (fst (glRemove gl w4 path), Inl (ErrWrap ''setting askpass permissions'' err))
                     | (w4, None) \<Rightarrow> (w4, Inr path)))))"

definition push_args :: "string \<Rightarrow> string list" where
  "push_args pushURL = [''git'', ''push'', pushURL, ''HEAD'']"

definition push_env :: "string \<Rightarrow> string \<Rightarrow> (string \<times> string) list" where
  "push_env askpass token = [(''GIT_ASKPASS'', askpass), (''GIT_TERMINAL_PROMPT'', ''0''), (''GIT_PUSH_TOKEN'', token)]"

definition gitPush :: "'w git_lib \<Rightarrow> string \<Rightarrow> 'w \<Rightarrow> 'w \<times> go_error option" where
  "gitPush gl token w =
     (case gitRemoteURL gl w of
        (w1, Inl err) \<Rightarrow> (w1, Some err)
      | (w1, Inr remote) \<Rightarrow>
          (case httpsRemote remote of
             Inl err \<Rightarrow> (w1, Some err)
           | Inr pushURL \<Rightarrow>
               (case writeAskpass gl w1 of
                  (w2, Inl err) \<Rightarrow> (w2, Some err)
                | (w2, Inr askpass) \<Rightarrow>
                    (case glRun gl w2 (push_args pushURL, glEnviron gl @ push_env askpass token) of
                       (w3, Inl err) \<Rightarrow> (fst (glRemove gl w3 askpass), Some (ErrWrap ''pushing'' err))
                     | (w3, Inr out) \<Rightarrow> (fst (glRemove gl w3 askpass), None)))))"

definition pushBack :: "'w git_lib \<Rightarrow> string \<Rightarrow> 'w \<Rightarrow> 'w \<times> go_error option" where
  "pushBack gl quarantinePath w =
     (let token = git_Getenv gl ''GITHUB_TOKEN''
      in if token = '''' then (w, Some (ErrNew ''GITHUB_TOKEN env var is required for --push-back''))
         else case gitAdd gl quarantinePath w of
                (w1, Some err) \<Rightarrow> (w1, Some err)
              | (w1, None) \<Rightarrow>
                  (case gitIsClean gl quarantinePath w1 of
                     (w2, Inl err) \<Rightarrow> (w2, Some err)
                   | (w2, Inr True) \<Rightarrow> (glPrint gl w2 ''push-back: quarantine file unchanged, nothing to push'', None)
                   | (w2, Inr False) \<Rightarrow>
                       (case gitCommit gl quarantinePath w2 of
                          (w3, Some err) \<Rightarrow> (w3, Some err)
                        | (w3, None) \<Rightarrow>
                            (case gitPush gl token w3 of
                               (w4, Some err) \<Rightarrow> (w4, Some err)
                             | (w4, None) \<Rightarrow> (glPrint gl w4 ''push-back: committed and pushed quarantine update'', None)))))"

section \<open>What is run and what remains\<close>

text \<open>
  What is observed of the world: the temporary files and the commands that were run. A created file is new, a removed one is gone if its
  removal did not fail, and no other operation changes either.
\<close>

definition observed :: "'w git_lib \<Rightarrow> ('w \<Rightarrow> string set) \<Rightarrow> ('w \<Rightarrow> git_command list) \<Rightarrow> bool" where
  "observed gl files cmds \<longleftrightarrow>
     (\<forall>w c. files (fst (glRun gl w c)) = files w \<and> cmds (fst (glRun gl w c)) = cmds w @ [c]) \<and>
     (\<forall>w p. cmds (fst (glCreateTemp gl w p)) = cmds w \<and>
        (case snd (glCreateTemp gl w p) of
           Inl err \<Rightarrow> files (fst (glCreateTemp gl w p)) = files w
         | Inr f \<Rightarrow> f \<notin> files w \<and> files (fst (glCreateTemp gl w p)) = insert f (files w))) \<and>
     (\<forall>w f s. files (fst (glWriteString gl w f s)) = files w \<and> cmds (fst (glWriteString gl w f s)) = cmds w) \<and>
     (\<forall>w f. files (fst (glCloseFile gl w f)) = files w \<and> cmds (fst (glCloseFile gl w f)) = cmds w) \<and>
     (\<forall>w f m. files (fst (glChmod gl w f m)) = files w \<and> cmds (fst (glChmod gl w f m)) = cmds w) \<and>
     (\<forall>w f. files (fst (glRemove gl w f)) = (if snd (glRemove gl w f) = None then files w - {f} else files w) \<and>
        cmds (fst (glRemove gl w f)) = cmds w) \<and>
     (\<forall>w s. files (glPrint gl w s) = files w \<and> cmds (glPrint gl w s) = cmds w)"

lemma observed_run: "observed gl files cmds \<Longrightarrow> glRun gl w c = (w1, r) \<Longrightarrow> files w1 = files w \<and> cmds w1 = cmds w @ [c]"
  unfolding observed_def by (metis fst_conv)

lemma observed_keep:
  assumes "observed gl files cmds"
  shows "glWriteString gl w f s = (w1, e) \<Longrightarrow> files w1 = files w \<and> cmds w1 = cmds w"
    and "glCloseFile gl w f = (w1, e) \<Longrightarrow> files w1 = files w \<and> cmds w1 = cmds w"
    and "glChmod gl w f m = (w1, e) \<Longrightarrow> files w1 = files w \<and> cmds w1 = cmds w"
    and "files (glPrint gl w s) = files w \<and> cmds (glPrint gl w s) = cmds w"
    and "files (fst (glRemove gl w f)) = (if snd (glRemove gl w f) = None then files w - {f} else files w) \<and>
      cmds (fst (glRemove gl w f)) = cmds w"
    and "files (fst (glCloseFile gl w f)) = files w \<and> cmds (fst (glCloseFile gl w f)) = cmds w"
  using assms unfolding observed_def by (metis fst_conv)+

lemma observed_create:
  assumes "observed gl files cmds" "glCreateTemp gl w p = (w1, r)"
  shows "cmds w1 = cmds w \<and> (case r of Inl err \<Rightarrow> files w1 = files w | Inr f \<Rightarrow> f \<notin> files w \<and> files w1 = insert f (files w))"
  using assms(1) [unfolded observed_def, THEN conjunct2, THEN conjunct1, rule_format, of w p]
  by (cases r) (simp_all add: assms(2))

text \<open>A temporary file is left only if removing it failed. The helper script remains when it was written completely.\<close>

definition nothing_left :: "'w git_lib \<Rightarrow> string set \<Rightarrow> string set \<Rightarrow> bool" where
  "nothing_left gl before after \<longleftrightarrow>
     after = before \<or> (\<exists>f v err. f \<notin> before \<and> after = insert f before \<and> snd (glRemove gl v f) = Some err)"

lemma nothing_left_refl [simp]: "nothing_left gl fs fs"
  by (simp add: nothing_left_def)

lemma remove_nothing_left:
  assumes "observed gl files cmds" and "f \<notin> fs" and "files w = insert f fs"
  shows "nothing_left gl fs (files (fst (glRemove gl w f)))"
proof (cases "snd (glRemove gl w f)")
  case None
  then show ?thesis using observed_keep(5) [OF assms(1), of w f] assms(2,3) by (simp add: nothing_left_def)
next
  case (Some err)
  then have "files (fst (glRemove gl w f)) = insert f fs" using observed_keep(5) [OF assms(1), of w f] assms(3) by simp
  with Some assms(2) show ?thesis unfolding nothing_left_def by blast
qed

lemma writeAskpass_observed:
  assumes obs: "observed gl files cmds" and wr: "writeAskpass gl w = (w', r)"
  shows "cmds w' = cmds w \<and> (case r of Inl err \<Rightarrow> nothing_left gl (files w) (files w') | Inr f \<Rightarrow> f \<notin> files w \<and> files w' = insert f (files w))"
proof -
  obtain w1 c where create: "glCreateTemp gl w ''git-askpass-*'' = (w1, c)"
    by fastforce
  note cr = observed_create [OF obs create]
  show ?thesis
  proof (cases c)
    case (Inl err)
    with cr wr show ?thesis
      by (auto simp: writeAskpass_def create)
  next
    case (Inr f)
    obtain w2 e2 where s2: "glWriteString gl w1 f askpass_script = (w2, e2)" by fastforce
    obtain w3 e3 where s3: "glCloseFile gl w2 f = (w3, e3)" by fastforce
    obtain w4 e4 where s4: "glChmod gl w3 f 448 = (w4, e4)" by fastforce
    note keep = observed_keep(1) [OF obs s2] observed_keep(2) [OF obs s3] observed_keep(3) [OF obs s4]
    from wr Inr create s2 s3 s4 have "w' = (if e2 = None \<and> e3 = None then if e4 = None then w4 else fst (glRemove gl w4 f) else fst (glRemove gl w3 f))"
      and "r = Inr f \<or> isl r" and "r = Inr f \<longleftrightarrow> e2 = None \<and> e3 = None \<and> e4 = None"
      by (auto simp: writeAskpass_def split: option.splits)
    moreover have "nothing_left gl (files w) (files (fst (glRemove gl w3 f)))" "nothing_left gl (files w) (files (fst (glRemove gl w4 f)))"
      using cr Inr keep remove_nothing_left [OF obs] by simp_all
    ultimately show ?thesis
      using cr Inr keep observed_keep(5) [OF obs] by (cases r) auto
  qed
qed

lemma httpsRemote_url: "httpsRemote remote = Inr url \<Longrightarrow> \<exists>repo. url = ''https://x-access-token@github.com/'' @ repo"
  by (auto simp: httpsRemote_def token_url_def split: option.splits)

text \<open>The commands of a complete push, in order.\<close>

definition push_commands :: "(string \<times> string) list \<Rightarrow> string \<Rightarrow> string \<Rightarrow> string \<Rightarrow> string \<Rightarrow> git_command list" where
  "push_commands env path token repo askpass =
     [(add_args path, env), (diff_args path, env), (commit_args path, env), (remote_args, env),
      (push_args (''https://x-access-token@github.com/'' @ repo), env @ push_env askpass token)]"

lemma gitPush_observed:
  assumes obs: "observed gl files cmds" and push: "gitPush gl token w = (w', e)"
  shows "nothing_left gl (files w) (files w') \<and>
    (\<exists>n repo askpass. cmds w' = cmds w @ take n (drop 3 (push_commands (glEnviron gl) path token repo askpass)) \<and> (n = 1 \<and> e \<noteq> None \<or> n = 2))"
proof -
  obtain w1 r where rem: "glRun gl w (remote_args, glEnviron gl) = (w1, r)"
    by fastforce
  have run1: "files w1 = files w" "cmds w1 = cmds w @ [(remote_args, glEnviron gl)]"
    using observed_run [OF obs rem] by auto
  have early: ?thesis if "nothing_left gl (files w1) (files w')" "cmds w' = cmds w1" "e \<noteq> None"
    using that run1 by (intro conjI exI [of _ 1]) (simp_all add: push_commands_def)
  show ?thesis
  proof (cases "\<exists>out url. r = Inr out \<and> httpsRemote (trim_space out) = Inr url")
    case False
    with push have "w' = w1" "e \<noteq> None"
      by (auto simp: gitPush_def gitRemoteURL_def rem split: sum.splits)
    with early show ?thesis
      by simp
  next
    case True
    then obtain out url where ok: "r = Inr out" "httpsRemote (trim_space out) = Inr url"
      by blast
    obtain w2 ap where ask: "writeAskpass gl w1 = (w2, ap)"
      by fastforce
    note asked = writeAskpass_observed [OF obs ask]
    show ?thesis
    proof (cases ap)
      case (Inl err)
      with push ok ask have "w' = w2" "e \<noteq> None"
        by (auto simp: gitPush_def gitRemoteURL_def rem)
      with asked Inl show ?thesis
        by (intro early) auto
    next
      case (Inr f)
      obtain w3 pr where run2: "glRun gl w2 (push_args url, glEnviron gl @ push_env f token) = (w3, pr)"
        by fastforce
      have "w' = fst (glRemove gl w3 f)"
        using push ok ask Inr run2 by (auto simp: gitPush_def gitRemoteURL_def rem split: sum.splits)
      moreover obtain repo where "url = ''https://x-access-token@github.com/'' @ repo"
        using httpsRemote_url [OF ok(2)] by blast
      moreover have "nothing_left gl (files w) (files (fst (glRemove gl w3 f)))"
        using remove_nothing_left [OF obs] observed_run [OF obs run2] asked run1 Inr by simp
      ultimately have "nothing_left gl (files w) (files w')" "cmds w' = cmds w @ drop 3 (push_commands (glEnviron gl) path token repo f)"
        using observed_run [OF obs run2] observed_keep(5) [OF obs] asked run1 Inr by (auto simp: push_commands_def)
      then show ?thesis
        by (intro conjI exI [of _ 2] exI [of _ repo] exI [of _ f]) (simp_all add: push_commands_def)
    qed
  qed
qed

lemma pushBack_observed:
  assumes obs: "observed gl files cmds"
  shows "nothing_left gl (files w) (files (fst (pushBack gl path w))) \<and>
    (\<exists>n repo askpass. cmds (fst (pushBack gl path w)) =
        cmds w @ take n (push_commands (glEnviron gl) path (git_Getenv gl ''GITHUB_TOKEN'') repo askpass) \<and>
       (git_Getenv gl ''GITHUB_TOKEN'' = '''' \<longrightarrow> n = 0) \<and> (snd (pushBack gl path w) = None \<longrightarrow> n = 2 \<or> n = 5))"
proof (cases "git_Getenv gl ''GITHUB_TOKEN'' = ''''")
  case True
  then show ?thesis
    by (intro conjI exI [of _ 0]) (simp_all add: pushBack_def)
next
  case token: False
  let ?token = "git_Getenv gl ''GITHUB_TOKEN''"
  have stop: ?thesis if "nothing_left gl (files w) (files (fst (pushBack gl path w)))"
    "cmds (fst (pushBack gl path w)) = cmds w @ take n (push_commands (glEnviron gl) path ?token repo askpass)"
    "snd (pushBack gl path w) = None \<longrightarrow> n = 2 \<or> n = 5" for n repo askpass
    using that token by (intro conjI exI [of _ n] exI [of _ repo] exI [of _ askpass]) simp_all
  obtain w1 r1 where a: "glRun gl w (add_args path, glEnviron gl) = (w1, r1)" by fastforce
  obtain w2 r2 where d: "glRun gl w1 (diff_args path, glEnviron gl) = (w2, r2)" by fastforce
  obtain w3 r3 where c: "glRun gl w2 (commit_args path, glEnviron gl) = (w3, r3)" by fastforce
  obtain w4 e4 where p: "gitPush gl ?token w3 = (w4, e4)" by fastforce
  note runs = observed_run [OF obs a] observed_run [OF obs d] observed_run [OF obs c]
  note defs = pushBack_def gitAdd_def gitIsClean_def gitCommit_def runGit_def a d c p Let_def
  note after = gitPush_observed [OF obs p, of path]
  obtain n repo askpass where pushed: "cmds w4 = cmds w3 @ take n (drop 3 (push_commands (glEnviron gl) path ?token repo askpass))"
    "n = 1 \<and> e4 \<noteq> None \<or> n = 2"
    using after by (elim conjE exE) (rule that)
  have pushed_files: "nothing_left gl (files w3) (files w4)"
    using after by simp
  consider "isl r1" | "\<not> isl r1" "\<exists>err. r2 = Inl err \<and> glExitCode gl err \<noteq> Some 1" | "\<not> isl r1" "\<not> isl r2"
    | "\<not> isl r1" "\<exists>err. r2 = Inl err \<and> glExitCode gl err = Some 1" "isl r3"
    | "\<not> isl r1" "\<exists>err. r2 = Inl err \<and> glExitCode gl err = Some 1" "\<not> isl r3"
    by (cases r2) auto
  then show ?thesis
  proof cases
    case 1
    then show ?thesis
      using token runs by (intro stop [of 1]) (auto simp: defs push_commands_def isl_def)
  next
    case 2
    then show ?thesis
      using token runs by (intro stop [of 2]) (auto simp: defs push_commands_def split: sum.splits)
  next
    case 3
    then show ?thesis
      using token runs observed_keep(4) [OF obs] by (intro stop [of 2]) (auto simp: defs push_commands_def split: sum.splits)
  next
    case 4
    then show ?thesis
      using token runs by (intro stop [of 3]) (auto simp: defs push_commands_def isl_def split: sum.splits)
  next
    case 5
    then have out: "pushBack gl path w = (if e4 = None then glPrint gl w4 ''push-back: committed and pushed quarantine update'' else w4, e4)"
      using token by (auto simp: defs split: sum.splits option.splits)
    have "take 3 xs @ take n (drop 3 xs) = take (3 + n) xs" for xs :: "git_command list"
      by (simp add: take_add)
    moreover have "cmds w3 = cmds w @ take 3 (push_commands (glEnviron gl) path ?token repo askpass)"
      using runs by (simp add: push_commands_def)
    ultimately have "cmds w4 = cmds w @ take (3 + n) (push_commands (glEnviron gl) path ?token repo askpass)" "nothing_left gl (files w) (files w4)"
      using pushed(1) pushed_files runs by (metis append_assoc, simp)
    then show ?thesis
      using pushed(2) observed_keep(4) [OF obs] by (intro stop [of "3 + n"]) (auto simp: out)
  qed
qed

text \<open>
  C25: Pushing back leaves nothing behind and builds no argument from the token. Whatever fails, the temporary files are those from before,
  unless the helper script could not be removed, and then it is the only one that is left. The commands that
  were run are a prefix of staging, comparing, committing, asking for the remote and pushing. All of them have the environment of the tool, which
  holds the token as GITHUB_TOKEN; only the push has it also as GIT_PUSH_TOKEN, next to the script and without a prompt, and goes to
  GitHub over HTTPS. Without a token nothing is run; and success means that the file was unchanged and only compared, or that all
  five commands were run.\<close>

theorem push_back_leaves_nothing:
  assumes obs: "observed gl files cmds"
  shows "(files (fst (pushBack gl path w)) = files w \<or>
      (\<exists>f v err. f \<notin> files w \<and> files (fst (pushBack gl path w)) = insert f (files w) \<and> snd (glRemove gl v f) = Some err)) \<and>
    (\<exists>n repo askpass. cmds (fst (pushBack gl path w)) =
        cmds w @ take n (push_commands (glEnviron gl) path (git_Getenv gl ''GITHUB_TOKEN'') repo askpass) \<and>
       (git_Getenv gl ''GITHUB_TOKEN'' = '''' \<longrightarrow> n = 0) \<and> (snd (pushBack gl path w) = None \<longrightarrow> n = 2 \<or> n = 5))"
  using pushBack_observed [OF obs, of w path, unfolded nothing_left_def] .

section \<open>Examples\<close>

text \<open>A world of temporary files and a log of commands, in which every command succeeds and the file was changed.\<close>

definition example_git :: "(string list \<times> git_command list) git_lib" where
  "example_git = \<lparr>glEnviron = [(''HOME'', ''/root''), (''GITHUB_TOKEN'', ''ghp'')],
     glRun = (\<lambda>(fs, cs) c. ((fs, cs @ [c]),
       if fst c = diff_args ''q.json'' then Inl (ErrNew ''exit status 1'')
       else if fst c = remote_args then Inr (''git@github.com:org/repo.git'' @ [CHR 0x0A]) else Inr '''')),
     glExitCode = (\<lambda>e. Some 1), glCreateTemp = (\<lambda>(fs, cs) p. let f = concat fs @ ''a'' in ((f # fs, cs), Inr f)),
     glWriteString = (\<lambda>w f t. (w, None)), glCloseFile = (\<lambda>w f. (w, None)), glChmod = (\<lambda>w f m. (w, None)),
     glRemove = (\<lambda>(fs, cs) f. ((removeAll f fs, cs), None)), glPrint = (\<lambda>w t. w)\<rparr>"

theorem push_back_leaves_nothing_witness:
  "let w = fst (pushBack example_git ''q.json'' ([''t''], []))
   in fst w = [''t''] \<and> map (hd \<circ> tl \<circ> fst) (snd w) = [''add'', ''diff'', ''-c'', ''remote'', ''push''] \<and>
      snd (hd (snd w)) = glEnviron example_git \<and> snd (last (snd w)) = glEnviron example_git @ push_env ''ta'' ''ghp''"
proof -
  let ?w = "fst (pushBack example_git ''q.json'' ([''t''], []))"
  have "observed example_git (\<lambda>w. set (fst w)) snd"
    by (auto simp: observed_def example_git_def Let_def)
  note t = push_back_leaves_nothing [OF this, of "''q.json''" "([''t''], [])"]
  have "snd (glRemove example_git v f) = None" for v f
    by (cases v) (simp add: example_git_def)
  with t have files: "set (fst ?w) = {''t''}"
    by auto
  have "?w = ([''t''], push_commands (glEnviron example_git) ''q.json'' ''ghp'' ''org/repo.git'' ''ta'')"
    by code_simp
  with files show ?thesis
    by (simp add: push_commands_def add_args_def diff_args_def commit_args_def remote_args_def push_args_def)
qed

end
