(* ===== verification/FlakyTool.thy ===== *)
theory FlakyTool
  imports Jira PushBack
begin

text \<open>
  The command of the flakiness tool (\<^verbatim>\<open>flakiness/cmd/flakiness-tool/main.go\<close>): it loads the configuration and the list of the last
  run, runs the pipeline with the Jira client, prints a summary, writes the list and pushes it back. Files, JSON, command-line flags and
  the terminal are parameters.
\<close>

section \<open>Output\<close>

datatype out_stream = Stdout | Stderr

text \<open>\<open>fixed1\<close> and \<open>fixed0\<close> print a float with one and no decimals.\<close>

definition Truncate :: "duration \<Rightarrow> duration \<Rightarrow> duration" where
  "Truncate d m = (if m \<le> 0 then d else if d < 0 then d + (- d) mod m else d - d mod m)"

definition line :: "string \<Rightarrow> string" where
  "line s = s @ [CHR 0x0A]"

definition utilisation_line :: "(rat \<Rightarrow> string) \<Rightarrow> string \<Rightarrow> BudgetUtilisation \<Rightarrow> out_stream \<times> string" where
  "utilisation_line fixed1 label u =
     (Stdout, line (''  '' @ label @ '': '' @ duration_str (Truncate (buActualDuration u) second) @ '' sum-of-tests / '' @
        duration_str (Truncate (buConfiguredTimeout u) second) @ '' timeout ('' @ fixed1 (buUtilisation u) @ ''x)''))"

fun action_string :: "RecommendationAction \<Rightarrow> string" where
  "action_string RecommendRaise = ''raise''"
| "action_string RecommendLower = ''lower''"

definition printBudgetReport ::
  "(rat \<Rightarrow> rat) \<Rightarrow> (rat \<Rightarrow> string) \<Rightarrow> (rat \<Rightarrow> string) \<Rightarrow> BudgetReport option \<Rightarrow> (out_stream \<times> string) list" where
  "printBudgetReport rnd fixed1 fixed0 report =
     (case report of
        None \<Rightarrow> []
      | Some r \<Rightarrow>
          [(Stdout, CHR 0x0A # line ''timeout budget analysis:'')] @
          (case brPipeline r of None \<Rightarrow> [] | Some p \<Rightarrow> [utilisation_line fixed1 ''pipeline'' p]) @
          map (\<lambda>s. utilisation_line fixed1 (''suite '' @ buName s) s) (brSuites r) @
          (if length (brNearTimeout r) > 0
           then (Stdout, line ''  near-timeout tests:'') #
             map (\<lambda>t. (Stdout, line (''    '' @ ntName t @ '': P95='' @ duration_str (Truncate (ntP95 t) 1000000) @ '', timeout='' @
               duration_str (ntTimeout t) @ '' ('' @ fixed0 (rnd (ntUtilisation t * 100)) @ ''%)''))) (brNearTimeout r)
           else []) @
          (if length (brRecommendations r) > 0
           then (Stdout, line ''  recommendations:'') #
             map (\<lambda>m. (Stdout, line (''    '' @ action_string (tmAction m) @ '' '' @ tmName m @ '': '' @
               duration_str (Truncate (tmCurrentTimeout m) 1000000) @ '' -> '' @ duration_str (Truncate (tmSuggestedTimeout m) 1000000) @
               '' ('' @ tmReason m @ '')''))) (brRecommendations r)
           else []))"

definition printSummary ::
  "(rat \<Rightarrow> rat) \<Rightarrow> (rat \<Rightarrow> string) \<Rightarrow> (rat \<Rightarrow> string) \<Rightarrow> Result \<Rightarrow> (out_stream \<times> string) list" where
  "printSummary rnd fixed1 fixed0 result =
     [(Stdout, line (''component: '' @ fuComponent result)),
      (Stdout, line (''scraped: '' @ itoa (srArtifacts (fuScrape result)) @ '' artifacts, '' @ itoa (srTestsRecorded (fuScrape result)) @
         '' tests, '' @ nat_str (length (srErrors (fuScrape result))) @ '' errors''))] @
     map (\<lambda>e. (Stderr, line (''  warning: '' @ err_msg e))) (srErrors (fuScrape result)) @
     map (\<lambda>e. (Stderr, line (''  jira warning: '' @ err_msg e))) (fuJiraErrors result) @
     [(Stdout, line (''quarantined: '' @ nat_str (length (fuQuarantinedTests result)) @ '' total, '' @
         nat_str (length (fuNewlyQuarantined result)) @ '' new, '' @ nat_str (length (fuUnquarantined result)) @ '' removed''))] @
     map (\<lambda>e. (Stdout, line (''  + '' @ qeName e @ '' ('' @ fixed1 (rnd (qeFlakeRate e * 100)) @ ''% flake rate, '' @ qeJiraKey e @ '')'')))
       (fuNewlyQuarantined result) @
     map (\<lambda>e. (Stdout, line (''  - '' @ qeName e @ '' (Jira '' @ qeJiraKey e @ '' resolved)''))) (fuUnquarantined result) @
     printBudgetReport rnd fixed1 fixed0 (fuBudget result)"

section \<open>The run of the tool\<close>

text \<open>
  \<open>tlReadFile\<close> and \<open>tlWriteFile\<close> access files, \<open>tlNotExist\<close> is \<^verbatim>\<open>os.IsNotExist\<close>, \<open>tlMarshal\<close> and \<open>tlEntries\<close> are JSON, \<open>tlConfig\<close> is the YAML decoder,
  \<open>tlText\<close> the bytes as text; \<open>tlPrint\<close> writes to a stream. The pipeline, the Jira client and git bring their own parameters.
\<close>

record ('w, 'bytes) tool_lib =
  tlRun :: "('w, 'bytes) run_world"
  tlJira :: "'w jira_lib"
  tlGit :: "'w git_lib"
  tlParseURL :: url_parser
  tlReadFile :: "'w \<Rightarrow> string \<Rightarrow> go_error + 'bytes"
  tlNotExist :: "go_error \<Rightarrow> bool"
  tlWriteFile :: "'w \<Rightarrow> string \<Rightarrow> 'bytes \<Rightarrow> 'w \<times> go_error option"
  tlConfig :: "'bytes \<Rightarrow> go_error + Config"
  tlEntries :: "'bytes \<Rightarrow> go_error + QuarantineEntry list"
  tlMarshal :: "QuarantineEntry list \<Rightarrow> go_error + 'bytes"
  tlText :: "'bytes \<Rightarrow> string"
  tlNow :: "'w \<Rightarrow> gotime"
  tlFixed1 :: "rat \<Rightarrow> string"
  tlFixed0 :: "rat \<Rightarrow> string"
  tlPrint :: "'w \<Rightarrow> out_stream \<times> string \<Rightarrow> 'w"

definition print_all :: "('w, 'bytes) tool_lib \<Rightarrow> (out_stream \<times> string) list \<Rightarrow> 'w \<Rightarrow> 'w" where
  "print_all lib ls w = foldl (tlPrint lib) w ls"

definition writeQuarantineList ::
  "('w, 'bytes) tool_lib \<Rightarrow> Config \<Rightarrow> QuarantineEntry list \<Rightarrow> 'w \<Rightarrow> 'w \<times> go_error option" where
  "writeQuarantineList lib cfg entries w =
     (case tlMarshal lib entries of
        Inl err \<Rightarrow> (w, Some (ErrWrap ''marshaling quarantine list'' err))
      | Inr data \<Rightarrow>
          let path = qcConfigPath (cfQuarantine cfg)
          in if path \<noteq> ''''
             then (case tlWriteFile lib w path data of
                     (w1, Some err) \<Rightarrow> (w1, Some (ErrWrap (''writing quarantine file '' @ path) err))
                   | (w1, None) \<Rightarrow> (tlPrint lib w1 (Stdout, line (''wrote quarantine list to '' @ path)), None))
             else (tlPrint lib w (Stdout, line (tlText lib data)), None))"

text \<open>The file of the last run, if it is configured and exists. A nil list and an empty one have the same effect on a run.\<close>

definition prior_file :: "('w, 'bytes) tool_lib \<Rightarrow> 'w \<Rightarrow> string \<Rightarrow> go_error + 'bytes option" where
  "prior_file lib w path =
     (case tlReadFile lib w path of
        Inl err \<Rightarrow> if tlNotExist lib err then Inr None else Inl err
      | Inr data \<Rightarrow> Inr (Some data))"

definition prior_options ::
  "('w, 'bytes) tool_lib \<Rightarrow> Config \<Rightarrow> 'w \<Rightarrow> go_error + ('w runConfig \<Rightarrow> 'w runConfig) list" where
  "prior_options lib cfg w =
     (let path = qcConfigPath (cfQuarantine cfg)
      in if path \<noteq> ''''
         then (case LoadPriorEntries (prior_file lib w) (tlEntries lib) path of
                 Inl err \<Rightarrow> Inl (ErrWrap ''loading prior quarantine entries'' err)
               | Inr prior \<Rightarrow> Inr (if prior \<noteq> [] then [WithPriorEntries prior] else []))
         else Inr [])"

definition jira_options ::
  "('w, 'bytes) tool_lib \<Rightarrow> Config \<Rightarrow> 'w \<Rightarrow> 'w \<times> (go_error + ('w runConfig \<Rightarrow> 'w runConfig) list)" where
  "jira_options lib cfg w =
     (if jiAPIURL (cfJira cfg) \<noteq> '''' \<and> jiTokenEnv (cfJira cfg) \<noteq> ''''
      then (case FromFlakinessConfig (rwConfig (tlRun lib)) (tlParseURL lib) (cfJira cfg) of
              (jiraCfg, Some err) \<Rightarrow> (w, Inl (ErrWrap ''configuring Jira'' err))
            | (jiraCfg, None) \<Rightarrow>
                let w1 = (if TokenExpirySoon jiraCfg (tlNow lib w)
                          then tlPrint lib w (Stderr, line (''WARNING: Jira API token expires at '' @
                            rwFormat (tlRun lib) (jcTokenExpiresAt jiraCfg) @ '' (within '' @
                            itoa (jcTokenExpiryWarningDays jiraCfg) @ '' day warning window)''))
                          else w)
                in case jira_NewClient (tlParseURL lib) jiraCfg of
                     Inl err \<Rightarrow> (w1, Inl (ErrWrap ''creating Jira client'' err))
                   | Inr client \<Rightarrow> (w1, Inr [WithJiraClient (jira_filer (tlJira lib) client)]))
      else (w, Inr []))"

text \<open>The outcome is \<open>None\<close> when the pipeline panics.\<close>

definition tool_run ::
  "(rat \<Rightarrow> rat) \<Rightarrow> ('w, 'bytes) tool_lib \<Rightarrow> string \<Rightarrow> bool \<Rightarrow> 'w \<Rightarrow> 'w \<times> go_error option option" where
  "tool_run rnd lib configPath pushBackEnabled w =
     (case LoadConfig rnd (rwConfig (tlRun lib)) (tlReadFile lib w) (tlConfig lib) configPath of
        Inl err \<Rightarrow> (w, Some (Some (ErrWrap ''loading config'' err)))
      | Inr cfg \<Rightarrow>
          (case prior_options lib cfg w of
             Inl err \<Rightarrow> (w, Some (Some err))
           | Inr opts1 \<Rightarrow>
               (case jira_options lib cfg w of
                  (w1, Inl err) \<Rightarrow> (w1, Some (Some err))
                | (w1, Inr opts2) \<Rightarrow>
                    (case Run rnd (tlRun lib) cfg (opts1 @ opts2) w1 of
                       (w2, None) \<Rightarrow> (w2, None)
                     | (w2, Some (Inl err)) \<Rightarrow> (w2, Some (Some err))
                     | (w2, Some (Inr result)) \<Rightarrow>
                         let w3 = print_all lib (printSummary rnd (tlFixed1 lib) (tlFixed0 lib) result) w2
                         in if srTestsRecorded (fuScrape result) = 0 then (w3, Some None)
                            else (case writeQuarantineList lib cfg (fuAllEntries result) w3 of
                                    (w4, Some err) \<Rightarrow> (w4, Some (Some err))
                                  | (w4, None) \<Rightarrow>
                                      if pushBackEnabled \<and> qcConfigPath (cfQuarantine cfg) \<noteq> ''''
                                      then (case pushBack (tlGit lib) (qcConfigPath (cfQuarantine cfg)) w4 of
                                              (w5, Some err) \<Rightarrow> (w5, Some (Some (ErrWrap ''push-back'' err)))
                                            | (w5, None) \<Rightarrow> (w5, Some None))
                                      else (w4, Some None))))))"

text \<open>
  The command line: \<open>tool_main\<close> is the exit code. \<open>parse_flags\<close> is the flag set, which exits by itself on a flag that it does not
  know; a panic exits with code 2.
\<close>

definition tool_main ::
  "(rat \<Rightarrow> rat) \<Rightarrow> ('w, 'bytes) tool_lib \<Rightarrow> (string list \<Rightarrow> int + string \<times> bool) \<Rightarrow> string list \<Rightarrow> 'w \<Rightarrow> 'w \<times> int" where
  "tool_main rnd lib parse_flags args w =
     (if length args < 2 \<or> args ! 1 \<noteq> ''run'' then (w, 1)
      else case parse_flags (drop 2 args) of
             Inl code \<Rightarrow> (w, code)
           | Inr (configPath, push) \<Rightarrow>
               if configPath = '''' then (w, 1)
               else (case tool_run rnd lib configPath push w of
                       (w1, None) \<Rightarrow> (w1, 2)
                     | (w1, Some (Some err)) \<Rightarrow> (w1, 1)
                     | (w1, Some None) \<Rightarrow> (w1, 0)))"

section \<open>Tickets across runs\<close>

text \<open>A ticket is only set on an entry whose key is that of a new entry.\<close>

lemma file_tickets_untouched:
  "file_tickets jf w es ns = (w', es', ns', errs) \<Longrightarrow> k \<notin> entry_key ` set ns \<Longrightarrow>
     filter (\<lambda>e. entry_key e = k) es' = filter (\<lambda>e. entry_key e = k) es"
proof (induction ns arbitrary: w es w' es' ns' errs)
  case (Cons n ns)
  have "filter (\<lambda>e. entry_key e = k) (set_ticket key t es) = filter (\<lambda>e. entry_key e = k) es" if "k \<noteq> key" for key t es
    using that by (induction es) (auto simp: entry_key_def)
  with Cons show ?case
    by (auto split: prod.splits sum.splits)
qed simp

lemma reconcile_keeps_ticket:
  assumes rec: "reconcileQuarantine jira prior w es = (w', es', newly, unq, errs)"
    and known: "known_ticket (indexPriorEntries prior) e \<noteq> ''''" and e: "e \<in> set es'" "qeQuarantined e"
  shows "qeJiraKey e = known_ticket (indexPriorEntries prior) e"
proof -
  obtain es1 ns where carry: "carry_tickets (indexPriorEntries prior) es = (es1, ns)"
    by fastforce
  have same: "known_ticket p x = known_ticket p e" if "entry_key x = entry_key e" for p x
    using that by (simp add: known_ticket_def)
  have fresh: "entry_key e \<notin> entry_key ` set ns"
  proof
    assume "entry_key e \<in> entry_key ` set ns"
    then obtain n where n: "n \<in> set ns" "entry_key n = entry_key e"
      by force
    with carry have "known_ticket (indexPriorEntries prior) n = ''''"
      by (auto simp: carry_tickets_result)
    with same [OF n(2)] known show False
      by simp
  qed
  have "filter (\<lambda>x. entry_key x = entry_key e) es' = filter (\<lambda>x. entry_key x = entry_key e) es1"
  proof (cases jira)
    case (Some jf)
    obtain w1 es2 ns' errs1 where "file_tickets jf w es1 ns = (w1, es2, ns', errs1)"
      by (metis prod.exhaust)
    with rec carry Some file_tickets_untouched [OF this] fresh show ?thesis
      by (auto simp: reconcileQuarantine_def split: prod.splits)
  qed (use rec carry in \<open>simp add: reconcileQuarantine_def\<close>)
  moreover have "e \<in> set (filter (\<lambda>x. entry_key x = entry_key e) es')"
    using e(1) by simp
  ultimately have "e \<in> set es1"
    by simp
  moreover have "es1 = map (\<lambda>x. if qeQuarantined x \<and> known_ticket (indexPriorEntries prior) x \<noteq> ''''
      then x\<lparr>qeJiraKey := known_ticket (indexPriorEntries prior) x\<rparr> else x) es" (is "_ = map ?carry es")
    using carry by (simp add: carry_tickets_result)
  ultimately have "e \<in> ?carry ` set es"
    by (simp only: set_map)
  then obtain x where x: "e = ?carry x"
    by (rule imageE)
  then have key: "entry_key x = entry_key e"
    by (simp add: entry_key_def split: if_splits)
  from x known e(2) show ?thesis
    unfolding same [OF key, symmetric] by (simp split: if_splits)
qed

lemma indexPriorEntries_distinct:
  assumes "distinct (map entry_key (filter qeQuarantined prior))" "a \<in> set prior" "qeQuarantined a"
  shows "indexPriorEntries prior (entry_key a) = Some a"
proof -
  have "foldl (\<lambda>m e. if qeQuarantined e then m(entry_key e \<mapsto> e) else m) m es k =
      (case map_of (rev (map (\<lambda>e. (entry_key e, e)) (filter qeQuarantined es))) k of Some e \<Rightarrow> Some e | None \<Rightarrow> m k)" for m es k
    by (induction es arbitrary: m) (auto simp: map_add_def split: option.splits)
  moreover have "map_of (rev (map (\<lambda>e. (entry_key e, e)) (filter qeQuarantined prior))) (entry_key a) = Some a"
    using assms by (intro map_of_is_SomeI) (auto simp: comp_def simp flip: rev_map)
  ultimately show ?thesis
    by (simp add: indexPriorEntries_def)
qed

text \<open>The entries of a result that recorded tests are none of them quarantined, or come from reconciliation.\<close>

lemma Run_entries:
  assumes run: "Run rnd rw cfg opts w = (w', Some (Inr res))" and tests: "srTestsRecorded (fuScrape res) \<noteq> 0"
    and rc: "rc = foldl (\<lambda>rc f. f rc) \<lparr>rcBucketClient = False, rcJiraClient = None, rcPriorEntries = []\<rparr> opts"
  shows "(\<forall>e\<in>set (fuAllEntries res). \<not> qeQuarantined e) \<or>
    (\<exists>v es out. reconcileQuarantine (rcJiraClient rc) (rcPriorEntries rc) v es = (w', fuAllEntries res, out))"
proof -
  obtain w1 e1 where store: "rwNewStore rw w = (w1, e1)" by fastforce
  obtain w2 sc where scrape: "runScrape rnd rw rc cfg w1 = (w2, sc)" by fastforce
  note run = run [unfolded Run_def Let_def rc [symmetric] store prod.case]
  from run have "e1 = None"
    by (cases e1) simp_all
  note run = run [unfolded this option.case scrape prod.case]
  from run obtain sr where sc: "sc = Inr sr"
    by (cases sc) simp_all
  note run = run [unfolded this sum.case]
  from run tests have recorded: "srTestsRecorded sr \<noteq> 0"
    by (auto split: if_splits)
  note run = run [unfolded if_not_P [OF this]]
  from run obtain es0 where analysis: "runAnalysis rnd rw cfg w2 = Inr es0"
    by (cases "runAnalysis rnd rw cfg w2") simp_all
  note run = run [unfolded analysis sum.case]
  from run obtain es where es: "FilterExcluded (rwConfig rw) (rwMatches rw) cfg es0 = Some es"
    by (cases "FilterExcluded (rwConfig rw) (rwMatches rw) cfg es0") simp_all
  define b where "b = (if IsConfigured (cfTimeoutBudget cfg) then map_option (map_sum id Some) (runBudgetAnalysis rnd rw cfg w2) else Some (Inr None))"
  note run = run [unfolded es option.case b_def [symmetric]]
  from run obtain s where "b = Some s"
    by (cases b) simp_all
  note run = run [unfolded this option.case]
  from run obtain rep where "s = Inr rep"
    by (cases s) simp_all
  note run = run [unfolded this sum.case]
  obtain w3 es' newly unq errs where rec: "reconcileQuarantine (rcJiraClient rc) (rcPriorEntries rc) w2 es = (w3, es', newly, unq, errs)"
    by (metis prod.exhaust)
  show ?thesis
  proof (cases "qcAutoQuarantine (cfQuarantine cfg)")
    case True
    with run rec have "w' = w3" "fuAllEntries res = es'"
      by auto
    with rec show ?thesis
      by blast
  qed (use run in auto)
qed

definition stored_entries :: "('w, 'bytes) tool_lib \<Rightarrow> 'w \<Rightarrow> string \<Rightarrow> QuarantineEntry list option" where
  "stored_entries lib w path =
     (case tlReadFile lib w path of
        Inl err \<Rightarrow> None
      | Inr data \<Rightarrow> (case tlEntries lib data of Inl err \<Rightarrow> None | Inr es \<Rightarrow> Some es))"

text \<open>
  What is documented of files and JSON: what was written is read back, decoding inverts encoding, and neither printing nor pushing back nor
  the pipeline, started with the options that the tool makes, writes to the quarantine file.
\<close>

definition file_laws :: "(rat \<Rightarrow> rat) \<Rightarrow> ('w, 'bytes) tool_lib \<Rightarrow> Config \<Rightarrow> 'w \<Rightarrow> string \<Rightarrow> bool" where
  "file_laws rnd lib cfg w0 path \<longleftrightarrow>
     (\<forall>w data. snd (tlWriteFile lib w path data) = None \<longrightarrow> tlReadFile lib (fst (tlWriteFile lib w path data)) path = Inr data) \<and>
     (\<forall>es data. tlMarshal lib es = Inr data \<longrightarrow> tlEntries lib data = Inr es) \<and>
     (\<forall>w out. tlReadFile lib (tlPrint lib w out) path = tlReadFile lib w path) \<and>
     (\<forall>w. tlReadFile lib (fst (pushBack (tlGit lib) path w)) path = tlReadFile lib w path) \<and>
     (\<forall>opts1 opts2 w. prior_options lib cfg w0 = Inr opts1 \<and> jira_options lib cfg w0 = (w, Inr opts2) \<longrightarrow>
        tlReadFile lib (fst (Run rnd (tlRun lib) cfg (opts1 @ opts2) w)) path = tlReadFile lib w path)"

lemma print_all_reads: "file_laws rnd lib cfg w0 path \<Longrightarrow> tlReadFile lib (print_all lib ls w) path = tlReadFile lib w path"
  unfolding print_all_def by (induction ls arbitrary: w) (auto simp: file_laws_def)

lemma written_stored:
  assumes laws: "file_laws rnd lib cfg w0 path" and path: "path = qcConfigPath (cfQuarantine cfg)" "path \<noteq> ''''"
    and wr: "writeQuarantineList lib cfg es w = (w', None)"
  shows "stored_entries lib w' path = Some es"
proof -
  from wr path obtain data v where data: "tlMarshal lib es = Inr data" "tlWriteFile lib w path data = (v, None)"
    and w': "w' = tlPrint lib v (Stdout, line (''wrote quarantine list to '' @ path))"
    by (auto simp: writeQuarantineList_def Let_def split: sum.splits option.splits prod.splits)
  from laws have law: "snd (tlWriteFile lib w path data) = None \<longrightarrow> tlReadFile lib (fst (tlWriteFile lib w path data)) path = Inr data"
    "tlReadFile lib (tlPrint lib v out) path = tlReadFile lib v path" "tlMarshal lib es = Inr data \<longrightarrow> tlEntries lib data = Inr es" for out
    unfolding file_laws_def by blast+
  from law data have "tlReadFile lib w' path = Inr data" "tlEntries lib data = Inr es"
    by (simp_all add: w')
  then show ?thesis
    by (simp add: stored_entries_def)
qed

lemma stored_cong: "tlReadFile lib w path = tlReadFile lib v path \<Longrightarrow> stored_entries lib w path = stored_entries lib v path"
  by (simp add: stored_entries_def)

lemma prior_options_entries:
  assumes "prior_options lib cfg w = Inr opts" "stored_entries lib w (qcConfigPath (cfQuarantine cfg)) = Some prior"
    "qcConfigPath (cfQuarantine cfg) \<noteq> ''''"
  shows "rcPriorEntries (foldl (\<lambda>rc f. f rc) \<lparr>rcBucketClient = False, rcJiraClient = None, rcPriorEntries = []\<rparr> opts) = prior"
  using assms by (auto simp: prior_options_def LoadPriorEntries_def prior_file_def stored_entries_def WithPriorEntries_def Let_def split: sum.splits)

lemma jira_options_frame:
  assumes "jira_options lib cfg w = (w', Inr opts)"
  shows "rcPriorEntries (foldl (\<lambda>rc f. f rc) rc opts) = rcPriorEntries rc"
    and "file_laws rnd lib cfg w0 path \<Longrightarrow> tlReadFile lib w' path = tlReadFile lib w path"
  using assms by (auto simp: jira_options_def WithJiraClient_def file_laws_def Let_def split: sum.splits option.splits prod.splits if_splits)

text \<open>A run of the tool without an error: the options, the result of the pipeline and what was done with it.\<close>

lemma tool_run_ok:
  assumes ok: "tool_run rnd lib configPath push w = (w', Some None)"
    and cfg: "LoadConfig rnd (rwConfig (tlRun lib)) (tlReadFile lib w) (tlConfig lib) configPath = Inr cfg"
  obtains opts1 opts2 w1 w2 res w3 where "prior_options lib cfg w = Inr opts1" "jira_options lib cfg w = (w1, Inr opts2)"
    "Run rnd (tlRun lib) cfg (opts1 @ opts2) w1 = (w2, Some (Inr res))"
    "w3 = print_all lib (printSummary rnd (tlFixed1 lib) (tlFixed0 lib) res) w2"
    "srTestsRecorded (fuScrape res) = 0 \<and> w' = w3 \<or>
     srTestsRecorded (fuScrape res) \<noteq> 0 \<and> (\<exists>w4. writeQuarantineList lib cfg (fuAllEntries res) w3 = (w4, None) \<and>
       (w' = w4 \<or> w' = fst (pushBack (tlGit lib) (qcConfigPath (cfQuarantine cfg)) w4)))"
proof -
  from ok cfg obtain opts1 where o1: "prior_options lib cfg w = Inr opts1"
    by (cases "prior_options lib cfg w") (simp_all add: tool_run_def)
  obtain w1 j where j: "jira_options lib cfg w = (w1, j)"
    by fastforce
  from ok cfg o1 j obtain opts2 where o2: "j = Inr opts2"
    by (cases j) (simp_all add: tool_run_def)
  obtain w2 r where r: "Run rnd (tlRun lib) cfg (opts1 @ opts2) w1 = (w2, r)"
    by fastforce
  note ok = ok [unfolded tool_run_def cfg sum.case o1 j o2 prod.case r]
  from ok obtain out where "r = Some out"
    by (cases r) simp_all
  note r = r [unfolded this] and ok = ok [unfolded this option.case]
  from ok obtain res where "out = Inr res"
    by (cases out) simp_all
  note r = r [unfolded this] and ok = ok [unfolded this sum.case Let_def]
  define w3 where "w3 = print_all lib (printSummary rnd (tlFixed1 lib) (tlFixed0 lib) res) w2"
  obtain w4 e4 where wr: "writeQuarantineList lib cfg (fuAllEntries res) w3 = (w4, e4)"
    by fastforce
  from ok wr have "srTestsRecorded (fuScrape res) = 0 \<and> w' = w3 \<or>
     srTestsRecorded (fuScrape res) \<noteq> 0 \<and> e4 = None \<and> (w' = w4 \<or> w' = fst (pushBack (tlGit lib) (qcConfigPath (cfQuarantine cfg)) w4))"
    unfolding w3_def [symmetric] by (cases e4) (auto split: if_splits prod.splits option.splits)
  with that [OF o1 j [unfolded o2] r w3_def] wr show thesis
    by blast
qed

text \<open>
  C12: A ticket lasts as long as its test is quarantined. When a run of the tool ends without an error and the quarantine file held, before it, a
  quarantined test with a ticket, then after it the file can be read, and if the test is still quarantined there it has that ticket and no
  other, with the Jira client or without, whatever else was filed, recorded or pushed. So one bug is filed for a test that stays
  quarantined over any number of runs.\<close>

theorem tickets_survive_runs:
  assumes ok: "tool_run rnd lib configPath push w = (w', Some None)"
    and cfg: "LoadConfig rnd (rwConfig (tlRun lib)) (tlReadFile lib w) (tlConfig lib) configPath = Inr cfg"
    and path: "path = qcConfigPath (cfQuarantine cfg)" "path \<noteq> ''''"
    and laws: "file_laws rnd lib cfg w path"
    and prior: "stored_entries lib w path = Some prior" "distinct (map entry_key (filter qeQuarantined prior))"
    and a: "a \<in> set prior" "qeQuarantined a" "qeJiraKey a \<noteq> ''''"
  shows "\<exists>es. stored_entries lib w' path = Some es \<and>
    (\<forall>e\<in>set es. qeQuarantined e \<and> entry_key e = entry_key a \<longrightarrow> qeJiraKey e = qeJiraKey a)"
proof -
  obtain opts1 opts2 w1 w2 res w3 where o1: "prior_options lib cfg w = Inr opts1" and o2: "jira_options lib cfg w = (w1, Inr opts2)"
    and run: "Run rnd (tlRun lib) cfg (opts1 @ opts2) w1 = (w2, Some (Inr res))"
    and w3: "w3 = print_all lib (printSummary rnd (tlFixed1 lib) (tlFixed0 lib) res) w2"
    and finish: "srTestsRecorded (fuScrape res) = 0 \<and> w' = w3 \<or>
     srTestsRecorded (fuScrape res) \<noteq> 0 \<and> (\<exists>w4. writeQuarantineList lib cfg (fuAllEntries res) w3 = (w4, None) \<and>
       (w' = w4 \<or> w' = fst (pushBack (tlGit lib) path w4)))"
    using tool_run_ok [OF ok cfg] unfolding path(1) .
  define rc where "rc = foldl (\<lambda>rc f. f rc) \<lparr>rcBucketClient = False, rcJiraClient = None, rcPriorEntries = []\<rparr> (opts1 @ opts2)"
  have rc_prior: "rcPriorEntries rc = prior"
    using prior_options_entries [OF o1] prior(1) path jira_options_frame(1) [OF o2] by (simp add: rc_def)
  note index = indexPriorEntries_distinct [OF prior(2)]
  show ?thesis
  proof (cases "srTestsRecorded (fuScrape res) = 0")
    case True
    have "tlReadFile lib w2 path = tlReadFile lib w1 path"
      using laws o1 o2 run unfolding file_laws_def by (metis fst_conv)
    with True finish have "tlReadFile lib w' path = tlReadFile lib w path"
      using print_all_reads [OF laws] jira_options_frame(2) [OF o2 laws] by (simp add: w3)
    then have "stored_entries lib w' path = Some prior"
      using prior(1) stored_cong by metis
    moreover have "qeJiraKey e = qeJiraKey a" if "e \<in> set prior" "qeQuarantined e" "entry_key e = entry_key a" for e
      using that index [OF a(1,2)] index [OF that(1,2)] by simp
    ultimately show ?thesis
      by blast
  next
    case False
    with finish written_stored [OF laws path] have "stored_entries lib w' path = Some (fuAllEntries res)"
      using laws stored_cong unfolding file_laws_def by metis
    moreover have "qeJiraKey e = qeJiraKey a"
      if e: "e \<in> set (fuAllEntries res)" "qeQuarantined e" "entry_key e = entry_key a" for e
    proof -
      have "known_ticket (indexPriorEntries prior) e = qeJiraKey a"
        using index [OF a(1,2)] by (simp add: known_ticket_def e(3))
      moreover obtain v es newly unq errs where "reconcileQuarantine (rcJiraClient rc) prior v es = (w2, fuAllEntries res, newly, unq, errs)"
        using Run_entries [OF run False rc_def] e rc_prior by (metis prod.exhaust)
      ultimately show ?thesis
        using reconcile_keeps_ticket a(3) e by metis
    qed
    ultimately show ?thesis
      by blast
  qed
qed

section \<open>Examples\<close>

text \<open>
  The world is the quarantine file. One artifact was recorded, the stored series are those of the examples before, and no Jira is
  configured.
\<close>

definition example_tool_world :: "(QuarantineEntry list, QuarantineEntry list) run_world" where
  "example_tool_world = \<lparr>
     rwScrape = \<lparr>swList = (\<lambda>w b p. (w, Inr [p @ ''/1/artifacts/junit.xml''])), swRead = (\<lambda>w b n. (w, Inr [])), swCtxErr = (\<lambda>w. None),
       swSleep = (\<lambda>w d. w), swNow = (\<lambda>w. 1),
       swSuites = (\<lambda>_. Inr (''testsuites'', [\<lparr>jsName = ''s'', jsTimestamp = '''', jsCases = [\<lparr>jcName = ''t'', jcTime = 1, jcFailure = False, jcError = False,
         jcSkipped = False, jcProperties = []\<rparr>]\<rparr>])), swSuite = (\<lambda>d. Inl (ErrNew ''no suite'')),
       swTime = (\<lambda>l s. None), swAppend = (\<lambda>w l t v. (w, None)), swFloat = (\<lambda>s. None), swSeconds = (\<lambda>d. 1)\<rparr>,
     rwConfig = example_env\<lparr>ceGetenv := (\<lambda>_. '''')\<rparr>, rwNewStore = (\<lambda>w. (w, None)), rwNewClient = (\<lambda>w. (w, None)), rwCommit = (\<lambda>w. (w, None)),
     rwClock = (\<lambda>w. 5), rwAddDays = (\<lambda>t n. t + n), rwFormat = (\<lambda>t. ''''), rwPercent = (\<lambda>r. ''''), rwMatches = (\<lambda>p s. p = s),
     rwSelect = (\<lambda>w a b. example_select),
     rwDurations = (\<lambda>w. \<lparr>sqMatcher = (\<lambda>l v. None), sqSelect = (\<lambda>m a b. Inr ([], None))\<rparr>), rwOrders = plain_orders\<rparr>"

definition example_tool_config :: Config where
  "example_tool_config = loaded_config\<lparr>cfAnalysis := \<lparr>acThreshold = FFin (1 / 3), acWindowDays = 30, acMinRuns = 1\<rparr>,
     cfQuarantine := \<lparr>qcConfigPath = ''q.json'', qcAutoQuarantine = True, qcExcludePatterns = []\<rparr>\<rparr>"

definition example_tool :: "(QuarantineEntry list, QuarantineEntry list) tool_lib" where
  "example_tool = \<lparr>tlRun = example_tool_world,
     tlJira = \<lparr>jlHttp = \<lparr>htNewRequest = (\<lambda>u. None), htDo = (\<lambda>w r. (w, Inl (ErrNew ''offline'')))\<rparr>, jlEncode = (\<lambda>j. Inr ''''),
       jlBase64 = (\<lambda>s. s), jlPathEscape = (\<lambda>s. s), jlDate = (\<lambda>t. ''''), jlPercent = (\<lambda>r. ''''), jlNow = (\<lambda>w. 5),
       jlDecodeKey = (\<lambda>r. Inr ''''), jlDecodeStatus = (\<lambda>r. Inr '''')\<rparr>,
     tlGit = \<lparr>glEnviron = [], glRun = (\<lambda>w c. (w, Inr '''')), glExitCode = (\<lambda>e. None), glCreateTemp = (\<lambda>w p. (w, Inr ''a'')),
       glWriteString = (\<lambda>w f t. (w, None)), glCloseFile = (\<lambda>w f. (w, None)), glChmod = (\<lambda>w f m. (w, None)),
       glRemove = (\<lambda>w f. (w, None)), glPrint = (\<lambda>w t. w)\<rparr>,
     tlParseURL = (\<lambda>r. Inr example_url), tlReadFile = (\<lambda>w p. Inr w), tlNotExist = (\<lambda>e. False), tlWriteFile = (\<lambda>w p d. (d, None)),
     tlConfig = (\<lambda>d. Inr example_tool_config), tlEntries = Inr, tlMarshal = Inr, tlText = (\<lambda>d. ''''), tlNow = (\<lambda>w. 5),
     tlFixed1 = (\<lambda>r. ''''), tlFixed0 = (\<lambda>r. ''''), tlPrint = (\<lambda>w out. w)\<rparr>"

theorem tickets_survive_runs_witness:
  "let w = fst (tool_run (\<lambda>x. x) example_tool ''flakiness.yaml'' False [example_entry ''shaky'' True ''K-1''])
   in map (\<lambda>e. (qeName e, qeJiraKey e)) (filter qeQuarantined w) = [(''shaky'', ''K-1'')]"
proof -
  let ?w = "[example_entry ''shaky'' True ''K-1'']"
  define w' where "w' = fst (tool_run (\<lambda>x. x) example_tool ''flakiness.yaml'' False ?w)"
  have out: "snd (tool_run (\<lambda>x. x) example_tool ''flakiness.yaml'' False ?w) = Some None"
    and names: "map (\<lambda>e. (qeName e, entry_key e)) (filter qeQuarantined (fst (tool_run (\<lambda>x. x) example_tool ''flakiness.yaml'' False ?w))) =
      [(''shaky'', entry_key (example_entry ''shaky'' True ''K-1''))]"
    by code_simp+
  have cfg: "LoadConfig (\<lambda>x. x) (rwConfig (tlRun example_tool)) (tlReadFile example_tool ?w) (tlConfig example_tool) ''flakiness.yaml'' = Inr example_tool_config"
    by code_simp
  have "prior_options example_tool example_tool_config ?w = Inr opts \<Longrightarrow> opts = [WithPriorEntries ?w]"
    and "jira_options example_tool example_tool_config ?w = (v, Inr opts) \<Longrightarrow> v = ?w \<and> opts = []" for opts v
    by (simp_all add: prior_options_def jira_options_def example_tool_config_def example_tool_def prior_file_def LoadPriorEntries_def
        loaded_config_def example_config_def)
  moreover have "fst (Run (\<lambda>x. x) (tlRun example_tool) example_tool_config [WithPriorEntries ?w] ?w) = ?w"
    by code_simp
  ultimately have laws: "file_laws (\<lambda>x. x) example_tool example_tool_config ?w ''q.json''"
    unfolding file_laws_def by (auto simp: example_tool_def pushBack_def git_Getenv_def)
  let ?e = "example_entry ''shaky'' True ''K-1''"
  have run: "tool_run (\<lambda>x. x) example_tool ''flakiness.yaml'' False ?w = (w', Some None)"
    using out by (simp add: w'_def prod_eq_iff)
  have stored: "stored_entries example_tool w ''q.json'' = Some w" for w
    by (simp add: stored_entries_def example_tool_def)
  have path: "''q.json'' = qcConfigPath (cfQuarantine example_tool_config)"
    by (simp add: example_tool_config_def)
  have entry: "qeQuarantined ?e" "qeJiraKey ?e = ''K-1''"
    by (simp_all add: example_entry_def)
  have "\<forall>e\<in>set w'. qeQuarantined e \<and> entry_key e = entry_key ?e \<longrightarrow> qeJiraKey e = ''K-1''"
    using tickets_survive_runs [OF run cfg path _ laws stored, of ?e] entry by (simp add: stored)
  moreover obtain e where "filter qeQuarantined w' = [e]" "qeName e = ''shaky''" "entry_key e = entry_key ?e"
    using names unfolding w'_def [symmetric] by auto
  moreover from this(1) have "e \<in> set (filter qeQuarantined w')"
    by simp
  then have "e \<in> set w'" "qeQuarantined e"
    unfolding set_filter by simp_all
  ultimately show ?thesis
    unfolding w'_def [symmetric] Let_def by simp
qed

end
