(* ===== verification/Singleton.thy ===== *)
theory Singleton
  imports Webhook
begin

text \<open>
  The singleton rule of \<^verbatim>\<open>pkg/webhook\<close>: an admission check that denies the creation of a second object of a kind, and the
  fields that its log lines carry. The reader and the responses of the admission library are parameters.
\<close>

section \<open>The rule\<close>

record admission_responses =
  adAllowed :: "string \<Rightarrow> admission_response"
  adDenied :: "string \<Rightarrow> admission_response"
  adErrored :: "int \<Rightarrow> go_error \<Rightarrow> admission_response"

type_synonym lister = "gvk \<Rightarrow> go_error + kobj list"

definition CountObjects :: "lister \<Rightarrow> gvk \<Rightarrow> go_error + nat" where
  "CountObjects r g =
     (case r (mk_gvk (gGroup g) (gVersion g) (gKind g @ ''List'')) of
        Inl err \<Rightarrow> Inl (ErrWrap (''counting '' @ gKind g @ '' objects'') err)
      | Inr items \<Rightarrow> Inr (length items))"

definition DenyCountGtZero :: "admission_responses \<Rightarrow> nat \<Rightarrow> gvk \<Rightarrow> admission_response" where
  "DenyCountGtZero ad n g =
     (if n > 0 then adDenied ad (''only one instance of '' @ gKind g @ '' is allowed; an instance already exists'')
      else adAllowed ad '''')"

definition ValidateSingletonCreation ::
  "admission_responses \<Rightarrow> lister \<Rightarrow> admission_request \<Rightarrow> gvk \<Rightarrow> admission_response" where
  "ValidateSingletonCreation ad r req g =
     (if arOperation req \<noteq> OpCreate then adAllowed ad ''singleton validation only applies to CREATE operations''
      else case CountObjects r g of
             Inl err \<Rightarrow> adErrored ad 500 err
           | Inr n \<Rightarrow> DenyCountGtZero ad n g)"

text \<open>The values that the log constructor adds to the default ones of a request, if there is one.\<close>

definition webhook_log_values :: "string \<Rightarrow> (string \<times> string \<times> string \<times> string) option \<Rightarrow> (string \<times> string) list" where
  "webhook_log_values name req =
     (case req of
        None \<Rightarrow> [(''webhook'', name)]
      | Some (namespace, objName, operation, kind) \<Rightarrow>
          [(''webhook'', name), (''namespace'', namespace), (''name'', objName), (''operation'', operation), (''kind'', kind)])"

section \<open>What is admitted\<close>

text \<open>The responses of the admission library: allowed, denied, and errored, which denies too.\<close>

definition admission_laws :: "admission_responses \<Rightarrow> bool" where
  "admission_laws ad \<longleftrightarrow> (\<forall>m. rpAllowed (adAllowed ad m)) \<and> (\<forall>m. \<not> rpAllowed (adDenied ad m)) \<and> (\<forall>c e. \<not> rpAllowed (adErrored ad c e))"

text \<open>
  A request is admitted exactly when it creates nothing or the reader listed the objects of the kind and found none; a reader that fails
  blocks the creation. The rule looks at one listing: it does not exclude two creations that are admitted at the same time.
\<close>

lemma creation_allowed:
  assumes "admission_laws ad"
  shows "rpAllowed (ValidateSingletonCreation ad r req g) \<longleftrightarrow>
    arOperation req \<noteq> OpCreate \<or> r (mk_gvk (gGroup g) (gVersion g) (gKind g @ ''List'')) = Inr []"
  using assms
  by (auto simp: ValidateSingletonCreation_def CountObjects_def DenyCountGtZero_def admission_laws_def split: sum.splits)

end
