(* ===== verification/Metrics.thy ===== *)
theory Metrics
  imports GoErrors Complex_Main
begin

text \<open>
  The metrics of module operators (\<^verbatim>\<open>pkg/metrics\<close>): the schema and the recording helpers. A metric vector of the
  Prometheus client library is a state of any type with the operations of the library as parameters.
\<close>

section \<open>Schema\<close>

definition MetricPreconditionFailuresTotal :: string where "MetricPreconditionFailuresTotal = ''module_precondition_failures_total''"
definition MetricBuildInfo :: string where "MetricBuildInfo = ''module_build_info''"
definition MetricComponentRelease :: string where "MetricComponentRelease = ''module_component_release''"
definition MetricReconcilePhaseDurationSeconds :: string where
  "MetricReconcilePhaseDurationSeconds = ''module_reconcile_phase_duration_seconds''"
definition MetricManagedResources :: string where "MetricManagedResources = ''module_managed_resources''"
definition MetricConditionTransitionsTotal :: string where "MetricConditionTransitionsTotal = ''module_condition_transitions_total''"

definition LabelModule :: string where "LabelModule = ''module''"
definition LabelPrerequisite :: string where "LabelPrerequisite = ''prerequisite''"
definition LabelVersion :: string where "LabelVersion = ''version''"
definition LabelRepo :: string where "LabelRepo = ''repo''"
definition LabelPhase :: string where "LabelPhase = ''phase''"
definition LabelGroupVersionKind :: string where "LabelGroupVersionKind = ''group_version_kind''"
definition LabelConditionType :: string where "LabelConditionType = ''condition_type''"
definition LabelStatus :: string where "LabelStatus = ''status''"

datatype PrerequisiteReason =
    PrerequisiteMissingDependency | PrerequisiteMissingConfiguration | PrerequisiteAPIUnavailable
  | PrerequisiteInsufficientRBAC | PrerequisiteCRDNotFound | PrerequisiteComponentNotReady

fun prerequisite_string :: "PrerequisiteReason \<Rightarrow> string" where
  "prerequisite_string PrerequisiteMissingDependency = ''missing_dependency''"
| "prerequisite_string PrerequisiteMissingConfiguration = ''missing_configuration''"
| "prerequisite_string PrerequisiteAPIUnavailable = ''api_unavailable''"
| "prerequisite_string PrerequisiteInsufficientRBAC = ''insufficient_rbac''"
| "prerequisite_string PrerequisiteCRDNotFound = ''crd_not_found''"
| "prerequisite_string PrerequisiteComponentNotReady = ''component_not_ready''"

datatype ReconcilePhase = PhaseRender | PhaseDeploy | PhaseGC

fun phase_string :: "ReconcilePhase \<Rightarrow> string" where
  "phase_string PhaseRender = ''render''"
| "phase_string PhaseDeploy = ''deploy''"
| "phase_string PhaseGC = ''gc''"

datatype metric_status = MetricTrue | MetricFalse | MetricUnknown

fun metric_status_string :: "metric_status \<Rightarrow> string" where
  "metric_status_string MetricTrue = ''True''"
| "metric_status_string MetricFalse = ''False''"
| "metric_status_string MetricUnknown = ''Unknown''"

section \<open>Recording\<close>

text \<open>
  \<open>mlSet\<close>, \<open>mlInc\<close> and \<open>mlObserve\<close> are \<^verbatim>\<open>Set\<close>, \<^verbatim>\<open>Inc\<close> and \<^verbatim>\<open>Observe\<close> on the series with the given label values,
  \<open>mlDeletePartialMatch\<close> removes the series with the given labels, \<open>mlValue\<close> reads a gauge; \<open>mlSeconds\<close> is \<^verbatim>\<open>Duration.Seconds\<close>.
  A vector is created with the names of its labels.
\<close>

record ('g, 'c, 'h) metrics_lib =
  mlNewGauge :: "string \<Rightarrow> string list \<Rightarrow> 'g"
  mlNewCounter :: "string \<Rightarrow> string list \<Rightarrow> 'c"
  mlNewHistogram :: "string \<Rightarrow> string list \<Rightarrow> 'h"
  mlSet :: "'g \<Rightarrow> string list \<Rightarrow> rat \<Rightarrow> 'g"
  mlDeletePartialMatch :: "'g \<Rightarrow> (string \<times> string) list \<Rightarrow> 'g"
  mlValue :: "'g \<Rightarrow> string list \<Rightarrow> rat option"
  mlInc :: "'c \<Rightarrow> string list \<Rightarrow> 'c"
  mlObserve :: "'h \<Rightarrow> string list \<Rightarrow> rat \<Rightarrow> 'h"
  mlSeconds :: "duration \<Rightarrow> rat"

record ('g, 'c, 'h) module_metrics =
  mmPreconditionFailuresTotal :: 'c
  mmBuildInfo :: 'g
  mmComponentRelease :: 'g
  mmReconcilePhaseDurationSeconds :: 'h
  mmManagedResources :: 'g
  mmConditionTransitionsTotal :: 'c

definition initial_metrics :: "('g, 'c, 'h) metrics_lib \<Rightarrow> ('g, 'c, 'h) module_metrics" where
  "initial_metrics ml = \<lparr>
     mmPreconditionFailuresTotal = mlNewCounter ml MetricPreconditionFailuresTotal [LabelModule, LabelPrerequisite],
     mmBuildInfo = mlNewGauge ml MetricBuildInfo [LabelModule, LabelVersion, LabelRepo],
     mmComponentRelease = mlNewGauge ml MetricComponentRelease [LabelModule, LabelVersion, LabelRepo],
     mmReconcilePhaseDurationSeconds = mlNewHistogram ml MetricReconcilePhaseDurationSeconds [LabelModule, LabelPhase],
     mmManagedResources = mlNewGauge ml MetricManagedResources [LabelModule, LabelGroupVersionKind],
     mmConditionTransitionsTotal = mlNewCounter ml MetricConditionTransitionsTotal [LabelModule, LabelConditionType, LabelStatus]\<rparr>"

definition RecordPreconditionFailure ::
  "('g, 'c, 'h) metrics_lib \<Rightarrow> string \<Rightarrow> PrerequisiteReason \<Rightarrow> ('g, 'c, 'h) module_metrics \<Rightarrow> ('g, 'c, 'h) module_metrics" where
  "RecordPreconditionFailure ml mdl prerequisite m =
     m\<lparr>mmPreconditionFailuresTotal := mlInc ml (mmPreconditionFailuresTotal m) [mdl, prerequisite_string prerequisite]\<rparr>"

definition RecordBuildInfo ::
  "('g, 'c, 'h) metrics_lib \<Rightarrow> string \<Rightarrow> string \<Rightarrow> string \<Rightarrow> ('g, 'c, 'h) module_metrics \<Rightarrow> ('g, 'c, 'h) module_metrics" where
  "RecordBuildInfo ml mdl version repo m =
     m\<lparr>mmBuildInfo := mlSet ml (mlDeletePartialMatch ml (mmBuildInfo m) [(LabelModule, mdl)]) [mdl, version, repo] 1\<rparr>"

definition RecordComponentRelease ::
  "('g, 'c, 'h) metrics_lib \<Rightarrow> string \<Rightarrow> string \<Rightarrow> string \<Rightarrow> ('g, 'c, 'h) module_metrics \<Rightarrow> ('g, 'c, 'h) module_metrics" where
  "RecordComponentRelease ml mdl version repo m =
     m\<lparr>mmComponentRelease := mlSet ml (mlDeletePartialMatch ml (mmComponentRelease m) [(LabelModule, mdl)]) [mdl, version, repo] 1\<rparr>"

definition RecordReconcilePhaseDuration ::
  "('g, 'c, 'h) metrics_lib \<Rightarrow> string \<Rightarrow> ReconcilePhase \<Rightarrow> duration \<Rightarrow> ('g, 'c, 'h) module_metrics \<Rightarrow> ('g, 'c, 'h) module_metrics" where
  "RecordReconcilePhaseDuration ml mdl phase d m =
     m\<lparr>mmReconcilePhaseDurationSeconds := mlObserve ml (mmReconcilePhaseDurationSeconds m) [mdl, phase_string phase] (mlSeconds ml d)\<rparr>"

text \<open>\<open>counts\<close> is a Go map in the order of its iteration; \<open>rnd\<close> rounds to a float64.\<close>

definition SetManagedResources ::
  "(rat \<Rightarrow> rat) \<Rightarrow> ('g, 'c, 'h) metrics_lib \<Rightarrow> string \<Rightarrow> (string \<times> int) list \<Rightarrow> ('g, 'c, 'h) module_metrics \<Rightarrow> ('g, 'c, 'h) module_metrics" where
  "SetManagedResources rnd ml mdl counts m =
     m\<lparr>mmManagedResources :=
         foldl (\<lambda>v (g, n). mlSet ml v [mdl, g] (rnd (rat_of_int n)))
           (mlDeletePartialMatch ml (mmManagedResources m) [(LabelModule, mdl)]) counts\<rparr>"

definition RecordConditionTransition ::
  "('g, 'c, 'h) metrics_lib \<Rightarrow> string \<Rightarrow> string \<Rightarrow> metric_status \<Rightarrow> ('g, 'c, 'h) module_metrics \<Rightarrow> ('g, 'c, 'h) module_metrics" where
  "RecordConditionTransition ml mdl conditionType status m =
     m\<lparr>mmConditionTransitionsTotal := mlInc ml (mmConditionTransitionsTotal m) [mdl, conditionType, metric_status_string status]\<rparr>"

section \<open>Stale series are retired\<close>

text \<open>
  What is documented of gauge vectors: a value that was set is read, and deleting by partial match removes exactly the series whose labels match. The
  first label of every vector here is the module.
\<close>

definition gauge_laws :: "('g, 'c, 'h) metrics_lib \<Rightarrow> bool" where
  "gauge_laws ml \<longleftrightarrow>
     (\<forall>v ls x ls'. mlValue ml (mlSet ml v ls x) ls' = (if ls' = ls then Some x else mlValue ml v ls')) \<and>
     (\<forall>v md md' ls. mlValue ml (mlDeletePartialMatch ml v [(LabelModule, md)]) (md' # ls) = (if md' = md then None else mlValue ml v (md' # ls)))"

lemma set_many:
  assumes "gauge_laws ml" "distinct (map fst counts)"
  shows "mlValue ml (foldl (\<lambda>v (g, n). mlSet ml v [mdl, g] (f n)) v counts) [md, k] =
    (case map_of counts k of Some n \<Rightarrow> if md = mdl then Some (f n) else mlValue ml v [md, k] | None \<Rightarrow> mlValue ml v [md, k])"
  using assms(2)
proof (induction counts arbitrary: v)
  case (Cons c counts)
  obtain g n where c: "c = (g, n)"
    by fastforce
  with Cons.prems have "map_of counts g = None"
    by (simp add: map_of_eq_None_iff)
  with Cons c assms(1) show ?case
    by (auto simp: gauge_laws_def split: option.splits)
qed simp

text \<open>
  Recorded gauges replace those of the module and nothing else. After recording the managed resources of a module its series are exactly
  the given counts, whatever was recorded before and in whatever order the map is iterated; after recording a build its only series
  is that build; the series of every other module are unchanged.\<close>

theorem gauges_retire_stale:
  assumes laws: "gauge_laws ml" and map: "distinct (map fst counts)"
  shows "mlValue ml (mmManagedResources (SetManagedResources rnd ml mdl counts m)) [md, k] =
      (if md = mdl then map_option (\<lambda>n. rnd (rat_of_int n)) (map_of counts k) else mlValue ml (mmManagedResources m) [md, k]) \<and>
    mlValue ml (mmBuildInfo (RecordBuildInfo ml mdl version repo m)) [md, ver, rep] =
      (if md = mdl then if ver = version \<and> rep = repo then Some 1 else None else mlValue ml (mmBuildInfo m) [md, ver, rep])"
proof
  have deleted: "mlValue ml (mlDeletePartialMatch ml v [(LabelModule, mdl)]) (md # ls) = (if md = mdl then None else mlValue ml v (md # ls))" for v ls
    using laws unfolding gauge_laws_def by blast
  show "mlValue ml (mmManagedResources (SetManagedResources rnd ml mdl counts m)) [md, k] =
      (if md = mdl then map_option (\<lambda>n. rnd (rat_of_int n)) (map_of counts k) else mlValue ml (mmManagedResources m) [md, k])"
    using deleted by (auto simp: SetManagedResources_def set_many [OF laws map] split: option.split)
  show "mlValue ml (mmBuildInfo (RecordBuildInfo ml mdl version repo m)) [md, ver, rep] =
      (if md = mdl then if ver = version \<and> rep = repo then Some 1 else None else mlValue ml (mmBuildInfo m) [md, ver, rep])"
    using laws by (auto simp: RecordBuildInfo_def gauge_laws_def)
qed

section \<open>Examples\<close>

text \<open>A gauge vector as a function from label values.\<close>

definition example_metrics :: "(string list \<Rightarrow> rat option, unit, unit) metrics_lib" where
  "example_metrics = \<lparr>mlNewGauge = (\<lambda>n ls l. None), mlNewCounter = (\<lambda>n ls. ()), mlNewHistogram = (\<lambda>n ls. ()),
     mlSet = (\<lambda>v ls x. v(ls := Some x)),
     mlDeletePartialMatch = (\<lambda>v match ls. if ls \<noteq> [] \<and> match = [(LabelModule, hd ls)] then None else v ls),
     mlValue = (\<lambda>v ls. v ls), mlInc = (\<lambda>c ls. c), mlObserve = (\<lambda>h ls x. h), mlSeconds = (\<lambda>d. 0)\<rparr>"

theorem gauges_retire_stale_witness:
  "let m = SetManagedResources (\<lambda>x. x) example_metrics ''dash'' [(''apps/Deployment'', 3)] (initial_metrics example_metrics);
       m' = SetManagedResources (\<lambda>x. x) example_metrics ''dash'' [(''core/Service'', 2)] m
   in mlValue example_metrics (mmManagedResources m') [''dash'', ''apps/Deployment''] = None \<and>
      mlValue example_metrics (mmManagedResources m') [''dash'', ''core/Service''] = Some 2"
proof -
  have laws: "gauge_laws example_metrics"
    by (auto simp: gauge_laws_def example_metrics_def)
  note exact = gauges_retire_stale [OF laws, of "[(''core/Service'', 2)]" "\<lambda>x. x" "''dash''"]
  show ?thesis
    using exact [of _ "''dash''" "''apps/Deployment''"] exact [of _ "''dash''" "''core/Service''"] by (simp add: Let_def)
qed

end
