(* ===== verification/TypedClient.thy ===== *)
theory TypedClient
  imports KObject
begin

text \<open>
  The client of the framework, which reads every object through the unstructured cache (\<^verbatim>\<open>framework/client/client.go\<close>), the manager
  that hands it out (\<^verbatim>\<open>framework/manager/manager.go\<close>) and the cache transform of \<^verbatim>\<open>pkg/cache\<close>. The wrapped client, the
  scheme and the converter are parameters.
\<close>

section \<open>Reads\<close>

text \<open>
  An object or a list is unstructured, partial metadata or of a Go type. The wrapped client keeps one cache per kind and per such view, so
  its \<^verbatim>\<open>Get\<close> and \<^verbatim>\<open>List\<close> are three operations each, one for every view.
\<close>

datatype 'o go_object = Unstructured kobj | PartialMeta kobj | Typed 'o

record unstructured_list =
  ulGVK :: gvk
  ulItems :: "kobj list"
  ulResourceVersion :: string
  ulContinue :: string
  ulRemaining :: "int option"

datatype 'l go_list = UnstructuredL unstructured_list | PartialMetaL unstructured_list | TypedL 'l

type_synonym list_option = "string option \<Rightarrow> string option"

record ('w, 'o, 'l) inner_client =
  icGVK :: "'o go_object \<Rightarrow> go_error + gvk"
  icListGVK :: "'l go_list \<Rightarrow> go_error + gvk"
  icGetU :: "'w \<Rightarrow> string \<times> string \<Rightarrow> kobj \<Rightarrow> 'w \<times> (go_error + kobj)"
  icGetP :: "'w \<Rightarrow> string \<times> string \<Rightarrow> kobj \<Rightarrow> 'w \<times> (go_error + kobj)"
  icGetT :: "'w \<Rightarrow> string \<times> string \<Rightarrow> 'o \<Rightarrow> 'w \<times> (go_error + 'o)"
  icListU :: "'w \<Rightarrow> unstructured_list \<Rightarrow> list_option list \<Rightarrow> 'w \<times> (go_error + unstructured_list)"
  icListP :: "'w \<Rightarrow> unstructured_list \<Rightarrow> list_option list \<Rightarrow> 'w \<times> (go_error + unstructured_list)"
  icListT :: "'w \<Rightarrow> 'l \<Rightarrow> list_option list \<Rightarrow> 'w \<times> (go_error + 'l)"
  icNew :: "gvk \<Rightarrow> go_error + 'o"
  icFromUnstructured :: "kobj \<Rightarrow> 'o \<Rightarrow> go_error + 'o"
  icSetGVK :: "gvk \<Rightarrow> 'o \<Rightarrow> 'o"
  icSetList :: "'l \<Rightarrow> 'o list \<Rightarrow> go_error + 'l"
  icSetListMeta :: "'l \<Rightarrow> string \<Rightarrow> string \<Rightarrow> int option \<Rightarrow> gvk \<Rightarrow> 'l"

definition Client_Get :: "('w, 'o, 'l) inner_client \<Rightarrow> string \<times> string \<Rightarrow> 'o go_object \<Rightarrow> 'w \<Rightarrow> 'w \<times> (go_error + 'o go_object)" where
  "Client_Get c key obj w =
     (case icGVK c obj of
        Inl err \<Rightarrow> (w, Inl (ErrWrap ''failed to get GVK'' err))
      | Inr g \<Rightarrow>
          (case obj of
             Unstructured u \<Rightarrow> map_prod id (map_sum id Unstructured) (icGetU c w key u)
           | PartialMeta p \<Rightarrow> map_prod id (map_sum id PartialMeta) (icGetP c w key p)
           | Typed t \<Rightarrow>
               (case icGetU c w key (GvkToUnstructured g) of
                  (w1, Inl err) \<Rightarrow> (w1, Inl err)
                | (w1, Inr u) \<Rightarrow>
                    (case icFromUnstructured c u t of
                       Inl err \<Rightarrow> (w1, Inl (ErrWrap ''failed to convert unstructured to typed'' err))
                     | Inr t' \<Rightarrow> (w1, Inr (Typed (icSetGVK c g t')))))))"

text \<open>A list option changes the list options, of which only the field selector matters here.\<close>

definition hasFieldSelector :: "list_option list \<Rightarrow> bool" where
  "hasFieldSelector opts \<longleftrightarrow> foldl (\<lambda>s f. f s) None opts \<noteq> None"

fun convert_items :: "('w, 'o, 'l) inner_client \<Rightarrow> gvk \<Rightarrow> nat \<Rightarrow> kobj list \<Rightarrow> go_error + 'o list" where
  "convert_items c itemGVK i [] = Inr []"
| "convert_items c itemGVK i (u # us) =
     (case icNew c itemGVK of
        Inl err \<Rightarrow> Inl (ErrWrap (''failed to create typed object for item '' @ nat_str i) err)
      | Inr obj \<Rightarrow>
          (case icFromUnstructured c u obj of
             Inl err \<Rightarrow> Inl (ErrWrap (''failed to convert unstructured item '' @ nat_str i @ '' to typed'') err)
           | Inr obj' \<Rightarrow> map_sum id (\<lambda>objs. obj' # objs) (convert_items c itemGVK (i + 1) us)))"

text \<open>The kind of the items of a list.\<close>

definition item_gvk :: "gvk \<Rightarrow> gvk" where
  "item_gvk g = mk_gvk (gGroup g) (gVersion g) (trim_suffix ''List'' (gKind g))"

definition empty_list :: "gvk \<Rightarrow> unstructured_list" where
  "empty_list g = \<lparr>ulGVK = g, ulItems = [], ulResourceVersion = '''', ulContinue = '''', ulRemaining = None\<rparr>"

definition Client_List :: "('w, 'o, 'l) inner_client \<Rightarrow> 'l go_list \<Rightarrow> list_option list \<Rightarrow> 'w \<Rightarrow> 'w \<times> (go_error + 'l go_list)" where
  "Client_List c lst opts w =
     (case icListGVK c lst of
        Inl err \<Rightarrow> (w, Inl (ErrWrap ''failed to get GVK for list'' err))
      | Inr g \<Rightarrow>
          (case lst of
             UnstructuredL u \<Rightarrow> map_prod id (map_sum id UnstructuredL) (icListU c w u opts)
           | PartialMetaL p \<Rightarrow> map_prod id (map_sum id PartialMetaL) (icListP c w p opts)
           | TypedL t \<Rightarrow>
               if hasFieldSelector opts then map_prod id (map_sum id TypedL) (icListT c w t opts)
               else (case icListU c w (empty_list g) opts of
                       (w1, Inl err) \<Rightarrow> (w1, Inl err)
                     | (w1, Inr ul) \<Rightarrow>
                         (case convert_items c (item_gvk g) 0 (ulItems ul) of
                            Inl err \<Rightarrow> (w1, Inl err)
                          | Inr items \<Rightarrow>
                              (case icSetList c t items of
                                 Inl err \<Rightarrow> (w1, Inl (ErrWrap ''failed to set typed list items'' err))
                               | Inr t' \<Rightarrow>
                                   (w1, Inr (TypedL (icSetListMeta c t' (ulResourceVersion ul) (ulContinue ul) (ulRemaining ul) g))))))))"

section \<open>The manager\<close>

record ('m, 'c) Manager =
  mgManager :: 'm
  mgWrappedClient :: 'c
  mgManifestsBasePath :: string
  mgChartsBasePath :: string

definition WithManifestsBasePath :: "string \<Rightarrow> ('m, 'c) Manager \<Rightarrow> ('m, 'c) Manager" where
  "WithManifestsBasePath p m = m\<lparr>mgManifestsBasePath := p\<rparr>"

definition WithChartsBasePath :: "string \<Rightarrow> ('m, 'c) Manager \<Rightarrow> ('m, 'c) Manager" where
  "WithChartsBasePath p m = m\<lparr>mgChartsBasePath := p\<rparr>"

definition manager_New :: "('m \<Rightarrow> 'c) \<Rightarrow> 'm \<Rightarrow> (('m, 'c) Manager \<Rightarrow> ('m, 'c) Manager) list \<Rightarrow> ('m, 'c) Manager" where
  "manager_New getClient mgr opts =
     foldl (\<lambda>m f. f m) \<lparr>mgManager = mgr, mgWrappedClient = getClient mgr, mgManifestsBasePath = '''', mgChartsBasePath = ''''\<rparr> opts"

section \<open>The cache transform\<close>

definition AnnotationLastAppliedConfiguration :: string where
  "AnnotationLastAppliedConfiguration = ''kubectl.kubernetes.io/last-applied-configuration''"

text \<open>Something that is not a Kubernetes object passes unchanged. The transform never fails.\<close>

definition StripUnusedFields :: "'x + kobj \<Rightarrow> 'x + kobj" where
  "StripUnusedFields obj =
     (case obj of
        Inl x \<Rightarrow> Inl x
      | Inr x \<Rightarrow>
          let x1 = x\<lparr>oManagedFields := False\<rparr>
          in Inr (case oAnnotations x1 of
                    None \<Rightarrow> x1
                  | Some annotations \<Rightarrow> x1\<lparr>oAnnotations := Some (annotations(AnnotationLastAppliedConfiguration := None))\<rparr>))"

lemma StripUnusedFields_effect:
  assumes "StripUnusedFields (Inr x) = Inr y"
  shows "StripUnusedFields (Inr y) = Inr y"
    and "k \<noteq> AnnotationLastAppliedConfiguration \<Longrightarrow> GetAnnotation y k = GetAnnotation x k"
    and "GetAnnotation y AnnotationLastAppliedConfiguration = ''''"
    and "y\<lparr>oManagedFields := oManagedFields x, oAnnotations := oAnnotations x\<rparr> = x"
  using assms by (auto simp: StripUnusedFields_def GetAnnotation_def go_get_def Let_def fun_upd_idem split: option.splits)

section \<open>One view for every read\<close>

text \<open>An item converted from its unstructured form into a new object of the kind.\<close>

definition converts :: "('w, 'o, 'l) inner_client \<Rightarrow> gvk \<Rightarrow> kobj \<Rightarrow> 'o \<Rightarrow> bool" where
  "converts c g u x \<longleftrightarrow> (\<exists>n. icNew c g = Inr n \<and> icFromUnstructured c u n = Inr x)"

lemma convert_items_iff: "convert_items c g i us = Inr objs \<longleftrightarrow> list_all2 (converts c g) us objs"
proof (induction us arbitrary: i objs)
  case (Cons u us)
  show ?case
  proof (cases objs)
    case Nil
    then show ?thesis by (auto split: sum.splits simp: map_sum_def)
  next
    case (Cons x xs)
    then show ?thesis using Cons.IH [of "i + 1" xs] by (auto split: sum.splits simp: map_sum_def converts_def)
  qed
qed auto

datatype cache_view = UnstructuredView gvk | PartialView gvk | TypedView gvk

text \<open>
  What is observed of the wrapped client: a read starts the cache of its view, and no other. The cache of a list is that of the kind of
  its items.
\<close>

definition view_laws :: "('w, 'o, 'l) inner_client \<Rightarrow> ('w \<Rightarrow> cache_view set) \<Rightarrow> bool" where
  "view_laws c views \<longleftrightarrow>
     (\<forall>w key u. views (fst (icGetU c w key u)) = insert (UnstructuredView (oGVK u)) (views w)) \<and>
     (\<forall>w key u. views (fst (icGetP c w key u)) = insert (PartialView (oGVK u)) (views w)) \<and>
     (\<forall>w key t. views (fst (icGetT c w key t)) = (case icGVK c (Typed t) of Inl err \<Rightarrow> views w | Inr g \<Rightarrow> insert (TypedView g) (views w))) \<and>
     (\<forall>w l opts. views (fst (icListU c w l opts)) = insert (UnstructuredView (item_gvk (ulGVK l))) (views w)) \<and>
     (\<forall>w l opts. views (fst (icListP c w l opts)) = insert (PartialView (item_gvk (ulGVK l))) (views w)) \<and>
     (\<forall>w t opts. views (fst (icListT c w t opts)) =
        (case icListGVK c (TypedL t) of Inl err \<Rightarrow> views w | Inr g \<Rightarrow> insert (TypedView (item_gvk g)) (views w)))"

datatype ('o, 'l) read_call = CallGet "string \<times> string" "'o go_object" | CallList "'l go_list" "list_option list"

fun do_read :: "('w, 'o, 'l) inner_client \<Rightarrow> 'w \<Rightarrow> ('o, 'l) read_call \<Rightarrow> 'w" where
  "do_read c w (CallGet key obj) = fst (Client_Get c key obj w)"
| "do_read c w (CallList lst opts) = fst (Client_List c lst opts w)"

text \<open>A call that reads through the cache of the Go type: a typed list with a field selector.\<close>

definition selects_typed :: "('w, 'o, 'l) inner_client \<Rightarrow> gvk \<Rightarrow> ('o, 'l) read_call \<Rightarrow> bool" where
  "selects_typed c g call \<longleftrightarrow>
     (case call of
        CallList (TypedL t) opts \<Rightarrow> hasFieldSelector opts \<and> (\<exists>h. icListGVK c (TypedL t) = Inr h \<and> g = item_gvk h) | _ \<Rightarrow> False)"

lemma Get_views:
  assumes "view_laws c views"
  shows "TypedView g \<in> views (fst (Client_Get c key obj w)) \<longleftrightarrow> TypedView g \<in> views w"
proof (cases "icGVK c obj")
  case (Inr h)
  have u: "TypedView g \<in> views (fst (icGetU c w key u)) \<longleftrightarrow> TypedView g \<in> views w"
    and p: "TypedView g \<in> views (fst (icGetP c w key u)) \<longleftrightarrow> TypedView g \<in> views w" for u
    using assms unfolding view_laws_def by (cases key; simp)+
  obtain w1 r where r: "icGetU c w key (GvkToUnstructured h) = (w1, r)"
    by fastforce
  with u [of "GvkToUnstructured h"] have "TypedView g \<in> views w1 \<longleftrightarrow> TypedView g \<in> views w"
    by simp
  with Inr r u p show ?thesis
    by (cases obj; cases r) (auto simp: Client_Get_def split: sum.splits)
qed (simp add: Client_Get_def)

lemma List_views:
  assumes "view_laws c views"
  shows "TypedView g \<in> views (fst (Client_List c lst opts w)) \<longleftrightarrow> TypedView g \<in> views w \<or> selects_typed c g (CallList lst opts)"
proof (cases "icListGVK c lst")
  case (Inr h)
  have u: "TypedView g \<in> views (fst (icListU c w l opts)) \<longleftrightarrow> TypedView g \<in> views w"
    and p: "TypedView g \<in> views (fst (icListP c w l opts)) \<longleftrightarrow> TypedView g \<in> views w"
    and t: "views (fst (icListT c w t opts)) =
      (case icListGVK c (TypedL t) of Inl err \<Rightarrow> views w | Inr g \<Rightarrow> insert (TypedView (item_gvk g)) (views w))" for l t
    using assms by (simp_all add: view_laws_def)
  obtain w1 r where r: "icListU c w (empty_list h) opts = (w1, r)"
    by fastforce
  with u [of "empty_list h"] have "TypedView g \<in> views w1 \<longleftrightarrow> TypedView g \<in> views w"
    by simp
  with Inr r u p t show ?thesis
    by (cases lst; cases r) (auto simp: Client_List_def selects_typed_def split: sum.splits)
qed (auto simp: Client_List_def selects_typed_def split: go_list.splits)

lemma typed_list_result:
  assumes "\<not> hasFieldSelector opts"
  shows "Client_List c (TypedL t) opts w = (w', Inr r) \<longleftrightarrow>
    (\<exists>h ul items t'. icListGVK c (TypedL t) = Inr h \<and> icListU c w (empty_list h) opts = (w', Inr ul) \<and>
       list_all2 (converts c (item_gvk h)) (ulItems ul) items \<and> icSetList c t items = Inr t' \<and>
       r = TypedL (icSetListMeta c t' (ulResourceVersion ul) (ulContinue ul) (ulRemaining ul) h))"
proof (cases "icListGVK c (TypedL t)")
  case (Inr h)
  obtain w1 o1 where l: "icListU c w (empty_list h) opts = (w1, o1)"
    by fastforce
  show ?thesis
  proof (cases o1)
    case (Inr ul)
    show ?thesis
    proof (cases "convert_items c (item_gvk h) 0 (ulItems ul)")
      case (Inl err)
      then have "\<not> list_all2 (converts c (item_gvk h)) (ulItems ul) items" for items
        using convert_items_iff [of c "item_gvk h" 0 "ulItems ul" items] by simp
      then show ?thesis
        using Inl \<open>o1 = Inr ul\<close> \<open>icListGVK c (TypedL t) = Inr h\<close> l assms by (simp add: Client_List_def)
    next
      case (Inr items)
      then have "list_all2 (converts c (item_gvk h)) (ulItems ul) its \<longleftrightarrow> its = items" for its
        using convert_items_iff [of c "item_gvk h" 0 "ulItems ul" its] by auto
      then show ?thesis
        using Inr \<open>o1 = Inr ul\<close> \<open>icListGVK c (TypedL t) = Inr h\<close> l assms
        by (cases "icSetList c t items") (auto simp: Client_List_def)
    qed
  qed (use Inr l assms in \<open>simp add: Client_List_def\<close>)
qed (simp add: Client_List_def)

text \<open>
  C24: Reads share the unstructured cache. Over any sequence of reads through the client the cache of a Go type is started only by a typed list
  with a field selector for that kind. A typed read of an object gives exactly the object that the unstructured read of the same key gives
  at that moment, converted and marked with its kind, or the same error. A typed list without a field selector succeeds exactly when
  the unstructured list of the same options does and every item converts, and then it holds all of them, converted in their order, with the
  position of the list; so a controller never holds two copies of a kind that drift apart.\<close>

theorem reads_share_cache:
  assumes laws: "view_laws c views"
  shows "(TypedView g \<in> views (foldl (do_read c) w calls) \<longleftrightarrow> TypedView g \<in> views w \<or> list_ex (selects_typed c g) calls) \<and>
    Client_Get c key (Typed t) w =
      (case icGVK c (Typed t) of
         Inl err \<Rightarrow> (w, Inl (ErrWrap ''failed to get GVK'' err))
       | Inr h \<Rightarrow>
           map_prod id (\<lambda>r. case r of Inl err \<Rightarrow> Inl err
             | Inr u \<Rightarrow> map_sum (ErrWrap ''failed to convert unstructured to typed'') (Typed \<circ> icSetGVK c h) (icFromUnstructured c u t))
             (icGetU c w key (GvkToUnstructured h))) \<and>
    (\<not> hasFieldSelector opts \<longrightarrow>
      (Client_List c (TypedL tgt) opts w = (w', Inr r) \<longleftrightarrow>
        (\<exists>h ul items tgt'. icListGVK c (TypedL tgt) = Inr h \<and> icListU c w (empty_list h) opts = (w', Inr ul) \<and>
           list_all2 (\<lambda>u x. \<exists>n. icNew c (item_gvk h) = Inr n \<and> icFromUnstructured c u n = Inr x) (ulItems ul) items \<and>
           icSetList c tgt items = Inr tgt' \<and>
           r = TypedL (icSetListMeta c tgt' (ulResourceVersion ul) (ulContinue ul) (ulRemaining ul) h))))"
proof (intro conjI)
  have step: "TypedView g \<in> views (do_read c w call) \<longleftrightarrow> TypedView g \<in> views w \<or> selects_typed c g call" for w call
  proof (cases call)
    case (CallGet key obj)
    then have "\<not> selects_typed c g call"
      by (simp add: selects_typed_def)
    with Get_views [OF laws] CallGet show ?thesis
      by simp
  qed (use List_views [OF laws] in simp)
  show "TypedView g \<in> views (foldl (do_read c) w calls) \<longleftrightarrow> TypedView g \<in> views w \<or> list_ex (selects_typed c g) calls"
    by (induction calls arbitrary: w) (auto simp: step)
  show "\<not> hasFieldSelector opts \<longrightarrow>
      (Client_List c (TypedL tgt) opts w = (w', Inr r) \<longleftrightarrow>
        (\<exists>h ul items tgt'. icListGVK c (TypedL tgt) = Inr h \<and> icListU c w (empty_list h) opts = (w', Inr ul) \<and>
           list_all2 (\<lambda>u x. \<exists>n. icNew c (item_gvk h) = Inr n \<and> icFromUnstructured c u n = Inr x) (ulItems ul) items \<and>
           icSetList c tgt items = Inr tgt' \<and>
           r = TypedL (icSetListMeta c tgt' (ulResourceVersion ul) (ulContinue ul) (ulRemaining ul) h)))"
    using typed_list_result [of opts c tgt w w' r] unfolding converts_def [abs_def] by blast
qed (auto simp: Client_Get_def map_sum_def split: sum.splits prod.splits)

section \<open>Examples\<close>

text \<open>A world of started caches, and clients that find nothing but an empty object.\<close>

definition example_inner :: "(cache_view list, nat, nat list) inner_client" where
  "example_inner = \<lparr>icGVK = (\<lambda>x. Inr (mk_gvk '''' ''v1'' ''Pod'')), icListGVK = (\<lambda>x. Inr (mk_gvk '''' ''v1'' ''PodList'')),
     icGetU = (\<lambda>w k u. (UnstructuredView (oGVK u) # w, Inr u)), icGetP = (\<lambda>w k u. (PartialView (oGVK u) # w, Inr u)),
     icGetT = (\<lambda>w k t. (TypedView (mk_gvk '''' ''v1'' ''Pod'') # w, Inr t)),
     icListU = (\<lambda>w l opts. (UnstructuredView (item_gvk (ulGVK l)) # w, Inr (l\<lparr>ulItems := [GvkToUnstructured (mk_gvk '''' ''v1'' ''Pod'')]\<rparr>))),
     icListP = (\<lambda>w l opts. (PartialView (item_gvk (ulGVK l)) # w, Inr l)),
     icListT = (\<lambda>w t opts. (TypedView (item_gvk (mk_gvk '''' ''v1'' ''PodList'')) # w, Inr t)),
     icNew = (\<lambda>g. Inr 0), icFromUnstructured = (\<lambda>u n. Inr (n + 1)), icSetGVK = (\<lambda>g n. n), icSetList = (\<lambda>l ns. Inr ns),
     icSetListMeta = (\<lambda>l rv ct rm g. l)\<rparr>"

theorem reads_share_cache_witness:
  "let w = foldl (do_read example_inner) [] [CallGet (''ns'', ''a'') (Typed 0), CallList (TypedL []) []]
   in TypedView (mk_gvk '''' ''v1'' ''Pod'') \<notin> set w \<and> w = [UnstructuredView (mk_gvk '''' ''v1'' ''Pod''), UnstructuredView (mk_gvk '''' ''v1'' ''Pod'')] \<and>
      Client_List example_inner (TypedL []) [] w = (UnstructuredView (mk_gvk '''' ''v1'' ''Pod'') # w, Inr (TypedL [1]))"
proof -
  let ?pod = "mk_gvk '''' ''v1'' ''Pod''" and ?pods = "mk_gvk '''' ''v1'' ''PodList''"
  let ?calls = "[CallGet (''ns'', ''a'') (Typed 0), CallList (TypedL []) []]"
  define w where "w = foldl (do_read example_inner) [] ?calls"
  have item: "item_gvk ?pods = ?pod" by code_simp
  have laws: "view_laws example_inner set"
    by (auto simp: view_laws_def example_inner_def)
  have sel: "\<not> hasFieldSelector []" by (simp add: hasFieldSelector_def)
  have "\<not> list_ex (selects_typed example_inner g) ?calls" for g
    by (simp add: selects_typed_def hasFieldSelector_def)
  then have "TypedView ?pod \<notin> set w"
    unfolding w_def using reads_share_cache [OF laws, THEN conjunct1, of ?pod "[]" ?calls] by (simp only: list.set empty_iff simp_thms)
  moreover have "w = [UnstructuredView ?pod, UnstructuredView ?pod]"
    by (simp add: w_def Client_List_def example_inner_def Client_Get_def hasFieldSelector_def empty_list_def item GvkToUnstructured_def)
  moreover have "Client_List example_inner (TypedL []) [] w = (UnstructuredView ?pod # w, Inr (TypedL [1]))"
    using reads_share_cache [OF laws, where opts = "[]" and tgt = "[]" and w = w and w' = "UnstructuredView ?pod # w" and r = "TypedL [1]"] sel
    by (simp add: example_inner_def empty_list_def item)
  ultimately show ?thesis
    unfolding w_def [symmetric] Let_def by blast
qed

end
