(* ===== verification/GVKTable.thy ===== *)
theory GVKTable
  imports ApplyOrder Deploy DynamicOwnership Cluster
begin

text \<open>
  The kinds that the framework knows by name (\<^verbatim>\<open>framework/cluster/gvk/gvk.go\<close>), as a table from the names of the variables. The groups and
  versions that the file takes from the Kubernetes API packages are written out.
\<close>

section \<open>The table\<close>

definition gvks1 :: "(string \<times> gvk) list" where
  "gvks1 = [
     (''Namespace'', mk_gvk '''' ''v1'' ''Namespace''),
     (''Pod'', mk_gvk '''' ''v1'' ''Pod''),
     (''Deployment'', mk_gvk ''apps'' ''v1'' ''Deployment''),
     (''HorizontalPodAutoscaler'', mk_gvk ''autoscaling'' ''v2'' ''HorizontalPodAutoscaler''),
     (''StatefulSet'', mk_gvk ''apps'' ''v1'' ''StatefulSet''),
     (''DaemonSet'', mk_gvk ''apps'' ''v1'' ''DaemonSet''),
     (''Job'', mk_gvk ''batch'' ''v1'' ''Job''),
     (''CronJob'', mk_gvk ''batch'' ''v1'' ''CronJob''),
     (''ResourceQuota'', mk_gvk '''' ''v1'' ''ResourceQuota''),
     (''Group'', mk_gvk ''rbac.authorization.k8s.io'' ''v1'' ''Group''),
     (''ClusterRole'', mk_gvk ''rbac.authorization.k8s.io'' ''v1'' ''ClusterRole''),
     (''ClusterRoleBinding'', mk_gvk ''rbac.authorization.k8s.io'' ''v1'' ''ClusterRoleBinding''),
     (''Role'', mk_gvk ''rbac.authorization.k8s.io'' ''v1'' ''Role''),
     (''RoleBinding'', mk_gvk ''rbac.authorization.k8s.io'' ''v1'' ''RoleBinding''),
     (''ServiceAccount'', mk_gvk '''' ''v1'' ''ServiceAccount''),
     (''Secret'', mk_gvk '''' ''v1'' ''Secret''),
     (''ConfigMap'', mk_gvk '''' ''v1'' ''ConfigMap''),
     (''Service'', mk_gvk '''' ''v1'' ''Service''),
     (''OpenshiftIngress'', mk_gvk ''config.openshift.io'' ''v1'' ''Ingress''),
     (''OdhApplication'', mk_gvk ''dashboard.opendatahub.io'' ''v1'' ''OdhApplication''),
     (''OdhDocument'', mk_gvk ''dashboard.opendatahub.io'' ''v1'' ''OdhDocument'')]"

definition gvks2 :: "(string \<times> gvk) list" where
  "gvks2 = [
     (''DashboardAcceleratorProfile'', mk_gvk ''dashboard.opendatahub.io'' ''v1'' ''AcceleratorProfile''),
     (''DashboardHardwareProfile'', mk_gvk ''dashboard.opendatahub.io'' ''v1alpha1'' ''HardwareProfile''),
     (''OdhQuickStart'', mk_gvk ''console.openshift.io'' ''v1'' ''OdhQuickStart''),
     (''OdhDashboardConfig'', mk_gvk ''opendatahub.io'' ''v1alpha'' ''OdhDashboardConfig''),
     (''DataScienceCluster'', mk_gvk ''datasciencecluster.opendatahub.io'' ''v2'' ''DataScienceCluster''),
     (''Tenant'', mk_gvk ''maas.opendatahub.io'' ''v1alpha1'' ''Tenant''),
     (''CustomResourceDefinition'', mk_gvk ''apiextensions.k8s.io'' ''v1'' ''CustomResourceDefinition''),
     (''Lease'', mk_gvk ''coordination.k8s.io'' ''v1'' ''Lease''),
     (''DestinationRule'', mk_gvk ''networking.istio.io'' ''v1'' ''DestinationRule''),
     (''EnvoyFilter'', mk_gvk ''networking.istio.io'' ''v1alpha3'' ''EnvoyFilter''),
     (''IstioGateway'', mk_gvk ''networking.istio.io'' ''v1'' ''Gateway''),
     (''ProxyConfig'', mk_gvk ''networking.istio.io'' ''v1beta1'' ''ProxyConfig''),
     (''ServiceEntry'', mk_gvk ''networking.istio.io'' ''v1'' ''ServiceEntry''),
     (''Sidecar'', mk_gvk ''networking.istio.io'' ''v1'' ''Sidecar''),
     (''WorkloadEntry'', mk_gvk ''networking.istio.io'' ''v1'' ''WorkloadEntry''),
     (''WorkloadGroup'', mk_gvk ''networking.istio.io'' ''v1'' ''WorkloadGroup''),
     (''AuthorizationPolicy'', mk_gvk ''security.istio.io'' ''v1'' ''AuthorizationPolicy''),
     (''AuthorizationPolicyv1beta1'', mk_gvk ''security.istio.io'' ''v1beta1'' ''AuthorizationPolicy''),
     (''PeerAuthentication'', mk_gvk ''security.istio.io'' ''v1'' ''PeerAuthentication''),
     (''RequestAuthentication'', mk_gvk ''security.istio.io'' ''v1'' ''RequestAuthentication'')]"

definition gvks3 :: "(string \<times> gvk) list" where
  "gvks3 = [
     (''Telemetry'', mk_gvk ''telemetry.istio.io'' ''v1'' ''Telemetry''),
     (''WasmPlugin'', mk_gvk ''extensions.istio.io'' ''v1alpha1'' ''WasmPlugin''),
     (''Istio'', mk_gvk ''sailoperator.io'' ''v1'' ''Istio''),
     (''LeaderWorkerSetV1'', mk_gvk ''leaderworkerset.x-k8s.io'' ''v1'' ''LeaderWorkerSet''),
     (''LocalQueue'', mk_gvk ''kueue.x-k8s.io'' ''v1beta1'' ''LocalQueue''),
     (''ClusterQueue'', mk_gvk ''kueue.x-k8s.io'' ''v1beta1'' ''ClusterQueue''),
     (''ResourceFlavor'', mk_gvk ''kueue.x-k8s.io'' ''v1beta1'' ''ResourceFlavor''),
     (''KueueConfigV1'', mk_gvk ''kueue.openshift.io'' ''v1'' ''Kueue''),
     (''CertManagerV1Alpha1'', mk_gvk ''operator.openshift.io'' ''v1alpha1'' ''CertManager''),
     (''LeaderWorkerSetOperatorV1'', mk_gvk ''operator.openshift.io'' ''v1'' ''LeaderWorkerSetOperator''),
     (''JobSetOperatorV1'', mk_gvk ''operator.openshift.io'' ''v1'' ''JobSetOperator''),
     (''InferenceServices'', mk_gvk ''serving.kserve.io'' ''v1beta1'' ''InferenceService''),
     (''ServingRuntime'', mk_gvk ''serving.kserve.io'' ''v1alpha1'' ''ServingRuntime''),
     (''Notebook'', mk_gvk ''kubeflow.org'' ''v1'' ''Notebook''),
     (''LLMInferenceServiceConfigV1Alpha1'', mk_gvk ''serving.kserve.io'' ''v1alpha1'' ''LLMInferenceServiceConfig''),
     (''LLMInferenceServiceConfigV1Alpha2'', mk_gvk ''serving.kserve.io'' ''v1alpha2'' ''LLMInferenceServiceConfig''),
     (''LLMInferenceServiceV1Alpha1'', mk_gvk ''serving.kserve.io'' ''v1alpha1'' ''LLMInferenceService''),
     (''LLMInferenceServiceV1Alpha2'', mk_gvk ''serving.kserve.io'' ''v1alpha2'' ''LLMInferenceService''),
     (''InferencePoolV1alpha2'', mk_gvk ''inference.networking.x-k8s.io'' ''v1alpha2'' ''InferencePool'')]"

definition gvks4 :: "(string \<times> gvk) list" where
  "gvks4 = [
     (''InferencePoolV1'', mk_gvk ''inference.networking.k8s.io'' ''v1'' ''InferencePool''),
     (''InferenceModelV1alpha2'', mk_gvk ''inference.networking.x-k8s.io'' ''v1alpha2'' ''InferenceModel''),
     (''VariantAutoscaling'', mk_gvk ''llmd.ai'' ''v1alpha1'' ''VariantAutoscaling''),
     (''OperatorCondition'', mk_gvk ''operators.coreos.com'' ''v2'' ''OperatorCondition''),
     (''NetworkPolicy'', mk_gvk ''networking.k8s.io'' ''v1'' ''NetworkPolicy''),
     (''MonitoringStack'', mk_gvk ''monitoring.rhobs'' ''v1alpha1'' ''MonitoringStack''),
     (''PyTorchJob'', mk_gvk ''kubeflow.org'' ''v1'' ''PyTorchJob''),
     (''TrainJob'', mk_gvk ''trainer.kubeflow.org'' ''v1alpha1'' ''TrainJob''),
     (''ClusterTrainingRuntime'', mk_gvk ''trainer.kubeflow.org'' ''v1alpha1'' ''ClusterTrainingRuntime''),
     (''RayJobV1Alpha1'', mk_gvk ''ray.io'' ''v1alpha1'' ''RayJob''),
     (''RayJobV1'', mk_gvk ''ray.io'' ''v1'' ''RayJob''),
     (''RayClusterV1Alpha1'', mk_gvk ''ray.io'' ''v1alpha1'' ''RayCluster''),
     (''RayClusterV1'', mk_gvk ''ray.io'' ''v1'' ''RayCluster''),
     (''TempoMonolithic'', mk_gvk ''tempo.grafana.com'' ''v1alpha1'' ''TempoMonolithic''),
     (''TempoStack'', mk_gvk ''tempo.grafana.com'' ''v1alpha1'' ''TempoStack''),
     (''OpenTelemetryCollector'', mk_gvk ''opentelemetry.io'' ''v1beta1'' ''OpenTelemetryCollector''),
     (''Instrumentation'', mk_gvk ''opentelemetry.io'' ''v1alpha1'' ''Instrumentation''),
     (''ImageStream'', mk_gvk ''image.openshift.io'' ''v1'' ''ImageStream''),
     (''OpenshiftTemplate'', mk_gvk ''template.openshift.io'' ''v1'' ''Template''),
     (''ServiceMonitor'', mk_gvk ''monitoring.rhobs'' ''v1'' ''ServiceMonitor''),
     (''CoreosServiceMonitor'', mk_gvk ''monitoring.coreos.com'' ''v1'' ''ServiceMonitor'')]"

definition gvks5 :: "(string \<times> gvk) list" where
  "gvks5 = [
     (''CoreosPodMonitor'', mk_gvk ''monitoring.coreos.com'' ''v1'' ''PodMonitor''),
     (''PrometheusRule'', mk_gvk ''monitoring.rhobs'' ''v1'' ''PrometheusRule''),
     (''PersesV1Alpha1'', mk_gvk ''perses.dev'' ''v1alpha1'' ''Perses''),
     (''PersesV1Alpha2'', mk_gvk ''perses.dev'' ''v1alpha2'' ''Perses''),
     (''ThanosQuerier'', mk_gvk ''monitoring.rhobs'' ''v1alpha1'' ''ThanosQuerier''),
     (''PersesDatasourceV1Alpha1'', mk_gvk ''perses.dev'' ''v1alpha1'' ''PersesDatasource''),
     (''PersesDatasourceV1Alpha2'', mk_gvk ''perses.dev'' ''v1alpha2'' ''PersesDatasource''),
     (''PersesDashboardV1Alpha1'', mk_gvk ''perses.dev'' ''v1alpha1'' ''PersesDashboard''),
     (''PersesDashboardV1Alpha2'', mk_gvk ''perses.dev'' ''v1alpha2'' ''PersesDashboard''),
     (''ValidatingAdmissionPolicy'', mk_gvk ''admissionregistration.k8s.io'' ''v1'' ''ValidatingAdmissionPolicy''),
     (''ValidatingAdmissionPolicyBinding'', mk_gvk ''admissionregistration.k8s.io'' ''v1'' ''ValidatingAdmissionPolicyBinding''),
     (''MutatingWebhookConfiguration'', mk_gvk ''admissionregistration.k8s.io'' ''v1'' ''MutatingWebhookConfiguration''),
     (''ValidatingWebhookConfiguration'', mk_gvk ''admissionregistration.k8s.io'' ''v1'' ''ValidatingWebhookConfiguration''),
     (''AuthPolicyv1'', mk_gvk ''kuadrant.io'' ''v1'' ''AuthPolicy''),
     (''RateLimitPolicyv1'', mk_gvk ''kuadrant.io'' ''v1'' ''RateLimitPolicy''),
     (''TelemetryPolicyv1alpha1'', mk_gvk ''extensions.kuadrant.io'' ''v1alpha1'' ''TelemetryPolicy''),
     (''AuthConfigv1beta3'', mk_gvk ''authorino.kuadrant.io'' ''v1beta3'' ''AuthConfig''),
     (''Authorinov1beta1'', mk_gvk ''operator.authorino.kuadrant.io'' ''v1beta1'' ''Authorino''),
     (''Kuadrantv1beta1'', mk_gvk ''kuadrant.io'' ''v1beta1'' ''Kuadrant''),
     (''JobSetv1alpha2'', mk_gvk ''jobset.x-k8s.io'' ''v1alpha2'' ''JobSet''),
     (''MLflow'', mk_gvk ''mlflow.opendatahub.io'' ''v1'' ''MLflow'')]"

definition gvks6 :: "(string \<times> gvk) list" where
  "gvks6 = [
     (''PersistentVolumeClaim'', mk_gvk '''' ''v1'' ''PersistentVolumeClaim''),
     (''CertManagerCertificate'', mk_gvk ''cert-manager.io'' ''v1'' ''Certificate''),
     (''CertManagerCertificateRequest'', mk_gvk ''cert-manager.io'' ''v1'' ''CertificateRequest''),
     (''CertManagerIssuer'', mk_gvk ''cert-manager.io'' ''v1'' ''Issuer''),
     (''CertManagerClusterIssuer'', mk_gvk ''cert-manager.io'' ''v1'' ''ClusterIssuer''),
     (''AzureKubernetesEngine'', mk_gvk ''infrastructure.opendatahub.io'' ''v1alpha1'' ''AzureKubernetesEngine''),
     (''CoreWeaveKubernetesEngine'', mk_gvk ''infrastructure.opendatahub.io'' ''v1alpha1'' ''CoreWeaveKubernetesEngine''),
     (''SparkApplication'', mk_gvk ''sparkoperator.k8s.io'' ''v1beta2'' ''SparkApplication''),
     (''ScheduledSparkApplication'', mk_gvk ''sparkoperator.k8s.io'' ''v1beta2'' ''ScheduledSparkApplication'')]"

definition known_gvks :: "(string \<times> gvk) list" where
  "known_gvks = gvks1 @ gvks2 @ gvks3 @ gvks4 @ gvks5 @ gvks6"

definition LeaderWorkerSetOperatorCRDname :: string where "LeaderWorkerSetOperatorCRDname = ''leaderworkersetoperators.operator.openshift.io''"
definition SubscriptionCRDname :: string where "SubscriptionCRDname = ''subscriptions.operators.coreos.com''"
definition VariantAutoscalingCRDname :: string where "VariantAutoscalingCRDname = ''variantautoscalings.llmd.ai''"

section \<open>The kinds that the components use\<close>

text \<open>The customizers of the deploy action are keyed by different kinds, so none of them hides another.\<close>

definition customized_kinds :: "string list" where
  "customized_kinds = [''Deployment'', ''ClusterRole'', ''MonitoringStack'', ''TempoStack'', ''TempoMonolithic'', ''OpenTelemetryCollector'']"

lemma customized_kinds_known:
  "map (map_of known_gvks) customized_kinds =
    map Some [mk_gvk ''apps'' ''v1'' ''Deployment'', mk_gvk ''rbac.authorization.k8s.io'' ''v1'' ''ClusterRole'',
      mk_gvk ''monitoring.rhobs'' ''v1alpha1'' ''MonitoringStack'', mk_gvk ''tempo.grafana.com'' ''v1alpha1'' ''TempoStack'',
      mk_gvk ''tempo.grafana.com'' ''v1alpha1'' ''TempoMonolithic'', mk_gvk ''opentelemetry.io'' ''v1beta1'' ''OpenTelemetryCollector'']"
  "distinct (map (map_of known_gvks) customized_kinds)"
  by code_simp+

text \<open>The kinds that the components of the model use are those of the table.\<close>

lemma ordering_kinds_known:
  "map_of known_gvks ''CertManagerClusterIssuer'' = Some gvkCertManagerClusterIssuer"
  "map_of known_gvks ''CertManagerIssuer'' = Some gvkCertManagerIssuer"
  "map_of known_gvks ''CertManagerCertificate'' = Some gvkCertManagerCertificate"
  "map (map_of known_gvks) [''Deployment'', ''StatefulSet'', ''DaemonSet'', ''Job'', ''CronJob''] = map Some workload_gvks"
  "map (map_of known_gvks) [''MutatingWebhookConfiguration'', ''ValidatingWebhookConfiguration'', ''ValidatingAdmissionPolicy'',
     ''ValidatingAdmissionPolicyBinding''] = map Some webhook_gvks"
  by code_simp+

lemma watched_kinds_known:
  "map_of known_gvks ''CustomResourceDefinition'' = Some crdGVK" "map_of known_gvks ''CustomResourceDefinition'' = Some dyn_crdGVK"
  "map_of known_gvks ''Deployment'' = Some dyn_deploymentGVK" "map_of known_gvks ''OperatorCondition'' = Some operatorConditionGVK"
  by code_simp+

text \<open>The name of a definition is the plural of its kind and its group.\<close>

lemma definition_names:
  "map_of known_gvks ''LeaderWorkerSetOperatorV1'' = Some g \<Longrightarrow> LeaderWorkerSetOperatorCRDname = to_lower (gKind g) @ ''s.'' @ gGroup g"
  "map_of known_gvks ''VariantAutoscaling'' = Some g \<Longrightarrow> VariantAutoscalingCRDname = to_lower (gKind g) @ ''s.'' @ gGroup g"
proof -
  have "map_option (\<lambda>g. to_lower (gKind g) @ ''s.'' @ gGroup g) (map_of known_gvks ''LeaderWorkerSetOperatorV1'') = Some LeaderWorkerSetOperatorCRDname"
    and "map_option (\<lambda>g. to_lower (gKind g) @ ''s.'' @ gGroup g) (map_of known_gvks ''VariantAutoscaling'') = Some VariantAutoscalingCRDname"
    by code_simp+
  then show "map_of known_gvks ''LeaderWorkerSetOperatorV1'' = Some g \<Longrightarrow> LeaderWorkerSetOperatorCRDname = to_lower (gKind g) @ ''s.'' @ gGroup g"
    and "map_of known_gvks ''VariantAutoscaling'' = Some g \<Longrightarrow> VariantAutoscalingCRDname = to_lower (gKind g) @ ''s.'' @ gGroup g"
    by simp_all
qed

end
