(* ===== verification/Conformance.thy ===== *)
theory Conformance
  imports Contract
begin

text \<open>
  The releases of an object of the API package (\<^verbatim>\<open>api/common/types.go\<close>), and the suite that checks the contract on a live cluster
  (\<^verbatim>\<open>api/common/validation/conformance.go\<close>). The client and the polling loop are parameters.
\<close>

section \<open>Types and releases of the API package\<close>

datatype ManagementState = Managed | Removed

fun management_string :: "ManagementState \<Rightarrow> string" where
  "management_string Managed = ''Managed''"
| "management_string Removed = ''Removed''"

definition common_ConditionTypes :: "string list" where
  "common_ConditionTypes = [''Ready'', ''ProvisioningSucceeded'', ''Degraded'']"

definition common_Phases :: "string list" where
  "common_Phases = [''Ready'', ''Not Ready'']"

text \<open>The loops run over indices: the result of the first is a pointer into the list, here its index.\<close>

fun release_index :: "ComponentReleaseStatus \<Rightarrow> nat \<Rightarrow> string \<Rightarrow> nat option" where
  "release_index [] i name = None"
| "release_index (r # rs) i name = (if crName r = name then Some i else release_index rs (i + 1) name)"

definition common_GetRelease :: "ComponentReleaseStatus \<Rightarrow> string \<Rightarrow> nat option" where
  "common_GetRelease s name = release_index s 0 name"

definition common_SetRelease :: "ComponentReleaseStatus \<Rightarrow> ComponentRelease \<Rightarrow> ComponentReleaseStatus" where
  "common_SetRelease s r = (case release_index s 0 (crName r) of Some i \<Rightarrow> s[i := r] | None \<Rightarrow> s @ [r])"

definition common_GetPlatformRelease :: "ComponentReleaseStatus \<Rightarrow> string" where
  "common_GetPlatformRelease s = (case common_GetRelease s ReleasePlatform of None \<Rightarrow> '''' | Some i \<Rightarrow> crVersion (s ! i))"

definition common_SetPlatformRelease :: "ComponentReleaseStatus \<Rightarrow> string \<Rightarrow> ComponentReleaseStatus" where
  "common_SetPlatformRelease s version = common_SetRelease s \<lparr>crName = ReleasePlatform, crVersion = version, crRepoURL = ''''\<rparr>"

lemma release_index_shift: "release_index s (i + n) name = map_option (\<lambda>k. k + n) (release_index s i name)"
proof (induction s arbitrary: i)
  case (Cons r s)
  from Cons [of "i + 1"] show ?case
    by simp
qed simp

lemma release_index_found:
  "case release_index s 0 name of
     Some i \<Rightarrow> i < length s \<and> GetRelease s name = Some (s ! i) \<and> (\<forall>r. crName r = name \<longrightarrow> SetRelease s r = s[i := r])
   | None \<Rightarrow> GetRelease s name = None \<and> (\<forall>r. crName r = name \<longrightarrow> SetRelease s r = s @ [r])"
proof (induction s)
  case (Cons x xs)
  then show ?case
    using release_index_shift [of xs 0 1 name] by (cases "release_index xs 0 name") auto
qed simp

text \<open>The two modules keep releases alike.\<close>

lemma releases_agree:
  "map_option (\<lambda>i. s ! i) (common_GetRelease s name) = GetRelease s name"
  "common_SetRelease s r = SetRelease s r"
  "common_GetPlatformRelease s = GetPlatformRelease s"
  "common_SetPlatformRelease s v = SetPlatformRelease s v"
proof -
  show get: "map_option (\<lambda>i. s ! i) (common_GetRelease s name) = GetRelease s name" for name
    using release_index_found [of s name] by (auto simp: common_GetRelease_def split: option.splits)
  show set: "common_SetRelease s r = SetRelease s r" for r
    using release_index_found [of s "crName r"] by (auto simp: common_SetRelease_def split: option.splits)
  show "common_GetPlatformRelease s = GetPlatformRelease s"
    unfolding common_GetPlatformRelease_def GetPlatformRelease_def get [symmetric] by (simp split: option.split)
  show "common_SetPlatformRelease s v = SetPlatformRelease s v"
    by (simp add: common_SetPlatformRelease_def SetPlatformRelease_def set)
qed

section \<open>The conformance suite\<close>

text \<open>
  What the suite reads of the object: generation, observed generation and releases where they can be read, and the conditions. \<open>cfPoll\<close> repeats
  a check until it succeeds or the time is over, and says whether it succeeded; \<open>cfRejected\<close> classifies an error as forbidden, invalid
  or bad request.
\<close>

record cr_view =
  cvGeneration :: int
  cvObservedGeneration :: "int option"
  cvConditions :: "(string \<times> string) option list option"
  cvReleases :: "nat option"

record 'w suite_lib =
  cfGet :: "'w \<Rightarrow> gvk \<Rightarrow> string \<Rightarrow> 'w \<times> (go_error + cr_view)"
  cfCreate :: "'w \<Rightarrow> gvk \<Rightarrow> string \<Rightarrow> 'w \<times> go_error option"
  cfDelete :: "'w \<Rightarrow> gvk \<Rightarrow> string \<Rightarrow> 'w"
  cfPoll :: "int \<Rightarrow> int \<Rightarrow> ('w \<Rightarrow> 'w \<times> bool) \<Rightarrow> 'w \<Rightarrow> 'w \<times> bool"
  cfRejected :: "go_error \<Rightarrow> bool"

record suite_options = contract_options +
  suGVK :: gvk
  suInstanceName :: string
  suSkipReleases :: bool

definition poll_cr :: "'w suite_lib \<Rightarrow> suite_options \<Rightarrow> (cr_view \<Rightarrow> bool) \<Rightarrow> 'w \<Rightarrow> 'w \<times> bool" where
  "poll_cr cf opts ok w =
     cfPoll cf (co_pollInterval (contract_options.truncate opts)) (co_timeout (contract_options.truncate opts))
       (\<lambda>w. case cfGet cf w (suGVK opts) (suInstanceName opts) of
              (w1, Inl getErr) \<Rightarrow> (w1, False)
            | (w1, Inr obj) \<Rightarrow> (w1, ok obj)) w"

definition observed_current :: "cr_view \<Rightarrow> bool" where
  "observed_current obj = (case cvObservedGeneration obj of None \<Rightarrow> False | Some n \<Rightarrow> n = cvGeneration obj)"

definition checkObservedGeneration :: "'w suite_lib \<Rightarrow> suite_options \<Rightarrow> 'w \<Rightarrow> 'w \<times> bool" where
  "checkObservedGeneration cf opts = poll_cr cf opts observed_current"

definition checkReadyCondition :: "'w suite_lib \<Rightarrow> suite_options \<Rightarrow> 'w \<Rightarrow> 'w \<times> bool" where
  "checkReadyCondition cf opts = poll_cr cf opts (\<lambda>obj. hasConditionWithStatus (cvConditions obj) ''Ready'' ''True'')"

definition checkConditionExists :: "'w suite_lib \<Rightarrow> suite_options \<Rightarrow> string \<Rightarrow> 'w \<Rightarrow> 'w \<times> bool" where
  "checkConditionExists cf opts condType = poll_cr cf opts (\<lambda>obj. hasCondition (cvConditions obj) condType)"

definition checkSingletonEnforcement :: "'w suite_lib \<Rightarrow> suite_options \<Rightarrow> 'w \<Rightarrow> 'w \<times> bool" where
  "checkSingletonEnforcement cf opts w =
     (let name = suInstanceName opts @ ''-duplicate''
      in case cfCreate cf w (suGVK opts) name of
           (w1, None) \<Rightarrow> (cfDelete cf w1 (suGVK opts) name, False)
         | (w1, Some err) \<Rightarrow> (w1, cfRejected cf err))"

definition checkReleasesPopulated :: "'w suite_lib \<Rightarrow> suite_options \<Rightarrow> 'w \<Rightarrow> 'w \<times> bool" where
  "checkReleasesPopulated cf opts =
     poll_cr cf opts (\<lambda>obj. case cvReleases obj of None \<Rightarrow> False | Some n \<Rightarrow> n > 0)"

text \<open>The subtests; they run in parallel, so in any order.\<close>

definition ValidatePlatformContract :: "'w suite_lib \<Rightarrow> suite_options \<Rightarrow> (string \<times> ('w \<Rightarrow> 'w \<times> bool)) list" where
  "ValidatePlatformContract cf opts =
     [(''ObservedGeneration matches generation'', checkObservedGeneration cf opts),
      (''Ready condition is present and True'', checkReadyCondition cf opts),
      (''ProvisioningSucceeded condition is present'', checkConditionExists cf opts ''ProvisioningSucceeded''),
      (''Singleton enforcement rejects duplicate'', checkSingletonEnforcement cf opts)] @
     (if \<not> suSkipReleases opts then [(''Releases are populated'', checkReleasesPopulated cf opts)] else [])"

text \<open>Polling succeeds only on a check that succeeded.\<close>

definition poll_law :: "'w suite_lib \<Rightarrow> bool" where
  "poll_law cf \<longleftrightarrow> (\<forall>i t f w. snd (cfPoll cf i t f w) \<longrightarrow> (\<exists>v. snd (f v)))"

lemma poll_cr_seen:
  assumes "poll_law cf" "snd (poll_cr cf opts ok w)"
  shows "\<exists>v obj. snd (cfGet cf v (suGVK opts) (suInstanceName opts)) = Inr obj \<and> ok obj"
proof -
  from assms obtain v where "snd (case cfGet cf v (suGVK opts) (suInstanceName opts) of (w1, Inl getErr) \<Rightarrow> (w1, False) | (w1, Inr obj) \<Rightarrow> (w1, ok obj))"
    unfolding poll_law_def poll_cr_def by blast
  then show ?thesis
    by (intro exI [of _ v]) (auto split: prod.splits sum.splits)
qed

text \<open>A passed subtest is evidence: the object was seen ready, with an observed generation and releases, and a duplicate was refused by the cluster and not left behind.\<close>

lemma suite_evidence:
  assumes "poll_law cf"
  shows "snd (checkReadyCondition cf opts w) \<Longrightarrow>
      \<exists>v obj. snd (cfGet cf v (suGVK opts) (suInstanceName opts)) = Inr obj \<and> hasConditionWithStatus (cvConditions obj) ''Ready'' ''True''"
    and "snd (checkObservedGeneration cf opts w) \<Longrightarrow>
      \<exists>v obj. snd (cfGet cf v (suGVK opts) (suInstanceName opts)) = Inr obj \<and> cvObservedGeneration obj = Some (cvGeneration obj)"
    and "snd (checkReleasesPopulated cf opts w) \<Longrightarrow>
      \<exists>v obj n. snd (cfGet cf v (suGVK opts) (suInstanceName opts)) = Inr obj \<and> cvReleases obj = Some (Suc n)"
    and "snd (checkSingletonEnforcement cf opts w) \<Longrightarrow>
      \<exists>err. snd (cfCreate cf w (suGVK opts) (suInstanceName opts @ ''-duplicate'')) = Some err \<and> cfRejected cf err"
proof -
  note seen = poll_cr_seen [OF assms]
  show "snd (checkReadyCondition cf opts w) \<Longrightarrow>
      \<exists>v obj. snd (cfGet cf v (suGVK opts) (suInstanceName opts)) = Inr obj \<and> hasConditionWithStatus (cvConditions obj) ''Ready'' ''True''"
    unfolding checkReadyCondition_def by (rule seen)
  show "snd (checkObservedGeneration cf opts w) \<Longrightarrow>
      \<exists>v obj. snd (cfGet cf v (suGVK opts) (suInstanceName opts)) = Inr obj \<and> cvObservedGeneration obj = Some (cvGeneration obj)"
    unfolding checkObservedGeneration_def by (drule seen) (auto simp: observed_current_def split: option.splits)
  show "snd (checkReleasesPopulated cf opts w) \<Longrightarrow>
      \<exists>v obj n. snd (cfGet cf v (suGVK opts) (suInstanceName opts)) = Inr obj \<and> cvReleases obj = Some (Suc n)"
    unfolding checkReleasesPopulated_def by (drule seen) (fastforce simp: gr0_conv_Suc split: option.splits)
  show "snd (checkSingletonEnforcement cf opts w) \<Longrightarrow>
      \<exists>err. snd (cfCreate cf w (suGVK opts) (suInstanceName opts @ ''-duplicate'')) = Some err \<and> cfRejected cf err"
    by (auto simp: checkSingletonEnforcement_def Let_def split: prod.splits option.splits)
qed

end
