(* ===== verification/Spec2Isabelle.thy ===== *)
theory Spec2Isabelle
  imports PkgManager Builder Deploy_Correct GC_Correct PkgDeploy_Correct Budget_Correct
    TLS_Correct Precondition_Correct DynamicOwnership RenderCache StatusUpdate StatusActions
    KustomizeParams Predicates Webhook Contract Ingress CheckActions Cluster
    Template Kustomize RenderFS HelmRender
    Sources FlakyStore FlakyTool Singleton Metrics TypedClient GVKTable Conformance
begin

text \<open>
  Verification of the ODH platform utilities, a Go library for operators of the Open Data Hub.

  \<^bold>\<open>The program and its parts.\<close>  The repository holds two Go modules for operators and a tool. The framework
  module (\<^verbatim>\<open>framework/\<close>) drives a reconciliation: \<^verbatim>\<open>Reconcile\<close> loads the instance, runs the actions of a
  pipeline on a \<^verbatim>\<open>ReconciliationRequest\<close> (rendering fills in its resources, the deploy action applies
  them in apply order and stamps them, garbage collection deletes what carries an old stamp), lets a
  condition manager derive the ready condition from its dependents, and writes the status back. The root
  module (\<^verbatim>\<open>pkg/\<close>) has a second implementation of conditions, deployment and collection that takes its
  inputs as parameters of each call. The tool (\<^verbatim>\<open>flakiness/\<close>) scrapes JUnit results into a time-series
  database, classifies tests, maintains a quarantine list with tickets and compares runtimes with
  timeouts.

  \<^bold>\<open>Theories and sources.\<close>
  \<^item> \<open>Prelude\<close>: keyed slices, stable sorting by a Go comparison function (locale \<open>key_comparison\<close>,
    interpreted on every comparison function of the program), the result type \<open>run\<close> of code that may
    panic. \<open>GoErrors\<close>: error values, wrapping, joining, \<^verbatim>\<open>errors.As\<close> and the stop and requeue markers of
    \<^verbatim>\<open>framework/controller/actions/errors\<close>.
  \<^item> \<open>Condition_Store\<close>, \<open>Aggregator\<close>, \<open>FwManager\<close>: \<^verbatim>\<open>framework/controller/conditions\<close>; \<open>PkgManager\<close>:
    \<^verbatim>\<open>pkg/controller/conditions\<close>. The state of a manager is a record with the list of conditions of the
    object behind its accessor. Both stores satisfy the locale \<open>condition_store\<close>.
  \<^item> \<open>KObject\<close>, \<open>ApplyOrder\<close>: \<^verbatim>\<open>framework/resources\<close>; \<open>Request\<close>: \<^verbatim>\<open>framework/controller/types\<close>;
    \<open>Reconciler\<close>, \<open>Builder\<close>: \<^verbatim>\<open>framework/controller/reconciler\<close>.
  \<^item> \<open>MergeDeployments\<close>, \<open>Deploy\<close>, \<open>Deploy_Correct\<close>: \<^verbatim>\<open>framework/controller/actions/deploy\<close>.
  \<^item> \<open>Rules\<close>, \<open>GC\<close>, \<open>GC_Correct\<close>: \<^verbatim>\<open>framework/rules\<close> and \<^verbatim>\<open>framework/controller/actions/gc\<close>.
  \<^item> \<open>PkgResources\<close>, \<open>PkgGC\<close>, \<open>PkgDeploy\<close>, \<open>PkgDeploy_Correct\<close>: \<^verbatim>\<open>pkg/resources\<close>,
    \<^verbatim>\<open>pkg/controller/gc\<close> and \<^verbatim>\<open>pkg/deploy\<close>.
  \<^item> \<open>Flaky\<close>, \<open>FlakyRun\<close>, \<open>FlakyConfig\<close>, \<open>Budget\<close>, \<open>Quarantine\<close>, \<open>Flaky_Correct\<close>,
    \<open>Budget_Correct\<close>: \<^verbatim>\<open>flakiness/\<close>; \<open>FlakyStore\<close>: its storage; \<open>Jira\<close>: \<^verbatim>\<open>flakiness/jira\<close>, which provides the two operations
    that \<open>Quarantine\<close> calls; \<open>PushBack\<close>, \<open>FlakyTool\<close>: the command \<^verbatim>\<open>flakiness/cmd/flakiness-tool\<close>, which composes all of them.
  \<^item> \<open>TLS\<close>, \<open>TLS_Correct\<close>: \<^verbatim>\<open>framework/tls\<close>; \<open>Webhook\<close>: \<^verbatim>\<open>framework/webhook\<close>; \<open>Ingress\<close>:
    \<^verbatim>\<open>framework/utils/ingressassignment\<close>; \<open>KustomizeParams\<close>: \<^verbatim>\<open>framework/render/kustomize/params\<close>.
  \<^item> \<open>DynamicOwnership\<close>, \<open>StatusActions\<close>, \<open>CheckActions\<close>, \<open>RenderCache\<close>: the other actions of
    \<^verbatim>\<open>framework/controller/actions\<close> and the caches of rendered resources in both modules (locale \<open>keyed_cache\<close>,
    interpreted on each); \<open>Predicates\<close>: the event filters of both modules.
  \<^item> \<open>ErrorLoops\<close>, \<open>Template\<close>, \<open>Kustomize\<close>, \<open>RenderFS\<close>, \<open>HelmRender\<close>: the renderers of both modules
    (\<^verbatim>\<open>framework/controller/actions/render\<close>, \<^verbatim>\<open>framework/render\<close>, \<^verbatim>\<open>pkg/render\<close>) with their options,
    engines and file systems. The label and annotation maps that Kustomize options write into live in an explicit store.
  \<^item> \<open>Sources\<close>, \<open>TypedClient\<close>, \<open>GVKTable\<close>: \<^verbatim>\<open>framework/resources/source.go\<close>, \<^verbatim>\<open>framework/client\<close> with
    \<^verbatim>\<open>framework/manager\<close> and \<^verbatim>\<open>pkg/cache\<close>, and \<^verbatim>\<open>framework/cluster/gvk\<close>; \<open>Singleton\<close>: \<^verbatim>\<open>pkg/webhook\<close>; \<open>Metrics\<close>: \<^verbatim>\<open>pkg/metrics\<close>;
    \<open>Conformance\<close>: the suite of \<^verbatim>\<open>api/common/validation\<close>.
  \<^item> \<open>Precondition\<close>, \<open>Precondition_Correct\<close>, \<open>StatusUpdate\<close>, \<open>ClusterMeta\<close>, \<open>Cluster\<close>: \<^verbatim>\<open>pkg/controller/precondition\<close>,
    \<^verbatim>\<open>pkg/status\<close> and \<^verbatim>\<open>pkg/cluster\<close> with its event handlers; \<open>Contract\<close>: \<^verbatim>\<open>api/common\<close> (locale
    \<open>platform_contract\<close>, interpreted on the object of the API package).

  \<^bold>\<open>Conventions.\<close>  Definitions keep the Go names; \<open>pkg_\<close> marks the root module's version of a function
  that both modules have. A Go string is a \<open>string\<close>, a nil pointer \<open>None\<close>; a Go map is a partial function
  where it is only read by key and an association list, in an arbitrary order, where it is iterated. An
  operation that may fail returns a sum with the error on the left; one that may panic returns a
  \<open>run\<close> or an option. Code outside the repository (the API client, discovery, the scheme, the nested-field
  helpers of apimachinery, the TTL store, YAML, regular expressions, storage, Jira) is a parameter,
  mostly a record of functions on a state of any type that stands for the outside world; theorems that
  rely on documented behaviour of such code name it as a hypothesis, and the witness of the theorem
  instantiates it with concrete functions. A float64 that is read from a file or the environment is a \<open>gofloat\<close>, which
  may be infinite or NaN; one that is computed is a rational number, each operation being
  the exact one followed by the parameter \<open>rnd\<close>; where rounding matters, theorems assume that it is
  monotone and exact on integers up to \<open>2 ^ 53\<close>. What a closure of the code remembers between its calls (the kinds that are watched) is
  passed along or kept in a cell of the world. Loops of the program run over finite data or a fixed number
  of attempts, so all definitions are total and no fuel is needed. Letter case and white space are those of ASCII text.

  \<^bold>\<open>What the theorems show.\<close>
  \<^item> Conditions: a write followed by a read, transition times, agreement of the two stores; the aggregated
    condition is determined by the considered conditions and independent of every iteration order; after
    any sequence of calls, direct writes of the target included, it is known when a manager is happy; stale conditions are cleaned up.
  \<^item> Reconciliation: a finalizer is removed only after the finalizer actions ran, in order, up to their end or a stop marker; the written status
    agrees with the outcome of the actions; result and requeue interval of every outcome; what a built
    reconciler contains; a dynamic kind is watched at most once; a renamed provisioning condition leaves the object never ready.
  \<^item> Deployment: an object annotated as unmanaged is never written; a second deployment is a no-op; the
    run reports the first error; the apply order is a stable permutation; live container resources win.
    The deployer of the root module does for a resource what the action does.
  \<^item> Collection: only stale, owned, managed objects are deleted; the annotations that deployment writes
    are read back exactly; every RBAC kind is scanned through one API view. The collector of the
    root module refines the action.
  \<^item> Flakiness: patterns mean what the history says, the quarantine list is exact, tickets are reconciled,
    retries end with the first success, percentiles are ordered and recommendations follow the thresholds;
    a run panics only on an exclude pattern that does not compile, and a configuration that loads has none. A ticket in the quarantine file survives every run while its test is quarantined; a store leaves no temporary file
    and a push-back none that it can remove; artifacts are read completely or not at all.
  \<^item> Events: writes to a status do not wake the controller that made them; a resource stamped with its owner leads
    back to it; any sequence of metadata options keeps one reference per owner and one controller at most.
  \<^item> Cluster: TLS profiles are loaded fail-closed and below no floor; an operator counts as absent exactly on evidence; waiting for
    a definition decides within five attempts; every precondition is run and reported in one condition per type.
  \<^item> Actions and tools: status actions report health exactly; every dynamic watch starts once however runs interleave;
    caching is transparent; parameter files survive a round trip and Apply refines the mappers for values that a line can hold; a built webhook serves its
    own kind only; what passes the contract validator keeps the contract; an ingress is resolved uniquely and without
    fallback; status updates end after a bounded number of attempts.
  \<^item> Rendering: objects come from the templates of the request and labels win by precedence; the order of template files
    only permutes the result; renderings with one Kustomize engine do not affect each other; the engines and Helm actions
    of the two modules agree, and so do the template renderers on templates that mean the same under both function maps; a union file system reads overrides before its base.

  \<^item> Reads and rules: typed and unstructured reads share one cache and a typed list holds every item converted; manifests are loaded completely or not at all, from clean paths
    and HTTPS addresses only; the singleton rule allows a creation exactly when the reader counts no object of the kind; gauges replace exactly the
    series of their module.

  \<^bold>\<open>Not modelled.\<close>  The declaration of action counters, the writes of the client that delegate unchanged, the accessors that hand out
  the database's own appenders and queriers, YAML and base64 helpers, raw sources and event filters that the builder passes through,
  generated copies, test utilities and examples: they are calls of third-party libraries or have no behaviour of their own.
  Logging and events are left out except where the text of an event is computed from an error. An iterator over the objects of a
  bucket is modelled by the names that it yields before it ends, so one that never ends is excluded.
\<close>

end
